(* ===== verification/Prelude.thy ===== *)
theory Prelude
  imports Complex_Main "HOL-Library.AList" "HOL-Library.Multiset" "HOL-Library.Word"
begin

text \<open>
  Shared vocabulary of the development: the Go values every component uses and the generic
  lemmas about them.

  \<^item> A Go string is a byte sequence: \<open>string\<close>, one \<open>char\<close> per byte.
  \<^item> A Go map is an association list with distinct keys (\<open>gomap\<close>), read and written by
    \<open>mget\<close>, \<open>mput\<close> and \<open>mdel\<close>; the interface is the locale \<open>key_value\<close>. A \<open>range\<close>
    over a map visits the entries in an unspecified order: operations that range over a map
    take the order as an argument, and \<open>is_order\<close> says what the language promises of it.
    A nil map and an empty map, and a nil slice and an empty slice, are one value.
  \<^item> \<open>time.Time\<close> is an \<open>int\<close>: nanoseconds since Go's zero instant, so \<open>IsZero\<close> is \<open>t = 0\<close>.
    A reading of \<open>time.Now()\<close> is an argument of the operation that takes it.
  \<^item> Library code whose tables or algorithms are outside the repository (Unicode case mapping
    of non-ASCII text, the regular-expression engine, SHA-256) is a field of the \<open>runtime\<close>
    record, an argument of the definitions that call it.
  \<^item> An \<open>error\<close> is a \<open>gerror\<close>, and a fallible operation returns \<open>gerror + 'a\<close>.
\<close>

unbundle bit_operations_syntax

named_theorems string_simps \<open>evaluation of the string operations\<close>
named_theorems map_simps \<open>lookup after update and delete\<close>

section \<open>Go maps\<close>

type_synonym ('k, 'v) gomap = "('k \<times> 'v) list"
type_synonym 'v iter = "(string, 'v) gomap \<Rightarrow> (string, 'v) gomap"

definition mget :: "('k, 'v) gomap \<Rightarrow> 'k \<Rightarrow> 'v option" where
  "mget m k = map_of m k"

definition mput :: "'k \<Rightarrow> 'v \<Rightarrow> ('k, 'v) gomap \<Rightarrow> ('k, 'v) gomap" where
  "mput k v m = AList.update k v m"

definition mdel :: "'k \<Rightarrow> ('k, 'v) gomap \<Rightarrow> ('k, 'v) gomap" where
  "mdel k m = AList.delete k m"

text \<open>\<open>for k, v := range m { if p(v) { delete(m, k) } }\<close>\<close>

definition mdel_where :: "('v \<Rightarrow> bool) \<Rightarrow> ('k, 'v) gomap \<Rightarrow> ('k, 'v) gomap" where
  "mdel_where p m = filter (\<lambda>(k, v). \<not> p v) m"

text \<open>\<open>for k, v := range m { m[k] = f(v) }\<close>\<close>

definition mmap :: "('v \<Rightarrow> 'v) \<Rightarrow> ('k, 'v) gomap \<Rightarrow> ('k, 'v) gomap" where
  "mmap f m = map (\<lambda>(k, v). (k, f v)) m"

definition wf_map :: "('k, 'v) gomap \<Rightarrow> bool" where
  "wf_map m \<longleftrightarrow> distinct (map fst m)"

definition is_order :: "'v iter \<Rightarrow> bool" where
  "is_order ord \<longleftrightarrow> (\<forall>m. mset (ord m) = mset m)"

text \<open>\<open>seen := ...; for _, x := range xs { if !seen[key(x)] { seen[key(x)] = true; ... } }\<close>\<close>

fun dedup_by :: "('a \<Rightarrow> string) \<Rightarrow> string list \<Rightarrow> 'a list \<Rightarrow> 'a list" where
  "dedup_by key seen [] = []"
| "dedup_by key seen (x # xs) =
     (if key x \<in> set seen then dedup_by key seen xs
      else x # dedup_by key (key x # seen) xs)"

locale key_value =
  fixes get :: "'m \<Rightarrow> 'k \<Rightarrow> 'v option"
    and put :: "'k \<Rightarrow> 'v \<Rightarrow> 'm \<Rightarrow> 'm"
    and del :: "'k \<Rightarrow> 'm \<Rightarrow> 'm"
    and ok :: "'m \<Rightarrow> bool"
  assumes get_put: "get (put k v m) j = (if j = k then Some v else get m j)"
    and get_del: "get (del k m) j = (if j = k then None else get m j)"
    and ok_put: "ok m \<Longrightarrow> ok (put k v m)"
    and ok_del: "ok m \<Longrightarrow> ok (del k m)"
begin

lemma get_put_same [simp]: "get (put k v m) k = Some v"
  by (simp add: get_put)

lemma get_put_twice: "get (put a v (put b v m)) j = (if j = a \<or> j = b then Some v else get m j)"
  by (simp add: get_put)

lemma put_keeps: "get m j = Some w \<Longrightarrow> j \<noteq> k \<Longrightarrow> get (put k v m) j = Some w"
  by (simp add: get_put)

lemma put_all:
  assumes "\<And>j w. get m j = Some w \<Longrightarrow> P j w" and "P k v"
    and "get (put k v m) j = Some w"
  shows "P j w"
  using assms by (auto simp: get_put split: if_splits)

lemma del_all:
  assumes "\<And>j w. get m j = Some w \<Longrightarrow> P j w" and "get (del k m) j = Some w"
  shows "P j w"
  using assms by (auto simp: get_del split: if_splits)

end

interpretation gomap: key_value mget mput mdel wf_map
  by unfold_locales
    (auto simp: mget_def mput_def mdel_def wf_map_def update_conv' delete_conv'
      distinct_update distinct_delete)

lemmas map_rules [map_simps] = gomap.get_put gomap.get_del

lemma mget_Nil [simp]: "mget [] k = None"
  by (simp add: mget_def)

lemma mget_mdel_where [map_simps]:
  "wf_map m \<Longrightarrow> mget (mdel_where p m) k = (case mget m k of None \<Rightarrow> None | Some v \<Rightarrow> if p v then None else Some v)"
  unfolding mget_def mdel_where_def wf_map_def
  by (induction m) (auto split: option.splits simp: map_of_eq_None_iff dest: map_of_SomeD)

lemma mget_mmap [map_simps]: "mget (mmap f m) k = map_option f (mget m k)"
  unfolding mget_def mmap_def by (induction m) auto

lemma wf_map_mdel_where [simp]: "wf_map m \<Longrightarrow> wf_map (mdel_where p m)"
  unfolding wf_map_def mdel_where_def by (rule distinct_map_filter)

lemma wf_map_mmap [simp]: "wf_map (mmap f m) = wf_map m"
proof -
  have "map fst (mmap f m) = map fst m"
    unfolding mmap_def by (induction m) auto
  then show ?thesis by (simp add: wf_map_def)
qed

lemma wf_map_Nil [simp]: "wf_map []"
  by (simp add: wf_map_def)

lemma mget_in_set: "mget m k = Some v \<Longrightarrow> (k, v) \<in> set m"
  by (simp add: mget_def map_of_SomeD)

lemma mget_iff_set: "wf_map m \<Longrightarrow> mget m k = Some v \<longleftrightarrow> (k, v) \<in> set m"
  by (simp add: mget_def wf_map_def)

lemma set_mput: "set (mput k v m) \<subseteq> insert (k, v) (set m)"
  unfolding mput_def by (induction m) auto

lemma set_mdel: "set (mdel k m) \<subseteq> set m"
  by (induction m) (auto simp: mdel_def)

lemma is_order_set: "is_order ord \<Longrightarrow> set (ord m) = set m"
  by (metis is_order_def mset_eq_setD)

lemma is_order_id [simp]: "is_order id" "is_order (\<lambda>m. m)"
  by (simp_all add: is_order_def)

lemma is_order_rev [simp]: "is_order rev"
  by (simp add: is_order_def)

lemma dedup_by_set: "set (dedup_by key seen xs) \<subseteq> {x \<in> set xs. key x \<notin> set seen}"
  by (induction key seen xs rule: dedup_by.induct) (auto split: if_splits)

lemma dedup_by_keys: "key ` set (dedup_by key seen xs) = key ` set xs - set seen"
  by (induction key seen xs rule: dedup_by.induct) (auto split: if_splits)

lemma dedup_by_distinct: "distinct (map key (dedup_by key seen xs))"
proof (induction key seen xs rule: dedup_by.induct)
  case (2 key seen x xs)
  then show ?case using dedup_by_set [of key "key x # seen" xs] by auto
qed simp

section \<open>Go strings\<close>

definition byte_of :: "char \<Rightarrow> nat" where
  "byte_of c = of_char c"

definition isASCII :: "string \<Rightarrow> bool" where
  "isASCII s = list_all (\<lambda>c. byte_of c < 128) s"

definition isSpace :: "char \<Rightarrow> bool" where
  "isSpace c = (c = CHR '' '' \<or> (9 \<le> byte_of c \<and> byte_of c \<le> 13))"

definition lower_char :: "char \<Rightarrow> char" where
  "lower_char c = (if 65 \<le> byte_of c \<and> byte_of c \<le> 90 then char_of (byte_of c + 32) else c)"

definition upper_char :: "char \<Rightarrow> char" where
  "upper_char c = (if 97 \<le> byte_of c \<and> byte_of c \<le> 122 then char_of (byte_of c - 32) else c)"

definition trim_while :: "(char \<Rightarrow> bool) \<Rightarrow> string \<Rightarrow> string" where
  "trim_while p s = rev (dropWhile p (rev (dropWhile p s)))"

record runtime =
  rt_lower :: "string \<Rightarrow> string"
  rt_upper :: "string \<Rightarrow> string"
  rt_trim :: "string \<Rightarrow> string"
  rt_fold :: "string \<Rightarrow> string \<Rightarrow> bool"
  rt_regexp :: "string \<Rightarrow> (string \<Rightarrow> bool) option"
  rt_quote :: "string \<Rightarrow> string"
  rt_sha256 :: "string \<Rightarrow> string"

text \<open>
  \<open>strings.ToLower\<close>, \<open>ToUpper\<close>, \<open>TrimSpace\<close> and \<open>EqualFold\<close>: the ASCII case is written out,
  text with a byte from 128 on goes to the runtime's Unicode tables.
\<close>

definition ToLower :: "runtime \<Rightarrow> string \<Rightarrow> string" where
  "ToLower rt s = (if isASCII s then map lower_char s else rt_lower rt s)"

definition ToUpper :: "runtime \<Rightarrow> string \<Rightarrow> string" where
  "ToUpper rt s = (if isASCII s then map upper_char s else rt_upper rt s)"

definition TrimSpace :: "runtime \<Rightarrow> string \<Rightarrow> string" where
  "TrimSpace rt s = (if isASCII s then trim_while isSpace s else rt_trim rt s)"

definition EqualFold :: "runtime \<Rightarrow> string \<Rightarrow> string \<Rightarrow> bool" where
  "EqualFold rt s t =
     (if isASCII s \<and> isASCII t then map lower_char s = map lower_char t else rt_fold rt s t)"

definition HasPrefix :: "string \<Rightarrow> string \<Rightarrow> bool" where
  "HasPrefix s p = (take (length p) s = p)"

definition HasSuffix :: "string \<Rightarrow> string \<Rightarrow> bool" where
  "HasSuffix s p = (length p \<le> length s \<and> drop (length s - length p) s = p)"

fun Contains :: "string \<Rightarrow> string \<Rightarrow> bool" where
  "Contains [] p = (p = [])"
| "Contains (c # cs) p = (HasPrefix (c # cs) p \<or> Contains cs p)"

definition TrimPrefix :: "string \<Rightarrow> string \<Rightarrow> string" where
  "TrimPrefix s p = (if HasPrefix s p then drop (length p) s else s)"

fun Split :: "string \<Rightarrow> char \<Rightarrow> string list" where
  "Split [] sep = [[]]"
| "Split (c # cs) sep =
     (if c = sep then [] # Split cs sep
      else (case Split cs sep of [] \<Rightarrow> [[c]] | p # ps \<Rightarrow> (c # p) # ps))"

definition quoted :: "string \<Rightarrow> string" where
  "quoted s = CHR 0x27 # s @ [CHR 0x27]"

lemmas string_defs [string_simps] =
  ToLower_def ToUpper_def TrimSpace_def EqualFold_def HasPrefix_def HasSuffix_def TrimPrefix_def
  isASCII_def isSpace_def lower_char_def upper_char_def trim_while_def byte_of_def quoted_def

lemma Contains_iff: "Contains s p \<longleftrightarrow> (\<exists>a b. s = a @ p @ b)"
proof (induction s)
  case (Cons c cs)
  have "HasPrefix (c # cs) p \<longleftrightarrow> (\<exists>b. c # cs = p @ b)"
    unfolding HasPrefix_def by (metis append_eq_conv_conj append_take_drop_id)
  moreover have "(\<exists>a b. c # cs = a @ p @ b) \<longleftrightarrow>
      (\<exists>b. c # cs = p @ b) \<or> (\<exists>a b. cs = a @ p @ b)"
    by (metis Cons_eq_append_conv append_Cons append_Nil)
  ultimately show ?case using Cons.IH by simp
qed auto

lemma HasPrefix_iff: "HasPrefix s p \<longleftrightarrow> (\<exists>b. s = p @ b)"
  unfolding HasPrefix_def by (metis append_eq_conv_conj append_take_drop_id)

lemma HasSuffix_iff: "HasSuffix s p \<longleftrightarrow> (\<exists>a. s = a @ p)"
proof
  assume "HasSuffix s p"
  then show "\<exists>a. s = a @ p"
    unfolding HasSuffix_def by (metis append_take_drop_id)
qed (auto simp: HasSuffix_def)

lemma Split_nonempty: "Split s c \<noteq> []"
  by (induction s c rule: Split.induct) (auto split: list.splits)

lemma Split_no_sep: "c \<notin> set s \<Longrightarrow> Split s c = [s]"
  by (induction s c rule: Split.induct) auto

lemma trim_while_idem: "trim_while p (trim_while p s) = trim_while p s"
proof -
  have 1: "dropWhile p (rev (dropWhile p (rev xs))) = rev (dropWhile p (rev (dropWhile p xs)))" for xs
  proof -
    have "dropWhile p (rev (dropWhile p (rev xs))) = rev (dropWhile p (rev (dropWhile p xs)))"
    proof (induction xs rule: rev_induct)
      case (snoc x xs)
      then show ?case by (auto simp: dropWhile_append dest: set_dropWhileD)
    qed simp
    then show ?thesis .
  qed
  show ?thesis unfolding trim_while_def
    by (simp add: 1 dropWhile_idem)
qed

section \<open>Decimal and hexadecimal rendering\<close>

definition digit_char :: "nat \<Rightarrow> char" where
  "digit_char n = (if n < 10 then char_of (48 + n) else char_of (87 + n))"

function show_base :: "int \<Rightarrow> int \<Rightarrow> string" where
  "show_base b n = (if b \<le> 1 \<or> n < b then [digit_char (nat n)]
     else show_base b (n div b) @ [digit_char (nat (n mod b))])"
  by pat_completeness auto
termination
proof (relation "measure (\<lambda>(b, n). nat n)")
  fix b n :: int
  assume "\<not> (b \<le> 1 \<or> n < b)"
  then have "n div b < n" and "0 < n" by (auto intro: int_div_less_self)
  then show "((b, n div b), (b, n)) \<in> measure (\<lambda>(b, n). nat n)" by auto
qed simp

declare show_base.simps [simp del]

text \<open>\<open>strconv.Itoa\<close> and the verb \<open>%d\<close>; \<open>strconv.FormatUint(n, 16)\<close>.\<close>

definition Itoa :: "int \<Rightarrow> string" where
  "Itoa i = (if i < 0 then CHR ''-'' # show_base 10 (- i) else show_base 10 i)"

definition FormatHex :: "int \<Rightarrow> string" where
  "FormatHex n = show_base 16 n"

text \<open>The verb \<open>%0wd\<close> on a natural number.\<close>

definition pad0 :: "nat \<Rightarrow> int \<Rightarrow> string" where
  "pad0 w n = (let s = show_base 10 n in replicate (w - length s) (CHR ''0'') @ s)"

lemma digit_char_inj: "m < 10 \<Longrightarrow> n < 10 \<Longrightarrow> digit_char m = digit_char n \<Longrightarrow> m = n"
proof -
  assume "m < 10" "n < 10" "digit_char m = digit_char n"
  then have "(of_char (char_of (48 + m)) :: nat) = of_char (char_of (48 + n))"
    by (simp add: digit_char_def)
  with \<open>m < 10\<close> \<open>n < 10\<close> show "m = n" by simp
qed

lemma show_base_nonempty: "show_base b n \<noteq> []"
  by (subst show_base.simps) simp

lemma show_base_10:
  "show_base 10 n = (if n < 10 then [digit_char (nat n)]
     else show_base 10 (n div 10) @ [digit_char (nat (n mod 10))])"
  by (subst show_base.simps) simp

lemma show_base_inj:
  assumes "0 \<le> m" and "0 \<le> n" and "show_base 10 m = show_base 10 n"
  shows "m = n"
  using assms
proof (induction "nat m" arbitrary: m n rule: less_induct)
  case less
  note eq = less.prems(3) [unfolded show_base_10 [of m] show_base_10 [of n]]
  show ?case
  proof (cases "m < 10 \<or> n < 10")
    case True
    with eq show_base_nonempty [of 10 "m div 10"] show_base_nonempty [of 10 "n div 10"]
      show_base_nonempty [of 10 "n div 10", symmetric] have "m < 10" "n < 10"
      by (auto split: if_splits)
    moreover from this eq have "digit_char (nat m) = digit_char (nat n)" by simp
    ultimately have "nat m = nat n" by (intro digit_char_inj) auto
    with less.prems(1,2) show ?thesis by simp
  next
    case False
    with eq have "show_base 10 (m div 10) = show_base 10 (n div 10)"
      and d: "digit_char (nat (m mod 10)) = digit_char (nat (n mod 10))"
      by simp_all
    moreover have "nat (m div 10) < nat m" "0 \<le> m div 10" "0 \<le> n div 10" using False by auto
    ultimately have "m div 10 = n div 10" using less.hyps by blast
    moreover have "m mod 10 = n mod 10"
      using digit_char_inj [OF _ _ d] by (simp add: nat_less_iff eq_nat_nat_iff)
    ultimately show ?thesis by (metis div_mult_mod_eq)
  qed
qed

lemma show_base_no_minus:
  assumes "0 \<le> n"
  shows "CHR ''-'' \<notin> set (show_base 10 n)"
  using assms
proof (induction "nat n" arbitrary: n rule: less_induct)
  case less
  have d: "k < 10 \<Longrightarrow> digit_char k \<noteq> CHR ''-''" for k
  proof
    assume "k < 10" "digit_char k = CHR ''-''"
    then have "(of_char (char_of (48 + k)) :: nat) = of_char (CHR ''-'')"
      by (simp add: digit_char_def)
    with \<open>k < 10\<close> show False by simp
  qed
  show ?case
  proof (cases "n < 10")
    case True
    with less.prems have "nat n < 10" by simp
    with True d [of "nat n"] show ?thesis by (subst show_base_10) auto
  next
    case False
    then have "CHR ''-'' \<notin> set (show_base 10 (n div 10))" by (intro less.hyps) auto
    with False d [of "nat (n mod 10)"] show ?thesis
      by (subst show_base_10) (auto simp: nat_less_iff)
  qed
qed

lemma Itoa_inj: "Itoa i = Itoa j \<Longrightarrow> i = j"
proof -
  assume eq: "Itoa i = Itoa j"
  have hd: "show_base 10 k \<noteq> CHR ''-'' # xs" if "0 \<le> k" for k xs
    using show_base_no_minus [OF that] by auto
  show "i = j"
    using eq hd [of i] hd [of j] hd [of i, symmetric] hd [of j, symmetric]
      show_base_inj [of i j] show_base_inj [of "- i" "- j"]
    by (auto simp: Itoa_def split: if_splits)
qed

text \<open>The verb \<open>%q\<close> (\<open>strconv.Quote\<close>), the verb \<open>%v\<close> on a slice of strings, and \<open>strings.Join\<close>.\<close>

definition quote_char :: "char \<Rightarrow> string" where
  "quote_char c =
     (if c = CHR 0x22 \<or> c = CHR 0x5C then [CHR 0x5C, c]
      else case map_of [(7, CHR ''a''), (8, CHR ''b''), (9, CHR ''t''), (10, CHR ''n''), (11, CHR ''v''),
          (12, CHR ''f''), (13, CHR ''r'')] (byte_of c) of
          Some e \<Rightarrow> [CHR 0x5C, e]
        | None \<Rightarrow>
            if byte_of c < 32 \<or> byte_of c = 127
            then [CHR 0x5C, CHR ''x'', digit_char (byte_of c div 16), digit_char (byte_of c mod 16)]
            else [c])"

definition Quote :: "runtime \<Rightarrow> string \<Rightarrow> string" where
  "Quote rt s = (if isASCII s then [CHR 0x22] @ concat (map quote_char s) @ [CHR 0x22] else rt_quote rt s)"

fun Join :: "string list \<Rightarrow> string \<Rightarrow> string" where
  "Join [] sep = []"
| "Join [s] sep = s"
| "Join (s # t # ts) sep = s @ sep @ Join (t # ts) sep"

definition show_strings :: "string list \<Rightarrow> string" where
  "show_strings xs = ''['' @ Join xs '' '' @ '']''"

text \<open>Integer division of Go truncates towards zero; an index outside a slice panics (\<open>None\<close>).\<close>

definition tdiv :: "int \<Rightarrow> int \<Rightarrow> int" where
  "tdiv a b = sgn a * sgn b * (\<bar>a\<bar> div \<bar>b\<bar>)"

definition go_index :: "'a list \<Rightarrow> int \<Rightarrow> 'a option" where
  "go_index xs i = (if 0 \<le> i \<and> i < int (length xs) then Some (xs ! nat i) else None)"

section \<open>Time\<close>

type_synonym gtime = int
type_synonym duration = int

definition Second :: duration where
  "Second = 1000000000"

definition Minute :: duration where
  "Minute = 60 * Second"

definition Hour :: duration where
  "Hour = 60 * Minute"

text \<open>The value of an \<open>int64\<close> computation whose exact value is \<open>i\<close>.\<close>

definition int64 :: "int \<Rightarrow> int" where
  "int64 i = sint (word_of_int i :: 64 word)"

definition unix_epoch :: gtime where
  "unix_epoch = 62135596800 * Second"

definition IsZero :: "gtime \<Rightarrow> bool" where
  "IsZero t = (t = 0)"

definition UnixNano :: "gtime \<Rightarrow> int" where
  "UnixNano t = int64 (t - unix_epoch)"

definition Unix :: "gtime \<Rightarrow> int" where
  "Unix t = (t - unix_epoch) div Second"

definition maxDuration :: duration where
  "maxDuration = 2 ^ 63 - 1"

definition minDuration :: duration where
  "minDuration = - (2 ^ 63)"

text \<open>\<open>t.Sub(u)\<close> saturates at the ends of the \<open>int64\<close> range; \<open>time.Since(u)\<close> is \<open>now.Sub(u)\<close>.\<close>

definition time_sub :: "gtime \<Rightarrow> gtime \<Rightarrow> duration" where
  "time_sub t u = max minDuration (min maxDuration (t - u))"

lemma time_sub_mono: "t \<le> t' \<Longrightarrow> time_sub t u \<le> time_sub t' u"
  by (auto simp: time_sub_def)

lemma time_sub_exact: "\<bar>t - u\<bar> \<le> maxDuration \<Longrightarrow> time_sub t u = t - u"
  by (auto simp: time_sub_def maxDuration_def minDuration_def)

text \<open>
  \<open>t.UTC().Format(time.RFC3339Nano)\<close>: the proleptic Gregorian date of the day number, the time
  of day, and the fraction without its trailing zeros.
\<close>

definition civil_year :: "int \<Rightarrow> int \<Rightarrow> int \<times> int" where
  "civil_year y0 d0 =
     (let c = min 3 (d0 div 36524); d1 = d0 - c * 36524;
          q = d1 div 1461; d2 = d1 - q * 1461;
          y = min 3 (d2 div 365)
      in (y0 + 100 * c + 4 * q + y, d2 - 365 * y))"

definition date_of_day :: "int \<Rightarrow> int \<times> int" where
  "date_of_day d = civil_year (400 * (d div 146097) + 1) (d mod 146097)"

definition is_leap :: "int \<Rightarrow> bool" where
  "is_leap y = (y mod 4 = 0 \<and> (y mod 100 \<noteq> 0 \<or> y mod 400 = 0))"

fun month_of :: "int list \<Rightarrow> int \<Rightarrow> int \<Rightarrow> int \<times> int" where
  "month_of [] m d = (m, d + 1)"
| "month_of (l # ls) m d = (if d < l then (m, d + 1) else month_of ls (m + 1) (d - l))"

definition frac_nanos :: "int \<Rightarrow> string" where
  "frac_nanos n = (if n = 0 then [] else
     CHR ''.'' # rev (dropWhile (\<lambda>c. c = CHR ''0'') (rev (pad0 9 n))))"

definition rfc3339nano :: "gtime \<Rightarrow> string" where
  "rfc3339nano t =
     (let secs = t div Second; nanos = t mod Second;
          day = secs div 86400; sod = secs mod 86400;
          (y, yd) = date_of_day day;
          (mo, dd) = month_of [31, if is_leap y then 29 else 28, 31, 30, 31, 30, 31, 31, 30, 31, 30] 1 yd
      in (if y < 0 then CHR ''-'' # pad0 4 (- y) else pad0 4 y) @ ''-'' @ pad0 2 mo
         @ ''-'' @ pad0 2 dd @ ''T''
         @ pad0 2 (sod div 3600) @ '':'' @ pad0 2 ((sod div 60) mod 60) @ '':''
         @ pad0 2 (sod mod 60) @ frac_nanos nanos @ ''Z'')"

section \<open>Lists\<close>

lemma map_upd_other: "(\<And>x. x \<in> set xs \<Longrightarrow> f x = x) \<Longrightarrow> map f xs = xs"
  by (induction xs) auto

text \<open>\<open>res = append(res, x); if limit > 0 \<and> len(res) >= limit { break }\<close>\<close>

definition limited :: "int \<Rightarrow> 'a list \<Rightarrow> 'a list" where
  "limited limit xs = (if limit > 0 then take (nat limit) xs else xs)"

lemma limited_set: "set (limited n xs) \<subseteq> set xs"
  by (auto simp: limited_def dest: in_set_takeD)

lemma limited_length: "0 < n \<Longrightarrow> length (limited n xs) \<le> nat n"
  by (simp add: limited_def)

text \<open>
  A concrete runtime for the witnesses: ASCII tables, regular expressions as literal search, and
  a hash that is its argument with a tag.
\<close>

definition demo_runtime :: runtime where
  "demo_runtime = \<lparr>rt_lower = id, rt_upper = id, rt_trim = id, rt_fold = (\<lambda>s t. s = t),
     rt_regexp = (\<lambda>p. if p = ''('' then None else Some (\<lambda>s. Contains s p)),
     rt_quote = id, rt_sha256 = (\<lambda>s. ''#'' @ s)\<rparr>"

end
