(* ===== verification/Domain_Errors.thy ===== *)
theory Domain_Errors
  imports Prelude
begin

text \<open>
  \<open>src/pkg/domain/errors.go\<close>: the sentinel errors, the numeric error codes with their layer and
  symbolic name, \<open>AppError\<close>, and \<open>MapSentinelToAppError\<close>, which turns any error of the lower
  layers into the HTTP-facing one. \<open>gerror\<close> is the error value of the whole development: a
  sentinel, an \<open>errors.New\<close>/\<open>fmt.Errorf\<close> text, a \<open>%w\<close> wrapping, or an \<open>AppError\<close>.
\<close>

datatype sentinel =
    ErrNotFound | ErrUnauthorized | ErrForbidden | ErrConflict | ErrInvalidInput | ErrUserNotFound
  | ErrEmailAlreadyExists | ErrOrgNotFound | ErrProjectNotFound | ErrFlagNotFound
  | ErrInvalidEnvironment | ErrEnvironmentRestricted | ErrKeyNotFound | ErrKeyRevoked
  | ErrFourEyesSelfApproval | ErrChangeRequestConflict | ErrInternal

type_synonym ErrorCode = int

datatype gerror =
    Sentinel sentinel
  | Errorf string
  | Wrapf string gerror
  | AppError (ae_Code: ErrorCode) (ae_Type: string) (ae_Layer: string) (ae_Message: string)
      (ae_HTTPStatus: int) (ae_Err: "gerror option")

type_synonym 'a result = "gerror + 'a"

fun sentinel_text :: "sentinel \<Rightarrow> string" where
  "sentinel_text ErrNotFound = ''resource not found''"
| "sentinel_text ErrUnauthorized = ''unauthorized: missing or invalid credentials''"
| "sentinel_text ErrForbidden = ''forbidden: insufficient permissions''"
| "sentinel_text ErrConflict = ''resource conflict: entity already exists''"
| "sentinel_text ErrInvalidInput = ''invalid input: validation failed''"
| "sentinel_text ErrUserNotFound = ''user not found''"
| "sentinel_text ErrEmailAlreadyExists = ''an account with this email address already exists''"
| "sentinel_text ErrOrgNotFound = ''organization not found''"
| "sentinel_text ErrProjectNotFound = ''project not found''"
| "sentinel_text ErrFlagNotFound = ''feature flag not found''"
| "sentinel_text ErrInvalidEnvironment = ''invalid environment''"
| "sentinel_text ErrEnvironmentRestricted = ''api key environment restriction violated''"
| "sentinel_text ErrKeyNotFound = ''api key not found''"
| "sentinel_text ErrKeyRevoked = ''api key revoked''"
| "sentinel_text ErrFourEyesSelfApproval =
     ''author cannot review or approve their own change request''"
| "sentinel_text ErrChangeRequestConflict =
     ''flag configuration has been modified since change request was created; please re-review''"
| "sentinel_text ErrInternal = ''internal server error''"

section \<open>Error codes\<close>

text \<open>The declared constants, in the order of the source.\<close>

definition ErrCodes :: "(string \<times> ErrorCode) list" where
  "ErrCodes =
     [(''ErrCodeUnauthorized'', 1001), (''ErrCodeForbidden'', 1002),
      (''ErrCodeInvalidCredentials'', 1003), (''ErrCodeAPIKeyNotFound'', 1004),
      (''ErrCodeAPIKeyRevoked'', 1005), (''ErrCodeEnvironmentRestricted'', 1006),
      (''ErrCodePasswordTooWeak'', 1007), (''ErrCodeEmailAlreadyExists'', 1008),
      (''ErrCodeUserNotFound'', 1009),
      (''ErrCodeOrgNotFound'', 2001), (''ErrCodeOrgConflict'', 2002),
      (''ErrCodeProjectNotFound'', 2003), (''ErrCodeProjectConflict'', 2004),
      (''ErrCodeProjectAccessDenied'', 2005), (''ErrCodeProjectRequired'', 2006),
      (''ErrCodeFlagNotFound'', 3001), (''ErrCodeFlagAlreadyExists'', 3002),
      (''ErrCodeInvalidEnvironment'', 3003), (''ErrCodeInvalidRollout'', 3004),
      (''ErrCodeEvaluationMissingCtx'', 3005), (''ErrCodeNotFound'', 3006),
      (''ErrCodeChangeRequestNotFound'', 4001), (''ErrCodeFourEyesSelfApproval'', 4002),
      (''ErrCodeChangeRequestReviewed'', 4003), (''ErrCodeExperimentNotFound'', 4004),
      (''ErrCodeChangeRequestConflict'', 4005),
      (''ErrCodeDatabaseConnection'', 5001), (''ErrCodeDatabaseQuery'', 5002),
      (''ErrCodeDatabaseConstraint'', 5003),
      (''ErrCodeSSEStreamDisconnect'', 6001), (''ErrCodeCircuitBreakerOpen'', 6002),
      (''ErrCodeRateLimitExceeded'', 6003), (''ErrCodePayloadTooLarge'', 6004),
      (''ErrCodeMalformedPayload'', 6005), (''ErrCodeBadRequest'', 6006),
      (''ErrCodeInternal'', 9001)]"

definition Layer :: "ErrorCode \<Rightarrow> string" where
  "Layer c =
     (if 1000 \<le> c \<and> c < 2000 then ''SecurityLayer''
      else if 2000 \<le> c \<and> c < 3000 then ''MultiTenancyLayer''
      else if 3000 \<le> c \<and> c < 4000 then ''FlagEngineLayer''
      else if 4000 \<le> c \<and> c < 5000 then ''GovernanceLayer''
      else if 5000 \<le> c \<and> c < 6000 then ''StorageLayer''
      else if 6000 \<le> c \<and> c < 7000 then ''TransportLayer''
      else ''SystemLayer'')"

text \<open>The \<open>case\<close> labels of \<open>ErrorCode.String\<close>; every other code takes the \<open>default\<close> branch.\<close>

definition code_names :: "(ErrorCode \<times> string) list" where
  "code_names =
     [(1001, ''UNAUTHORIZED''), (1002, ''FORBIDDEN''), (1003, ''INVALID_CREDENTIALS''),
      (1004, ''API_KEY_NOT_FOUND''), (1005, ''API_KEY_REVOKED''),
      (1006, ''ENVIRONMENT_RESTRICTED''), (1007, ''PASSWORD_TOO_WEAK''),
      (1008, ''EMAIL_ALREADY_EXISTS''), (2001, ''ORGANIZATION_NOT_FOUND''),
      (2002, ''ORGANIZATION_CONFLICT''), (2003, ''PROJECT_NOT_FOUND''),
      (2004, ''PROJECT_CONFLICT''), (2005, ''PROJECT_ACCESS_DENIED''),
      (3001, ''FLAG_NOT_FOUND''), (3002, ''FLAG_ALREADY_EXISTS''),
      (3003, ''INVALID_ENVIRONMENT''), (3004, ''INVALID_ROLLOUT''),
      (3005, ''EVALUATION_MISSING_CONTEXT''), (3006, ''NOT_FOUND''),
      (4001, ''CHANGE_REQUEST_NOT_FOUND''), (4002, ''FOUR_EYES_SELF_APPROVAL''),
      (4003, ''CHANGE_REQUEST_ALREADY_REVIEWED''), (4004, ''EXPERIMENT_NOT_FOUND''),
      (5001, ''DATABASE_CONNECTION_ERROR''), (5002, ''DATABASE_QUERY_ERROR''),
      (5003, ''DATABASE_CONSTRAINT_VIOLATION''), (6001, ''STREAM_DISCONNECT''),
      (6002, ''CIRCUIT_BREAKER_OPEN''), (6003, ''RATE_LIMIT_EXCEEDED''),
      (6004, ''PAYLOAD_TOO_LARGE''), (6005, ''MALFORMED_PAYLOAD'')]"

definition code_String :: "ErrorCode \<Rightarrow> string" where
  "code_String c =
     (case map_of code_names c of Some n \<Rightarrow> n | None \<Rightarrow> ''INTERNAL_SERVER_ERROR'')"

section \<open>Error values\<close>

fun Error :: "gerror \<Rightarrow> string" where
  "Error (Sentinel s) = sentinel_text s"
| "Error (Errorf m) = m"
| "Error (Wrapf pre e) = pre @ Error e"
| "Error (AppError c t l m st None) = ''['' @ t @ ''/'' @ Itoa c @ ''] '' @ m"
| "Error (AppError c t l m st (Some e)) = ''['' @ t @ ''/'' @ Itoa c @ ''] '' @ m @ '': '' @ Error e"

fun Unwrap :: "gerror \<Rightarrow> gerror option" where
  "Unwrap (Wrapf pre e) = Some e"
| "Unwrap (AppError c t l m st e) = e"
| "Unwrap _ = None"

text \<open>\<open>errors.Is(err, sentinel)\<close> and \<open>errors.As(err, &appErr)\<close>: both follow \<open>Unwrap\<close>.\<close>

fun errors_Is :: "gerror \<Rightarrow> sentinel \<Rightarrow> bool" where
  "errors_Is (Sentinel s) t = (s = t)"
| "errors_Is (Errorf m) t = False"
| "errors_Is (Wrapf pre e) t = errors_Is e t"
| "errors_Is (AppError c ty l m st None) t = False"
| "errors_Is (AppError c ty l m st (Some e)) t = errors_Is e t"

fun errors_As :: "gerror \<Rightarrow> gerror option" where
  "errors_As (AppError c t l m st e) = Some (AppError c t l m st e)"
| "errors_As (Wrapf pre e) = errors_As e"
| "errors_As _ = None"

definition NewAppError :: "ErrorCode \<Rightarrow> string \<Rightarrow> int \<Rightarrow> gerror option \<Rightarrow> gerror" where
  "NewAppError code message httpStatus cause =
     AppError code (code_String code) (Layer code) message httpStatus cause"

text \<open>The \<open>switch\<close> of \<open>MapSentinelToAppError\<close>: sentinel, code and status, in the source's order.\<close>

definition sentinel_table :: "(sentinel \<times> ErrorCode \<times> int) list" where
  "sentinel_table =
     [(ErrUnauthorized, 1001, 401), (ErrForbidden, 1002, 403),
      (ErrEnvironmentRestricted, 1006, 403), (ErrEmailAlreadyExists, 1008, 409),
      (ErrConflict, 3002, 409), (ErrUserNotFound, 1009, 404), (ErrOrgNotFound, 2001, 404),
      (ErrProjectNotFound, 2003, 404), (ErrFlagNotFound, 3001, 404), (ErrNotFound, 3006, 404),
      (ErrInvalidInput, 6005, 400), (ErrInvalidEnvironment, 3003, 400),
      (ErrFourEyesSelfApproval, 4002, 400), (ErrChangeRequestConflict, 4005, 409)]"

fun switch_sentinel :: "gerror \<Rightarrow> (sentinel \<times> ErrorCode \<times> int) list \<Rightarrow> gerror" where
  "switch_sentinel err [] = NewAppError 9001 (Error err) 500 (Some err)"
| "switch_sentinel err ((s, code, status) # rest) =
     (if errors_Is err s then NewAppError code (Error err) status (Some err)
      else switch_sentinel err rest)"

definition MapSentinelToAppError :: "gerror option \<Rightarrow> gerror option" where
  "MapSentinelToAppError err =
     (case err of
        None \<Rightarrow> None
      | Some e \<Rightarrow>
          (case errors_As e of
             Some ae \<Rightarrow> Some ae
           | None \<Rightarrow> Some (switch_sentinel e sentinel_table)))"

section \<open>Lemmas\<close>

lemma errors_Is_unique: "errors_Is e s \<Longrightarrow> errors_Is e t \<Longrightarrow> s = t"
  by (induction e s rule: errors_Is.induct) auto

lemma errors_As_AppError: "errors_As e = Some ae \<Longrightarrow> \<exists>c t l m st cause. ae = AppError c t l m st cause"
  by (induction e rule: errors_As.induct) auto

lemma switch_sentinel_form:
  "\<exists>code status. switch_sentinel e tab = NewAppError code (Error e) status (Some e)
     \<and> status \<in> insert 500 ((snd \<circ> snd) ` set tab)"
proof (induction tab)
  case (Cons x tab)
  then show ?case by (cases x; cases "errors_Is e (fst x)") auto
qed auto

lemma switch_sentinel_hit:
  "errors_Is e s \<Longrightarrow> map_of tab s = Some (code, status) \<Longrightarrow>
     switch_sentinel e tab = NewAppError code (Error e) status (Some e)"
  by (induction tab) (auto dest: errors_Is_unique split: if_splits)

section \<open>Properties\<close>



text \<open>
  Of the 36 declared error codes exactly five have no \<open>case\<close> of their own in
  \<open>ErrorCode.String\<close> and are reported with the type \<open>INTERNAL_SERVER_ERROR\<close>: besides the internal
  error itself, the codes for an unknown user, a missing project, a change-request conflict and a
  bad request.
\<close>

theorem code_String_default:
  "filter (\<lambda>(n, c). code_String c = ''INTERNAL_SERVER_ERROR'') ErrCodes =
     [(''ErrCodeUserNotFound'', 1009), (''ErrCodeProjectRequired'', 2006),
      (''ErrCodeChangeRequestConflict'', 4005), (''ErrCodeBadRequest'', 6006),
      (''ErrCodeInternal'', 9001)]"
  by code_simp

end
