(* ===== verification/Float64.thy ===== *)
theory Float64
  imports Prelude "HOL-Library.Log_Nat"
begin

text \<open>
  Go's \<open>float64\<close>: IEEE 754 binary64 with rounding to nearest, ties to even. A finite value is
  its exact rational (\<open>Fin\<close>), negative zero, the infinities and NaN are values of their own, and
  every arithmetic operation is the exact rational operation followed by \<open>fl\<close>, so the
  rounding the program does is the rounding the theorems are about. \<open>rndq_err\<close> bounds the
  rounding error, \<open>fl_int\<close> says integers below \<open>2 ^ 53\<close> are exact.
\<close>

named_theorems f64_simps \<open>unfolding of the binary64 operations\<close>

section \<open>Rounding\<close>

definition rne :: "rat \<Rightarrow> int" where
  "rne x = (let f = \<lfloor>x\<rfloor>; d = x - of_int f in
     if d < 1 / 2 then f else if 1 / 2 < d then f + 1 else if even f then f else f + 1)"

definition ilog2 :: "rat \<Rightarrow> int" where
  "ilog2 x = (case quotient_of x of (n, d) \<Rightarrow>
     let e = bitlen n - bitlen d in if 2 powi e \<le> x then e else e - 1)"

definition uexp :: "rat \<Rightarrow> int" where
  "uexp x = max (ilog2 \<bar>x\<bar> - 52) (- 1074)"

definition rndq :: "rat \<Rightarrow> rat" where
  "rndq x = of_int (rne (x / 2 powi (uexp x))) * 2 powi (uexp x)"

datatype f64 = NaN | PInf | NInf | NZero | Fin rat

definition fl :: "rat \<Rightarrow> f64" where
  "fl x = (if x = 0 then Fin 0 else let y = rndq x in
     if 2 ^ 1024 \<le> \<bar>y\<bar> then (if 0 < x then PInf else NInf)
     else if y = 0 then (if 0 < x then Fin 0 else NZero) else Fin y)"

section \<open>Operations\<close>

fun fval :: "f64 \<Rightarrow> rat" where
  "fval (Fin q) = q"
| "fval _ = 0"

definition is_fin :: "f64 \<Rightarrow> bool" where
  "is_fin a = (a \<noteq> NaN \<and> a \<noteq> PInf \<and> a \<noteq> NInf)"

fun is_neg :: "f64 \<Rightarrow> bool" where
  "is_neg NInf = True"
| "is_neg NZero = True"
| "is_neg (Fin q) = (q < 0)"
| "is_neg _ = False"

fun fneg :: "f64 \<Rightarrow> f64" where
  "fneg NaN = NaN"
| "fneg PInf = NInf"
| "fneg NInf = PInf"
| "fneg NZero = Fin 0"
| "fneg (Fin q) = (if q = 0 then NZero else Fin (- q))"

definition fabs :: "f64 \<Rightarrow> f64" where
  "fabs a = (if is_neg a then fneg a else a)"

definition fadd :: "f64 \<Rightarrow> f64 \<Rightarrow> f64" where
  "fadd a b =
     (if a = NaN \<or> b = NaN then NaN
      else if a = PInf then (if b = NInf then NaN else PInf)
      else if a = NInf then (if b = PInf then NaN else NInf)
      else if b = PInf \<or> b = NInf then b
      else if a = NZero \<and> b = NZero then NZero
      else fl (fval a + fval b))"

definition fsub :: "f64 \<Rightarrow> f64 \<Rightarrow> f64" where
  "fsub a b = fadd a (fneg b)"

definition signed_inf :: "bool \<Rightarrow> f64" where
  "signed_inf neg = (if neg then NInf else PInf)"

definition signed_zero :: "bool \<Rightarrow> f64" where
  "signed_zero neg = (if neg then NZero else Fin 0)"

definition fmul :: "f64 \<Rightarrow> f64 \<Rightarrow> f64" where
  "fmul a b = (let neg = (is_neg a \<noteq> is_neg b) in
     if a = NaN \<or> b = NaN then NaN
     else if \<not> is_fin a \<or> \<not> is_fin b then
       (if (is_fin a \<and> fval a = 0) \<or> (is_fin b \<and> fval b = 0) then NaN else signed_inf neg)
     else if fval a * fval b = 0 then signed_zero neg
     else fl (fval a * fval b))"

definition fdiv :: "f64 \<Rightarrow> f64 \<Rightarrow> f64" where
  "fdiv a b = (let neg = (is_neg a \<noteq> is_neg b) in
     if a = NaN \<or> b = NaN then NaN
     else if \<not> is_fin a then (if \<not> is_fin b then NaN else signed_inf neg)
     else if \<not> is_fin b then signed_zero neg
     else if fval b = 0 then (if fval a = 0 then NaN else signed_inf neg)
     else if fval a = 0 then signed_zero neg
     else fl (fval a / fval b))"

definition flt :: "f64 \<Rightarrow> f64 \<Rightarrow> bool" where
  "flt a b = (a \<noteq> NaN \<and> b \<noteq> NaN \<and> a \<noteq> PInf \<and> b \<noteq> NInf \<and>
     (a = NInf \<or> b = PInf \<or> fval a < fval b))"

definition feq :: "f64 \<Rightarrow> f64 \<Rightarrow> bool" where
  "feq a b = (a \<noteq> NaN \<and> b \<noteq> NaN \<and> (a = b \<or> is_fin a \<and> is_fin b \<and> fval a = fval b))"

definition fle :: "f64 \<Rightarrow> f64 \<Rightarrow> bool" where
  "fle a b = (flt a b \<or> feq a b)"

text \<open>\<open>float64(i)\<close> of an integer; \<open>math.Round\<close> (half away from zero) and \<open>math.Floor\<close>.\<close>

definition f64_of_int :: "int \<Rightarrow> f64" where
  "f64_of_int i = fl (of_int i)"

fun fround :: "f64 \<Rightarrow> f64" where
  "fround (Fin q) =
     (if 0 \<le> q then Fin (of_int \<lfloor>q + 1 / 2\<rfloor>)
      else if \<lfloor>- q + 1 / 2\<rfloor> = 0 then NZero else Fin (- of_int \<lfloor>- q + 1 / 2\<rfloor>))"
| "fround a = a"

fun ffloor :: "f64 \<Rightarrow> f64" where
  "ffloor (Fin q) = Fin (of_int \<lfloor>q\<rfloor>)"
| "ffloor a = a"

text \<open>\<open>math.Min\<close> and \<open>math.Max\<close>, with their rules for NaN, the infinities and the signed zeros.\<close>

definition fmin :: "f64 \<Rightarrow> f64 \<Rightarrow> f64" where
  "fmin a b =
     (if a = NInf \<or> b = NInf then NInf else if a = NaN \<or> b = NaN then NaN
      else if is_fin a \<and> is_fin b \<and> fval a = 0 \<and> fval b = 0 then (if is_neg a then a else b)
      else if flt a b then a else b)"

definition fmax :: "f64 \<Rightarrow> f64 \<Rightarrow> f64" where
  "fmax a b =
     (if a = PInf \<or> b = PInf then PInf else if a = NaN \<or> b = NaN then NaN
      else if is_fin a \<and> is_fin b \<and> fval a = 0 \<and> fval b = 0 then (if is_neg a then b else a)
      else if flt b a then a else b)"

text \<open>\<open>int(f)\<close> of a finite value: truncation towards zero.\<close>

definition int_of_f64 :: "f64 \<Rightarrow> int" where
  "int_of_f64 a = (if 0 \<le> fval a then \<lfloor>fval a\<rfloor> else - \<lfloor>- fval a\<rfloor>)"

text \<open>\<open>d.Seconds()\<close> of a duration: whole seconds plus the nanoseconds as a fraction.\<close>

definition Seconds :: "duration \<Rightarrow> f64" where
  "Seconds d = (let sec = sgn d * (\<bar>d\<bar> div Second); nsec = sgn d * (\<bar>d\<bar> mod Second) in
     fadd (f64_of_int sec) (fdiv (f64_of_int nsec) (f64_of_int 1000000000)))"

lemmas f64_defs [f64_simps] = fadd_def fsub_def fmul_def fdiv_def flt_def feq_def fle_def
  is_fin_def signed_inf_def signed_zero_def fabs_def

section \<open>Rounding lemmas\<close>

lemma rne_dist: "\<bar>of_int (rne x) - x\<bar> \<le> 1 / 2"
proof -
  have "of_int \<lfloor>x\<rfloor> \<le> x \<and> x < of_int (\<lfloor>x\<rfloor> + 1)" by (rule floor_correct)
  then show ?thesis by (auto simp: rne_def Let_def)
qed

lemma rne_int [simp]: "rne (of_int n) = n"
  by (simp add: rne_def)

lemma rne_mono:
  assumes "x \<le> y"
  shows "rne x \<le> rne y"
proof -
  have f: "\<lfloor>x\<rfloor> \<le> \<lfloor>y\<rfloor>" using assms by (rule floor_mono)
  have ub: "rne x \<le> \<lfloor>x\<rfloor> + 1" and lb: "\<lfloor>y\<rfloor> \<le> rne y"
    by (auto simp: rne_def Let_def)
  show ?thesis
  proof (cases "\<lfloor>x\<rfloor> = \<lfloor>y\<rfloor>")
    case True
    with assms show ?thesis by (auto simp: rne_def Let_def)
  next
    case False
    with f ub lb show ?thesis by linarith
  qed
qed

lemma bitlen_powi:
  assumes "0 < n"
  shows "2 powi (bitlen n - 1) \<le> (of_int n :: rat)" and "(of_int n :: rat) < 2 powi (bitlen n)"
proof -
  have b: "1 \<le> bitlen n" using assms by (auto simp: bitlen_alt_def)
  from bitlen_bounds [OF assms] have 1: "2 ^ nat (bitlen n - 1) \<le> n" and 2: "n < 2 ^ nat (bitlen n)"
    by auto
  from 1 have "(2::rat) ^ nat (bitlen n - 1) \<le> of_int n"
    by (metis of_int_le_iff of_int_numeral of_int_power)
  with b show "2 powi (bitlen n - 1) \<le> (of_int n :: rat)"
    by (simp add: power_int_def)
  from 2 have "of_int n < (2::rat) ^ nat (bitlen n)"
    by (metis of_int_less_iff of_int_numeral of_int_power)
  with b show "(of_int n :: rat) < 2 powi (bitlen n)"
    by (simp add: power_int_def)
qed

lemma ilog2_bounds:
  assumes "0 < x"
  shows "2 powi (ilog2 x) \<le> x" and "x < 2 powi (ilog2 x + 1)"
proof -
  obtain n d where q: "quotient_of x = (n, d)" by (cases "quotient_of x")
  have d: "0 < d" and x: "x = of_int n / of_int d"
    using quotient_of_denom_pos [OF q] quotient_of_div [OF q] by auto
  have n: "0 < n"
  proof (rule ccontr)
    assume "\<not> 0 < n"
    then have "of_int n / of_int d \<le> (0::rat)"
      using d by (simp add: divide_nonpos_pos)
    with x assms show False by simp
  qed
  let ?e = "bitlen n - bitlen d"
  have d0: "(0::rat) < of_int d" using d by simp
  have "of_int n * (2::rat) powi (bitlen d - 1) < 2 powi (bitlen n) * of_int d"
  proof -
    have "of_int n * (2::rat) powi (bitlen d - 1) \<le> of_int n * of_int d"
      using bitlen_powi(1) [OF d] n by (intro mult_left_mono) auto
    also have "\<dots> < 2 powi (bitlen n) * of_int d"
      using bitlen_powi(2) [OF n] d0 by (intro mult_strict_right_mono)
    finally show ?thesis .
  qed
  then have "x < 2 powi (bitlen n) / 2 powi (bitlen d - 1)"
    using d0 by (simp add: x field_simps)
  also have "\<dots> = 2 powi (?e + 1)"
    by (simp add: power_int_diff power_int_add algebra_simps flip: power_int_diff)
  finally have ub: "x < 2 powi (?e + 1)" .
  have "2 powi (bitlen n - 1) * of_int d < (of_int n :: rat) * 2 powi (bitlen d)"
  proof -
    have "2 powi (bitlen n - 1) * of_int d \<le> (of_int n :: rat) * of_int d"
      using bitlen_powi(1) [OF n] d0 by (intro mult_right_mono) auto
    also have "\<dots> < of_int n * 2 powi (bitlen d)"
      using bitlen_powi(2) [OF d] n by (intro mult_strict_left_mono) auto
    finally show ?thesis .
  qed
  then have "2 powi (bitlen n - 1) / 2 powi (bitlen d) < x"
    using d0 by (simp add: x field_simps)
  moreover have "(2::rat) powi (bitlen n - 1) / 2 powi (bitlen d) = 2 powi (?e - 1)"
    by (simp add: algebra_simps flip: power_int_diff)
  ultimately have lb: "2 powi (?e - 1) < x" by simp
  show "2 powi (ilog2 x) \<le> x"
    using lb by (auto simp: ilog2_def q Let_def)
  show "x < 2 powi (ilog2 x + 1)"
    using ub by (auto simp: ilog2_def q Let_def not_le)
qed

lemma powi2_pos [simp]: "(0::rat) < 2 powi e"
  by (simp add: zero_less_power_int)

lemma powi2_less_iff: "(2::rat) powi m < 2 powi n \<longleftrightarrow> m < n"
  using power_int_strict_increasing [of m n "2::rat"] power_int_increasing [of n m "2::rat"]
  by (cases "m < n") auto

lemma rndq_dist: "\<bar>rndq x - x\<bar> \<le> 2 powi (uexp x) / 2"
proof -
  let ?u = "(2::rat) powi (uexp x)"
  have u: "0 < ?u" by simp
  have "rndq x - x = (of_int (rne (x / ?u)) - x / ?u) * ?u"
    using u by (simp add: rndq_def left_diff_distrib)
  then have "\<bar>rndq x - x\<bar> = \<bar>of_int (rne (x / ?u)) - x / ?u\<bar> * ?u"
    using u by (simp add: abs_mult)
  also have "\<dots> \<le> (1 / 2) * ?u"
    using rne_dist u by (intro mult_right_mono) auto
  finally show ?thesis by simp
qed

text \<open>The relative error of a normal result is at most \<open>2\<^sup>-\<^sup>5\<^sup>3\<close>.\<close>

lemma rndq_err:
  assumes "2 powi (- 1022) \<le> \<bar>x\<bar>"
  shows "\<bar>rndq x - x\<bar> \<le> \<bar>x\<bar> / 2 ^ 53"
proof -
  have x: "0 < \<bar>x\<bar>" using assms powi2_pos [of "- 1022"] by linarith
  have "2 powi (- 1022) < (2::rat) powi (ilog2 \<bar>x\<bar> + 1)"
    using assms ilog2_bounds(2) [OF x] by simp
  then have "- 1022 < ilog2 \<bar>x\<bar> + 1"
    by (simp only: powi2_less_iff)
  then have u: "uexp x = ilog2 \<bar>x\<bar> - 52" by (simp add: uexp_def)
  have "\<bar>rndq x - x\<bar> \<le> 2 powi (ilog2 \<bar>x\<bar> - 52) / 2"
    using rndq_dist [of x] by (simp add: u)
  also have "\<dots> = 2 powi (ilog2 \<bar>x\<bar>) / 2 ^ 53"
    by (simp add: power_int_diff)
  also have "\<dots> \<le> \<bar>x\<bar> / 2 ^ 53"
    using ilog2_bounds(1) [OF x] by (intro divide_right_mono) auto
  finally show ?thesis .
qed

lemma rndq_exact: "x / 2 powi (uexp x) = of_int n \<Longrightarrow> rndq x = x"
  by (simp add: rndq_def) (metis nonzero_eq_divide_eq powi2_pos less_irrefl)

lemma rndq_int:
  assumes "\<bar>n\<bar> < 2 ^ 53"
  shows "rndq (of_int n) = of_int n"
proof (cases "n = 0")
  case True
  then show ?thesis by (simp add: rndq_def rne_def)
next
  case False
  let ?x = "of_int n :: rat"
  have x: "0 < \<bar>?x\<bar>" using False by simp
  have "\<bar>?x\<bar> < 2 ^ 53"
    using assms by (metis of_int_abs of_int_less_iff of_int_numeral of_int_power)
  then have "2 powi (ilog2 \<bar>?x\<bar>) < (2::rat) powi 53"
    using ilog2_bounds(1) [OF x] by (simp add: power_int_def)
  then have "ilog2 \<bar>?x\<bar> < 53"
    by (simp only: powi2_less_iff)
  then have u: "uexp ?x \<le> 0" by (simp add: uexp_def)
  have "(2::rat) powi (uexp ?x) = inverse (2 powi (- uexp ?x))"
    by (simp only: power_int_minus inverse_inverse_eq)
  also have "(2::rat) powi (- uexp ?x) = 2 ^ nat (- uexp ?x)"
    using u by (simp only: power_int_def) simp
  finally have "(2::rat) powi (uexp ?x) = inverse (2 ^ nat (- uexp ?x))" .
  then have "?x / 2 powi (uexp ?x) = of_int (n * 2 ^ nat (- uexp ?x))"
    by (simp add: divide_inverse)
  then show ?thesis by (rule rndq_exact)
qed

lemma fl_zero [simp]: "fl 0 = Fin 0"
  by (simp add: fl_def)

lemma fl_int:
  assumes "\<bar>n\<bar> < 2 ^ 53"
  shows "fl (of_int n) = Fin (of_int n)"
proof -
  have "\<bar>of_int n :: rat\<bar> < 2 ^ 53"
    using assms by (metis of_int_abs of_int_less_iff of_int_numeral of_int_power)
  also have "(2::rat) ^ 53 \<le> 2 ^ 1024" by (rule power_increasing) auto
  finally show ?thesis using rndq_int [OF assms] by (simp add: fl_def)
qed

lemma fl_normal:
  assumes "2 powi (- 1022) \<le> \<bar>x\<bar>" and "\<bar>x\<bar> \<le> 2 ^ 1000"
  shows "fl x = Fin (rndq x)" and "0 < x \<Longrightarrow> 0 < rndq x"
proof -
  have x0: "0 < \<bar>x\<bar>" using assms(1) powi2_pos [of "- 1022"] by linarith
  have e: "\<bar>rndq x - x\<bar> \<le> \<bar>x\<bar> / 2 ^ 53" by (rule rndq_err [OF assms(1)])
  have h: "\<bar>x\<bar> / 2 ^ 53 \<le> \<bar>x\<bar> / 2" by (intro divide_left_mono) auto
  have "\<bar>rndq x\<bar> \<le> 2 * \<bar>x\<bar>" using e h by linarith
  also have "\<dots> \<le> 2 * 2 ^ 1000" using assms(2) by simp
  also have "\<dots> < (2::rat) ^ 1024" by simp
  finally have "\<bar>rndq x\<bar> < 2 ^ 1024" .
  moreover have "rndq x \<noteq> 0" using e h x0 by (auto simp: abs_if split: if_splits)
  ultimately show "fl x = Fin (rndq x)" using x0 by (auto simp: fl_def Let_def)
  show "0 < x \<Longrightarrow> 0 < rndq x" using e h x0 by (auto simp: abs_if split: if_splits)
qed

lemma f64_of_int_exact: "\<bar>n\<bar> < 2 ^ 53 \<Longrightarrow> f64_of_int n = Fin (of_int n)"
  by (simp add: f64_of_int_def fl_int)

lemma flt_Fin [simp]: "flt (Fin a) (Fin b) = (a < b)"
  by (simp add: flt_def)

lemma fle_Fin [simp]: "fle (Fin a) (Fin b) = (a \<le> b)"
  by (auto simp: fle_def feq_def is_fin_def flt_def)

lemma flt_trans_le: "flt a b \<Longrightarrow> fle b c \<Longrightarrow> flt a c"
  by (cases a; cases b; cases c) (auto simp: f64_simps)

lemma flt_not_NaN: "flt a b \<Longrightarrow> a \<noteq> NaN \<and> b \<noteq> NaN"
  by (simp add: flt_def)

end
