(* ===== verification/Strconv.thy ===== *)
theory Strconv
  imports Float64
begin

text \<open>
  The two number conversions of package \<open>strconv\<close> that the targeting rules depend on:
  \<open>ParseFloat(s, 64)\<close> (\<open>None\<close> is a non-nil error, of syntax or of range) and
  \<open>FormatFloat(v, 'f', -1, 64)\<close>, and the verb \<open>%.nf\<close>. Values are exact: a decimal or
  hexadecimal literal denotes a rational, which \<open>fl\<close> rounds once.
\<close>

section \<open>ParseFloat\<close>

definition digit_val :: "nat \<Rightarrow> char \<Rightarrow> nat option" where
  "digit_val b c = (let n = byte_of (lower_char c) in
     if 48 \<le> n \<and> n \<le> 57 then Some (n - 48)
     else if b = 16 \<and> 97 \<le> n \<and> n \<le> 102 then Some (n - 87) else None)"

fun scan_mant :: "nat \<Rightarrow> bool \<Rightarrow> int \<Rightarrow> int \<Rightarrow> bool \<Rightarrow> string \<Rightarrow> int \<times> int \<times> bool \<times> string" where
  "scan_mant b dot m fr saw [] = (m, fr, saw, [])"
| "scan_mant b dot m fr saw (c # cs) =
     (if c = CHR ''_'' then scan_mant b dot m fr saw cs
      else if c = CHR ''.'' then
        (if dot then (m, fr, saw, c # cs) else scan_mant b True m fr saw cs)
      else (case digit_val b c of
              Some d \<Rightarrow> scan_mant b dot (m * int b + int d) (if dot then fr + 1 else fr) True cs
            | None \<Rightarrow> (m, fr, saw, c # cs)))"

fun scan_exp :: "int \<Rightarrow> string \<Rightarrow> int \<times> string" where
  "scan_exp e [] = (e, [])"
| "scan_exp e (c # cs) =
     (if c = CHR ''_'' then scan_exp e cs
      else (case digit_val 10 c of
              Some d \<Rightarrow> scan_exp (if e < 10000 then e * 10 + int d else e) cs
            | None \<Rightarrow> (e, c # cs)))"

definition take_sign :: "string \<Rightarrow> bool \<times> string" where
  "take_sign s = (case s of
     c # cs \<Rightarrow> if c = CHR ''-'' then (True, cs) else if c = CHR ''+'' then (False, cs) else (False, s)
   | [] \<Rightarrow> (False, s))"

text \<open>\<open>underscoreOK\<close>: an underscore stands between digits, or between the base prefix and a digit.\<close>

fun underscores_from :: "bool \<Rightarrow> char \<Rightarrow> string \<Rightarrow> bool" where
  "underscores_from hex saw [] = (saw \<noteq> CHR ''_'')"
| "underscores_from hex saw (c # cs) =
     (if digit_val (if hex then 16 else 10) c \<noteq> None then underscores_from hex (CHR ''0'') cs
      else if c = CHR ''_'' then saw = CHR ''0'' \<and> underscores_from hex (CHR ''_'') cs
      else saw \<noteq> CHR ''_'' \<and> underscores_from hex (CHR ''!'') cs)"

definition underscoreOK :: "string \<Rightarrow> bool" where
  "underscoreOK s0 = (let s = snd (take_sign s0) in
     case s of
       a # b # cs \<Rightarrow>
         if a = CHR ''0'' \<and> lower_char b \<in> {CHR ''b'', CHR ''o'', CHR ''x''}
         then underscores_from (lower_char b = CHR ''x'') (CHR ''0'') cs
         else underscores_from False (CHR ''^'') s
     | _ \<Rightarrow> underscores_from False (CHR ''^'') s)"

definition special_float :: "string \<Rightarrow> f64 option" where
  "special_float s = (let l = map lower_char s; (neg, r) = take_sign l in
     if r = ''inf'' \<or> r = ''infinity'' then Some (signed_inf neg)
     else if l = ''nan'' then Some NaN else None)"

definition scan_number :: "string \<Rightarrow> (bool \<times> int \<times> int \<times> int) option" where
  "scan_number s =
     (let (neg, s1) = take_sign s;
          hex = (2 < length s1 \<and> s1 ! 0 = CHR ''0'' \<and> lower_char (s1 ! 1) = CHR ''x'');
          b = (if hex then 16 else 10);
          (m, fr, saw, r) = scan_mant b False 0 0 False (if hex then drop 2 s1 else s1);
          scale = (if hex then - (4 * fr) else - fr)
      in if \<not> saw then None
         else case r of
             [] \<Rightarrow> if hex then None else Some (hex, m, scale, if neg then -1 else 1)
           | c # cs \<Rightarrow>
               if lower_char c \<noteq> (if hex then CHR ''p'' else CHR ''e'') then None
               else let (eneg, ds) = take_sign cs in
                 if ds = [] \<or> digit_val 10 (hd ds) = None then None
                 else let (e, rest) = scan_exp 0 ds in
                   if rest \<noteq> [] then None
                   else Some (hex, m, scale + (if eneg then - e else e), if neg then -1 else 1))"

definition ParseFloat :: "string \<Rightarrow> f64 option" where
  "ParseFloat s =
     (case special_float s of
        Some f \<Rightarrow> Some f
      | None \<Rightarrow>
          (case scan_number s of
             None \<Rightarrow> None
           | Some (hex, m, e, sg) \<Rightarrow>
               if CHR ''_'' \<in> set s \<and> \<not> underscoreOK s then None
               else if m = 0 then Some (signed_zero (sg < 0))
               else let f = fl (of_int sg * of_int m * (if hex then 2 else 10) powi e) in
                 if is_fin f then Some f else None))"

section \<open>FormatFloat\<close>

definition ndigits :: "int \<Rightarrow> int" where
  "ndigits n = int (length (show_base 10 n))"

text \<open>\<open>decpt q\<close> is the \<open>k\<close> with \<open>10\<^sup>k\<^sup>-\<^sup>1 \<le> q < 10\<^sup>k\<close>.\<close>

definition decpt :: "rat \<Rightarrow> int" where
  "decpt q = (case quotient_of q of (n, d) \<Rightarrow>
     let e = ndigits n - ndigits d in if 10 powi e \<le> q then e + 1 else e)"

text \<open>The shortest decimal that reads back as \<open>q\<close>: digits \<open>c\<close> and the power of ten of the last one.\<close>

fun shortest :: "rat \<Rightarrow> int \<Rightarrow> int list \<Rightarrow> int \<times> int" where
  "shortest q k [] = (rne (q * 10 powi (17 - k)), k - 17)"
| "shortest q k (n # ns) =
     (let e = k - n; x = q / 10 powi e; c0 = \<lfloor>x\<rfloor>; c1 = c0 + 1;
          ok = (\<lambda>c. fl (of_int c * 10 powi e) = Fin q)
      in if ok c0 \<and> (\<not> ok c1 \<or> x - of_int c0 \<le> of_int c1 - x) then (c0, e)
         else if ok c1 then (c1, e)
         else shortest q k ns)"

definition place_point :: "int \<Rightarrow> int \<Rightarrow> string" where
  "place_point c e =
     (if 0 \<le> e then show_base 10 c @ replicate (nat e) (CHR ''0'')
      else let w = nat (- e); s = show_base 10 c;
               p = (if length s \<le> w then replicate (w + 1 - length s) (CHR ''0'') @ s else s)
           in take (length p - w) p @ ''.'' @ drop (length p - w) p)"

fun FormatFloat :: "f64 \<Rightarrow> string" where
  "FormatFloat NaN = ''NaN''"
| "FormatFloat PInf = ''+Inf''"
| "FormatFloat NInf = ''-Inf''"
| "FormatFloat NZero = ''-0''"
| "FormatFloat (Fin q) =
     (if q = 0 then ''0''
      else let k = decpt \<bar>q\<bar>; (c, e) = shortest \<bar>q\<bar> k [1..17]
           in (if q < 0 then ''-'' else []) @ place_point c e)"

text \<open>\<open>fmt.Sprintf\<close> with the verb \<open>%.pf\<close>: the exact value rounded to \<open>p\<close> decimals, ties to even.\<close>

fun FormatFixed :: "nat \<Rightarrow> f64 \<Rightarrow> string" where
  "FormatFixed p NaN = ''NaN''"
| "FormatFixed p PInf = ''+Inf''"
| "FormatFixed p NInf = ''-Inf''"
| "FormatFixed p NZero = ''-'' @ place_point 0 (- int p)"
| "FormatFixed p (Fin q) =
     (if q < 0 then ''-'' else []) @ place_point (rne (\<bar>q\<bar> * 10 ^ p)) (- int p)"

end
