(* ===== verification/Domain_Flag.thy ===== *)
theory Domain_Flag
  imports Domain_Errors Strconv
begin

text \<open>
  \<open>src/pkg/domain/flag.go\<close> and the constants of \<open>src/pkg/domain/constants.go\<close>: flags, environment
  configurations, targeting rules and variants, the evaluation context and result, deep copies,
  and the validation of configurations. Go's string-typed enumerations hold any string that JSON
  supplies, so they stay strings, with one abbreviation per declared constant.
\<close>

section \<open>Constants\<close>

abbreviation (input) "EnvProduction \<equiv> ''production''"
abbreviation (input) "EnvStaging \<equiv> ''staging''"
abbreviation (input) "EnvDevelopment \<equiv> ''development''"
abbreviation (input) "EnvAll \<equiv> ''all''"

abbreviation (input) "RoleAdmin \<equiv> ''admin''"
abbreviation (input) "RoleDeveloper \<equiv> ''developer''"

abbreviation (input) "DefaultOrgID \<equiv> ''org_default''"
abbreviation (input) "DefaultOrgName \<equiv> ''Default Organization''"
abbreviation (input) "DefaultOrgSlug \<equiv> ''default-org''"
abbreviation (input) "DefaultProjectID \<equiv> ''proj_default''"
abbreviation (input) "DefaultProjectName \<equiv> ''Default Project''"
abbreviation (input) "DefaultProjectSlug \<equiv> ''default-project''"

abbreviation (input) "StrategyBoolean \<equiv> ''boolean''"
abbreviation (input) "StrategyPercentage \<equiv> ''percentage''"
abbreviation (input) "StrategyRules \<equiv> ''rules''"
abbreviation (input) "StrategyMultivariate \<equiv> ''multivariate''"

abbreviation (input) "AttrUserID \<equiv> ''user_id''"
abbreviation (input) "AttrEmail \<equiv> ''email''"
abbreviation (input) "AttrCountry \<equiv> ''country''"
abbreviation (input) "AttrRole \<equiv> ''role''"
abbreviation (input) "AttrTier \<equiv> ''tier''"
abbreviation (input) "AttrCustom \<equiv> ''custom''"

abbreviation (input) "OpEquals \<equiv> ''equals''"
abbreviation (input) "OpNotEquals \<equiv> ''not_equals''"
abbreviation (input) "OpContains \<equiv> ''contains''"
abbreviation (input) "OpNotContains \<equiv> ''not_contains''"
abbreviation (input) "OpStartsWith \<equiv> ''starts_with''"
abbreviation (input) "OpEndsWith \<equiv> ''ends_with''"
abbreviation (input) "OpInList \<equiv> ''in_list''"
abbreviation (input) "OpNotInList \<equiv> ''not_in_list''"
abbreviation (input) "OpGreaterThan \<equiv> ''greater_than''"
abbreviation (input) "OpGreaterThanOrEqual \<equiv> ''greater_than_or_equal''"
abbreviation (input) "OpLessThan \<equiv> ''less_than''"
abbreviation (input) "OpLessThanOrEqual \<equiv> ''less_than_or_equal''"
abbreviation (input) "OpRegex \<equiv> ''regex''"

abbreviation (input) "ActionForceEnabled \<equiv> ''force_enabled''"
abbreviation (input) "ActionForceDisabled \<equiv> ''force_disabled''"
abbreviation (input) "ActionServeVariant \<equiv> ''serve_variant''"

abbreviation (input) "ReasonKillSwitchDisabled \<equiv> ''KILL_SWITCH_DISABLED''"
abbreviation (input) "ReasonEnvDisabled \<equiv> ''ENV_DISABLED''"
abbreviation (input) "ReasonTargetingRuleMatch \<equiv> ''TARGETING_RULE_MATCH''"
abbreviation (input) "ReasonPercentageBucket \<equiv> ''PERCENTAGE_ROLLOUT_BUCKET''"
abbreviation (input) "ReasonPercentageExcluded \<equiv> ''PERCENTAGE_ROLLOUT_EXCLUDED''"
abbreviation (input) "ReasonMultivariateBucket \<equiv> ''MULTIVARIATE_BUCKET''"
abbreviation (input) "ReasonDefaultEnabled \<equiv> ''DEFAULT_ENABLED''"

section \<open>Data\<close>

text \<open>
  A dynamic value (\<open>interface{}\<close>), by its dynamic type; \<open>GStringer\<close> carries the text its \<open>String()\<close>
  method returns, \<open>GOther\<close> (a slice, a map, any other type) the text of the verb \<open>%v\<close>.
\<close>

datatype gvalue = GNil | GString string | GStringer string | GBool bool | GInt "64 word"
  | GInt64 "64 word" | GFloat f64 | GOther string

record TargetingRule =
  tr_ID :: string
  tr_Name :: string
  tr_Attribute :: string
  tr_CustomKey :: string
  tr_Operator :: string
  tr_Values :: "string list"
  tr_Action :: string
  tr_ServeVariant :: string

record FlagVariant =
  fv_Key :: string
  fv_Name :: string
  fv_Value :: gvalue
  fv_Weight :: f64
  fv_Description :: string

record EnvironmentConfig =
  ec_Enabled :: bool
  ec_Strategy :: string
  ec_Percentage :: f64
  ec_Rules :: "TargetingRule list"
  ec_Variants :: "FlagVariant list"
  ec_DefaultVariant :: string
  ec_OffVariant :: string
  ec_RequiresApproval :: bool

record FeatureFlag =
  ff_ID :: string
  ff_ProjectID :: string
  ff_ConfigVersion :: "64 word"
  ff_Key :: string
  ff_Name :: string
  ff_Description :: string
  ff_Type :: string
  ff_Tags :: "string list"
  ff_Environments :: "(string, EnvironmentConfig) gomap"
  ff_CreatedAt :: gtime
  ff_UpdatedAt :: gtime

record EvaluationContext =
  cx_UserID :: string
  cx_Email :: string
  cx_Country :: string
  cx_Role :: string
  cx_Tier :: string
  cx_Environment :: string
  cx_Attributes :: "(string, gvalue) gomap"

record EvaluationResult =
  er_FlagKey :: string
  er_Enabled :: bool
  er_Variant :: string
  er_Value :: gvalue
  er_Reason :: string
  er_MatchedRuleID :: string
  er_MatchedRuleName :: string
  er_BucketVal :: "f64 option"
  er_BucketThreshold :: "f64 option"
  er_HashRaw :: string
  er_EvaluationLatencyNs :: int
  er_EvaluationLatencyUs :: f64

record AuditLogEntry =
  al_ID :: string
  al_ProjectID :: string
  al_Timestamp :: gtime
  al_Actor :: string
  al_Action :: string
  al_FlagKey :: string
  al_Environment :: string
  al_Details :: string
  al_PrevHash :: string
  al_EntryHash :: string

text \<open>The zero values of the Go types.\<close>

definition zero_env_config :: EnvironmentConfig where
  "zero_env_config = \<lparr>ec_Enabled = False, ec_Strategy = [], ec_Percentage = Fin 0, ec_Rules = [],
     ec_Variants = [], ec_DefaultVariant = [], ec_OffVariant = [], ec_RequiresApproval = False\<rparr>"

definition zero_result :: EvaluationResult where
  "zero_result = \<lparr>er_FlagKey = [], er_Enabled = False, er_Variant = [], er_Value = GNil,
     er_Reason = [], er_MatchedRuleID = [], er_MatchedRuleName = [], er_BucketVal = None,
     er_BucketThreshold = None, er_HashRaw = [], er_EvaluationLatencyNs = 0,
     er_EvaluationLatencyUs = Fin 0\<rparr>"

definition zero_audit :: AuditLogEntry where
  "zero_audit = \<lparr>al_ID = [], al_ProjectID = [], al_Timestamp = 0, al_Actor = [], al_Action = [],
     al_FlagKey = [], al_Environment = [], al_Details = [], al_PrevHash = [], al_EntryHash = []\<rparr>"

section \<open>Operations\<close>

text \<open>The regular expression \<open>^[a-zA-Z0-9_-]{1,64}$\<close>.\<close>

definition flag_key_char :: "char \<Rightarrow> bool" where
  "flag_key_char c = (let n = byte_of c in
     97 \<le> n \<and> n \<le> 122 \<or> 65 \<le> n \<and> n \<le> 90 \<or> 48 \<le> n \<and> n \<le> 57 \<or> c = CHR ''_'' \<or> c = CHR ''-'')"

definition IsValidFlagKey :: "string \<Rightarrow> bool" where
  "IsValidFlagKey key = (1 \<le> length key \<and> length key \<le> 64 \<and> list_all flag_key_char key)"

definition EnvConfig :: "FeatureFlag \<Rightarrow> string \<Rightarrow> EnvironmentConfig" where
  "EnvConfig f env = (case mget (ff_Environments f) env of Some cfg \<Rightarrow> cfg | None \<Rightarrow> zero_env_config)"

definition ProdConfig :: "FeatureFlag \<Rightarrow> EnvironmentConfig" where
  "ProdConfig f = EnvConfig f ''production''"

definition IsProdEnabled :: "FeatureFlag \<Rightarrow> bool" where
  "IsProdEnabled f = ec_Enabled (ProdConfig f)"

definition ProdPercentage :: "FeatureFlag \<Rightarrow> f64" where
  "ProdPercentage f = ec_Percentage (ProdConfig f)"

definition ProdStrategy :: "FeatureFlag \<Rightarrow> string" where
  "ProdStrategy f = (let strat = ec_Strategy (ProdConfig f) in if strat = [] then ''boolean'' else strat)"

definition ProdRulesCount :: "FeatureFlag \<Rightarrow> int" where
  "ProdRulesCount f = int (length (ec_Rules (ProdConfig f)))"

definition DeepCopy_rule :: "TargetingRule \<Rightarrow> TargetingRule" where
  "DeepCopy_rule r = r\<lparr>tr_Values := map (\<lambda>v. v) (tr_Values r)\<rparr>"

definition DeepCopy_config :: "EnvironmentConfig \<Rightarrow> EnvironmentConfig" where
  "DeepCopy_config c = c\<lparr>ec_Rules := map DeepCopy_rule (ec_Rules c),
     ec_Variants := map (\<lambda>v. v) (ec_Variants c)\<rparr>"

definition DeepCopy :: "FeatureFlag \<Rightarrow> FeatureFlag" where
  "DeepCopy f = f\<lparr>ff_Tags := map (\<lambda>t. t) (ff_Tags f),
     ff_Environments := map (\<lambda>(k, v). (k, DeepCopy_config v)) (ff_Environments f)\<rparr>"

fun check_weights :: "f64 \<Rightarrow> FlagVariant list \<Rightarrow> gerror + f64" where
  "check_weights tot [] = Inr tot"
| "check_weights tot (v # vs) =
     (if flt (fv_Weight v) (Fin 0)
      then Inl (Errorf (''variant '' @ quoted (fv_Key v) @ '' has negative weight: ''
        @ FormatFixed 2 (fv_Weight v)))
      else check_weights (fadd tot (fv_Weight v)) vs)"

text \<open>The constant \<open>0.01\<close> of the source is the \<open>float64\<close> nearest to it.\<close>

definition ValidateEnvironmentConfig :: "EnvironmentConfig \<Rightarrow> gerror option" where
  "ValidateEnvironmentConfig cfg =
     (if ec_Strategy cfg = StrategyMultivariate then
        if length (ec_Variants cfg) = 0
        then Some (Errorf ''multivariate strategy requires at least one variant'')
        else (case check_weights (Fin 0) (ec_Variants cfg) of
                Inl e \<Rightarrow> Some e
              | Inr tot \<Rightarrow>
                  if flt (fl (1 / 100)) (fabs (fsub tot (Fin 100)))
                  then Some (Errorf (''multivariate variant weights must sum to 100% (current sum: ''
                    @ FormatFixed 2 tot @ ''%)''))
                  else None)
      else None)"

fun validate_envs :: "(string \<times> EnvironmentConfig) list \<Rightarrow> gerror option" where
  "validate_envs [] = None"
| "validate_envs ((env, cfg) # rest) =
     (case ValidateEnvironmentConfig cfg of
        Some err \<Rightarrow> Some (Wrapf (''invalid config for environment '' @ quoted env @ '': '') err)
      | None \<Rightarrow> validate_envs rest)"

definition ValidateFeatureFlag :: "EnvironmentConfig iter \<Rightarrow> FeatureFlag \<Rightarrow> gerror option" where
  "ValidateFeatureFlag ord flag = validate_envs (ord (ff_Environments flag))"

section \<open>Lemmas\<close>

lemma DeepCopy_rule_id [simp]: "DeepCopy_rule r = r"
  by (simp add: DeepCopy_rule_def)

lemma DeepCopy_config_id [simp]: "DeepCopy_config c = c"
  by (simp add: DeepCopy_config_def map_idI)

lemma DeepCopy_id [simp]: "DeepCopy f = f"
  by (simp add: DeepCopy_def map_idI)

lemma validate_envs_None:
  "validate_envs es = None \<longleftrightarrow> (\<forall>(env, cfg) \<in> set es. ValidateEnvironmentConfig cfg = None)"
  by (induction es rule: validate_envs.induct) (auto split: option.splits)

lemma check_weights_nonneg:
  "check_weights t vs = Inr tot \<Longrightarrow> v \<in> set vs \<Longrightarrow> \<not> flt (fv_Weight v) (Fin 0)"
  by (induction t vs arbitrary: tot rule: check_weights.induct) (auto split: if_splits)

section \<open>Properties\<close>

text \<open>
  \<open>ValidateFeatureFlag\<close> accepts a flag exactly when every environment configuration is valid,
  whatever order the range over the map takes; an accepted multivariate configuration has at
  least one variant and no variant of negative weight.
\<close>

theorem ValidateFeatureFlag_correct:
  assumes "is_order ord"
  shows "(ValidateFeatureFlag ord flag = None \<longleftrightarrow>
      (\<forall>(env, cfg) \<in> set (ff_Environments flag). ValidateEnvironmentConfig cfg = None))
    \<and> (\<forall>cfg. ValidateEnvironmentConfig cfg = None \<longrightarrow> ec_Strategy cfg = ''multivariate'' \<longrightarrow>
         ec_Variants cfg \<noteq> [] \<and> (\<forall>v \<in> set (ec_Variants cfg). \<not> flt (fv_Weight v) (Fin 0)))"
proof
  show "ValidateFeatureFlag ord flag = None \<longleftrightarrow>
      (\<forall>(env, cfg) \<in> set (ff_Environments flag). ValidateEnvironmentConfig cfg = None)"
    by (simp add: ValidateFeatureFlag_def validate_envs_None is_order_set [OF assms])
  show "\<forall>cfg. ValidateEnvironmentConfig cfg = None \<longrightarrow> ec_Strategy cfg = ''multivariate'' \<longrightarrow>
      ec_Variants cfg \<noteq> [] \<and> (\<forall>v \<in> set (ec_Variants cfg). \<not> flt (fv_Weight v) (Fin 0))"
    by (auto simp: ValidateEnvironmentConfig_def dest: check_weights_nonneg split: if_splits sum.splits)
qed

theorem ValidateFeatureFlag_correct_witness:
  "ValidateFeatureFlag rev \<lparr>ff_ID = [], ff_ProjectID = [], ff_ConfigVersion = 1, ff_Key = ''k'', ff_Name = [],
     ff_Description = [], ff_Type = [], ff_Tags = [],
     ff_Environments = [(''production'', zero_env_config\<lparr>ec_Strategy := ''boolean''\<rparr>)],
     ff_CreatedAt = 0, ff_UpdatedAt = 0\<rparr> = None"
  using ValidateFeatureFlag_correct [OF is_order_rev]
  by (simp add: ValidateEnvironmentConfig_def zero_env_config_def)

end
