(* ===== verification/Bucketing.thy ===== *)
theory Bucketing
  imports Strconv
begin

text \<open>
  Percentage arithmetic shared by the server-side engine and the Go SDK. Both hash an identifier
  to a slot \<open>0..9999\<close> and turn the slot into a percentage with \<open>float64\<close> arithmetic. The locale
  \<open>sticky_bucketing\<close> states what the evaluators rely on (the bucket is the \<open>float64\<close> nearest to
  \<open>slot / 100\<close>) and derives the rollout laws from it once; each evaluator interprets it.
\<close>

section \<open>Hundredths in binary64\<close>

lemma centi_normal:
  assumes "0 < k"
  shows "2 powi (- 1022) \<le> \<bar>of_nat k / 100 :: rat\<bar>"
proof -
  have "(2::rat) powi (- 1022) \<le> 2 powi (- 7)"
    by (rule power_int_increasing) auto
  also have "(2::rat) powi (- 7) = 1 / 128" by (simp add: power_int_minus)
  also have "(1::rat) / 128 \<le> 1 / 100" by simp
  also have "(1::rat) / 100 \<le> \<bar>of_nat k / 100\<bar>"
    using assms by (simp add: divide_right_mono)
  finally show ?thesis .
qed

lemma centi_small:
  assumes "k \<le> 10000"
  shows "\<bar>of_nat k / 100 :: rat\<bar> \<le> 100"
  using assms by (simp add: of_nat_le_iff [where 'a = rat, of k 10000, simplified])

lemma centi_fl:
  assumes "k \<le> 10000"
  shows "fl (of_nat k / 100) = Fin (rndq (of_nat k / 100))"
proof (cases "k = 0")
  case True
  then show ?thesis using rndq_int [of 0] by simp
next
  case False
  have "(100::rat) \<le> 2 ^ 1000"
  proof -
    have "(100::rat) \<le> 2 ^ 7" by simp
    also have "(2::rat) ^ 7 \<le> 2 ^ 1000" by (rule power_increasing) auto
    finally show ?thesis .
  qed
  with centi_small [OF assms] have "\<bar>of_nat k / 100 :: rat\<bar> \<le> 2 ^ 1000" by (rule order_trans)
  with centi_normal False show ?thesis by (intro fl_normal) auto
qed

lemma centi_err:
  assumes "k \<le> 10000"
  shows "\<bar>rndq (of_nat k / 100) - of_nat k / 100\<bar> \<le> 1 / 1000000"
proof (cases "k = 0")
  case True
  then show ?thesis using rndq_int [of 0] by simp
next
  case False
  have "\<bar>rndq (of_nat k / 100) - of_nat k / 100\<bar> \<le> \<bar>of_nat k / 100 :: rat\<bar> / 2 ^ 53"
    using centi_normal False by (intro rndq_err) auto
  also have "\<dots> \<le> 100 / 2 ^ 53"
    using centi_small [OF assms] by (rule divide_right_mono) simp
  also have "\<dots> \<le> (1 / 1000000 :: rat)" by simp
  finally show ?thesis .
qed

lemma centi_gap:
  assumes "j < k"
  shows "of_nat j / 100 + 1 / 100 \<le> (of_nat k / 100 :: rat)"
proof -
  have "Suc j \<le> k" using assms by simp
  then have "of_nat (Suc j) \<le> (of_nat k :: rat)" by (simp only: of_nat_le_iff)
  then show ?thesis by simp
qed

lemma centi_less_iff:
  assumes "j \<le> 10000" and "k \<le> 10000"
  shows "rndq (of_nat j / 100) < rndq (of_nat k / 100) \<longleftrightarrow> j < k"
proof (cases j k rule: linorder_cases)
  case less
  then have "rndq (of_nat j / 100) < rndq (of_nat k / 100)"
    using centi_gap [OF less] centi_err [OF assms(1)] centi_err [OF assms(2)] by linarith
  with less show ?thesis by simp
next
  case greater
  then have "rndq (of_nat k / 100) < rndq (of_nat j / 100)"
    using centi_gap [OF greater] centi_err [OF assms(1)] centi_err [OF assms(2)] by linarith
  with greater show ?thesis by simp
qed simp

lemma centi_less_int_iff:
  assumes "j \<le> 10000"
  shows "rndq (of_nat j / 100) < of_nat w \<longleftrightarrow> j < 100 * w"
proof (cases "j < 100 * w")
  case True
  then have "of_nat j / 100 + 1 / 100 \<le> (of_nat (100 * w) / 100 :: rat)" by (rule centi_gap)
  also have "of_nat (100 * w) / 100 = (of_nat w :: rat)" by simp
  finally have "rndq (of_nat j / 100) < of_nat w" using centi_err [OF assms] by linarith
  with True show ?thesis by simp
next
  case False
  show ?thesis
  proof (cases "j = 100 * w")
    case True
    then have "rndq (of_nat j / 100) = of_nat w"
    proof -
      have "\<bar>int w\<bar> < 2 ^ 53" using True assms by simp
      then have "rndq (of_int (int w)) = of_int (int w)" by (rule rndq_int)
      with True show ?thesis by simp
    qed
    with False show ?thesis by simp
  next
    case neq: False
    with False have "100 * w < j" by simp
    then have "of_nat (100 * w) / 100 + 1 / 100 \<le> (of_nat j / 100 :: rat)" by (rule centi_gap)
    moreover have "of_nat (100 * w) / 100 = (of_nat w :: rat)" by simp
    ultimately have "of_nat w < rndq (of_nat j / 100)" using centi_err [OF assms] by linarith
    with False show ?thesis by simp
  qed
qed

text \<open>
  \<open>math.Round((slot/100.0)*100) / 100\<close>: the inner division and multiplication each round, and
  \<open>math.Round\<close> recovers the slot exactly.
\<close>

definition bucket_of_slot :: "nat \<Rightarrow> f64" where
  "bucket_of_slot s =
     fdiv (fround (fmul (fdiv (f64_of_int (int s)) (Fin 100)) (Fin 100))) (Fin 100)"

lemma fround_near:
  assumes "\<bar>q - of_nat s\<bar> < 1 / 2" and "0 \<le> q"
  shows "fround (Fin q) = Fin (of_nat s)"
proof -
  have "\<lfloor>q + 1 / 2\<rfloor> = int s"
  proof (rule floor_unique)
    show "of_int (int s) \<le> q + 1 / 2" using assms unfolding of_int_of_nat_eq by linarith
    show "q + 1 / 2 < of_int (int s) + 1" using assms unfolding of_int_of_nat_eq by linarith
  qed
  with assms show ?thesis by simp
qed

lemma bucket_of_slot_exact:
  assumes s: "s < 10000"
  shows "bucket_of_slot s = fl (of_nat s / 100)"
proof (cases "s = 0")
  case True
  have "\<lfloor>1 / 2 :: rat\<rfloor> = 0" by (rule floor_unique) auto
  with True show ?thesis
    by (simp add: bucket_of_slot_def f64_of_int_def fdiv_def fmul_def is_fin_def signed_zero_def)
next
  case False
  let ?a = "rndq (of_nat s / 100)"
  have s0: "f64_of_int (int s) = Fin (of_nat s)"
    using s f64_of_int_exact [of "int s"] by simp
  have a: "fdiv (Fin (of_nat s)) (Fin 100) = Fin ?a"
    using False s centi_fl [of s] by (simp add: fdiv_def is_fin_def)
  have ea: "\<bar>?a - of_nat s / 100\<bar> \<le> 1 / 1000000" using s by (intro centi_err) simp
  have sr: "1 \<le> (of_nat s :: rat)" "(of_nat s :: rat) \<le> 10000"
    using False s by (auto simp: of_nat_le_iff [where 'a = rat, of s 10000, simplified])
  have a0: "0 < ?a" using ea sr by linarith
  let ?m = "?a * 100"
  have em: "\<bar>?m - of_nat s\<bar> \<le> 1 / 10000" using ea by linarith
  have m1: "1 / 2 \<le> ?m" "?m \<le> 10001" using em sr by linarith+
  have mn: "2 powi (- 1022) \<le> \<bar>?m\<bar>"
  proof -
    have "(2::rat) powi (- 1022) \<le> 2 powi (- 1)" by (rule power_int_increasing) auto
    with m1 show ?thesis by simp
  qed
  have "(10001::rat) \<le> 2 ^ 1000"
  proof -
    have "(10001::rat) \<le> 2 ^ 14" by simp
    also have "(2::rat) ^ 14 \<le> 2 ^ 1000" by (rule power_increasing) auto
    finally show ?thesis .
  qed
  with m1 have ml: "\<bar>?m\<bar> \<le> 2 ^ 1000" by linarith
  have b: "fmul (Fin ?a) (Fin 100) = Fin (rndq ?m)"
    using a0 fl_normal(1) [OF mn ml] by (simp add: fmul_def is_fin_def)
  have b0: "0 < rndq ?m" using fl_normal(2) [OF mn ml] m1 by linarith
  have "\<bar>rndq ?m - ?m\<bar> \<le> \<bar>?m\<bar> / 2 ^ 53" by (rule rndq_err [OF mn])
  also have "\<dots> \<le> 10001 / 2 ^ 53" using m1 by (intro divide_right_mono) auto
  also have "\<dots> \<le> (1 / 10000 :: rat)" by simp
  finally have "\<bar>rndq ?m - of_nat s\<bar> < 1 / 2" using em by linarith
  then have "fround (Fin (rndq ?m)) = Fin (of_nat s)" using b0 by (intro fround_near) auto
  then have "bucket_of_slot s = fdiv (Fin (of_nat s)) (Fin 100)"
    by (simp only: bucket_of_slot_def s0 a b)
  also have "\<dots> = fl (of_nat s / 100)" using a centi_fl [of s] s by simp
  finally show ?thesis .
qed

section \<open>The bucketing interface\<close>

locale sticky_bucketing =
  fixes bucket :: "string \<Rightarrow> string \<Rightarrow> f64"
    and slot :: "string \<Rightarrow> string \<Rightarrow> nat"
  assumes slot_bound: "slot i s < 10000"
    and bucket_slot: "bucket i s = fl (of_nat (slot i s) / 100)"
begin

lemma bucket_Fin: "bucket i s = Fin (rndq (of_nat (slot i s) / 100))"
  using slot_bound [of i s] by (simp add: bucket_slot centi_fl)

lemma bucket_range: "fle (Fin 0) (bucket i s)" "flt (bucket i s) (Fin 100)"
proof -
  have s: "slot i s \<le> 10000" using slot_bound [of i s] by simp
  have "\<not> rndq (of_nat (slot i s) / 100) < of_nat 0"
    using centi_less_int_iff [OF s, of 0] by simp
  then show "fle (Fin 0) (bucket i s)" by (simp add: bucket_Fin)
  have "rndq (of_nat (slot i s) / 100) < of_nat 100"
    using centi_less_int_iff [OF s, of 100] slot_bound [of i s] by simp
  then show "flt (bucket i s) (Fin 100)" by (simp add: bucket_Fin)
qed

lemma bucket_less_centi:
  "k \<le> 10000 \<Longrightarrow> flt (bucket i s) (fl (of_nat k / 100)) \<longleftrightarrow> slot i s < k"
  using slot_bound [of i s] by (simp add: bucket_Fin centi_fl centi_less_iff)

lemma bucket_less_int: "flt (bucket i s) (Fin (of_nat w)) \<longleftrightarrow> slot i s < 100 * w"
  using slot_bound [of i s] by (simp add: bucket_Fin centi_less_int_iff)

lemma full_rollout: "fle (Fin 100) p \<Longrightarrow> flt (bucket i s) p"
  using bucket_range(2) by (rule flt_trans_le)

lemma empty_rollout: "fle p (Fin 0) \<Longrightarrow> \<not> flt (bucket i s) p"
  using bucket_range(1) [of i s] by (cases p) (auto simp: bucket_Fin f64_simps)

lemma rollout_mono: "flt (bucket i s) p \<Longrightarrow> fle p q \<Longrightarrow> flt (bucket i s) q"
  by (rule flt_trans_le)

end

end
