(* ===== verification/Engine.thy ===== *)
theory Engine
  imports Domain_Flag Bucketing
begin

text \<open>
  \<open>src/pkg/engine/evaluator.go\<close>: hashing and bucketing, targeting rules, multivariate variants and
  \<open>EvaluateFlag\<close>. The package-level regular-expression cache is passed through every call that may
  read or fill it. The elapsed time, which the code only reports, is the argument \<open>ns\<close>.
\<close>

unbundle bit_operations_syntax

type_synonym regex_cache = "(string, string \<Rightarrow> bool) gomap"

section \<open>Definitions\<close>

definition getOrCompileRegex :: "runtime \<Rightarrow> regex_cache \<Rightarrow> string \<Rightarrow> (string \<Rightarrow> bool) option \<times> regex_cache" where
  "getOrCompileRegex rt cache patternStr =
     (case mget cache patternStr of
        Some re \<Rightarrow> (Some re, cache)
      | None \<Rightarrow>
          (case rt_regexp rt patternStr of
             None \<Rightarrow> (None, cache)
           | Some re \<Rightarrow> (Some re, mput patternStr re cache)))"

text \<open>\<open>fnv.New64a\<close>: offset basis and prime of 64-bit FNV-1a.\<close>

definition FNV1a64 :: "string \<Rightarrow> 64 word" where
  "FNV1a64 input =
     fold (\<lambda>c h. (h XOR of_nat (byte_of c)) * 1099511628211) input 14695981039346656037"

definition GetStickyBucket :: "string \<Rightarrow> string \<Rightarrow> f64 \<times> string" where
  "GetStickyBucket identifier salt =
     (let combined = identifier @ '':'' @ salt;
          hash = FNV1a64 combined;
          slot = f64_of_int (uint (hash mod 10000));
          bucket = fdiv (fround (fmul (fdiv slot (Fin 100)) (Fin 100))) (Fin 100);
          hashRaw = FormatHex (uint hash)
      in (bucket, hashRaw))"

fun toRawStringFast :: "runtime \<Rightarrow> gvalue \<Rightarrow> string" where
  "toRawStringFast rt (GString v) = TrimSpace rt v"
| "toRawStringFast rt (GStringer v) = TrimSpace rt v"
| "toRawStringFast rt (GBool v) = (if v then ''true'' else ''false'')"
| "toRawStringFast rt (GInt v) = Itoa (sint v)"
| "toRawStringFast rt (GInt64 v) = Itoa (sint v)"
| "toRawStringFast rt (GFloat v) = FormatFloat v"
| "toRawStringFast rt (GOther v) = TrimSpace rt v"
| "toRawStringFast rt GNil = TrimSpace rt ''<nil>''"

fun toStringFast :: "runtime \<Rightarrow> gvalue \<Rightarrow> string" where
  "toStringFast rt (GString v) = ToLower rt (TrimSpace rt v)"
| "toStringFast rt (GStringer v) = ToLower rt (TrimSpace rt v)"
| "toStringFast rt (GBool v) = (if v then ''true'' else ''false'')"
| "toStringFast rt (GInt v) = Itoa (sint v)"
| "toStringFast rt (GInt64 v) = Itoa (sint v)"
| "toStringFast rt (GFloat v) = FormatFloat v"
| "toStringFast rt (GOther v) = ToLower rt (TrimSpace rt v)"
| "toStringFast rt GNil = ToLower rt (TrimSpace rt ''<nil>'')"

text \<open>The \<open>switch rule.Attribute\<close> that selects the context value.\<close>

definition rule_target :: "TargetingRule \<Rightarrow> EvaluationContext \<Rightarrow> gvalue" where
  "rule_target rule ctx =
     (if tr_Attribute rule = AttrUserID then GString (cx_UserID ctx)
      else if tr_Attribute rule = AttrEmail then GString (cx_Email ctx)
      else if tr_Attribute rule = AttrCountry then GString (cx_Country ctx)
      else if tr_Attribute rule = AttrRole then GString (cx_Role ctx)
      else if tr_Attribute rule = AttrTier then GString (cx_Tier ctx)
      else if tr_Attribute rule = AttrCustom then
        (if tr_CustomKey rule \<noteq> [] then
           (case mget (cx_Attributes ctx) (tr_CustomKey rule) of Some v \<Rightarrow> v | None \<Rightarrow> GNil)
         else GNil)
      else GNil)"

text \<open>The four numeric operators parse the value and the first, untrimmed, rule value.\<close>

definition numeric_rule :: "(f64 \<Rightarrow> f64 \<Rightarrow> bool) \<Rightarrow> string \<Rightarrow> string list \<Rightarrow> bool" where
  "numeric_rule cmp strVal vs =
     (case ParseFloat strVal of
        None \<Rightarrow> False
      | Some numVal \<Rightarrow>
          (case vs of
             [] \<Rightarrow> False
           | v # _ \<Rightarrow>
               (case ParseFloat v of None \<Rightarrow> False | Some threshold \<Rightarrow> cmp numVal threshold)))"

definition EvaluateRule ::
  "runtime \<Rightarrow> regex_cache \<Rightarrow> TargetingRule \<Rightarrow> EvaluationContext \<Rightarrow> bool \<times> regex_cache" where
  "EvaluateRule rt cache rule ctx =
     (let targetVal = rule_target rule ctx in
      if targetVal = GNil then (False, cache)
      else let strVal = toStringFast rt targetVal in
        if strVal = [] then (False, cache)
        else let op = tr_Operator rule; vs = tr_Values rule;
                 norm = (\<lambda>v. ToLower rt (TrimSpace rt v))
          in
          if op = OpEquals then (list_ex (\<lambda>v. norm v = strVal) vs, cache)
          else if op = OpNotEquals then (\<not> list_ex (\<lambda>v. norm v = strVal) vs, cache)
          else if op = OpContains then (list_ex (\<lambda>v. Contains strVal (norm v)) vs, cache)
          else if op = OpNotContains then (\<not> list_ex (\<lambda>v. Contains strVal (norm v)) vs, cache)
          else if op = OpStartsWith then (list_ex (\<lambda>v. HasPrefix strVal (norm v)) vs, cache)
          else if op = OpEndsWith then (list_ex (\<lambda>v. HasSuffix strVal (norm v)) vs, cache)
          else if op = OpInList then (list_ex (\<lambda>v. norm v = strVal) vs, cache)
          else if op = OpNotInList then (\<not> list_ex (\<lambda>v. norm v = strVal) vs, cache)
          else if op = OpGreaterThan then (numeric_rule (\<lambda>a b. flt b a) strVal vs, cache)
          else if op = OpGreaterThanOrEqual then (numeric_rule (\<lambda>a b. fle b a) strVal vs, cache)
          else if op = OpLessThan then (numeric_rule flt strVal vs, cache)
          else if op = OpLessThanOrEqual then (numeric_rule fle strVal vs, cache)
          else if op = OpRegex then
            (case vs of
               [] \<Rightarrow> (False, cache)
             | v # _ \<Rightarrow>
                 (case getOrCompileRegex rt cache v of
                    (None, cache') \<Rightarrow> (False, cache')
                  | (Some re, cache') \<Rightarrow> (re (toRawStringFast rt targetVal), cache')))
          else (False, cache))"

definition default_variant :: FlagVariant where
  "default_variant = \<lparr>fv_Key = ''default'', fv_Name = ''Default'', fv_Value = GBool True,
     fv_Weight = Fin 100, fv_Description = []\<rparr>"

fun total_weight :: "f64 \<Rightarrow> FlagVariant list \<Rightarrow> f64" where
  "total_weight tot [] = tot"
| "total_weight tot (v # vs) =
     total_weight (if flt (Fin 0) (fv_Weight v) then fadd tot (fv_Weight v) else tot) vs"

definition needs_normalizing :: "f64 \<Rightarrow> bool" where
  "needs_normalizing tot = (flt (Fin 0) tot \<and> flt (fl (1 / 1000)) (fabs (fsub tot (Fin 100))))"

text \<open>The selection loop; \<open>None\<close> is falling out of the loop.\<close>

fun pick_variant :: "f64 \<Rightarrow> f64 \<Rightarrow> f64 \<Rightarrow> FlagVariant list \<Rightarrow> FlagVariant option" where
  "pick_variant tot bucket cumulative [] = None"
| "pick_variant tot bucket cumulative (v # vs) =
     (let w = (if needs_normalizing tot then fmul (fdiv (fv_Weight v) tot) (Fin 100) else fv_Weight v);
          cumulative' = fadd cumulative w
      in if flt bucket cumulative' then Some v else pick_variant tot bucket cumulative' vs)"

definition ResolveMultivariateVariant ::
  "FlagVariant list \<Rightarrow> string \<Rightarrow> string \<Rightarrow> FlagVariant \<times> f64 \<times> string" where
  "ResolveMultivariateVariant variants identifier flagKey =
     (if length variants = 0 then (default_variant, Fin 0, ''0'')
      else let (bucket, hashRaw) = GetStickyBucket identifier (flagKey @ '':multivariate'');
               tot = total_weight (Fin 0) variants
           in (case pick_variant tot bucket (Fin 0) variants of
                 Some v \<Rightarrow> (v, bucket, hashRaw)
               | None \<Rightarrow> (last variants, bucket, hashRaw)))"

definition or_else :: "string \<Rightarrow> string \<Rightarrow> string" where
  "or_else s d = (if s = [] then d else s)"

text \<open>The identifier chain: user id, then email, then \<open>anonymous-user\<close>.\<close>

definition eval_identifier :: "EvaluationContext \<Rightarrow> string" where
  "eval_identifier ctx =
     (if cx_UserID ctx \<noteq> [] then cx_UserID ctx
      else if cx_Email ctx \<noteq> [] then cx_Email ctx else ''anonymous-user'')"

definition env_config :: "FeatureFlag \<Rightarrow> EvaluationContext \<Rightarrow> EnvironmentConfig" where
  "env_config flag ctx =
     (case mget (ff_Environments flag) (or_else (cx_Environment ctx) EnvProduction) of
        Some c \<Rightarrow> c
      | None \<Rightarrow> zero_env_config\<lparr>ec_Enabled := False, ec_Strategy := StrategyBoolean, ec_Percentage := Fin 0\<rparr>)"

definition latency_us :: "int \<Rightarrow> f64" where
  "latency_us ns = fdiv (f64_of_int ns) (Fin 1000)"

text \<open>The result of a matched rule, by the rule's action.\<close>

definition rule_result :: "int \<Rightarrow> FeatureFlag \<Rightarrow> EnvironmentConfig \<Rightarrow> TargetingRule \<Rightarrow> EvaluationResult" where
  "rule_result ns flag cfg rule =
     (let base = zero_result\<lparr>er_FlagKey := ff_Key flag, er_Reason := ReasonTargetingRuleMatch,
            er_MatchedRuleID := tr_ID rule, er_MatchedRuleName := tr_Name rule,
            er_EvaluationLatencyNs := ns, er_EvaluationLatencyUs := latency_us ns\<rparr>
      in if tr_Action rule = ActionForceDisabled then
           base\<lparr>er_Enabled := False, er_Variant := or_else (ec_OffVariant cfg) ''off'', er_Value := GBool False\<rparr>
         else if tr_Action rule = ActionServeVariant \<and> tr_ServeVariant rule \<noteq> [] then
           base\<lparr>er_Enabled := True, er_Variant := tr_ServeVariant rule,
             er_Value := (case find (\<lambda>v. fv_Key v = tr_ServeVariant rule) (ec_Variants cfg) of
                            Some v \<Rightarrow> fv_Value v | None \<Rightarrow> GBool True)\<rparr>
         else
           base\<lparr>er_Enabled := True, er_Variant := or_else (ec_DefaultVariant cfg) ''on'', er_Value := GBool True\<rparr>)"

fun first_match ::
  "runtime \<Rightarrow> regex_cache \<Rightarrow> EvaluationContext \<Rightarrow> TargetingRule list \<Rightarrow> TargetingRule option \<times> regex_cache" where
  "first_match rt cache ctx [] = (None, cache)"
| "first_match rt cache ctx (rule # rules) =
     (case EvaluateRule rt cache rule ctx of
        (True, cache') \<Rightarrow> (Some rule, cache')
      | (False, cache') \<Rightarrow> first_match rt cache' ctx rules)"

text \<open>Steps 3 to 5 of \<open>EvaluateFlag\<close>: percentage, multivariate, default.\<close>

definition strategy_result :: "int \<Rightarrow> FeatureFlag \<Rightarrow> EnvironmentConfig \<Rightarrow> string \<Rightarrow> EvaluationResult" where
  "strategy_result ns flag cfg identifier =
     (let base = zero_result\<lparr>er_FlagKey := ff_Key flag,
            er_EvaluationLatencyNs := ns, er_EvaluationLatencyUs := latency_us ns\<rparr>
      in if ec_Strategy cfg = StrategyPercentage then
           (let (bucket, hashRaw) = GetStickyBucket identifier (ff_Key flag);
                threshold = ec_Percentage cfg;
                isEnabled = flt bucket threshold
            in base\<lparr>er_Enabled := isEnabled,
                 er_Variant := (if isEnabled then or_else (ec_DefaultVariant cfg) ''treatment''
                                else or_else (ec_OffVariant cfg) ''control''),
                 er_Value := GBool isEnabled,
                 er_Reason := (if isEnabled then ReasonPercentageBucket else ReasonPercentageExcluded),
                 er_BucketVal := Some bucket, er_BucketThreshold := Some threshold,
                 er_HashRaw := hashRaw\<rparr>)
         else if ec_Strategy cfg = StrategyMultivariate then
           (let (v, bucket, hashRaw) = ResolveMultivariateVariant (ec_Variants cfg) identifier (ff_Key flag)
            in base\<lparr>er_Enabled := True, er_Variant := fv_Key v, er_Value := fv_Value v,
                 er_Reason := ReasonMultivariateBucket, er_BucketVal := Some bucket,
                 er_HashRaw := hashRaw\<rparr>)
         else
           base\<lparr>er_Enabled := True, er_Variant := or_else (ec_DefaultVariant cfg) ''on'',
             er_Value := GBool True, er_Reason := ReasonDefaultEnabled\<rparr>)"

definition EvaluateFlag ::
  "runtime \<Rightarrow> regex_cache \<Rightarrow> int \<Rightarrow> FeatureFlag \<Rightarrow> EvaluationContext \<Rightarrow> EvaluationResult \<times> regex_cache" where
  "EvaluateFlag rt cache ns flag ctx =
     (let cfg = env_config flag ctx; identifier = eval_identifier ctx in
      if \<not> ec_Enabled cfg then
        (zero_result\<lparr>er_FlagKey := ff_Key flag, er_Enabled := False,
           er_Variant := or_else (ec_OffVariant cfg) ''off'', er_Value := GBool False,
           er_Reason := ReasonKillSwitchDisabled,
           er_EvaluationLatencyNs := ns, er_EvaluationLatencyUs := latency_us ns\<rparr>, cache)
      else (case first_match rt cache ctx (ec_Rules cfg) of
              (Some rule, cache') \<Rightarrow> (rule_result ns flag cfg rule, cache')
            | (None, cache') \<Rightarrow> (strategy_result ns flag cfg identifier, cache')))"

section \<open>Bucketing\<close>

definition sticky_slot :: "string \<Rightarrow> string \<Rightarrow> nat" where
  "sticky_slot i s = unat (FNV1a64 (i @ '':'' @ s) mod 10000)"

lemma GetStickyBucket_slot: "fst (GetStickyBucket i s) = bucket_of_slot (sticky_slot i s)"
  by (simp add: GetStickyBucket_def bucket_of_slot_def sticky_slot_def Let_def)

lemma sticky_slot_bound: "sticky_slot i s < 10000"
  by (simp add: sticky_slot_def unat_mod_distrib)

interpretation engine_bucket: sticky_bucketing "\<lambda>i s. fst (GetStickyBucket i s)" sticky_slot
  by unfold_locales (simp_all add: sticky_slot_bound GetStickyBucket_slot bucket_of_slot_exact)

section \<open>The regular-expression cache\<close>

definition cache_ok :: "runtime \<Rightarrow> regex_cache \<Rightarrow> bool" where
  "cache_ok rt cache = (\<forall>p re. mget cache p = Some re \<longrightarrow> rt_regexp rt p = Some re)"

definition rule_matches :: "runtime \<Rightarrow> TargetingRule \<Rightarrow> EvaluationContext \<Rightarrow> bool" where
  "rule_matches rt rule ctx = fst (EvaluateRule rt [] rule ctx)"

lemma cache_ok_Nil [simp]: "cache_ok rt []"
  by (simp add: cache_ok_def)

lemma getOrCompileRegex_ok:
  assumes "cache_ok rt cache"
  shows "fst (getOrCompileRegex rt cache p) = rt_regexp rt p"
    and "cache_ok rt (snd (getOrCompileRegex rt cache p))"
  using assms
  by (auto simp: getOrCompileRegex_def cache_ok_def map_simps split: option.splits if_splits)

lemma getOrCompileRegex_cases:
  assumes "cache_ok rt cache"
  obtains cache' where "getOrCompileRegex rt cache p = (rt_regexp rt p, cache')" and "cache_ok rt cache'"
  using getOrCompileRegex_ok [OF assms, of p] by (metis prod.collapse)

lemma EvaluateRule_ok:
  assumes "cache_ok rt cache"
  shows "fst (EvaluateRule rt cache rule ctx) = rule_matches rt rule ctx"
    and "cache_ok rt (snd (EvaluateRule rt cache rule ctx))"
proof -
  have *: "fst (EvaluateRule rt cache rule ctx) = fst (EvaluateRule rt [] rule ctx)
    \<and> cache_ok rt (snd (EvaluateRule rt cache rule ctx))"
  proof (cases "tr_Operator rule = ''regex'' \<and> tr_Values rule \<noteq> []")
    case True
    then obtain v vs where v: "tr_Values rule = v # vs" by (cases "tr_Values rule") auto
    obtain c1 where c1: "getOrCompileRegex rt cache v = (rt_regexp rt v, c1)" "cache_ok rt c1"
      using assms by (rule getOrCompileRegex_cases)
    obtain c2 where c2: "getOrCompileRegex rt [] v = (rt_regexp rt v, c2)"
      using getOrCompileRegex_cases [OF cache_ok_Nil] by blast
    show ?thesis
      using True v c1 c2 assms
      by (auto simp: EvaluateRule_def Let_def split: option.splits)
  next
    case False
    then show ?thesis
      using assms by (auto simp: EvaluateRule_def Let_def split: list.splits)
  qed
  show "fst (EvaluateRule rt cache rule ctx) = rule_matches rt rule ctx"
    and "cache_ok rt (snd (EvaluateRule rt cache rule ctx))"
    using * by (simp_all add: rule_matches_def)
qed

lemma first_match_ok:
  assumes "cache_ok rt cache"
  shows "fst (first_match rt cache ctx rules) = find (\<lambda>r. rule_matches rt r ctx) rules"
    and "cache_ok rt (snd (first_match rt cache ctx rules))"
proof -
  have "fst (first_match rt cache ctx rules) = find (\<lambda>r. rule_matches rt r ctx) rules
    \<and> cache_ok rt (snd (first_match rt cache ctx rules))"
    using assms
  proof (induction rt cache ctx rules rule: first_match.induct)
    case (2 rt cache ctx rule rules)
    obtain b c where bc: "EvaluateRule rt cache rule ctx = (b, c)" by fastforce
    with EvaluateRule_ok [OF "2.prems", of rule ctx]
    have "b = rule_matches rt rule ctx" and "cache_ok rt c" by simp_all
    with "2.IH" bc show ?case by (cases b) auto
  qed simp
  then show "fst (first_match rt cache ctx rules) = find (\<lambda>r. rule_matches rt r ctx) rules"
    and "cache_ok rt (snd (first_match rt cache ctx rules))" by simp_all
qed

section \<open>Evaluation\<close>

definition kill_result :: "int \<Rightarrow> FeatureFlag \<Rightarrow> EnvironmentConfig \<Rightarrow> EvaluationResult" where
  "kill_result ns flag cfg = zero_result\<lparr>er_FlagKey := ff_Key flag, er_Enabled := False,
     er_Variant := or_else (ec_OffVariant cfg) ''off'', er_Value := GBool False,
     er_Reason := ''KILL_SWITCH_DISABLED'',
     er_EvaluationLatencyNs := ns, er_EvaluationLatencyUs := latency_us ns\<rparr>"

lemma EvaluateFlag_cases:
  assumes "cache_ok rt cache"
  shows "fst (EvaluateFlag rt cache ns flag ctx) =
      (let cfg = env_config flag ctx in
       if \<not> ec_Enabled cfg then kill_result ns flag cfg
       else case find (\<lambda>r. rule_matches rt r ctx) (ec_Rules cfg) of
           Some r \<Rightarrow> rule_result ns flag cfg r
         | None \<Rightarrow> strategy_result ns flag cfg (eval_identifier ctx))"
    and "cache_ok rt (snd (EvaluateFlag rt cache ns flag ctx))"
proof -
  let ?cfg = "env_config flag ctx"
  obtain m c where mc: "first_match rt cache ctx (ec_Rules ?cfg) = (m, c)" by fastforce
  with first_match_ok [OF assms, of ctx "ec_Rules ?cfg"]
  have m: "m = find (\<lambda>r. rule_matches rt r ctx) (ec_Rules ?cfg)" and c: "cache_ok rt c" by simp_all
  show "fst (EvaluateFlag rt cache ns flag ctx) =
      (let cfg = env_config flag ctx in
       if \<not> ec_Enabled cfg then kill_result ns flag cfg
       else case find (\<lambda>r. rule_matches rt r ctx) (ec_Rules cfg) of
           Some r \<Rightarrow> rule_result ns flag cfg r
         | None \<Rightarrow> strategy_result ns flag cfg (eval_identifier ctx))"
    using mc by (auto simp: EvaluateFlag_def kill_result_def Let_def simp flip: m split: option.splits)
  show "cache_ok rt (snd (EvaluateFlag rt cache ns flag ctx))"
    using mc c assms by (auto simp: EvaluateFlag_def Let_def split: option.splits)
qed

lemma rule_result_fields [simp]:
  "er_Reason (rule_result ns flag cfg r) = ''TARGETING_RULE_MATCH''"
  "er_MatchedRuleID (rule_result ns flag cfg r) = tr_ID r"
  "er_FlagKey (rule_result ns flag cfg r) = ff_Key flag"
  by (simp_all add: rule_result_def Let_def zero_result_def)

lemma rule_result_enabled [simp]:
  "er_Enabled (rule_result ns flag cfg r) \<longleftrightarrow> tr_Action r \<noteq> ''force_disabled''"
  by (simp add: rule_result_def Let_def)

lemma strategy_result_enabled:
  "er_Enabled (strategy_result ns flag cfg i) \<longleftrightarrow>
     (ec_Strategy cfg = ''percentage'' \<longrightarrow> flt (fst (GetStickyBucket i (ff_Key flag))) (ec_Percentage cfg))"
  by (simp add: strategy_result_def Let_def split_beta)

lemma EvaluateFlag_enabled:
  assumes "cache_ok rt cache"
  shows "er_Enabled (fst (EvaluateFlag rt cache ns flag ctx)) \<longleftrightarrow>
    (let cfg = env_config flag ctx in ec_Enabled cfg \<and>
      (case find (\<lambda>r. rule_matches rt r ctx) (ec_Rules cfg) of
         Some r \<Rightarrow> tr_Action r \<noteq> ''force_disabled''
       | None \<Rightarrow> ec_Strategy cfg = ''percentage'' \<longrightarrow>
           flt (fst (GetStickyBucket (eval_identifier ctx) (ff_Key flag))) (ec_Percentage cfg)))"
  by (simp add: EvaluateFlag_cases(1) [OF assms] strategy_result_enabled kill_result_def zero_result_def
      Let_def split: option.splits)

section \<open>Integer variant weights\<close>

lemma fadd_int:
  assumes "a + b < 2 ^ 53"
  shows "fadd (Fin (of_nat a)) (Fin (of_nat b)) = Fin (of_nat (a + b))"
proof -
  have "fl (of_int (int (a + b))) = Fin (of_int (int (a + b)))"
    using assms by (intro fl_int) (simp add: of_nat_less_iff [where 'a = int, of "a + b" "2 ^ 53", simplified])
  then show ?thesis by (simp add: fadd_def is_fin_def)
qed

lemma total_weight_int:
  assumes "map fv_Weight vs = map (\<lambda>n. Fin (of_nat n)) ws" and "a + sum_list ws < 2 ^ 53"
  shows "total_weight (Fin (of_nat a)) vs = Fin (of_nat (a + sum_list ws))"
  using assms
proof (induction vs arbitrary: a ws)
  case (Cons v vs)
  then obtain w ws' where w: "ws = w # ws'" "fv_Weight v = Fin (of_nat w)"
      "map fv_Weight vs = map (\<lambda>n. Fin (of_nat n)) ws'" by auto
  have "total_weight (Fin (of_nat (a + w))) vs = Fin (of_nat (a + w + sum_list ws'))"
    using Cons.prems w by (intro Cons.IH) auto
  moreover have "fadd (Fin (of_nat a)) (Fin (of_nat w)) = Fin (of_nat (a + w))"
    using Cons.prems w by (intro fadd_int) simp
  ultimately show ?case using w by (cases "w = 0") (simp_all add: add.assoc)
qed simp

lemma needs_normalizing_100 [simp]: "\<not> needs_normalizing (Fin 100)"
proof -
  have n: "2 powi (- 1022) \<le> \<bar>1 / 1000 :: rat\<bar>"
  proof -
    have "(2::rat) powi (- 1022) \<le> 2 powi (- 10)" by (rule power_int_increasing) auto
    also have "(2::rat) powi (- 10) \<le> 1 / 1000" by (simp add: power_int_minus)
    finally show ?thesis by simp
  qed
  have "\<bar>1 / 1000 :: rat\<bar> \<le> 2 ^ 1000" by (rule order_trans [of _ 1]) auto
  with n have "fl (1 / 1000) = Fin (rndq (1 / 1000))" and "0 < rndq (1 / 1000)"
    by (auto intro: fl_normal)
  then show ?thesis by (simp add: needs_normalizing_def f64_simps)
qed

lemma pick_variant_int:
  assumes "map fv_Weight vs = map (\<lambda>n. Fin (of_nat n)) ws"
    and "\<And>w. flt b (Fin (of_nat w)) \<longleftrightarrow> s < 100 * w"
    and "100 * a \<le> s" and "s < 100 * (a + sum_list ws)" and "a + sum_list ws < 2 ^ 53"
  shows "\<exists>j < length vs. pick_variant (Fin 100) b (Fin (of_nat a)) vs = Some (vs ! j)
    \<and> 100 * (a + sum_list (take j ws)) \<le> s \<and> s < 100 * (a + sum_list (take (Suc j) ws))"
  using assms
proof (induction vs arbitrary: a ws)
  case (Cons v vs)
  then obtain w ws' where w: "ws = w # ws'" "fv_Weight v = Fin (of_nat w)"
      "map fv_Weight vs = map (\<lambda>n. Fin (of_nat n)) ws'" by auto
  have add: "fadd (Fin (of_nat a)) (Fin (of_nat w)) = Fin (of_nat (a + w))"
    using Cons.prems w by (intro fadd_int) simp
  show ?case
  proof (cases "s < 100 * (a + w)")
    case True
    then show ?thesis using Cons.prems w add
      by (intro exI [of _ 0]) (simp add: Let_def del: of_nat_add)
  next
    case False
    with Cons.prems w have "\<exists>j < length vs. pick_variant (Fin 100) b (Fin (of_nat (a + w))) vs = Some (vs ! j)
      \<and> 100 * (a + w + sum_list (take j ws')) \<le> s \<and> s < 100 * (a + w + sum_list (take (Suc j) ws'))"
      by (intro Cons.IH) (auto simp: add.assoc)
    then obtain j where "j < length vs" "pick_variant (Fin 100) b (Fin (of_nat (a + w))) vs = Some (vs ! j)"
      "100 * (a + w + sum_list (take j ws')) \<le> s" "s < 100 * (a + w + sum_list (take (Suc j) ws'))" by blast
    with False w add Cons.prems(2) show ?thesis
      by (intro exI [of _ "Suc j"]) (simp add: add.assoc Let_def del: of_nat_add)
  qed
qed simp

lemma prefix_sum_unique:
  fixes ws :: "nat list"
  assumes "sum_list (take i ws) \<le> x" and "x < sum_list (take (Suc i) ws)"
    and "sum_list (take j ws) \<le> x" and "x < sum_list (take (Suc j) ws)"
  shows "i = j"
proof -
  have mono: "sum_list (take a ws) \<le> sum_list (take b ws)" if "a \<le> b" for a b
  proof -
    have "take b ws = take a ws @ take (b - a) (drop a ws)"
      using that by (metis le_add_diff_inverse take_add)
    then show ?thesis by simp
  qed
  show ?thesis
    using assms mono [of "Suc i" j] mono [of "Suc j" i] by (cases i j rule: linorder_cases) auto
qed

section \<open>Properties\<close>

text \<open>A flag and a context for the witnesses: two rules, a percentage, three variants.\<close>

definition demo_rule :: "string \<Rightarrow> string \<Rightarrow> TargetingRule" where
  "demo_rule country action = \<lparr>tr_ID = ''r-'' @ country, tr_Name = country, tr_Attribute = ''country'',
     tr_CustomKey = [], tr_Operator = ''equals'', tr_Values = [country], tr_Action = action,
     tr_ServeVariant = []\<rparr>"

definition demo_variant :: "string \<Rightarrow> nat \<Rightarrow> FlagVariant" where
  "demo_variant key w = \<lparr>fv_Key = key, fv_Name = key, fv_Value = GString key,
     fv_Weight = Fin (of_nat w), fv_Description = []\<rparr>"

definition demo_config :: EnvironmentConfig where
  "demo_config = zero_env_config\<lparr>ec_Enabled := True, ec_Strategy := ''percentage'',
     ec_Percentage := Fin 20, ec_Rules := [demo_rule ''DE'' ''force_disabled'', demo_rule ''US'' ''force_enabled''],
     ec_Variants := [demo_variant ''a'' 20, demo_variant ''b'' 30, demo_variant ''c'' 50]\<rparr>"

definition demo_flag :: FeatureFlag where
  "demo_flag = \<lparr>ff_ID = ''f1'', ff_ProjectID = ''proj_default'', ff_ConfigVersion = 1, ff_Key = ''beta'',
     ff_Name = ''Beta'', ff_Description = [], ff_Type = ''boolean'', ff_Tags = [],
     ff_Environments = [(''production'', demo_config)], ff_CreatedAt = 0, ff_UpdatedAt = 0\<rparr>"

definition demo_ctx :: "string \<Rightarrow> string \<Rightarrow> EvaluationContext" where
  "demo_ctx user country = \<lparr>cx_UserID = user, cx_Email = [], cx_Country = country, cx_Role = [],
     cx_Tier = [], cx_Environment = [], cx_Attributes = []\<rparr>"

lemma demo_env [simp]: "env_config demo_flag (demo_ctx user country) = demo_config"
  by (simp add: demo_flag_def demo_ctx_def env_config_def or_else_def mget_def)

text \<open>
  The sticky bucket of an identifier is exactly the \<open>float64\<close> nearest to one hundredth of the
  FNV-1a hash modulo 10000: the three rounded operations of the code lose nothing, and the bucket
  lies in \<open>[0, 100)\<close>.
\<close>

theorem GetStickyBucket_exact:
  "fst (GetStickyBucket i salt) = fl (of_nat (unat (FNV1a64 (i @ '':'' @ salt) mod 10000)) / 100)
   \<and> fle (Fin 0) (fst (GetStickyBucket i salt)) \<and> flt (fst (GetStickyBucket i salt)) (Fin 100)"
  using engine_bucket.bucket_slot [of i salt] engine_bucket.bucket_range [of i salt]
  by (simp add: sticky_slot_def)

text \<open>
  C5: an enabled percentage flag that no targeting rule decides is on exactly for the identifiers
  whose slot is below the percentage: a rollout of \<open>k / 100\<close> percent takes exactly the slots
  \<open>0, \<dots>, k - 1\<close> of the ten thousand, and the reason says which side the identifier is on.
\<close>

theorem percentage_rollout_exact:
  assumes "cache_ok rt cache" and "cfg = env_config flag ctx" and "ec_Enabled cfg"
    and "ec_Strategy cfg = ''percentage''" and "\<forall>r \<in> set (ec_Rules cfg). \<not> rule_matches rt r ctx"
    and "k \<le> 10000" and "ec_Percentage cfg = fl (of_nat k / 100)"
  shows "(er_Enabled (fst (EvaluateFlag rt cache ns flag ctx)) \<longleftrightarrow>
        unat (FNV1a64 (eval_identifier ctx @ '':'' @ ff_Key flag) mod 10000) < k)
    \<and> er_Reason (fst (EvaluateFlag rt cache ns flag ctx)) =
      (if er_Enabled (fst (EvaluateFlag rt cache ns flag ctx))
       then ''PERCENTAGE_ROLLOUT_BUCKET'' else ''PERCENTAGE_ROLLOUT_EXCLUDED'')"
proof -
  have "find (\<lambda>r. rule_matches rt r ctx) (ec_Rules cfg) = None"
    using assms(5) by (simp add: find_None_iff)
  then have eq: "fst (EvaluateFlag rt cache ns flag ctx) = strategy_result ns flag cfg (eval_identifier ctx)"
    using EvaluateFlag_cases(1) [OF assms(1), of ns flag ctx] assms(2,3) by (simp add: Let_def)
  have r: "er_Reason (strategy_result ns flag cfg (eval_identifier ctx)) =
      (if er_Enabled (strategy_result ns flag cfg (eval_identifier ctx))
       then ''PERCENTAGE_ROLLOUT_BUCKET'' else ''PERCENTAGE_ROLLOUT_EXCLUDED'')"
    using assms(4) by (simp add: strategy_result_def Let_def split_beta)
  show ?thesis
    using engine_bucket.bucket_less_centi [OF assms(6), of "eval_identifier ctx" "ff_Key flag"] assms(4,7) r
    by (simp add: eq strategy_result_enabled sticky_slot_def)
qed

theorem percentage_rollout_exact_witness:
  "\<not> er_Enabled (fst (EvaluateFlag demo_runtime [] 5 demo_flag (demo_ctx ''alice'' ''FR'')))"
proof -
  have r: "\<forall>r \<in> set (ec_Rules demo_config). \<not> rule_matches demo_runtime r (demo_ctx ''alice'' ''FR'')"
    by code_simp
  have s: "unat (FNV1a64 (eval_identifier (demo_ctx ''alice'' ''FR'') @ '':'' @ ff_Key demo_flag) mod 10000) = 8845"
    by code_simp
  have p: "ec_Percentage demo_config = fl (of_nat 2000 / 100)"
    using fl_int [of 20] by (simp add: demo_config_def)
  have c: "demo_config = env_config demo_flag (demo_ctx ''alice'' ''FR'')"
    by simp
  show ?thesis
    using percentage_rollout_exact [OF cache_ok_Nil c _ _ r _ p] s
    by (simp add: demo_config_def)
qed

text \<open>
  Raising a rollout percentage never switches anybody off: whoever gets the flag enabled, by a
  rule, by the percentage or by any other strategy, still gets it enabled after the percentage of
  that environment is raised.
\<close>

theorem rollout_monotone:
  assumes "cache_ok rt cache" and "cache_ok rt cache'"
    and "mget (ff_Environments flag) env = Some cfg" and "fle (ec_Percentage cfg) q"
    and "er_Enabled (fst (EvaluateFlag rt cache ns flag ctx))"
  shows "er_Enabled (fst (EvaluateFlag rt cache' ns'
    (flag\<lparr>ff_Environments := mput env (cfg\<lparr>ec_Percentage := q\<rparr>) (ff_Environments flag)\<rparr>) ctx))"
proof -
  let ?flag' = "flag\<lparr>ff_Environments := mput env (cfg\<lparr>ec_Percentage := q\<rparr>) (ff_Environments flag)\<rparr>"
  let ?env = "or_else (cx_Environment ctx) ''production''"
  have p: "?env = env \<Longrightarrow> env_config flag ctx = cfg"
    using assms(3) by (simp add: env_config_def)
  have c': "env_config ?flag' ctx =
      (if ?env = env then cfg\<lparr>ec_Percentage := q\<rparr> else env_config flag ctx)"
    using assms(3) by (simp add: env_config_def map_simps)
  show ?thesis
    using assms(5) p engine_bucket.rollout_mono [OF _ assms(4), of "eval_identifier ctx" "ff_Key flag"]
    unfolding EvaluateFlag_enabled [OF assms(1)] EvaluateFlag_enabled [OF assms(2)] c' Let_def
    by (cases "?env = env") (auto split: option.splits)
qed

lemma demo_carol: "er_Enabled (fst (EvaluateFlag demo_runtime [] ns demo_flag (demo_ctx ''carol'' ''FR'')))"
proof -
  have f: "find (\<lambda>r. rule_matches demo_runtime r (demo_ctx ''carol'' ''FR'')) (ec_Rules demo_config) = None"
    by code_simp
  have "sticky_slot ''carol'' ''beta'' = 154" by code_simp
  then have "flt (fst (GetStickyBucket ''carol'' ''beta'')) (Fin 20)"
    using engine_bucket.bucket_less_int [of "''carol''" "''beta''" 20] by simp
  moreover have "eval_identifier (demo_ctx ''carol'' ''FR'') = ''carol''" "ff_Key demo_flag = ''beta''"
    "ec_Percentage demo_config = Fin 20" "ec_Enabled demo_config" by code_simp+
  ultimately show ?thesis by (simp add: EvaluateFlag_enabled f Let_def)
qed

theorem rollout_monotone_witness:
  "er_Enabled (fst (EvaluateFlag demo_runtime [] 7
    (demo_flag\<lparr>ff_Environments := mput ''production'' (demo_config\<lparr>ec_Percentage := Fin 60\<rparr>)
       (ff_Environments demo_flag)\<rparr>) (demo_ctx ''carol'' ''FR'')))"
proof (rule rollout_monotone [where cache = "[]" and ns = 3])
  show "cache_ok demo_runtime []" "cache_ok demo_runtime []" by simp_all
  show "mget (ff_Environments demo_flag) ''production'' = Some demo_config"
    by (simp add: demo_flag_def mget_def)
  show "fle (ec_Percentage demo_config) (Fin 60)" by (simp add: demo_config_def)
  show "er_Enabled (fst (EvaluateFlag demo_runtime [] 3 demo_flag (demo_ctx ''carol'' ''FR'')))" by (rule demo_carol)
qed

text \<open>
  The kill switch wins over everything: in an environment that is switched off or not
  configured, every context gets the flag disabled, with the off variant, the value \<open>false\<close>, reason
  \<open>KILL_SWITCH_DISABLED\<close> and no bucket, whatever the rules and the strategy say, and no rule is run.
\<close>

theorem kill_switch_wins:
  assumes "case mget (ff_Environments flag) (or_else (cx_Environment ctx) ''production'') of
      None \<Rightarrow> True | Some cfg \<Rightarrow> \<not> ec_Enabled cfg"
  shows "snd (EvaluateFlag rt cache ns flag ctx) = cache
    \<and> \<not> er_Enabled (fst (EvaluateFlag rt cache ns flag ctx))
    \<and> er_Value (fst (EvaluateFlag rt cache ns flag ctx)) = GBool False
    \<and> er_Reason (fst (EvaluateFlag rt cache ns flag ctx)) = ''KILL_SWITCH_DISABLED''
    \<and> er_BucketVal (fst (EvaluateFlag rt cache ns flag ctx)) = None
    \<and> er_Variant (fst (EvaluateFlag rt cache ns flag ctx)) = or_else (ec_OffVariant (env_config flag ctx)) ''off''"
proof -
  have "\<not> ec_Enabled (env_config flag ctx)"
    using assms by (auto simp: env_config_def split: option.splits)
  then show ?thesis by (simp add: EvaluateFlag_def Let_def zero_result_def)
qed

theorem kill_switch_wins_witness:
  "\<not> er_Enabled (fst (EvaluateFlag demo_runtime [] 5 demo_flag ((demo_ctx ''bob'' ''US'')\<lparr>cx_Environment := ''staging''\<rparr>)))"
  using kill_switch_wins [of demo_flag "(demo_ctx ''bob'' ''US'')\<lparr>cx_Environment := ''staging''\<rparr>" demo_runtime "[]" 5]
  by (simp add: demo_flag_def demo_ctx_def mget_def or_else_def)

text \<open>
  In an enabled environment the first rule that matches decides, and later rules and the
  strategy are not consulted: the result names that rule, it is disabled exactly for the action
  \<open>force_disabled\<close>, and \<open>serve_variant\<close> serves the named variant with the value that the
  configuration gives the first variant of that key.
\<close>

theorem first_matching_rule_decides:
  assumes "cache_ok rt cache" and "ec_Enabled (env_config flag ctx)"
    and "ec_Rules (env_config flag ctx) = pre @ r # post"
    and "\<forall>r' \<in> set pre. \<not> rule_matches rt r' ctx" and "rule_matches rt r ctx"
  shows "let res = fst (EvaluateFlag rt cache ns flag ctx) in
      er_Reason res = ''TARGETING_RULE_MATCH'' \<and> er_MatchedRuleID res = tr_ID r
    \<and> (er_Enabled res \<longleftrightarrow> tr_Action r \<noteq> ''force_disabled'')
    \<and> (tr_Action r = ''serve_variant'' \<and> tr_ServeVariant r \<noteq> [] \<longrightarrow>
         er_Variant res = tr_ServeVariant r \<and>
         er_Value res = (case find (\<lambda>v. fv_Key v = tr_ServeVariant r) (ec_Variants (env_config flag ctx)) of
            Some v \<Rightarrow> fv_Value v | None \<Rightarrow> GBool True))"
proof -
  have "find (\<lambda>r. rule_matches rt r ctx) (pre @ r # post) = Some r"
    using assms(4,5) by (induction pre) auto
  then have "fst (EvaluateFlag rt cache ns flag ctx) = rule_result ns flag (env_config flag ctx) r"
    using EvaluateFlag_cases(1) [OF assms(1), of ns flag ctx] assms(2,3) by (simp add: Let_def)
  then show ?thesis by (simp add: Let_def) (simp add: rule_result_def Let_def)
qed

theorem first_matching_rule_decides_witness:
  "er_MatchedRuleID (fst (EvaluateFlag demo_runtime [] 5 demo_flag (demo_ctx ''bob'' ''us''))) = ''r-US''"
proof -
  have r: "ec_Rules (env_config demo_flag (demo_ctx ''bob'' ''us'')) =
      [demo_rule ''DE'' ''force_disabled''] @ demo_rule ''US'' ''force_enabled'' # []"
    by (simp add: demo_config_def)
  have n: "\<forall>r' \<in> set [demo_rule ''DE'' ''force_disabled'']. \<not> rule_matches demo_runtime r' (demo_ctx ''bob'' ''us'')"
    by code_simp
  have m: "rule_matches demo_runtime (demo_rule ''US'' ''force_enabled'') (demo_ctx ''bob'' ''us'')"
    by code_simp
  show ?thesis
    using first_matching_rule_decides [OF cache_ok_Nil _ r n m, of 5]
    by (simp add: Let_def demo_config_def demo_rule_def)
qed

text \<open>
  C37: variants with whole-number weights that sum to 100 split the ten thousand slots exactly: the
  identifier gets the one variant whose interval of cumulative weights holds its slot, so a variant
  of weight \<open>w\<close> owns exactly \<open>100 w\<close> slots and one of weight 0 is never served.
\<close>

theorem multivariate_partition:
  assumes "map fv_Weight vs = map (\<lambda>n. Fin (of_nat n)) ws" and "sum_list ws = 100"
    and "slot = unat (FNV1a64 (i @ '':'' @ key @ '':multivariate'') mod 10000)"
  shows "\<exists>!j. j < length vs \<and> 100 * sum_list (take j ws) \<le> slot \<and> slot < 100 * sum_list (take (Suc j) ws)
    \<and> fst (ResolveMultivariateVariant vs i key) = vs ! j"
proof -
  let ?b = "fst (GetStickyBucket i (key @ '':multivariate''))"
  have slot: "slot = sticky_slot i (key @ '':multivariate'')" by (simp add: assms(3) sticky_slot_def)
  have lt: "flt ?b (Fin (of_nat w)) \<longleftrightarrow> slot < 100 * w" for w
    unfolding slot by (rule engine_bucket.bucket_less_int)
  have tot: "total_weight (Fin 0) vs = Fin 100"
    using total_weight_int [OF assms(1), of 0] assms(2) by simp
  obtain j where j: "j < length vs" "pick_variant (Fin 100) ?b (Fin 0) vs = Some (vs ! j)"
      "100 * sum_list (take j ws) \<le> slot" "slot < 100 * sum_list (take (Suc j) ws)"
    using pick_variant_int [OF assms(1) lt, of 0] assms(2) sticky_slot_bound [of i "key @ '':multivariate''"]
    by (auto simp: slot)
  have uniq: "j' = j" if "100 * sum_list (take j' ws) \<le> slot" "slot < 100 * sum_list (take (Suc j') ws)" for j'
    by (rule prefix_sum_unique [of _ "map (\<lambda>w. 100 * w) ws" slot])
      (use that j in \<open>simp_all add: take_map sum_list_const_mult\<close>)
  have "fst (ResolveMultivariateVariant vs i key) = vs ! j"
    using j tot by (auto simp: ResolveMultivariateVariant_def split_beta)
  with j uniq show ?thesis by blast
qed

theorem multivariate_partition_witness:
  "fst (ResolveMultivariateVariant [demo_variant ''a'' 20, demo_variant ''b'' 30, demo_variant ''c'' 50]
     ''heidi'' ''beta'') = demo_variant ''b'' 30"
proof -
  have w: "map fv_Weight [demo_variant ''a'' 20, demo_variant ''b'' 30, demo_variant ''c'' 50] =
      map (\<lambda>n. Fin (of_nat n)) [20, 30, 50]" by (simp add: demo_variant_def)
  have s: "2499 = unat (FNV1a64 (''heidi'' @ '':'' @ ''beta'' @ '':multivariate'') mod 10000)" by code_simp
  have t: "sum_list [20, 30, 50 :: nat] = 100" by simp
  obtain j where "j < length [demo_variant ''a'' 20, demo_variant ''b'' 30, demo_variant ''c'' 50]"
      and k: "100 * sum_list (take j [20, 30, 50 :: nat]) \<le> 2499"
      "2499 < 100 * sum_list (take (Suc j) [20, 30, 50 :: nat])"
      "fst (ResolveMultivariateVariant [demo_variant ''a'' 20, demo_variant ''b'' 30, demo_variant ''c'' 50]
        ''heidi'' ''beta'') = [demo_variant ''a'' 20, demo_variant ''b'' 30, demo_variant ''c'' 50] ! j"
    using ex1_implies_ex [OF multivariate_partition [OF w t s]] by blast
  then have "j = 0 \<or> j = 1 \<or> j = 2" by auto
  with k show ?thesis by auto
qed

text \<open>
  \<open>not_equals\<close>, \<open>not_contains\<close> and \<open>not_in_list\<close> are the exact complements of their positive
  operators when the attribute has a value; when the attribute is missing or blank, neither the
  operator nor its complement matches.
\<close>

theorem operators_complement:
  assumes "(pos, neg) \<in> {(''equals'', ''not_equals''), (''contains'', ''not_contains''), (''in_list'', ''not_in_list'')}"
  shows "if rule_target rule ctx = GNil \<or> toStringFast rt (rule_target rule ctx) = []
    then \<not> fst (EvaluateRule rt cache (rule\<lparr>tr_Operator := pos\<rparr>) ctx)
       \<and> \<not> fst (EvaluateRule rt cache (rule\<lparr>tr_Operator := neg\<rparr>) ctx)
    else fst (EvaluateRule rt cache (rule\<lparr>tr_Operator := neg\<rparr>) ctx) \<longleftrightarrow>
       \<not> fst (EvaluateRule rt cache (rule\<lparr>tr_Operator := pos\<rparr>) ctx)"
proof -
  have t: "rule_target (rule\<lparr>tr_Operator := p\<rparr>) ctx = rule_target rule ctx" for p
    by (simp add: rule_target_def)
  consider "pos = ''equals''" "neg = ''not_equals''" | "pos = ''contains''" "neg = ''not_contains''"
    | "pos = ''in_list''" "neg = ''not_in_list''" using assms by blast
  then show ?thesis by cases (simp_all add: EvaluateRule_def t Let_def)
qed

theorem operators_complement_witness:
  "fst (EvaluateRule demo_runtime [] ((demo_rule ''DE'' ''force_enabled'')\<lparr>tr_Operator := ''not_equals''\<rparr>) (demo_ctx ''bob'' ''US''))"
proof -
  have v: "rule_target (demo_rule ''DE'' ''force_enabled'') (demo_ctx ''bob'' ''US'') \<noteq> GNil"
    "toStringFast demo_runtime (rule_target (demo_rule ''DE'' ''force_enabled'') (demo_ctx ''bob'' ''US'')) \<noteq> []"
    by code_simp+
  have "\<not> fst (EvaluateRule demo_runtime [] ((demo_rule ''DE'' ''force_enabled'')\<lparr>tr_Operator := ''equals''\<rparr>) (demo_ctx ''bob'' ''US''))"
    by code_simp
  with v show ?thesis
    using operators_complement [of "''equals''" "''not_equals''" "demo_rule ''DE'' ''force_enabled''"
        "demo_ctx ''bob'' ''US''" demo_runtime "[]"] by simp
qed

text \<open>
  The shared regular-expression cache is transparent: from any cache filled by earlier
  evaluations, evaluating a flag gives the result it gives with an empty cache, and the cache stays
  one in which every entry is the compiled form of its pattern.
\<close>

theorem regex_cache_transparent:
  assumes "cache_ok rt cache"
  shows "fst (EvaluateFlag rt cache ns flag ctx) = fst (EvaluateFlag rt [] ns flag ctx)
    \<and> cache_ok rt (snd (EvaluateFlag rt cache ns flag ctx))"
  by (simp add: EvaluateFlag_cases [OF assms] EvaluateFlag_cases(1) [OF cache_ok_Nil])

theorem regex_cache_transparent_witness:
  "fst (EvaluateFlag demo_runtime (snd (getOrCompileRegex demo_runtime [] ''U'')) 5 demo_flag (demo_ctx ''bob'' ''US'')) =
   fst (EvaluateFlag demo_runtime [] 5 demo_flag (demo_ctx ''bob'' ''US''))"
  using regex_cache_transparent [OF getOrCompileRegex_ok(2) [OF cache_ok_Nil]] by blast

end
