(* ===== verification/Engine_Trace.thy ===== *)
theory Engine_Trace
  imports Engine
begin

text \<open>
  The diagnostics of \<open>src/pkg/engine/evaluator.go\<close>: \<open>EvaluateFlagWithTrace\<close>, which repeats the
  decision of \<open>EvaluateFlag\<close> step by step and records it, and \<open>RunBenchmark\<close>, which evaluates a flag
  for synthetic users and summarises latencies and buckets. Elapsed times are arguments: \<open>ns\<close> for the
  evaluation, \<open>ns'\<close> for the trace, and for the benchmark the latency of each iteration.
\<close>

section \<open>Definitions\<close>

record RuleEvaluationStep =
  rs_StepIndex :: int
  rs_Name :: string
  rs_Passed :: bool
  rs_Detail :: string

record EvaluationTrace =
  et_FlagKey :: string
  et_Environment :: string
  et_IdentifierUsed :: string
  et_Steps :: "RuleEvaluationStep list"
  et_FinalReason :: string
  et_FinalVariant :: string
  et_FinalEnabled :: bool
  et_Bucket :: f64
  et_ElapsedNs :: int

definition step :: "int \<Rightarrow> string \<Rightarrow> bool \<Rightarrow> string \<Rightarrow> RuleEvaluationStep" where
  "step i name passed detail = \<lparr>rs_StepIndex = i, rs_Name = name, rs_Passed = passed, rs_Detail = detail\<rparr>"

definition trace_of ::
  "FeatureFlag \<Rightarrow> string \<Rightarrow> string \<Rightarrow> RuleEvaluationStep list \<Rightarrow> EvaluationResult \<Rightarrow> f64 \<Rightarrow> int \<Rightarrow> EvaluationTrace" where
  "trace_of flag env identifier steps res bucket elapsed =
     \<lparr>et_FlagKey = ff_Key flag, et_Environment = env, et_IdentifierUsed = identifier, et_Steps = steps,
      et_FinalReason = er_Reason res, et_FinalVariant = er_Variant res, et_FinalEnabled = er_Enabled res,
      et_Bucket = bucket, et_ElapsedNs = elapsed\<rparr>"

definition rule_condition :: "TargetingRule \<Rightarrow> string" where
  "rule_condition rule = ''('' @ tr_Attribute rule @ '' '' @ tr_Operator rule @ '' ''
     @ show_strings (tr_Values rule) @ '')''"

text \<open>The loop over the rules: whether one matched, the steps so far, the next index and the cache.\<close>

fun trace_rules :: "runtime \<Rightarrow> EvaluationContext \<Rightarrow> TargetingRule list \<Rightarrow> int \<Rightarrow> RuleEvaluationStep list
  \<Rightarrow> regex_cache \<Rightarrow> bool \<times> RuleEvaluationStep list \<times> int \<times> regex_cache" where
  "trace_rules rt ctx [] stepIdx steps cache = (False, steps, stepIdx, cache)"
| "trace_rules rt ctx (rule # rules) stepIdx steps cache =
     (case EvaluateRule rt cache rule ctx of
        (True, cache') \<Rightarrow>
          (True, steps @ [step stepIdx (''Targeting Rule Match: '' @ tr_Name rule) True
             (''Condition matched '' @ rule_condition rule @ ''. Action: '' @ tr_Action rule @ ''.'')],
           stepIdx, cache')
      | (False, cache') \<Rightarrow>
          trace_rules rt ctx rules (stepIdx + 1)
            (steps @ [step stepIdx (''Targeting Rule Check: '' @ tr_Name rule) False
               (''Did not match context condition '' @ rule_condition rule @ ''.'')]) cache')"

definition strategy_step :: "EnvironmentConfig \<Rightarrow> f64 \<Rightarrow> int \<Rightarrow> RuleEvaluationStep" where
  "strategy_step cfg bucket stepIdx =
     (if ec_Strategy cfg = StrategyPercentage then
        step stepIdx ''Deterministic FNV-1a Percentage Rollout'' (flt bucket (ec_Percentage cfg))
          (''User sticky bucket #'' @ FormatFixed 2 bucket @ ''% evaluated against rollout threshold ''
            @ FormatFixed 1 (ec_Percentage cfg) @ ''%.'')
      else if ec_Strategy cfg = StrategyMultivariate then
        step stepIdx ''Multivariate Traffic Split'' True
          (''User assigned to weighted variant bucket #'' @ FormatFixed 2 bucket @ ''%.'')
      else step stepIdx ''Default Boolean Strategy'' True ''Standard default boolean rollout applied.'')"

definition EvaluateFlagWithTrace :: "runtime \<Rightarrow> regex_cache \<Rightarrow> int \<Rightarrow> int \<Rightarrow> FeatureFlag \<Rightarrow> EvaluationContext
  \<Rightarrow> (EvaluationResult \<times> EvaluationTrace) \<times> regex_cache" where
  "EvaluateFlagWithTrace rt cache ns ns' flag ctx =
     (let env = or_else (cx_Environment ctx) EnvProduction; identifier = eval_identifier ctx in
      case mget (ff_Environments flag) env of
        None \<Rightarrow>
          (let steps = [step 1 ''Environment Configuration Check'' False
                 (''Environment '' @ Quote rt env @ '' is not configured on this flag.'')];
               res = zero_result\<lparr>er_FlagKey := ff_Key flag, er_Enabled := False, er_Variant := ''off'',
                 er_Value := GBool False, er_Reason := ReasonEnvDisabled, er_EvaluationLatencyNs := ns\<rparr>
           in ((res, trace_of flag env identifier steps res (Fin 0) ns), cache))
      | Some cfg \<Rightarrow>
          if \<not> ec_Enabled cfg then
            (let steps = [step 1 ''Master Kill-Switch Check'' False
                   (''Kill-Switch is engaged in '' @ env @ '' environment (Flag is turned OFF).'')];
                 res = zero_result\<lparr>er_FlagKey := ff_Key flag, er_Enabled := False,
                   er_Variant := or_else (ec_OffVariant cfg) ''off'', er_Value := GBool False,
                   er_Reason := ReasonKillSwitchDisabled, er_EvaluationLatencyNs := ns\<rparr>
             in ((res, trace_of flag env identifier steps res (Fin 0) ns), cache))
          else
            (let steps = [step 1 ''Master Kill-Switch Check'' True
                   (''Flag is active and enabled in '' @ env @ '' environment.'')];
                 (matched, steps, stepIdx, cache) = trace_rules rt ctx (ec_Rules cfg) 2 steps cache
             in if matched then
                  (let (res, cache) = EvaluateFlag rt cache ns flag ctx
                   in ((res, trace_of flag env identifier steps res (Fin 0) ns'), cache))
                else
                  (let bucket = fst (GetStickyBucket identifier (ff_Key flag));
                       steps = steps @ [strategy_step cfg bucket stepIdx];
                       (res, cache) = EvaluateFlag rt cache ns flag ctx
                   in ((res, trace_of flag env identifier steps res bucket ns'), cache))))"

record BenchmarkMetrics =
  bm_Iterations :: int
  bm_TotalDurationMs :: f64
  bm_OpsPerSec :: int
  bm_P50Ns :: int
  bm_P90Ns :: int
  bm_P99Ns :: int
  bm_P999Ns :: int
  bm_MinNs :: int
  bm_MaxNs :: int
  bm_AvgNs :: int
  bm_HashBuckets :: "int list"

definition bench_ctx :: "string \<Rightarrow> int \<Rightarrow> EvaluationContext" where
  "bench_ctx env i =
     \<lparr>cx_UserID = ''bench_usr_'' @ Itoa (i mod 25000),
      cx_Email = ''test_'' @ Itoa i @ (if i mod 4 = 0 then ''@flagura.dev'' else ''@example.com''),
      cx_Country = (if i mod 2 \<noteq> 0 then ''DE'' else ''US''), cx_Role = [],
      cx_Tier = (if i mod 10 = 0 then ''enterprise'' else ''free''),
      cx_Environment = env, cx_Attributes = []\<rparr>"

definition bucket_index :: "f64 \<Rightarrow> int" where
  "bucket_index b = int_of_f64 (fmin (Fin 99) (fmax (Fin 0) (ffloor b)))"

text \<open>\<open>buckets[idx]++\<close> on an array of 100; an index out of range panics.\<close>

definition bump :: "int list \<Rightarrow> int \<Rightarrow> int list option" where
  "bump buckets idx = (if 0 \<le> idx \<and> idx < int (length buckets)
     then Some (buckets[nat idx := buckets ! nat idx + 1]) else None)"

fun bench_loop :: "runtime \<Rightarrow> FeatureFlag \<Rightarrow> string \<Rightarrow> int list \<Rightarrow> int \<Rightarrow> int list \<Rightarrow> regex_cache
  \<Rightarrow> (int list \<times> regex_cache) option" where
  "bench_loop rt flag env [] i buckets cache = Some (buckets, cache)"
| "bench_loop rt flag env (lat # lats) i buckets cache =
     (let ctx = bench_ctx env i;
          (res, cache') = EvaluateFlag rt cache lat flag ctx;
          idx = (case er_BucketVal res of
                   Some b \<Rightarrow> bucket_index b
                 | None \<Rightarrow> bucket_index (fst (GetStickyBucket (cx_UserID ctx) (ff_Key flag))))
      in case bump buckets idx of
           None \<Rightarrow> None
         | Some buckets' \<Rightarrow> bench_loop rt flag env lats (i + 1) buckets' cache')"

definition clamp_iterations :: "int \<Rightarrow> int" where
  "clamp_iterations n = (let n = (if n < 500 then 500 else n) in if n > 100000 then 100000 else n)"

definition percentile_index :: "int \<Rightarrow> f64 \<Rightarrow> int" where
  "percentile_index n p = int_of_f64 (fmul (f64_of_int n) p)"

text \<open>\<open>dur i\<close> is the measured latency of iteration \<open>i\<close>, \<open>totalDur\<close> the measured total; \<open>None\<close> is a panic.\<close>

definition RunBenchmark :: "runtime \<Rightarrow> regex_cache \<Rightarrow> (int \<Rightarrow> int) \<Rightarrow> duration \<Rightarrow> FeatureFlag \<Rightarrow> string \<Rightarrow> int
  \<Rightarrow> (BenchmarkMetrics \<times> regex_cache) option" where
  "RunBenchmark rt cache dur totalDur flag env iterations0 =
     (let iterations = clamp_iterations iterations0;
          raw = map dur [0..iterations - 1]
      in case bench_loop rt flag env raw 0 (replicate 100 0) cache of
           None \<Rightarrow> None
         | Some (buckets, cache') \<Rightarrow>
             (let latencies = sort raw; n = f64_of_int iterations in
              case (go_index latencies (percentile_index iterations (fl (50 / 100))),
                    go_index latencies (percentile_index iterations (fl (90 / 100))),
                    go_index latencies (percentile_index iterations (fl (99 / 100))),
                    go_index latencies (percentile_index iterations (fl (999 / 1000))),
                    go_index latencies 0, go_index latencies (iterations - 1)) of
                (Some p50, Some p90, Some p99, Some p999, Some minNs, Some maxNs) \<Rightarrow>
                  Some (\<lparr>bm_Iterations = iterations,
                    bm_TotalDurationMs = fdiv (f64_of_int (tdiv totalDur 1000)) (Fin 1000),
                    bm_OpsPerSec = (if flt (Fin 0) (Seconds totalDur)
                      then int_of_f64 (fdiv n (Seconds totalDur)) else 0),
                    bm_P50Ns = p50, bm_P90Ns = p90, bm_P99Ns = p99, bm_P999Ns = p999,
                    bm_MinNs = minNs, bm_MaxNs = maxNs,
                    bm_AvgNs = tdiv (int64 (sum_list latencies)) iterations,
                    bm_HashBuckets = buckets\<rparr>, cache')
              | _ \<Rightarrow> None))"

section \<open>The trace agrees with the evaluation\<close>

definition no_latency :: "EvaluationResult \<Rightarrow> EvaluationResult" where
  "no_latency r = r\<lparr>er_EvaluationLatencyNs := 0, er_EvaluationLatencyUs := Fin 0\<rparr>"

lemma trace_rules_ok:
  assumes "cache_ok rt cache" and "trace_rules rt ctx rules i steps cache = (m, steps', i', cache')"
  shows "cache_ok rt cache'" and "m \<longleftrightarrow> (\<exists>r \<in> set rules. rule_matches rt r ctx)"
    and "\<exists>new. steps' = steps @ new \<and> length new \<le> length rules
      \<and> map rs_StepIndex new = [i..i + int (length new) - 1]
      \<and> i' = i + int (length new) - (if m then 1 else 0)
      \<and> map rs_Passed new = replicate (length new - (if m then 1 else 0)) False @ (if m then [True] else [])"
proof -
  have "cache_ok rt cache' \<and> (m \<longleftrightarrow> (\<exists>r \<in> set rules. rule_matches rt r ctx)) \<and>
    (\<exists>new. steps' = steps @ new \<and> length new \<le> length rules
      \<and> map rs_StepIndex new = [i..i + int (length new) - 1]
      \<and> i' = i + int (length new) - (if m then 1 else 0)
      \<and> map rs_Passed new = replicate (length new - (if m then 1 else 0)) False @ (if m then [True] else []))"
    using assms
  proof (induction rt ctx rules i steps cache rule: trace_rules.induct)
    case (2 rt ctx rule rules i steps cache)
    obtain b c where bc: "EvaluateRule rt cache rule ctx = (b, c)" by fastforce
    with EvaluateRule_ok [OF "2.prems"(1), of rule ctx]
    have b: "b = rule_matches rt rule ctx" and c: "cache_ok rt c" by simp_all
    show ?case
    proof (cases b)
      case True
      with "2.prems" bc b c show ?thesis by (auto simp: step_def)
    next
      case False
      let ?s = "step i (''Targeting Rule Check: '' @ tr_Name rule) False
        (''Did not match context condition '' @ rule_condition rule @ ''.'')"
      from False "2.prems"(2) bc
      have rec: "trace_rules rt ctx rules (i + 1) (steps @ [?s]) c = (m, steps', i', cache')" by simp
      from "2.IH" [OF bc [symmetric] _ c rec] False obtain new where new: "cache_ok rt cache'"
        "m \<longleftrightarrow> (\<exists>r \<in> set rules. rule_matches rt r ctx)"
        "steps' = (steps @ [?s]) @ new" "length new \<le> length rules"
        "map rs_StepIndex new = [i + 1..i + 1 + int (length new) - 1]"
        "i' = i + 1 + int (length new) - (if m then 1 else 0)"
        "map rs_Passed new = replicate (length new - (if m then 1 else 0)) False @ (if m then [True] else [])"
        by blast
      have "m \<Longrightarrow> new \<noteq> []" using new(7) by auto
      then have "map rs_Passed (?s # new) = replicate (length (?s # new) - (if m then 1 else 0)) False @ (if m then [True] else [])"
        using new(7) by (cases new) (auto simp: step_def split: if_splits)
      moreover have "map rs_StepIndex (?s # new) = [i..i + int (length (?s # new)) - 1]"
        using new(5) upto_rec1 [of i "i + int (length new)"] by (simp add: step_def algebra_simps)
      ultimately show ?thesis
        using new False b by (auto intro!: exI [of _ "?s # new"])
    qed
  qed auto
  then show "cache_ok rt cache'" and "m \<longleftrightarrow> (\<exists>r \<in> set rules. rule_matches rt r ctx)"
    and "\<exists>new. steps' = steps @ new \<and> length new \<le> length rules
      \<and> map rs_StepIndex new = [i..i + int (length new) - 1]
      \<and> i' = i + int (length new) - (if m then 1 else 0)
      \<and> map rs_Passed new = replicate (length new - (if m then 1 else 0)) False @ (if m then [True] else [])"
    by blast+
qed

lemma EvaluateFlagWithTrace_active:
  assumes "cache_ok rt cache" and "mget (ff_Environments flag) (or_else (cx_Environment ctx) ''production'') = Some cfg"
    and "ec_Enabled cfg"
  shows "\<exists>new bucket i'. let res = fst (EvaluateFlag rt cache ns flag ctx);
        matched = (\<exists>r \<in> set (ec_Rules cfg). rule_matches rt r ctx);
        first = step 1 ''Master Kill-Switch Check'' True
          (''Flag is active and enabled in '' @ or_else (cx_Environment ctx) ''production'' @ '' environment.'');
        steps = (first # new) @ (if matched then [] else [strategy_step cfg bucket (2 + int (length new))])
      in fst (EvaluateFlagWithTrace rt cache ns ns' flag ctx) =
           (res, trace_of flag (or_else (cx_Environment ctx) ''production'') (eval_identifier ctx) steps res
              (if matched then Fin 0 else bucket) ns')
       \<and> bucket = fst (GetStickyBucket (eval_identifier ctx) (ff_Key flag))
       \<and> length new \<le> length (ec_Rules cfg) \<and> map rs_StepIndex new = [2..int (length new) + 1]"
proof -
  let ?env = "or_else (cx_Environment ctx) ''production''"
  let ?first = "step 1 ''Master Kill-Switch Check'' True (''Flag is active and enabled in '' @ ?env @ '' environment.'')"
  obtain m steps i c where t: "trace_rules rt ctx (ec_Rules cfg) 2 [?first] cache = (m, steps, i, c)"
    by (metis prod_cases4)
  note ok = trace_rules_ok [OF assms(1) t]
  from ok(3) obtain new where new: "steps = [?first] @ new" "length new \<le> length (ec_Rules cfg)"
    "map rs_StepIndex new = [2..2 + int (length new) - 1]" "i = 2 + int (length new) - (if m then 1 else 0)"
    by blast
  have res: "fst (EvaluateFlag rt c ns flag ctx) = fst (EvaluateFlag rt cache ns flag ctx)"
    by (simp add: EvaluateFlag_cases(1) [OF assms(1)] EvaluateFlag_cases(1) [OF ok(1)])
  have "fst (EvaluateFlagWithTrace rt cache ns ns' flag ctx) =
      (let res = fst (EvaluateFlag rt c ns flag ctx); bucket = fst (GetStickyBucket (eval_identifier ctx) (ff_Key flag)) in
       (res, trace_of flag ?env (eval_identifier ctx)
         (steps @ (if m then [] else [strategy_step cfg bucket i])) res (if m then Fin 0 else bucket) ns'))"
    using assms(2,3) t by (simp add: EvaluateFlagWithTrace_def Let_def split_beta)
  then show ?thesis
    using ok(2) new unfolding res
    by (intro exI [of _ new] exI [of _ "fst (GetStickyBucket (eval_identifier ctx) (ff_Key flag))"])
      (auto simp: Let_def algebra_simps)
qed

section \<open>The benchmark does not panic\<close>

lemma bucket_index_range:
  assumes "fle (Fin 0) b" and "flt b (Fin 100)"
  shows "0 \<le> bucket_index b" and "bucket_index b < 100"
proof -
  have "(b = NZero) \<or> (\<exists>q. b = Fin q \<and> 0 \<le> q \<and> q < 100)"
    using assms by (cases b) (auto simp: f64_simps)
  then have "0 \<le> bucket_index b \<and> bucket_index b < 100"
  proof
    assume "\<exists>q. b = Fin q \<and> 0 \<le> q \<and> q < 100"
    then obtain q where q: "b = Fin q" "0 \<le> q" "q < 100" by blast
    then have "0 \<le> \<lfloor>q\<rfloor>" "\<lfloor>q\<rfloor> < 100" by (auto simp: floor_less_iff)
    then show ?thesis using q by (auto simp: bucket_index_def fmin_def fmax_def int_of_f64_def is_fin_def)
  qed (simp add: bucket_index_def fmin_def fmax_def int_of_f64_def is_fin_def)
  then show "0 \<le> bucket_index b" and "bucket_index b < 100" by auto
qed

lemma ResolveMultivariateVariant_bucket:
  "fst (snd (ResolveMultivariateVariant vs i k)) = (if vs = [] then Fin 0 else fst (GetStickyBucket i (k @ '':multivariate'')))"
  by (auto simp: ResolveMultivariateVariant_def split_beta Let_def split: option.splits)

lemma EvaluateFlag_bucket:
  assumes "cache_ok rt cache" and "er_BucketVal (fst (EvaluateFlag rt cache ns flag ctx)) = Some b"
  shows "fle (Fin 0) b" and "flt b (Fin 100)"
proof -
  have r: "er_BucketVal (rule_result ns flag cfg r) = None" for cfg r
    by (simp add: rule_result_def Let_def zero_result_def)
  have s: "er_BucketVal (strategy_result ns flag cfg i) = Some b \<Longrightarrow> fle (Fin 0) b \<and> flt b (Fin 100)" for cfg i
    using engine_bucket.bucket_range
    by (auto simp: strategy_result_def ResolveMultivariateVariant_bucket Let_def split_beta zero_result_def
        split: if_splits)
  have "fle (Fin 0) b \<and> flt b (Fin 100)"
    using assms(2) r s unfolding EvaluateFlag_cases(1) [OF assms(1)]
    by (auto simp: Let_def kill_result_def zero_result_def split: if_splits option.splits)
  then show "fle (Fin 0) b" and "flt b (Fin 100)" by auto
qed

lemma bump_ok:
  assumes "0 \<le> i" and "i < int (length bs)"
  shows "\<exists>bs'. bump bs i = Some bs' \<and> length bs' = length bs \<and> sum_list bs' = sum_list bs + 1"
proof -
  have n: "nat i < length bs" using assms by (simp add: nat_less_iff)
  have "sum_list (bs[k := bs ! k + 1]) = sum_list bs + 1" if "k < length bs" for k
    using that by (induction bs arbitrary: k) (auto split: nat.splits simp: less_Suc_eq_0_disj)
  with n assms show ?thesis by (simp add: bump_def)
qed

lemma bench_loop_ok:
  assumes "cache_ok rt cache" and "length bs = 100"
  shows "\<exists>bs' c. bench_loop rt flag env lats i bs cache = Some (bs', c) \<and> length bs' = 100
    \<and> sum_list bs' = sum_list bs + int (length lats) \<and> cache_ok rt c"
  using assms
proof (induction lats arbitrary: i bs cache)
  case (Cons lat lats)
  let ?ctx = "bench_ctx env i"
  obtain res c where rc: "EvaluateFlag rt cache lat flag ?ctx = (res, c)" by fastforce
  let ?idx = "case er_BucketVal res of Some b \<Rightarrow> bucket_index b
    | None \<Rightarrow> bucket_index (fst (GetStickyBucket (cx_UserID ?ctx) (ff_Key flag)))"
  have c: "cache_ok rt c" using EvaluateFlag_cases(2) [OF Cons.prems(1), of lat flag ?ctx] rc by simp
  have "0 \<le> ?idx \<and> ?idx < 100"
    using EvaluateFlag_bucket [OF Cons.prems(1), of lat flag ?ctx] rc engine_bucket.bucket_range bucket_index_range
    by (auto split: option.splits)
  with Cons.prems(2) bump_ok [of ?idx bs] obtain bs' where
    b: "bump bs ?idx = Some bs'" "length bs' = 100" "sum_list bs' = sum_list bs + 1" by auto
  from Cons.IH [OF c b(2), of "i + 1"] obtain bs'' c' where
    "bench_loop rt flag env lats (i + 1) bs' c = Some (bs'', c')" "length bs'' = 100"
    "sum_list bs'' = sum_list bs' + int (length lats)" "cache_ok rt c'" by blast
  with rc b show ?case by (simp add: Let_def)
qed simp

lemma percentile_near:
  assumes "500 \<le> n" and "n \<le> 100000" and "1 / 2 \<le> p" and "p \<le> 1"
  shows "\<exists>m. fmul (f64_of_int n) (fl p) = Fin m \<and> \<bar>m - of_int n * p\<bar> \<le> 1 / 1000"
proof -
  have small: "(2::rat) powi (- 1022) \<le> 1 / 4"
  proof -
    have "(2::rat) powi (- 1022) \<le> 2 powi (- 2)" by (rule power_int_increasing) auto
    then show ?thesis by (simp add: power_int_minus)
  qed
  have large: "(200000::rat) \<le> 2 ^ 1000"
  proof -
    have "(200000::rat) \<le> 2 ^ 18" by simp
    also have "(2::rat) ^ 18 \<le> 2 ^ 1000" by (rule power_increasing) auto
    finally show ?thesis .
  qed
  let ?r = "rndq p"
  have n: "500 \<le> (of_int n :: rat)" "(of_int n :: rat) \<le> 100000"
    using assms(1,2) by (simp_all add: of_int_le_iff [where 'a = rat, of _ 100000, simplified]
        of_int_le_iff [where 'a = rat, of 500, simplified])
  have pn: "2 powi (- 1022) \<le> \<bar>p\<bar>" using assms(3) small by linarith
  have fp: "fl p = Fin ?r" using assms(3,4) large by (intro fl_normal(1) pn) linarith
  have "\<bar>?r - p\<bar> \<le> \<bar>p\<bar> / 2 ^ 53" by (rule rndq_err [OF pn])
  also have "\<dots> \<le> 1 / 2 ^ 53" using assms(3,4) by (intro divide_right_mono) auto
  finally have er: "\<bar>?r - p\<bar> \<le> 1 / 2 ^ 53" .
  let ?m = "of_int n * ?r"
  have "\<bar>?m - of_int n * p\<bar> = of_int n * \<bar>?r - p\<bar>"
    using n by (simp add: abs_mult flip: right_diff_distrib)
  also have "\<dots> \<le> 100000 * (1 / 2 ^ 53)" using n er by (intro mult_mono) auto
  also have "\<dots> \<le> 1 / 4000" by simp
  finally have em: "\<bar>?m - of_int n * p\<bar> \<le> 1 / 4000" .
  have np: "250 \<le> of_int n * p" "of_int n * p \<le> 100000"
    using mult_mono [of 500 "of_int n" "1 / 2" p] mult_mono [of "of_int n" 100000 p 1] n assms by auto
  have mn: "2 powi (- 1022) \<le> \<bar>?m\<bar>" and ml: "\<bar>?m\<bar> \<le> 2 ^ 1000" and m0: "?m \<noteq> 0"
    using em np small large by linarith+
  have "\<bar>rndq ?m - ?m\<bar> \<le> \<bar>?m\<bar> / 2 ^ 53" by (rule rndq_err [OF mn])
  also have "\<dots> \<le> 200000 / 2 ^ 53"
  proof (rule divide_right_mono)
    show "\<bar>?m\<bar> \<le> 200000" using em np by linarith
  qed simp
  also have "\<dots> \<le> (1 / 4000 :: rat)" by simp
  finally have "\<bar>rndq ?m - of_int n * p\<bar> \<le> 1 / 1000" using em by linarith
  moreover have "fmul (f64_of_int n) (fl p) = Fin (rndq ?m)"
    using m0 fl_normal(1) [OF mn ml] f64_of_int_exact [of n] assms(1,2) fp by (simp add: fmul_def is_fin_def)
  ultimately show ?thesis by blast
qed

lemma percentile_index_bounds:
  assumes "500 \<le> n" and "n \<le> 100000" and "1 / 2 \<le> p" and "p \<le> 999 / 1000"
  shows "0 \<le> percentile_index n (fl p)" and "percentile_index n (fl p) < n"
    and "p + 9 / 1000 \<le> q \<Longrightarrow> q \<le> 999 / 1000 \<Longrightarrow> percentile_index n (fl p) \<le> percentile_index n (fl q)"
proof -
  have n: "500 \<le> (of_int n :: rat)"
    using assms(1) by (simp add: of_int_le_iff [where 'a = rat, of 500, simplified])
  obtain m where m: "fmul (f64_of_int n) (fl p) = Fin m" "\<bar>m - of_int n * p\<bar> \<le> 1 / 1000"
    using percentile_near [OF assms(1,2,3)] assms(4) by auto
  have "of_int n * p \<le> of_int n * (999 / 1000)" using n assms(4) by (intro mult_left_mono) auto
  moreover have "500 * (1 / 2) \<le> of_int n * p" using n assms(3) by (intro mult_mono) auto
  ultimately have mb: "0 \<le> m" "m < of_int n" using m(2) n by linarith+
  have i: "percentile_index n (fl p) = \<lfloor>m\<rfloor>" using mb m by (simp add: percentile_index_def int_of_f64_def)
  with mb show "0 \<le> percentile_index n (fl p)" and "percentile_index n (fl p) < n"
    by (auto simp: floor_less_iff)
  show "percentile_index n (fl p) \<le> percentile_index n (fl q)" if q: "p + 9 / 1000 \<le> q" "q \<le> 999 / 1000"
  proof -
    obtain m' where m': "fmul (f64_of_int n) (fl q) = Fin m'" "\<bar>m' - of_int n * q\<bar> \<le> 1 / 1000"
      using percentile_near [OF assms(1,2), of q] assms(3) q by auto
    have "500 * (9 / 1000) \<le> of_int n * (q - p)" using n q by (intro mult_mono) auto
    then have "4 \<le> of_int n * q - of_int n * p" by (simp add: right_diff_distrib)
    with m(2) m'(2) have "m \<le> m'" by linarith
    with mb i m' show ?thesis by (simp add: percentile_index_def int_of_f64_def floor_mono)
  qed
qed

section \<open>Properties\<close>

text \<open>
  The diagnostics tell the truth: for a configured environment, the result
  \<open>EvaluateFlagWithTrace\<close> returns is the result of \<open>EvaluateFlag\<close> (up to the measured latency), and the
  trace's final reason, variant and decision are those of that result. For an environment that is
  not configured the two agree on everything but the reason, which is \<open>ENV_DISABLED\<close> in the trace
  and \<open>KILL_SWITCH_DISABLED\<close> in the evaluation.
\<close>

theorem trace_agrees:
  assumes "cache_ok rt cache" and "fst (EvaluateFlagWithTrace rt cache ns ns' flag ctx) = (res, tr)"
  shows "no_latency res = (no_latency (fst (EvaluateFlag rt cache ns flag ctx)))\<lparr>er_Reason :=
      (if mget (ff_Environments flag) (or_else (cx_Environment ctx) ''production'') = None
       then ''ENV_DISABLED'' else er_Reason (fst (EvaluateFlag rt cache ns flag ctx)))\<rparr>
    \<and> et_FinalEnabled tr = er_Enabled res \<and> et_FinalVariant tr = er_Variant res
    \<and> et_FinalReason tr = er_Reason res"
proof (cases "mget (ff_Environments flag) (or_else (cx_Environment ctx) ''production'')")
  case None
  then show ?thesis using assms(2)
    by (auto simp: EvaluateFlagWithTrace_def EvaluateFlag_def env_config_def no_latency_def trace_of_def
        zero_result_def zero_env_config_def or_else_def Let_def)
next
  case (Some cfg)
  then have cfg: "env_config flag ctx = cfg" by (simp add: env_config_def)
  show ?thesis
  proof (cases "ec_Enabled cfg")
    case True
    from EvaluateFlagWithTrace_active [OF assms(1) Some True, of ns ns'] assms(2) Some show ?thesis
      by (auto simp: Let_def trace_of_def no_latency_def)
  next
    case False
    with Some cfg show ?thesis using assms(2)
      by (auto simp: EvaluateFlagWithTrace_def EvaluateFlag_def no_latency_def trace_of_def zero_result_def Let_def)
  qed
qed

theorem trace_agrees_witness:
  "er_Enabled (fst (fst (EvaluateFlagWithTrace demo_runtime [] 1 2 demo_flag (demo_ctx ''carol'' ''FR''))))"
proof -
  obtain res tr where rt: "fst (EvaluateFlagWithTrace demo_runtime [] 1 2 demo_flag (demo_ctx ''carol'' ''FR'')) = (res, tr)"
    by fastforce
  from trace_agrees [OF cache_ok_Nil rt] have "er_Enabled (no_latency res) =
      er_Enabled (fst (EvaluateFlag demo_runtime [] 1 demo_flag (demo_ctx ''carol'' ''FR'')))"
    by (simp add: no_latency_def)
  with rt demo_carol [of 1] show ?thesis by (simp add: no_latency_def)
qed

text \<open>
  The steps of a trace are numbered 1, 2, 3, \<dots> without a gap, there are at most two more steps
  than rules, and for a percentage flag that no rule matches the last step says \<open>passed\<close> exactly
  when the result is enabled.
\<close>

theorem trace_steps_consecutive:
  assumes "cache_ok rt cache" and "fst (EvaluateFlagWithTrace rt cache ns ns' flag ctx) = (res, tr)"
  shows "map rs_StepIndex (et_Steps tr) = [1..int (length (et_Steps tr))]
    \<and> length (et_Steps tr) \<le> length (ec_Rules (env_config flag ctx)) + 2
    \<and> (ec_Enabled (env_config flag ctx) \<and> ec_Strategy (env_config flag ctx) = ''percentage''
        \<and> (\<forall>r \<in> set (ec_Rules (env_config flag ctx)). \<not> rule_matches rt r ctx)
       \<longrightarrow> rs_Passed (last (et_Steps tr)) = er_Enabled res)"
proof (cases "mget (ff_Environments flag) (or_else (cx_Environment ctx) ''production'')")
  case None
  then show ?thesis using assms(2)
    by (auto simp: EvaluateFlagWithTrace_def env_config_def trace_of_def step_def zero_env_config_def Let_def)
next
  case (Some cfg)
  then have cfg: "env_config flag ctx = cfg" by (simp add: env_config_def)
  show ?thesis
  proof (cases "ec_Enabled cfg")
    case False
    with Some cfg show ?thesis using assms(2)
      by (auto simp: EvaluateFlagWithTrace_def trace_of_def step_def Let_def)
  next
    case True
    let ?m = "\<exists>r \<in> set (ec_Rules cfg). rule_matches rt r ctx"
    let ?b = "fst (GetStickyBucket (eval_identifier ctx) (ff_Key flag))"
    from EvaluateFlagWithTrace_active [OF assms(1) Some True, of ns ns'] assms(2)
    obtain new where new: "length new \<le> length (ec_Rules cfg)" "map rs_StepIndex new = [2..int (length new) + 1]"
      "res = fst (EvaluateFlag rt cache ns flag ctx)"
      "et_Steps tr = step 1 ''Master Kill-Switch Check'' True (''Flag is active and enabled in ''
         @ or_else (cx_Environment ctx) ''production'' @ '' environment.'') # new
         @ (if ?m then [] else [strategy_step cfg ?b (2 + int (length new))])"
      by (auto simp: Let_def trace_of_def)
    have si: "rs_StepIndex (strategy_step cfg b i) = i" for b i by (simp add: strategy_step_def step_def)
    have up: "1 # [2..int k + 1] = [1..1 + int k]" "1 # [2..int k + 1] @ [2 + int k] = [1..2 + int k]" for k
      using upto_rec1 [of 1 "int k + 1"] upto_rec2 [of 1 "2 + int k"] by (auto simp: algebra_simps)
    have "\<not> ?m \<Longrightarrow> ec_Strategy cfg = ''percentage'' \<Longrightarrow> er_Enabled res = flt ?b (ec_Percentage cfg)"
      using new(3) True cfg
      by (simp add: EvaluateFlag_enabled [OF assms(1)] Let_def find_None_iff [THEN iffD2])
    with new si up [of "length new"] cfg show ?thesis
      by (auto simp: step_def strategy_step_def)
  qed
qed

theorem trace_steps_consecutive_witness:
  "map rs_StepIndex (et_Steps (snd (fst (EvaluateFlagWithTrace demo_runtime [] 1 2 demo_flag (demo_ctx ''carol'' ''FR''))))) =
   [1..int (length (et_Steps (snd (fst (EvaluateFlagWithTrace demo_runtime [] 1 2 demo_flag (demo_ctx ''carol'' ''FR''))))))]"
  using trace_steps_consecutive [OF cache_ok_Nil prod.collapse [symmetric]] by blast

text \<open>
  \<open>RunBenchmark\<close> never indexes out of range, for any flag and any requested number of
  iterations: it runs between 500 and 100000 iterations, its percentiles are ordered, and its
  hash buckets count every iteration exactly once.
\<close>

theorem RunBenchmark_total:
  assumes "cache_ok rt cache"
  shows "\<exists>m c. RunBenchmark rt cache dur totalDur flag env n = Some (m, c) \<and> cache_ok rt c
    \<and> 500 \<le> bm_Iterations m \<and> bm_Iterations m \<le> 100000
    \<and> bm_MinNs m \<le> bm_P50Ns m \<and> bm_P50Ns m \<le> bm_P90Ns m \<and> bm_P90Ns m \<le> bm_P99Ns m
    \<and> bm_P99Ns m \<le> bm_P999Ns m \<and> bm_P999Ns m \<le> bm_MaxNs m
    \<and> length (bm_HashBuckets m) = 100 \<and> sum_list (bm_HashBuckets m) = bm_Iterations m"
proof -
  let ?n = "clamp_iterations n" and ?raw = "map dur [0..clamp_iterations n - 1]"
  let ?l = "sort ?raw"
  have n: "500 \<le> ?n" "?n \<le> 100000" by (auto simp: clamp_iterations_def Let_def)
  then have len: "length ?raw = nat ?n" by simp
  obtain bs c where loop: "bench_loop rt flag env ?raw 0 (replicate 100 0) cache = Some (bs, c)"
    "length bs = 100" "sum_list bs = ?n" "cache_ok rt c"
    using bench_loop_ok [OF assms, of "replicate 100 0" flag env ?raw 0] n
    by (auto simp: len sum_list_replicate)
  have idx: "go_index ?l i = Some (?l ! nat i)" if "0 \<le> i" "i < ?n" for i
    using that len by (simp add: go_index_def)
  have mono: "?l ! nat i \<le> ?l ! nat j" if "0 \<le> i" "i \<le> j" "j < ?n" for i j
    using that len by (intro sorted_nth_mono) (auto simp: nat_le_iff)
  let ?i = "\<lambda>p. percentile_index ?n (fl p)"
  have b: "0 \<le> ?i (50 / 100) \<and> ?i (50 / 100) < ?n" "0 \<le> ?i (90 / 100) \<and> ?i (90 / 100) < ?n"
    "0 \<le> ?i (99 / 100) \<and> ?i (99 / 100) < ?n" "0 \<le> ?i (999 / 1000) \<and> ?i (999 / 1000) < ?n"
    "?i (50 / 100) \<le> ?i (90 / 100)" "?i (90 / 100) \<le> ?i (99 / 100)" "?i (99 / 100) \<le> ?i (999 / 1000)"
    using n by (auto intro!: percentile_index_bounds simp del: divide_eq_eq_numeral1)
  have "?l ! nat 0 \<le> ?l ! nat (?i (50 / 100))" "?l ! nat (?i (50 / 100)) \<le> ?l ! nat (?i (90 / 100))"
    "?l ! nat (?i (90 / 100)) \<le> ?l ! nat (?i (99 / 100))" "?l ! nat (?i (99 / 100)) \<le> ?l ! nat (?i (999 / 1000))"
    "?l ! nat (?i (999 / 1000)) \<le> ?l ! nat (?n - 1)"
    using b n by - (rule mono; linarith)+
  then show ?thesis
    using n b loop by (simp add: RunBenchmark_def Let_def idx)
qed

theorem RunBenchmark_total_witness:
  "\<exists>m c. RunBenchmark demo_runtime [] (\<lambda>i. i) 1000000 demo_flag ''production'' 3 = Some (m, c)"
  using RunBenchmark_total [OF cache_ok_Nil] by metis

end
