(* ===== verification/Sdk_Evaluator.thy ===== *)
theory Sdk_Evaluator
  imports Engine
begin

text \<open>
  \<open>src/sdks/go/models.go\<close> and \<open>src/sdks/go/evaluator.go\<close>: the data the Go SDK decodes from the
  server and its local evaluator. The SDK has its own record types, its own rule language (a rule is
  a conjunction of conditions) and its own copies of the hash, the bucket and the regular-expression
  cache. \<open>decode_flag\<close> is what \<open>encoding/json\<close> leaves of a server flag in the SDK's types: the fields
  whose JSON names agree. The elapsed time is the argument \<open>ns\<close>.
\<close>

unbundle bit_operations_syntax

section \<open>Data\<close>

record SdkVariant =
  kv_Key :: string
  kv_Value :: gvalue
  kv_Weight :: "64 word"
  kv_Description :: string

record RuleCondition =
  kc_Attribute :: string
  kc_Operator :: string
  kc_Value :: gvalue

record SdkRule =
  kr_ID :: string
  kr_Description :: string
  kr_Conditions :: "RuleCondition list"
  kr_Variant :: string
  kr_Value :: gvalue
  kr_Enabled :: bool

record SdkEnvironmentConfig =
  ke_Enabled :: bool
  ke_Strategy :: string
  ke_Percentage :: "64 word"
  ke_Rules :: "SdkRule list"
  ke_DefaultVariant :: string
  ke_DefaultValue :: gvalue

record SdkFlag =
  kf_ID :: string
  kf_ProjectID :: string
  kf_Key :: string
  kf_Name :: string
  kf_Description :: string
  kf_Type :: string
  kf_Tags :: "string list"
  kf_Variants :: "SdkVariant list"
  kf_Environments :: "(string, SdkEnvironmentConfig) gomap"
  kf_CreatedAt :: gtime
  kf_UpdatedAt :: gtime

record SdkContext =
  kx_UserID :: string
  kx_Email :: string
  kx_Country :: string
  kx_Role :: string
  kx_Tier :: string
  kx_Environment :: string
  kx_Custom :: "(string, gvalue) gomap"

record SdkResult =
  kz_FlagKey :: string
  kz_Enabled :: bool
  kz_Variant :: string
  kz_Value :: gvalue
  kz_Reason :: string
  kz_Bucket :: f64
  kz_EvaluationLatencyNs :: int
  kz_EvaluationLatencyUs :: f64

section \<open>Hashing and text\<close>

definition sdk_getOrCompileRegex :: "runtime \<Rightarrow> regex_cache \<Rightarrow> string \<Rightarrow> (string \<Rightarrow> bool) option \<times> regex_cache" where
  "sdk_getOrCompileRegex rt cache patternStr =
     (case mget cache patternStr of
        Some val \<Rightarrow> (Some val, cache)
      | None \<Rightarrow>
          (case rt_regexp rt patternStr of
             None \<Rightarrow> (None, cache)
           | Some re \<Rightarrow> (Some re, mput patternStr re cache)))"

definition sdk_FNV1a64 :: "string \<Rightarrow> 64 word" where
  "sdk_FNV1a64 input = fold (\<lambda>c h. (h XOR of_nat (byte_of c)) * 1099511628211) input 14695981039346656037"

definition sdk_GetStickyBucket :: "string \<Rightarrow> string \<Rightarrow> f64" where
  "sdk_GetStickyBucket identifier salt =
     (let combined = identifier @ '':'' @ salt;
          hash = sdk_FNV1a64 combined;
          slot = f64_of_int (uint (hash mod 10000));
          bucket = fdiv (fround (fmul (fdiv slot (Fin 100)) (Fin 100))) (Fin 100)
      in bucket)"

fun sdk_toStringFast :: "runtime \<Rightarrow> gvalue \<Rightarrow> string" where
  "sdk_toStringFast rt (GString v) = ToLower rt (TrimSpace rt v)"
| "sdk_toStringFast rt (GStringer v) = ToLower rt (TrimSpace rt v)"
| "sdk_toStringFast rt (GBool v) = (if v then ''true'' else ''false'')"
| "sdk_toStringFast rt (GInt v) = Itoa (sint v)"
| "sdk_toStringFast rt (GInt64 v) = Itoa (sint v)"
| "sdk_toStringFast rt (GFloat v) = FormatFloat v"
| "sdk_toStringFast rt (GOther v) = ToLower rt (TrimSpace rt v)"
| "sdk_toStringFast rt GNil = ToLower rt (TrimSpace rt ''<nil>'')"

text \<open>
  \<open>fmt.Sprintf("%v", x)\<close>. A \<open>float64\<close> is printed with \<open>%g\<close>: the shortest digits, in scientific
  notation when the decimal exponent is below \<open>-4\<close> or at least \<open>6\<close>.
\<close>

definition scientific :: "int \<Rightarrow> int \<Rightarrow> string" where
  "scientific c e =
     (let s = show_base 10 c; x = int (length s) - 1 + e
      in hd s # (if tl s = [] then [] else ''.'' @ tl s) @ (if x < 0 then ''e-'' else ''e+'') @ pad0 2 \<bar>x\<bar>)"

fun float_v :: "f64 \<Rightarrow> string" where
  "float_v (Fin q) =
     (if q = 0 then ''0''
      else let k = decpt \<bar>q\<bar>; (c, e) = shortest \<bar>q\<bar> k [1..17]
           in (if q < 0 then ''-'' else [])
              @ (if k - 1 < - 4 \<or> 6 \<le> k - 1 then scientific c e else place_point c e))"
| "float_v x = FormatFloat x"

fun Sprint_v :: "gvalue \<Rightarrow> string" where
  "Sprint_v (GString v) = v"
| "Sprint_v (GStringer v) = v"
| "Sprint_v (GBool v) = (if v then ''true'' else ''false'')"
| "Sprint_v (GInt v) = Itoa (sint v)"
| "Sprint_v (GInt64 v) = Itoa (sint v)"
| "Sprint_v (GFloat v) = float_v v"
| "Sprint_v (GOther v) = v"
| "Sprint_v GNil = ''<nil>''"

section \<open>Conditions\<close>

definition condition_target :: "runtime \<Rightarrow> RuleCondition \<Rightarrow> SdkContext \<Rightarrow> gvalue" where
  "condition_target rt cond ctx =
     (let a = ToLower rt (kc_Attribute cond) in
      if a = ''user_id'' \<or> a = ''userid'' then GString (kx_UserID ctx)
      else if a = ''email'' then GString (kx_Email ctx)
      else if a = ''country'' then GString (kx_Country ctx)
      else if a = ''role'' then GString (kx_Role ctx)
      else if a = ''tier'' then GString (kx_Tier ctx)
      else (case mget (kx_Custom ctx) (kc_Attribute cond) of Some v \<Rightarrow> v | None \<Rightarrow> GNil))"

definition numeric_condition :: "(f64 \<Rightarrow> f64 \<Rightarrow> bool) \<Rightarrow> string \<Rightarrow> string \<Rightarrow> bool" where
  "numeric_condition cmp strTarget strExpected =
     (case (ParseFloat strTarget, ParseFloat strExpected) of
        (Some tNum, Some eNum) \<Rightarrow> cmp tNum eNum
      | _ \<Rightarrow> False)"

definition EvaluateCondition ::
  "runtime \<Rightarrow> regex_cache \<Rightarrow> RuleCondition \<Rightarrow> SdkContext \<Rightarrow> bool \<times> regex_cache" where
  "EvaluateCondition rt cache cond ctx =
     (let targetVal = condition_target rt cond ctx in
      if targetVal = GNil then (False, cache)
      else let strTarget = sdk_toStringFast rt targetVal;
               strExpected = sdk_toStringFast rt (kc_Value cond);
               op = ToUpper rt (kc_Operator cond);
               listed = list_ex (\<lambda>p. TrimSpace rt p = strTarget) (Split strExpected (CHR '',''))
           in
        if op \<in> {''EQUALS'', ''EQ'', ''==''} then (strTarget = strExpected, cache)
        else if op \<in> {''NOT_EQUALS'', ''NEQ'', ''!=''} then (strTarget \<noteq> strExpected, cache)
        else if op = ''CONTAINS'' then (Contains strTarget strExpected, cache)
        else if op = ''NOT_CONTAINS'' then (\<not> Contains strTarget strExpected, cache)
        else if op = ''STARTS_WITH'' then (HasPrefix strTarget strExpected, cache)
        else if op = ''ENDS_WITH'' then (HasSuffix strTarget strExpected, cache)
        else if op = ''IN'' then (listed, cache)
        else if op = ''NOT_IN'' then (\<not> listed, cache)
        else if op \<in> {''MATCHES_REGEX'', ''REGEX''} then
          (case sdk_getOrCompileRegex rt cache (Sprint_v (kc_Value cond)) of
             (None, cache') \<Rightarrow> (False, cache')
           | (Some re, cache') \<Rightarrow> (re (Sprint_v targetVal), cache'))
        else if op \<in> {''GREATER_THAN'', ''GT'', ''>''} then (numeric_condition (\<lambda>a b. flt b a) strTarget strExpected, cache)
        else if op \<in> {''GREATER_THAN_OR_EQUAL'', ''GTE'', ''>=''} then (numeric_condition (\<lambda>a b. fle b a) strTarget strExpected, cache)
        else if op \<in> {''LESS_THAN'', ''LT'', ''<''} then (numeric_condition flt strTarget strExpected, cache)
        else if op \<in> {''LESS_THAN_OR_EQUAL'', ''LTE'', ''<=''} then (numeric_condition fle strTarget strExpected, cache)
        else (False, cache))"

text \<open>The two nested loops of the \<open>rules\<close> strategy: the conditions of a rule, then the rules.\<close>

fun all_match :: "runtime \<Rightarrow> regex_cache \<Rightarrow> SdkContext \<Rightarrow> RuleCondition list \<Rightarrow> bool \<times> regex_cache" where
  "all_match rt cache ctx [] = (True, cache)"
| "all_match rt cache ctx (cond # conds) =
     (case EvaluateCondition rt cache cond ctx of
        (False, cache') \<Rightarrow> (False, cache')
      | (True, cache') \<Rightarrow> all_match rt cache' ctx conds)"

fun first_rule :: "runtime \<Rightarrow> regex_cache \<Rightarrow> SdkContext \<Rightarrow> SdkRule list \<Rightarrow> SdkRule option \<times> regex_cache" where
  "first_rule rt cache ctx [] = (None, cache)"
| "first_rule rt cache ctx (rule # rules) =
     (case all_match rt cache ctx (kr_Conditions rule) of
        (True, cache') \<Rightarrow> (Some rule, cache')
      | (False, cache') \<Rightarrow> first_rule rt cache' ctx rules)"

text \<open>The loop over \<open>flag.Variants\<close>; \<open>None\<close> is falling out of it.\<close>

fun sdk_pick :: "f64 \<Rightarrow> f64 \<Rightarrow> SdkVariant list \<Rightarrow> SdkVariant option" where
  "sdk_pick bucket cumulative [] = None"
| "sdk_pick bucket cumulative (v # vs) =
     (let cumulative' = fadd cumulative (f64_of_int (sint (kv_Weight v)))
      in if flt bucket cumulative' then Some v else sdk_pick bucket cumulative' vs)"

definition sdk_zero_result :: SdkResult where
  "sdk_zero_result = \<lparr>kz_FlagKey = [], kz_Enabled = False, kz_Variant = [], kz_Value = GNil, kz_Reason = [],
     kz_Bucket = Fin 0, kz_EvaluationLatencyNs = 0, kz_EvaluationLatencyUs = Fin 0\<rparr>"

definition sdk_env :: "SdkContext \<Rightarrow> string" where
  "sdk_env ctx = (if kx_Environment ctx = [] then EnvProduction else kx_Environment ctx)"

definition sdk_id :: "SdkContext \<Rightarrow> string" where
  "sdk_id ctx = (if kx_UserID ctx = [] then ''anonymous'' else kx_UserID ctx)"

definition Evaluate :: "runtime \<Rightarrow> regex_cache \<Rightarrow> int \<Rightarrow> SdkFlag \<Rightarrow> SdkContext \<Rightarrow> SdkResult \<times> regex_cache" where
  "Evaluate rt cache ns flag ctx =
     (let base = sdk_zero_result\<lparr>kz_FlagKey := kf_Key flag, kz_EvaluationLatencyNs := ns,
            kz_EvaluationLatencyUs := fdiv (f64_of_int ns) (Fin 1000)\<rparr>
      in case mget (kf_Environments flag) (sdk_env ctx) of
        None \<Rightarrow> (base\<lparr>kz_Enabled := False, kz_Reason := ''ENVIRONMENT_NOT_FOUND''\<rparr>, cache)
      | Some envCfg \<Rightarrow>
          if \<not> ke_Enabled envCfg then (base\<lparr>kz_Enabled := False, kz_Reason := ''FLAG_DISABLED''\<rparr>, cache)
          else if ke_Strategy envCfg = StrategyBoolean then
            (base\<lparr>kz_Enabled := True, kz_Reason := ''STRATEGY_BOOLEAN''\<rparr>, cache)
          else if ke_Strategy envCfg = StrategyPercentage then
            (let bucket = sdk_GetStickyBucket (sdk_id ctx) (kf_Key flag);
                 enabled = flt bucket (f64_of_int (sint (ke_Percentage envCfg)))
             in (base\<lparr>kz_Enabled := enabled, kz_Bucket := bucket,
                   kz_Reason := (if enabled then ''PERCENTAGE_ROLLOUT_INCLUDED'' else ''PERCENTAGE_ROLLOUT_EXCLUDED'')\<rparr>, cache))
          else if ke_Strategy envCfg = StrategyRules then
            (case first_rule rt cache ctx (ke_Rules envCfg) of
               (Some rule, cache') \<Rightarrow>
                 (base\<lparr>kz_Enabled := kr_Enabled rule, kz_Variant := kr_Variant rule, kz_Value := kr_Value rule,
                    kz_Reason := ''RULE_MATCH: '' @ kr_ID rule\<rparr>, cache')
             | (None, cache') \<Rightarrow>
                 (base\<lparr>kz_Enabled := False, kz_Variant := ke_DefaultVariant envCfg, kz_Value := ke_DefaultValue envCfg,
                    kz_Reason := ''RULES_DEFAULT_FALLBACK''\<rparr>, cache'))
          else if ke_Strategy envCfg = StrategyMultivariate then
            (let bucket = sdk_GetStickyBucket (sdk_id ctx) (kf_Key flag) in
             case sdk_pick bucket (Fin 0) (kf_Variants flag) of
               Some variant \<Rightarrow>
                 (base\<lparr>kz_Enabled := True, kz_Variant := kv_Key variant, kz_Value := kv_Value variant,
                    kz_Bucket := bucket, kz_Reason := ''MULTIVARIATE_MATCH''\<rparr>, cache)
             | None \<Rightarrow>
                 (base\<lparr>kz_Enabled := True, kz_Variant := ke_DefaultVariant envCfg, kz_Value := ke_DefaultValue envCfg,
                    kz_Bucket := bucket, kz_Reason := ''MULTIVARIATE_FALLBACK''\<rparr>, cache))
          else (base\<lparr>kz_Enabled := True, kz_Reason := ''DEFAULT_ENABLED''\<rparr>, cache))"

section \<open>Decoding a server flag\<close>

text \<open>
  The JSON names the two packages share. Of a rule only \<open>id\<close> is shared, of an environment
  \<open>enabled\<close>, \<open>strategy\<close>, \<open>percentage\<close> and \<open>rules\<close> (its variants are under \<open>variants\<close> of the
  environment on the server and of the flag in the SDK), of a flag \<open>id\<close>, \<open>key\<close>, \<open>name\<close>,
  \<open>description\<close>, \<open>type\<close>, \<open>tags\<close> and \<open>environments\<close>. The percentage is a \<open>float64\<close> on the server
  and an \<open>int\<close> in the SDK: a number with a fraction, or one outside the range of \<open>int\<close>, is a decoding
  error (\<open>None\<close>). Text is taken to be valid UTF-8, which \<open>encoding/json\<close> keeps as it is.
\<close>

text \<open>
  The integer that the JSON text of a whole \<open>float64\<close> denotes: the number itself below \<open>2\<^sup>5\<^sup>3\<close>, and
  above it the shortest digits followed by zeros.
\<close>

definition json_integer :: "int \<Rightarrow> int" where
  "json_integer n =
     (if \<bar>n\<bar> < 2 ^ 53 then n
      else case shortest (of_int \<bar>n\<bar>) (decpt (of_int \<bar>n\<bar>)) [1..17] of (c, e) \<Rightarrow> sgn n * c * 10 ^ nat e)"

fun decode_int :: "f64 \<Rightarrow> 64 word option" where
  "decode_int (Fin q) =
     (case quotient_of q of (n, d) \<Rightarrow>
        let m = json_integer n in
        if d = 1 \<and> - (2 ^ 63) \<le> m \<and> m < 2 ^ 63 then Some (word_of_int m) else None)"
| "decode_int NZero = Some 0"
| "decode_int _ = None"

definition decode_rule :: "TargetingRule \<Rightarrow> SdkRule" where
  "decode_rule r = \<lparr>kr_ID = tr_ID r, kr_Description = [], kr_Conditions = [], kr_Variant = [], kr_Value = GNil,
     kr_Enabled = False\<rparr>"

definition decode_config :: "EnvironmentConfig \<Rightarrow> SdkEnvironmentConfig option" where
  "decode_config c = map_option (\<lambda>p. \<lparr>ke_Enabled = ec_Enabled c, ke_Strategy = ec_Strategy c, ke_Percentage = p,
     ke_Rules = map decode_rule (ec_Rules c), ke_DefaultVariant = [], ke_DefaultValue = GNil\<rparr>) (decode_int (ec_Percentage c))"

fun decode_envs :: "(string, EnvironmentConfig) gomap \<Rightarrow> (string, SdkEnvironmentConfig) gomap option" where
  "decode_envs [] = Some []"
| "decode_envs ((e, c) # cs) =
     (case (decode_config c, decode_envs cs) of (Some k, Some ks) \<Rightarrow> Some ((e, k) # ks) | _ \<Rightarrow> None)"

definition decode_flag :: "FeatureFlag \<Rightarrow> SdkFlag option" where
  "decode_flag f = map_option (\<lambda>es. \<lparr>kf_ID = ff_ID f, kf_ProjectID = [], kf_Key = ff_Key f, kf_Name = ff_Name f,
     kf_Description = ff_Description f, kf_Type = ff_Type f, kf_Tags = ff_Tags f, kf_Variants = [],
     kf_Environments = es, kf_CreatedAt = 0, kf_UpdatedAt = 0\<rparr>) (decode_envs (ff_Environments f))"

section \<open>Bucketing\<close>

lemma sdk_GetStickyBucket_engine: "sdk_GetStickyBucket i s = fst (GetStickyBucket i s)"
  by (simp add: sdk_GetStickyBucket_def GetStickyBucket_def sdk_FNV1a64_def FNV1a64_def Let_def)

interpretation sdk_bucket: sticky_bucketing sdk_GetStickyBucket sticky_slot
  by unfold_locales (simp_all add: sdk_GetStickyBucket_engine sticky_slot_bound engine_bucket.bucket_slot)

lemma small_int_float: "\<bar>n\<bar> < 2 ^ 53 \<Longrightarrow> f64_of_int n = Fin (of_int n)"
  by (rule f64_of_int_exact)

text \<open>Comparison of a bucket with an integer percentage, whatever the integer.\<close>

lemma bucket_less_percentage:
  assumes "0 \<le> p" and "p \<le> 100"
  shows "flt (sdk_GetStickyBucket i s) (f64_of_int p) \<longleftrightarrow> int (sticky_slot i s) < 100 * p"
proof -
  have "f64_of_int p = Fin (of_nat (nat p))" using assms f64_of_int_exact [of p] by simp
  then show ?thesis using sdk_bucket.bucket_less_int [of i s "nat p"] assms by (simp add: nat_less_iff) linarith
qed

section \<open>Decoding\<close>

lemma decode_int_exact:
  assumes "decode_int (Fin q) = Some p" and "\<bar>q\<bar> < 2 ^ 53"
  shows "q = of_int (sint p)" and "\<bar>sint p\<bar> < 2 ^ 53"
proof -
  obtain n d where nd: "quotient_of q = (n, d)" by fastforce
  have d: "d = 1" using assms(1) nd by (auto simp: Let_def split: if_splits)
  have q: "q = of_int n" using quotient_of_div [OF nd] d by simp
  have n: "\<bar>n\<bar> < 2 ^ 53"
    using assms(2) unfolding q by (metis of_int_abs of_int_less_iff of_int_numeral of_int_power)
  then have p: "p = word_of_int n" using assms(1) nd by (auto simp: json_integer_def Let_def split: if_splits)
  have "sint p = n" using n unfolding p by (simp add: sint_sbintrunc' signed_take_bit_int_eq_self)
  with q n show "q = of_int (sint p)" and "\<bar>sint p\<bar> < 2 ^ 53" by simp_all
qed

lemma decode_envs_mget:
  "decode_envs es = Some ks \<Longrightarrow>
   (case mget es e of None \<Rightarrow> mget ks e = None | Some c \<Rightarrow> \<exists>k. decode_config c = Some k \<and> mget ks e = Some k)"
proof (induction es arbitrary: ks rule: decode_envs.induct)
  case (2 e' c cs)
  then obtain k ks' where "decode_config c = Some k" "decode_envs cs = Some ks'" "ks = (e', k) # ks'"
    by (auto split: option.splits)
  with 2 show ?case by (auto simp: mget_def split: option.splits)
qed simp

lemma decode_flag_key [simp]: "decode_flag f = Some g \<Longrightarrow> kf_Key g = ff_Key f"
  by (auto simp: decode_flag_def)

lemma decode_flag_mget:
  assumes "decode_flag f = Some g"
  shows "case mget (ff_Environments f) e of None \<Rightarrow> mget (kf_Environments g) e = None
    | Some c \<Rightarrow> \<exists>k. decode_config c = Some k \<and> mget (kf_Environments g) e = Some k"
proof -
  obtain ks where ks: "decode_envs (ff_Environments f) = Some ks" "kf_Environments g = ks"
    using assms by (auto simp: decode_flag_def)
  show ?thesis unfolding ks(2) by (rule decode_envs_mget [OF ks(1)])
qed

section \<open>Rules and the cache\<close>

definition condition_holds :: "runtime \<Rightarrow> SdkContext \<Rightarrow> RuleCondition \<Rightarrow> bool" where
  "condition_holds rt ctx cond = fst (EvaluateCondition rt [] cond ctx)"

lemma sdk_getOrCompileRegex_cases:
  assumes "cache_ok rt cache"
  obtains cache' where "sdk_getOrCompileRegex rt cache p = (rt_regexp rt p, cache')" and "cache_ok rt cache'"
  using getOrCompileRegex_cases [OF assms, of p]
  by (metis sdk_getOrCompileRegex_def getOrCompileRegex_def)

lemma EvaluateCondition_ok:
  assumes "cache_ok rt cache"
  shows "fst (EvaluateCondition rt cache cond ctx) = condition_holds rt ctx cond
    \<and> cache_ok rt (snd (EvaluateCondition rt cache cond ctx))"
proof -
  let ?p = "Sprint_v (kc_Value cond)"
  obtain c1 where c1: "sdk_getOrCompileRegex rt cache ?p = (rt_regexp rt ?p, c1)" "cache_ok rt c1"
    using assms by (rule sdk_getOrCompileRegex_cases)
  obtain c2 where c2: "sdk_getOrCompileRegex rt [] ?p = (rt_regexp rt ?p, c2)"
    using sdk_getOrCompileRegex_cases [OF cache_ok_Nil] by blast
  show ?thesis
    using assms c1 c2 unfolding condition_holds_def EvaluateCondition_def Let_def
    by (cases "rt_regexp rt ?p") (simp_all split del: if_split add: if_distrib [of fst] if_distrib [of snd] if_distrib [of "cache_ok rt"] cong: if_cong)
qed

lemma all_match_ok:
  assumes "cache_ok rt cache"
  shows "fst (all_match rt cache ctx conds) = list_all (condition_holds rt ctx) conds
    \<and> cache_ok rt (snd (all_match rt cache ctx conds))"
  using assms
proof (induction rt cache ctx conds rule: all_match.induct)
  case (2 rt cache ctx cond conds)
  obtain b c where bc: "EvaluateCondition rt cache cond ctx = (b, c)" by fastforce
  with EvaluateCondition_ok [OF "2.prems", of cond ctx] have "b = condition_holds rt ctx cond" "cache_ok rt c" by simp_all
  with "2.IH" bc show ?case by (cases b) auto
qed simp

lemma first_rule_ok:
  assumes "cache_ok rt cache"
  shows "fst (first_rule rt cache ctx rules) = find (\<lambda>r. list_all (condition_holds rt ctx) (kr_Conditions r)) rules
    \<and> cache_ok rt (snd (first_rule rt cache ctx rules))"
  using assms
proof (induction rt cache ctx rules rule: first_rule.induct)
  case (2 rt cache ctx rule rules)
  obtain b c where bc: "all_match rt cache ctx (kr_Conditions rule) = (b, c)" by fastforce
  with all_match_ok [OF "2.prems", of ctx "kr_Conditions rule"]
  have "b = list_all (condition_holds rt ctx) (kr_Conditions rule)" "cache_ok rt c" by simp_all
  with "2.IH" bc show ?case by (cases b) auto
qed simp

section \<open>Variants\<close>

lemma sdk_pick_int:
  assumes "map (\<lambda>v. sint (kv_Weight v)) vs = map int ws" and "\<And>w. flt b (Fin (of_nat w)) \<longleftrightarrow> s < 100 * w"
    and "100 * a \<le> s" and "a + sum_list ws < 2 ^ 53"
  shows "(case sdk_pick b (Fin (of_nat a)) vs of
      None \<Rightarrow> 100 * (a + sum_list ws) \<le> s
    | Some v \<Rightarrow> \<exists>j < length vs. v = vs ! j \<and> 100 * (a + sum_list (take j ws)) \<le> s
        \<and> s < 100 * (a + sum_list (take (Suc j) ws)))"
  using assms
proof (induction vs arbitrary: a ws)
  case (Cons v vs)
  then obtain w ws' where w: "ws = w # ws'" "sint (kv_Weight v) = int w"
      "map (\<lambda>v. sint (kv_Weight v)) vs = map int ws'" by auto
  have add: "fadd (Fin (of_nat a)) (f64_of_int (int w)) = Fin (of_nat (a + w))"
    using Cons.prems(4) w fadd_int [of a w] f64_of_int_exact [of "int w"] by simp
  show ?case
  proof (cases "s < 100 * (a + w)")
    case True
    then show ?thesis using Cons.prems(2,3) w add
      by (simp add: Let_def del: of_nat_add) (intro exI [of _ 0], simp)
  next
    case False
    then have ih: "case sdk_pick b (Fin (of_nat (a + w))) vs of
        None \<Rightarrow> 100 * (a + w + sum_list ws') \<le> s
      | Some v \<Rightarrow> \<exists>j < length vs. v = vs ! j \<and> 100 * (a + w + sum_list (take j ws')) \<le> s
          \<and> s < 100 * (a + w + sum_list (take (Suc j) ws'))"
      using Cons.prems w by (intro Cons.IH) (auto simp: add.assoc)
    have step: "sdk_pick b (Fin (of_nat a)) (v # vs) = sdk_pick b (Fin (of_nat (a + w))) vs"
      using False add w(2) Cons.prems(2) by (simp add: Let_def del: of_nat_add)
    show ?thesis
    proof (cases "sdk_pick b (Fin (of_nat (a + w))) vs")
      case None
      with ih w(1) show ?thesis unfolding step by (simp add: add.assoc)
    next
      case (Some u)
      with ih obtain j where "j < length vs" "u = vs ! j" "100 * (a + w + sum_list (take j ws')) \<le> s"
          "s < 100 * (a + w + sum_list (take (Suc j) ws'))" by auto
      with Some w(1) show ?thesis unfolding step by (auto simp: add.assoc intro!: exI [of _ "Suc j"])
    qed
  qed
qed simp

section \<open>Properties\<close>

definition sdk_supported :: "EnvironmentConfig \<Rightarrow> bool" where
  "sdk_supported c \<longleftrightarrow> ec_Strategy c \<in> {StrategyBoolean, StrategyPercentage} \<and> ec_Rules c = []
     \<and> (case ec_Percentage c of Fin q \<Rightarrow> 0 \<le> q \<and> q \<le> 100 | _ \<Rightarrow> False)"

definition same_subject :: "EvaluationContext \<Rightarrow> SdkContext \<Rightarrow> bool" where
  "same_subject ctx kx \<longleftrightarrow> cx_UserID ctx = kx_UserID kx \<and> kx_UserID kx \<noteq> [] \<and> cx_Environment ctx = kx_Environment kx"

lemma decode_config_supported:
  assumes "sdk_supported c" and "decode_config c = Some k"
  shows "ke_Enabled k = ec_Enabled c \<and> ke_Strategy k = ec_Strategy c
    \<and> f64_of_int (sint (ke_Percentage k)) = ec_Percentage c"
proof -
  obtain q where q: "ec_Percentage c = Fin q" "0 \<le> q" "q \<le> 100"
    using assms(1) by (auto simp: sdk_supported_def split: f64.splits)
  obtain p where p: "decode_int (Fin q) = Some p" "ke_Percentage k = p" "ke_Enabled k = ec_Enabled c" "ke_Strategy k = ec_Strategy c"
    using assms(2) q(1) by (auto simp: decode_config_def)
  have "\<bar>q\<bar> < 2 ^ 53" using q by simp
  from decode_int_exact [OF p(1) this] f64_of_int_exact [of "sint p"] p q(1) show ?thesis by simp
qed

text \<open>
  The SDK agrees with the server on the flags both understand the same way: for a server flag
  decoded by the SDK whose environment uses the boolean or percentage strategy without rules (or is
  missing), and a subject with a user id, the local evaluation enables the flag exactly when the
  server does, and a percentage rollout reports the server's bucket.
\<close>

theorem sdk_agrees_with_server:
  assumes "decode_flag f = Some g" and "same_subject ctx kx" and "cache_ok rt cache"
    and "\<forall>c. mget (ff_Environments f) (sdk_env kx) = Some c \<longrightarrow> sdk_supported c"
  shows "kz_Enabled (fst (Evaluate rt cache' ns' g kx)) = er_Enabled (fst (EvaluateFlag rt cache ns f ctx))
    \<and> (\<forall>b. er_BucketVal (fst (EvaluateFlag rt cache ns f ctx)) = Some b \<longrightarrow>
          kz_Bucket (fst (Evaluate rt cache' ns' g kx)) = b)"
proof -
  have e: "or_else (cx_Environment ctx) EnvProduction = sdk_env kx" and i: "eval_identifier ctx = sdk_id kx"
    using assms(2) by (auto simp: same_subject_def or_else_def sdk_env_def eval_identifier_def sdk_id_def)
  note m = decode_flag_mget [OF assms(1), of "sdk_env kx"]
  show ?thesis
  proof (cases "mget (ff_Environments f) (sdk_env kx)")
    case None
    with m e show ?thesis
      by (simp add: Evaluate_def EvaluateFlag_def env_config_def sdk_zero_result_def zero_result_def Let_def zero_env_config_def)
  next
    case (Some c)
    then obtain k where k: "decode_config c = Some k" "mget (kf_Environments g) (sdk_env kx) = Some k" using m by auto
    have sup: "sdk_supported c" using assms(4) Some by blast
    note d = decode_config_supported [OF sup k(1)]
    have cfg: "env_config f ctx = c" using Some e by (simp add: env_config_def)
    have "ec_Strategy c = ''boolean'' \<or> ec_Strategy c = ''percentage''" "ec_Rules c = []" using sup by (auto simp: sdk_supported_def)
    then show ?thesis using d k(2) cfg i assms(1)
      by (auto simp: Evaluate_def EvaluateFlag_def strategy_result_def sdk_zero_result_def zero_result_def
          sdk_GetStickyBucket_engine Let_def split_beta)
  qed
qed

definition demo_plain :: FeatureFlag where
  "demo_plain = demo_flag\<lparr>ff_Environments := [(''production'', demo_config\<lparr>ec_Rules := []\<rparr>)]\<rparr>"

definition demo_kx :: "string \<Rightarrow> string \<Rightarrow> SdkContext" where
  "demo_kx user country = \<lparr>kx_UserID = user, kx_Email = [], kx_Country = country, kx_Role = [], kx_Tier = [],
     kx_Environment = [], kx_Custom = []\<rparr>"

theorem sdk_agrees_with_server_witness:
  "\<exists>g. decode_flag demo_plain = Some g \<and> kz_Enabled (fst (Evaluate demo_runtime [] 9 g (demo_kx ''alice'' ''FR''))) =
     er_Enabled (fst (EvaluateFlag demo_runtime [] 5 demo_plain (demo_ctx ''alice'' ''FR'')))"
proof -
  obtain g where g: "decode_flag demo_plain = Some g"
    by (simp add: decode_flag_def demo_plain_def demo_config_def decode_config_def Let_def json_integer_def
        quotient_of_number split: option.splits)
  have s: "same_subject (demo_ctx ''alice'' ''FR'') (demo_kx ''alice'' ''FR'')"
    by (simp add: same_subject_def demo_ctx_def demo_kx_def)
  have "\<forall>c. mget (ff_Environments demo_plain) (sdk_env (demo_kx ''alice'' ''FR'')) = Some c \<longrightarrow> sdk_supported c"
    by (simp add: demo_plain_def sdk_env_def demo_kx_def mget_def demo_config_def sdk_supported_def)
  from sdk_agrees_with_server [OF g s cache_ok_Nil this] g show ?thesis by blast
qed

text \<open>
  In an enabled environment with the rules strategy the SDK serves the first rule all of whose
  conditions hold, whatever the regular-expression cache holds, and the environment's default,
  disabled, when there is none.
\<close>

theorem sdk_first_rule_decides:
  assumes "cache_ok rt cache" and "mget (kf_Environments g) (sdk_env kx) = Some k"
    and "ke_Enabled k" and "ke_Strategy k = ''rules''"
  shows "let res = fst (Evaluate rt cache ns g kx) in
    (case find (\<lambda>r. \<forall>cond \<in> set (kr_Conditions r). condition_holds rt kx cond) (ke_Rules k) of
       Some r \<Rightarrow> kz_Enabled res = kr_Enabled r \<and> kz_Variant res = kr_Variant r \<and> kz_Value res = kr_Value r
         \<and> kz_Reason res = ''RULE_MATCH: '' @ kr_ID r
     | None \<Rightarrow> \<not> kz_Enabled res \<and> kz_Variant res = ke_DefaultVariant k \<and> kz_Value res = ke_DefaultValue k
         \<and> kz_Reason res = ''RULES_DEFAULT_FALLBACK'')
    \<and> cache_ok rt (snd (Evaluate rt cache ns g kx))"
proof -
  obtain m c where mc: "first_rule rt cache kx (ke_Rules k) = (m, c)" by fastforce
  with first_rule_ok [OF assms(1), of kx "ke_Rules k"]
  have m: "m = find (\<lambda>r. \<forall>cond \<in> set (kr_Conditions r). condition_holds rt kx cond) (ke_Rules k)" and c: "cache_ok rt c"
    by (simp_all add: list_all_iff)
  show ?thesis unfolding m [symmetric] using mc c assms(2-4)
    by (cases m) (simp_all add: Evaluate_def Let_def)
qed

definition demo_sdk_flag :: SdkFlag where
  "demo_sdk_flag = \<lparr>kf_ID = ''f1'', kf_ProjectID = [], kf_Key = ''beta'', kf_Name = [], kf_Description = [], kf_Type = [],
     kf_Tags = [], kf_Variants = [\<lparr>kv_Key = ''a'', kv_Value = GNil, kv_Weight = 30, kv_Description = []\<rparr>,
       \<lparr>kv_Key = ''b'', kv_Value = GNil, kv_Weight = 50, kv_Description = []\<rparr>],
     kf_Environments =
       [(''production'', \<lparr>ke_Enabled = True, ke_Strategy = ''rules'', ke_Percentage = 0,
           ke_Rules = [\<lparr>kr_ID = ''eu'', kr_Description = [],
             kr_Conditions = [\<lparr>kc_Attribute = ''Country'', kc_Operator = ''in'', kc_Value = GString ''FR, DE''\<rparr>],
             kr_Variant = ''v1'', kr_Value = GNil, kr_Enabled = True\<rparr>],
           ke_DefaultVariant = ''off'', ke_DefaultValue = GNil\<rparr>),
        (''staging'', \<lparr>ke_Enabled = True, ke_Strategy = ''multivariate'', ke_Percentage = 0, ke_Rules = [],
           ke_DefaultVariant = ''off'', ke_DefaultValue = GNil\<rparr>)],
     kf_CreatedAt = 0, kf_UpdatedAt = 0\<rparr>"

theorem sdk_first_rule_decides_witness:
  "kz_Enabled (fst (Evaluate demo_runtime [] 1 demo_sdk_flag (demo_kx ''bob'' ''de'')))"
proof -
  obtain k where k: "mget (kf_Environments demo_sdk_flag) (sdk_env (demo_kx ''bob'' ''de'')) = Some k"
      "ke_Enabled k" "ke_Strategy k = ''rules''"
      "ke_Rules k = ke_Rules (snd (hd (kf_Environments demo_sdk_flag)))"
    by (simp add: demo_sdk_flag_def sdk_env_def demo_kx_def mget_def)
  have "map_option kr_Enabled (find (\<lambda>r. \<forall>cond \<in> set (kr_Conditions r). condition_holds demo_runtime (demo_kx ''bob'' ''de'') cond)
      (ke_Rules (snd (hd (kf_Environments demo_sdk_flag))))) = Some True" by code_simp
  then show ?thesis using sdk_first_rule_decides [OF cache_ok_Nil k(1-3), of demo_runtime 1] k(4)
    by (auto simp: Let_def)
qed

text \<open>
  A server flag with the rules strategy is not evaluated by the SDK the way the server evaluates
  it: decoding keeps no condition of a rule, so the first rule matches every subject, and the decoded
  rule is disabled. A flag whose rules enable everybody on the server is off for everybody in the SDK.
\<close>

theorem sdk_rules_flag_disabled:
  assumes "decode_flag f = Some g" and "mget (ff_Environments f) (sdk_env kx) = Some c"
    and "ec_Enabled c" and "ec_Strategy c = ''rules''" and "ec_Rules c = r # rs"
  shows "\<not> kz_Enabled (fst (Evaluate rt cache ns g kx))
    \<and> kz_Reason (fst (Evaluate rt cache ns g kx)) = ''RULE_MATCH: '' @ tr_ID r
    \<and> (cx_Environment ctx = kx_Environment kx \<and> (\<forall>q \<in> set (ec_Rules c). tr_Action q \<noteq> ''force_disabled'')
       \<longrightarrow> er_Enabled (fst (EvaluateFlag rt [] ns f ctx)))"
proof -
  obtain k where k: "decode_config c = Some k" "mget (kf_Environments g) (sdk_env kx) = Some k"
    using decode_flag_mget [OF assms(1), of "sdk_env kx"] assms(2) by auto
  have kk: "ke_Enabled k" "ke_Strategy k = ''rules''" "ke_Rules k = decode_rule r # map decode_rule rs"
    using k(1) assms(3-5) by (auto simp: decode_config_def)
  have "first_rule rt cache kx (ke_Rules k) = (Some (decode_rule r), cache)"
    unfolding kk(3) by (simp add: decode_rule_def)
  then have sdk: "\<not> kz_Enabled (fst (Evaluate rt cache ns g kx))
      \<and> kz_Reason (fst (Evaluate rt cache ns g kx)) = ''RULE_MATCH: '' @ tr_ID r"
    using k(2) kk(1,2) by (simp add: Evaluate_def Let_def decode_rule_def)
  have "er_Enabled (fst (EvaluateFlag rt [] ns f ctx))"
    if env: "cx_Environment ctx = kx_Environment kx" and on: "\<forall>q \<in> set (ec_Rules c). tr_Action q \<noteq> ''force_disabled''"
  proof -
    have "env_config f ctx = c" using assms(2) env by (simp add: env_config_def or_else_def sdk_env_def split: if_splits)
    with on assms(3,4) show ?thesis
      by (auto simp: EvaluateFlag_enabled Let_def find_Some_iff split: option.splits)
  qed
  with sdk show ?thesis by blast
qed

definition demo_rules_flag :: FeatureFlag where
  "demo_rules_flag = demo_flag\<lparr>ff_Environments :=
     [(''production'', demo_config\<lparr>ec_Strategy := ''rules'', ec_Rules := [demo_rule ''US'' ''force_enabled'']\<rparr>)]\<rparr>"

theorem sdk_rules_flag_disabled_witness:
  "\<exists>g. decode_flag demo_rules_flag = Some g
     \<and> \<not> kz_Enabled (fst (Evaluate demo_runtime [] 3 g (demo_kx ''alice'' ''US'')))
     \<and> er_Enabled (fst (EvaluateFlag demo_runtime [] 3 demo_rules_flag (demo_ctx ''alice'' ''US'')))"
proof -
  let ?c = "demo_config\<lparr>ec_Strategy := ''rules'', ec_Rules := [demo_rule ''US'' ''force_enabled'']\<rparr>"
  obtain g where g: "decode_flag demo_rules_flag = Some g"
    by (simp add: decode_flag_def demo_rules_flag_def demo_config_def decode_config_def Let_def json_integer_def
        quotient_of_number split: option.splits)
  have c: "mget (ff_Environments demo_rules_flag) (sdk_env (demo_kx ''alice'' ''US'')) = Some ?c"
    by (simp add: demo_rules_flag_def sdk_env_def demo_kx_def mget_def)
  have e: "ec_Enabled ?c" "ec_Strategy ?c = ''rules''" "ec_Rules ?c = [demo_rule ''US'' ''force_enabled'']"
      "cx_Environment (demo_ctx ''alice'' ''US'') = kx_Environment (demo_kx ''alice'' ''US'')"
    by (simp_all add: demo_config_def demo_ctx_def demo_kx_def)
  show ?thesis using sdk_rules_flag_disabled [OF g c e(1-3), of demo_runtime "[]" 3 "demo_ctx ''alice'' ''US''"] e(3,4) g
    by (auto simp: demo_rule_def)
qed

text \<open>
  The SDK's multivariate strategy splits the ten thousand slots by the cumulative weights: with
  non-negative weights the variant served is the one whose interval holds the slot of the subject,
  and the default is served exactly to the slots that the weights leave over.
\<close>

theorem sdk_variants_partition:
  assumes "mget (kf_Environments g) (sdk_env kx) = Some k" and "ke_Enabled k" and "ke_Strategy k = ''multivariate''"
    and "map (\<lambda>v. sint (kv_Weight v)) (kf_Variants g) = map int ws" and "sum_list ws < 2 ^ 53"
    and "slot = unat (FNV1a64 (sdk_id kx @ '':'' @ kf_Key g) mod 10000)"
  shows "let res = fst (Evaluate rt cache ns g kx) in kz_Enabled res \<and>
    (if slot < 100 * sum_list ws
     then kz_Reason res = ''MULTIVARIATE_MATCH'' \<and> (\<exists>j < length ws. kz_Variant res = kv_Key (kf_Variants g ! j)
        \<and> 100 * sum_list (take j ws) \<le> slot \<and> slot < 100 * sum_list (take (Suc j) ws))
     else kz_Reason res = ''MULTIVARIATE_FALLBACK'' \<and> kz_Variant res = ke_DefaultVariant k)"
proof -
  let ?b = "sdk_GetStickyBucket (sdk_id kx) (kf_Key g)"
  have slot: "sticky_slot (sdk_id kx) (kf_Key g) = slot" by (simp add: sticky_slot_def assms(6))
  have "\<And>w. flt ?b (Fin (of_nat w)) \<longleftrightarrow> slot < 100 * w" using sdk_bucket.bucket_less_int slot by simp
  note pick = sdk_pick_int [OF assms(4) this, of 0, simplified, OF assms(5) [simplified]]
  have len: "length (kf_Variants g) = length ws" using assms(4) by (metis length_map)
  have le: "sum_list (take j ws) \<le> sum_list ws" for j
    by (metis append_take_drop_id le_add1 sum_list_append)
  show ?thesis
  proof (cases "sdk_pick ?b (Fin 0) (kf_Variants g)")
    case None
    with pick assms(1-3) show ?thesis by (auto simp: Evaluate_def Let_def)
  next
    case (Some v)
    with pick obtain j where j: "j < length ws" "v = kf_Variants g ! j" "100 * sum_list (take j ws) \<le> slot"
        "slot < 100 * sum_list (take (Suc j) ws)" by (auto simp: len)
    then have "slot < 100 * sum_list ws" using le [of "Suc j"] by linarith
    with Some j assms(1-3) show ?thesis by (auto simp: Evaluate_def Let_def)
  qed
qed

theorem sdk_variants_partition_witness:
  "kz_Variant (fst (Evaluate demo_runtime [] 3 demo_sdk_flag ((demo_kx ''bob'' ''FR'')\<lparr>kx_Environment := ''staging''\<rparr>))) = ''b''"
proof -
  let ?kx = "(demo_kx ''bob'' ''FR'')\<lparr>kx_Environment := ''staging''\<rparr>"
  obtain k where k: "mget (kf_Environments demo_sdk_flag) (sdk_env ?kx) = Some k" "ke_Enabled k"
      "ke_Strategy k = ''multivariate''" "ke_DefaultVariant k = ''off''"
    by (simp add: demo_sdk_flag_def sdk_env_def demo_kx_def mget_def)
  have w: "map (\<lambda>v. sint (kv_Weight v)) (kf_Variants demo_sdk_flag) = map int [30, 50]"
    by (simp add: demo_sdk_flag_def)
  have s: "3944 = unat (FNV1a64 (sdk_id ?kx @ '':'' @ kf_Key demo_sdk_flag) mod 10000)" by code_simp
  show ?thesis
    using sdk_variants_partition [OF k(1-3) w _ s, of demo_runtime "[]" 3] by (auto simp: Let_def less_Suc_eq demo_sdk_flag_def)
qed

end
