(* ===== verification/Domain_Entities.thy ===== *)
theory Domain_Entities
  imports Domain_Flag
begin

text \<open>
  The remaining entities of \<open>src/pkg/domain\<close>: users, sessions, API keys and reset tokens
  (\<open>user.go\<close>), organizations, members, invitations, projects and change requests
  (\<open>workspace.go\<close>), canary schedules (\<open>canary.go\<close>), OIDC configurations (\<open>oidc.go\<close>), experiment
  events (\<open>experiment.go\<close>), identifiers and constructors (\<open>id.go\<close>), flag health (\<open>health.go\<close>) and
  the audit hash (\<open>audit.go\<close>). A pointer to a struct that the code never mutates through is an
  option value; random bytes arrive as their hexadecimal text.
\<close>

section \<open>Users, sessions, API keys\<close>

record OrgMember =
  om_ID :: string
  om_OrganizationID :: string
  om_UserID :: string
  om_Role :: string
  om_CreatedAt :: gtime

record User =
  us_ID :: string
  us_Email :: string
  us_PasswordHash :: string
  us_Name :: string
  us_Role :: string
  us_AvatarURL :: string
  us_CreatedAt :: gtime
  us_UpdatedAt :: gtime
  us_ActiveMembership :: "OrgMember option"

definition EffectiveRole :: "User option \<Rightarrow> string" where
  "EffectiveRole u =
     (case u of
        None \<Rightarrow> []
      | Some u \<Rightarrow>
          if us_Role u = RoleAdmin then ''admin''
          else (case us_ActiveMembership u of
                  Some m \<Rightarrow> if om_Role m \<noteq> [] then om_Role m else us_Role u
                | None \<Rightarrow> us_Role u))"

definition IsPrivileged :: "User option \<Rightarrow> bool" where
  "IsPrivileged u =
     (case u of
        None \<Rightarrow> False
      | Some _ \<Rightarrow> let role = EffectiveRole u in role = ''owner'' \<or> role = ''admin'')"

record Session =
  se_Token :: string
  se_UserID :: string
  se_User :: "User option"
  se_ExpiresAt :: gtime
  se_CreatedAt :: gtime

definition Session_IsExpired :: "gtime \<Rightarrow> Session \<Rightarrow> bool" where
  "Session_IsExpired now s = (se_ExpiresAt s < now)"

record APIKey =
  ak_ID :: string
  ak_ProjectID :: string
  ak_Environment :: string
  ak_Key :: string
  ak_KeyPrefix :: string
  ak_KeyHash :: string
  ak_Name :: string
  ak_Role :: string
  ak_CreatedBy :: string
  ak_CreatedAt :: gtime
  ak_LastUsedAt :: "gtime option"
  ak_Revoked :: bool

definition AllowsEnvironment :: "APIKey option \<Rightarrow> string \<Rightarrow> bool" where
  "AllowsEnvironment k env =
     (case k of
        None \<Rightarrow> True
      | Some k \<Rightarrow>
          if ak_Environment k = [] \<or> ak_Environment k = ''all'' \<or> ak_Environment k = ''*'' then True
          else ak_Environment k = env)"

record PasswordResetToken =
  pt_Token :: string
  pt_Email :: string
  pt_ExpiresAt :: gtime
  pt_Used :: bool
  pt_CreatedAt :: gtime

definition ResetToken_IsExpired :: "gtime \<Rightarrow> PasswordResetToken \<Rightarrow> bool" where
  "ResetToken_IsExpired now t = (pt_ExpiresAt t < now)"

section \<open>Organizations, projects, change requests\<close>

record Organization =
  og_ID :: string
  og_Name :: string
  og_Slug :: string
  og_Description :: string
  og_CreatedAt :: gtime
  og_UpdatedAt :: gtime

record OrgInvitation =
  oi_ID :: string
  oi_OrganizationID :: string
  oi_OrgName :: string
  oi_Email :: string
  oi_Token :: string
  oi_Role :: string
  oi_InvitedBy :: string
  oi_ExpiresAt :: gtime
  oi_AcceptedAt :: "gtime option"
  oi_CreatedAt :: gtime

definition Invitation_IsExpired :: "gtime \<Rightarrow> OrgInvitation \<Rightarrow> bool" where
  "Invitation_IsExpired now i = (oi_ExpiresAt i < now)"

definition Invitation_IsAccepted :: "OrgInvitation \<Rightarrow> bool" where
  "Invitation_IsAccepted i = (oi_AcceptedAt i \<noteq> None)"

record Project =
  pj_ID :: string
  pj_OrganizationID :: string
  pj_ConfigVersion :: "64 word"
  pj_Name :: string
  pj_Slug :: string
  pj_Description :: string
  pj_CreatedAt :: gtime
  pj_UpdatedAt :: gtime

abbreviation (input) "StatusPending \<equiv> ''PENDING''"
abbreviation (input) "StatusApproved \<equiv> ''APPROVED''"
abbreviation (input) "StatusRejected \<equiv> ''REJECTED''"
abbreviation (input) "StatusApplied \<equiv> ''APPLIED''"

record ChangeRequest =
  cr_ID :: string
  cr_ProjectID :: string
  cr_FlagKey :: string
  cr_Environment :: string
  cr_Title :: string
  cr_Description :: string
  cr_AuthorUserID :: string
  cr_AuthorEmail :: string
  cr_AuthorName :: string
  cr_ProposedConfig :: EnvironmentConfig
  cr_BaseConfigVersion :: "64 word"
  cr_Status :: string
  cr_ReviewerUserID :: string
  cr_ReviewerEmail :: string
  cr_ReviewerName :: string
  cr_ReviewComments :: string
  cr_CreatedAt :: gtime
  cr_ReviewedAt :: "gtime option"
  cr_AppliedAt :: "gtime option"

definition Review :: "gtime \<Rightarrow> ChangeRequest \<Rightarrow> string \<Rightarrow> string \<Rightarrow> string \<Rightarrow> bool \<Rightarrow> string \<Rightarrow> ChangeRequest result" where
  "Review now cr reviewerID reviewerEmail reviewerName approved comments =
     (if cr_Status cr \<noteq> StatusPending then Inl (Errorf ''cannot review non-pending change request'')
      else if cr_AuthorUserID cr = reviewerID then Inl (Sentinel ErrFourEyesSelfApproval)
      else Inr (cr\<lparr>cr_ReviewerUserID := reviewerID, cr_ReviewerEmail := reviewerEmail,
             cr_ReviewerName := reviewerName, cr_ReviewComments := comments, cr_ReviewedAt := Some now,
             cr_Status := (if approved then StatusApproved else StatusRejected)\<rparr>))"

section \<open>Canary schedules\<close>

abbreviation (input) "CanaryActive \<equiv> ''ACTIVE''"
abbreviation (input) "CanaryPaused \<equiv> ''PAUSED''"
abbreviation (input) "CanaryCompleted \<equiv> ''COMPLETED''"
abbreviation (input) "CanaryRolledBack \<equiv> ''ROLLED_BACK''"
abbreviation (input) "CanaryNeedsAttention \<equiv> ''NEEDS_ATTENTION''"

record CanaryStage =
  st_Index :: int
  st_TargetPercentage :: f64
  st_DurationSec :: int
  st_StartedAt :: gtime
  st_CompletedAt :: gtime

record CanaryGuardrails =
  gr_MaxErrorRatePct :: f64
  gr_MaxP99LatencyMs :: f64
  gr_AutoRollback :: bool
  gr_AlertWebhookURL :: string

record CanarySchedule =
  sc_ID :: string
  sc_ProjectID :: string
  sc_FlagKey :: string
  sc_Environment :: string
  sc_Status :: string
  sc_CurrentStageIdx :: int
  sc_Stages :: "CanaryStage list"
  sc_Guardrails :: CanaryGuardrails
  sc_RollbackReason :: string
  sc_CreatedAt :: gtime
  sc_UpdatedAt :: gtime
  sc_LastEvaluatedAt :: gtime

text \<open>The outer \<open>None\<close> is the panic of an index out of range.\<close>

definition CanAdvanceStage :: "CanarySchedule \<Rightarrow> gtime \<Rightarrow> (bool \<times> CanaryStage option \<times> bool) option" where
  "CanAdvanceStage cs now =
     (let i = sc_CurrentStageIdx cs; n = int (length (sc_Stages cs)) in
      if sc_Status cs \<noteq> CanaryActive \<or> n \<le> i then Some (False, None, False)
      else case go_index (sc_Stages cs) i of
          None \<Rightarrow> None
        | Some currentStage \<Rightarrow>
            let elapsedSec = Seconds (time_sub now (st_StartedAt currentStage)) in
            if fle (f64_of_int (st_DurationSec currentStage)) elapsedSec then
              if n \<le> i + 1 then Some (True, None, True)
              else (case go_index (sc_Stages cs) (i + 1) of
                      None \<Rightarrow> None
                    | Some next \<Rightarrow> Some (True, Some next, False))
            else Some (False, None, False))"

definition CommitStageAdvancement :: "CanarySchedule \<Rightarrow> gtime \<Rightarrow> CanarySchedule option" where
  "CommitStageAdvancement cs now =
     (let i = sc_CurrentStageIdx cs; n = int (length (sc_Stages cs)) in
      if n \<le> i then Some cs
      else if i < 0 then None
      else let cs = cs\<lparr>sc_Stages := (sc_Stages cs)[nat i := (sc_Stages cs ! nat i)\<lparr>st_CompletedAt := now\<rparr>],
                 sc_CurrentStageIdx := i + 1, sc_UpdatedAt := now\<rparr>
           in if n \<le> i + 1 then Some (cs\<lparr>sc_Status := CanaryCompleted\<rparr>)
              else Some (cs\<lparr>sc_Stages := (sc_Stages cs)[nat (i + 1) :=
                     (sc_Stages cs ! nat (i + 1))\<lparr>st_StartedAt := now\<rparr>]\<rparr>))"

text \<open>
  \<open>NextStage\<close> returns a pointer into the stages, taken before the commit: the caller reads the
  committed stage through it.
\<close>

definition NextStage :: "CanarySchedule \<Rightarrow> gtime \<Rightarrow> (bool \<times> CanaryStage option \<times> CanarySchedule) option" where
  "NextStage cs now =
     (case CanAdvanceStage cs now of
        None \<Rightarrow> None
      | Some (canAdvance, next, isComp) \<Rightarrow>
          if \<not> canAdvance then Some (False, None, cs)
          else (case CommitStageAdvancement cs now of
                  None \<Rightarrow> None
                | Some cs' \<Rightarrow>
                    if isComp then Some (False, None, cs')
                    else Some (True, go_index (sc_Stages cs') (sc_CurrentStageIdx cs'), cs')))"

section \<open>OIDC, experiments, identifiers\<close>

record OIDCConfig =
  oc_OrganizationID :: string
  oc_Enabled :: bool
  oc_IssuerURL :: string
  oc_ClientID :: string
  oc_ClientSecret :: string
  oc_AllowedDomains :: string
  oc_DefaultRole :: string
  oc_CreatedAt :: gtime
  oc_UpdatedAt :: gtime

definition IsDomainAllowed :: "runtime \<Rightarrow> OIDCConfig option \<Rightarrow> string \<Rightarrow> bool" where
  "IsDomainAllowed rt c email =
     (case c of
        None \<Rightarrow> True
      | Some c \<Rightarrow>
          if TrimSpace rt (oc_AllowedDomains c) = [] then True
          else (case Split email (CHR ''@'') of
                  [_, d] \<Rightarrow>
                    (let domain = ToLower rt (TrimSpace rt d) in
                     list_ex (\<lambda>a. ToLower rt (TrimPrefix (TrimSpace rt a) ''@'') = domain)
                       (Split (oc_AllowedDomains c) (CHR '','')))
                | _ \<Rightarrow> False))"

record ExperimentEvent =
  ev_ID :: string
  ev_ProjectID :: string
  ev_FlagKey :: string
  ev_Variant :: string
  ev_MetricName :: string
  ev_EventType :: string
  ev_Value :: f64
  ev_UserID :: string
  ev_Environment :: string
  ev_Timestamp :: gtime

definition NewID :: "gtime \<Rightarrow> string \<Rightarrow> string \<Rightarrow> string" where
  "NewID now rnd prefix = prefix @ ''_'' @ Itoa (UnixNano now) @ ''_'' @ take 8 rnd"

text \<open>
  The loop ranges over runes; a rune outside ASCII is dropped, as are its bytes here. The second
  argument is the text built so far.
\<close>

fun slug_loop :: "string \<Rightarrow> string \<Rightarrow> string" where
  "slug_loop acc [] = acc"
| "slug_loop acc (ch # cs) =
     (if (97 \<le> byte_of ch \<and> byte_of ch \<le> 122) \<or> (48 \<le> byte_of ch \<and> byte_of ch \<le> 57)
      then slug_loop (acc @ [ch]) cs
      else if ch = CHR '' '' \<or> ch = CHR ''-'' \<or> ch = CHR ''_'' then
        (if acc \<noteq> [] \<and> \<not> HasSuffix acc ''-'' then slug_loop (acc @ ''-'') cs else slug_loop acc cs)
      else slug_loop acc cs)"

definition Slugify :: "runtime \<Rightarrow> string \<Rightarrow> string" where
  "Slugify rt name =
     (let s = ToLower rt (TrimSpace rt name);
          res = trim_while (\<lambda>c. c = CHR ''-'') (slug_loop [] s)
      in if res = [] then ''default'' else res)"

definition NewOrganization :: "runtime \<Rightarrow> gtime \<Rightarrow> gtime \<Rightarrow> string \<Rightarrow> string \<Rightarrow> string \<Rightarrow> string \<Rightarrow> Organization" where
  "NewOrganization rt now idt rnd name slug description =
     \<lparr>og_ID = NewID idt rnd ''org'', og_Name = TrimSpace rt name,
      og_Slug = (if slug = [] then Slugify rt name else slug),
      og_Description = TrimSpace rt description, og_CreatedAt = now, og_UpdatedAt = now\<rparr>"

definition NewProject :: "runtime \<Rightarrow> gtime \<Rightarrow> gtime \<Rightarrow> string \<Rightarrow> string \<Rightarrow> string \<Rightarrow> string \<Rightarrow> string \<Rightarrow> Project" where
  "NewProject rt now idt rnd orgID name slug description =
     \<lparr>pj_ID = NewID idt rnd ''proj'', pj_OrganizationID = (if orgID = [] then DefaultOrgID else orgID),
      pj_ConfigVersion = 0, pj_Name = TrimSpace rt name,
      pj_Slug = (if slug = [] then Slugify rt name else slug),
      pj_Description = TrimSpace rt description, pj_CreatedAt = now, pj_UpdatedAt = now\<rparr>"

definition NewUser :: "runtime \<Rightarrow> gtime \<Rightarrow> gtime \<Rightarrow> string \<Rightarrow> string \<Rightarrow> string \<Rightarrow> string \<Rightarrow> string \<Rightarrow> User" where
  "NewUser rt now idt rnd email name passwordHash role =
     \<lparr>us_ID = NewID idt rnd ''usr'', us_Email = TrimSpace rt (ToLower rt email),
      us_PasswordHash = passwordHash, us_Name = TrimSpace rt name,
      us_Role = (if role = [] then RoleDeveloper else role), us_AvatarURL = [],
      us_CreatedAt = now, us_UpdatedAt = now, us_ActiveMembership = None\<rparr>"

section \<open>Flag health\<close>

record FlagHealthReport =
  hr_Status :: string
  hr_IsStale :: bool
  hr_Reason :: string
  hr_SuggestedAction :: string

definition report :: "string \<Rightarrow> bool \<Rightarrow> string \<Rightarrow> string \<Rightarrow> FlagHealthReport" where
  "report status stale reason action =
     \<lparr>hr_Status = status, hr_IsStale = stale, hr_Reason = reason, hr_SuggestedAction = action\<rparr>"

definition AnalyzeFlagHealth :: "gtime \<Rightarrow> FeatureFlag \<Rightarrow> FlagHealthReport" where
  "AnalyzeFlagHealth now flag =
     (case mget (ff_Environments flag) EnvProduction of
        None \<Rightarrow> report ''ACTIVE'' False ''Flag has no production environment configuration''
          ''Configure production environment rules''
      | Some prodEnv \<Rightarrow>
          (let otherEnvActive = list_ex (\<lambda>(envName, envCfg). envName \<noteq> EnvProduction \<and> ec_Enabled envCfg)
                 (ff_Environments flag);
               recent = (\<lambda>days. \<not> IsZero (ff_UpdatedAt flag)
                 \<and> time_sub now (ff_UpdatedAt flag) < days * 24 * Hour)
           in if \<not> ec_Enabled prodEnv then
                if recent 14 then
                  report ''ACTIVE'' False
                    (''Kill-switch recently engaged in production; confirm this was intentional before taking action''
                      @ (if otherEnvActive then '' (other environments are still enabled)'' else []))
                    (''Recently disabled '' @ [CHR 0xE2, CHR 0x80, CHR 0x94] @ '' confirm incident response resolution before decommissioning flag.'')
                else if otherEnvActive then
                  report ''DEAD_FLAG'' True
                    ''Kill-switch engaged in production for 14+ days, but other environments are still active''
                    ''Confirm feature is cancelled across all environments before deleting flag.''
                else report ''DEAD_FLAG'' True ''Kill-switch is engaged in production (0% traffic for 14+ days)''
                    ''If this feature was cancelled, remove the code branch and delete this flag.''
              else if (ec_Strategy prodEnv = StrategyPercentage \<and> fle (Fin 100) (ec_Percentage prodEnv)
                    \<and> length (ec_Rules prodEnv) = 0)
                  \<or> (ec_Strategy prodEnv = StrategyBoolean \<and> length (ec_Rules prodEnv) = 0) then
                if recent 7 then
                  report ''ACTIVE'' False ''100% rolled out to production (within 7-day bake period)''
                    ''Allow bake period to conclude before removing code branch from repository.''
                else report ''READY_FOR_CLEANUP'' True
                    ''100% rolled out to all users in production with no custom rules''
                    ''Feature is fully launched. Clean up flag check in your codebase to eliminate technical debt.''
              else report ''ACTIVE'' False ''Actively evaluating traffic splits or custom targeting rules''
                    ''Monitor canary health and increment percentage when confident.''))"

section \<open>The audit hash\<close>

abbreviation (input) "AuditGenesisHash \<equiv> ''GENESIS''"

record AuditIntegrityResult =
  ai_Valid :: bool
  ai_TotalVerified :: int
  ai_HeadHash :: string
  ai_VerifiedAt :: gtime
  ai_BrokenEntryID :: string
  ai_ErrorMessage :: string

definition audit_payload :: "string \<Rightarrow> AuditLogEntry \<Rightarrow> string" where
  "audit_payload prevHash entry =
     (let prevHash = (if prevHash = [] then AuditGenesisHash else prevHash) in
      prevHash @ ''|'' @ al_ID entry @ ''|'' @ al_ProjectID entry @ ''|'' @ al_FlagKey entry @ ''|''
      @ al_Action entry @ ''|'' @ al_Environment entry @ ''|'' @ al_Actor entry @ ''|''
      @ al_Details entry @ ''|'' @ rfc3339nano (al_Timestamp entry))"

definition ComputeAuditEntryHash :: "runtime \<Rightarrow> string \<Rightarrow> AuditLogEntry \<Rightarrow> string" where
  "ComputeAuditEntryHash rt prevHash entry = rt_sha256 rt (audit_payload prevHash entry)"

end
