(* ===== verification/Store_State.thy ===== *)
theory Store_State
  imports Domain_Entities
begin

text \<open>
  The state of the in-memory store (\<open>src/pkg/store/memory.go\<close>) and its audit log: the record, the
  flag snapshot and its constructor, appending to the hash chain, verification, export and purge.
  Every operation of the store holds a mutex from its first read to its last write, so an operation
  is one function on the state. The snapshot pointer is set by \<open>NewMemoryStore\<close> and never reset to
  nil. Readings of the clock inside one operation are numbered: \<open>clk k\<close> is the \<open>k\<close>-th of them.
\<close>

section \<open>State\<close>

type_synonym clock = "nat \<Rightarrow> gtime"

record FlagSnapshot =
  fs_map :: "(string, FeatureFlag) gomap"
  fs_list :: "FeatureFlag list"

definition normalize_flag :: "FeatureFlag \<Rightarrow> FeatureFlag" where
  "normalize_flag f =
     (let fCopy = DeepCopy f;
          fCopy = (if ff_ProjectID fCopy = [] then fCopy\<lparr>ff_ProjectID := DefaultProjectID\<rparr> else fCopy)
      in if ff_ConfigVersion fCopy = 0 then fCopy\<lparr>ff_ConfigVersion := 1\<rparr> else fCopy)"

definition index_flag :: "FeatureFlag \<Rightarrow> (string, FeatureFlag) gomap \<Rightarrow> (string, FeatureFlag) gomap" where
  "index_flag f m =
     (let m = mput (ff_ProjectID f @ '':'' @ ff_Key f) f m in
      if ff_ID f \<noteq> [] then mput (ff_ID f) f (mput (ff_ProjectID f @ '':'' @ ff_ID f) f m) else m)"

definition newFlagSnapshot :: "FeatureFlag list \<Rightarrow> FlagSnapshot" where
  "newFlagSnapshot flags =
     (let fl = map normalize_flag flags in \<lparr>fs_map = fold index_flag fl [], fs_list = fl\<rparr>)"

record MemoryStore =
  ms_flagsSnapshot :: FlagSnapshot
  ms_orgs :: "(string, Organization) gomap"
  ms_projects :: "(string, Project) gomap"
  ms_orgMembers :: "(string, OrgMember) gomap"
  ms_orgInvitations :: "(string, OrgInvitation) gomap"
  ms_auditLogs :: "AuditLogEntry list"
  ms_events :: "ExperimentEvent list"
  ms_users :: "(string, User) gomap"
  ms_sessions :: "(string, Session) gomap"
  ms_changeRequests :: "(string, ChangeRequest) gomap"
  ms_apiKeys :: "(string, APIKey) gomap"
  ms_apiKeysByHash :: "(string, string) gomap"
  ms_passwordResetTokens :: "(string, PasswordResetToken) gomap"
  ms_canarySchedules :: "(string, CanarySchedule) gomap"
  ms_oidcConfigs :: "(string, OIDCConfig) gomap"
  ms_auditAnchors :: "(string, string) gomap"

definition NewMemoryStore :: MemoryStore where
  "NewMemoryStore = \<lparr>ms_flagsSnapshot = newFlagSnapshot [], ms_orgs = [], ms_projects = [],
     ms_orgMembers = [], ms_orgInvitations = [], ms_auditLogs = [], ms_events = [], ms_users = [],
     ms_sessions = [], ms_changeRequests = [], ms_apiKeys = [], ms_apiKeysByHash = [],
     ms_passwordResetTokens = [], ms_canarySchedules = [], ms_oidcConfigs = [], ms_auditAnchors = []\<rparr>"

definition or_project :: "string \<Rightarrow> string" where
  "or_project p = (if p = [] then DefaultProjectID else p)"

definition log_id :: "string \<Rightarrow> gtime \<Rightarrow> string" where
  "log_id prefix t = prefix @ Itoa (UnixNano t)"

section \<open>The audit log\<close>

text \<open>Entries are kept newest first.\<close>

definition audit_anchor :: "MemoryStore \<Rightarrow> string \<Rightarrow> string" where
  "audit_anchor s p =
     (case mget (ms_auditAnchors s) p of
        Some anchor \<Rightarrow> if anchor \<noteq> [] then anchor else AuditGenesisHash
      | None \<Rightarrow> AuditGenesisHash)"

definition chain_head :: "MemoryStore \<Rightarrow> string \<Rightarrow> string" where
  "chain_head s p =
     (case find (\<lambda>l. al_ProjectID l = p) (ms_auditLogs s) of
        Some l \<Rightarrow> if al_EntryHash l \<noteq> [] then al_EntryHash l else audit_anchor s p
      | None \<Rightarrow> audit_anchor s p)"

definition appendAuditLogLocked :: "runtime \<Rightarrow> gtime \<Rightarrow> MemoryStore \<Rightarrow> AuditLogEntry \<Rightarrow> AuditLogEntry \<times> MemoryStore" where
  "appendAuditLogLocked rt now s entry =
     (let entry = entry\<lparr>al_ProjectID := or_project (al_ProjectID entry)\<rparr>;
          entry = (if IsZero (al_Timestamp entry) then entry\<lparr>al_Timestamp := now\<rparr> else entry);
          entry = (if al_PrevHash entry = [] \<or> al_EntryHash entry = [] then
              (let prevHash = chain_head s (al_ProjectID entry);
                   entry = entry\<lparr>al_PrevHash := prevHash\<rparr>
               in entry\<lparr>al_EntryHash := ComputeAuditEntryHash rt prevHash entry\<rparr>)
            else entry)
      in case find (\<lambda>l. al_ID l = al_ID entry \<and> al_ProjectID l = al_ProjectID entry) (ms_auditLogs s) of
           Some l \<Rightarrow> (l, s)
         | None \<Rightarrow> (entry, s\<lparr>ms_auditLogs := entry # ms_auditLogs s\<rparr>))"

definition AppendAuditLog :: "runtime \<Rightarrow> gtime \<Rightarrow> MemoryStore \<Rightarrow> AuditLogEntry \<Rightarrow> AuditLogEntry result \<times> MemoryStore" where
  "AppendAuditLog rt now s entry = (let (lg, s') = appendAuditLogLocked rt now s entry in (Inr lg, s'))"

definition ListAuditLogs :: "MemoryStore \<Rightarrow> int \<Rightarrow> AuditLogEntry list" where
  "ListAuditLogs s limit =
     (let n = int (length (ms_auditLogs s)); limit = (if limit \<le> 0 \<or> limit > n then n else limit)
      in take (nat limit) (ms_auditLogs s))"

definition project_entries :: "MemoryStore \<Rightarrow> string \<Rightarrow> AuditLogEntry list" where
  "project_entries s p = filter (\<lambda>e. al_ProjectID e = p) (ms_auditLogs s)"

definition ListAuditLogsByProject :: "MemoryStore \<Rightarrow> string \<Rightarrow> int \<Rightarrow> AuditLogEntry list" where
  "ListAuditLogsByProject s projectID limit = limited limit (project_entries s (or_project projectID))"

definition ExportAuditLogs :: "MemoryStore \<Rightarrow> string \<Rightarrow> gtime option \<Rightarrow> gtime option \<Rightarrow> int \<Rightarrow> AuditLogEntry list" where
  "ExportAuditLogs s projectID from to limit =
     limited limit (filter (\<lambda>e. al_ProjectID e = or_project projectID
       \<and> \<not> (case from of None \<Rightarrow> False | Some t \<Rightarrow> al_Timestamp e < t)
       \<and> \<not> (case to of None \<Rightarrow> False | Some t \<Rightarrow> t < al_Timestamp e)) (ms_auditLogs s))"

definition invalid_result :: "gtime \<Rightarrow> int \<Rightarrow> AuditLogEntry \<Rightarrow> string \<Rightarrow> AuditIntegrityResult" where
  "invalid_result now i entry msg = \<lparr>ai_Valid = False, ai_TotalVerified = i, ai_HeadHash = [],
     ai_VerifiedAt = now, ai_BrokenEntryID = al_ID entry, ai_ErrorMessage = msg\<rparr>"

text \<open>The loop from the oldest entry on; \<open>i\<close> is the index, \<open>expectedPrev\<close> the hash to link to.\<close>

fun verify_loop :: "runtime \<Rightarrow> gtime \<Rightarrow> int \<Rightarrow> string \<Rightarrow> AuditLogEntry list \<Rightarrow> AuditIntegrityResult" where
  "verify_loop rt now i expectedPrev [] =
     \<lparr>ai_Valid = True, ai_TotalVerified = i, ai_HeadHash = expectedPrev, ai_VerifiedAt = now,
      ai_BrokenEntryID = [], ai_ErrorMessage = []\<rparr>"
| "verify_loop rt now i expectedPrev (entry # rest) =
     (if i = 0 \<and> al_PrevHash entry \<noteq> expectedPrev \<and> al_PrevHash entry \<noteq> AuditGenesisHash then
        invalid_result now i entry (''initial entry prev_hash mismatch: expected '' @ expectedPrev
          @ '', got '' @ al_PrevHash entry)
      else if i \<noteq> 0 \<and> al_PrevHash entry \<noteq> expectedPrev then
        invalid_result now i entry (''broken chain linkage at entry '' @ al_ID entry @ '': prev_hash ''
          @ al_PrevHash entry @ '' does not match predecessor '' @ expectedPrev)
      else let computed = ComputeAuditEntryHash rt (al_PrevHash entry) entry in
        if al_EntryHash entry \<noteq> computed then
          invalid_result now i entry (''hash tampering detected at entry '' @ al_ID entry
            @ '': computed '' @ computed @ '', stored '' @ al_EntryHash entry)
        else verify_loop rt now (i + 1) (al_EntryHash entry) rest)"

definition VerifyAuditLogIntegrity :: "runtime \<Rightarrow> gtime \<Rightarrow> MemoryStore \<Rightarrow> string \<Rightarrow> AuditIntegrityResult" where
  "VerifyAuditLogIntegrity rt now s projectID =
     (let p = or_project projectID; entries = project_entries s p in
      if length entries = 0 then
        \<lparr>ai_Valid = True, ai_TotalVerified = 0, ai_HeadHash = [], ai_VerifiedAt = now,
         ai_BrokenEntryID = [], ai_ErrorMessage = []\<rparr>
      else verify_loop rt now 0 (audit_anchor s p) (rev entries))"

definition purged :: "string \<Rightarrow> gtime \<Rightarrow> AuditLogEntry \<Rightarrow> bool" where
  "purged p before e = (al_ProjectID e = p \<and> al_Timestamp e < before)"

definition PurgeAuditLogs :: "MemoryStore \<Rightarrow> string \<Rightarrow> gtime \<Rightarrow> int \<times> MemoryStore" where
  "PurgeAuditLogs s projectID before =
     (let p = or_project projectID;
          gone = filter (purged p before) (ms_auditLogs s);
          surviving = filter (\<lambda>e. \<not> purged p before e) (ms_auditLogs s);
          purgedCount = int (length gone);
          lastPurgedHash = (case find (\<lambda>e. al_EntryHash e \<noteq> []) gone of Some e \<Rightarrow> al_EntryHash e | None \<Rightarrow> []);
          s = (if purgedCount > 0 \<and> lastPurgedHash \<noteq> []
               then s\<lparr>ms_auditAnchors := mput p lastPurgedHash (ms_auditAnchors s)\<rparr> else s)
      in (purgedCount, s\<lparr>ms_auditLogs := surviving\<rparr>))"

definition Reset :: "MemoryStore \<Rightarrow> MemoryStore" where
  "Reset s = s\<lparr>ms_flagsSnapshot := newFlagSnapshot [], ms_events := [], ms_auditLogs := [],
     ms_auditAnchors := []\<rparr>"

section \<open>The chain\<close>

text \<open>What an intact chain is, oldest entry first: each entry links to its predecessor and hashes right.\<close>

fun linked :: "runtime \<Rightarrow> string \<Rightarrow> AuditLogEntry list \<Rightarrow> bool" where
  "linked rt prev [] = True"
| "linked rt prev (e # es) =
     (al_PrevHash e = prev \<and> al_EntryHash e = ComputeAuditEntryHash rt prev e \<and> linked rt (al_EntryHash e) es)"

definition head_hash :: "string \<Rightarrow> AuditLogEntry list \<Rightarrow> string" where
  "head_hash prev es = (if es = [] then prev else al_EntryHash (last es))"

definition audit_ok :: "runtime \<Rightarrow> MemoryStore \<Rightarrow> bool" where
  "audit_ok rt s \<longleftrightarrow> (\<forall>p. linked rt (audit_anchor s p) (rev (project_entries s p)))"

text \<open>The digest text is never empty (SHA-256 in hexadecimal has 64 characters).\<close>

definition digest_nonempty :: "runtime \<Rightarrow> bool" where
  "digest_nonempty rt \<longleftrightarrow> (\<forall>x. rt_sha256 rt x \<noteq> [])"

lemma demo_digest [simp]: "digest_nonempty demo_runtime"
  by (simp add: digest_nonempty_def demo_runtime_def)

lemma linked_append:
  "linked rt prev (xs @ ys) \<longleftrightarrow> linked rt prev xs \<and> linked rt (head_hash prev xs) ys"
  by (induction rt prev xs rule: linked.induct) (auto simp: head_hash_def)

lemma linked_hash_nonempty:
  "digest_nonempty rt \<Longrightarrow> linked rt prev es \<Longrightarrow> e \<in> set es \<Longrightarrow> al_EntryHash e \<noteq> []"
proof (induction rt prev es rule: linked.induct)
  case (2 rt prev e' es)
  have "ComputeAuditEntryHash rt prev e' \<noteq> []"
    using "2.prems"(1) by (simp add: digest_nonempty_def ComputeAuditEntryHash_def)
  with 2 show ?case by auto
qed simp

lemma hash_of_hash [simp]:
  "audit_payload prev (e\<lparr>al_PrevHash := a\<rparr>) = audit_payload prev e"
  "audit_payload prev (e\<lparr>al_EntryHash := b\<rparr>) = audit_payload prev e"
  "ComputeAuditEntryHash rt prev (e\<lparr>al_PrevHash := a\<rparr>) = ComputeAuditEntryHash rt prev e"
  "ComputeAuditEntryHash rt prev (e\<lparr>al_EntryHash := b\<rparr>) = ComputeAuditEntryHash rt prev e"
  by (simp_all add: audit_payload_def ComputeAuditEntryHash_def)

lemma find_filter: "find P (filter Q xs) = find (\<lambda>x. Q x \<and> P x) xs"
  by (induction xs) auto

lemma find_hd_filter: "find P xs = (case filter P xs of [] \<Rightarrow> None | x # _ \<Rightarrow> Some x)"
  by (induction xs) auto

lemma chain_head_linked:
  assumes "digest_nonempty rt" and "linked rt (audit_anchor s p) (rev (project_entries s p))"
  shows "chain_head s p = head_hash (audit_anchor s p) (rev (project_entries s p))"
proof -
  have ne: "\<And>e. e \<in> set (project_entries s p) \<Longrightarrow> al_EntryHash e \<noteq> []"
    using linked_hash_nonempty [OF assms] by simp
  show ?thesis
  proof (cases "project_entries s p")
    case Nil
    then show ?thesis by (simp add: chain_head_def head_hash_def find_hd_filter project_entries_def)
  next
    case (Cons e es)
    then have "find (\<lambda>l. al_ProjectID l = p) (ms_auditLogs s) = Some e"
      by (simp add: find_hd_filter project_entries_def)
    with ne [of e] Cons show ?thesis by (simp add: chain_head_def head_hash_def)
  qed
qed

section \<open>Every operation keeps the chain\<close>

definition fresh_entry :: "AuditLogEntry \<Rightarrow> bool" where
  "fresh_entry e \<longleftrightarrow> al_PrevHash e = [] \<or> al_EntryHash e = []"

lemma append_result:
  "appendAuditLogLocked rt now s entry = (lg, s') \<Longrightarrow>
     s' = s \<and> lg \<in> set (ms_auditLogs s) \<or> s' = s\<lparr>ms_auditLogs := lg # ms_auditLogs s\<rparr>"
  by (auto simp: appendAuditLogLocked_def Let_def find_Some_iff split: option.splits if_splits)

lemma append_other_fields [simp]:
  "ms_flagsSnapshot (snd (appendAuditLogLocked rt now s e)) = ms_flagsSnapshot s"
  "ms_changeRequests (snd (appendAuditLogLocked rt now s e)) = ms_changeRequests s"
  "ms_auditAnchors (snd (appendAuditLogLocked rt now s e)) = ms_auditAnchors s"
  "ms_apiKeys (snd (appendAuditLogLocked rt now s e)) = ms_apiKeys s"
  "ms_apiKeysByHash (snd (appendAuditLogLocked rt now s e)) = ms_apiKeysByHash s"
  "ms_users (snd (appendAuditLogLocked rt now s e)) = ms_users s"
  "ms_sessions (snd (appendAuditLogLocked rt now s e)) = ms_sessions s"
  by (auto simp: appendAuditLogLocked_def Let_def split: option.splits)

lemma append_entry:
  assumes "fresh_entry entry" and "appendAuditLogLocked rt now s entry = (lg, s')" and "s' \<noteq> s"
  shows "s' = s\<lparr>ms_auditLogs := lg # ms_auditLogs s\<rparr>"
    and "al_PrevHash lg = chain_head s (al_ProjectID lg)"
    and "al_EntryHash lg = ComputeAuditEntryHash rt (al_PrevHash lg) lg"
    and "al_ProjectID lg = or_project (al_ProjectID entry)"
    and "al_Timestamp lg = (if al_Timestamp entry = 0 then now else al_Timestamp entry)"
  using assms
  by (auto simp: appendAuditLogLocked_def fresh_entry_def Let_def IsZero_def split: option.splits if_splits)

lemma append_audit_ok:
  assumes "digest_nonempty rt" and "audit_ok rt s" and "fresh_entry entry"
  shows "audit_ok rt (snd (appendAuditLogLocked rt now s entry))"
proof -
  obtain lg s' where a: "appendAuditLogLocked rt now s entry = (lg, s')" by fastforce
  show ?thesis
  proof (cases "s' = s")
    case True
    with a assms(2) show ?thesis by simp
  next
    case False
    note e = append_entry [OF assms(3) a False]
    have "linked rt (audit_anchor s' p) (rev (project_entries s' p))" for p
    proof -
      have old: "linked rt (audit_anchor s p) (rev (project_entries s p))"
        using assms(2) by (simp add: audit_ok_def)
      have "audit_anchor s' p = audit_anchor s p" using e(1) by (simp add: audit_anchor_def)
      moreover have "project_entries s' p = (if al_ProjectID lg = p then [lg] else []) @ project_entries s p"
        using e(1) by (simp add: project_entries_def)
      moreover have "al_ProjectID lg = p \<Longrightarrow>
          al_PrevHash lg = head_hash (audit_anchor s p) (rev (project_entries s p))"
        using e(2) chain_head_linked [OF assms(1) old] by simp
      ultimately show ?thesis using old e(3) by (auto simp: linked_append)
    qed
    with a show ?thesis by (simp add: audit_ok_def)
  qed
qed

text \<open>Timestamps that never go back: newest first, so decreasing along the list.\<close>

definition times_ok :: "MemoryStore \<Rightarrow> gtime \<Rightarrow> bool" where
  "times_ok s t \<longleftrightarrow> sorted_wrt (\<lambda>a b. al_Timestamp b \<le> al_Timestamp a) (ms_auditLogs s)
     \<and> (\<forall>e \<in> set (ms_auditLogs s). al_Timestamp e \<le> t)"

lemma filter_split_sorted:
  fixes f :: "'a \<Rightarrow> 'b::linorder"
  assumes "sorted_wrt (\<lambda>a b. f b \<le> f a) xs"
  shows "xs = filter (\<lambda>x. \<not> f x < c) xs @ filter (\<lambda>x. f x < c) xs"
  using assms
proof (induction xs)
  case (Cons x xs)
  have "f x < c \<Longrightarrow> filter (\<lambda>x. \<not> f x < c) xs = []"
    using Cons.prems by (auto simp: filter_empty_conv)
  with Cons show ?case by auto
qed simp

lemma sorted_wrt_filter': "sorted_wrt R xs \<Longrightarrow> sorted_wrt R (filter P xs)"
  by (induction xs) auto

lemma purge_fields [simp]:
  "ms_flagsSnapshot (snd (PurgeAuditLogs s p b)) = ms_flagsSnapshot s"
  "ms_changeRequests (snd (PurgeAuditLogs s p b)) = ms_changeRequests s"
  by (simp_all add: PurgeAuditLogs_def Let_def)

lemma purge_entries:
  "project_entries (snd (PurgeAuditLogs s pid b)) q = filter (\<lambda>e. \<not> purged (or_project pid) b e) (project_entries s q)"
  by (auto simp: PurgeAuditLogs_def project_entries_def Let_def conj_commute intro!: filter_cong)

lemma purge_anchor:
  assumes "digest_nonempty rt" and "audit_ok rt s"
  shows "audit_anchor (snd (PurgeAuditLogs s pid b)) q =
    (if q = or_project pid \<and> filter (purged q b) (project_entries s q) \<noteq> []
     then al_EntryHash (hd (filter (purged q b) (project_entries s q))) else audit_anchor s q)"
proof -
  let ?p = "or_project pid"
  let ?gone = "filter (purged ?p b) (ms_auditLogs s)"
  have gone: "?gone = filter (purged ?p b) (project_entries s ?p)"
    by (auto simp: project_entries_def purged_def intro!: filter_cong)
  have ne: "\<And>e. e \<in> set ?gone \<Longrightarrow> al_EntryHash e \<noteq> []"
    using linked_hash_nonempty [OF assms(1), of "audit_anchor s ?p" "rev (project_entries s ?p)"] assms(2)
    unfolding gone by (auto simp: audit_ok_def)
  have f: "find (\<lambda>e. al_EntryHash e \<noteq> []) ?gone = (case ?gone of [] \<Rightarrow> None | e # _ \<Rightarrow> Some e)"
    using ne by (cases ?gone) auto
  show ?thesis
    using ne unfolding PurgeAuditLogs_def Let_def f
    by (cases ?gone) (auto simp: audit_anchor_def map_simps simp flip: gone)
qed

lemma purge_audit_ok:
  assumes "digest_nonempty rt" and "audit_ok rt s" and "times_ok s t"
  shows "audit_ok rt (snd (PurgeAuditLogs s pid b))"
proof -
  let ?s' = "snd (PurgeAuditLogs s pid b)"
  have "linked rt (audit_anchor ?s' q) (rev (project_entries ?s' q))" for q
  proof (cases "q = or_project pid")
    case False
    have "\<forall>e \<in> set (project_entries s q). \<not> purged (or_project pid) b e"
      using False by (auto simp: project_entries_def purged_def)
    then have "project_entries ?s' q = project_entries s q" by (simp add: purge_entries)
    with False purge_anchor [OF assms(1,2), of pid b q] assms(2) show ?thesis by (simp add: audit_ok_def)
  next
    case True
    let ?es = "project_entries s q"
    let ?new = "filter (\<lambda>e. \<not> al_Timestamp e < b) ?es" and ?old = "filter (\<lambda>e. al_Timestamp e < b) ?es"
    have pu: "\<And>e. e \<in> set ?es \<Longrightarrow> purged q b e = (al_Timestamp e < b)"
      by (auto simp: project_entries_def purged_def)
    have "sorted_wrt (\<lambda>a b. al_Timestamp b \<le> al_Timestamp a) ?es"
      using assms(3) by (simp add: times_ok_def project_entries_def sorted_wrt_filter')
    then have split: "?es = ?new @ ?old" by (rule filter_split_sorted)
    have "linked rt (audit_anchor s q) (rev ?es)" using assms(2) by (simp add: audit_ok_def)
    then have "linked rt (head_hash (audit_anchor s q) (rev ?old)) (rev ?new)"
      using split by (metis linked_append rev_append)
    moreover have "filter (purged q b) ?es = ?old" and "project_entries ?s' q = ?new"
      using pu True by (auto simp: purge_entries intro!: filter_cong)
    moreover have "head_hash (audit_anchor s q) (rev ?old) = (if ?old = [] then audit_anchor s q else al_EntryHash (hd ?old))"
      by (simp add: head_hash_def last_rev)
    ultimately show ?thesis using True purge_anchor [OF assms(1,2), of pid b q] by (simp split: if_splits)
  qed
  then show ?thesis by (simp add: audit_ok_def)
qed

lemma purge_times_ok: "times_ok s t \<Longrightarrow> times_ok (snd (PurgeAuditLogs s p b)) t"
  by (auto simp: times_ok_def PurgeAuditLogs_def Let_def sorted_wrt_filter')

lemma append_times_ok:
  assumes "times_ok s t" and "t \<le> u"
    and "al_Timestamp entry = 0 \<Longrightarrow> t \<le> now \<and> now \<le> u"
    and "al_Timestamp entry \<noteq> 0 \<Longrightarrow> t \<le> al_Timestamp entry \<and> al_Timestamp entry \<le> u"
  shows "times_ok (snd (appendAuditLogLocked rt now s entry)) u"
proof -
  obtain lg s' where a: "appendAuditLogLocked rt now s entry = (lg, s')" by fastforce
  have t: "s' \<noteq> s \<Longrightarrow> s' = s\<lparr>ms_auditLogs := lg # ms_auditLogs s\<rparr>
      \<and> al_Timestamp lg = (if al_Timestamp entry = 0 then now else al_Timestamp entry)"
    using a by (auto simp: appendAuditLogLocked_def Let_def IsZero_def split: option.splits if_splits)
  show ?thesis
  proof (cases "s' = s")
    case True
    then show ?thesis using assms(1,2) by (fastforce simp: a times_ok_def)
  next
    case False
    note t = t [OF False]
    then have "t \<le> al_Timestamp lg" and "al_Timestamp lg \<le> u" using assms(3,4) by (auto split: if_splits)
    with t assms(1,2) show ?thesis by (fastforce simp: a times_ok_def)
  qed
qed

end
