(* ===== verification/Store_Flags.thy ===== *)
theory Store_Flags
  imports Store_State
begin

text \<open>
  The flag and experiment operations of \<open>src/pkg/store/memory.go\<close>. Every write builds a new list
  of flags, publishes a new snapshot and appends an audit entry. The loops that toggle a flag or
  change its rollout visit every flag of the list; where more than one matches, each is updated and
  the last one is reported, as in the code.
\<close>

section \<open>Reads\<close>

definition ListFlags :: "MemoryStore \<Rightarrow> FeatureFlag list" where
  "ListFlags s = map DeepCopy (fs_list (ms_flagsSnapshot s))"

definition ListFlagsByProject :: "MemoryStore \<Rightarrow> string \<Rightarrow> FeatureFlag list" where
  "ListFlagsByProject s projectID =
     map DeepCopy (filter (\<lambda>f. ff_ProjectID f = or_project projectID) (fs_list (ms_flagsSnapshot s)))"

definition GetFlagByProject :: "MemoryStore \<Rightarrow> string \<Rightarrow> string \<Rightarrow> FeatureFlag result" where
  "GetFlagByProject s projectID keyOrID =
     (case mget (fs_map (ms_flagsSnapshot s)) (or_project projectID @ '':'' @ keyOrID) of
        Some f \<Rightarrow> Inr (DeepCopy f)
      | None \<Rightarrow> Inl (Errorf (''flag not found: '' @ keyOrID)))"

definition GetFlag :: "MemoryStore \<Rightarrow> string \<Rightarrow> FeatureFlag result" where
  "GetFlag s keyOrID =
     (case GetFlagByProject s DefaultProjectID keyOrID of
        Inr f \<Rightarrow> Inr f
      | Inl _ \<Rightarrow>
          (let snap = ms_flagsSnapshot s in
           case mget (fs_map snap) keyOrID of
             Some f \<Rightarrow> Inr (DeepCopy f)
           | None \<Rightarrow>
               (case find (\<lambda>f. ff_Key f = keyOrID \<or> ff_ID f = keyOrID) (fs_list snap) of
                  Some f \<Rightarrow> Inr (DeepCopy f)
                | None \<Rightarrow> Inl (Errorf (''flag not found: '' @ keyOrID)))))"

section \<open>Writes\<close>

definition flag_log :: "string \<Rightarrow> string \<Rightarrow> gtime \<Rightarrow> string \<Rightarrow> string \<Rightarrow> string \<Rightarrow> string \<Rightarrow> string \<Rightarrow> AuditLogEntry" where
  "flag_log i projectID ts actor action flagKey env details =
     zero_audit\<lparr>al_ID := i, al_ProjectID := projectID, al_Timestamp := ts, al_Actor := actor,
       al_Action := action, al_FlagKey := flagKey, al_Environment := env, al_Details := details\<rparr>"

text \<open>The loop of \<open>SaveFlag\<close>: it replaces the first flag with the same ID or key in the project.\<close>

fun replace_flag :: "gtime \<Rightarrow> FeatureFlag \<Rightarrow> FeatureFlag list \<Rightarrow> (FeatureFlag \<times> FeatureFlag list) option" where
  "replace_flag now flag [] = None"
| "replace_flag now flag (f # fs) =
     (if (ff_ID f = ff_ID flag \<or> ff_Key f = ff_Key flag) \<and> or_project (ff_ProjectID f) = ff_ProjectID flag
      then (let flag' = flag\<lparr>ff_ID := ff_ID f, ff_CreatedAt := ff_CreatedAt f, ff_UpdatedAt := now,
                  ff_ConfigVersion := ff_ConfigVersion f + 1\<rparr>
            in Some (flag', flag' # fs))
      else map_option (\<lambda>(flag', fs'). (flag', f # fs')) (replace_flag now flag fs))"

definition new_flag :: "clock \<Rightarrow> string \<Rightarrow> FeatureFlag \<Rightarrow> FeatureFlag" where
  "new_flag clk rnd flag =
     (let flag = (if ff_ID flag = [] then flag\<lparr>ff_ID := ''flag_'' @ Itoa (Unix (clk 1)) @ ''_'' @ rnd\<rparr> else flag);
          flag = (if ff_ConfigVersion flag = 0 then flag\<lparr>ff_ConfigVersion := 1\<rparr> else flag)
      in flag\<lparr>ff_CreatedAt := clk 0, ff_UpdatedAt := clk 0\<rparr>)"

definition publish :: "FeatureFlag list \<Rightarrow> MemoryStore \<Rightarrow> MemoryStore" where
  "publish newList s = s\<lparr>ms_flagsSnapshot := newFlagSnapshot newList\<rparr>"

definition SaveFlag :: "runtime \<Rightarrow> clock \<Rightarrow> string \<Rightarrow> MemoryStore \<Rightarrow> FeatureFlag \<Rightarrow> string
  \<Rightarrow> AuditLogEntry option result \<times> MemoryStore" where
  "SaveFlag rt clk rnd s flag actor0 =
     (let actor = (if actor0 = [] then ''developer@flagura.dev'' else actor0);
          currentList = fs_list (ms_flagsSnapshot s);
          now = clk 0;
          flagCopy = DeepCopy flag
      in if TrimSpace rt (ff_ProjectID flagCopy) = [] then
           (Inl (Errorf ''project_id is required to save a feature flag''), s)
         else
           (let (newList, lg) =
              (case replace_flag now flagCopy currentList of
                 Some (flag', newList) \<Rightarrow>
                   (newList, flag_log (log_id ''log_'' (clk 1)) (ff_ProjectID flag') now actor ''FLAG_UPDATED''
                      (ff_Key flag') ''all''
                      (''Updated configuration and rules for '' @ quoted (ff_Key flag') @ ''.''))
               | None \<Rightarrow>
                   (let flag' = new_flag clk rnd flagCopy in
                    (flag' # currentList,
                     flag_log (log_id ''log_'' (clk 2)) (ff_ProjectID flag') now actor ''FLAG_CREATED''
                       (ff_Key flag') ''all''
                       (''Created new '' @ ff_Type flag' @ '' flag '' @ quoted (ff_Name flag') @ '' [''
                         @ ff_Key flag' @ ''].''))));
                s = publish newList s
            in if actor = ''snapshot_restore'' then (Inr None, s)
               else (let (lg, s) = appendAuditLogLocked rt (clk 3) s lg in (Inr (Some lg), s))))"

definition flag_matches :: "string \<Rightarrow> string \<Rightarrow> FeatureFlag \<Rightarrow> bool" where
  "flag_matches projectID keyOrID f =
     (or_project (ff_ProjectID f) = projectID \<and> (ff_Key f = keyOrID \<or> ff_ID f = keyOrID))"

definition not_in_project :: "string \<Rightarrow> string \<Rightarrow> gerror" where
  "not_in_project projectID keyOrID = Errorf (''flag not found in project '' @ projectID @ '': '' @ keyOrID)"

definition DeleteFlagByProject :: "runtime \<Rightarrow> clock \<Rightarrow> MemoryStore \<Rightarrow> string \<Rightarrow> string \<Rightarrow> string
  \<Rightarrow> AuditLogEntry result \<times> MemoryStore" where
  "DeleteFlagByProject rt clk s projectID0 keyOrID actor0 =
     (let projectID = or_project projectID0;
          actor = (if actor0 = [] then ''admin@flagura.dev'' else actor0);
          currentList = fs_list (ms_flagsSnapshot s);
          matched = filter (flag_matches projectID keyOrID) currentList;
          newList = filter (\<lambda>f. \<not> flag_matches projectID keyOrID f) currentList
      in if matched = [] then (Inl (not_in_project projectID keyOrID), s)
         else (let deletedKey = ff_Key (last matched);
                   lg = flag_log (log_id ''log_'' (clk 0)) projectID (clk 1) actor ''FLAG_DELETED'' deletedKey ''all''
                     (''Permanently removed feature flag '' @ quoted deletedKey @ '' from project ''
                       @ quoted projectID @ ''.'');
                   (lg, s) = appendAuditLogLocked rt (clk 2) (publish newList s) lg
               in (Inr lg, s)))"

definition DeleteFlag :: "runtime \<Rightarrow> clock \<Rightarrow> MemoryStore \<Rightarrow> string \<Rightarrow> string \<Rightarrow> AuditLogEntry result \<times> MemoryStore" where
  "DeleteFlag rt clk s keyOrID actor =
     (case GetFlag s keyOrID of
        Inl e \<Rightarrow> (Inl e, s)
      | Inr f \<Rightarrow> DeleteFlagByProject rt clk s (ff_ProjectID f) keyOrID actor)"

text \<open>
  The update loop: \<open>upd i f\<close> is the new flag and its audit entry for the flag at position \<open>i\<close>; the
  result is the new list and the last update made, if any.
\<close>

fun update_loop :: "(FeatureFlag \<Rightarrow> bool) \<Rightarrow> (nat \<Rightarrow> FeatureFlag \<Rightarrow> FeatureFlag \<times> 'l) \<Rightarrow> nat \<Rightarrow> FeatureFlag list
  \<Rightarrow> FeatureFlag list \<times> (FeatureFlag \<times> 'l) option" where
  "update_loop match upd i [] = ([], None)"
| "update_loop match upd i (f # fs) =
     (let flagCopy = DeepCopy f; (fs', later) = update_loop match upd (Suc i) fs in
      if match flagCopy then
        (let r = upd i flagCopy in (fst r # fs', case later of Some x \<Rightarrow> Some x | None \<Rightarrow> Some r))
      else (flagCopy # fs', later))"

definition set_env :: "string \<Rightarrow> EnvironmentConfig \<Rightarrow> gtime \<Rightarrow> FeatureFlag \<Rightarrow> FeatureFlag" where
  "set_env env cfg now f = f\<lparr>ff_Environments := mput env cfg (ff_Environments f),
     ff_ConfigVersion := ff_ConfigVersion f + 1, ff_UpdatedAt := now\<rparr>"

definition toggle_update :: "clock \<Rightarrow> string \<Rightarrow> string \<Rightarrow> bool option \<Rightarrow> string \<Rightarrow> nat \<Rightarrow> FeatureFlag \<Rightarrow> FeatureFlag \<times> AuditLogEntry" where
  "toggle_update clk projectID env enabled actor i f =
     (let cfg = EnvConfig f env;
          cfg = cfg\<lparr>ec_Enabled := (case enabled of Some b \<Rightarrow> b | None \<Rightarrow> \<not> ec_Enabled cfg)\<rparr>;
          statusText = (if ec_Enabled cfg then ''Enabled'' else ''Disabled (Kill Switch)'')
      in (set_env env cfg (clk (3 * i)) f,
          flag_log (log_id ''log_'' (clk (3 * i + 1))) projectID (clk (3 * i + 2)) actor ''KILL_SWITCH_TOGGLED''
            (ff_Key f) env (statusText @ '' flag for '' @ env @ '' environment in project '' @ projectID @ ''.'')))"

definition finish_update :: "runtime \<Rightarrow> gtime \<Rightarrow> string \<Rightarrow> string \<Rightarrow> FeatureFlag list \<times> (FeatureFlag \<times> AuditLogEntry) option
  \<Rightarrow> MemoryStore \<Rightarrow> (FeatureFlag \<times> AuditLogEntry) result \<times> MemoryStore" where
  "finish_update rt now projectID keyOrID r s =
     (case snd r of
        None \<Rightarrow> (Inl (not_in_project projectID keyOrID), s)
      | Some (updatedFlag, lg) \<Rightarrow>
          (let (lg, s) = appendAuditLogLocked rt now (publish (fst r) s) lg in (Inr (updatedFlag, lg), s)))"

definition ToggleFlagByProject :: "runtime \<Rightarrow> clock \<Rightarrow> MemoryStore \<Rightarrow> string \<Rightarrow> string \<Rightarrow> string \<Rightarrow> bool option \<Rightarrow> string
  \<Rightarrow> (FeatureFlag \<times> AuditLogEntry) result \<times> MemoryStore" where
  "ToggleFlagByProject rt clk s projectID0 keyOrID env0 enabled actor0 =
     (let projectID = or_project projectID0;
          actor = (if actor0 = [] then ''admin@flagura.dev'' else actor0);
          env = (if env0 = [] then EnvProduction else env0);
          currentList = fs_list (ms_flagsSnapshot s)
      in finish_update rt (clk (3 * length currentList)) projectID keyOrID
           (update_loop (flag_matches projectID keyOrID) (toggle_update clk projectID env enabled actor) 0 currentList) s)"

definition ToggleFlag :: "runtime \<Rightarrow> clock \<Rightarrow> MemoryStore \<Rightarrow> string \<Rightarrow> string \<Rightarrow> bool option \<Rightarrow> string
  \<Rightarrow> (FeatureFlag \<times> AuditLogEntry) result \<times> MemoryStore" where
  "ToggleFlag rt clk s keyOrID env enabled actor =
     (case GetFlag s keyOrID of
        Inl e \<Rightarrow> (Inl e, s)
      | Inr f \<Rightarrow> ToggleFlagByProject rt clk s (ff_ProjectID f) keyOrID env enabled actor)"

definition rollout_update :: "clock \<Rightarrow> string \<Rightarrow> string \<Rightarrow> f64 \<Rightarrow> string \<Rightarrow> nat \<Rightarrow> FeatureFlag \<Rightarrow> FeatureFlag \<times> AuditLogEntry" where
  "rollout_update clk projectID env pct actor i f =
     (let cfg = EnvConfig f env;
          oldPct = ec_Percentage cfg;
          cfg = cfg\<lparr>ec_Percentage := pct\<rparr>;
          cfg = (if ec_Strategy cfg = StrategyBoolean \<and> flt pct (Fin 100)
                 then cfg\<lparr>ec_Strategy := StrategyPercentage\<rparr> else cfg)
      in (set_env env cfg (clk (3 * i)) f,
          flag_log (log_id ''log_'' (clk (3 * i + 1))) projectID (clk (3 * i + 2)) actor ''ROLLOUT_UPDATED''
            (ff_Key f) env (''Updated percentage rollout from '' @ FormatFixed 0 oldPct @ ''% to ''
              @ FormatFixed 0 pct @ ''% for '' @ env @ '' in project '' @ projectID @ ''.'')))"

definition clamp_pct :: "f64 \<Rightarrow> f64" where
  "clamp_pct pct = (let pct = (if flt pct (Fin 0) then Fin 0 else pct) in if flt (Fin 100) pct then Fin 100 else pct)"

definition UpdateRolloutByProject :: "runtime \<Rightarrow> clock \<Rightarrow> MemoryStore \<Rightarrow> string \<Rightarrow> string \<Rightarrow> string \<Rightarrow> f64 \<Rightarrow> string
  \<Rightarrow> (FeatureFlag \<times> AuditLogEntry) result \<times> MemoryStore" where
  "UpdateRolloutByProject rt clk s projectID0 keyOrID env0 pct actor0 =
     (let projectID = or_project projectID0;
          actor = (if actor0 = [] then ''engineer@flagura.dev'' else actor0);
          env = (if env0 = [] then EnvProduction else env0);
          currentList = fs_list (ms_flagsSnapshot s)
      in finish_update rt (clk (3 * length currentList)) projectID keyOrID
           (update_loop (flag_matches projectID keyOrID) (rollout_update clk projectID env (clamp_pct pct) actor) 0 currentList) s)"

definition UpdateRollout :: "runtime \<Rightarrow> clock \<Rightarrow> MemoryStore \<Rightarrow> string \<Rightarrow> string \<Rightarrow> f64 \<Rightarrow> string
  \<Rightarrow> (FeatureFlag \<times> AuditLogEntry) result \<times> MemoryStore" where
  "UpdateRollout rt clk s keyOrID env pct actor =
     (case GetFlag s keyOrID of
        Inl e \<Rightarrow> (Inl e, s)
      | Inr f \<Rightarrow> UpdateRolloutByProject rt clk s (ff_ProjectID f) keyOrID env pct actor)"

section \<open>Experiment events\<close>

text \<open>\<open>clk i\<close> is the reading for the \<open>i\<close>-th event.\<close>

definition stamp_event :: "gtime \<Rightarrow> ExperimentEvent \<Rightarrow> ExperimentEvent" where
  "stamp_event now ev = (if IsZero (ev_Timestamp ev) then ev\<lparr>ev_Timestamp := now\<rparr> else ev)"

definition RecordExperimentEvents :: "clock \<Rightarrow> MemoryStore \<Rightarrow> ExperimentEvent list \<Rightarrow> MemoryStore" where
  "RecordExperimentEvents clk s events =
     (let evs = ms_events s @ map (\<lambda>(i, ev). stamp_event (clk i) ev) (zip [0..<length events] events);
          evs = (if length evs > 100000 then drop (length evs - 100000) evs else evs)
      in s\<lparr>ms_events := evs\<rparr>)"

definition GetExperimentEvents :: "MemoryStore \<Rightarrow> string \<Rightarrow> int \<Rightarrow> ExperimentEvent list" where
  "GetExperimentEvents s flagKey limit =
     limited limit (filter (\<lambda>ev. flagKey = [] \<or> ev_FlagKey ev = flagKey) (rev (ms_events s)))"

definition GetExperimentEventsByProject :: "MemoryStore \<Rightarrow> string \<Rightarrow> string \<Rightarrow> int \<Rightarrow> ExperimentEvent list" where
  "GetExperimentEventsByProject s projectID flagKey limit =
     limited limit (filter (\<lambda>ev. or_project (ev_ProjectID ev) = or_project projectID
       \<and> (flagKey = [] \<or> ev_FlagKey ev = flagKey)) (rev (ms_events s)))"

section \<open>The snapshot index\<close>

definition flag_keys :: "FeatureFlag \<Rightarrow> string set" where
  "flag_keys f = {ff_ProjectID f @ '':'' @ ff_Key f}
     \<union> (if ff_ID f = [] then {} else {ff_ProjectID f @ '':'' @ ff_ID f, ff_ID f})"

definition snap_ok :: "MemoryStore \<Rightarrow> bool" where
  "snap_ok s \<longleftrightarrow> ms_flagsSnapshot s = newFlagSnapshot (fs_list (ms_flagsSnapshot s))"

text \<open>Identifiers without the separator of the index.\<close>

definition ids_ok :: "FeatureFlag list \<Rightarrow> bool" where
  "ids_ok fls \<longleftrightarrow> (\<forall>f \<in> set fls. CHR '':'' \<notin> set (ff_ProjectID f) \<and> CHR '':'' \<notin> set (ff_ID f))"

lemma normalize_flag_fields [simp]:
  "ff_ID (normalize_flag f) = ff_ID f" "ff_Key (normalize_flag f) = ff_Key f"
  "ff_ProjectID (normalize_flag f) = or_project (ff_ProjectID f)"
  "ff_Environments (normalize_flag f) = ff_Environments f"
  "ff_ConfigVersion (normalize_flag f) = (if ff_ConfigVersion f = 0 then 1 else ff_ConfigVersion f)"
  "ff_CreatedAt (normalize_flag f) = ff_CreatedAt f"
  by (simp_all add: normalize_flag_def or_project_def Let_def)

lemma or_project_nonempty [simp]: "or_project p \<noteq> []" "or_project (or_project p) = or_project p"
  by (simp_all add: or_project_def)

lemma or_project_id [simp]: "p \<noteq> [] \<Longrightarrow> or_project p = p"
  by (simp add: or_project_def)

lemma normalize_flag_idem [simp]: "normalize_flag (normalize_flag f) = normalize_flag f"
  by (simp add: normalize_flag_def Let_def)

lemma normalize_flag_id: "ff_ProjectID f \<noteq> [] \<Longrightarrow> ff_ConfigVersion f \<noteq> 0 \<Longrightarrow> normalize_flag f = f"
  by (simp add: normalize_flag_def)

lemma snapshot_list [simp]: "fs_list (newFlagSnapshot fls) = map normalize_flag fls"
  by (simp add: newFlagSnapshot_def Let_def)

lemma newFlagSnapshot_idem [simp]: "newFlagSnapshot (map normalize_flag fls) = newFlagSnapshot fls"
  by (simp add: newFlagSnapshot_def o_def)

lemma publish_snap [simp]:
  "snap_ok (publish fls s)" "fs_list (ms_flagsSnapshot (publish fls s)) = map normalize_flag fls"
  by (simp_all add: snap_ok_def publish_def)

lemma snap_ok_list: "snap_ok s \<Longrightarrow> map normalize_flag (fs_list (ms_flagsSnapshot s)) = fs_list (ms_flagsSnapshot s)"
  unfolding snap_ok_def by (metis snapshot_list)

lemma snap_ok_flag:
  assumes "snap_ok s" and "f \<in> set (fs_list (ms_flagsSnapshot s))"
  shows "normalize_flag f = f" and "ff_ProjectID f \<noteq> []" and "ff_ConfigVersion f \<noteq> 0"
proof -
  show n: "normalize_flag f = f"
    using snap_ok_list [OF assms(1)] assms(2) by (metis map_eq_conv map_ident)
  show "ff_ProjectID f \<noteq> []" "ff_ConfigVersion f \<noteq> 0"
    using normalize_flag_fields(3,5) [of f] unfolding n
    by (metis or_project_nonempty(1), metis zero_neq_one)
qed

lemma index_flag_get: "mget (index_flag f m) k = (if k \<in> flag_keys f then Some f else mget m k)"
  by (auto simp: index_flag_def flag_keys_def map_simps Let_def)

lemma fold_index_get:
  "mget (fold index_flag fls m) k = (case find (\<lambda>f. k \<in> flag_keys f) (rev fls) of Some f \<Rightarrow> Some f | None \<Rightarrow> mget m k)"
proof (induction fls arbitrary: m)
  case (Cons f fls)
  have "find P (xs @ [y]) = (case find P xs of Some x \<Rightarrow> Some x | None \<Rightarrow> if P y then Some y else None)" for P xs and y :: FeatureFlag
    by (induction xs) auto
  with Cons show ?case by (auto simp: index_flag_get split: option.splits)
qed simp

lemma colon_split:
  assumes "p @ '':'' @ k = q @ '':'' @ l" and "CHR '':'' \<notin> set p" and "CHR '':'' \<notin> set q"
  shows "p = q \<and> k = l"
proof -
  have t: "takeWhile (\<lambda>c. c \<noteq> CHR '':'') (p @ '':'' @ k) = p" if "CHR '':'' \<notin> set p" for p k
    using that by (induction p) auto
  from assms t have "p = q" by metis
  with assms(1) show ?thesis by simp
qed

lemma flag_keys_matches:
  assumes "CHR '':'' \<notin> set (ff_ProjectID f)" and "CHR '':'' \<notin> set (ff_ID f)" and "ff_ProjectID f \<noteq> []"
    and "CHR '':'' \<notin> set p" and "k \<noteq> []"
  shows "p @ '':'' @ k \<in> flag_keys f \<longleftrightarrow> flag_matches p k f"
proof -
  have "p @ '':'' @ k \<noteq> ff_ID f" using assms(2) by (metis append_Cons in_set_conv_decomp)
  then show ?thesis
    using assms colon_split [of p k "ff_ProjectID f"] by (auto simp: flag_keys_def flag_matches_def)
qed

lemma GetFlagByProject_scan:
  assumes "snap_ok s" and "ids_ok (fs_list (ms_flagsSnapshot s))"
    and "CHR '':'' \<notin> set p" and "p \<noteq> []" and "k \<noteq> []"
  shows "GetFlagByProject s p k =
    (case find (flag_matches p k) (rev (fs_list (ms_flagsSnapshot s))) of
       Some f \<Rightarrow> Inr f | None \<Rightarrow> Inl (Errorf (''flag not found: '' @ k)))"
proof -
  let ?fls = "fs_list (ms_flagsSnapshot s)"
  have "fs_map (ms_flagsSnapshot s) = fold index_flag ?fls []"
    using assms(1) snap_ok_list [OF assms(1)] unfolding snap_ok_def newFlagSnapshot_def Let_def
    by (metis FlagSnapshot.select_convs(1))
  moreover have "find (\<lambda>f. p @ '':'' @ k \<in> flag_keys f) (rev ?fls) = find (flag_matches p k) (rev ?fls)"
  proof (rule find_cong [OF refl])
    fix f assume "f \<in> set (rev ?fls)"
    then show "(p @ '':'' @ k \<in> flag_keys f) = flag_matches p k f"
      using assms snap_ok_flag(2) [OF assms(1), of f] by (intro flag_keys_matches) (auto simp: ids_ok_def)
  qed
  ultimately show ?thesis
    using assms(4) by (auto simp: GetFlagByProject_def fold_index_get split: option.splits)
qed

section \<open>The update loops\<close>

lemma update_loop_list:
  "fst (update_loop m u i fs) = map (\<lambda>(j, f). if m f then fst (u (i + j) f) else f) (zip [0..<length fs] fs)"
proof (induction m u i fs rule: update_loop.induct)
  case (2 m u i f fs)
  have "zip [0..<length (f # fs)] (f # fs) = (0, f) # map (\<lambda>(j, f). (Suc j, f)) (zip [0..<length fs] fs)"
    by (simp add: upt_conv_Cons zip_map1 del: upt_Suc flip: map_Suc_upt)
  with 2 show ?case by (auto simp: Let_def split_beta)
qed simp

lemma update_loop_length [simp]: "length (fst (update_loop m u i fs)) = length fs"
  by (simp add: update_loop_list)

lemma update_loop_nth:
  "j < length fs \<Longrightarrow> fst (update_loop m u i fs) ! j = (if m (fs ! j) then fst (u (i + j) (fs ! j)) else fs ! j)"
  by (simp add: update_loop_list)

lemma update_loop_None: "snd (update_loop m u i fs) = None \<longleftrightarrow> (\<forall>f \<in> set fs. \<not> m f)"
  by (induction m u i fs rule: update_loop.induct) (auto simp: Let_def split_beta split: option.splits)

lemma update_loop_Some:
  "snd (update_loop m u i fs) = Some r \<Longrightarrow> \<exists>j < length fs. m (fs ! j) \<and> r = u (i + j) (fs ! j)"
proof (induction m u i fs rule: update_loop.induct)
  case (2 m u i f fs)
  show ?case
  proof (cases "snd (update_loop m u (Suc i) fs)")
    case None
    with "2.prems" have "m f" "r = u i f" by (auto simp: Let_def split_beta split: if_splits)
    then show ?thesis by (intro exI [of _ 0]) simp
  next
    case (Some r')
    with "2.prems" have "r' = r" by (auto simp: Let_def split_beta split: if_splits)
    with "2.IH" [of "DeepCopy f"] Some obtain j where "j < length fs" "m (fs ! j)" "r = u (Suc i + j) (fs ! j)" by auto
    then show ?thesis by (intro exI [of _ "Suc j"]) simp
  qed
qed simp

lemma set_env_fields [simp]:
  "ff_ID (set_env env cfg t f) = ff_ID f" "ff_Key (set_env env cfg t f) = ff_Key f"
  "ff_ProjectID (set_env env cfg t f) = ff_ProjectID f"
  "ff_ConfigVersion (set_env env cfg t f) = ff_ConfigVersion f + 1"
  "EnvConfig (set_env env cfg t f) e = (if e = env then cfg else EnvConfig f e)"
  "mget (ff_Environments (set_env env cfg t f)) e = (if e = env then Some cfg else mget (ff_Environments f) e)"
  by (simp_all add: set_env_def EnvConfig_def map_simps)

lemma flag_matches_normalize [simp]: "flag_matches p k (normalize_flag f) = flag_matches p k f"
  by (simp add: flag_matches_def)

lemma flag_matches_set_env [simp]: "flag_matches p k (set_env env cfg t f) = flag_matches p k f"
  by (simp add: flag_matches_def)

lemma toggle_update_fst:
  "fst (toggle_update clk p env b actor i f) = set_env env ((EnvConfig f env)\<lparr>ec_Enabled :=
     (case b of Some x \<Rightarrow> x | None \<Rightarrow> \<not> ec_Enabled (EnvConfig f env))\<rparr>) (clk (3 * i)) f"
  by (simp add: toggle_update_def Let_def)

lemma rollout_update_fst:
  "fst (rollout_update clk p env pct actor i f) = set_env env ((EnvConfig f env)\<lparr>ec_Percentage := pct,
     ec_Strategy := (if ec_Strategy (EnvConfig f env) = ''boolean'' \<and> flt pct (Fin 100) then ''percentage''
       else ec_Strategy (EnvConfig f env))\<rparr>) (clk (3 * i)) f"
  by (simp add: rollout_update_def Let_def)

lemma finish_update_cases:
  "finish_update rt now p k r s = (res, s') \<Longrightarrow>
     (snd r = None \<and> s' = s \<and> res = Inl (not_in_project p k)) \<or>
     (\<exists>f lg lg'. snd r = Some (f, lg) \<and> res = Inr (f, lg')
        \<and> appendAuditLogLocked rt now (publish (fst r) s) lg = (lg', s'))"
  by (auto simp: finish_update_def split: option.splits prod.splits)

lemma finish_update_list:
  assumes "finish_update rt now p k r s = (Inr x, s')"
  shows "fs_list (ms_flagsSnapshot s') = map normalize_flag (fst r)" and "snap_ok s'"
proof -
  from finish_update_cases [OF assms] obtain lg lg' where
    a: "appendAuditLogLocked rt now (publish (fst r) s) lg = (lg', s')" by auto
  then have "ms_flagsSnapshot s' = ms_flagsSnapshot (publish (fst r) s)"
    using append_other_fields(1) [of rt now "publish (fst r) s" lg] by simp
  then show "fs_list (ms_flagsSnapshot s') = map normalize_flag (fst r)" and "snap_ok s'"
    by (simp_all add: snap_ok_def publish_def)
qed

section \<open>Keys stay unique\<close>

definition keys_unique :: "FeatureFlag list \<Rightarrow> bool" where
  "keys_unique fls \<longleftrightarrow> distinct (map (\<lambda>f. (or_project (ff_ProjectID f), ff_Key f)) fls)"

lemma keys_unique_normalize [simp]: "keys_unique (map normalize_flag fls) = keys_unique fls"
  by (simp add: keys_unique_def o_def)

lemma replace_flag_None:
  "replace_flag now flag fls = None \<longleftrightarrow>
     (\<forall>f \<in> set fls. \<not> ((ff_ID f = ff_ID flag \<or> ff_Key f = ff_Key flag) \<and> or_project (ff_ProjectID f) = ff_ProjectID flag))"
  by (induction now flag fls rule: replace_flag.induct) (auto simp: Let_def)

lemma replace_flag_Some:
  assumes "replace_flag now flag fls = Some (flag', fls')"
  shows "\<exists>pre f post. fls = pre @ f # post \<and> fls' = pre @ flag' # post
    \<and> (ff_ID f = ff_ID flag \<or> ff_Key f = ff_Key flag) \<and> or_project (ff_ProjectID f) = ff_ProjectID flag
    \<and> flag' = flag\<lparr>ff_ID := ff_ID f, ff_CreatedAt := ff_CreatedAt f, ff_UpdatedAt := now,
         ff_ConfigVersion := ff_ConfigVersion f + 1\<rparr>"
  using assms
proof (induction now flag fls arbitrary: flag' fls' rule: replace_flag.induct)
  case (2 now flag f fls)
  show ?case
  proof (cases "(ff_ID f = ff_ID flag \<or> ff_Key f = ff_Key flag) \<and> or_project (ff_ProjectID f) = ff_ProjectID flag")
    case True
    then show ?thesis
      using "2.prems" by (intro exI [of _ "[]"] exI [of _ f] exI [of _ fls]) (auto simp: Let_def)
  next
    case False
    with "2.prems" obtain fls'' where "replace_flag now flag fls = Some (flag', fls'')" "fls' = f # fls''" by auto
    with "2.IH" [OF False this(1)] show ?thesis by (metis append_Cons)
  qed
qed simp

lemma SaveFlag_cases:
  assumes "SaveFlag rt clk rnd s flag actor = (res, s')"
  shows "(res = Inl (Errorf ''project_id is required to save a feature flag'') \<and> s' = s) \<or>
    (\<exists>newList. (s' = publish newList s \<or> (\<exists>lg lg'. al_PrevHash lg = [] \<and> al_Timestamp lg = clk 0
         \<and> appendAuditLogLocked rt (clk 3) (publish newList s) lg = (lg', s')))
       \<and> (\<exists>y. res = Inr y) \<and> TrimSpace rt (ff_ProjectID flag) \<noteq> []
       \<and> newList = (case replace_flag (clk 0) flag (fs_list (ms_flagsSnapshot s)) of
            Some (flag', l) \<Rightarrow> l | None \<Rightarrow> new_flag clk rnd flag # fs_list (ms_flagsSnapshot s)))"
  using assms
  by (auto simp: SaveFlag_def Let_def flag_log_def zero_audit_def split: if_splits option.splits prod.splits)

lemma SaveFlag_list:
  assumes "SaveFlag rt clk rnd s flag actor = (Inr x, s')"
  shows "fs_list (ms_flagsSnapshot s') = map normalize_flag
      (case replace_flag (clk 0) flag (fs_list (ms_flagsSnapshot s)) of
         Some (flag', l) \<Rightarrow> l | None \<Rightarrow> new_flag clk rnd flag # fs_list (ms_flagsSnapshot s))"
    and "snap_ok s'" and "TrimSpace rt (ff_ProjectID flag) \<noteq> []"
proof -
  from SaveFlag_cases [OF assms] obtain newList where
    n: "s' = publish newList s \<or> (\<exists>lg lg'. appendAuditLogLocked rt (clk 3) (publish newList s) lg = (lg', s'))"
    "TrimSpace rt (ff_ProjectID flag) \<noteq> []"
    "newList = (case replace_flag (clk 0) flag (fs_list (ms_flagsSnapshot s)) of
            Some (flag', l) \<Rightarrow> l | None \<Rightarrow> new_flag clk rnd flag # fs_list (ms_flagsSnapshot s))" by blast
  from n(1) have "ms_flagsSnapshot s' = ms_flagsSnapshot (publish newList s)"
    using append_other_fields(1) by (metis snd_conv)
  with n show "fs_list (ms_flagsSnapshot s') = map normalize_flag
      (case replace_flag (clk 0) flag (fs_list (ms_flagsSnapshot s)) of
         Some (flag', l) \<Rightarrow> l | None \<Rightarrow> new_flag clk rnd flag # fs_list (ms_flagsSnapshot s))"
    and "snap_ok s'" and "TrimSpace rt (ff_ProjectID flag) \<noteq> []"
    by (simp_all add: snap_ok_def publish_def)
qed

lemma new_flag_fields [simp]:
  "ff_Key (new_flag clk rnd f) = ff_Key f" "ff_ProjectID (new_flag clk rnd f) = ff_ProjectID f"
  "ff_Environments (new_flag clk rnd f) = ff_Environments f"
  by (simp_all add: new_flag_def Let_def)

lemma SaveFlag_keys:
  assumes "SaveFlag rt clk rnd s flag actor = (Inr x, s')" and "keys_unique (fs_list (ms_flagsSnapshot s))"
    and "\<forall>g \<in> set (fs_list (ms_flagsSnapshot s)).
      or_project (ff_ProjectID g) = ff_ProjectID flag \<and> ff_ID g = ff_ID flag \<longrightarrow> ff_Key g = ff_Key flag"
    and "ff_ProjectID flag \<noteq> []"
  shows "keys_unique (fs_list (ms_flagsSnapshot s'))"
    and "\<exists>g \<in> set (fs_list (ms_flagsSnapshot s')). ff_ProjectID g = ff_ProjectID flag \<and> ff_Key g = ff_Key flag
      \<and> ff_Environments g = ff_Environments flag"
proof -
  let ?l = "fs_list (ms_flagsSnapshot s)"
  have "keys_unique (fs_list (ms_flagsSnapshot s')) \<and>
    (\<exists>g \<in> set (fs_list (ms_flagsSnapshot s')). ff_ProjectID g = ff_ProjectID flag \<and> ff_Key g = ff_Key flag
      \<and> ff_Environments g = ff_Environments flag)"
  proof (cases "replace_flag (clk 0) flag ?l")
    case None
    then have "(ff_ProjectID flag, ff_Key flag) \<notin> (\<lambda>f. (or_project (ff_ProjectID f), ff_Key f)) ` set ?l"
      by (auto simp: replace_flag_None)
    then show ?thesis
      using SaveFlag_list(1) [OF assms(1)] None assms(2,4) by (auto simp: keys_unique_def o_def)
  next
    case (Some r)
    obtain flag' l' where r: "r = (flag', l')" by fastforce
    from replace_flag_Some [OF Some [unfolded r]] obtain pre f post where
      f: "?l = pre @ f # post" "l' = pre @ flag' # post"
      "ff_ID f = ff_ID flag \<or> ff_Key f = ff_Key flag" "or_project (ff_ProjectID f) = ff_ProjectID flag"
      "flag' = flag\<lparr>ff_ID := ff_ID f, ff_CreatedAt := ff_CreatedAt f, ff_UpdatedAt := clk 0,
         ff_ConfigVersion := ff_ConfigVersion f + 1\<rparr>" by blast
    have "ff_Key f = ff_Key flag" using f(1,3,4) assms(3) by auto
    with f assms(2,4) have u: "keys_unique l'" by (simp add: keys_unique_def)
    have l': "fs_list (ms_flagsSnapshot s') = map normalize_flag l'"
      using SaveFlag_list(1) [OF assms(1)] Some r by simp
    have "keys_unique (fs_list (ms_flagsSnapshot s'))" unfolding l' keys_unique_normalize by (rule u)
    moreover have "normalize_flag flag' \<in> set (fs_list (ms_flagsSnapshot s'))" unfolding l' using f(2) by simp
    ultimately show ?thesis using f(5) assms(4) by (intro conjI bexI [of _ "normalize_flag flag'"]) simp_all
  qed
  then show "keys_unique (fs_list (ms_flagsSnapshot s'))"
    and "\<exists>g \<in> set (fs_list (ms_flagsSnapshot s')). ff_ProjectID g = ff_ProjectID flag \<and> ff_Key g = ff_Key flag
      \<and> ff_Environments g = ff_Environments flag"
    by blast+
qed

lemma ToggleFlagByProject_effect:
  assumes "ToggleFlagByProject rt clk s p k env b actor = (Inr x, s')" and "snap_ok s" and "p \<noteq> []"
    and "j < length (fs_list (ms_flagsSnapshot s))" and "env \<noteq> []"
  shows "length (fs_list (ms_flagsSnapshot s')) = length (fs_list (ms_flagsSnapshot s))"
    and "snap_ok s'"
    and "fs_list (ms_flagsSnapshot s') ! j = (let f = fs_list (ms_flagsSnapshot s) ! j in
      if flag_matches p k f then normalize_flag (set_env env ((EnvConfig f env)\<lparr>ec_Enabled :=
        (case b of Some v \<Rightarrow> v | None \<Rightarrow> \<not> ec_Enabled (EnvConfig f env))\<rparr>) (clk (3 * j)) f) else f)"
proof -
  let ?l = "fs_list (ms_flagsSnapshot s)"
  let ?a = "if actor = [] then ''admin@flagura.dev'' else actor"
  let ?r = "update_loop (flag_matches p k) (toggle_update clk p env b ?a) 0 ?l"
  have f: "finish_update rt (clk (3 * length ?l)) p k ?r s = (Inr x, s')"
    using assms(1,3,5) by (simp add: ToggleFlagByProject_def Let_def)
  note l = finish_update_list [OF f]
  show "length (fs_list (ms_flagsSnapshot s')) = length ?l" and "snap_ok s'" using l by simp_all
  have "normalize_flag (?l ! j) = ?l ! j" using assms(2,4) snap_ok_flag(1) by (meson nth_mem)
  then show "fs_list (ms_flagsSnapshot s') ! j = (let f = ?l ! j in
      if flag_matches p k f then normalize_flag (set_env env ((EnvConfig f env)\<lparr>ec_Enabled :=
        (case b of Some v \<Rightarrow> v | None \<Rightarrow> \<not> ec_Enabled (EnvConfig f env))\<rparr>) (clk (3 * j)) f) else f)"
    using l(1) assms(4) by (simp add: update_loop_nth toggle_update_fst Let_def)
qed

lemma UpdateRolloutByProject_effect:
  assumes "UpdateRolloutByProject rt clk s p k env pct actor = (Inr x, s')" and "snap_ok s" and "p \<noteq> []" and "env \<noteq> []"
  shows "length (fs_list (ms_flagsSnapshot s')) = length (fs_list (ms_flagsSnapshot s))"
    and "snap_ok s'"
    and "j < length (fs_list (ms_flagsSnapshot s)) \<Longrightarrow>
      fs_list (ms_flagsSnapshot s') ! j = (let f = fs_list (ms_flagsSnapshot s) ! j in
      if flag_matches p k f then normalize_flag (set_env env ((EnvConfig f env)\<lparr>ec_Percentage := clamp_pct pct,
         ec_Strategy := (if ec_Strategy (EnvConfig f env) = ''boolean'' \<and> flt (clamp_pct pct) (Fin 100)
           then ''percentage'' else ec_Strategy (EnvConfig f env))\<rparr>) (clk (3 * j)) f) else f)"
    and "\<exists>j < length (fs_list (ms_flagsSnapshot s)). flag_matches p k (fs_list (ms_flagsSnapshot s) ! j)"
proof -
  let ?l = "fs_list (ms_flagsSnapshot s)"
  let ?a = "if actor = [] then ''engineer@flagura.dev'' else actor"
  let ?r = "update_loop (flag_matches p k) (rollout_update clk p env (clamp_pct pct) ?a) 0 ?l"
  have f: "finish_update rt (clk (3 * length ?l)) p k ?r s = (Inr x, s')"
    using assms(1,3,4) by (simp add: UpdateRolloutByProject_def Let_def)
  note l = finish_update_list [OF f]
  show "length (fs_list (ms_flagsSnapshot s')) = length ?l" and "snap_ok s'" using l by simp_all
  show "fs_list (ms_flagsSnapshot s') ! j = (let f = ?l ! j in
      if flag_matches p k f then normalize_flag (set_env env ((EnvConfig f env)\<lparr>ec_Percentage := clamp_pct pct,
         ec_Strategy := (if ec_Strategy (EnvConfig f env) = ''boolean'' \<and> flt (clamp_pct pct) (Fin 100)
           then ''percentage'' else ec_Strategy (EnvConfig f env))\<rparr>) (clk (3 * j)) f) else f)"
    if j: "j < length ?l"
  proof -
    have "normalize_flag (?l ! j) = ?l ! j" using assms(2) j snap_ok_flag(1) by (meson nth_mem)
    then show ?thesis using l(1) j by (simp add: update_loop_nth rollout_update_fst Let_def)
  qed
  have "snd ?r \<noteq> None" using finish_update_cases [OF f] by auto
  then show "\<exists>j < length ?l. flag_matches p k (?l ! j)"
    by (auto simp: update_loop_None in_set_conv_nth)
qed

section \<open>Properties\<close>


definition demo_flag0 :: "string \<Rightarrow> string \<Rightarrow> string \<Rightarrow> FeatureFlag" where
  "demo_flag0 i p k = \<lparr>ff_ID = i, ff_ProjectID = p, ff_ConfigVersion = 4, ff_Key = k, ff_Name = k,
     ff_Description = [], ff_Type = ''boolean'', ff_Tags = [],
     ff_Environments = [(''production'', zero_env_config\<lparr>ec_Enabled := True\<rparr>)], ff_CreatedAt = 0, ff_UpdatedAt = 0\<rparr>"

definition demo_flags :: MemoryStore where
  "demo_flags = publish [demo_flag0 ''f1'' ''acme'' ''pay'', demo_flag0 ''f2'' ''acme'' ''chat'',
     demo_flag0 ''f3'' ''bolt'' ''pay''] NewMemoryStore"

lemma demo_flags_list: "fs_list (ms_flagsSnapshot demo_flags) =
    [demo_flag0 ''f1'' ''acme'' ''pay'', demo_flag0 ''f2'' ''acme'' ''chat'', demo_flag0 ''f3'' ''bolt'' ''pay'']"
  by (simp add: demo_flags_def normalize_flag_id demo_flag0_def)

lemma demo_flags_ok: "snap_ok demo_flags" "ids_ok (fs_list (ms_flagsSnapshot demo_flags))"
    "keys_unique (fs_list (ms_flagsSnapshot demo_flags))"
  unfolding demo_flags_list
  by (simp_all add: demo_flags_def ids_ok_def keys_unique_def demo_flag0_def)


text \<open>
  A successful toggle changes exactly what it says: every flag of the project with that key or
  ID gets the requested state (or the opposite of its state when none is given) in that environment
  only and the next configuration version; every other flag, of this and of all other projects, is
  untouched, and the index stays consistent.
\<close>

theorem toggle_exact_effect:
  assumes "ToggleFlagByProject rt clk s p k env b actor = (Inr x, s')" and "snap_ok s" and "p \<noteq> []" and "env \<noteq> []"
    and "j < length (fs_list (ms_flagsSnapshot s))"
  shows "let f = fs_list (ms_flagsSnapshot s) ! j; f' = fs_list (ms_flagsSnapshot s') ! j in
    snap_ok s' \<and> length (fs_list (ms_flagsSnapshot s')) = length (fs_list (ms_flagsSnapshot s))
    \<and> (if flag_matches p k f then
         ec_Enabled (EnvConfig f' env) = (case b of Some v \<Rightarrow> v | None \<Rightarrow> \<not> ec_Enabled (EnvConfig f env))
         \<and> (\<forall>e. e \<noteq> env \<longrightarrow> EnvConfig f' e = EnvConfig f e)
         \<and> ec_Rules (EnvConfig f' env) = ec_Rules (EnvConfig f env)
         \<and> ff_ConfigVersion f' = (if ff_ConfigVersion f + 1 = 0 then 1 else ff_ConfigVersion f + 1)
         \<and> ff_Key f' = ff_Key f \<and> ff_ID f' = ff_ID f
       else f' = f)"
proof -
  have n: "EnvConfig (normalize_flag g) e = EnvConfig g e" for g e by (simp add: EnvConfig_def)
  show ?thesis
    using ToggleFlagByProject_effect [OF assms(1,2,3,5,4)] by (simp add: Let_def n)
qed

definition demo_toggled :: MemoryStore where
  "demo_toggled = snd (ToggleFlagByProject demo_runtime (\<lambda>_. 9) demo_flags ''acme'' ''pay'' ''production'' (Some False) ''ann'')"

lemma demo_toggle:
  "\<exists>x. ToggleFlagByProject demo_runtime (\<lambda>_. 9) demo_flags ''acme'' ''pay'' ''production'' (Some False) ''ann'' =
     (Inr x, demo_toggled)"
proof -
  have "fst (ToggleFlagByProject demo_runtime (\<lambda>_. 9) demo_flags ''acme'' ''pay'' ''production'' (Some False) ''ann'')
      \<noteq> Inl e" for e
    by (simp add: ToggleFlagByProject_def finish_update_def demo_flags_list flag_matches_def demo_flag0_def Let_def
        split: prod.splits)
  then show ?thesis
    unfolding demo_toggled_def by (metis obj_sumE prod.collapse)
qed

theorem toggle_exact_effect_witness:
  "fs_list (ms_flagsSnapshot demo_toggled) ! 2 = demo_flag0 ''f3'' ''bolt'' ''pay''"
proof -
  obtain x where x: "ToggleFlagByProject demo_runtime (\<lambda>_. 9) demo_flags ''acme'' ''pay'' ''production'' (Some False) ''ann'' =
     (Inr x, demo_toggled)" using demo_toggle by blast
  show ?thesis
    using toggle_exact_effect [OF x demo_flags_ok(1), of 2]
    by (simp add: Let_def demo_flags_list flag_matches_def demo_flag0_def)
qed

text \<open>
  Deleting a flag removes exactly the flags of that project with that key or ID: afterwards the
  flag is not found, and the list is the old list without them, so no other project loses a flag.
\<close>

theorem delete_removes_only_target:
  assumes "DeleteFlagByProject rt clk s p k actor = (Inr lg, s')" and "snap_ok s"
    and "ids_ok (fs_list (ms_flagsSnapshot s))" and "CHR '':'' \<notin> set p" and "p \<noteq> []" and "k \<noteq> []"
  shows "fs_list (ms_flagsSnapshot s') = filter (\<lambda>f. \<not> flag_matches p k f) (fs_list (ms_flagsSnapshot s))
    \<and> GetFlagByProject s' p k = Inl (Errorf (''flag not found: '' @ k))
    \<and> (\<forall>q. q \<noteq> p \<longrightarrow> q \<noteq> [] \<longrightarrow> ListFlagsByProject s' q = ListFlagsByProject s q)"
proof -
  let ?l = "fs_list (ms_flagsSnapshot s)" and ?n = "filter (\<lambda>f. \<not> flag_matches p k f) (fs_list (ms_flagsSnapshot s))"
  obtain e where a: "appendAuditLogLocked rt (clk 2) (publish ?n s) e = (lg, s')"
    using assms(1,5) by (auto simp: DeleteFlagByProject_def Let_def split: if_splits prod.splits)
  have snap: "ms_flagsSnapshot s' = ms_flagsSnapshot (publish ?n s)"
    using append_other_fields(1) [of rt "clk 2" "publish ?n s" e] a by simp
  have "map normalize_flag ?n = ?n" by (rule map_idI) (use snap_ok_flag(1) [OF assms(2)] in auto)
  then have l: "fs_list (ms_flagsSnapshot s') = ?n" and ok: "snap_ok s'"
    using snap by (simp_all add: snap_ok_def publish_def)
  have "ids_ok (fs_list (ms_flagsSnapshot s'))" using assms(3) by (auto simp: ids_ok_def l)
  then have "GetFlagByProject s' p k = Inl (Errorf (''flag not found: '' @ k))"
    using GetFlagByProject_scan [OF ok _ assms(4,5,6)] by (auto simp: l find_None_iff split: option.splits dest!: find_Some_iff [THEN iffD1])
  moreover have "q \<noteq> p \<Longrightarrow> q \<noteq> [] \<Longrightarrow> ListFlagsByProject s' q = ListFlagsByProject s q" for q
    using snap_ok_flag(2) [OF assms(2)]
    by (auto simp: ListFlagsByProject_def l flag_matches_def intro!: map_cong filter_cong)
  ultimately show ?thesis using l by blast
qed

theorem delete_removes_only_target_witness:
  "ListFlagsByProject (snd (DeleteFlagByProject demo_runtime (\<lambda>_. 9) demo_flags ''acme'' ''pay'' ''ann'')) ''bolt'' =
   [demo_flag0 ''f3'' ''bolt'' ''pay'']"
proof -
  let ?d = "DeleteFlagByProject demo_runtime (\<lambda>_. 9) demo_flags ''acme'' ''pay'' ''ann''"
  have "fst ?d \<noteq> Inl e" for e
    by (simp add: DeleteFlagByProject_def demo_flags_list flag_matches_def demo_flag0_def Let_def split: prod.splits)
  then obtain lg where d: "?d = (Inr lg, snd ?d)" by (metis obj_sumE prod.collapse)
  have "ListFlagsByProject (snd ?d) ''bolt'' = ListFlagsByProject demo_flags ''bolt''"
    using delete_removes_only_target [OF d demo_flags_ok(1,2)] by simp
  then show ?thesis by (simp add: ListFlagsByProject_def demo_flags_list demo_flag0_def)
qed

text \<open>
  Saving keeps keys unique: if no two flags of a project share a key, and the saved flag does
  not carry the ID of a flag with another key, then after \<open>SaveFlag\<close> no two flags of a project share
  a key, and the saved configuration is in the list under its project and key.
\<close>

theorem SaveFlag_keeps_keys_unique:
  assumes "SaveFlag rt clk rnd s flag actor = (Inr x, s')" and "keys_unique (fs_list (ms_flagsSnapshot s))"
    and "\<forall>g \<in> set (fs_list (ms_flagsSnapshot s)).
      or_project (ff_ProjectID g) = ff_ProjectID flag \<and> ff_ID g = ff_ID flag \<longrightarrow> ff_Key g = ff_Key flag"
    and "ff_ProjectID flag \<noteq> []"
  shows "keys_unique (fs_list (ms_flagsSnapshot s'))
    \<and> (\<exists>g \<in> set (fs_list (ms_flagsSnapshot s')). ff_ProjectID g = ff_ProjectID flag \<and> ff_Key g = ff_Key flag
      \<and> ff_Environments g = ff_Environments flag)"
  using SaveFlag_keys [OF assms] by blast

theorem SaveFlag_keeps_keys_unique_witness:
  "keys_unique (fs_list (ms_flagsSnapshot (snd (SaveFlag demo_runtime (\<lambda>_. 9) ''ab'' demo_flags
     (demo_flag0 [] ''acme'' ''search'') ''ann''))))"
proof -
  let ?d = "SaveFlag demo_runtime (\<lambda>_. 9) ''ab'' demo_flags (demo_flag0 [] ''acme'' ''search'') ''ann''"
  have "TrimSpace demo_runtime ''acme'' = ''acme''" by code_simp
  then have "fst ?d \<noteq> Inl e" for e
    by (simp add: SaveFlag_def demo_flag0_def Let_def split: prod.splits option.splits)
  then obtain x where d: "?d = (Inr x, snd ?d)" by (metis obj_sumE prod.collapse)
  show ?thesis
    using SaveFlag_keeps_keys_unique [OF d demo_flags_ok(3)] by (simp add: demo_flags_list demo_flag0_def)
qed

text \<open>
  Without that condition it does not: saving a flag with the ID of one flag and the key of
  another leaves two flags of the project with the same key.
\<close>

theorem SaveFlag_duplicate_key:
  "\<not> keys_unique (fs_list (ms_flagsSnapshot (snd (SaveFlag demo_runtime (\<lambda>_. 9) ''ab'' demo_flags
     (demo_flag0 ''f1'' ''acme'' ''chat'') ''ann''))))"
proof -
  let ?d = "SaveFlag demo_runtime (\<lambda>_. 9) ''ab'' demo_flags (demo_flag0 ''f1'' ''acme'' ''chat'') ''ann''"
  have "TrimSpace demo_runtime ''acme'' = ''acme''" by code_simp
  then have "fst ?d \<noteq> Inl e" for e
    by (simp add: SaveFlag_def demo_flag0_def Let_def split: prod.splits option.splits)
  then obtain x where d: "?d = (Inr x, snd ?d)" by (metis obj_sumE prod.collapse)
  show ?thesis
    using SaveFlag_list(1) [OF d] by (simp add: demo_flags_list demo_flag0_def or_project_def Let_def) (simp add: keys_unique_def)
qed

end
