(* ===== verification/Serving.thy ===== *)
theory Serving
  imports Store_Flags
begin

text \<open>
  From the store to an evaluation. The store's update operations rewrite the configuration of one
  environment of a flag; a request handler then looks the flag up and evaluates it. The locale
  \<open>env_update\<close> states what such an operation promises of the flag list, and derives once what the
  next lookup returns; the toggle and the rollout update interpret it.
\<close>

lemma find_related:
  assumes "list_all2 (\<lambda>x y. P y = P x \<and> (P x \<longrightarrow> R x y)) xs ys"
  shows "rel_option R (find P xs) (find P ys)"
  using assms by (induction rule: list_all2_induct) auto

locale env_update =
  fixes run :: "clock \<Rightarrow> MemoryStore \<Rightarrow> string \<Rightarrow> string \<Rightarrow> string \<Rightarrow> (FeatureFlag \<times> AuditLogEntry) result \<times> MemoryStore"
    and change :: "EnvironmentConfig \<Rightarrow> EnvironmentConfig"
  assumes keeps_index: "run clk s p k env = (Inr x, s') \<Longrightarrow> snap_ok s \<Longrightarrow> p \<noteq> [] \<Longrightarrow> env \<noteq> [] \<Longrightarrow>
      snap_ok s' \<and> length (fs_list (ms_flagsSnapshot s')) = length (fs_list (ms_flagsSnapshot s))"
    and finds: "run clk s p k env = (Inr x, s') \<Longrightarrow> snap_ok s \<Longrightarrow> p \<noteq> [] \<Longrightarrow> env \<noteq> [] \<Longrightarrow>
      \<exists>f \<in> set (fs_list (ms_flagsSnapshot s)). flag_matches p k f"
    and effect: "run clk s p k env = (Inr x, s') \<Longrightarrow> snap_ok s \<Longrightarrow> p \<noteq> [] \<Longrightarrow> env \<noteq> [] \<Longrightarrow>
      j < length (fs_list (ms_flagsSnapshot s)) \<Longrightarrow>
      fs_list (ms_flagsSnapshot s') ! j = (let f = fs_list (ms_flagsSnapshot s) ! j in
        if flag_matches p k f then normalize_flag (set_env env (change (EnvConfig f env)) (clk (3 * j)) f) else f)"
begin

lemma related:
  assumes "run clk s p k env = (Inr x, s')" and "snap_ok s" and "p \<noteq> []" and "env \<noteq> []"
  shows "list_all2 (\<lambda>f f'. flag_matches p k f' = flag_matches p k f \<and>
      (flag_matches p k f \<longrightarrow> (\<exists>t. f' = normalize_flag (set_env env (change (EnvConfig f env)) t f))))
    (fs_list (ms_flagsSnapshot s)) (fs_list (ms_flagsSnapshot s'))"
  using keeps_index [OF assms] effect [OF assms] by (auto simp: list_all2_conv_all_nth Let_def)

lemma keeps_ids:
  assumes "run clk s p k env = (Inr x, s')" and "snap_ok s" and "p \<noteq> []" and "env \<noteq> []"
    and "ids_ok (fs_list (ms_flagsSnapshot s))"
  shows "ids_ok (fs_list (ms_flagsSnapshot s'))"
  unfolding ids_ok_def
proof
  fix f' assume "f' \<in> set (fs_list (ms_flagsSnapshot s'))"
  then obtain j where j: "j < length (fs_list (ms_flagsSnapshot s))" "f' = fs_list (ms_flagsSnapshot s') ! j"
    using keeps_index [OF assms(1-4)] by (metis in_set_conv_nth)
  let ?f = "fs_list (ms_flagsSnapshot s) ! j"
  have "?f \<in> set (fs_list (ms_flagsSnapshot s))" using j(1) by simp
  moreover from this have "ff_ProjectID ?f \<noteq> []" using snap_ok_flag(2) [OF assms(2)] by blast
  ultimately show "CHR '':'' \<notin> set (ff_ProjectID f') \<and> CHR '':'' \<notin> set (ff_ID f')"
    using effect [OF assms(1-4) j(1)] j(2) assms(5) by (auto simp: Let_def ids_ok_def)
qed

lemma lookup_after:
  assumes "run clk s p k env = (Inr x, s')" and "snap_ok s" and "p \<noteq> []" and "env \<noteq> []"
    and "ids_ok (fs_list (ms_flagsSnapshot s))" and "CHR '':'' \<notin> set p" and "k \<noteq> []"
  shows "\<exists>f t. GetFlagByProject s p k = Inr f
    \<and> GetFlagByProject s' p k = Inr (normalize_flag (set_env env (change (EnvConfig f env)) t f))"
proof -
  let ?l = "fs_list (ms_flagsSnapshot s)" and ?l' = "fs_list (ms_flagsSnapshot s')"
  have "rel_option (\<lambda>f f'. \<exists>t. f' = normalize_flag (set_env env (change (EnvConfig f env)) t f))
      (find (flag_matches p k) (rev ?l)) (find (flag_matches p k) (rev ?l'))"
    using related [OF assms(1-4)] by (intro find_related) (simp add: list_all2_rev)
  moreover have "find (flag_matches p k) (rev ?l) \<noteq> None"
    using finds [OF assms(1-4)] by (auto simp: find_None_iff)
  ultimately obtain f f' where f: "find (flag_matches p k) (rev ?l) = Some f" "find (flag_matches p k) (rev ?l') = Some f'"
      "\<exists>t. f' = normalize_flag (set_env env (change (EnvConfig f env)) t f)"
    by (cases "find (flag_matches p k) (rev ?l)"; cases "find (flag_matches p k) (rev ?l')") auto
  have "snap_ok s'" using keeps_index [OF assms(1-4)] by simp
  then have "GetFlagByProject s' p k = Inr f'"
    using GetFlagByProject_scan [of s' p k] keeps_ids [OF assms(1-5)] assms(3,6,7) f(2) by simp
  moreover have "GetFlagByProject s p k = Inr f"
    using GetFlagByProject_scan [of s p k] assms(2,3,5-7) f(1) by simp
  ultimately show ?thesis using f(3) by blast
qed

end

lemma ToggleFlagByProject_finds:
  assumes "ToggleFlagByProject rt clk s p k env b actor = (Inr x, s')" and "p \<noteq> []" and "env \<noteq> []"
  shows "\<exists>f \<in> set (fs_list (ms_flagsSnapshot s)). flag_matches p k f"
proof -
  let ?l = "fs_list (ms_flagsSnapshot s)"
  let ?r = "update_loop (flag_matches p k) (toggle_update clk p env b (if actor = [] then ''admin@flagura.dev'' else actor)) 0 ?l"
  have "finish_update rt (clk (3 * length ?l)) p k ?r s = (Inr x, s')"
    using assms by (simp add: ToggleFlagByProject_def Let_def)
  from finish_update_cases [OF this] have "snd ?r \<noteq> None" by auto
  then show ?thesis unfolding update_loop_None by blast
qed

interpretation toggling: env_update "\<lambda>clk s p k env. ToggleFlagByProject rt clk s p k env b actor"
  "\<lambda>c. c\<lparr>ec_Enabled := (case b of Some v \<Rightarrow> v | None \<Rightarrow> \<not> ec_Enabled c)\<rparr>" for rt b actor
proof unfold_locales
  fix clk s p k env x s'
  assume t: "ToggleFlagByProject rt clk s p k env b actor = (Inr x, s')" "snap_ok s" "p \<noteq> []" "env \<noteq> []"
  show f: "\<exists>f \<in> set (fs_list (ms_flagsSnapshot s)). flag_matches p k f"
    using t(1,3,4) by (rule ToggleFlagByProject_finds)
  then have "0 < length (fs_list (ms_flagsSnapshot s))" by auto
  from ToggleFlagByProject_effect(1,2) [OF t(1-3) this t(4)]
  show "snap_ok s' \<and> length (fs_list (ms_flagsSnapshot s')) = length (fs_list (ms_flagsSnapshot s))" by simp
qed (simp add: ToggleFlagByProject_effect(3) Let_def)

interpretation rollout: env_update "\<lambda>clk s p k env. UpdateRolloutByProject rt clk s p k env pct actor"
  "\<lambda>c. c\<lparr>ec_Percentage := clamp_pct pct,
     ec_Strategy := (if ec_Strategy c = ''boolean'' \<and> flt (clamp_pct pct) (Fin 100) then ''percentage'' else ec_Strategy c)\<rparr>" for rt pct actor
proof unfold_locales
  fix clk s p k env x s'
  assume t: "UpdateRolloutByProject rt clk s p k env pct actor = (Inr x, s')" "snap_ok s" "p \<noteq> []" "env \<noteq> []"
  note e = UpdateRolloutByProject_effect [OF t]
  show "\<exists>f \<in> set (fs_list (ms_flagsSnapshot s)). flag_matches p k f" using e(4) by auto
  show "snap_ok s' \<and> length (fs_list (ms_flagsSnapshot s')) = length (fs_list (ms_flagsSnapshot s))"
    using e(1,2) by simp
qed (simp add: UpdateRolloutByProject_effect(3) Let_def)

end
