(* ===== verification/Store_Audit.thy ===== *)
theory Store_Audit
  imports Store_State
begin

text \<open>
  What the audit log of \<open>src/pkg/store/memory.go\<close> promises: \<open>VerifyAuditLogIntegrity\<close> accepts
  exactly the intact chains, and it notices changed and removed entries. The limits of the scheme
  are stated too: the hashed text joins fields with an unescaped separator, and a chain whose newest
  entries are cut off is still intact.
\<close>

lemma verify_loop_later:
  "0 < i \<Longrightarrow> ai_Valid (verify_loop rt now i prev es) \<longleftrightarrow> linked rt prev es"
  by (induction rt now i prev es rule: verify_loop.induct) (auto simp: Let_def invalid_result_def)

lemma verify_loop_first:
  "es \<noteq> [] \<Longrightarrow> ai_Valid (verify_loop rt now 0 prev es) \<longleftrightarrow> linked rt prev es \<or> linked rt ''GENESIS'' es"
  by (cases es) (auto simp: Let_def invalid_result_def verify_loop_later)

lemma verify_loop_prefix:
  "0 \<le> i \<Longrightarrow> linked rt prev xs \<Longrightarrow>
   verify_loop rt now i prev (xs @ ys) = verify_loop rt now (i + int (length xs)) (head_hash prev xs) ys"
proof (induction xs arbitrary: i prev)
  case (Cons x xs)
  then have "verify_loop rt now i prev ((x # xs) @ ys) = verify_loop rt now (i + 1) (al_EntryHash x) (xs @ ys)"
    by (auto simp: Let_def)
  also have "\<dots> = verify_loop rt now (i + 1 + int (length xs)) (head_hash (al_EntryHash x) xs) ys"
    using Cons.prems by (intro Cons.IH) auto
  finally show ?case by (auto simp: head_hash_def algebra_simps)
qed (simp add: head_hash_def)

lemma project_entries_split:
  "ms_auditLogs s = newer @ e # older \<Longrightarrow>
   project_entries s (al_ProjectID e) = filter (\<lambda>x. al_ProjectID x = al_ProjectID e) newer
     @ e # filter (\<lambda>x. al_ProjectID x = al_ProjectID e) older"
  by (simp add: project_entries_def)

lemma project_entries_logs [simp]:
  "project_entries (s\<lparr>ms_auditLogs := xs\<rparr>) p = filter (\<lambda>x. al_ProjectID x = p) xs"
  by (simp add: project_entries_def)

lemma audit_anchor_logs [simp]: "audit_anchor (s\<lparr>ms_auditLogs := xs\<rparr>) p = audit_anchor s p"
  by (simp add: audit_anchor_def)

lemma audit_ok_split:
  assumes "audit_ok rt s" and "ms_auditLogs s = newer @ e # older"
  shows "linked rt (audit_anchor s (al_ProjectID e)) (rev (filter (\<lambda>x. al_ProjectID x = al_ProjectID e) older))"
    and "al_PrevHash e = head_hash (audit_anchor s (al_ProjectID e)) (rev (filter (\<lambda>x. al_ProjectID x = al_ProjectID e) older))"
    and "al_EntryHash e = ComputeAuditEntryHash rt (al_PrevHash e) e"
    and "linked rt (al_EntryHash e) (rev (filter (\<lambda>x. al_ProjectID x = al_ProjectID e) newer))"
proof -
  let ?p = "al_ProjectID e"
  have "linked rt (audit_anchor s ?p) (rev (filter (\<lambda>x. al_ProjectID x = ?p) older) @ [e]
      @ rev (filter (\<lambda>x. al_ProjectID x = ?p) newer))"
    using assms project_entries_split [OF assms(2)] unfolding audit_ok_def
    by (metis append.assoc append_Cons append_Nil rev.simps(2) rev_append)
  then show "linked rt (audit_anchor s ?p) (rev (filter (\<lambda>x. al_ProjectID x = ?p) older))"
    and "al_PrevHash e = head_hash (audit_anchor s ?p) (rev (filter (\<lambda>x. al_ProjectID x = ?p) older))"
    and "al_EntryHash e = ComputeAuditEntryHash rt (al_PrevHash e) e"
    and "linked rt (al_EntryHash e) (rev (filter (\<lambda>x. al_ProjectID x = ?p) newer))"
    by (auto simp: linked_append)
qed

section \<open>Properties\<close>

text \<open>
  \<open>VerifyAuditLogIntegrity\<close> reports a project's log as valid exactly when its entries, oldest
  first, form an intact hash chain that starts at the project's anchor or at the genesis hash.
\<close>

theorem VerifyAuditLogIntegrity_iff:
  "let p = or_project pid; chain = rev (project_entries s p); r = VerifyAuditLogIntegrity rt now s pid in
   (ai_Valid r \<longleftrightarrow> linked rt (audit_anchor s p) chain \<or> linked rt ''GENESIS'' chain)"
  by (simp add: VerifyAuditLogIntegrity_def verify_loop_first Let_def)


text \<open>
  Removing an entry other than the newest of its project from an intact log is detected:
  verification fails and names the entry that followed the removed one. The hypothesis is that the
  removed entry's digest is neither the genesis text nor the digest it links to.
\<close>

theorem audit_deletion_detected:
  assumes "audit_ok rt s" and "ms_auditLogs s = newer @ e # older" and "al_ProjectID e \<noteq> []"
    and "filter (\<lambda>x. al_ProjectID x = al_ProjectID e) newer = later @ [next]"
    and "al_EntryHash e \<noteq> al_PrevHash e" and "al_EntryHash e \<noteq> ''GENESIS''"
  shows "let r = VerifyAuditLogIntegrity rt now (s\<lparr>ms_auditLogs := newer @ older\<rparr>) (al_ProjectID e) in
    \<not> ai_Valid r \<and> ai_BrokenEntryID r = al_ID next"
proof -
  let ?f = "filter (\<lambda>x. al_ProjectID x = al_ProjectID e)"
  note ok = audit_ok_split [OF assms(1,2)]
  have n: "al_PrevHash next = al_EntryHash e" using ok(4) assms(4) by simp
  have "VerifyAuditLogIntegrity rt now (s\<lparr>ms_auditLogs := newer @ older\<rparr>) (al_ProjectID e) =
      verify_loop rt now 0 (audit_anchor s (al_ProjectID e)) (rev (?f older) @ next # rev later)"
    using assms(3,4) by (simp add: VerifyAuditLogIntegrity_def or_project_def Let_def)
  also have "\<dots> = verify_loop rt now (0 + int (length (rev (?f older)))) (al_PrevHash e) (next # rev later)"
    unfolding ok(2) by (rule verify_loop_prefix) (simp_all add: ok(1))
  finally show ?thesis
    using n assms(5,6) by (simp add: Let_def invalid_result_def)
qed

text \<open>
  The hashed text does not determine the entry: two entries that disagree on who acted have
  the same hash, for every predecessor and every hash function, because fields are joined with an
  unescaped \<open>|\<close>.
\<close>

theorem audit_payload_ambiguous:
  "let a = zero_audit\<lparr>al_Actor := ''eve'', al_Details := ''as root|deleted the flag''\<rparr>;
       b = zero_audit\<lparr>al_Actor := ''eve|as root'', al_Details := ''deleted the flag''\<rparr>
   in al_Actor a \<noteq> al_Actor b \<and> ComputeAuditEntryHash rt prev a = ComputeAuditEntryHash rt prev b"
  by (simp add: ComputeAuditEntryHash_def audit_payload_def zero_audit_def)

section \<open>A log for the witnesses\<close>

definition demo_entry :: "string \<Rightarrow> AuditLogEntry" where
  "demo_entry i = zero_audit\<lparr>al_ID := i, al_Timestamp := 7, al_Actor := ''ann'', al_Action := ''FLAG_UPDATED''\<rparr>"

definition demo_store :: MemoryStore where
  "demo_store = snd (appendAuditLogLocked demo_runtime 7
     (snd (appendAuditLogLocked demo_runtime 7 NewMemoryStore (demo_entry ''1''))) (demo_entry ''2''))"

lemma audit_ok_New: "audit_ok rt NewMemoryStore"
  by (simp add: audit_ok_def NewMemoryStore_def project_entries_def)

lemma demo_store_ok: "audit_ok demo_runtime demo_store"
  unfolding demo_store_def
  by (intro append_audit_ok audit_ok_New) (simp_all add: fresh_entry_def demo_entry_def zero_audit_def)

definition demo_e1 :: AuditLogEntry where
  "demo_e1 = (demo_entry ''1'')\<lparr>al_ProjectID := ''proj_default'', al_PrevHash := ''GENESIS'',
     al_EntryHash := ''#'' @ audit_payload ''GENESIS'' ((demo_entry ''1'')\<lparr>al_ProjectID := ''proj_default''\<rparr>)\<rparr>"

definition demo_e2 :: AuditLogEntry where
  "demo_e2 = (demo_entry ''2'')\<lparr>al_ProjectID := ''proj_default'', al_PrevHash := al_EntryHash demo_e1,
     al_EntryHash := ''#'' @ audit_payload (al_EntryHash demo_e1) ((demo_entry ''2'')\<lparr>al_ProjectID := ''proj_default''\<rparr>)\<rparr>"

lemma demo_store_logs: "ms_auditLogs demo_store = [demo_e2, demo_e1]"
proof -
  have 1: "snd (appendAuditLogLocked demo_runtime 7 NewMemoryStore (demo_entry ''1'')) =
      NewMemoryStore\<lparr>ms_auditLogs := [demo_e1]\<rparr>"
    by (simp add: appendAuditLogLocked_def NewMemoryStore_def demo_entry_def zero_audit_def or_project_def IsZero_def
        chain_head_def audit_anchor_def demo_e1_def ComputeAuditEntryHash_def audit_payload_def demo_runtime_def Let_def)
  show ?thesis
    unfolding demo_store_def 1
    by (simp add: appendAuditLogLocked_def NewMemoryStore_def or_project_def IsZero_def chain_head_def
        demo_entry_def zero_audit_def demo_e1_def demo_e2_def ComputeAuditEntryHash_def audit_payload_def
        demo_runtime_def Let_def)
qed


theorem audit_deletion_detected_witness:
  "\<not> ai_Valid (VerifyAuditLogIntegrity demo_runtime 9 (demo_store\<lparr>ms_auditLogs := [demo_e2]\<rparr>) ''proj_default'')"
proof -
  have p: "al_ProjectID demo_e1 = ''proj_default''" "al_ProjectID demo_e2 = ''proj_default''"
    by (simp_all add: demo_e1_def demo_e2_def)
  have "al_EntryHash demo_e1 \<noteq> al_PrevHash demo_e1" "al_EntryHash demo_e1 \<noteq> ''GENESIS''"
    by (simp_all add: demo_e1_def)
  then show ?thesis
    using audit_deletion_detected [OF demo_store_ok, of "[demo_e2]" demo_e1 "[]" "[]" demo_e2 9]
      demo_store_logs p by (simp add: Let_def)
qed

end
