(* ===== verification/Store_Changes.thy ===== *)
theory Store_Changes
  imports Store_Flags
begin

text \<open>
  Change requests of \<open>src/pkg/store/memory.go\<close>: proposing a configuration, reviewing it under the
  four-eyes rule of \<open>src/pkg/domain/workspace.go\<close>, and applying it against the version it was
  based on.
\<close>

section \<open>Operations\<close>

definition request_missing :: "string \<Rightarrow> gerror" where
  "request_missing i = Errorf (''change request not found: '' @ i)"

definition CreateChangeRequest :: "clock \<Rightarrow> string \<Rightarrow> MemoryStore \<Rightarrow> ChangeRequest \<Rightarrow> ChangeRequest result \<times> MemoryStore" where
  "CreateChangeRequest clk rnd s cr0 =
     (let now = clk 0;
          cr = (if cr_ID cr0 = [] then cr0\<lparr>cr_ID := ''cr_'' @ Itoa (UnixNano now) @ ''_'' @ rnd\<rparr> else cr0);
          cr = cr\<lparr>cr_Status := StatusPending, cr_CreatedAt := now\<rparr>
      in (Inr cr, s\<lparr>ms_changeRequests := mput (cr_ID cr) cr (ms_changeRequests s)\<rparr>))"

definition GetChangeRequest :: "MemoryStore \<Rightarrow> string \<Rightarrow> ChangeRequest result" where
  "GetChangeRequest s i =
     (case mget (ms_changeRequests s) i of Some cr \<Rightarrow> Inr cr | None \<Rightarrow> Inl (request_missing i))"

definition ListChangeRequests :: "ChangeRequest iter \<Rightarrow> MemoryStore \<Rightarrow> string \<Rightarrow> ChangeRequest list" where
  "ListChangeRequests ord s status =
     filter (\<lambda>cr. status = [] \<or> cr_Status cr = status) (map snd (ord (ms_changeRequests s)))"

definition ListChangeRequestsByProject :: "ChangeRequest iter \<Rightarrow> MemoryStore \<Rightarrow> string \<Rightarrow> string \<Rightarrow> ChangeRequest list" where
  "ListChangeRequestsByProject ord s projectID status =
     filter (\<lambda>cr. cr_ProjectID cr = or_project projectID \<and> (status = [] \<or> cr_Status cr = status))
       (map snd (ord (ms_changeRequests s)))"

definition ReviewChangeRequest :: "clock \<Rightarrow> MemoryStore \<Rightarrow> string \<Rightarrow> string \<Rightarrow> string \<Rightarrow> string \<Rightarrow> bool \<Rightarrow> string
  \<Rightarrow> ChangeRequest result \<times> MemoryStore" where
  "ReviewChangeRequest clk s i reviewerID reviewerEmail reviewerName approved comments =
     (case mget (ms_changeRequests s) i of
        None \<Rightarrow> (Inl (request_missing i), s)
      | Some cr \<Rightarrow>
          (case Review (clk 0) cr reviewerID reviewerEmail reviewerName approved comments of
             Inl e \<Rightarrow> (Inl e, s)
           | Inr cr' \<Rightarrow> (Inr cr', s\<lparr>ms_changeRequests := mput i cr' (ms_changeRequests s)\<rparr>)))"

definition apply_to :: "gtime \<Rightarrow> ChangeRequest \<Rightarrow> FeatureFlag \<Rightarrow> FeatureFlag" where
  "apply_to now cr f = set_env (cr_Environment cr) (DeepCopy_config (cr_ProposedConfig cr)) now f"

definition stale_base :: "ChangeRequest \<Rightarrow> FeatureFlag \<Rightarrow> bool" where
  "stale_base cr f = (0 < cr_BaseConfigVersion cr \<and> ff_ConfigVersion f \<noteq> cr_BaseConfigVersion cr)"

text \<open>The loop over the flags; it stops with a conflict at the first matching flag of another version.\<close>

fun apply_loop :: "clock \<Rightarrow> string \<Rightarrow> ChangeRequest \<Rightarrow> nat \<Rightarrow> FeatureFlag list
  \<Rightarrow> (FeatureFlag list \<times> FeatureFlag option) result" where
  "apply_loop clk crProj cr i [] = Inr ([], None)"
| "apply_loop clk crProj cr i (f # fs) =
     (let flagCopy = DeepCopy f in
      if flag_matches crProj (cr_FlagKey cr) flagCopy then
        if stale_base cr flagCopy then Inl (Sentinel ErrChangeRequestConflict)
        else (let flagCopy = apply_to (clk i) cr flagCopy in
              case apply_loop clk crProj cr (Suc i) fs of
                Inl e \<Rightarrow> Inl e
              | Inr (fs', later) \<Rightarrow> Inr (flagCopy # fs', case later of Some x \<Rightarrow> Some x | None \<Rightarrow> Some flagCopy))
      else (case apply_loop clk crProj cr (Suc i) fs of
              Inl e \<Rightarrow> Inl e
            | Inr (fs', later) \<Rightarrow> Inr (flagCopy # fs', later)))"

definition apply_audit :: "gtime \<Rightarrow> string \<Rightarrow> ChangeRequest \<Rightarrow> FeatureFlag \<Rightarrow> string \<Rightarrow> AuditLogEntry" where
  "apply_audit now i cr f actor =
     zero_audit\<lparr>al_ID := log_id ''audit_'' now, al_ProjectID := ff_ProjectID f, al_FlagKey := ff_Key f,
       al_Action := ''APPLY_CHANGE_REQUEST'', al_Environment := cr_Environment cr, al_Actor := actor,
       al_Timestamp := now, al_Details := ''Applied ChangeRequest '' @ i @ '' by reviewer ''
         @ cr_ReviewerEmail cr @ '' for '' @ cr_Environment cr\<rparr>"

definition ApplyChangeRequest :: "runtime \<Rightarrow> clock \<Rightarrow> MemoryStore \<Rightarrow> string \<Rightarrow> string
  \<Rightarrow> (FeatureFlag \<times> ChangeRequest \<times> AuditLogEntry) result \<times> MemoryStore" where
  "ApplyChangeRequest rt clk s i actor =
     (case mget (ms_changeRequests s) i of
        None \<Rightarrow> (Inl (request_missing i), s)
      | Some cr0 \<Rightarrow>
          if cr_Status cr0 \<noteq> StatusApproved then
            (Inl (Errorf (''cannot apply change request with status '' @ quoted (cr_Status cr0)
               @ '' (must be APPROVED)'')), s)
          else
            (let currentList = fs_list (ms_flagsSnapshot s) in
             case apply_loop clk (or_project (cr_ProjectID cr0)) cr0 0 currentList of
               Inl e \<Rightarrow> (Inl e, s)
             | Inr (newList, None) \<Rightarrow> (Inl (Errorf (''target flag not found: '' @ cr_FlagKey cr0)), s)
             | Inr (newList, Some updatedFlag) \<Rightarrow>
                 (let now = clk (length currentList);
                      cr = cr0\<lparr>cr_Status := StatusApplied, cr_AppliedAt := Some now\<rparr>;
                      s = s\<lparr>ms_changeRequests := mput i cr (ms_changeRequests s)\<rparr>;
                      (audit, s) = appendAuditLogLocked rt now s (apply_audit now i cr updatedFlag actor)
                  in (Inr (updatedFlag, cr, audit), publish newList s))))"

section \<open>The four-eyes invariant\<close>

definition four_eyes :: "MemoryStore \<Rightarrow> bool" where
  "four_eyes s \<longleftrightarrow> (\<forall>i cr. mget (ms_changeRequests s) i = Some cr \<longrightarrow>
     cr_Status cr = ''APPROVED'' \<or> cr_Status cr = ''APPLIED'' \<longrightarrow>
     cr_ReviewerUserID cr \<noteq> cr_AuthorUserID cr \<and> cr_ReviewedAt cr \<noteq> None)"

lemma Review_Inr:
  "Review now cr r e n ok c = Inr cr' \<Longrightarrow> cr_Status cr = ''PENDING'' \<and> cr_ReviewerUserID cr' \<noteq> cr_AuthorUserID cr'
     \<and> cr_ReviewedAt cr' = Some now \<and> cr_AuthorUserID cr' = cr_AuthorUserID cr
     \<and> cr_Status cr' = (if ok then ''APPROVED'' else ''REJECTED'')"
  by (auto simp: Review_def split: if_splits)

lemma four_eyes_put:
  assumes "four_eyes s" and "ms_changeRequests s' = mput i cr (ms_changeRequests s)"
    and "cr_Status cr = ''APPROVED'' \<or> cr_Status cr = ''APPLIED'' \<Longrightarrow>
      cr_ReviewerUserID cr \<noteq> cr_AuthorUserID cr \<and> cr_ReviewedAt cr \<noteq> None"
  shows "four_eyes s'"
  using assms unfolding four_eyes_def by (auto simp: map_simps)

lemma four_eyes_Create: "four_eyes s \<Longrightarrow> four_eyes (snd (CreateChangeRequest clk rnd s cr))"
  by (rule four_eyes_put) (auto simp: CreateChangeRequest_def Let_def)

lemma four_eyes_Review:
  assumes "four_eyes s"
  shows "four_eyes (snd (ReviewChangeRequest clk s i r e n ok c))"
proof (cases "mget (ms_changeRequests s) i")
  case (Some cr)
  show ?thesis
  proof (cases "Review (clk 0) cr r e n ok c")
    case (Inr cr')
    have "four_eyes (s\<lparr>ms_changeRequests := mput i cr' (ms_changeRequests s)\<rparr>)"
      by (rule four_eyes_put [OF assms]) (use Review_Inr [OF Inr] in auto)
    with Some Inr show ?thesis by (simp add: ReviewChangeRequest_def)
  qed (use Some assms in \<open>simp add: ReviewChangeRequest_def\<close>)
qed (use assms in \<open>simp add: ReviewChangeRequest_def\<close>)

lemma ApplyChangeRequest_cases:
  assumes "ApplyChangeRequest rt clk s i actor = (r, s')"
  shows "(\<exists>e. r = Inl e \<and> s' = s) \<or>
    (\<exists>cr0 newList f lg s1. mget (ms_changeRequests s) i = Some cr0 \<and> cr_Status cr0 = ''APPROVED''
       \<and> apply_loop clk (or_project (cr_ProjectID cr0)) cr0 0 (fs_list (ms_flagsSnapshot s)) = Inr (newList, Some f)
       \<and> (let now = clk (length (fs_list (ms_flagsSnapshot s)));
              cr = cr0\<lparr>cr_Status := ''APPLIED'', cr_AppliedAt := Some now\<rparr> in
          r = Inr (f, cr, lg)
          \<and> appendAuditLogLocked rt now (s\<lparr>ms_changeRequests := mput i cr (ms_changeRequests s)\<rparr>)
              (apply_audit now i cr f actor) = (lg, s1)
          \<and> s' = publish newList s1))"
  using assms
  by (auto simp: ApplyChangeRequest_def Let_def split: option.splits if_splits sum.splits prod.splits)

lemma four_eyes_Apply:
  assumes "four_eyes s"
  shows "four_eyes (snd (ApplyChangeRequest rt clk s i actor))"
proof -
  obtain r s' where a: "ApplyChangeRequest rt clk s i actor = (r, s')" by fastforce
  show ?thesis
  proof (cases "s' = s")
    case False
    with ApplyChangeRequest_cases [OF a] obtain cr0 newList f lg s1 now where
      c: "mget (ms_changeRequests s) i = Some cr0" "cr_Status cr0 = ''APPROVED''"
      "appendAuditLogLocked rt now (s\<lparr>ms_changeRequests := mput i (cr0\<lparr>cr_Status := ''APPLIED'', cr_AppliedAt := Some now\<rparr>)
          (ms_changeRequests s)\<rparr>)
         (apply_audit now i (cr0\<lparr>cr_Status := ''APPLIED'', cr_AppliedAt := Some now\<rparr>) f actor) = (lg, s1)"
      "s' = publish newList s1" by (auto simp: Let_def)
    have "ms_changeRequests s1 = mput i (cr0\<lparr>cr_Status := ''APPLIED'', cr_AppliedAt := Some now\<rparr>) (ms_changeRequests s)"
      using append_other_fields(2) [of rt now "s\<lparr>ms_changeRequests := mput i (cr0\<lparr>cr_Status := ''APPLIED'',
          cr_AppliedAt := Some now\<rparr>) (ms_changeRequests s)\<rparr>"
        "apply_audit now i (cr0\<lparr>cr_Status := ''APPLIED'', cr_AppliedAt := Some now\<rparr>) f actor"] c(3) by simp
    then have "ms_changeRequests s' = mput i (cr0\<lparr>cr_Status := ''APPLIED'', cr_AppliedAt := Some now\<rparr>) (ms_changeRequests s)"
      by (simp add: c(4) publish_def)
    then have "four_eyes s'"
      by (rule four_eyes_put [OF assms]) (use assms c(1,2) in \<open>auto simp: four_eyes_def\<close>)
    with a show ?thesis by simp
  qed (use assms a in simp)
qed

lemma apply_loop_nth:
  assumes "apply_loop clk p cr i fs = Inr (fs', r)"
  shows "length fs' = length fs" and "r = None \<longleftrightarrow> (\<forall>f \<in> set fs. \<not> flag_matches p (cr_FlagKey cr) f)"
    and "j < length fs \<Longrightarrow> if flag_matches p (cr_FlagKey cr) (fs ! j)
      then \<not> stale_base cr (fs ! j) \<and> fs' ! j = apply_to (clk (i + j)) cr (fs ! j) else fs' ! j = fs ! j"
proof -
  have "length fs' = length fs \<and> (r = None \<longleftrightarrow> (\<forall>f \<in> set fs. \<not> flag_matches p (cr_FlagKey cr) f)) \<and>
    (\<forall>j < length fs. if flag_matches p (cr_FlagKey cr) (fs ! j)
      then \<not> stale_base cr (fs ! j) \<and> fs' ! j = apply_to (clk (i + j)) cr (fs ! j) else fs' ! j = fs ! j)"
    using assms
  proof (induction fs arbitrary: i fs' r)
    case (Cons f fs)
    from Cons.prems obtain fs1 r1 where rec: "apply_loop clk p cr (Suc i) fs = Inr (fs1, r1)"
      by (auto simp: Let_def split: if_splits sum.splits)
    note ih = Cons.IH [OF rec]
    have here: "if flag_matches p (cr_FlagKey cr) f
      then \<not> stale_base cr f \<and> fs' = apply_to (clk i) cr f # fs1 \<and> r \<noteq> None
      else fs' = f # fs1 \<and> r = r1"
      using Cons.prems rec by (auto simp: Let_def split: if_splits option.splits)
    show ?case
    proof (intro conjI allI impI)
      show "length fs' = length (f # fs)" using here ih by (auto split: if_splits)
      show "r = None \<longleftrightarrow> (\<forall>g \<in> set (f # fs). \<not> flag_matches p (cr_FlagKey cr) g)"
        using here ih by (auto split: if_splits)
      fix j assume j: "j < length (f # fs)"
      show "if flag_matches p (cr_FlagKey cr) ((f # fs) ! j)
        then \<not> stale_base cr ((f # fs) ! j) \<and> fs' ! j = apply_to (clk (i + j)) cr ((f # fs) ! j)
        else fs' ! j = (f # fs) ! j"
        using here ih j by (cases j) (auto split: if_splits)
    qed
  qed simp
  then show "length fs' = length fs" and "r = None \<longleftrightarrow> (\<forall>f \<in> set fs. \<not> flag_matches p (cr_FlagKey cr) f)"
    and "j < length fs \<Longrightarrow> if flag_matches p (cr_FlagKey cr) (fs ! j)
      then \<not> stale_base cr (fs ! j) \<and> fs' ! j = apply_to (clk (i + j)) cr (fs ! j) else fs' ! j = fs ! j"
    by blast+
qed

section \<open>Properties\<close>

text \<open>
  Applying a change request does exactly what was approved: it succeeds only for an approved
  request whose base version, when it has one, is still the version of every flag it targets; then
  each target flag has the proposed configuration in that environment, its other environments and
  all other flags are unchanged, and the request is marked applied, so that it cannot be applied
  again. Every failure leaves the store as it was.
\<close>

theorem apply_exact_effect:
  assumes "ApplyChangeRequest rt clk s i actor = (r, s')" and "snap_ok s"
  shows "case r of
      Inl e \<Rightarrow> s' = s
    | Inr (f, cr', lg) \<Rightarrow>
        (\<exists>cr. mget (ms_changeRequests s) i = Some cr \<and> cr_Status cr = ''APPROVED''
          \<and> length (fs_list (ms_flagsSnapshot s')) = length (fs_list (ms_flagsSnapshot s))
          \<and> (\<forall>j < length (fs_list (ms_flagsSnapshot s)).
               let g = fs_list (ms_flagsSnapshot s) ! j; g' = fs_list (ms_flagsSnapshot s') ! j in
               if flag_matches (or_project (cr_ProjectID cr)) (cr_FlagKey cr) g then
                 (cr_BaseConfigVersion cr = 0 \<or> ff_ConfigVersion g = cr_BaseConfigVersion cr)
                 \<and> EnvConfig g' (cr_Environment cr) = cr_ProposedConfig cr
                 \<and> (\<forall>e. e \<noteq> cr_Environment cr \<longrightarrow> EnvConfig g' e = EnvConfig g e)
               else g' = g))
        \<and> snap_ok s' \<and> (\<forall>rt' clk' actor'. \<exists>e. ApplyChangeRequest rt' clk' s' i actor' = (Inl e, s'))"
proof (cases "\<exists>e. r = Inl e \<and> s' = s")
  case True
  then show ?thesis by auto
next
  case False
  let ?l = "fs_list (ms_flagsSnapshot s)"
  let ?now = "clk (length ?l)"
  from False ApplyChangeRequest_cases [OF assms(1)] obtain cr newList f lg s1 where
    c: "mget (ms_changeRequests s) i = Some cr" "cr_Status cr = ''APPROVED''"
    and lp: "apply_loop clk (or_project (cr_ProjectID cr)) cr 0 ?l = Inr (newList, Some f)"
    and r: "r = Inr (f, cr\<lparr>cr_Status := ''APPLIED'', cr_AppliedAt := Some ?now\<rparr>, lg)"
    and ap: "appendAuditLogLocked rt ?now (s\<lparr>ms_changeRequests := mput i (cr\<lparr>cr_Status := ''APPLIED'',
        cr_AppliedAt := Some ?now\<rparr>) (ms_changeRequests s)\<rparr>)
      (apply_audit ?now i (cr\<lparr>cr_Status := ''APPLIED'', cr_AppliedAt := Some ?now\<rparr>) f actor) = (lg, s1)"
    and s': "s' = publish newList s1" by (auto simp: Let_def)
  note nth = apply_loop_nth [OF lp]
  have l': "fs_list (ms_flagsSnapshot s') = map normalize_flag newList" and ok: "snap_ok s'"
    by (simp_all add: s')
  have n: "EnvConfig (normalize_flag g) e = EnvConfig g e" for g e by (simp add: EnvConfig_def)
  have each: "let g = ?l ! j; g' = fs_list (ms_flagsSnapshot s') ! j in
      if flag_matches (or_project (cr_ProjectID cr)) (cr_FlagKey cr) g then
        (cr_BaseConfigVersion cr = 0 \<or> ff_ConfigVersion g = cr_BaseConfigVersion cr)
        \<and> EnvConfig g' (cr_Environment cr) = cr_ProposedConfig cr
        \<and> (\<forall>e. e \<noteq> cr_Environment cr \<longrightarrow> EnvConfig g' e = EnvConfig g e)
      else g' = g" if "j < length ?l" for j
  proof -
    have "normalize_flag (?l ! j) = ?l ! j" using that snap_ok_flag(1) [OF assms(2)] nth_mem by blast
    with nth(3) [OF that] nth(1) that show ?thesis
      by (auto simp: Let_def l' n apply_to_def stale_base_def word_gt_0 split: if_splits)
  qed
  have "mget (ms_changeRequests s') i = Some (cr\<lparr>cr_Status := ''APPLIED'', cr_AppliedAt := Some ?now\<rparr>)"
    using append_other_fields(2) [of rt ?now "s\<lparr>ms_changeRequests := mput i (cr\<lparr>cr_Status := ''APPLIED'',
        cr_AppliedAt := Some ?now\<rparr>) (ms_changeRequests s)\<rparr>"
      "apply_audit ?now i (cr\<lparr>cr_Status := ''APPLIED'', cr_AppliedAt := Some ?now\<rparr>) f actor"] ap
    by (simp add: s' publish_def)
  then have "\<exists>e. ApplyChangeRequest rt' clk' s' i actor' = (Inl e, s')" for rt' clk' actor'
    by (simp add: ApplyChangeRequest_def)
  with c each ok nth(1) l' r show ?thesis by auto
qed

definition demo_request :: ChangeRequest where
  "demo_request = \<lparr>cr_ID = ''c1'', cr_ProjectID = ''acme'', cr_FlagKey = ''pay'', cr_Environment = ''production'',
     cr_Title = [], cr_Description = [], cr_AuthorUserID = ''u1'', cr_AuthorEmail = [], cr_AuthorName = [],
     cr_ProposedConfig = zero_env_config\<lparr>ec_Strategy := ''percentage''\<rparr>, cr_BaseConfigVersion = 4,
     cr_Status = ''APPROVED'', cr_ReviewerUserID = ''u2'', cr_ReviewerEmail = [], cr_ReviewerName = [],
     cr_ReviewComments = [], cr_CreatedAt = 1, cr_ReviewedAt = Some 2, cr_AppliedAt = None\<rparr>"

definition demo_changes :: MemoryStore where
  "demo_changes = demo_flags\<lparr>ms_changeRequests := [(''c1'', demo_request)]\<rparr>"

lemma demo_changes_ok: "snap_ok demo_changes" "four_eyes demo_changes"
  using demo_flags_ok(1)
  by (auto simp: demo_changes_def snap_ok_def four_eyes_def demo_request_def mget_def split: if_splits)

lemma demo_apply: "\<exists>x. fst (ApplyChangeRequest demo_runtime (\<lambda>_. 5) demo_changes ''c1'' ''ann'') = Inr x"
  using demo_flags_list
  by (simp add: ApplyChangeRequest_def demo_changes_def demo_request_def mget_def flag_matches_def or_project_def
      stale_base_def demo_flag0_def Let_def split: prod.splits)

theorem apply_exact_effect_witness:
  "\<exists>e. fst (ApplyChangeRequest demo_runtime (\<lambda>_. 6)
     (snd (ApplyChangeRequest demo_runtime (\<lambda>_. 5) demo_changes ''c1'' ''ann'')) ''c1'' ''ann'') = Inl e"
proof -
  let ?a = "ApplyChangeRequest demo_runtime (\<lambda>_. 5) demo_changes ''c1'' ''ann''"
  obtain f c lg where "?a = (Inr (f, c, lg), snd ?a)" using demo_apply by (metis prod.collapse prod_cases3)
  from apply_exact_effect [OF this demo_changes_ok(1)] show ?thesis by simp (metis fst_conv)
qed

end
