(* ===== verification/Store_Accounts.thy ===== *)
theory Store_Accounts
  imports Store_State
begin

text \<open>
  Users, sessions, password-reset tokens and API keys of \<open>src/pkg/store/memory.go\<close>. The user table
  is one map that holds each user under the email and under the ID. A range over a map takes its
  order from the argument \<open>ord\<close>.
\<close>

section \<open>Users and sessions\<close>

definition user_missing :: "string \<Rightarrow> string \<Rightarrow> gerror" where
  "user_missing what v = Errorf (''user not found with '' @ what @ '': '' @ v)"

definition CreateUser :: "clock \<Rightarrow> string \<Rightarrow> MemoryStore \<Rightarrow> User \<Rightarrow> User result \<times> MemoryStore" where
  "CreateUser clk rnd s user0 =
     (case mget (ms_users s) (us_Email user0) of
        Some _ \<Rightarrow> (Inl (Errorf (''user with email '' @ us_Email user0 @ '' already exists'')), s)
      | None \<Rightarrow>
          (let user = (if us_ID user0 = []
                 then user0\<lparr>us_ID := ''usr_'' @ Itoa (UnixNano (clk 0)) @ ''_'' @ rnd\<rparr> else user0);
               user = user\<lparr>us_CreatedAt := clk 1, us_UpdatedAt := clk 1\<rparr>
           in (Inr user, s\<lparr>ms_users := mput (us_ID user) user (mput (us_Email user) user (ms_users s))\<rparr>)))"

definition ListUsers :: "User iter \<Rightarrow> MemoryStore \<Rightarrow> User list" where
  "ListUsers ord s = map (\<lambda>u. u\<lparr>us_PasswordHash := []\<rparr>) (dedup_by us_ID [] (map snd (ord (ms_users s))))"

definition GetUserByEmail :: "MemoryStore \<Rightarrow> string \<Rightarrow> User result" where
  "GetUserByEmail s email =
     (case mget (ms_users s) email of Some u \<Rightarrow> Inr u | None \<Rightarrow> Inl (user_missing ''email'' email))"

definition GetUserByID :: "MemoryStore \<Rightarrow> string \<Rightarrow> User result" where
  "GetUserByID s i = (case mget (ms_users s) i of Some u \<Rightarrow> Inr u | None \<Rightarrow> Inl (user_missing ''ID'' i))"

definition CreateSession :: "MemoryStore \<Rightarrow> Session \<Rightarrow> MemoryStore" where
  "CreateSession s sess = s\<lparr>ms_sessions := mput (se_Token sess) sess (ms_sessions s)\<rparr>"

definition GetSession :: "gtime \<Rightarrow> MemoryStore \<Rightarrow> string \<Rightarrow> Session result" where
  "GetSession now s token =
     (case mget (ms_sessions s) token of
        None \<Rightarrow> Inl (Errorf ''session not found'')
      | Some sess \<Rightarrow>
          if Session_IsExpired now sess then Inl (Errorf ''session expired'')
          else Inr (case mget (ms_users s) (se_UserID sess) of
                      Some user \<Rightarrow> sess\<lparr>se_User := Some user\<rparr> | None \<Rightarrow> sess))"

definition DeleteSession :: "MemoryStore \<Rightarrow> string \<Rightarrow> MemoryStore" where
  "DeleteSession s token = s\<lparr>ms_sessions := mdel token (ms_sessions s)\<rparr>"

definition drop_sessions :: "string \<Rightarrow> MemoryStore \<Rightarrow> MemoryStore" where
  "drop_sessions userID s = s\<lparr>ms_sessions := mdel_where (\<lambda>sess. se_UserID sess = userID) (ms_sessions s)\<rparr>"

definition DeleteUserSessions :: "MemoryStore \<Rightarrow> string \<Rightarrow> MemoryStore" where
  "DeleteUserSessions s userID = drop_sessions userID s"

definition put_user :: "User \<Rightarrow> MemoryStore \<Rightarrow> MemoryStore" where
  "put_user u s = s\<lparr>ms_users := mput (us_Email u) u (mput (us_ID u) u (ms_users s))\<rparr>"

definition refresh_sessions :: "User \<Rightarrow> MemoryStore \<Rightarrow> MemoryStore" where
  "refresh_sessions u s = s\<lparr>ms_sessions := mmap (\<lambda>sess.
     if se_UserID sess = us_ID u then sess\<lparr>se_User := Some u\<rparr> else sess) (ms_sessions s)\<rparr>"

definition UpdateUser :: "clock \<Rightarrow> MemoryStore \<Rightarrow> User \<Rightarrow> User result \<times> MemoryStore" where
  "UpdateUser clk s user =
     (case mget (ms_users s) (us_ID user) of
        None \<Rightarrow> (Inl (user_missing ''ID'' (us_ID user)), s)
      | Some existing \<Rightarrow>
          (let existing = (if us_Name user \<noteq> [] then existing\<lparr>us_Name := us_Name user\<rparr> else existing);
               existing = (if us_Role user \<noteq> [] then existing\<lparr>us_Role := us_Role user\<rparr> else existing);
               existing = existing\<lparr>us_AvatarURL := us_AvatarURL user, us_UpdatedAt := clk 0\<rparr>
           in (Inr existing, refresh_sessions existing (put_user existing s))))"

definition UpdateUserPassword :: "clock \<Rightarrow> MemoryStore \<Rightarrow> string \<Rightarrow> string \<Rightarrow> unit result \<times> MemoryStore" where
  "UpdateUserPassword clk s userID newPasswordHash =
     (case mget (ms_users s) userID of
        None \<Rightarrow> (Inl (user_missing ''ID'' userID), s)
      | Some user \<Rightarrow>
          (let user = user\<lparr>us_PasswordHash := newPasswordHash, us_UpdatedAt := clk 0\<rparr>
           in (Inr (), refresh_sessions user (put_user user s))))"

section \<open>Password reset\<close>

text \<open>\<open>rnd\<close> is what the random source returns: its error or the bytes in hexadecimal.\<close>

definition CreatePasswordResetToken :: "clock \<Rightarrow> string result \<Rightarrow> MemoryStore \<Rightarrow> string \<Rightarrow> duration
  \<Rightarrow> string result \<times> MemoryStore" where
  "CreatePasswordResetToken clk rnd s email ttl =
     (case mget (ms_users s) email of
        None \<Rightarrow> (Inl (user_missing ''email'' email), s)
      | Some user \<Rightarrow>
          (case rnd of
             Inl err \<Rightarrow> (Inl err, s)
           | Inr b \<Rightarrow>
               (let token = ''flg_rst_'' @ b; now = clk 0 in
                (Inr token, s\<lparr>ms_passwordResetTokens := mput token
                   \<lparr>pt_Token = token, pt_Email = us_Email user, pt_ExpiresAt = now + ttl, pt_Used = False,
                    pt_CreatedAt = now\<rparr> (ms_passwordResetTokens s)\<rparr>))))"

definition GetPasswordResetToken :: "MemoryStore \<Rightarrow> string \<Rightarrow> PasswordResetToken result" where
  "GetPasswordResetToken s token =
     (case mget (ms_passwordResetTokens s) token of
        Some t \<Rightarrow> Inr t | None \<Rightarrow> Inl (Errorf ''invalid or expired password reset token''))"

definition ResetPasswordWithToken :: "clock \<Rightarrow> MemoryStore \<Rightarrow> string \<Rightarrow> string \<Rightarrow> unit result \<times> MemoryStore" where
  "ResetPasswordWithToken clk s token newPasswordHash =
     (case mget (ms_passwordResetTokens s) token of
        None \<Rightarrow> (Inl (Errorf ''invalid or expired reset token''), s)
      | Some t \<Rightarrow>
          if pt_Used t then (Inl (Errorf ''reset token has already been used''), s)
          else if ResetToken_IsExpired (clk 0) t then (Inl (Errorf ''reset token has expired''), s)
          else (case mget (ms_users s) (pt_Email t) of
                  None \<Rightarrow> (Inl (Errorf ''user associated with token not found''), s)
                | Some user0 \<Rightarrow>
                    (let user = user0\<lparr>us_PasswordHash := newPasswordHash, us_UpdatedAt := clk 1\<rparr>;
                         s = s\<lparr>ms_users := mput (us_ID user) user (mput (us_Email user) user (ms_users s))\<rparr>;
                         s = s\<lparr>ms_passwordResetTokens := mput token (t\<lparr>pt_Used := True\<rparr>) (ms_passwordResetTokens s)\<rparr>
                     in (Inr (), drop_sessions (us_ID user) s))))"

section \<open>API keys\<close>

definition CreateAPIKey :: "clock \<Rightarrow> string \<Rightarrow> MemoryStore \<Rightarrow> APIKey \<Rightarrow> APIKey result \<times> MemoryStore" where
  "CreateAPIKey clk rnd s key0 =
     (let key = (if ak_ID key0 = [] then key0\<lparr>ak_ID := ''key_'' @ Itoa (UnixNano (clk 0)) @ ''_'' @ rnd\<rparr> else key0);
          key = key\<lparr>ak_ProjectID := or_project (ak_ProjectID key)\<rparr>;
          key = (if ak_Environment key = [] then key\<lparr>ak_Environment := ''production''\<rparr> else key);
          key = key\<lparr>ak_CreatedAt := clk 1, ak_Revoked := False\<rparr>;
          s = s\<lparr>ms_apiKeys := mput (ak_ID key) key (ms_apiKeys s)\<rparr>;
          s = (if ak_KeyHash key \<noteq> []
               then s\<lparr>ms_apiKeysByHash := mput (ak_KeyHash key) (ak_ID key) (ms_apiKeysByHash s)\<rparr> else s)
      in (Inr key, s))"

definition redact_key :: "APIKey \<Rightarrow> APIKey" where
  "redact_key k = k\<lparr>ak_Key := [], ak_KeyHash := []\<rparr>"

definition ListAPIKeys :: "APIKey iter \<Rightarrow> MemoryStore \<Rightarrow> APIKey list" where
  "ListAPIKeys ord s = map (redact_key \<circ> snd) (ord (ms_apiKeys s))"

definition ListAPIKeysByProject :: "APIKey iter \<Rightarrow> MemoryStore \<Rightarrow> string \<Rightarrow> APIKey list" where
  "ListAPIKeysByProject ord s projectID =
     map redact_key (filter (\<lambda>k. ak_ProjectID k = or_project projectID) (map snd (ord (ms_apiKeys s))))"

definition GetAPIKeyByHash :: "clock \<Rightarrow> MemoryStore \<Rightarrow> string \<Rightarrow> APIKey result \<times> MemoryStore" where
  "GetAPIKeyByHash clk s hash =
     (case mget (ms_apiKeysByHash s) hash of
        None \<Rightarrow> (Inl (Errorf ''api key not found''), s)
      | Some i \<Rightarrow>
          (case mget (ms_apiKeys s) i of
             None \<Rightarrow> (Inl (Errorf ''api key revoked or not found''), s)
           | Some key \<Rightarrow>
               if ak_Revoked key then (Inl (Errorf ''api key revoked or not found''), s)
               else (let key = key\<lparr>ak_LastUsedAt := Some (clk 0)\<rparr>
                     in (Inr key, s\<lparr>ms_apiKeys := mput i key (ms_apiKeys s)\<rparr>))))"

definition GetAPIKeyByID :: "MemoryStore \<Rightarrow> string \<Rightarrow> APIKey result" where
  "GetAPIKeyByID s i =
     (case mget (ms_apiKeys s) i of
        None \<Rightarrow> Inl (Errorf (''api key not found: '' @ i))
      | Some key \<Rightarrow> Inr (key\<lparr>ak_KeyHash := []\<rparr>))"

definition revoke :: "string \<Rightarrow> APIKey \<Rightarrow> MemoryStore \<Rightarrow> MemoryStore" where
  "revoke i key s = s\<lparr>ms_apiKeys := mput i (key\<lparr>ak_Revoked := True\<rparr>) (ms_apiKeys s),
     ms_apiKeysByHash := mdel (ak_KeyHash key) (ms_apiKeysByHash s)\<rparr>"

definition RevokeAPIKey :: "runtime \<Rightarrow> clock \<Rightarrow> MemoryStore \<Rightarrow> string \<Rightarrow> string \<Rightarrow> unit result \<times> MemoryStore" where
  "RevokeAPIKey rt clk s i actor =
     (case mget (ms_apiKeys s) i of
        None \<Rightarrow> (Inl (Errorf (''api key not found: '' @ i)), s)
      | Some key \<Rightarrow>
          (let audit = zero_audit\<lparr>al_ID := log_id ''audit_'' (clk 0), al_FlagKey := ''api-keys'',
                 al_Action := ''API_KEY_REVOKED'', al_Environment := ''all'', al_Actor := actor,
                 al_Timestamp := clk 1,
                 al_Details := ''Revoked API Key '' @ quoted (ak_Name key) @ '' ('' @ ak_ID key @ '')''\<rparr>
           in (Inr (), snd (appendAuditLogLocked rt (clk 2) (revoke i key s) audit))))"

definition RevokeAPIKeyByProject :: "runtime \<Rightarrow> clock \<Rightarrow> MemoryStore \<Rightarrow> string \<Rightarrow> string \<Rightarrow> string
  \<Rightarrow> unit result \<times> MemoryStore" where
  "RevokeAPIKeyByProject rt clk s projectID i actor =
     (case mget (ms_apiKeys s) i of
        None \<Rightarrow> (Inl (Errorf (''api key not found: '' @ i)), s)
      | Some key \<Rightarrow>
          if ak_ProjectID key \<noteq> projectID then
            (Inl (Errorf (''api key '' @ quoted i @ '' does not belong to project '' @ quoted projectID)), s)
          else
            (let audit = zero_audit\<lparr>al_ID := log_id ''audit_'' (clk 0), al_ProjectID := projectID,
                   al_FlagKey := ''api-keys'', al_Action := ''API_KEY_REVOKED'', al_Environment := ''all'',
                   al_Actor := actor, al_Timestamp := clk 1,
                   al_Details := ''Revoked API Key '' @ quoted (ak_Name key) @ '' ('' @ ak_ID key
                     @ '') in project '' @ projectID\<rparr>
             in (Inr (), snd (appendAuditLogLocked rt (clk 2) (revoke i key s) audit))))"

section \<open>The user index\<close>

definition users_ok :: "MemoryStore \<Rightarrow> bool" where
  "users_ok s \<longleftrightarrow> (\<forall>k u. mget (ms_users s) k = Some u \<longrightarrow>
     (k = us_Email u \<or> k = us_ID u)
     \<and> mget (ms_users s) (us_Email u) = Some u \<and> mget (ms_users s) (us_ID u) = Some u)"

lemma users_okD:
  assumes "users_ok s" and "mget (ms_users s) k = Some u"
  shows "k = us_Email u \<or> k = us_ID u" and "mget (ms_users s) (us_Email u) = Some u"
    and "mget (ms_users s) (us_ID u) = Some u"
  using assms unfolding users_ok_def by blast+

text \<open>Writing a changed user under both of its keys keeps the index, if the keys are the old ones.\<close>

lemma users_ok_put:
  assumes "users_ok s" and "mget (ms_users s) k = Some u" and "us_Email u' = us_Email u" and "us_ID u' = us_ID u"
    and "\<And>j. mget (ms_users s') j = (if j = us_Email u \<or> j = us_ID u then Some u' else mget (ms_users s) j)"
  shows "users_ok s'"
proof -
  note u = users_okD [OF assms(1,2)]
  have other: "us_Email v \<noteq> us_Email u \<and> us_Email v \<noteq> us_ID u \<and> us_ID v \<noteq> us_Email u \<and> us_ID v \<noteq> us_ID u"
    if "mget (ms_users s) j = Some v" "j \<noteq> us_Email u" "j \<noteq> us_ID u" for j v
  proof -
    note v = users_okD [OF assms(1) that(1)]
    have "v \<noteq> u" using v(1) that(2,3) by blast
    with v(2,3) u(2,3) show ?thesis by (metis option.inject)
  qed
  show ?thesis
    unfolding users_ok_def
  proof (intro allI impI)
    fix j v assume "mget (ms_users s') j = Some v"
    then consider "v = u'" "j = us_Email u \<or> j = us_ID u"
      | "mget (ms_users s) j = Some v" "j \<noteq> us_Email u" "j \<noteq> us_ID u"
      unfolding assms(5) by (metis option.sel)
    then show "(j = us_Email v \<or> j = us_ID v) \<and> mget (ms_users s') (us_Email v) = Some v
        \<and> mget (ms_users s') (us_ID v) = Some v"
    proof cases
      case 1
      then show ?thesis using assms(3,4) unfolding assms(5) by simp
    next
      case 2
      from other [OF 2] users_okD [OF assms(1) 2(1)] show ?thesis unfolding assms(5) by simp
    qed
  qed
qed

lemma users_ok_fresh:
  assumes "users_ok s" and "mget (ms_users s) (us_Email u) = None" and "mget (ms_users s) (us_ID u) = None"
    and "\<And>j. mget (ms_users s') j = (if j = us_Email u \<or> j = us_ID u then Some u else mget (ms_users s) j)"
  shows "users_ok s'"
  unfolding users_ok_def
proof (intro allI impI)
  fix j v assume "mget (ms_users s') j = Some v"
  then consider "v = u" "j = us_Email u \<or> j = us_ID u" | "mget (ms_users s) j = Some v"
    unfolding assms(4) by (metis option.sel)
  then show "(j = us_Email v \<or> j = us_ID v) \<and> mget (ms_users s') (us_Email v) = Some v
      \<and> mget (ms_users s') (us_ID v) = Some v"
  proof cases
    case 1
    then show ?thesis unfolding assms(4) by simp
  next
    case 2
    note v = users_okD [OF assms(1) 2]
    then have "us_Email v \<noteq> us_Email u" "us_Email v \<noteq> us_ID u" "us_ID v \<noteq> us_Email u" "us_ID v \<noteq> us_ID u"
      using assms(2,3) by force+
    with v show ?thesis unfolding assms(4) by simp
  qed
qed

lemma sessions_keep_users [simp]:
  "ms_users (drop_sessions i s) = ms_users s" "ms_users (refresh_sessions u s) = ms_users s"
  by (simp_all add: drop_sessions_def refresh_sessions_def)

lemma put_user_get:
  "mget (ms_users (put_user u s)) j = (if j = us_Email u \<or> j = us_ID u then Some u else mget (ms_users s) j)"
  by (simp add: put_user_def map_simps)

lemma users_ok_put_user:
  "users_ok s \<Longrightarrow> mget (ms_users s) k = Some u \<Longrightarrow> us_Email u' = us_Email u \<Longrightarrow> us_ID u' = us_ID u \<Longrightarrow>
   users_ok (put_user u' s)"
  by (rule users_ok_put [of s k u u']) (auto simp: put_user_get)

lemma users_ok_cong: "ms_users s' = ms_users s \<Longrightarrow> users_ok s' = users_ok s"
  by (simp add: users_ok_def)

lemma GetAPIKeyByHash_cases:
  "fst (GetAPIKeyByHash clk s h) = Inr k \<Longrightarrow>
     \<exists>i key. mget (ms_apiKeysByHash s) h = Some i \<and> mget (ms_apiKeys s) i = Some key \<and> \<not> ak_Revoked key"
  by (auto simp: GetAPIKeyByHash_def Let_def split: option.splits if_splits)

lemma ResetPassword_Inr:
  assumes "ResetPasswordWithToken clk s token h = (Inr (), s')"
  obtains t u where "mget (ms_passwordResetTokens s) token = Some t" and "\<not> pt_Used t"
    and "\<not> pt_ExpiresAt t < clk 0" and "mget (ms_users s) (pt_Email t) = Some u"
    and "s' = drop_sessions (us_ID u) (s\<lparr>ms_users := mput (us_ID u) (u\<lparr>us_PasswordHash := h, us_UpdatedAt := clk 1\<rparr>)
        (mput (us_Email u) (u\<lparr>us_PasswordHash := h, us_UpdatedAt := clk 1\<rparr>) (ms_users s)),
      ms_passwordResetTokens := mput token (t\<lparr>pt_Used := True\<rparr>) (ms_passwordResetTokens s)\<rparr>)"
  using assms
  by (auto simp: ResetPasswordWithToken_def ResetToken_IsExpired_def Let_def split: option.splits if_splits)

section \<open>Properties\<close>

text \<open>
  The two-way user index stays consistent: as long as a user is created with an ID that is
  not yet a key of the table, \<open>CreateUser\<close>, \<open>UpdateUser\<close>, \<open>UpdateUserPassword\<close> and
  \<open>ResetPasswordWithToken\<close> keep every user stored under exactly its email and its ID, with the same
  record under both.
\<close>

theorem users_index_consistent:
  assumes "users_ok s"
  shows "(\<forall>u s'. CreateUser clk rnd s user = (Inr u, s') \<and> mget (ms_users s) (us_ID u) = None \<longrightarrow> users_ok s')
    \<and> users_ok (snd (UpdateUser clk s user)) \<and> users_ok (snd (UpdateUserPassword clk s i h))
    \<and> users_ok (snd (ResetPasswordWithToken clk s token h))"
proof (intro conjI allI impI)
  fix u s' assume c: "CreateUser clk rnd s user = (Inr u, s') \<and> mget (ms_users s) (us_ID u) = None"
  then have n: "mget (ms_users s) (us_Email u) = None"
    and s': "s' = s\<lparr>ms_users := mput (us_ID u) u (mput (us_Email u) u (ms_users s))\<rparr>"
    by (auto simp: CreateUser_def Let_def split: option.splits)
  show "users_ok s'" by (rule users_ok_fresh [OF assms n]) (use c s' in \<open>auto simp: map_simps\<close>)
next
  show "users_ok (snd (UpdateUser clk s user))"
  proof (cases "mget (ms_users s) (us_ID user)")
    case None
    then show ?thesis using assms by (simp add: UpdateUser_def)
  next
    case (Some e)
    obtain e' where e: "snd (UpdateUser clk s user) = refresh_sessions e' (put_user e' s)"
      "us_Email e' = us_Email e" "us_ID e' = us_ID e"
      using Some by (simp add: UpdateUser_def Let_def)
    have "users_ok (put_user e' s)" by (rule users_ok_put_user [OF assms Some e(2,3)])
    with e(1) show ?thesis by (simp add: users_ok_def)
  qed
next
  show "users_ok (snd (UpdateUserPassword clk s i h))"
  proof (cases "mget (ms_users s) i")
    case None
    then show ?thesis using assms by (simp add: UpdateUserPassword_def)
  next
    case (Some u)
    let ?u = "u\<lparr>us_PasswordHash := h, us_UpdatedAt := clk 0\<rparr>"
    have "users_ok (put_user ?u s)" by (rule users_ok_put_user [OF assms Some]) simp_all
    with Some show ?thesis by (simp add: UpdateUserPassword_def Let_def users_ok_def)
  qed
next
  show "users_ok (snd (ResetPasswordWithToken clk s token h))"
  proof (cases "ResetPasswordWithToken clk s token h")
    case (Pair r s')
    show ?thesis
    proof (cases r)
      case (Inl e)
      with Pair assms show ?thesis
        by (auto simp: ResetPasswordWithToken_def Let_def split: option.splits if_splits)
    next
      case (Inr x)
      with Pair have "ResetPasswordWithToken clk s token h = (Inr (), s')" by simp
      then obtain t u where u: "mget (ms_users s) (pt_Email t) = Some u"
        and s': "s' = drop_sessions (us_ID u) (s\<lparr>ms_users := mput (us_ID u) (u\<lparr>us_PasswordHash := h, us_UpdatedAt := clk 1\<rparr>)
            (mput (us_Email u) (u\<lparr>us_PasswordHash := h, us_UpdatedAt := clk 1\<rparr>) (ms_users s)),
          ms_passwordResetTokens := mput token (t\<lparr>pt_Used := True\<rparr>) (ms_passwordResetTokens s)\<rparr>)"
        by (rule ResetPassword_Inr)
      have "users_ok s'"
        by (rule users_ok_put [OF assms u, of "u\<lparr>us_PasswordHash := h, us_UpdatedAt := clk 1\<rparr>"])
          (auto simp: s' map_simps)
      with Pair show ?thesis by simp
    qed
  qed
qed

definition demo_user :: User where
  "demo_user = \<lparr>us_ID = ''u1'', us_Email = ''ann@acme.com'', us_PasswordHash = ''old'', us_Name = ''Ann'',
     us_Role = ''developer'', us_AvatarURL = [], us_CreatedAt = 0, us_UpdatedAt = 0, us_ActiveMembership = None\<rparr>"

definition demo_session :: Session where
  "demo_session = \<lparr>se_Token = ''t1'', se_UserID = ''u1'', se_User = None, se_ExpiresAt = 500, se_CreatedAt = 1\<rparr>"

definition demo_accounts :: MemoryStore where
  "demo_accounts = NewMemoryStore\<lparr>ms_users := [(''ann@acme.com'', demo_user), (''u1'', demo_user)],
     ms_sessions := [(''t1'', demo_session)],
     ms_passwordResetTokens := [(''flg_rst_0'', \<lparr>pt_Token = ''flg_rst_0'', pt_Email = ''ann@acme.com'',
       pt_ExpiresAt = 90, pt_Used = False, pt_CreatedAt = 1\<rparr>)]\<rparr>"

lemma demo_accounts_ok: "users_ok demo_accounts"
  by (auto simp: users_ok_def demo_accounts_def demo_user_def mget_def split: if_splits)

theorem users_index_consistent_witness:
  "users_ok (snd (UpdateUserPassword (\<lambda>_. 5) demo_accounts ''u1'' ''new''))"
  using users_index_consistent [OF demo_accounts_ok] by blast

text \<open>
  A password-reset token works once: a successful reset needs an unused, unexpired token; it
  stores the new hash under the user's email and ID, ends every session of that user, and makes
  every further reset with the same token fail without changing anything. A failed reset changes
  nothing.
\<close>

theorem reset_token_single_use:
  assumes "ResetPasswordWithToken clk s token h = (r, s')" and "wf_map (ms_sessions s)"
  shows "case r of
      Inl e \<Rightarrow> s' = s
    | Inr _ \<Rightarrow> (\<exists>t u. mget (ms_passwordResetTokens s) token = Some t \<and> \<not> pt_Used t \<and> clk 0 \<le> pt_ExpiresAt t
        \<and> mget (ms_users s) (pt_Email t) = Some u
        \<and> map_option us_PasswordHash (mget (ms_users s') (us_Email u)) = Some h
        \<and> map_option us_PasswordHash (mget (ms_users s') (us_ID u)) = Some h
        \<and> (\<forall>tok now x. GetSession now s' tok = Inr x \<longrightarrow> se_UserID x \<noteq> us_ID u))
      \<and> (\<forall>clk' h'. ResetPasswordWithToken clk' s' token h' = (Inl (Errorf ''reset token has already been used''), s'))"
proof (cases r)
  case (Inl e)
  with assms(1) show ?thesis
    by (auto simp: ResetPasswordWithToken_def Let_def split: option.splits if_splits)
next
  case (Inr x)
  with assms(1) have "ResetPasswordWithToken clk s token h = (Inr (), s')" by simp
  then obtain t u where t: "mget (ms_passwordResetTokens s) token = Some t" "\<not> pt_Used t"
    "\<not> pt_ExpiresAt t < clk 0" "mget (ms_users s) (pt_Email t) = Some u"
    and s': "s' = drop_sessions (us_ID u) (s\<lparr>ms_users := mput (us_ID u) (u\<lparr>us_PasswordHash := h, us_UpdatedAt := clk 1\<rparr>)
        (mput (us_Email u) (u\<lparr>us_PasswordHash := h, us_UpdatedAt := clk 1\<rparr>) (ms_users s)),
      ms_passwordResetTokens := mput token (t\<lparr>pt_Used := True\<rparr>) (ms_passwordResetTokens s)\<rparr>)"
    by (rule ResetPassword_Inr)
  have used: "ResetPasswordWithToken clk' s' token h' = (Inl (Errorf ''reset token has already been used''), s')" for clk' h'
    by (simp add: ResetPasswordWithToken_def s' drop_sessions_def map_simps)
  have sess: "mget (ms_sessions s') tok = Some x \<Longrightarrow> se_UserID x \<noteq> us_ID u" for tok x
    using assms(2) by (auto simp: s' drop_sessions_def map_simps split: option.splits if_splits)
  then have "GetSession now s' tok = Inr x \<Longrightarrow> se_UserID x \<noteq> us_ID u" for now tok x
    by (auto simp: GetSession_def split: option.splits if_splits)
  moreover have "map_option us_PasswordHash (mget (ms_users s') (us_Email u)) = Some h"
    "map_option us_PasswordHash (mget (ms_users s') (us_ID u)) = Some h" by (simp_all add: s' map_simps)
  ultimately show ?thesis using Inr t used by auto
qed

theorem reset_token_single_use_witness:
  "fst (ResetPasswordWithToken (\<lambda>_. 80) (snd (ResetPasswordWithToken (\<lambda>_. 70) demo_accounts ''flg_rst_0'' ''new''))
     ''flg_rst_0'' ''other'') = Inl (Errorf ''reset token has already been used'')"
proof -
  let ?r = "ResetPasswordWithToken (\<lambda>_. 70) demo_accounts ''flg_rst_0'' ''new''"
  have "fst ?r = Inr ()"
    by (simp add: ResetPasswordWithToken_def demo_accounts_def demo_user_def mget_def ResetToken_IsExpired_def Let_def)
  then have r: "?r = (Inr (), snd ?r)" by (metis prod.collapse)
  have "wf_map (ms_sessions demo_accounts)" by (simp add: demo_accounts_def wf_map_def)
  from reset_token_single_use [OF r this] show ?thesis by simp
qed

text \<open>
  A revoked API key is dead: after a successful revocation, by either operation, no hash that
  led to that key authenticates any more, whatever the time; every other hash that led to another
  key still gives that key's record.
\<close>

theorem revoked_key_rejected:
  assumes "mget (ms_apiKeys s) i = Some key"
    and "s' = snd (RevokeAPIKey rt clk s i actor) \<or> s' = snd (RevokeAPIKeyByProject rt clk s (ak_ProjectID key) i actor)"
  shows "(\<forall>h clk'. mget (ms_apiKeysByHash s) h = Some i \<longrightarrow> (\<exists>e. GetAPIKeyByHash clk' s' h = (Inl e, s')))
    \<and> (\<forall>h j clk'. mget (ms_apiKeysByHash s) h = Some j \<and> j \<noteq> i \<and> h \<noteq> ak_KeyHash key \<longrightarrow>
         fst (GetAPIKeyByHash clk' s' h) = fst (GetAPIKeyByHash clk' s h))"
proof -
  have k: "ms_apiKeys s' = mput i (key\<lparr>ak_Revoked := True\<rparr>) (ms_apiKeys s)"
    and h: "ms_apiKeysByHash s' = mdel (ak_KeyHash key) (ms_apiKeysByHash s)"
    using assms by (auto simp: RevokeAPIKey_def RevokeAPIKeyByProject_def revoke_def Let_def)
  show ?thesis
    by (auto simp: GetAPIKeyByHash_def k h map_simps Let_def split: option.splits)
qed

definition demo_key :: APIKey where
  "demo_key = \<lparr>ak_ID = ''k1'', ak_ProjectID = ''acme'', ak_Environment = ''production'', ak_Key = [],
     ak_KeyPrefix = ''flg_'', ak_KeyHash = ''h1'', ak_Name = ''ci'', ak_Role = ''developer'',
     ak_CreatedBy = ''ann'', ak_CreatedAt = 0, ak_LastUsedAt = None, ak_Revoked = False\<rparr>"

theorem revoked_key_rejected_witness:
  "\<exists>e. fst (GetAPIKeyByHash (\<lambda>_. 9) (snd (RevokeAPIKey demo_runtime (\<lambda>_. 8)
     (snd (CreateAPIKey (\<lambda>_. 7) ''ab'' NewMemoryStore demo_key)) ''k1'' ''ann'')) ''h1'') = Inl e"
proof -
  let ?s = "snd (CreateAPIKey (\<lambda>_. 7) ''ab'' NewMemoryStore demo_key)"
  have "mget (ms_apiKeys ?s) ''k1'' = Some (demo_key\<lparr>ak_CreatedAt := 7\<rparr>)"
    and h: "mget (ms_apiKeysByHash ?s) ''h1'' = Some ''k1''"
    by (simp_all add: CreateAPIKey_def NewMemoryStore_def demo_key_def or_project_def map_simps Let_def)
  from revoked_key_rejected [OF this(1) disjI1 [OF refl], of demo_runtime "\<lambda>_. 8" "''ann''"] h
  show ?thesis by (metis fst_conv)
qed

text \<open>
  Listings never leak credentials and never repeat a user: whatever the map order, \<open>ListUsers\<close>
  gives every stored user ID exactly once with an empty password hash, and the API-key listings
  carry neither the key nor its hash and stay within the requested project.
\<close>

theorem listings_redacted:
  assumes "is_order ord" and "is_order kord"
  shows "(\<forall>u \<in> set (ListUsers ord s). us_PasswordHash u = [])
    \<and> distinct (map us_ID (ListUsers ord s))
    \<and> us_ID ` set (ListUsers ord s) = us_ID ` snd ` set (ms_users s)
    \<and> (\<forall>k \<in> set (ListAPIKeys kord s) \<union> set (ListAPIKeysByProject kord s p). ak_Key k = [] \<and> ak_KeyHash k = [])
    \<and> (\<forall>k \<in> set (ListAPIKeysByProject kord s p). ak_ProjectID k = or_project p)"
proof -
  have ids: "map us_ID (ListUsers ord s) = map us_ID (dedup_by us_ID [] (map snd (ord (ms_users s))))"
    by (simp add: ListUsers_def)
  then have "us_ID ` set (ListUsers ord s) = us_ID ` snd ` set (ms_users s)"
    using dedup_by_keys [of us_ID "[]" "map snd (ord (ms_users s))"] is_order_set [OF assms(1)]
    by (metis Diff_empty image_set list.set(1))
  moreover have "distinct (map us_ID (ListUsers ord s))" unfolding ids by (rule dedup_by_distinct)
  moreover have "\<forall>u \<in> set (ListUsers ord s). us_PasswordHash u = []" by (auto simp: ListUsers_def)
  ultimately show ?thesis
    by (auto simp: ListAPIKeys_def ListAPIKeysByProject_def redact_key_def)
qed

theorem listings_redacted_witness: "\<forall>u \<in> set (ListUsers rev demo_accounts). us_PasswordHash u = []"
  using listings_redacted [OF is_order_rev is_order_rev] by blast

end
