(* ===== verification/Store_Tenancy.thy ===== *)
theory Store_Tenancy
  imports Store_State "HOL-Library.Char_ord" "HOL-Library.List_Lexorder"
begin

text \<open>
  Organizations, projects, members, invitations, stored canary schedules and OIDC configurations
  of \<open>src/pkg/store/memory.go\<close>. Several tables hold one record under two or three keys; the
  properties say which of these indexes stay consistent and which do not. Strings are ordered
  bytewise, as Go compares them.
\<close>

section \<open>Organizations and projects\<close>

definition CreateOrganization :: "clock \<Rightarrow> string \<Rightarrow> MemoryStore \<Rightarrow> Organization \<Rightarrow> Organization result \<times> MemoryStore" where
  "CreateOrganization clk rnd s org0 =
     (let org = (if og_ID org0 = [] then org0\<lparr>og_ID := ''org_'' @ Itoa (UnixNano (clk 0)) @ ''_'' @ rnd\<rparr> else org0);
          org = (if og_Slug org = [] then org\<lparr>og_Slug := og_ID org\<rparr> else org)
      in if mget (ms_orgs s) (og_ID org) \<noteq> None then
           (Inl (Errorf (''organization already exists with ID: '' @ og_ID org)), s)
         else if mget (ms_orgs s) (og_Slug org) \<noteq> None then
           (Inl (Errorf (''organization already exists with slug: '' @ og_Slug org)), s)
         else let org = org\<lparr>og_CreatedAt := clk 1, og_UpdatedAt := clk 1\<rparr> in
           (Inr org, s\<lparr>ms_orgs := mput (og_Slug org) org (mput (og_ID org) org (ms_orgs s))\<rparr>))"

definition GetOrganization :: "MemoryStore \<Rightarrow> string \<Rightarrow> Organization result" where
  "GetOrganization s idOrSlug =
     (case mget (ms_orgs s) idOrSlug of
        Some org \<Rightarrow> Inr org
      | None \<Rightarrow>
          if idOrSlug = DefaultOrgID \<or> idOrSlug = DefaultOrgSlug then
            Inr \<lparr>og_ID = DefaultOrgID, og_Name = DefaultOrgName, og_Slug = DefaultOrgSlug,
              og_Description = ''Default workspace organization'', og_CreatedAt = 0, og_UpdatedAt = 0\<rparr>
          else Inl (Errorf (''organization not found: '' @ idOrSlug)))"

definition ListOrganizations :: "Organization iter \<Rightarrow> MemoryStore \<Rightarrow> Organization list" where
  "ListOrganizations ord s = dedup_by og_ID [] (map snd (ord (ms_orgs s)))"

definition CreateProject :: "runtime \<Rightarrow> clock \<Rightarrow> string \<Rightarrow> MemoryStore \<Rightarrow> Project \<Rightarrow> Project result \<times> MemoryStore" where
  "CreateProject rt clk rnd s project0 =
     (if TrimSpace rt (pj_OrganizationID project0) = [] then
        (Inl (Errorf ''organization_id is required to create a project''), s)
      else
        (let project = (if pj_ID project0 = []
               then project0\<lparr>pj_ID := ''proj_'' @ Itoa (UnixNano (clk 0)) @ ''_'' @ rnd\<rparr> else project0);
             project = (if pj_Slug project = [] then project\<lparr>pj_Slug := pj_ID project\<rparr> else project);
             key = pj_OrganizationID project @ '':'' @ pj_Slug project
         in if mget (ms_projects s) (pj_ID project) \<noteq> None then
              (Inl (Errorf (''project already exists with ID: '' @ pj_ID project)), s)
            else if mget (ms_projects s) key \<noteq> None then
              (Inl (Errorf (''project already exists with slug '' @ quoted (pj_Slug project) @ '' in org ''
                 @ quoted (pj_OrganizationID project))), s)
            else let project = project\<lparr>pj_CreatedAt := clk 1, pj_UpdatedAt := clk 1\<rparr> in
              (Inr project, s\<lparr>ms_projects := mput (pj_Slug project) project
                 (mput key project (mput (pj_ID project) project (ms_projects s)))\<rparr>)))"

definition GetProject :: "MemoryStore \<Rightarrow> string \<Rightarrow> Project result" where
  "GetProject s idOrSlug =
     (case mget (ms_projects s) idOrSlug of
        Some proj \<Rightarrow> Inr proj
      | None \<Rightarrow>
          if idOrSlug = DefaultProjectID \<or> idOrSlug = DefaultProjectSlug then
            Inr \<lparr>pj_ID = DefaultProjectID, pj_OrganizationID = DefaultOrgID, pj_ConfigVersion = 0,
              pj_Name = DefaultProjectName, pj_Slug = DefaultProjectSlug,
              pj_Description = ''Default feature flagging project'', pj_CreatedAt = 0, pj_UpdatedAt = 0\<rparr>
          else Inl (Errorf (''project not found: '' @ idOrSlug)))"

definition ListProjects :: "Project iter \<Rightarrow> MemoryStore \<Rightarrow> string \<Rightarrow> Project list" where
  "ListProjects ord s organizationID =
     dedup_by pj_ID [] (filter (\<lambda>p. organizationID = [] \<or> pj_OrganizationID p = organizationID)
       (map snd (ord (ms_projects s))))"

section \<open>Members and invitations\<close>

definition put_member :: "OrgMember \<Rightarrow> MemoryStore \<Rightarrow> MemoryStore" where
  "put_member m s = s\<lparr>ms_orgMembers := mput (om_OrganizationID m @ '':'' @ om_UserID m) m
     (mput (om_ID m) m (ms_orgMembers s))\<rparr>"

definition CreateOrgMember :: "clock \<Rightarrow> string \<Rightarrow> MemoryStore \<Rightarrow> OrgMember \<Rightarrow> OrgMember result \<times> MemoryStore" where
  "CreateOrgMember clk rnd s member0 =
     (let member = (if om_ID member0 = []
            then member0\<lparr>om_ID := ''mem_'' @ Itoa (UnixNano (clk 0)) @ ''_'' @ rnd\<rparr> else member0);
          member = (if IsZero (om_CreatedAt member) then member\<lparr>om_CreatedAt := clk 1\<rparr> else member);
          member = (if om_Role member = [] then member\<lparr>om_Role := ''developer''\<rparr> else member)
      in (Inr member, put_member member s))"

definition GetOrgMember :: "MemoryStore \<Rightarrow> string \<Rightarrow> string \<Rightarrow> OrgMember result" where
  "GetOrgMember s organizationID userID =
     (case mget (ms_orgMembers s) (organizationID @ '':'' @ userID) of
        Some m \<Rightarrow> Inr m | None \<Rightarrow> Inl (Sentinel ErrNotFound))"

definition ListOrgMembers :: "OrgMember iter \<Rightarrow> MemoryStore \<Rightarrow> string \<Rightarrow> OrgMember list" where
  "ListOrgMembers ord s organizationID =
     dedup_by om_ID [] (filter (\<lambda>m. om_OrganizationID m = organizationID) (map snd (ord (ms_orgMembers s))))"

definition ListUserOrganizations :: "runtime \<Rightarrow> Organization iter \<Rightarrow> MemoryStore \<Rightarrow> string \<Rightarrow> Organization list" where
  "ListUserOrganizations rt ord s userID =
     (let isMember = (\<lambda>i. list_ex (\<lambda>(k, m). om_UserID m = userID \<and> om_OrganizationID m = i) (ms_orgMembers s));
          orgs = map snd (ord (ms_orgs s));
          user = mget (ms_users s) userID;
          all_orgs = dedup_by og_ID [] orgs;
          allOrgs = sort_key og_ID (filter (\<lambda>org. isMember (og_ID org)) all_orgs)
            @ sort_key og_ID (filter (\<lambda>org. \<not> isMember (og_ID org)) all_orgs)
      in if (case user of Some u \<Rightarrow> us_Role u = RoleAdmin | None \<Rightarrow> False) \<and> length allOrgs > 0 then allOrgs
         else dedup_by og_ID [] (filter (\<lambda>org. isMember (og_ID org) \<or>
           (case user of Some u \<Rightarrow> Contains (og_Slug org) (Slugify rt (us_Name u)) | None \<Rightarrow> False)) orgs))"

definition CreateOrgInvitation :: "clock \<Rightarrow> string \<Rightarrow> string \<Rightarrow> MemoryStore \<Rightarrow> OrgInvitation
  \<Rightarrow> OrgInvitation result \<times> MemoryStore" where
  "CreateOrgInvitation clk rnd rnd' s inv0 =
     (let invt = (if oi_ID inv0 = [] then inv0\<lparr>oi_ID := ''inv_'' @ Itoa (UnixNano (clk 0)) @ ''_'' @ rnd\<rparr> else inv0);
          invt = (if oi_Token invt = [] then invt\<lparr>oi_Token := ''inv_'' @ rnd'\<rparr> else invt);
          now = clk 1;
          invt = (if IsZero (oi_CreatedAt invt) then invt\<lparr>oi_CreatedAt := now\<rparr> else invt);
          invt = (if IsZero (oi_ExpiresAt invt) then invt\<lparr>oi_ExpiresAt := now + 7 * 24 * Hour\<rparr> else invt);
          invt = (if oi_Role invt = [] then invt\<lparr>oi_Role := ''developer''\<rparr> else invt)
      in (Inr invt, s\<lparr>ms_orgInvitations := mput (oi_ID invt) invt (mput (oi_Token invt) invt (ms_orgInvitations s))\<rparr>))"

definition GetOrgInvitation :: "gtime \<Rightarrow> MemoryStore \<Rightarrow> string \<Rightarrow> OrgInvitation result" where
  "GetOrgInvitation now s token =
     (case mget (ms_orgInvitations s) token of
        None \<Rightarrow> Inl (Errorf ''invitation not found'')
      | Some invt \<Rightarrow>
          if Invitation_IsExpired now invt then Inl (Errorf ''invitation has expired'') else Inr invt)"

definition AcceptOrgInvitation :: "runtime \<Rightarrow> clock \<Rightarrow> string \<Rightarrow> MemoryStore \<Rightarrow> string \<Rightarrow> string
  \<Rightarrow> OrgMember result \<times> MemoryStore" where
  "AcceptOrgInvitation rt clk rnd s token userID =
     (case mget (ms_orgInvitations s) token of
        None \<Rightarrow> (Inl (Errorf ''invitation not found''), s)
      | Some inv0 \<Rightarrow>
          if Invitation_IsExpired (clk 0) inv0 then (Inl (Errorf ''invitation has expired''), s)
          else if Invitation_IsAccepted inv0 then (Inl (Errorf ''invitation already accepted''), s)
          else
            (let other = (case mget (ms_users s) userID of
                   Some user \<Rightarrow> if us_Email user \<noteq> [] \<and> oi_Email inv0 \<noteq> []
                       \<and> \<not> EqualFold rt (us_Email user) (oi_Email inv0) then Some user else None
                 | None \<Rightarrow> None)
             in case other of
                  Some user \<Rightarrow> (Inl (Errorf (''invitation was issued for '' @ oi_Email inv0 @ '', but accepted by ''
                     @ us_Email user)), s)
                | None \<Rightarrow>
                    (let now = clk 1;
                         invt = inv0\<lparr>oi_AcceptedAt := Some now\<rparr>;
                         s = s\<lparr>ms_orgInvitations := mput (oi_ID invt) invt (mput token invt (ms_orgInvitations s))\<rparr>;
                         member = \<lparr>om_ID = ''mem_'' @ Itoa (UnixNano now) @ ''_'' @ rnd,
                           om_OrganizationID = oi_OrganizationID invt, om_UserID = userID,
                           om_Role = oi_Role invt, om_CreatedAt = now\<rparr>
                     in (Inr member, put_member member s))))"

definition ListOrgInvitations :: "OrgInvitation iter \<Rightarrow> MemoryStore \<Rightarrow> string \<Rightarrow> OrgInvitation list" where
  "ListOrgInvitations ord s organizationID =
     dedup_by oi_ID [] (filter (\<lambda>i. oi_OrganizationID i = organizationID) (map snd (ord (ms_orgInvitations s))))"

section \<open>Stored canary schedules\<close>

definition SaveCanarySchedule :: "clock \<Rightarrow> MemoryStore \<Rightarrow> CanarySchedule \<Rightarrow> MemoryStore" where
  "SaveCanarySchedule clk s sched0 =
     (let sched = sched0\<lparr>sc_ProjectID := or_project (sc_ProjectID sched0)\<rparr>;
          now = clk 0;
          sched = (if IsZero (sc_CreatedAt sched) then sched\<lparr>sc_CreatedAt := now\<rparr> else sched);
          sched = sched\<lparr>sc_UpdatedAt := now\<rparr>
      in s\<lparr>ms_canarySchedules := mput (sc_ProjectID sched @ '':'' @ sc_FlagKey sched) sched (ms_canarySchedules s)\<rparr>)"

definition GetCanarySchedule :: "MemoryStore \<Rightarrow> string \<Rightarrow> string \<Rightarrow> CanarySchedule option" where
  "GetCanarySchedule s projectID flagKey = mget (ms_canarySchedules s) (or_project projectID @ '':'' @ flagKey)"

definition ListActiveCanarySchedules :: "CanarySchedule iter \<Rightarrow> MemoryStore \<Rightarrow> CanarySchedule list" where
  "ListActiveCanarySchedules ord s =
     filter (\<lambda>c. sc_Status c = CanaryActive) (map snd (ord (ms_canarySchedules s)))"

definition ListCanarySchedulesByProject :: "CanarySchedule iter \<Rightarrow> MemoryStore \<Rightarrow> string \<Rightarrow> CanarySchedule list" where
  "ListCanarySchedulesByProject ord s projectID =
     filter (\<lambda>c. sc_ProjectID c = or_project projectID) (map snd (ord (ms_canarySchedules s)))"

definition DeleteCanarySchedule :: "MemoryStore \<Rightarrow> string \<Rightarrow> string \<Rightarrow> MemoryStore" where
  "DeleteCanarySchedule s projectID flagKey =
     s\<lparr>ms_canarySchedules := mdel (or_project projectID @ '':'' @ flagKey) (ms_canarySchedules s)\<rparr>"

section \<open>OIDC configurations\<close>

definition SaveOIDCConfig :: "clock \<Rightarrow> MemoryStore \<Rightarrow> OIDCConfig \<Rightarrow> unit result \<times> MemoryStore" where
  "SaveOIDCConfig clk s cfg0 =
     (if oc_OrganizationID cfg0 = [] then (Inl (Errorf ''organization_id is required''), s)
      else
        (let now = clk 0;
             cfg = (if IsZero (oc_CreatedAt cfg0) then cfg0\<lparr>oc_CreatedAt := now\<rparr> else cfg0);
             cfg = cfg\<lparr>oc_UpdatedAt := now\<rparr>;
             cfg = (if oc_DefaultRole cfg = [] then cfg\<lparr>oc_DefaultRole := ''developer''\<rparr> else cfg)
         in (Inr (), s\<lparr>ms_oidcConfigs := mput (oc_OrganizationID cfg) cfg (ms_oidcConfigs s)\<rparr>)))"

definition GetOIDCConfig :: "MemoryStore \<Rightarrow> string \<Rightarrow> OIDCConfig option" where
  "GetOIDCConfig s organizationID = mget (ms_oidcConfigs s) organizationID"

definition GetOIDCConfigByDomain :: "runtime \<Rightarrow> OIDCConfig iter \<Rightarrow> MemoryStore \<Rightarrow> string \<Rightarrow> OIDCConfig option" where
  "GetOIDCConfigByDomain rt ord s emailDomain =
     (let cleanDomain = ToLower rt (TrimPrefix (TrimSpace rt emailDomain) ''@'') in
      if cleanDomain = [] then None
      else find (\<lambda>cfg. oc_Enabled cfg \<and> IsDomainAllowed rt (Some cfg) (''probe@'' @ cleanDomain))
        (map snd (ord (ms_oidcConfigs s))))"

definition DeleteOIDCConfig :: "MemoryStore \<Rightarrow> string \<Rightarrow> MemoryStore" where
  "DeleteOIDCConfig s organizationID = s\<lparr>ms_oidcConfigs := mdel organizationID (ms_oidcConfigs s)\<rparr>"

section \<open>The organization index\<close>

definition orgs_ok :: "MemoryStore \<Rightarrow> bool" where
  "orgs_ok s \<longleftrightarrow> (\<forall>k x. mget (ms_orgs s) k = Some x \<longrightarrow>
     (k = og_ID x \<or> k = og_Slug x) \<and> mget (ms_orgs s) (og_ID x) = Some x \<and> mget (ms_orgs s) (og_Slug x) = Some x)"

lemma orgs_okD:
  assumes "orgs_ok s" and "mget (ms_orgs s) k = Some x"
  shows "k = og_ID x \<or> k = og_Slug x" and "mget (ms_orgs s) (og_ID x) = Some x" and "mget (ms_orgs s) (og_Slug x) = Some x"
  using assms unfolding orgs_ok_def by blast+

lemma CreateOrganization_Inr:
  assumes "CreateOrganization clk rnd s org0 = (Inr x, s')"
  shows "mget (ms_orgs s) (og_ID x) = None" and "mget (ms_orgs s) (og_Slug x) = None"
    and "mget (ms_orgs s') j = (if j = og_ID x \<or> j = og_Slug x then Some x else mget (ms_orgs s) j)"
  using assms by (auto simp: CreateOrganization_def map_simps Let_def split: if_splits)

lemma CreateOrganization_orgs_ok:
  assumes "CreateOrganization clk rnd s org0 = (Inr x, s')" and "orgs_ok s"
  shows "orgs_ok s'"
  unfolding orgs_ok_def
proof (intro allI impI)
  note c = CreateOrganization_Inr [OF assms(1)]
  fix j y assume "mget (ms_orgs s') j = Some y"
  then consider "y = x" "j = og_ID x \<or> j = og_Slug x" | "mget (ms_orgs s) j = Some y"
    unfolding c(3) by (metis option.sel)
  then show "(j = og_ID y \<or> j = og_Slug y) \<and> mget (ms_orgs s') (og_ID y) = Some y \<and> mget (ms_orgs s') (og_Slug y) = Some y"
  proof cases
    case 1
    then show ?thesis unfolding c(3) by simp
  next
    case 2
    note y = orgs_okD [OF assms(2) 2]
    then have "og_ID y \<noteq> og_ID x" "og_ID y \<noteq> og_Slug x" "og_Slug y \<noteq> og_ID x" "og_Slug y \<noteq> og_Slug x"
      using c(1,2) by force+
    with y show ?thesis unfolding c(3) by simp
  qed
qed

section \<open>Properties\<close>

text \<open>
  Organizations are unique: \<open>CreateOrganization\<close> keeps every organization stored under exactly
  its ID and its slug; the new one is found by both, and no lookup of an existing organization
  changes.
\<close>

theorem organization_index_consistent:
  assumes "CreateOrganization clk rnd s org0 = (Inr x, s')" and "orgs_ok s"
  shows "orgs_ok s' \<and> GetOrganization s' (og_ID x) = Inr x \<and> GetOrganization s' (og_Slug x) = Inr x
    \<and> (\<forall>k y. mget (ms_orgs s) k = Some y \<longrightarrow> GetOrganization s' k = Inr y)"
proof -
  note c = CreateOrganization_Inr [OF assms(1)]
  have "mget (ms_orgs s) k = Some y \<Longrightarrow> mget (ms_orgs s') k = Some y" for k y
    using c(1,2) unfolding c(3) by auto
  with CreateOrganization_orgs_ok [OF assms] show ?thesis by (simp add: GetOrganization_def c(3))
qed

definition demo_org :: "string \<Rightarrow> string \<Rightarrow> Organization" where
  "demo_org i slug = \<lparr>og_ID = i, og_Name = slug, og_Slug = slug, og_Description = [], og_CreatedAt = 0, og_UpdatedAt = 0\<rparr>"

theorem organization_index_consistent_witness:
  "GetOrganization (snd (CreateOrganization (\<lambda>_. 3) ''ab'' NewMemoryStore (demo_org ''o1'' ''acme''))) ''acme'' =
   Inr ((demo_org ''o1'' ''acme'')\<lparr>og_CreatedAt := 3, og_UpdatedAt := 3\<rparr>)"
proof -
  let ?x = "(demo_org ''o1'' ''acme'')\<lparr>og_CreatedAt := 3, og_UpdatedAt := 3\<rparr>"
  obtain s' where c: "CreateOrganization (\<lambda>_. 3) ''ab'' NewMemoryStore (demo_org ''o1'' ''acme'') = (Inr ?x, s')"
    by (simp add: CreateOrganization_def NewMemoryStore_def demo_org_def Let_def)
  have "orgs_ok NewMemoryStore" by (simp add: orgs_ok_def NewMemoryStore_def)
  from organization_index_consistent [OF c this] c show ?thesis by (simp add: demo_org_def)
qed

text \<open>
  Project identifiers are not protected from slugs: the project table also keeps each project
  under its bare slug and checks no clash there, so another organization that creates a project
  whose slug is the ID of an existing project takes that ID over.
\<close>

definition demo_project :: "string \<Rightarrow> string \<Rightarrow> string \<Rightarrow> Project" where
  "demo_project i org slug = \<lparr>pj_ID = i, pj_OrganizationID = org, pj_ConfigVersion = 0, pj_Name = slug,
     pj_Slug = slug, pj_Description = [], pj_CreatedAt = 0, pj_UpdatedAt = 0\<rparr>"

theorem project_slug_takes_over_id:
  "let s1 = snd (CreateProject demo_runtime (\<lambda>_. 3) ''ab'' NewMemoryStore (demo_project ''p1'' ''acme'' ''web''));
       s2 = snd (CreateProject demo_runtime (\<lambda>_. 4) ''cd'' s1 (demo_project ''p2'' ''evil'' ''p1''))
   in map_sum Error pj_OrganizationID (GetProject s1 ''p1'') = Inr ''acme''
    \<and> map_sum Error pj_OrganizationID (GetProject s2 ''p1'') = Inr ''evil''"
proof -
  have "TrimSpace demo_runtime ''acme'' = ''acme''" "TrimSpace demo_runtime ''evil'' = ''evil''" by code_simp+
  then show ?thesis
    by (simp add: CreateProject_def GetProject_def demo_project_def NewMemoryStore_def map_simps Let_def)
qed

text \<open>
  Accepting an invitation makes exactly the invited membership: it needs an unexpired,
  unaccepted invitation and, when both emails are known, the invited email; the member gets the
  invitation's organization and role and is found there, and the same token cannot be accepted
  again. A refused acceptance changes nothing.
\<close>

theorem invitation_acceptance:
  assumes "AcceptOrgInvitation rt clk rnd s token userID = (r, s')"
  shows "case r of
      Inl e \<Rightarrow> s' = s
    | Inr m \<Rightarrow> (\<exists>i. mget (ms_orgInvitations s) token = Some i \<and> oi_AcceptedAt i = None \<and> clk 0 \<le> oi_ExpiresAt i
        \<and> om_OrganizationID m = oi_OrganizationID i \<and> om_Role m = oi_Role i \<and> om_UserID m = userID
        \<and> (\<forall>u. mget (ms_users s) userID = Some u \<and> us_Email u \<noteq> [] \<and> oi_Email i \<noteq> [] \<longrightarrow>
             EqualFold rt (us_Email u) (oi_Email i))
        \<and> GetOrgMember s' (oi_OrganizationID i) userID = Inr m)
      \<and> (\<forall>rt' clk' rnd' u'. \<exists>e. AcceptOrgInvitation rt' clk' rnd' s' token u' = (Inl e, s'))"
proof (cases r)
  case (Inl e)
  with assms show ?thesis
    by (auto simp: AcceptOrgInvitation_def Let_def split: option.splits if_splits)
next
  case (Inr m)
  from assms Inr obtain i where i: "mget (ms_orgInvitations s) token = Some i"
      "\<not> Invitation_IsExpired (clk 0) i" "\<not> Invitation_IsAccepted i"
      "m = \<lparr>om_ID = ''mem_'' @ Itoa (UnixNano (clk 1)) @ ''_'' @ rnd, om_OrganizationID = oi_OrganizationID i,
        om_UserID = userID, om_Role = oi_Role i, om_CreatedAt = clk 1\<rparr>"
      "s' = put_member m (s\<lparr>ms_orgInvitations := mput (oi_ID i) (i\<lparr>oi_AcceptedAt := Some (clk 1)\<rparr>)
        (mput token (i\<lparr>oi_AcceptedAt := Some (clk 1)\<rparr>) (ms_orgInvitations s))\<rparr>)"
      "\<forall>u. mget (ms_users s) userID = Some u \<and> us_Email u \<noteq> [] \<and> oi_Email i \<noteq> [] \<longrightarrow> EqualFold rt (us_Email u) (oi_Email i)"
    by (auto simp: AcceptOrgInvitation_def Let_def split: option.splits if_splits)
  have "GetOrgMember s' (oi_OrganizationID i) userID = Inr m"
    by (simp add: i(5) GetOrgMember_def put_member_def map_simps) (simp add: i(4))
  moreover have "mget (ms_orgInvitations s') token = Some (i\<lparr>oi_AcceptedAt := Some (clk 1)\<rparr>)"
    by (simp add: i(5) put_member_def map_simps)
  then have "\<exists>e. AcceptOrgInvitation rt' clk' rnd' s' token u' = (Inl e, s')" for rt' clk' rnd' u'
    by (simp add: AcceptOrgInvitation_def Invitation_IsAccepted_def)
  ultimately show ?thesis
    using Inr i by (auto simp: Invitation_IsExpired_def Invitation_IsAccepted_def)
qed

definition demo_invited :: MemoryStore where
  "demo_invited = snd (CreateOrgInvitation (\<lambda>_. 3) ''ab'' ''cd'' NewMemoryStore
     \<lparr>oi_ID = ''i1'', oi_OrganizationID = ''o1'', oi_OrgName = ''Acme'', oi_Email = [], oi_Token = ''secret'',
      oi_Role = ''admin'', oi_InvitedBy = ''ann'', oi_ExpiresAt = 0, oi_AcceptedAt = None, oi_CreatedAt = 0\<rparr>)"

lemma demo_accept: "\<exists>m. fst (AcceptOrgInvitation demo_runtime (\<lambda>_. 5) ''ef'' demo_invited ''secret'' ''u1'') = Inr m"
  by (simp add: AcceptOrgInvitation_def demo_invited_def CreateOrgInvitation_def NewMemoryStore_def IsZero_def
      Invitation_IsExpired_def Invitation_IsAccepted_def Hour_def Minute_def Second_def map_simps Let_def)

theorem invitation_acceptance_witness:
  "\<exists>e. fst (AcceptOrgInvitation demo_runtime (\<lambda>_. 6) ''gh''
     (snd (AcceptOrgInvitation demo_runtime (\<lambda>_. 5) ''ef'' demo_invited ''secret'' ''u1'')) ''secret'' ''u2'') = Inl e"
proof -
  let ?a = "AcceptOrgInvitation demo_runtime (\<lambda>_. 5) ''ef'' demo_invited ''secret'' ''u1''"
  obtain m where "?a = (Inr m, snd ?a)" using demo_accept by (metis prod.collapse)
  from invitation_acceptance [OF this] show ?thesis by simp (metis fst_conv)
qed

text \<open>
  An invitation can nevertheless be used twice: it is stored under its token and under its ID,
  and accepting it by ID marks only the entry under the ID, so the token still makes a second,
  different user a member.
\<close>

theorem invitation_accepted_twice:
  "let (r1, s1) = AcceptOrgInvitation demo_runtime (\<lambda>_. 5) ''ef'' demo_invited ''i1'' ''u1'';
       (r2, s2) = AcceptOrgInvitation demo_runtime (\<lambda>_. 6) ''gh'' s1 ''secret'' ''u2''
   in map_sum Error om_UserID r1 = Inr ''u1'' \<and> map_sum Error om_UserID r2 = Inr ''u2''"
  by (simp add: AcceptOrgInvitation_def demo_invited_def CreateOrgInvitation_def NewMemoryStore_def IsZero_def
      Invitation_IsExpired_def Invitation_IsAccepted_def put_member_def Hour_def Minute_def Second_def map_simps Let_def)

text \<open>
  \<open>ListUserOrganizations\<close> shows organizations to strangers: besides the memberships it lists
  every organization whose slug contains the slug of the user's display name, so a developer named
  \<open>A\<close> who is a member of nothing is shown \<open>acme\<close>.
\<close>

theorem name_reveals_organization:
  "let s = NewMemoryStore\<lparr>ms_orgs := [(''o1'', demo_org ''o1'' ''acme''), (''acme'', demo_org ''o1'' ''acme'')],
         ms_users := [(''u9'', \<lparr>us_ID = ''u9'', us_Email = ''a@evil.com'', us_PasswordHash = [], us_Name = ''A'',
           us_Role = ''developer'', us_AvatarURL = [], us_CreatedAt = 0, us_UpdatedAt = 0, us_ActiveMembership = None\<rparr>)]\<rparr>
   in ms_orgMembers s = [] \<and> map og_Slug (ListUserOrganizations demo_runtime id s ''u9'') = [''acme'']"
proof -
  have "Slugify demo_runtime ''A'' = ''a''" by code_simp
  then show ?thesis
    by (simp add: ListUserOrganizations_def NewMemoryStore_def demo_org_def mget_def HasPrefix_def Let_def)
qed

end
