(* ===== verification/Store_Machine.thy ===== *)
theory Store_Machine
  imports Store_Audit Store_Changes Store_Accounts Store_Tenancy
begin

text \<open>
  The store as a state machine: a step is one call of one mutating operation of \<open>MemoryStore\<close>, in
  any order, with any arguments. A configuration is the store and the latest clock reading; the
  clock does not run backwards from one operation to the next. Entries handed to \<open>AppendAuditLog\<close>
  carry no hashes of their own (the backup restore, which does, is not a step).
\<close>

section \<open>Steps\<close>

definition clock_ok :: "clock \<Rightarrow> gtime \<Rightarrow> gtime \<Rightarrow> bool" where
  "clock_ok clk t t' \<longleftrightarrow> (\<forall>k. t \<le> clk k \<and> clk k \<le> t')"

inductive flag_step :: "runtime \<Rightarrow> clock \<Rightarrow> MemoryStore \<Rightarrow> MemoryStore \<Rightarrow> bool" for rt clk s where
  save: "flag_step rt clk s (snd (SaveFlag rt clk rnd s flag actor))"
| delete: "flag_step rt clk s (snd (DeleteFlagByProject rt clk s p k actor))"
| delete_any: "flag_step rt clk s (snd (DeleteFlag rt clk s k actor))"
| toggle: "flag_step rt clk s (snd (ToggleFlagByProject rt clk s p k env b actor))"
| toggle_any: "flag_step rt clk s (snd (ToggleFlag rt clk s k env b actor))"
| rollout: "flag_step rt clk s (snd (UpdateRolloutByProject rt clk s p k env pct actor))"
| rollout_any: "flag_step rt clk s (snd (UpdateRollout rt clk s k env pct actor))"
| apply_request: "flag_step rt clk s (snd (ApplyChangeRequest rt clk s i actor))"

inductive audit_step :: "runtime \<Rightarrow> clock \<Rightarrow> gtime \<Rightarrow> gtime \<Rightarrow> MemoryStore \<Rightarrow> MemoryStore \<Rightarrow> bool" for rt clk t t' s where
  append: "fresh_entry e \<Longrightarrow> al_Timestamp e = 0 \<or> t \<le> al_Timestamp e \<and> al_Timestamp e \<le> t' \<Longrightarrow>
    audit_step rt clk t t' s (snd (AppendAuditLog rt (clk 0) s e))"
| purge: "audit_step rt clk t t' s (snd (PurgeAuditLogs s p before))"
| revoke_key: "audit_step rt clk t t' s (snd (RevokeAPIKey rt clk s i actor))"
| revoke_project_key: "audit_step rt clk t t' s (snd (RevokeAPIKeyByProject rt clk s p i actor))"
| reset: "audit_step rt clk t t' s (Reset s)"

inductive table_step :: "runtime \<Rightarrow> clock \<Rightarrow> MemoryStore \<Rightarrow> MemoryStore \<Rightarrow> bool" for rt clk s where
  create_user: "table_step rt clk s (snd (CreateUser clk rnd s user))"
| update_user: "table_step rt clk s (snd (UpdateUser clk s user))"
| update_password: "table_step rt clk s (snd (UpdateUserPassword clk s i h))"
| create_session: "table_step rt clk s (CreateSession s sess)"
| delete_session: "table_step rt clk s (DeleteSession s token)"
| delete_sessions: "table_step rt clk s (DeleteUserSessions s i)"
| create_reset: "table_step rt clk s (snd (CreatePasswordResetToken clk rndr s email ttl))"
| use_reset: "table_step rt clk s (snd (ResetPasswordWithToken clk s token h))"
| create_key: "table_step rt clk s (snd (CreateAPIKey clk rnd s key))"
| use_key: "table_step rt clk s (snd (GetAPIKeyByHash clk s h))"
| create_org: "table_step rt clk s (snd (CreateOrganization clk rnd s org))"
| create_project: "table_step rt clk s (snd (CreateProject rt clk rnd s proj))"
| create_member: "table_step rt clk s (snd (CreateOrgMember clk rnd s m))"
| create_invitation: "table_step rt clk s (snd (CreateOrgInvitation clk rnd rnd' s i0))"
| accept_invitation: "table_step rt clk s (snd (AcceptOrgInvitation rt clk rnd s token i))"
| save_schedule: "table_step rt clk s (SaveCanarySchedule clk s sched)"
| delete_schedule: "table_step rt clk s (DeleteCanarySchedule s p k)"
| save_oidc: "table_step rt clk s (snd (SaveOIDCConfig clk s cfg))"
| delete_oidc: "table_step rt clk s (DeleteOIDCConfig s org_id)"
| record_events: "table_step rt clk s (RecordExperimentEvents clk s evs)"
| create_request: "table_step rt clk s (snd (CreateChangeRequest clk rnd s cr))"
| review_request: "table_step rt clk s (snd (ReviewChangeRequest clk s i r e n ok c))"

inductive store_reach :: "runtime \<Rightarrow> MemoryStore \<Rightarrow> gtime \<Rightarrow> bool" for rt where
  init: "0 < t \<Longrightarrow> store_reach rt NewMemoryStore t"
| flag: "store_reach rt s t \<Longrightarrow> t \<le> t' \<Longrightarrow> clock_ok clk t t' \<Longrightarrow> flag_step rt clk s s' \<Longrightarrow> store_reach rt s' t'"
| audit: "store_reach rt s t \<Longrightarrow> t \<le> t' \<Longrightarrow> clock_ok clk t t' \<Longrightarrow> audit_step rt clk t t' s s' \<Longrightarrow> store_reach rt s' t'"
| table: "store_reach rt s t \<Longrightarrow> t \<le> t' \<Longrightarrow> clock_ok clk t t' \<Longrightarrow> table_step rt clk s s' \<Longrightarrow> store_reach rt s' t'"

section \<open>The invariant\<close>

definition store_inv :: "runtime \<Rightarrow> MemoryStore \<Rightarrow> gtime \<Rightarrow> bool" where
  "store_inv rt s t \<longleftrightarrow> 0 < t \<and> audit_ok rt s \<and> times_ok s t \<and> four_eyes s \<and> snap_ok s \<and> orgs_ok s
     \<and> wf_map (ms_sessions s)"

text \<open>What a step of a table that the invariant does not read may change.\<close>

definition same_core :: "MemoryStore \<Rightarrow> MemoryStore \<Rightarrow> bool" where
  "same_core s s' \<longleftrightarrow> ms_auditLogs s' = ms_auditLogs s \<and> ms_auditAnchors s' = ms_auditAnchors s
     \<and> ms_flagsSnapshot s' = ms_flagsSnapshot s"

lemma same_core_audit: "same_core s s' \<Longrightarrow> audit_ok rt s' = audit_ok rt s"
  by (simp add: same_core_def audit_ok_def project_entries_def audit_anchor_def)

lemma same_core_times: "same_core s s' \<Longrightarrow> times_ok s' t = times_ok s t"
  by (simp add: same_core_def times_ok_def)

lemma same_core_snap: "same_core s s' \<Longrightarrow> snap_ok s' = snap_ok s"
  by (simp add: same_core_def snap_ok_def)

lemma times_ok_later: "times_ok s t \<Longrightarrow> t \<le> t' \<Longrightarrow> times_ok s t'"
  by (auto simp: times_ok_def)

lemma same_core_inv:
  assumes "store_inv rt s t" and "t \<le> t'" and "same_core s s'" and "four_eyes s'" and "orgs_ok s'"
    and "wf_map (ms_sessions s')"
  shows "store_inv rt s' t'"
  using assms same_core_audit [OF assms(3)] same_core_times [OF assms(3)] same_core_snap [OF assms(3)] times_ok_later
  by (auto simp: store_inv_def)

lemma publish_core [simp]:
  "ms_auditLogs (publish l s) = ms_auditLogs s" "ms_auditAnchors (publish l s) = ms_auditAnchors s"
  "ms_changeRequests (publish l s) = ms_changeRequests s" "ms_orgs (publish l s) = ms_orgs s"
  "ms_sessions (publish l s) = ms_sessions s"
  by (simp_all add: publish_def)

lemma publish_inv: "store_inv rt s t \<Longrightarrow> store_inv rt (publish l s) t"
  by (auto simp: store_inv_def audit_ok_def project_entries_def audit_anchor_def times_ok_def four_eyes_def orgs_ok_def)

lemma append_orgs [simp]: "ms_orgs (snd (appendAuditLogLocked rt now s e)) = ms_orgs s"
  by (auto simp: appendAuditLogLocked_def Let_def split: option.splits)

lemma append_inv:
  assumes "digest_nonempty rt" and "store_inv rt s t" and "t \<le> t'" and "fresh_entry e"
    and "al_Timestamp e = 0 \<or> t \<le> al_Timestamp e \<and> al_Timestamp e \<le> t'" and "t \<le> now" and "now \<le> t'"
  shows "store_inv rt (snd (appendAuditLogLocked rt now s e)) t'"
proof -
  have "times_ok (snd (appendAuditLogLocked rt now s e)) t'"
    by (rule append_times_ok [of s t]) (use assms in \<open>auto simp: store_inv_def\<close>)
  moreover have "audit_ok rt (snd (appendAuditLogLocked rt now s e))"
    by (rule append_audit_ok) (use assms in \<open>auto simp: store_inv_def\<close>)
  ultimately show ?thesis
    using assms by (simp add: store_inv_def four_eyes_def snap_ok_def orgs_ok_def)
qed

lemma fresh_flag_log [simp]:
  "fresh_entry (flag_log i p ts a act k env d)" "al_Timestamp (flag_log i p ts a act k env d) = ts"
  by (simp_all add: fresh_entry_def flag_log_def zero_audit_def)

lemma inv_later: "store_inv rt s t \<Longrightarrow> t \<le> t' \<Longrightarrow> store_inv rt s t'"
  by (auto simp: store_inv_def intro: times_ok_later)

section \<open>Every step keeps it\<close>

lemma finish_update_inv:
  assumes "digest_nonempty rt" and "store_inv rt s t" and "t \<le> t'" and "t \<le> now" and "now \<le> t'"
    and "\<And>f lg. snd r = Some (f, lg) \<Longrightarrow> fresh_entry lg \<and> t \<le> al_Timestamp lg \<and> al_Timestamp lg \<le> t'"
  shows "store_inv rt (snd (finish_update rt now p k r s)) t'"
proof (cases "snd r")
  case None
  then show ?thesis using inv_later [OF assms(2,3)] by (simp add: finish_update_def)
next
  case (Some x)
  obtain f lg where x: "x = (f, lg)" by fastforce
  have "store_inv rt (snd (appendAuditLogLocked rt now (publish (fst r) s) lg)) t'"
    by (rule append_inv [OF assms(1) publish_inv [OF assms(2)] assms(3)])
      (use assms(4,5) assms(6) [of f lg] Some x in auto)
  with Some x show ?thesis by (simp add: finish_update_def split_beta)
qed

lemma Toggle_inv:
  assumes "digest_nonempty rt" and "store_inv rt s t" and "t \<le> t'" and "clock_ok clk t t'"
  shows "store_inv rt (snd (ToggleFlagByProject rt clk s p k env b actor)) t'"
  unfolding ToggleFlagByProject_def Let_def
  by (rule finish_update_inv [OF assms(1,2,3)])
    (use assms(4) in \<open>auto simp: clock_ok_def toggle_update_def Let_def dest!: update_loop_Some\<close>)

lemma Rollout_inv:
  assumes "digest_nonempty rt" and "store_inv rt s t" and "t \<le> t'" and "clock_ok clk t t'"
  shows "store_inv rt (snd (UpdateRolloutByProject rt clk s p k env pct actor)) t'"
  unfolding UpdateRolloutByProject_def Let_def
  by (rule finish_update_inv [OF assms(1,2,3)])
    (use assms(4) in \<open>auto simp: clock_ok_def rollout_update_def Let_def dest!: update_loop_Some\<close>)

lemma Save_inv:
  assumes "digest_nonempty rt" and "store_inv rt s t" and "t \<le> t'" and "clock_ok clk t t'"
  shows "store_inv rt (snd (SaveFlag rt clk rnd s flag actor)) t'"
proof -
  obtain res s' where sv: "SaveFlag rt clk rnd s flag actor = (res, s')" by fastforce
  from SaveFlag_cases [OF sv] consider "s' = s" | l where "s' = publish l s"
    | l e lg where "al_PrevHash e = []" "al_Timestamp e = clk 0" "appendAuditLogLocked rt (clk 3) (publish l s) e = (lg, s')"
    by blast
  then show ?thesis
  proof cases
    case 3
    have "store_inv rt (snd (appendAuditLogLocked rt (clk 3) (publish l s) e)) t'"
      by (rule append_inv [OF assms(1) publish_inv [OF assms(2)] assms(3)])
        (use 3 assms(4) in \<open>auto simp: fresh_entry_def clock_ok_def\<close>)
    with 3 sv show ?thesis by simp
  qed (use sv inv_later [OF assms(2,3)] publish_inv in auto)
qed

lemma Delete_inv:
  assumes "digest_nonempty rt" and "store_inv rt s t" and "t \<le> t'" and "clock_ok clk t t'"
  shows "store_inv rt (snd (DeleteFlagByProject rt clk s p k actor)) t'"
proof -
  have "store_inv rt (snd (appendAuditLogLocked rt (clk 2) (publish l s) (flag_log i pp (clk 1) a act key env d))) t'" for l i pp a act key env d
    by (rule append_inv [OF assms(1) publish_inv [OF assms(2)] assms(3)]) (use assms(4) in \<open>auto simp: clock_ok_def\<close>)
  with inv_later [OF assms(2,3)] show ?thesis by (simp add: DeleteFlagByProject_def Let_def split_beta)
qed

lemma Apply_inv:
  assumes "digest_nonempty rt" and "store_inv rt s t" and "t \<le> t'" and "clock_ok clk t t'"
  shows "store_inv rt (snd (ApplyChangeRequest rt clk s i actor)) t'"
proof -
  obtain r s' where a: "ApplyChangeRequest rt clk s i actor = (r, s')" by fastforce
  have fe: "four_eyes s'" using four_eyes_Apply [of s rt clk i actor] assms(2) a by (simp add: store_inv_def)
  show ?thesis
  proof (cases "s' = s")
    case True
    with a inv_later [OF assms(2,3)] show ?thesis by simp
  next
    case False
    let ?now = "clk (length (fs_list (ms_flagsSnapshot s)))"
    from False ApplyChangeRequest_cases [OF a] obtain cr0 f newList lg s1 where
      ap: "appendAuditLogLocked rt ?now (s\<lparr>ms_changeRequests := mput i (cr0\<lparr>cr_Status := ''APPLIED'',
            cr_AppliedAt := Some ?now\<rparr>) (ms_changeRequests s)\<rparr>)
          (apply_audit ?now i (cr0\<lparr>cr_Status := ''APPLIED'', cr_AppliedAt := Some ?now\<rparr>) f actor) = (lg, s1)"
      "s' = publish newList s1" by (auto simp: Let_def)
    define cr where "cr = mput i (cr0\<lparr>cr_Status := ''APPLIED'', cr_AppliedAt := Some ?now\<rparr>) (ms_changeRequests s)"
    define e where "e = apply_audit ?now i (cr0\<lparr>cr_Status := ''APPLIED'', cr_AppliedAt := Some ?now\<rparr>) f actor"
    define now where "now = ?now"
    have c: "fresh_entry e" "al_Timestamp e = now" "t \<le> now" "now \<le> t'"
      "appendAuditLogLocked rt now (s\<lparr>ms_changeRequests := cr\<rparr>) e = (lg, s1)" "s' = publish newList s1"
      using ap assms(4) by (simp_all add: e_def cr_def now_def apply_audit_def fresh_entry_def zero_audit_def clock_ok_def)
    let ?s = "s\<lparr>ms_changeRequests := cr\<rparr>"
    have "times_ok ?s t" "audit_ok rt ?s"
      using assms(2) by (auto simp: store_inv_def times_ok_def audit_ok_def project_entries_def audit_anchor_def)
    then have "times_ok s1 t'" "audit_ok rt s1"
      using append_times_ok [of ?s t t' e now rt] append_audit_ok [OF assms(1), of ?s e now] c assms(3) by auto
    moreover have "ms_orgs s1 = ms_orgs s" "ms_sessions s1 = ms_sessions s"
      using append_orgs [of rt now ?s e] append_other_fields(7) [of rt now ?s e] c(5) by simp_all
    ultimately have "store_inv rt (publish newList s1) t'"
      using assms(2,3) fe c(6)
      by (auto simp: store_inv_def orgs_ok_def times_ok_def audit_ok_def project_entries_def audit_anchor_def)
    with a c(6) show ?thesis by simp
  qed
qed

lemma flag_step_inv:
  assumes "flag_step rt clk s s'" and "digest_nonempty rt" and "store_inv rt s t" and "t \<le> t'" and "clock_ok clk t t'"
  shows "store_inv rt s' t'"
  using assms(1)
  by cases (use assms Save_inv Delete_inv Toggle_inv Rollout_inv Apply_inv inv_later in
    \<open>auto simp: DeleteFlag_def ToggleFlag_def UpdateRollout_def split: sum.splits\<close>)

lemma revoke_inv: "store_inv rt s t \<Longrightarrow> store_inv rt (revoke i key s) t"
  by (auto simp: revoke_def store_inv_def audit_ok_def project_entries_def audit_anchor_def times_ok_def
      four_eyes_def orgs_ok_def snap_ok_def)

lemma audit_step_inv:
  assumes "audit_step rt clk t t' s s'" and "digest_nonempty rt" and "store_inv rt s t" and "t \<le> t'" and "clock_ok clk t t'"
  shows "store_inv rt s' t'"
  using assms(1)
proof cases
  case (append e)
  have "store_inv rt (snd (appendAuditLogLocked rt (clk 0) s e)) t'"
    by (rule append_inv [OF assms(2,3,4)]) (use append assms(5) in \<open>auto simp: clock_ok_def\<close>)
  with append show ?thesis by (simp add: AppendAuditLog_def split_beta)
next
  case (purge p before)
  have "ms_orgs s' = ms_orgs s" "ms_sessions s' = ms_sessions s"
    by (simp_all add: purge PurgeAuditLogs_def Let_def)
  moreover have "audit_ok rt s'" "times_ok s' t"
    unfolding purge using assms(2,3) purge_audit_ok purge_times_ok by (auto simp: store_inv_def)
  moreover have "four_eyes s'" "snap_ok s'"
    unfolding purge using assms(3) by (simp_all add: store_inv_def four_eyes_def snap_ok_def)
  ultimately show ?thesis
    using assms(3,4) by (auto simp: store_inv_def orgs_ok_def intro: times_ok_later)
next
  case (revoke_key i actor)
  have "store_inv rt (snd (appendAuditLogLocked rt (clk 2) (revoke i key s) e)) t'"
    if "fresh_entry e" "al_Timestamp e = clk 1" for e key
    by (rule append_inv [OF assms(2) revoke_inv [OF assms(3)] assms(4)]) (use that assms(5) in \<open>auto simp: clock_ok_def\<close>)
  with revoke_key inv_later [OF assms(3,4)] show ?thesis
    by (simp add: RevokeAPIKey_def fresh_entry_def zero_audit_def Let_def split: option.splits)
next
  case (revoke_project_key p i actor)
  have "store_inv rt (snd (appendAuditLogLocked rt (clk 2) (revoke i key s) e)) t'"
    if "fresh_entry e" "al_Timestamp e = clk 1" for e key
    by (rule append_inv [OF assms(2) revoke_inv [OF assms(3)] assms(4)]) (use that assms(5) in \<open>auto simp: clock_ok_def\<close>)
  with revoke_project_key inv_later [OF assms(3,4)] show ?thesis
    by (simp add: RevokeAPIKeyByProject_def fresh_entry_def zero_audit_def Let_def split: option.splits)
next
  case reset
  then show ?thesis
    using assms(3,4) by (auto simp: Reset_def store_inv_def audit_ok_def project_entries_def times_ok_def
        four_eyes_def orgs_ok_def snap_ok_def)
qed

text \<open>Steps of the other tables: the audit log, the flags, the change requests and the organizations do not change.\<close>

definition table_frame :: "MemoryStore \<Rightarrow> MemoryStore \<Rightarrow> bool" where
  "table_frame s s' \<longleftrightarrow> same_core s s' \<and> (wf_map (ms_sessions s) \<longrightarrow> wf_map (ms_sessions s'))
     \<and> ms_changeRequests s' = ms_changeRequests s \<and> ms_orgs s' = ms_orgs s"

lemma table_frame_refl [simp]: "table_frame s s"
  by (simp add: table_frame_def same_core_def)

lemma table_frame_updates [simp]:
  "table_frame s (s\<lparr>ms_users := a\<rparr>)" "table_frame s (s\<lparr>ms_passwordResetTokens := b\<rparr>)"
  "table_frame s (s\<lparr>ms_apiKeys := c\<rparr>)" "table_frame s (s\<lparr>ms_apiKeys := c, ms_apiKeysByHash := d\<rparr>)"
  "table_frame s (s\<lparr>ms_projects := e\<rparr>)" "table_frame s (s\<lparr>ms_orgMembers := f\<rparr>)" "table_frame s (s\<lparr>ms_orgInvitations := g\<rparr>)"
  "table_frame s (s\<lparr>ms_orgMembers := f, ms_orgInvitations := g\<rparr>)" "table_frame s (s\<lparr>ms_orgInvitations := g, ms_orgMembers := f\<rparr>)"
  "table_frame s (s\<lparr>ms_canarySchedules := h\<rparr>)" "table_frame s (s\<lparr>ms_oidcConfigs := i\<rparr>)" "table_frame s (s\<lparr>ms_events := j\<rparr>)"
  by (simp_all add: table_frame_def same_core_def)

lemma table_frame_sessions [simp]:
  "table_frame s (s\<lparr>ms_sessions := mput k v (ms_sessions s)\<rparr>)" "table_frame s (s\<lparr>ms_sessions := mdel k (ms_sessions s)\<rparr>)"
  "table_frame s (s\<lparr>ms_sessions := mdel_where P (ms_sessions s)\<rparr>)"
  "table_frame s (s\<lparr>ms_users := a, ms_sessions := mmap f (ms_sessions s)\<rparr>)"
  "table_frame s (s\<lparr>ms_users := a, ms_sessions := mdel_where P (ms_sessions s)\<rparr>)"
  "table_frame s (s\<lparr>ms_users := a, ms_sessions := mdel_where P (ms_sessions s), ms_passwordResetTokens := b\<rparr>)"
  "table_frame s (s\<lparr>ms_users := a, ms_passwordResetTokens := b, ms_sessions := mdel_where P (ms_sessions s)\<rparr>)"
  by (simp_all add: table_frame_def same_core_def gomap.ok_put gomap.ok_del wf_map_mmap wf_map_mdel_where)

lemma table_frame_ops [simp]:
  "table_frame s (snd (CreateUser clk rnd s user))" "table_frame s (snd (UpdateUser clk s user))"
  "table_frame s (snd (UpdateUserPassword clk s i h))" "table_frame s (CreateSession s sess)" "table_frame s (DeleteSession s token)"
  "table_frame s (DeleteUserSessions s i)" "table_frame s (snd (CreatePasswordResetToken clk rndr s email ttl))"
  "table_frame s (snd (ResetPasswordWithToken clk s token h))" "table_frame s (snd (CreateAPIKey clk rnd s key))"
  "table_frame s (snd (GetAPIKeyByHash clk s h))" "table_frame s (snd (CreateProject rt clk rnd s proj))"
  "table_frame s (snd (CreateOrgMember clk rnd s m))" "table_frame s (snd (CreateOrgInvitation clk rnd rnd' s i0))"
  "table_frame s (snd (AcceptOrgInvitation rt clk rnd s token i))" "table_frame s (SaveCanarySchedule clk s sched)"
  "table_frame s (DeleteCanarySchedule s p k)" "table_frame s (snd (SaveOIDCConfig clk s cfg))" "table_frame s (DeleteOIDCConfig s org_id)"
  "table_frame s (RecordExperimentEvents clk s evs)"
  by (simp_all add: CreateUser_def UpdateUser_def UpdateUserPassword_def CreateSession_def DeleteSession_def
    DeleteUserSessions_def drop_sessions_def refresh_sessions_def put_user_def CreatePasswordResetToken_def
    ResetPasswordWithToken_def CreateAPIKey_def GetAPIKeyByHash_def CreateProject_def
    CreateOrgMember_def put_member_def CreateOrgInvitation_def AcceptOrgInvitation_def SaveCanarySchedule_def
    DeleteCanarySchedule_def SaveOIDCConfig_def DeleteOIDCConfig_def RecordExperimentEvents_def Let_def split: option.split sum.split)

text \<open>A step that is neither of the two request operations nor the creation of an organization keeps the frame.\<close>

lemma table_step_frame:
  assumes "table_step rt clk s s'"
  shows "table_frame s s' \<or> (\<exists>rnd org. s' = snd (CreateOrganization clk rnd s org))
    \<or> (\<exists>rnd cr. s' = snd (CreateChangeRequest clk rnd s cr)) \<or> (\<exists>i r e n ok c. s' = snd (ReviewChangeRequest clk s i r e n ok c))"
  using assms by cases (blast intro: table_frame_ops)+

lemma table_step_keeps:
  assumes "table_step rt clk s s'"
  shows "same_core s s'" and "wf_map (ms_sessions s) \<Longrightarrow> wf_map (ms_sessions s')"
proof -
  have "same_core s s' \<and> ms_sessions s' = ms_sessions s \<or> table_frame s s'"
    using table_step_frame [OF assms]
    by (elim disjE exE)
      (simp_all add: CreateOrganization_def CreateChangeRequest_def ReviewChangeRequest_def same_core_def Let_def split: option.split sum.split)
  then show "same_core s s'" and "wf_map (ms_sessions s) \<Longrightarrow> wf_map (ms_sessions s')" by (auto simp: table_frame_def)
qed

lemma table_step_four_eyes:
  assumes "table_step rt clk s s'" and "four_eyes s"
  shows "four_eyes s'"
  using table_step_frame [OF assms(1)]
proof (elim disjE exE)
  assume "table_frame s s'"
  then show ?thesis using assms(2) by (simp add: table_frame_def four_eyes_def)
next
  fix rnd org assume "s' = snd (CreateOrganization clk rnd s org)"
  then show ?thesis using assms(2) by (simp add: CreateOrganization_def four_eyes_def Let_def)
qed (use four_eyes_Create [OF assms(2)] four_eyes_Review [OF assms(2)] in simp_all)

lemma table_step_orgs:
  assumes "table_step rt clk s s'" and "orgs_ok s"
  shows "orgs_ok s'"
  using table_step_frame [OF assms(1)]
proof (elim disjE exE)
  assume "table_frame s s'"
  then show ?thesis using assms(2) by (simp add: table_frame_def orgs_ok_def)
next
  fix rnd org assume c: "s' = snd (CreateOrganization clk rnd s org)"
  show ?thesis
  proof (cases "CreateOrganization clk rnd s org")
    case (Pair r t)
    show ?thesis
    proof (cases r)
      case (Inr x)
      with Pair c CreateOrganization_orgs_ok [OF _ assms(2)] show ?thesis by simp
    next
      case (Inl e)
      with Pair c have "s' = s" by (auto simp: CreateOrganization_def Let_def split: if_splits)
      with assms(2) show ?thesis by simp
    qed
  qed
qed (use assms(2) in \<open>auto simp: orgs_ok_def CreateChangeRequest_def ReviewChangeRequest_def Let_def split: option.splits sum.splits\<close>)

lemma store_inv_New: "0 < t \<Longrightarrow> store_inv rt NewMemoryStore t"
  using audit_ok_New [of rt]
  by (simp add: store_inv_def times_ok_def four_eyes_def snap_ok_def orgs_ok_def) (simp add: NewMemoryStore_def)

lemma store_reach_inv: "store_reach rt s t \<Longrightarrow> digest_nonempty rt \<Longrightarrow> store_inv rt s t"
proof (induction rule: store_reach.induct)
  case (table s t t' clk s')
  then have "store_inv rt s t" by simp
  then show ?case
    by (rule same_core_inv) (use table table_step_keeps table_step_four_eyes table_step_orgs
      in \<open>auto simp: store_inv_def\<close>)
qed (auto intro: store_inv_New flag_step_inv audit_step_inv)

lemma clock_const [simp]: "clock_ok (\<lambda>_. t) t t"
  by (simp add: clock_ok_def)

section \<open>Properties\<close>


lemma demo_reach:
  "store_reach demo_runtime (snd (SaveFlag demo_runtime (\<lambda>_. 7) ''ab'' NewMemoryStore (demo_flag0 [] ''acme'' ''pay'') ''ann'')) 7"
  by (rule store_reach.flag [OF store_reach.init [of 7] _ clock_const]) (auto intro: flag_step.save)


text \<open>
  C6: four eyes: in every state the store can reach, a change request that is approved or applied
  was reviewed, and its reviewer is not its author.
\<close>

theorem reachable_four_eyes:
  assumes "store_reach rt s t" and "digest_nonempty rt" and "GetChangeRequest s i = Inr cr"
    and "cr_Status cr = ''APPROVED'' \<or> cr_Status cr = ''APPLIED''"
  shows "cr_ReviewerUserID cr \<noteq> cr_AuthorUserID cr \<and> cr_ReviewedAt cr \<noteq> None"
proof -
  have "mget (ms_changeRequests s) i = Some cr"
    using assms(3) by (auto simp: GetChangeRequest_def split: option.splits)
  then show ?thesis
    using store_reach_inv [OF assms(1,2)] assms(4) unfolding store_inv_def four_eyes_def by blast
qed

definition demo_reviewed :: MemoryStore where
  "demo_reviewed = snd (ReviewChangeRequest (\<lambda>_. 8) (snd (CreateChangeRequest (\<lambda>_. 7) ''ab'' NewMemoryStore demo_request))
     ''c1'' ''u2'' ''bob@acme.com'' ''Bob'' True ''fine'')"

lemma demo_reviewed_reach: "store_reach demo_runtime demo_reviewed 8"
proof -
  have 1: "store_reach demo_runtime (snd (CreateChangeRequest (\<lambda>_. 7) ''ab'' NewMemoryStore demo_request)) 7"
    by (rule store_reach.table [OF store_reach.init [of 7] _ clock_const]) (auto intro: table_step.create_request)
  have "clock_ok (\<lambda>_. 8) 7 8" by (simp add: clock_ok_def)
  then show ?thesis
    unfolding demo_reviewed_def by (rule store_reach.table [OF 1, rotated]) (auto intro: table_step.review_request)
qed

lemma demo_reviewed_get: "\<exists>cr. GetChangeRequest demo_reviewed ''c1'' = Inr cr \<and> cr_Status cr = ''APPROVED''"
  by (simp add: GetChangeRequest_def demo_reviewed_def ReviewChangeRequest_def CreateChangeRequest_def
      NewMemoryStore_def demo_request_def Review_def map_simps Let_def)

theorem reachable_four_eyes_witness:
  "\<exists>cr. GetChangeRequest demo_reviewed ''c1'' = Inr cr \<and> cr_ReviewerUserID cr \<noteq> cr_AuthorUserID cr"
  using demo_reviewed_get reachable_four_eyes [OF demo_reviewed_reach demo_digest] by blast

end
