(* ===== verification/Canary.thy ===== *)
theory Canary
  imports Store_Flags Store_Tenancy
begin

text \<open>
  The canary scheduler, \<open>src/pkg/canary/scheduler.go\<close>, over the in-memory store. Its state is the
  map of schedules; it holds pointers in the code, and each pointer is used under the scheduler's
  mutex only, so the entries are values here. The copies of a schedule share its
  stages; each change of a stage in place is followed by a save of the same schedule under that mutex.
  Broadcasts are returned as a list of events. The calls of one operation to the store read clocks of their own: \<open>clks i 0\<close> for the
  rollout update and \<open>clks i 1\<close> for the save of the \<open>i\<close>-th schedule. An out-of-range stage index
  panics (\<open>None\<close>). The ticker loop and \<open>Close\<close> only start and stop the calls of
  \<open>EvaluateSchedules\<close>.
\<close>

section \<open>Operations\<close>

record CanaryScheduler =
  cn_schedules :: "(string, CanarySchedule) gomap"

text \<open>The events \<open>canary_update\<close>, \<open>canary_completed\<close>, \<open>canary_stage_advanced\<close> and \<open>canary_rollback\<close> with their payloads.\<close>

datatype bcast = canary_update CanarySchedule
  | canary_completed string string
  | canary_stage_advanced string string int f64
  | canary_rollback string string string

definition NewCanaryScheduler :: CanaryScheduler where
  "NewCanaryScheduler = \<lparr>cn_schedules = []\<rparr>"

definition scheduleKey :: "string \<Rightarrow> string \<Rightarrow> string" where
  "scheduleKey projectID flagKey = or_project projectID @ '':'' @ flagKey"

definition put_schedule :: "string \<Rightarrow> CanarySchedule \<Rightarrow> CanaryScheduler \<Rightarrow> CanaryScheduler" where
  "put_schedule k sched cs = cs\<lparr>cn_schedules := mput k sched (cn_schedules cs)\<rparr>"

definition prepare_schedule :: "gtime \<Rightarrow> CanarySchedule \<Rightarrow> CanarySchedule" where
  "prepare_schedule now sched =
     (let sched = (if sc_ID sched = [] then sched\<lparr>sc_ID := ''canary_'' @ sc_FlagKey sched @ ''_'' @ Itoa (Unix now)\<rparr> else sched);
          sched = sched\<lparr>sc_ProjectID := or_project (sc_ProjectID sched)\<rparr>
      in if sc_Environment sched = [] then sched\<lparr>sc_Environment := EnvProduction\<rparr> else sched)"

definition activate_schedule :: "gtime \<Rightarrow> CanarySchedule \<Rightarrow> CanarySchedule" where
  "activate_schedule now sched =
     sched\<lparr>sc_Status := CanaryActive, sc_CurrentStageIdx := 0, sc_CreatedAt := now, sc_UpdatedAt := now,
       sc_LastEvaluatedAt := now,
       sc_Stages := (sc_Stages sched)[0 := (sc_Stages sched ! 0)\<lparr>st_StartedAt := now\<rparr>]\<rparr>"

definition SubmitSchedule :: "runtime \<Rightarrow> gtime \<Rightarrow> (nat \<Rightarrow> clock) \<Rightarrow> CanaryScheduler \<Rightarrow> MemoryStore \<Rightarrow> CanarySchedule
  \<Rightarrow> CanarySchedule result \<times> CanaryScheduler \<times> MemoryStore \<times> bcast list" where
  "SubmitSchedule rt now clks cs s sched0 =
     (let sched = prepare_schedule now sched0 in
      if length (sc_Stages sched) = 0 then
        (Inl (Errorf ''canary schedule must contain at least 1 stage''), cs, s, [])
      else
        (let sched = activate_schedule now sched;
             cs = put_schedule (scheduleKey (sc_ProjectID sched) (sc_FlagKey sched)) sched cs;
             initialPct = st_TargetPercentage (sc_Stages sched ! 0)
         in case UpdateRolloutByProject rt (clks 0) s (sc_ProjectID sched) (sc_FlagKey sched) (sc_Environment sched)
                initialPct ''canary-scheduler-auto'' of
              (Inl err, s) \<Rightarrow> (Inl (Wrapf ''failed to apply initial canary rollout percentage: '' err), cs, s, [])
            | (Inr _, s) \<Rightarrow> (Inr sched, cs, SaveCanarySchedule (clks 1) s sched,
                [canary_update sched])))"

definition GetSchedule :: "CanaryScheduler \<Rightarrow> MemoryStore \<Rightarrow> string \<Rightarrow> string \<Rightarrow> CanarySchedule option \<times> CanaryScheduler" where
  "GetSchedule cs s projectID flagKey =
     (let key = scheduleKey projectID flagKey in
      case mget (cn_schedules cs) key of
        Some sched \<Rightarrow> (Some sched, cs)
      | None \<Rightarrow>
          (case GetCanarySchedule s projectID flagKey of
             Some sched \<Rightarrow> (Some sched, put_schedule key sched cs)
           | None \<Rightarrow> (None, cs)))"

definition CancelSchedule :: "CanaryScheduler \<Rightarrow> MemoryStore \<Rightarrow> string \<Rightarrow> string \<Rightarrow> bool \<times> CanaryScheduler \<times> MemoryStore" where
  "CancelSchedule cs s projectID flagKey =
     (let key = scheduleKey projectID flagKey;
          found = (mget (cn_schedules cs) key \<noteq> None);
          cs = cs\<lparr>cn_schedules := mdel key (cn_schedules cs)\<rparr>
      in case GetCanarySchedule s projectID flagKey of
           Some _ \<Rightarrow> (True, cs, DeleteCanarySchedule s projectID flagKey)
         | None \<Rightarrow> (found, cs, s))"

text \<open>The synchronization with the schedules that other replicas stored.\<close>

definition sync_one :: "CanarySchedule \<Rightarrow> CanaryScheduler \<Rightarrow> CanaryScheduler" where
  "sync_one sc cs =
     (let k = scheduleKey (sc_ProjectID sc) (sc_FlagKey sc) in
      case mget (cn_schedules cs) k of
        None \<Rightarrow> put_schedule k sc cs
      | Some existing \<Rightarrow> if sc_UpdatedAt existing < sc_UpdatedAt sc then put_schedule k sc cs else cs)"

definition evaluate_one :: "runtime \<Rightarrow> gtime \<Rightarrow> (nat \<Rightarrow> clock) \<Rightarrow> CanarySchedule \<Rightarrow> MemoryStore
  \<Rightarrow> (CanarySchedule \<times> MemoryStore \<times> int \<times> bcast list) option" where
  "evaluate_one rt now clks sched s =
     (if sc_Status sched \<noteq> CanaryActive then Some (sched, s, 0, [])
      else let sched = sched\<lparr>sc_LastEvaluatedAt := now\<rparr> in
        case CanAdvanceStage sched now of
          None \<Rightarrow> None
        | Some (canAdvance, nextStage, isCompletion) \<Rightarrow>
            if \<not> canAdvance then Some (sched, s, 0, [])
            else if isCompletion then
              (case CommitStageAdvancement sched now of
                 None \<Rightarrow> None
               | Some sched \<Rightarrow> Some (sched, SaveCanarySchedule (clks 1) s sched, 0,
                   [canary_completed (sc_ProjectID sched) (sc_FlagKey sched)]))
            else (case nextStage of
                None \<Rightarrow> Some (sched, s, 0, [])
              | Some next \<Rightarrow>
                  (case UpdateRolloutByProject rt (clks 0) s (sc_ProjectID sched) (sc_FlagKey sched)
                      (sc_Environment sched) (st_TargetPercentage next) ''canary-scheduler-auto'' of
                     (Inl err, s) \<Rightarrow>
                       (let sched = sched\<lparr>sc_Status := CanaryNeedsAttention,
                              sc_RollbackReason := ''stage advancement failed to persist: '' @ Error err,
                              sc_UpdatedAt := now\<rparr>
                        in Some (sched, SaveCanarySchedule (clks 1) s sched, 0, []))
                   | (Inr _, s) \<Rightarrow>
                       (case CommitStageAdvancement sched now of
                          None \<Rightarrow> None
                        | Some sched \<Rightarrow> Some (sched, SaveCanarySchedule (clks 1) s sched, 1,
                            [canary_stage_advanced (sc_ProjectID sched) (sc_FlagKey sched) (sc_CurrentStageIdx sched)
                              (st_TargetPercentage next)])))))"

fun evaluate_loop :: "runtime \<Rightarrow> gtime \<Rightarrow> (nat \<Rightarrow> nat \<Rightarrow> clock) \<Rightarrow> nat \<Rightarrow> (string \<times> CanarySchedule) list
  \<Rightarrow> CanaryScheduler \<Rightarrow> MemoryStore \<Rightarrow> (int \<times> CanaryScheduler \<times> MemoryStore \<times> bcast list) option" where
  "evaluate_loop rt now clks i [] cs s = Some (0, cs, s, [])"
| "evaluate_loop rt now clks i ((k, sched) # rest) cs s =
     (case evaluate_one rt now (clks i) sched s of
        None \<Rightarrow> None
      | Some (sched', s', n, ev) \<Rightarrow>
          (case evaluate_loop rt now clks (Suc i) rest (put_schedule k sched' cs) s' of
             None \<Rightarrow> None
           | Some (m, cs', s'', ev') \<Rightarrow> Some (n + m, cs', s'', ev @ ev')))"

definition EvaluateSchedules :: "runtime \<Rightarrow> CanarySchedule iter \<Rightarrow> CanarySchedule iter \<Rightarrow> gtime \<Rightarrow> (nat \<Rightarrow> nat \<Rightarrow> clock)
  \<Rightarrow> CanaryScheduler \<Rightarrow> MemoryStore \<Rightarrow> (int \<times> CanaryScheduler \<times> MemoryStore \<times> bcast list) option" where
  "EvaluateSchedules rt sord ord now clks cs s =
     (let cs = fold sync_one (ListActiveCanarySchedules sord s) cs
      in evaluate_loop rt now clks 0 (ord (cn_schedules cs)) cs s)"

definition TriggerHealthRollback :: "runtime \<Rightarrow> gtime \<Rightarrow> (nat \<Rightarrow> clock) \<Rightarrow> CanaryScheduler \<Rightarrow> MemoryStore \<Rightarrow> string \<Rightarrow> string
  \<Rightarrow> string \<Rightarrow> unit result \<times> CanaryScheduler \<times> MemoryStore \<times> bcast list" where
  "TriggerHealthRollback rt now clks cs s projectID flagKey reason =
     (let key = scheduleKey projectID flagKey;
          (found, cs) = GetSchedule cs s projectID flagKey
      in case found of
           None \<Rightarrow> (Inl (Errorf (''no active canary schedule for flag '' @ flagKey @ '' in project '' @ projectID)), cs, s, [])
         | Some sched \<Rightarrow>
             (case UpdateRolloutByProject rt (clks 0) s (sc_ProjectID sched) (sc_FlagKey sched) (sc_Environment sched)
                 (Fin 0) ''canary-health-rollback'' of
                (Inl err, s) \<Rightarrow>
                  (let sched = sched\<lparr>sc_Status := CanaryNeedsAttention,
                         sc_RollbackReason := ''rollback failed to persist: '' @ Error err, sc_UpdatedAt := now\<rparr>
                   in (Inl (Wrapf ''failed to revert rollout to 0%: '' err), put_schedule key sched cs,
                       SaveCanarySchedule (clks 1) s sched, []))
              | (Inr _, s) \<Rightarrow>
                  (let sched = sched\<lparr>sc_Status := CanaryRolledBack, sc_RollbackReason := reason, sc_UpdatedAt := now\<rparr>
                   in (Inr (), put_schedule key sched cs, SaveCanarySchedule (clks 1) s sched,
                       [canary_rollback (sc_ProjectID sched) (sc_FlagKey sched) reason]))))"

section \<open>Stage times\<close>

lemma nsec_fl:
  assumes "0 < n" and "n < 1000000000"
  shows "\<exists>f. fdiv (f64_of_int n) (f64_of_int 1000000000) = Fin f \<and> \<bar>f - of_int n / 1000000000\<bar> \<le> 1 / 2 ^ 53"
proof -
  let ?x = "of_int n / 1000000000 :: rat"
  have n: "1 \<le> (of_int n :: rat)" "(of_int n :: rat) < 1000000000"
    using assms of_int_le_iff [where 'a = rat, of 1 n] of_int_less_iff [where 'a = rat, of n 1000000000] by simp_all
  have lo: "2 powi (- 1022) \<le> \<bar>?x\<bar>"
  proof -
    have "(2::rat) powi (- 1022) \<le> 2 powi (- 30)" by (rule power_int_increasing) auto
    also have "(2::rat) powi (- 30) \<le> 1 / 1000000000" by (simp add: power_int_minus)
    also have "\<dots> \<le> \<bar>?x\<bar>" using n by (simp add: divide_right_mono)
    finally show ?thesis .
  qed
  have hi: "\<bar>?x\<bar> \<le> 1" using n by simp
  then have "\<bar>?x\<bar> \<le> 2 ^ 1000" by (rule order_trans) simp
  with lo have "fl ?x = Fin (rndq ?x)" by (rule fl_normal(1))
  moreover have "\<bar>rndq ?x - ?x\<bar> \<le> 1 / 2 ^ 53"
  proof -
    have "\<bar>rndq ?x - ?x\<bar> \<le> \<bar>?x\<bar> / 2 ^ 53" by (rule rndq_err [OF lo])
    also have "\<dots> \<le> 1 / 2 ^ 53" using hi by (rule divide_right_mono) simp
    finally show ?thesis .
  qed
  ultimately show ?thesis
    using assms f64_of_int_exact [of n] f64_of_int_exact [of 1000000000] by (simp add: fdiv_def is_fin_def)
qed

text \<open>\<open>Seconds\<close> of a duration that is not a whole number of seconds, with its error.\<close>

lemma Seconds_near:
  assumes "0 \<le> q" and "q < 2 ^ 40" and "0 < n" and "n < 1000000000"
  shows "\<exists>m. Seconds (q * Second + n) = Fin m
    \<and> \<bar>m - (of_int q + of_int n / 1000000000)\<bar> \<le> (of_int q + 3) / 2 ^ 53"
proof -
  let ?d = "q * Second + n"
  have d: "0 < ?d" "?d div Second = q" "?d mod Second = n"
    using assms by (auto simp: Second_def)
  obtain f where f: "fdiv (f64_of_int n) (f64_of_int 1000000000) = Fin f" "\<bar>f - of_int n / 1000000000\<bar> \<le> 1 / 2 ^ 53"
    using nsec_fl [OF assms(3,4)] by blast
  have q: "f64_of_int q = Fin (of_int q)" using assms(1,2) by (intro f64_of_int_exact) auto
  have qr: "0 \<le> (of_int q :: rat)" "(of_int q :: rat) \<le> 2 ^ 40"
    using assms(1,2) of_int_le_iff [where 'a = rat, of q "2 ^ 40"] by simp_all
  have n: "1 \<le> (of_int n :: rat)" "(of_int n :: rat) \<le> 999999999"
    using assms(3,4) of_int_le_iff [where 'a = rat, of 1 n] of_int_le_iff [where 'a = rat, of n 999999999] by simp_all
  have f0: "1 / 2 ^ 31 \<le> f" "f \<le> 1"
  proof -
    have "1 / 2 ^ 31 + 1 / 2 ^ 53 \<le> (1 / 1000000000 :: rat)" by simp
    moreover have "1 / 1000000000 \<le> (of_int n / 1000000000 :: rat)" using n by (simp add: divide_right_mono)
    moreover have "(of_int n / 1000000000 :: rat) \<le> 999999999 / 1000000000" using n by (simp add: divide_right_mono)
    moreover have "999999999 / 1000000000 + 1 / 2 ^ 53 \<le> (1 :: rat)" by simp
    ultimately show "1 / 2 ^ 31 \<le> f" "f \<le> 1" using f(2) by linarith+
  qed
  let ?x = "of_int q + f"
  have lo: "2 powi (- 1022) \<le> \<bar>?x\<bar>"
  proof -
    have "(2::rat) powi (- 1022) \<le> 2 powi (- 31)" by (rule power_int_increasing) auto
    also have "(2::rat) powi (- 31) = 1 / 2 ^ 31" by (simp add: power_int_minus)
    finally show ?thesis using qr f0 by linarith
  qed
  have hi: "\<bar>?x\<bar> \<le> 2 ^ 1000"
  proof -
    have "\<bar>?x\<bar> \<le> 2 ^ 41" using qr f0 by simp
    also have "(2::rat) ^ 41 \<le> 2 ^ 1000" by (rule power_increasing) auto
    finally show ?thesis .
  qed
  have "Seconds ?d = fadd (Fin (of_int q)) (Fin f)"
    using d f(1) q by (simp add: Seconds_def Let_def)
  also have "\<dots> = fl ?x"
    using f0 qr by (simp add: fadd_def is_fin_def)
  also have "\<dots> = Fin (rndq ?x)" by (rule fl_normal(1) [OF lo hi])
  finally have s: "Seconds ?d = Fin (rndq ?x)" .
  have "\<bar>rndq ?x - ?x\<bar> \<le> \<bar>?x\<bar> / 2 ^ 53" by (rule rndq_err [OF lo])
  also have "\<dots> \<le> (of_int q + 1) / 2 ^ 53" using qr f0 by (intro divide_right_mono) auto
  finally have "\<bar>rndq ?x - (of_int q + of_int n / 1000000000)\<bar> \<le> (of_int q + 1) / 2 ^ 53 + 1 / 2 ^ 53"
    using f(2) by linarith
  also have "\<dots> \<le> (of_int q + 3) / 2 ^ 53" by (simp add: divide_right_mono flip: add_divide_distrib)
  finally show ?thesis using s by blast
qed

lemma Seconds_whole: "0 \<le> q \<Longrightarrow> q < 2 ^ 40 \<Longrightarrow> Seconds (q * Second) = Fin (of_int q)"
proof -
  assume q: "0 \<le> q" "q < 2 ^ 40"
  have z: "f64_of_int 0 = Fin 0" by (simp add: f64_of_int_def)
  have d: "fdiv (f64_of_int 0) (f64_of_int 1000000000) = Fin 0"
    unfolding z using f64_of_int_exact [of 1000000000] by (simp add: fdiv_def is_fin_def signed_zero_def)
  have e: "f64_of_int q = Fin (of_int q)" using q by (intro f64_of_int_exact) auto
  have "fl (of_int q) = Fin (of_int q)" using e by (simp add: f64_of_int_def)
  then have "fadd (Fin (of_int q)) (Fin 0) = Fin (of_int q)"
    by (simp add: fadd_def is_fin_def)
  moreover have "sgn (q * Second) * (\<bar>q * Second\<bar> div Second) = q" "sgn (q * Second) * (\<bar>q * Second\<bar> mod Second) = 0"
    using q by (auto simp: Second_def sgn_if)
  ultimately show "Seconds (q * Second) = Fin (of_int q)" by (simp add: Seconds_def d e)
qed

lemma stage_elapsed_exact:
  assumes "0 \<le> d" and "d \<le> maxDuration" and "0 \<le> D" and "D \<le> 2 ^ 20"
  shows "fle (f64_of_int D) (Seconds d) \<longleftrightarrow> D * Second \<le> d"
proof -
  define q n where "q = d div Second" and "n = d mod Second"
  have dq: "d = q * Second + n" and nb: "0 \<le> n" "n < 1000000000" by (auto simp: q_def n_def Second_def)
  have "q \<le> maxDuration div Second" unfolding q_def using assms(2) by (simp add: zdiv_mono1 Second_def)
  then have q: "0 \<le> q" "q < 2 ^ 40" using assms(1) by (auto simp: q_def maxDuration_def Second_def pos_imp_zdiv_nonneg_iff)
  have D: "f64_of_int D = Fin (of_int D)" using assms(3,4) by (intro f64_of_int_exact) auto
  have iff: "D * Second \<le> d \<longleftrightarrow> D \<le> q" using dq nb by (auto simp: Second_def)
  show ?thesis
  proof (cases "n = 0")
    case True
    then show ?thesis using Seconds_whole [OF q] dq D iff by simp
  next
    case False
    with nb have n: "0 < n" "n < 1000000000" by auto
    then have nr: "1 \<le> (of_int n :: rat)" "(of_int n :: rat) \<le> 999999999"
      using of_int_le_iff [where 'a = rat, of 1 n] of_int_le_iff [where 'a = rat, of n 999999999] by simp_all
    obtain m where m: "Seconds d = Fin m"
      "\<bar>m - (of_int q + of_int n / 1000000000)\<bar> \<le> (of_int q + 3) / 2 ^ 53"
      using Seconds_near [OF q n] dq by auto
    have "of_int D \<le> m \<longleftrightarrow> D \<le> q"
    proof (cases q "2 ^ 20 :: int" rule: linorder_cases)
      case greater
      have "(of_int q :: rat) \<le> 2 ^ 40" using q(2) of_int_le_iff [where 'a = rat, of q "2 ^ 40"] by simp
      then have "(of_int q + 3) / 2 ^ 53 \<le> (1 :: rat)" by simp
      moreover have "of_int D + 1 \<le> (of_int q :: rat)"
        using greater assms(4) of_int_le_iff [where 'a = rat, of "D + 1" q] by simp
      moreover have "0 \<le> (of_int n / 1000000000 :: rat)" using nr by simp
      ultimately have "of_int D \<le> m" using m(2) by linarith
      with greater assms(4) show ?thesis by simp
    next
      case equal
      then have "(of_int q + 3) / 2 ^ 53 \<le> (1 / 2 ^ 32 :: rat)" by simp
      moreover have "1 / 1000000000 \<le> (of_int n / 1000000000 :: rat)" using nr by (simp add: divide_right_mono)
      moreover have "1 / 2 ^ 32 \<le> (1 / 1000000000 :: rat)" by simp
      ultimately have "of_int q \<le> m" using m(2) by linarith
      with equal assms(4) show ?thesis
        by (metis of_int_le_iff order_trans)
    next
      case less
      then have "of_int q + 1 \<le> (2 ^ 20 :: rat)" using of_int_le_iff [where 'a = rat, of "q + 1" "2 ^ 20"] by simp
      then have err: "(of_int q + 3) / 2 ^ 53 \<le> (1 / 2 ^ 32 :: rat)" by simp
      have c: "1 / 2 ^ 32 < (1 / 1000000000 :: rat)" by simp
      have "1 / 1000000000 \<le> (of_int n / 1000000000 :: rat)" "(of_int n / 1000000000 :: rat) \<le> 1 - 1 / 1000000000"
        using nr by (simp_all add: divide_right_mono)
      with m(2) err c have lo: "of_int q \<le> m" and hi: "m < of_int q + 1" by linarith+
      have "of_int D \<le> m \<Longrightarrow> D \<le> q"
      proof (rule ccontr)
        assume "of_int D \<le> m" "\<not> D \<le> q"
        then have "of_int q + 1 \<le> (of_int D :: rat)" using of_int_le_iff [where 'a = rat, of "q + 1" D] by simp
        with hi \<open>of_int D \<le> m\<close> show False by simp
      qed
      moreover have "D \<le> q \<Longrightarrow> of_int D \<le> m" using lo by (metis of_int_le_iff order_trans)
      ultimately show ?thesis by blast
    qed
    with m(1) D iff show ?thesis by simp
  qed
qed

section \<open>Well-formed schedules\<close>

definition sched_ok :: "CanarySchedule \<Rightarrow> bool" where
  "sched_ok c \<longleftrightarrow> 0 \<le> sc_CurrentStageIdx c \<and> sc_CurrentStageIdx c \<le> int (length (sc_Stages c))
     \<and> (sc_Status c = ''ACTIVE'' \<longrightarrow> sc_CurrentStageIdx c < int (length (sc_Stages c)))"

definition canary_ok :: "CanaryScheduler \<Rightarrow> MemoryStore \<Rightarrow> bool" where
  "canary_ok cs s \<longleftrightarrow> (\<forall>(k, c) \<in> set (cn_schedules cs). sched_ok c) \<and> (\<forall>(k, c) \<in> set (ms_canarySchedules s). sched_ok c)"

lemma mput_all: "\<forall>(j, c) \<in> set m. P c \<Longrightarrow> P v \<Longrightarrow> \<forall>(j, c) \<in> set (mput k v m). P c"
  using set_mput [of k v m] by auto

lemma CanAdvance_ok:
  assumes "sched_ok c" and "sc_Status c = ''ACTIVE''"
  shows "CanAdvanceStage c now =
    (let i = nat (sc_CurrentStageIdx c); st = sc_Stages c ! i in
     Some (if fle (f64_of_int (st_DurationSec st)) (Seconds (time_sub now (st_StartedAt st)))
       then if Suc i < length (sc_Stages c) then (True, Some (sc_Stages c ! Suc i), False) else (True, None, True)
       else (False, None, False)))"
proof -
  obtain i where i: "sc_CurrentStageIdx c = int i" "i < length (sc_Stages c)"
    using assms by (auto simp: sched_ok_def) (metis nonneg_int_cases of_nat_less_iff)
  then have "nat (int i + 1) = Suc i" by simp
  with i assms(2) show ?thesis
    by (auto simp: CanAdvanceStage_def go_index_def Let_def)
qed

lemma Commit_ok:
  assumes "sched_ok c" and "sc_Status c = ''ACTIVE''"
  obtains c' where "CommitStageAdvancement c now = Some c'" and "sched_ok c'"
    and "sc_CurrentStageIdx c' = sc_CurrentStageIdx c + 1" and "sc_ProjectID c' = sc_ProjectID c"
    and "sc_FlagKey c' = sc_FlagKey c" and "length (sc_Stages c') = length (sc_Stages c)"
    and "sc_Status c' = (if sc_CurrentStageIdx c + 1 = int (length (sc_Stages c)) then ''COMPLETED'' else ''ACTIVE'')"
proof -
  have i: "0 \<le> sc_CurrentStageIdx c" "sc_CurrentStageIdx c < int (length (sc_Stages c))"
    using assms by (auto simp: sched_ok_def)
  then have "CommitStageAdvancement c now \<noteq> None"
    by (simp add: CommitStageAdvancement_def Let_def)
  then obtain c' where e: "CommitStageAdvancement c now = Some c'" by blast
  then have f: "sc_CurrentStageIdx c' = sc_CurrentStageIdx c + 1" "sc_ProjectID c' = sc_ProjectID c"
    "sc_FlagKey c' = sc_FlagKey c" "length (sc_Stages c') = length (sc_Stages c)"
    "sc_Status c' = (if sc_CurrentStageIdx c + 1 = int (length (sc_Stages c)) then ''COMPLETED'' else ''ACTIVE'')"
    using i assms(2) by (auto simp: CommitStageAdvancement_def Let_def split: if_splits)
  then have "sched_ok c'" using i by (auto simp: sched_ok_def)
  with e f that show ?thesis by blast
qed

lemma Save_ok:
  assumes "\<forall>(k, c) \<in> set (ms_canarySchedules s). sched_ok c" and "sched_ok c"
  shows "\<forall>(k, c) \<in> set (ms_canarySchedules (SaveCanarySchedule clk s c)). sched_ok c"
proof -
  obtain k c' where s': "ms_canarySchedules (SaveCanarySchedule clk s c) = mput k c' (ms_canarySchedules s)"
    and c': "sc_CurrentStageIdx c' = sc_CurrentStageIdx c" "sc_Stages c' = sc_Stages c" "sc_Status c' = sc_Status c"
    by (simp add: SaveCanarySchedule_def Let_def)
  have "sched_ok c'" using assms(2) c' by (simp add: sched_ok_def)
  then show ?thesis unfolding s' by (rule mput_all [OF assms(1)])
qed

lemma rollout_keeps_schedules [simp]:
  "ms_canarySchedules (snd (UpdateRolloutByProject rt clk s p k env pct actor)) = ms_canarySchedules s"
proof -
  have "ms_canarySchedules (snd (appendAuditLogLocked rt now s e)) = ms_canarySchedules s" for now s e
    by (auto simp: appendAuditLogLocked_def Let_def split: option.splits)
  then show ?thesis
    by (auto simp: UpdateRolloutByProject_def finish_update_def publish_def Let_def split_beta split: option.splits)
qed

lemma evaluate_one_ok:
  assumes "sched_ok c" and "\<forall>(k, c) \<in> set (ms_canarySchedules s). sched_ok c"
  shows "\<exists>c' s' n ev. evaluate_one rt now clks c s = Some (c', s', n, ev) \<and> sched_ok c'
    \<and> (\<forall>(k, c) \<in> set (ms_canarySchedules s'). sched_ok c)"
proof (cases "sc_Status c = ''ACTIVE''")
  case False
  then show ?thesis using assms by (simp add: evaluate_one_def)
next
  case True
  let ?c = "c\<lparr>sc_LastEvaluatedAt := now\<rparr>"
  have ok: "sched_ok ?c" "sc_Status ?c = ''ACTIVE''" using assms(1) True by (auto simp: sched_ok_def)
  obtain c' where c': "CommitStageAdvancement ?c now = Some c'" "sched_ok c'" by (rule Commit_ok [OF ok])
  obtain adv nx comp where ca: "CanAdvanceStage ?c now = Some (adv, nx, comp)"
    using CanAdvance_ok [OF ok, of now] by (metis prod_cases3)
  have up: "\<And>pct. \<exists>r s1. UpdateRolloutByProject rt (clks 0) s (sc_ProjectID c) (sc_FlagKey c)
      (sc_Environment c) pct ''canary-scheduler-auto'' = (r, s1) \<and> ms_canarySchedules s1 = ms_canarySchedules s"
    by (metis prod.collapse rollout_keeps_schedules)
  have na: "sched_ok (?c\<lparr>sc_Status := ''NEEDS_ATTENTION'', sc_RollbackReason := x, sc_UpdatedAt := now\<rparr>)" for x
    using assms(1) by (auto simp: sched_ok_def)
  show ?thesis
  proof (cases "adv \<and> \<not> comp")
    case False
    then show ?thesis using True ca c' ok(1) assms(2) Save_ok [OF assms(2) c'(2)]
      by (auto simp: evaluate_one_def Let_def split: option.splits)
  next
    case adv: True
    show ?thesis
    proof (cases nx)
      case None
      with adv True ca ok(1) assms(2) show ?thesis by (simp add: evaluate_one_def Let_def)
    next
      case (Some nxt)
      obtain r s1 where u: "UpdateRolloutByProject rt (clks 0) s (sc_ProjectID c) (sc_FlagKey c)
          (sc_Environment c) (st_TargetPercentage nxt) ''canary-scheduler-auto'' = (r, s1)"
        "ms_canarySchedules s1 = ms_canarySchedules s" using up by blast
      have s1: "\<forall>(k, c) \<in> set (ms_canarySchedules s1). sched_ok c" using assms(2) u(2) by simp
      show ?thesis
        using adv True ca Some u c' Save_ok [OF s1 c'(2)] Save_ok [OF s1 na] na
        by (cases r) (simp_all add: evaluate_one_def Let_def)
    qed
  qed
qed

lemma evaluate_loop_ok:
  assumes "\<forall>(k, c) \<in> set es. sched_ok c" and "canary_ok cs s"
  shows "\<exists>n cs' s' ev. evaluate_loop rt now clks i es cs s = Some (n, cs', s', ev) \<and> canary_ok cs' s'"
  using assms
proof (induction es arbitrary: i cs s)
  case (Cons e es)
  obtain k c where e: "e = (k, c)" by fastforce
  obtain c' s' n ev where o: "evaluate_one rt now (clks i) c s = Some (c', s', n, ev)" "sched_ok c'"
    "\<forall>(k, c) \<in> set (ms_canarySchedules s'). sched_ok c"
    using evaluate_one_ok [of c s rt now "clks i"] Cons.prems e by (auto simp: canary_ok_def)
  have "canary_ok (put_schedule k c' cs) s'"
    using Cons.prems(2) o(2,3) mput_all [of "cn_schedules cs" sched_ok c' k] by (auto simp: canary_ok_def put_schedule_def)
  with Cons.IH [of "put_schedule k c' cs" s' "Suc i"] Cons.prems(1) obtain n' cs' s'' ev' where
    "evaluate_loop rt now clks (Suc i) es (put_schedule k c' cs) s' = Some (n', cs', s'', ev')" "canary_ok cs' s''"
    by auto
  with o e show ?case by simp
qed simp

lemma sync_ok:
  assumes "\<forall>c \<in> set l. sched_ok c" and "canary_ok cs s"
  shows "canary_ok (fold sync_one l cs) s"
  using assms
proof (induction l arbitrary: cs)
  case (Cons c l)
  have "\<forall>(k, c) \<in> set (mput k c (cn_schedules cs)). sched_ok c" for k
    using Cons.prems mput_all [of "cn_schedules cs" sched_ok c k] by (auto simp: canary_ok_def)
  then have "canary_ok (sync_one c cs) s"
    using Cons.prems(2) by (auto simp: sync_one_def canary_ok_def put_schedule_def Let_def split: option.splits)
  with Cons show ?case by simp
qed simp

lemma activate_ok: "sc_Stages c \<noteq> [] \<Longrightarrow> sched_ok (activate_schedule now c)"
  by (simp add: sched_ok_def activate_schedule_def)

lemma Submit_ok:
  assumes "canary_ok cs s" and "SubmitSchedule rt now clks cs s c0 = (r, cs', s', ev)"
  shows "canary_ok cs' s'"
proof (cases "sc_Stages (prepare_schedule now c0) = []")
  case True
  with assms show ?thesis by (simp add: SubmitSchedule_def Let_def)
next
  case False
  let ?c = "activate_schedule now (prepare_schedule now c0)"
  have ok: "sched_ok ?c" by (rule activate_ok [OF False])
  have in_cs: "\<forall>(k, c) \<in> set (mput k ?c (cn_schedules cs)). sched_ok c" for k
    using assms(1) ok mput_all [of "cn_schedules cs" sched_ok ?c k] by (auto simp: canary_ok_def)
  obtain u s1 where u: "UpdateRolloutByProject rt (clks 0) s (sc_ProjectID ?c) (sc_FlagKey ?c) (sc_Environment ?c)
      (st_TargetPercentage (sc_Stages ?c ! 0)) ''canary-scheduler-auto'' = (u, s1)"
    and k: "ms_canarySchedules s1 = ms_canarySchedules s"
    by (metis prod.collapse rollout_keeps_schedules)
  have s1: "\<forall>(k, c) \<in> set (ms_canarySchedules s1). sched_ok c" using assms(1) k by (simp add: canary_ok_def)
  have r: "cs' = put_schedule (scheduleKey (sc_ProjectID ?c) (sc_FlagKey ?c)) ?c cs
      \<and> (s' = s1 \<or> s' = SaveCanarySchedule (clks 1) s1 ?c)"
    using assms(2) False u by (cases u) (auto simp: SubmitSchedule_def Let_def)
  then have "\<forall>(k, c) \<in> set (ms_canarySchedules s'). sched_ok c" using s1 Save_ok [OF s1 ok] by metis
  moreover have "\<forall>(k, c) \<in> set (cn_schedules cs'). sched_ok c" using r in_cs by (simp add: put_schedule_def)
  ultimately show ?thesis unfolding canary_ok_def by blast
qed

section \<open>Properties\<close>

text \<open>
  The scheduler never runs off its stages: with stage indexes in range to begin with,
  \<open>EvaluateSchedules\<close> never panics, whatever the order of its maps, and every schedule it holds or
  stores afterwards has its index in range, below the number of stages while it is active;
  submitting any schedule keeps this.
\<close>

theorem scheduler_never_panics:
  assumes "canary_ok cs s" and "is_order sord" and "is_order ord"
  shows "(\<exists>n cs' s' ev. EvaluateSchedules rt sord ord now clks cs s = Some (n, cs', s', ev) \<and> canary_ok cs' s')
    \<and> (\<forall>r cs' s' ev c. SubmitSchedule rt now (clks 0) cs s c = (r, cs', s', ev) \<longrightarrow> canary_ok cs' s')"
proof -
  have "\<forall>c \<in> set (ListActiveCanarySchedules sord s). sched_ok c"
    using assms(1,2) is_order_set [OF assms(2)] by (auto simp: ListActiveCanarySchedules_def canary_ok_def)
  then have ok: "canary_ok (fold sync_one (ListActiveCanarySchedules sord s) cs) s" by (rule sync_ok [OF _ assms(1)])
  then have "\<forall>(k, c) \<in> set (ord (cn_schedules (fold sync_one (ListActiveCanarySchedules sord s) cs))). sched_ok c"
    using is_order_set [OF assms(3)] by (simp add: canary_ok_def)
  from evaluate_loop_ok [OF this ok] Submit_ok [OF assms(1)] show ?thesis
    by (simp add: EvaluateSchedules_def Let_def)
qed

definition demo_stage :: "rat \<Rightarrow> CanaryStage" where
  "demo_stage pct = \<lparr>st_Index = 0, st_TargetPercentage = Fin pct, st_DurationSec = 60, st_StartedAt = 0, st_CompletedAt = 0\<rparr>"

definition demo_schedule :: CanarySchedule where
  "demo_schedule = \<lparr>sc_ID = ''s1'', sc_ProjectID = ''acme'', sc_FlagKey = ''pay'', sc_Environment = ''production'',
     sc_Status = ''ACTIVE'', sc_CurrentStageIdx = 0, sc_Stages = [demo_stage 5, demo_stage 50],
     sc_Guardrails = \<lparr>gr_MaxErrorRatePct = Fin 1, gr_MaxP99LatencyMs = Fin 200, gr_AutoRollback = True, gr_AlertWebhookURL = []\<rparr>,
     sc_RollbackReason = [], sc_CreatedAt = 0, sc_UpdatedAt = 0, sc_LastEvaluatedAt = 0\<rparr>"

lemma demo_schedule_ok: "sched_ok demo_schedule" "sc_Status demo_schedule = ''ACTIVE''"
  by (simp_all add: sched_ok_def demo_schedule_def)

theorem scheduler_never_panics_witness:
  "\<exists>n cs' s' ev. EvaluateSchedules demo_runtime id rev 7 (\<lambda>_ _ _. 7) \<lparr>cn_schedules = [(''acme:pay'', demo_schedule)]\<rparr> demo_flags =
     Some (n, cs', s', ev)"
proof -
  have "canary_ok \<lparr>cn_schedules = [(''acme:pay'', demo_schedule)]\<rparr> demo_flags"
    using demo_schedule_ok by (simp add: canary_ok_def demo_flags_def publish_def NewMemoryStore_def)
  from scheduler_never_panics [OF this is_order_id(1) is_order_rev] show ?thesis by metis
qed

text \<open>
  A stage is held for exactly its duration: an active schedule whose stage started no later
  than now may advance exactly when the stage's whole number of seconds has passed, to the
  nanosecond, for durations up to \<open>2\<^sup>2\<^sup>0\<close> seconds; the floating-point comparison of the code is exact
  there.
\<close>

theorem stage_never_early:
  assumes "sched_ok c" and "sc_Status c = ''ACTIVE''" and "st = sc_Stages c ! nat (sc_CurrentStageIdx c)"
    and "st_StartedAt st \<le> now" and "0 \<le> st_DurationSec st" and "st_DurationSec st \<le> 2 ^ 20"
  shows "\<exists>nxt comp. CanAdvanceStage c now =
    Some (st_DurationSec st * Second \<le> now - st_StartedAt st, nxt, comp)"
proof -
  let ?d = "time_sub now (st_StartedAt st)"
  have d: "0 \<le> ?d" "?d \<le> maxDuration" using assms(4) by (auto simp: time_sub_def maxDuration_def minDuration_def)
  have "st_DurationSec st * Second \<le> maxDuration"
    using assms(5,6) by (simp add: Second_def maxDuration_def)
  then have "st_DurationSec st * Second \<le> ?d \<longleftrightarrow> st_DurationSec st * Second \<le> now - st_StartedAt st"
    using assms(4) by (auto simp: time_sub_def maxDuration_def minDuration_def)
  with stage_elapsed_exact [OF d assms(5,6)] show ?thesis
    using CanAdvance_ok [OF assms(1,2), of now] assms(3) by (auto simp: Let_def)
qed

theorem stage_never_early_witness:
  "\<exists>nxt comp. CanAdvanceStage demo_schedule 59999999999 = Some (False, nxt, comp)"
  using stage_never_early [OF demo_schedule_ok refl, of 59999999999]
  by (simp add: demo_schedule_def demo_stage_def Second_def)

text \<open>
  The rollout is persisted first: evaluating an active schedule leaves its stage index alone
  or moves it by one; and it moves to a further stage only after the store accepted that stage's
  percentage. When the store refuses, the index stays, nothing is advanced and the schedule is
  marked \<open>NEEDS_ATTENTION\<close>.
\<close>

theorem advance_after_persist:
  assumes "sched_ok c" and "sc_Status c = ''ACTIVE''" and "evaluate_one rt now clks c s = Some (c', s', n, ev)"
  shows "(sc_CurrentStageIdx c' = sc_CurrentStageIdx c \<and> n = 0) \<or>
    (sc_CurrentStageIdx c' = sc_CurrentStageIdx c + 1 \<and>
      (sc_Status c' = ''COMPLETED'' \<and> n = 0 \<and> sc_CurrentStageIdx c' = int (length (sc_Stages c))
       \<or> n = 1 \<and> (\<exists>x s1. UpdateRolloutByProject rt (clks 0) s (sc_ProjectID c) (sc_FlagKey c) (sc_Environment c)
             (st_TargetPercentage (sc_Stages c ! nat (sc_CurrentStageIdx c'))) ''canary-scheduler-auto'' = (Inr x, s1)
           \<and> ms_flagsSnapshot s' = ms_flagsSnapshot s1)))"
proof -
  let ?c = "c\<lparr>sc_LastEvaluatedAt := now\<rparr>"
  have ok: "sched_ok ?c" "sc_Status ?c = ''ACTIVE''" using assms(1,2) by (auto simp: sched_ok_def)
  obtain i where i: "sc_CurrentStageIdx c = int i" "i < length (sc_Stages c)"
    using assms(1,2) by (auto simp: sched_ok_def) (metis nonneg_int_cases of_nat_less_iff)
  obtain d where d: "CommitStageAdvancement ?c now = Some d" "sc_CurrentStageIdx d = int i + 1"
    "sc_Status d = (if int i + 1 = int (length (sc_Stages c)) then ''COMPLETED'' else ''ACTIVE'')"
    using i by (auto intro: Commit_ok [OF ok, of now])
  have save: "ms_flagsSnapshot (SaveCanarySchedule ck st cc) = ms_flagsSnapshot st" for ck st cc
    by (simp add: SaveCanarySchedule_def Let_def)
  have n: "nat (int i + 1) = Suc i" by simp
  show ?thesis
  proof (cases "fle (f64_of_int (st_DurationSec (sc_Stages c ! i))) (Seconds (time_sub now (st_StartedAt (sc_Stages c ! i))))")
    case False
    then show ?thesis using assms(2,3) CanAdvance_ok [OF ok, of now] i by (auto simp: evaluate_one_def Let_def)
  next
    case go: True
    show ?thesis
    proof (cases "Suc i < length (sc_Stages c)")
      case False
      then have "CanAdvanceStage ?c now = Some (True, None, True)"
        using go CanAdvance_ok [OF ok, of now] i by (simp add: Let_def)
      with False i d assms(2,3) show ?thesis by (auto simp: evaluate_one_def Let_def)
    next
      case True
      then have ca: "CanAdvanceStage ?c now = Some (True, Some (sc_Stages c ! Suc i), False)"
        using go CanAdvance_ok [OF ok, of now] i by (simp add: Let_def)
      obtain r s1 where u: "UpdateRolloutByProject rt (clks 0) s (sc_ProjectID c) (sc_FlagKey c) (sc_Environment c)
          (st_TargetPercentage (sc_Stages c ! Suc i)) ''canary-scheduler-auto'' = (r, s1)" by fastforce
      show ?thesis
        using assms(2,3) ca u d i n save by (cases r) (auto simp: evaluate_one_def Let_def)
    qed
  qed
qed

theorem advance_after_persist_witness:
  "\<exists>c' s' n ev. evaluate_one demo_runtime 7 (\<lambda>_ _. 7) demo_schedule demo_flags = Some (c', s', n, ev)
     \<and> (sc_CurrentStageIdx c' = 0 \<or> sc_CurrentStageIdx c' = 1)"
proof -
  have "\<forall>(k, c) \<in> set (ms_canarySchedules demo_flags). sched_ok c"
    by (simp add: demo_flags_def publish_def NewMemoryStore_def)
  from evaluate_one_ok [OF demo_schedule_ok(1) this, of demo_runtime 7 "\<lambda>_ _. 7"] obtain c' s' n ev where
    e: "evaluate_one demo_runtime 7 (\<lambda>_ _. 7) demo_schedule demo_flags = Some (c', s', n, ev)" by blast
  have "sc_CurrentStageIdx demo_schedule = 0" by (simp add: demo_schedule_def)
  with advance_after_persist [OF demo_schedule_ok e] e show ?thesis by auto
qed

text \<open>
  A health rollback takes effect at once: when \<open>TriggerHealthRollback\<close> succeeds, every flag the
  schedule targets has percentage 0 in that environment and is no longer a plain boolean flag there,
  every other flag is unchanged, and the schedule is \<open>ROLLED_BACK\<close>, so that evaluation passes over it.
\<close>

theorem rollback_takes_effect:
  assumes "TriggerHealthRollback rt now clks cs s p k reason = (Inr (), cs', s', ev)" and "snap_ok s"
    and "\<forall>c. fst (GetSchedule cs s p k) = Some c \<longrightarrow> sc_ProjectID c \<noteq> [] \<and> sc_Environment c \<noteq> []"
  shows "\<exists>c. mget (cn_schedules cs') (scheduleKey p k) = Some c \<and> sc_Status c = ''ROLLED_BACK''
    \<and> (\<forall>rt' now' clks' s2. evaluate_one rt' now' clks' c s2 = Some (c, s2, 0, []))
    \<and> (\<forall>j < length (fs_list (ms_flagsSnapshot s)).
        let f = fs_list (ms_flagsSnapshot s) ! j; f' = fs_list (ms_flagsSnapshot s') ! j in
        if flag_matches (sc_ProjectID c) (sc_FlagKey c) f
        then ec_Percentage (EnvConfig f' (sc_Environment c)) = Fin 0 \<and> ec_Strategy (EnvConfig f' (sc_Environment c)) \<noteq> ''boolean''
        else f' = f)"
proof -
  obtain g cs1 where g: "GetSchedule cs s p k = (g, cs1)" by fastforce
  with assms(1) obtain c0 where c0: "g = Some c0" by (cases g) (auto simp: TriggerHealthRollback_def Let_def)
  obtain u s1 where u: "UpdateRolloutByProject rt (clks 0) s (sc_ProjectID c0) (sc_FlagKey c0) (sc_Environment c0)
      (Fin 0) ''canary-health-rollback'' = (u, s1)" by fastforce
  let ?c = "c0\<lparr>sc_Status := ''ROLLED_BACK'', sc_RollbackReason := reason, sc_UpdatedAt := now\<rparr>"
  from assms(1) g c0 u obtain x where x: "u = Inr x"
    by (cases u) (auto simp: TriggerHealthRollback_def Let_def)
  have cs': "cs' = put_schedule (scheduleKey p k) ?c cs1" and s': "s' = SaveCanarySchedule (clks 1) s1 ?c"
    using assms(1) g c0 u x by (simp_all add: TriggerHealthRollback_def Let_def)
  have ne: "sc_ProjectID c0 \<noteq> []" "sc_Environment c0 \<noteq> []" using assms(3) g c0 by simp_all
  have snap: "ms_flagsSnapshot s' = ms_flagsSnapshot s1" by (simp add: s' SaveCanarySchedule_def Let_def)
  have n: "EnvConfig (normalize_flag h) e = EnvConfig h e" for h e by (simp add: EnvConfig_def)
  have z: "clamp_pct (Fin 0) = Fin 0" by (simp add: clamp_pct_def)
  note eff = UpdateRolloutByProject_effect [OF u [unfolded x] assms(2) ne]
  show ?thesis
  proof (intro exI [of _ ?c] conjI allI impI)
    show "mget (cn_schedules cs') (scheduleKey p k) = Some ?c" by (simp add: cs' put_schedule_def map_simps)
    show "evaluate_one rt' now' clks' ?c s2 = Some (?c, s2, 0, [])" for rt' now' clks' s2
      by (simp add: evaluate_one_def)
    fix j assume "j < length (fs_list (ms_flagsSnapshot s))"
    from eff(3) [OF this] show "let f = fs_list (ms_flagsSnapshot s) ! j; f' = fs_list (ms_flagsSnapshot s') ! j in
        if flag_matches (sc_ProjectID ?c) (sc_FlagKey ?c) f
        then ec_Percentage (EnvConfig f' (sc_Environment ?c)) = Fin 0 \<and> ec_Strategy (EnvConfig f' (sc_Environment ?c)) \<noteq> ''boolean''
        else f' = f"
      by (simp add: snap Let_def z n)
  qed simp
qed

definition demo_scheduler :: CanaryScheduler where
  "demo_scheduler = \<lparr>cn_schedules = [(''acme:pay'', demo_schedule)]\<rparr>"

theorem rollback_takes_effect_witness:
  "\<exists>c. mget (cn_schedules (fst (snd (TriggerHealthRollback demo_runtime 7 (\<lambda>_ _. 7) demo_scheduler demo_flags ''acme'' ''pay'' ''slow''))))
     ''acme:pay'' = Some c \<and> sc_Status c = ''ROLLED_BACK''"
proof -
  let ?t = "TriggerHealthRollback demo_runtime 7 (\<lambda>_ _. 7) demo_scheduler demo_flags ''acme'' ''pay'' ''slow''"
  have g: "GetSchedule demo_scheduler demo_flags ''acme'' ''pay'' = (Some demo_schedule, demo_scheduler)"
    by (simp add: GetSchedule_def scheduleKey_def or_project_def demo_scheduler_def mget_def)
  have "\<exists>x. fst (UpdateRolloutByProject demo_runtime (\<lambda>_. 7) demo_flags ''acme'' ''pay'' ''production'' (Fin 0) ''canary-health-rollback'') = Inr x"
    by (simp add: UpdateRolloutByProject_def finish_update_def demo_flags_list flag_matches_def demo_flag0_def Let_def split: prod.splits)
  then obtain x s1 where u: "UpdateRolloutByProject demo_runtime (\<lambda>_. 7) demo_flags ''acme'' ''pay'' ''production'' (Fin 0) ''canary-health-rollback'' = (Inr x, s1)"
    by (metis prod.collapse)
  have d: "sc_ProjectID demo_schedule = ''acme''" "sc_FlagKey demo_schedule = ''pay''" "sc_Environment demo_schedule = ''production''"
    by (simp_all add: demo_schedule_def)
  have t: "fst ?t = Inr ()" using u by (simp add: TriggerHealthRollback_def g d Let_def)
  obtain r cs' s' ev where e: "?t = (r, cs', s', ev)" by (metis prod_cases4)
  with t have e': "?t = (Inr (), cs', s', ev)" by simp
  have h: "\<forall>c. fst (GetSchedule demo_scheduler demo_flags ''acme'' ''pay'') = Some c \<longrightarrow> sc_ProjectID c \<noteq> [] \<and> sc_Environment c \<noteq> []"
    using g d by simp
  have sk: "scheduleKey ''acme'' ''pay'' = ''acme:pay''" by (simp add: scheduleKey_def or_project_def)
  from rollback_takes_effect [OF e' demo_flags_ok(1) h] e' show ?thesis unfolding sk by auto
qed

end
