(* ===== verification/Circuit_Breaker.thy ===== *)
theory Circuit_Breaker
  imports Prelude
begin

text \<open>
  The two circuit breakers of the repository: the one of the server-side client,
  \<open>src/pkg/client/circuit_breaker.go\<close>, and the one of the Go SDK, \<open>src/sdks/go/circuit_breaker.go\<close>.
  The locale \<open>circuit_breaker\<close> is the contract both serve: fail fast while open, let a request
  through after the cooldown, trip after the threshold of consecutive failures. Its lemmas are
  proved once and hold for both by interpretation. A call reads the clock at most twice; the
  readings are its arguments. Failure counters are below \<open>2\<^sup>6\<^sup>3\<close>.
\<close>

section \<open>The client's breaker\<close>

abbreviation (input) "StateClosed \<equiv> ''CLOSED''"
abbreviation (input) "StateOpen \<equiv> ''OPEN''"
abbreviation (input) "StateHalfOpen \<equiv> ''HALF_OPEN''"

record ClientBreaker =
  cb_state :: string
  cb_failureCount :: int
  cb_consecutiveSucc :: int
  cb_failureThreshold :: int
  cb_cooldown :: duration
  cb_lastStateChange :: gtime

definition client_NewCircuitBreaker :: "gtime \<Rightarrow> int \<Rightarrow> duration \<Rightarrow> ClientBreaker" where
  "client_NewCircuitBreaker now threshold cooldown =
     \<lparr>cb_state = StateClosed, cb_failureCount = 0, cb_consecutiveSucc = 0,
      cb_failureThreshold = (if threshold \<le> 0 then 5 else threshold),
      cb_cooldown = (if cooldown \<le> 0 then 10 * Second else cooldown), cb_lastStateChange = now\<rparr>"

definition client_State :: "gtime \<Rightarrow> gtime \<Rightarrow> ClientBreaker \<Rightarrow> string \<times> ClientBreaker" where
  "client_State t t' cb =
     (let cb = (if cb_state cb = StateOpen \<and> cb_cooldown cb \<le> time_sub t (cb_lastStateChange cb)
                then cb\<lparr>cb_state := StateHalfOpen, cb_lastStateChange := t'\<rparr> else cb)
      in (cb_state cb, cb))"

definition client_Allow :: "gtime \<Rightarrow> gtime \<Rightarrow> ClientBreaker \<Rightarrow> bool \<times> ClientBreaker" where
  "client_Allow t t' cb =
     (if cb_state cb = StateClosed then (True, cb)
      else if cb_state cb = StateOpen then
        (if cb_cooldown cb \<le> time_sub t (cb_lastStateChange cb)
         then (True, cb\<lparr>cb_state := StateHalfOpen, cb_lastStateChange := t'\<rparr>)
         else (False, cb))
      else (True, cb))"

definition client_OnSuccess :: "gtime \<Rightarrow> ClientBreaker \<Rightarrow> ClientBreaker" where
  "client_OnSuccess t cb =
     (if cb_state cb = StateHalfOpen then
        (let cb = cb\<lparr>cb_consecutiveSucc := cb_consecutiveSucc cb + 1\<rparr> in
         if cb_consecutiveSucc cb \<ge> 2
         then cb\<lparr>cb_state := StateClosed, cb_failureCount := 0, cb_consecutiveSucc := 0, cb_lastStateChange := t\<rparr>
         else cb)
      else if cb_state cb = StateClosed then cb\<lparr>cb_failureCount := 0\<rparr>
      else cb)"

definition client_OnFailure :: "gtime \<Rightarrow> ClientBreaker \<Rightarrow> ClientBreaker" where
  "client_OnFailure t cb =
     (let cb = cb\<lparr>cb_failureCount := cb_failureCount cb + 1, cb_consecutiveSucc := 0\<rparr> in
      if cb_state cb = StateHalfOpen \<or> cb_failureCount cb \<ge> cb_failureThreshold cb
      then cb\<lparr>cb_state := StateOpen, cb_lastStateChange := t\<rparr> else cb)"

section \<open>The SDK's breaker\<close>

record SdkBreaker =
  sb_state :: string
  sb_failureCount :: int
  sb_threshold :: int
  sb_cooldown :: duration
  sb_lastFailure :: gtime
  sb_halfOpenInFlight :: bool

definition sdk_NewCircuitBreaker :: "int \<Rightarrow> duration \<Rightarrow> SdkBreaker" where
  "sdk_NewCircuitBreaker threshold cooldown =
     \<lparr>sb_state = StateClosed, sb_failureCount = 0, sb_threshold = (if threshold \<le> 0 then 5 else threshold),
      sb_cooldown = (if cooldown \<le> 0 then 10 * Second else cooldown), sb_lastFailure = 0,
      sb_halfOpenInFlight = False\<rparr>"

definition sdk_Allow :: "gtime \<Rightarrow> SdkBreaker \<Rightarrow> bool \<times> SdkBreaker" where
  "sdk_Allow now cb =
     (if sb_state cb = StateClosed then (True, cb)
      else if sb_state cb = StateOpen then
        (if sb_cooldown cb \<le> time_sub now (sb_lastFailure cb)
         then (True, cb\<lparr>sb_state := StateHalfOpen, sb_halfOpenInFlight := True\<rparr>)
         else (False, cb))
      else if sb_state cb = StateHalfOpen then
        (if \<not> sb_halfOpenInFlight cb then (True, cb\<lparr>sb_halfOpenInFlight := True\<rparr>) else (False, cb))
      else (True, cb))"

definition sdk_RecordSuccess :: "SdkBreaker \<Rightarrow> SdkBreaker" where
  "sdk_RecordSuccess cb = cb\<lparr>sb_failureCount := 0, sb_halfOpenInFlight := False, sb_state := StateClosed\<rparr>"

definition sdk_RecordFailure :: "gtime \<Rightarrow> SdkBreaker \<Rightarrow> SdkBreaker" where
  "sdk_RecordFailure t cb =
     (let cb = cb\<lparr>sb_lastFailure := t\<rparr> in
      if sb_state cb = StateHalfOpen then cb\<lparr>sb_state := StateOpen, sb_halfOpenInFlight := False\<rparr>
      else let cb = cb\<lparr>sb_failureCount := sb_failureCount cb + 1\<rparr> in
        if sb_failureCount cb \<ge> sb_threshold cb
        then cb\<lparr>sb_state := StateOpen, sb_halfOpenInFlight := False\<rparr> else cb)"

definition sdk_State :: "gtime \<Rightarrow> SdkBreaker \<Rightarrow> string \<times> SdkBreaker" where
  "sdk_State t cb =
     (let cb = (if sb_state cb = StateOpen \<and> sb_cooldown cb \<le> time_sub t (sb_lastFailure cb)
                then cb\<lparr>sb_state := StateHalfOpen\<rparr> else cb)
      in (sb_state cb, cb))"

section \<open>The contract\<close>

text \<open>A run of \<open>Allow\<close> calls with their clock readings, and what each of them answered.\<close>

fun allow_run :: "(gtime \<Rightarrow> gtime \<Rightarrow> 'b \<Rightarrow> bool \<times> 'b) \<Rightarrow> (gtime \<times> gtime) list \<Rightarrow> 'b \<Rightarrow> bool list \<times> 'b" where
  "allow_run allow [] b = ([], b)"
| "allow_run allow ((t, t') # ts) b =
     (let (r, b') = allow t t' b; (rs, b'') = allow_run allow ts b' in (r # rs, b''))"

locale circuit_breaker =
  fixes state :: "'b \<Rightarrow> string"
    and count :: "'b \<Rightarrow> int"
    and threshold :: "'b \<Rightarrow> int"
    and cooldown :: "'b \<Rightarrow> duration"
    and opened :: "'b \<Rightarrow> gtime"
    and allow :: "gtime \<Rightarrow> gtime \<Rightarrow> 'b \<Rightarrow> bool \<times> 'b"
    and failure :: "gtime \<Rightarrow> 'b \<Rightarrow> 'b"
  assumes closed_allows: "state b = ''CLOSED'' \<Longrightarrow> allow t t' b = (True, b)"
    and open_refuses: "state b = ''OPEN'' \<Longrightarrow> time_sub t (opened b) < cooldown b \<Longrightarrow> allow t t' b = (False, b)"
    and open_probes: "state b = ''OPEN'' \<Longrightarrow> cooldown b \<le> time_sub t (opened b) \<Longrightarrow>
      fst (allow t t' b) \<and> state (snd (allow t t' b)) = ''HALF_OPEN''"
    and half_open_fails: "state b = ''HALF_OPEN'' \<Longrightarrow>
      state (failure t b) = ''OPEN'' \<and> opened (failure t b) = t \<and> cooldown (failure t b) = cooldown b"
    and closed_fails: "state b = ''CLOSED'' \<Longrightarrow>
      (if threshold b \<le> count b + 1 then state (failure t b) = ''OPEN'' \<and> opened (failure t b) = t
       else state (failure t b) = ''CLOSED'' \<and> count (failure t b) = count b + 1)
      \<and> threshold (failure t b) = threshold b \<and> cooldown (failure t b) = cooldown b"
begin

lemma fail_fast:
  assumes "state b = ''OPEN''" and "\<forall>(t, t') \<in> set ts. time_sub t (opened b) < cooldown b"
  shows "allow_run allow ts b = (replicate (length ts) False, b)"
  using assms by (induction ts) (auto simp: open_refuses)

lemma trips_aux:
  assumes "state b = ''CLOSED''" and "count b + int (length ts) < threshold b"
  shows "state (fold failure ts b) = ''CLOSED'' \<and> count (fold failure ts b) = count b + int (length ts)
    \<and> threshold (fold failure ts b) = threshold b \<and> cooldown (fold failure ts b) = cooldown b"
  using assms
proof (induction ts arbitrary: b)
  case (Cons t ts)
  have "state (failure t b) = ''CLOSED'' \<and> count (failure t b) = count b + 1 \<and> threshold (failure t b) = threshold b
      \<and> cooldown (failure t b) = cooldown b"
    using closed_fails [OF Cons.prems(1), of t] Cons.prems(2) by (auto split: if_splits)
  with Cons.IH [of "failure t b"] Cons.prems(2) show ?case by simp
qed simp

lemma trips:
  assumes "state b = ''CLOSED''" and "count b = 0" and "int (length ts) + 1 = threshold b"
  shows "state (fold failure ts b) = ''CLOSED''"
    and "state (fold failure (ts @ [t]) b) = ''OPEN''" and "opened (fold failure (ts @ [t]) b) = t"
    and "cooldown (fold failure (ts @ [t]) b) = cooldown b"
proof -
  note a = trips_aux [of b ts]
  show "state (fold failure ts b) = ''CLOSED''" using a assms by simp
  show "state (fold failure (ts @ [t]) b) = ''OPEN''" and "opened (fold failure (ts @ [t]) b) = t"
    and "cooldown (fold failure (ts @ [t]) b) = cooldown b"
    using a assms closed_fails [of "fold failure ts b" t] by (auto split: if_splits)
qed

text \<open>The life of an outage: trip, refuse until the cooldown is over, then probe.\<close>

lemma outage:
  assumes "state b = ''CLOSED''" and "count b = 0" and "int (length ts) + 1 = threshold b"
    and "\<forall>(u, u') \<in> set us. time_sub u t < cooldown b" and "cooldown b \<le> time_sub v t"
  shows "let b1 = fold failure (ts @ [t]) b; (rs, b2) = allow_run allow us b1 in
    rs = replicate (length us) False \<and> fst (allow v v' b2) \<and> state (snd (allow v v' b2)) = ''HALF_OPEN''"
proof -
  note t = trips(2-4) [OF assms(1,2,3), of t]
  have "allow_run allow us (fold failure (ts @ [t]) b) = (replicate (length us) False, fold failure (ts @ [t]) b)"
    by (rule fail_fast) (use t assms(4) in auto)
  then show ?thesis using open_probes [of "fold failure (ts @ [t]) b" v v'] t assms(5) by (simp add: Let_def)
qed

end

interpretation client_cb: circuit_breaker cb_state cb_failureCount cb_failureThreshold cb_cooldown
  cb_lastStateChange client_Allow client_OnFailure
  by unfold_locales (auto simp: client_Allow_def client_OnFailure_def Let_def)

interpretation sdk_cb: circuit_breaker sb_state sb_failureCount sb_threshold sb_cooldown sb_lastFailure
  "\<lambda>t t'. sdk_Allow t" sdk_RecordFailure
  by unfold_locales (auto simp: sdk_Allow_def sdk_RecordFailure_def Let_def)

section \<open>Invariants\<close>

inductive client_step :: "ClientBreaker \<Rightarrow> ClientBreaker \<Rightarrow> bool" where
  c_state: "client_step b (snd (client_State t t' b))"
| c_allow: "client_step b (snd (client_Allow t t' b))"
| c_success: "client_step b (client_OnSuccess t b)"
| c_failure: "client_step b (client_OnFailure t b)"

inductive client_reach :: "ClientBreaker \<Rightarrow> bool" where
  c_new: "client_reach (client_NewCircuitBreaker now n d)"
| c_step: "client_reach b \<Longrightarrow> client_step b b' \<Longrightarrow> client_reach b'"

inductive_cases client_stepE: "client_step b b'"

definition client_ok :: "ClientBreaker \<Rightarrow> bool" where
  "client_ok b \<longleftrightarrow> cb_state b \<in> {''CLOSED'', ''OPEN'', ''HALF_OPEN''} \<and> 0 < cb_failureThreshold b \<and> 0 < cb_cooldown b
     \<and> 0 \<le> cb_failureCount b \<and> (cb_state b = ''CLOSED'' \<longrightarrow> cb_failureCount b < cb_failureThreshold b)
     \<and> 0 \<le> cb_consecutiveSucc b \<and> cb_consecutiveSucc b \<le> 1
     \<and> (cb_state b \<noteq> ''HALF_OPEN'' \<longrightarrow> cb_consecutiveSucc b = 0)"

lemma client_step_ok: "client_step b b' \<Longrightarrow> client_ok b \<Longrightarrow> client_ok b'"
  by (erule client_stepE)
    (auto simp: client_ok_def client_State_def client_Allow_def client_OnSuccess_def client_OnFailure_def Let_def)

lemma client_reach_ok: "client_reach b \<Longrightarrow> client_ok b"
  by (induction rule: client_reach.induct)
    (auto simp: client_step_ok, simp add: client_ok_def client_NewCircuitBreaker_def Second_def)

inductive sdk_step :: "SdkBreaker \<Rightarrow> SdkBreaker \<Rightarrow> bool" where
  s_state: "sdk_step b (snd (sdk_State t b))"
| s_allow: "sdk_step b (snd (sdk_Allow t b))"
| s_success: "sdk_step b (sdk_RecordSuccess b)"
| s_failure: "sdk_step b (sdk_RecordFailure t b)"

inductive sdk_reach :: "SdkBreaker \<Rightarrow> bool" where
  s_new: "sdk_reach (sdk_NewCircuitBreaker n d)"
| s_step: "sdk_reach b \<Longrightarrow> sdk_step b b' \<Longrightarrow> sdk_reach b'"

inductive_cases sdk_stepE: "sdk_step b b'"

definition sdk_ok :: "SdkBreaker \<Rightarrow> bool" where
  "sdk_ok b \<longleftrightarrow> sb_state b \<in> {''CLOSED'', ''OPEN'', ''HALF_OPEN''} \<and> 0 < sb_threshold b \<and> 0 < sb_cooldown b
     \<and> (sb_halfOpenInFlight b \<longrightarrow> sb_state b = ''HALF_OPEN'')
     \<and> (sb_state b = ''CLOSED'' \<longrightarrow> 0 \<le> sb_failureCount b \<and> sb_failureCount b < sb_threshold b)"

lemma sdk_step_ok: "sdk_step b b' \<Longrightarrow> sdk_ok b \<Longrightarrow> sdk_ok b'"
  by (erule sdk_stepE)
    (auto simp: sdk_ok_def sdk_State_def sdk_Allow_def sdk_RecordSuccess_def sdk_RecordFailure_def Let_def)

lemma sdk_reach_ok: "sdk_reach b \<Longrightarrow> sdk_ok b"
  by (induction rule: sdk_reach.induct)
    (auto simp: sdk_step_ok, simp add: sdk_ok_def sdk_NewCircuitBreaker_def Second_def)

section \<open>Properties\<close>

text \<open>
  Both breakers handle an outage as promised: a closed breaker without failures stays closed for
  one failure less than its threshold and opens with the next, at that time; every \<open>Allow\<close> before the
  cooldown is over is refused without changing the breaker, and the first \<open>Allow\<close> after it is let
  through and makes the breaker half-open.
\<close>

theorem breakers_fail_fast:
  assumes "cb_state c = ''CLOSED''" and "cb_failureCount c = 0" and "int (length ts) + 1 = cb_failureThreshold c"
    and "\<forall>(u, u') \<in> set us. time_sub u t < cb_cooldown c" and "cb_cooldown c \<le> time_sub v t"
    and "sb_state d = ''CLOSED''" and "sb_failureCount d = 0" and "sb_threshold d = cb_failureThreshold c"
    and "sb_cooldown d = cb_cooldown c"
  shows "cb_state (fold client_OnFailure ts c) = ''CLOSED'' \<and> sb_state (fold sdk_RecordFailure ts d) = ''CLOSED''
    \<and> (let (rs, c') = allow_run client_Allow us (fold client_OnFailure (ts @ [t]) c) in
         rs = replicate (length us) False \<and> fst (client_Allow v v' c') \<and> cb_state (snd (client_Allow v v' c')) = ''HALF_OPEN'')
    \<and> (let (rs, d') = allow_run (\<lambda>u u'. sdk_Allow u) us (fold sdk_RecordFailure (ts @ [t]) d) in
         rs = replicate (length us) False \<and> fst (sdk_Allow v d') \<and> sb_state (snd (sdk_Allow v d')) = ''HALF_OPEN'')"
  using client_cb.outage [OF assms(1-5), of v'] client_cb.trips(1) [OF assms(1-3)]
    sdk_cb.outage [OF assms(6,7), of ts us t v] sdk_cb.trips(1) [OF assms(6,7), of ts] assms(3,4,5,8,9)
  by (simp add: Let_def)

theorem breakers_fail_fast_witness:
  "fst (allow_run (\<lambda>u u'. sdk_Allow u) [(5, 5), (9, 9)] (fold sdk_RecordFailure ([1] @ [2]) (sdk_NewCircuitBreaker 2 10))) = [False, False]"
proof -
  have "\<forall>(u, u') \<in> set [(5, 5), (9, 9 :: int)]. time_sub u 2 < cb_cooldown (client_NewCircuitBreaker 0 2 10)"
    and "cb_cooldown (client_NewCircuitBreaker 0 2 10) \<le> time_sub 50 2"
    by (simp_all add: client_NewCircuitBreaker_def time_sub_def maxDuration_def minDuration_def)
  from breakers_fail_fast [OF _ _ _ this, of "[1]" "sdk_NewCircuitBreaker 2 10" 50]
  show ?thesis by (simp add: client_NewCircuitBreaker_def sdk_NewCircuitBreaker_def split_beta Let_def numeral_2_eq_2)
qed

text \<open>
  No sequence of calls leaves either breaker in an undefined state: it is closed, open or
  half-open, its threshold and cooldown are positive, a closed breaker has fewer failures than its
  threshold, the client closes after at most two successes in half-open, and the SDK has a probe in
  flight only while half-open.
\<close>

theorem breaker_invariants:
  "(client_reach c \<longrightarrow> client_ok c) \<and> (sdk_reach d \<longrightarrow> sdk_ok d)"
  using client_reach_ok sdk_reach_ok by blast

theorem breaker_invariants_witness:
  "client_ok (client_OnFailure 7 (client_NewCircuitBreaker 1 3 10)) \<and> sdk_ok (sdk_NewCircuitBreaker 3 10)"
  using breaker_invariants [of "client_OnFailure 7 (client_NewCircuitBreaker 1 3 10)" "sdk_NewCircuitBreaker 3 10"]
    client_reach.intros client_step.intros sdk_reach.intros by blast

lemma sdk_inflight_refuses:
  "sb_state d = ''HALF_OPEN'' \<Longrightarrow> sb_halfOpenInFlight d \<Longrightarrow>
   allow_run (\<lambda>u u'. sdk_Allow u) ts d = (replicate (length ts) False, d)"
  by (induction ts) (auto simp: sdk_Allow_def)

lemma client_half_open_allows:
  "cb_state c = ''HALF_OPEN'' \<Longrightarrow> allow_run client_Allow ts c = (replicate (length ts) True, c)"
  by (induction ts) (auto simp: client_Allow_def)

text \<open>
  The two breakers differ in half-open: once a request is let through in the open or half-open
  state, the SDK refuses every further request until a result is recorded, however long that takes,
  while the client lets every request through.
\<close>

theorem half_open_probes:
  assumes "sb_state d = ''OPEN'' \<or> sb_state d = ''HALF_OPEN''" and "sdk_Allow t d = (True, d')"
    and "cb_state c = ''OPEN'' \<or> cb_state c = ''HALF_OPEN''" and "client_Allow u u' c = (True, c')"
  shows "allow_run (\<lambda>v v'. sdk_Allow v) ts d' = (replicate (length ts) False, d')
    \<and> allow_run client_Allow ts c' = (replicate (length ts) True, c')"
proof -
  have "sb_state d' = ''HALF_OPEN'' \<and> sb_halfOpenInFlight d'"
    using assms(1,2) by (auto simp: sdk_Allow_def split: if_splits)
  moreover have "cb_state c' = ''HALF_OPEN''"
    using assms(3,4) by (auto simp: client_Allow_def split: if_splits)
  ultimately show ?thesis using sdk_inflight_refuses client_half_open_allows by blast
qed

theorem half_open_probes_witness:
  "fst (allow_run (\<lambda>v v'. sdk_Allow v) [(90, 90), (95, 95)]
     (snd (sdk_Allow 50 (sdk_RecordFailure 2 (sdk_NewCircuitBreaker 1 10))))) = [False, False]"
proof -
  let ?d = "sdk_RecordFailure 2 (sdk_NewCircuitBreaker 1 10)"
  let ?c = "client_OnFailure 2 (client_NewCircuitBreaker 0 1 10)"
  have d: "sb_state ?d = ''OPEN''" "fst (sdk_Allow 50 ?d)" and c: "cb_state ?c = ''OPEN''" "fst (client_Allow 50 50 ?c)"
    by (simp_all add: sdk_RecordFailure_def sdk_NewCircuitBreaker_def sdk_Allow_def client_OnFailure_def
        client_NewCircuitBreaker_def client_Allow_def time_sub_def maxDuration_def minDuration_def Let_def)
  have "sdk_Allow 50 ?d = (True, snd (sdk_Allow 50 ?d))" "client_Allow 50 50 ?c = (True, snd (client_Allow 50 50 ?c))"
    using d(2) c(2) by (metis prod.collapse)+
  from half_open_probes [OF _ this(1) _ this(2), of "[(90, 90), (95, 95)]"] d(1) c(1) show ?thesis
    by (simp add: numeral_2_eq_2)
qed

end
