(* ===== verification/Http.thy ===== *)
theory Http
  imports Domain_Entities Engine_Trace "HOL-Library.Char_ord" "HOL-Library.List_Lexorder"
begin

text \<open>
  The HTTP vocabulary of \<open>src/pkg/api\<close>: requests and responses, the cookies and the proxy headers
  (\<open>session.go\<close>), the client address (\<open>GetClientIP\<close> of \<open>ratelimit.go\<close>), the password policy, the
  error and JSON writers (\<open>server.go\<close>), the context values, the correlation header, the security
  headers and the body limit (\<open>middleware.go\<close>), the cross-origin headers of \<open>ServeHTTP\<close>, and the
  method router and middleware chain (\<open>router.go\<close>).

  \<^item> A request is what \<open>net/http\<close> has parsed: the headers, the query and the cookies are lists in
    the order of the wire, and header names are compared without case. The context value of the
    authenticated user is a field, since \<open>RequireAuth\<close> stores a pointer there that later steps
    write through.
  \<^item> A response is the status, the headers and cookies set, and the body: the JSON value handed to
    the encoder, or a text. Log lines are not part of it.
  \<^item> \<open>world\<close> holds what the handlers read from outside the program: the runtime, the environment
    variables, \<open>net.ParseIP\<close>, and the iteration orders of the maps the store ranges over.
\<close>

section \<open>Requests and responses\<close>

record Request =
  rq_Method :: string
  rq_Path :: string
  rq_Query :: "(string \<times> string) list"
  rq_Header :: "(string \<times> string) list"
  rq_Cookies :: "(string \<times> string) list"
  rq_Host :: string
  rq_TLS :: bool
  rq_RemoteAddr :: string
  rq_User :: "User option"
  rq_RequestID :: string

record world =
  w_rt :: runtime
  w_getenv :: "string \<Rightarrow> string"
  w_ParseIP :: "string \<Rightarrow> bool"
  w_orgs :: "Organization iter"
  w_projects :: "Project iter"
  w_members :: "OrgMember iter"
  w_users :: "User iter"
  w_keys :: "APIKey iter"
  w_invitations :: "OrgInvitation iter"
  w_changes :: "ChangeRequest iter"
  w_envs :: "EnvironmentConfig iter"

record Cookie =
  ck_Name :: string
  ck_Value :: string
  ck_Path :: string
  ck_Domain :: string
  ck_Expires :: gtime
  ck_MaxAge :: int
  ck_HttpOnly :: bool
  ck_SameSite :: string
  ck_Secure :: bool

text \<open>A value handed to the JSON encoder.\<close>

datatype json =
    J_nil
  | J_string string
  | J_int int
  | J_bool bool
  | J_float f64
  | J_time gtime
  | J_flag FeatureFlag
  | J_flags "FeatureFlag list"
  | J_audit "AuditLogEntry option"
  | J_audits "AuditLogEntry list"
  | J_integrity AuditIntegrityResult
  | J_results "(string, EvaluationResult) gomap"
  | J_traces "(string, EvaluationTrace) gomap"
  | J_metrics BenchmarkMetrics
  | J_user User
  | J_keys "APIKey list"
  | J_key APIKey
  | J_org Organization
  | J_orgs "Organization list"
  | J_project Project
  | J_projects "Project list"
  | J_invitation OrgInvitation
  | J_invitations "OrgInvitation list"
  | J_member OrgMember
  | J_change ChangeRequest
  | J_changes "ChangeRequest list"
  | J_schedule CanarySchedule
  | J_list "json list"
  | J_object "(string \<times> json) list"

datatype body = Empty | JSON json | Text string | Lines "json list"

record Response =
  rp_Status :: int
  rp_Header :: "(string \<times> string) list"
  rp_Cookies :: "Cookie list"
  rp_Body :: body

definition respond :: "int \<Rightarrow> body \<Rightarrow> Response" where
  "respond status b = \<lparr>rp_Status = status, rp_Header = [], rp_Cookies = [], rp_Body = b\<rparr>"

text \<open>\<open>r.Header.Get\<close>, \<open>r.URL.Query().Get\<close> and \<open>r.Cookie\<close>.\<close>

definition header_get :: "Request \<Rightarrow> string \<Rightarrow> string" where
  "header_get r name =
     (case find (\<lambda>(k, v). map lower_char k = map lower_char name) (rq_Header r) of
        Some (k, v) \<Rightarrow> v | None \<Rightarrow> [])"

definition query_get :: "Request \<Rightarrow> string \<Rightarrow> string" where
  "query_get r name = (case map_of (rq_Query r) name of Some v \<Rightarrow> v | None \<Rightarrow> [])"

definition cookie_get :: "Request \<Rightarrow> string \<Rightarrow> string option" where
  "cookie_get r name = map_of (rq_Cookies r) name"

definition trim_quotes :: "string \<Rightarrow> string" where
  "trim_quotes s = trim_while (\<lambda>c. c = CHR 0x22) s"

definition TrimSuffix :: "string \<Rightarrow> string \<Rightarrow> string" where
  "TrimSuffix s p = (if HasSuffix s p then take (length s - length p) s else s)"

definition trim_slashes :: "string \<Rightarrow> string" where
  "trim_slashes s = trim_while (\<lambda>c. c = CHR ''/'') s"

section \<open>Writers\<close>

definition writeError :: "Request \<Rightarrow> gerror \<Rightarrow> Response" where
  "writeError r err =
     (case MapSentinelToAppError (Some err) of
        Some appErr \<Rightarrow>
          \<lparr>rp_Status = ae_HTTPStatus appErr,
           rp_Header = [(''Content-Type'', ''application/json; charset=utf-8'')], rp_Cookies = [],
           rp_Body = JSON (J_object [(''error'', J_object
             [(''code'', J_int (ae_Code appErr)), (''type'', J_string (ae_Type appErr)),
              (''layer'', J_string (ae_Layer appErr)), (''message'', J_string (ae_Message appErr)),
              (''status'', J_int (ae_HTTPStatus appErr)), (''request_id'', J_string (rq_RequestID r))])])\<rparr>
      | None \<Rightarrow> respond 200 Empty)"

definition writeJSON :: "int \<Rightarrow> json \<Rightarrow> Response" where
  "writeJSON status data =
     \<lparr>rp_Status = status, rp_Header = [(''Content-Type'', ''application/json; charset=utf-8'')],
      rp_Cookies = [], rp_Body = JSON data\<rparr>"

text \<open>A response encoded without \<open>writeJSON\<close>: the content type is \<open>application/json\<close>.\<close>

definition encodeJSON :: "int \<Rightarrow> json \<Rightarrow> Response" where
  "encodeJSON status data =
     \<lparr>rp_Status = status, rp_Header = [(''Content-Type'', ''application/json'')],
      rp_Cookies = [], rp_Body = JSON data\<rparr>"

text \<open>\<open>http.Error\<close> ends the text with a newline.\<close>

definition http_Error :: "string \<Rightarrow> int \<Rightarrow> Response" where
  "http_Error msg code =
     \<lparr>rp_Status = code, rp_Header = [(''Content-Type'', ''text/plain; charset=utf-8''),
        (''X-Content-Type-Options'', ''nosniff'')], rp_Cookies = [], rp_Body = Text (msg @ [CHR 0x0A])\<rparr>"

definition MethodNotAllowed :: Response where
  "MethodNotAllowed = http_Error ''Method Not Allowed'' 405"

definition http_NotFound :: Response where
  "http_NotFound = http_Error ''404 page not found'' 404"

definition http_Redirect :: "string \<Rightarrow> int \<Rightarrow> Response" where
  "http_Redirect target code = \<lparr>rp_Status = code, rp_Header = [(''Location'', target)], rp_Cookies = [], rp_Body = Empty\<rparr>"

section \<open>Addresses and cookies\<close>

text \<open>The host part of \<open>net.SplitHostPort\<close>, \<open>None\<close> for its errors.\<close>

definition SplitHostPort :: "string \<Rightarrow> string option" where
  "SplitHostPort hostport =
     (if CHR '':'' \<notin> set hostport then None
      else
        (let port = rev (takeWhile (\<lambda>c. c \<noteq> CHR '':'') (rev hostport));
             host = take (length hostport - length port - 1) hostport
         in if hd hostport = CHR ''['' then
              (let inner = takeWhile (\<lambda>c. c \<noteq> CHR '']'') (tl hostport);
                   rest = drop (length inner + 2) hostport
               in if CHR '']'' \<notin> set hostport \<or> rest \<noteq> CHR '':'' # port
                    \<or> CHR ''['' \<in> set (tl hostport) \<or> CHR '']'' \<in> set rest then None
                  else Some inner)
            else if CHR '':'' \<in> set host \<or> CHR ''['' \<in> set hostport \<or> CHR '']'' \<in> set hostport then None
            else Some host))"

definition isRequestHTTPS :: "world \<Rightarrow> Request \<Rightarrow> bool" where
  "isRequestHTTPS w r =
     (let rt = w_rt w; proto = header_get r ''X-Forwarded-Proto'' in
      rq_TLS r
      \<or> (proto \<noteq> [] \<and> EqualFold rt (TrimSpace rt (hd (Split proto (CHR '','')))) ''https'')
      \<or> EqualFold rt (header_get r ''X-Forwarded-Ssl'') ''on''
      \<or> EqualFold rt (header_get r ''Front-End-Https'') ''on''
      \<or> EqualFold rt (header_get r ''X-Url-Scheme'') ''https''
      \<or> Contains (header_get r ''CF-Visitor'') ([CHR 0x22] @ ''https'' @ [CHR 0x22]))"

definition resolveCookieDomain :: "world \<Rightarrow> Request \<Rightarrow> string" where
  "resolveCookieDomain w r =
     (if w_getenv w ''COOKIE_DOMAIN'' \<noteq> [] then w_getenv w ''COOKIE_DOMAIN''
      else if rq_Host r = [] then []
      else
        (let host = (case SplitHostPort (rq_Host r) of Some h \<Rightarrow> h | None \<Rightarrow> rq_Host r) in
         if host = ''localhost'' \<or> host = ''127.0.0.1'' \<or> host = ''::1'' \<or> HasPrefix host ''[''
            \<or> w_ParseIP w host then []
         else if HasSuffix host ''flagura.dev'' then ''flagura.dev''
         else host))"

definition isCookieSecure :: "world \<Rightarrow> Request \<Rightarrow> bool" where
  "isCookieSecure w r =
     (let rt = w_rt w; env = w_getenv w in
      if EqualFold rt (env ''ALLOW_INSECURE_COOKIES'') ''true'' \<or> EqualFold rt (env ''SECURE_COOKIE'') ''false'' then False
      else if EqualFold rt (env ''SECURE_COOKIE'') ''true'' then True
      else if isRequestHTTPS w r then True
      else if EqualFold rt (env ''FLAGURA_ENV'') ''development'' \<or> EqualFold rt (env ''ENV'') ''development'' then False
      else if HasPrefix (rq_Host r) ''localhost'' \<or> HasPrefix (rq_Host r) ''127.0.0.1'' \<or> HasPrefix (rq_Host r) ''[::1]'' then False
      else isRequestHTTPS w r)"

abbreviation (input) "CookieSessionName \<equiv> ''flagura_session''"
abbreviation (input) "CookieProjectName \<equiv> ''flagura_project_id''"

text \<open>The common part of \<open>setProjectCookie\<close> and \<open>setSessionCookie\<close>; \<open>now\<close> is the reading of \<open>time.Until\<close>.\<close>

definition live_cookie :: "world \<Rightarrow> gtime \<Rightarrow> Request \<Rightarrow> string \<Rightarrow> string \<Rightarrow> bool \<Rightarrow> gtime \<Rightarrow> Cookie" where
  "live_cookie w now r name v httpOnly expiresAt =
     \<lparr>ck_Name = name, ck_Value = v, ck_Path = ''/'', ck_Domain = resolveCookieDomain w r,
      ck_Expires = expiresAt, ck_MaxAge = max 0 (int_of_f64 (Seconds (time_sub expiresAt now))),
      ck_HttpOnly = httpOnly, ck_SameSite = ''Lax'', ck_Secure = isCookieSecure w r\<rparr>"

text \<open>Clearing sets one host-only cookie, and one for the domain where a domain is resolved.\<close>

definition dead_cookies :: "world \<Rightarrow> Request \<Rightarrow> string \<Rightarrow> bool \<Rightarrow> Cookie list" where
  "dead_cookies w r name httpOnly =
     (let dom = resolveCookieDomain w r;
          c = (\<lambda>d. \<lparr>ck_Name = name, ck_Value = [], ck_Path = ''/'', ck_Domain = d,
            ck_Expires = unix_epoch, ck_MaxAge = - 1, ck_HttpOnly = httpOnly, ck_SameSite = ''Lax'',
            ck_Secure = isCookieSecure w r\<rparr>)
      in c [] # (if dom \<noteq> [] then [c dom] else []))"

definition add_cookies :: "Cookie list \<Rightarrow> Response \<Rightarrow> Response" where
  "add_cookies cs rsp = rsp\<lparr>rp_Cookies := rp_Cookies rsp @ cs\<rparr>"

lemma cookies_add [simp]: "rp_Cookies (add_cookies cs rsp) = rp_Cookies rsp @ cs" "rp_Status (add_cookies cs rsp) = rp_Status rsp"
  by (simp_all add: add_cookies_def)

definition setProjectCookie :: "world \<Rightarrow> gtime \<Rightarrow> Request \<Rightarrow> string \<Rightarrow> gtime \<Rightarrow> Response \<Rightarrow> Response" where
  "setProjectCookie w now r projectID expiresAt =
     add_cookies [live_cookie w now r CookieProjectName projectID False expiresAt]"

definition clearProjectCookie :: "world \<Rightarrow> Request \<Rightarrow> Response \<Rightarrow> Response" where
  "clearProjectCookie w r = add_cookies (dead_cookies w r CookieProjectName False)"

definition setSessionCookie :: "world \<Rightarrow> gtime \<Rightarrow> Request \<Rightarrow> string \<Rightarrow> gtime \<Rightarrow> Response \<Rightarrow> Response" where
  "setSessionCookie w now r token expiresAt =
     add_cookies [live_cookie w now r CookieSessionName token True expiresAt]"

definition clearSessionCookie :: "world \<Rightarrow> Request \<Rightarrow> Response \<Rightarrow> Response" where
  "clearSessionCookie w r = add_cookies (dead_cookies w r CookieSessionName True)"

definition GetClientIP :: "world \<Rightarrow> Request \<Rightarrow> string" where
  "GetClientIP w r =
     (let rt = w_rt w;
          trustProxy = EqualFold rt (w_getenv w ''FLAGURA_TRUST_PROXY'') ''true''
            \<or> EqualFold rt (w_getenv w ''TRUST_PROXY'') ''true'';
          xff = header_get r ''X-Forwarded-For'';
          fwd = TrimSpace rt (hd (Split xff (CHR '','')));
          real = TrimSpace rt (header_get r ''X-Real-IP'')
      in if trustProxy \<and> xff \<noteq> [] \<and> w_ParseIP w fwd then fwd
         else if trustProxy \<and> header_get r ''X-Real-IP'' \<noteq> [] \<and> w_ParseIP w real then real
         else (case SplitHostPort (rq_RemoteAddr r) of
                 Some host \<Rightarrow> if host \<noteq> [] then host else rq_RemoteAddr r
               | None \<Rightarrow> rq_RemoteAddr r))"

section \<open>The password policy\<close>

text \<open>
  The loop ranges over runes; the four classes are disjoint sets of ASCII characters, so a rune
  outside ASCII belongs to none, as do its bytes here. The length is in bytes.
\<close>

definition is_upper :: "char \<Rightarrow> bool" where
  "is_upper c = (65 \<le> byte_of c \<and> byte_of c \<le> 90)"

definition is_lower :: "char \<Rightarrow> bool" where
  "is_lower c = (97 \<le> byte_of c \<and> byte_of c \<le> 122)"

definition is_digit :: "char \<Rightarrow> bool" where
  "is_digit c = (48 \<le> byte_of c \<and> byte_of c \<le> 57)"

definition is_special :: "char \<Rightarrow> bool" where
  "is_special c = (c \<in> set ''!@#$%^&*()_+-=[]{}|;:,.<>/?~'')"

definition validatePasswordComplexity :: "string \<Rightarrow> unit result" where
  "validatePasswordComplexity password =
     (if length password < 8 then Inl (Errorf ''password must be at least 8 characters long'')
      else if \<not> list_ex is_upper password then
        Inl (Errorf ''password must contain at least one uppercase letter (A-Z)'')
      else if \<not> list_ex is_lower password then
        Inl (Errorf ''password must contain at least one lowercase letter (a-z)'')
      else if \<not> list_ex is_digit password then
        Inl (Errorf ''password must contain at least one number (0-9)'')
      else if \<not> list_ex is_special password then
        Inl (Errorf ''password must contain at least one special symbol (!@#$%^&*)'')
      else Inr ())"

section \<open>Middleware\<close>

type_synonym 's handler = "'s \<Rightarrow> Request \<Rightarrow> Response \<times> 's"
type_synonym 's middleware = "'s handler \<Rightarrow> 's handler"

definition set_header :: "string \<Rightarrow> string \<Rightarrow> Response \<Rightarrow> Response" where
  "set_header k v rsp = rsp\<lparr>rp_Header := (k, v) # filter (\<lambda>(k', _). k' \<noteq> k) (rp_Header rsp)\<rparr>"

text \<open>The loop from the last middleware to the first; a nil one is skipped.\<close>

definition ChainMiddlewares :: "'s handler \<Rightarrow> 's middleware option list \<Rightarrow> 's handler" where
  "ChainMiddlewares handler middlewares =
     foldr (\<lambda>m h. case m of Some f \<Rightarrow> f h | None \<Rightarrow> h) middlewares handler"

text \<open>A middleware sets its headers before the handler runs, and the handler's own settings win.\<close>

definition with_headers :: "(string \<times> string) list \<Rightarrow> Response \<Rightarrow> Response" where
  "with_headers hs rsp =
     rsp\<lparr>rp_Header := filter (\<lambda>(k, _). k \<notin> fst ` set (rp_Header rsp)) hs @ rp_Header rsp\<rparr>"

text \<open>\<open>now\<close> and \<open>rnd\<close> make the identifier of a request that brings none.\<close>

definition RequestIDMiddleware :: "gtime \<Rightarrow> string \<Rightarrow> 's middleware" where
  "RequestIDMiddleware now rnd nxt s r =
     (let reqID = header_get r ''X-Request-ID'';
          reqID = (if reqID = [] then NewID now rnd ''req'' else reqID);
          (rsp, s) = nxt s (r\<lparr>rq_RequestID := reqID\<rparr>)
      in (with_headers [(''X-Request-ID'', reqID)] rsp, s))"

text \<open>\<open>nonce\<close> is the base64 text of the random bytes, or the error of the random source.\<close>

definition SecurityHeadersMiddleware :: "world \<Rightarrow> string result \<Rightarrow> 's middleware" where
  "SecurityHeadersMiddleware w nonce nxt s r =
     (let fixed = [(''X-Content-Type-Options'', ''nosniff''), (''X-Frame-Options'', ''SAMEORIGIN''),
            (''X-XSS-Protection'', ''1; mode=block''),
            (''Referrer-Policy'', ''strict-origin-when-cross-origin''),
            (''Permissions-Policy'', ''camera=(), microphone=(), geolocation=()'')];
          hsts = (if rq_TLS r \<or> header_get r ''X-Forwarded-Proto'' = ''https''
              \<or> w_getenv w ''ENVIRONMENT'' = ''production''
            then [(''Strict-Transport-Security'', ''max-age=31536000; includeSubDomains'')] else [])
      in case nonce of
           Inl _ \<Rightarrow> (with_headers (fixed @ hsts) (http_Error ''Internal Server Error'' 500), s)
         | Inr n \<Rightarrow>
             (let self = quoted ''self'';
                  csp = ''default-src '' @ self @ ''; script-src '' @ self @ '' '' @ quoted (''nonce-'' @ n)
                    @ '' https://cdn.tailwindcss.com https://cdn.jsdelivr.net https://unpkg.com https://cdnjs.cloudflare.com; ''
                    @ ''style-src '' @ self @ '' '' @ quoted ''unsafe-inline'' @ '' https://fonts.googleapis.com; ''
                    @ ''font-src '' @ self @ '' https://fonts.gstatic.com data:; ''
                    @ ''img-src '' @ self @ '' data: https: blob:; ''
                    @ ''connect-src '' @ self @ '' https: wss: ws:;'';
                  (rsp, s) = nxt s r
              in (with_headers (fixed @ hsts @ [(''Content-Security-Policy'', csp)]) rsp, s)))"

text \<open>
  \<open>MaxBytesMiddleware\<close> bounds what a handler reads of the body: the bytes the reader yields, and
  whether it then fails.
\<close>

definition MaxBytesMiddleware :: "int \<Rightarrow> Request \<Rightarrow> string \<Rightarrow> string \<times> bool" where
  "MaxBytesMiddleware maxBytes r body =
     (if rq_Method r \<in> {''POST'', ''PUT'', ''PATCH''} \<and> int (length body) > maxBytes
      then (take (nat maxBytes) body, True) else (body, False))"

text \<open>
  \<open>ServeHTTP\<close> of the method router; the registered methods are the keys of its map. The names in the
  \<open>Allow\<close> header are sorted.
\<close>

definition MethodRouter_ServeHTTP :: "(string, 's handler) gomap \<Rightarrow> 's handler" where
  "MethodRouter_ServeHTTP routes s r =
     (case mget routes (rq_Method r) of
        Some h \<Rightarrow> h s r
      | None \<Rightarrow> (set_header ''Allow'' (Join (sort (map fst routes)) '', '') MethodNotAllowed, s))"

text \<open>
  The cross-origin headers of \<open>Server.ServeHTTP\<close>; \<open>origin_host\<close> is what \<open>url.Parse\<close> makes of the
  origin: its \<open>Host\<close> and \<open>Hostname()\<close>, \<open>None\<close> for an error.
\<close>

definition cors_headers :: "world \<Rightarrow> (string \<Rightarrow> (string \<times> string) option) \<Rightarrow> Request \<Rightarrow> (string \<times> string) list" where
  "cors_headers w origin_host r =
     (let origin = header_get r ''Origin'';
          allowedOrigin = w_getenv w ''FLAGURA_ALLOWED_ORIGIN'';
          grant = [(''Access-Control-Allow-Origin'', origin), (''Access-Control-Allow-Credentials'', ''true''),
            (''Vary'', ''Origin'')]
      in if allowedOrigin \<noteq> [] then
           if allowedOrigin = ''*'' then [(''Access-Control-Allow-Origin'', ''*'')]
           else if origin \<noteq> [] \<and> list_ex (\<lambda>ao. TrimSpace (w_rt w) ao = origin) (Split allowedOrigin (CHR '',''))
           then grant else []
         else if origin \<noteq> [] then
           (case origin_host origin of
              Some (host, hostname) \<Rightarrow>
                if host \<noteq> [] \<and> (host = rq_Host r \<or> hostname = ''localhost'' \<or> hostname = ''127.0.0.1'')
                then grant else []
            | None \<Rightarrow> [])
         else [])"

definition ServeHTTP :: "world \<Rightarrow> (string \<Rightarrow> (string \<times> string) option) \<Rightarrow> 's middleware" where
  "ServeHTTP w origin_host nxt s r =
     (let hs = cors_headers w origin_host r @
            [(''Access-Control-Allow-Methods'', ''GET, POST, PUT, PATCH, DELETE, OPTIONS''),
             (''Access-Control-Allow-Headers'', ''Content-Type, Authorization, X-API-Key, X-Webhook-Secret, X-Actor, X-Project-ID, X-Organization-ID, traceparent, tracestate''),
             (''Access-Control-Expose-Headers'', ''X-Trace-ID, X-RateLimit-Limit, X-RateLimit-Remaining, X-RateLimit-Reset, Retry-After'')]
      in if rq_Method r = ''OPTIONS'' then (with_headers hs (respond 200 Empty), s)
         else (let (rsp, s) = nxt s r in (with_headers hs rsp, s)))"

end
