(* ===== verification/Api_Auth.thy ===== *)
theory Api_Auth
  imports Store_Accounts Store_Tenancy Http
begin

text \<open>
  Authentication and project authorization of \<open>src/pkg/api\<close>: the caller of a request
  (\<open>getUserFromRequest\<close>, \<open>getAPIKeyFromRequest\<close> of \<open>session.go\<close>), \<open>RequireAuth\<close>, \<open>RequireRole\<close>
  and the organization role (\<open>middleware.go\<close>, \<open>router.go\<close>), and the resolution of the project a
  request acts on (\<open>handlers_flags.go\<close>). Looking an API key up stamps its \<open>LastUsedAt\<close>, so every
  step returns the store. \<open>cks i\<close> is the clock of the \<open>i\<close>-th call into the store. The context never holds an
  API key (\<open>WithAPIKeyContext\<close> has no caller), and the enriched user is written back into the
  request, as the code writes through the context's pointer.
  \<open>getUserFromRequest\<close> takes three clocks (the two keys, and one whose \<open>i\<close>-th reading is for the \<open>i\<close>-th
  session), \<open>authorizeProjectAccess\<close> four and \<open>resolveAndAuthorizeProjectID\<close> eight.
\<close>

section \<open>The caller\<close>

type_synonym clocks = "nat \<Rightarrow> clock"

definition later :: "nat \<Rightarrow> clocks \<Rightarrow> clocks" where
  "later n cks = (\<lambda>i. cks (n + i))"

definition service_user :: User where
  "service_user = \<lparr>us_ID = ''usr_api_key_service'', us_Email = ''api-service@flagura.dev'', us_PasswordHash = [],
     us_Name = ''API Service Account'', us_Role = RoleAdmin, us_AvatarURL = [], us_CreatedAt = 0,
     us_UpdatedAt = 0, us_ActiveMembership = None\<rparr>"

definition key_user :: "APIKey \<Rightarrow> User" where
  "key_user k = \<lparr>us_ID = ak_ID k, us_Email = ak_CreatedBy k, us_PasswordHash = [], us_Name = ak_Name k,
     us_Role = ak_Role k, us_AvatarURL = [], us_CreatedAt = 0, us_UpdatedAt = 0, us_ActiveMembership = None\<rparr>"

definition clean_token :: "runtime \<Rightarrow> string \<Rightarrow> string" where
  "clean_token rt t = trim_quotes (TrimSpace rt t)"

definition session_cookies :: "runtime \<Rightarrow> Request \<Rightarrow> string list" where
  "session_cookies rt r =
     filter (\<lambda>t. t \<noteq> []) (map (\<lambda>(n, v). clean_token rt v)
       (filter (\<lambda>(n, v). n = CookieSessionName \<and> v \<noteq> []) (rq_Cookies r)))"

definition bearer_token :: "runtime \<Rightarrow> Request \<Rightarrow> string" where
  "bearer_token rt r =
     (let authHeader = header_get r ''Authorization'' in
      if HasPrefix authHeader ''Bearer '' then clean_token rt (TrimPrefix authHeader ''Bearer '') else [])"

definition api_key_header :: "runtime \<Rightarrow> Request \<Rightarrow> string" where
  "api_key_header rt r =
     (let v = header_get r ''X-API-Key'' in if v \<noteq> [] then clean_token rt v else [])"

text \<open>The loop over the two header tokens: the master key, then the stored keys.\<close>

fun token_loop :: "world \<Rightarrow> clocks \<Rightarrow> nat \<Rightarrow> MemoryStore \<Rightarrow> string list \<Rightarrow> User option \<times> MemoryStore" where
  "token_loop w cks i s [] = (None, s)"
| "token_loop w cks i s (tok # toks) =
     (let apiKeyEnv = w_getenv w ''FLAGURA_API_KEY'' in
      if tok \<noteq> [] \<and> apiKeyEnv \<noteq> [] \<and> tok = apiKeyEnv then (Some service_user, s)
      else if tok \<noteq> [] then
        (case GetAPIKeyByHash (cks i) s (rt_sha256 (w_rt w) tok) of
           (Inr apiKey, s') \<Rightarrow>
             if \<not> ak_Revoked apiKey then (Some (key_user apiKey), s')
             else token_loop w cks (Suc i) s' toks
         | (Inl _, s') \<Rightarrow> token_loop w cks (Suc i) s' toks)
      else token_loop w cks (Suc i) s toks)"

fun session_loop :: "clock \<Rightarrow> nat \<Rightarrow> MemoryStore \<Rightarrow> string list \<Rightarrow> User option" where
  "session_loop clk i s [] = None"
| "session_loop clk i s (token # tokens) =
     (case GetSession (clk i) s token of
        Inl _ \<Rightarrow> session_loop clk (Suc i) s tokens
      | Inr sess \<Rightarrow>
          (case se_User sess of
             Some u \<Rightarrow> Some u
           | None \<Rightarrow>
               if se_UserID sess \<noteq> [] then
                 (case GetUserByID s (se_UserID sess) of
                    Inr u \<Rightarrow> Some u
                  | Inl _ \<Rightarrow> session_loop clk (Suc i) s tokens)
               else session_loop clk (Suc i) s tokens))"

definition getUserFromRequest :: "world \<Rightarrow> clocks \<Rightarrow> MemoryStore \<Rightarrow> Request \<Rightarrow> User result \<times> MemoryStore" where
  "getUserFromRequest w cks s r =
     (let rt = w_rt w; bearer = bearer_token rt r in
      case token_loop w cks 0 s [api_key_header rt r, bearer] of
        (Some u, s') \<Rightarrow> (Inr u, s')
      | (None, s') \<Rightarrow>
          (let candidates = session_cookies rt r @ (if bearer \<noteq> [] then [bearer] else []) in
           case session_loop (cks 2) 0 s' candidates of
             Some u \<Rightarrow> (Inr u, s')
           | None \<Rightarrow> (Inl (Sentinel ErrUnauthorized), s')))"

text \<open>\<open>getAPIKeyFromRequest\<close> takes the first token as it stands, without trimming.\<close>

definition raw_token :: "Request \<Rightarrow> string" where
  "raw_token r =
     (let authHeader = header_get r ''Authorization'';
          token = (if HasPrefix authHeader ''Bearer '' then TrimPrefix authHeader ''Bearer '' else []);
          token = (if token = [] then header_get r ''X-API-Key'' else token);
          token = (if token = [] then query_get r ''api_key'' else token)
      in if token = [] then query_get r ''token'' else token)"

definition getAPIKeyFromRequest :: "world \<Rightarrow> clock \<Rightarrow> MemoryStore \<Rightarrow> Request \<Rightarrow> APIKey option \<times> MemoryStore" where
  "getAPIKeyFromRequest w clk s r =
     (let token = raw_token r in
      if token = [] then (None, s)
      else (case GetAPIKeyByHash clk s (rt_sha256 (w_rt w) token) of
              (Inr apiKey, s') \<Rightarrow> (if \<not> ak_Revoked apiKey then Some apiKey else None, s')
            | (Inl _, s') \<Rightarrow> (None, s')))"

text \<open>\<open>user := UserFromContext(ctx); if user == nil { user, _ = s.getUserFromRequest(r) }\<close>\<close>

definition context_user :: "world \<Rightarrow> clocks \<Rightarrow> MemoryStore \<Rightarrow> Request \<Rightarrow> User option \<times> MemoryStore" where
  "context_user w cks s r =
     (case rq_User r of
        Some u \<Rightarrow> (Some u, s)
      | None \<Rightarrow> (case getUserFromRequest w cks s r of (Inr u, s') \<Rightarrow> (Some u, s') | (Inl _, s') \<Rightarrow> (None, s')))"

section \<open>Authentication middleware\<close>

definition auth_message :: "string \<Rightarrow> string \<Rightarrow> json" where
  "auth_message e m = J_object [(''error'', J_string e), (''message'', J_string m)]"

text \<open>A handler runs with the clocks that remain.\<close>

type_synonym ('s, 'e) api_handler = "clocks \<Rightarrow> 's \<Rightarrow> Request \<Rightarrow> Response \<times> 's \<times> 'e list"

definition RequireAuth :: "world \<Rightarrow> (MemoryStore, 'e) api_handler \<Rightarrow> (MemoryStore, 'e) api_handler" where
  "RequireAuth w nxt cks s r =
     (case getUserFromRequest w cks s r of
        (Inl _, s') \<Rightarrow> (encodeJSON 401 (auth_message ''Unauthorized''
           ''Authentication required. Please provide a valid session cookie or Bearer token.''), s', [])
      | (Inr user, s') \<Rightarrow> nxt (later 3 cks) s' (r\<lparr>rq_User := Some user\<rparr>))"

definition RequireRole :: "world \<Rightarrow> string \<Rightarrow> (MemoryStore, 'e) api_handler \<Rightarrow> (MemoryStore, 'e) api_handler" where
  "RequireRole w role nxt cks s r =
     (case context_user w cks s r of
        (None, s') \<Rightarrow> (encodeJSON 401 (auth_message ''Unauthorized'' ''Authentication required.''), s', [])
      | (Some user, s') \<Rightarrow>
          if us_Role user \<noteq> RoleAdmin \<and> us_Role user \<noteq> role then
            (encodeJSON 403 (auth_message ''Forbidden'' ''Insufficient permissions to perform this operation.''), s', [])
          else nxt (later 3 cks) s' (r\<lparr>rq_User := Some user\<rparr>))"

definition RequireAdmin :: "world \<Rightarrow> (MemoryStore, 'e) api_handler \<Rightarrow> (MemoryStore, 'e) api_handler" where
  "RequireAdmin w = RequireRole w RoleAdmin"

definition isOrgPrivileged :: "string \<Rightarrow> bool" where
  "isOrgPrivileged role = (role = ''owner'' \<or> role = ''admin'')"

definition enrichUserOrgMembership :: "MemoryStore \<Rightarrow> User option \<Rightarrow> string \<Rightarrow> User option" where
  "enrichUserOrgMembership s user projectID =
     (case user of
        None \<Rightarrow> None
      | Some u \<Rightarrow>
          if projectID = [] then Some u
          else if us_Role u = RoleAdmin then
            Some (u\<lparr>us_ActiveMembership := Some \<lparr>om_ID = [], om_OrganizationID = [], om_UserID = us_ID u,
              om_Role = ''admin'', om_CreatedAt = 0\<rparr>\<rparr>)
          else (case GetProject s projectID of
                  Inl _ \<Rightarrow> Some u
                | Inr proj \<Rightarrow>
                    (case GetOrgMember s (pj_OrganizationID proj) (us_ID u) of
                       Inr member \<Rightarrow> Some (u\<lparr>us_ActiveMembership := Some member\<rparr>)
                     | Inl _ \<Rightarrow> Some u)))"

definition resolveEffectiveOrgRole :: "MemoryStore \<Rightarrow> User option \<Rightarrow> string \<Rightarrow> string \<times> User option" where
  "resolveEffectiveOrgRole s user projectID =
     (case user of
        None \<Rightarrow> ([], None)
      | Some u \<Rightarrow>
          if us_Role u = RoleAdmin then (''admin'', Some u)
          else (case us_ActiveMembership u of
                  Some m \<Rightarrow> if om_Role m \<noteq> [] then (om_Role m, Some u)
                    else (let u' = enrichUserOrgMembership s (Some u) projectID
                          in (case u' of Some v \<Rightarrow> (case us_ActiveMembership v of Some m \<Rightarrow> om_Role m | None \<Rightarrow> []) | None \<Rightarrow> [], u'))
                | None \<Rightarrow>
                    (let u' = enrichUserOrgMembership s (Some u) projectID
                     in (case u' of Some v \<Rightarrow> (case us_ActiveMembership v of Some m \<Rightarrow> om_Role m | None \<Rightarrow> []) | None \<Rightarrow> [], u'))))"

section \<open>Project authorization\<close>

definition user_orgs :: "world \<Rightarrow> MemoryStore \<Rightarrow> User \<Rightarrow> Organization list" where
  "user_orgs w s u = ListUserOrganizations (w_rt w) (w_orgs w) s (us_ID u)"

definition key_denied :: "APIKey \<Rightarrow> string \<Rightarrow> gerror" where
  "key_denied k projectID = NewAppError 2005 (''API key scoped to project '' @ quoted (ak_ProjectID k)
     @ '' is not authorized to access project '' @ quoted projectID) 403 (Some (Sentinel ErrForbidden))"

definition project_missing :: "string \<Rightarrow> gerror" where
  "project_missing projectID = NewAppError 2003 (''project not found: '' @ projectID) 404 (Some (Sentinel ErrProjectNotFound))"

text \<open>\<open>apiKey != nil && apiKey.ProjectID != ""\<close>\<close>

definition scoped_key :: "APIKey option \<Rightarrow> APIKey option" where
  "scoped_key k = (case k of Some k \<Rightarrow> if ak_ProjectID k \<noteq> [] then Some k else None | None \<Rightarrow> None)"

definition authorizeProjectAccess :: "world \<Rightarrow> clocks \<Rightarrow> MemoryStore \<Rightarrow> Request \<Rightarrow> string \<Rightarrow> unit result \<times> MemoryStore" where
  "authorizeProjectAccess w cks s r projectID =
     (let (key, s) = getAPIKeyFromRequest w (cks 0) s r in
      case scoped_key key of
        Some apiKey \<Rightarrow>
          (if ak_ProjectID apiKey \<noteq> projectID then Inl (key_denied apiKey projectID) else Inr (), s)
      | None \<Rightarrow>
          (let (user, s) = context_user w (later 1 cks) s r in
           case user of
             Some user \<Rightarrow>
               if us_Role user = RoleAdmin then
                 (case GetProject s projectID of Inl _ \<Rightarrow> Inl (project_missing projectID) | Inr _ \<Rightarrow> Inr (), s)
               else
                 (case GetProject s projectID of
                    Inl _ \<Rightarrow> (Inl (project_missing projectID), s)
                  | Inr proj \<Rightarrow>
                      if pj_OrganizationID proj \<notin> og_ID ` set (user_orgs w s user) then
                        (Inl (NewAppError 2005 (''user '' @ quoted (us_Email user) @ '' is not authorized to access project ''
                           @ quoted projectID @ '' (not a member of organization '' @ quoted (pj_OrganizationID proj) @ '')'')
                           403 (Some (Sentinel ErrForbidden))), s)
                      else (Inr (), s))
           | None \<Rightarrow>
               (Inl (NewAppError 1001 ''authentication required to access project'' 401 (Some (Sentinel ErrUnauthorized))), s)))"

text \<open>The candidate project of a request, and whether it is named explicitly.\<close>

definition target_project :: "Request \<Rightarrow> string \<times> bool" where
  "target_project r =
     (if header_get r ''X-Project-ID'' \<noteq> [] then (header_get r ''X-Project-ID'', True)
      else if query_get r ''project_id'' \<noteq> [] then (query_get r ''project_id'', True)
      else if query_get r ''projectId'' \<noteq> [] then (query_get r ''projectId'', True)
      else (case cookie_get r CookieProjectName of Some v \<Rightarrow> (v, False) | None \<Rightarrow> ([], False)))"

text \<open>The first project of the first organization that has one.\<close>

fun first_project :: "world \<Rightarrow> MemoryStore \<Rightarrow> Organization list \<Rightarrow> string option" where
  "first_project w s [] = None"
| "first_project w s (org # orgs) =
     (case ListProjects (w_projects w) s (og_ID org) of
        p # _ \<Rightarrow> Some (pj_ID p)
      | [] \<Rightarrow> first_project w s orgs)"

definition enrich_context :: "MemoryStore \<Rightarrow> Request \<Rightarrow> string \<Rightarrow> Request" where
  "enrich_context s r projectID = r\<lparr>rq_User := enrichUserOrgMembership s (rq_User r) projectID\<rparr>"

text \<open>The project of a signed-in caller when the request names none.\<close>

definition default_project :: "world \<Rightarrow> MemoryStore \<Rightarrow> User \<Rightarrow> string result" where
  "default_project w s user =
     (let orgs = user_orgs w s user in
      if us_Role user = RoleAdmin then
        Inr (case first_project w s orgs of Some p \<Rightarrow> p | None \<Rightarrow> DefaultProjectID)
      else if orgs = [] then
        Inl (NewAppError 2005 ''user has no assigned organizations'' 403 (Some (Sentinel ErrForbidden)))
      else (case first_project w s orgs of
              Some p \<Rightarrow> Inr p
            | None \<Rightarrow> Inl (NewAppError 2006 ''no active project found for user'' 400 (Some (Sentinel ErrInvalidInput)))))"

definition resolveAndAuthorizeProjectID :: "world \<Rightarrow> clocks \<Rightarrow> MemoryStore \<Rightarrow> Request
  \<Rightarrow> string result \<times> Request \<times> MemoryStore" where
  "resolveAndAuthorizeProjectID w cks s r =
     (let (targetID, fromExplicit) = target_project r;
          (key, s) = getAPIKeyFromRequest w (cks 0) s r
      in case scoped_key key of
           Some apiKey \<Rightarrow>
             if targetID \<noteq> [] \<and> targetID \<noteq> ak_ProjectID apiKey then (Inl (key_denied apiKey targetID), r, s)
             else (Inr (ak_ProjectID apiKey), r, s)
         | None \<Rightarrow>
             (let (user, s) = context_user w (later 1 cks) s r in
              case user of
                Some user \<Rightarrow>
                  (let (denied, s) = (if targetID \<noteq> [] then authorizeProjectAccess w (later 4 cks) s r targetID
                         else (Inl (Sentinel ErrUnauthorized), s))
                   in case denied of
                        Inr _ \<Rightarrow> (Inr targetID, enrich_context s r targetID, s)
                      | Inl err \<Rightarrow>
                          if targetID \<noteq> [] \<and> fromExplicit then (Inl err, r, s)
                          else (case default_project w s user of
                                  Inr p \<Rightarrow> (Inr p, enrich_context s r p, s)
                                | Inl err \<Rightarrow> (Inl err, r, s)))
              | None \<Rightarrow>
                  if targetID \<noteq> [] then
                    (case GetProject s targetID of
                       Inr _ \<Rightarrow> (Inr targetID, r, s)
                     | Inl _ \<Rightarrow> (Inl (project_missing targetID), r, s))
                  else (Inl (NewAppError 2006 ''project_id is required via X-Project-ID header or query parameter'' 400
                      (Some (Sentinel ErrInvalidInput))), r, s)))"

definition resolveProjectID :: "world \<Rightarrow> clocks \<Rightarrow> MemoryStore \<Rightarrow> Request \<Rightarrow> string \<times> Request \<times> MemoryStore" where
  "resolveProjectID w cks s r =
     (case resolveAndAuthorizeProjectID w cks s r of
        (Inr p, x) \<Rightarrow> (p, x) | (Inl _, x) \<Rightarrow> ([], x))"

definition getActorFromRequest :: "Request \<Rightarrow> string \<Rightarrow> string" where
  "getActorFromRequest r fallback =
     (case rq_User r of
        Some u \<Rightarrow> if us_Email u \<noteq> [] then us_Email u
          else if header_get r ''X-Actor'' \<noteq> [] then header_get r ''X-Actor''
          else if query_get r ''actor'' \<noteq> [] then query_get r ''actor''
          else if fallback \<noteq> [] then fallback else ''developer@flagura.dev''
      | None \<Rightarrow> if header_get r ''X-Actor'' \<noteq> [] then header_get r ''X-Actor''
          else if query_get r ''actor'' \<noteq> [] then query_get r ''actor''
          else if fallback \<noteq> [] then fallback else ''developer@flagura.dev'')"

section \<open>What the checks leave unchanged\<close>

definition unused :: "APIKey \<Rightarrow> APIKey" where
  "unused k = k\<lparr>ak_LastUsedAt := None\<rparr>"

text \<open>Two stores that differ in the usage stamps of API keys only.\<close>

definition same_but_usage :: "MemoryStore \<Rightarrow> MemoryStore \<Rightarrow> bool" where
  "same_but_usage s s' \<longleftrightarrow> (\<exists>m. s' = s\<lparr>ms_apiKeys := m\<rparr>
     \<and> (\<forall>i. map_option unused (mget m i) = map_option unused (mget (ms_apiKeys s) i)))"

lemma same_refl [simp]: "same_but_usage s s"
  unfolding same_but_usage_def by (rule exI [of _ "ms_apiKeys s"]) simp

lemma same_trans [trans]: "same_but_usage s t \<Longrightarrow> same_but_usage t u \<Longrightarrow> same_but_usage s u"
  unfolding same_but_usage_def by auto

lemma same_fields:
  assumes "same_but_usage s s'"
  shows "ms_flagsSnapshot s' = ms_flagsSnapshot s" "ms_orgs s' = ms_orgs s" "ms_projects s' = ms_projects s"
    "ms_orgMembers s' = ms_orgMembers s" "ms_orgInvitations s' = ms_orgInvitations s"
    "ms_auditLogs s' = ms_auditLogs s" "ms_events s' = ms_events s" "ms_users s' = ms_users s"
    "ms_sessions s' = ms_sessions s" "ms_changeRequests s' = ms_changeRequests s"
    "ms_apiKeysByHash s' = ms_apiKeysByHash s" "ms_auditAnchors s' = ms_auditAnchors s"
    "ms_canarySchedules s' = ms_canarySchedules s" "ms_passwordResetTokens s' = ms_passwordResetTokens s"
  using assms by (auto simp: same_but_usage_def)

text \<open>The stored key that a token names.\<close>

definition key_of_token :: "runtime \<Rightarrow> MemoryStore \<Rightarrow> string \<Rightarrow> APIKey option" where
  "key_of_token rt s tok =
     (case mget (ms_apiKeysByHash s) (rt_sha256 rt tok) of
        None \<Rightarrow> None
      | Some i \<Rightarrow> (case mget (ms_apiKeys s) i of
                    None \<Rightarrow> None | Some k \<Rightarrow> if ak_Revoked k then None else Some (unused k)))"

lemma GetAPIKeyByHash_key:
  "case GetAPIKeyByHash clk s (rt_sha256 rt tok) of
     (Inr k, s') \<Rightarrow> key_of_token rt s tok = Some (unused k) \<and> \<not> ak_Revoked k \<and> same_but_usage s s'
   | (Inl e, s') \<Rightarrow> key_of_token rt s tok = None \<and> s' = s"
  by (auto simp: GetAPIKeyByHash_def key_of_token_def same_but_usage_def unused_def Let_def map_simps
    split: option.splits)

lemma unused_fields [simp]: "ak_ProjectID (unused k) = ak_ProjectID k" "ak_Revoked (unused k) = ak_Revoked k"
    "ak_Role (unused k) = ak_Role k" "ak_Environment (unused k) = ak_Environment k" "key_user (unused k) = key_user k"
  by (simp_all add: unused_def key_user_def)

lemma key_of_token_same: "same_but_usage s s' \<Longrightarrow> key_of_token rt s' tok = key_of_token rt s tok"
proof -
  assume "same_but_usage s s'"
  then obtain m where m: "s' = s\<lparr>ms_apiKeys := m\<rparr>"
      "\<And>i. map_option unused (mget m i) = map_option unused (mget (ms_apiKeys s) i)"
    by (auto simp: same_but_usage_def)
  have "(case mget m i of None \<Rightarrow> None | Some k \<Rightarrow> if ak_Revoked k then None else Some (unused k)) =
      (case mget (ms_apiKeys s) i of None \<Rightarrow> None | Some k \<Rightarrow> if ak_Revoked k then None else Some (unused k))" for i
    using m(2) [of i] by (cases "mget m i"; cases "mget (ms_apiKeys s) i"; simp) (metis unused_fields(2))
  then show ?thesis using m(1) by (auto simp: key_of_token_def split: option.splits)
qed

lemma same_reads:
  assumes "same_but_usage s s'"
  shows "GetProject s' p = GetProject s p" "user_orgs w s' u = user_orgs w s u"
    "ListProjects ord s' org = ListProjects ord s org" "GetUserByID s' i = GetUserByID s i"
    "GetSession now s' tok = GetSession now s tok" "GetOrgMember s' a b = GetOrgMember s a b"
  unfolding GetProject_def user_orgs_def ListUserOrganizations_def ListProjects_def GetUserByID_def
    GetSession_def GetOrgMember_def same_fields [OF assms] by (rule refl)+

lemma first_project_same:
  assumes "same_but_usage s s'"
  shows "first_project w s' orgs = first_project w s orgs"
  by (induction orgs) (simp_all add: same_reads [OF assms] split: list.splits)

lemma default_project_same:
  assumes "same_but_usage s s'"
  shows "default_project w s' u = default_project w s u"
  unfolding default_project_def same_reads [OF assms] first_project_same [OF assms] ..

definition request_key :: "world \<Rightarrow> MemoryStore \<Rightarrow> Request \<Rightarrow> APIKey option" where
  "request_key w s r = (if raw_token r = [] then None else key_of_token (w_rt w) s (raw_token r))"

lemma request_update [simp]:
  "header_get (r\<lparr>rq_User := x\<rparr>) k = header_get r k" "query_get (r\<lparr>rq_User := x\<rparr>) k = query_get r k"
  "cookie_get (r\<lparr>rq_User := x\<rparr>) k = cookie_get r k"
  by (simp_all add: header_get_def query_get_def cookie_get_def)

lemma token_update [simp]:
  "raw_token (r\<lparr>rq_User := x\<rparr>) = raw_token r" "request_key w s (r\<lparr>rq_User := x\<rparr>) = request_key w s r"
  "target_project (r\<lparr>rq_User := x\<rparr>) = target_project r"
  unfolding request_key_def raw_token_def target_project_def request_update by (rule refl)+

lemma getAPIKey_spec:
  assumes "getAPIKeyFromRequest w clk s r = (k, s')"
  shows "same_but_usage s s'" and "request_key w s r = map_option unused k"
  using assms GetAPIKeyByHash_key [where clk = clk and s = s and rt = "w_rt w" and tok = "raw_token r"]
  by (auto simp: getAPIKeyFromRequest_def request_key_def Let_def split: prod.splits sum.splits if_splits)

lemma request_key_same: "same_but_usage s s' \<Longrightarrow> request_key w s' r = request_key w s r"
  by (simp add: request_key_def key_of_token_same)

lemma token_loop_spec:
  assumes "token_loop w cks i s toks = (res, s')"
  shows "same_but_usage s s' \<and> (case res of
      None \<Rightarrow> (\<forall>tok \<in> set toks. tok = [] \<or> key_of_token (w_rt w) s tok = None)
    | Some u \<Rightarrow> (u = service_user \<and> w_getenv w ''FLAGURA_API_KEY'' \<in> set toks \<and> w_getenv w ''FLAGURA_API_KEY'' \<noteq> [])
        \<or> (\<exists>tok \<in> set toks. \<exists>k. tok \<noteq> [] \<and> key_of_token (w_rt w) s tok = Some k \<and> u = key_user k))"
  using assms
proof (induction toks arbitrary: i s)
  case (Cons tok toks)
  obtain x s1 where g: "GetAPIKeyByHash (cks i) s (rt_sha256 (w_rt w) tok) = (x, s1)" by fastforce
  note k = GetAPIKeyByHash_key [where clk = "cks i" and s = s and rt = "w_rt w" and tok = tok, unfolded g]
  show ?case
  proof (cases "tok = []")
    case True
    with Cons.prems have "token_loop w cks (Suc i) s toks = (res, s')" by simp
    from Cons.IH [OF this] True show ?thesis by (auto split: option.splits)
  next
    case False
    note ne = this
    show ?thesis
    proof (cases "tok = w_getenv w ''FLAGURA_API_KEY''")
      case True
      with ne Cons.prems show ?thesis by auto
    next
      case False
      show ?thesis
      proof (cases x)
        case (Inl e)
        with ne False Cons.prems g k have "token_loop w cks (Suc i) s toks = (res, s')" by simp
        from Cons.IH [OF this] k Inl show ?thesis by (auto split: option.splits)
      next
        case (Inr key)
        with ne False Cons.prems g k show ?thesis by (auto intro!: exI [of _ "unused key"])
      qed
    qed
  qed
qed simp

lemma session_loop_spec:
  assumes "session_loop clk i s toks = Some u"
  shows "\<exists>tok \<in> set toks. \<exists>sess j. mget (ms_sessions s) tok = Some sess \<and> clk j \<le> se_ExpiresAt sess
    \<and> (mget (ms_users s) (se_UserID sess) = Some u \<or> se_User sess = Some u)"
  using assms
proof (induction clk i s toks rule: session_loop.induct)
  case (2 clk i s tok toks)
  show ?case
  proof (cases "GetSession (clk i) s tok")
    case (Inl e)
    with 2 show ?thesis by auto
  next
    case (Inr sess)
    then obtain sess0 where m: "mget (ms_sessions s) tok = Some sess0" "clk i \<le> se_ExpiresAt sess0"
        "sess = (case mget (ms_users s) (se_UserID sess0) of Some v \<Rightarrow> sess0\<lparr>se_User := Some v\<rparr> | None \<Rightarrow> sess0)"
      by (auto simp: GetSession_def Session_IsExpired_def split: option.splits if_splits)
    show ?thesis
    proof (cases "se_User sess")
      case (Some v)
      with 2 Inr m show ?thesis by (force split: option.splits)
    next
      case None
      with m have "mget (ms_users s) (se_UserID sess0) = None" "sess = sess0" by (auto split: option.splits)
      with None 2 Inr m show ?thesis by (auto simp: GetUserByID_def split: if_splits)
    qed
  qed
qed simp

lemma getUser_same:
  assumes "getUserFromRequest w cks s r = (x, s')"
  shows "same_but_usage s s'"
proof -
  obtain u s1 where t: "token_loop w cks 0 s [api_key_header (w_rt w) r, bearer_token (w_rt w) r] = (u, s1)" by fastforce
  from assms have "s' = s1"
    unfolding getUserFromRequest_def Let_def t by (auto split: option.splits)
  with token_loop_spec [OF t] show ?thesis by simp
qed

lemma getUser_update [simp]: "getUserFromRequest w cks s (r\<lparr>rq_User := x\<rparr>) = getUserFromRequest w cks s r"
proof -
  have e: "api_key_header rt (r\<lparr>rq_User := x\<rparr>) = api_key_header rt r" "bearer_token rt (r\<lparr>rq_User := x\<rparr>) = bearer_token rt r"
    "session_cookies rt (r\<lparr>rq_User := x\<rparr>) = session_cookies rt r" for rt
    by (simp_all add: api_key_header_def bearer_token_def session_cookies_def)
  show ?thesis unfolding getUserFromRequest_def e ..
qed

lemma later_const [simp]: "later n (\<lambda>_. c) = (\<lambda>_. c)"
  by (simp add: later_def)

lemma context_user_same: "context_user w cks s r = (x, s') \<Longrightarrow> same_but_usage s s'"
  by (auto simp: context_user_def dest: getUser_same split: option.splits prod.splits sum.splits)

lemma context_user_set [simp]: "rq_User r = Some u \<Longrightarrow> context_user w cks s r = (Some u, s)"
  by (simp add: context_user_def)

lemma authorize_same: "authorizeProjectAccess w cks s r p = (x, s') \<Longrightarrow> same_but_usage s s'"
  by (auto simp: authorizeProjectAccess_def Let_def dest!: getAPIKey_spec(1) context_user_same
    intro: same_trans split: prod.splits option.splits if_splits sum.splits)

lemma resolve_same:
  assumes "resolveAndAuthorizeProjectID w cks s r = (x, r', s')"
  shows "same_but_usage s s'"
proof -
  obtain t e where t: "target_project r = (t, e)" by fastforce
  obtain k s1 where k: "getAPIKeyFromRequest w (cks 0) s r = (k, s1)" by fastforce
  obtain u s2 where u: "context_user w (later 1 cks) s1 r = (u, s2)" by fastforce
  obtain d s3 where d: "authorizeProjectAccess w (later 4 cks) s2 r t = (d, s3)" by fastforce
  have 1: "same_but_usage s s1" "same_but_usage s1 s2" "same_but_usage s2 s3"
    using getAPIKey_spec(1) [OF k] context_user_same [OF u] authorize_same [OF d] by simp_all
  then have 2: "same_but_usage s s2" "same_but_usage s s3" by (blast intro: same_trans)+
  from assms have "s' \<in> {s1, s2, s3}"
    unfolding resolveAndAuthorizeProjectID_def t k Let_def prod.case u d if_distrib [of "case_prod f" for f]
    by (auto split: option.splits if_splits sum.splits)
  with 1 2 show ?thesis by auto
qed

text \<open>The projects a signed-in user may act on through memberships.\<close>

definition listed_project :: "world \<Rightarrow> MemoryStore \<Rightarrow> User \<Rightarrow> string \<Rightarrow> bool" where
  "listed_project w s u p \<longleftrightarrow> (\<exists>proj. (GetProject s p = Inr proj \<or> proj \<in> snd ` set (ms_projects s) \<and> pj_ID proj = p)
     \<and> pj_OrganizationID proj \<in> og_ID ` set (user_orgs w s u))"

definition may_access :: "world \<Rightarrow> MemoryStore \<Rightarrow> Request \<Rightarrow> User \<Rightarrow> string \<Rightarrow> bool" where
  "may_access w s r u p \<longleftrightarrow> (\<exists>k. request_key w s r = Some k \<and> ak_ProjectID k = p)
     \<or> us_Role u = ''admin'' \<or> listed_project w s u p"

text \<open>No organization and no project has an empty identifier.\<close>

definition tenants_named :: "MemoryStore \<Rightarrow> bool" where
  "tenants_named s \<longleftrightarrow> (\<forall>(k, org) \<in> set (ms_orgs s). og_ID org \<noteq> []) \<and> (\<forall>(k, proj) \<in> set (ms_projects s). pj_ID proj \<noteq> [])"

lemma user_orgs_stored:
  assumes "is_order (w_orgs w)" and "org \<in> set (user_orgs w s u)"
  shows "org \<in> snd ` set (ms_orgs s)"
proof -
  have "set (dedup_by og_ID [] xs) \<subseteq> set xs" for xs using dedup_by_set [of og_ID "[]" xs] by auto
  then have "set (user_orgs w s u) \<subseteq> snd ` set (w_orgs w (ms_orgs s))"
    unfolding user_orgs_def ListUserOrganizations_def Let_def by (fastforce split: if_splits)
  with assms show ?thesis by (auto simp: is_order_set)
qed

lemma ListProjects_stored:
  assumes "is_order ord" and "x \<in> set (ListProjects ord s i)"
  shows "x \<in> snd ` set (ms_projects s)" and "i = [] \<or> pj_OrganizationID x = i"
proof -
  have "x \<in> set (filter (\<lambda>p. i = [] \<or> pj_OrganizationID p = i) (map snd (ord (ms_projects s))))"
    using assms(2) dedup_by_set [of pj_ID "[]"] unfolding ListProjects_def by blast
  then show "x \<in> snd ` set (ms_projects s)" and "i = [] \<or> pj_OrganizationID x = i"
    using is_order_set [OF assms(1)] by auto
qed

lemma first_project_listed:
  assumes "is_order (w_projects w)" and "first_project w s orgs = Some p" and "\<forall>org \<in> set orgs. og_ID org \<noteq> []"
  shows "\<exists>proj. proj \<in> snd ` set (ms_projects s) \<and> pj_ID proj = p \<and> pj_OrganizationID proj \<in> og_ID ` set orgs"
  using assms(2,3)
proof (induction orgs)
  case (Cons org orgs)
  show ?case
  proof (cases "ListProjects (w_projects w) s (og_ID org)")
    case Nil
    with Cons show ?thesis by auto
  next
    case (Cons proj rest)
    then have "proj \<in> set (ListProjects (w_projects w) s (og_ID org))" by simp
    then have "proj \<in> snd ` set (ms_projects s) \<and> pj_OrganizationID proj = og_ID org"
      using ListProjects_stored [OF assms(1), of proj s "og_ID org"] Cons.prems(2) by auto
    with Cons Cons.prems show ?thesis by auto
  qed
qed simp

lemma scoped_key_unused: "scoped_key (map_option unused k) = map_option unused (scoped_key k)"
  by (simp add: scoped_key_def split: option.splits)

lemma authorize_spec:
  assumes "rq_User r = Some u"
  shows "(\<exists>x. fst (authorizeProjectAccess w cks s r p) = Inr x) \<longleftrightarrow>
    (case scoped_key (request_key w s r) of
       Some k \<Rightarrow> ak_ProjectID k = p
     | None \<Rightarrow> \<exists>proj. GetProject s p = Inr proj \<and>
         (us_Role u = ''admin'' \<or> pj_OrganizationID proj \<in> og_ID ` set (user_orgs w s u)))"
proof -
  obtain k s1 where k: "getAPIKeyFromRequest w (cks 0) s r = (k, s1)" by fastforce
  note same = getAPIKey_spec(1) [OF k]
  have "scoped_key (request_key w s r) = map_option unused (scoped_key k)"
    using getAPIKey_spec(2) [OF k] by (simp add: scoped_key_unused)
  then show ?thesis
    using assms unfolding authorizeProjectAccess_def k
    by (cases "scoped_key k"; cases "GetProject s p") (auto simp: same_reads [OF same] Let_def)
qed

lemma resolve_user:
  assumes "rq_User r = Some u" and "target_project r = (t, e)"
  shows "fst (resolveAndAuthorizeProjectID w cks s r) =
    (case scoped_key (request_key w s r) of
       Some k \<Rightarrow> if t \<noteq> [] \<and> t \<noteq> ak_ProjectID k then Inl (key_denied k t) else Inr (ak_ProjectID k)
     | None \<Rightarrow>
         if t \<noteq> [] \<and> (\<exists>x. fst (authorizeProjectAccess w (later 4 cks) s r t) = Inr x) then Inr t
         else if t \<noteq> [] \<and> e then Inl (projl (fst (authorizeProjectAccess w (later 4 cks)
           (snd (getAPIKeyFromRequest w (cks 0) s r)) r t)))
         else default_project w s u)"
proof -
  obtain k s1 where k: "getAPIKeyFromRequest w (cks 0) s r = (k, s1)" by fastforce
  note same = getAPIKey_spec(1) [OF k]
  have key: "scoped_key (request_key w s r) = map_option unused (scoped_key k)"
    using getAPIKey_spec(2) [OF k] by (simp add: scoped_key_unused)
  have den: "key_denied (unused x) t = key_denied x t" for x t by (simp add: key_denied_def)
  obtain d s2 where d: "authorizeProjectAccess w (later 4 cks) s1 r t = (d, s2)" by fastforce
  have ok: "(\<exists>x. fst (authorizeProjectAccess w (later 4 cks) s r t) = Inr x) \<longleftrightarrow> (\<exists>x. d = Inr x)"
    using authorize_spec [OF assms(1), of w "later 4 cks" s t] authorize_spec [OF assms(1), of w "later 4 cks" s1 t]
    unfolding d request_key_same [OF same] same_reads [OF same] by simp
  have "default_project w s1 u = default_project w s u" "default_project w s2 u = default_project w s u"
    using default_project_same [OF same] default_project_same [OF authorize_same [OF d]] by simp_all
  then show ?thesis
    using key den ok assms unfolding resolveAndAuthorizeProjectID_def k
    by (cases "scoped_key k"; cases d; cases "default_project w s u") (auto simp: d Let_def)
qed

lemma resolve_may_access:
  assumes "resolveAndAuthorizeProjectID w cks s r = (Inr p, r', s')" and "rq_User r = Some u"
    and "is_order (w_orgs w)" and "is_order (w_projects w)" and "tenants_named s"
  shows "may_access w s r u p"
proof -
  obtain t e where t: "target_project r = (t, e)" by fastforce
  have f: "fst (resolveAndAuthorizeProjectID w cks s r) = Inr p" using assms(1) by simp
  show ?thesis
  proof (cases "scoped_key (request_key w s r)")
    case (Some k)
    with f resolve_user [OF assms(2) t, of w cks s] show ?thesis
      by (auto simp: may_access_def scoped_key_def split: option.splits if_splits)
  next
    case None
    show ?thesis
    proof (cases "t \<noteq> [] \<and> (\<exists>x. fst (authorizeProjectAccess w (later 4 cks) s r t) = Inr x)")
      case True
      with None f resolve_user [OF assms(2) t, of w cks s] have "p = t" by auto
      with True None authorize_spec [OF assms(2), of w "later 4 cks" s t] show ?thesis
        by (auto simp: may_access_def listed_project_def)
    next
      case False
      with None f resolve_user [OF assms(2) t, of w cks s] have "default_project w s u = Inr p"
        by (auto split: if_splits)
      moreover have "\<forall>org \<in> set (user_orgs w s u). og_ID org \<noteq> []"
        using user_orgs_stored [OF assms(3)] assms(5) by (force simp: tenants_named_def)
      ultimately show ?thesis
        using first_project_listed [OF assms(4), of s "user_orgs w s u" p]
        by (auto simp: default_project_def may_access_def listed_project_def Let_def split: if_splits option.splits)
    qed
  qed
qed

lemma resolve_nonempty:
  assumes "resolveAndAuthorizeProjectID w cks s r = (Inr p, r', s')" and "rq_User r = Some u"
    and "is_order (w_projects w)" and "tenants_named s"
  shows "p \<noteq> []"
proof -
  obtain t e where t: "target_project r = (t, e)" by fastforce
  have first: "first_project w s orgs = Some q \<Longrightarrow> q \<noteq> []" for orgs q
  proof (induction orgs)
    case (Cons org orgs)
    have "x \<in> set (ListProjects (w_projects w) s i) \<Longrightarrow> pj_ID x \<noteq> []" for x i
      using ListProjects_stored(1) [OF assms(3)] assms(4) by (force simp: tenants_named_def)
    from Cons this [of "hd (ListProjects (w_projects w) s (og_ID org))" "og_ID org"] show ?case
      by (cases "ListProjects (w_projects w) s (og_ID org)") auto
  qed simp
  have "default_project w s u = Inr p \<Longrightarrow> p \<noteq> []"
    using first by (auto simp: default_project_def Let_def split: if_splits option.splits)
  moreover have "scoped_key x = Some k \<Longrightarrow> ak_ProjectID k \<noteq> []" for x k
    by (auto simp: scoped_key_def split: option.splits if_splits)
  ultimately show ?thesis
    using resolve_user [OF assms(2) t, of w cks s] assms(1) by (auto split: option.splits if_splits)
qed

section \<open>A store with two tenants\<close>

definition demo_world :: world where
  "demo_world = \<lparr>w_rt = demo_runtime, w_getenv = (\<lambda>_. []), w_ParseIP = (\<lambda>_. False), w_orgs = id,
     w_projects = id, w_members = id, w_users = id, w_keys = id, w_invitations = id, w_changes = id, w_envs = id\<rparr>"

definition demo_tenants :: MemoryStore where
  "demo_tenants = demo_accounts\<lparr>
     ms_orgs := [(''o1'', demo_org ''o1'' ''acme''), (''o2'', demo_org ''o2'' ''bolt'')],
     ms_projects := [(''p1'', demo_project ''p1'' ''o1'' ''web''), (''p2'', demo_project ''p2'' ''o2'' ''app'')],
     ms_orgMembers := [(''o1:u1'', \<lparr>om_ID = ''m1'', om_OrganizationID = ''o1'', om_UserID = ''u1'', om_Role = ''owner'', om_CreatedAt = 0\<rparr>)],
     ms_apiKeys := [(''k1'', demo_key\<lparr>ak_ProjectID := ''p1'', ak_Role := ''admin'', ak_KeyHash := ''#sk''\<rparr>)],
     ms_apiKeysByHash := [(''#sk'', ''k1'')]\<rparr>"

definition demo_get :: "(string \<times> string) list \<Rightarrow> Request" where
  "demo_get hs = \<lparr>rq_Method = ''GET'', rq_Path = ''/api/v1/flags'', rq_Query = [], rq_Header = hs,
     rq_Cookies = [], rq_Host = ''flagura.dev'', rq_TLS = True, rq_RemoteAddr = [], rq_User = None, rq_RequestID = []\<rparr>"

lemma demo_slug: "Slugify demo_runtime ''Ann'' = ''ann''"
  by code_simp

lemma demo_user_orgs: "map og_ID (user_orgs demo_world demo_tenants demo_user) = [''o1'']"
  by (simp add: user_orgs_def ListUserOrganizations_def demo_world_def demo_tenants_def demo_accounts_def
    NewMemoryStore_def demo_user_def demo_org_def demo_slug mget_def HasPrefix_def Let_def)

section \<open>Properties\<close>

text \<open>
  C9: who a request speaks for. \<open>getUserFromRequest\<close> accepts a request only for the holder of the
  configured master key, for the holder of a stored key that is not revoked, or for the user of a
  stored session that has not expired at the moment it is read; and the check changes nothing in
  the store but the usage stamps of API keys.
\<close>

theorem authenticated_caller:
  assumes "getUserFromRequest w cks s r = (Inr u, s')"
  shows "same_but_usage s s' \<and>
    ((u = service_user \<and> w_getenv w ''FLAGURA_API_KEY'' \<noteq> []
        \<and> w_getenv w ''FLAGURA_API_KEY'' \<in> {api_key_header (w_rt w) r, bearer_token (w_rt w) r})
     \<or> (\<exists>tok \<in> {api_key_header (w_rt w) r, bearer_token (w_rt w) r}. \<exists>k. tok \<noteq> []
          \<and> key_of_token (w_rt w) s tok = Some k \<and> \<not> ak_Revoked k \<and> u = key_user k)
     \<or> (\<exists>tok \<in> set (session_cookies (w_rt w) r) \<union> {bearer_token (w_rt w) r}. \<exists>sess j.
          mget (ms_sessions s) tok = Some sess \<and> cks 2 j \<le> se_ExpiresAt sess
          \<and> (mget (ms_users s) (se_UserID sess) = Some u \<or> se_User sess = Some u)))"
proof -
  let ?toks = "[api_key_header (w_rt w) r, bearer_token (w_rt w) r]"
  obtain v s1 where t: "token_loop w cks 0 s ?toks = (v, s1)" by fastforce
  have same: "same_but_usage s s'" using assms by (rule getUser_same)
  have nr: "key_of_token rt s tok = Some k \<Longrightarrow> \<not> ak_Revoked k" for rt tok k
    by (auto simp: key_of_token_def split: option.splits if_splits)
  show ?thesis
  proof (cases v)
    case (Some x)
    with assms have "x = u" unfolding getUserFromRequest_def Let_def t by simp
    with token_loop_spec [OF t] Some same nr show ?thesis by auto
  next
    case None
    let ?cands = "session_cookies (w_rt w) r @ (if bearer_token (w_rt w) r \<noteq> [] then [bearer_token (w_rt w) r] else [])"
    from None assms have l: "session_loop (cks 2) 0 s1 ?cands = Some u"
      unfolding getUserFromRequest_def Let_def t by (auto split: option.splits)
    have "same_but_usage s s1" using token_loop_spec [OF t] by simp
    note f = same_fields(8,9) [OF this]
    from session_loop_spec [OF l] same show ?thesis unfolding f by (fastforce split: if_splits)
  qed
qed

theorem authenticated_caller_witness:
  "let s = demo_tenants; r = demo_get [(''Authorization'', ''Bearer t1'')] in
   fst (getUserFromRequest demo_world (\<lambda>_ _. 7) s r) = Inr demo_user \<and> mget (ms_sessions s) ''t1'' = Some demo_session
   \<and> (\<exists>tok sess. mget (ms_sessions s) tok = Some sess \<and> 7 \<le> se_ExpiresAt sess)"
proof -
  let ?r = "demo_get [(''Authorization'', ''Bearer t1'')]"
  have b: "bearer_token demo_runtime ?r = ''t1''" "api_key_header demo_runtime ?r = []"
    "session_cookies demo_runtime ?r = []" "header_get ?r ''Authorization'' = ''Bearer t1''"
    by code_simp+
  have h: "rt_sha256 demo_runtime x = CHR ''#'' # x" for x by (simp add: demo_runtime_def)
  let ?s = "snd (getUserFromRequest demo_world (\<lambda>_ _. 7) demo_tenants ?r)"
  have g: "getUserFromRequest demo_world (\<lambda>_ _. 7) demo_tenants ?r = (Inr demo_user, ?s)"
    by (simp add: getUserFromRequest_def demo_world_def b Let_def demo_tenants_def demo_accounts_def NewMemoryStore_def
      GetAPIKeyByHash_def GetSession_def mget_def demo_session_def Session_IsExpired_def h demo_user_def)
  have n: "demo_user \<noteq> service_user" by (simp add: demo_user_def service_user_def)
  have k: "\<And>k. demo_user \<noteq> key_user k" by (simp add: demo_user_def key_user_def)
  from authenticated_caller [OF g] n k
  have "\<exists>tok sess. mget (ms_sessions demo_tenants) tok = Some sess \<and> 7 \<le> se_ExpiresAt sess" by blast
  moreover have "mget (ms_sessions demo_tenants) ''t1'' = Some demo_session"
    by (simp add: demo_tenants_def demo_accounts_def mget_def)
  moreover have "fst (getUserFromRequest demo_world (\<lambda>_ _. 7) demo_tenants ?r) = Inr demo_user"
    by (subst g) simp
  ultimately show ?thesis by (simp add: Let_def)
qed



text \<open>
  The scope of an API key can be shed. \<open>getUserFromRequest\<close> trims the bearer token before it
  looks the key up and \<open>getAPIKeyFromRequest\<close> does not, so with a second space after \<open>Bearer\<close> the
  scope check sees no key while authentication still sees the key's role: an admin key scoped to the
  project \<open>p1\<close> is refused for the project \<open>p2\<close> of another organization, and the same request with
  one more space is accepted.
\<close>

theorem key_scope_shed_by_space:
  "let ask = (\<lambda>h. demo_get [(''Authorization'', h), (''X-Project-ID'', ''p2'')]);
       outcome = (\<lambda>h. map_sum ae_HTTPStatus id
         (fst (resolveAndAuthorizeProjectID demo_world (\<lambda>_ _. 7) demo_tenants (ask h))))
   in outcome ''Bearer sk'' = Inl 403 \<and> outcome ''Bearer  sk'' = Inr ''p2''"
  by code_simp

end
