(* ===== verification/Stream.thy ===== *)
theory Stream
  imports Store_Flags Http
begin

text \<open>
  The event-stream hub, \<open>src/pkg/api/stream.go\<close>. The hub's goroutine owns the state and handles one
  channel event at a time under the mutex, so an event is one function on the state: registering
  and unregistering a client, delivering a broadcast, stopping. A client is named by a number that
  stands for its pointer; its \<open>send\<close> channel holds 20 messages and the hub's broadcast channel 100, and a
  send to a full one drops the message. \<open>hub_step\<close> interleaves the events with the publishers and with
  the clients that read.
\<close>

section \<open>State\<close>

datatype stream_event =
    flags_update string string "64 word" gtime "FeatureFlag list"
  | flags_init string string "64 word" gtime "FeatureFlag list"
  | custom_event string json

record streamBroadcastMsg =
  sm_projectID :: string
  sm_environment :: string
  sm_data :: stream_event

record streamClient =
  cl_projectID :: string
  cl_environment :: string
  cl_send :: "streamBroadcastMsg list"

record StreamHub =
  hb_clients :: "(nat, streamClient) gomap"
  hb_subs :: "(string, nat list) gomap"
  hb_broadcast :: "streamBroadcastMsg list"
  hb_stopped :: bool

definition NewStreamHub :: StreamHub where
  "NewStreamHub = \<lparr>hb_clients = [], hb_subs = [], hb_broadcast = [], hb_stopped = False\<rparr>"

definition sub_of :: "StreamHub \<Rightarrow> string \<Rightarrow> nat list" where
  "sub_of h k = (case mget (hb_subs h) k of Some cs \<Rightarrow> cs | None \<Rightarrow> [])"

definition sub_add :: "string \<Rightarrow> nat \<Rightarrow> StreamHub \<Rightarrow> StreamHub" where
  "sub_add k c h = h\<lparr>hb_subs := mput k (List.insert c (sub_of h k)) (hb_subs h)\<rparr>"

definition sub_remove :: "string \<Rightarrow> nat \<Rightarrow> StreamHub \<Rightarrow> StreamHub" where
  "sub_remove k c h =
     (case mget (hb_subs h) k of
        Some cs \<Rightarrow> h\<lparr>hb_subs := mput k (removeAll c cs) (hb_subs h)\<rparr>
      | None \<Rightarrow> h)"

section \<open>The event loop\<close>

definition hub_register :: "nat \<Rightarrow> string \<Rightarrow> string \<Rightarrow> StreamHub \<Rightarrow> StreamHub" where
  "hub_register c projectID environment h =
     (let h = h\<lparr>hb_clients := mput c \<lparr>cl_projectID = projectID, cl_environment = environment, cl_send = []\<rparr> (hb_clients h)\<rparr>;
          h = sub_add projectID c h
      in if environment \<noteq> [] then sub_add (projectID @ '':'' @ environment) c h else h)"

definition hub_unregister :: "nat \<Rightarrow> StreamHub \<Rightarrow> StreamHub" where
  "hub_unregister c h =
     (case mget (hb_clients h) c of
        None \<Rightarrow> h
      | Some cl \<Rightarrow>
          (let h = h\<lparr>hb_clients := mdel c (hb_clients h)\<rparr>;
               h = sub_remove (cl_projectID cl) c h
           in if cl_environment cl \<noteq> [] then sub_remove (cl_projectID cl @ '':'' @ cl_environment cl) c h else h))"

definition env_match :: "streamBroadcastMsg \<Rightarrow> streamClient \<Rightarrow> bool" where
  "env_match msg cl = (cl_environment cl = [] \<or> sm_environment msg = [] \<or> cl_environment cl = sm_environment msg)"

text \<open>\<open>select { case client.send <- msg.data: default: }\<close> for a client that is a target.\<close>

definition offer :: "streamBroadcastMsg \<Rightarrow> nat list \<Rightarrow> nat \<times> streamClient \<Rightarrow> nat \<times> streamClient" where
  "offer msg targets = (\<lambda>(c, cl).
     if c \<in> set targets \<and> env_match msg cl \<and> length (cl_send cl) < 20
     then (c, cl\<lparr>cl_send := cl_send cl @ [msg]\<rparr>) else (c, cl))"

definition hub_deliver :: "streamBroadcastMsg \<Rightarrow> StreamHub \<Rightarrow> StreamHub" where
  "hub_deliver msg h =
     h\<lparr>hb_clients := map (offer msg (sub_of h (sm_projectID msg))) (hb_clients h)\<rparr>"

definition hub_stop :: "StreamHub \<Rightarrow> StreamHub" where
  "hub_stop h = h\<lparr>hb_clients := [], hb_subs := [], hb_stopped := True\<rparr>"

definition ActiveConnections :: "StreamHub \<Rightarrow> nat" where
  "ActiveConnections h = length (hb_clients h)"

section \<open>Publishing\<close>

definition enqueue :: "streamBroadcastMsg \<Rightarrow> StreamHub \<Rightarrow> StreamHub" where
  "enqueue msg h = (if length (hb_broadcast h) < 100 then h\<lparr>hb_broadcast := hb_broadcast h @ [msg]\<rparr> else h)"

definition project_msg :: "gtime \<Rightarrow> string \<Rightarrow> string \<Rightarrow> 64 word \<Rightarrow> FeatureFlag list \<Rightarrow> streamBroadcastMsg" where
  "project_msg now projectID0 env configVersion flags =
     (let projectID = or_project projectID0 in
      \<lparr>sm_projectID = projectID, sm_environment = env,
       sm_data = flags_update projectID env configVersion now flags\<rparr>)"

definition BroadcastProjectFlags :: "gtime \<Rightarrow> string \<Rightarrow> string \<Rightarrow> 64 word \<Rightarrow> FeatureFlag list \<Rightarrow> StreamHub \<Rightarrow> StreamHub" where
  "BroadcastProjectFlags now projectID env configVersion flags =
     enqueue (project_msg now projectID env configVersion flags)"

definition custom_msg :: "string \<Rightarrow> json \<Rightarrow> streamBroadcastMsg" where
  "custom_msg event payload =
     \<lparr>sm_projectID = DefaultProjectID, sm_environment = [], sm_data = custom_event event payload\<rparr>"

definition Broadcast :: "string \<Rightarrow> json \<Rightarrow> StreamHub \<Rightarrow> StreamHub" where
  "Broadcast event payload = enqueue (custom_msg event payload)"

definition BroadcastFlags :: "gtime \<Rightarrow> FeatureFlag list \<Rightarrow> StreamHub \<Rightarrow> StreamHub" where
  "BroadcastFlags now flags = BroadcastProjectFlags now DefaultProjectID [] 1 flags"

definition max_version :: "FeatureFlag list \<Rightarrow> 64 word" where
  "max_version flags = foldl (\<lambda>m f. if m < ff_ConfigVersion f then ff_ConfigVersion f else m) 1 flags"

text \<open>What \<open>broadcastCurrentFlags\<close> hands to the hub.\<close>

definition broadcastCurrentFlags :: "gtime \<Rightarrow> MemoryStore \<Rightarrow> string \<Rightarrow> string \<Rightarrow> streamBroadcastMsg" where
  "broadcastCurrentFlags now s projectID0 env =
     (let projectID = or_project projectID0; flags = ListFlagsByProject s projectID
      in project_msg now projectID env (max_version flags) flags)"

text \<open>What a request handler sends out: messages for the hub, and mails (\<open>src/pkg/email\<close>).\<close>

datatype effect =
    Publish streamBroadcastMsg
  | SendPasswordReset string string string
  | SendWelcomeEmail string string string
  | SendChangeRequestNotification string string string string string string string

section \<open>Interleavings\<close>

inductive hub_step :: "StreamHub \<Rightarrow> StreamHub \<Rightarrow> bool" where
  register: "\<not> hb_stopped h \<Longrightarrow> mget (hb_clients h) c = None \<Longrightarrow> hub_step h (hub_register c p e h)"
| unregister: "\<not> hb_stopped h \<Longrightarrow> hub_step h (hub_unregister c h)"
| publish_flags: "hub_step h (BroadcastProjectFlags now p e v fls h)"
| publish_event: "hub_step h (Broadcast event payload h)"
| deliver: "\<not> hb_stopped h \<Longrightarrow> hb_broadcast h = msg # rest \<Longrightarrow> hub_step h (hub_deliver msg (h\<lparr>hb_broadcast := rest\<rparr>))"
| read: "mget (hb_clients h) c = Some cl \<Longrightarrow> cl_send cl = m # ms \<Longrightarrow>
    hub_step h (h\<lparr>hb_clients := mput c (cl\<lparr>cl_send := ms\<rparr>) (hb_clients h)\<rparr>)"
| stop: "\<not> hb_stopped h \<Longrightarrow> hub_step h (hub_stop h)"

inductive hub_reachable :: "StreamHub \<Rightarrow> bool" where
  start: "hub_reachable NewStreamHub"
| step: "hub_reachable h \<Longrightarrow> hub_step h h' \<Longrightarrow> hub_reachable h'"

section \<open>The invariant\<close>

text \<open>The keys a client subscribes to.\<close>

definition client_keys :: "streamClient \<Rightarrow> string set" where
  "client_keys cl = {cl_projectID cl} \<union>
     (if cl_environment cl = [] then {} else {cl_projectID cl @ '':'' @ cl_environment cl})"

definition client_ok :: "streamClient \<Rightarrow> bool" where
  "client_ok cl \<longleftrightarrow> length (cl_send cl) \<le> 20 \<and>
     (\<forall>m \<in> set (cl_send cl). sm_projectID m \<in> client_keys cl \<and> env_match m cl)"

definition hub_ok :: "StreamHub \<Rightarrow> bool" where
  "hub_ok h \<longleftrightarrow> wf_map (hb_clients h) \<and> length (hb_broadcast h) \<le> 100
     \<and> (\<forall>c cl. mget (hb_clients h) c = Some cl \<longrightarrow> client_ok cl)
     \<and> (\<forall>k c. c \<in> set (sub_of h k) \<longleftrightarrow> (\<exists>cl. mget (hb_clients h) c = Some cl \<and> k \<in> client_keys cl))"

lemma sub_add_simps [simp]:
  "set (sub_of (sub_add k c h) j) = (if j = k then insert c (set (sub_of h k)) else set (sub_of h j))"
  "hb_clients (sub_add k c h) = hb_clients h" "hb_broadcast (sub_add k c h) = hb_broadcast h"
  by (auto simp: sub_add_def sub_of_def map_simps)

lemma sub_remove_simps [simp]:
  "set (sub_of (sub_remove k c h) j) = (if j = k then set (sub_of h k) - {c} else set (sub_of h j))"
  "hb_clients (sub_remove k c h) = hb_clients h" "hb_broadcast (sub_remove k c h) = hb_broadcast h"
  by (auto simp: sub_remove_def sub_of_def map_simps split: option.splits)

lemma sub_of_update [simp]:
  "sub_of (h\<lparr>hb_clients := x\<rparr>) k = sub_of h k" "sub_of (h\<lparr>hb_broadcast := y\<rparr>) k = sub_of h k"
  by (simp_all add: sub_of_def)

lemma hub_register_ok:
  assumes "hub_ok h" and "mget (hb_clients h) c = None"
  shows "hub_ok (hub_register c p e h)"
proof -
  have "c \<notin> set (sub_of h k)" for k using assms by (auto simp: hub_ok_def)
  with assms show ?thesis
    by (auto simp: hub_ok_def hub_register_def Let_def map_simps client_ok_def client_keys_def gomap.ok_put)
qed

lemma hub_unregister_ok:
  assumes "hub_ok h"
  shows "hub_ok (hub_unregister c h)"
proof (cases "mget (hb_clients h) c")
  case None
  with assms show ?thesis by (simp add: hub_unregister_def)
next
  case (Some cl)
  let ?h = "hub_unregister c h"
  have sub: "set (sub_of ?h k) = set (sub_of h k) - {c}" for k
  proof -
    have "c \<in> set (sub_of h k) \<longleftrightarrow> k \<in> client_keys cl" using assms Some by (auto simp: hub_ok_def)
    then show ?thesis using Some by (auto simp: hub_unregister_def client_keys_def Let_def split: if_splits)
  qed
  have "hb_clients ?h = mdel c (hb_clients h)" "hb_broadcast ?h = hb_broadcast h"
    using Some by (simp_all add: hub_unregister_def Let_def)
  with assms sub show ?thesis by (auto simp: hub_ok_def map_simps gomap.ok_del)
qed

lemma mget_offer: "mget (map (offer msg ts) m) c = map_option (\<lambda>cl. snd (offer msg ts (c, cl))) (mget m c)"
  unfolding mget_def by (induction m) (auto simp: offer_def)

lemma fst_offer [simp]: "fst (offer msg ts x) = fst x"
  by (simp add: offer_def split: prod.splits)

lemma offer_keys [simp]: "client_keys (snd (offer msg ts (c, cl))) = client_keys cl"
  by (simp add: offer_def client_keys_def)

lemma offer_client_ok:
  assumes "client_ok cl" and "c \<in> set ts \<Longrightarrow> sm_projectID msg \<in> client_keys cl"
  shows "client_ok (snd (offer msg ts (c, cl)))"
  using assms by (auto simp: offer_def client_ok_def client_keys_def env_match_def)

lemma hub_deliver_ok:
  assumes "hub_ok h"
  shows "hub_ok (hub_deliver msg h)"
proof -
  let ?ts = "sub_of h (sm_projectID msg)"
  have "wf_map (map (offer msg ?ts) (hb_clients h))"
    using assms by (simp add: hub_ok_def wf_map_def o_def)
  moreover have "client_ok (snd (offer msg ?ts (c, cl)))" if "mget (hb_clients h) c = Some cl" for c cl
    using assms that by (intro offer_client_ok) (auto simp: hub_ok_def)
  ultimately show ?thesis
    using assms by (auto simp: hub_ok_def hub_deliver_def mget_offer)
qed

lemma hub_read_ok:
  assumes "hub_ok h" and "mget (hb_clients h) c = Some cl" and "cl_send cl = m # ms"
  shows "hub_ok (h\<lparr>hb_clients := mput c (cl\<lparr>cl_send := ms\<rparr>) (hb_clients h)\<rparr>)"
proof -
  have "client_ok cl" using assms(1,2) by (auto simp: hub_ok_def)
  with assms(3) have "client_ok (cl\<lparr>cl_send := ms\<rparr>)"
    by (auto simp: client_ok_def client_keys_def env_match_def)
  moreover have "client_keys (cl\<lparr>cl_send := ms\<rparr>) = client_keys cl" by (simp add: client_keys_def)
  ultimately show ?thesis using assms(1,2) by (auto simp: hub_ok_def map_simps gomap.ok_put)
qed

lemma hub_step_ok: "hub_step h h' \<Longrightarrow> hub_ok h \<Longrightarrow> hub_ok h'"
proof (induction rule: hub_step.induct)
  case (deliver h msg rest)
  then have "hub_ok (h\<lparr>hb_broadcast := rest\<rparr>)" by (auto simp: hub_ok_def)
  then show ?case by (rule hub_deliver_ok)
qed (auto simp: hub_register_ok hub_unregister_ok hub_read_ok,
     auto simp: hub_ok_def BroadcastProjectFlags_def Broadcast_def enqueue_def hub_stop_def sub_of_def)

lemma hub_reachable_ok: "hub_reachable h \<Longrightarrow> hub_ok h"
proof (induction rule: hub_reachable.induct)
  case start
  show ?case by (simp add: hub_ok_def NewStreamHub_def sub_of_def)
qed (rule hub_step_ok)

text \<open>An event sent with \<open>Broadcast\<close> is addressed to the default project, wherever it waits.\<close>

definition event_ok :: "streamBroadcastMsg \<Rightarrow> bool" where
  "event_ok m \<longleftrightarrow> (\<forall>event payload. sm_data m = custom_event event payload \<longrightarrow> sm_projectID m = ''proj_default'')"

definition waiting :: "StreamHub \<Rightarrow> streamBroadcastMsg set" where
  "waiting h = set (hb_broadcast h) \<union> (\<Union>(c, cl) \<in> set (hb_clients h). set (cl_send cl))"

lemma waiting_step:
  assumes "hub_step h h'"
  shows "waiting h' \<subseteq> waiting h \<union> {m. event_ok m}"
  using assms
proof (induction rule: hub_step.induct)
  case (register h c p e)
  then show ?case using set_mput [of c "\<lparr>cl_projectID = p, cl_environment = e, cl_send = []\<rparr>" "hb_clients h"]
    by (auto simp: waiting_def hub_register_def Let_def)
next
  case (unregister h c)
  then show ?case using set_mdel [of c "hb_clients h"]
    by (auto simp: waiting_def hub_unregister_def Let_def split: option.splits if_splits)
next
  case (deliver h msg rest)
  then show ?case by (auto simp: waiting_def hub_deliver_def offer_def split: if_splits)
next
  case (read h c cl m ms)
  from read have "(c, cl) \<in> set (hb_clients h)" by (simp add: mget_in_set)
  with read(2) show ?case using set_mput [of c "cl\<lparr>cl_send := ms\<rparr>" "hb_clients h"]
    by (fastforce simp: waiting_def)
qed (auto simp: waiting_def BroadcastProjectFlags_def Broadcast_def enqueue_def hub_stop_def event_ok_def
  project_msg_def custom_msg_def Let_def split: if_splits)

lemma waiting_events: "hub_reachable h \<Longrightarrow> m \<in> waiting h \<Longrightarrow> event_ok m"
proof (induction arbitrary: m rule: hub_reachable.induct)
  case start
  then show ?case by (simp add: waiting_def NewStreamHub_def)
next
  case (step h h')
  then show ?case using waiting_step by blast
qed

section \<open>Properties\<close>


definition demo_hub :: StreamHub where
  "demo_hub = hub_register 2 ''bolt'' [] (hub_register 1 ''acme'' ''staging'' NewStreamHub)"

definition demo_msg :: streamBroadcastMsg where
  "demo_msg = project_msg 0 ''acme'' [] 1 []"

lemma demo_hub_clients:
  "hb_clients demo_hub =
     [(1, \<lparr>cl_projectID = ''acme'', cl_environment = ''staging'', cl_send = []\<rparr>),
      (2, \<lparr>cl_projectID = ''bolt'', cl_environment = [], cl_send = []\<rparr>)]"
  by (simp add: demo_hub_def hub_register_def NewStreamHub_def sub_add_def Let_def mput_def)

lemma deliver_reachable:
  assumes "hub_reachable h" and "\<not> hb_stopped h" and "hub_step h (h\<lparr>hb_broadcast := [m]\<rparr>)"
  shows "hub_reachable (hub_deliver m (h\<lparr>hb_broadcast := []\<rparr>))"
proof -
  have "hub_reachable (h\<lparr>hb_broadcast := [m]\<rparr>)" using assms(1,3) by (rule hub_reachable.step)
  then show ?thesis
    by (rule hub_reachable.step)
      (use hub_step.deliver [of "h\<lparr>hb_broadcast := [m]\<rparr>" m "[]"] assms(2) in simp)
qed

lemma demo_hub_delivered:
  "hub_reachable (hub_deliver demo_msg (demo_hub\<lparr>hb_broadcast := []\<rparr>))"
proof (rule deliver_reachable)
  let ?h1 = "hub_register 1 ''acme'' ''staging'' NewStreamHub"
  have s: "\<not> hb_stopped ?h1" "\<not> hb_stopped demo_hub" "hb_broadcast demo_hub = []" "mget (hb_clients ?h1) 2 = None"
    by (simp_all add: demo_hub_def hub_register_def NewStreamHub_def sub_add_def Let_def map_simps)
  have "hub_reachable ?h1"
    by (intro hub_reachable.step [OF hub_reachable.start] hub_step.register) (simp_all add: NewStreamHub_def)
  then show "hub_reachable demo_hub"
    unfolding demo_hub_def by (rule hub_reachable.step) (intro hub_step.register s(1,4))
  show "\<not> hb_stopped demo_hub" by (rule s(2))
  show "hub_step demo_hub (demo_hub\<lparr>hb_broadcast := [demo_msg]\<rparr>)"
    using hub_step.publish_flags [of demo_hub 0 "''acme''" "[]" 1 "[]"] s(3)
    by (simp add: BroadcastProjectFlags_def enqueue_def demo_msg_def)
qed


text \<open>
  The events of change requests and canaries are addressed to the default project only. Whatever
  the interleaving, a client whose channel holds an event sent with \<open>Broadcast\<close> subscribes to the
  default project: the subscribers of the project the event is about never receive it, and those of
  the default project receive the events of every tenant.
\<close>

theorem custom_events_reach_default_only:
  assumes "hub_reachable h" and "mget (hb_clients h) c = Some cl" and "m \<in> set (cl_send cl)"
    and "sm_data m = custom_event event payload"
  shows "cl_projectID cl = ''proj_default''"
proof -
  have "m \<in> waiting h" using assms(2,3) mget_in_set unfolding waiting_def by fastforce
  then have p: "sm_projectID m = ''proj_default''"
    using waiting_events [OF assms(1)] assms(4) by (auto simp: event_ok_def)
  have "hub_ok h" using assms(1) by (rule hub_reachable_ok)
  then have "sm_projectID m \<in> client_keys cl" using assms(2,3) by (auto simp: hub_ok_def client_ok_def)
  moreover have "''proj_default'' \<noteq> a @ '':'' @ b" for a b
  proof
    assume "''proj_default'' = a @ '':'' @ b"
    then have "CHR '':'' \<in> set ''proj_default''" by (metis in_set_conv_decomp append_Cons)
    then show False by simp
  qed
  ultimately show ?thesis using p by (auto simp: client_keys_def split: if_splits)
qed

definition demo_default_hub :: StreamHub where
  "demo_default_hub = hub_register 1 ''proj_default'' [] NewStreamHub"

theorem custom_events_reach_default_only_witness:
  "\<exists>cl. mget (hb_clients (hub_deliver (custom_msg ''change_request_created'' J_nil)
       (demo_default_hub\<lparr>hb_broadcast := []\<rparr>))) 1 = Some cl
     \<and> cl_send cl = [custom_msg ''change_request_created'' J_nil] \<and> cl_projectID cl = ''proj_default''"
proof -
  let ?m = "custom_msg ''change_request_created'' J_nil"
  let ?h = "hub_deliver ?m (demo_default_hub\<lparr>hb_broadcast := []\<rparr>)"
  let ?cl = "\<lparr>cl_projectID = ''proj_default'', cl_environment = [], cl_send = [?m]\<rparr>"
  have d: "\<not> hb_stopped demo_default_hub" "hb_broadcast demo_default_hub = []"
    "sub_of demo_default_hub ''proj_default'' = [1]"
    "hb_clients demo_default_hub = [(1, \<lparr>cl_projectID = ''proj_default'', cl_environment = [], cl_send = []\<rparr>)]"
    by (simp_all add: demo_default_hub_def hub_register_def NewStreamHub_def sub_add_def sub_of_def Let_def mput_def mget_def)
  have "hub_reachable ?h"
  proof (rule deliver_reachable)
    show "hub_reachable demo_default_hub" unfolding demo_default_hub_def
      by (intro hub_reachable.step [OF hub_reachable.start] hub_step.register) (simp_all add: NewStreamHub_def)
    show "hub_step demo_default_hub (demo_default_hub\<lparr>hb_broadcast := [?m]\<rparr>)"
      using hub_step.publish_event [of demo_default_hub "''change_request_created''" J_nil] d(2)
      by (simp add: Broadcast_def enqueue_def)
  qed (rule d(1))
  moreover have g: "mget (hb_clients ?h) 1 = Some ?cl"
    using d(3,4) by (simp add: hub_deliver_def mget_def offer_def env_match_def custom_msg_def)
  ultimately have "cl_projectID ?cl = ''proj_default''"
    by (rule custom_events_reach_default_only [where m = ?m and event = "''change_request_created''" and payload = J_nil])
      (simp_all add: custom_msg_def)
  with g show ?thesis by auto
qed

end
