(* ===== verification/Api_Flags.thy ===== *)
theory Api_Flags
  imports Api_Auth Stream
begin

text \<open>
  The flag routes of \<open>src/pkg/api\<close>: the handlers of \<open>handlers_flags.go\<close> and \<open>handlers_eval.go\<close> and
  the dispatch of \<open>/api/v1/flags/\<close> in \<open>server.go\<close>. A handler takes the decoded body (or the decoder's
  error) as an argument; where the code ignores the decoder's error the argument is the struct as the
  decoder left it. It returns the response, the store and the messages it hands to the hub. The
  first eight clocks are those of \<open>resolveAndAuthorizeProjectID\<close>.
\<close>

type_synonym outcome = "Response \<times> MemoryStore \<times> effect list"

section \<open>Handlers\<close>

definition malformed :: "string \<Rightarrow> gerror \<Rightarrow> gerror" where
  "malformed msg cause = NewAppError 6005 msg 400 (Some cause)"

definition invalid_input :: "string \<Rightarrow> gerror" where
  "invalid_input msg = malformed msg (Sentinel ErrInvalidInput)"

definition db_error :: "gerror \<Rightarrow> gerror" where
  "db_error e = NewAppError 5002 (Error e) 500 (Some e)"

definition flag_missing :: "string \<Rightarrow> gerror" where
  "flag_missing msg = NewAppError 3001 msg 404 (Some (Sentinel ErrFlagNotFound))"

definition bad_flag_key :: gerror where
  "bad_flag_key = invalid_input ''flag key must contain only alphanumeric characters, underscores, and hyphens (1-64 chars)''"

definition env_restricted :: "APIKey \<Rightarrow> string \<Rightarrow> string \<Rightarrow> gerror" where
  "env_restricted k verb env = NewAppError 1006 (''API key is scoped to environment '' @ quoted (ak_Environment k)
     @ '' and cannot '' @ verb @ '' '' @ quoted env) 403 (Some (Sentinel ErrEnvironmentRestricted))"

definition fail :: "Request \<Rightarrow> MemoryStore \<Rightarrow> gerror \<Rightarrow> outcome" where
  "fail r s e = (writeError r e, s, [])"

definition handleGetFlags :: "world \<Rightarrow> clocks \<Rightarrow> MemoryStore \<Rightarrow> Request \<Rightarrow> outcome" where
  "handleGetFlags w cks s r =
     (case resolveAndAuthorizeProjectID w cks s r of
        (Inl err, r, s) \<Rightarrow> fail r s err
      | (Inr projectID, r, s) \<Rightarrow>
          (let flags = ListFlagsByProject s projectID in
           (writeJSON 200 (J_object [(''project_id'', J_string projectID), (''flags'', J_flags flags),
              (''count'', J_int (int (length flags))), (''timestamp'', J_time (cks 8 0))]), s, [])))"

definition saved_response :: "int \<Rightarrow> FeatureFlag \<Rightarrow> AuditLogEntry option \<Rightarrow> Response" where
  "saved_response status flag lg = writeJSON status (J_object [(''flag'', J_flag flag), (''audit'', J_audit lg)])"

text \<open>Saving the flag, broadcasting, and answering; \<open>status\<close> is 201 for a creation and 200 for an update.\<close>

definition save_and_publish :: "world \<Rightarrow> string \<Rightarrow> clocks \<Rightarrow> MemoryStore \<Rightarrow> Request \<Rightarrow> int \<Rightarrow> FeatureFlag \<Rightarrow> outcome" where
  "save_and_publish w rnd cks s r status flag =
     (case ValidateFeatureFlag (w_envs w) flag of
        Some err \<Rightarrow> fail r s (invalid_input (Error err))
      | None \<Rightarrow>
          (case SaveFlag (w_rt w) (cks 8) rnd s flag (getActorFromRequest r ''developer@flagura.dev'') of
             (Inl err, s) \<Rightarrow> fail r s (db_error err)
           | (Inr lg, s) \<Rightarrow>
               (saved_response status flag lg, s, [Publish (broadcastCurrentFlags (cks 9 0) s (ff_ProjectID flag) [])])))"

definition handleCreateFlag :: "world \<Rightarrow> string \<Rightarrow> FeatureFlag result \<Rightarrow> clocks \<Rightarrow> MemoryStore \<Rightarrow> Request \<Rightarrow> outcome" where
  "handleCreateFlag w rnd body cks s r =
     (case body of
        Inl err \<Rightarrow> fail r s (malformed (Error err) err)
      | Inr flag \<Rightarrow>
          if ff_Key flag = [] then fail r s (invalid_input ''flag key is required'')
          else if \<not> IsValidFlagKey (ff_Key flag) then fail r s bad_flag_key
          else (case resolveAndAuthorizeProjectID w cks s r of
                  (Inl err, r, s) \<Rightarrow> fail r s err
                | (Inr projectID, r, s) \<Rightarrow>
                    if ff_ProjectID flag \<noteq> [] \<and> ff_ProjectID flag \<noteq> projectID then
                      fail r s (NewAppError 2005 (''cannot create flag in unauthorized project ''
                        @ quoted (ff_ProjectID flag)) 403 (Some (Sentinel ErrForbidden)))
                    else save_and_publish w rnd cks s r 201 (flag\<lparr>ff_ProjectID := projectID\<rparr>)))"

abbreviation (input) "FlagsPrefix \<equiv> ''/api/v1/flags/''"

definition path_id :: "Request \<Rightarrow> string" where
  "path_id r = hd (Split (TrimPrefix (rq_Path r) FlagsPrefix) (CHR ''/''))"

definition handleUpdateFlag :: "world \<Rightarrow> string \<Rightarrow> FeatureFlag result \<Rightarrow> clocks \<Rightarrow> MemoryStore \<Rightarrow> Request \<Rightarrow> outcome" where
  "handleUpdateFlag w rnd body cks s r =
     (let i = path_id r in
      case body of
        Inl err \<Rightarrow> fail r s (malformed (Error err) err)
      | Inr flag \<Rightarrow>
          (let flag = (if ff_Key flag = [] then flag\<lparr>ff_Key := i\<rparr> else flag) in
           if \<not> IsValidFlagKey (ff_Key flag) then fail r s bad_flag_key
           else (case resolveAndAuthorizeProjectID w cks s r of
                   (Inl err, r, s) \<Rightarrow> fail r s err
                 | (Inr projectID, r, s) \<Rightarrow>
                     if ff_ProjectID flag \<noteq> [] \<and> ff_ProjectID flag \<noteq> projectID then
                       fail r s (NewAppError 2005 (''cannot update flag in unauthorized project ''
                         @ quoted (ff_ProjectID flag)) 403 (Some (Sentinel ErrForbidden)))
                     else
                       (let flag = flag\<lparr>ff_ProjectID := projectID\<rparr> in
                        case GetFlagByProject s projectID (ff_Key flag) of
                          Inl err \<Rightarrow> fail r s (flag_missing (Error err))
                        | Inr existing \<Rightarrow>
                            save_and_publish w rnd cks s r 200
                              (if ff_ID flag = [] then flag\<lparr>ff_ID := ff_ID existing\<rparr> else flag)))))"

definition handleDeleteFlag :: "world \<Rightarrow> clocks \<Rightarrow> MemoryStore \<Rightarrow> Request \<Rightarrow> outcome" where
  "handleDeleteFlag w cks s r =
     (let i = path_id r; actor = getActorFromRequest r ''admin@flagura.dev'' in
      case resolveAndAuthorizeProjectID w cks s r of
        (Inl err, r, s) \<Rightarrow> fail r s err
      | (Inr projectID, r, s) \<Rightarrow>
          (case DeleteFlagByProject (w_rt w) (cks 8) s projectID i actor of
             (Inl err, s) \<Rightarrow> fail r s (flag_missing (Error err))
           | (Inr lg, s) \<Rightarrow>
               (writeJSON 200 (J_object [(''success'', J_bool True), (''deleted'', J_string i), (''audit'', J_audit (Some lg))]),
                s, [Publish (broadcastCurrentFlags (cks 9 0) s projectID [])])))"

record ToggleRequest =
  tq_Environment :: string
  tq_Enabled :: "bool option"
  tq_Actor :: string

record RolloutRequest =
  rl_Environment :: string
  rl_Percentage :: f64
  rl_Actor :: string

text \<open>The check that an API key may modify an environment.\<close>

definition key_blocks :: "APIKey option \<Rightarrow> string \<Rightarrow> bool" where
  "key_blocks key env = (key \<noteq> None \<and> \<not> AllowsEnvironment key env)"

definition handleToggleFlag :: "world \<Rightarrow> ToggleRequest \<Rightarrow> clocks \<Rightarrow> MemoryStore \<Rightarrow> Request \<Rightarrow> outcome" where
  "handleToggleFlag w req cks s r =
     (let i = TrimSuffix (TrimPrefix (rq_Path r) FlagsPrefix) ''/toggle'';
          env = (if tq_Environment req = [] then EnvProduction else tq_Environment req)
      in case resolveAndAuthorizeProjectID w cks s r of
           (Inl err, r, s) \<Rightarrow> fail r s err
         | (Inr projectID, r, s) \<Rightarrow>
             (let (key, s) = getAPIKeyFromRequest w (cks 8) s r in
              if key_blocks key env then fail r s (env_restricted (the key) ''modify'' env)
              else
                (let actor = getActorFromRequest r (tq_Actor req) in
                 case ToggleFlagByProject (w_rt w) (cks 9) s projectID i env (tq_Enabled req) actor of
                   (Inl err, s) \<Rightarrow> fail r s (flag_missing (Error err))
                 | (Inr (flag, lg), s) \<Rightarrow>
                     (writeJSON 200 (J_object [(''flag_key'', J_string (ff_Key flag)), (''environment'', J_string env),
                        (''enabled'', J_bool (ec_Enabled (EnvConfig flag env))), (''flag'', J_flag flag),
                        (''audit'', J_audit (Some lg))]),
                      s, [Publish (broadcastCurrentFlags (cks 10 0) s (ff_ProjectID flag) env)]))))"

definition handleUpdateRollout :: "world \<Rightarrow> RolloutRequest result \<Rightarrow> clocks \<Rightarrow> MemoryStore \<Rightarrow> Request \<Rightarrow> outcome" where
  "handleUpdateRollout w body cks s r =
     (let i = TrimSuffix (TrimPrefix (rq_Path r) FlagsPrefix) ''/rollout'' in
      case body of
        Inl err \<Rightarrow> fail r s (malformed (Error err) err)
      | Inr req \<Rightarrow>
          (let env = (if rl_Environment req = [] then EnvProduction else rl_Environment req) in
           case resolveAndAuthorizeProjectID w cks s r of
             (Inl err, r, s) \<Rightarrow> fail r s err
           | (Inr projectID, r, s) \<Rightarrow>
               (let (key, s) = getAPIKeyFromRequest w (cks 8) s r in
                if key_blocks key env then fail r s (env_restricted (the key) ''modify'' env)
                else
                  (let actor = getActorFromRequest r (rl_Actor req) in
                   case UpdateRolloutByProject (w_rt w) (cks 9) s projectID i env (rl_Percentage req) actor of
                     (Inl err, s) \<Rightarrow> fail r s (flag_missing (Error err))
                   | (Inr (flag, lg), s) \<Rightarrow>
                       (writeJSON 200 (J_object [(''flag_key'', J_string (ff_Key flag)), (''environment'', J_string env),
                          (''percentage'', J_float (rl_Percentage req)), (''flag'', J_flag flag), (''audit'', J_audit (Some lg))]),
                        s, [Publish (broadcastCurrentFlags (cks 10 0) s (ff_ProjectID flag) env)])))))"

text \<open>The clone of the source environment; the field \<open>RequiresApproval\<close> is not copied.\<close>

definition promoted_config :: "EnvironmentConfig \<Rightarrow> EnvironmentConfig" where
  "promoted_config c = \<lparr>ec_Enabled = ec_Enabled c, ec_Strategy = ec_Strategy c, ec_Percentage = ec_Percentage c,
     ec_Rules = ec_Rules c, ec_Variants = ec_Variants c, ec_DefaultVariant = ec_DefaultVariant c,
     ec_OffVariant = ec_OffVariant c, ec_RequiresApproval = False\<rparr>"

definition handlePromoteEnvironment :: "world \<Rightarrow> string \<Rightarrow> clocks \<Rightarrow> MemoryStore \<Rightarrow> Request \<Rightarrow> outcome" where
  "handlePromoteEnvironment w rnd cks s r =
     (let key = TrimSpace (w_rt w) (TrimSuffix (TrimPrefix (rq_Path r) FlagsPrefix) ''/promote'');
          fromEnv = query_get r ''from''; toEnv = query_get r ''to''
      in if rq_Method r \<noteq> ''POST'' then (MethodNotAllowed, s, [])
         else if key = [] then (http_Error ''flag key is required'' 400, s, [])
         else if fromEnv = [] \<or> toEnv = [] then
           (http_Error (''query parameters '' @ quoted ''from'' @ '' and '' @ quoted ''to'' @ '' are required'') 400, s, [])
         else
           (case resolveAndAuthorizeProjectID w cks s r of
              (Inl err, r, s) \<Rightarrow> fail r s err
            | (Inr projectID, r, s) \<Rightarrow>
                (case GetFlagByProject s projectID key of
                   Inl err \<Rightarrow> fail r s (flag_missing (''flag not found in project: '' @ Error err))
                 | Inr flag \<Rightarrow>
                     (case mget (ff_Environments flag) fromEnv of
                        None \<Rightarrow> (http_Error (''source environment '' @ Quote (w_rt w) fromEnv
                          @ '' does not exist on flag'') 400, s, [])
                      | Some srcConfig \<Rightarrow>
                          (let flag = flag\<lparr>ff_Environments := mput toEnv (promoted_config srcConfig) (ff_Environments flag),
                                 ff_UpdatedAt := cks 9 0\<rparr> in
                           case SaveFlag (w_rt w) (cks 8) rnd s flag (getActorFromRequest r ''system'') of
                             (Inl err, s) \<Rightarrow> (http_Error (''failed to promote environment: '' @ Error err) 500, s, [])
                           | (Inr auditLog, s) \<Rightarrow>
                               (writeJSON 200 (J_object [(''status'', J_string ''promoted''), (''flag_key'', J_string (ff_Key flag)),
                                  (''from'', J_string fromEnv), (''to'', J_string toEnv), (''audit'', J_audit auditLog)]),
                                s, [Publish (broadcastCurrentFlags (cks 9 1) s (ff_ProjectID flag) toEnv)]))))))"

section \<open>Evaluation\<close>

record EvaluateRequest =
  eq_Flags :: "string list"
  eq_Context :: EvaluationContext
  eq_Trace :: bool

definition not_found_result :: "string \<Rightarrow> EvaluationResult" where
  "not_found_result k = zero_result\<lparr>er_FlagKey := k, er_Enabled := False, er_Variant := ''off'', er_Value := GBool False,
     er_Reason := ''FLAG_NOT_FOUND'', er_EvaluationLatencyNs := 65, er_EvaluationLatencyUs := fl (65 / 1000)\<rparr>"

type_synonym eval_state = "(string, EvaluationResult) gomap \<times> (string, EvaluationTrace) gomap \<times> regex_cache"

text \<open>One evaluation; \<open>ns\<close> holds the elapsed times the engine measures.\<close>

definition eval_one :: "runtime \<Rightarrow> bool \<Rightarrow> EvaluationContext \<Rightarrow> int \<times> int \<Rightarrow> FeatureFlag \<Rightarrow> eval_state \<Rightarrow> eval_state" where
  "eval_one rt includeTrace ctx ns flag = (\<lambda>(results, traces, cache).
     if includeTrace then
       (let ((res, tr), cache) = EvaluateFlagWithTrace rt cache (fst ns) (snd ns) flag ctx
        in (mput (ff_Key flag) res results, mput (ff_Key flag) tr traces, cache))
     else
       (let (res, cache) = EvaluateFlag rt cache (fst ns) flag ctx
        in (mput (ff_Key flag) res results, traces, cache)))"

definition target_map :: "FeatureFlag list \<Rightarrow> (string, FeatureFlag) gomap" where
  "target_map flags = fold (\<lambda>f m. mput (ff_ID f) f (mput (ff_Key f) f m)) flags []"

fun eval_named :: "runtime \<Rightarrow> bool \<Rightarrow> EvaluationContext \<Rightarrow> (nat \<Rightarrow> int \<times> int) \<Rightarrow> (string, FeatureFlag) gomap
  \<Rightarrow> nat \<Rightarrow> string list \<Rightarrow> eval_state \<Rightarrow> eval_state" where
  "eval_named rt includeTrace ctx lat targets i [] st = st"
| "eval_named rt includeTrace ctx lat targets i (k # ks) st =
     eval_named rt includeTrace ctx lat targets (Suc i) ks
       (case mget targets k of
          Some flag \<Rightarrow> eval_one rt includeTrace ctx (lat i) flag st
        | None \<Rightarrow> (case st of (results, traces, cache) \<Rightarrow> (mput k (not_found_result k) results, traces, cache)))"

fun eval_all :: "runtime \<Rightarrow> bool \<Rightarrow> EvaluationContext \<Rightarrow> (nat \<Rightarrow> int \<times> int) \<Rightarrow> nat \<Rightarrow> FeatureFlag list \<Rightarrow> eval_state \<Rightarrow> eval_state" where
  "eval_all rt includeTrace ctx lat i [] st = st"
| "eval_all rt includeTrace ctx lat i (f # fs) st =
     eval_all rt includeTrace ctx lat (Suc i) fs (eval_one rt includeTrace ctx (lat i) f st)"

definition evaluation_response :: "clocks \<Rightarrow> string \<Rightarrow> bool \<Rightarrow> string \<Rightarrow> f64 \<Rightarrow> eval_state \<Rightarrow> Response" where
  "evaluation_response cks projectID includeTrace env durationUs st =
     (case st of (results, traces, cache) \<Rightarrow>
        encodeJSON 200 (J_object (
          if includeTrace then
            [(''project_id'', J_string projectID), (''results'', J_results results), (''traces'', J_traces traces),
             (''evaluated_count'', J_int (int (length results))), (''total_duration_us'', J_float durationUs)]
          else
            [(''results'', J_results results), (''total_flags'', J_int (int (length results))),
             (''environment'', J_string env), (''total_duration_us'', J_float durationUs), (''evaluated_at'', J_time (cks 16 0))])))"

text \<open>
  The environment an API key imposes on the evaluation context, or its refusal.
\<close>

definition key_environment :: "APIKey option \<Rightarrow> EvaluationContext \<Rightarrow> EvaluationContext result" where
  "key_environment key ctx =
     (case key of
        None \<Rightarrow> Inr ctx
      | Some apiKey \<Rightarrow>
          (let ctx = (if cx_Environment ctx = [] \<and> ak_Environment apiKey \<noteq> [] \<and> ak_Environment apiKey \<noteq> EnvAll
                 \<and> ak_Environment apiKey \<noteq> ''*'' then ctx\<lparr>cx_Environment := ak_Environment apiKey\<rparr> else ctx)
           in if cx_Environment ctx \<noteq> [] \<and> \<not> AllowsEnvironment (Some apiKey) (cx_Environment ctx)
              then Inl (env_restricted apiKey ''access'' (cx_Environment ctx)) else Inr ctx))"

text \<open>
  \<open>handleEvaluate\<close>; besides the outcome it returns the regular-expression cache and the counter of
  evaluations. \<open>elapsed\<close> is the measured duration in nanoseconds.
\<close>

definition handleEvaluate :: "world \<Rightarrow> (nat \<Rightarrow> int \<times> int) \<Rightarrow> int \<Rightarrow> EvaluateRequest result \<Rightarrow> regex_cache \<Rightarrow> 64 word
  \<Rightarrow> clocks \<Rightarrow> MemoryStore \<Rightarrow> Request \<Rightarrow> outcome \<times> regex_cache \<times> 64 word" where
  "handleEvaluate w lat elapsed body cache evalCount cks s r =
     (case body of
        Inl err \<Rightarrow> (fail r s (malformed (Error err) err), cache, evalCount)
      | Inr req \<Rightarrow>
          (let (key, s) = getAPIKeyFromRequest w (cks 8) s r in
           case key_environment key (eq_Context req) of
             Inl err \<Rightarrow> (fail r s err, cache, evalCount)
           | Inr ctx \<Rightarrow>
               (let ctx = (if cx_Environment ctx = [] then ctx\<lparr>cx_Environment := EnvProduction\<rparr> else ctx);
                    includeTrace = (eq_Trace req \<or> query_get r ''trace'' = ''true'')
                in case resolveAndAuthorizeProjectID w cks s r of
                     (Inl err, r, s) \<Rightarrow> (fail r s err, cache, evalCount)
                   | (Inr projectID, r, s) \<Rightarrow>
                       (let allFlags = ListFlagsByProject s projectID;
                            answer = (\<lambda>st s. ((evaluation_response cks projectID includeTrace (cx_Environment ctx)
                                (latency_us elapsed) st, s, []), snd (snd st), evalCount + of_nat (length (fst st))))
                        in if length (eq_Flags req) > 0 then
                             answer (eval_named (w_rt w) includeTrace ctx lat (target_map allFlags) 0 (eq_Flags req) ([], [], cache)) s
                           else
                             (let (apiKey, s) = getAPIKeyFromRequest w (cks 9) s r;
                                  (user, s) = getUserFromRequest w (later 10 cks) s r
                              in if apiKey = None \<and> isl user then
                                   (fail r s (NewAppError 1001
                                     ''Bulk evaluation without specific flag keys requires an authenticated API key or session credential''
                                     401 (Some (Sentinel ErrUnauthorized))), cache, evalCount)
                                 else answer (eval_all (w_rt w) includeTrace ctx lat 0 allFlags ([], [], cache)) s)))))"

definition benchmark_baseline :: "string \<Rightarrow> FeatureFlag" where
  "benchmark_baseline env = \<lparr>ff_ID = [], ff_ProjectID = [], ff_ConfigVersion = 0, ff_Key = ''benchmark-baseline'',
     ff_Name = ''Benchmark Baseline'', ff_Description = [], ff_Type = ''boolean'', ff_Tags = [],
     ff_Environments = [(env, zero_env_config\<lparr>ec_Enabled := True, ec_Strategy := StrategyBoolean\<rparr>)],
     ff_CreatedAt = 0, ff_UpdatedAt = 0\<rparr>"

text \<open>\<open>dur\<close> and \<open>totalDur\<close> are the benchmark's measurements; \<open>None\<close> is a panic of \<open>RunBenchmark\<close>.\<close>

definition handleBenchmark :: "world \<Rightarrow> (int \<Rightarrow> int) \<Rightarrow> duration \<Rightarrow> int \<Rightarrow> string \<Rightarrow> regex_cache \<Rightarrow> clocks \<Rightarrow> MemoryStore
  \<Rightarrow> Request \<Rightarrow> (outcome \<times> regex_cache) option" where
  "handleBenchmark w dur totalDur iterations0 env0 cache cks s r =
     (let iterations = (if iterations0 \<le> 0 then 10000 else iterations0);
          env = (if env0 = [] then EnvProduction else env0)
      in case resolveAndAuthorizeProjectID w cks s r of
           (Inl err, r, s) \<Rightarrow> Some (fail r s err, cache)
         | (Inr projectID, r, s) \<Rightarrow>
             (let targetFlag = (case ListFlagsByProject s projectID of f # _ \<Rightarrow> f | [] \<Rightarrow> benchmark_baseline env) in
              case RunBenchmark (w_rt w) cache dur totalDur targetFlag env iterations of
                None \<Rightarrow> None
              | Some (metrics, cache) \<Rightarrow> Some ((encodeJSON 200 (J_metrics metrics), s, []), cache)))"

section \<open>Dispatch\<close>

datatype flag_route = CanaryRoute | ToggleRoute | RolloutRoute | PromoteRoute | ExperimentRoute
  | UpdateRoute | DeleteRoute | NoRoute

text \<open>The closure registered for \<open>/api/v1/flags/\<close>.\<close>

definition flags_route :: "Request \<Rightarrow> flag_route" where
  "flags_route r =
     (let path = rq_Path r; m = rq_Method r in
      if Contains path ''/canary'' then CanaryRoute
      else if HasSuffix path ''/toggle'' \<and> m \<in> {''PATCH'', ''POST''} then ToggleRoute
      else if HasSuffix path ''/rollout'' \<and> m \<in> {''PATCH'', ''POST''} then RolloutRoute
      else if HasSuffix path ''/promote'' \<and> m = ''POST'' then PromoteRoute
      else if HasSuffix path ''/experiment'' \<and> m = ''GET'' then ExperimentRoute
      else if m \<in> {''PUT'', ''PATCH'', ''POST''} then UpdateRoute
      else if m = ''DELETE'' then DeleteRoute
      else NoRoute)"

text \<open>
  A call of a flag route with its decoded body, and the handler the server runs for it; all of them
  run behind \<open>RequireAuth\<close>.
\<close>

datatype flag_call = GetFlags | CreateFlag "FeatureFlag result" | UpdateFlag "FeatureFlag result" | DeleteFlagCall
  | ToggleCall ToggleRequest | RolloutCall "RolloutRequest result" | PromoteCall

fun flag_handler :: "world \<Rightarrow> string \<Rightarrow> flag_call \<Rightarrow> clocks \<Rightarrow> MemoryStore \<Rightarrow> Request \<Rightarrow> outcome" where
  "flag_handler w rnd GetFlags = handleGetFlags w"
| "flag_handler w rnd (CreateFlag body) = handleCreateFlag w rnd body"
| "flag_handler w rnd (UpdateFlag body) = handleUpdateFlag w rnd body"
| "flag_handler w rnd DeleteFlagCall = handleDeleteFlag w"
| "flag_handler w rnd (ToggleCall req) = handleToggleFlag w req"
| "flag_handler w rnd (RolloutCall body) = handleUpdateRollout w body"
| "flag_handler w rnd PromoteCall = handlePromoteEnvironment w rnd"

section \<open>Environment scope\<close>

lemma getAPIKey_blocks:
  assumes "getAPIKeyFromRequest w clk s r = (key, s')" and "request_key w s r = Some k" and "\<not> AllowsEnvironment (Some k) env"
  shows "key_blocks key env"
proof -
  have "map_option unused key = Some k" using getAPIKey_spec(2) [OF assms(1)] assms(2) by simp
  then obtain k0 where "key = Some k0" "k = unused k0" by auto
  with assms(3) show ?thesis by (auto simp: key_blocks_def AllowsEnvironment_def)
qed

lemma resolve_request:
  assumes "resolveAndAuthorizeProjectID w cks s r = (x, r', s')"
  shows "\<exists>u. r' = r\<lparr>rq_User := u\<rparr>"
proof -
  have id: "r = r\<lparr>rq_User := rq_User r\<rparr>" by simp
  from assms have "r' = r \<or> (\<exists>t p. r' = enrich_context t r p)"
    by (auto simp: resolveAndAuthorizeProjectID_def Let_def split: prod.splits option.splits if_splits sum.splits)
  with id show ?thesis unfolding enrich_context_def by blast
qed

text \<open>The status of an \<open>AppError\<close>, 0 for any other error.\<close>

fun app_status :: "gerror \<Rightarrow> int" where
  "app_status (AppError c t l m st e) = st"
| "app_status _ = 0"

lemma app_status_New [simp]: "app_status (NewAppError c m st cause) = st"
  by (simp add: NewAppError_def)

lemma writeError_status [simp]: "0 < app_status e \<Longrightarrow> rp_Status (writeError r e) = app_status e"
  by (cases e) (simp_all add: writeError_def MapSentinelToAppError_def)

lemma authorize_error: "authorizeProjectAccess w cks s r p = (Inl e, s') \<Longrightarrow> 400 \<le> app_status e"
  by (auto simp: authorizeProjectAccess_def key_denied_def project_missing_def Let_def
    split: prod.splits option.splits if_splits sum.splits)

lemma default_project_error: "default_project w s u = Inl e \<Longrightarrow> 400 \<le> app_status e"
  by (auto simp: default_project_def Let_def split: if_splits option.splits)

lemma resolve_error:
  assumes "resolveAndAuthorizeProjectID w cks s r = (Inl e, r', s')"
  shows "400 \<le> app_status e"
  using assms unfolding resolveAndAuthorizeProjectID_def Let_def key_denied_def project_missing_def
  by (auto split: prod.splits option.splits if_splits sum.splits dest: authorize_error default_project_error)

section \<open>Properties\<close>

text \<open>
  An API key acts only in its environment. When the request's key is scoped to another
  environment, \<open>handleToggleFlag\<close> and \<open>handleUpdateRollout\<close> leave the store as it was, usage stamps
  apart, broadcast nothing, and answer with an error status.
\<close>

theorem environment_scope:
  assumes "request_key w s r = Some k" and "env \<noteq> []" and "\<not> AllowsEnvironment (Some k) env"
    and "tq_Environment req = env" and "rl_Environment req' = env"
    and "out = handleToggleFlag w req cks s r \<or> out = handleUpdateRollout w (Inr req') cks s r"
  shows "400 \<le> rp_Status (fst out) \<and> same_but_usage s (fst (snd out)) \<and> snd (snd out) = []"
proof -
  obtain x r' s1 where res: "resolveAndAuthorizeProjectID w cks s r = (x, r', s1)" by (metis prod_cases3)
  obtain u where r': "r' = r\<lparr>rq_User := u\<rparr>" using resolve_request [OF res] by blast
  have s1: "same_but_usage s s1" using res by (rule resolve_same)
  obtain key s2 where key: "getAPIKeyFromRequest w (cks 8) s1 r' = (key, s2)" by fastforce
  have "request_key w s1 r' = Some k" using assms(1) request_key_same [OF s1] by (simp add: r')
  then have "key_blocks key env" using getAPIKey_blocks [OF key] assms(3) by blast
  moreover have "same_but_usage s s2" using getAPIKey_spec(1) [OF key] s1 by (rule same_trans [rotated])
  ultimately show ?thesis
    using assms(2,4-6) res key s1 resolve_error
    by (cases x) (fastforce simp: handleToggleFlag_def handleUpdateRollout_def fail_def env_restricted_def Let_def)+
qed

definition demo_live :: FeatureFlag where
  "demo_live = (demo_flag0 ''f1'' ''p1'' ''pay'')\<lparr>ff_ConfigVersion := 1, ff_Environments :=
     [(''production'', zero_env_config\<lparr>ec_Enabled := True, ec_Strategy := ''boolean'', ec_RequiresApproval := True\<rparr>)]\<rparr>"

definition demo_api :: MemoryStore where
  "demo_api = demo_tenants\<lparr>ms_flagsSnapshot := newFlagSnapshot [demo_live],
     ms_apiKeys := [(''k1'', demo_key\<lparr>ak_ProjectID := ''p1'', ak_Environment := ''staging'', ak_KeyHash := ''#sk''\<rparr>)]\<rparr>"

definition demo_call :: "string \<Rightarrow> string \<Rightarrow> string \<Rightarrow> Request" where
  "demo_call m path token = (demo_get [(''Authorization'', ''Bearer '' @ token)])\<lparr>rq_Method := m, rq_Path := path\<rparr>"

theorem environment_scope_witness:
  "let out = handleToggleFlag demo_world \<lparr>tq_Environment = ''production'', tq_Enabled = Some False, tq_Actor = []\<rparr>
       (\<lambda>_ _. 7) demo_api (demo_call ''POST'' ''/api/v1/flags/pay/toggle'' ''sk'')
   in 400 \<le> rp_Status (fst out) \<and> same_but_usage demo_api (fst (snd out)) \<and> snd (snd out) = []"
proof -
  let ?r = "demo_call ''POST'' ''/api/v1/flags/pay/toggle'' ''sk''"
  have "raw_token ?r = ''sk''" by code_simp
  then have k: "request_key demo_world demo_api ?r =
      Some (unused (demo_key\<lparr>ak_ProjectID := ''p1'', ak_Environment := ''staging'', ak_KeyHash := ''#sk''\<rparr>))"
    by (simp add: request_key_def key_of_token_def demo_world_def demo_runtime_def demo_api_def demo_tenants_def
      mget_def demo_key_def)
  show ?thesis
    unfolding Let_def
    by (rule environment_scope [OF k, where env = "''production''" and cks = "\<lambda>_ _. 7"
        and req = "\<lparr>tq_Environment = ''production'', tq_Enabled = Some False, tq_Actor = []\<rparr>" and req' = "\<lparr>rl_Environment = ''production'', rl_Percentage = Fin 0, rl_Actor = []\<rparr>"])
      (simp_all add: AllowsEnvironment_def)
qed

text \<open>
  The routes that save a whole flag do not make this check. A developer key scoped to staging
  is refused when it toggles the flag in production, and accepted when it overwrites the flag with a
  \<open>PUT\<close> that switches production off.
\<close>

theorem environment_scope_bypassed_by_put:
  "let off = demo_live\<lparr>ff_Environments := [(''production'', zero_env_config)]\<rparr>;
       run = (\<lambda>call m path. RequireAuth demo_world (flag_handler demo_world ''ab'' call) (\<lambda>_ _. 7) demo_api (demo_call m path ''sk''));
       toggled = run (ToggleCall \<lparr>tq_Environment = ''production'', tq_Enabled = Some False, tq_Actor = []\<rparr>)
         ''POST'' ''/api/v1/flags/pay/toggle'';
       saved = run (UpdateFlag (Inr off)) ''PUT'' ''/api/v1/flags/pay'';
       live = (\<lambda>s. map (\<lambda>f. ec_Enabled (EnvConfig f ''production'')) (fs_list (ms_flagsSnapshot s)))
   in rp_Status (fst toggled) = 403 \<and> live (fst (snd toggled)) = [True]
    \<and> rp_Status (fst saved) = 200 \<and> live (fst (snd saved)) = [False]"
  by code_simp

text \<open>
  An environment marked \<open>RequiresApproval\<close> is changed without any approval. The flag's production
  environment demands it, and the plain toggle of a signed-in member succeeds, with no change
  request in the store.
\<close>

theorem approval_not_enforced:
  "let s = demo_api;
       out = RequireAuth demo_world (flag_handler demo_world ''ab''
         (ToggleCall \<lparr>tq_Environment = ''production'', tq_Enabled = Some False, tq_Actor = []\<rparr>)) (\<lambda>_ _. 7) s
         (demo_call ''POST'' ''/api/v1/flags/pay/toggle'' ''t1'')
   in map (\<lambda>f. ec_RequiresApproval (EnvConfig f ''production'')) (fs_list (ms_flagsSnapshot s)) = [True]
    \<and> length (ms_changeRequests s) = 0 \<and> rp_Status (fst out) = 200
    \<and> map (\<lambda>f. ec_Enabled (EnvConfig f ''production'')) (fs_list (ms_flagsSnapshot (fst (snd out)))) = [False]"
  by code_simp

text \<open>
  The dispatch looks for \<open>/canary\<close> anywhere in the path, so a flag whose key begins with
  \<open>canary\<close> cannot be toggled, rolled out, promoted, updated or deleted: every request under its path
  goes to the canary handler.
\<close>

theorem canary_named_flag_unreachable:
  "rq_Path r = ''/api/v1/flags/canary'' @ rest \<Longrightarrow> flags_route r = CanaryRoute"
proof -
  assume p: "rq_Path r = ''/api/v1/flags/canary'' @ rest"
  have "Contains (rq_Path r) ''/canary''"
    unfolding Contains_iff p by (rule exI [of _ "''/api/v1/flags''"], rule exI [of _ rest]) simp
  then show ?thesis by (simp add: flags_route_def)
qed

theorem canary_named_flag_unreachable_witness:
  "flags_route (demo_call ''POST'' ''/api/v1/flags/canary-search/toggle'' ''t1'') = CanaryRoute"
  by (rule canary_named_flag_unreachable [where rest = "''-search/toggle''"]) (simp add: demo_call_def)

end
