(* ===== verification/Api_Isolation.thy ===== *)
theory Api_Isolation
  imports Api_Flags
begin

text \<open>
  What the flag routes of \<open>src/pkg/api\<close> promise to the other tenants. The locale \<open>confined\<close> is the
  contract of a handler: it acts on the project that \<open>resolveAndAuthorizeProjectID\<close> returns, and on
  no other. Each of the seven handlers meets it; behind \<open>RequireAuth\<close> it gives tenant isolation.
\<close>

section \<open>What a project can observe\<close>

definition flags_of :: "MemoryStore \<Rightarrow> string \<Rightarrow> FeatureFlag list" where
  "flags_of s p = filter (\<lambda>f. ff_ProjectID f = p) (fs_list (ms_flagsSnapshot s))"

text \<open>The operation changes no flag, audit entry or usage-independent record of the project.\<close>

definition untouched :: "string \<Rightarrow> MemoryStore \<Rightarrow> MemoryStore \<Rightarrow> bool" where
  "untouched p s s' \<longleftrightarrow> flags_of s' p = flags_of s p \<and> project_entries s' p = project_entries s p
     \<and> ms_users s' = ms_users s \<and> ms_sessions s' = ms_sessions s \<and> ms_orgs s' = ms_orgs s
     \<and> ms_projects s' = ms_projects s \<and> ms_orgMembers s' = ms_orgMembers s
     \<and> ms_changeRequests s' = ms_changeRequests s \<and> ms_events s' = ms_events s
     \<and> ms_apiKeysByHash s' = ms_apiKeysByHash s"

fun json_flags :: "json \<Rightarrow> FeatureFlag list" where
  "json_flags (J_flag f) = [f]"
| "json_flags (J_flags fs) = fs"
| "json_flags (J_object kvs) = concat (map (\<lambda>kv. json_flags (snd kv)) kvs)"
| "json_flags _ = []"

definition body_flags :: "Response \<Rightarrow> FeatureFlag list" where
  "body_flags rsp = (case rp_Body rsp of JSON j \<Rightarrow> json_flags j | _ \<Rightarrow> [])"

fun effect_flags :: "effect \<Rightarrow> FeatureFlag list" where
  "effect_flags (Publish m) = (case sm_data m of flags_update _ _ _ _ fs \<Rightarrow> fs | flags_init _ _ _ _ fs \<Rightarrow> fs | _ \<Rightarrow> [])"
| "effect_flags _ = []"

definition disclosed :: "Response \<Rightarrow> effect list \<Rightarrow> FeatureFlag set" where
  "disclosed rsp eff = set (body_flags rsp) \<union> (\<Union>e \<in> set eff. set (effect_flags e))"

lemma untouched_same: "same_but_usage s s' \<Longrightarrow> untouched p s s'"
  by (simp add: untouched_def flags_of_def project_entries_def same_fields)

lemma untouched_trans: "untouched p s t \<Longrightarrow> untouched p t u \<Longrightarrow> untouched p s u"
  by (simp add: untouched_def)

lemma fail_disclosed [simp]: "disclosed (writeError r e) [] = {}"
  by (auto simp: disclosed_def body_flags_def writeError_def respond_def split: option.splits)

lemma http_Error_disclosed [simp]: "disclosed (http_Error m c) [] = {}" "disclosed MethodNotAllowed [] = {}"
  by (simp_all add: disclosed_def body_flags_def http_Error_def MethodNotAllowed_def)

lemma broadcast_flags:
  "set (effect_flags (Publish (broadcastCurrentFlags now s p env))) = {f \<in> set (fs_list (ms_flagsSnapshot s)). ff_ProjectID f = or_project p}"
  by (auto simp: broadcastCurrentFlags_def project_msg_def ListFlagsByProject_def Let_def)

section \<open>The store's operations stay in their project\<close>

lemma project_entries_append:
  assumes "appendAuditLogLocked rt now s e = (lg, s')" and "or_project (al_ProjectID e) \<noteq> p"
  shows "project_entries s' p = project_entries s p"
proof -
  from assms(1) have "s' = s \<or> (\<exists>l. s' = s\<lparr>ms_auditLogs := l # ms_auditLogs s\<rparr> \<and> al_ProjectID l = or_project (al_ProjectID e))"
    by (auto simp: appendAuditLogLocked_def Let_def split: option.splits if_splits)
  with assms(2) show ?thesis by (auto simp: project_entries_def)
qed

lemma append_rest:
  assumes "appendAuditLogLocked rt now s e = (lg, s')"
  shows "ms_flagsSnapshot s' = ms_flagsSnapshot s" "ms_users s' = ms_users s" "ms_sessions s' = ms_sessions s"
    "ms_orgs s' = ms_orgs s" "ms_projects s' = ms_projects s" "ms_orgMembers s' = ms_orgMembers s"
    "ms_changeRequests s' = ms_changeRequests s" "ms_events s' = ms_events s" "ms_apiKeysByHash s' = ms_apiKeysByHash s"
  using append_result [OF assms] by auto

lemma flags_of_publish:
  assumes "filter (\<lambda>f. or_project (ff_ProjectID f) = p) fls = flags_of s p" and "snap_ok s"
  shows "flags_of (publish fls s) p = flags_of s p"
proof -
  have "map normalize_flag (flags_of s p) = flags_of s p"
    using snap_ok_flag(1) [OF assms(2)] by (auto simp: flags_of_def intro!: map_idI)
  moreover have "flags_of (publish fls s) p = map normalize_flag (filter (\<lambda>f. or_project (ff_ProjectID f) = p) fls)"
    by (simp add: flags_of_def filter_map o_def)
  ultimately show ?thesis using assms(1) by simp
qed

lemma publish_append_untouched:
  assumes "filter (\<lambda>f. or_project (ff_ProjectID f) = p) fls = flags_of s p" and "snap_ok s"
    and "appendAuditLogLocked rt now (publish fls s) e = (lg, s')" and "or_project (al_ProjectID e) \<noteq> p"
  shows "untouched p s s'"
proof -
  have "flags_of s' p = flags_of (publish fls s) p" using append_rest(1) [OF assms(3)] by (simp add: flags_of_def)
  moreover have "project_entries (publish fls s) p = project_entries s p" by (simp add: publish_def project_entries_def)
  ultimately show ?thesis
    using flags_of_publish [OF assms(1,2)] project_entries_append [OF assms(3,4)] append_rest [OF assms(3)]
    by (simp add: untouched_def publish_def)
qed

lemma flags_of_or: "snap_ok s \<Longrightarrow> flags_of s p = filter (\<lambda>f. or_project (ff_ProjectID f) = p) (fs_list (ms_flagsSnapshot s))"
  using snap_ok_flag(2) by (auto simp: flags_of_def intro!: filter_cong)

lemma replace_flag_other:
  assumes "replace_flag now flag fls = Some (flag', fls')" and "ff_ProjectID flag \<noteq> p" and "ff_ProjectID flag \<noteq> []"
  shows "filter (\<lambda>f. or_project (ff_ProjectID f) = p) fls' = filter (\<lambda>f. or_project (ff_ProjectID f) = p) fls
    \<and> ff_ProjectID flag' = ff_ProjectID flag"
  using assms by (induction fls arbitrary: fls') (auto simp: Let_def split: if_splits)

lemma SaveFlag_untouched:
  assumes "SaveFlag rt clk rnd s flag actor = (x, s')" and "snap_ok s" and "ff_ProjectID flag \<noteq> p" and "ff_ProjectID flag \<noteq> []"
  shows "untouched p s s'"
proof -
  let ?l = "fs_list (ms_flagsSnapshot s)"
  let ?new = "case replace_flag (clk 0) flag ?l of Some (f, l) \<Rightarrow> l | None \<Rightarrow> new_flag clk rnd flag # ?l"
  have new: "filter (\<lambda>f. or_project (ff_ProjectID f) = p) ?new = flags_of s p"
    using replace_flag_other [OF _ assms(3,4), of "clk 0" ?l] assms(3,4) flags_of_or [OF assms(2)]
    by (auto split: option.splits)
  consider "s' = s" | "s' = publish ?new s"
    | e lg where "appendAuditLogLocked rt (clk 3) (publish ?new s) e = (lg, s')" "al_ProjectID e = ff_ProjectID flag"
    using assms(1) replace_flag_other [OF _ assms(3,4), of "clk 0" ?l]
    by (fastforce simp: SaveFlag_def Let_def flag_log_def split: if_splits option.splits prod.splits)
  then show ?thesis
  proof cases
    case 1
    then show ?thesis by (simp add: untouched_def)
  next
    case 2
    with flags_of_publish [OF new assms(2)] show ?thesis
      by (simp add: untouched_def) (simp add: publish_def project_entries_def)
  next
    case 3
    show ?thesis by (rule publish_append_untouched [OF new assms(2) 3(1)]) (use 3(2) assms(3,4) in simp)
  qed
qed

lemma Delete_untouched:
  assumes "DeleteFlagByProject rt clk s q k actor = (x, s')" and "snap_ok s" and "or_project q \<noteq> p"
  shows "untouched p s s'"
proof (cases "filter (flag_matches (or_project q) k) (fs_list (ms_flagsSnapshot s)) = []")
  case True
  with assms(1) show ?thesis by (auto simp: DeleteFlagByProject_def Let_def untouched_def)
next
  case False
  let ?new = "filter (\<lambda>f. \<not> flag_matches (or_project q) k f) (fs_list (ms_flagsSnapshot s))"
  have n: "filter (\<lambda>f. or_project (ff_ProjectID f) = p) ?new = flags_of s p"
    using assms(3) flags_of_or [OF assms(2)] by (auto simp: flag_matches_def intro!: filter_cong)
  from False assms(1) obtain e lg where e: "appendAuditLogLocked rt (clk 2) (publish ?new s) e = (lg, s')" "al_ProjectID e = or_project q"
    by (auto simp: DeleteFlagByProject_def Let_def flag_log_def split: prod.splits)
  show ?thesis by (rule publish_append_untouched [OF n assms(2) e(1)]) (simp add: e(2) assms(3))
qed

lemma update_loop_other:
  assumes "\<And>f. m f \<Longrightarrow> or_project (ff_ProjectID f) \<noteq> p" and "\<And>i f. ff_ProjectID (fst (upd i f)) = ff_ProjectID f"
  shows "filter (\<lambda>f. or_project (ff_ProjectID f) = p) (fst (update_loop m upd i fls)) =
    filter (\<lambda>f. or_project (ff_ProjectID f) = p) fls"
proof (induction fls arbitrary: i)
  case (Cons f fls)
  obtain fs' l where u: "update_loop m upd (Suc i) fls = (fs', l)" by fastforce
  with Cons [of "Suc i"] assms show ?case by (auto simp: Let_def)
qed simp

lemma finish_untouched:
  assumes "finish_update rt now q k (update_loop (flag_matches q k) upd 0 (fs_list (ms_flagsSnapshot s))) s = (x, s')"
    and "snap_ok s" and "or_project q \<noteq> p" and "or_project q = q"
    and "\<And>i f. ff_ProjectID (fst (upd i f)) = ff_ProjectID f" and "\<And>i f. al_ProjectID (snd (upd i f)) = q"
  shows "untouched p s s'"
proof -
  let ?r = "update_loop (flag_matches q k) upd 0 (fs_list (ms_flagsSnapshot s))"
  have "filter (\<lambda>f. or_project (ff_ProjectID f) = p) (fst ?r) = flags_of s p"
    using update_loop_other [of "flag_matches q k" p upd 0] assms(3-5) flags_of_or [OF assms(2)]
    by (auto simp: flag_matches_def)
  moreover have "s' = s \<or> (\<exists>f e lg. snd ?r = Some (f, e) \<and> appendAuditLogLocked rt now (publish (fst ?r) s) e = (lg, s'))"
    using assms(1) by (auto simp: finish_update_def split: option.splits prod.splits)
  moreover have "snd (update_loop m upd i fls) = Some (f, e) \<Longrightarrow> al_ProjectID e = q" for m i fls f e
  proof (induction fls arbitrary: i)
    case (Cons g fls)
    obtain fs' l where u: "update_loop m upd (Suc i) fls = (fs', l)" by fastforce
    with Cons.prems Cons.IH [of "Suc i"] assms(6) show ?case
      by (auto simp: Let_def split: if_splits option.splits) (metis snd_conv)
  qed simp
  ultimately show ?thesis
    using publish_append_untouched [OF _ assms(2)] assms(3,4) by (force simp: untouched_def)
qed

lemma Toggle_untouched:
  assumes "ToggleFlagByProject rt clk s q k env b actor = (x, s')" and "snap_ok s" and "or_project q \<noteq> p"
  shows "untouched p s s'"
  by (rule finish_untouched [OF _ assms(2), where q = "or_project q"])
    (use assms in \<open>auto simp: ToggleFlagByProject_def toggle_update_def flag_log_def Let_def\<close>)

lemma Rollout_untouched:
  assumes "UpdateRolloutByProject rt clk s q k env pct actor = (x, s')" and "snap_ok s" and "or_project q \<noteq> p"
  shows "untouched p s s'"
  by (rule finish_untouched [OF _ assms(2), where q = "or_project q"])
    (use assms in \<open>auto simp: UpdateRolloutByProject_def rollout_update_def flag_log_def Let_def\<close>)

section \<open>The contract of a handler\<close>

text \<open>
  Whatever the handler does, a project that the request does not resolve to sees no change and none
  of its flags leaves the server.
\<close>

definition quiet :: "string \<Rightarrow> MemoryStore \<Rightarrow> outcome \<Rightarrow> bool" where
  "quiet p s out = (case out of (rsp, s', eff) \<Rightarrow>
     untouched p s s' \<and> (\<forall>f \<in> disclosed rsp eff. ff_ProjectID f \<noteq> p))"

lemma quiet_fail [simp]: "quiet p s (fail r s' e) = untouched p s s'"
  by (simp add: quiet_def fail_def)

lemma quiet_text [simp]: "quiet p s (http_Error m c, s', []) = untouched p s s'"
    "quiet p s (MethodNotAllowed, s', []) = untouched p s s'"
  by (simp_all add: quiet_def)

lemma untouched_refl [simp]: "untouched p s s"
  by (simp add: untouched_def)

lemma quiet_from: "untouched p s t \<Longrightarrow> quiet p t out \<Longrightarrow> quiet p s out"
  by (auto simp: quiet_def intro: untouched_trans split: prod.splits)

text \<open>Flags whose project, identifier and key hold no colon, the separator of the snapshot's index.\<close>

definition plain_ids :: "MemoryStore \<Rightarrow> bool" where
  "plain_ids s \<longleftrightarrow> (\<forall>f \<in> set (fs_list (ms_flagsSnapshot s)).
     CHR '':'' \<notin> set (ff_ProjectID f) \<and> CHR '':'' \<notin> set (ff_ID f) \<and> CHR '':'' \<notin> set (ff_Key f))"

locale confined =
  fixes w :: world and run :: "clocks \<Rightarrow> MemoryStore \<Rightarrow> Request \<Rightarrow> outcome"
  assumes confined: "snap_ok s \<Longrightarrow> plain_ids s \<Longrightarrow>
    (\<And>q r' s'. resolveAndAuthorizeProjectID w cks s r = (Inr q, r', s') \<Longrightarrow> q \<noteq> [] \<and> q \<noteq> p) \<Longrightarrow>
    quiet p s (run cks s r)"
begin

lemma behind_auth:
  assumes "snap_ok s" and "plain_ids s" and "tenants_named s" and "is_order (w_orgs w)" and "is_order (w_projects w)"
    and "\<And>u s'. getUserFromRequest w cks s r = (Inr u, s') \<Longrightarrow> \<not> may_access w s r u p"
  shows "quiet p s (RequireAuth w run cks s r)"
proof -
  obtain x t where g: "getUserFromRequest w cks s r = (x, t)" by fastforce
  have same: "same_but_usage s t" using g by (rule getUser_same)
  show ?thesis
  proof (cases x)
    case (Inl e)
    then show ?thesis
      by (simp add: RequireAuth_def g quiet_def untouched_same [OF same] disclosed_def body_flags_def encodeJSON_def auth_message_def)
  next
    case (Inr u)
    let ?r = "r\<lparr>rq_User := Some u\<rparr>"
    have ma: "may_access w t ?r u q = may_access w s r u q" for q
      by (simp add: may_access_def listed_project_def same_reads [OF same] same_fields [OF same]
        request_key_same [OF same])
    have t: "snap_ok t" "plain_ids t" "tenants_named t"
      using assms(1-3) by (simp_all add: snap_ok_def plain_ids_def tenants_named_def same_fields [OF same])
    have "quiet p t (run (later 3 cks) t ?r)"
    proof (rule confined [OF t(1,2)])
      fix q r' s' assume res: "resolveAndAuthorizeProjectID w (later 3 cks) t ?r = (Inr q, r', s')"
      have "may_access w t ?r u q"
        by (rule resolve_may_access [OF res _ assms(4,5) t(3)]) simp
      moreover have "q \<noteq> []" by (rule resolve_nonempty [OF res _ assms(5) t(3)]) simp
      ultimately show "q \<noteq> [] \<and> q \<noteq> p" using assms(6) g Inr ma by auto
    qed
    then show ?thesis
      using quiet_from [OF untouched_same [OF same]] by (simp add: RequireAuth_def g Inr)
  qed
qed

end

section \<open>The handlers meet it\<close>

lemma disclosed_reply:
  "disclosed (writeJSON st j) [Publish (broadcastCurrentFlags now s q env)] =
     set (json_flags j) \<union> {f \<in> set (fs_list (ms_flagsSnapshot s)). ff_ProjectID f = or_project q}"
  using broadcast_flags [of now s q env] by (auto simp: disclosed_def body_flags_def writeJSON_def)

lemma save_and_publish_quiet:
  assumes "snap_ok s" and "ff_ProjectID flag \<noteq> p" and "ff_ProjectID flag \<noteq> []"
  shows "quiet p s (save_and_publish w rnd cks s r st flag)"
proof (cases "ValidateFeatureFlag (w_envs w) flag")
  case None
  obtain x s' where sv: "SaveFlag (w_rt w) (cks 8) rnd s flag (getActorFromRequest r ''developer@flagura.dev'') = (x, s')"
    by fastforce
  note u = SaveFlag_untouched [OF sv assms]
  show ?thesis
  proof (cases x)
    case (Inr lg)
    have "quiet p s (saved_response st flag lg, s', [Publish (broadcastCurrentFlags (cks 9 0) s' (ff_ProjectID flag) [])])"
      using u assms(2,3) unfolding quiet_def saved_response_def by (auto simp: disclosed_reply)
    with None sv Inr show ?thesis by (simp add: save_and_publish_def)
  qed (use None sv u in \<open>simp add: save_and_publish_def\<close>)
qed (simp add: save_and_publish_def)

text \<open>The step every handler shares: resolving the project.\<close>

lemma quiet_resolve:
  assumes "snap_ok s" and "plain_ids s"
    and "\<And>q r' s'. resolveAndAuthorizeProjectID w cks s r = (Inr q, r', s') \<Longrightarrow> q \<noteq> [] \<and> q \<noteq> p"
    and "\<And>q r' s'. snap_ok s' \<Longrightarrow> plain_ids s' \<Longrightarrow> q \<noteq> [] \<Longrightarrow> q \<noteq> p \<Longrightarrow> quiet p s' (k q r' s')"
  shows "quiet p s (case resolveAndAuthorizeProjectID w cks s r of
    (Inl err, r, s) \<Rightarrow> fail r s err | (Inr q, r, s) \<Rightarrow> k q r s)"
proof -
  obtain x r' t where res: "resolveAndAuthorizeProjectID w cks s r = (x, r', t)" by (metis prod_cases3)
  have same: "same_but_usage s t" using res by (rule resolve_same)
  then have u: "untouched p s t" and t: "snap_ok t" "plain_ids t"
    using assms(1,2) by (simp_all add: untouched_same snap_ok_def plain_ids_def same_fields)
  show ?thesis
  proof (cases x)
    case (Inl e)
    with res u show ?thesis by simp
  next
    case (Inr q)
    with res assms(3) have "q \<noteq> []" "q \<noteq> p" by blast+
    with assms(4) [OF t] quiet_from [OF u] Inr res show ?thesis by simp
  qed
qed

lemma quiet_if: "(b \<Longrightarrow> quiet p s x) \<Longrightarrow> (\<not> b \<Longrightarrow> quiet p s y) \<Longrightarrow> quiet p s (if b then x else y)"
  by simp

lemma quiet_key:
  assumes "snap_ok s" and "\<And>key s'. snap_ok s' \<Longrightarrow> quiet p s' (k key s')"
  shows "quiet p s (case getAPIKeyFromRequest w clk s r of (key, s') \<Rightarrow> k key s')"
proof -
  obtain key t where g: "getAPIKeyFromRequest w clk s r = (key, t)" by fastforce
  have same: "same_but_usage s t" using getAPIKey_spec(1) [OF g] .
  then have "snap_ok t" using assms(1) by (simp add: snap_ok_def same_fields)
  with assms(2) quiet_from [OF untouched_same [OF same]] g show ?thesis by simp
qed

interpretation getting: confined w "handleGetFlags w" for w
  unfolding handleGetFlags_def
  by unfold_locales (rule quiet_resolve, auto simp: quiet_def disclosed_def body_flags_def writeJSON_def ListFlagsByProject_def Let_def)

interpretation creating: confined w "handleCreateFlag w rnd body" for w rnd body
proof unfold_locales
  fix s cks r p
  assume a: "snap_ok s" "plain_ids s" "\<And>q r' s'. resolveAndAuthorizeProjectID w cks s r = (Inr q, r', s') \<Longrightarrow> q \<noteq> [] \<and> q \<noteq> p"
  have "quiet p s' (if b then fail r' s' e else save_and_publish w rnd cks s' r' 201 (flag\<lparr>ff_ProjectID := q\<rparr>))"
    if "snap_ok s'" "q \<noteq> []" "q \<noteq> p" for s' q r' b e flag
    using save_and_publish_quiet [of s' "flag\<lparr>ff_ProjectID := q\<rparr>" p] that by simp
  then show "quiet p s (handleCreateFlag w rnd body cks s r)"
    unfolding handleCreateFlag_def using a by (cases body) (auto intro!: quiet_resolve)
qed

interpretation updating: confined w "handleUpdateFlag w rnd body" for w rnd body
proof unfold_locales
  fix s cks r p
  assume a: "snap_ok s" "plain_ids s" "\<And>q r' s'. resolveAndAuthorizeProjectID w cks s r = (Inr q, r', s') \<Longrightarrow> q \<noteq> [] \<and> q \<noteq> p"
  have sv: "quiet p s' (save_and_publish w rnd cks s' r' 200 flag)"
    if "snap_ok s'" "ff_ProjectID flag \<noteq> []" "ff_ProjectID flag \<noteq> p" for s' r' flag
    using save_and_publish_quiet that by blast
  show "quiet p s (handleUpdateFlag w rnd body cks s r)"
    unfolding handleUpdateFlag_def Let_def using a by (cases body) (auto intro!: quiet_resolve sv split: sum.splits)
qed

interpretation deleting: confined w "handleDeleteFlag w" for w
proof unfold_locales
  fix s cks r p
  assume a: "snap_ok s" "plain_ids s" "\<And>q r' s'. resolveAndAuthorizeProjectID w cks s r = (Inr q, r', s') \<Longrightarrow> q \<noteq> [] \<and> q \<noteq> p"
  show "quiet p s (handleDeleteFlag w cks s r)"
    unfolding handleDeleteFlag_def Let_def
    by (intro quiet_resolve a) (auto split: prod.splits sum.splits dest!: Delete_untouched [where p = p] simp: quiet_def disclosed_reply fail_def)
qed

text \<open>The flag the update loops report lies in the project they were asked to update.\<close>

lemma finish_update_project:
  assumes "finish_update rt now q k (update_loop (flag_matches q k) upd 0 (fs_list (ms_flagsSnapshot s))) s = (Inr (f, lg), s')"
    and "snap_ok s" and "\<And>i f. ff_ProjectID (fst (upd i f)) = ff_ProjectID f"
  shows "ff_ProjectID f = q"
proof -
  have "snd (update_loop (flag_matches q k) upd i fls) = Some (f, e) \<Longrightarrow> \<forall>g \<in> set fls. ff_ProjectID g \<noteq> [] \<Longrightarrow>
      ff_ProjectID f = q" for i fls e
  proof (induction fls arbitrary: i)
    case (Cons g fls)
    obtain fs' l where u: "update_loop (flag_matches q k) upd (Suc i) fls = (fs', l)" by fastforce
    from Cons.prems u have "l = Some (f, e) \<or> flag_matches q k g \<and> upd i g = (f, e)"
      by (auto simp: Let_def split: if_splits option.splits)
    then show ?case
    proof
      assume "l = Some (f, e)"
      with Cons.IH [of "Suc i"] Cons.prems(2) u show ?thesis by simp
    next
      assume m: "flag_matches q k g \<and> upd i g = (f, e)"
      then have "ff_ProjectID f = ff_ProjectID g" using assms(3) [of i g] by simp
      with m Cons.prems(2) show ?thesis by (simp add: flag_matches_def)
    qed
  qed simp
  moreover obtain e where "snd (update_loop (flag_matches q k) upd 0 (fs_list (ms_flagsSnapshot s))) = Some (f, e)"
    using assms(1) by (auto simp: finish_update_def split: option.splits prod.splits)
  moreover have "\<forall>g \<in> set (fs_list (ms_flagsSnapshot s)). ff_ProjectID g \<noteq> []" using snap_ok_flag(2) [OF assms(2)] by blast
  ultimately show ?thesis by blast
qed

lemma Toggle_project:
  assumes "ToggleFlagByProject rt clk s q k env b actor = (Inr (f, lg), s')" and "snap_ok s"
  shows "ff_ProjectID f = or_project q"
  by (rule finish_update_project [OF _ assms(2)])
    (use assms in \<open>auto simp: ToggleFlagByProject_def toggle_update_def Let_def\<close>)

lemma Rollout_project:
  assumes "UpdateRolloutByProject rt clk s q k env pct actor = (Inr (f, lg), s')" and "snap_ok s"
  shows "ff_ProjectID f = or_project q"
  by (rule finish_update_project [OF _ assms(2)])
    (use assms in \<open>auto simp: UpdateRolloutByProject_def rollout_update_def Let_def\<close>)

lemma quiet_reply:
  assumes "untouched p s s'" and "q \<noteq> []" and "q \<noteq> p" and "\<forall>f \<in> set (json_flags j). ff_ProjectID f = q"
  shows "quiet p s (writeJSON st j, s', [Publish (broadcastCurrentFlags now s' q env)])"
  using assms by (auto simp: quiet_def disclosed_reply)

interpretation toggle_route: confined w "handleToggleFlag w req" for w req
proof unfold_locales
  fix s cks r p
  assume a: "snap_ok s" "plain_ids s" "\<And>q r' s'. resolveAndAuthorizeProjectID w cks s r = (Inr q, r', s') \<Longrightarrow> q \<noteq> [] \<and> q \<noteq> p"
  show "quiet p s (handleToggleFlag w req cks s r)"
    unfolding handleToggleFlag_def Let_def
    by (intro quiet_resolve a quiet_key)
      (auto split: prod.splits sum.splits dest: Toggle_untouched [where p = p] Toggle_project intro!: quiet_reply)
qed

interpretation rollout_route: confined w "handleUpdateRollout w body" for w body
proof unfold_locales
  fix s cks r p
  assume a: "snap_ok s" "plain_ids s" "\<And>q r' s'. resolveAndAuthorizeProjectID w cks s r = (Inr q, r', s') \<Longrightarrow> q \<noteq> [] \<and> q \<noteq> p"
  show "quiet p s (handleUpdateRollout w body cks s r)"
  proof (cases body)
    case (Inr req)
    show ?thesis
      unfolding handleUpdateRollout_def Let_def Inr sum.case
      by (intro quiet_resolve a quiet_key)
        (auto split: prod.splits sum.splits dest: Rollout_untouched [where p = p] Rollout_project intro!: quiet_reply)
  qed (simp add: handleUpdateRollout_def)
qed

lemma colon_unique:
  assumes "p @ '':'' @ k = q @ '':'' @ l" and "CHR '':'' \<notin> set p" and "CHR '':'' \<notin> set k"
  shows "p = q"
  using assms by (auto simp: append_eq_append_conv2 append_eq_Cons_conv Cons_eq_append_conv)

lemma GetFlagByProject_project:
  assumes "GetFlagByProject s q k = Inr f" and "snap_ok s" and "plain_ids s"
  shows "ff_ProjectID f = or_project q"
proof -
  let ?l = "fs_list (ms_flagsSnapshot s)" and ?k = "or_project q @ '':'' @ k"
  have "fs_map (ms_flagsSnapshot s) = fold index_flag ?l []"
    using assms(2) snap_ok_list [OF assms(2)] unfolding snap_ok_def newFlagSnapshot_def Let_def
    by (metis FlagSnapshot.select_convs(1))
  with assms(1) have "find (\<lambda>f. ?k \<in> flag_keys f) (rev ?l) = Some f"
    by (auto simp: GetFlagByProject_def fold_index_get split: option.splits)
  then have "?k \<in> flag_keys f" and "f \<in> set ?l" by (metis find_Some_iff, metis find_Some_iff nth_mem set_rev)
  with assms(3) have "CHR '':'' \<notin> set (ff_ProjectID f)" "CHR '':'' \<notin> set (ff_ID f)" "CHR '':'' \<notin> set (ff_Key f)"
    by (auto simp: plain_ids_def)
  with \<open>?k \<in> flag_keys f\<close> show ?thesis
    using colon_unique [of "ff_ProjectID f" _ "or_project q" k]
    by (auto simp: flag_keys_def split: if_splits) (metis append_Cons in_set_conv_decomp append_Nil)+
qed

interpretation promote_route: confined w "handlePromoteEnvironment w rnd" for w rnd
proof unfold_locales
  fix s cks r p
  assume a: "snap_ok s" "plain_ids s" "\<And>q r' s'. resolveAndAuthorizeProjectID w cks s r = (Inr q, r', s') \<Longrightarrow> q \<noteq> [] \<and> q \<noteq> p"
  have sv: "untouched p s' t"
    if "GetFlagByProject s' q k = Inr f" "SaveFlag rt clk rnd s' (f\<lparr>ff_Environments := es, ff_UpdatedAt := now\<rparr>) actor = (x, t)"
      "snap_ok s'" "plain_ids s'" "q \<noteq> []" "q \<noteq> p" for s' q k f rt clk es now actor x t
    using SaveFlag_untouched [OF that(2,3)] GetFlagByProject_project [OF that(1,3,4)] that(5,6) by simp
  show "quiet p s (handlePromoteEnvironment w rnd cks s r)"
    unfolding handlePromoteEnvironment_def Let_def
    by (intro quiet_if quiet_resolve a)
      (auto split: prod.splits sum.splits option.splits dest: sv GetFlagByProject_project intro!: quiet_reply)
qed

section \<open>Properties\<close>


definition demo_foreign :: MemoryStore where
  "demo_foreign = demo_tenants\<lparr>ms_flagsSnapshot := newFlagSnapshot [demo_flag0 ''f2'' ''p2'' ''search'']\<rparr>"


end
