(* ===== verification/Config.thy ===== *)
theory Config
  imports Strconv Domain_Errors
begin

text \<open>
  The runtime configuration of \<open>src/pkg/config/config.go\<close>, read from environment variables, with the
  integer parser of package \<open>strconv\<close> it uses.
\<close>

section \<open>Atoi\<close>

fun digits_value :: "int \<Rightarrow> string \<Rightarrow> int option" where
  "digits_value n [] = Some n"
| "digits_value n (c # cs) = (case digit_val 10 c of Some d \<Rightarrow> digits_value (10 * n + int d) cs | None \<Rightarrow> None)"

text \<open>\<open>strconv.Atoi\<close>: an optional sign and digits, in the range of a 64-bit integer; \<open>None\<close> is an error.\<close>

definition Atoi :: "string \<Rightarrow> int option" where
  "Atoi s =
     (let (neg, ds) = take_sign s in
      if ds = [] then None
      else (case digits_value 0 ds of
              None \<Rightarrow> None
            | Some n \<Rightarrow> (let v = (if neg then - n else n) in
                if - (2 ^ 63) \<le> v \<and> v < 2 ^ 63 then Some v else None)))"

section \<open>Config\<close>

datatype slog_Level = LevelDebug | LevelInfo | LevelWarn | LevelError

record Config =
  cf_ServerPort :: string
  cf_Host :: string
  cf_BaseURL :: string
  cf_Environment :: string
  cf_DatabaseURL :: string
  cf_LogLevel :: slog_Level
  cf_LogFormat :: string
  cf_ReadHeaderTimeout :: duration
  cf_ReadTimeout :: duration
  cf_WriteTimeout :: duration
  cf_IdleTimeout :: duration
  cf_MaxHeaderBytes :: int
  cf_RateLimitRPS :: f64
  cf_RateLimitBurst :: int
  cf_CORSAllowedOrigins :: "string list"
  cf_GoogleClientID :: string
  cf_GoogleClientSecret :: string
  cf_GitHubClientID :: string
  cf_GitHubClientSecret :: string

definition IsGoogleOAuthEnabled :: "Config \<Rightarrow> bool" where
  "IsGoogleOAuthEnabled c = (cf_GoogleClientID c \<noteq> [] \<and> cf_GoogleClientSecret c \<noteq> [])"

definition IsGitHubOAuthEnabled :: "Config \<Rightarrow> bool" where
  "IsGitHubOAuthEnabled c = (cf_GitHubClientID c \<noteq> [] \<and> cf_GitHubClientSecret c \<noteq> [])"

definition getEnv :: "(string \<Rightarrow> string) \<Rightarrow> string \<Rightarrow> string \<Rightarrow> string" where
  "getEnv env key defaultVal = (if env key \<noteq> [] then env key else defaultVal)"

definition Config_Validate :: "Config \<Rightarrow> unit result" where
  "Config_Validate c =
     (if cf_ServerPort c = [] then Inl (Errorf ''server_port cannot be empty'')
      else if fle (cf_RateLimitRPS c) (Fin 0) then Inl (Errorf ''rate_limit_rps must be greater than 0'')
      else if cf_RateLimitBurst c \<le> 0 then Inl (Errorf ''rate_limit_burst must be greater than 0'')
      else Inr ())"

definition parse_level :: "string \<Rightarrow> slog_Level" where
  "parse_level levelStr =
     (if levelStr = ''DEBUG'' then LevelDebug
      else if levelStr = ''WARN'' \<or> levelStr = ''WARNING'' then LevelWarn
      else if levelStr = ''ERROR'' then LevelError
      else LevelInfo)"

definition initial_config :: "runtime \<Rightarrow> (string \<Rightarrow> string) \<Rightarrow> Config" where
  "initial_config rt env =
     \<lparr>cf_ServerPort = getEnv env ''PORT'' ''3000'', cf_Host = getEnv env ''HOST'' ''0.0.0.0'',
      cf_BaseURL = getEnv env ''FLAGURA_BASE_URL'' ''http://localhost:3000'',
      cf_Environment = ToLower rt (getEnv env ''FLAGURA_ENV'' ''production''),
      cf_DatabaseURL = env ''DATABASE_URL'',
      cf_LogLevel = parse_level (ToUpper rt (getEnv env ''FLAGURA_LOG_LEVEL'' ''INFO'')),
      cf_LogFormat = ToLower rt (getEnv env ''FLAGURA_LOG_FORMAT'' ''json''),
      cf_ReadHeaderTimeout = 5 * Second, cf_ReadTimeout = 15 * Second,
      cf_WriteTimeout = 15 * Second, cf_IdleTimeout = 60 * Second,
      cf_MaxHeaderBytes = 2 ^ 20, cf_RateLimitRPS = Fin 100, cf_RateLimitBurst = 200,
      cf_CORSAllowedOrigins = [''*''],
      cf_GoogleClientID = env ''GOOGLE_CLIENT_ID'', cf_GoogleClientSecret = env ''GOOGLE_CLIENT_SECRET'',
      cf_GitHubClientID = env ''GITHUB_CLIENT_ID'', cf_GitHubClientSecret = env ''GITHUB_CLIENT_SECRET''\<rparr>"

definition set_rps :: "string \<Rightarrow> Config \<Rightarrow> Config" where
  "set_rps rpsStr cfg =
     (if rpsStr = [] then cfg
      else (case ParseFloat rpsStr of
              Some rps \<Rightarrow> if flt (Fin 0) rps then cfg\<lparr>cf_RateLimitRPS := rps\<rparr> else cfg
            | None \<Rightarrow> cfg))"

definition set_burst :: "string \<Rightarrow> Config \<Rightarrow> Config" where
  "set_burst burstStr cfg =
     (if burstStr = [] then cfg
      else (case Atoi burstStr of
              Some burst \<Rightarrow> if burst > 0 then cfg\<lparr>cf_RateLimitBurst := burst\<rparr> else cfg
            | None \<Rightarrow> cfg))"

definition Load :: "runtime \<Rightarrow> (string \<Rightarrow> string) \<Rightarrow> Config result" where
  "Load rt env =
     (let cfg = initial_config rt env;
          cfg = set_rps (env ''FLAGURA_RATE_LIMIT_RPS'') cfg;
          cfg = set_burst (env ''FLAGURA_RATE_LIMIT_BURST'') cfg
      in case Config_Validate cfg of
           Inl err \<Rightarrow> Inl (Wrapf ''config validation failed: '' err)
         | Inr _ \<Rightarrow> Inr cfg)"

section \<open>Results\<close>

lemma digit_val_digit_char: "n < 10 \<Longrightarrow> digit_val 10 (digit_char n) = Some n"
  by (simp add: digit_val_def digit_char_def lower_char_def byte_of_def Let_def)

lemma digits_value_append:
  "digits_value n (xs @ ys) = (case digits_value n xs of Some m \<Rightarrow> digits_value m ys | None \<Rightarrow> None)"
  by (induction n xs rule: digits_value.induct) (auto split: option.splits)

lemma digits_value_show:
  assumes "0 \<le> n"
  shows "digits_value 0 (show_base 10 n) = Some n"
  using assms
proof (induction "nat n" arbitrary: n rule: less_induct)
  case less
  show ?case
  proof (cases "n < 10")
    case True
    then show ?thesis using less.prems digit_val_digit_char [of "nat n"]
      by (subst show_base.simps) simp
  next
    case False
    then have "digits_value 0 (show_base 10 (n div 10)) = Some (n div 10)" by (intro less.hyps) auto
    then show ?thesis using False digit_val_digit_char [of "nat (n mod 10)"]
      by (subst show_base.simps) (simp add: digits_value_append nat_less_iff)
  qed
qed

lemma show_base_no_sign:
  assumes "0 \<le> n"
  shows "take_sign (show_base 10 n) = (False, show_base 10 n)"
proof -
  have "CHR ''+'' \<notin> set (show_base 10 n)"
  proof
    assume "CHR ''+'' \<in> set (show_base 10 n)"
    then obtain a b where "show_base 10 n = a @ CHR ''+'' # b" by (metis split_list)
    then have "digits_value 0 (a @ CHR ''+'' # b) = Some n" using digits_value_show [OF assms] by simp
    moreover have "digit_val 10 (CHR ''+'') = None" by code_simp
    ultimately show False by (simp add: digits_value_append split: option.splits)
  qed
  with show_base_no_minus [OF assms] show ?thesis
    by (auto simp: take_sign_def split: list.splits)
qed

text \<open>\<open>Atoi\<close> reads back what \<open>Itoa\<close> wrote.\<close>

lemma Atoi_Itoa:
  assumes "- (2 ^ 63) \<le> i" and "i < 2 ^ 63"
  shows "Atoi (Itoa i) = Some i"
proof (cases "i < 0")
  case True
  then show ?thesis using assms digits_value_show [of "- i"] show_base_nonempty [of 10 "- i"]
    by (simp add: Atoi_def Itoa_def take_sign_def)
next
  case False
  then show ?thesis using assms digits_value_show [of i] show_base_nonempty [of 10 i] show_base_no_sign [of i]
    by (simp add: Atoi_def Itoa_def)
qed

text \<open>Whatever the environment says, the configuration loads, and its limits are positive.\<close>

lemma Load_total:
  "\<exists>cfg. Load rt env = Inr cfg \<and> cf_ServerPort cfg \<noteq> [] \<and> flt (Fin 0) (cf_RateLimitRPS cfg) \<and> 0 < cf_RateLimitBurst cfg"
proof -
  let ?c = "set_burst (env ''FLAGURA_RATE_LIMIT_BURST'') (set_rps (env ''FLAGURA_RATE_LIMIT_RPS'') (initial_config rt env))"
  have 1: "cf_ServerPort (set_rps x c) = cf_ServerPort c" "cf_ServerPort (set_burst x c) = cf_ServerPort c"
    "cf_RateLimitRPS (set_burst x c) = cf_RateLimitRPS c" "cf_RateLimitBurst (set_rps x c) = cf_RateLimitBurst c" for x c
    by (auto simp: set_rps_def set_burst_def split: option.splits)
  have "flt (Fin 0) (cf_RateLimitRPS (set_rps x (initial_config rt env)))" for x
    by (auto simp: set_rps_def initial_config_def flt_def split: option.splits)
  moreover have "0 < cf_RateLimitBurst c \<Longrightarrow> 0 < cf_RateLimitBurst (set_burst x c)" for x c
    by (auto simp: set_burst_def split: option.splits)
  ultimately have 2: "flt (Fin 0) (cf_RateLimitRPS ?c)" "0 < cf_RateLimitBurst ?c" "cf_ServerPort ?c \<noteq> []"
    by (simp_all add: 1 initial_config_def getEnv_def)
  moreover have "flt (Fin 0) x \<Longrightarrow> \<not> fle x (Fin 0)" for x
    by (cases x) (auto simp: flt_def fle_def feq_def is_fin_def)
  ultimately show ?thesis by (simp add: Load_def Config_Validate_def Let_def)
qed

end
