(* ===== verification/Mailer.thy ===== *)
theory Mailer
  imports Config
begin

text \<open>
  The mailer of \<open>src/pkg/email/mailer.go\<close>: its configuration from the environment, the choice between
  the disabled, the console and the SMTP mailer, and the message an SMTP mailer hands to the
  transport. The HTML templates (\<open>render\<close>), \<open>mail.ParseAddress\<close> (\<open>parse\<close>) and the connection to the
  server (\<open>transport\<close>) are arguments.
\<close>

section \<open>Configuration\<close>

record MailConfig =
  mc_Host :: string
  mc_Port :: int
  mc_Username :: string
  mc_Password :: string
  mc_FromEmail :: string
  mc_SupportEmail :: string
  mc_BrandName :: string
  mc_AppURL :: string
  mc_GovernanceEmails :: "string list"
  mc_UseTLS :: bool

definition DefaultConfig :: MailConfig where
  "DefaultConfig = \<lparr>mc_Host = [], mc_Port = 587, mc_Username = [], mc_Password = [],
     mc_FromEmail = ''no-reply@localhost'', mc_SupportEmail = [], mc_BrandName = ''Flagura'',
     mc_AppURL = ''http://localhost:3000'', mc_GovernanceEmails = [], mc_UseTLS = False\<rparr>"

definition trim_right_slashes :: "string \<Rightarrow> string" where
  "trim_right_slashes s = rev (dropWhile (\<lambda>c. c = CHR ''/'') (rev s))"

definition parse_emails :: "runtime \<Rightarrow> string \<Rightarrow> string list" where
  "parse_emails rt rawGov = filter (\<lambda>t. t \<noteq> []) (map (TrimSpace rt) (Split rawGov (CHR '','')))"

definition LoadConfigFromEnv :: "runtime \<Rightarrow> (string \<Rightarrow> string) \<Rightarrow> MailConfig" where
  "LoadConfigFromEnv rt env =
     (let d = DefaultConfig;
          port = (if env ''SMTP_PORT'' \<noteq> [] then (case Atoi (env ''SMTP_PORT'') of Some p \<Rightarrow> p | None \<Rightarrow> mc_Port d)
                  else mc_Port d);
          gov = parse_emails rt (env ''FLAGURA_GOVERNANCE_EMAILS'')
      in \<lparr>mc_Host = env ''SMTP_HOST'', mc_Port = port,
          mc_Username = env ''SMTP_USERNAME'', mc_Password = env ''SMTP_PASSWORD'',
          mc_FromEmail = getEnv env ''SMTP_FROM'' (getEnv env ''FLAGURA_FROM_EMAIL'' (mc_FromEmail d)),
          mc_SupportEmail = env ''FLAGURA_SUPPORT_EMAIL'',
          mc_BrandName = getEnv env ''FLAGURA_BRAND_NAME'' (mc_BrandName d),
          mc_AppURL = (if env ''FLAGURA_APP_URL'' \<noteq> [] then trim_right_slashes (env ''FLAGURA_APP_URL'') else mc_AppURL d),
          mc_GovernanceEmails = (if env ''FLAGURA_GOVERNANCE_EMAILS'' \<noteq> [] \<and> gov \<noteq> [] then gov else mc_GovernanceEmails d),
          mc_UseTLS = (port = 465 \<or> env ''SMTP_USE_TLS'' = ''true'')\<rparr>)"

section \<open>Mailers\<close>

datatype Mailer = DisabledMailer (mailer_Config: MailConfig) | ConsoleMailer (mailer_Config: MailConfig)
  | SMTPMailer (mailer_Config: MailConfig)

fun IsEnabled :: "Mailer \<Rightarrow> bool" where
  "IsEnabled (DisabledMailer _) = False"
| "IsEnabled _ = True"

definition GetGovernanceEmails :: "Mailer \<Rightarrow> string list" where
  "GetGovernanceEmails m = mc_GovernanceEmails (mailer_Config m)"

definition GetSupportEmail :: "Mailer \<Rightarrow> string" where
  "GetSupportEmail m = mc_SupportEmail (mailer_Config m)"

definition NewMailerFromEnv :: "runtime \<Rightarrow> (string \<Rightarrow> string) \<Rightarrow> Mailer" where
  "NewMailerFromEnv rt env =
     (let cfg = LoadConfigFromEnv rt env in
      if mc_Host cfg = [] then
        if env ''ENABLE_CONSOLE_MAILER'' = ''true'' then ConsoleMailer cfg else DisabledMailer cfg
      else SMTPMailer cfg)"

section \<open>Messages\<close>

definition sanitizeHeader :: "runtime \<Rightarrow> string \<Rightarrow> string" where
  "sanitizeHeader rt v = TrimSpace rt (filter (\<lambda>c. c \<noteq> CHR 0x0A) (filter (\<lambda>c. c \<noteq> CHR 0x0D) v))"

definition CRLF :: string where
  "CRLF = [CHR 0x0D, CHR 0x0A]"

definition smtp_message :: "string \<Rightarrow> string \<Rightarrow> string \<Rightarrow> string \<Rightarrow> string" where
  "smtp_message from_addr to_addr subject htmlBody =
     ''From: '' @ from_addr @ CRLF @ ''To: '' @ to_addr @ CRLF @ ''Subject: '' @ subject @ CRLF
     @ ''MIME-Version: 1.0'' @ CRLF @ ''Content-Type: text/html; charset=UTF-8'' @ CRLF @ CRLF @ htmlBody @ CRLF"

text \<open>What the mailer asks of the SMTP library: \<open>tls.Dial\<close> and a client, or \<open>smtp.SendMail\<close>.\<close>

record delivery =
  dl_Addr :: string
  dl_TLS :: bool
  dl_SkipVerify :: bool
  dl_Auth :: "(string \<times> string \<times> string) option"
  dl_From :: string
  dl_To :: string
  dl_Msg :: string

definition sendHTMLEmail :: "runtime \<Rightarrow> (string \<Rightarrow> string result) \<Rightarrow> (delivery \<Rightarrow> unit result) \<Rightarrow> MailConfig
  \<Rightarrow> string \<Rightarrow> string \<Rightarrow> string \<Rightarrow> unit result" where
  "sendHTMLEmail rt parse transport cfg toEmail subject htmlBody =
     (case parse toEmail of
        Inl err \<Rightarrow> Inl (Wrapf ''invalid recipient email address: '' err)
      | Inr cleanTo \<Rightarrow>
          (let cleanFrom = (case parse (mc_FromEmail cfg) of Inr a \<Rightarrow> a | Inl _ \<Rightarrow> sanitizeHeader rt (mc_FromEmail cfg));
               tls = (mc_Port cfg = 465 \<or> mc_UseTLS cfg)
           in transport \<lparr>dl_Addr = mc_Host cfg @ '':'' @ Itoa (mc_Port cfg), dl_TLS = tls,
                dl_SkipVerify = (tls \<and> (mc_Host cfg = ''127.0.0.1'' \<or> mc_Host cfg = ''localhost'')),
                dl_Auth = (if mc_Username cfg \<noteq> [] then Some (mc_Username cfg, mc_Password cfg, mc_Host cfg) else None),
                dl_From = mc_FromEmail cfg, dl_To = toEmail,
                dl_Msg = smtp_message (sanitizeHeader rt cleanFrom) (sanitizeHeader rt cleanTo)
                  (sanitizeHeader rt subject) htmlBody\<rparr>))"

text \<open>The three notifications; a template is named with its fields.\<close>

type_synonym template_renderer = "string \<Rightarrow> (string \<times> string) list \<Rightarrow> string result"

definition render_or_fail :: "template_renderer \<Rightarrow> string \<Rightarrow> (string \<times> string) list \<Rightarrow> (string \<Rightarrow> unit result) \<Rightarrow> unit result" where
  "render_or_fail render tmpl params k =
     (case render tmpl params of Inl err \<Rightarrow> Inl (Wrapf (''failed to render '' @ tmpl @ '': '') err) | Inr html \<Rightarrow> k html)"

definition deliver :: "runtime \<Rightarrow> template_renderer \<Rightarrow> (string \<Rightarrow> string result) \<Rightarrow> (delivery \<Rightarrow> unit result) \<Rightarrow> Mailer
  \<Rightarrow> string \<Rightarrow> string \<Rightarrow> string \<Rightarrow> (string \<times> string) list \<Rightarrow> unit result" where
  "deliver rt render parse transport m toEmail tmpl subject params =
     (let cfg = mailer_Config m;
          params = params @ [(''BrandName'', mc_BrandName cfg), (''SupportEmail'', mc_SupportEmail cfg)]
      in case m of
           DisabledMailer _ \<Rightarrow> Inr ()
         | ConsoleMailer _ \<Rightarrow> render_or_fail render tmpl params (\<lambda>_. Inr ())
         | SMTPMailer _ \<Rightarrow> render_or_fail render tmpl params (sendHTMLEmail rt parse transport cfg toEmail subject))"

definition SendPasswordReset :: "runtime \<Rightarrow> template_renderer \<Rightarrow> (string \<Rightarrow> string result) \<Rightarrow> (delivery \<Rightarrow> unit result) \<Rightarrow> Mailer
  \<Rightarrow> string \<Rightarrow> string \<Rightarrow> string \<Rightarrow> unit result" where
  "SendPasswordReset rt render parse transport m toEmail recipientName resetURL =
     deliver rt render parse transport m toEmail ''password_reset.html''
       (''Reset Your '' @ mc_BrandName (mailer_Config m) @ '' Console Password'')
       [(''ToEmail'', toEmail), (''RecipientName'', recipientName), (''ResetURL'', resetURL)]"

definition SendWelcomeEmail :: "runtime \<Rightarrow> template_renderer \<Rightarrow> (string \<Rightarrow> string result) \<Rightarrow> (delivery \<Rightarrow> unit result) \<Rightarrow> Mailer
  \<Rightarrow> string \<Rightarrow> string \<Rightarrow> string \<Rightarrow> unit result" where
  "SendWelcomeEmail rt render parse transport m toEmail recipientName dashboardURL =
     deliver rt render parse transport m toEmail ''welcome.html''
       (''Welcome to '' @ mc_BrandName (mailer_Config m) @ '' Feature Flag Platform'')
       [(''ToEmail'', toEmail), (''RecipientName'', recipientName), (''DashboardURL'', dashboardURL)]"

definition SendChangeRequestNotification :: "runtime \<Rightarrow> template_renderer \<Rightarrow> (string \<Rightarrow> string result) \<Rightarrow> (delivery \<Rightarrow> unit result)
  \<Rightarrow> Mailer \<Rightarrow> string \<Rightarrow> string \<Rightarrow> string \<Rightarrow> string \<Rightarrow> string \<Rightarrow> string \<Rightarrow> string \<Rightarrow> unit result" where
  "SendChangeRequestNotification rt render parse transport m toEmail recipientName requesterName flagKey environment actionType reviewURL =
     deliver rt render parse transport m toEmail ''change_request.html''
       (''Action Required: Review Flag Change for '' @ flagKey @ '' ('' @ environment @ '')'')
       [(''ToEmail'', toEmail), (''RecipientName'', recipientName), (''RequesterName'', requesterName), (''FlagKey'', flagKey),
        (''Environment'', environment), (''ActionType'', actionType), (''ReviewURL'', reviewURL)]"

section \<open>Header injection\<close>

lemma TrimSpace_set:
  "set (rt_trim rt s) \<subseteq> set s \<Longrightarrow> set (TrimSpace rt s) \<subseteq> set s"
  by (auto simp: TrimSpace_def trim_while_def dest!: set_dropWhileD)

definition mail_lines :: "string \<Rightarrow> string \<Rightarrow> string \<Rightarrow> string \<Rightarrow> string" where
  "mail_lines from_addr to_addr subj html = concat (map (\<lambda>h. h @ CRLF) [''From: '' @ from_addr, ''To: '' @ to_addr,
     ''Subject: '' @ subj, ''MIME-Version: 1.0'', ''Content-Type: text/html; charset=UTF-8'', [], html])"

lemma smtp_message_lines: "smtp_message f t s h = mail_lines f t s h"
  by (simp add: smtp_message_def mail_lines_def)

lemma sanitizeHeader_clean:
  assumes "\<And>s. set (rt_trim rt s) \<subseteq> set s"
  shows "set (sanitizeHeader rt v) \<inter> {CHR 0x0D, CHR 0x0A} = {}"
  using TrimSpace_set [OF assms, of "filter (\<lambda>c. c \<noteq> CHR 0x0A) (filter (\<lambda>c. c \<noteq> CHR 0x0D) v)"]
  unfolding sanitizeHeader_def by auto

text \<open>
  No header of a mail can be forged. Whatever the addresses, the brand, the flag key and the
  environment contain, and whatever \<open>mail.ParseAddress\<close> makes of the addresses, the message an SMTP
  mailer hands to the server has the five header lines of the code and no other, given that trimming
  white space adds no character: the values of the three variable ones contain no line break.
\<close>

theorem mail_headers_fixed:
  assumes "\<And>s. set (rt_trim rt s) \<subseteq> set s"
  shows "case (render tmpl (params @ [(''BrandName'', mc_BrandName cfg), (''SupportEmail'', mc_SupportEmail cfg)]), parse toEmail) of
      (Inr html, Inr _) \<Rightarrow>
        \<exists>d from_addr to_addr subj. deliver rt render parse transport (SMTPMailer cfg) toEmail tmpl subject params = transport d
          \<and> dl_Msg d = mail_lines from_addr to_addr subj html
          \<and> set (from_addr @ to_addr @ subj) \<inter> {CHR 0x0D, CHR 0x0A} = {}
    | _ \<Rightarrow> \<exists>err. deliver rt render parse transport (SMTPMailer cfg) toEmail tmpl subject params = Inl err"
    (is "case (?r, _) of (Inr html, Inr _) \<Rightarrow> ?P html | _ \<Rightarrow> ?Q")
proof (cases ?r)
  case (Inl e)
  then show ?thesis by (simp add: deliver_def render_or_fail_def)
next
  case html: (Inr html)
  show ?thesis
  proof (cases "parse toEmail")
    case (Inl e)
    with html show ?thesis by (simp add: deliver_def render_or_fail_def sendHTMLEmail_def)
  next
    case (Inr a)
    let ?from = "case parse (mc_FromEmail cfg) of Inr a \<Rightarrow> a | Inl _ \<Rightarrow> sanitizeHeader rt (mc_FromEmail cfg)"
    obtain d where d: "deliver rt render parse transport (SMTPMailer cfg) toEmail tmpl subject params = transport d"
      "dl_Msg d = mail_lines (sanitizeHeader rt ?from) (sanitizeHeader rt a) (sanitizeHeader rt subject) html"
      using html Inr by (simp add: deliver_def render_or_fail_def sendHTMLEmail_def smtp_message_lines Let_def)
    moreover have "set (sanitizeHeader rt ?from @ sanitizeHeader rt a @ sanitizeHeader rt subject) \<inter> {CHR 0x0D, CHR 0x0A} = {}"
      using sanitizeHeader_clean [OF assms] by (simp add: Int_Un_distrib2)
    ultimately have "?P html" by blast
    with html Inr show ?thesis by simp
  qed
qed

theorem mail_headers_fixed_witness:
  "\<exists>(d :: delivery) from_addr to_addr subj.
     deliver demo_runtime (\<lambda>_ _. Inr ''<p>'') Inr (\<lambda>_. Inr ()) (SMTPMailer DefaultConfig) ''a@b'' ''welcome.html''
       (''Hi'' @ CRLF @ ''Bcc: x@y'') [] = Inr ()
     \<and> dl_Msg d = mail_lines from_addr to_addr subj ''<p>''
     \<and> set (from_addr @ to_addr @ subj) \<inter> {CHR 0x0D, CHR 0x0A} = {}"
proof -
  have "\<And>s. set (rt_trim demo_runtime s) \<subseteq> set s" by (simp add: demo_runtime_def)
  from mail_headers_fixed [OF this, where render = "\<lambda>_ _. Inr ''<p>''" and tmpl = "''welcome.html''" and params = "[]"
      and cfg = DefaultConfig and parse = Inr and toEmail = "''a@b''" and transport = "\<lambda>_. Inr ()"
      and subject = "''Hi'' @ CRLF @ ''Bcc: x@y''"]
  show ?thesis unfolding prod.case sum.case .
qed

end
