(* ===== verification/Api_Changes.thy ===== *)
theory Api_Changes
  imports Api_Flags Mailer Store_Changes
begin

text \<open>
  Change requests over HTTP, \<open>src/pkg/api/handlers_changerequest.go\<close>: listing, proposing, reviewing
  under the four-eyes rule and applying. The mails the handler starts are effects, in the order of
  the recipients.
\<close>

section \<open>Handlers\<close>

definition review_url :: "Request \<Rightarrow> string" where
  "review_url r =
     (let scheme = (if rq_TLS r \<or> header_get r ''X-Forwarded-Proto'' = ''https'' then ''https'' else ''http'');
          host = (if rq_Host r = [] then ''localhost:3000'' else rq_Host r)
      in scheme @ ''://'' @ host @ ''/dashboard'')"

definition governance_recipients :: "world \<Rightarrow> Mailer \<Rightarrow> MemoryStore \<Rightarrow> string \<Rightarrow> string list" where
  "governance_recipients w m s authorID =
     (if GetGovernanceEmails m \<noteq> [] then GetGovernanceEmails m
      else map us_Email (filter (\<lambda>u. us_Role u = RoleAdmin \<and> us_ID u \<noteq> authorID) (ListUsers (w_users w) s)))"

definition change_mails :: "world \<Rightarrow> Mailer \<Rightarrow> MemoryStore \<Rightarrow> Request \<Rightarrow> ChangeRequest \<Rightarrow> effect list" where
  "change_mails w m s r created =
     (if \<not> IsEnabled m then []
      else map (\<lambda>recipient. effect.SendChangeRequestNotification recipient ''Governance Reviewer'' (cr_AuthorName created)
             (cr_FlagKey created) (cr_Environment created)
             (if cr_Title created = [] then ''Config Modification'' else cr_Title created) (review_url r))
           (governance_recipients w m s (cr_AuthorUserID created)))"

text \<open>The second half of \<open>handleCreateChangeRequest\<close>, once the project is authorized.\<close>

definition propose_change :: "world \<Rightarrow> Mailer \<Rightarrow> string \<Rightarrow> clock \<Rightarrow> MemoryStore \<Rightarrow> Request \<Rightarrow> User \<Rightarrow> string \<Rightarrow> ChangeRequest \<Rightarrow> outcome" where
  "propose_change w m rnd clk s r user projectID req =
     (let req = req\<lparr>cr_ProjectID := projectID, cr_AuthorUserID := us_ID user,
            cr_AuthorEmail := us_Email user, cr_AuthorName := us_Name user\<rparr>
      in case ValidateEnvironmentConfig (cr_ProposedConfig req) of
           Some err \<Rightarrow> fail r s (invalid_input (Error err))
         | None \<Rightarrow>
             (case GetFlagByProject s projectID (cr_FlagKey req) of
                Inl _ \<Rightarrow> fail r s (flag_missing (''target flag not found: '' @ cr_FlagKey req))
              | Inr targetFlag \<Rightarrow>
                  (case CreateChangeRequest clk rnd s (req\<lparr>cr_BaseConfigVersion := ff_ConfigVersion targetFlag\<rparr>) of
                     (Inl err, s) \<Rightarrow> (http_Error (Error err) 400, s, [])
                   | (Inr created, s) \<Rightarrow>
                       (encodeJSON 201 (J_change created), s,
                        Publish (custom_msg ''change_request_created'' (J_change created)) # change_mails w m s r created))))"

definition handleCreateChangeRequest :: "world \<Rightarrow> Mailer \<Rightarrow> string \<Rightarrow> ChangeRequest result \<Rightarrow> clocks \<Rightarrow> MemoryStore \<Rightarrow> Request \<Rightarrow> outcome" where
  "handleCreateChangeRequest w m rnd body cks s r =
     (case rq_User r of
        None \<Rightarrow> (http_Error ''Unauthorized'' 401, s, [])
      | Some user \<Rightarrow>
     (case body of
        Inl err \<Rightarrow> fail r s (malformed (''Invalid JSON payload: '' @ Error err) err)
      | Inr req \<Rightarrow>
          if cr_FlagKey req = [] then fail r s (invalid_input ''flag_key is required'')
          else
            (let req = (if cr_Environment req = [] then req\<lparr>cr_Environment := EnvProduction\<rparr> else req) in
             if cr_ProjectID req = [] then
               (case resolveAndAuthorizeProjectID w cks s r of
                  (Inl err, r, s) \<Rightarrow> fail r s err
                | (Inr projectID, r, s) \<Rightarrow> propose_change w m rnd (cks 8) s r user projectID req)
             else
               (case authorizeProjectAccess w cks s r (cr_ProjectID req) of
                  (Inl err, s) \<Rightarrow> fail r s err
                | (Inr _, s) \<Rightarrow> propose_change w m rnd (cks 8) s r user (cr_ProjectID req) req))))"

definition handleListOrCreateChangeRequests :: "world \<Rightarrow> Mailer \<Rightarrow> string \<Rightarrow> ChangeRequest result \<Rightarrow> clocks \<Rightarrow> MemoryStore \<Rightarrow> Request \<Rightarrow> outcome" where
  "handleListOrCreateChangeRequests w m rnd body cks s r =
     (if rq_Method r = ''GET'' then
        (case resolveAndAuthorizeProjectID w cks s r of
           (Inl err, r, s) \<Rightarrow> fail r s err
         | (Inr projectID, r, s) \<Rightarrow>
             (encodeJSON 200 (J_object [(''project_id'', J_string projectID), (''change_requests'',
                J_changes (ListChangeRequestsByProject (w_changes w) s projectID (query_get r ''status'')))]), s, []))
      else if rq_Method r = ''POST'' then RequireAuth w (handleCreateChangeRequest w m rnd body) cks s r
      else (MethodNotAllowed, s, []))"

text \<open>Who may review: privileged callers, and addresses of the two governance lists.\<close>

definition governance_listed :: "world \<Rightarrow> Mailer \<Rightarrow> User \<Rightarrow> bool" where
  "governance_listed w m user =
     (list_ex (\<lambda>g. EqualFold (w_rt w) (us_Email user) g) (GetGovernanceEmails m)
      \<or> (w_getenv w ''FLAGURA_GOVERNANCE_EMAILS'' \<noteq> []
         \<and> list_ex (\<lambda>g. EqualFold (w_rt w) (TrimSpace (w_rt w) (us_Email user)) (TrimSpace (w_rt w) g))
             (Split (w_getenv w ''FLAGURA_GOVERNANCE_EMAILS'') (CHR '',''))))"

definition isAuthorizedReviewer :: "world \<Rightarrow> Mailer \<Rightarrow> MemoryStore \<Rightarrow> User \<Rightarrow> string \<Rightarrow> bool" where
  "isAuthorizedReviewer w m s user projectID =
     (IsPrivileged (enrichUserOrgMembership s (Some user) projectID) \<or> governance_listed w m user)"

record ReviewRequest =
  rv_Approved :: bool
  rv_Comments :: string

definition handleReviewChangeRequest :: "world \<Rightarrow> Mailer \<Rightarrow> ReviewRequest result \<Rightarrow> string \<Rightarrow> clocks \<Rightarrow> MemoryStore \<Rightarrow> Request \<Rightarrow> outcome" where
  "handleReviewChangeRequest w m body i cks s r =
     (case rq_User r of
        None \<Rightarrow> (http_Error ''Unauthorized'' 401, s, [])
      | Some user \<Rightarrow>
     (case GetChangeRequest s i of
        Inl err \<Rightarrow> (http_Error (Error err) 400, s, [])
      | Inr cr \<Rightarrow>
          (let (ok, s) = authorizeProjectAccess w cks s r (cr_ProjectID cr) in
           case ok of
             Inl err \<Rightarrow> fail r s err
           | Inr _ \<Rightarrow>
               if \<not> isAuthorizedReviewer w m s user (cr_ProjectID cr) then
                 fail r s (NewAppError 1002
                   ''4-Eyes governance requires review by an administrator, organization owner, or designated governance reviewer''
                   403 (Some (Sentinel ErrForbidden)))
               else
                 (case body of
                    Inl err \<Rightarrow> (http_Error (''Invalid JSON payload: '' @ Error err) 400, s, [])
                  | Inr req \<Rightarrow>
                      (case ReviewChangeRequest (cks 4) s i (us_ID user) (us_Email user) (us_Name user)
                              (rv_Approved req) (rv_Comments req) of
                         (Inl err, s) \<Rightarrow> (http_Error (Error err) 400, s, [])
                       | (Inr updated, s) \<Rightarrow>
                           (encodeJSON 200 (J_change updated), s,
                            [Publish (custom_msg ''change_request_reviewed'' (J_change updated))]))))))"

definition handleApplyChangeRequest :: "world \<Rightarrow> string \<Rightarrow> clocks \<Rightarrow> MemoryStore \<Rightarrow> Request \<Rightarrow> outcome" where
  "handleApplyChangeRequest w i cks s r =
     (let actor = (case rq_User r of Some user \<Rightarrow> us_Email user | None \<Rightarrow> ''system'') in
      case GetChangeRequest s i of
        Inl err \<Rightarrow> (http_Error (Error err) 400, s, [])
      | Inr targetCR \<Rightarrow>
          (let (ok, s) = authorizeProjectAccess w cks s r (cr_ProjectID targetCR) in
           case ok of
             Inl err \<Rightarrow> fail r s err
           | Inr _ \<Rightarrow>
               (case ApplyChangeRequest (w_rt w) (cks 4) s i actor of
                  (Inl err, s) \<Rightarrow> (http_Error (Error err) 400, s, [])
                | (Inr (flag, cr, audit), s) \<Rightarrow>
                    (encodeJSON 200 (J_object [(''flag'', J_flag flag), (''change_request'', J_change cr), (''audit'', J_audit (Some audit))]),
                     s, [Publish (broadcastCurrentFlags (cks 5 0) s (cr_ProjectID cr) (cr_Environment cr))]))))"

abbreviation (input) "ChangeRequestsPrefix \<equiv> ''/api/v1/change-requests/''"

definition handleChangeRequestItem :: "world \<Rightarrow> Mailer \<Rightarrow> ReviewRequest result \<Rightarrow> clocks \<Rightarrow> MemoryStore \<Rightarrow> Request \<Rightarrow> outcome" where
  "handleChangeRequestItem w m body cks s r =
     (let parts = Split (trim_slashes (TrimPrefix (rq_Path r) ChangeRequestsPrefix)) (CHR ''/'') in
      case parts of
        [] \<Rightarrow> (http_Error ''Change request ID required'' 400, s, [])
      | i # rest \<Rightarrow>
          if i = [] then (http_Error ''Change request ID required'' 400, s, [])
          else (case rest of
             [] \<Rightarrow>
               if rq_Method r = ''GET'' then
                 (case GetChangeRequest s i of
                    Inl err \<Rightarrow> fail r s (NewAppError 3006 (Error err) 404 (Some err))
                  | Inr cr \<Rightarrow>
                      (case authorizeProjectAccess w cks s r (cr_ProjectID cr) of
                         (Inl err, s) \<Rightarrow> fail r s err
                       | (Inr _, s) \<Rightarrow> (encodeJSON 200 (J_change cr), s, [])))
               else (MethodNotAllowed, s, [])
           | action # _ \<Rightarrow>
               if action = ''review'' then
                 if rq_Method r \<noteq> ''POST'' then (MethodNotAllowed, s, [])
                 else RequireAuth w (handleReviewChangeRequest w m body i) cks s r
               else if action = ''apply'' then
                 if rq_Method r \<noteq> ''POST'' then (MethodNotAllowed, s, [])
                 else RequireAuth w (RequireRole w RoleAdmin (handleApplyChangeRequest w i)) cks s r
               else (http_NotFound, s, [])))"

text \<open>The two routes behind \<open>RequireAuth\<close>, as \<open>routes\<close> of \<open>server.go\<close> mounts them.\<close>

datatype change_call = ChangeRequests "ChangeRequest result" | ChangeRequestItem "ReviewRequest result"

fun change_routes :: "world \<Rightarrow> Mailer \<Rightarrow> string \<Rightarrow> change_call \<Rightarrow> clocks \<Rightarrow> MemoryStore \<Rightarrow> Request \<Rightarrow> outcome" where
  "change_routes w m rnd (ChangeRequests body) = RequireAuth w (handleListOrCreateChangeRequests w m rnd body)"
| "change_routes w m rnd (ChangeRequestItem body) = RequireAuth w (handleChangeRequestItem w m body)"

section \<open>Who moves a change request\<close>

text \<open>The request authenticates as \<open>u\<close>, and its credentials open the project.\<close>

definition caller :: "world \<Rightarrow> MemoryStore \<Rightarrow> Request \<Rightarrow> User \<Rightarrow> bool" where
  "caller w s r u \<longleftrightarrow> (\<exists>cks t t'. same_but_usage s t \<and> getUserFromRequest w cks t r = (Inr u, t'))"

definition opens :: "world \<Rightarrow> MemoryStore \<Rightarrow> Request \<Rightarrow> User \<Rightarrow> string \<Rightarrow> bool" where
  "opens w s r u p \<longleftrightarrow>
     (case scoped_key (request_key w s r) of
        Some k \<Rightarrow> ak_ProjectID k = p
      | None \<Rightarrow> \<exists>proj. GetProject s p = Inr proj \<and>
          (us_Role u = ''admin'' \<or> pj_OrganizationID proj \<in> og_ID ` set (user_orgs w s u)))"

text \<open>The three moves: proposed by the caller, reviewed by somebody else who may review, applied by an admin.\<close>

definition proposed_by :: "User \<Rightarrow> ChangeRequest option \<Rightarrow> bool" where
  "proposed_by u after \<longleftrightarrow> (\<exists>cr. after = Some cr \<and> cr_Status cr = ''PENDING'' \<and> cr_AuthorUserID cr = us_ID u
     \<and> cr_AuthorEmail cr = us_Email u)"

definition reviewed_by :: "world \<Rightarrow> Mailer \<Rightarrow> MemoryStore \<Rightarrow> Request \<Rightarrow> User \<Rightarrow> ChangeRequest option \<Rightarrow> ChangeRequest option \<Rightarrow> bool" where
  "reviewed_by w m s r u before after \<longleftrightarrow> (\<exists>cr cr'. before = Some cr \<and> after = Some cr' \<and>
     opens w s r u (cr_ProjectID cr) \<and> isAuthorizedReviewer w m s u (cr_ProjectID cr) \<and>
     us_ID u \<noteq> cr_AuthorUserID cr \<and> cr_Status cr = ''PENDING'' \<and> cr_Status cr' \<in> {''APPROVED'', ''REJECTED''} \<and>
     cr_ReviewerUserID cr' = us_ID u \<and> cr_ProposedConfig cr' = cr_ProposedConfig cr \<and> cr_FlagKey cr' = cr_FlagKey cr \<and>
     cr_Environment cr' = cr_Environment cr \<and> cr_ProjectID cr' = cr_ProjectID cr \<and> cr_AuthorUserID cr' = cr_AuthorUserID cr)"

definition applied_by :: "world \<Rightarrow> MemoryStore \<Rightarrow> Request \<Rightarrow> User \<Rightarrow> ChangeRequest option \<Rightarrow> ChangeRequest option \<Rightarrow> bool" where
  "applied_by w s r u before after \<longleftrightarrow> (\<exists>cr now. before = Some cr \<and> opens w s r u (cr_ProjectID cr) \<and> us_Role u = ''admin'' \<and>
     cr_Status cr = ''APPROVED'' \<and> after = Some (cr\<lparr>cr_Status := ''APPLIED'', cr_AppliedAt := Some now\<rparr>))"

text \<open>A step of the store is governed when every change request made one of these moves or none, and flags changed only with one applied.\<close>

definition governed :: "world \<Rightarrow> Mailer \<Rightarrow> Request \<Rightarrow> MemoryStore \<Rightarrow> MemoryStore \<Rightarrow> bool" where
  "governed w m r s s' \<longleftrightarrow>
     (\<forall>i. let before = mget (ms_changeRequests s) i; after = mget (ms_changeRequests s') i in
        after = before \<or> (\<exists>u. caller w s r u \<and>
          (proposed_by u after \<or> reviewed_by w m s r u before after \<or> applied_by w s r u before after))) \<and>
     (ms_flagsSnapshot s' = ms_flagsSnapshot s \<or> (\<exists>i u. caller w s r u \<and>
        applied_by w s r u (mget (ms_changeRequests s) i) (mget (ms_changeRequests s') i)))"

lemma caller_update [simp]: "caller w s (r\<lparr>rq_User := x\<rparr>) u = caller w s r u"
  by (simp add: caller_def)

lemma enrich_same: "same_but_usage s t \<Longrightarrow> enrichUserOrgMembership t u p = enrichUserOrgMembership s u p"
  unfolding enrichUserOrgMembership_def by (simp only: same_reads)

lemma same_sym: "same_but_usage s t \<Longrightarrow> same_but_usage t s"
  unfolding same_but_usage_def by (auto intro!: exI [of _ "ms_apiKeys s"])

lemma caller_same: "same_but_usage s t \<Longrightarrow> caller w t r u = caller w s r u"
  unfolding caller_def by (blast intro: same_trans same_sym)

lemma governed_same:
  assumes "same_but_usage s t" and "governed w m (r\<lparr>rq_User := x\<rparr>) t s'"
  shows "governed w m r s s'"
proof -
  have o: "opens w t (r\<lparr>rq_User := x\<rparr>) u p = opens w s r u p" for u p
    unfolding opens_def token_update same_reads [OF assms(1)] request_key_same [OF assms(1)] ..
  have c: "caller w t (r\<lparr>rq_User := x\<rparr>) u = caller w s r u" for u
    using caller_same [OF assms(1)] by (simp add: caller_def)
  have v: "isAuthorizedReviewer w m t u p = isAuthorizedReviewer w m s u p" for u p
    by (simp add: isAuthorizedReviewer_def enrich_same [OF assms(1)])
  show ?thesis
    using assms(2) unfolding governed_def reviewed_by_def applied_by_def o v c same_fields [OF assms(1)] .
qed

lemma governed_refl: "same_but_usage s s' \<Longrightarrow> governed w m r s s'"
  by (simp add: governed_def same_fields)

lemma governed_RequireAuth:
  assumes "\<And>u t cks. caller w t r u \<Longrightarrow> governed w m (r\<lparr>rq_User := Some u\<rparr>) t (fst (snd (h cks t (r\<lparr>rq_User := Some u\<rparr>))))"
  shows "governed w m r s (fst (snd (RequireAuth w h cks s r)))"
proof -
  obtain x t where g: "getUserFromRequest w cks s r = (x, t)" by fastforce
  have same: "same_but_usage s t" using g by (rule getUser_same)
  show ?thesis
  proof (cases x)
    case (Inr u)
    with g same_sym [OF same] have "caller w t r u" unfolding caller_def by blast
    from governed_same [OF same assms [OF this]] Inr g show ?thesis by (simp add: RequireAuth_def)
  qed (use governed_refl [OF same] g in \<open>simp add: RequireAuth_def\<close>)
qed

lemma governed_RequireRole:
  assumes "rq_User r = Some u"
    and "us_Role u = ''admin'' \<Longrightarrow> governed w m r s (fst (snd (h (later 3 cks) s r)))"
  shows "governed w m r s (fst (snd (RequireRole w RoleAdmin h cks s r)))"
proof -
  have "r\<lparr>rq_User := Some u\<rparr> = r" using assms(1) by simp
  then show ?thesis using assms(2)
    unfolding RequireRole_def context_user_set [OF assms(1)] by (simp add: governed_refl)
qed

lemma governed_put:
  assumes "ms_changeRequests s' = mput i cr' (ms_changeRequests s)" and "ms_flagsSnapshot s' = ms_flagsSnapshot s"
    and "caller w s r u" and "proposed_by u (Some cr') \<or> reviewed_by w m s r u (mget (ms_changeRequests s) i) (Some cr')"
  shows "governed w m r s s'"
  using assms unfolding governed_def by (auto simp: map_simps Let_def)

lemma opens_authorize:
  assumes "rq_User r = Some u" and "authorizeProjectAccess w cks s r p = (Inr x, s')"
  shows "opens w s r u p"
proof -
  have "\<exists>x. fst (authorizeProjectAccess w cks s r p) = Inr x" using assms(2) by simp
  then show ?thesis unfolding authorize_spec [OF assms(1)] opens_def .
qed

lemma CreateChangeRequest_put:
  "\<exists>cr'. CreateChangeRequest clk rnd t req = (Inr cr', t\<lparr>ms_changeRequests := mput (cr_ID cr') cr' (ms_changeRequests t)\<rparr>)
     \<and> cr_Status cr' = ''PENDING'' \<and> cr_AuthorUserID cr' = cr_AuthorUserID req \<and> cr_AuthorEmail cr' = cr_AuthorEmail req"
  by (simp add: CreateChangeRequest_def Let_def)

lemma propose_governed:
  assumes same: "same_but_usage s t" and c: "caller w s r u"
  shows "governed w m r s (fst (snd (propose_change w m rnd clk t r' u p req)))"
proof (cases "ValidateEnvironmentConfig (cr_ProposedConfig req) = None \<and> (\<exists>f. GetFlagByProject t p (cr_FlagKey req) = Inr f)")
  case True
  then obtain f where f: "ValidateEnvironmentConfig (cr_ProposedConfig req) = None" "GetFlagByProject t p (cr_FlagKey req) = Inr f" by blast
  obtain cr where cr: "CreateChangeRequest clk rnd t (req\<lparr>cr_ProjectID := p, cr_AuthorUserID := us_ID u, cr_AuthorEmail := us_Email u,
        cr_AuthorName := us_Name u, cr_BaseConfigVersion := ff_ConfigVersion f\<rparr>) =
        (Inr cr, t\<lparr>ms_changeRequests := mput (cr_ID cr) cr (ms_changeRequests t)\<rparr>)" "proposed_by u (Some cr)"
    using CreateChangeRequest_put [of clk rnd t] unfolding proposed_by_def by fastforce
  have "governed w m (r\<lparr>rq_User := rq_User r\<rparr>) t (t\<lparr>ms_changeRequests := mput (cr_ID cr) cr (ms_changeRequests t)\<rparr>)"
    by (rule governed_put [where u = u, OF _ _ _ disjI1 [OF cr(2)]]) (use c caller_same [OF same] in simp_all)
  from governed_same [OF same this] f cr(1) show ?thesis by (simp add: propose_change_def Let_def)
next
  case False
  then have "fst (snd (propose_change w m rnd clk t r' u p req)) = t"
    by (auto simp: propose_change_def fail_def Let_def split: option.splits sum.splits)
  with governed_refl [OF same] show ?thesis by simp
qed

lemma create_governed:
  assumes u: "rq_User r = Some u" and c: "caller w s r u"
  shows "governed w m r s (fst (snd (handleCreateChangeRequest w m rnd body cks s r)))"
proof (cases body)
  case (Inr req)
  let ?req = "if cr_Environment req = [] then req\<lparr>cr_Environment := EnvProduction\<rparr> else req"
  obtain ok s1 where a: "authorizeProjectAccess w cks s r (cr_ProjectID ?req) = (ok, s1)" by fastforce
  obtain res r2 s2 where b: "resolveAndAuthorizeProjectID w cks s r = (res, r2, s2)" by (metis prod_cases3)
  have s1: "same_but_usage s s1" and s2: "same_but_usage s s2" using a b by (auto intro: authorize_same resolve_same)
  note p = propose_governed [OF s1 c, of m rnd "cks 8"] propose_governed [OF s2 c, of m rnd "cks 8"]
  show ?thesis
    using p governed_refl [OF s1] governed_refl [OF s2] u a b
    unfolding Inr handleCreateChangeRequest_def
    by (cases ok; cases res) (simp_all add: fail_def governed_refl Let_def)
qed (use u in \<open>simp add: handleCreateChangeRequest_def fail_def governed_refl\<close>)

lemma review_governed:
  assumes u: "rq_User r = Some u" and c: "caller w s r u"
  shows "governed w m r s (fst (snd (handleReviewChangeRequest w m body i cks s r)))"
proof (cases "GetChangeRequest s i")
  case (Inr cr)
  obtain ok t where a: "authorizeProjectAccess w cks s r (cr_ProjectID cr) = (ok, t)" by fastforce
  have same: "same_but_usage s t" using a by (rule authorize_same)
  have before: "mget (ms_changeRequests t) i = Some cr"
    using Inr by (simp add: GetChangeRequest_def same_fields [OF same] split: option.splits)
  show ?thesis
  proof (cases "(\<exists>x. ok = Inr x) \<and> isAuthorizedReviewer w m t u (cr_ProjectID cr) \<and> (\<exists>req. body = Inr req)")
    case True
    then obtain x req where x: "ok = Inr x" "isAuthorizedReviewer w m t u (cr_ProjectID cr)" "body = Inr req" by blast
    note op = opens_authorize [OF u a [unfolded x(1)]]
    let ?rev = "ReviewChangeRequest (cks 4) t i (us_ID u) (us_Email u) (us_Name u) (rv_Approved req) (rv_Comments req)"
    have out: "fst (snd (handleReviewChangeRequest w m body i cks s r)) = snd ?rev"
      using u Inr a x by (simp add: handleReviewChangeRequest_def split: prod.splits sum.splits)
    show ?thesis
    proof (cases "Review (cks 4 0) cr (us_ID u) (us_Email u) (us_Name u) (rv_Approved req) (rv_Comments req)")
      case (Inl e)
      then have "snd ?rev = t" using before by (simp add: ReviewChangeRequest_def)
      with out governed_refl [OF same] show ?thesis by simp
    next
      case cr': (Inr cr')
      let ?r = "r\<lparr>rq_User := rq_User r\<rparr>"
      have s': "snd ?rev = t\<lparr>ms_changeRequests := mput i cr' (ms_changeRequests t)\<rparr>"
        using before cr' by (simp add: ReviewChangeRequest_def)
      have "opens w t ?r u (cr_ProjectID cr)"
        using op unfolding opens_def token_update same_reads [OF same] request_key_same [OF same] .
      then have "reviewed_by w m t ?r u (mget (ms_changeRequests t) i) (Some cr')"
        using cr' x(2) unfolding before reviewed_by_def by (auto simp: Review_def split: if_splits)
      moreover have "caller w t ?r u" using c caller_same [OF same] by simp
      ultimately have "governed w m ?r t (snd ?rev)"
        by (intro governed_put [where i = i and cr' = cr' and u = u]) (simp_all add: s')
      then show ?thesis using governed_same [OF same] out by metis
    qed
  next
    case False
    then have "fst (snd (handleReviewChangeRequest w m body i cks s r)) = t"
      using u Inr a by (cases ok; cases body) (auto simp: handleReviewChangeRequest_def fail_def)
    with governed_refl [OF same] show ?thesis by simp
  qed
qed (use u in \<open>simp add: handleReviewChangeRequest_def governed_refl\<close>)

lemma append_changes:
  "appendAuditLogLocked rt now s e = (lg, s1) \<Longrightarrow> ms_changeRequests s1 = ms_changeRequests s"
  using append_other_fields(2) [of rt now s e] by simp

lemma Apply_request:
  assumes "ApplyChangeRequest rt clk s i actor = (Inr y, s')"
  shows "\<exists>cr now. mget (ms_changeRequests s) i = Some cr \<and> cr_Status cr = ''APPROVED''
    \<and> ms_changeRequests s' = mput i (cr\<lparr>cr_Status := ''APPLIED'', cr_AppliedAt := Some now\<rparr>) (ms_changeRequests s)"
  using ApplyChangeRequest_cases [OF assms] by (fastforce simp: Let_def publish_def dest: append_changes)

lemma apply_governed:
  assumes u: "rq_User r = Some u" and c: "caller w s r u" and adm: "us_Role u = ''admin''"
  shows "governed w m r s (fst (snd (handleApplyChangeRequest w i cks s r)))"
proof (cases "GetChangeRequest s i")
  case (Inr cr)
  obtain ok t where a: "authorizeProjectAccess w cks s r (cr_ProjectID cr) = (ok, t)" by fastforce
  have same: "same_but_usage s t" using a by (rule authorize_same)
  have before: "mget (ms_changeRequests t) i = Some cr"
    using Inr by (simp add: GetChangeRequest_def same_fields [OF same] split: option.splits)
  obtain res t' where ap: "ApplyChangeRequest (w_rt w) (cks 4) t i (us_Email u) = (res, t')" by fastforce
  have out: "fst (snd (handleApplyChangeRequest w i cks s r)) = (case ok of Inl _ \<Rightarrow> t | Inr _ \<Rightarrow> t')"
    using u Inr a ap by (simp add: handleApplyChangeRequest_def fail_def split: sum.splits)
  show ?thesis
  proof (cases ok)
    case (Inl e)
    with out governed_refl [OF same] show ?thesis by simp
  next
    case ok: (Inr x)
    note op = opens_authorize [OF u a [unfolded ok]]
    have "governed w m (r\<lparr>rq_User := rq_User r\<rparr>) t t'"
    proof (cases res)
      case (Inl e)
      with ApplyChangeRequest_cases [OF ap] show ?thesis by (auto simp: governed_refl)
    next
      case res: (Inr y)
      then obtain now where r: "ms_changeRequests t' = mput i (cr\<lparr>cr_Status := ''APPLIED'', cr_AppliedAt := Some now\<rparr>) (ms_changeRequests t)"
          "cr_Status cr = ''APPROVED''"
        using Apply_request [OF ap [unfolded res]] before by auto
      have "opens w t (r\<lparr>rq_User := rq_User r\<rparr>) u (cr_ProjectID cr)"
        using op unfolding opens_def token_update same_reads [OF same] request_key_same [OF same] .
      then have "applied_by w t (r\<lparr>rq_User := rq_User r\<rparr>) u (mget (ms_changeRequests t) i) (mget (ms_changeRequests t') i)"
        unfolding applied_by_def using before adm r by (auto simp: map_simps)
      moreover have "caller w t (r\<lparr>rq_User := rq_User r\<rparr>) u" using c caller_same [OF same] by simp
      ultimately show ?thesis unfolding governed_def Let_def using r(1) by (auto simp: map_simps)
    qed
    then show ?thesis using governed_same [OF same] out ok by fastforce
  qed
qed (use u in \<open>simp add: handleApplyChangeRequest_def governed_refl Let_def\<close>)

text \<open>
  C3: change requests move under governance only. Whatever call reaches the two change-request routes,
  every stored request stays as it is, or is a pending one written with the caller as its author, or
  goes from pending to approved or rejected by a caller who is not its author, whose credentials open
  its project and who is privileged there or on a governance list, with the proposal unchanged; or
  goes from approved to applied by a platform admin whose credentials open its project. No flag
  changes unless a request is applied.
\<close>

theorem change_requests_governed: "governed w m r s (fst (snd (change_routes w m rnd call cks s r)))"
proof (cases call)
  case (ChangeRequests body)
  have "governed w m (r\<lparr>rq_User := Some u\<rparr>) t
      (fst (snd (handleListOrCreateChangeRequests w m rnd body cks t (r\<lparr>rq_User := Some u\<rparr>))))" for u t cks
  proof -
    let ?r = "r\<lparr>rq_User := Some u\<rparr>"
    obtain res r2 s2 where b: "resolveAndAuthorizeProjectID w cks t ?r = (res, r2, s2)" by (metis prod_cases3)
    have "governed w m ?r t (fst (snd (RequireAuth w (handleCreateChangeRequest w m rnd body) cks t ?r)))"
      by (rule governed_RequireAuth) (simp add: create_governed)
    with b governed_refl [OF resolve_same [OF b]] show ?thesis
      by (cases res) (auto simp: handleListOrCreateChangeRequests_def fail_def governed_refl)
  qed
  then show ?thesis unfolding ChangeRequests change_routes.simps by (rule governed_RequireAuth)
next
  case (ChangeRequestItem body)
  have "governed w m (r\<lparr>rq_User := Some u\<rparr>) t
      (fst (snd (handleChangeRequestItem w m body cks t (r\<lparr>rq_User := Some u\<rparr>))))" for u t cks
  proof -
    let ?r = "r\<lparr>rq_User := Some u\<rparr>"
    have rev: "governed w m ?r t (fst (snd (RequireAuth w (handleReviewChangeRequest w m body i) cks t ?r)))" for i
      by (rule governed_RequireAuth) (simp add: review_governed)
    have app: "governed w m ?r t (fst (snd (RequireAuth w (RequireRole w RoleAdmin (handleApplyChangeRequest w i)) cks t ?r)))" for i
      by (rule governed_RequireAuth, rule governed_RequireRole) (simp, rule apply_governed, simp_all)
    have get: "governed w m ?r t (snd (authorizeProjectAccess w cks t ?r p))" for p
      by (rule governed_refl, rule authorize_same [of w cks t ?r p "fst (authorizeProjectAccess w cks t ?r p)"]) simp
    show ?thesis unfolding handleChangeRequestItem_def
      using rev app get by (auto simp: fail_def governed_refl Let_def split: list.splits sum.splits prod.splits) (metis snd_conv)+
  qed
  then show ?thesis unfolding ChangeRequestItem change_routes.simps by (rule governed_RequireAuth)
qed

section \<open>Concrete runs\<close>

definition demo_change :: ChangeRequest where
  "demo_change = \<lparr>cr_ID = ''c1'', cr_ProjectID = ''p1'', cr_FlagKey = ''pay'', cr_Environment = ''production'', cr_Title = ''off'',
     cr_Description = [], cr_AuthorUserID = [], cr_AuthorEmail = [], cr_AuthorName = [],
     cr_ProposedConfig = zero_env_config\<lparr>ec_Strategy := ''boolean''\<rparr>, cr_BaseConfigVersion = 0, cr_Status = [],
     cr_ReviewerUserID = [], cr_ReviewerEmail = [], cr_ReviewerName = [], cr_ReviewComments = [],
     cr_CreatedAt = 0, cr_ReviewedAt = None, cr_AppliedAt = None\<rparr>"

definition demo_changes :: MemoryStore where
  "demo_changes = demo_tenants\<lparr>ms_flagsSnapshot := newFlagSnapshot [demo_live],
     ms_apiKeys := [(''k1'', demo_key\<lparr>ak_ProjectID := ''p1'', ak_Role := ''admin'', ak_KeyHash := ''#sk'', ak_CreatedBy := ''ann@acme.com''\<rparr>)]\<rparr>"

definition demo_mailer :: Mailer where
  "demo_mailer = DisabledMailer DefaultConfig"

definition demo_proposed :: outcome where
  "demo_proposed = change_routes demo_world demo_mailer ''ab'' (ChangeRequests (Inr demo_change)) (\<lambda>_ _. 7) demo_changes
     (demo_call ''POST'' ''/api/v1/change-requests'' ''t1'')"

definition demo_reviewed :: "string \<Rightarrow> outcome" where
  "demo_reviewed token = change_routes demo_world demo_mailer ''ab'' (ChangeRequestItem (Inr \<lparr>rv_Approved = True, rv_Comments = []\<rparr>)) (\<lambda>_ _. 8)
     (fst (snd demo_proposed)) (demo_call ''POST'' ''/api/v1/change-requests/c1/review'' token)"

text \<open>
  The author of a change request approves it with an API key: the four-eyes rule compares the user's
  ID with the key's ID. \<open>ann\<close> proposes with her session and approves with the admin key \<open>sk\<close> that
  she created herself.
\<close>

theorem four_eyes_shed_by_own_key:
  "let before = mget (ms_changeRequests (fst (snd demo_proposed))) ''c1'';
       own = demo_reviewed ''t1''; by_key = demo_reviewed ''sk''
   in map_option cr_AuthorEmail before = Some ''ann@acme.com'' \<and> map_option cr_Status before = Some ''PENDING''
      \<and> rp_Status (fst own) = 400
      \<and> map_option cr_Status (mget (ms_changeRequests (fst (snd own))) ''c1'') = Some ''PENDING''
      \<and> rp_Status (fst by_key) = 200
      \<and> map_option cr_Status (mget (ms_changeRequests (fst (snd by_key))) ''c1'') = Some ''APPROVED''
      \<and> map_option cr_ReviewerEmail (mget (ms_changeRequests (fst (snd by_key))) ''c1'') = Some ''ann@acme.com''"
  by code_simp

definition demo_rival :: MemoryStore where
  "demo_rival = (let s = fst (snd (demo_reviewed ''sk'')) in s\<lparr>
     ms_users := mput ''u2'' (demo_user\<lparr>us_ID := ''u2'', us_Email := ''bob@bolt.com'', us_Name := ''Bob''\<rparr>) (ms_users s),
     ms_sessions := mput ''t2'' (demo_session\<lparr>se_Token := ''t2'', se_UserID := ''u2''\<rparr>) (ms_sessions s),
     ms_orgMembers := mput ''o2:u2'' \<lparr>om_ID = ''m2'', om_OrganizationID = ''o2'', om_UserID = ''u2'', om_Role = ''member'', om_CreatedAt = 0\<rparr> (ms_orgMembers s),
     ms_flagsSnapshot := newFlagSnapshot [demo_live, demo_live\<lparr>ff_ID := ''f2'', ff_ProjectID := ''p2'', ff_Key := ''own''\<rparr>]\<rparr>)"

text \<open>
  A change request is replaced from another tenant. \<open>handleCreateChangeRequest\<close> keeps the \<open>id\<close> of the
  body and the store writes it over whatever it holds under that name: \<open>bob\<close>, who has no access to
  the project \<open>p1\<close>, posts a request of his own project with the ID of the approved request of \<open>p1\<close>, and
  the approved request is gone.
\<close>

theorem change_request_overwritten:
  "let post = (\<lambda>i p. change_routes demo_world demo_mailer ''ab'' (ChangeRequests (Inr (demo_change\<lparr>cr_ID := i, cr_ProjectID := p, cr_FlagKey := ''own''\<rparr>)))
         (\<lambda>_ _. 9) demo_rival (demo_call ''POST'' ''/api/v1/change-requests'' ''t2''));
       look = (\<lambda>s. map_option (\<lambda>c. (cr_ProjectID c, cr_Status c)) (mget (ms_changeRequests s) ''c1''))
   in look demo_rival = Some (''p1'', ''APPROVED'')
      \<and> rp_Status (fst (post ''c2'' ''p1'')) = 403
      \<and> rp_Status (fst (post ''c1'' ''p2'')) = 201
      \<and> look (fst (snd (post ''c1'' ''p2''))) = Some (''p2'', ''PENDING'')"
  by code_simp

end
