(* ===== verification/Api_Accounts.thy ===== *)
theory Api_Accounts
  imports Api_Flags Mailer
begin

text \<open>
  Accounts over HTTP: \<open>handlers_auth.go\<close> (sign-up, login, logout), \<open>handlers_password.go\<close> (change,
  forgot, reset) and \<open>handlers_profile.go\<close> of \<open>src/pkg/api\<close>. Password hashing (\<open>bcrypt\<close>) and
  \<open>mail.ParseAddress\<close> are the record \<open>services\<close>; \<open>rnds i\<close> is the hexadecimal text of the \<open>i\<close>-th read
  of the random source where the code ignores its error, \<open>tok\<close> the result of a read that may fail.
  A user is encoded to JSON without the password hash (\<open>json:"-"\<close>).
\<close>

section \<open>Parameters and requests\<close>

record services =
  sv_hash :: "string \<Rightarrow> string result"
  sv_compare :: "string \<Rightarrow> string \<Rightarrow> bool"
  sv_ParseAddress :: "string \<Rightarrow> string result"

type_synonym randoms = "nat \<Rightarrow> string"

record SignUpRequest =
  su_Name :: string
  su_Email :: string
  su_Password :: string
  su_Role :: string
  su_InviteToken :: string

record LoginRequest =
  lo_Email :: string
  lo_Password :: string

record ChangePasswordRequest =
  cp_CurrentPassword :: string
  cp_NewPassword :: string

record ResetPasswordRequest =
  rs_Token :: string
  rs_NewPassword :: string

record UpdateProfileRequest =
  up_Name :: string
  up_AvatarURL :: string

definition request_base :: "Request \<Rightarrow> string" where
  "request_base r =
     (let scheme = (if rq_TLS r \<or> header_get r ''X-Forwarded-Proto'' = ''https'' then ''https'' else ''http'');
          host = (if rq_Host r = [] then ''localhost:3000'' else rq_Host r)
      in scheme @ ''://'' @ host)"

definition internal :: "string \<Rightarrow> gerror \<Rightarrow> gerror" where
  "internal msg cause = NewAppError 9001 msg 500 (Some cause)"

definition auth_response :: "User \<Rightarrow> string \<Rightarrow> json" where
  "auth_response user msg = J_object [(''user'', J_user user), (''message'', J_string msg)]"

definition error_json :: "int \<Rightarrow> string \<Rightarrow> string \<Rightarrow> Response" where
  "error_json status e msg = writeJSON status (J_object [(''error'', J_string e), (''message'', J_string msg)])"

definition success_json :: "string \<Rightarrow> Response" where
  "success_json msg = writeJSON 200 (J_object [(''success'', J_bool True), (''message'', J_string msg)])"

section \<open>Sign-up, login, logout\<close>

definition valid_signup_email :: "services \<Rightarrow> string \<Rightarrow> bool" where
  "valid_signup_email sv email =
     (email \<noteq> [] \<and> CHR 0x0D \<notin> set email \<and> CHR 0x0A \<notin> set email
      \<and> sv_ParseAddress sv email = Inr email \<and> Contains email ''.'')"

definition last4 :: "string \<Rightarrow> string" where
  "last4 s = drop (length s - 4) s"

text \<open>Joining the organization of an invitation; the project that becomes active, if any.\<close>

definition join_invited :: "world \<Rightarrow> randoms \<Rightarrow> clocks \<Rightarrow> MemoryStore \<Rightarrow> string \<Rightarrow> string \<Rightarrow> string \<Rightarrow> string \<times> MemoryStore" where
  "join_invited w rnds cks s inviteToken email userID =
     (if inviteToken = [] then ([], s)
      else (case GetOrgInvitation (cks 0 0) s inviteToken of
              Inl _ \<Rightarrow> ([], s)
            | Inr invt \<Rightarrow>
                if oi_Email invt = [] \<or> EqualFold (w_rt w) email (oi_Email invt) then
                  (let (_, s) = AcceptOrgInvitation (w_rt w) (cks 1) (rnds 0) s inviteToken userID
                   in (case ListProjects (w_projects w) s (oi_OrganizationID invt) of p # _ \<Rightarrow> pj_ID p | [] \<Rightarrow> [], s))
                else ([], s)))"

text \<open>The workspace of a new user: an organization it owns and a project there.\<close>

definition provision_workspace :: "world \<Rightarrow> randoms \<Rightarrow> clocks \<Rightarrow> MemoryStore \<Rightarrow> User \<Rightarrow> string \<times> MemoryStore" where
  "provision_workspace w rnds cks s user =
     (let rt = w_rt w;
          userOrg = NewOrganization rt (cks 0 0) (cks 0 1) (rnds 0) (us_Name user @ [CHR 0x27] @ ''s Workspace'')
            (Slugify rt (us_Name user) @ ''-'' @ last4 (us_ID user)) (''Dedicated workspace for '' @ us_Name user);
          (createdOrg, s) = CreateOrganization (cks 1) (rnds 1) s userOrg;
          orgID = (case createdOrg of Inr org \<Rightarrow> if og_ID org \<noteq> [] then og_ID org else ''org_'' @ us_ID user
                   | Inl _ \<Rightarrow> ''org_'' @ us_ID user);
          (_, s) = CreateOrgMember (cks 2) (rnds 2) s \<lparr>om_ID = [], om_OrganizationID = orgID, om_UserID = us_ID user,
            om_Role = ''owner'', om_CreatedAt = 0\<rparr>;
          userProj = NewProject rt (cks 3 0) (cks 3 1) (rnds 3) orgID ''Production Flags'' (''prod-'' @ last4 (us_ID user))
            (''Production feature flags scope for '' @ us_Name user);
          (createdProj, s) = CreateProject rt (cks 4) (rnds 4) s userProj
      in (case createdProj of Inr p \<Rightarrow> pj_ID p | Inl _ \<Rightarrow> [], s))"

text \<open>An invitation is taken up first; without an active project from it the user gets a workspace.\<close>

definition settle_user :: "world \<Rightarrow> randoms \<Rightarrow> clocks \<Rightarrow> MemoryStore \<Rightarrow> User \<Rightarrow> string \<Rightarrow> string \<Rightarrow> string \<times> MemoryStore" where
  "settle_user w rnds cks s user inviteToken email =
     (let (active, s) = join_invited w rnds cks s inviteToken email (us_ID user)
      in if active = [] then provision_workspace w (\<lambda>i. rnds (1 + i)) (later 2 cks) s user else (active, s))"

definition new_session :: "string \<Rightarrow> string \<Rightarrow> gtime \<Rightarrow> Session" where
  "new_session token userID expiresAt =
     \<lparr>se_Token = token, se_UserID = userID, se_User = None, se_ExpiresAt = expiresAt, se_CreatedAt = 0\<rparr>"

definition handleSignUp :: "world \<Rightarrow> services \<Rightarrow> Mailer \<Rightarrow> randoms \<Rightarrow> string result \<Rightarrow> SignUpRequest result \<Rightarrow> clocks \<Rightarrow> MemoryStore \<Rightarrow> Request \<Rightarrow> outcome" where
  "handleSignUp w sv m rnds tok body cks s r =
     (if rq_Method r \<noteq> ''POST'' then (MethodNotAllowed, s, [])
      else case body of
        Inl err \<Rightarrow> fail r s (malformed (''Invalid JSON payload: '' @ Error err) err)
      | Inr req \<Rightarrow>
          (let rt = w_rt w;
               email = TrimSpace rt (ToLower rt (su_Email req));
               name = TrimSpace rt (su_Name req)
           in if \<not> valid_signup_email sv email then fail r s (invalid_input ''A valid email address is required'')
              else (case validatePasswordComplexity (su_Password req) of
                 Inl err \<Rightarrow> fail r s (NewAppError 1007 (Error err) 400 (Some err))
               | Inr _ \<Rightarrow>
                   (let name = (if name = [] then hd (Split email (CHR ''@'')) else name) in
                    case GetUserByEmail s email of
                      Inr _ \<Rightarrow> fail r s (NewAppError 1008 ''An account with this email address already exists'' 409
                        (Some (Sentinel ErrEmailAlreadyExists)))
                    | Inl _ \<Rightarrow>
                        (case sv_hash sv (su_Password req) of
                           Inl err \<Rightarrow> fail r s (internal ''Failed to hash password'' err)
                         | Inr hash \<Rightarrow>
                             (case CreateUser (cks 1) (rnds 1) s
                                     (NewUser rt (cks 0 0) (cks 0 1) (rnds 0) email name hash RoleDeveloper) of
                                (Inl err, s) \<Rightarrow> fail r s (internal (''Failed to create user: '' @ Error err) err)
                              | (Inr user, s) \<Rightarrow>
                                  (let (active, s) = settle_user w (\<lambda>i. rnds (2 + i)) (later 2 cks) s user (su_InviteToken req) email
                                   in case tok of
                                        Inl err \<Rightarrow> fail r s (internal ''Failed to generate session token'' err)
                                      | Inr token \<Rightarrow>
                                          (let expiresAt = cks 9 0 + 7 * 24 * Hour;
                                               s = CreateSession s (new_session token (us_ID user) expiresAt);
                                               rsp = writeJSON 201 (auth_response user ''Account created successfully'');
                                               rsp = (if active \<noteq> [] then setProjectCookie w (cks 11 0) r active expiresAt rsp else rsp)
                                           in (setSessionCookie w (cks 10 0) r token expiresAt rsp, s,
                                               if IsEnabled m then [effect.SendWelcomeEmail (us_Email user) (us_Name user)
                                                 (request_base r @ ''/dashboard'')] else [])))))))))"

definition invalid_credentials :: gerror where
  "invalid_credentials = NewAppError 1003 ''Invalid email or password'' 401 (Some (Sentinel ErrUnauthorized))"

definition handleLogin :: "world \<Rightarrow> services \<Rightarrow> string result \<Rightarrow> LoginRequest result \<Rightarrow> clocks \<Rightarrow> MemoryStore \<Rightarrow> Request \<Rightarrow> outcome" where
  "handleLogin w sv tok body cks s r =
     (if rq_Method r \<noteq> ''POST'' then (MethodNotAllowed, s, [])
      else case body of
        Inl err \<Rightarrow> fail r s (malformed (''Invalid JSON payload: '' @ Error err) err)
      | Inr req \<Rightarrow>
          (case GetUserByEmail s (TrimSpace (w_rt w) (ToLower (w_rt w) (lo_Email req))) of
             Inl _ \<Rightarrow> fail r s invalid_credentials
           | Inr user \<Rightarrow>
               if \<not> sv_compare sv (us_PasswordHash user) (lo_Password req) then fail r s invalid_credentials
               else (case tok of
                  Inl err \<Rightarrow> fail r s (internal ''Failed to generate session token'' err)
                | Inr token \<Rightarrow>
                    (let expiresAt = cks 0 0 + 7 * 24 * Hour;
                         s = CreateSession s (new_session token (us_ID user) expiresAt);
                         rsp = writeJSON 200 (auth_response user ''Login successful'');
                         orgs = user_orgs w s user;
                         rsp = (if orgs \<noteq> [] then
                                  (case first_project w s orgs of
                                     Some p \<Rightarrow> setProjectCookie w (cks 2 0) r p expiresAt rsp | None \<Rightarrow> rsp)
                                else if us_Role user = RoleAdmin then setProjectCookie w (cks 2 0) r DefaultProjectID expiresAt rsp
                                else rsp)
                     in (setSessionCookie w (cks 1 0) r token expiresAt rsp, s, [])))))"

definition logout_token :: "world \<Rightarrow> Request \<Rightarrow> string" where
  "logout_token w r =
     (let token = (case cookie_get r CookieSessionName of Some v \<Rightarrow> v | None \<Rightarrow> []);
          authHeader = header_get r ''Authorization'';
          token = (if token = [] \<and> HasPrefix authHeader ''Bearer '' then TrimPrefix authHeader ''Bearer '' else token)
      in clean_token (w_rt w) token)"

definition handleLogout :: "world \<Rightarrow> clocks \<Rightarrow> MemoryStore \<Rightarrow> Request \<Rightarrow> outcome" where
  "handleLogout w cks s r =
     (let token = logout_token w r;
          s = (if token \<noteq> [] then DeleteSession s token else s)
      in (clearProjectCookie w r (clearSessionCookie w r (success_json ''Logged out successfully'')), s, []))"

section \<open>Passwords\<close>

definition handleChangePassword :: "world \<Rightarrow> services \<Rightarrow> ChangePasswordRequest result \<Rightarrow> clocks \<Rightarrow> MemoryStore \<Rightarrow> Request \<Rightarrow> outcome" where
  "handleChangePassword w sv body cks s r =
     (if rq_Method r \<noteq> ''POST'' then (MethodNotAllowed, s, [])
      else case getUserFromRequest w cks s r of
        (Inl err, s) \<Rightarrow> (http_Error (''Unauthorized: '' @ Error err) 401, s, [])
      | (Inr user, s) \<Rightarrow>
          (case GetUserByID s (us_ID user) of
             Inl _ \<Rightarrow> (http_Error ''User not found'' 404, s, [])
           | Inr freshUser \<Rightarrow>
               (case body of
                  Inl err \<Rightarrow> (http_Error (''Invalid request payload: '' @ Error err) 400, s, [])
                | Inr req \<Rightarrow>
                    if cp_CurrentPassword req = [] then (error_json 400 ''Validation Error'' ''Current password is required.'', s, [])
                    else if cp_NewPassword req = [] then (error_json 400 ''Validation Error'' ''New password is required.'', s, [])
                    else if \<not> sv_compare sv (us_PasswordHash freshUser) (cp_CurrentPassword req) then
                      (error_json 400 ''Incorrect Password'' ''The current password provided is incorrect.'', s, [])
                    else (case validatePasswordComplexity (cp_NewPassword req) of
                       Inl err \<Rightarrow> (error_json 400 ''Weak Password'' (Error err), s, [])
                     | Inr _ \<Rightarrow>
                         (case sv_hash sv (cp_NewPassword req) of
                            Inl _ \<Rightarrow> (http_Error ''Failed to hash password'' 500, s, [])
                          | Inr hash \<Rightarrow>
                              (case UpdateUserPassword (cks 3) s (us_ID user) hash of
                                 (Inl err, s) \<Rightarrow> (http_Error (''Failed to update password: '' @ Error err) 500, s, [])
                               | (Inr _, s) \<Rightarrow>
                                   (clearSessionCookie w r (success_json ''Password has been successfully updated.''),
                                    DeleteUserSessions s (us_ID user), [])))))))"

definition handleForgotPassword :: "world \<Rightarrow> Mailer \<Rightarrow> string result \<Rightarrow> string result \<Rightarrow> clocks \<Rightarrow> MemoryStore \<Rightarrow> Request \<Rightarrow> outcome" where
  "handleForgotPassword w m tok body cks s r =
     (if rq_Method r \<noteq> ''POST'' then (MethodNotAllowed, s, [])
      else if \<not> IsEnabled m then
        (error_json 400 ''Email Service Disabled'' ''Email delivery is disabled on this instance (SMTP is not configured). Please contact your workspace administrator to reset your credentials.'', s, [])
      else case body of
        Inl err \<Rightarrow> (http_Error (''Invalid request payload: '' @ Error err) 400, s, [])
      | Inr reqEmail \<Rightarrow>
          (let email = ToLower (w_rt w) (TrimSpace (w_rt w) reqEmail);
               answer = success_json ''If an account with that email exists, password reset instructions have been dispatched.''
           in if email = [] then (http_Error ''Email is required'' 400, s, [])
              else (case GetUserByEmail s email of
                 Inl _ \<Rightarrow> (answer, s, [])
               | Inr user \<Rightarrow>
                   (case CreatePasswordResetToken (cks 0) tok s email (15 * Minute) of
                      (Inl _, s) \<Rightarrow> (answer, s, [])
                    | (Inr token, s) \<Rightarrow>
                        (answer, s, [effect.SendPasswordReset (us_Email user) (us_Name user)
                           (request_base r @ ''/auth?mode=reset&token='' @ token)])))))"

definition handleResetPassword :: "world \<Rightarrow> services \<Rightarrow> ResetPasswordRequest result \<Rightarrow> clocks \<Rightarrow> MemoryStore \<Rightarrow> Request \<Rightarrow> outcome" where
  "handleResetPassword w sv body cks s r =
     (if rq_Method r \<noteq> ''POST'' then (MethodNotAllowed, s, [])
      else case body of
        Inl err \<Rightarrow> (http_Error (''Invalid request payload: '' @ Error err) 400, s, [])
      | Inr req \<Rightarrow>
          (let token = TrimSpace (w_rt w) (rs_Token req) in
           if token = [] then (http_Error ''Reset token is required'' 400, s, [])
           else (case validatePasswordComplexity (rs_NewPassword req) of
              Inl err \<Rightarrow> (error_json 400 ''Weak Password'' (Error err), s, [])
            | Inr _ \<Rightarrow>
                (case sv_hash sv (rs_NewPassword req) of
                   Inl _ \<Rightarrow> (http_Error ''Failed to hash password'' 500, s, [])
                 | Inr hash \<Rightarrow>
                     (case ResetPasswordWithToken (cks 0) s token hash of
                        (Inl err, s) \<Rightarrow> (error_json 400 ''Invalid or Expired Token'' (Error err), s, [])
                      | (Inr _, s) \<Rightarrow>
                          (clearSessionCookie w r (success_json
                             ''Password has been successfully updated. You can now sign in with your new credentials.''), s, []))))))"

section \<open>Profile\<close>

definition handleUpdateProfile :: "world \<Rightarrow> UpdateProfileRequest result \<Rightarrow> clocks \<Rightarrow> MemoryStore \<Rightarrow> Request \<Rightarrow> outcome" where
  "handleUpdateProfile w body cks s r =
     (if rq_Method r \<notin> {''PATCH'', ''PUT'', ''POST''} then (MethodNotAllowed, s, [])
      else case getUserFromRequest w cks s r of
        (Inl err, s) \<Rightarrow> (http_Error (''Unauthorized: '' @ Error err) 401, s, [])
      | (Inr user, s) \<Rightarrow>
          (case body of
             Inl err \<Rightarrow> (http_Error (''Invalid request payload: '' @ Error err) 400, s, [])
           | Inr req \<Rightarrow>
               (let trimmedName = TrimSpace (w_rt w) (up_Name req) in
                if trimmedName = [] then (error_json 400 ''Validation Error'' ''Full Name cannot be empty.'', s, [])
                else (case UpdateUser (cks 3) s \<lparr>us_ID = us_ID user, us_Email = [], us_PasswordHash = [], us_Name = trimmedName,
                        us_Role = [], us_AvatarURL = TrimSpace (w_rt w) (up_AvatarURL req), us_CreatedAt = 0, us_UpdatedAt = 0,
                        us_ActiveMembership = None\<rparr> of
                   (Inl err, s) \<Rightarrow> (http_Error (''Failed to update profile: '' @ Error err) 500, s, [])
                 | (Inr updatedUser, s) \<Rightarrow>
                     (writeJSON 200 (J_object [(''success'', J_bool True), (''message'', J_string ''Profile updated successfully''),
                        (''user'', J_user updatedUser)]), s, [])))))"

definition handleMe :: "world \<Rightarrow> UpdateProfileRequest result \<Rightarrow> clocks \<Rightarrow> MemoryStore \<Rightarrow> Request \<Rightarrow> outcome" where
  "handleMe w body cks s r =
     (if rq_Method r = ''PATCH'' \<or> rq_Method r = ''PUT'' then handleUpdateProfile w body cks s r
      else case getUserFromRequest w cks s r of
        (Inl err, s) \<Rightarrow> (http_Error (''Unauthorized: '' @ Error err) 401, s, [])
      | (Inr user, s) \<Rightarrow> (writeJSON 200 (J_user user), s, []))"

section \<open>Sessions\<close>

text \<open>A request whose only credential is the session cookie \<open>token\<close>.\<close>

definition only_session :: "world \<Rightarrow> Request \<Rightarrow> string \<Rightarrow> bool" where
  "only_session w r token \<longleftrightarrow> session_cookies (w_rt w) r = [token] \<and> api_key_header (w_rt w) r = [] \<and> bearer_token (w_rt w) r = []"

lemma getUser_session:
  assumes "only_session w r token"
  shows "getUserFromRequest w cks s r =
    (case mget (ms_sessions s) token of
       None \<Rightarrow> (Inl (Sentinel ErrUnauthorized), s)
     | Some sess \<Rightarrow>
         if se_ExpiresAt sess < cks 2 0 then (Inl (Sentinel ErrUnauthorized), s)
         else (case mget (ms_users s) (se_UserID sess) of
                 Some u \<Rightarrow> (Inr u, s)
               | None \<Rightarrow> (case se_User sess of Some u \<Rightarrow> (Inr u, s) | None \<Rightarrow> (Inl (Sentinel ErrUnauthorized), s))))"
  using assms
  by (auto simp: only_session_def getUserFromRequest_def GetSession_def GetUserByID_def Session_IsExpired_def Let_def split: option.splits)

text \<open>
  C11: login opens a session exactly for the holder of the password. With the right password of the
  stored user the answer is 200 and sets the HTTP-only session cookie, and from then on a request
  with that cookie alone is authenticated as that user until the session is seven days old, and not
  afterwards. With a wrong password or an unknown address the store does not change, no cookie is
  set, and the two answers are the same.
\<close>

theorem login_session:
  assumes "rq_Method r = ''POST''" and "users_ok s" and "only_session w r' token"
  shows "case (mget (ms_users s) (TrimSpace (w_rt w) (ToLower (w_rt w) (lo_Email req))), handleLogin w sv (Inr token) (Inr req) cks s r) of
      (None, rsp, s', eff) \<Rightarrow> (rsp, s', eff) = (writeError r invalid_credentials, s, []) \<and> rp_Status rsp = 401 \<and> rp_Cookies rsp = []
    | (Some u, rsp, s', eff) \<Rightarrow>
        if sv_compare sv (us_PasswordHash u) (lo_Password req)
        then rp_Status rsp = 200 \<and> live_cookie w (cks 1 0) r CookieSessionName token True (cks 0 0 + 7 * 24 * Hour) \<in> set (rp_Cookies rsp)
          \<and> fst (getUserFromRequest w cks' s' r') =
              (if cks 0 0 + 7 * 24 * Hour < cks' 2 0 then Inl (Sentinel ErrUnauthorized) else Inr u)
        else (rsp, s', eff) = (writeError r invalid_credentials, s, []) \<and> rp_Status rsp = 401 \<and> rp_Cookies rsp = []"
proof -
  have e: "rp_Status (writeError r invalid_credentials) = 401" "rp_Cookies (writeError r invalid_credentials) = []"
    by (simp_all add: writeError_def invalid_credentials_def NewAppError_def MapSentinelToAppError_def)
  show ?thesis
  proof (cases "mget (ms_users s) (TrimSpace (w_rt w) (ToLower (w_rt w) (lo_Email req)))")
    case None
    then show ?thesis using assms(1) e by (simp add: handleLogin_def GetUserByEmail_def fail_def)
  next
    case (Some u)
    note id = users_okD(3) [OF assms(2) Some]
    show ?thesis
    proof (cases "sv_compare sv (us_PasswordHash u) (lo_Password req)")
      case False
      then show ?thesis using Some assms(1) e by (simp add: handleLogin_def GetUserByEmail_def fail_def)
    next
      case True
      let ?s' = "CreateSession s (new_session token (us_ID u) (cks 0 0 + 7 * 24 * Hour))"
      obtain rsp where rsp: "handleLogin w sv (Inr token) (Inr req) cks s r = (rsp, ?s', [])" "rp_Status rsp = 200"
        "live_cookie w (cks 1 0) r CookieSessionName token True (cks 0 0 + 7 * 24 * Hour) \<in> set (rp_Cookies rsp)"
        using True Some assms(1)
        by (simp add: handleLogin_def GetUserByEmail_def setSessionCookie_def setProjectCookie_def writeJSON_def Let_def split: option.splits)
      have "fst (getUserFromRequest w cks' ?s' r') =
          (if cks 0 0 + 7 * 24 * Hour < cks' 2 0 then Inl (Sentinel ErrUnauthorized) else Inr u)"
        using id by (simp add: getUser_session [OF assms(3)] CreateSession_def new_session_def map_simps)
      with Some True rsp show ?thesis by simp
    qed
  qed
qed

definition demo_services :: services where
  "demo_services = \<lparr>sv_hash = (\<lambda>p. Inr (''h'' @ p)), sv_compare = (\<lambda>h p. h = ''h'' @ p \<or> h = p), sv_ParseAddress = Inr\<rparr>"

definition demo_cookie :: "string \<Rightarrow> Request" where
  "demo_cookie t = (demo_get [])\<lparr>rq_Cookies := [(''flagura_session'', t)]\<rparr>"

lemma demo_cookie_session: "only_session demo_world (demo_cookie ''t9'') ''t9''"
  unfolding only_session_def by code_simp

theorem login_session_witness:
  "fst (getUserFromRequest demo_world (\<lambda>_ _. 8)
     (fst (snd (handleLogin demo_world demo_services (Inr ''t9'') (Inr \<lparr>lo_Email = ''ann@acme.com'', lo_Password = ''old''\<rparr>) (\<lambda>_ _. 7)
       demo_accounts (demo_call ''POST'' ''/api/v1/auth/login'' [])))) (demo_cookie ''t9'')) = Inr demo_user"
proof -
  let ?req = "\<lparr>lo_Email = ''ann@acme.com'', lo_Password = ''old''\<rparr>" and ?r = "demo_call ''POST'' ''/api/v1/auth/login'' []"
  have m: "rq_Method ?r = ''POST''" by code_simp
  have u: "mget (ms_users demo_accounts) (TrimSpace (w_rt demo_world) (ToLower (w_rt demo_world) (lo_Email ?req))) = Some demo_user"
    by code_simp
  have c: "sv_compare demo_services (us_PasswordHash demo_user) (lo_Password ?req)" by code_simp
  have "(if 7 + 7 * 24 * Hour < (8 :: int) then Inl (Sentinel ErrUnauthorized) else Inr demo_user) = Inr demo_user" by code_simp
  with login_session [OF m demo_accounts_ok demo_cookie_session, where req = ?req and sv = demo_services
      and cks = "\<lambda>_ _. 7" and cks' = "\<lambda>_ _. 8"] u c show ?thesis
    by (simp split: prod.splits)
qed

text \<open>
  C12: changing the password needs the old one and ends every session. When \<open>handleChangePassword\<close>
  answers 200, the caller knew the password of the stored account, the new password meets the
  policy, its hash is the account's hash from now on with the other fields as before but the time
  stamp, and no session of the account is left, while sessions of other accounts stay.
\<close>

theorem password_change_ends_sessions:
  assumes "handleChangePassword w sv (Inr req) cks s r = (rsp, s', eff)" and "rp_Status rsp = 200" and "users_ok s"
    and "wf_map (ms_sessions s)"
  shows "\<exists>u v h now. fst (getUserFromRequest w cks s r) = Inr u \<and> mget (ms_users s) (us_ID u) = Some v
    \<and> sv_compare sv (us_PasswordHash v) (cp_CurrentPassword req) \<and> validatePasswordComplexity (cp_NewPassword req) = Inr ()
    \<and> sv_hash sv (cp_NewPassword req) = Inr h
    \<and> mget (ms_users s') (us_ID u) = Some (v\<lparr>us_PasswordHash := h, us_UpdatedAt := now\<rparr>)
    \<and> (\<forall>tok sess. mget (ms_sessions s') tok = Some sess \<longrightarrow> se_UserID sess \<noteq> us_ID u)
    \<and> (\<forall>tok sess. mget (ms_sessions s) tok = Some sess \<and> se_UserID sess \<noteq> us_ID u \<and> se_UserID sess \<noteq> us_ID v
         \<longrightarrow> mget (ms_sessions s') tok = Some sess)"
proof -
  have err: "rp_Status (http_Error m c) = c" "rp_Status (error_json c e m) = c" "rp_Status MethodNotAllowed = 405" for c e m
    by (simp_all add: http_Error_def error_json_def writeJSON_def MethodNotAllowed_def)
  obtain x t where g: "getUserFromRequest w cks s r = (x, t)" by fastforce
  have same: "same_but_usage s t" using g by (rule getUser_same)
  from assms(1,2) g obtain u where u: "x = Inr u"
    by (cases x) (auto simp: handleChangePassword_def err split: if_splits)
  from assms(1,2) g u obtain v where v: "mget (ms_users s) (us_ID u) = Some v"
    by (auto simp: handleChangePassword_def GetUserByID_def err same_fields [OF same] split: if_splits option.splits)
  note own = users_okD [OF assms(3) v]
  have f: "GetUserByID t (us_ID u) = Inr v" using v by (simp add: GetUserByID_def same_fields [OF same])
  from assms(1,2) g u f have ok: "sv_compare sv (us_PasswordHash v) (cp_CurrentPassword req)"
      "validatePasswordComplexity (cp_NewPassword req) = Inr ()"
    by (auto simp: handleChangePassword_def err split: if_splits sum.splits)
  from assms(1,2) g u f obtain h where h: "sv_hash sv (cp_NewPassword req) = Inr h"
    by (auto simp: handleChangePassword_def err split: if_splits sum.splits)
  let ?v = "v\<lparr>us_PasswordHash := h, us_UpdatedAt := cks 3 0\<rparr>"
  have s': "s' = drop_sessions (us_ID u) (refresh_sessions ?v (put_user ?v t))"
    using assms(1,2) g u f ok h v
    by (auto simp: handleChangePassword_def err UpdateUserPassword_def DeleteUserSessions_def same_fields [OF same] Let_def split: if_splits)
  have wf: "wf_map (mmap (\<lambda>x. if se_UserID x = us_ID v then x\<lparr>se_User := Some ?v\<rparr> else x) (ms_sessions s))" using assms(4) by simp
  have get: "mget (ms_sessions s') tok = (case mget (ms_sessions s) tok of None \<Rightarrow> None
      | Some x \<Rightarrow> if se_UserID x = us_ID u then None
          else Some (if se_UserID x = us_ID v then x\<lparr>se_User := Some ?v\<rparr> else x))" for tok
    using mget_mdel_where [OF wf, of "\<lambda>x. se_UserID x = us_ID u" tok]
    by (simp add: s' drop_sessions_def refresh_sessions_def put_user_def same_fields [OF same] mget_mmap split: option.splits if_splits)
  have 1: "mget (ms_users s') (us_ID u) = Some ?v"
    using own(1) by (auto simp: s' drop_sessions_def refresh_sessions_def put_user_def map_simps)
  have 2: "\<forall>tok sess. mget (ms_sessions s') tok = Some sess \<longrightarrow> se_UserID sess \<noteq> us_ID u"
    by (auto simp: get split: option.splits if_splits)
  have 3: "\<forall>tok sess. mget (ms_sessions s) tok = Some sess \<and> se_UserID sess \<noteq> us_ID u \<and> se_UserID sess \<noteq> us_ID v
         \<longrightarrow> mget (ms_sessions s') tok = Some sess"
    by (simp add: get)
  have "fst (getUserFromRequest w cks s r) = Inr u" using g u by simp
  then show ?thesis using v ok h 1 2 3 by blast
qed

theorem password_change_ends_sessions_witness:
  "let out = handleChangePassword demo_world demo_services (Inr \<lparr>cp_CurrentPassword = ''old'', cp_NewPassword = ''Newpass1!''\<rparr>)
       (\<lambda>_ _. 7) demo_accounts (demo_call ''POST'' ''/api/v1/auth/password'' ''t1'')
   in rp_Status (fst out) = 200 \<and> (\<exists>u :: User. \<forall>tok sess. mget (ms_sessions (fst (snd out))) tok = Some sess \<longrightarrow> se_UserID sess \<noteq> us_ID u)"
proof -
  let ?out = "handleChangePassword demo_world demo_services (Inr \<lparr>cp_CurrentPassword = ''old'', cp_NewPassword = ''Newpass1!''\<rparr>)
       (\<lambda>_ _. 7) demo_accounts (demo_call ''POST'' ''/api/v1/auth/password'' ''t1'')"
  have o: "?out = (fst ?out, fst (snd ?out), snd (snd ?out))" by simp
  have st: "rp_Status (fst ?out) = 200" by code_simp
  have wf: "wf_map (ms_sessions demo_accounts)" by (simp add: wf_map_def demo_accounts_def)
  from password_change_ends_sessions [OF o st demo_accounts_ok wf] st show ?thesis unfolding Let_def by blast
qed

section \<open>Password reset\<close>

text \<open>
  C13: asking for a reset tells nothing about accounts. For any two addresses the response is the
  same, whatever the store holds; the store changes only by a reset token for the account of that
  address, and a mail is sent only to the stored address of that account.
\<close>

theorem forgot_password_uniform:
  assumes "ToLower (w_rt w) (TrimSpace (w_rt w) e) \<noteq> []" and "ToLower (w_rt w) (TrimSpace (w_rt w) e') \<noteq> []"
  shows "fst (handleForgotPassword w m tok (Inr e) cks s r) = fst (handleForgotPassword w m tok (Inr e') cks s' r) \<and>
    (case handleForgotPassword w m tok (Inr e) cks s r of (rsp, t, eff) \<Rightarrow>
       (t = s \<and> eff = []) \<or>
       (\<exists>u token url p. mget (ms_users s) (ToLower (w_rt w) (TrimSpace (w_rt w) e)) = Some u \<and> eff = [effect.SendPasswordReset (us_Email u) (us_Name u) url]
          \<and> t = s\<lparr>ms_passwordResetTokens := mput token p (ms_passwordResetTokens s)\<rparr> \<and> pt_Email p = us_Email u
          \<and> pt_ExpiresAt p = cks 0 0 + 15 * Minute \<and> \<not> pt_Used p))"
  using assms
  by (auto simp: handleForgotPassword_def GetUserByEmail_def CreatePasswordResetToken_def Let_def split: option.splits sum.splits prod.splits)
    (intro exI conjI, rule refl, simp_all)

theorem forgot_password_uniform_witness:
  "fst (handleForgotPassword demo_world (ConsoleMailer DefaultConfig) (Inr ''ab'') (Inr ''ann@acme.com'') (\<lambda>_ _. 7) demo_accounts (demo_call ''POST'' [] [])) =
   fst (handleForgotPassword demo_world (ConsoleMailer DefaultConfig) (Inr ''ab'') (Inr ''nobody@acme.com'') (\<lambda>_ _. 7) demo_accounts (demo_call ''POST'' [] []))"
proof -
  have "ToLower (w_rt demo_world) (TrimSpace (w_rt demo_world) ''ann@acme.com'') \<noteq> []"
    "ToLower (w_rt demo_world) (TrimSpace (w_rt demo_world) ''nobody@acme.com'') \<noteq> []" by code_simp+
  then show ?thesis using forgot_password_uniform by blast
qed

text \<open>
  The reset link follows the \<open>Host\<close> header. An unauthenticated request with the header of a foreign
  host makes the server mail the account holder a link to that host with a valid token in it.
\<close>

theorem reset_link_host_header:
  "snd (snd (handleForgotPassword demo_world (ConsoleMailer DefaultConfig) (Inr ''ab'') (Inr ''ann@acme.com'') (\<lambda>_ _. 7) demo_accounts
     ((demo_get [])\<lparr>rq_Method := ''POST'', rq_Host := ''evil.example''\<rparr>))) =
   [effect.SendPasswordReset ''ann@acme.com'' ''Ann'' ''https://evil.example/auth?mode=reset&token=flg_rst_ab'']"
  by code_simp

section \<open>Sign-up and tenants\<close>

definition signup_user :: "world \<Rightarrow> randoms \<Rightarrow> clocks \<Rightarrow> SignUpRequest \<Rightarrow> string \<Rightarrow> User" where
  "signup_user w rnds cks req hash =
     (let rt = w_rt w; email = TrimSpace rt (ToLower rt (su_Email req)); name = TrimSpace rt (su_Name req)
      in NewUser rt (cks 0 0) (cks 0 1) (rnds 0) email (if name = [] then hd (Split email (CHR ''@'')) else name) hash RoleDeveloper)"

lemma signup_outcome:
  assumes "rq_Method r = ''POST''" and "valid_signup_email sv (TrimSpace (w_rt w) (ToLower (w_rt w) (su_Email req)))"
    and "validatePasswordComplexity (su_Password req) = Inr ()" and "sv_hash sv (su_Password req) = Inr hash"
    and "mget (ms_users s) (TrimSpace (w_rt w) (ToLower (w_rt w) (su_Email req))) = None"
    and "CreateUser (cks 1) (rnds 1) s (signup_user w rnds cks req hash) = (Inr user, t)"
    and "settle_user w (\<lambda>i. rnds (2 + i)) (later 2 cks) t user (su_InviteToken req) (TrimSpace (w_rt w) (ToLower (w_rt w) (su_Email req))) = (active, t')"
  shows "rp_Status (fst (handleSignUp w sv m rnds (Inr token) (Inr req) cks s r)) = 201"
    and "fst (snd (handleSignUp w sv m rnds (Inr token) (Inr req) cks s r)) =
      CreateSession t' (new_session token (us_ID user) (cks 9 0 + 7 * 24 * Hour))"
  using assms
  by (simp_all add: handleSignUp_def GetUserByEmail_def signup_user_def setSessionCookie_def setProjectCookie_def writeJSON_def Let_def)

definition demo_now :: gtime where
  "demo_now = unix_epoch + 7"

definition demo_request :: "string \<Rightarrow> SignUpRequest" where
  "demo_request name = \<lparr>su_Name = name, su_Email = ''eve@evil.com'', su_Password = ''Newpass1!'', su_Role = ''admin'', su_InviteToken = []\<rparr>"

definition demo_random :: randoms where
  "demo_random i = Itoa (int i) @ ''2345678''"

definition demo_signup :: "string \<Rightarrow> outcome" where
  "demo_signup name = handleSignUp demo_world demo_services (DisabledMailer DefaultConfig) demo_random (Inr ''t9'')
     (Inr (demo_request name)) (\<lambda>_ _. demo_now) demo_api ((demo_get [])\<lparr>rq_Method := ''POST''\<rparr>)"

definition demo_eve :: "MemoryStore \<Rightarrow> Response" where
  "demo_eve s = fst (RequireAuth demo_world (handleGetFlags demo_world) (\<lambda>_ _. demo_now + 1) s
     ((demo_cookie ''t9'')\<lparr>rq_Header := [(''X-Project-ID'', ''p1'')]\<rparr>))"

definition demo_joined :: "string \<Rightarrow> MemoryStore" where
  "demo_joined name = (case CreateUser (\<lambda>_. demo_now) (demo_random 1) demo_api (signup_user demo_world demo_random (\<lambda>_ _. demo_now) (demo_request name) ''hNewpass1!'') of
     (Inr u, t) \<Rightarrow> CreateSession (snd (settle_user demo_world (\<lambda>i. demo_random (2 + i)) (\<lambda>_ _. demo_now) t u [] ''eve@evil.com''))
        (new_session ''t9'' (us_ID u) (demo_now + 7 * 24 * Hour))
   | _ \<Rightarrow> demo_api)"

lemma demo_signup_run:
  assumes "name = ''Eve'' \<or> name = ''Acme''"
  shows "rp_Status (fst (demo_signup name)) = 201" and "fst (snd (demo_signup name)) = demo_joined name"
proof -
  let ?r = "(demo_get [])\<lparr>rq_Method := ''POST''\<rparr>" and ?req = "demo_request name"
  have pre: "rq_Method ?r = ''POST''" "validatePasswordComplexity (su_Password ?req) = Inr ()"
    "valid_signup_email demo_services (TrimSpace (w_rt demo_world) (ToLower (w_rt demo_world) (su_Email ?req)))"
    "sv_hash demo_services (su_Password ?req) = Inr ''hNewpass1!''"
    "mget (ms_users demo_api) (TrimSpace (w_rt demo_world) (ToLower (w_rt demo_world) (su_Email ?req))) = None"
    by code_simp+
  have e: "TrimSpace (w_rt demo_world) (ToLower (w_rt demo_world) (su_Email ?req)) = ''eve@evil.com''" by code_simp
  have l: "later 2 (\<lambda>_ _. demo_now) = (\<lambda>_ _. demo_now)" by (simp add: later_def)
  have i: "su_InviteToken ?req = []" by (simp add: demo_request_def)
  obtain u t where c: "CreateUser (\<lambda>_. demo_now) (demo_random 1) demo_api (signup_user demo_world demo_random (\<lambda>_ _. demo_now) ?req ''hNewpass1!'') = (Inr u, t)"
  proof -
    have "\<not> isl (fst (CreateUser (\<lambda>_. demo_now) (demo_random 1) demo_api (signup_user demo_world demo_random (\<lambda>_ _. demo_now) ?req ''hNewpass1!'')))"
      using assms by (elim disjE; hypsubst; code_simp)
    then show thesis using that by (metis prod.collapse sum.collapse(2))
  qed
  obtain a t' where st: "settle_user demo_world (\<lambda>i. demo_random (2 + i)) (\<lambda>_ _. demo_now) t u [] ''eve@evil.com'' = (a, t')" by fastforce
  from signup_outcome [OF pre(1,3,2,4,5), of "\<lambda>_ _. demo_now" demo_random u t a t'] c st
  show "rp_Status (fst (demo_signup name)) = 201" and "fst (snd (demo_signup name)) = demo_joined name"
    unfolding demo_signup_def demo_joined_def e i l by simp_all
qed

text \<open>
  A name opens a tenant. A stranger who signs up under the name of a tenant reads that tenant's
  flags: the store lists for a user every organization whose slug contains the user's name as a slug,
  and the project check trusts that list. Under another name the same request is refused.
\<close>

theorem signup_name_opens_tenant:
  "rp_Status (fst (demo_signup ''Eve'')) = 201 \<and> rp_Status (fst (demo_signup ''Acme'')) = 201
   \<and> rp_Status (demo_eve (fst (snd (demo_signup ''Eve'')))) = 403
   \<and> rp_Body (demo_eve (fst (snd (demo_signup ''Acme'')))) = JSON (J_object [(''project_id'', J_string ''p1''),
        (''flags'', J_flags (ListFlagsByProject demo_api ''p1'')), (''count'', J_int 1), (''timestamp'', J_time (demo_now + 1))])"
proof -
  have 1: "rp_Status (demo_eve (demo_joined ''Eve'')) = 403" by code_simp
  have 2: "rp_Body (demo_eve (demo_joined ''Acme'')) = JSON (J_object [(''project_id'', J_string ''p1''),
        (''flags'', J_flags (ListFlagsByProject demo_api ''p1'')), (''count'', J_int 1), (''timestamp'', J_time (demo_now + 1))])" by code_simp
  from demo_signup_run [of "''Eve''"] demo_signup_run [of "''Acme''"] 1 2 show ?thesis by simp
qed

end
