(* ===== verification/Api_Keys.thy ===== *)
theory Api_Keys
  imports Api_Flags Store_Machine
begin

text \<open>
  API keys over HTTP, \<open>src/pkg/api/handlers_apikey.go\<close>, and the reset of the store (\<open>handleReset\<close> of
  \<open>handlers_admin.go\<close>), which a platform admin may call. \<open>hex\<close> is the hexadecimal text of the 32 random
  bytes of a key, or the error of the random source. The secret of a key is part of the answer that
  creates it; its hash is not encoded (\<open>json:"-"\<close>).
\<close>

section \<open>Handlers\<close>

record CreateAPIKeyRequest =
  kr_Name :: string
  kr_Role :: string
  kr_Environment :: string

definition generateRawAPIKey :: "runtime \<Rightarrow> string result \<Rightarrow> (string \<times> string \<times> string) result" where
  "generateRawAPIKey rt hex =
     (case hex of
        Inl err \<Rightarrow> Inl err
      | Inr hexStr \<Rightarrow>
          (let rawKey = ''flg_live_'' @ hexStr
           in Inr (rawKey, ''flg_live_'' @ take 8 hexStr @ ''...****'', rt_sha256 rt rawKey)))"

definition list_api_keys :: "world \<Rightarrow> clocks \<Rightarrow> MemoryStore \<Rightarrow> Request \<Rightarrow> outcome" where
  "list_api_keys w cks s r =
     (case resolveAndAuthorizeProjectID w cks s r of
        (Inl err, r, s) \<Rightarrow> fail r s err
      | (Inr projectID, r, s) \<Rightarrow>
          (writeJSON 200 (J_object [(''project_id'', J_string projectID),
             (''api_keys'', J_keys (ListAPIKeysByProject (w_keys w) s projectID))]), s, []))"

text \<open>The environment of a new key, with the restriction of the wildcard to privileged callers.\<close>

definition key_env :: "runtime \<Rightarrow> bool \<Rightarrow> string \<Rightarrow> string result" where
  "key_env rt privileged requested =
     (let env = ToLower rt (TrimSpace rt requested);
          env = (if env = [] then EnvProduction else env)
      in if env = EnvAll \<or> env = ''*'' then Inr (if privileged then env else EnvProduction)
         else if env \<notin> {EnvProduction, EnvStaging, EnvDevelopment} then
           Inl (NewAppError 3003 (''Invalid environment: must be '' @ quoted ''production'' @ '', '' @ quoted ''staging'' @ '', ''
             @ quoted ''development'' @ '', or '' @ quoted ''all'') 400 (Some (Sentinel ErrInvalidEnvironment)))
         else Inr env)"

definition create_api_key :: "world \<Rightarrow> string \<Rightarrow> string result \<Rightarrow> CreateAPIKeyRequest result \<Rightarrow> clocks \<Rightarrow> MemoryStore \<Rightarrow> Request \<Rightarrow> outcome" where
  "create_api_key w rnd hex body cks s r =
     (case body of
        Inl err \<Rightarrow> fail r s (malformed (''Invalid request payload: '' @ Error err) err)
      | Inr req \<Rightarrow>
          if TrimSpace (w_rt w) (kr_Name req) = [] then fail r s (invalid_input ''Name is required for API Key'')
          else
            (let (user, s) = getUserFromRequest w cks s r;
                 user = (case user of Inr u \<Rightarrow> Some u | Inl _ \<Rightarrow> None);
                 createdBy = (case user of Some u \<Rightarrow> if us_Email u \<noteq> [] then us_Email u else ''system'' | None \<Rightarrow> ''system'');
                 role = (if kr_Role req = [] then RoleDeveloper else kr_Role req);
                 (projectID, r, s) = resolveProjectID w (later 3 cks) s r;
                 privileged = IsPrivileged (enrichUserOrgMembership s user projectID);
                 role = (if role = RoleAdmin \<and> \<not> privileged then RoleDeveloper else role)
             in case key_env (w_rt w) privileged (kr_Environment req) of
                  Inl err \<Rightarrow> fail r s err
                | Inr env \<Rightarrow>
                    (case generateRawAPIKey (w_rt w) hex of
                       Inl err \<Rightarrow> fail r s (NewAppError 9001 (''Failed to generate API Key: '' @ Error err) 500 (Some err))
                     | Inr (rawKey, prefix, hash) \<Rightarrow>
                         (case authorizeProjectAccess w (later 11 cks) s r projectID of
                            (Inl err, s) \<Rightarrow> fail r s err
                          | (Inr _, s) \<Rightarrow>
                              (case CreateAPIKey (cks 16) rnd s \<lparr>ak_ID = NewID (cks 15 0) rnd ''key'', ak_ProjectID = projectID,
                                      ak_Environment = env, ak_Key = rawKey, ak_KeyPrefix = prefix, ak_KeyHash = hash,
                                      ak_Name = TrimSpace (w_rt w) (kr_Name req), ak_Role = role, ak_CreatedBy = createdBy,
                                      ak_CreatedAt = cks 15 1, ak_LastUsedAt = None, ak_Revoked = False\<rparr> of
                                 (Inl err, s) \<Rightarrow> fail r s (db_error err)
                               | (Inr created, s) \<Rightarrow>
                                   (writeJSON 201 (J_object [(''api_key'', J_key created), (''message'',
                                      J_string ''API key generated successfully. Copy this secret key now; it will not be shown again.'')]),
                                    s, []))))))"

definition handleListOrCreateAPIKeys :: "world \<Rightarrow> string \<Rightarrow> string result \<Rightarrow> CreateAPIKeyRequest result \<Rightarrow> clocks \<Rightarrow> MemoryStore \<Rightarrow> Request \<Rightarrow> outcome" where
  "handleListOrCreateAPIKeys w rnd hex body cks s r =
     (if rq_Method r = ''GET'' then list_api_keys w cks s r
      else if rq_Method r = ''POST'' then create_api_key w rnd hex body cks s r
      else (MethodNotAllowed, s, []))"

abbreviation (input) "APIKeysPrefix \<equiv> ''/api/v1/api-keys/''"

definition handleRevokeAPIKey :: "world \<Rightarrow> clocks \<Rightarrow> MemoryStore \<Rightarrow> Request \<Rightarrow> outcome" where
  "handleRevokeAPIKey w cks s r =
     (if rq_Method r \<noteq> ''DELETE'' \<and> rq_Method r \<noteq> ''POST'' then (MethodNotAllowed, s, [])
      else
        (let i = TrimSpace (w_rt w) (hd (Split (TrimPrefix (rq_Path r) APIKeysPrefix) (CHR ''/''))) in
         if i = [] then fail r s (invalid_input ''API Key ID required'')
         else (case GetAPIKeyByID s i of
            Inl _ \<Rightarrow> fail r s (NewAppError 1004 (''API key not found: '' @ i) 404 (Some (Sentinel ErrKeyNotFound)))
          | Inr key \<Rightarrow>
              (case authorizeProjectAccess w cks s r (ak_ProjectID key) of
                 (Inl err, s) \<Rightarrow> fail r s err
               | (Inr _, s) \<Rightarrow>
                   (case RevokeAPIKeyByProject (w_rt w) (cks 4) s (ak_ProjectID key) i (getActorFromRequest r ''admin@flagura.dev'') of
                      (Inl err, s) \<Rightarrow> fail r s (NewAppError 1004 (Error err) 404 (Some (Sentinel ErrKeyNotFound)))
                    | (Inr _, s) \<Rightarrow> (writeJSON 200 (J_object [(''success'', J_bool True), (''revoked'', J_string i)]), s, []))))))"

definition handleReset :: "world \<Rightarrow> clocks \<Rightarrow> MemoryStore \<Rightarrow> Request \<Rightarrow> outcome" where
  "handleReset w cks s r =
     (let (projectID, r, s) = resolveProjectID w cks s r;
          s = Reset s
      in (encodeJSON 200 (J_object [(''message'', J_string ''Database reset to default seed flags''),
            (''flags_count'', J_int (int (length (ListFlagsByProject s projectID))))]), s,
          [Publish (broadcastCurrentFlags (cks 8 0) s projectID [])]))"

text \<open>The routes as mounted: keys behind \<open>RequireAuth\<close>, the reset behind \<open>RequireAuth\<close> and \<open>RequireAdmin\<close> for \<open>POST\<close> only.\<close>

definition keys_route :: "world \<Rightarrow> string \<Rightarrow> string result \<Rightarrow> CreateAPIKeyRequest result \<Rightarrow> clocks \<Rightarrow> MemoryStore \<Rightarrow> Request \<Rightarrow> outcome" where
  "keys_route w rnd hex body = RequireAuth w (handleListOrCreateAPIKeys w rnd hex body)"

definition reset_route :: "world \<Rightarrow> clocks \<Rightarrow> MemoryStore \<Rightarrow> Request \<Rightarrow> outcome" where
  "reset_route w = RequireAuth w (RequireAdmin w (\<lambda>cks s r.
     if rq_Method r = ''POST'' then handleReset w cks s r else (set_header ''Allow'' ''POST'' MethodNotAllowed, s, [])))"

section \<open>From member to platform admin\<close>

text \<open>A plain member \<open>u2\<close> of the organization of \<open>p1\<close>, and a flag in the project \<open>p2\<close> of another organization.\<close>

definition demo_members :: MemoryStore where
  "demo_members = demo_tenants\<lparr>
     ms_users := mput ''u2'' (demo_user\<lparr>us_ID := ''u2'', us_Email := ''bob@acme.com'', us_Name := ''Bob''\<rparr>) (ms_users demo_tenants),
     ms_sessions := mput ''t2'' (demo_session\<lparr>se_Token := ''t2'', se_UserID := ''u2'', se_ExpiresAt := unix_epoch + 500\<rparr>) (ms_sessions demo_tenants),
     ms_orgMembers := mput ''o1:u2'' \<lparr>om_ID = ''m2'', om_OrganizationID = ''o1'', om_UserID = ''u2'', om_Role = ''developer'', om_CreatedAt = 0\<rparr>
       (ms_orgMembers demo_tenants),
     ms_flagsSnapshot := newFlagSnapshot [demo_live\<lparr>ff_ProjectID := ''p2''\<rparr>]\<rparr>"

definition demo_mint :: "MemoryStore \<Rightarrow> string \<Rightarrow> string \<Rightarrow> string \<Rightarrow> MemoryStore" where
  "demo_mint s token role hex = fst (snd (keys_route demo_world hex (Inr hex)
     (Inr \<lparr>kr_Name = ''ci'', kr_Role = role, kr_Environment = ''all''\<rparr>) (\<lambda>_ _. unix_epoch) s (demo_call ''POST'' ''/api/v1/api-keys'' token)))"

definition demo_reset :: "MemoryStore \<Rightarrow> string \<Rightarrow> outcome" where
  "demo_reset s token = reset_route demo_world (\<lambda>_ _. unix_epoch) s (demo_call ''POST'' ''/api/v1/reset'' token)"

text \<open>The key a call of \<open>demo_mint\<close> stores, and the store after it.\<close>

definition demo_minted :: "string \<Rightarrow> string \<Rightarrow> string \<Rightarrow> APIKey" where
  "demo_minted role hex by_email = \<lparr>ak_ID = ''key_0_'' @ hex, ak_ProjectID = ''p1'', ak_Environment = ''all'', ak_Key = ''flg_live_'' @ hex,
     ak_KeyPrefix = ''flg_live_'' @ hex @ ''...****'', ak_KeyHash = ''#flg_live_'' @ hex, ak_Name = ''ci'', ak_Role = role,
     ak_CreatedBy = by_email, ak_CreatedAt = unix_epoch, ak_LastUsedAt = None, ak_Revoked = False\<rparr>"

definition demo_holding :: "APIKey list \<Rightarrow> MemoryStore" where
  "demo_holding ks = demo_members\<lparr>ms_apiKeys := map (\<lambda>k. (ak_ID k, k)) ks, ms_apiKeysByHash := map (\<lambda>k. (ak_KeyHash k, ak_ID k)) ks\<rparr>"

definition demo_owner_key :: APIKey where
  "demo_owner_key = (demo_minted ''owner'' ''a'' ''bob@acme.com'')\<lparr>ak_Environment := ''production''\<rparr>"

definition demo_admin_key :: APIKey where
  "demo_admin_key = demo_minted ''admin'' ''b'' ''bob@acme.com''"

lemma mint_owner: "demo_mint (demo_holding []) ''t2'' ''owner'' ''a'' = demo_holding [demo_owner_key]"
  by code_simp

lemma mint_direct:
  "demo_mint (demo_holding []) ''t2'' ''admin'' ''a'' = demo_holding [demo_owner_key\<lparr>ak_Role := ''developer''\<rparr>]"
  by code_simp

lemma mint_admin:
  "demo_mint (demo_holding [demo_owner_key]) ''flg_live_a'' ''admin'' ''b'' =
     demo_holding [demo_owner_key\<lparr>ak_LastUsedAt := Some unix_epoch\<rparr>, demo_admin_key]"
  by code_simp

lemma reset_direct: "rp_Status (fst (demo_reset (demo_holding [demo_owner_key\<lparr>ak_Role := ''developer''\<rparr>]) ''flg_live_a'')) = 403"
  by code_simp

lemma reset_admin:
  "let out = demo_reset (demo_holding [demo_owner_key\<lparr>ak_LastUsedAt := Some unix_epoch\<rparr>, demo_admin_key]) ''flg_live_b''
   in rp_Status (fst out) = 200 \<and> ListFlagsByProject (fst (snd out)) ''p2'' = []"
  by code_simp

text \<open>
  C30: a member of a tenant becomes a platform admin with two keys. \<open>handleListOrCreateAPIKeys\<close> refuses
  the role \<open>admin\<close> to a caller without privileges and makes the key a developer's, but takes any other
  role: a key with the role \<open>owner\<close> counts as privileged in the next call, which then mints an \<open>admin\<close>
  key; a caller with that key passes \<open>RequireAdmin\<close> and resets the store of every tenant. The key of
  the direct request leads to a refusal of the reset.
\<close>

theorem member_becomes_platform_admin:
  "let direct = demo_mint (demo_holding []) ''t2'' ''admin'' ''a'';
       s1 = demo_mint (demo_holding []) ''t2'' ''owner'' ''a'';
       s2 = demo_mint s1 ''flg_live_a'' ''admin'' ''b'';
       out = demo_reset s2 ''flg_live_b''
   in rp_Status (fst (demo_reset direct ''flg_live_a'')) = 403
      \<and> rp_Status (fst out) = 200 \<and> map ff_Key (ListFlagsByProject s2 ''p2'') = [''pay'']
      \<and> ListFlagsByProject (fst (snd out)) ''p2'' = []"
proof -
  have "map ff_Key (ListFlagsByProject (demo_holding ks) ''p2'') = [''pay'']" for ks
    unfolding demo_holding_def by code_simp
  with reset_direct reset_admin show ?thesis unfolding Let_def mint_owner mint_direct mint_admin by simp
qed

end
