(* ===== verification/Api_Workspaces.thy ===== *)
theory Api_Workspaces
  imports Api_Flags
begin

text \<open>
  Organizations, projects and invitations over HTTP: \<open>src/pkg/api/handlers_projects.go\<close> and the
  invitation handlers of \<open>handlers_admin.go\<close>. \<open>rnd\<close> and \<open>rnd'\<close> are the texts of the random reads.
\<close>

section \<open>Organizations and projects\<close>

record OrganizationRequest =
  or_Name :: string
  or_Slug :: string
  or_Description :: string

record ProjectRequest =
  pq_OrganizationID :: string
  pq_Name :: string
  pq_Slug :: string
  pq_Description :: string

definition handleListOrganizations :: "world \<Rightarrow> clocks \<Rightarrow> MemoryStore \<Rightarrow> Request \<Rightarrow> outcome" where
  "handleListOrganizations w cks s r =
     (if rq_Method r \<noteq> ''GET'' then (MethodNotAllowed, s, [])
      else
        (let orgs = (case rq_User r of
               Some user \<Rightarrow> if us_Role user \<noteq> RoleAdmin then user_orgs w s user else ListOrganizations (w_orgs w) s
             | None \<Rightarrow> ListOrganizations (w_orgs w) s)
         in (writeJSON 200 (J_object [(''organizations'', J_orgs orgs), (''count'', J_int (int (length orgs)))]), s, [])))"

definition handleCreateOrganization :: "world \<Rightarrow> string \<Rightarrow> OrganizationRequest result \<Rightarrow> clocks \<Rightarrow> MemoryStore \<Rightarrow> Request \<Rightarrow> outcome" where
  "handleCreateOrganization w rnd body cks s r =
     (if rq_Method r \<noteq> ''POST'' then (MethodNotAllowed, s, [])
      else case body of
        Inl err \<Rightarrow> fail r s (malformed (Error err) err)
      | Inr req \<Rightarrow>
          if TrimSpace (w_rt w) (or_Name req) = [] then fail r s (invalid_input ''organization name is required'')
          else (case CreateOrganization (cks 1) rnd s
                  (NewOrganization (w_rt w) (cks 0 0) (cks 0 1) rnd (or_Name req) (or_Slug req) (or_Description req)) of
             (Inl err, s) \<Rightarrow> fail r s (NewAppError 2002 (Error err) 400 (Some err))
           | (Inr created, s) \<Rightarrow> (writeJSON 201 (J_org created), s, [])))"

definition projects_response :: "Project list \<Rightarrow> string \<Rightarrow> Response" where
  "projects_response projects active = writeJSON 200 (J_object [(''projects'', J_projects projects),
     (''count'', J_int (int (length projects))), (''active_project_id'', J_string active)])"

definition handleListProjects :: "world \<Rightarrow> clocks \<Rightarrow> MemoryStore \<Rightarrow> Request \<Rightarrow> outcome" where
  "handleListProjects w cks s r =
     (if rq_Method r \<noteq> ''GET'' then (MethodNotAllowed, s, [])
      else
        (let orgID = (if query_get r ''organization_id'' \<noteq> [] then query_get r ''organization_id'' else query_get r ''org_id'');
             answer = (\<lambda>projects. let (active, _, s) = resolveProjectID w cks s r in (projects_response projects active, s, []));
             member = (case rq_User r of Some user \<Rightarrow> if us_Role user \<noteq> RoleAdmin then Some user else None | None \<Rightarrow> None)
         in case member of
              Some user \<Rightarrow>
                (let userOrgs = user_orgs w s user in
                 if orgID \<noteq> [] then
                   if orgID \<notin> og_ID ` set userOrgs then
                     fail r s (NewAppError 1002 ''user not authorized to view projects for this organization'' 403 (Some (Sentinel ErrForbidden)))
                   else answer (ListProjects (w_projects w) s orgID)
                 else answer (concat (map (\<lambda>org. ListProjects (w_projects w) s (og_ID org)) userOrgs)))
            | None \<Rightarrow> answer (ListProjects (w_projects w) s orgID)))"

text \<open>\<open>user != nil && user.Role != admin\<close> and no organization of the user is the given one.\<close>

definition org_refused :: "world \<Rightarrow> MemoryStore \<Rightarrow> User option \<Rightarrow> string \<Rightarrow> bool" where
  "org_refused w s user orgID =
     (case user of
        Some u \<Rightarrow> us_Role u \<noteq> RoleAdmin \<and> orgID \<notin> og_ID ` set (user_orgs w s u)
      | None \<Rightarrow> False)"

definition first_org :: "world \<Rightarrow> MemoryStore \<Rightarrow> User option \<Rightarrow> string" where
  "first_org w s user = (case user of Some u \<Rightarrow> (case user_orgs w s u of org # _ \<Rightarrow> og_ID org | [] \<Rightarrow> []) | None \<Rightarrow> [])"

definition handleCreateProject :: "world \<Rightarrow> string \<Rightarrow> ProjectRequest result \<Rightarrow> clocks \<Rightarrow> MemoryStore \<Rightarrow> Request \<Rightarrow> outcome" where
  "handleCreateProject w rnd body cks s r =
     (if rq_Method r \<noteq> ''POST'' then (MethodNotAllowed, s, [])
      else case body of
        Inl err \<Rightarrow> fail r s (malformed (Error err) err)
      | Inr req \<Rightarrow>
          if TrimSpace (w_rt w) (pq_Name req) = [] then fail r s (invalid_input ''project name is required'')
          else
            (let orgID = (if pq_OrganizationID req = [] then first_org w s (rq_User r) else pq_OrganizationID req) in
             if orgID = [] then fail r s (invalid_input ''organization_id is required to create a project'')
             else if org_refused w s (rq_User r) orgID then
               fail r s (NewAppError 1002 ''not authorized to create projects in this organization'' 403 (Some (Sentinel ErrForbidden)))
             else (case CreateProject (w_rt w) (cks 1) rnd s
                     (NewProject (w_rt w) (cks 0 0) (cks 0 1) rnd orgID (pq_Name req) (pq_Slug req) (pq_Description req)) of
                (Inl err, s) \<Rightarrow> fail r s (NewAppError 2004 (Error err) 400 (Some err))
              | (Inr created, s) \<Rightarrow>
                  (setProjectCookie w (cks 3 0) r (pj_ID created) (cks 2 0 + 30 * 24 * Hour) (writeJSON 201 (J_project created)), s, []))))"

abbreviation (input) "ProjectsPrefix \<equiv> ''/api/v1/projects/''"

definition handleGetProject :: "world \<Rightarrow> clocks \<Rightarrow> MemoryStore \<Rightarrow> Request \<Rightarrow> outcome" where
  "handleGetProject w cks s r =
     (if rq_Method r \<noteq> ''GET'' then (MethodNotAllowed, s, [])
      else
        (let i = TrimSpace (w_rt w) (hd (Split (TrimPrefix (rq_Path r) ProjectsPrefix) (CHR ''/'')));
             (i, r, s) = (if i = [] then resolveProjectID w cks s r else (i, r, s))
         in case GetProject s i of
              Inl err \<Rightarrow> fail r s (NewAppError 2003 (Error err) 404 (Some (Sentinel ErrProjectNotFound)))
            | Inr proj \<Rightarrow>
                if org_refused w s (rq_User r) (pj_OrganizationID proj) then
                  fail r s (NewAppError 2005 ''user not authorized to view this project'' 403 (Some (Sentinel ErrForbidden)))
                else (writeJSON 200 (J_project proj), s, [])))"

definition handleSwitchActiveProject :: "world \<Rightarrow> (string \<times> string) result \<Rightarrow> clocks \<Rightarrow> MemoryStore \<Rightarrow> Request \<Rightarrow> outcome" where
  "handleSwitchActiveProject w body cks s r =
     (if rq_Method r \<noteq> ''POST'' then (MethodNotAllowed, s, [])
      else case body of
        Inl err \<Rightarrow> fail r s (malformed (Error err) err)
      | Inr (projectID, projectIDCamel) \<Rightarrow>
          (let pid = (if projectID = [] then projectIDCamel else projectID) in
           if pid = [] then fail r s (NewAppError 2006 ''project_id is required'' 400 (Some (Sentinel ErrInvalidInput)))
           else (case GetProject s pid of
              Inl _ \<Rightarrow> fail r s (project_missing projectID)
            | Inr proj \<Rightarrow>
                if org_refused w s (rq_User r) (pj_OrganizationID proj) then
                  fail r s (NewAppError 2005 ''user not authorized to switch to this project'' 403 (Some (Sentinel ErrForbidden)))
                else (setProjectCookie w (cks 1 0) r (pj_ID proj) (cks 0 0 + 30 * 24 * Hour)
                        (writeJSON 200 (J_object [(''success'', J_bool True), (''active_project_id'', J_string (pj_ID proj)),
                           (''active_project'', J_project proj)])), s, []))))"

section \<open>Invitations\<close>

record InvitationRequest =
  iq_OrganizationID :: string
  iq_Email :: string
  iq_Role :: string

definition unauthorized :: "gerror \<Rightarrow> gerror" where
  "unauthorized cause = NewAppError 1001 ''Unauthorized'' 401 (Some cause)"

definition internal_error :: "gerror \<Rightarrow> gerror" where
  "internal_error e = NewAppError 9001 (Error e) 500 (Some e)"

definition caller_role :: "world \<Rightarrow> MemoryStore \<Rightarrow> string \<Rightarrow> User \<Rightarrow> string" where
  "caller_role w s orgID user =
     (case find (\<lambda>m. om_UserID m = us_ID user) (ListOrgMembers (w_members w) s orgID) of Some m \<Rightarrow> om_Role m | None \<Rightarrow> [])"

definition invite :: "world \<Rightarrow> string \<Rightarrow> string \<Rightarrow> InvitationRequest \<Rightarrow> clock \<Rightarrow> MemoryStore \<Rightarrow> Request \<Rightarrow> User \<Rightarrow> outcome" where
  "invite w rnd rnd' req clk s r user =
     (let orgID = (if iq_OrganizationID req = [] then first_org w s (Some user) else iq_OrganizationID req);
          role = (if iq_Role req = [] then ''developer'' else iq_Role req)
      in case GetOrganization s orgID of
           Inl err \<Rightarrow> fail r s (NewAppError 3006 ''Organization not found'' 404 (Some err))
         | Inr org \<Rightarrow>
             (let callerRole = caller_role w s (og_ID org) user in
              if us_Role user \<noteq> RoleAdmin \<and> callerRole \<noteq> ''owner'' \<and> callerRole \<noteq> ''admin'' then
                fail r s (NewAppError 1002 ''Only organization owners and admins can invite new members'' 403 (Some (Sentinel ErrForbidden)))
              else if us_Role user \<noteq> RoleAdmin \<and> callerRole \<noteq> ''owner'' \<and> (role = ''admin'' \<or> role = ''owner'') then
                fail r s (NewAppError 1002 ''Only organization owners can invite admins or owners'' 403 (Some (Sentinel ErrForbidden)))
              else (case CreateOrgInvitation clk rnd rnd' s \<lparr>oi_ID = [], oi_OrganizationID = og_ID org, oi_OrgName = og_Name org,
                      oi_Email = TrimSpace (w_rt w) (ToLower (w_rt w) (iq_Email req)), oi_Token = [], oi_Role = role,
                      oi_InvitedBy = us_Email user, oi_ExpiresAt = 0, oi_AcceptedAt = None, oi_CreatedAt = 0\<rparr> of
                 (Inl err, s) \<Rightarrow> fail r s (internal_error err)
               | (Inr created, s) \<Rightarrow>
                   (writeJSON 201 (J_object [(''invitation'', J_invitation created),
                      (''invite_url'', J_string (''/auth?invite='' @ oi_Token created))]), s, []))))"

definition handleInvitations :: "world \<Rightarrow> string \<Rightarrow> string \<Rightarrow> InvitationRequest result \<Rightarrow> clocks \<Rightarrow> MemoryStore \<Rightarrow> Request \<Rightarrow> outcome" where
  "handleInvitations w rnd rnd' body cks s r =
     (case getUserFromRequest w cks s r of
        (Inl err, s) \<Rightarrow> fail r s (unauthorized err)
      | (Inr user, s) \<Rightarrow>
          if rq_Method r = ''GET'' then
            (let orgID = (if query_get r ''organization_id'' = [] then first_org w s (Some user) else query_get r ''organization_id'')
             in (writeJSON 200 (J_object [(''invitations'', J_invitations (ListOrgInvitations (w_invitations w) s orgID))]), s, []))
          else if rq_Method r = ''POST'' then
            (case body of
               Inl err \<Rightarrow> fail r s (malformed (Error err) err)
             | Inr req \<Rightarrow> invite w rnd rnd' req (cks 3) s r user)
          else (MethodNotAllowed, s, []))"

definition handleGetInvitationByToken :: "clocks \<Rightarrow> MemoryStore \<Rightarrow> Request \<Rightarrow> outcome" where
  "handleGetInvitationByToken cks s r =
     (let parts = Split (trim_slashes (rq_Path r)) (CHR ''/'') in
      if length parts < 4 then (http_Error ''invalid invitation token path'' 400, s, [])
      else (case GetOrgInvitation (cks 0 0) s (last parts) of
              Inl err \<Rightarrow> fail r s (NewAppError 3006 (Error err) 404 (Some err))
            | Inr invt \<Rightarrow> (writeJSON 200 (J_object [(''invitation'', J_invitation invt)]), s, [])))"

definition handleAcceptInvitation :: "world \<Rightarrow> string \<Rightarrow> string result \<Rightarrow> clocks \<Rightarrow> MemoryStore \<Rightarrow> Request \<Rightarrow> outcome" where
  "handleAcceptInvitation w rnd body cks s r =
     (if rq_Method r \<noteq> ''POST'' then (MethodNotAllowed, s, [])
      else case getUserFromRequest w cks s r of
        (Inl err, s) \<Rightarrow> fail r s (unauthorized err)
      | (Inr user, s) \<Rightarrow>
          (case body of
             Inl err \<Rightarrow> fail r s (malformed (Error err) err)
           | Inr token \<Rightarrow>
               (case GetOrgInvitation (cks 3 0) s token of
                  Inl err \<Rightarrow> fail r s (NewAppError 3006 (Error err) 404 (Some err))
                | Inr invt \<Rightarrow>
                    if oi_Email invt \<noteq> [] \<and> us_Email user \<noteq> [] \<and> \<not> EqualFold (w_rt w) (us_Email user) (oi_Email invt) then
                      fail r s (NewAppError 1002 (''Invitation was issued for '' @ oi_Email invt @ '', but accepted by '' @ us_Email user) 403
                        (Some (Sentinel ErrForbidden)))
                    else (case AcceptOrgInvitation (w_rt w) (cks 4) rnd s token (us_ID user) of
                       (Inl err, s) \<Rightarrow> fail r s (NewAppError 3006 (Error err) 404 (Some err))
                     | (Inr member, s) \<Rightarrow>
                         (let rsp = writeJSON 200 (J_object [(''member'', J_member member), (''message'', J_string ''Invitation accepted successfully'')])
                          in (case ListProjects (w_projects w) s (om_OrganizationID member) of
                                p # _ \<Rightarrow> setProjectCookie w (cks 6 0) r (pj_ID p) (cks 5 0 + 7 * 24 * Hour) rsp
                              | [] \<Rightarrow> rsp, s, []))))))"

section \<open>Who may invite\<close>

lemma same_tenancy:
  assumes "same_but_usage s t"
  shows "caller_role w t i u = caller_role w s i u" "GetOrganization t i = GetOrganization s i"
  unfolding caller_role_def ListOrgMembers_def GetOrganization_def same_fields [OF assms] by (rule refl)+

lemma CreateOrgInvitation_put:
  "\<exists>invt. CreateOrgInvitation clk a b s i = (Inr invt, s\<lparr>ms_orgInvitations := mput (oi_ID invt) invt (mput (oi_Token invt) invt (ms_orgInvitations s))\<rparr>)
     \<and> oi_OrganizationID invt = oi_OrganizationID i \<and> oi_InvitedBy invt = oi_InvitedBy i \<and> (oi_Role i \<noteq> [] \<longrightarrow> oi_Role invt = oi_Role i)"
  by (simp add: CreateOrgInvitation_def Let_def)

definition invite_target :: "world \<Rightarrow> MemoryStore \<Rightarrow> User \<Rightarrow> InvitationRequest \<Rightarrow> string" where
  "invite_target w s u req = (if iq_OrganizationID req = [] then first_org w s (Some u) else iq_OrganizationID req)"

lemma invite_spec:
  assumes "invite w rnd rnd' req clk s r u = (rsp, s', eff)" and "s' \<noteq> s"
  shows "\<exists>invt org. rp_Status rsp = 201 \<and> s' = s\<lparr>ms_orgInvitations := mput (oi_ID invt) invt (mput (oi_Token invt) invt (ms_orgInvitations s))\<rparr>
    \<and> GetOrganization s (invite_target w s u req) = Inr org \<and> oi_OrganizationID invt = og_ID org \<and> oi_InvitedBy invt = us_Email u
    \<and> (us_Role u = ''admin'' \<or> caller_role w s (og_ID org) u = ''owner''
        \<or> (caller_role w s (og_ID org) u = ''admin'' \<and> oi_Role invt \<notin> {''owner'', ''admin''}))"
proof (cases "GetOrganization s (invite_target w s u req)")
  case (Inl e)
  with assms show ?thesis by (simp add: invite_def invite_target_def fail_def Let_def)
next
  case (Inr org)
  let ?role = "if iq_Role req = [] then ''developer'' else iq_Role req" and ?c = "caller_role w s (og_ID org) u"
  let ?i = "\<lparr>oi_ID = [], oi_OrganizationID = og_ID org, oi_OrgName = og_Name org,
      oi_Email = TrimSpace (w_rt w) (ToLower (w_rt w) (iq_Email req)), oi_Token = [], oi_Role = ?role,
      oi_InvitedBy = us_Email u, oi_ExpiresAt = 0, oi_AcceptedAt = None, oi_CreatedAt = 0\<rparr>"
  obtain invt where invt: "CreateOrgInvitation clk rnd rnd' s ?i =
      (Inr invt, s\<lparr>ms_orgInvitations := mput (oi_ID invt) invt (mput (oi_Token invt) invt (ms_orgInvitations s))\<rparr>)"
    "oi_OrganizationID invt = og_ID org" "oi_InvitedBy invt = us_Email u" "oi_Role invt = ?role"
    using CreateOrgInvitation_put [of clk rnd rnd' s ?i] by (auto split: if_splits)
  have out: "invite w rnd rnd' req clk s r u =
     (if us_Role u \<noteq> ''admin'' \<and> ?c \<noteq> ''owner'' \<and> ?c \<noteq> ''admin'' then
        fail r s (NewAppError 1002 ''Only organization owners and admins can invite new members'' 403 (Some (Sentinel ErrForbidden)))
      else if us_Role u \<noteq> ''admin'' \<and> ?c \<noteq> ''owner'' \<and> (?role = ''admin'' \<or> ?role = ''owner'') then
        fail r s (NewAppError 1002 ''Only organization owners can invite admins or owners'' 403 (Some (Sentinel ErrForbidden)))
      else (writeJSON 201 (J_object [(''invitation'', J_invitation invt), (''invite_url'', J_string (''/auth?invite='' @ oi_Token invt))]),
        s\<lparr>ms_orgInvitations := mput (oi_ID invt) invt (mput (oi_Token invt) invt (ms_orgInvitations s))\<rparr>, []))"
    unfolding invite_def Let_def Inr [unfolded invite_target_def] sum.case invt(1) prod.case ..
  show ?thesis
  proof (cases "(us_Role u \<noteq> ''admin'' \<and> ?c \<noteq> ''owner'' \<and> ?c \<noteq> ''admin'') \<or> (us_Role u \<noteq> ''admin'' \<and> ?c \<noteq> ''owner'' \<and> (?role = ''admin'' \<or> ?role = ''owner''))")
    case True
    then have "s' = s" using out assms(1) by (auto simp: fail_def split: if_splits)
    with assms(2) show ?thesis by contradiction
  next
    case False
    then have "rp_Status rsp = 201" "s' = s\<lparr>ms_orgInvitations := mput (oi_ID invt) invt (mput (oi_Token invt) invt (ms_orgInvitations s))\<rparr>"
      using out assms(1) by (auto simp: writeJSON_def)
    with Inr invt(2-4) False show ?thesis by (intro exI [of _ invt] exI [of _ org]) auto
  qed
qed

text \<open>
  C18: invitations are issued under control. \<open>handleInvitations\<close> leaves the stored invitations alone
  unless an authenticated caller posts, and then it stores one invitation for one existing
  organization, issued in the caller's name: by a platform admin or by a member who is owner or
  admin there, and with the role of an owner or admin only by a platform admin or an owner. Nothing
  else in the store changes but the usage stamps of API keys.
\<close>

theorem invitations_guarded:
  assumes "handleInvitations w rnd rnd' body cks s r = (rsp, s', eff)" and "ms_orgInvitations s' \<noteq> ms_orgInvitations s"
  shows "\<exists>u invt org t. fst (getUserFromRequest w cks s r) = Inr u \<and> rq_Method r = ''POST'' \<and> rp_Status rsp = 201
    \<and> same_but_usage s t \<and> s' = t\<lparr>ms_orgInvitations := mput (oi_ID invt) invt (mput (oi_Token invt) invt (ms_orgInvitations s))\<rparr>
    \<and> GetOrganization s (invite_target w s u (projr body)) = Inr org
    \<and> oi_OrganizationID invt = og_ID org \<and> oi_InvitedBy invt = us_Email u
    \<and> (us_Role u = ''admin'' \<or> caller_role w s (og_ID org) u = ''owner''
        \<or> (caller_role w s (og_ID org) u = ''admin'' \<and> oi_Role invt \<notin> {''owner'', ''admin''}))"
proof -
  obtain x t where g: "getUserFromRequest w cks s r = (x, t)" by fastforce
  have same: "same_but_usage s t" using g by (rule getUser_same)
  note keep = same_fields(5) [OF same]
  from assms g keep obtain u where u: "x = Inr u" by (cases x) (auto simp: handleInvitations_def fail_def)
  from assms g u keep obtain req where post: "rq_Method r = ''POST''" "body = Inr req"
    "invite w rnd rnd' req (cks 3) t r u = (rsp, s', eff)"
    by (cases body) (auto simp: handleInvitations_def fail_def split: if_splits)
  have "s' \<noteq> t" using assms(2) keep by auto
  from invite_spec [OF post(3) this] obtain invt org where o:
    "rp_Status rsp = 201" "s' = t\<lparr>ms_orgInvitations := mput (oi_ID invt) invt (mput (oi_Token invt) invt (ms_orgInvitations s))\<rparr>"
    "GetOrganization t (invite_target w t u req) = Inr org" "oi_OrganizationID invt = og_ID org" "oi_InvitedBy invt = us_Email u"
    "us_Role u = ''admin'' \<or> caller_role w t (og_ID org) u = ''owner''
        \<or> (caller_role w t (og_ID org) u = ''admin'' \<and> oi_Role invt \<notin> {''owner'', ''admin''})"
    unfolding keep by blast
  have "invite_target w t u req = invite_target w s u req" by (simp add: invite_target_def first_org_def same_reads [OF same])
  with o(3) have "GetOrganization s (invite_target w s u (projr body)) = Inr org" using post(2) by (simp add: same_tenancy [OF same])
  moreover have "fst (getUserFromRequest w cks s r) = Inr u" using g u by simp
  ultimately show ?thesis using o(1,2,4-6) post(1) same unfolding same_tenancy [OF same] by blast
qed

theorem invitations_guarded_witness:
  "let out = handleInvitations demo_world ''a'' ''b'' (Inr \<lparr>iq_OrganizationID = ''o1'', iq_Email = [], iq_Role = ''admin''\<rparr>)
       (\<lambda>_ _. 7) demo_tenants (demo_call ''POST'' ''/api/v1/invitations'' ''t1'')
   in rp_Status (fst out) = 201 \<and> (\<exists>u :: User. us_Role u = ''admin'' \<or> caller_role demo_world demo_tenants ''o1'' u = ''owner'')"
proof -
  let ?body = "Inr \<lparr>iq_OrganizationID = ''o1'', iq_Email = [], iq_Role = ''admin''\<rparr>"
  let ?out = "handleInvitations demo_world ''a'' ''b'' ?body (\<lambda>_ _. 7) demo_tenants (demo_call ''POST'' ''/api/v1/invitations'' ''t1'')"
  have o: "?out = (fst ?out, fst (snd ?out), snd (snd ?out))" by simp
  have "length (ms_orgInvitations (fst (snd ?out))) = 2 \<and> length (ms_orgInvitations demo_tenants) = 0" by code_simp
  then have n: "ms_orgInvitations (fst (snd ?out)) \<noteq> ms_orgInvitations demo_tenants" by auto
  have rol: "\<And>u. caller_role demo_world demo_tenants ''o1'' u = ''admin'' \<Longrightarrow> caller_role demo_world demo_tenants ''o1'' u = ''owner''"
    by (simp add: caller_role_def ListOrgMembers_def demo_tenants_def demo_world_def split: if_splits)
  have org: "GetOrganization demo_tenants ''o1'' = Inr org \<Longrightarrow> og_ID org = ''o1''" for org
    by (auto simp: GetOrganization_def demo_tenants_def mget_def demo_org_def)
  have tgt: "invite_target demo_world demo_tenants u (projr ?body) = ''o1''" for u by (simp add: invite_target_def)
  from invitations_guarded [OF o n] obtain u org where "rp_Status (fst ?out) = 201" "GetOrganization demo_tenants ''o1'' = Inr org"
      "us_Role u = ''admin'' \<or> caller_role demo_world demo_tenants (og_ID org) u = ''owner''
        \<or> caller_role demo_world demo_tenants (og_ID org) u = ''admin''"
    unfolding tgt by blast
  with rol [of u] org show ?thesis unfolding Let_def by metis
qed

section \<open>Leaks between tenants\<close>

text \<open>\<open>bob\<close> is a member of \<open>o2\<close> only; \<open>o1\<close> has an open invitation for an admin.\<close>

definition demo_stranger :: MemoryStore where
  "demo_stranger = demo_tenants\<lparr>
     ms_users := [(''u2'', demo_user\<lparr>us_ID := ''u2'', us_Email := ''bob@bolt.com'', us_Name := ''Bob''\<rparr>)],
     ms_sessions := [(''t2'', demo_session\<lparr>se_Token := ''t2'', se_UserID := ''u2'', se_ExpiresAt := unix_epoch + 500\<rparr>)],
     ms_orgMembers := [(''o2:u2'', \<lparr>om_ID = ''m2'', om_OrganizationID = ''o2'', om_UserID = ''u2'', om_Role = ''developer'', om_CreatedAt = 0\<rparr>)],
     ms_orgInvitations := [(''inv_s'', \<lparr>oi_ID = ''i1'', oi_OrganizationID = ''o1'', oi_OrgName = ''acme'', oi_Email = [], oi_Token = ''inv_s'',
        oi_Role = ''admin'', oi_InvitedBy = ''ann@acme.com'', oi_ExpiresAt = unix_epoch + 500, oi_AcceptedAt = None, oi_CreatedAt = 0\<rparr>)],
     ms_apiKeys := [], ms_apiKeysByHash := [],
     ms_flagsSnapshot := newFlagSnapshot [demo_live]\<rparr>"

fun listed_tokens :: "body \<Rightarrow> string list" where
  "listed_tokens (JSON (J_object [(_, J_invitations is)])) = map oi_Token is"
| "listed_tokens _ = []"

definition demo_list :: outcome where
  "demo_list = RequireAuth demo_world (handleInvitations demo_world [] [] (Inl (Errorf []))) (\<lambda>_ _. unix_epoch) demo_stranger
     ((demo_call ''GET'' ''/api/v1/invitations'' ''t2'')\<lparr>rq_Query := [(''organization_id'', ''o1'')]\<rparr>)"

definition demo_accept :: outcome where
  "demo_accept = RequireAuth demo_world (handleAcceptInvitation demo_world ''z'' (Inr ''inv_s'')) (\<lambda>_ _. unix_epoch) demo_stranger
     (demo_call ''POST'' ''/api/v1/invitations/accept'' ''t2'')"

lemma accept_outcome:
  assumes "getUserFromRequest w cks s r = (Inr u, t)" and "rq_Method r = ''POST''" and "GetOrgInvitation (cks 3 0) t token = Inr invt"
    and "oi_Email invt = []" and "AcceptOrgInvitation (w_rt w) (cks 4) rnd t token (us_ID u) = (Inr member, t')"
  shows "rp_Status (fst (handleAcceptInvitation w rnd (Inr token) cks s r)) = 200"
    and "fst (snd (handleAcceptInvitation w rnd (Inr token) cks s r)) = t'"
  using assms by (simp_all add: handleAcceptInvitation_def writeJSON_def setProjectCookie_def add_cookies_def Let_def split: list.splits)

lemma demo_bob:
  "getUserFromRequest demo_world (\<lambda>_ _. unix_epoch) demo_stranger (demo_call m p ''t2'') =
     (Inr (demo_user\<lparr>us_ID := ''u2'', us_Email := ''bob@bolt.com'', us_Name := ''Bob''\<rparr>), demo_stranger)"
proof -
  have "header_get (demo_call m p ''t2'') n = header_get (demo_call [] [] ''t2'') n" "rq_Cookies (demo_call m p ''t2'') = []" for n
    by (simp_all add: header_get_def demo_call_def demo_get_def)
  then have e: "api_key_header rt (demo_call m p ''t2'') = api_key_header rt (demo_call [] [] ''t2'')"
    "bearer_token rt (demo_call m p ''t2'') = bearer_token rt (demo_call [] [] ''t2'')"
    "session_cookies rt (demo_call m p ''t2'') = session_cookies rt (demo_call [] [] ''t2'')" for rt
    by (simp_all add: api_key_header_def bearer_token_def session_cookies_def demo_call_def demo_get_def)
  have "getUserFromRequest demo_world (\<lambda>_ _. unix_epoch) demo_stranger (demo_call [] [] ''t2'') =
     (Inr (demo_user\<lparr>us_ID := ''u2'', us_Email := ''bob@bolt.com'', us_Name := ''Bob''\<rparr>), demo_stranger)" by code_simp
  then show ?thesis unfolding getUserFromRequest_def e .
qed

text \<open>
  Invitations of another tenant can be read and taken. \<open>handleInvitations\<close> lists the invitations of
  whatever organization the query names, with their tokens, to any signed-in user, and an invitation
  without an address admits whoever presents its token: a user of \<open>o2\<close> reads the token of \<open>o1\<close>'s
  invitation and becomes an admin of \<open>o1\<close>.
\<close>

theorem foreign_invitation_taken:
  "GetOrgMember demo_stranger ''o1'' ''u2'' = Inl (Sentinel ErrNotFound) \<and> listed_tokens (rp_Body (fst demo_list)) = [''inv_s'']
   \<and> rp_Status (fst demo_accept) = 200
   \<and> map_sum id om_Role (GetOrgMember (fst (snd demo_accept)) ''o1'' ''u2'') = Inr ''admin''"
proof -
  let ?r = "demo_call ''POST'' ''/api/v1/invitations/accept'' ''t2''" and ?u = "demo_user\<lparr>us_ID := ''u2'', us_Email := ''bob@bolt.com'', us_Name := ''Bob''\<rparr>"
  have l: "listed_tokens (rp_Body (fst demo_list)) = [''inv_s'']" by code_simp
  have n: "GetOrgMember demo_stranger ''o1'' ''u2'' = Inl (Sentinel ErrNotFound)" by code_simp
  have m: "rq_Method ?r = ''POST''" by (simp add: demo_call_def)
  obtain invt where i: "GetOrgInvitation unix_epoch demo_stranger ''inv_s'' = Inr invt" "oi_Email invt = []"
    by (simp add: GetOrgInvitation_def demo_stranger_def mget_def Invitation_IsExpired_def)
  have "map_sum id (\<lambda>_. ()) (fst (AcceptOrgInvitation demo_runtime (\<lambda>_. unix_epoch) ''z'' demo_stranger ''inv_s'' ''u2'')) = Inr ()
    \<and> map_sum id om_Role (GetOrgMember (snd (AcceptOrgInvitation demo_runtime (\<lambda>_. unix_epoch) ''z'' demo_stranger ''inv_s'' ''u2'')) ''o1'' ''u2'') = Inr ''admin''"
    by code_simp
  then obtain mem t' where a: "AcceptOrgInvitation demo_runtime (\<lambda>_. unix_epoch) ''z'' demo_stranger ''inv_s'' ''u2'' = (Inr mem, t')"
      "map_sum id om_Role (GetOrgMember t' ''o1'' ''u2'') = Inr ''admin''"
    by (cases "AcceptOrgInvitation demo_runtime (\<lambda>_. unix_epoch) ''z'' demo_stranger ''inv_s'' ''u2''")
      (auto simp: map_sum_def split: sum.splits)
  have out: "demo_accept = handleAcceptInvitation demo_world ''z'' (Inr ''inv_s'') (\<lambda>_ _. unix_epoch) demo_stranger (?r\<lparr>rq_User := Some ?u\<rparr>)"
    unfolding demo_accept_def RequireAuth_def demo_bob by simp
  have g: "getUserFromRequest demo_world (\<lambda>_ _. unix_epoch) demo_stranger (?r\<lparr>rq_User := Some ?u\<rparr>) = (Inr ?u, demo_stranger)"
    using demo_bob by simp
  have rt: "w_rt demo_world = demo_runtime" by (simp add: demo_world_def)
  show ?thesis
    using accept_outcome [OF g, of "''inv_s''" invt "''z''" mem t'] m i a l n unfolding out rt by simp
qed

text \<open>A project created for an existing organization; the cookie does not matter for the store.\<close>

lemma create_project_outcome:
  assumes "rq_Method r = ''POST''" and "TrimSpace (w_rt w) (pq_Name req) \<noteq> []" and "pq_OrganizationID req \<noteq> []"
    and "\<not> org_refused w s (rq_User r) (pq_OrganizationID req)"
    and "CreateProject (w_rt w) (cks 1) rnd s (NewProject (w_rt w) (cks 0 0) (cks 0 1) rnd (pq_OrganizationID req) (pq_Name req)
       (pq_Slug req) (pq_Description req)) = (Inr created, t)"
  shows "fst (snd (handleCreateProject w rnd (Inr req) cks s r)) = t"
    and "rp_Status (fst (handleCreateProject w rnd (Inr req) cks s r)) = 201"
  using assms by (simp_all add: handleCreateProject_def setProjectCookie_def writeJSON_def Let_def)

definition demo_slug_project :: ProjectRequest where
  "demo_slug_project = \<lparr>pq_OrganizationID = ''o2'', pq_Name = ''Mine'', pq_Slug = ''p1'', pq_Description = []\<rparr>"

definition demo_create :: outcome where
  "demo_create = RequireAuth demo_world (handleCreateProject demo_world ''abcdefgh'' (Inr demo_slug_project)) (\<lambda>_ _. unix_epoch) demo_stranger
     (demo_call ''POST'' ''/api/v1/projects'' ''t2'')"

definition demo_read :: "MemoryStore \<Rightarrow> Response" where
  "demo_read s = fst (RequireAuth demo_world (handleGetFlags demo_world) (\<lambda>_ _. unix_epoch) s
     ((demo_get [(''Authorization'', ''Bearer t2''), (''X-Project-ID'', ''p1'')])))"

definition demo_slugged :: MemoryStore where
  "demo_slugged = snd (CreateProject demo_runtime (\<lambda>_. unix_epoch) ''abcdefgh'' demo_stranger
     (NewProject demo_runtime unix_epoch unix_epoch ''abcdefgh'' ''o2'' ''Mine'' ''p1'' []))"

lemma demo_create_run: "fst (snd demo_create) = demo_slugged" "rp_Status (fst demo_create) = 201"
proof -
  let ?u = "demo_user\<lparr>us_ID := ''u2'', us_Email := ''bob@bolt.com'', us_Name := ''Bob''\<rparr>"
  let ?r = "(demo_call ''POST'' ''/api/v1/projects'' ''t2'')\<lparr>rq_User := Some ?u\<rparr>"
  let ?c = "CreateProject demo_runtime (\<lambda>_. unix_epoch) ''abcdefgh'' demo_stranger
     (NewProject demo_runtime unix_epoch unix_epoch ''abcdefgh'' ''o2'' ''Mine'' ''p1'' [])"
  have "\<not> isl (fst ?c)" by code_simp
  then obtain x where c: "?c = (Inr x, demo_slugged)" unfolding demo_slugged_def by (metis prod.collapse sum.collapse(2))
  have n: "\<not> org_refused demo_world demo_stranger (Some ?u) ''o2''" by code_simp
  have t: "TrimSpace demo_runtime ''Mine'' \<noteq> []" by code_simp
  have out: "demo_create = handleCreateProject demo_world ''abcdefgh'' (Inr demo_slug_project) (\<lambda>_ _. unix_epoch) demo_stranger ?r"
    unfolding demo_create_def RequireAuth_def demo_bob by simp
  have rt: "w_rt demo_world = demo_runtime" by (simp add: demo_world_def)
  have m: "rq_Method ?r = ''POST''" by (simp add: demo_call_def)
  show "fst (snd demo_create) = demo_slugged" "rp_Status (fst demo_create) = 201"
    using create_project_outcome [of ?r demo_world demo_slug_project demo_stranger "\<lambda>_ _. unix_epoch" "''abcdefgh''" x demo_slugged] m c n t
    unfolding out rt by (simp_all add: demo_slug_project_def)
qed

text \<open>
  A slug opens a foreign project. The store files a new project under its bare slug as well as under
  its ID, and does not look whether the slug is another project's ID: a user of \<open>o2\<close> who is refused the
  project \<open>p1\<close> of \<open>o1\<close> creates a project of \<open>o2\<close> with the slug \<open>p1\<close>, and then reads the flags of \<open>p1\<close>.
\<close>

theorem slug_opens_project:
  "rp_Status (demo_read demo_stranger) = 403 \<and> rp_Status (fst demo_create) = 201
   \<and> rp_Body (demo_read (fst (snd demo_create))) = JSON (J_object [(''project_id'', J_string ''p1''),
        (''flags'', J_flags (ListFlagsByProject demo_stranger ''p1'')), (''count'', J_int 1), (''timestamp'', J_time unix_epoch)])"
proof -
  have 1: "rp_Status (demo_read demo_stranger) = 403" by code_simp
  have 2: "rp_Body (demo_read demo_slugged) = JSON (J_object [(''project_id'', J_string ''p1''),
        (''flags'', J_flags (ListFlagsByProject demo_stranger ''p1'')), (''count'', J_int 1), (''timestamp'', J_time unix_epoch)])"
    by code_simp
  from 1 2 show ?thesis unfolding demo_create_run by simp
qed

end
