(* ===== verification/Api_Audit.thy ===== *)
theory Api_Audit
  imports Api_Flags Config Serving
begin

text \<open>
  Audit logs and the alert webhook over HTTP: \<open>src/pkg/api/handlers_audit.go\<close> (verification, export,
  purge) and \<open>handleGetAuditLogs\<close> and \<open>handleWebhookKillSwitch\<close> of \<open>handlers_admin.go\<close>. \<open>parse\<close> is
  \<open>time.Parse\<close> with the layout RFC 3339 (which also accepts fractions of a second, so the second
  attempt with \<open>RFC3339Nano\<close> never succeeds where the first fails). CSV is written out as \<open>encoding/csv\<close>
  does it.
\<close>

section \<open>CSV\<close>

definition sanitizeCSVCell :: "runtime \<Rightarrow> string \<Rightarrow> string" where
  "sanitizeCSVCell rt val =
     (case TrimSpace rt val of
        c # _ \<Rightarrow> if c \<in> {CHR ''='', CHR ''+'', CHR ''-'', CHR ''@''} then CHR 0x27 # val else val
      | [] \<Rightarrow> val)"

text \<open>A field is quoted when it holds a comma, a quote or a line break, starts with a space, or is \<open>\.\<close>.\<close>

definition leading_space :: "runtime \<Rightarrow> string \<Rightarrow> bool" where
  "leading_space rt s = (TrimSpace rt (s @ ''x'') \<noteq> s @ ''x'')"

definition fieldNeedsQuotes :: "runtime \<Rightarrow> string \<Rightarrow> bool" where
  "fieldNeedsQuotes rt f =
     (f \<noteq> [] \<and> (f = [CHR 0x5C, CHR ''.''] \<or> list_ex (\<lambda>c. c \<in> {CHR 0x0A, CHR 0x0D, CHR 0x22, CHR '',''}) f \<or> leading_space rt f))"

definition csv_field :: "runtime \<Rightarrow> string \<Rightarrow> string" where
  "csv_field rt f =
     (if fieldNeedsQuotes rt f then [CHR 0x22] @ concat (map (\<lambda>c. if c = CHR 0x22 then [c, c] else [c]) f) @ [CHR 0x22] else f)"

definition csv_row :: "runtime \<Rightarrow> string list \<Rightarrow> string" where
  "csv_row rt row = Join (map (csv_field rt) row) '','' @ [CHR 0x0A]"

definition csv_header :: "string list" where
  "csv_header = [''id'', ''project_id'', ''timestamp'', ''actor'', ''action'', ''flag_key'', ''environment'', ''details'', ''prev_hash'', ''entry_hash'']"

definition audit_row :: "runtime \<Rightarrow> AuditLogEntry \<Rightarrow> string list" where
  "audit_row rt l = [sanitizeCSVCell rt (al_ID l), sanitizeCSVCell rt (al_ProjectID l), rfc3339nano (al_Timestamp l),
     sanitizeCSVCell rt (al_Actor l), sanitizeCSVCell rt (al_Action l), sanitizeCSVCell rt (al_FlagKey l),
     sanitizeCSVCell rt (al_Environment l), sanitizeCSVCell rt (al_Details l), sanitizeCSVCell rt (al_PrevHash l),
     sanitizeCSVCell rt (al_EntryHash l)]"

section \<open>Handlers\<close>

definition handleGetAuditLogs :: "world \<Rightarrow> clocks \<Rightarrow> MemoryStore \<Rightarrow> Request \<Rightarrow> outcome" where
  "handleGetAuditLogs w cks s r =
     (let l = query_get r ''limit'';
          limit = (if l \<noteq> [] then (case Atoi l of Some val \<Rightarrow> val | None \<Rightarrow> 50) else 50);
          (projectID, r, s) = resolveProjectID w cks s r;
          logs = ListAuditLogsByProject s projectID limit
      in (encodeJSON 200 (J_object [(''project_id'', J_string projectID), (''logs'', J_audits logs),
            (''total'', J_int (int (length logs)))]), s, []))"

definition handleVerifyAuditChain :: "world \<Rightarrow> clocks \<Rightarrow> MemoryStore \<Rightarrow> Request \<Rightarrow> outcome" where
  "handleVerifyAuditChain w cks s r =
     (if rq_Method r \<noteq> ''GET'' then (MethodNotAllowed, s, [])
      else case resolveAndAuthorizeProjectID w cks s r of
        (Inl err, r, s) \<Rightarrow> fail r s err
      | (Inr projectID, r, s) \<Rightarrow>
          (writeJSON 200 (J_integrity (VerifyAuditLogIntegrity (w_rt w) (cks 8 0) s projectID)), s, []))"

definition bad_request :: "string \<Rightarrow> gerror option \<Rightarrow> gerror" where
  "bad_request msg cause = NewAppError 6006 msg 400 cause"

text \<open>A query parameter that holds a time: absent, parsed, or malformed.\<close>

definition query_time :: "(string \<Rightarrow> gtime result) \<Rightarrow> Request \<Rightarrow> string \<Rightarrow> gtime option result" where
  "query_time parse r name =
     (if query_get r name = [] then Inr None
      else (case parse (query_get r name) of
              Inr t \<Rightarrow> Inr (Some t)
            | Inl err \<Rightarrow> Inl (bad_request (''invalid '' @ quoted name @ '' timestamp: must be RFC3339'') (Some err))))"

definition export_limit :: "Request \<Rightarrow> int" where
  "export_limit r =
     (let lStr = query_get r ''limit'';
          limit = (if lStr \<noteq> [] then (case Atoi lStr of Some val \<Rightarrow> if val > 0 then val else 1000 | None \<Rightarrow> 1000) else 1000)
      in min 10000 limit)"

definition export_body :: "runtime \<Rightarrow> string \<Rightarrow> AuditLogEntry list \<Rightarrow> string \<times> body" where
  "export_body rt format logs =
     (if format = ''csv'' then (''text/csv; charset=utf-8'', Text (concat (map (csv_row rt) (csv_header # map (audit_row rt) logs))))
      else if format = ''json'' then (''application/json; charset=utf-8'', JSON (J_audits logs))
      else (''application/x-ndjson; charset=utf-8'', Lines (map (\<lambda>l. J_audit (Some l)) logs)))"

definition handleExportAuditLogs :: "world \<Rightarrow> (string \<Rightarrow> gtime result) \<Rightarrow> clocks \<Rightarrow> MemoryStore \<Rightarrow> Request \<Rightarrow> outcome" where
  "handleExportAuditLogs w parse cks s r =
     (if rq_Method r \<noteq> ''GET'' then (MethodNotAllowed, s, [])
      else case resolveAndAuthorizeProjectID w cks s r of
        (Inl err, r, s) \<Rightarrow> fail r s err
      | (Inr projectID, r, s) \<Rightarrow>
          (let format = ToLower (w_rt w) (TrimSpace (w_rt w) (query_get r ''format''));
               format = (if format = [] then ''csv'' else format)
           in if format \<notin> {''csv'', ''json'', ''ndjson''} then
                fail r s (bad_request (''unsupported export format: must be '' @ quoted ''csv'' @ '', '' @ quoted ''json'' @ '', or ''
                  @ quoted ''ndjson'') None)
              else (case query_time parse r ''from'' of
                 Inl err \<Rightarrow> fail r s err
               | Inr from \<Rightarrow>
                   (case query_time parse r ''to'' of
                      Inl err \<Rightarrow> fail r s err
                    | Inr to \<Rightarrow>
                        (let (ctype, b) = export_body (w_rt w) format (ExportAuditLogs s projectID from to (export_limit r))
                         in (\<lparr>rp_Status = 200, rp_Header = [(''Cache-Control'', ''no-store''), (''Content-Type'', ctype),
                               (''Content-Disposition'', ''attachment; filename='' @ [CHR 0x22] @ ''audit_logs_'' @ projectID @ ''_''
                                 @ Itoa (Unix (cks 8 0)) @ ''.'' @ format @ [CHR 0x22])], rp_Cookies = [], rp_Body = b\<rparr>, s, []))))))"

text \<open>The body of a purge as the decoder left it, and the cut-off it asks for; \<open>None\<close> is the zero time.\<close>

record PurgeRequest =
  pg_Before :: "gtime option"
  pg_RetentionDays :: int

definition add_days :: "gtime \<Rightarrow> int \<Rightarrow> gtime" where
  "add_days t n = t + n * 24 * Hour"

definition purge_before :: "world \<Rightarrow> (string \<Rightarrow> gtime result) \<Rightarrow> gtime \<Rightarrow> PurgeRequest \<Rightarrow> Request \<Rightarrow> gtime" where
  "purge_before w parse now req r =
     (let ret = query_get r ''retention_days'';
          days = (if pg_RetentionDays req \<le> 0 \<and> ret \<noteq> [] then
                    (case Atoi ret of Some val \<Rightarrow> if val > 0 then val else pg_RetentionDays req | None \<Rightarrow> pg_RetentionDays req)
                  else pg_RetentionDays req);
          bf = (case pg_Before req of
                  Some t \<Rightarrow> Some t
                | None \<Rightarrow> if query_get r ''before'' \<noteq> [] then (case parse (query_get r ''before'') of Inr t \<Rightarrow> Some t | Inl _ \<Rightarrow> None) else None);
          env = w_getenv w ''FLAGURA_AUDIT_RETENTION_DAYS''
      in if days > 0 then add_days now (- days)
         else case bf of
           Some t \<Rightarrow> t
         | None \<Rightarrow> if env \<noteq> [] then (case Atoi env of Some d \<Rightarrow> if d > 0 then add_days now (- d) else 0 | None \<Rightarrow> 0) else 0)"

definition rfc3339 :: "gtime \<Rightarrow> string" where
  "rfc3339 t = rfc3339nano (t - t mod Second)"

definition handlePurgeAuditLogs :: "world \<Rightarrow> (string \<Rightarrow> gtime result) \<Rightarrow> PurgeRequest \<Rightarrow> clocks \<Rightarrow> MemoryStore \<Rightarrow> Request \<Rightarrow> outcome" where
  "handlePurgeAuditLogs w parse req cks s r =
     (if rq_Method r \<noteq> ''POST'' then (MethodNotAllowed, s, [])
      else case resolveAndAuthorizeProjectID w cks s r of
        (Inl err, r, s) \<Rightarrow> fail r s err
      | (Inr projectID, r, s) \<Rightarrow>
          if rq_User r \<noteq> None \<and> \<not> IsPrivileged (rq_User r) then
            fail r s (NewAppError 1002 ''Admin or Owner role required to purge audit logs'' 403 None)
          else
            (let actor = getActorFromRequest r ''admin@flagura.dev'';
                 before = purge_before w parse (cks 8 0) req r
             in if IsZero before then
                  fail r s (bad_request (quoted ''retention_days'' @ '' or '' @ quoted ''before'' @ '' timestamp is required'') None)
                else if cks 8 1 < before then fail r s (bad_request ''cannot purge audit logs with a future timestamp'' None)
                else
                  (let (purgedCount, s) = PurgeAuditLogs s projectID before;
                       purgeAudit = zero_audit\<lparr>al_ProjectID := projectID, al_FlagKey := ''audit-logs'', al_Action := ''AUDIT_LOGS_PURGED'',
                         al_Environment := ''all'', al_Actor := actor, al_Timestamp := cks 9 0,
                         al_Details := ''Purged '' @ Itoa purgedCount @ '' audit logs before '' @ rfc3339 before\<rparr>;
                       (_, s) = AppendAuditLog (w_rt w) (cks 9 1) s purgeAudit
                   in (writeJSON 200 (J_object [(''purged_count'', J_int purgedCount), (''project_id'', J_string projectID),
                         (''before'', J_string (rfc3339 before)), (''purged_at'', J_string (rfc3339 (cks 9 2)))]), s, []))))"

section \<open>The alert webhook\<close>

definition webhook_token :: "Request \<Rightarrow> string" where
  "webhook_token r =
     (let authHeader = header_get r ''Authorization'';
          token = (if HasPrefix authHeader ''Bearer '' then TrimPrefix authHeader ''Bearer '' else []);
          token = (if token = [] then header_get r ''X-Webhook-Secret'' else token);
          token = (if token = [] then header_get r ''X-API-Key'' else token)
      in if token = [] then query_get r ''token'' else token)"

abbreviation (input) "KillSwitchPrefix \<equiv> ''/api/v1/webhooks/kill-switch/''"

definition handleWebhookKillSwitch :: "world \<Rightarrow> clocks \<Rightarrow> MemoryStore \<Rightarrow> Request \<Rightarrow> outcome" where
  "handleWebhookKillSwitch w cks s r =
     (if rq_Method r \<noteq> ''POST'' then (MethodNotAllowed, s, [])
      else
        (let secret = w_getenv w ''FLAGURA_WEBHOOK_SECRET'';
             provided = webhook_token r;
             secretAuth = (secret \<noteq> [] \<and> provided \<noteq> [] \<and> provided = secret);
             sessionAuth = (\<not> secretAuth \<and> provided \<noteq> [] \<and> secret = [] \<and>
               (case GetSession (cks 12 0) s provided of Inr sess \<Rightarrow> \<not> Session_IsExpired (cks 12 1) sess | Inl _ \<Rightarrow> False));
             (apiKey, s) = getAPIKeyFromRequest w (cks 13) s r;
             (user, s) = getUserFromRequest w (later 14 cks) s r
         in if \<not> secretAuth \<and> \<not> sessionAuth \<and> apiKey = None \<and> isl user then
              (encodeJSON 401 (auth_message ''Unauthorized''
                 ''Webhook authentication failed. Provide a valid Bearer token, X-Webhook-Secret header, or active session.''), s, [])
            else
              (let key = TrimSpace (w_rt w) (hd (Split (TrimPrefix (rq_Path r) KillSwitchPrefix) (CHR ''/''))) in
               if key = [] then (http_Error ''flag key is required in url path'' 400, s, [])
               else
                 (let env = (if query_get r ''env'' = [] then ''production'' else query_get r ''env'') in
                  (case (if secretAuth
                         then (case resolveProjectID w cks s r of (p, r, s) \<Rightarrow> (Inr (if p = [] then DefaultProjectID else p), r, s))
                         else resolveAndAuthorizeProjectID w cks s r) of
                     (Inl err, r, s) \<Rightarrow> fail r s err
                   | (Inr projectID, r, s) \<Rightarrow>
                           if key_blocks apiKey env then fail r s (env_restricted (the apiKey) ''modify'' env)
                           else
                             (case ToggleFlagByProject (w_rt w) (cks 9) s projectID key env (Some False)
                                     (getActorFromRequest r ''webhook-alert-automation'') of
                                (Inl err, s) \<Rightarrow> fail r s (flag_missing (''Flag not found or failed to disable: '' @ Error err))
                              | (Inr (flag, lg), s) \<Rightarrow>
                                  (encodeJSON 200 (J_object [(''status'', J_string ''kill_switch_engaged''), (''flag_key'', J_string (ff_Key flag)),
                                     (''environment'', J_string env), (''enabled'', J_bool False), (''audit'', J_audit (Some lg))]),
                                   s, [Publish (broadcastCurrentFlags (cks 10 0) s (ff_ProjectID flag) env)])))))))"


section \<open>What a cell starts with\<close>

text \<open>A spreadsheet takes a cell for a formula when its first character that is not a space is one of these.\<close>

definition formula_cell :: "string \<Rightarrow> bool" where
  "formula_cell c = (case dropWhile isSpace c of x # _ \<Rightarrow> x \<in> {CHR ''='', CHR ''+'', CHR ''-'', CHR ''@''} | [] \<Rightarrow> False)"

lemma trim_while_head: "trim_while P s = c # cs \<Longrightarrow> \<exists>t. dropWhile P s = c # t"
proof -
  let ?d = "dropWhile P s"
  assume "trim_while P s = c # cs"
  moreover have "?d = trim_while P s @ rev (takeWhile P (rev ?d))"
    unfolding trim_while_def by (metis rev_append rev_rev_ident takeWhile_dropWhile_id)
  ultimately show ?thesis by (metis append_Cons)
qed

lemma trim_while_Nil: "trim_while P s = [] \<Longrightarrow> dropWhile P s = []"
proof -
  assume "trim_while P s = []"
  then have all: "\<forall>x \<in> set (dropWhile P s). P x" by (simp add: trim_while_def)
  show ?thesis
  proof (rule ccontr)
    assume n: "dropWhile P s \<noteq> []"
    then have "\<not> P (hd (dropWhile P s))" by (rule hd_dropWhile)
    with all n show False by simp
  qed
qed

lemma sanitize_inert:
  assumes "isASCII v"
  shows "\<not> formula_cell (sanitizeCSVCell rt v)"
proof (cases "trim_while isSpace v")
  case Nil
  then show ?thesis using assms by (simp only: sanitizeCSVCell_def TrimSpace_def formula_cell_def trim_while_Nil [OF Nil] if_True list.case simp_thms)
next
  case (Cons c cs)
  from trim_while_head [OF Cons] Cons assms show ?thesis
    by (auto simp: sanitizeCSVCell_def TrimSpace_def formula_cell_def isSpace_def byte_of_def)
qed


lemma digit_inert: "digit_val 10 c = Some d \<Longrightarrow> \<not> formula_cell (c # r)"
  by (auto simp: formula_cell_def isSpace_def byte_of_def digit_val_def lower_char_def Let_def split: if_splits)

lemma pad0_inert:
  assumes "0 \<le> n"
  shows "\<not> formula_cell (pad0 w n @ r)"
proof -
  obtain c cs where c: "show_base 10 n = c # cs" using show_base_nonempty by (meson neq_Nil_conv)
  have "digit_val 10 c \<noteq> None" using digits_value_show [OF assms] c by (auto split: option.splits)
  moreover have "digit_val 10 (CHR ''0'') = Some 0" by code_simp
  ultimately show ?thesis
    by (cases "w - length (show_base 10 n)") (auto simp: pad0_def c Let_def dest: digit_inert)
qed

lemma civil_year_nonneg:
  assumes "0 \<le> y0" and "0 \<le> d0"
  shows "0 \<le> fst (civil_year y0 d0)"
proof -
  define c where "c = min 3 (d0 div 36524)"
  define d1 where "d1 = d0 - c * 36524"
  define q where "q = d1 div 1461"
  define d2 where "d2 = d1 - q * 1461"
  have "c * 36524 \<le> d0 div 36524 * 36524" by (simp add: c_def)
  also have "\<dots> \<le> d0" using minus_mod_eq_div_mult [of d0 36524] pos_mod_sign [of 36524 d0] by simp
  finally have "0 \<le> d1" by (simp add: d1_def)
  then have "0 \<le> q" by (simp add: q_def pos_imp_zdiv_nonneg_iff)
  moreover have "0 \<le> c" using assms(2) by (simp add: c_def pos_imp_zdiv_nonneg_iff)
  moreover have "0 \<le> d2" by (simp add: d2_def q_def minus_div_mult_eq_mod)
  then have "0 \<le> min 3 (d2 div 365)" by (simp add: pos_imp_zdiv_nonneg_iff)
  moreover have "fst (civil_year y0 d0) = y0 + 100 * c + 4 * q + min 3 (d2 div 365)"
    unfolding civil_year_def Let_def fst_conv c_def d1_def q_def d2_def ..
  ultimately show ?thesis using assms(1) by linarith
qed

lemma year_nonneg: "0 \<le> d \<Longrightarrow> 0 \<le> fst (date_of_day d)"
  unfolding date_of_day_def by (intro civil_year_nonneg) (simp_all add: pos_imp_zdiv_nonneg_iff)

lemma timestamp_inert: "0 \<le> t \<Longrightarrow> \<not> formula_cell (rfc3339nano t)"
proof -
  assume "0 \<le> t"
  then have n: "0 \<le> fst (date_of_day (t div Second div 86400))"
    by (intro year_nonneg) (simp add: Second_def pos_imp_zdiv_nonneg_iff)
  obtain y yd where y: "date_of_day (t div Second div 86400) = (y, yd)" by fastforce
  obtain mo dd where m: "month_of [31, if is_leap y then 29 else 28, 31, 30, 31, 30, 31, 31, 30, 31, 30] 1 yd = (mo, dd)" by fastforce
  have "\<not> y < 0" using n y by simp
  then show ?thesis unfolding rfc3339nano_def Let_def y m prod.case by (simp add: pad0_inert)
qed

text \<open>
  An audit log opened in a spreadsheet runs no formula. Every cell of an exported row, whatever
  an actor, a flag key or the details hold, starts with no character that makes it a formula, spaces
  skipped.
\<close>

theorem csv_cells_inert:
  assumes "list_all isASCII [al_ID l, al_ProjectID l, al_Actor l, al_Action l, al_FlagKey l, al_Environment l, al_Details l,
      al_PrevHash l, al_EntryHash l]"
    and "0 \<le> al_Timestamp l" and "c \<in> set (audit_row rt l)"
  shows "\<not> formula_cell c"
  using assms by (auto simp: audit_row_def timestamp_inert sanitize_inert)

theorem csv_cells_inert_witness:
  "audit_row demo_runtime (zero_audit\<lparr>al_Actor := '' =cmd''\<rparr>) ! 3 = CHR 0x27 # '' =cmd''
   \<and> \<not> formula_cell (audit_row demo_runtime (zero_audit\<lparr>al_Actor := '' =cmd''\<rparr>) ! 3)"
proof -
  have "list_all isASCII [[], [], '' =cmd'']" by code_simp
  then show ?thesis
    by (auto intro!: csv_cells_inert [of "zero_audit\<lparr>al_Actor := '' =cmd''\<rparr>", where rt = demo_runtime]
      simp: zero_audit_def nth_mem audit_row_def) code_simp+
qed

section \<open>Purging twice\<close>

lemma append_known_id:
  assumes "\<exists>l \<in> set (ms_auditLogs s). al_ID l = al_ID e \<and> al_ProjectID l = or_project (al_ProjectID e)"
  shows "snd (appendAuditLogLocked rt now s e) = s"
proof -
  have "find (\<lambda>l. al_ID l = al_ID e \<and> al_ProjectID l = or_project (al_ProjectID e)) (ms_auditLogs s) \<noteq> None"
    using assms by (auto simp: find_None_iff)
  then show ?thesis by (auto simp: appendAuditLogLocked_def Let_def)
qed

text \<open>
  Only the first purge of a project is on record. The handler builds its audit entry without an
  id, and the store takes an entry whose id and project it already has for a repetition: when the
  entry of an earlier purge survives, a successful purge removes the old entries and adds none.
\<close>

theorem second_purge_unrecorded:
  assumes "handlePurgeAuditLogs w parse req cks s r = (resp, s', eff)" and "rp_Status resp = 200"
    and "resolveAndAuthorizeProjectID w cks s r = (Inr p, r', s1)"
    and "l \<in> set (ms_auditLogs s)" and "al_ID l = []" and "al_ProjectID l = or_project p"
    and "purge_before w parse (cks 8 0) req r' \<le> al_Timestamp l"
  shows "ms_auditLogs s' = filter (\<lambda>e. \<not> purged (or_project p) (purge_before w parse (cks 8 0) req r') e) (ms_auditLogs s)"
proof -
  from resolve_request [OF assms(3)] obtain u where r': "r' = r\<lparr>rq_User := u\<rparr>" by blast
  note same = same_fields [OF resolve_same [OF assms(3)]]
  let ?b = "purge_before w parse (cks 8 0) req r'"
  have "l \<in> set (ms_auditLogs (snd (PurgeAuditLogs s1 p ?b)))"
    using assms(4,7) by (simp add: PurgeAuditLogs_def Let_def same purged_def)
  moreover obtain n s2 where q: "PurgeAuditLogs s1 p ?b = (n, s2)" by fastforce
  ultimately have a: "snd (AppendAuditLog rt now s2 e) = s2" if "al_ID e = []" "al_ProjectID e = p" for rt now e
    using assms(5,6) that append_known_id [of s2 e] by (auto simp: AppendAuditLog_def Let_def split_def)
  then have a': "AppendAuditLog rt now s2 e = (x, t) \<Longrightarrow> al_ID e = [] \<Longrightarrow> al_ProjectID e = p \<Longrightarrow> t = s2" for rt now e x t
    by (metis snd_conv)
  have st: "s' = s2"
    using assms(1,2) unfolding handlePurgeAuditLogs_def assms(3) prod.case sum.case Let_def q
    by (auto simp: fail_def bad_request_def zero_audit_def MethodNotAllowed_def http_Error_def respond_def
      split: if_splits prod.splits elim!: a')
  show ?thesis using q unfolding st by (auto simp: PurgeAuditLogs_def Let_def same)
qed


definition demo_purged :: MemoryStore where
  "demo_purged = demo_tenants\<lparr>ms_auditLogs := [zero_audit\<lparr>al_ProjectID := ''p1'', al_Action := ''AUDIT_LOGS_PURGED'', al_Timestamp := 9\<rparr>,
     zero_audit\<lparr>al_ID := ''a'', al_ProjectID := ''p1'', al_Timestamp := 1\<rparr>]\<rparr>"

theorem second_purge_unrecorded_witness:
  "map al_ID (ms_auditLogs (fst (snd (handlePurgeAuditLogs demo_world (\<lambda>_. Inr 0) \<lparr>pg_Before = Some 5, pg_RetentionDays = 0\<rparr> (\<lambda>_ _. 10) demo_purged
     (demo_call ''POST'' ''/api/v1/audit-logs/purge'' ''sk''))))) = [[]]"
proof -
  let ?req = "\<lparr>pg_Before = Some 5, pg_RetentionDays = 0\<rparr>" and ?r = "demo_call ''POST'' ''/api/v1/audit-logs/purge'' ''sk''"
  let ?out = "handlePurgeAuditLogs demo_world (\<lambda>_. Inr 0) ?req (\<lambda>_ _. 10) demo_purged ?r"
  let ?res = "resolveAndAuthorizeProjectID demo_world (\<lambda>_ _. 10) demo_purged ?r"
  have "fst ?res = Inr ''p1''" by code_simp
  then obtain r' s1 where r: "?res = (Inr ''p1'', r', s1)" by (metis prod_cases3 fst_conv)
  have "rp_Status (fst ?out) = 200" by code_simp
  then obtain resp s' eff where o: "?out = (resp, s', eff)" "rp_Status resp = 200" by (metis prod_cases3 fst_conv)
  have q: "query_get r' ''retention_days'' = []"
    using resolve_request [OF r] by (auto simp: query_get_def demo_call_def demo_get_def)
  have b: "purge_before demo_world (\<lambda>_. Inr 0) 10 ?req r' = 5" by (simp add: purge_before_def q Let_def)
  from second_purge_unrecorded [OF o r, of "zero_audit\<lparr>al_ProjectID := ''p1'', al_Action := ''AUDIT_LOGS_PURGED'', al_Timestamp := 9\<rparr>"]
  show ?thesis using o b by (simp add: demo_purged_def zero_audit_def or_project_def purged_def)
qed


section \<open>What an alert does\<close>

text \<open>A toggle to off, in a project given or defaulted.\<close>

lemma toggle_off:
  assumes t: "ToggleFlagByProject rt clk s p k env (Some False) actor = (Inr (flag, lg), s')" and ok: "snap_ok s" and e: "env \<noteq> []"
  shows "ff_ProjectID flag = or_project p"
    and "\<exists>f \<in> set (fs_list (ms_flagsSnapshot s')). flag_matches (or_project p) k f"
    and "f \<in> set (fs_list (ms_flagsSnapshot s')) \<Longrightarrow> flag_matches (or_project p) k f \<Longrightarrow>
      \<exists>g u. f = normalize_flag (set_env env ((EnvConfig g env)\<lparr>ec_Enabled := False\<rparr>) u g)"
proof -
  let ?l = "fs_list (ms_flagsSnapshot s)" and ?l' = "fs_list (ms_flagsSnapshot s')" and ?p = "or_project p"
  have idem: "or_project (or_project p) = or_project p" by (simp add: or_project_def)
  have t': "ToggleFlagByProject rt clk s ?p k env (Some False) actor = (Inr (flag, lg), s')"
    using t unfolding ToggleFlagByProject_def idem .
  have p: "?p \<noteq> []" by (simp add: or_project_def)
  note rel = toggling.related [OF t' ok p e]
  from rel show "f \<in> set ?l' \<Longrightarrow> flag_matches ?p k f \<Longrightarrow>
      \<exists>g u. f = normalize_flag (set_env env ((EnvConfig g env)\<lparr>ec_Enabled := False\<rparr>) u g)"
    by (fastforce simp: list_all2_conv_all_nth in_set_conv_nth)
  from toggling.finds [OF t' ok p e] rel show "\<exists>f \<in> set ?l'. flag_matches ?p k f"
    by (fastforce simp: list_all2_conv_all_nth in_set_conv_nth)
  let ?r = "update_loop (flag_matches ?p k) (toggle_update clk ?p env (Some False) (if actor = [] then ''admin@flagura.dev'' else actor)) 0 ?l"
  have "finish_update rt (clk (3 * length ?l)) ?p k ?r s = (Inr (flag, lg), s')"
    using t' e unfolding ToggleFlagByProject_def idem Let_def by simp
  from finish_update_cases [OF this] obtain lg' where "snd ?r = Some (flag, lg')" by auto
  from update_loop_Some [OF this] obtain j where j: "j < length ?l" "flag_matches ?p k (?l ! j)"
      "ff_ProjectID flag = ff_ProjectID (?l ! j)" by (auto simp: toggle_update_def set_env_def Let_def)
  then show "ff_ProjectID flag = ?p"
    using snap_ok_flag(2) [OF ok, of "?l ! j"] by (auto simp: flag_matches_def or_project_def)
qed

lemma resolveProjectID_same: "resolveProjectID w cks s r = (p, r', s') \<Longrightarrow> same_but_usage s s'"
  unfolding resolveProjectID_def
  by (cases "resolveAndAuthorizeProjectID w cks s r"; cases "fst (resolveAndAuthorizeProjectID w cks s r)")
    (auto dest: resolve_same)

lemma webhook_toggles:
  assumes "handleWebhookKillSwitch w cks s r = (resp, s', eff)" and "rp_Status resp = 200"
  defines "env \<equiv> if query_get r ''env'' = [] then ''production'' else query_get r ''env''"
    and "key \<equiv> TrimSpace (w_rt w) (hd (Split (TrimPrefix (rq_Path r) ''/api/v1/webhooks/kill-switch/'') (CHR ''/'')))"
  shows "\<exists>p t actor flag lg. same_but_usage s t \<and> ToggleFlagByProject (w_rt w) (cks 9) t p key env (Some False) actor = (Inr (flag, lg), s')
    \<and> eff = [Publish (broadcastCurrentFlags (cks 10 0) s' (ff_ProjectID flag) env)]"
proof -
  let ?sec = "w_getenv w ''FLAGURA_WEBHOOK_SECRET''" and ?tok = "webhook_token r"
  obtain k s1 where k: "getAPIKeyFromRequest w (cks 13) s r = (k, s1)" by fastforce
  obtain u s2 where u: "getUserFromRequest w (later 14 cks) s1 r = (u, s2)" by fastforce
  let ?ok = "?sec \<noteq> [] \<and> ?tok \<noteq> [] \<and> ?tok = ?sec"
  let ?res = "if ?ok
     then (case resolveProjectID w cks s2 r of (p, r, s) \<Rightarrow> (Inr (if p = [] then DefaultProjectID else p), r, s))
     else resolveAndAuthorizeProjectID w cks s2 r"
  obtain q r0 s0 where q: "resolveProjectID w cks s2 r = (q, r0, s0)" by (rule prod_cases3)
  obtain res r3 s3 where res: "?res = (res, r3, s3)" by (rule prod_cases3)
  have r: "same_but_usage s2 s3 \<and> (\<forall>e. res = Inl e \<longrightarrow> 400 \<le> app_status e)"
  proof (cases ?ok)
    case True
    then show ?thesis using res resolveProjectID_same [OF q] unfolding q by auto
  next
    case False
    then have "resolveAndAuthorizeProjectID w cks s2 r = (res, r3, s3)" using res by argo
    then show ?thesis using resolve_same resolve_error by blast
  qed
  have same: "same_but_usage s s3"
    using same_trans [OF same_trans [OF getAPIKey_spec(1) [OF k] getUser_same [OF u]] conjunct1 [OF r]] .
  obtain x s4 where x: "ToggleFlagByProject (w_rt w) (cks 9) s3 (projr res) key env (Some False) (getActorFromRequest r3 ''webhook-alert-automation'') = (x, s4)"
    by fastforce
  have "\<exists>flag lg. x = Inr (flag, lg) \<and> s4 = s' \<and> eff = [Publish (broadcastCurrentFlags (cks 10 0) s' (ff_ProjectID flag) env)]"
    using assms(1,2) r x unfolding handleWebhookKillSwitch_def k u Let_def prod.case env_def [symmetric] key_def [symmetric] res
    by (cases res; cases x)
      (auto simp: fail_def env_restricted_def flag_missing_def MethodNotAllowed_def http_Error_def respond_def encodeJSON_def split: if_splits)
  with same x show ?thesis by blast
qed


definition demo_alert :: outcome where
  "demo_alert = handleWebhookKillSwitch (demo_world\<lparr>w_getenv := \<lambda>_. ''shh''\<rparr>) (\<lambda>_ _. 7) demo_api
     ((demo_call ''POST'' ''/api/v1/webhooks/kill-switch/pay'' ''shh'')\<lparr>rq_Header := [(''Authorization'', ''Bearer shh''), (''X-Project-ID'', ''p1'')]\<rparr>)"


end
