(* ===== verification/Backup.thy ===== *)
theory Backup
  imports Api_Flags Store_Machine
begin

text \<open>
  Snapshots: \<open>src/pkg/store/backup.go\<close> over the in-memory store and \<open>src/pkg/api/handlers_backup.go\<close>.
  A snapshot travels as JSON, optionally compressed; the fields of the entities in it survive that
  trip except \<open>PasswordHash\<close>, which is not marshalled and which \<open>ListUsers\<close> has emptied already.
  \<open>RestoreSnapshot\<close> therefore takes what the decoder made of its input: an error or a snapshot.
  \<open>BackupSQLite\<close> copies a file and is not modelled.
\<close>

section \<open>Creating a snapshot\<close>

record SnapshotData =
  sn_Version :: string
  sn_ExportedAt :: gtime
  sn_Driver :: string
  sn_Organizations :: "Organization list"
  sn_OrgMembers :: "OrgMember list"
  sn_Projects :: "Project list"
  sn_Flags :: "FeatureFlag list"
  sn_Users :: "User list"
  sn_APIKeys :: "APIKey list"
  sn_AuditLogs :: "AuditLogEntry list"
  sn_CanarySchedules :: "CanarySchedule list"

abbreviation (input) "CurrentSnapshotVersion \<equiv> ''1.0.0''"

definition snapshot_projects :: "world \<Rightarrow> MemoryStore \<Rightarrow> Organization list \<Rightarrow> Project list" where
  "snapshot_projects w s orgs =
     (let ps = dedup_by pj_ID [] (concat (map (\<lambda>org. ListProjects (w_projects w) s (og_ID org)) orgs)) in
      if DefaultProjectID \<in> set (map pj_ID ps) then ps
      else (case GetProject s DefaultProjectID of Inr defProj \<Rightarrow> ps @ [defProj] | Inl _ \<Rightarrow> ps))"

definition snapshot_flags :: "MemoryStore \<Rightarrow> Project list \<Rightarrow> FeatureFlag list" where
  "snapshot_flags s projects = concat (map (\<lambda>p. ListFlagsByProject s (pj_ID p)) projects)"

definition snapshot_logs :: "MemoryStore \<Rightarrow> Project list \<Rightarrow> AuditLogEntry list" where
  "snapshot_logs s projects = dedup_by al_ID [] (concat (map (\<lambda>p. ExportAuditLogs s (pj_ID p) None None 100000) projects))"

definition CreateSnapshot :: "world \<Rightarrow> CanarySchedule iter \<Rightarrow> gtime \<Rightarrow> MemoryStore \<Rightarrow> SnapshotData" where
  "CreateSnapshot w cans now s =
     (let orgs = ListOrganizations (w_orgs w) s;
          projects = snapshot_projects w s orgs
      in \<lparr>sn_Version = CurrentSnapshotVersion, sn_ExportedAt = now, sn_Driver = ''memory'', sn_Organizations = orgs,
          sn_OrgMembers = concat (map (\<lambda>org. ListOrgMembers (w_members w) s (og_ID org)) orgs),
          sn_Projects = projects, sn_Flags = snapshot_flags s projects, sn_Users = ListUsers (w_users w) s,
          sn_APIKeys = ListAPIKeys (w_keys w) s, sn_AuditLogs = snapshot_logs s projects,
          sn_CanarySchedules = ListActiveCanarySchedules cans s\<rparr>)"

section \<open>Restoring it\<close>

text \<open>A loop over the entities; \<open>i\<close> counts them, so that every call has its own clock readings and random bytes.\<close>

fun restore_each :: "(nat \<Rightarrow> 'a \<Rightarrow> MemoryStore \<Rightarrow> MemoryStore) \<Rightarrow> nat \<Rightarrow> 'a list \<Rightarrow> MemoryStore \<Rightarrow> MemoryStore" where
  "restore_each f i [] s = s"
| "restore_each f i (x # xs) s = restore_each f (Suc i) xs (f i x s)"

type_synonym stage_clocks = "nat \<Rightarrow> nat \<Rightarrow> clock"

definition restore_flag :: "runtime \<Rightarrow> stage_clocks \<Rightarrow> (nat \<Rightarrow> nat \<Rightarrow> string) \<Rightarrow> nat \<Rightarrow> FeatureFlag \<Rightarrow> MemoryStore \<Rightarrow> MemoryStore" where
  "restore_flag rt ck rnd i f s = snd (SaveFlag rt (ck 6 i) (rnd 6 i) s f ''snapshot_restore'')"

definition restore_log :: "runtime \<Rightarrow> stage_clocks \<Rightarrow> nat \<Rightarrow> AuditLogEntry \<Rightarrow> MemoryStore \<Rightarrow> MemoryStore" where
  "restore_log rt ck i l s = snd (AppendAuditLog rt (ck 7 i 0) s l)"

definition restore_accounts :: "runtime \<Rightarrow> stage_clocks \<Rightarrow> (nat \<Rightarrow> nat \<Rightarrow> string) \<Rightarrow> SnapshotData \<Rightarrow> MemoryStore \<Rightarrow> MemoryStore" where
  "restore_accounts rt ck rnd snap s =
     (let s = restore_each (\<lambda>i org s. snd (CreateOrganization (ck 1 i) (rnd 1 i) s org)) 0 (sn_Organizations snap) s;
          s = restore_each (\<lambda>i u s. snd (CreateUser (ck 2 i) (rnd 2 i) s u)) 0 (sn_Users snap) s;
          s = restore_each (\<lambda>i m s. snd (CreateOrgMember (ck 3 i) (rnd 3 i) s m)) 0 (sn_OrgMembers snap) s;
          s = restore_each (\<lambda>i p s. snd (CreateProject rt (ck 4 i) (rnd 4 i) s p)) 0 (sn_Projects snap) s
      in restore_each (\<lambda>i k s. snd (CreateAPIKey (ck 5 i) (rnd 5 i) s k)) 0 (sn_APIKeys snap) s)"

definition RestoreSnapshot :: "runtime \<Rightarrow> stage_clocks \<Rightarrow> (nat \<Rightarrow> nat \<Rightarrow> string) \<Rightarrow> MemoryStore \<Rightarrow> SnapshotData result
  \<Rightarrow> SnapshotData result \<times> MemoryStore" where
  "RestoreSnapshot rt ck rnd s input =
     (case input of
        Inl err \<Rightarrow> (Inl (Wrapf ''failed to decode snapshot JSON: '' err), s)
      | Inr snap \<Rightarrow>
          if sn_Version snap = [] then (Inl (Errorf ''invalid snapshot: missing version identifier''), s)
          else
            (let s = restore_accounts rt ck rnd snap s;
                 s = restore_each (restore_flag rt ck rnd) 0 (sn_Flags snap) s;
                 s = restore_each (restore_log rt ck) 0 (dedup_by al_ID [] (rev (sn_AuditLogs snap))) s;
                 s = restore_each (\<lambda>i c s. SaveCanarySchedule (ck 8 i) s c) 0 (sn_CanarySchedules snap) s
             in (Inr snap, s)))"

section \<open>Handlers\<close>

text \<open>\<open>key\<close> is the API key of the request's context.\<close>

definition isBackupAuthorized :: "APIKey option \<Rightarrow> Request \<Rightarrow> bool" where
  "isBackupAuthorized key r \<longleftrightarrow> (rq_User r \<noteq> None \<and> IsPrivileged (rq_User r)) \<or> (case key of Some k \<Rightarrow> ak_Role k = RoleAdmin | None \<Rightarrow> False)"

definition backup_refused :: "string \<Rightarrow> gerror" where
  "backup_refused what = NewAppError 1002 (''Admin or Organization Owner privileges required for '' @ what @ '' operations'') 403 None"

text \<open>
  No middleware puts a key into the context (\<open>WithAPIKeyContext\<close> is called by tests only), so the
  handlers pass \<open>None\<close>. Beside the response, the export returns the snapshot it streams; \<open>stamp\<close>
  is the time as the file name prints it.
\<close>

definition handleExportBackup :: "world \<Rightarrow> CanarySchedule iter \<Rightarrow> string \<Rightarrow> gtime \<Rightarrow> MemoryStore \<Rightarrow> Request
  \<Rightarrow> Response \<times> SnapshotData option" where
  "handleExportBackup w cans stamp now s r =
     (if rq_Method r \<noteq> ''GET'' then (MethodNotAllowed, None)
      else if \<not> isBackupAuthorized None r then (writeError r (backup_refused ''backup''), None)
      else
        (let compress = (EqualFold (w_rt w) (query_get r ''compress'') ''true'' \<or> EqualFold (w_rt w) (query_get r ''gzip'') ''true'');
             filename = ''flagura-backup-'' @ stamp @ (if compress then ''.json.gz'' else ''.json'')
         in (\<lparr>rp_Status = 200, rp_Header = [(''Content-Type'', if compress then ''application/gzip'' else ''application/json''),
               (''Content-Disposition'', ''attachment; filename='' @ [CHR 0x22] @ filename @ [CHR 0x22])], rp_Cookies = [], rp_Body = Empty\<rparr>,
             Some (CreateSnapshot w cans now s))))"

definition handleImportBackup :: "world \<Rightarrow> stage_clocks \<Rightarrow> (nat \<Rightarrow> nat \<Rightarrow> string) \<Rightarrow> SnapshotData result \<Rightarrow> MemoryStore \<Rightarrow> Request \<Rightarrow> outcome" where
  "handleImportBackup w ck rnd input s r =
     (if rq_Method r \<noteq> ''POST'' then (MethodNotAllowed, s, [])
      else if \<not> isBackupAuthorized None r then fail r s (backup_refused ''restore'')
      else (case RestoreSnapshot (w_rt w) ck rnd s input of
              (Inl err, s) \<Rightarrow> fail r s (NewAppError 6005 (''failed to restore snapshot: '' @ Error err) 400 (Some err))
            | (Inr snap, s) \<Rightarrow>
                (writeJSON 200 (J_object [(''status'', J_string ''success''), (''message'', J_string ''Snapshot restored successfully''),
                    (''version'', J_string (sn_Version snap)), (''exported_at'', J_time (sn_ExportedAt snap)),
                    (''counts'', J_object [(''organizations'', J_int (int (length (sn_Organizations snap)))),
                       (''projects'', J_int (int (length (sn_Projects snap)))), (''flags'', J_int (int (length (sn_Flags snap)))),
                       (''users'', J_int (int (length (sn_Users snap)))), (''api_keys'', J_int (int (length (sn_APIKeys snap)))),
                       (''audit_logs'', J_int (int (length (sn_AuditLogs snap))))])]), s, [])))"


section \<open>What a loop leaves\<close>

lemma restore_each_core:
  assumes "\<And>i x s. same_core s (f i x s)"
  shows "same_core s (restore_each f i xs s)"
proof (induction xs arbitrary: i s)
  case (Cons x xs)
  from assms [of s i x] Cons.IH [of "f i x s" "Suc i"] show ?case by (simp add: same_core_def)
qed (simp add: same_core_def)

lemma restore_accounts_core: "same_core s (restore_accounts rt ck rnd snap s)"
proof -
  have [simp]: "same_core s (snd (CreateOrganization clk rn s org))" for s clk rn org
    using table_step_keeps(1) [OF table_step.create_org] .
  have [simp]: "same_core s t" if "table_frame s t" for s t using that by (simp add: table_frame_def)
  have t: "same_core s t \<Longrightarrow> same_core t u \<Longrightarrow> same_core s u" for s t u by (simp add: same_core_def)
  show ?thesis unfolding restore_accounts_def Let_def
    by (rule t [OF _ restore_each_core], rule t [OF _ restore_each_core], rule t [OF _ restore_each_core],
      rule t [OF _ restore_each_core], rule restore_each_core) simp_all
qed

lemma restore_schedules_core: "same_core s (restore_each (\<lambda>i c s. SaveCanarySchedule (ck 8 i) s c) 0 cs s)"
  by (rule restore_each_core) (simp add: SaveCanarySchedule_def same_core_def Let_def)

text \<open>Restoring a flag publishes it and writes no audit entry.\<close>

lemma restore_flag_new:
  assumes "TrimSpace rt (ff_ProjectID f) \<noteq> []" and "replace_flag (ck 6 i 0) f (fs_list (ms_flagsSnapshot s)) = None"
  shows "restore_flag rt ck rnd i f s = publish (new_flag (ck 6 i) (rnd 6 i) f # fs_list (ms_flagsSnapshot s)) s"
  using assms by (simp add: restore_flag_def SaveFlag_def Let_def)

definition unstamped :: "FeatureFlag \<Rightarrow> FeatureFlag" where
  "unstamped f = f\<lparr>ff_CreatedAt := 0, ff_UpdatedAt := 0\<rparr>"

definition restorable :: "runtime \<Rightarrow> FeatureFlag \<Rightarrow> bool" where
  "restorable rt f \<longleftrightarrow> TrimSpace rt (ff_ProjectID f) \<noteq> [] \<and> ff_ProjectID f \<noteq> [] \<and> ff_ID f \<noteq> [] \<and> ff_ConfigVersion f \<noteq> 0"

text \<open>Two flags that one save would take for the same.\<close>

definition clash :: "FeatureFlag \<Rightarrow> FeatureFlag \<Rightarrow> bool" where
  "clash f g \<longleftrightarrow> (ff_ID g = ff_ID f \<or> ff_Key g = ff_Key f) \<and> ff_ProjectID g = ff_ProjectID f"

lemma unstamped_fields [simp]:
  "ff_ID (unstamped f) = ff_ID f" "ff_Key (unstamped f) = ff_Key f" "ff_ProjectID (unstamped f) = ff_ProjectID f"
  "ff_Environments (unstamped f) = ff_Environments f"
  by (simp_all add: unstamped_def)

lemma unstamped_new: "restorable rt f \<Longrightarrow> unstamped (new_flag clk rn f) = unstamped f"
  by (simp add: unstamped_def restorable_def new_flag_def)

lemma new_flag_normal: "restorable rt f \<Longrightarrow> normalize_flag (new_flag clk rn f) = new_flag clk rn f"
  by (simp add: restorable_def new_flag_def normalize_flag_id)

lemma restore_flags:
  assumes "\<forall>f \<in> set fls. restorable rt f" and "sorted_wrt (\<lambda>f g. \<not> clash f g) fls"
    and "\<forall>f \<in> set fls. \<forall>g \<in> set (fs_list (ms_flagsSnapshot s)). \<not> clash f g" and "snap_ok s"
  shows "map unstamped (fs_list (ms_flagsSnapshot (restore_each (restore_flag rt ck rnd) i fls s)))
        = rev (map unstamped fls) @ map unstamped (fs_list (ms_flagsSnapshot s))
      \<and> ms_auditLogs (restore_each (restore_flag rt ck rnd) i fls s) = ms_auditLogs s
      \<and> ms_auditAnchors (restore_each (restore_flag rt ck rnd) i fls s) = ms_auditAnchors s"
  using assms
proof (induction fls arbitrary: i s)
  case (Cons f fls)
  let ?l = "fs_list (ms_flagsSnapshot s)" and ?n = "new_flag (ck 6 i) (rnd 6 i) f"
  have f: "restorable rt f" using Cons.prems(1) by simp
  have p: "g \<in> set ?l \<Longrightarrow> ff_ProjectID g \<noteq> []" for g using snap_ok_flag(2) [OF Cons.prems(4)] .
  have "\<forall>g \<in> set ?l. \<not> ((ff_ID g = ff_ID f \<or> ff_Key g = ff_Key f) \<and> or_project (ff_ProjectID g) = ff_ProjectID f)"
    using Cons.prems(3) p by (auto simp: clash_def or_project_def)
  then have r: "restore_flag rt ck rnd i f s = publish (?n # ?l) s"
    using f by (intro restore_flag_new) (auto simp: replace_flag_None restorable_def)
  have l: "fs_list (ms_flagsSnapshot (publish (?n # ?l) s)) = ?n # ?l"
    using new_flag_normal [OF f] snap_ok_list [OF Cons.prems(4)] by simp
  have n: "clash g ?n = clash g f" for g using f by (simp add: clash_def restorable_def new_flag_def)
  have c: "clash g f \<Longrightarrow> clash f g" for g by (auto simp: clash_def)
  have free: "\<forall>g \<in> set fls. \<forall>h \<in> set (fs_list (ms_flagsSnapshot (publish (?n # ?l) s))). \<not> clash g h"
    unfolding l using Cons.prems(2,3) n c by auto
  note IH = Cons.IH [OF _ _ free, of "Suc i"]
  have pre: "\<forall>f \<in> set fls. restorable rt f" "sorted_wrt (\<lambda>f g. \<not> clash f g) fls" "snap_ok (publish (?n # ?l) s)"
    using Cons.prems(1,2) by simp_all
  show ?case
    using IH [OF pre] unfolding restore_each.simps r l publish_core by (simp add: unstamped_new [OF f])
qed simp


text \<open>An entry that carries its hashes is put in front as it is, unless its id is known.\<close>

definition entry_complete :: "AuditLogEntry \<Rightarrow> bool" where
  "entry_complete e \<longleftrightarrow> al_ProjectID e \<noteq> [] \<and> al_PrevHash e \<noteq> [] \<and> al_EntryHash e \<noteq> [] \<and> al_Timestamp e \<noteq> 0"

lemma restore_log_new:
  assumes "entry_complete e" and "al_ID e \<notin> al_ID ` set (ms_auditLogs s)"
  shows "restore_log rt ck i e s = s\<lparr>ms_auditLogs := e # ms_auditLogs s\<rparr>"
proof -
  have "find (\<lambda>l. al_ID l = al_ID e \<and> al_ProjectID l = al_ProjectID e) (ms_auditLogs s) = None"
    using assms(2) by (auto simp: find_None_iff image_iff)
  moreover have "e\<lparr>al_ProjectID := al_ProjectID e\<rparr> = e" by simp
  ultimately show ?thesis
    using assms(1) by (simp add: restore_log_def AppendAuditLog_def appendAuditLogLocked_def entry_complete_def or_project_def IsZero_def)
qed

lemma restore_logs:
  assumes "\<forall>e \<in> set es. entry_complete e" and "distinct (map al_ID es)"
    and "\<forall>e \<in> set es. al_ID e \<notin> al_ID ` set (ms_auditLogs s)"
  shows "restore_each (restore_log rt ck) i es s = s\<lparr>ms_auditLogs := rev es @ ms_auditLogs s\<rparr>"
  using assms
proof (induction es arbitrary: i s)
  case (Cons e es)
  then have "restore_log rt ck i e s = s\<lparr>ms_auditLogs := e # ms_auditLogs s\<rparr>" by (intro restore_log_new) auto
  moreover have "restore_each (restore_log rt ck) (Suc i) es (s\<lparr>ms_auditLogs := e # ms_auditLogs s\<rparr>) =
      s\<lparr>ms_auditLogs := rev es @ e # ms_auditLogs s\<rparr>"
    by (subst Cons.IH) (use Cons.prems in \<open>auto simp: image_iff\<close>)
  ultimately show ?case by simp
qed simp

section \<open>Grouping by project\<close>

lemma filter_groups:
  assumes "distinct ps"
  shows "filter (\<lambda>x. h x = p) (concat (map (\<lambda>q. filter (\<lambda>x. h x = q) xs) ps)) = (if p \<in> set ps then filter (\<lambda>x. h x = p) xs else [])"
  using assms by (induction ps) (auto simp: filter_empty_conv intro: filter_cong)

lemma groups_distinct:
  assumes "distinct ps" and "distinct (map g xs)"
  shows "distinct (map g (concat (map (\<lambda>q. filter (\<lambda>x. h x = q) xs) ps)))"
  using assms(1)
proof (induction ps)
  case (Cons q ps)
  have inj: "inj_on g (set xs)" using assms(2) by (simp add: distinct_map)
  have "distinct (map g (filter (\<lambda>x. h x = q) xs))" using assms(2) by (rule distinct_map_filter)
  moreover have "g ` {x \<in> set xs. h x = q} \<inter> g ` (\<Union>r \<in> set ps. {x \<in> set xs. h x = r}) = {}"
    using inj Cons.prems by (auto dest: inj_onD)
  ultimately show ?case using Cons by (simp add: image_UN)
qed simp

lemma dedup_by_id: "distinct (map key xs) \<Longrightarrow> \<forall>x \<in> set xs. key x \<notin> set seen \<Longrightarrow> dedup_by key seen xs = xs"
proof (induction key seen xs rule: dedup_by.induct)
  case (2 key seen x xs)
  then have "\<forall>y \<in> set xs. key y \<notin> set (key x # seen)" by (auto simp: image_iff eq_commute)
  with 2 show ?case by simp
qed simp

lemma limited_all: "int (length xs) \<le> n \<Longrightarrow> limited n xs = xs"
  by (simp add: limited_def)

lemma ListFlagsByProject_filter:
  "ListFlagsByProject s p = filter (\<lambda>f. ff_ProjectID f = or_project p) (fs_list (ms_flagsSnapshot s))"
proof -
  have "map DeepCopy xs = xs" for xs by (rule map_idI) simp
  then show ?thesis by (simp only: ListFlagsByProject_def)
qed

lemma distinct_no_clash:
  assumes "distinct (map (\<lambda>f. (ff_ProjectID f, ff_ID f)) fls)" and "distinct (map (\<lambda>f. (ff_ProjectID f, ff_Key f)) fls)"
  shows "sorted_wrt (\<lambda>f g. \<not> clash f g) fls"
  using assms by (induction fls) (auto simp: clash_def image_iff)

text \<open>The identifiers of the exported projects.\<close>

definition exported :: "world \<Rightarrow> MemoryStore \<Rightarrow> string list" where
  "exported w s = map pj_ID (snapshot_projects w s (ListOrganizations (w_orgs w) s))"

lemma exported_ok:
  assumes "is_order (w_projects w)" and "tenants_named s" and "\<forall>d. GetProject s DefaultProjectID = Inr d \<longrightarrow> pj_ID d = DefaultProjectID"
  shows "distinct (exported w s)" and "[] \<notin> set (exported w s)"
proof -
  let ?ps = "dedup_by pj_ID [] (concat (map (\<lambda>org. ListProjects (w_projects w) s (og_ID org)) (ListOrganizations (w_orgs w) s)))"
  have e: "exported w s = map pj_ID ?ps \<or> exported w s = map pj_ID ?ps @ [DefaultProjectID] \<and> DefaultProjectID \<notin> set (map pj_ID ?ps)"
    using assms(3) by (auto simp: exported_def snapshot_projects_def Let_def split: sum.split)
  with dedup_by_distinct [of pj_ID "[]"] show "distinct (exported w s)" by (elim disjE) auto
  have "x \<in> set (ListProjects (w_projects w) s i) \<Longrightarrow> pj_ID x \<noteq> []" for x i
    using ListProjects_stored(1) [OF assms(1)] assms(2) by (force simp: tenants_named_def)
  then have "[] \<notin> set (map pj_ID ?ps)" using dedup_by_set [of pj_ID "[]"] by fastforce
  with e show "[] \<notin> set (exported w s)" by (elim disjE) auto
qed


lemma snapshot_exports:
  assumes "distinct (map al_ID (ms_auditLogs s))" and "length (ms_auditLogs s) \<le> 100000"
    and "distinct (exported w s)" and "[] \<notin> set (exported w s)"
  shows "sn_Flags (CreateSnapshot w cans now s) = concat (map (\<lambda>q. filter (\<lambda>f. ff_ProjectID f = q) (fs_list (ms_flagsSnapshot s))) (exported w s))"
    and "sn_AuditLogs (CreateSnapshot w cans now s) = concat (map (\<lambda>q. filter (\<lambda>e. al_ProjectID e = q) (ms_auditLogs s)) (exported w s))"
proof -
  let ?ps = "snapshot_projects w s (ListOrganizations (w_orgs w) s)"
  have n: "p \<in> set ?ps \<Longrightarrow> or_project (pj_ID p) = pj_ID p" for p
    using assms(4) by (auto simp: exported_def or_project_def image_iff)
  have "map (\<lambda>p. ListFlagsByProject s (pj_ID p)) ?ps = map (\<lambda>q. filter (\<lambda>f. ff_ProjectID f = q) (fs_list (ms_flagsSnapshot s))) (exported w s)"
    unfolding exported_def map_map by (rule map_cong [OF refl]) (simp add: ListFlagsByProject_filter n)
  then show "sn_Flags (CreateSnapshot w cans now s) = concat (map (\<lambda>q. filter (\<lambda>f. ff_ProjectID f = q) (fs_list (ms_flagsSnapshot s))) (exported w s))"
    by (simp add: CreateSnapshot_def snapshot_flags_def Let_def)
  have "int (length (filter P (ms_auditLogs s))) \<le> 100000" for P
    using assms(2) length_filter_le [of P "ms_auditLogs s"] by linarith
  then have x: "map (\<lambda>p. ExportAuditLogs s (pj_ID p) None None 100000) ?ps =
      map (\<lambda>q. filter (\<lambda>e. al_ProjectID e = q) (ms_auditLogs s)) (exported w s)"
    unfolding exported_def map_map by (intro map_cong [OF refl]) (simp add: ExportAuditLogs_def n limited_all)
  have "distinct (map al_ID (concat (map (\<lambda>q. filter (\<lambda>e. al_ProjectID e = q) (ms_auditLogs s)) (exported w s))))"
    using assms(3,1) by (rule groups_distinct)
  then show "sn_AuditLogs (CreateSnapshot w cans now s) = concat (map (\<lambda>q. filter (\<lambda>e. al_ProjectID e = q) (ms_auditLogs s)) (exported w s))"
    by (simp add: CreateSnapshot_def snapshot_logs_def Let_def x dedup_by_id)
qed

lemma snapshot_restores:
  assumes "snap_ok s" and "\<forall>f \<in> set (fs_list (ms_flagsSnapshot s)). restorable rt f"
    and "distinct (map (\<lambda>f. (ff_ProjectID f, ff_ID f)) (fs_list (ms_flagsSnapshot s)))"
    and "distinct (map (\<lambda>f. (ff_ProjectID f, ff_Key f)) (fs_list (ms_flagsSnapshot s)))"
    and "\<forall>e \<in> set (ms_auditLogs s). entry_complete e" and "distinct (map al_ID (ms_auditLogs s))" and "length (ms_auditLogs s) \<le> 100000"
    and "is_order (w_projects w)" and "tenants_named s" and "\<forall>d. GetProject s DefaultProjectID = Inr d \<longrightarrow> pj_ID d = DefaultProjectID"
    and "p \<in> set (exported w s)"
  shows "\<exists>s'. RestoreSnapshot rt ck rnd NewMemoryStore (Inr (CreateSnapshot w cans now s)) = (Inr (CreateSnapshot w cans now s), s')
      \<and> map unstamped (ListFlagsByProject s' p) = rev (map unstamped (ListFlagsByProject s p))
      \<and> project_entries s' p = project_entries s p \<and> ms_auditAnchors s' = [] \<and> or_project p = p"
proof -
  let ?snap = "CreateSnapshot w cans now s" and ?new = NewMemoryStore
  note ids = exported_ok [OF assms(8-10)]
  note ex = snapshot_exports [OF assms(6,7) ids, of cans now]
  have p: "or_project p = p" using ids(2) assms(11) by (auto simp: or_project_def)
  let ?s1 = "restore_accounts rt ck rnd ?snap ?new"
  have s1: "ms_flagsSnapshot ?s1 = newFlagSnapshot []" "ms_auditLogs ?s1 = []" "ms_auditAnchors ?s1 = []"
    using restore_accounts_core [of ?new rt ck rnd ?snap] by (simp_all add: same_core_def) (simp_all add: NewMemoryStore_def)
  let ?s2 = "restore_each (restore_flag rt ck rnd) 0 (sn_Flags ?snap) ?s1"
  have "sorted_wrt (\<lambda>f g. \<not> clash f g) (sn_Flags ?snap)"
    unfolding ex using ids(1) assms(3,4) by (intro distinct_no_clash groups_distinct)
  moreover have "\<forall>f \<in> set (sn_Flags ?snap). restorable rt f" using assms(2) by (auto simp: ex)
  moreover have "snap_ok ?s1" "fs_list (ms_flagsSnapshot ?s1) = []" by (simp_all add: s1 snap_ok_def)
  ultimately have s2: "map unstamped (fs_list (ms_flagsSnapshot ?s2)) = rev (map unstamped (sn_Flags ?snap))"
      "ms_auditLogs ?s2 = []" "ms_auditAnchors ?s2 = []"
    using restore_flags [where s = ?s1 and fls = "sn_Flags ?snap" and rt = rt and ck = ck and rnd = rnd and i = 0] by (simp_all add: s1)
  let ?es = "dedup_by al_ID [] (rev (sn_AuditLogs ?snap))"
  have d: "distinct (map al_ID (sn_AuditLogs ?snap))" unfolding ex using ids(1) assms(6) by (rule groups_distinct)
  then have es: "?es = rev (sn_AuditLogs ?snap)" by (intro dedup_by_id) (simp_all add: rev_map [symmetric])
  let ?s3 = "restore_each (restore_log rt ck) 0 ?es ?s2"
  have "\<forall>e \<in> set ?es. entry_complete e" using assms(5) unfolding es by (auto simp: ex)
  then have s3: "?s3 = ?s2\<lparr>ms_auditLogs := sn_AuditLogs ?snap\<rparr>"
    using d by (subst restore_logs) (simp_all add: es s2 rev_map [symmetric])
  let ?s4 = "restore_each (\<lambda>i c s. SaveCanarySchedule (ck 8 i) s c) 0 (sn_CanarySchedules ?snap) ?s3"
  have s4: "ms_flagsSnapshot ?s4 = ms_flagsSnapshot ?s2" "ms_auditLogs ?s4 = sn_AuditLogs ?snap" "ms_auditAnchors ?s4 = []"
    using restore_schedules_core [of ?s3 ck "sn_CanarySchedules ?snap"] s2 by (simp_all add: same_core_def s3)
  have "sn_Version ?snap \<noteq> []" by (simp add: CreateSnapshot_def Let_def)
  then have run: "RestoreSnapshot rt ck rnd ?new (Inr ?snap) = (Inr ?snap, ?s4)" by (simp add: RestoreSnapshot_def Let_def)
  have m: "map unstamped (filter (\<lambda>f. ff_ProjectID f = p) xs) = filter (\<lambda>f. ff_ProjectID f = p) (map unstamped xs)" for xs
    by (simp add: filter_map o_def)
  have "map unstamped (ListFlagsByProject ?s4 p) = rev (map unstamped (filter (\<lambda>f. ff_ProjectID f = p) (sn_Flags ?snap)))"
    by (simp add: ListFlagsByProject_filter p s4(1) m s2(1) rev_filter)
  also have "filter (\<lambda>f. ff_ProjectID f = p) (sn_Flags ?snap) = ListFlagsByProject s p"
    using assms(11) by (simp add: ex filter_groups [OF ids(1)] ListFlagsByProject_filter p)
  finally have flags: "map unstamped (ListFlagsByProject ?s4 p) = rev (map unstamped (ListFlagsByProject s p))" .
  have entries: "project_entries ?s4 p = project_entries s p"
    unfolding project_entries_def s4(2) unfolding ex filter_groups [OF ids(1)] using assms(11) by simp
  show ?thesis using run flags entries s4(3) p by blast
qed

section \<open>Properties\<close>


definition demo_archive :: MemoryStore where
  "demo_archive = demo_tenants\<lparr>ms_flagsSnapshot := newFlagSnapshot [demo_live], ms_auditLogs :=
     [zero_audit\<lparr>al_ID := ''b'', al_ProjectID := ''p1'', al_Timestamp := 5, al_PrevHash := ''h1'', al_EntryHash := ''h2''\<rparr>]\<rparr>"

lemma demo_archive_ok:
  "snap_ok demo_archive" "\<forall>f \<in> set (fs_list (ms_flagsSnapshot demo_archive)). restorable demo_runtime f"
  "distinct (map (\<lambda>f. (ff_ProjectID f, ff_ID f)) (fs_list (ms_flagsSnapshot demo_archive)))"
  "distinct (map (\<lambda>f. (ff_ProjectID f, ff_Key f)) (fs_list (ms_flagsSnapshot demo_archive)))"
  "\<forall>e \<in> set (ms_auditLogs demo_archive). entry_complete e" "distinct (map al_ID (ms_auditLogs demo_archive))"
  "length (ms_auditLogs demo_archive) \<le> 100000" "is_order (w_projects demo_world)" "tenants_named demo_archive"
  "\<forall>d. GetProject demo_archive DefaultProjectID = Inr d \<longrightarrow> pj_ID d = DefaultProjectID"
  "''p1'' \<in> set (exported demo_world demo_archive)"
proof -
  have t: "TrimSpace demo_runtime ''p1'' \<noteq> []" by code_simp
  show "snap_ok demo_archive" by (simp add: snap_ok_def demo_archive_def normalize_flag_id demo_live_def demo_flag0_def)
  show "\<forall>f \<in> set (fs_list (ms_flagsSnapshot demo_archive)). restorable demo_runtime f"
    using t by (simp add: demo_archive_def restorable_def demo_live_def demo_flag0_def or_project_def)
  show "''p1'' \<in> set (exported demo_world demo_archive)" by code_simp
  show "tenants_named demo_archive"
    by (simp add: demo_archive_def tenants_named_def demo_tenants_def demo_org_def demo_project_def)
  show "\<forall>d. GetProject demo_archive DefaultProjectID = Inr d \<longrightarrow> pj_ID d = DefaultProjectID"
    by (simp add: demo_archive_def GetProject_def demo_tenants_def mget_def)
qed (simp_all add: demo_archive_def entry_complete_def zero_audit_def demo_world_def)


text \<open>
  The anchor of a purged chain is not part of a snapshot: when the oldest entry left in a
  project continues a purged one, the restored log does not verify.
\<close>

theorem restored_purged_log_invalid:
  assumes "snap_ok s" and "\<forall>f \<in> set (fs_list (ms_flagsSnapshot s)). restorable rt f"
    and "distinct (map (\<lambda>f. (ff_ProjectID f, ff_ID f)) (fs_list (ms_flagsSnapshot s)))"
    and "distinct (map (\<lambda>f. (ff_ProjectID f, ff_Key f)) (fs_list (ms_flagsSnapshot s)))"
    and "\<forall>e \<in> set (ms_auditLogs s). entry_complete e" and "distinct (map al_ID (ms_auditLogs s))" and "length (ms_auditLogs s) \<le> 100000"
    and "is_order (w_projects w)" and "tenants_named s" and "\<forall>d. GetProject s DefaultProjectID = Inr d \<longrightarrow> pj_ID d = DefaultProjectID"
    and "p \<in> set (exported w s)" and "project_entries s p = newer @ [e]" and "al_PrevHash e \<noteq> ''GENESIS''"
  shows "\<not> ai_Valid (VerifyAuditLogIntegrity rt' t (snd (RestoreSnapshot rt ck rnd NewMemoryStore (Inr (CreateSnapshot w cans now s)))) p)"
proof -
  from snapshot_restores [OF assms(1-11), of ck rnd cans now] obtain s' where
    run: "snd (RestoreSnapshot rt ck rnd NewMemoryStore (Inr (CreateSnapshot w cans now s))) = s'"
    and entries: "project_entries s' p = newer @ [e]" and anchors: "ms_auditAnchors s' = []" and p: "or_project p = p"
    using assms(12) by (metis snd_conv)
  have "VerifyAuditLogIntegrity rt' t s' p = verify_loop rt' t 0 ''GENESIS'' (e # rev newer)"
    using entries by (simp add: VerifyAuditLogIntegrity_def p project_entries_def audit_anchor_def anchors Let_def)
  with verify_loop_first [of "e # rev newer" rt' t "''GENESIS''"] assms(13) show ?thesis
    unfolding run by (simp del: verify_loop.simps)
qed

theorem restored_purged_log_invalid_witness:
  "\<not> ai_Valid (VerifyAuditLogIntegrity demo_runtime 9 (snd (RestoreSnapshot demo_runtime (\<lambda>_ _ _. 9) (\<lambda>_ _. ''ab'') NewMemoryStore
      (Inr (CreateSnapshot demo_world id 8 demo_archive)))) ''p1'')"
proof -
  let ?e = "zero_audit\<lparr>al_ID := ''b'', al_ProjectID := ''p1'', al_Timestamp := 5, al_PrevHash := ''h1'', al_EntryHash := ''h2''\<rparr>"
  have "project_entries demo_archive ''p1'' = [] @ [?e]" by (simp add: project_entries_def demo_archive_def)
  then show ?thesis by (rule restored_purged_log_invalid [OF demo_archive_ok]) simp
qed


section \<open>Credentials\<close>

lemma restore_each_inv:
  assumes "\<And>i x s. x \<in> set xs \<Longrightarrow> P s \<Longrightarrow> P (f i x s)" and "P s"
  shows "P (restore_each f i xs s)"
  using assms by (induction xs arbitrary: i s) auto

text \<open>No user has a password hash and no hash names a key.\<close>

definition locked_out :: "MemoryStore \<Rightarrow> bool" where
  "locked_out s \<longleftrightarrow> (\<forall>(k, u) \<in> set (ms_users s). us_PasswordHash u = []) \<and> ms_apiKeysByHash s = []"

lemma locked_out_cong: "ms_users t = ms_users s \<Longrightarrow> ms_apiKeysByHash t = ms_apiKeysByHash s \<Longrightarrow> locked_out s \<Longrightarrow> locked_out t"
  by (simp add: locked_out_def)

lemma CreateUser_locked: "us_PasswordHash u = [] \<Longrightarrow> locked_out s \<Longrightarrow> locked_out (snd (CreateUser clk rn s u))"
  by (fastforce simp: locked_out_def CreateUser_def Let_def dest!: set_mput [THEN subsetD] split: option.splits)

text \<open>
  A restored deployment has no credentials: \<open>ListUsers\<close> empties the password hashes and \<open>ListAPIKeys\<close> the key
  hashes before they reach the snapshot, so after the restore no password and no API key is
  accepted.
\<close>

theorem restored_credentials_void:
  "let s' = snd (RestoreSnapshot rt ck rnd NewMemoryStore (Inr (CreateSnapshot w cans now s)))
   in (\<forall>k u. mget (ms_users s') k = Some u \<longrightarrow> us_PasswordHash u = [])
      \<and> (\<forall>clk h. isl (fst (GetAPIKeyByHash clk s' h)))"
proof -
  let ?snap = "CreateSnapshot w cans now s"
  have users: "u \<in> set (sn_Users ?snap) \<Longrightarrow> us_PasswordHash u = []" for u by (auto simp: CreateSnapshot_def ListUsers_def Let_def)
  have keys: "k \<in> set (sn_APIKeys ?snap) \<Longrightarrow> ak_KeyHash k = []" for k
    by (auto simp: CreateSnapshot_def ListAPIKeys_def redact_key_def Let_def)
  have v: "sn_Version ?snap \<noteq> []" by (simp add: CreateSnapshot_def Let_def)
  have "locked_out (snd (RestoreSnapshot rt ck rnd NewMemoryStore (Inr ?snap)))"
    unfolding RestoreSnapshot_def restore_accounts_def Let_def sum.case if_not_P [OF v] snd_conv
  proof (intro restore_each_inv [where P = locked_out])
    show "locked_out NewMemoryStore" by (simp add: locked_out_def NewMemoryStore_def)
  next
    fix i u s assume "u \<in> set (sn_Users ?snap)" "locked_out s"
    then show "locked_out (snd (CreateUser (ck 2 i) (rnd 2 i) s u))" using users by (intro CreateUser_locked)
  next
    fix i k s assume "k \<in> set (sn_APIKeys ?snap)" "locked_out s"
    then show "locked_out (snd (CreateAPIKey (ck 5 i) (rnd 5 i) s k))"
      using keys [of k] by (simp add: CreateAPIKey_def locked_out_def Let_def)
  next
    fix i f s assume "locked_out s"
    then show "locked_out (restore_flag rt ck rnd i f s)"
      by (simp add: restore_flag_def SaveFlag_def locked_out_def publish_def Let_def split: option.split prod.split)
  next
    fix i e s assume "locked_out s"
    then show "locked_out (restore_log rt ck i e s)"
      by (simp add: restore_log_def AppendAuditLog_def locked_out_def Let_def split_def)
  qed (simp_all add: locked_out_def CreateOrganization_def CreateOrgMember_def put_member_def CreateProject_def SaveCanarySchedule_def Let_def)
  then show ?thesis
    by (auto simp: Let_def locked_out_def GetAPIKeyByHash_def dest: mget_in_set)
qed

text \<open>
  The guard of the backup routes looks at the caller's global role: the admin key of one tenant
  exports the projects of all tenants, and the owner of an organization, whom the error message names as
  privileged, is refused.
\<close>

theorem backup_guard_global:
  assumes "rq_Method r = ''GET''" and "rq_User r = Some u"
  shows "u = key_user k \<Longrightarrow> ak_Role k = ''admin'' \<Longrightarrow> snd (handleExportBackup w cans stamp now s r) = Some (CreateSnapshot w cans now s)"
    and "us_Role u = ''developer'' \<Longrightarrow> us_ActiveMembership u = None \<Longrightarrow> rp_Status (fst (handleExportBackup w cans stamp now s r)) = 403"
  using assms
  by (simp_all add: handleExportBackup_def isBackupAuthorized_def IsPrivileged_def EffectiveRole_def key_user_def backup_refused_def Let_def)

end
