(* ===== verification/Rate_Limit.thy ===== *)
theory Rate_Limit
  imports Config Api_Auth
begin

text \<open>
  \<open>src/pkg/api/ratelimit.go\<close>: the tiers and their configuration, the identity of a caller, the map
  of visitors with its clean-up, and the handler that counts a request. The token bucket itself is
  \<open>rate.Limiter\<close> of golang.org/x/time: its three operations are the record \<open>rate_lib\<close>, and
  \<open>token_bucket\<close> is what its documentation promises. Shown is how many requests an identity gets
  through in a run of requests and clean-ups, and how a caller escapes the limit by choosing a new
  identity or a new tier.
\<close>

section \<open>Tiers\<close>

definition TierAnonymous :: string where
  "TierAnonymous = ''anonymous''"

definition TierAuthenticated :: string where
  "TierAuthenticated = ''authenticated''"

definition TierSystem :: string where
  "TierSystem = ''system''"

lemmas tier_names = TierAnonymous_def TierAuthenticated_def TierSystem_def

record TierConfig =
  tc_Rate :: f64
  tc_Burst :: int
  tc_QuotaPerMinute :: int

definition DefaultTierConfigs :: "(string, TierConfig) gomap" where
  "DefaultTierConfigs =
     [(TierAnonymous, \<lparr>tc_Rate = Fin 2, tc_Burst = 30, tc_QuotaPerMinute = 120\<rparr>),
      (TierAuthenticated, \<lparr>tc_Rate = Fin 20, tc_Burst = 100, tc_QuotaPerMinute = 1200\<rparr>),
      (TierSystem, \<lparr>tc_Rate = Fin 200, tc_Burst = 500, tc_QuotaPerMinute = 12000\<rparr>)]"

text \<open>The first variable of three that is set, and the two settings it may override.\<close>

definition first_set :: "world \<Rightarrow> string \<Rightarrow> string \<Rightarrow> string \<Rightarrow> string" where
  "first_set w a b c = or_else (or_else (w_getenv w a) (w_getenv w b)) (w_getenv w c)"

definition override_rpm :: "string \<Rightarrow> TierConfig \<Rightarrow> TierConfig" where
  "override_rpm rpm config =
     (if rpm = [] then config
      else case Atoi rpm of
        None \<Rightarrow> config
      | Some v \<Rightarrow> if v > 0 then config\<lparr>tc_QuotaPerMinute := v, tc_Rate := fdiv (f64_of_int v) (Fin 60)\<rparr> else config)"

definition override_burst :: "string \<Rightarrow> TierConfig \<Rightarrow> TierConfig" where
  "override_burst burst config =
     (if burst = [] then config
      else case Atoi burst of
        None \<Rightarrow> config
      | Some v \<Rightarrow> if v > 0 then config\<lparr>tc_Burst := v\<rparr> else config)"

definition getTierConfig :: "world \<Rightarrow> string \<Rightarrow> TierConfig" where
  "getTierConfig w tier =
     (let config = (case mget DefaultTierConfigs tier of Some c \<Rightarrow> c | None \<Rightarrow> the (mget DefaultTierConfigs TierAnonymous)) in
      if tier = TierAnonymous then
        override_burst (first_set w ''FLAGURA_RATE_LIMIT_ANONYMOUS_BURST'' ''FLAGURA_RATE_LIMIT_STANDARD_BURST''
            ''FLAGURA_RATE_LIMIT_FREE_BURST'')
          (override_rpm (first_set w ''FLAGURA_RATE_LIMIT_ANONYMOUS_RPM'' ''FLAGURA_RATE_LIMIT_STANDARD_RPM''
            ''FLAGURA_RATE_LIMIT_FREE_RPM'') config)
      else if tier = TierAuthenticated then
        override_burst (first_set w ''FLAGURA_RATE_LIMIT_AUTHENTICATED_BURST'' ''FLAGURA_RATE_LIMIT_ELEVATED_BURST''
            ''FLAGURA_RATE_LIMIT_PRO_BURST'')
          (override_rpm (first_set w ''FLAGURA_RATE_LIMIT_AUTHENTICATED_RPM'' ''FLAGURA_RATE_LIMIT_ELEVATED_RPM''
            ''FLAGURA_RATE_LIMIT_PRO_RPM'') config)
      else if tier = TierSystem then
        override_burst (first_set w ''FLAGURA_RATE_LIMIT_SYSTEM_BURST'' ''FLAGURA_RATE_LIMIT_HIGH_THROUGHPUT_BURST''
            ''FLAGURA_RATE_LIMIT_ENTERPRISE_BURST'')
          (override_rpm (first_set w ''FLAGURA_RATE_LIMIT_SYSTEM_RPM'' ''FLAGURA_RATE_LIMIT_HIGH_THROUGHPUT_RPM''
            ''FLAGURA_RATE_LIMIT_ENTERPRISE_RPM'') config)
      else config)"

section \<open>The limiter\<close>

text \<open>\<open>rate.NewLimiter\<close>, \<open>Allow\<close> at a time and \<open>Tokens\<close> at a time.\<close>

record 'l rate_lib =
  lim_new :: "f64 \<Rightarrow> int \<Rightarrow> 'l"
  lim_Allow :: "gtime \<Rightarrow> 'l \<Rightarrow> bool \<times> 'l"
  lim_Tokens :: "gtime \<Rightarrow> 'l \<Rightarrow> f64"

record 'l visitor =
  vi_limiter :: 'l
  vi_tier :: string
  vi_lastSeen :: gtime

record 'l IPRateLimiter =
  rl_visitors :: "(string, 'l visitor) gomap"
  rl_rate :: f64
  rl_burst :: int
  rl_enableTiers :: bool

definition NewIPRateLimiter :: "f64 \<Rightarrow> int \<Rightarrow> 'l IPRateLimiter" where
  "NewIPRateLimiter r burst = \<lparr>rl_visitors = [], rl_rate = r, rl_burst = burst, rl_enableTiers = False\<rparr>"

definition EnableTiers :: "bool \<Rightarrow> 'l IPRateLimiter \<Rightarrow> 'l IPRateLimiter" where
  "EnableTiers enable i = i\<lparr>rl_enableTiers := enable\<rparr>"

text \<open>The two limiters of the server (\<open>NewServer\<close>).\<close>

definition authLimiter :: "'l IPRateLimiter" where
  "authLimiter = NewIPRateLimiter (Fin 5) 10"

definition apiLimiter :: "'l IPRateLimiter" where
  "apiLimiter = EnableTiers True (NewIPRateLimiter (Fin 200) 400)"

definition limiter_config :: "world \<Rightarrow> 'l IPRateLimiter \<Rightarrow> string \<Rightarrow> TierConfig" where
  "limiter_config w i tier =
     (if \<not> rl_enableTiers i \<and> flt (Fin 0) (rl_rate i)
      then \<lparr>tc_Rate = rl_rate i, tc_Burst = rl_burst i, tc_QuotaPerMinute = int_of_f64 (fmul (rl_rate i) (Fin 60))\<rparr>
      else getTierConfig w tier)"

text \<open>
  The visitor's limiter is shared by pointer: what the caller does to it is a write to the entry of
  the map. \<open>now\<close> is the reading stored as \<open>lastSeen\<close>.
\<close>

definition GetLimiterForTier ::
  "'l rate_lib \<Rightarrow> world \<Rightarrow> gtime \<Rightarrow> 'l IPRateLimiter \<Rightarrow> string \<Rightarrow> string \<Rightarrow> ('l \<times> TierConfig) \<times> 'l IPRateLimiter" where
  "GetLimiterForTier L w now i identity tier =
     (let config = limiter_config w i tier in
      case mget (rl_visitors i) identity of
        Some v \<Rightarrow>
          if rl_enableTiers i \<and> vi_tier v \<noteq> tier
          then let limiter = lim_new L (tc_Rate config) (tc_Burst config) in
            ((limiter, config), i\<lparr>rl_visitors := mput identity \<lparr>vi_limiter = limiter, vi_tier = tier, vi_lastSeen = now\<rparr> (rl_visitors i)\<rparr>)
          else ((vi_limiter v, config), i\<lparr>rl_visitors := mput identity (v\<lparr>vi_lastSeen := now\<rparr>) (rl_visitors i)\<rparr>)
      | None \<Rightarrow>
          let limiter = lim_new L (tc_Rate config) (tc_Burst config) in
          ((limiter, config), i\<lparr>rl_visitors := mput identity \<lparr>vi_limiter = limiter, vi_tier = tier, vi_lastSeen = now\<rparr> (rl_visitors i)\<rparr>))"

definition GetLimiter :: "'l rate_lib \<Rightarrow> world \<Rightarrow> gtime \<Rightarrow> 'l IPRateLimiter \<Rightarrow> string \<Rightarrow> 'l \<times> 'l IPRateLimiter" where
  "GetLimiter L w now i identity =
     (let ((l, _), i) = GetLimiterForTier L w now i identity TierAnonymous in (l, i))"

text \<open>One tick of \<open>cleanupLoop\<close>.\<close>

definition cleanup :: "gtime \<Rightarrow> 'l IPRateLimiter \<Rightarrow> 'l IPRateLimiter" where
  "cleanup now i =
     (let threshold = now - 3 * Minute in
      i\<lparr>rl_visitors := filter (\<lambda>(_, v). \<not> vi_lastSeen v < threshold) (rl_visitors i)\<rparr>)"

section \<open>The caller\<close>

definition tier_of_header :: "runtime \<Rightarrow> string \<Rightarrow> string \<Rightarrow> string" where
  "tier_of_header rt tierHeader tier =
     (if tierHeader = [] then tier
      else let normalized = ToLower rt (TrimSpace rt tierHeader) in
        if normalized \<in> {''anonymous'', ''public'', ''standard'', ''free'', ''default''} then TierAnonymous
        else if normalized \<in> {''authenticated'', ''client'', ''elevated'', ''pro'', ''developer''} then TierAuthenticated
        else if normalized \<in> {''system'', ''admin'', ''cluster'', ''high-throughput'', ''enterprise'', ''production''} then TierSystem
        else tier)"

definition project_scope :: "Request \<Rightarrow> string" where
  "project_scope r =
     or_else (or_else (or_else (header_get r ''X-Project-ID'') (query_get r ''project_id'')) (query_get r ''project''))
       (case cookie_get r CookieProjectName of Some v \<Rightarrow> v | None \<Rightarrow> [])"

text \<open>\<open>ak\<close> is the API key in the request's context; no middleware of the server puts one there.\<close>

definition base_identity :: "world \<Rightarrow> APIKey option \<Rightarrow> Request \<Rightarrow> string \<times> string" where
  "base_identity w ak r =
     (let ip = GetClientIP w r; authHeader = header_get r ''Authorization'' in
      case (ak, rq_User r, cookie_get r CookieSessionName) of (key, user, cookie) \<Rightarrow>
      if key \<noteq> None \<and> ak_ID (the key) \<noteq> [] then
        (if ak_ProjectID (the key) \<noteq> [] then ''tenant:'' @ ak_ProjectID (the key) @ '':apikey:'' @ ak_ID (the key)
         else ''apikey:'' @ ak_ID (the key),
         if ak_Role (the key) = RoleAdmin then TierSystem else TierAuthenticated)
      else if user \<noteq> None \<and> us_ID (the user) \<noteq> [] then
        (''user:'' @ us_ID (the user), if us_Role (the user) = RoleAdmin then TierSystem else TierAuthenticated)
      else if HasPrefix authHeader ''Bearer '' then
        (let token = TrimSpace (w_rt w) (TrimPrefix authHeader ''Bearer '') in
         if token \<noteq> []
         then (if HasPrefix token ''flg_'' then ''apikey:'' @ token else ''user:session:'' @ token, TierAuthenticated)
         else (''ip:'' @ ip, TierAnonymous))
      else if cookie \<noteq> None \<and> the cookie \<noteq> [] then (''user:session:'' @ the cookie, TierAuthenticated)
      else if project_scope r \<noteq> [] then (''tenant:'' @ project_scope r @ '':ip:'' @ ip, TierAnonymous)
      else (''ip:'' @ ip, TierAnonymous))"

definition ResolveTenantIdentityAndTier :: "world \<Rightarrow> APIKey option \<Rightarrow> Request \<Rightarrow> string \<times> string" where
  "ResolveTenantIdentityAndTier w ak r =
     (let (identity, tier) = base_identity w ak r;
          tierHeader = or_else (or_else (header_get r ''X-RateLimit-Tier'') (header_get r ''X-Traffic-Tier''))
            (header_get r ''X-Tenant-Tier'')
      in (identity, tier_of_header (w_rt w) tierHeader tier))"

definition GetClientIdentity :: "world \<Rightarrow> APIKey option \<Rightarrow> Request \<Rightarrow> string" where
  "GetClientIdentity w ak r = fst (ResolveTenantIdentityAndTier w ak r)"

section \<open>Counting a request\<close>

definition limit_quota :: "TierConfig \<Rightarrow> int" where
  "limit_quota config = (if tc_QuotaPerMinute config \<le> 0 then tc_Burst config else tc_QuotaPerMinute config)"

definition remaining_of :: "TierConfig \<Rightarrow> f64 \<Rightarrow> int" where
  "remaining_of config tokens =
     (let remaining = int_of_f64 tokens;
          remaining = (if remaining < 0 then 0 else remaining)
      in if remaining > limit_quota config then limit_quota config else remaining)"

definition seconds_to_reset :: "TierConfig \<Rightarrow> int \<Rightarrow> int" where
  "seconds_to_reset config remaining =
     (let missing = f64_of_int (tc_Burst config - remaining);
          s = (if flt (Fin 0) (tc_Rate config) \<and> flt (Fin 0) missing
               then int_of_f64 (fadd (fdiv missing (tc_Rate config)) (fl (999 / 1000))) else 1)
      in if s < 1 then 1 else s)"

definition retry_after :: "TierConfig \<Rightarrow> int" where
  "retry_after config =
     (let timeForOne = fdiv (Fin 1) (tc_Rate config) in
      if flt (Fin 0) (tc_Rate config) \<and> flt (Fin 1) timeForOne then int_of_f64 (fadd timeForOne (fl (999 / 1000))) else 1)"

text \<open>
  The lookup, \<open>Allow\<close> and \<open>Tokens\<close> of \<open>LimitHandler\<close>; the readings of the clock are \<open>lastSeen\<close> (0), the
  limiter's own two (1, 2) and the one of the reset header (3).
\<close>

definition set_limiter :: "string \<Rightarrow> 'l \<Rightarrow> 'l IPRateLimiter \<Rightarrow> 'l IPRateLimiter" where
  "set_limiter identity limiter i =
     (case mget (rl_visitors i) identity of
        Some v \<Rightarrow> i\<lparr>rl_visitors := mput identity (v\<lparr>vi_limiter := limiter\<rparr>) (rl_visitors i)\<rparr>
      | None \<Rightarrow> i)"

definition count_request ::
  "'l rate_lib \<Rightarrow> world \<Rightarrow> clock \<Rightarrow> 'l IPRateLimiter \<Rightarrow> string \<Rightarrow> string \<Rightarrow> (bool \<times> int \<times> TierConfig) \<times> 'l IPRateLimiter" where
  "count_request L w ck i identity tier =
     (let ((limiter, config), i) = GetLimiterForTier L w (ck 0) i identity tier;
          (allowed, limiter) = lim_Allow L (ck 1) limiter
      in ((allowed, remaining_of config (lim_Tokens L (ck 2) limiter), config), set_limiter identity limiter i))"

definition limit_headers :: "clock \<Rightarrow> TierConfig \<Rightarrow> int \<Rightarrow> (string \<times> string) list" where
  "limit_headers ck config remaining =
     [(''X-RateLimit-Limit'', Itoa (limit_quota config)), (''X-RateLimit-Remaining'', Itoa remaining),
      (''X-RateLimit-Reset'', Itoa (Unix (ck 3) + seconds_to_reset config remaining))]"

definition LimitHandler ::
  "'l rate_lib \<Rightarrow> world \<Rightarrow> APIKey option \<Rightarrow> clock \<Rightarrow> 's handler \<Rightarrow> 'l IPRateLimiter \<Rightarrow> 's \<Rightarrow> Request \<Rightarrow>
     Response \<times> 's \<times> 'l IPRateLimiter" where
  "LimitHandler L w ak ck nxt i s r =
     (let (identity, tier) = ResolveTenantIdentityAndTier w ak r;
          ((allowed, remaining, config), i) = count_request L w ck i identity tier;
          hs = limit_headers ck config remaining
      in if \<not> allowed
         then (\<lparr>rp_Status = 429,
                rp_Header = hs @ [(''Content-Type'', ''application/json''), (''Retry-After'', Itoa (retry_after config))],
                rp_Cookies = [],
                rp_Body = JSON (J_object [(''error'', J_object
                  [(''code'', J_int 6003), (''type'', J_string ''RATE_LIMIT_EXCEEDED''),
                   (''layer'', J_string ''TransportLayer''),
                   (''message'', J_string ''Rate limit exceeded. Please retry after a brief pause.''),
                   (''status'', J_int 429), (''request_id'', J_string (rq_RequestID r))]),
                  (''retry_after_seconds'', J_int (retry_after config))])\<rparr>, s, i)
         else case nxt s r of (rsp, s) \<Rightarrow> (with_headers hs rsp, s, i))"

section \<open>The map of visitors\<close>

lemma mput_mput [simp]: "mput k v (mput k v' m) = mput k v m"
  by (simp add: mput_def)

lemma mget_filter_values:
  assumes "wf_map m"
  shows "mget (filter (\<lambda>(_, v). P v) m) k = (case mget m k of Some v \<Rightarrow> if P v then Some v else None | None \<Rightarrow> None)"
  using assms unfolding mget_def wf_map_def
  by (induction m) (auto split: option.splits simp: map_of_eq_None_iff image_iff)

lemma limiter_config_visitors [simp]: "limiter_config w (i\<lparr>rl_visitors := m\<rparr>) tier = limiter_config w i tier"
  by (simp add: limiter_config_def)

definition wf_limiter :: "'l IPRateLimiter \<Rightarrow> bool" where
  "wf_limiter i \<longleftrightarrow> wf_map (rl_visitors i)"

lemma mget_cleanup:
  "wf_limiter i \<Longrightarrow> mget (rl_visitors (cleanup now i)) x =
     (case mget (rl_visitors i) x of
        Some v \<Rightarrow> if vi_lastSeen v < now - 3 * Minute then None else Some v | None \<Rightarrow> None)"
  unfolding cleanup_def wf_limiter_def Let_def
  by (simp add: mget_filter_values [where P = "\<lambda>v. \<not> vi_lastSeen v < now - 3 * Minute"] split: option.splits)

text \<open>The limiter that serves the next request of an identity.\<close>

definition limiter_for :: "'l rate_lib \<Rightarrow> world \<Rightarrow> 'l IPRateLimiter \<Rightarrow> string \<Rightarrow> string \<Rightarrow> 'l" where
  "limiter_for L w i x tier =
     (let fresh = lim_new L (tc_Rate (limiter_config w i tier)) (tc_Burst (limiter_config w i tier)) in
      case mget (rl_visitors i) x of
        Some v \<Rightarrow> if rl_enableTiers i \<and> vi_tier v \<noteq> tier then fresh else vi_limiter v
      | None \<Rightarrow> fresh)"

lemma visitor_seen:
  "(v :: 'l visitor)\<lparr>vi_lastSeen := t, vi_limiter := l\<rparr> = \<lparr>vi_limiter = l, vi_tier = vi_tier v, vi_lastSeen = t\<rparr>"
  by (cases v) simp

lemma count_request_exact:
  "count_request L w ck i x tier =
     (case lim_Allow L (ck 1) (limiter_for L w i x tier) of (allowed, l) \<Rightarrow>
       ((allowed, remaining_of (limiter_config w i tier) (lim_Tokens L (ck 2) l), limiter_config w i tier),
        i\<lparr>rl_visitors := mput x
          \<lparr>vi_limiter = l,
           vi_tier = (case mget (rl_visitors i) x of Some v \<Rightarrow> if rl_enableTiers i then tier else vi_tier v | None \<Rightarrow> tier),
           vi_lastSeen = ck 0\<rparr> (rl_visitors i)\<rparr>))"
  by (auto simp: count_request_def GetLimiterForTier_def limiter_for_def set_limiter_def Let_def map_simps visitor_seen
      split: option.splits prod.splits)

section \<open>Runs\<close>

text \<open>
  The limiter lives through calls and through ticks of the clean-up. A run yields the identity of
  each call and whether it was let through.
\<close>

datatype limit_event = Call Request clock | Sweep gtime

fun limiter_run :: "'l rate_lib \<Rightarrow> world \<Rightarrow> 'l IPRateLimiter \<Rightarrow> limit_event list \<Rightarrow> (string \<times> bool) list \<times> 'l IPRateLimiter" where
  "limiter_run L w i [] = ([], i)"
| "limiter_run L w i (Sweep t # es) = limiter_run L w (cleanup t i) es"
| "limiter_run L w i (Call r ck # es) =
     (let (x, tier) = ResolveTenantIdentityAndTier w None r;
          ((ok, _, _), i) = count_request L w ck i x tier;
          (outs, i) = limiter_run L w i es
      in ((x, ok) # outs, i))"

definition admitted :: "'l rate_lib \<Rightarrow> world \<Rightarrow> 'l IPRateLimiter \<Rightarrow> limit_event list \<Rightarrow> string \<Rightarrow> nat" where
  "admitted L w i es x = length (filter (\<lambda>(y, ok). y = x \<and> ok) (fst (limiter_run L w i es)))"

text \<open>The events follow each other in time, and a call reads its two clocks within \<open>d\<close>.\<close>

fun in_time :: "duration \<Rightarrow> gtime \<Rightarrow> limit_event list \<Rightarrow> bool" where
  "in_time d t [] = True"
| "in_time d t (Sweep t' # es) = (t \<le> t' \<and> in_time d t' es)"
| "in_time d t (Call r ck # es) = (t \<le> ck 0 \<and> ck 0 \<le> ck 1 \<and> ck 1 \<le> ck 0 + d \<and> in_time d (ck 1) es)"

fun end_time :: "gtime \<Rightarrow> limit_event list \<Rightarrow> gtime" where
  "end_time t [] = t"
| "end_time t (Sweep t' # es) = end_time t' es"
| "end_time t (Call r ck # es) = end_time (ck 1) es"

text \<open>
  What the documentation of \<open>rate.Limiter\<close> says: a bucket of \<open>b\<close> tokens, full at first, refilled with
  \<open>r\<close> tokens per second; an allowed event takes one, and there are never fewer than none. \<open>tok t l\<close>
  is the number of tokens at a time; the law speaks of the limiters that were made with \<open>r\<close> and \<open>b\<close>.
\<close>

inductive_set limiters :: "'l rate_lib \<Rightarrow> f64 \<Rightarrow> int \<Rightarrow> 'l set" for L r b where
  made: "lim_new L r b \<in> limiters L r b"
| used: "l \<in> limiters L r b \<Longrightarrow> snd (lim_Allow L t l) \<in> limiters L r b"

definition tokens_in :: "rat \<Rightarrow> duration \<Rightarrow> rat" where
  "tokens_in rps d = rps * of_int d / of_int Second"

definition token_bucket :: "'l rate_lib \<Rightarrow> (gtime \<Rightarrow> 'l \<Rightarrow> rat) \<Rightarrow> f64 \<Rightarrow> int \<Rightarrow> bool" where
  "token_bucket L tok r b \<longleftrightarrow>
     (\<forall>t. tok t (lim_new L r b) = of_int b) \<and>
     (\<forall>l \<in> limiters L r b. \<forall>t. 0 \<le> tok t l \<and>
        (\<forall>t' \<ge> t. tok t' l \<le> tok t l + tokens_in (fval r) (t' - t)) \<and>
        (fst (lim_Allow L t l) \<longleftrightarrow> 1 \<le> tok t l) \<and>
        tok t (snd (lim_Allow L t l)) = tok t l - (if fst (lim_Allow L t l) then 1 else 0))"

section \<open>How many requests get through\<close>

lemma tokens_in_add: "tokens_in r (a + b) = tokens_in r a + tokens_in r b"
  by (simp add: tokens_in_def ring_distribs add_divide_distrib)

lemma tokens_in_diff: "tokens_in r (a - b) = tokens_in r a - tokens_in r b"
  by (simp add: tokens_in_def right_diff_distrib diff_divide_distrib)

lemma tokens_in_mono: "0 \<le> r \<Longrightarrow> a \<le> b \<Longrightarrow> tokens_in r a \<le> tokens_in r b"
  by (simp add: tokens_in_def Second_def mult_left_mono)

lemma token_bucketD:
  assumes "token_bucket L tok r b" and "l \<in> limiters L r b"
  shows "0 \<le> tok t l" and "t \<le> t' \<Longrightarrow> tok t' l \<le> tok t l + tokens_in (fval r) (t' - t)"
    and "lim_Allow L t l = (ok, l') \<Longrightarrow> ok = (1 \<le> tok t l) \<and> tok t l' = tok t l - (if ok then 1 else 0) \<and> l' \<in> limiters L r b"
  using assms limiters.used [OF assms(2), of t] unfolding token_bucket_def by (auto dest!: bspec spec [of _ t])

text \<open>
  The budget of an identity at a time: its tokens, or, when it has been idle for so long that the
  clean-up may soon forget it, what a full bucket is worth now.
\<close>

definition budget :: "(gtime \<Rightarrow> 'l \<Rightarrow> rat) \<Rightarrow> rat \<Rightarrow> int \<Rightarrow> 'l IPRateLimiter \<Rightarrow> string \<Rightarrow> gtime \<Rightarrow> rat" where
  "budget tok r b i x t =
     (case mget (rl_visitors i) x of
        None \<Rightarrow> of_int b
      | Some v \<Rightarrow> max (tok t (vi_limiter v)) (of_int b - tokens_in r (vi_lastSeen v + 3 * Minute - t)))"

definition visitor_ok :: "'l rate_lib \<Rightarrow> world \<Rightarrow> 'l IPRateLimiter \<Rightarrow> string \<Rightarrow> string \<Rightarrow> bool" where
  "visitor_ok L w i x tier \<longleftrightarrow> wf_limiter i \<and>
     (\<forall>v. mget (rl_visitors i) x = Some v \<longrightarrow>
        vi_limiter v \<in> limiters L (tc_Rate (limiter_config w i tier)) (tc_Burst (limiter_config w i tier)) \<and>
        (rl_enableTiers i \<longrightarrow> vi_tier v = tier))"

lemma budget_nonneg:
  assumes "token_bucket L tok r b" and "0 \<le> b" and "\<And>v. mget (rl_visitors i) x = Some v \<Longrightarrow> vi_limiter v \<in> limiters L r b"
  shows "0 \<le> budget tok (fval r) b i x t"
  using assms by (auto simp: budget_def token_bucket_def le_max_iff_disj split: option.splits)

lemma budget_later:
  assumes "token_bucket L tok r b" and "0 \<le> fval r" and "t \<le> t'"
    and "\<And>v. mget (rl_visitors i) x = Some v \<Longrightarrow> vi_limiter v \<in> limiters L r b"
  shows "budget tok (fval r) b i x t' \<le> budget tok (fval r) b i x t + tokens_in (fval r) (t' - t)"
proof (cases "mget (rl_visitors i) x")
  case None
  then show ?thesis using tokens_in_mono [OF assms(2), of 0 "t' - t"] assms(3) by (simp add: budget_def tokens_in_def)
next
  case (Some v)
  have "tok t' (vi_limiter v) \<le> tok t (vi_limiter v) + tokens_in (fval r) (t' - t)"
    using assms(1,3) assms(4) [OF Some] by (auto simp: token_bucket_def)
  moreover have "tokens_in (fval r) (vi_lastSeen v + 3 * Minute - t) =
      tokens_in (fval r) (vi_lastSeen v + 3 * Minute - t') + tokens_in (fval r) (t' - t)"
    by (simp add: tokens_in_diff tokens_in_add)
  ultimately show ?thesis using Some by (auto simp: budget_def max_def)
qed

lemma budget_cleanup:
  assumes "0 \<le> r" and "wf_limiter i"
  shows "budget tok r b (cleanup t i) x t \<le> budget tok r b i x t"
proof (cases "mget (rl_visitors i) x")
  case (Some v)
  have "of_int b \<le> max (tok t (vi_limiter v)) (of_int b - tokens_in r (vi_lastSeen v + 3 * Minute - t))"
    if "vi_lastSeen v < t - 3 * Minute"
    using that tokens_in_mono [OF assms(1), of "vi_lastSeen v + 3 * Minute - t" 0] by (simp add: tokens_in_def le_max_iff_disj)
  then show ?thesis using Some by (simp add: budget_def mget_cleanup [OF assms(2)])
qed (simp add: budget_def mget_cleanup [OF assms(2)])

lemma cleanup_frame [simp]:
  "limiter_config w (cleanup t i) tier = limiter_config w i tier" "rl_enableTiers (cleanup t i) = rl_enableTiers i"
  "wf_limiter i \<Longrightarrow> wf_limiter (cleanup t i)"
  by (simp_all add: cleanup_def limiter_config_def Let_def wf_limiter_def wf_map_def distinct_map_filter)

lemma visitor_ok_cleanup: "visitor_ok L w i x tier \<Longrightarrow> visitor_ok L w (cleanup t i) x tier"
  by (auto simp: visitor_ok_def mget_cleanup split: option.splits if_splits)

text \<open>A request of another identity changes nothing for \<open>x\<close>; one of its own pays with a token.\<close>

lemma count_request_others:
  assumes "count_request L w ck i y tier' = (out, i')" and "y \<noteq> x"
  shows "budget tok r b i' x t = budget tok r b i x t" and "visitor_ok L w i x tier \<Longrightarrow> visitor_ok L w i' x tier"
  using assms by (auto simp: count_request_exact budget_def visitor_ok_def wf_limiter_def map_simps gomap.ok_put split: prod.splits)

lemma count_request_pays:
  assumes "count_request L w ck i x tier = ((ok, out), i')" and "visitor_ok L w i x tier"
    and "r = tc_Rate (limiter_config w i tier)" and "b = tc_Burst (limiter_config w i tier)"
    and "token_bucket L tok r b" and "0 \<le> fval r" and "ck 1 \<le> ck 0 + d" and "of_int b \<le> tokens_in (fval r) (3 * Minute - d)"
  shows "budget tok (fval r) b i' x (ck 1) + (if ok then 1 else 0) \<le> budget tok (fval r) b i x (ck 1)"
    and "visitor_ok L w i' x tier"
proof -
  let ?l = "limiter_for L w i x tier"
  have l: "?l \<in> limiters L r b" using assms(2) unfolding visitor_ok_def assms(3,4)
    by (auto simp: limiter_for_def made Let_def split: option.splits)
  obtain l' where l': "lim_Allow L (ck 1) ?l = (ok, l')" and i': "mget (rl_visitors i') x = Some v \<Longrightarrow>
      vi_limiter v = l' \<and> vi_lastSeen v = ck 0 \<and> (rl_enableTiers i \<longrightarrow> vi_tier v = tier)" "mget (rl_visitors i') x \<noteq> None"
      "wf_limiter i'" "limiter_config w i' tier = limiter_config w i tier" "rl_enableTiers i' = rl_enableTiers i" for v
    using assms(1,2) unfolding visitor_ok_def
    by (auto simp: count_request_exact wf_limiter_def map_simps gomap.ok_put split: prod.splits option.splits)
  have tok: "tok (ck 1) l' = tok (ck 1) ?l - (if ok then 1 else 0)" "0 \<le> tok (ck 1) l'"
    using token_bucketD(3) [OF assms(5) l l'] token_bucketD(1) [OF assms(5) l, of "ck 1"] by auto
  have "of_int b \<le> tokens_in (fval r) (ck 0 + 3 * Minute - ck 1)"
    using assms(7,8) tokens_in_mono [OF assms(6), of "3 * Minute - d" "ck 0 + 3 * Minute - ck 1"] by linarith
  then have "budget tok (fval r) b i' x (ck 1) = tok (ck 1) l'"
    using i'(1,2) tok(2) by (auto simp: budget_def max_def)
  moreover have "tok (ck 1) ?l \<le> budget tok (fval r) b i x (ck 1)"
    using assms(2,5) unfolding visitor_ok_def token_bucket_def budget_def limiter_for_def assms(3,4)
    by (auto simp: Let_def split: option.splits)
  ultimately show "budget tok (fval r) b i' x (ck 1) + (if ok then 1 else 0) \<le> budget tok (fval r) b i x (ck 1)"
    using tok(1) by simp
  show "visitor_ok L w i' x tier"
    using i' limiters.used [OF l, of "ck 1"] l' unfolding visitor_ok_def assms(3,4) by auto
qed

lemma count_request_frame:
  "count_request L w ck i y tier' = (out, i') \<Longrightarrow> limiter_config w i' tier = limiter_config w i tier"
  by (auto simp: count_request_exact split: prod.splits)

lemma admitted_budget:
  assumes "visitor_ok L w i x tier" and "in_time d t es"
    and "\<forall>e \<in> set es. case e of Call rq _ \<Rightarrow> fst (ResolveTenantIdentityAndTier w None rq) = x \<longrightarrow>
      snd (ResolveTenantIdentityAndTier w None rq) = tier | Sweep _ \<Rightarrow> True"
    and "r = tc_Rate (limiter_config w i tier)" and "b = tc_Burst (limiter_config w i tier)"
    and tb: "token_bucket L tok r b" and r: "0 \<le> fval r" and b: "0 \<le> b" "of_int b \<le> tokens_in (fval r) (3 * Minute - d)"
  shows "of_nat (admitted L w i es x) \<le> budget tok (fval r) b i x t + tokens_in (fval r) (end_time t es - t)"
  using assms(1-5)
proof (induction es arbitrary: i t)
  case Nil
  then show ?case using budget_nonneg [OF tb b(1), of i x t]
    by (simp add: admitted_def visitor_ok_def tokens_in_def)
next
  case (Cons e es)
  have lim: "\<And>v. mget (rl_visitors i) x = Some v \<Longrightarrow> vi_limiter v \<in> limiters L r b"
    using Cons.prems(1,4,5) by (simp add: visitor_ok_def)
  show ?case
  proof (cases e)
    case (Sweep t')
    have "of_nat (admitted L w (cleanup t' i) es x) \<le>
        budget tok (fval r) b (cleanup t' i) x t' + tokens_in (fval r) (end_time t' es - t')"
      using Cons.prems visitor_ok_cleanup by (intro Cons.IH) (auto simp: Sweep)
    also have "budget tok (fval r) b (cleanup t' i) x t' \<le> budget tok (fval r) b i x t + tokens_in (fval r) (t' - t)"
      using order_trans [OF budget_cleanup [OF r, where t = t'] budget_later [OF tb r _ lim]] Cons.prems(1,2)
      by (simp add: visitor_ok_def Sweep)
    finally show ?thesis by (simp add: Sweep admitted_def tokens_in_diff)
  next
    case (Call rq ck)
    obtain y tier' where y: "ResolveTenantIdentityAndTier w None rq = (y, tier')" by fastforce
    obtain ok out i' where c: "count_request L w ck i y tier' = ((ok, out), i')" by (metis surj_pair)
    have t: "t \<le> ck 1" "ck 1 \<le> ck 0 + d" "in_time d (ck 1) es" using Cons.prems(2) by (auto simp: Call)
    have step: "budget tok (fval r) b i' x (ck 1) + (if y = x \<and> ok then 1 else 0) \<le> budget tok (fval r) b i x (ck 1)"
      "visitor_ok L w i' x tier"
    proof (atomize (full), cases "y = x")
      case True
      then have c': "count_request L w ck i x tier = ((ok, out), i')" using c Cons.prems(3) by (simp add: Call y)
      show "budget tok (fval r) b i' x (ck 1) + (if y = x \<and> ok then 1 else 0) \<le> budget tok (fval r) b i x (ck 1) \<and> visitor_ok L w i' x tier"
        using count_request_pays [OF c' Cons.prems(1,4,5) tb r t(2) b(2)] True by simp
    next
      case False
      then show "budget tok (fval r) b i' x (ck 1) + (if y = x \<and> ok then 1 else 0) \<le> budget tok (fval r) b i x (ck 1) \<and> visitor_ok L w i' x tier"
        using count_request_others [OF c False] Cons.prems(1) by simp
    qed
    have "of_nat (admitted L w i (e # es) x) = of_nat (admitted L w i' es x) + (if y = x \<and> ok then 1 else 0 :: rat)"
      using y c by (simp add: Call admitted_def split: prod.splits)
    also have "of_nat (admitted L w i' es x) \<le> budget tok (fval r) b i' x (ck 1) + tokens_in (fval r) (end_time (ck 1) es - ck 1)"
      using Cons.prems step t by (intro Cons.IH) (auto simp: count_request_frame [OF c])
    finally have "of_nat (admitted L w i (e # es) x) \<le> budget tok (fval r) b i x (ck 1) + tokens_in (fval r) (end_time (ck 1) es - ck 1)"
      using step(1) by linarith
    also have "budget tok (fval r) b i x (ck 1) \<le> budget tok (fval r) b i x t + tokens_in (fval r) (ck 1 - t)"
      by (rule budget_later [OF tb r t(1) lim])
    finally show ?thesis by (simp add: Call tokens_in_diff)
  qed
qed

text \<open>
  C20: the limiter lets no identity through more often than its bucket allows. In a run of requests of
  any callers and ticks of the clean-up, a new identity whose requests all ask for the same tier is
  let through at most as often as the burst of its configuration and the refill of the elapsed time
  permit, although the clean-up forgets visitors and gives them a full bucket again. Assumed is the
  documented behaviour of the token bucket, and that a burst is refilled within the three minutes
  after which a visitor is forgotten, less the time between the two clock readings of a request.
\<close>

theorem admission_bounded:
  assumes "token_bucket L tok (tc_Rate (limiter_config w i tier)) (tc_Burst (limiter_config w i tier))"
    and "0 \<le> fval (tc_Rate (limiter_config w i tier))" and "0 \<le> tc_Burst (limiter_config w i tier)"
    and "of_int (tc_Burst (limiter_config w i tier)) \<le> tokens_in (fval (tc_Rate (limiter_config w i tier))) (3 * Minute - d)"
    and "wf_limiter i" and "mget (rl_visitors i) x = None" and "in_time d t es"
    and "\<forall>e \<in> set es. case e of Call rq _ \<Rightarrow> fst (ResolveTenantIdentityAndTier w None rq) = x \<longrightarrow>
      snd (ResolveTenantIdentityAndTier w None rq) = tier | Sweep _ \<Rightarrow> True"
  shows "of_nat (admitted L w i es x) \<le>
    of_int (tc_Burst (limiter_config w i tier)) + tokens_in (fval (tc_Rate (limiter_config w i tier))) (end_time t es - t)"
  using admitted_budget [OF _ assms(7,8) refl refl assms(1-4)] assms(5,6) by (simp add: visitor_ok_def budget_def)

text \<open>A token bucket in exact arithmetic: rate, size, time of the last event and tokens then.\<close>

type_synonym bucket = "rat \<times> int \<times> gtime \<times> rat"

fun bucket_tokens :: "gtime \<Rightarrow> bucket \<Rightarrow> rat" where
  "bucket_tokens t (r, b, t0, n) = min (of_int b) (n + tokens_in r (max 0 (t - t0)))"

fun bucket_allow :: "gtime \<Rightarrow> bucket \<Rightarrow> bool \<times> bucket" where
  "bucket_allow t (r, b, t0, n) =
     (let m = bucket_tokens t (r, b, t0, n) in if 1 \<le> m then (True, r, b, t, m - 1) else (False, r, b, t0, n))"

definition bucket_lib :: "bucket rate_lib" where
  "bucket_lib = \<lparr>lim_new = (\<lambda>r b. (fval r, b, 0, of_int b)), lim_Allow = bucket_allow, lim_Tokens = (\<lambda>t l. fl (bucket_tokens t l))\<rparr>"

lemma bucket_limiters:
  assumes "l \<in> limiters bucket_lib r b" and "0 \<le> b" and "0 \<le> fval r"
  shows "\<exists>t0 n. l = (fval r, b, t0, n) \<and> 0 \<le> n \<and> n \<le> of_int b"
  using assms
proof (induction rule: limiters.induct)
  case (used l t)
  then obtain t0 n where "l = (fval r, b, t0, n)" "0 \<le> n" "n \<le> of_int b" by blast
  then show ?case by (auto simp: bucket_lib_def Let_def)
qed (simp add: bucket_lib_def)

lemma min_step: "(a' :: rat) \<le> a + d \<Longrightarrow> 0 \<le> d \<Longrightarrow> min b (n + a') \<le> min b (n + a) + d"
  by (auto simp: min_def)

lemma bucket_lib_law: "0 \<le> b \<Longrightarrow> 0 \<le> fval r \<Longrightarrow> token_bucket bucket_lib bucket_tokens r b"
proof -
  assume b: "0 \<le> b" and r: "0 \<le> fval r"
  have pos: "0 \<le> tokens_in (fval r) (max 0 d)" for d
    using tokens_in_mono [OF r, of 0 "max 0 d"] by (simp add: tokens_in_def)
  have grow: "tokens_in (fval r) (max 0 (t' - t0)) \<le> tokens_in (fval r) (max 0 (t - t0)) + tokens_in (fval r) (t' - t)" if "t \<le> t'" for t t' t0
    using that tokens_in_mono [OF r, of "max 0 (t' - t0)" "max 0 (t - t0) + (t' - t)"] by (simp add: tokens_in_add)
  have "0 \<le> bucket_tokens t l \<and> (\<forall>t' \<ge> t. bucket_tokens t' l \<le> bucket_tokens t l + tokens_in (fval r) (t' - t)) \<and>
        (fst (bucket_allow t l) \<longleftrightarrow> 1 \<le> bucket_tokens t l) \<and>
        bucket_tokens t (snd (bucket_allow t l)) = bucket_tokens t l - (if fst (bucket_allow t l) then 1 else 0)"
    if made: "l \<in> limiters bucket_lib r b" for l t
  proof -
    obtain t0 n where l: "l = (fval r, b, t0, n)" "0 \<le> n" "n \<le> of_int b" using bucket_limiters [OF made b r] by blast
    have "bucket_tokens t' l \<le> bucket_tokens t l + tokens_in (fval r) (t' - t)" if "t \<le> t'" for t'
      using min_step [OF grow [OF that, of t0]] pos [of "t' - t"] that l by (simp add: max_absorb2)
    then show ?thesis using l pos [of "t - t0"] b by (auto simp: Let_def tokens_in_def min_def)
  qed
  then show ?thesis using b pos by (simp add: token_bucket_def bucket_lib_def min_def)
qed

lemma demo_api_limit: "limiter_config demo_world apiLimiter TierAnonymous = \<lparr>tc_Rate = Fin 2, tc_Burst = 30, tc_QuotaPerMinute = 120\<rparr>"
  by (simp add: limiter_config_def apiLimiter_def EnableTiers_def NewIPRateLimiter_def getTierConfig_def DefaultTierConfigs_def
      tier_names mget_def first_set_def demo_world_def or_else_def override_rpm_def override_burst_def)

lemma demo_anonymous: "ResolveTenantIdentityAndTier demo_world None (demo_get []) = (''ip:'', TierAnonymous)"
  by code_simp

lemma api_limiter_new: "wf_limiter apiLimiter" "mget (rl_visitors apiLimiter) x = None"
  by (simp_all add: wf_limiter_def wf_map_def mget_def apiLimiter_def EnableTiers_def NewIPRateLimiter_def)

definition demo_burst :: "nat \<Rightarrow> limit_event list" where
  "demo_burst n = replicate n (Call (demo_get []) (\<lambda>_. 7)) @ [Sweep 8]"

lemma demo_burst_time: "in_time 0 7 (demo_burst n) \<and> end_time 7 (demo_burst n) = 8"
  unfolding demo_burst_def by (induction n) simp_all

theorem admission_bounded_witness:
  "admitted bucket_lib demo_world apiLimiter (demo_burst 40) ''ip:'' \<le> 30"
proof -
  have law: "token_bucket bucket_lib bucket_tokens (Fin 2) 30" by (rule bucket_lib_law) simp_all
  have "of_nat (admitted bucket_lib demo_world apiLimiter (demo_burst 40) ''ip:'') \<le> (30 :: rat) + tokens_in 2 1"
    using admission_bounded [where L = bucket_lib and tok = bucket_tokens and w = demo_world and i = apiLimiter and tier = TierAnonymous
        and d = 0 and x = "''ip:''" and t = 7 and es = "demo_burst 40"] law
    by (simp add: demo_api_limit demo_anonymous demo_burst_time api_limiter_new tokens_in_def Minute_def Second_def)
      (simp add: demo_burst_def demo_anonymous)
  then show ?thesis by (simp add: tokens_in_def Second_def)
qed

text \<open>What the response headers announce: no more requests than the quota, and a reset in the future.\<close>

lemma limit_headers_bounds:
  assumes "0 \<le> limit_quota config"
  shows "0 \<le> remaining_of config n" and "remaining_of config n \<le> limit_quota config" and "1 \<le> seconds_to_reset config m"
  using assms by (simp_all add: remaining_of_def seconds_to_reset_def Let_def)

section \<open>Escaping the limit\<close>

text \<open>Every configuration has a burst of at least one request.\<close>

lemma getTierConfig_burst: "1 \<le> tc_Burst (getTierConfig w tier)"
proof -
  have "1 \<le> tc_Burst c \<Longrightarrow> 1 \<le> tc_Burst (override_burst v (override_rpm u c))" for u v c
    by (auto simp: override_burst_def override_rpm_def split: option.splits)
  then show ?thesis
    by (simp add: getTierConfig_def Let_def DefaultTierConfigs_def mget_def tier_names)
qed

lemma fresh_allowed:
  "\<forall>r b t. 1 \<le> b \<longrightarrow> fst (lim_Allow L t (lim_new L r b)) \<Longrightarrow> 1 \<le> b \<Longrightarrow> \<exists>l. lim_Allow L t (lim_new L r b) = (True, l)"
  by (metis prod.collapse)

text \<open>
  The tier is taken from a header of the request, and a visitor who asks for another tier than before
  gets a new bucket: alternating between two tiers, a caller is never refused.
\<close>

theorem tier_switch_never_refused:
  assumes "\<forall>r b t. 1 \<le> b \<longrightarrow> fst (lim_Allow L t (lim_new L r b))" and "rl_enableTiers i"
    and "\<forall>(rq, ck) \<in> set rs. fst (ResolveTenantIdentityAndTier w None rq) = x"
    and "distinct_adj (map (\<lambda>(rq, ck). snd (ResolveTenantIdentityAndTier w None rq)) rs)"
    and "\<forall>v. mget (rl_visitors i) x = Some v \<longrightarrow> rs \<noteq> [] \<longrightarrow> vi_tier v \<noteq> snd (ResolveTenantIdentityAndTier w None (fst (hd rs)))"
  shows "fst (limiter_run L w i (map (\<lambda>(rq, ck). Call rq ck) rs)) = map (\<lambda>_. (x, True)) rs"
  using assms(2-5)
proof (induction rs arbitrary: i)
  case (Cons a rs)
  obtain rq ck where a: "a = (rq, ck)" by fastforce
  obtain tier where t: "ResolveTenantIdentityAndTier w None rq = (x, tier)" using Cons.prems(2) by (cases "ResolveTenantIdentityAndTier w None rq") (simp add: a)
  let ?c = "limiter_config w i tier"
  have fresh: "limiter_for L w i x tier = lim_new L (tc_Rate ?c) (tc_Burst ?c)"
    using Cons.prems(1,4) by (auto simp: limiter_for_def Let_def a t split: option.splits)
  have "1 \<le> tc_Burst ?c" using Cons.prems(1) getTierConfig_burst [of w tier] by (simp add: limiter_config_def)
  then obtain l where l: "lim_Allow L (ck 1) (limiter_for L w i x tier) = (True, l)"
    using fresh_allowed [OF assms(1)] fresh by metis
  let ?i = "i\<lparr>rl_visitors := mput x \<lparr>vi_limiter = l, vi_tier = tier, vi_lastSeen = ck 0\<rparr> (rl_visitors i)\<rparr>"
  have c: "snd (count_request L w ck i x tier) = ?i" "fst (fst (count_request L w ck i x tier))"
    using l Cons.prems(1) by (auto simp: count_request_exact split: option.splits)
  have "fst (limiter_run L w ?i (map (\<lambda>(rq, ck). Call rq ck) rs)) = map (\<lambda>_. (x, True)) rs"
    using Cons.prems by (intro Cons.IH) (cases rs; auto simp: a t map_simps split_def)+
  then show ?case using c by (auto simp: a t Let_def split_def)
qed simp

text \<open>
  The limiter of the sign-in routes counts by the bearer token of the request, which nobody has
  checked: a caller who sends a new token with every attempt is never refused.
\<close>

theorem fresh_identities_never_refused:
  assumes "\<forall>r b t. 1 \<le> b \<longrightarrow> fst (lim_Allow L t (lim_new L r b))"
    and "\<forall>tier. 1 \<le> tc_Burst (limiter_config w i tier)"
    and "distinct (map (\<lambda>(rq, ck). fst (ResolveTenantIdentityAndTier w None rq)) rs)"
    and "\<forall>(rq, ck) \<in> set rs. mget (rl_visitors i) (fst (ResolveTenantIdentityAndTier w None rq)) = None"
  shows "fst (limiter_run L w i (map (\<lambda>(rq, ck). Call rq ck) rs)) =
    map (\<lambda>(rq, ck). (fst (ResolveTenantIdentityAndTier w None rq), True)) rs"
  using assms(2-4)
proof (induction rs arbitrary: i)
  case (Cons a rs)
  obtain rq ck where a: "a = (rq, ck)" by fastforce
  obtain x tier where t: "ResolveTenantIdentityAndTier w None rq = (x, tier)" by fastforce
  have fresh: "limiter_for L w i x tier = lim_new L (tc_Rate (limiter_config w i tier)) (tc_Burst (limiter_config w i tier))"
    using Cons.prems(3) by (simp add: limiter_for_def Let_def a t)
  obtain l where l: "lim_Allow L (ck 1) (limiter_for L w i x tier) = (True, l)"
    using fresh_allowed [OF assms(1)] Cons.prems(1) fresh by metis
  let ?i = "snd (count_request L w ck i x tier)"
  have c: "fst (fst (count_request L w ck i x tier))" "\<And>y. y \<noteq> x \<Longrightarrow> mget (rl_visitors ?i) y = mget (rl_visitors i) y"
    "\<And>tier. limiter_config w ?i tier = limiter_config w i tier"
    using l by (auto simp: count_request_exact map_simps split: option.splits)
  have "fst (limiter_run L w ?i (map (\<lambda>(rq, ck). Call rq ck) rs)) =
      map (\<lambda>(rq, ck). (fst (ResolveTenantIdentityAndTier w None rq), True)) rs"
  proof (rule Cons.IH)
    have "fst (ResolveTenantIdentityAndTier w None (fst q)) \<noteq> x" if "q \<in> set rs" for q
      using Cons.prems(2) that by (auto simp: a t split_def image_iff)
    then show "\<forall>(rq, ck) \<in> set rs. mget (rl_visitors ?i) (fst (ResolveTenantIdentityAndTier w None rq)) = None"
      using Cons.prems(3) by (simp add: split_def c(2))
  qed (use Cons.prems(1,2) c(3) in simp_all)
  then show ?case using c(1) by (auto simp: a t Let_def split_def)
qed simp

lemma bearer_identity:
  assumes "rq_User r = None" and "header_get r ''Authorization'' = ''Bearer '' @ tok" and "TrimSpace (w_rt w) tok = tok"
    and "tok \<noteq> []" and "\<not> HasPrefix tok ''flg_''"
  shows "fst (ResolveTenantIdentityAndTier w None r) = ''user:session:'' @ tok"
  using assms by (simp add: ResolveTenantIdentityAndTier_def base_identity_def Let_def HasPrefix_def TrimPrefix_def)

end
