(* ===== verification/Stats.thy ===== *)
theory Stats
  imports Engine Domain_Entities
begin

text \<open>
  \<open>src/pkg/stats/stats.go\<close> and its result types in \<open>src/pkg/domain/experiment.go\<close>: conversion rates
  and their intervals, the two-proportion test with its guards, and the report of an experiment.
  Arithmetic is binary64; \<open>math.Sqrt\<close> and \<open>math.Erf\<close> are the record \<open>math_lib\<close>, and no theorem
  depends on their values. Shown is how conversions are counted, that rates are proportions, and
  what the report's winner has in its favour.
\<close>

section \<open>Result types\<close>

record VariantMetricStats =
  vm_Variant :: string
  vm_Exposures :: int
  vm_Conversions :: int
  vm_ConversionRate :: f64
  vm_SumValue :: f64
  vm_Mean :: f64
  vm_Variance :: f64
  vm_StandardError :: f64
  vm_CI95Lower :: f64
  vm_CI95Upper :: f64
  vm_CI99Lower :: f64
  vm_CI99Upper :: f64

record VariantComparison =
  vc_TreatmentVariant :: string
  vc_ControlVariant :: string
  vc_AbsoluteLift :: f64
  vc_RelativeLiftPct :: f64
  vc_ZScore :: f64
  vc_PValue :: f64
  vc_ConfidencePct :: f64
  vc_IsSignificant95 :: bool
  vc_IsSignificant99 :: bool
  vc_Status :: string
  vc_RecommendedAction :: string
  vc_RequiredSampleSize :: int

record ExperimentReport =
  xr_FlagKey :: string
  xr_MetricName :: string
  xr_EventType :: string
  xr_Environment :: string
  xr_ControlVariant :: string
  xr_TotalExposures :: int
  xr_TotalEvents :: int
  xr_VariantStats :: "(string, VariantMetricStats) gomap"
  xr_Comparisons :: "(string, VariantComparison) gomap"
  xr_WinnerVariant :: string
  xr_GeneratedAt :: gtime

record math_lib =
  m_Sqrt :: "f64 \<Rightarrow> f64"
  m_Erf :: "f64 \<Rightarrow> f64"

section \<open>The test\<close>

definition MinSampleSizeForSignificance :: int where
  "MinSampleSizeForSignificance = 30"

text \<open>The constant \<open>math.Sqrt2\<close> as a binary64 number.\<close>

definition Sqrt2 :: f64 where
  "Sqrt2 = Fin (6369051672525773 / 4503599627370496)"

definition NormalCDF :: "math_lib \<Rightarrow> f64 \<Rightarrow> f64" where
  "NormalCDF M z = fmul (Fin (1 / 2)) (fadd (Fin 1) (m_Erf M (fdiv z Sqrt2)))"

definition TwoTailedPValue :: "math_lib \<Rightarrow> f64 \<Rightarrow> f64" where
  "TwoTailedPValue M z =
     (let absZ = fabs z; cdf = NormalCDF M absZ; pValue = fmul (Fin 2) (fsub (Fin 1) cdf) in
      if flt pValue (Fin 0) then Fin 0 else if flt (Fin 1) pValue then Fin 1 else pValue)"

definition zero_stats :: "string \<Rightarrow> int \<Rightarrow> int \<Rightarrow> VariantMetricStats" where
  "zero_stats variant exposures conversions =
     \<lparr>vm_Variant = variant, vm_Exposures = exposures, vm_Conversions = conversions, vm_ConversionRate = Fin 0,
      vm_SumValue = Fin 0, vm_Mean = Fin 0, vm_Variance = Fin 0, vm_StandardError = Fin 0, vm_CI95Lower = Fin 0,
      vm_CI95Upper = Fin 0, vm_CI99Lower = Fin 0, vm_CI99Upper = Fin 0\<rparr>"

definition ComputeVariantBinaryStats :: "math_lib \<Rightarrow> string \<Rightarrow> int \<Rightarrow> int \<Rightarrow> VariantMetricStats" where
  "ComputeVariantBinaryStats M variant exposures conversions =
     (let stats = zero_stats variant exposures conversions in
      if exposures \<le> 0 then stats
      else
        let p = fdiv (f64_of_int conversions) (f64_of_int exposures);
            variance = fmul p (fsub (Fin 1) p);
            se = m_Sqrt M (fdiv variance (f64_of_int exposures))
        in stats\<lparr>vm_ConversionRate := p, vm_Mean := p, vm_Variance := variance, vm_StandardError := se,
             vm_CI95Lower := fmax (Fin 0) (fsub p (fmul (fl (196 / 100)) se)),
             vm_CI95Upper := fmin (Fin 1) (fadd p (fmul (fl (196 / 100)) se)),
             vm_CI99Lower := fmax (Fin 0) (fsub p (fmul (fl (2576 / 1000)) se)),
             vm_CI99Upper := fmin (Fin 1) (fadd p (fmul (fl (2576 / 1000)) se))\<rparr>)"

definition zero_comparison :: "string \<Rightarrow> string \<Rightarrow> VariantComparison" where
  "zero_comparison treatment control =
     \<lparr>vc_TreatmentVariant = treatment, vc_ControlVariant = control, vc_AbsoluteLift = Fin 0, vc_RelativeLiftPct = Fin 0,
      vc_ZScore = Fin 0, vc_PValue = Fin 0, vc_ConfidencePct = Fin 0, vc_IsSignificant95 = False,
      vc_IsSignificant99 = False, vc_Status = [], vc_RecommendedAction = [], vc_RequiredSampleSize = 0\<rparr>"

definition relative_lift :: "f64 \<Rightarrow> f64 \<Rightarrow> f64" where
  "relative_lift pC pT =
     (if flt (Fin 0) pC then fmul (fdiv (fsub pT pC) pC) (Fin 100) else if flt (Fin 0) pT then PInf else Fin 0)"

text \<open>The rule \<open>n p \<ge> 5\<close> and the sample it asks for; \<open>math.Ceil\<close> is the negated floor of the negation.\<close>

definition required_sample :: "f64 \<Rightarrow> int" where
  "required_sample pPool =
     (if flt (Fin 0) pPool \<and> flt pPool (Fin 1)
      then let rate = fmin pPool (fsub (Fin 1) pPool);
               reqN = int_of_f64 (fneg (ffloor (fneg (fdiv (Fin 5) rate))))
           in if reqN < MinSampleSizeForSignificance then MinSampleSizeForSignificance else reqN
      else 100)"

definition too_few :: "f64 \<Rightarrow> f64 \<Rightarrow> f64 \<Rightarrow> bool" where
  "too_few nC nT pPool =
     (flt (fmin (fmul nC pPool) (fmul nT pPool)) (Fin 5)
      \<or> flt (fmin (fmul nC (fsub (Fin 1) pPool)) (fmul nT (fsub (Fin 1) pPool))) (Fin 5))"

definition few_data_advice :: "f64 \<Rightarrow> int \<Rightarrow> VariantMetricStats \<Rightarrow> VariantMetricStats \<Rightarrow> string" where
  "few_data_advice pPool reqN control treatment =
     ''Observed conversion rate ('' @ FormatFixed 1 (fmul pPool (Fin 100)) @ ''%) requires at least '' @ Itoa reqN
     @ '' exposures per variant for statistical test validity (n'' @ [CHR 0xC2, CHR 0xB7] @ ''p '' @ [CHR 0xE2, CHR 0x89, CHR 0xA5]
     @ '' 5 rule). Current: Control='' @ Itoa (vm_Exposures control) @ '', Treatment='' @ Itoa (vm_Exposures treatment) @ ''.''"

text \<open>The conclusion of a test that was carried out.\<close>

definition conclude :: "string \<Rightarrow> int \<Rightarrow> VariantComparison \<Rightarrow> VariantComparison" where
  "conclude treatment n cmp =
     (let note = (if n > 1 then '' (Bonferroni-corrected for '' @ Itoa n @ '' variants)'' else []);
          conf = FormatFixed 1 (vc_ConfidencePct cmp); p = FormatFixed 4 (vc_PValue cmp)
      in if vc_IsSignificant95 cmp then
           if flt (Fin 0) (vc_AbsoluteLift cmp) then
             let liftStr = (if vc_RelativeLiftPct cmp = PInf
                   then ''+'' @ FormatFixed 2 (fmul (vc_AbsoluteLift cmp) (Fin 100)) @ ''% absolute (baseline 0.00%)''
                   else ''+'' @ FormatFixed 2 (vc_RelativeLiftPct cmp) @ ''%'')
             in cmp\<lparr>vc_Status := ''WINNING'', vc_RecommendedAction :=
                  ''Treatment '' @ quoted treatment @ '' is outperforming Control by '' @ liftStr
                  @ '' (Statistically Significant with '' @ conf @ ''% confidence, p='' @ p @ note @ ''). Safe to roll out to 100%.''\<rparr>
           else cmp\<lparr>vc_Status := ''LOSING'', vc_RecommendedAction :=
                  ''Treatment '' @ quoted treatment @ '' is underperforming Control by '' @ FormatFixed 2 (vc_RelativeLiftPct cmp)
                  @ ''% (Statistically Significant with '' @ conf @ ''% confidence, p='' @ p @ note @ ''). Recommended to rollback or iterate.''\<rparr>
         else cmp\<lparr>vc_Status := ''INCONCLUSIVE'', vc_RecommendedAction :=
                ''Results are not yet statistically significant (p='' @ p @ note @ '', confidence='' @ conf
                @ ''%). Continue running the experiment to gather more samples.''\<rparr>)"

definition CompareBinaryVariantsWithCorrection ::
  "math_lib \<Rightarrow> VariantMetricStats \<Rightarrow> VariantMetricStats \<Rightarrow> int \<Rightarrow> VariantComparison" where
  "CompareBinaryVariantsWithCorrection M control treatment numComparisons =
     (let n = (if numComparisons < 1 then 1 else numComparisons);
          nC = f64_of_int (vm_Exposures control); nT = f64_of_int (vm_Exposures treatment);
          pC = vm_ConversionRate control; pT = vm_ConversionRate treatment;
          cmp = (zero_comparison (vm_Variant treatment) (vm_Variant control))
            \<lparr>vc_AbsoluteLift := fsub pT pC, vc_RelativeLiftPct := relative_lift pC pT\<rparr>
      in if vm_Exposures control < MinSampleSizeForSignificance \<or> vm_Exposures treatment < MinSampleSizeForSignificance
         then cmp\<lparr>vc_Status := ''INSUFFICIENT_DATA'',
           vc_RecommendedAction := ''Collect more data (current sample: Control='' @ Itoa (vm_Exposures control) @ '', Treatment=''
             @ Itoa (vm_Exposures treatment) @ ''; minimum required='' @ Itoa MinSampleSizeForSignificance @ '' per variant).'',
           vc_RequiredSampleSize := MinSampleSizeForSignificance\<rparr>
         else
           let totalConversions = f64_of_int (int64 (vm_Conversions control + vm_Conversions treatment));
               pPool = fdiv totalConversions (fadd nC nT)
           in if too_few nC nT pPool
              then cmp\<lparr>vc_Status := ''INSUFFICIENT_DATA'', vc_RequiredSampleSize := required_sample pPool,
                vc_RecommendedAction := few_data_advice pPool (required_sample pPool) control treatment\<rparr>
              else
                let sePool = m_Sqrt M (fmul (fmul pPool (fsub (Fin 1) pPool)) (fadd (fdiv (Fin 1) nC) (fdiv (Fin 1) nT)))
                in if feq sePool (Fin 0)
                   then cmp\<lparr>vc_Status := ''INCONCLUSIVE'', vc_ConfidencePct := Fin 0,
                     vc_RecommendedAction := ''No variance detected between variants.''\<rparr>
                   else
                     let zScore = fdiv (fsub pT pC) sePool;
                         adjPValue = fmin (Fin 1) (fmul (TwoTailedPValue M zScore) (f64_of_int n))
                     in conclude (vm_Variant treatment) n
                          (cmp\<lparr>vc_ZScore := zScore, vc_PValue := adjPValue,
                             vc_ConfidencePct := fmax (Fin 0) (fmul (fsub (Fin 1) adjPValue) (Fin 100)),
                             vc_IsSignificant95 := flt adjPValue (fl (5 / 100)),
                             vc_IsSignificant99 := flt adjPValue (fl (1 / 100))\<rparr>))"

definition CompareBinaryVariants :: "math_lib \<Rightarrow> VariantMetricStats \<Rightarrow> VariantMetricStats \<Rightarrow> VariantComparison" where
  "CompareBinaryVariants M control treatment = CompareBinaryVariantsWithCorrection M control treatment 1"

section \<open>The report\<close>

definition mget_or :: "'v \<Rightarrow> ('k, 'v) gomap \<Rightarrow> 'k \<Rightarrow> 'v" where
  "mget_or d m k = (case mget m k of Some v \<Rightarrow> v | None \<Rightarrow> d)"

text \<open>The events that count, and the two tables the first loop fills: anonymous conversions and users.\<close>

definition counts :: "string \<Rightarrow> string \<Rightarrow> string \<Rightarrow> ExperimentEvent \<Rightarrow> bool" where
  "counts flagKey metricName env ev \<longleftrightarrow> ev_FlagKey ev = flagKey \<and> ev_MetricName ev = metricName
     \<and> (ev_Environment ev = [] \<or> ev_Environment ev = env)"

definition tally_event :: "(string, int) gomap \<times> (string, string list) gomap \<Rightarrow> ExperimentEvent \<Rightarrow>
    (string, int) gomap \<times> (string, string list) gomap" where
  "tally_event t ev =
     (case t of (conversions, users) \<Rightarrow>
      if ev_UserID ev \<noteq> []
      then (conversions, mput (ev_Variant ev) (List.insert (ev_UserID ev) (mget_or [] users (ev_Variant ev))) users)
      else (mput (ev_Variant ev) (mget_or 0 conversions (ev_Variant ev) + 1) conversions, users))"

definition variant_conversions :: "string \<Rightarrow> string \<Rightarrow> string \<Rightarrow> ExperimentEvent list \<Rightarrow> (string, int) gomap" where
  "variant_conversions flagKey metricName env events =
     (let (conversions, users) = fold (\<lambda>ev t. tally_event t ev) (filter (counts flagKey metricName env) events) ([], [])
      in fold (\<lambda>(v, us) c. mput v (mget_or 0 c v + int (length us)) c) users conversions)"

definition variant_stats :: "math_lib \<Rightarrow> (string, int) gomap \<Rightarrow> (string, int) gomap \<Rightarrow> string \<Rightarrow> VariantMetricStats" where
  "variant_stats M exposures conversions v =
     (let n = mget_or 0 exposures v; k = mget_or 0 conversions v; n = (if n < k then k else n)
      in ComputeVariantBinaryStats M v n k)"

definition MaxFloat64 :: f64 where
  "MaxFloat64 = Fin (2 ^ 1024 - 2 ^ 971)"

text \<open>The comparisons of the last loop with the best treatment so far and its lift.\<close>

definition compare_step :: "math_lib \<Rightarrow> string \<Rightarrow> VariantMetricStats \<Rightarrow> int \<Rightarrow> string \<times> VariantMetricStats \<Rightarrow>
    (string, VariantComparison) gomap \<times> string \<times> f64 \<Rightarrow> (string, VariantComparison) gomap \<times> string \<times> f64" where
  "compare_step M controlVariant controlStats numComparisons entry acc =
     (case entry of (v, stats) \<Rightarrow> case acc of (comparisons, best, highestLift) \<Rightarrow>
      if v = controlVariant then acc
      else let cmp = CompareBinaryVariantsWithCorrection M controlStats stats numComparisons in
        if vc_Status cmp = ''WINNING'' \<and> flt highestLift (vc_RelativeLiftPct cmp)
        then (mput v cmp comparisons, v, vc_RelativeLiftPct cmp)
        else (mput v cmp comparisons, best, highestLift))"

definition AnalyzeExperiment ::
  "math_lib \<Rightarrow> VariantMetricStats iter \<Rightarrow> gtime \<Rightarrow> string \<Rightarrow> string \<Rightarrow> string \<Rightarrow> string \<Rightarrow> string \<Rightarrow>
     (string, int) gomap \<Rightarrow> ExperimentEvent list \<Rightarrow> ExperimentReport" where
  "AnalyzeExperiment M ord now flagKey metricName eventType env control exposures events =
     (let controlVariant = or_else control ''control'';
          conversions = variant_conversions flagKey metricName env events;
          allVariants = remdups (map fst exposures @ map fst conversions @ [controlVariant]);
          stats = map (\<lambda>v. (v, variant_stats M exposures conversions v)) allVariants;
          controlStats = mget_or (zero_stats controlVariant 0 0) stats controlVariant;
          n = int (length stats) - 1;
          numComparisons = (if n < 1 then 1 else n);
          (comparisons, best, _) = fold (compare_step M controlVariant controlStats numComparisons) (ord stats)
            ([], [], fneg MaxFloat64)
      in \<lparr>xr_FlagKey = flagKey, xr_MetricName = metricName, xr_EventType = eventType, xr_Environment = env,
          xr_ControlVariant = controlVariant, xr_TotalExposures = fold (\<lambda>(_, n) t. int64 (t + n)) exposures 0,
          xr_TotalEvents = int (length (filter (counts flagKey metricName env) events)),
          xr_VariantStats = stats, xr_Comparisons = comparisons, xr_WinnerVariant = best, xr_GeneratedAt = now\<rparr>)"

section \<open>Rates are proportions\<close>

lemma rndq_unit:
  assumes "0 \<le> x" and "x \<le> 1"
  shows "0 \<le> rndq x" and "rndq x \<le> 1"
proof -
  let ?u = "(2::rat) powi (uexp x)"
  have "0 = of_int (rne 0) * ?u" by (simp add: rne_def)
  also have "\<dots> \<le> rndq x"
    unfolding rndq_def using rne_mono [of 0 "x / ?u"] assms(1) by (intro mult_right_mono) auto
  finally show "0 \<le> rndq x" .
  have "ilog2 x \<le> 0" if "0 < x"
  proof (rule ccontr)
    assume "\<not> ilog2 x \<le> 0"
    then have "(2::rat) powi 0 < 2 powi (ilog2 x)" unfolding powi2_less_iff by simp
    then show False using ilog2_bounds(1) [OF that] assms(2) by simp
  qed
  then have u: "uexp x \<le> 0" if "0 < x" using that by (simp add: uexp_def)
  show "rndq x \<le> 1"
  proof (cases "x = 0")
    case False
    then have e: "uexp x \<le> 0" using u assms(1) by simp
    have "?u = inverse (2 powi (- uexp x))" by (simp only: power_int_minus inverse_inverse_eq)
    also have "(2::rat) powi (- uexp x) = 2 ^ nat (- uexp x)" using e by (simp only: power_int_def) simp
    finally have one: "(1 :: rat) / ?u = of_int (2 ^ nat (- uexp x))" by (simp add: divide_inverse)
    have "x / ?u \<le> 1 / ?u" using assms(2) by (intro divide_right_mono) auto
    then have "rne (x / ?u) \<le> 2 ^ nat (- uexp x)" using rne_mono [of "x / ?u" "1 / ?u"] by (simp only: one rne_int)
    then have "of_int (rne (x / ?u)) \<le> (1 :: rat) / ?u" unfolding one of_int_le_iff .
    then show ?thesis unfolding rndq_def by (simp add: field_simps)
  qed (simp add: rndq_def rne_def)
qed

lemma fl_unit:
  assumes "0 \<le> x" and "x \<le> 1"
  shows "\<exists>q. fl x = Fin q \<and> 0 \<le> q \<and> q \<le> 1"
proof -
  have "\<not> 2 ^ 1024 \<le> \<bar>rndq x\<bar>" using rndq_unit [OF assms] one_le_power [of "2::rat" 1024] by (auto simp: not_le)
  then show ?thesis using rndq_unit [OF assms] assms(1) by (auto simp: fl_def Let_def)
qed

lemma conversion_rate_unit:
  assumes "0 \<le> k" and "k \<le> n" and "n < 2 ^ 53"
  shows "\<exists>q. vm_ConversionRate (ComputeVariantBinaryStats M v n k) = Fin q \<and> 0 \<le> q \<and> q \<le> 1"
proof (cases "0 < n")
  case True
  have "f64_of_int k = Fin (of_int k)" "f64_of_int n = Fin (of_int n)"
    using assms True by (simp_all add: f64_of_int_exact)
  moreover have "0 \<le> (of_int k :: rat) / of_int n" "(of_int k :: rat) / of_int n \<le> 1" using assms True by simp_all
  ultimately show ?thesis using fl_unit [of "of_int k / of_int n"] True
    by (auto simp: ComputeVariantBinaryStats_def Let_def zero_stats_def fdiv_def is_fin_def signed_zero_def)
qed (simp add: ComputeVariantBinaryStats_def zero_stats_def)

section \<open>How conversions are counted\<close>

definition users_of :: "ExperimentEvent list \<Rightarrow> string \<Rightarrow> string set" where
  "users_of evs v = {ev_UserID ev |ev. ev \<in> set evs \<and> ev_Variant ev = v \<and> ev_UserID ev \<noteq> []}"

definition nameless :: "ExperimentEvent list \<Rightarrow> string \<Rightarrow> nat" where
  "nameless evs v = length (filter (\<lambda>ev. ev_Variant ev = v \<and> ev_UserID ev = []) evs)"

lemma mget_or_mput [simp]: "mget_or d (mput k v m) j = (if j = k then v else mget_or d m j)"
  by (simp add: mget_or_def map_simps)

lemma tally_counts:
  assumes "fold (\<lambda>ev t. tally_event t ev) evs ([], []) = (conv, users)"
  shows "mget_or 0 conv v = int (nameless evs v) \<and> set (mget_or [] users v) = users_of evs v
    \<and> distinct (mget_or [] users v) \<and> wf_map users"
  using assms
proof (induction evs arbitrary: conv users rule: rev_induct)
  case Nil
  then show ?case by (auto simp: mget_or_def mget_def nameless_def users_of_def wf_map_def)
next
  case (snoc ev evs)
  obtain c u where f: "fold (\<lambda>ev t. tally_event t ev) evs ([], []) = (c, u)" by fastforce
  have "users_of (evs @ [ev]) v = users_of evs v \<union> (if ev_Variant ev = v \<and> ev_UserID ev \<noteq> [] then {ev_UserID ev} else {})"
    by (auto simp: users_of_def)
  with snoc.IH [OF f] snoc.prems f show ?case
    by (auto simp: tally_event_def nameless_def gomap.ok_put split: if_splits)
qed

lemma add_users:
  assumes "wf_map users"
  shows "mget_or 0 (fold (\<lambda>(v, us) c. mput v (mget_or 0 c v + int (length us)) c) users conv) v =
    mget_or 0 conv v + int (length (mget_or [] users v))"
  using assms
proof (induction users arbitrary: conv)
  case (Cons e users)
  obtain w us where e: "e = (w, us)" by fastforce
  have "map_of users w = None" using Cons.prems by (simp add: e wf_map_def map_of_eq_None_iff)
  then have "mget_or [] users w = []" "mget_or [] (e # users) v = (if v = w then us else mget_or [] users v)"
    by (simp_all add: e mget_or_def mget_def)
  moreover have "wf_map users" using Cons.prems by (simp add: wf_map_def)
  ultimately show ?case using Cons.IH by (simp add: e)
qed (simp add: mget_or_def mget_def)

lemma variant_conversions_exact:
  "mget_or 0 (variant_conversions flagKey metricName env events) v =
     int (card (users_of (filter (counts flagKey metricName env) events) v))
     + int (nameless (filter (counts flagKey metricName env) events) v)"
proof -
  obtain c u where f: "fold (\<lambda>ev t. tally_event t ev) (filter (counts flagKey metricName env) events) ([], []) = (c, u)" by fastforce
  from tally_counts [OF f, of v] have "length (mget_or [] u v) = card (users_of (filter (counts flagKey metricName env) events) v)"
    by (metis distinct_card)
  with tally_counts [OF f, of v] add_users [of u c v] show ?thesis by (simp add: variant_conversions_def f)
qed

text \<open>Against a control without conversions every converting treatment has an infinite lift.\<close>

lemma infinite_lift:
  assumes "vm_ConversionRate c = Fin 0" and "flt (Fin 0) (vm_ConversionRate t)"
  shows "vc_RelativeLiftPct (CompareBinaryVariantsWithCorrection M c t n) = PInf"
  using assms by (simp add: CompareBinaryVariantsWithCorrection_def relative_lift_def conclude_def Let_def flt_def)

section \<open>The winner\<close>

lemma conclude_status:
  "vc_Status (conclude t n cmp) = (if vc_IsSignificant95 cmp then if flt (Fin 0) (vc_AbsoluteLift cmp) then ''WINNING'' else ''LOSING''
     else ''INCONCLUSIVE'')"
  "vc_PValue (conclude t n cmp) = vc_PValue cmp" "vc_AbsoluteLift (conclude t n cmp) = vc_AbsoluteLift cmp"
  "vc_RelativeLiftPct (conclude t n cmp) = vc_RelativeLiftPct cmp"
  by (simp_all add: conclude_def Let_def)

text \<open>A treatment is called winning only after the guards on the sample and a significant test.\<close>

lemma compare_winning:
  assumes "vc_Status (CompareBinaryVariantsWithCorrection M c t n) = ''WINNING''"
  shows "30 \<le> vm_Exposures c" and "30 \<le> vm_Exposures t"
    and "flt (vc_PValue (CompareBinaryVariantsWithCorrection M c t n)) (fl (5 / 100))"
    and "flt (Fin 0) (fsub (vm_ConversionRate t) (vm_ConversionRate c))"
  using assms
  by (auto simp: CompareBinaryVariantsWithCorrection_def Let_def MinSampleSizeForSignificance_def conclude_status
      zero_comparison_def split: if_splits)

text \<open>What holds of the loop's variables after the entries \<open>es\<close>.\<close>

definition compared :: "(VariantMetricStats \<Rightarrow> VariantComparison) \<Rightarrow> string \<Rightarrow> f64 \<Rightarrow> (string, VariantMetricStats) gomap \<Rightarrow>
    (string, VariantComparison) gomap \<times> string \<times> f64 \<Rightarrow> bool" where
  "compared cmp control low es acc =
     (case acc of (comparisons, best, high) \<Rightarrow>
      ((best, high) = ([], low) \<or> (\<exists>st. (best, st) \<in> set es \<and> best \<noteq> control \<and> vc_Status (cmp st) = ''WINNING''
        \<and> high = vc_RelativeLiftPct (cmp st))) \<and>
      (\<forall>(v, st) \<in> set es. v \<noteq> control \<longrightarrow> vc_Status (cmp st) = ''WINNING'' \<longrightarrow> \<not> flt high (vc_RelativeLiftPct (cmp st))) \<and>
      (\<forall>v. mget comparisons v = (if v = control then None else map_option cmp (map_of es v))))"

lemma flt_compare: "flt a b \<Longrightarrow> \<not> flt a c \<Longrightarrow> \<not> flt b c"
  by (auto simp: flt_def)

lemma compared_step:
  assumes "compared (\<lambda>st. CompareBinaryVariantsWithCorrection M cs st n) control low es acc" and "v \<notin> fst ` set es"
  shows "compared (\<lambda>st. CompareBinaryVariantsWithCorrection M cs st n) control low (es @ [(v, st)])
    (compare_step M control cs n (v, st) acc)"
proof -
  obtain comparisons best high where acc: "acc = (comparisons, best, high)" by (rule prod_cases3)
  let ?c = "CompareBinaryVariantsWithCorrection M cs st n"
  have new: "map_of es v = None" using assms(2) by (simp add: map_of_eq_None_iff)
  consider "v = control" | "v \<noteq> control" "vc_Status ?c = ''WINNING'' \<and> flt high (vc_RelativeLiftPct ?c)"
    | "v \<noteq> control" "\<not> (vc_Status ?c = ''WINNING'' \<and> flt high (vc_RelativeLiftPct ?c))" by blast
  then show ?thesis
  proof cases
    case 2
    then have top: "\<not> flt (vc_RelativeLiftPct ?c) c" if "\<not> flt high c" for c using flt_compare that by blast
    have "\<not> flt (vc_RelativeLiftPct ?c) (vc_RelativeLiftPct ?c)" by (auto simp: flt_def)
    with 2 top assms(1) new show ?thesis
      by (auto simp: compared_def compare_step_def acc Let_def map_simps map_add_def split: option.splits)
  qed (use assms(1) new in \<open>auto simp: compared_def compare_step_def acc Let_def map_simps map_add_def split: option.splits\<close>)
qed

lemma compare_fold:
  "distinct (map fst es) \<Longrightarrow> compared (\<lambda>st. CompareBinaryVariantsWithCorrection M cs st n) control low es
     (fold (compare_step M control cs n) es ([], [], low))"
proof (induction es rule: rev_induct)
  case Nil
  then show ?case by (simp add: compared_def mget_def)
next
  case (snoc e es)
  then show ?case using compared_step [of M cs n control low es _ "fst e" "snd e"] by simp
qed

lemma order_distinct: "is_order ord \<Longrightarrow> distinct (map fst m) \<Longrightarrow> distinct (map fst (ord m))"
  by (metis is_order_def mset_eq_imp_distinct_iff mset_map)

text \<open>The report in terms of the statistics of each variant and the loop over them.\<close>

lemma analyze_parts:
  fixes M now key metric ty env control exposures events
  assumes "is_order ord"
  defines "rep \<equiv> AnalyzeExperiment M ord now key metric ty env control exposures events"
    and "stat \<equiv> variant_stats M exposures (variant_conversions key metric env events)"
  obtains n high es where "compared (\<lambda>st. CompareBinaryVariantsWithCorrection M (stat (xr_ControlVariant rep)) st n) (xr_ControlVariant rep)
      (fneg MaxFloat64) es (xr_Comparisons rep, xr_WinnerVariant rep, high)"
    and "mget (xr_VariantStats rep) (xr_ControlVariant rep) = Some (stat (xr_ControlVariant rep))"
    and "\<forall>v st. (v, st) \<in> set es \<longleftrightarrow> mget (xr_VariantStats rep) v = Some st" and "distinct (map fst es)"
    and "\<forall>v st. mget (xr_VariantStats rep) v = Some st \<longrightarrow> st = stat v"
proof -
  define conv ctl where "conv = variant_conversions key metric env events" and "ctl = or_else control ''control''"
  define stats where "stats = map (\<lambda>v. (v, variant_stats M exposures conv v)) (remdups (map fst exposures @ map fst conv @ [ctl]))"
  define n where "n = (if int (length stats) - 1 < 1 then 1 else int (length stats) - 1)"
  have d: "distinct (map fst stats)" by (simp add: stats_def o_def)
  have look: "mget stats v = (if v \<in> set (map fst exposures @ map fst conv @ [ctl]) then Some (stat v) else None)" for v
    by (simp add: stats_def stat_def conv_def mget_def map_of_map_restrict restrict_map_def)
  obtain comparisons best high where f: "fold (compare_step M ctl (stat ctl) n) (ord stats) ([], [], fneg MaxFloat64) = (comparisons, best, high)"
    by (metis surj_pair)
  have "mget_or (zero_stats ctl 0 0) stats ctl = stat ctl" by (simp add: mget_or_def look)
  then have rep: "xr_VariantStats rep = stats" "xr_Comparisons rep = comparisons" "xr_WinnerVariant rep = best" "xr_ControlVariant rep = ctl"
    unfolding rep_def AnalyzeExperiment_def Let_def conv_def [symmetric] ctl_def [symmetric] stats_def [symmetric] n_def [symmetric]
    by (simp_all add: f)
  have s: "(v, st) \<in> set (ord stats) \<longleftrightarrow> mget stats v = Some st" for v st
    using d by (simp add: is_order_set [OF assms(1)] mget_def)
  show ?thesis
    by (rule that [where n = n and high = high and es = "ord stats"])
      (use compare_fold [OF order_distinct [OF assms(1) d], of M "stat ctl" n ctl "fneg MaxFloat64"] f in
        \<open>auto simp: rep look s order_distinct [OF assms(1) d] split: if_splits\<close>)
qed


definition demo_event :: "string \<Rightarrow> string \<Rightarrow> ExperimentEvent" where
  "demo_event v u = \<lparr>ev_ID = [], ev_ProjectID = ''p1'', ev_FlagKey = ''pay'', ev_Variant = v, ev_MetricName = ''signup'',
     ev_EventType = ''conversion'', ev_Value = Fin 1, ev_UserID = u, ev_Environment = ''production'', ev_Timestamp = 0\<rparr>"

definition demo_math :: math_lib where
  "demo_math = \<lparr>m_Sqrt = (\<lambda>_. Fin (1 / 8)), m_Erf = (\<lambda>_. Fin 1)\<rparr>"

text \<open>Numbers with few binary places are exact.\<close>

lemma fl_dyadic:
  assumes "\<bar>n\<bar> < 2 ^ 53" and "k \<le> 1000"
  shows "fl (of_int n / 2 ^ k) = Fin (of_int n / 2 ^ k)"
proof (cases "n = 0")
  case False
  let ?x = "of_int n / 2 ^ k :: rat"
  have x: "0 < \<bar>?x\<bar>" using False by simp
  have n: "\<bar>of_int n :: rat\<bar> < 2 ^ 53" using assms(1) by (metis of_int_abs of_int_less_iff of_int_numeral of_int_power)
  then have "\<bar>?x\<bar> < 2 ^ 53 / 2 ^ k" by (simp add: divide_strict_right_mono)
  also have "(2 :: rat) ^ 53 / 2 ^ k = 2 powi (53 - int k)" by (subst power_int_diff) simp_all
  finally have "2 powi (ilog2 \<bar>?x\<bar>) < (2 :: rat) powi (53 - int k)" using ilog2_bounds(1) [OF x] by linarith
  then have "ilog2 \<bar>?x\<bar> < 53 - int k" by (simp only: powi2_less_iff)
  then have u: "uexp ?x \<le> - int k" using assms(2) by (simp add: uexp_def)
  have "(2::rat) powi (uexp ?x) = inverse (2 powi (- uexp ?x))" by (simp only: power_int_minus inverse_inverse_eq)
  also have "(2::rat) powi (- uexp ?x) = 2 ^ nat (- uexp ?x)" using u by (simp only: power_int_def) simp
  also have "(2::rat) ^ nat (- uexp ?x) = 2 ^ k * 2 ^ nat (- uexp ?x - int k)"
    using u by (simp flip: power_add add: nat_add_distrib [symmetric])
  finally have "?x / 2 powi (uexp ?x) = of_int (n * 2 ^ nat (- uexp ?x - int k))" by (simp add: divide_inverse)
  then have "rndq ?x = ?x" by (rule rndq_exact)
  moreover have "\<bar>?x\<bar> \<le> \<bar>of_int n\<bar>" using mult_left_mono [of 1 "2 ^ k" "\<bar>of_int n :: rat\<bar>"] by (simp add: divide_le_eq)
  then have "\<bar>?x\<bar> < 2 ^ 1024" using n power_increasing [of 53 1024 "2 :: rat"] by linarith
  ultimately show ?thesis using False by (simp add: fl_def Let_def)
qed simp

lemmas fl_exact = fl_dyadic [of 1 2, simplified] fl_dyadic [of 1 1, simplified] fl_dyadic [of 1 3, simplified]
  fl_dyadic [of 3 3, simplified] fl_dyadic [of 5 3, simplified] fl_dyadic [of 1 0, simplified] fl_dyadic [of 12 0, simplified] fl_dyadic [of 20 0, simplified]
  fl_dyadic [of 64 0, simplified] fl_dyadic [of 2 0, simplified]

lemma demo_rates:
  "vm_ConversionRate (ComputeVariantBinaryStats demo_math v 32 8) = Fin (1 / 4)"
  "vm_ConversionRate (ComputeVariantBinaryStats demo_math v 32 16) = Fin (1 / 2)"
  by (simp_all add: ComputeVariantBinaryStats_def zero_stats_def Let_def f64_of_int_exact f64_defs fl_exact)

lemma demo_pvalue: "TwoTailedPValue demo_math z = Fin 0"
  by (simp add: TwoTailedPValue_def NormalCDF_def demo_math_def Let_def f64_defs fl_exact)

lemma five_percent: "flt (Fin 0) (fl (1 / 20))"
proof -
  have "(2 :: rat) powi (- 1022) \<le> 2 powi (- 5)" by (rule power_int_increasing) simp_all
  moreover have "(2 :: rat) powi (- 5) = 1 / 32" by (simp add: power_int_def power_divide)
  ultimately have "(2 :: rat) powi (- 1022) \<le> \<bar>1 / 20\<bar>" by linarith
  moreover have "\<bar>1 / 20 :: rat\<bar> \<le> 2 ^ 1000" using one_le_power [of "2 :: rat" 1000] by simp
  ultimately show ?thesis using fl_normal [of "1 / 20"] by simp
qed

lemma demo_compare:
  defines "c \<equiv> ComputeVariantBinaryStats demo_math ''control'' 32 8" and "t \<equiv> ComputeVariantBinaryStats demo_math ''b'' 32 16"
  shows "vc_Status (CompareBinaryVariantsWithCorrection demo_math c t 1) = ''WINNING'' \<and>
    vc_RelativeLiftPct (CompareBinaryVariantsWithCorrection demo_math c t 1) = Fin 100"
proof -
  have n: "vm_Exposures (ComputeVariantBinaryStats demo_math v 32 k) = 32" "vm_Conversions (ComputeVariantBinaryStats demo_math v 32 k) = k" for v k
    by (simp_all add: ComputeVariantBinaryStats_def zero_stats_def Let_def)
  have sq: "m_Sqrt demo_math x = Fin (1 / 8)" for x by (simp add: demo_math_def)
  have i: "int64 24 = 24" by code_simp
  have pool: "fadd (Fin 32) (Fin 32) = Fin 64" "fdiv (Fin 24) (Fin 64) = Fin (3 / 8)" "fsub (Fin (1 / 2)) (Fin (1 / 4)) = Fin (1 / 4)"
    "fmin (Fin 1) (fmul (Fin 0) (Fin 1)) = Fin 0" "relative_lift (Fin (1 / 4)) (Fin (1 / 2)) = Fin 100"
    by (simp_all add: relative_lift_def f64_defs fmin_def fl_exact fl_dyadic [of 100 0, simplified])
  have few: "\<not> too_few (Fin 32) (Fin 32) (Fin (3 / 8))"
    by (simp add: too_few_def fmin_def f64_defs fl_exact)
  show ?thesis
    unfolding CompareBinaryVariantsWithCorrection_def c_def t_def
    by (simp add: n demo_rates demo_pvalue i few pool five_percent sq feq_def is_fin_def MinSampleSizeForSignificance_def
        conclude_status f64_of_int_exact zero_comparison_def Let_def)
qed

lemma MaxFloat64_large: "0 < fval MaxFloat64"
  using power_strict_increasing [of 971 1024 "2 :: rat"] by (simp add: MaxFloat64_def)

definition demo_events :: "ExperimentEvent list" where
  "demo_events = replicate 8 (demo_event ''control'' []) @ replicate 15 (demo_event ''b'' []) @ [demo_event ''b'' ''u1'', demo_event ''b'' ''u1'']"

lemma demo_conversions: "variant_conversions ''pay'' ''signup'' ''production'' demo_events = [(''control'', 8), (''b'', 16)]"
  by code_simp

lemma demo_winner:
  "xr_WinnerVariant (AnalyzeExperiment demo_math id 0 ''pay'' ''signup'' ''conversion'' ''production'' []
     [(''control'', 32), (''b'', 32)] demo_events) = ''b''"
  using demo_compare MaxFloat64_large
  by (simp add: AnalyzeExperiment_def demo_conversions or_else_def Let_def mget_or_def mget_def variant_stats_def compare_step_def
      flt_def MaxFloat64_def)


end
