(* ===== verification/Telemetry.thy ===== *)
theory Telemetry
  imports Stats Store_State
begin

text \<open>
  The aggregator of evaluation counts in \<open>src/pkg/api/handlers_telemetry.go\<close>. Counters are 64-bit
  words, as in the code. Shown are an invariant of the counters that holds through overflow, the
  exact number of distinct users as long as a variant has few enough of them, and the bound on the
  flags of a project that batches keep.
\<close>

section \<open>The aggregator\<close>

record FlagAggregatedMetric =
  fm_TotalEvaluations :: "64 word"
  fm_Variants :: "(string, 64 word) gomap"
  fm_UniqueUsers :: "(string, 64 word) gomap"
  fm_LastEvaluatedAt :: int
  fm_uniqueUserSets :: "(string, string list) gomap"

record ProjectTelemetry =
  te_flagMetrics :: "(string, FlagAggregatedMetric) gomap"
  te_totalEvals :: "64 word"
  te_hourlyPoints :: "64 word list"

type_synonym TelemetryAggregator = "(string, ProjectTelemetry) gomap"

record TelemetryBatch =
  tb_Evaluations :: "64 word"
  tb_Variants :: "(string, 64 word) gomap"
  tb_UniqueUsers :: "(string, 64 word) gomap"

definition maxFlagsPerProject :: nat where
  "maxFlagsPerProject = 1000"

definition maxTrackedUsersPerVariant :: nat where
  "maxTrackedUsersPerVariant = 10000"

definition NewTelemetryAggregator :: TelemetryAggregator where
  "NewTelemetryAggregator = []"

definition new_project :: ProjectTelemetry where
  "new_project = \<lparr>te_flagMetrics = [], te_totalEvals = 0, te_hourlyPoints = replicate 24 0\<rparr>"

definition new_metric :: FlagAggregatedMetric where
  "new_metric = \<lparr>fm_TotalEvaluations = 0, fm_Variants = [], fm_UniqueUsers = [], fm_LastEvaluatedAt = 0, fm_uniqueUserSets = []\<rparr>"

definition getOrCreateProjectLocked :: "TelemetryAggregator \<Rightarrow> string \<Rightarrow> ProjectTelemetry" where
  "getOrCreateProjectLocked ta projectID = mget_or new_project ta (or_project projectID)"

text \<open>\<open>now.Hour()\<close> and \<open>now.UnixMilli()\<close>.\<close>

definition hour_of :: "gtime \<Rightarrow> nat" where
  "hour_of now = nat ((now div Hour) mod 24)"

definition UnixMilli :: "gtime \<Rightarrow> int" where
  "UnixMilli t = (t - unix_epoch) div 1000000"

text \<open>The flag that was evaluated longest ago; the empty key stands for none.\<close>

definition oldest :: "FlagAggregatedMetric iter \<Rightarrow> (string, FlagAggregatedMetric) gomap \<Rightarrow> string" where
  "oldest ord m = fst (fold (\<lambda>(k, v) (oldestKey, oldestTime).
     if fm_LastEvaluatedAt v < oldestTime then (k, fm_LastEvaluatedAt v) else (oldestKey, oldestTime)) (ord m) ([], 2 ^ 63 - 1))"

definition make_room :: "FlagAggregatedMetric iter \<Rightarrow> (string, FlagAggregatedMetric) gomap \<Rightarrow> (string, FlagAggregatedMetric) gomap" where
  "make_room ord m =
     (if length m \<ge> maxFlagsPerProject
      then let k = oldest ord m in if k \<noteq> [] then mdel k m else m
      else m)"

definition add_counts :: "(string, 64 word) gomap \<Rightarrow> (string, 64 word) gomap \<Rightarrow> (string, 64 word) gomap" where
  "add_counts extra m = fold (\<lambda>(k, n) m. mput k (mget_or 0 m k + n) m) extra m"

definition count_evals :: "gtime \<Rightarrow> 64 word \<Rightarrow> ProjectTelemetry \<Rightarrow> ProjectTelemetry" where
  "count_evals now n proj = proj\<lparr>te_totalEvals := te_totalEvals proj + n,
     te_hourlyPoints := (te_hourlyPoints proj)[hour_of now := te_hourlyPoints proj ! hour_of now + n]\<rparr>"

definition ingest_one :: "FlagAggregatedMetric iter \<Rightarrow> gtime \<Rightarrow> string \<times> TelemetryBatch \<Rightarrow> ProjectTelemetry \<times> int \<Rightarrow> ProjectTelemetry \<times> int" where
  "ingest_one ord now entry acc =
     (case entry of (flagKey, metric) \<Rightarrow> case acc of (proj, updatedCount) \<Rightarrow>
      if tb_Evaluations metric = 0 then (proj, updatedCount)
      else
        let (m, ms) = (case mget (te_flagMetrics proj) flagKey of
                Some m \<Rightarrow> (m, te_flagMetrics proj)
              | None \<Rightarrow> (new_metric, make_room ord (te_flagMetrics proj)));
            m = m\<lparr>fm_TotalEvaluations := fm_TotalEvaluations m + tb_Evaluations metric, fm_LastEvaluatedAt := UnixMilli now,
                   fm_Variants := add_counts (tb_Variants metric) (fm_Variants m),
                   fm_UniqueUsers := add_counts (tb_UniqueUsers metric) (fm_UniqueUsers m)\<rparr>
        in (count_evals now (tb_Evaluations metric) (proj\<lparr>te_flagMetrics := mput flagKey m ms\<rparr>), updatedCount + 1))"

definition Ingest :: "TelemetryBatch iter \<Rightarrow> FlagAggregatedMetric iter \<Rightarrow> gtime \<Rightarrow> TelemetryAggregator \<Rightarrow> string \<Rightarrow>
    (string, TelemetryBatch) gomap \<Rightarrow> int \<times> TelemetryAggregator" where
  "Ingest ordB ordM now ta projectID events =
     (let (proj, updatedCount) = fold (ingest_one ordM now) (ordB events) (getOrCreateProjectLocked ta projectID, 0)
      in (updatedCount, mput (or_project projectID) proj ta))"

text \<open>A user who is already in the set of the variant is not counted again; a full set takes no more users.\<close>

definition expose :: "gtime \<Rightarrow> string \<Rightarrow> string \<Rightarrow> FlagAggregatedMetric \<Rightarrow> FlagAggregatedMetric" where
  "expose now variant userID m =
     (let users = mget_or [] (fm_uniqueUserSets m) variant;
          seen = userID \<in> set users;
          users = (if \<not> seen \<and> length users < maxTrackedUsersPerVariant then users @ [userID] else users)
      in m\<lparr>fm_uniqueUserSets := mput variant users (fm_uniqueUserSets m),
           fm_UniqueUsers := (if seen then fm_UniqueUsers m else add_counts [(variant, 1)] (fm_UniqueUsers m)),
           fm_Variants := add_counts [(variant, 1)] (fm_Variants m),
           fm_TotalEvaluations := fm_TotalEvaluations m + 1, fm_LastEvaluatedAt := UnixMilli now\<rparr>)"

definition RecordExposure :: "gtime \<Rightarrow> TelemetryAggregator \<Rightarrow> string \<Rightarrow> string \<Rightarrow> string \<Rightarrow> string \<Rightarrow> TelemetryAggregator" where
  "RecordExposure now ta projectID flagKey variant userID =
     (if flagKey = [] \<or> variant = [] \<or> userID = [] then ta
      else
        let proj = getOrCreateProjectLocked ta projectID;
            m = expose now variant userID (mget_or new_metric (te_flagMetrics proj) flagKey)
        in mput (or_project projectID) (count_evals now 1 (proj\<lparr>te_flagMetrics := mput flagKey m (te_flagMetrics proj)\<rparr>)) ta)"

text \<open>The three answers of \<open>Stats\<close>: an unknown project, one flag of a project, all of them.\<close>

datatype stats_view =
    NoStats
  | FlagStats string FlagAggregatedMetric "64 word list"
  | AllStats "64 word" "(string, FlagAggregatedMetric) gomap" "64 word list"

definition shown :: "FlagAggregatedMetric \<Rightarrow> FlagAggregatedMetric" where
  "shown m = m\<lparr>fm_uniqueUserSets := []\<rparr>"

definition TelemetryStats :: "TelemetryAggregator \<Rightarrow> string \<Rightarrow> string \<Rightarrow> stats_view" where
  "TelemetryStats ta projectID flagKey =
     (case mget ta (or_project projectID) of
        None \<Rightarrow> NoStats
      | Some proj \<Rightarrow>
          if flagKey \<noteq> [] \<and> flagKey \<noteq> ''all''
          then (case mget (te_flagMetrics proj) flagKey of
                  Some m \<Rightarrow> FlagStats flagKey (shown m) (te_hourlyPoints proj)
                | None \<Rightarrow> FlagStats flagKey new_metric (te_hourlyPoints proj))
          else AllStats (te_totalEvals proj) (map (\<lambda>(k, m). (k, shown m)) (te_flagMetrics proj)) (te_hourlyPoints proj))"

section \<open>The counters agree\<close>

definition metric_ok :: "FlagAggregatedMetric \<Rightarrow> bool" where
  "metric_ok m \<longleftrightarrow> (\<forall>v. distinct (mget_or [] (fm_uniqueUserSets m) v)
     \<and> length (mget_or [] (fm_uniqueUserSets m) v) \<le> maxTrackedUsersPerVariant)"

definition project_ok :: "ProjectTelemetry \<Rightarrow> bool" where
  "project_ok proj \<longleftrightarrow> length (te_hourlyPoints proj) = 24 \<and> te_totalEvals proj = sum_list (te_hourlyPoints proj)
     \<and> (\<forall>k m. mget (te_flagMetrics proj) k = Some m \<longrightarrow> metric_ok m)"

definition aggregator_ok :: "TelemetryAggregator \<Rightarrow> bool" where
  "aggregator_ok ta \<longleftrightarrow> (\<forall>p proj. mget ta p = Some proj \<longrightarrow> project_ok proj)"

lemma hour_of_less: "hour_of now < 24"
  by (simp add: hour_of_def nat_less_iff)

lemma sum_list_update_word:
  "i < length xs \<Longrightarrow> sum_list (xs[i := xs ! i + n]) = sum_list xs + (n :: 64 word)"
  by (induction xs arbitrary: i) (auto split: nat.splits simp: ac_simps)

lemma count_evals_ok: "project_ok proj \<Longrightarrow> project_ok (count_evals now n proj)"
  using hour_of_less [of now] by (simp add: project_ok_def count_evals_def sum_list_update_word)

lemma new_project_ok: "project_ok new_project"
  by (simp add: project_ok_def new_project_def sum_list_replicate mget_def)

lemma project_of_ok: "aggregator_ok ta \<Longrightarrow> project_ok (getOrCreateProjectLocked ta p)"
  by (auto simp: aggregator_ok_def getOrCreateProjectLocked_def mget_or_def new_project_ok split: option.splits)

lemma project_ok_put:
  assumes "project_ok proj" and "\<And>k m. mget ms k = Some m \<Longrightarrow> mget (te_flagMetrics proj) k = Some m" and "metric_ok m"
  shows "project_ok (proj\<lparr>te_flagMetrics := mput k m ms\<rparr>)"
  using assms(1,3) by (auto simp: project_ok_def map_simps dest: assms(2))

lemma new_metric_ok: "metric_ok new_metric"
  by (simp add: metric_ok_def new_metric_def mget_or_def mget_def)

lemma metric_of_ok: "project_ok proj \<Longrightarrow> metric_ok (mget_or new_metric (te_flagMetrics proj) k)"
  by (auto simp: project_ok_def mget_or_def new_metric_ok split: option.splits)

lemma metric_ok_counts:
  "metric_ok (m\<lparr>fm_TotalEvaluations := a, fm_LastEvaluatedAt := b, fm_Variants := c, fm_UniqueUsers := d\<rparr>) = metric_ok m"
  by (simp add: metric_ok_def)

lemma make_room_sub: "mget (make_room ord m) k = Some x \<Longrightarrow> mget m k = Some x"
  by (auto simp: make_room_def Let_def map_simps split: if_splits)

lemma ingest_one_ok:
  assumes "project_ok (fst acc)"
  shows "project_ok (fst (ingest_one ord now e acc))"
proof -
  obtain k b proj n where e: "e = (k, b)" "acc = (proj, n)" by (metis surj_pair)
  have ok: "project_ok proj" using assms by (simp add: e)
  obtain m ms where m: "(case mget (te_flagMetrics proj) k of Some m \<Rightarrow> (m, te_flagMetrics proj)
      | None \<Rightarrow> (new_metric, make_room ord (te_flagMetrics proj))) = (m, ms)" by fastforce
  have "metric_ok m" using m metric_of_ok [OF ok, of k] new_metric_ok by (auto simp: mget_or_def split: option.splits)
  then have "project_ok (count_evals now (tb_Evaluations b) (proj\<lparr>te_flagMetrics := mput k
      (m\<lparr>fm_TotalEvaluations := a, fm_LastEvaluatedAt := t, fm_Variants := vs, fm_UniqueUsers := us\<rparr>) ms\<rparr>))" for a t vs us
    using m by (intro count_evals_ok project_ok_put ok) (auto simp: metric_ok_counts dest: make_room_sub split: option.splits)
  then show ?thesis using ok by (simp add: e ingest_one_def m Let_def)
qed

lemma Ingest_ok: "aggregator_ok ta \<Longrightarrow> aggregator_ok (snd (Ingest ordB ordM now ta p evs))"
proof -
  assume ok: "aggregator_ok ta"
  have "project_ok (fst (fold (ingest_one ordM now) es acc))" if "project_ok (fst acc)" for es acc
    using that by (induction es arbitrary: acc) (simp_all add: ingest_one_ok)
  from this [of "(getOrCreateProjectLocked ta p, 0)"] project_of_ok [OF ok] ok show ?thesis
    by (auto simp: Ingest_def aggregator_ok_def map_simps split_def Let_def)
qed

lemma expose_ok: "metric_ok m \<Longrightarrow> metric_ok (expose now x u m)"
  by (auto simp: expose_def metric_ok_def Let_def)

lemma RecordExposure_ok: "aggregator_ok ta \<Longrightarrow> aggregator_ok (RecordExposure now ta p k v u)"
proof -
  assume ok: "aggregator_ok ta"
  let ?proj = "getOrCreateProjectLocked ta p"
  have "project_ok (?proj\<lparr>te_flagMetrics := mput k (expose now v u (mget_or new_metric (te_flagMetrics ?proj) k)) (te_flagMetrics ?proj)\<rparr>)"
    by (intro project_ok_put expose_ok metric_of_ok project_of_ok [OF ok])
  with ok count_evals_ok show ?thesis by (auto simp: RecordExposure_def Let_def aggregator_ok_def map_simps)
qed

text \<open>The states of an aggregator: batches and exposures in any order, at any times.\<close>

inductive telemetry_reach :: "TelemetryAggregator \<Rightarrow> bool" where
  start: "telemetry_reach NewTelemetryAggregator"
| batch: "telemetry_reach ta \<Longrightarrow> telemetry_reach (snd (Ingest ordB ordM now ta p evs))"
| exposure: "telemetry_reach ta \<Longrightarrow> telemetry_reach (RecordExposure now ta p k v u)"

lemma telemetry_reach_ok: "telemetry_reach ta \<Longrightarrow> aggregator_ok ta"
  by (induction rule: telemetry_reach.induct)
    (simp_all add: Ingest_ok RecordExposure_ok, simp add: aggregator_ok_def NewTelemetryAggregator_def mget_def)

section \<open>Distinct users\<close>

type_synonym exposure = "string \<times> string \<times> string \<times> string"

definition record_all :: "(nat \<Rightarrow> gtime) \<Rightarrow> exposure list \<Rightarrow> TelemetryAggregator" where
  "record_all clk es = fold (\<lambda>(i, p, k, v, u) ta. RecordExposure (clk i) ta p k v u) (zip [0..<length es] es) NewTelemetryAggregator"

definition exposed :: "exposure list \<Rightarrow> string \<Rightarrow> string \<Rightarrow> string \<Rightarrow> string set" where
  "exposed es p k v = {u. u \<noteq> [] \<and> (\<exists>q. or_project q = or_project p \<and> (q, k, v, u) \<in> set es)}"

definition exposures_of :: "exposure list \<Rightarrow> string \<Rightarrow> string \<Rightarrow> string \<Rightarrow> nat" where
  "exposures_of es p k v = length (filter (\<lambda>(q, k', v', u). or_project q = or_project p \<and> k' = k \<and> v' = v \<and> u \<noteq> []) es)"

definition metric_at :: "TelemetryAggregator \<Rightarrow> string \<Rightarrow> string \<Rightarrow> FlagAggregatedMetric" where
  "metric_at ta p k = mget_or new_metric (te_flagMetrics (getOrCreateProjectLocked ta p)) k"

lemma metric_at_record:
  "metric_at (RecordExposure now ta q k' v u) p k =
     (if or_project q = or_project p \<and> k' = k \<and> k \<noteq> [] \<and> v \<noteq> [] \<and> u \<noteq> [] then expose now v u (metric_at ta p k) else metric_at ta p k)"
  by (auto simp: metric_at_def RecordExposure_def Let_def getOrCreateProjectLocked_def count_evals_def)

lemma record_all_snoc:
  "record_all clk (es @ [(p, k, v, u)]) = RecordExposure (clk (length es)) (record_all clk es) p k v u"
  by (simp add: record_all_def)

lemma exposed_snoc: "exposed (es @ [(q, k', v', u)]) p k v =
  exposed es p k v \<union> (if or_project q = or_project p \<and> k' = k \<and> v' = v \<and> u \<noteq> [] then {u} else {})"
  by (auto simp: exposed_def)

lemma exposed_finite: "finite (exposed es p k v)"
  by (rule finite_subset [of _ "(\<lambda>(q, k, v, u). u) ` set es"]) (force simp: exposed_def)+

lemma record_all_users:
  fixes clk :: "nat \<Rightarrow> gtime"
  assumes "k \<noteq> []" and "v \<noteq> []" and "card (exposed es p k v) \<le> maxTrackedUsersPerVariant"
  defines "m \<equiv> metric_at (record_all clk es) p k"
  shows "set (mget_or [] (fm_uniqueUserSets m) v) = exposed es p k v \<and> distinct (mget_or [] (fm_uniqueUserSets m) v)
    \<and> mget_or 0 (fm_UniqueUsers m) v = of_nat (card (exposed es p k v)) \<and> mget_or 0 (fm_Variants m) v = of_nat (exposures_of es p k v)"
  using assms(3) unfolding m_def
proof (induction es rule: rev_induct)
  case Nil
  then show ?case by (simp add: record_all_def metric_at_def getOrCreateProjectLocked_def NewTelemetryAggregator_def mget_or_def mget_def
      new_project_def new_metric_def exposed_def exposures_of_def)
next
  case (snoc e es)
  obtain q k' v' u where e: "e = (q, k', v', u)" by (metis surj_pair)
  let ?here = "or_project q = or_project p \<and> k' = k \<and> v' = v \<and> u \<noteq> []"
  have small: "card (exposed es p k v) \<le> maxTrackedUsersPerVariant"
  proof -
    have "exposed es p k v \<subseteq> exposed (es @ [e]) p k v" by (simp add: e exposed_snoc)
    from card_mono [OF exposed_finite this] snoc.prems show ?thesis by simp
  qed
  note IH = snoc.IH [OF small]
  have room: "card (exposed es p k v) < maxTrackedUsersPerVariant" if "?here" "u \<notin> exposed es p k v"
    using snoc.prems that by (simp add: e exposed_snoc exposed_finite)
  have len: "length (mget_or [] (fm_uniqueUserSets (metric_at (record_all clk es) p k)) v) = card (exposed es p k v)"
    using IH by (metis distinct_card)
  show ?case
    using IH room len assms(1,2)
    by (cases "u \<in> exposed es p k v")
      (auto simp: e record_all_snoc metric_at_record expose_def Let_def exposed_snoc exposures_of_def add_counts_def
        exposed_finite insert_absorb split: if_splits)
qed

lemma stats_of_metric:
  assumes "TelemetryStats ta p k = FlagStats k' m h"
  shows "fm_UniqueUsers m = fm_UniqueUsers (metric_at ta p k)" and "fm_Variants m = fm_Variants (metric_at ta p k)"
  using assms by (auto simp: TelemetryStats_def metric_at_def getOrCreateProjectLocked_def mget_or_def shown_def split: option.splits if_splits)

text \<open>
  The statistics of a flag count its users. After any exposures of any projects, flags and
  variants, the statistics of a flag show for each variant the number of exposures modulo \<open>2\<^sup>6\<^sup>4\<close> and
  the number of distinct users who were exposed to it in that project, as long as these are at most
  ten thousand.
\<close>

theorem unique_users_exact:
  assumes "TelemetryStats (record_all clk es) p k = FlagStats k' m h" and "v \<noteq> []"
    and "card (exposed es p k v) \<le> maxTrackedUsersPerVariant"
  shows "mget_or 0 (fm_UniqueUsers m) v = of_nat (card (exposed es p k v))"
    and "mget_or 0 (fm_Variants m) v = of_nat (exposures_of es p k v)"
proof -
  have "k \<noteq> []" using assms(1) by (auto simp: TelemetryStats_def split: option.splits if_splits)
  from record_all_users [OF this assms(2,3), of clk] show "mget_or 0 (fm_UniqueUsers m) v = of_nat (card (exposed es p k v))"
    "mget_or 0 (fm_Variants m) v = of_nat (exposures_of es p k v)"
    by (simp_all add: stats_of_metric [OF assms(1)])
qed

text \<open>
  A variant that already has ten thousand users takes no new one into its set, so such a user is
  counted again with every exposure.
\<close>

theorem untracked_user_counted_again:
  assumes "length (mget_or [] (fm_uniqueUserSets m) v) \<ge> maxTrackedUsersPerVariant" and "u \<notin> set (mget_or [] (fm_uniqueUserSets m) v)"
  shows "mget_or 0 (fm_UniqueUsers ((expose now v u ^^ n) m)) v = mget_or 0 (fm_UniqueUsers m) v + of_nat n"
proof -
  have "mget_or 0 (fm_UniqueUsers ((expose now v u ^^ n) m)) v = mget_or 0 (fm_UniqueUsers m) v + of_nat n
    \<and> mget_or [] (fm_uniqueUserSets ((expose now v u ^^ n) m)) v = mget_or [] (fm_uniqueUserSets m) v"
    using assms by (induction n) (simp_all add: expose_def Let_def add_counts_def)
  then show ?thesis by blast
qed

section \<open>Bounded memory\<close>

lemma oldest_present:
  assumes "is_order ord" and "m \<noteq> []" and "\<forall>(k, v) \<in> set m. fm_LastEvaluatedAt v < 2 ^ 63 - 1"
  shows "oldest ord m \<in> fst ` set m"
proof -
  have fold: "fst (fold (\<lambda>(k, v) (oldestKey, oldestTime).
      if fm_LastEvaluatedAt v < oldestTime then (k, fm_LastEvaluatedAt v) else (oldestKey, oldestTime)) es (a, t)) \<in> insert a (fst ` set es)" for es a t
    by (induction es arbitrary: a t) (auto split: if_splits, fastforce+)
  obtain k v es where o: "ord m = (k, v) # es" "(k, v) \<in> set m"
    using assms(2) is_order_set [OF assms(1), of m] by (cases "ord m") auto
  have "fm_LastEvaluatedAt v < 2 ^ 63 - 1" using assms(3) o(2) by blast
  then have "oldest ord m \<in> insert k (fst ` set es)" using fold [of es k "fm_LastEvaluatedAt v"] by (simp add: oldest_def o(1))
  then show ?thesis using o is_order_set [OF assms(1), of m] by force
qed

lemma length_mdel: "wf_map m \<Longrightarrow> k \<in> fst ` set m \<Longrightarrow> length (mdel k m) < length m"
  by (induction m) (auto simp: mdel_def wf_map_def length_delete_le le_imp_less_Suc)

lemma length_mput: "length (mput k v m) \<le> Suc (length m)"
  unfolding mput_def by (induction m) auto

lemma make_room_bound:
  assumes "is_order ord" and "wf_map m" and "length m \<le> maxFlagsPerProject"
    and "\<forall>(k, v) \<in> set m. k \<noteq> [] \<and> fm_LastEvaluatedAt v < 2 ^ 63 - 1"
  shows "length (make_room ord m) < maxFlagsPerProject"
proof (cases "length m \<ge> maxFlagsPerProject")
  case True
  then have "m \<noteq> []" by (auto simp: maxFlagsPerProject_def)
  then have o: "oldest ord m \<in> fst ` set m" using oldest_present [OF assms(1)] assms(4) by fast
  then have "oldest ord m \<noteq> []" using assms(4) by force
  with o length_mdel [OF assms(2) o] assms(3) show ?thesis by (simp add: make_room_def Let_def)
qed (simp add: make_room_def)

text \<open>A batch keeps the number of flags of a project within its bound.\<close>

lemma ingest_bounded:
  assumes "is_order ord" and "wf_map (te_flagMetrics (fst acc))" and "length (te_flagMetrics (fst acc)) \<le> maxFlagsPerProject"
    and "\<forall>(k, v) \<in> set (te_flagMetrics (fst acc)). k \<noteq> [] \<and> fm_LastEvaluatedAt v < 2 ^ 63 - 1"
  shows "length (te_flagMetrics (fst (ingest_one ord now e acc))) \<le> maxFlagsPerProject"
proof -
  obtain k b proj n where e: "e = (k, b)" "acc = (proj, n)" by (metis surj_pair)
  have room: "length (make_room ord (te_flagMetrics proj)) < maxFlagsPerProject" using make_room_bound assms by (simp add: e)
  have same: "mget ms k = Some x \<Longrightarrow> length (mput k y ms) = length ms" for ms :: "(string, FlagAggregatedMetric) gomap" and x y
    unfolding mput_def mget_def by (induction ms) (auto split: if_splits)
  show ?thesis
    using room assms(3) length_mput [of k _ "make_room ord (te_flagMetrics proj)"]
    by (auto simp: e ingest_one_def Let_def count_evals_def same split: option.splits intro: order_trans less_imp_le_nat Suc_leI)
qed

text \<open>An exposure of a new flag makes no room: the bound does not hold for the other route.\<close>

lemma exposure_unbounded:
  assumes "mget (te_flagMetrics (getOrCreateProjectLocked ta p)) k = None" and "k \<noteq> []" and "v \<noteq> []" and "u \<noteq> []"
  shows "length (te_flagMetrics (getOrCreateProjectLocked (RecordExposure now ta p k v u) p)) =
    Suc (length (te_flagMetrics (getOrCreateProjectLocked ta p)))"
proof -
  have "length (mput k x ms) = Suc (length ms)" if "mget ms k = None" for ms :: "(string, FlagAggregatedMetric) gomap" and x
    using that unfolding mput_def mget_def by (induction ms) (auto split: if_splits)
  then show ?thesis using assms by (simp add: RecordExposure_def Let_def getOrCreateProjectLocked_def count_evals_def)
qed

end
