(* ===== verification/Api_Telemetry.thy ===== *)
theory Api_Telemetry
  imports Telemetry Api_Flags
begin

text \<open>
  The routes of \<open>src/pkg/api/handlers_telemetry.go\<close> and \<open>src/pkg/api/handlers_experiment.go\<close>: batches
  and exposures from the clients, the statistics, the events of experiments and their report. A
  handler's state is the store and the aggregator. Shown is that events carry the project the caller
  was authorised for, whatever the body says, and what a report with an infinite lift is answered with.
\<close>

section \<open>JSON of the results\<close>

definition word_counts :: "(string, 64 word) gomap \<Rightarrow> json" where
  "word_counts m = J_object (map (\<lambda>(k, n). (k, J_int (uint n))) m)"

definition hours_json :: "64 word list \<Rightarrow> json" where
  "hours_json hs = J_list (map (\<lambda>n. J_int (uint n)) hs)"

definition metric_json :: "FlagAggregatedMetric \<Rightarrow> json" where
  "metric_json m = J_object ([(''total_evaluations'', J_int (uint (fm_TotalEvaluations m))), (''variants'', word_counts (fm_Variants m))]
     @ (if fm_UniqueUsers m = [] then [] else [(''unique_users'', word_counts (fm_UniqueUsers m))])
     @ [(''last_evaluated_at'', J_int (fm_LastEvaluatedAt m))])"

fun stats_json :: "stats_view \<Rightarrow> json" where
  "stats_json NoStats = J_object [(''total_evaluations'', J_int 0), (''flags'', J_object []), (''hourly_points'', hours_json (replicate 24 0))]"
| "stats_json (FlagStats k m h) = J_object [(''flag_key'', J_string k), (''total_evaluations'', J_int (uint (fm_TotalEvaluations m))),
     (''variants'', word_counts (fm_Variants m)), (''unique_users'', word_counts (fm_UniqueUsers m)),
     (''last_evaluated_at'', J_int (fm_LastEvaluatedAt m)), (''hourly_points'', hours_json h)]"
| "stats_json (AllStats n fs h) = J_object [(''total_evaluations'', J_int (uint n)),
     (''flags'', J_object (map (\<lambda>(k, m). (k, metric_json m)) fs)), (''hourly_points'', hours_json h)]"

definition variant_json :: "VariantMetricStats \<Rightarrow> json" where
  "variant_json v = J_object [(''variant'', J_string (vm_Variant v)), (''exposures'', J_int (vm_Exposures v)),
     (''conversions'', J_int (vm_Conversions v)), (''conversion_rate'', J_float (vm_ConversionRate v)),
     (''sum_value'', J_float (vm_SumValue v)), (''mean'', J_float (vm_Mean v)), (''variance'', J_float (vm_Variance v)),
     (''standard_error'', J_float (vm_StandardError v)), (''ci95_lower'', J_float (vm_CI95Lower v)),
     (''ci95_upper'', J_float (vm_CI95Upper v)), (''ci99_lower'', J_float (vm_CI99Lower v)), (''ci99_upper'', J_float (vm_CI99Upper v))]"

definition comparison_json :: "VariantComparison \<Rightarrow> json" where
  "comparison_json c = J_object [(''treatment_variant'', J_string (vc_TreatmentVariant c)), (''control_variant'', J_string (vc_ControlVariant c)),
     (''absolute_lift'', J_float (vc_AbsoluteLift c)), (''relative_lift_pct'', J_float (vc_RelativeLiftPct c)),
     (''z_score'', J_float (vc_ZScore c)), (''p_value'', J_float (vc_PValue c)), (''confidence_pct'', J_float (vc_ConfidencePct c)),
     (''is_significant_95'', J_bool (vc_IsSignificant95 c)), (''is_significant_99'', J_bool (vc_IsSignificant99 c)),
     (''status'', J_string (vc_Status c)), (''recommended_action'', J_string (vc_RecommendedAction c)),
     (''required_sample_size'', J_int (vc_RequiredSampleSize c))]"

definition report_json :: "ExperimentReport \<Rightarrow> json" where
  "report_json x = J_object ([(''flag_key'', J_string (xr_FlagKey x)), (''metric_name'', J_string (xr_MetricName x)),
     (''event_type'', J_string (xr_EventType x)), (''environment'', J_string (xr_Environment x)),
     (''control_variant'', J_string (xr_ControlVariant x)), (''total_exposures'', J_int (xr_TotalExposures x)),
     (''total_events'', J_int (xr_TotalEvents x)),
     (''variant_stats'', J_object (map (\<lambda>(k, v). (k, variant_json v)) (xr_VariantStats x))),
     (''comparisons'', J_object (map (\<lambda>(k, c). (k, comparison_json c)) (xr_Comparisons x)))]
     @ (if xr_WinnerVariant x = [] then [] else [(''winner_variant'', J_string (xr_WinnerVariant x))])
     @ [(''generated_at'', J_time (xr_GeneratedAt x))])"

text \<open>
  The JSON encoder refuses infinities and NaN and then writes nothing; the handler ignores its error,
  so the response is an empty one.
\<close>

fun encodable :: "json \<Rightarrow> bool" where
  "encodable (J_float x) = is_fin x"
| "encodable (J_list js) = list_all encodable js"
| "encodable (J_object fs) = list_all (\<lambda>(k, v). encodable v) fs"
| "encodable _ = True"

definition encode_value :: "json \<Rightarrow> Response" where
  "encode_value j = (if encodable j then encodeJSON 200 j
     else \<lparr>rp_Status = 200, rp_Header = [(''Content-Type'', ''application/json'')], rp_Cookies = [], rp_Body = Empty\<rparr>)"

section \<open>Telemetry routes\<close>

type_synonym tele_outcome = "Response \<times> MemoryStore \<times> TelemetryAggregator"

text \<open>An entry of the array format; \<open>tv_Value\<close> is present when the JSON value is a number.\<close>

record TrackEvent =
  tv_FlagKey :: string
  tv_Variant :: string
  tv_MetricName :: string
  tv_Value :: "f64 option"
  tv_UserID :: string
  tv_Environment :: string

text \<open>The body read, and its two decodings: the map of batches (nil when absent) and the array.\<close>

record TelemetryBody =
  tp_Batches :: "(string, TelemetryBatch) gomap option result"
  tp_Tracks :: "TrackEvent list result"

definition track_exposures :: "clock \<Rightarrow> string \<Rightarrow> TrackEvent list \<Rightarrow> TelemetryAggregator \<Rightarrow> TelemetryAggregator" where
  "track_exposures clk projectID evs ta =
     fold (\<lambda>(i, ev) ta. if tv_UserID ev \<noteq> [] \<and> tv_FlagKey ev \<noteq> [] \<and> tv_Variant ev \<noteq> []
       then RecordExposure (clk i) ta projectID (tv_FlagKey ev) (tv_Variant ev) (tv_UserID ev) else ta)
       (zip [0..<length evs] evs) ta"

definition track_event :: "gtime \<Rightarrow> string \<Rightarrow> TrackEvent \<Rightarrow> ExperimentEvent" where
  "track_event now projectID ev =
     \<lparr>ev_ID = [], ev_ProjectID = projectID, ev_FlagKey = tv_FlagKey ev, ev_Variant = tv_Variant ev, ev_MetricName = tv_MetricName ev,
      ev_EventType = (if tv_MetricName ev \<noteq> [] then ''conversion'' else ''exposure''),
      ev_Value = (case tv_Value ev of Some x \<Rightarrow> x | None \<Rightarrow> Fin 1), ev_UserID = tv_UserID ev,
      ev_Environment = (if tv_Environment ev = [] then EnvProduction else tv_Environment ev), ev_Timestamp = now\<rparr>"

definition track_events :: "gtime \<Rightarrow> string \<Rightarrow> TrackEvent list \<Rightarrow> ExperimentEvent list" where
  "track_events now projectID evs = map (track_event now projectID) (filter (\<lambda>ev. tv_FlagKey ev \<noteq> []) evs)"

definition handleIngestTelemetry :: "world \<Rightarrow> TelemetryBatch iter \<Rightarrow> FlagAggregatedMetric iter \<Rightarrow> TelemetryBody result \<Rightarrow>
    clocks \<Rightarrow> MemoryStore \<Rightarrow> TelemetryAggregator \<Rightarrow> Request \<Rightarrow> tele_outcome" where
  "handleIngestTelemetry w ordB ordM body cks s ta r =
     (if rq_Method r \<noteq> ''POST'' then (MethodNotAllowed, s, ta)
      else case resolveAndAuthorizeProjectID w cks s r of
        (Inl err, r, s) \<Rightarrow> (writeError r err, s, ta)
      | (Inr projectID, r, s) \<Rightarrow>
          (case body of
             Inl err \<Rightarrow> (http_Error (Error err) 400, s, ta)
           | Inr b \<Rightarrow>
               (case tp_Batches b of
                  Inr (Some events) \<Rightarrow>
                    (let (count, ta) = Ingest ordB ordM (cks 8 0) ta projectID events
                     in (encodeJSON 200 (J_object [(''status'', J_string ''ok''), (''flags_updated'', J_int count)]), s, ta))
                | _ \<Rightarrow>
                    (case tp_Tracks b of
                       Inr (ev # evs) \<Rightarrow>
                         (let ta = track_exposures (cks 9) projectID (ev # evs) ta;
                              expEvents = track_events (cks 10 0) projectID (ev # evs);
                              s = (if expEvents \<noteq> [] then RecordExperimentEvents (cks 11) s expEvents else s)
                          in (encodeJSON 200 (J_object [(''status'', J_string ''ok''), (''events_ingested'', J_int (int (length (ev # evs))))]), s, ta))
                     | _ \<Rightarrow> (http_Error ''Invalid telemetry payload format'' 400, s, ta)))))"

definition handleGetTelemetryStats :: "world \<Rightarrow> clocks \<Rightarrow> MemoryStore \<Rightarrow> TelemetryAggregator \<Rightarrow> Request \<Rightarrow> tele_outcome" where
  "handleGetTelemetryStats w cks s ta r =
     (case resolveAndAuthorizeProjectID w cks s r of
        (Inl err, r, s) \<Rightarrow> (writeError r err, s, ta)
      | (Inr projectID, r, s) \<Rightarrow> (encodeJSON 200 (stats_json (TelemetryStats ta projectID (query_get r ''flag''))), s, ta))"

section \<open>Experiment routes\<close>

text \<open>The payload: a list of events and possibly one more.\<close>

definition payload_events :: "ExperimentEvent list \<times> ExperimentEvent option \<Rightarrow> ExperimentEvent list" where
  "payload_events req = fst req @ (case snd req of Some e \<Rightarrow> [e] | None \<Rightarrow> [])"

definition handleIngestEvents :: "world \<Rightarrow> (ExperimentEvent list \<times> ExperimentEvent option) result \<Rightarrow>
    clocks \<Rightarrow> MemoryStore \<Rightarrow> Request \<Rightarrow> Response \<times> MemoryStore" where
  "handleIngestEvents w body cks s r =
     (if rq_Method r \<noteq> ''POST'' then (MethodNotAllowed, s)
      else case body of
        Inl err \<Rightarrow> (http_Error (''Invalid JSON payload: '' @ Error err) 400, s)
      | Inr req \<Rightarrow>
          (let events = payload_events req in
           if events = [] then (http_Error ''No events provided in payload'' 400, s)
           else case resolveAndAuthorizeProjectID w cks s r of
             (Inl err, r, s) \<Rightarrow> (writeError r err, s)
           | (Inr projectID, r, s) \<Rightarrow>
               (let events = map (\<lambda>e. e\<lparr>ev_ProjectID := projectID\<rparr>) events
                in (encodeJSON 202 (J_object [(''status'', J_string ''accepted''), (''ingested'', J_int (int (length events)))]),
                    RecordExperimentEvents (cks 9) s events))))"

definition experiment_key :: "Request \<Rightarrow> string" where
  "experiment_key r =
     (let path = rq_Path r in
      trim_slashes
        (if HasPrefix path ''/api/v1/experiments/'' then TrimPrefix path ''/api/v1/experiments/''
         else if HasPrefix path ''/api/v1/flags/'' \<and> HasSuffix path ''/experiment''
         then TrimSuffix (TrimPrefix path ''/api/v1/flags/'') ''/experiment''
         else []))"

definition clamp_count :: "64 word \<Rightarrow> int" where
  "clamp_count n = (if uint n > 2 ^ 63 - 1 then 2 ^ 63 - 1 else uint n)"

text \<open>The exposures of the report: the aggregator's counts, replaced by the distinct users of exposure events.\<close>

definition aggregated_exposures :: "stats_view \<Rightarrow> (string, int) gomap" where
  "aggregated_exposures st =
     (case st of
        FlagStats k m h \<Rightarrow> map (\<lambda>(v, n). (v, clamp_count n)) (if fm_UniqueUsers m \<noteq> [] then fm_UniqueUsers m else fm_Variants m)
      | _ \<Rightarrow> [])"

definition exposure_users :: "string \<Rightarrow> string \<Rightarrow> ExperimentEvent list \<Rightarrow> (string, string list) gomap" where
  "exposure_users flagKey env events =
     fold (\<lambda>ev m. if ev_FlagKey ev = flagKey \<and> (ev_Environment ev = [] \<or> ev_Environment ev = env)
         \<and> ev_EventType ev = ''exposure'' \<and> ev_UserID ev \<noteq> []
       then mput (ev_Variant ev) (List.insert (ev_UserID ev) (mget_or [] m (ev_Variant ev))) m else m) events []"

definition experiment_exposures :: "stats_view \<Rightarrow> string \<Rightarrow> string \<Rightarrow> ExperimentEvent list \<Rightarrow> (string, int) gomap" where
  "experiment_exposures st flagKey env events =
     (let exposures = fold (\<lambda>(v, us) m. if us \<noteq> [] then mput v (int (length us)) m else m) (exposure_users flagKey env events)
            (aggregated_exposures st)
      in fold (\<lambda>ev m. if ev_FlagKey ev = flagKey \<and> mget m (ev_Variant ev) = None then mput (ev_Variant ev) 0 m else m) events exposures)"

definition handleGetExperimentReport :: "world \<Rightarrow> math_lib \<Rightarrow> VariantMetricStats iter \<Rightarrow>
    clocks \<Rightarrow> MemoryStore \<Rightarrow> TelemetryAggregator \<Rightarrow> Request \<Rightarrow> Response \<times> MemoryStore" where
  "handleGetExperimentReport w M ord cks s ta r =
     (if rq_Method r \<noteq> ''GET'' then (MethodNotAllowed, s)
      else
        let flagKey = experiment_key r in
        if flagKey = [] then (http_Error ''Flag key is required'' 400, s)
        else case resolveAndAuthorizeProjectID w cks s r of
          (Inl err, r, s) \<Rightarrow> (writeError r err, s)
        | (Inr projectID, r, s) \<Rightarrow>
            (case GetFlagByProject s projectID flagKey of
               Inl err \<Rightarrow> (writeError r (flag_missing (''Flag not found: '' @ flagKey)), s)
             | Inr flag \<Rightarrow>
                 (let metricName = or_else (query_get r ''metric'') ''conversion'';
                      env = or_else (query_get r ''env'') EnvProduction;
                      offVariant = (case mget (ff_Environments flag) env of Some c \<Rightarrow> ec_OffVariant c | None \<Rightarrow> []);
                      controlVariant = or_else (query_get r ''control'') (or_else offVariant ''control'');
                      events = GetExperimentEventsByProject s projectID flagKey 10000;
                      exposures = experiment_exposures (TelemetryStats ta projectID flagKey) flagKey env events
                  in (encode_value (report_json (AnalyzeExperiment M ord (cks 8 0) flagKey metricName ''conversion'' env controlVariant exposures events)), s))))"

section \<open>Events stay with their project\<close>

lemma stamp_event_project [simp]: "ev_ProjectID (stamp_event now ev) = ev_ProjectID ev"
  by (simp add: stamp_event_def)

lemma recorded_events:
  "ms_events (RecordExperimentEvents clk s evs) =
     (let all = ms_events s @ map (\<lambda>(i, ev). stamp_event (clk i) ev) (zip [0..<length evs] evs) in drop (length all - 100000) all)"
  by (simp add: RecordExperimentEvents_def Let_def)

lemma zip_stamped:
  "e \<in> set (map (\<lambda>(i, ev). stamp_event (clk i) ev) (zip [0..<length evs] evs)) \<Longrightarrow> \<exists>ev \<in> set evs. ev_ProjectID e = ev_ProjectID ev"
  by (auto dest: set_zip_rightD)

lemma other_events_kept:
  assumes "\<forall>ev \<in> set evs. or_project (ev_ProjectID ev) \<noteq> or_project q" and "length (ms_events s) + length evs \<le> 100000"
  shows "GetExperimentEventsByProject (RecordExperimentEvents clk s evs) q k lmt = GetExperimentEventsByProject s q k lmt"
proof -
  let ?new = "map (\<lambda>(i, ev). stamp_event (clk i) ev) (zip [0..<length evs] evs)"
  have "filter (\<lambda>ev. or_project (ev_ProjectID ev) = or_project q \<and> (k = [] \<or> ev_FlagKey ev = k)) (rev ?new) = []"
    using assms(1) zip_stamped [of _ clk evs] by (fastforce simp: filter_empty_conv)
  then show ?thesis using assms(2) by (simp add: GetExperimentEventsByProject_def recorded_events Let_def)
qed

lemma ingest_accepted:
  assumes "handleIngestEvents w body cks s r = (rsp, s')" and "rp_Status rsp = 202"
  shows "\<exists>p r' s1 req. resolveAndAuthorizeProjectID w cks s r = (Inr p, r', s1) \<and> body = Inr req
    \<and> s' = RecordExperimentEvents (cks 9) s1 (map (\<lambda>e. e\<lparr>ev_ProjectID := p\<rparr>) (payload_events req))"
proof -
  obtain req where b: "body = Inr req" "rq_Method r = ''POST''" "payload_events req \<noteq> []"
    using assms by (auto simp: handleIngestEvents_def MethodNotAllowed_def http_Error_def Let_def split: if_splits sum.splits)
  obtain x r' s1 where res: "resolveAndAuthorizeProjectID w cks s r = (x, r', s1)" by (metis surj_pair)
  show ?thesis
  proof (cases x)
    case (Inl e)
    then show ?thesis using resolve_error [OF res [unfolded Inl]] assms b res by (auto simp: handleIngestEvents_def)
  qed (use assms b res in \<open>simp add: handleIngestEvents_def Let_def\<close>)
qed

text \<open>
  Experiment events stay with their project. Whatever project the events of a payload name, an
  accepted payload is stored as events of the one project that the request was resolved to; as long
  as the store holds at most a hundred thousand events, what is read for every other project is as
  before. A payload that is not accepted leaves the events as they are.
\<close>

theorem experiment_events_scoped:
  assumes "handleIngestEvents w body cks s r = (rsp, s')"
  shows "if rp_Status rsp = 202
    then \<exists>p r' s1 req. resolveAndAuthorizeProjectID w cks s r = (Inr p, r', s1) \<and> body = Inr req \<and>
      s' = RecordExperimentEvents (cks 9) s1 (map (\<lambda>e. e\<lparr>ev_ProjectID := p\<rparr>) (payload_events req)) \<and>
      (\<forall>q k lmt. or_project q \<noteq> or_project p \<longrightarrow> length (ms_events s) + length (payload_events req) \<le> 100000 \<longrightarrow>
        GetExperimentEventsByProject s' q k lmt = GetExperimentEventsByProject s q k lmt)
    else ms_events s' = ms_events s"
proof (cases "rp_Status rsp = 202")
  case True
  then obtain p r' s1 req where h: "resolveAndAuthorizeProjectID w cks s r = (Inr p, r', s1)" "body = Inr req"
    "s' = RecordExperimentEvents (cks 9) s1 (map (\<lambda>e. e\<lparr>ev_ProjectID := p\<rparr>) (payload_events req))" using ingest_accepted [OF assms] by blast
  have same: "ms_events s1 = ms_events s" using same_fields [OF resolve_same [OF h(1)]] by simp
  have "GetExperimentEventsByProject s' q k lmt = GetExperimentEventsByProject s q k lmt"
    if "or_project q \<noteq> or_project p" "length (ms_events s) + length (payload_events req) \<le> 100000" for q k lmt
    using other_events_kept [of "map (\<lambda>e. e\<lparr>ev_ProjectID := p\<rparr>) (payload_events req)" q s1 "cks 9" k lmt] h that same
    by (auto simp: GetExperimentEventsByProject_def)
  then show ?thesis using True h by auto
next
  case False
  then show ?thesis
    using assms same_fields [OF resolve_same]
    by (auto simp: handleIngestEvents_def Let_def encodeJSON_def split: if_splits sum.splits prod.splits option.splits)
qed

text \<open>
  The route asks for no authentication, and a caller without any is resolved to the project the
  request names, if it exists: anybody adds events to the experiments of any project.
\<close>

theorem anonymous_events_accepted:
  assumes "rq_Method r = ''POST''" and "payload_events req \<noteq> []" and "rq_User r = None" and "raw_token r = []"
    and "getUserFromRequest w (later 1 cks) s r = (Inl e, s1)" and "header_get r ''X-Project-ID'' = p" and "p \<noteq> []" and "GetProject s1 p = Inr x"
  shows "handleIngestEvents w (Inr req) cks s r =
    (encodeJSON 202 (J_object [(''status'', J_string ''accepted''), (''ingested'', J_int (int (length (payload_events req))))]),
     RecordExperimentEvents (cks 9) s1 (map (\<lambda>e. e\<lparr>ev_ProjectID := p\<rparr>) (payload_events req)))"
proof -
  have "resolveAndAuthorizeProjectID w cks s r = (Inr p, r, s1)"
    using assms(3-8) by (simp add: resolveAndAuthorizeProjectID_def target_project_def getAPIKeyFromRequest_def context_user_def scoped_key_def Let_def)
  with assms(1,2) show ?thesis by (simp add: handleIngestEvents_def Let_def)
qed

text \<open>
  The bound on events is shared by all projects: a payload of a hundred thousand events, which fits
  into a request, leaves no event of any other project.
\<close>

theorem events_of_others_evicted:
  assumes "\<forall>ev \<in> set evs. ev_ProjectID ev = p" and "100000 \<le> length evs" and "or_project q \<noteq> or_project p"
  shows "GetExperimentEventsByProject (RecordExperimentEvents clk s evs) q k lmt = []"
proof -
  let ?new = "map (\<lambda>(i, ev). stamp_event (clk i) ev) (zip [0..<length evs] evs)"
  have "set (ms_events (RecordExperimentEvents clk s evs)) \<subseteq> set ?new"
    using assms(2) set_drop_subset [of "length ?new - 100000" ?new] by (auto simp: recorded_events Let_def)
  then have "or_project (ev_ProjectID e) \<noteq> or_project q" if "e \<in> set (ms_events (RecordExperimentEvents clk s evs))" for e
    using zip_stamped [of e clk evs] assms(1,3) that by (metis subsetD)
  then have none: "filter (\<lambda>ev. or_project (ev_ProjectID ev) = or_project q \<and> (k = [] \<or> ev_FlagKey ev = k))
      (rev (ms_events (RecordExperimentEvents clk s evs))) = []" by (auto simp: filter_empty_conv)
  show ?thesis unfolding GetExperimentEventsByProject_def none by (simp add: limited_def)
qed

section \<open>Reports\<close>

text \<open>
  A control variant without conversions makes the lift of every converting variant infinite, and the
  report cannot be encoded: the caller gets an empty body with status 200.
\<close>

theorem control_without_conversions_unanswered:
  assumes "is_order ord"
    and "rep = AnalyzeExperiment M ord now key metric ty env control exposures events"
    and "mget (xr_VariantStats rep) (xr_ControlVariant rep) = Some c" and "vm_ConversionRate c = Fin 0"
    and "mget (xr_VariantStats rep) v = Some t" and "flt (Fin 0) (vm_ConversionRate t)"
  shows "rp_Body (encode_value (report_json rep)) = Empty"
proof -
  obtain n high es where c: "compared (\<lambda>st. CompareBinaryVariantsWithCorrection M
        (variant_stats M exposures (variant_conversions key metric env events) (xr_ControlVariant rep)) st n) (xr_ControlVariant rep)
      (fneg MaxFloat64) es (xr_Comparisons rep, xr_WinnerVariant rep, high)"
    and ctl: "mget (xr_VariantStats rep) (xr_ControlVariant rep) =
      Some (variant_stats M exposures (variant_conversions key metric env events) (xr_ControlVariant rep))"
    and es: "\<forall>v st. (v, st) \<in> set es \<longleftrightarrow> mget (xr_VariantStats rep) v = Some st" "distinct (map fst es)"
      "\<forall>v st. mget (xr_VariantStats rep) v = Some st \<longrightarrow> st = variant_stats M exposures (variant_conversions key metric env events) v"
    unfolding assms(2)
    by (rule analyze_parts [OF assms(1), where M = M and now = now and key = key and metric = metric and ty = ty and env = env
          and control = control and exposures = exposures and events = events])
  have "v \<noteq> xr_ControlVariant rep" using assms(3-6) by (auto simp: flt_def)
  moreover have "map_of es v = Some t" using es(1,2) assms(5) by simp
  ultimately have "mget (xr_Comparisons rep) v = Some (CompareBinaryVariantsWithCorrection M c t n)"
    using c ctl assms(3) by (simp add: compared_def)
  then have "(v, CompareBinaryVariantsWithCorrection M c t n) \<in> set (xr_Comparisons rep)" by (simp add: mget_def map_of_SomeD)
  moreover have "\<not> encodable (comparison_json (CompareBinaryVariantsWithCorrection M c t n))"
    using infinite_lift [OF assms(4,6)] by (simp add: comparison_json_def is_fin_def)
  ultimately have "\<not> encodable (report_json rep)" by (auto simp: report_json_def list_all_iff)
  then show ?thesis by (simp add: encode_value_def)
qed


definition demo_post :: Request where
  "demo_post = (demo_get [(''X-Project-ID'', ''p1'')])\<lparr>rq_Method := ''POST'', rq_User := Some demo_user\<rparr>"

theorem experiment_events_scoped_witness:
  "GetExperimentEventsByProject (snd (handleIngestEvents demo_world (Inr ([(demo_event ''b'' ''u1'')\<lparr>ev_ProjectID := ''p2''\<rparr>], None))
      (\<lambda>_ _. 7) demo_tenants demo_post)) ''p2'' [] 5 = GetExperimentEventsByProject demo_tenants ''p2'' [] 5"
proof -
  let ?req = "([(demo_event ''b'' ''u1'')\<lparr>ev_ProjectID := ''p2''\<rparr>], None :: ExperimentEvent option)"
  have "fst (resolveAndAuthorizeProjectID demo_world (\<lambda>_ _. 7) demo_tenants demo_post) = Inr ''p1''" by code_simp
  then obtain r' s1 where res: "resolveAndAuthorizeProjectID demo_world (\<lambda>_ _. 7) demo_tenants demo_post = (Inr ''p1'', r', s1)"
    by (metis prod_cases3 fst_conv)
  obtain rsp s' where h: "handleIngestEvents demo_world (Inr ?req) (\<lambda>_ _. 7) demo_tenants demo_post = (rsp, s')" by fastforce
  have "rq_Method demo_post = ''POST''" "payload_events ?req \<noteq> []" "length (payload_events ?req) = 1"
    by (simp_all add: demo_post_def payload_events_def)
  moreover from this h res have "rp_Status rsp = 202" by (auto simp: handleIngestEvents_def encodeJSON_def)
  moreover have "ms_events demo_tenants = []" by (simp add: demo_tenants_def demo_accounts_def NewMemoryStore_def)
  ultimately show ?thesis
    using experiment_events_scoped [OF h] res h by (auto simp: or_project_def)
qed

end
