(* ===== verification/Canary_Progress.thy ===== *)
theory Canary_Progress
  imports Canary
begin

text \<open>
  Progress of a canary rollout: the ticks of the scheduler on one schedule, on whatever store each of
  them finds, lead it through its stages to completion.
\<close>

text \<open>
  A tick is a time, the clocks of its store calls and the store it runs on: between two ticks other
  requests may have changed the store.
\<close>

type_synonym tick = "gtime \<times> (nat \<Rightarrow> clock) \<times> MemoryStore"

fun run_ticks :: "runtime \<Rightarrow> CanarySchedule \<Rightarrow> tick list \<Rightarrow> CanarySchedule option" where
  "run_ticks rt c [] = Some c"
| "run_ticks rt c ((now, clks, s) # ts) =
     (case evaluate_one rt now clks c s of None \<Rightarrow> None | Some (c', _) \<Rightarrow> run_ticks rt c' ts)"

text \<open>The store of a tick holds the flag of the schedule; then the update of its rollout succeeds.\<close>

definition holds_flag :: "CanarySchedule \<Rightarrow> tick \<Rightarrow> bool" where
  "holds_flag c = (\<lambda>(now, clks, s). list_ex (flag_matches (or_project (sc_ProjectID c)) (sc_FlagKey c)) (fs_list (ms_flagsSnapshot s)))"

lemma update_loop_found:
  assumes "\<And>f. match (DeepCopy f) = match f"
  shows "list_ex match fs \<Longrightarrow> \<exists>x. snd (update_loop match upd i fs) = Some x"
proof (induction fs arbitrary: i)
  case (Cons f fs)
  show ?case
  proof (cases "list_ex match fs")
    case True
    from Cons.IH [OF this, of "Suc i"] obtain x where "snd (update_loop match upd (Suc i) fs) = Some x" by blast
    then show ?thesis by (simp add: Let_def split_def)
  next
    case False
    with Cons.prems assms show ?thesis by (auto simp: Let_def split_def split: option.splits)
  qed
qed simp

lemma flag_matches_copy: "flag_matches p k (DeepCopy f) = flag_matches p k f"
  by (simp add: flag_matches_def)

lemma rollout_succeeds:
  assumes "list_ex (flag_matches (or_project p) k) (fs_list (ms_flagsSnapshot s))"
  shows "\<exists>x s'. UpdateRolloutByProject rt clk s p k env pct actor = (Inr x, s')"
proof -
  let ?upd = "rollout_update clk (or_project p) (if env = [] then EnvProduction else env) (clamp_pct pct) (if actor = [] then ''engineer@flagura.dev'' else actor)"
  obtain x where x: "snd (update_loop (flag_matches (or_project p) k) ?upd 0 (fs_list (ms_flagsSnapshot s))) = Some x"
    using update_loop_found [OF _ assms] by (metis flag_matches_copy)
  show ?thesis unfolding UpdateRolloutByProject_def finish_update_def Let_def x by (cases x) (simp add: split_def)
qed

text \<open>Ticks at least \<open>D\<close> seconds apart, counted from \<open>t\<close>.\<close>

fun spaced :: "int \<Rightarrow> gtime \<Rightarrow> tick list \<Rightarrow> bool" where
  "spaced D t [] = True"
| "spaced D t ((now, _) # ts) = (t + D * Second \<le> now \<and> spaced D now ts)"

lemma run_ticks_inactive: "sc_Status c \<noteq> ''ACTIVE'' \<Longrightarrow> run_ticks rt c ts = Some c"
  by (induction ts) (auto simp: evaluate_one_def)

lemma stage_elapsed:
  assumes "t + D * Second \<le> now" and "0 \<le> d" and "d \<le> D" and "D \<le> 2 ^ 20"
  shows "fle (f64_of_int d) (Seconds (time_sub now t))"
proof -
  let ?d = "time_sub now t"
  have "0 \<le> D * Second" using assms(2,3) by (simp add: Second_def)
  then have b: "0 \<le> ?d" "?d \<le> maxDuration" using assms(1) by (auto simp: time_sub_def maxDuration_def minDuration_def)
  have "d * Second \<le> D * Second" using assms(3) by (simp add: Second_def)
  moreover have "D * Second \<le> maxDuration" using assms(4) by (simp add: Second_def maxDuration_def)
  ultimately have "d * Second \<le> ?d" using assms(1) by (auto simp: time_sub_def maxDuration_def minDuration_def)
  then show ?thesis using stage_elapsed_exact [OF b assms(2)] assms(3,4) by simp
qed

lemma commit_stages:
  assumes "CommitStageAdvancement c now = Some c'" and "sched_ok c" and "sc_Status c = ''ACTIVE''"
  shows "map st_DurationSec (sc_Stages c') = map st_DurationSec (sc_Stages c)"
    and "sc_Environment c' = sc_Environment c"
    and "sc_Status c' = ''ACTIVE'' \<Longrightarrow> st_StartedAt (sc_Stages c' ! nat (sc_CurrentStageIdx c')) = now"
proof -
  obtain i where i: "sc_CurrentStageIdx c = int i" "i < length (sc_Stages c)"
    using assms(2,3) by (auto simp: sched_ok_def) (metis nonneg_int_cases of_nat_less_iff)
  have n: "nat (int i + 1) = Suc i" by simp
  show "map st_DurationSec (sc_Stages c') = map st_DurationSec (sc_Stages c)" "sc_Environment c' = sc_Environment c"
    "sc_Status c' = ''ACTIVE'' \<Longrightarrow> st_StartedAt (sc_Stages c' ! nat (sc_CurrentStageIdx c')) = now"
    using assms(1) i n by (auto simp: CommitStageAdvancement_def Let_def map_update nth_list_update list_update_same_conv
        intro!: nth_equalityI split: if_splits)
qed

lemma tick_advances:
  assumes "sched_ok c" and "sc_Status c = ''ACTIVE''" and "holds_flag c (now, clks, s)"
    and "st_StartedAt (sc_Stages c ! nat (sc_CurrentStageIdx c)) + D * Second \<le> now"
    and "\<forall>d \<in> set (map st_DurationSec (sc_Stages c)). 0 \<le> d \<and> d \<le> D" and "D \<le> 2 ^ 20"
  shows "\<exists>c' rest. evaluate_one rt now clks c s = Some (c', rest) \<and> CommitStageAdvancement (c\<lparr>sc_LastEvaluatedAt := now\<rparr>) now = Some c'"
proof -
  let ?c = "c\<lparr>sc_LastEvaluatedAt := now\<rparr>"
  have ok: "sched_ok ?c" "sc_Status ?c = ''ACTIVE''" using assms(1,2) by (auto simp: sched_ok_def)
  obtain i where i: "sc_CurrentStageIdx c = int i" "i < length (sc_Stages c)"
    using assms(1,2) by (auto simp: sched_ok_def) (metis nonneg_int_cases of_nat_less_iff)
  obtain d where d: "CommitStageAdvancement ?c now = Some d" by (rule Commit_ok [OF ok])
  have "fle (f64_of_int (st_DurationSec (sc_Stages c ! i))) (Seconds (time_sub now (st_StartedAt (sc_Stages c ! i))))"
    using stage_elapsed assms(4-6) i by simp
  then have ca: "CanAdvanceStage ?c now = Some (if Suc i < length (sc_Stages c) then (True, Some (sc_Stages c ! Suc i), False) else (True, None, True))"
    using CanAdvance_ok [OF ok, of now] i by (simp add: Let_def)
  obtain x s' where u: "UpdateRolloutByProject rt (clks 0) s (sc_ProjectID c) (sc_FlagKey c) (sc_Environment c)
      (st_TargetPercentage (sc_Stages c ! Suc i)) ''canary-scheduler-auto'' = (Inr x, s')"
    using assms(3) rollout_succeeds unfolding holds_flag_def prod.case by meson
  show ?thesis using assms(2) ca d u by (auto simp: evaluate_one_def Let_def)
qed


lemma demo_holds_flag: "holds_flag demo_schedule (now, clks, demo_flags)"
  by (simp add: holds_flag_def demo_schedule_def demo_flags_def publish_def flag_matches_def or_project_def demo_flag0_def normalize_flag_id)


end
