(* ===== verification/Api_Canary.thy ===== *)
theory Api_Canary
  imports Api_Flags Canary
begin

text \<open>
  The canary routes of \<open>src/pkg/api/handlers_canary.go\<close> over the scheduler and the store. Broadcasts
  of the scheduler are part of the outcome. Shown is that a call touches no schedule but the one of
  its flag in the project it was resolved to, and only for a signed-in caller or the holder of the
  webhook secret. The scheduler is never nil: \<open>NewServer\<close> makes one.
\<close>

type_synonym canary_outcome = "Response \<times> CanaryScheduler \<times> MemoryStore \<times> bcast list"

definition handleCreateCanary :: "world \<Rightarrow> CanarySchedule result \<Rightarrow> clocks \<Rightarrow> CanaryScheduler \<Rightarrow> MemoryStore \<Rightarrow> string \<Rightarrow> string \<Rightarrow> canary_outcome" where
  "handleCreateCanary w body cks cs s projectID flagKey =
     (case body of
        Inl err \<Rightarrow> (http_Error (''Invalid JSON payload: '' @ Error err) 400, cs, s, [])
      | Inr req \<Rightarrow>
          (case SubmitSchedule (w_rt w) (cks 8 0) (later 9 cks) cs s (req\<lparr>sc_FlagKey := flagKey, sc_ProjectID := projectID\<rparr>) of
             (Inl err, cs, s, ev) \<Rightarrow> (http_Error (Error err) 400, cs, s, ev)
           | (Inr sched, cs, s, ev) \<Rightarrow> (encodeJSON 201 (J_schedule sched), cs, s, ev)))"

definition handleGetCanary :: "CanaryScheduler \<Rightarrow> MemoryStore \<Rightarrow> string \<Rightarrow> string \<Rightarrow> canary_outcome" where
  "handleGetCanary cs s projectID flagKey =
     (case GetSchedule cs s projectID flagKey of
        (None, cs) \<Rightarrow> (http_Error (''No active canary schedule for flag '' @ flagKey) 404, cs, s, [])
      | (Some sched, cs) \<Rightarrow> (encodeJSON 200 (J_schedule sched), cs, s, []))"

definition handleDeleteCanary :: "CanaryScheduler \<Rightarrow> MemoryStore \<Rightarrow> string \<Rightarrow> string \<Rightarrow> canary_outcome" where
  "handleDeleteCanary cs s projectID flagKey =
     (case CancelSchedule cs s projectID flagKey of
        (cancelled, cs, s) \<Rightarrow>
          if \<not> cancelled then (http_Error ''No active canary schedule found to cancel'' 404, cs, s, [])
          else (encodeJSON 200 (J_object [(''status'', J_string ''cancelled''), (''flag_key'', J_string flagKey)]), cs, s, []))"

text \<open>\<open>reason\<close> is the decoded body; one that cannot be decoded counts as empty.\<close>

definition handleCanaryRollback :: "world \<Rightarrow> string \<Rightarrow> clocks \<Rightarrow> CanaryScheduler \<Rightarrow> MemoryStore \<Rightarrow> string \<Rightarrow> string \<Rightarrow> canary_outcome" where
  "handleCanaryRollback w body cks cs s projectID flagKey =
     (let reason = (if body = [] then ''External APM Alert Triggered Rollback'' else body) in
      case TriggerHealthRollback (w_rt w) (cks 8 0) (later 9 cks) cs s projectID flagKey reason of
        (Inl err, cs, s, ev) \<Rightarrow> (http_Error (Error err) 500, cs, s, ev)
      | (Inr _, cs, s, ev) \<Rightarrow>
          (encodeJSON 200 (J_object [(''status'', J_string ''rolled_back''), (''project_id'', J_string projectID),
             (''flag_key'', J_string flagKey), (''reason'', J_string reason)]), cs, s, ev))"

text \<open>The body of a call: a schedule for POST, a reason for the rollback.\<close>

record CanaryBody =
  cb_Schedule :: "CanarySchedule result"
  cb_Reason :: string

definition canary_key :: "Request \<Rightarrow> string" where
  "canary_key r = trim_slashes (TrimSuffix (TrimSuffix (TrimPrefix (rq_Path r) ''/api/v1/flags/'') ''/canary/rollback'') ''/canary'')"

definition is_rollback :: "Request \<Rightarrow> bool" where
  "is_rollback r = HasSuffix (TrimPrefix (rq_Path r) ''/api/v1/flags/'') ''/canary/rollback''"

definition webhook_secret_given :: "world \<Rightarrow> Request \<Rightarrow> bool" where
  "webhook_secret_given w r =
     (let secret = w_getenv w ''FLAGURA_WEBHOOK_SECRET'' in
      secret \<noteq> [] \<and> (header_get r ''X-Webhook-Secret'' = secret \<or> query_get r ''token'' = secret
        \<or> TrimPrefix (header_get r ''Authorization'') ''Bearer '' = secret))"

definition rollback_route :: "world \<Rightarrow> string \<Rightarrow> clocks \<Rightarrow> CanaryScheduler \<Rightarrow> MemoryStore \<Rightarrow> Request \<Rightarrow> canary_outcome" where
  "rollback_route w reason cks cs s r =
     (if rq_Method r \<noteq> ''POST'' then (MethodNotAllowed, cs, s, [])
      else
        let (user, s) = getUserFromRequest w (later 20 cks) s r in
        if \<not> webhook_secret_given w r \<and> isl user then
          (encodeJSON 401 (auth_message ''Unauthorized''
             ''Authentication required. Provide a valid session, Bearer token, or X-Webhook-Secret.''), cs, s, [])
        else if \<not> isl user then
          (case resolveAndAuthorizeProjectID w cks s r of
             (Inl err, r, s) \<Rightarrow> (writeError r err, cs, s, [])
           | (Inr projectID, r, s) \<Rightarrow> handleCanaryRollback w reason cks cs s projectID (canary_key r))
        else
          (case resolveProjectID w cks s r of
             (projectID, r, s) \<Rightarrow> handleCanaryRollback w reason cks cs s projectID (canary_key r)))"

text \<open>The three methods behind \<open>RequireAuth\<close>, which runs the rest with the clocks that remain.\<close>

definition authed_canary :: "world \<Rightarrow> (clocks \<Rightarrow> CanaryScheduler \<Rightarrow> MemoryStore \<Rightarrow> string \<Rightarrow> string \<Rightarrow> canary_outcome) \<Rightarrow>
    clocks \<Rightarrow> CanaryScheduler \<Rightarrow> MemoryStore \<Rightarrow> Request \<Rightarrow> canary_outcome" where
  "authed_canary w h cks cs s r =
     (case RequireAuth w (\<lambda>cks s r. case resolveAndAuthorizeProjectID w cks s r of
            (Inl err, r, s) \<Rightarrow> (writeError r err, s, [])
          | (Inr projectID, r, s) \<Rightarrow> (case h cks cs s projectID (canary_key r) of (rsp, cs', s', ev) \<Rightarrow> (rsp, s', [(cs', ev)])))
          cks s r of
        (rsp, s', []) \<Rightarrow> (rsp, cs, s', [])
      | (rsp, s', (cs', ev) # _) \<Rightarrow> (rsp, cs', s', ev))"

definition handleCanaryRoutes :: "world \<Rightarrow> CanaryBody \<Rightarrow> clocks \<Rightarrow> CanaryScheduler \<Rightarrow> MemoryStore \<Rightarrow> Request \<Rightarrow> canary_outcome" where
  "handleCanaryRoutes w body cks cs s r =
     (if canary_key r = [] then (http_Error ''Flag key is required'' 400, cs, s, [])
      else if is_rollback r then rollback_route w (cb_Reason body) cks cs s r
      else if rq_Method r = ''POST'' then authed_canary w (\<lambda>cks. handleCreateCanary w (cb_Schedule body) cks) cks cs s r
      else if rq_Method r = ''GET'' then authed_canary w (\<lambda>_. handleGetCanary) cks cs s r
      else if rq_Method r = ''DELETE'' then authed_canary w (\<lambda>_. handleDeleteCanary) cks cs s r
      else (MethodNotAllowed, cs, s, []))"

section \<open>One schedule only\<close>

definition only_schedule :: "string \<Rightarrow> CanaryScheduler \<Rightarrow> CanaryScheduler \<Rightarrow> bool" where
  "only_schedule k cs cs' \<longleftrightarrow> (\<forall>j. j \<noteq> k \<longrightarrow> mget (cn_schedules cs') j = mget (cn_schedules cs) j)"

lemma only_schedule_refl [simp]: "only_schedule k cs cs"
  by (simp add: only_schedule_def)

lemma only_put: "only_schedule k cs cs' \<Longrightarrow> only_schedule k cs (put_schedule k x cs')"
  by (simp add: only_schedule_def put_schedule_def map_simps)

lemma get_only: "GetSchedule cs s p k = (x, cs') \<Longrightarrow> only_schedule (scheduleKey p k) cs cs'"
  by (auto simp: GetSchedule_def Let_def only_put split: option.splits)

lemma submit_only:
  assumes "SubmitSchedule rt now clks cs s (sc\<lparr>sc_FlagKey := k, sc_ProjectID := p\<rparr>) = (x, cs', s', ev)"
  shows "only_schedule (scheduleKey p k) cs cs'"
proof -
  have key: "scheduleKey (sc_ProjectID (activate_schedule now (prepare_schedule now (sc\<lparr>sc_FlagKey := k, sc_ProjectID := p\<rparr>))))
      (sc_FlagKey (activate_schedule now (prepare_schedule now (sc\<lparr>sc_FlagKey := k, sc_ProjectID := p\<rparr>)))) = scheduleKey p k"
    by (simp add: activate_schedule_def prepare_schedule_def Let_def scheduleKey_def or_project_def)
  show ?thesis using assms unfolding SubmitSchedule_def Let_def key
    by (auto simp: only_put split: if_splits prod.splits sum.splits)
qed

lemma cancel_only: "CancelSchedule cs s p k = (x, cs', s') \<Longrightarrow> only_schedule (scheduleKey p k) cs cs'"
  by (auto simp: CancelSchedule_def Let_def only_schedule_def map_simps split: option.splits)

lemma rollback_only:
  assumes "TriggerHealthRollback rt now clks cs s p k reason = (x, cs', s', ev)"
  shows "only_schedule (scheduleKey p k) cs cs'"
proof -
  obtain g cs1 where g: "GetSchedule cs s p k = (g, cs1)" by fastforce
  show ?thesis using assms get_only [OF g]
    by (auto simp: TriggerHealthRollback_def Let_def g only_put split: option.splits prod.splits sum.splits)
qed

lemma canary_handlers_only:
  "handleCreateCanary w body cks cs s p k = (rsp, cs', s', ev) \<Longrightarrow> only_schedule (scheduleKey p k) cs cs'"
  "handleGetCanary cs s p k = (rsp, cs', s', ev) \<Longrightarrow> only_schedule (scheduleKey p k) cs cs'"
  "handleDeleteCanary cs s p k = (rsp, cs', s', ev) \<Longrightarrow> only_schedule (scheduleKey p k) cs cs'"
  "handleCanaryRollback w reason cks cs s p k = (rsp, cs', s', ev) \<Longrightarrow> only_schedule (scheduleKey p k) cs cs'"
  by (auto simp: handleCreateCanary_def handleGetCanary_def handleDeleteCanary_def handleCanaryRollback_def Let_def
      dest: submit_only get_only cancel_only rollback_only split: sum.splits prod.splits option.splits if_splits)

text \<open>How a call came to its project: a signed-in caller was authorised for it, or the webhook secret was given.\<close>

definition canary_project :: "world \<Rightarrow> MemoryStore \<Rightarrow> Request \<Rightarrow> string \<Rightarrow> bool" where
  "canary_project w s r p \<longleftrightarrow>
     (\<exists>ck ck' u s1 v x. getUserFromRequest w ck s r = (Inr u, s1) \<and> resolveAndAuthorizeProjectID w ck' s1 (r\<lparr>rq_User := v\<rparr>) = (Inr p, x)
        \<and> (v = Some u \<or> v = rq_User r))
     \<or> is_rollback r \<and> webhook_secret_given w r \<and> (\<exists>ck s1. fst (resolveProjectID w ck s1 r) = p)"

lemma canary_key_user [simp]: "canary_key (r\<lparr>rq_User := u\<rparr>) = canary_key r"
  by (simp add: canary_key_def)

lemma authed_canary_scoped:
  assumes "authed_canary w h cks cs s r = (rsp, cs', s', ev)" and "(cs', ev) \<noteq> (cs, [])"
    and h: "\<And>ck cs s p k rsp cs' s' ev. h ck cs s p k = (rsp, cs', s', ev) \<Longrightarrow> only_schedule (scheduleKey p k) cs cs'"
  shows "\<exists>p. canary_project w s r p \<and> only_schedule (scheduleKey p (canary_key r)) cs cs'"
proof -
  obtain x s1 where u: "getUserFromRequest w cks s r = (x, s1)" by fastforce
  with assms(1,2) obtain u where x: "x = Inr u" by (cases x) (auto simp: authed_canary_def RequireAuth_def)
  obtain y r' s2 where res: "resolveAndAuthorizeProjectID w (later 3 cks) s1 (r\<lparr>rq_User := Some u\<rparr>) = (y, r', s2)" by (metis surj_pair)
  with assms(1,2) u x obtain p where y: "y = Inr p" by (cases y) (auto simp: authed_canary_def RequireAuth_def)
  obtain v where "r' = r\<lparr>rq_User := v\<rparr>" using resolve_request [OF res] by auto
  then have "\<exists>t. h (later 3 cks) cs s2 p (canary_key r) = (rsp, cs', t, ev)"
    using assms(1) u x y res by (auto simp: authed_canary_def RequireAuth_def split: prod.splits)
  then have "only_schedule (scheduleKey p (canary_key r)) cs cs'" using h by blast
  moreover have "canary_project w s r p" unfolding canary_project_def using u x y res by blast
  ultimately show ?thesis by blast
qed

lemma rollback_route_scoped:
  assumes "rollback_route w reason cks cs s r = (rsp, cs', s', ev)" and "(cs', ev) \<noteq> (cs, [])" and "is_rollback r"
  shows "\<exists>p. canary_project w s r p \<and> only_schedule (scheduleKey p (canary_key r)) cs cs'"
proof -
  obtain x s1 where u: "getUserFromRequest w (later 20 cks) s r = (x, s1)" by fastforce
  obtain y r' s2 where res: "resolveAndAuthorizeProjectID w cks s1 r = (y, r', s2)" by (metis surj_pair)
  obtain v where r': "r' = r\<lparr>rq_User := v\<rparr>" using resolve_request [OF res] by auto
  have m: "rq_Method r = ''POST''" using assms(1,2) by (auto simp: rollback_route_def split: if_splits)
  have only: "only_schedule (scheduleKey p (canary_key r)) cs cs'"
    if "handleCanaryRollback w reason cks cs s2 p (canary_key r) = (rsp, cs', s', ev)" for p
    using canary_handlers_only(4) [OF that] .
  show ?thesis
  proof (cases x)
    case (Inr u)
    with assms(1,2) \<open>getUserFromRequest w (later 20 cks) s r = (x, s1)\<close> res m obtain p where
      y: "y = Inr p" "handleCanaryRollback w reason cks cs s2 p (canary_key r) = (rsp, cs', s', ev)"
      by (cases y) (auto simp: rollback_route_def r')
    have "resolveAndAuthorizeProjectID w cks s1 (r\<lparr>rq_User := rq_User r\<rparr>) = (Inr p, r', s2)" using res y by simp
    then have "canary_project w s r p" unfolding canary_project_def using \<open>getUserFromRequest w (later 20 cks) s r = (x, s1)\<close> Inr by blast
    then show ?thesis using only [OF y(2)] by blast
  next
    case (Inl e)
    with assms(1,2) u m have sec: "webhook_secret_given w r" by (auto simp: rollback_route_def split: if_splits)
    obtain p where p: "resolveProjectID w cks s1 r = (p, r', s2)" using res by (cases y) (auto simp: resolveProjectID_def)
    then have "handleCanaryRollback w reason cks cs s2 p (canary_key r) = (rsp, cs', s', ev)"
      using assms(1) u Inl m sec by (simp add: rollback_route_def r')
    moreover have "fst (resolveProjectID w cks s1 r) = p" using p by simp
    ultimately show ?thesis using only assms(3) sec unfolding canary_project_def by blast
  qed
qed

text \<open>
  Canary rollouts are governed. A call of a canary route that changes a schedule or broadcasts
  anything comes from a signed-in caller who is authorised for a project, or is a rollback with the
  webhook secret; and it changes no schedule but the one of its flag in that project.
\<close>

theorem canary_calls_scoped:
  assumes "handleCanaryRoutes w body cks cs s r = (rsp, cs', s', ev)" and "(cs', ev) \<noteq> (cs, [])"
  shows "\<exists>p. canary_project w s r p \<and> only_schedule (scheduleKey p (canary_key r)) cs cs'"
proof -
  consider "is_rollback r" "rollback_route w (cb_Reason body) cks cs s r = (rsp, cs', s', ev)"
    | "authed_canary w (\<lambda>cks. handleCreateCanary w (cb_Schedule body) cks) cks cs s r = (rsp, cs', s', ev)"
    | "authed_canary w (\<lambda>_. handleGetCanary) cks cs s r = (rsp, cs', s', ev)"
    | "authed_canary w (\<lambda>_. handleDeleteCanary) cks cs s r = (rsp, cs', s', ev)"
    using assms by (auto simp: handleCanaryRoutes_def split: if_splits)
  then show ?thesis
  proof cases
    case 1
    then show ?thesis using rollback_route_scoped assms(2) by blast
  next
    case 2
    then show ?thesis using authed_canary_scoped [OF 2 assms(2)] canary_handlers_only(1) by blast
  next
    case 3
    then show ?thesis using authed_canary_scoped [OF 3 assms(2)] canary_handlers_only(2) by blast
  next
    case 4
    then show ?thesis using authed_canary_scoped [OF 4 assms(2)] canary_handlers_only(3) by blast
  qed
qed

definition demo_canaries :: CanaryScheduler where
  "demo_canaries = \<lparr>cn_schedules = [(''p1:pay'', demo_schedule), (''p2:pay'', demo_schedule)]\<rparr>"

definition demo_cancel :: Request where
  "demo_cancel = demo_call ''DELETE'' ''/api/v1/flags/pay/canary'' ''t1''"

lemma demo_cancel_run:
  "cn_schedules (fst (snd (handleCanaryRoutes demo_world \<lparr>cb_Schedule = Inl (Errorf []), cb_Reason = []\<rparr> (\<lambda>_ _. 7)
     demo_canaries demo_tenants demo_cancel))) = [(''p2:pay'', demo_schedule)]"
  by code_simp

theorem canary_calls_scoped_witness:
  "\<exists>p. canary_project demo_world demo_tenants demo_cancel p \<and>
     only_schedule (scheduleKey p ''pay'') demo_canaries \<lparr>cn_schedules = [(''p2:pay'', demo_schedule)]\<rparr>"
proof -
  let ?out = "handleCanaryRoutes demo_world \<lparr>cb_Schedule = Inl (Errorf []), cb_Reason = []\<rparr> (\<lambda>_ _. 7) demo_canaries demo_tenants demo_cancel"
  obtain rsp cs' s' ev where h: "?out = (rsp, cs', s', ev)" by (metis surj_pair)
  have cs: "cs' = \<lparr>cn_schedules = [(''p2:pay'', demo_schedule)]\<rparr>" using demo_cancel_run by (cases cs') (simp add: h)
  then have "(cs', ev) \<noteq> (demo_canaries, [])" by (simp add: demo_canaries_def)
  moreover have "canary_key demo_cancel = ''pay''" by code_simp
  ultimately show ?thesis using canary_calls_scoped [OF h] by (simp add: cs)
qed

end
