(* ===== verification/Api_Pages.thy ===== *)
theory Api_Pages
  imports Api_Flags Store_Changes
begin

text \<open>
  The health routes of \<open>src/pkg/api/handlers_health.go\<close> and the pages of
  \<open>src/pkg/api/handlers_ui.go\<close>. The generated views are parameters: a view is a function from the data
  it shows to the rendered page or an error. Shown is which project's data the dashboard renders.
\<close>

section \<open>Health\<close>

definition DriverName :: string where
  "DriverName = ''In-Memory Edge Store''"

definition handleHealthz :: Response where
  "handleHealthz = encodeJSON 200 (J_object [(''status'', J_string ''ok'')])"

definition handleLivez :: "gtime \<Rightarrow> Response" where
  "handleLivez now = writeJSON 200 (J_object [(''status'', J_string ''alive''), (''service'', J_string ''flagura''), (''timestamp'', J_time now)])"

text \<open>\<open>ping\<close> is the answer of the store; the one in memory has no failure.\<close>

definition handleReadyz :: "unit result \<Rightarrow> gtime \<Rightarrow> Response" where
  "handleReadyz ping now =
     (case ping of
        Inl err \<Rightarrow> writeJSON 503 (J_object [(''status'', J_string ''unavailable''), (''error'', J_string (Error err)), (''timestamp'', J_time now)])
      | Inr _ \<Rightarrow> writeJSON 200 (J_object [(''status'', J_string ''ready''), (''driver'', J_string DriverName), (''timestamp'', J_time now)]))"

definition handleHealth :: "string \<Rightarrow> gtime \<Rightarrow> MemoryStore \<Rightarrow> Response" where
  "handleHealth version now s =
     encodeJSON 200 (J_object [(''status'', J_string ''ok''), (''service'', J_string ''flagura-engine''),
       (''version'', J_string (TrimPrefix version ''v'')), (''engine'', J_string ''Flagura-FastPath-Deterministic''),
       (''driver'', J_string DriverName), (''timestamp'', J_time now), (''flags_count'', J_int (int (length (ListFlags s))))])"

section \<open>Pages\<close>

record dashboard_data =
  dd_user :: User
  dd_flags :: "FeatureFlag list"
  dd_logs :: "AuditLogEntry list"
  dd_changes :: "ChangeRequest list"
  dd_orgs :: "Organization list"
  dd_projects :: "Project list"
  dd_projectID :: string
  dd_title :: string

record views =
  vw_Landing :: "string result"
  vw_Auth :: "string result"
  vw_Dashboard :: "dashboard_data \<Rightarrow> string result"
  vw_Install :: "string result"

definition render :: "string result \<Rightarrow> Response" where
  "render page =
     (case page of
        Inr html \<Rightarrow> \<lparr>rp_Status = 200, rp_Header = [(''Content-Type'', ''text/html; charset=utf-8'')], rp_Cookies = [], rp_Body = Text html\<rparr>
      | Inl err \<Rightarrow> http_Error (''Templ Render Error: '' @ Error err) 500)"

definition handleLanding :: "world \<Rightarrow> views \<Rightarrow> clocks \<Rightarrow> MemoryStore \<Rightarrow> Request \<Rightarrow> Response \<times> MemoryStore" where
  "handleLanding w vs cks s r =
     (if rq_Path r \<notin> {''/'', ''/api'', ''/api/''} then (http_NotFound, s)
      else case getUserFromRequest w cks s r of
        (Inr _, s) \<Rightarrow> (http_Redirect ''/dashboard'' 303, s)
      | (Inl _, s) \<Rightarrow>
          (if w_getenv w ''ENABLE_LANDING_PAGE'' \<noteq> ''true'' \<and> w_getenv w ''SHOW_LANDING_PAGE'' \<noteq> ''true''
           then http_Redirect ''/auth'' 303 else render (vw_Landing vs), s))"

definition handleAuth :: "world \<Rightarrow> views \<Rightarrow> clocks \<Rightarrow> MemoryStore \<Rightarrow> Request \<Rightarrow> Response \<times> MemoryStore" where
  "handleAuth w vs cks s r =
     (case getUserFromRequest w cks s r of
        (Inr _, s) \<Rightarrow> (http_Redirect ''/dashboard'' 303, s)
      | (Inl _, s) \<Rightarrow> (render (vw_Auth vs), s))"

definition dashboard_orgs :: "world \<Rightarrow> MemoryStore \<Rightarrow> User \<Rightarrow> Organization list" where
  "dashboard_orgs w s user =
     (let orgs = user_orgs w s user in
      if orgs = [] \<and> us_Role user = RoleAdmin then ListOrganizations (w_orgs w) s else orgs)"

definition dashboard_projects :: "world \<Rightarrow> MemoryStore \<Rightarrow> User \<Rightarrow> Project list" where
  "dashboard_projects w s user =
     (let orgs = dashboard_orgs w s user in
      if orgs \<noteq> [] then concat (map (\<lambda>org. ListProjects (w_projects w) s (og_ID org)) orgs)
      else if us_Role user = RoleAdmin then ListProjects (w_projects w) s [] else [])"

definition dashboard_project :: "string result \<Rightarrow> Project list \<Rightarrow> string" where
  "dashboard_project resolved projects =
     (let projectID = (case resolved of Inr p \<Rightarrow> p
            | Inl _ \<Rightarrow> if projects \<noteq> [] then pj_ID (hd projects) else DefaultProjectID)
      in if projects \<noteq> [] \<and> projectID \<notin> pj_ID ` set projects then pj_ID (hd projects) else projectID)"

definition view_name :: "Request \<Rightarrow> string" where
  "view_name r = or_else (or_else (trim_slashes (TrimPrefix (rq_Path r) ''/dashboard'')) (query_get r ''tab'')) (query_get r ''view'')"

definition page_title :: "runtime \<Rightarrow> string \<Rightarrow> string" where
  "page_title rt viewName =
     (let v = ToLower rt viewName in
      if v \<in> {''flags'', ''matrix'', ''rollouts''} then ''Flags & Rollouts''
      else if v \<in> {''analytics'', ''telemetry'', ''stats''} then ''Analytics & Telemetry''
      else if v \<in> {''evaluator'', ''sandbox'', ''live''} then ''Live Evaluator''
      else if v \<in> {''benchmark'', ''latency'', ''perf''} then ''Latency Benchmark''
      else if v \<in> {''audit'', ''logs'', ''trail''} then ''Audit Trail''
      else if v \<in> {''sdk'', ''apikeys'', ''quickstart''} then ''SDK Integration''
      else if v \<in> {''profile'', ''settings'', ''account''} then ''Profile Settings''
      else if v \<in> {''editor'', ''new''} then ''Flag Editor''
      else ''Developer Console'')"

definition dashboard_of :: "world \<Rightarrow> MemoryStore \<Rightarrow> User \<Rightarrow> Project list \<Rightarrow> string \<Rightarrow> Request \<Rightarrow> dashboard_data" where
  "dashboard_of w s user projects projectID r =
     \<lparr>dd_user = (case enrichUserOrgMembership s (Some user) projectID of Some u \<Rightarrow> u | None \<Rightarrow> user),
      dd_flags = ListFlagsByProject s projectID, dd_logs = ListAuditLogsByProject s projectID 20,
      dd_changes = ListChangeRequestsByProject (w_changes w) s projectID [],
      dd_orgs = dashboard_orgs w s user, dd_projects = projects, dd_projectID = projectID, dd_title = page_title (w_rt w) (view_name r)\<rparr>"

definition handleDashboard :: "world \<Rightarrow> views \<Rightarrow> clocks \<Rightarrow> MemoryStore \<Rightarrow> Request \<Rightarrow> Response \<times> MemoryStore" where
  "handleDashboard w vs cks s r =
     (case getUserFromRequest w cks s r of
        (Inl _, s) \<Rightarrow> (clearSessionCookie w r (http_Redirect ''/auth'' 303), s)
      | (Inr user, s) \<Rightarrow>
          (let projects = dashboard_projects w s user in
           case resolveAndAuthorizeProjectID w (later 3 cks) s r of
             (resolved, r', s) \<Rightarrow>
               (let projectID = dashboard_project resolved projects
                in (setProjectCookie w (cks 12 1) r projectID (cks 12 0 + 7 * 24 * Hour)
                      (render (vw_Dashboard vs (dashboard_of w s user projects projectID r))), s))))"

definition handleInstallScript :: "views \<Rightarrow> Response" where
  "handleInstallScript vs =
     (case vw_Install vs of
        Inl _ \<Rightarrow> http_Error ''Install script not found'' 404
      | Inr script \<Rightarrow> \<lparr>rp_Status = 200, rp_Header = [(''Content-Type'', ''text/x-shellscript; charset=utf-8''),
          (''Cache-Control'', ''no-cache, no-store, must-revalidate'')], rp_Cookies = [], rp_Body = Text script\<rparr>)"

definition handleDocs :: Response where
  "handleDocs = http_Redirect ''https://github.com/dhawalhost/flagura/blob/main/docs/product/sdks-and-api.md'' 307"

section \<open>What the dashboard shows\<close>

text \<open>
  A signed-in caller with projects sees the flags, audit entries and change requests of one of them,
  whatever project the request names.
\<close>

theorem dashboard_own_project:
  assumes "getUserFromRequest w cks s r = (Inr u, s1)" and "dashboard_projects w s1 u \<noteq> []"
  shows "\<exists>p s2. p \<in> pj_ID ` set (dashboard_projects w s1 u) \<and> same_but_usage s s2 \<and>
    handleDashboard w vs cks s r = (setProjectCookie w (cks 12 1) r p (cks 12 0 + 7 * 24 * Hour)
      (render (vw_Dashboard vs (dashboard_of w s2 u (dashboard_projects w s1 u) p r))), s2)"
proof -
  obtain x r' s2 where res: "resolveAndAuthorizeProjectID w (later 3 cks) s1 r = (x, r', s2)" by (metis surj_pair)
  have "same_but_usage s s2" using getUser_same [OF assms(1)] resolve_same [OF res] by (rule same_trans)
  moreover have "dashboard_project x (dashboard_projects w s1 u) \<in> pj_ID ` set (dashboard_projects w s1 u)"
    using assms(2) by (cases "dashboard_projects w s1 u") (auto simp: dashboard_project_def Let_def)
  ultimately show ?thesis using assms(1) res by (auto simp: handleDashboard_def Let_def)
qed

text \<open>A caller without any project is shown the default project, which may belong to somebody else.\<close>

theorem dashboard_without_project:
  assumes "getUserFromRequest w cks s r = (Inr u, s1)" and "dashboard_projects w s1 u = []"
    and "resolveAndAuthorizeProjectID w (later 3 cks) s1 r = (Inl e, r', s2)"
  shows "\<exists>rsp. handleDashboard w vs cks s r = (setProjectCookie w (cks 12 1) r DefaultProjectID (cks 12 0 + 7 * 24 * Hour) rsp, s2)
    \<and> rsp = render (vw_Dashboard vs (dashboard_of w s2 u [] DefaultProjectID r))
    \<and> dd_flags (dashboard_of w s2 u [] DefaultProjectID r) = ListFlagsByProject s2 DefaultProjectID"
  using assms by (simp add: handleDashboard_def dashboard_project_def dashboard_of_def Let_def)

end
