(* ===== verification/Remote_Calls.thy ===== *)
theory Remote_Calls
  imports Domain_Errors
begin

text \<open>
  What becomes of an HTTP call, for the two Go clients, and the contract of a client that guards its
  calls by a circuit breaker: the locale \<open>outage_guard\<close>. Its lemma bounds the calls of an outage; the
  clients meet the contract in \<open>Flag_Client\<close> and \<open>Sdk_Client\<close>.
\<close>

section \<open>Replies\<close>

text \<open>
  The request could not be built, the transport failed, or the server answered with a status, a text
  and what the decoder makes of it.
\<close>

datatype 'a reply = Unbuilt gerror | Unreachable gerror | Answer int string "'a result"

text \<open>What a successful reply brings, and the replies that a client takes for a failure or an acceptance.\<close>

definition fetched :: "'a reply \<Rightarrow> 'a option" where
  "fetched reply = (case reply of Answer status _ (Inr x) \<Rightarrow> if status = 200 then Some x else None | _ \<Rightarrow> None)"

definition failing :: "'a reply \<Rightarrow> bool" where
  "failing reply = (case reply of Unbuilt _ \<Rightarrow> False | Unreachable _ \<Rightarrow> True | Answer status _ _ \<Rightarrow> status \<noteq> 200)"

definition accepted :: "'a reply \<Rightarrow> bool" where
  "accepted reply = (case reply of Answer status _ _ \<Rightarrow> status < 400 | _ \<Rightarrow> False)"

definition trim_right_slash :: "string \<Rightarrow> string" where
  "trim_right_slash s = rev (dropWhile (\<lambda>c. c = CHR ''/'') (rev s))"

section \<open>Guarded calls\<close>

text \<open>Calls one after the other: what each returned and whether a request left the client.\<close>

fun call_run :: "('x \<Rightarrow> 'c \<Rightarrow> ('r \<times> bool) \<times> 'c) \<Rightarrow> 'c \<Rightarrow> 'x list \<Rightarrow> ('r \<times> bool) list \<times> 'c" where
  "call_run call c [] = ([], c)"
| "call_run call c (x # xs) = (case call x c of (r, c) \<Rightarrow> (case call_run call c xs of (rs, c) \<Rightarrow> (r # rs, c)))"

definition sent :: "('r \<times> bool) list \<Rightarrow> nat" where
  "sent rs = length (filter snd rs)"

locale outage_guard =
  fixes call :: "'x \<Rightarrow> 'c \<Rightarrow> ('r \<times> bool) \<times> 'c"
    and down :: "'x \<Rightarrow> bool"
    and ready :: "'c \<Rightarrow> bool"
    and left :: "'c \<Rightarrow> int"
    and safe :: "'r \<Rightarrow> bool"
  assumes left_nonneg: "ready c \<Longrightarrow> 0 \<le> left c"
    and down_call: "ready c \<Longrightarrow> down x \<Longrightarrow> call x c = ((r, b), c') \<Longrightarrow>
      safe r \<and> ready c' \<and> (if b then 0 < left c \<and> left c' = left c - 1 else left c = 0 \<and> left c' = 0)"
begin

lemma outage_calls:
  assumes "ready c" and "list_all down xs" and "call_run call c xs = (rs, c')"
  shows "int (sent rs) = min (int (length xs)) (left c) \<and> list_all (\<lambda>(r, b). safe r) rs"
  using assms
proof (induction xs arbitrary: c rs)
  case Nil
  then show ?case using left_nonneg by (auto simp: sent_def)
next
  case (Cons x xs)
  obtain r b c1 where c1: "call x c = ((r, b), c1)" by (metis surj_pair)
  obtain rs1 where rs: "call_run call c1 xs = (rs1, c')" "rs = (r, b) # rs1"
    using Cons.prems(3) by (auto simp: c1 split: prod.splits)
  have d: "safe r" "ready c1" "if b then 0 < left c \<and> left c1 = left c - 1 else left c = 0 \<and> left c1 = 0"
    using down_call [OF Cons.prems(1) _ c1] Cons.prems(2) by auto
  have "int (sent rs1) = min (int (length xs)) (left c1) \<and> list_all (\<lambda>(r, b). safe r) rs1"
    using Cons.IH [OF d(2) _ rs(1)] Cons.prems(2) by simp
  then show ?case using d(1,3) by (auto simp: rs(2) sent_def split: if_splits)
qed

end

end
