(* ===== verification/Flag_Client.thy ===== *)
theory Flag_Client
  imports Remote_Calls Circuit_Breaker Engine_Trace Store_Flags
begin

text \<open>
  The Go client of the server's own repository, \<open>src/pkg/client/client.go\<close>, with the flag cache of
  \<open>stream.go\<close> and the counters of \<open>telemetry.go\<close>: configuration, local and remote evaluation, the
  synchronisation of the cache, the snapshot file, the circuit breaker around the calls. What the
  network answers is an argument of each call: an error, or a status with what decoding the body gives.
  The content of the snapshot file is part of the client's state, \<open>None\<close> when it cannot be read.
\<close>

section \<open>Configuration\<close>

record ClientConfig =
  cc_Endpoint :: string
  cc_APIKey :: string
  cc_DefaultEnvironment :: string
  cc_LocalEvaluation :: bool
  cc_SyncInterval :: duration
  cc_SnapshotFile :: string
  cc_CircuitBreakerThreshold :: int
  cc_CircuitBreakerCooldown :: duration
  cc_DisableCircuitBreaker :: bool
  cc_DisableStreaming :: bool
  cc_TelemetryFlushInterval :: duration
  cc_DisableTelemetry :: bool
  cc_FallbackPollInterval :: duration
  cc_ProjectID :: string

datatype client_option =
    WithAPIKey string
  | WithProject string
  | WithEnvironment string
  | WithLocalEvaluation duration
  | WithSnapshotFile string
  | WithCircuitBreaker int duration
  | WithDisabledCircuitBreaker
  | WithStreaming bool
  | WithTelemetryFlushInterval duration
  | WithDisabledTelemetry
  | WithFallbackPollInterval duration

fun apply_option :: "client_option \<Rightarrow> ClientConfig \<Rightarrow> ClientConfig" where
  "apply_option (WithAPIKey key) c = c\<lparr>cc_APIKey := key\<rparr>"
| "apply_option (WithProject p) c = c\<lparr>cc_ProjectID := p\<rparr>"
| "apply_option (WithEnvironment env) c = c\<lparr>cc_DefaultEnvironment := env\<rparr>"
| "apply_option (WithLocalEvaluation d) c = c\<lparr>cc_LocalEvaluation := True, cc_SyncInterval := d\<rparr>"
| "apply_option (WithSnapshotFile path) c = c\<lparr>cc_SnapshotFile := path\<rparr>"
| "apply_option (WithCircuitBreaker n d) c = c\<lparr>cc_CircuitBreakerThreshold := n, cc_CircuitBreakerCooldown := d\<rparr>"
| "apply_option WithDisabledCircuitBreaker c = c\<lparr>cc_DisableCircuitBreaker := True\<rparr>"
| "apply_option (WithStreaming enabled) c = c\<lparr>cc_DisableStreaming := \<not> enabled\<rparr>"
| "apply_option (WithTelemetryFlushInterval d) c = c\<lparr>cc_TelemetryFlushInterval := d\<rparr>"
| "apply_option WithDisabledTelemetry c = c\<lparr>cc_DisableTelemetry := True\<rparr>"
| "apply_option (WithFallbackPollInterval d) c = c\<lparr>cc_FallbackPollInterval := d\<rparr>"

definition default_client_config :: "string \<Rightarrow> ClientConfig" where
  "default_client_config endpoint =
     \<lparr>cc_Endpoint = trim_right_slash endpoint, cc_APIKey = [], cc_DefaultEnvironment = EnvProduction, cc_LocalEvaluation = False,
      cc_SyncInterval = 30 * Second, cc_SnapshotFile = [], cc_CircuitBreakerThreshold = 5, cc_CircuitBreakerCooldown = 10 * Second,
      cc_DisableCircuitBreaker = False, cc_DisableStreaming = False, cc_TelemetryFlushInterval = 60 * Second,
      cc_DisableTelemetry = False, cc_FallbackPollInterval = 5 * Second, cc_ProjectID = []\<rparr>"

section \<open>Counting evaluations\<close>

record FlagMetric =
  mt_Evaluations :: "64 word"
  mt_Variants :: "(string, 64 word) gomap"

record TelemetryBuffer =
  bf_metrics :: "(string, FlagMetric) gomap"
  bf_maxFlags :: int
  bf_maxVariants :: int
  bf_droppedEvents :: "64 word"

record TelemetryPayload =
  tl_Timestamp :: int
  tl_Events :: "(string, FlagMetric) gomap"
  tl_DroppedEvents :: "64 word"

definition NewTelemetryBuffer :: TelemetryBuffer where
  "NewTelemetryBuffer = \<lparr>bf_metrics = [], bf_maxFlags = 1000, bf_maxVariants = 50, bf_droppedEvents = 0\<rparr>"

definition SetCapacityBounds :: "int \<Rightarrow> int \<Rightarrow> TelemetryBuffer \<Rightarrow> TelemetryBuffer" where
  "SetCapacityBounds maxFlags maxVariants tb =
     (let tb = (if maxFlags > 0 then tb\<lparr>bf_maxFlags := maxFlags\<rparr> else tb)
      in if maxVariants > 0 then tb\<lparr>bf_maxVariants := maxVariants\<rparr> else tb)"

definition drop_one :: "TelemetryBuffer \<Rightarrow> TelemetryBuffer" where
  "drop_one tb = tb\<lparr>bf_droppedEvents := bf_droppedEvents tb + 1\<rparr>"

definition buffer_Record :: "string \<Rightarrow> string \<Rightarrow> TelemetryBuffer \<Rightarrow> TelemetryBuffer" where
  "buffer_Record flagKey variant0 tb =
     (if flagKey = [] then tb
      else
        let variant = (if variant0 = [] then ''off'' else variant0) in
        case mget (bf_metrics tb) flagKey of
          None \<Rightarrow>
            if int (length (bf_metrics tb)) \<ge> bf_maxFlags tb then drop_one tb
            else if 0 \<ge> bf_maxVariants tb
              then drop_one (tb\<lparr>bf_metrics := mput flagKey \<lparr>mt_Evaluations = 0, mt_Variants = []\<rparr> (bf_metrics tb)\<rparr>)
            else tb\<lparr>bf_metrics := mput flagKey \<lparr>mt_Evaluations = 1, mt_Variants = [(variant, 1)]\<rparr> (bf_metrics tb)\<rparr>
        | Some m \<Rightarrow>
            if mget (mt_Variants m) variant = None \<and> int (length (mt_Variants m)) \<ge> bf_maxVariants tb then drop_one tb
            else let n = (case mget (mt_Variants m) variant of Some n \<Rightarrow> n | None \<Rightarrow> 0) in
              tb\<lparr>bf_metrics := mput flagKey (m\<lparr>mt_Evaluations := mt_Evaluations m + 1,
                mt_Variants := mput variant (n + 1) (mt_Variants m)\<rparr>) (bf_metrics tb)\<rparr>)"

text \<open>
  \<open>Flush\<close>: the payload that is sent, if any, and the buffer after the reply, an error of the transport
  or a status. The counts are given up before the request is made.
\<close>

definition buffer_Flush :: "int \<Rightarrow> unit reply \<Rightarrow> TelemetryBuffer \<Rightarrow> gerror option \<times> TelemetryPayload option \<times> TelemetryBuffer" where
  "buffer_Flush nowMs reply tb =
     (if bf_metrics tb = [] \<and> bf_droppedEvents tb = 0 then (None, None, tb)
      else
        let dropped = bf_droppedEvents tb;
            payload = \<lparr>tl_Timestamp = nowMs, tl_Events = bf_metrics tb, tl_DroppedEvents = dropped\<rparr>;
            tb = tb\<lparr>bf_metrics := [], bf_droppedEvents := 0\<rparr>
        in case reply of
             Unbuilt err \<Rightarrow> (Some err, None, tb)
           | Unreachable err \<Rightarrow> (Some (Wrapf ''telemetry flush failed: '' err), Some payload, tb\<lparr>bf_droppedEvents := dropped\<rparr>)
           | Answer status _ _ \<Rightarrow>
               if status \<ge> 400
               then (Some (Errorf (''telemetry flush returned status '' @ Itoa status)), Some payload, tb\<lparr>bf_droppedEvents := dropped\<rparr>)
               else (None, Some payload, tb))"

section \<open>The client\<close>

record ClientContext =
  ct_UserID :: string
  ct_Email :: string
  ct_Country :: string
  ct_Role :: string
  ct_Tier :: string
  ct_Environment :: string
  ct_Custom :: "(string, gvalue) gomap"

record ClientResult =
  ce_FlagKey :: string
  ce_Enabled :: bool
  ce_Variant :: string
  ce_Value :: gvalue
  ce_Reason :: string
  ce_Bucket :: f64
  ce_EvaluationLatencyNs :: int
  ce_EvaluationLatencyUs :: f64

record Client =
  cl_config :: ClientConfig
  cl_connState :: string
  cl_flags :: "(string, FeatureFlag) gomap"
  cl_cb :: "ClientBreaker option"
  cl_telemetry :: "TelemetryBuffer option"
  cl_disk :: "FeatureFlag list option"

text \<open>The transitions that \<open>setConnectionState\<close> reports to the listeners are the second component.\<close>

definition setConnectionState :: "string \<Rightarrow> Client \<Rightarrow> Client \<times> (string \<times> string) option" where
  "setConnectionState nxt c =
     (if cl_connState c = nxt then (c, None) else (c\<lparr>cl_connState := nxt\<rparr>, Some (cl_connState c, nxt)))"

definition flag_map :: "FeatureFlag list \<Rightarrow> (string, FeatureFlag) gomap" where
  "flag_map flags = fold (\<lambda>f m. mput (ff_ID f) f (mput (ff_Key f) f m)) flags []"

definition changed_keys :: "(string, FeatureFlag) gomap \<Rightarrow> FeatureFlag list \<Rightarrow> string list" where
  "changed_keys old flags = map ff_Key (filter (\<lambda>f. case mget old (ff_Key f) of None \<Rightarrow> True | Some o' \<Rightarrow> ff_UpdatedAt o' \<noteq> ff_UpdatedAt f) flags)"

definition saveSnapshot :: "FeatureFlag list \<Rightarrow> Client \<Rightarrow> Client" where
  "saveSnapshot flags c = (if cc_SnapshotFile (cl_config c) = [] then c else c\<lparr>cl_disk := Some flags\<rparr>)"

definition loadSnapshot :: "Client \<Rightarrow> Client" where
  "loadSnapshot c =
     (if cc_SnapshotFile (cl_config c) = [] then c
      else case cl_disk c of None \<Rightarrow> c | Some flags \<Rightarrow> c\<lparr>cl_flags := flag_map flags\<rparr>)"

text \<open>The new cache, and what the listeners are called with.\<close>

definition updateFlags :: "FeatureFlag list \<Rightarrow> Client \<Rightarrow> Client \<times> ((string, FeatureFlag) gomap \<times> string list) option" where
  "updateFlags flags c =
     (let changedKeys = changed_keys (cl_flags c) flags;
          newMap = flag_map flags;
          c = saveSnapshot flags (c\<lparr>cl_flags := newMap\<rparr>)
      in (c, if changedKeys \<noteq> [] then Some (newMap, changedKeys) else None))"

definition breaker_failure :: "gtime \<Rightarrow> Client \<Rightarrow> Client" where
  "breaker_failure t c = c\<lparr>cl_cb := map_option (client_OnFailure t) (cl_cb c)\<rparr>"

definition breaker_success :: "gtime \<Rightarrow> Client \<Rightarrow> Client" where
  "breaker_success t c = c\<lparr>cl_cb := map_option (client_OnSuccess t) (cl_cb c)\<rparr>"

definition syncFlags :: "gtime \<Rightarrow> FeatureFlag list reply \<Rightarrow> Client \<Rightarrow> gerror option \<times> Client" where
  "syncFlags t reply c =
     (case reply of
        Unbuilt err \<Rightarrow> (Some err, c)
      | Unreachable err \<Rightarrow> (Some err, breaker_failure t c)
      | Answer status _ body \<Rightarrow>
          if status \<noteq> 200 then (Some (Errorf (''fetch flags returned status '' @ Itoa status)), breaker_failure t c)
          else case body of
            Inl err \<Rightarrow> (Some err, breaker_success t c)
          | Inr flags \<Rightarrow> (None, fst (updateFlags flags (breaker_success t c))))"

definition client_New :: "gtime \<Rightarrow> string \<Rightarrow> client_option list \<Rightarrow> FeatureFlag list option \<Rightarrow> FeatureFlag list reply \<Rightarrow> Client" where
  "client_New now endpoint opts disk reply =
     (let cfg = fold apply_option opts (default_client_config endpoint);
          c = \<lparr>cl_config = cfg, cl_connState = ''DISCONNECTED'', cl_flags = [],
               cl_cb = (if cc_DisableCircuitBreaker cfg then None
                        else Some (client_NewCircuitBreaker now (cc_CircuitBreakerThreshold cfg) (cc_CircuitBreakerCooldown cfg))),
               cl_telemetry = (if cc_DisableTelemetry cfg then None else Some NewTelemetryBuffer), cl_disk = disk\<rparr>;
          c = (if cc_SnapshotFile cfg \<noteq> [] then loadSnapshot c else c)
      in if \<not> cc_LocalEvaluation cfg then c
         else
           let c = fst (setConnectionState ''CONNECTING'' c);
               (err, c) = syncFlags now reply c
           in if err \<noteq> None \<and> cc_SnapshotFile cfg \<noteq> [] then loadSnapshot c
              else if err = None \<and> cc_DisableStreaming cfg then fst (setConnectionState ''CONNECTED_POLLING'' c) else c)"

definition toDomainContext :: "Client \<Rightarrow> ClientContext \<Rightarrow> EvaluationContext" where
  "toDomainContext c ctx =
     \<lparr>cx_UserID = ct_UserID ctx, cx_Email = ct_Email ctx, cx_Country = ct_Country ctx, cx_Role = ct_Role ctx, cx_Tier = ct_Tier ctx,
      cx_Environment = (if ct_Environment ctx = [] then cc_DefaultEnvironment (cl_config c) else ct_Environment ctx),
      cx_Attributes = ct_Custom ctx\<rparr>"

definition off_result :: "string \<Rightarrow> string \<Rightarrow> ClientResult" where
  "off_result flagKey reason =
     \<lparr>ce_FlagKey = flagKey, ce_Enabled = False, ce_Variant = ''off'', ce_Value = GBool False, ce_Reason = reason, ce_Bucket = Fin 0,
      ce_EvaluationLatencyNs = 0, ce_EvaluationLatencyUs = Fin 0\<rparr>"

definition client_result :: "EvaluationResult \<Rightarrow> ClientResult" where
  "client_result r =
     \<lparr>ce_FlagKey = er_FlagKey r, ce_Enabled = er_Enabled r, ce_Variant = er_Variant r, ce_Value = er_Value r, ce_Reason = er_Reason r,
      ce_Bucket = (case er_BucketVal r of Some b \<Rightarrow> b | None \<Rightarrow> Fin 0),
      ce_EvaluationLatencyNs = er_EvaluationLatencyNs r, ce_EvaluationLatencyUs = er_EvaluationLatencyUs r\<rparr>"

definition count_evaluation :: "string \<Rightarrow> string \<Rightarrow> Client \<Rightarrow> Client" where
  "count_evaluation flagKey variant c = c\<lparr>cl_telemetry := map_option (buffer_Record flagKey variant) (cl_telemetry c)\<rparr>"

definition evaluateLocal :: "runtime \<Rightarrow> regex_cache \<Rightarrow> int \<Rightarrow> Client \<Rightarrow> string \<Rightarrow> ClientContext \<Rightarrow>
    (ClientResult \<times> gerror option) \<times> regex_cache \<times> Client" where
  "evaluateLocal rt cache ns c flagKey ctx =
     (case mget (cl_flags c) flagKey of
        None \<Rightarrow> ((off_result flagKey ''FLAG_NOT_FOUND'', Some (Errorf (''flag '' @ rt_quote rt flagKey @ '' not found in local cache''))), cache, c)
      | Some flag \<Rightarrow>
          (let (domRes, cache) = EvaluateFlag rt cache ns flag (toDomainContext c ctx)
           in ((client_result domRes, None), cache, count_evaluation flagKey (er_Variant domRes) c)))"

text \<open>A remote call: the flags and context it sends, with its headers.\<close>

record RemoteCall =
  ra_url :: string
  ra_flags :: "string list"
  ra_context :: ClientContext
  ra_headers :: "(string \<times> string) list"

definition client_headers :: "ClientConfig \<Rightarrow> (string \<times> string) list" where
  "client_headers cfg =
     (if cc_APIKey cfg \<noteq> [] then [(''Authorization'', ''Bearer '' @ cc_APIKey cfg)] else [])
     @ (if cc_ProjectID cfg \<noteq> [] then [(''X-Project-ID'', cc_ProjectID cfg)] else [])"

definition remote_call :: "Client \<Rightarrow> string list \<Rightarrow> ClientContext \<Rightarrow> RemoteCall" where
  "remote_call c flagKeys ctx =
     (let cfg = cl_config c in
      \<lparr>ra_url = cc_Endpoint cfg @ ''/api/v1/evaluate'', ra_flags = flagKeys,
       ra_context = (if ct_Environment ctx = [] then ctx\<lparr>ct_Environment := cc_DefaultEnvironment cfg\<rparr> else ctx),
       ra_headers = (''Content-Type'', ''application/json'') # client_headers cfg\<rparr>)"

type_synonym remote_reply = "(string, ClientResult) gomap reply"

text \<open>\<open>None\<close> as the call means that nothing was sent. A nil map is the empty one.\<close>

definition evaluateBatchRemote :: "clock \<Rightarrow> remote_reply \<Rightarrow> Client \<Rightarrow> string list \<Rightarrow> ClientContext \<Rightarrow>
    ((string, ClientResult) gomap \<times> gerror option) \<times> RemoteCall option \<times> Client" where
  "evaluateBatchRemote ck reply c flagKeys ctx =
     (let (allowed, c) = (case cl_cb c of None \<Rightarrow> (True, c)
            | Some cb \<Rightarrow> (case client_Allow (ck 0) (ck 1) cb of (ok, cb) \<Rightarrow> (ok, c\<lparr>cl_cb := Some cb\<rparr>)))
      in if \<not> allowed
         then ((fold (\<lambda>k m. mput k (off_result k ''circuit_breaker_open'') m) flagKeys [],
                Some (Errorf ''circuit breaker is OPEN: fast-failing remote evaluation'')), None, c)
         else
           let call = Some (remote_call c flagKeys ctx) in
           case reply of
             Unbuilt err \<Rightarrow> (([], Some err), None, c)
           | Unreachable err \<Rightarrow> (([], Some (Wrapf ''evaluation request failed: '' err)), call, breaker_failure (ck 2) c)
           | Answer status text body \<Rightarrow>
               if status \<noteq> 200
               then (([], Some (Errorf (''evaluation returned status '' @ Itoa status @ '': '' @ text))), call, breaker_failure (ck 2) c)
               else case body of
                 Inl err \<Rightarrow> (([], Some (Wrapf ''failed to decode response: '' err)), call, breaker_success (ck 2) c)
               | Inr results \<Rightarrow> ((results, None), call, breaker_success (ck 2) c))"

definition evaluateRemote :: "runtime \<Rightarrow> clock \<Rightarrow> remote_reply \<Rightarrow> Client \<Rightarrow> string \<Rightarrow> ClientContext \<Rightarrow>
    (ClientResult \<times> gerror option) \<times> RemoteCall option \<times> Client" where
  "evaluateRemote rt ck reply c flagKey ctx =
     (case evaluateBatchRemote ck reply c [flagKey] ctx of
        ((results, Some err), call, c) \<Rightarrow>
          (case mget results flagKey of
             Some res \<Rightarrow> ((res, Some err), call, count_evaluation flagKey (ce_Variant res) c)
           | None \<Rightarrow> ((off_result flagKey ''client_request_error'', Some err), call, c))
      | ((results, None), call, c) \<Rightarrow>
          (case mget results flagKey of
             None \<Rightarrow> ((off_result flagKey ''FLAG_NOT_FOUND'', Some (Errorf (''flag '' @ rt_quote rt flagKey @ '' missing from response''))), call, c)
           | Some res \<Rightarrow> ((res, None), call, count_evaluation flagKey (ce_Variant res) c)))"

text \<open>\<open>Evaluate\<close> with the regular-expression cache of the engine and the reply to a possible call.\<close>

definition client_Evaluate :: "runtime \<Rightarrow> regex_cache \<Rightarrow> int \<Rightarrow> clock \<Rightarrow> remote_reply \<Rightarrow> Client \<Rightarrow> string \<Rightarrow> ClientContext \<Rightarrow>
    (ClientResult \<times> gerror option) \<times> Client" where
  "client_Evaluate rt cache ns ck reply c flagKey ctx =
     (if cc_LocalEvaluation (cl_config c)
      then (case evaluateLocal rt cache ns c flagKey ctx of (res, _, c) \<Rightarrow> (res, c))
      else (case evaluateRemote rt ck reply c flagKey ctx of (res, _, c) \<Rightarrow> (res, c)))"

definition client_IsEnabled :: "runtime \<Rightarrow> regex_cache \<Rightarrow> int \<Rightarrow> clock \<Rightarrow> remote_reply \<Rightarrow> Client \<Rightarrow> string \<Rightarrow> ClientContext \<Rightarrow> bool \<times> Client" where
  "client_IsEnabled rt cache ns ck reply c flagKey ctx =
     (case client_Evaluate rt cache ns ck reply c flagKey ctx of
        ((res, err), c) \<Rightarrow> (err = None \<and> ce_Enabled res, c))"

definition GetVariant :: "runtime \<Rightarrow> regex_cache \<Rightarrow> int \<Rightarrow> clock \<Rightarrow> remote_reply \<Rightarrow> Client \<Rightarrow> string \<Rightarrow> ClientContext \<Rightarrow> string \<Rightarrow> string \<times> Client" where
  "GetVariant rt cache ns ck reply c flagKey ctx fallback =
     (case client_Evaluate rt cache ns ck reply c flagKey ctx of
        ((res, err), c) \<Rightarrow> (if err \<noteq> None \<or> ce_Variant res = [] \<or> ce_Variant res = ''off'' then fallback else ce_Variant res, c))"

fun local_batch :: "runtime \<Rightarrow> regex_cache \<Rightarrow> int \<Rightarrow> Client \<Rightarrow> string list \<Rightarrow> ClientContext \<Rightarrow> (string, ClientResult) gomap \<Rightarrow>
    (string, ClientResult) gomap \<times> Client" where
  "local_batch rt cache ns c [] ctx m = (m, c)"
| "local_batch rt cache ns c (k # ks) ctx m =
     (case evaluateLocal rt cache ns c k ctx of ((res, _), cache, c) \<Rightarrow> local_batch rt cache ns c ks ctx (mput k res m))"

definition EvaluateBatch :: "runtime \<Rightarrow> regex_cache \<Rightarrow> int \<Rightarrow> clock \<Rightarrow> remote_reply \<Rightarrow> Client \<Rightarrow> string list \<Rightarrow> ClientContext \<Rightarrow>
    ((string, ClientResult) gomap \<times> gerror option) \<times> Client" where
  "EvaluateBatch rt cache ns ck reply c flagKeys ctx =
     (if cc_LocalEvaluation (cl_config c)
      then (case local_batch rt cache ns c flagKeys ctx [] of (m, c) \<Rightarrow> ((m, None), c))
      else (case evaluateBatchRemote ck reply c flagKeys ctx of (res, _, c) \<Rightarrow> (res, c)))"

definition CircuitBreakerState :: "gtime \<Rightarrow> gtime \<Rightarrow> Client \<Rightarrow> string \<times> Client" where
  "CircuitBreakerState t t' c =
     (case cl_cb c of None \<Rightarrow> (StateClosed, c)
      | Some cb \<Rightarrow> (case client_State t t' cb of (st, cb) \<Rightarrow> (st, c\<lparr>cl_cb := Some cb\<rparr>)))"

text \<open>
  The event \<open>Track\<close> sends, with its address and headers, and its result for a reply of the transport
  or a status with its text. \<open>None\<close> as the event means that nothing was sent.
\<close>

definition tracked_event :: "gtime \<Rightarrow> Client \<Rightarrow> string \<Rightarrow> string \<Rightarrow> string \<Rightarrow> f64 \<Rightarrow> string \<Rightarrow> ExperimentEvent" where
  "tracked_event now c flagKey variant metricName val userID =
     \<lparr>ev_ID = [], ev_ProjectID = cc_ProjectID (cl_config c), ev_FlagKey = flagKey, ev_Variant = variant, ev_MetricName = metricName,
      ev_EventType = ''conversion'', ev_Value = val, ev_UserID = userID, ev_Environment = cc_DefaultEnvironment (cl_config c), ev_Timestamp = now\<rparr>"

definition Track :: "gtime \<Rightarrow> unit reply \<Rightarrow> Client \<Rightarrow> string \<Rightarrow> string \<Rightarrow> string \<Rightarrow> f64 \<Rightarrow> string \<Rightarrow>
    gerror option \<times> (string \<times> (string \<times> string) list \<times> ExperimentEvent) option" where
  "Track now reply c flagKey variant metricName val userID =
     (let cfg = cl_config c;
          sent = Some (trim_right_slash (cc_Endpoint cfg) @ ''/api/v1/events'', (''Content-Type'', ''application/json'') # client_headers cfg,
            tracked_event now c flagKey variant metricName val userID)
      in case reply of
        Unbuilt err \<Rightarrow> (Some err, None)
      | Unreachable err \<Rightarrow> (Some err, sent)
      | Answer status text _ \<Rightarrow>
          (if status \<ge> 400 then Some (Errorf (''track request failed with status '' @ Itoa status @ '': '' @ text)) else None, sent))"

definition client_Close :: "Client \<Rightarrow> Client" where
  "client_Close c = fst (setConnectionState ''DISCONNECTED'' c)"

section \<open>The cache\<close>

lemma flag_map_get:
  "mget (flag_map flags) k = find (\<lambda>f. ff_Key f = k \<or> ff_ID f = k) (rev flags)"
  unfolding flag_map_def by (induction flags rule: rev_induct) (auto simp: map_simps)

text \<open>Looking a key up in the list of a project is looking it up in the store.\<close>

lemma ListFlags_find:
  assumes "snap_ok s" and "ids_ok (fs_list (ms_flagsSnapshot s))" and "CHR '':'' \<notin> set p" and "p \<noteq> []" and "k \<noteq> []"
  shows "mget (flag_map (ListFlagsByProject s p)) k = (case GetFlagByProject s p k of Inr f \<Rightarrow> Some f | Inl _ \<Rightarrow> None)"
proof -
  let ?fls = "fs_list (ms_flagsSnapshot s)"
  have copy: "map DeepCopy xs = xs" for xs by (rule map_idI) simp
  have "find (\<lambda>f. ff_ProjectID f = p \<and> (ff_Key f = k \<or> ff_ID f = k)) (rev ?fls) = find (flag_matches p k) (rev ?fls)"
    using snap_ok_flag(2) [OF assms(1)] by (intro find_cong [OF refl]) (auto simp: flag_matches_def or_project_def)
  then have "mget (flag_map (ListFlagsByProject s p)) k = find (flag_matches p k) (rev ?fls)"
    unfolding flag_map_get ListFlagsByProject_def copy using assms(4) by (simp add: rev_filter find_filter or_project_def)
  then show ?thesis using GetFlagByProject_scan [OF assms] by (simp split: option.splits)
qed

lemma synced_cache:
  assumes "syncFlags t (Answer 200 msg (Inr flags)) c = (err, c')"
  shows "err = None" and "cl_flags c' = flag_map flags" and "cl_config c' = cl_config c" and "cl_telemetry c' = cl_telemetry c"
    and "cl_disk c' = (if cc_SnapshotFile (cl_config c) = [] then cl_disk c else Some flags)"
  using assms by (auto simp: syncFlags_def updateFlags_def saveSnapshot_def breaker_success_def Let_def)

section \<open>Properties\<close>

text \<open>
  C22: a client that evaluates locally serves what the server serves. After a synchronisation with the
  flags of a project, the local evaluation of a key or ID gives the result of the server's engine on
  the flag that the store holds under it, for the context completed with the client's environment; a
  key that the store does not know is off with the reason \<open>FLAG_NOT_FOUND\<close> and an error.
\<close>

theorem client_serves_store:
  assumes "syncFlags t (Answer 200 msg (Inr (ListFlagsByProject s p))) c = (err, c')"
    and "snap_ok s" and "ids_ok (fs_list (ms_flagsSnapshot s))" and "CHR '':'' \<notin> set p" and "p \<noteq> []" and "k \<noteq> []"
  shows "case GetFlagByProject s p k of
      Inr f \<Rightarrow> fst (evaluateLocal rt cache ns c' k ctx) = (client_result (fst (EvaluateFlag rt cache ns f (toDomainContext c ctx))), None)
    | Inl _ \<Rightarrow> \<exists>e. fst (evaluateLocal rt cache ns c' k ctx) = (off_result k ''FLAG_NOT_FOUND'', Some e)"
  using ListFlags_find [OF assms(2-)] synced_cache(2,3) [OF assms(1)]
  by (auto simp: evaluateLocal_def toDomainContext_def split: sum.splits prod.splits)

definition demo_client :: Client where
  "demo_client = client_New 0 ''http://flags/'' [WithProject ''acme'', WithLocalEvaluation Second, WithSnapshotFile ''flags.json''] None (Unreachable (Errorf ''refused''))"

definition demo_context :: ClientContext where
  "demo_context = \<lparr>ct_UserID = ''u1'', ct_Email = [], ct_Country = [], ct_Role = [], ct_Tier = [], ct_Environment = [], ct_Custom = []\<rparr>"

theorem client_serves_store_witness:
  "\<exists>e. fst (evaluateLocal demo_runtime [] 0 (snd (syncFlags 1 (Answer 200 [] (Inr (ListFlagsByProject demo_flags ''acme''))) demo_client)) ''nope'' demo_context)
     = (off_result ''nope'' ''FLAG_NOT_FOUND'', Some e)"
proof -
  let ?r = "syncFlags 1 (Answer 200 [] (Inr (ListFlagsByProject demo_flags ''acme''))) demo_client"
  have "\<exists>e. GetFlagByProject demo_flags ''acme'' ''nope'' = Inl e"
    using GetFlagByProject_scan [OF demo_flags_ok(1,2), of "''acme''" "''nope''"] by (simp add: demo_flags_list flag_matches_def demo_flag0_def)
  then obtain e where e: "GetFlagByProject demo_flags ''acme'' ''nope'' = Inl e" ..
  have r: "?r = (fst ?r, snd ?r)" by simp
  show ?thesis using client_serves_store [OF r demo_flags_ok(1,2), of "''nope''" demo_runtime "[]" 0 demo_context] e by simp
qed

lemma syncFlags_fetched:
  "case fetched reply of
     Some flags \<Rightarrow> fst (syncFlags t reply c) = None \<and> cl_flags (snd (syncFlags t reply c)) = flag_map flags
   | None \<Rightarrow> fst (syncFlags t reply c) \<noteq> None \<and> cl_flags (snd (syncFlags t reply c)) = cl_flags c
       \<and> cl_disk (snd (syncFlags t reply c)) = cl_disk c \<and> cl_config (snd (syncFlags t reply c)) = cl_config c"
proof (cases reply)
  case (Answer st msg body)
  then show ?thesis
    by (cases body) (simp_all add: syncFlags_def fetched_def updateFlags_def saveSnapshot_def breaker_success_def breaker_failure_def Let_def)
qed (simp_all add: syncFlags_def fetched_def breaker_failure_def)

text \<open>
  The snapshot file carries a client through an outage. When a client with a snapshot file has
  synchronised, a client that is started later with that file has the same cache unless it evaluates
  locally and reaches the server; then it has the flags of the reply.
\<close>

theorem snapshot_bootstrap:
  assumes "syncFlags t (Answer 200 msg (Inr flags)) c = (err, c1)" and "cc_SnapshotFile (cl_config c) \<noteq> []"
    and "cc_SnapshotFile (fold apply_option opts (default_client_config url)) \<noteq> []"
  shows "cl_flags (client_New now url opts (cl_disk c1) reply) =
    (case fetched reply of
       Some flags' \<Rightarrow> if cc_LocalEvaluation (fold apply_option opts (default_client_config url)) then flag_map flags' else cl_flags c1
     | None \<Rightarrow> cl_flags c1)"
proof -
  let ?cfg = "fold apply_option opts (default_client_config url)"
  have d: "cl_disk c1 = Some flags" "cl_flags c1 = flag_map flags" using synced_cache(2,5) [OF assms(1)] assms(2) by simp_all
  define c2 where "c2 = \<lparr>cl_config = ?cfg, cl_connState = ''CONNECTING'', cl_flags = flag_map flags,
      cl_cb = (if cc_DisableCircuitBreaker ?cfg then None
               else Some (client_NewCircuitBreaker now (cc_CircuitBreakerThreshold ?cfg) (cc_CircuitBreakerCooldown ?cfg))),
      cl_telemetry = (if cc_DisableTelemetry ?cfg then None else Some NewTelemetryBuffer), cl_disk = Some flags\<rparr>"
  have new: "client_New now url opts (Some flags) reply =
      (if \<not> cc_LocalEvaluation ?cfg then c2\<lparr>cl_connState := ''DISCONNECTED''\<rparr>
       else if fst (syncFlags now reply c2) \<noteq> None then loadSnapshot (snd (syncFlags now reply c2))
       else if cc_DisableStreaming ?cfg then fst (setConnectionState ''CONNECTED_POLLING'' (snd (syncFlags now reply c2)))
       else snd (syncFlags now reply c2))"
    by (simp add: client_New_def Let_def loadSnapshot_def setConnectionState_def assms(3) c2_def split_beta)
  have c2: "cl_flags c2 = flag_map flags" "cl_disk c2 = Some flags" "cl_config c2 = ?cfg" by (simp_all add: c2_def)
  have keep: "cl_flags (fst (setConnectionState st x)) = cl_flags x" for st x by (simp add: setConnectionState_def)
  show ?thesis
  proof (cases "fetched reply")
    case None
    then show ?thesis using syncFlags_fetched [where reply = reply and t = now and c = c2] by (simp add: new c2 d loadSnapshot_def assms(3))
  next
    case (Some fs)
    then show ?thesis using syncFlags_fetched [where reply = reply and t = now and c = c2] by (simp add: new c2 d keep)
  qed
qed

theorem snapshot_bootstrap_witness:
  "cl_flags (client_New 9 ''http://flags'' [WithLocalEvaluation Second, WithSnapshotFile ''flags.json'']
     (cl_disk (snd (syncFlags 1 (Answer 200 [] (Inr [demo_flag0 ''f1'' ''acme'' ''pay''])) demo_client))) (Unreachable (Errorf ''refused'')))
   = flag_map [demo_flag0 ''f1'' ''acme'' ''pay'']"
proof -
  let ?r = "syncFlags 1 (Answer 200 [] (Inr [demo_flag0 ''f1'' ''acme'' ''pay''])) demo_client"
  have r: "?r = (fst ?r, snd ?r)" by simp
  have c: "cc_SnapshotFile (cl_config demo_client) \<noteq> []"
    by (simp add: demo_client_def client_New_def Let_def loadSnapshot_def syncFlags_def breaker_failure_def setConnectionState_def default_client_config_def)
  have o': "cc_SnapshotFile (fold apply_option [WithLocalEvaluation Second, WithSnapshotFile ''flags.json''] (default_client_config ''http://flags'')) \<noteq> []"
    by simp
  show ?thesis using snapshot_bootstrap [OF r c o', of 9 "Unreachable (Errorf ''refused'')"] synced_cache(2) [OF r] by (simp add: fetched_def)
qed

section \<open>Outages\<close>

text \<open>An evaluation with its clock and reply, whether it sent a request, and what it answers when nothing works.\<close>

definition evaluation_call :: "runtime \<Rightarrow> clock \<times> remote_reply \<times> string \<times> ClientContext \<Rightarrow> Client \<Rightarrow>
    ((ClientResult \<times> gerror option) \<times> bool) \<times> Client" where
  "evaluation_call rt = (\<lambda>(ck, reply, k, ctx) c.
     case evaluateRemote rt ck reply c k ctx of (res, call, c) \<Rightarrow> ((res, call \<noteq> None), c))"

definition off_answer :: "ClientResult \<times> gerror option \<Rightarrow> bool" where
  "off_answer r \<longleftrightarrow> \<not> ce_Enabled (fst r) \<and> ce_Variant (fst r) = ''off'' \<and> snd r \<noteq> None"

text \<open>The calls a breaker still lets through before its cooldown is over.\<close>

definition calls_left :: "ClientBreaker \<Rightarrow> int" where
  "calls_left cb = (if cb_state cb = ''OPEN'' then 0 else cb_failureThreshold cb - cb_failureCount cb)"

definition in_window :: "gtime \<Rightarrow> duration \<Rightarrow> clock \<Rightarrow> bool" where
  "in_window T d ck \<longleftrightarrow> (\<forall>i. T \<le> ck i \<and> ck i < T + d)"

definition breaker_in :: "gtime \<Rightarrow> ClientBreaker \<Rightarrow> bool" where
  "breaker_in T cb \<longleftrightarrow> client_ok cb \<and> cb_state cb \<noteq> ''HALF_OPEN'' \<and> (cb_state cb = ''OPEN'' \<longrightarrow> T \<le> cb_lastStateChange cb)"

lemma window_sub: "in_window T d ck \<Longrightarrow> T \<le> u \<Longrightarrow> 0 < d \<Longrightarrow> time_sub (ck i) u < d"
  by (auto simp: in_window_def time_sub_def minDuration_def maxDuration_def dest!: spec [of _ i])

lemma count_evaluation_cb [simp]: "cl_cb (count_evaluation k v c) = cl_cb c"
  by (simp add: count_evaluation_def)

lemma open_call:
  assumes "cl_cb c = Some cb" and "cb_state cb = ''OPEN''" and "time_sub (ck 0) (cb_lastStateChange cb) < cb_cooldown cb"
  shows "evaluateRemote rt ck reply c k ctx =
    ((off_result k ''circuit_breaker_open'', Some (Errorf ''circuit breaker is OPEN: fast-failing remote evaluation'')), None,
     count_evaluation k ''off'' c)"
proof -
  have "client_Allow (ck 0) (ck 1) cb = (False, cb)" using client_cb.open_refuses [OF assms(2,3)] .
  moreover have "count_evaluation k v (c\<lparr>cl_cb := Some cb\<rparr>) = count_evaluation k v c" for v using assms(1) by (simp add: count_evaluation_def)
  ultimately show ?thesis
    by (simp add: evaluateRemote_def evaluateBatchRemote_def assms(1) off_result_def map_simps del: One_nat_def)
qed

lemma closed_call:
  assumes "cl_cb c = Some cb" and "cb_state cb = ''CLOSED''" and "failing reply"
  shows "\<exists>err. evaluateRemote rt ck reply c k ctx =
    ((off_result k ''client_request_error'', Some err), Some (remote_call c [k] ctx), breaker_failure (ck 2) c)"
proof -
  have a: "client_Allow (ck 0) (ck 1) cb = (True, cb)" using client_cb.closed_allows [OF assms(2)] .
  have c: "c\<lparr>cl_cb := Some cb\<rparr> = c" using assms(1) by simp
  have b: "evaluateBatchRemote ck reply c [k] ctx = (case reply of
        Unreachable err \<Rightarrow> (([], Some (Wrapf ''evaluation request failed: '' err)), Some (remote_call c [k] ctx), breaker_failure (ck 2) c)
      | Answer status text _ \<Rightarrow> (([], Some (Errorf (''evaluation returned status '' @ Itoa status @ '': '' @ text))), Some (remote_call c [k] ctx), breaker_failure (ck 2) c)
      | Unbuilt err \<Rightarrow> (([], Some err), None, c))"
    using assms(3) unfolding evaluateBatchRemote_def assms(1) option.case a prod.case c Let_def
    by (simp add: failing_def split: reply.splits)
  show ?thesis using assms(3) unfolding evaluateRemote_def b
    by (auto simp: failing_def map_simps split: reply.splits)
qed

lemma failing_call:
  assumes "cl_cb c = Some cb" and "breaker_in T cb" and "in_window T (cb_cooldown cb) ck" and "failing reply"
    and "evaluateRemote rt ck reply c k ctx = (res, call, c')"
  shows "off_answer res \<and> (\<exists>cb'. cl_cb c' = Some cb' \<and> breaker_in T cb' \<and> cb_cooldown cb' = cb_cooldown cb
    \<and> (if call = None then calls_left cb = 0 \<and> cb' = cb else calls_left cb > 0 \<and> calls_left cb' = calls_left cb - 1))"
proof (cases "cb_state cb = ''OPEN''")
  case True
  have "time_sub (ck 0) (cb_lastStateChange cb) < cb_cooldown cb"
    using window_sub [OF assms(3), of "cb_lastStateChange cb" 0] assms(2) True by (simp add: breaker_in_def client_ok_def)
  from open_call [where ck = ck and rt = rt and reply = reply and k = k and ctx = ctx, OF assms(1) True this] assms(1,2,5) True
  show ?thesis by (auto simp: off_answer_def off_result_def calls_left_def)
next
  case False
  then have cl: "cb_state cb = ''CLOSED''" using assms(2) by (auto simp: breaker_in_def client_ok_def)
  obtain err where e: "res = (off_result k ''client_request_error'', Some err)" "call = Some (remote_call c [k] ctx)" "c' = breaker_failure (ck 2) c"
    using closed_call [OF assms(1) cl assms(4), of rt ck k ctx] assms(5) by auto
  have ok: "client_ok (client_OnFailure (ck 2) cb)" using client_step_ok [OF c_failure] assms(2) by (simp add: breaker_in_def)
  have st: "cb_state (client_OnFailure (ck 2) cb) = ''OPEN'' \<and> cb_lastStateChange (client_OnFailure (ck 2) cb) = ck 2 \<and> calls_left cb = 1
      \<or> cb_state (client_OnFailure (ck 2) cb) = ''CLOSED'' \<and> calls_left cb > 1 \<and> calls_left (client_OnFailure (ck 2) cb) = calls_left cb - 1"
    using client_cb.closed_fails [OF cl, of "ck 2"] cl assms(2) by (auto simp: calls_left_def breaker_in_def client_ok_def split: if_splits)
  have cd: "cb_cooldown (client_OnFailure (ck 2) cb) = cb_cooldown cb" using client_cb.closed_fails [OF cl, of "ck 2"] by simp
  have "T \<le> ck 2" using assms(3) by (simp add: in_window_def)
  then have "breaker_in T (client_OnFailure (ck 2) cb)" using ok st by (auto simp: breaker_in_def)
  moreover have "cl_cb c' = Some (client_OnFailure (ck 2) cb)" using e(3) assms(1) by (simp add: breaker_failure_def)
  moreover have "off_answer res" using e(1) by (simp add: off_answer_def off_result_def)
  moreover have "calls_left cb > 0 \<and> calls_left (client_OnFailure (ck 2) cb) = calls_left cb - 1" using st by (auto simp: calls_left_def)
  ultimately show ?thesis using e(2) cd by auto
qed

definition guarded :: "gtime \<Rightarrow> duration \<Rightarrow> Client \<Rightarrow> bool" where
  "guarded T d c \<longleftrightarrow> (\<exists>cb. cl_cb c = Some cb \<and> breaker_in T cb \<and> cb_cooldown cb = d)"

definition client_left :: "Client \<Rightarrow> int" where
  "client_left c = (case cl_cb c of Some cb \<Rightarrow> calls_left cb | None \<Rightarrow> 0)"

definition down_in :: "gtime \<Rightarrow> duration \<Rightarrow> clock \<times> 'a reply \<times> 'b \<Rightarrow> bool" where
  "down_in T d = (\<lambda>(ck, reply, _). in_window T d ck \<and> failing reply)"

interpretation pkg_guard: outage_guard "evaluation_call rt" "down_in T d" "guarded T d" client_left off_answer for rt T d
proof unfold_locales
  show "guarded T d c \<Longrightarrow> 0 \<le> client_left c" for c
    by (auto simp: guarded_def client_left_def calls_left_def breaker_in_def client_ok_def)
  fix c x r b c'
  assume g: "guarded T d c" and x: "down_in T d x" and e: "evaluation_call rt x c = ((r, b), c')"
  obtain ck reply k ctx where x': "x = (ck, reply, k, ctx)" by (metis prod_cases4)
  obtain cb where cb: "cl_cb c = Some cb" "breaker_in T cb" "cb_cooldown cb = d" using g by (auto simp: guarded_def)
  obtain call where ev: "evaluateRemote rt ck reply c k ctx = (r, call, c')" "b = (call \<noteq> None)"
    using e by (auto simp: x' evaluation_call_def split: prod.splits)
  show "off_answer r \<and> guarded T d c' \<and>
      (if b then 0 < client_left c \<and> client_left c' = client_left c - 1 else client_left c = 0 \<and> client_left c' = 0)"
    using failing_call [OF cb(1,2) _ _ ev(1)] x cb by (auto simp: x' down_in_def guarded_def client_left_def ev(2))
qed

text \<open>
  C25: an outage is contained. While every call fails, a client whose breaker is closed sends exactly
  the calls its threshold has left, and none after them before the cooldown is over; every evaluation
  in that time, sent or not, is off with the variant \<open>off\<close> and an error.
\<close>

theorem outage_contained:
  assumes "cl_cb c = Some cb" and "client_ok cb" and "cb_state cb = ''CLOSED''"
    and "list_all (\<lambda>(ck, reply, k, ctx). in_window T (cb_cooldown cb) ck \<and> failing reply) es"
    and "call_run (evaluation_call rt) c es = (rs, c')"
  shows "int (sent rs) = min (int (length es)) (cb_failureThreshold cb - cb_failureCount cb)
    \<and> list_all (\<lambda>(res, b). off_answer res) rs"
proof -
  have "guarded T (cb_cooldown cb) c" using assms(1-3) by (auto simp: guarded_def breaker_in_def)
  moreover have "list_all (down_in T (cb_cooldown cb)) es" using assms(4) by (auto simp: down_in_def list_all_iff)
  ultimately show ?thesis using pkg_guard.outage_calls [OF _ _ assms(5)] assms(1,3) by (auto simp: client_left_def calls_left_def)
qed

theorem outage_contained_witness:
  "sent (fst (call_run (evaluation_call demo_runtime) (client_New 0 ''http://flags'' [WithCircuitBreaker 2 100] None (Unreachable (Errorf ''x'')))
     (replicate 7 (\<lambda>_. 5, Unreachable (Errorf ''refused''), ''pay'', demo_context)))) = 2"
proof -
  let ?cb = "client_NewCircuitBreaker 0 2 100"
  let ?c = "client_New 0 ''http://flags'' [WithCircuitBreaker 2 100] None (Unreachable (Errorf ''x''))"
  let ?es = "replicate 7 (\<lambda>_. 5, Unreachable (Errorf ''refused''), ''pay'', demo_context)"
  let ?r = "call_run (evaluation_call demo_runtime) ?c ?es"
  have c: "cl_cb ?c = Some ?cb" by (simp add: client_New_def default_client_config_def Let_def)
  have cb: "client_ok ?cb" "cb_state ?cb = ''CLOSED''" by (simp_all add: client_reach_ok [OF c_new]) (simp add: client_NewCircuitBreaker_def)
  have es: "list_all (\<lambda>(ck, reply, k, ctx). in_window 0 (cb_cooldown ?cb) ck \<and> failing reply) ?es"
    by (simp add: in_window_def failing_def client_NewCircuitBreaker_def list_all_iff)
  have r: "?r = (fst ?r, snd ?r)" by simp
  have "int (sent (fst ?r)) = 2"
    using outage_contained [OF c cb es r] by (simp add: client_NewCircuitBreaker_def)
  then show ?thesis by simp
qed

section \<open>Counted evaluations\<close>

definition metric_total :: "(string, FlagMetric) gomap \<Rightarrow> 64 word" where
  "metric_total m = sum_list (map (\<lambda>(_, x). mt_Evaluations x) m)"

definition variant_total :: "(string, 64 word) gomap \<Rightarrow> 64 word" where
  "variant_total m = sum_list (map snd m)"

definition flag_metric_ok :: "int \<Rightarrow> FlagMetric \<Rightarrow> bool" where
  "flag_metric_ok n x \<longleftrightarrow> wf_map (mt_Variants x) \<and> mt_Evaluations x = variant_total (mt_Variants x) \<and> int (length (mt_Variants x)) \<le> n"

definition buffer_ok :: "TelemetryBuffer \<Rightarrow> bool" where
  "buffer_ok tb \<longleftrightarrow> wf_map (bf_metrics tb) \<and> 0 < bf_maxFlags tb \<and> 0 < bf_maxVariants tb
     \<and> int (length (bf_metrics tb)) \<le> bf_maxFlags tb \<and> (\<forall>(_, x) \<in> set (bf_metrics tb). flag_metric_ok (bf_maxVariants tb) x)"

lemma sum_mput:
  fixes f :: "'v \<Rightarrow> 'a::ab_group_add"
  shows "sum_list (map (\<lambda>(_, x). f x) (mput k v m)) =
    sum_list (map (\<lambda>(_, x). f x) m) - (case mget m k of Some y \<Rightarrow> f y | None \<Rightarrow> 0) + f v"
  by (induction m) (auto simp: mput_def mget_def algebra_simps)

lemma mput_length: "length (mput k v m) = (if mget m k = None then Suc (length m) else length m)"
  by (induction m) (auto simp: mput_def mget_def)

lemma mput_values: "\<forall>(_, x) \<in> set m. P x \<Longrightarrow> P y \<Longrightarrow> \<forall>(_, x) \<in> set (mput k y m). P x"
  using set_mput [of k y m] by auto

lemma NewTelemetryBuffer_ok: "buffer_ok NewTelemetryBuffer"
  by (simp add: buffer_ok_def NewTelemetryBuffer_def)

lemma counted_metric_ok:
  assumes "flag_metric_ok n m" and "mget (mt_Variants m) v \<noteq> None \<or> int (length (mt_Variants m)) < n"
  shows "flag_metric_ok n (m\<lparr>mt_Evaluations := mt_Evaluations m + 1,
    mt_Variants := mput v ((case mget (mt_Variants m) v of Some i \<Rightarrow> i | None \<Rightarrow> 0) + 1) (mt_Variants m)\<rparr>)"
proof -
  have "variant_total (mput v ((case mget (mt_Variants m) v of Some i \<Rightarrow> i | None \<Rightarrow> 0) + 1) (mt_Variants m)) = variant_total (mt_Variants m) + 1"
    using sum_mput [of "\<lambda>x. x" v "(case mget (mt_Variants m) v of Some i \<Rightarrow> i | None \<Rightarrow> 0) + 1" "mt_Variants m"]
    by (simp add: variant_total_def case_prod_unfold split: option.splits)
  then show ?thesis using assms by (auto simp: flag_metric_ok_def mput_length gomap.ok_put)
qed

lemma Record_ok:
  assumes "buffer_ok tb"
  shows "buffer_ok (buffer_Record k v tb)"
proof (cases "k = []")
  case False
  let ?v = "if v = [] then ''off'' else v"
  show ?thesis
  proof (cases "mget (bf_metrics tb) k")
    case None
    have "flag_metric_ok (bf_maxVariants tb) \<lparr>mt_Evaluations = 1, mt_Variants = [(?v, 1)]\<rparr>"
      using assms by (simp add: flag_metric_ok_def buffer_ok_def variant_total_def wf_map_def)
    note new = mput_values [where P = "flag_metric_ok (bf_maxVariants tb)", OF _ this, of "bf_metrics tb" k]
    show ?thesis using assms None False new
      by (simp add: buffer_Record_def buffer_ok_def drop_one_def mput_length gomap.ok_put)
  next
    case (Some m)
    then have "flag_metric_ok (bf_maxVariants tb) m" using assms by (auto simp: buffer_ok_def mget_iff_set)
    note new = mput_values [where P = "flag_metric_ok (bf_maxVariants tb)", OF _ counted_metric_ok [OF this, of ?v], of "bf_metrics tb" k]
    show ?thesis
    proof (cases "mget (mt_Variants m) ?v = None \<and> int (length (mt_Variants m)) \<ge> bf_maxVariants tb")
      case True
      then show ?thesis using assms Some False by (simp add: buffer_Record_def buffer_ok_def drop_one_def)
    next
      case counted: False
      then show ?thesis using assms Some False new
        by (auto simp: buffer_Record_def buffer_ok_def mput_length gomap.ok_put Let_def simp del: option.case_eq_if)
    qed
  qed
qed (simp add: buffer_Record_def assms)

lemma Record_total:
  assumes "buffer_ok tb" and "k \<noteq> []"
  shows "metric_total (bf_metrics (buffer_Record k v tb)) + bf_droppedEvents (buffer_Record k v tb) =
    metric_total (bf_metrics tb) + bf_droppedEvents tb + 1"
  using assms by (auto simp: buffer_Record_def metric_total_def sum_mput drop_one_def buffer_ok_def Let_def split: option.splits)

text \<open>Evaluations and flushes in turn, and the payloads that the server accepted.\<close>

datatype buffer_event = Recorded string string | Flushed int "unit reply"

fun buffer_run :: "TelemetryBuffer \<Rightarrow> buffer_event list \<Rightarrow> TelemetryPayload list \<times> TelemetryBuffer" where
  "buffer_run tb [] = ([], tb)"
| "buffer_run tb (Recorded k v # es) = buffer_run (buffer_Record k v tb) es"
| "buffer_run tb (Flushed now reply # es) =
     (case buffer_Flush now reply tb of (err, payload, tb) \<Rightarrow>
        (case buffer_run tb es of (ps, tb) \<Rightarrow> ((case payload of Some p \<Rightarrow> if err = None then [p] else [] | None \<Rightarrow> []) @ ps, tb)))"

definition payload_total :: "TelemetryPayload \<Rightarrow> 64 word" where
  "payload_total p = metric_total (tl_Events p) + tl_DroppedEvents p"

definition buffer_total :: "TelemetryBuffer \<Rightarrow> 64 word" where
  "buffer_total tb = metric_total (bf_metrics tb) + bf_droppedEvents tb"

fun recorded :: "buffer_event list \<Rightarrow> nat" where
  "recorded [] = 0"
| "recorded (Recorded k v # es) = (if k = [] then 0 else 1) + recorded es"
| "recorded (Flushed now reply # es) = recorded es"

lemma Flush_accepted:
  assumes "accepted reply" and "buffer_ok tb"
  obtains payload tb' where "buffer_Flush now reply tb = (None, payload, tb')" and "buffer_ok tb'"
    and "(case payload of Some p \<Rightarrow> payload_total p | None \<Rightarrow> 0) + buffer_total tb' = buffer_total tb"
proof -
  have "\<exists>payload tb'. buffer_Flush now reply tb = (None, payload, tb') \<and> buffer_ok tb' \<and>
    (case payload of Some p \<Rightarrow> payload_total p | None \<Rightarrow> 0) + buffer_total tb' = buffer_total tb"
    using assms by (cases reply) (auto simp: accepted_def buffer_Flush_def Let_def buffer_ok_def payload_total_def buffer_total_def metric_total_def)
  then show thesis using that by blast
qed

text \<open>
  No evaluation goes uncounted. As long as the server accepts what is flushed, the evaluations in
  the accepted payloads and in the buffer, with those reported as dropped, are all that were recorded,
  in the arithmetic of the 64-bit counters; the buffer never holds more flags or variants than its
  bounds, and the count of a flag is the sum of the counts of its variants.
\<close>

theorem evaluations_counted:
  assumes "buffer_ok tb" and "\<forall>e \<in> set es. case e of Flushed _ reply \<Rightarrow> accepted reply | Recorded _ _ \<Rightarrow> True"
    and "buffer_run tb es = (ps, tb')"
  shows "buffer_ok tb' \<and> sum_list (map payload_total ps) + buffer_total tb' = buffer_total tb + of_nat (recorded es)"
  using assms
proof (induction tb es arbitrary: ps rule: buffer_run.induct)
  case (2 tb k v es)
  have "buffer_total (buffer_Record k v tb) = buffer_total tb + (if k = [] then 0 else 1)"
    using Record_total [OF 2(2), of k v] by (auto simp: buffer_total_def buffer_Record_def)
  then show ?case using 2(1) [OF Record_ok [OF 2(2)], of ps] 2(3,4) by (simp add: algebra_simps)
next
  case (3 tb now reply es)
  obtain payload tb1 where f: "buffer_Flush now reply tb = (None, payload, tb1)" "buffer_ok tb1"
    "(case payload of Some p \<Rightarrow> payload_total p | None \<Rightarrow> 0) + buffer_total tb1 = buffer_total tb"
    using Flush_accepted [where reply = reply and now = now and tb = tb] 3(2,3) by auto
  obtain ps1 where r: "buffer_run tb1 es = (ps1, tb')" "ps = (case payload of Some p \<Rightarrow> [p] | None \<Rightarrow> []) @ ps1"
    using 3(4) by (cases payload) (auto simp: f(1) split: prod.splits)
  have "sum_list (map payload_total ps) + buffer_total tb' =
      (case payload of Some p \<Rightarrow> payload_total p | None \<Rightarrow> 0) + (sum_list (map payload_total ps1) + buffer_total tb')"
    by (simp add: r(2) algebra_simps split: option.splits)
  moreover have "buffer_ok tb' \<and> sum_list (map payload_total ps1) + buffer_total tb' = buffer_total tb1 + of_nat (recorded es)"
    using 3(1) [OF f(1) [symmetric] refl f(2) _ r(1)] 3(3) by simp
  ultimately show ?case using f(3) by (simp add: add.assoc [symmetric])
qed simp

theorem evaluations_counted_witness:
  "buffer_total (snd (buffer_run NewTelemetryBuffer [Recorded ''pay'' ''on'', Recorded ''pay'' []])) = 2"
  using evaluations_counted [OF NewTelemetryBuffer_ok, of "[Recorded ''pay'' ''on'', Recorded ''pay'' []]"]
  by (simp add: buffer_total_def metric_total_def NewTelemetryBuffer_def)

text \<open>
  A flush that fails gives up the evaluations it took: the buffer is empty afterwards, and of what it
  held only the number of dropped events is kept.
\<close>

theorem failed_flush_loses_counts:
  assumes "failing reply" and "bf_metrics tb \<noteq> []" and "\<not> accepted reply"
  shows "\<exists>err payload tb'. buffer_Flush now reply tb = (Some err, payload, tb') \<and> bf_metrics tb' = [] \<and> bf_droppedEvents tb' = bf_droppedEvents tb"
  using assms by (cases reply) (auto simp: failing_def accepted_def buffer_Flush_def Let_def)

text \<open>A flag that disappears from the server leaves the cache, and no listener hears of it.\<close>

theorem deletion_unnoticed:
  "snd (updateFlags [] c) = None \<and> cl_flags (fst (updateFlags [] c)) = []"
  by (simp add: updateFlags_def changed_keys_def flag_map_def saveSnapshot_def Let_def)

end
