(* ===== verification/Sse.thy ===== *)
theory Sse
  imports Prelude
begin

text \<open>
  Server-sent events as the server writes them, \<open>fmt.Fprintf(w, "event: ...\ndata: ...\n\n", ...)\<close> and
  \<open>": ping\n\n"\<close> of \<open>src/pkg/api/stream.go\<close>, and the line-by-line reading both Go clients do. The
  locale \<open>sse_reader\<close> is what a reader of lines owes to the writer: a frame is delivered once, a ping
  never; its lemmas turn that into a statement on whole streams of bytes.
\<close>

section \<open>Frames\<close>

abbreviation (input) "LF \<equiv> CHR 0x0A"
abbreviation (input) "CR \<equiv> CHR 0x0D"

datatype frame = Event string string | Ping

fun frame_text :: "frame \<Rightarrow> string" where
  "frame_text (Event event data) = ''event: '' @ event @ [LF] @ ''data: '' @ data @ [LF, LF]"
| "frame_text Ping = '': ping'' @ [LF, LF]"

fun frame_lines :: "frame \<Rightarrow> string list" where
  "frame_lines (Event event data) = [''event: '' @ event, ''data: '' @ data, []]"
| "frame_lines Ping = ['': ping'', []]"

fun one_line :: "frame \<Rightarrow> bool" where
  "one_line (Event event data) \<longleftrightarrow> LF \<notin> set event \<and> LF \<notin> set data"
| "one_line Ping \<longleftrightarrow> True"

section \<open>Lines\<close>

text \<open>The complete lines of a text, and what follows the last line feed.\<close>

fun split_lines :: "string \<Rightarrow> string list \<times> string" where
  "split_lines [] = ([], [])"
| "split_lines (c # cs) =
     (case split_lines cs of (ls, rest) \<Rightarrow>
        if c = LF then ([] # ls, rest)
        else (case ls of [] \<Rightarrow> ([], c # rest) | l # ls' \<Rightarrow> ((c # l) # ls', rest)))"

lemma split_lines_line: "LF \<notin> set l \<Longrightarrow> split_lines (l @ LF # s) = (l # fst (split_lines s), snd (split_lines s))"
  by (induction l) (auto split: prod.splits list.splits)

lemma split_lines_last: "LF \<notin> set l \<Longrightarrow> split_lines l = ([], l)"
  by (induction l) auto

lemma split_lines_frame:
  assumes "one_line f"
  shows "split_lines (frame_text f @ s) = (frame_lines f @ fst (split_lines s), snd (split_lines s))"
proof (cases f)
  case (Event e d)
  then have "LF \<notin> set (''event: '' @ e)" "LF \<notin> set (''data: '' @ d)" using assms by auto
  from split_lines_line [OF this(1)] split_lines_line [OF this(2)] split_lines_line [of "[]"] Event show ?thesis by simp
next
  case Ping
  have "LF \<notin> set '': ping''" by simp
  from split_lines_line [OF this] split_lines_line [of "[]"] Ping show ?thesis by simp
qed

lemma split_lines_frames:
  "list_all one_line fs \<Longrightarrow> split_lines (concat (map frame_text fs) @ s) = (concat (map frame_lines fs) @ fst (split_lines s), snd (split_lines s))"
  by (induction fs) (simp_all add: split_lines_frame)

section \<open>Readers\<close>

fun feed_all :: "('s \<Rightarrow> string \<Rightarrow> 's \<times> 'd list) \<Rightarrow> 's \<Rightarrow> string list \<Rightarrow> 's \<times> 'd list" where
  "feed_all feed s [] = (s, [])"
| "feed_all feed s (l # ls) =
     (case feed s l of (s, ds) \<Rightarrow> (case feed_all feed s ls of (s, ds') \<Rightarrow> (s, ds @ ds')))"

lemma feed_all_append:
  "feed_all feed s (xs @ ys) =
     (case feed_all feed s xs of (s, ds) \<Rightarrow> (case feed_all feed s ys of (s, ds') \<Rightarrow> (s, ds @ ds')))"
  by (induction xs arbitrary: s) (auto split: prod.splits)

locale sse_reader =
  fixes feed :: "'s \<Rightarrow> string \<Rightarrow> 's \<times> 'd list"
    and idle :: 's
    and deliver :: "string \<Rightarrow> string \<Rightarrow> 'd list"
    and clean :: "string \<Rightarrow> string \<Rightarrow> bool"
  assumes event_law: "clean e d \<Longrightarrow> feed_all feed idle [''event: '' @ e, ''data: '' @ d, []] = (idle, deliver e d)"
    and ping_law: "feed_all feed idle ['': ping'', []] = (idle, [])"
    and clean_line: "clean e d \<Longrightarrow> LF \<notin> set e \<and> LF \<notin> set d"
begin

fun frame_clean :: "frame \<Rightarrow> bool" where
  "frame_clean (Event e d) = clean e d"
| "frame_clean Ping = True"

fun delivery :: "frame \<Rightarrow> 'd list" where
  "delivery (Event e d) = deliver e d"
| "delivery Ping = []"

lemma frame_read: "frame_clean f \<Longrightarrow> feed_all feed idle (frame_lines f) = (idle, delivery f)"
  using event_law ping_law by (cases f) auto

lemma frames_read:
  "list_all frame_clean fs \<Longrightarrow> feed_all feed idle (concat (map frame_lines fs)) = (idle, concat (map delivery fs))"
  by (induction fs) (simp_all add: feed_all_append frame_read)

lemma frame_clean_line: "frame_clean f \<Longrightarrow> one_line f"
  using clean_line by (cases f) auto

text \<open>A stream of frames with an unfinished line at its end: every frame is delivered once, in order.\<close>

lemma stream_read:
  assumes "list_all frame_clean fs" and "LF \<notin> set rest"
  shows "split_lines (concat (map frame_text fs) @ rest) = (concat (map frame_lines fs), rest)
    \<and> feed_all feed idle (concat (map frame_lines fs)) = (idle, concat (map delivery fs))"
proof -
  have "list_all one_line fs" using assms(1) frame_clean_line by (auto simp: list_all_iff)
  then show ?thesis using split_lines_frames split_lines_last [OF assms(2)] frames_read [OF assms(1)] by simp
qed

end

end
