(* ===== verification/Client_Stream.thy ===== *)
theory Client_Stream
  imports Flag_Client Sse
begin

text \<open>
  The streaming side of the client, \<open>src/pkg/client/stream.go\<close>: the reader of server-sent events, the
  backoff between two connections and the loop of \<open>startSSEStream\<close> with its fallback polling, as a state
  machine. What a connection yields is its reply: an error, or a status with the bytes received until
  it ended and the error that ended it, \<open>None\<close> for a clean end. \<open>dec\<close> is the JSON decoder of the
  payload: the flags, or \<open>None\<close> when decoding fails or the payload has none.
\<close>

section \<open>Backoff\<close>

definition Millisecond :: duration where
  "Millisecond = 1000000"

text \<open>
  A shift by a negative count panics, \<open>None\<close>. \<open>rnd n\<close> is \<open>crand.Int\<close> below \<open>n\<close>, \<open>None\<close> when the source of
  randomness fails.
\<close>

definition computeJitteredBackoff :: "(int \<Rightarrow> int option) \<Rightarrow> int \<Rightarrow> duration \<Rightarrow> duration \<Rightarrow> duration option" where
  "computeJitteredBackoff rnd attempt base0 max0 =
     (if attempt < 0 then None
      else
        let base = (if base0 \<le> 0 then 500 * Millisecond else base0);
            maxd = (if max0 \<le> 0 then 30 * Second else max0);
            multiplier = int64 (2 ^ nat attempt);
            multiplier = (if multiplier \<le> 0 \<or> multiplier > 1024 then 1024 else multiplier);
            backoff = int64 (base * multiplier);
            backoff = (if backoff > maxd then maxd else backoff);
            jitter = (case rnd base of Some n \<Rightarrow> n | None \<Rightarrow> 0);
            sum = int64 (backoff + jitter)
        in Some (if sum > maxd then maxd else sum))"

section \<open>Reading events\<close>

definition MaxStreamPayloadSize :: nat where
  "MaxStreamPayloadSize = 10 * 1024 * 1024"

text \<open>The tokens of \<open>bufio.Scanner\<close> with \<open>ScanLines\<close>, and its error.\<close>

definition drop_cr :: "string \<Rightarrow> string" where
  "drop_cr l = (if l \<noteq> [] \<and> last l = CR then butlast l else l)"

definition fits :: "string \<Rightarrow> bool" where
  "fits l \<longleftrightarrow> length l < MaxStreamPayloadSize"

definition scan_lines :: "string \<Rightarrow> gerror option \<Rightarrow> string list \<times> gerror option" where
  "scan_lines bytes rerr =
     (case split_lines bytes of (ls, rest) \<Rightarrow>
        let tokens = ls @ (if rest = [] then [] else [rest])
        in (map drop_cr (takeWhile fits tokens),
            if list_all fits tokens then rerr else Some (Errorf ''bufio.Scanner: token too long'')))"

text \<open>One turn of the scanner loop: the event and the data so far, and what is dispatched.\<close>

definition sse_feed :: "runtime \<Rightarrow> string \<times> string \<Rightarrow> string \<Rightarrow> (string \<times> string) \<times> (string \<times> string) list" where
  "sse_feed rt st line =
     (case st of (currentEvent, currentData) \<Rightarrow>
        if HasPrefix line '':'' then (st, [])
        else if HasPrefix line ''event:'' then ((TrimSpace rt (TrimPrefix line ''event:''), currentData), [])
        else if HasPrefix line ''data:'' then
          (let dataContent = TrimPrefix line ''data:'' in
           if length currentData + length dataContent > MaxStreamPayloadSize then (([], []), [])
           else ((currentEvent, currentData @ TrimSpace rt dataContent), []))
        else if line = [] \<and> currentData \<noteq> [] then (([], []), [(currentEvent, currentData)])
        else (st, []))"

definition apply_event :: "(string \<Rightarrow> FeatureFlag list option) \<Rightarrow> string \<times> string \<Rightarrow> Client \<Rightarrow> Client" where
  "apply_event dec ev c =
     (case ev of (event, data) \<Rightarrow>
        if event = ''flags_init'' \<or> event = ''flags_update''
        then (case dec data of Some flags \<Rightarrow> fst (updateFlags flags c) | None \<Rightarrow> c) else c)"

definition stream_headers :: "ClientConfig \<Rightarrow> (string \<times> string) list" where
  "stream_headers cfg = [(''Accept'', ''text/event-stream''), (''Cache-Control'', ''no-cache'')] @ client_headers cfg"

section \<open>The loop\<close>

datatype stream_phase = Top | Listening | Ended "gerror option" | Waiting duration | Returned

record StreamLoop =
  sl_client :: Client
  sl_attempt :: int
  sl_fallback :: bool
  sl_stopped :: bool
  sl_phase :: stream_phase

definition stream_start :: "Client \<Rightarrow> StreamLoop" where
  "stream_start c = \<lparr>sl_client = c, sl_attempt = 0, sl_fallback = False, sl_stopped = False, sl_phase = Top\<rparr>"

definition stopFallback :: "StreamLoop \<Rightarrow> StreamLoop" where
  "stopFallback st = st\<lparr>sl_fallback := False\<rparr>"

definition startFallback :: "StreamLoop \<Rightarrow> StreamLoop" where
  "startFallback st =
     (if sl_fallback st then st
      else st\<lparr>sl_client := fst (setConnectionState ''CONNECTED_POLLING'' (sl_client st)), sl_fallback := True\<rparr>)"

definition fallback_interval :: "ClientConfig \<Rightarrow> duration" where
  "fallback_interval cfg = (if cc_FallbackPollInterval cfg \<le> 0 then 5 * Second else cc_FallbackPollInterval cfg)"

definition on_connected :: "StreamLoop \<Rightarrow> StreamLoop" where
  "on_connected st =
     (let st = stopFallback st
      in st\<lparr>sl_client := fst (setConnectionState ''CONNECTED_SSE'' (sl_client st)), sl_attempt := 0\<rparr>)"

definition receive :: "(string \<Rightarrow> FeatureFlag list option) \<Rightarrow> string \<times> string \<Rightarrow> StreamLoop \<Rightarrow> StreamLoop" where
  "receive dec ev st = st\<lparr>sl_client := apply_event dec ev (sl_client st)\<rparr>"

text \<open>\<open>listenSSEStream\<close> from the request to the error it returns.\<close>

definition listenSSEStream :: "runtime \<Rightarrow> (string \<Rightarrow> FeatureFlag list option) \<Rightarrow> (string \<times> gerror option) reply \<Rightarrow> StreamLoop \<Rightarrow>
    gerror option \<times> StreamLoop" where
  "listenSSEStream rt dec reply st =
     (case reply of
        Unbuilt err \<Rightarrow> (Some err, st)
      | Unreachable err \<Rightarrow> (Some err, st)
      | Answer status _ body \<Rightarrow>
          if status \<noteq> 200 then (Some (Errorf (''unexpected SSE response status: '' @ Itoa status)), st)
          else
            let st = on_connected st;
                (bytes, rerr) = (case body of Inr b \<Rightarrow> b | Inl err \<Rightarrow> ([], Some err));
                (ls, err) = scan_lines bytes rerr
            in (err, fold (receive dec) (snd (feed_all (sse_feed rt) ([], []) ls)) st))"

text \<open>What the loop does when the connection has ended with \<open>err\<close>; \<open>None\<close> for a panic.\<close>

definition after_listen :: "(int \<Rightarrow> int option) \<Rightarrow> gerror option \<Rightarrow> StreamLoop \<Rightarrow> StreamLoop option" where
  "after_listen rnd err st =
     (if err \<noteq> None then
        (case computeJitteredBackoff rnd (sl_attempt st) (500 * Millisecond) (30 * Second) of
           None \<Rightarrow> None
         | Some d \<Rightarrow> Some ((startFallback st)\<lparr>sl_attempt := sl_attempt st + 1, sl_phase := Waiting d\<rparr>))
      else Some ((startFallback st)\<lparr>sl_attempt := 0, sl_phase := Top\<rparr>))"

text \<open>
  The goroutines of a client: the stream loop, the fallback poller while it runs, the background
  synchronisation, evaluations by the application and \<open>Close\<close>.
\<close>

inductive stream_step :: "StreamLoop \<Rightarrow> StreamLoop \<Rightarrow> bool" where
  listen: "sl_phase st = Top \<Longrightarrow> \<not> sl_stopped st \<Longrightarrow> stream_step st (st\<lparr>sl_phase := Listening\<rparr>)"
| stop_top: "sl_phase st = Top \<Longrightarrow> sl_stopped st \<Longrightarrow> stream_step st ((stopFallback st)\<lparr>sl_phase := Returned\<rparr>)"
| connected: "sl_phase st = Listening \<Longrightarrow> stream_step st (on_connected st)"
| event: "sl_phase st = Listening \<Longrightarrow> stream_step st (receive dec ev st)"
| ended: "sl_phase st = Listening \<Longrightarrow> stream_step st (st\<lparr>sl_phase := Ended err\<rparr>)"
| after: "sl_phase st = Ended err \<Longrightarrow> after_listen rnd err st = Some st' \<Longrightarrow> stream_step st st'"
| wake: "sl_phase st = Waiting d \<Longrightarrow> stream_step st (st\<lparr>sl_phase := Top\<rparr>)"
| stop_wait: "sl_phase st = Waiting d \<Longrightarrow> sl_stopped st \<Longrightarrow> stream_step st ((stopFallback st)\<lparr>sl_phase := Returned\<rparr>)"
| poll: "sl_fallback st \<Longrightarrow> stream_step st (st\<lparr>sl_client := snd (syncFlags t reply (sl_client st))\<rparr>)"
| background: "\<not> sl_stopped st \<Longrightarrow> stream_step st (st\<lparr>sl_client := snd (syncFlags t reply (sl_client st))\<rparr>)"
| evaluate: "stream_step st (st\<lparr>sl_client := snd (client_Evaluate rt cache ns ck reply' (sl_client st) k ctx)\<rparr>)"
| close: "\<not> sl_stopped st \<Longrightarrow> stream_step st (st\<lparr>sl_client := client_Close (sl_client st), sl_stopped := True\<rparr>)"

inductive stream_reach :: "StreamLoop \<Rightarrow> bool" where
  start: "cl_connState c = ''CONNECTING'' \<Longrightarrow> stream_reach (stream_start c)"
| step: "stream_reach st \<Longrightarrow> stream_step st st' \<Longrightarrow> stream_reach st'"

inductive_cases stream_stepE: "stream_step st st'"

section \<open>Bounds of the backoff\<close>

lemma int64_exact: "0 \<le> i \<Longrightarrow> i < 2 ^ 63 \<Longrightarrow> int64 i = i"
  by (simp add: int64_def sint_sbintrunc' signed_take_bit_int_eq_self)

lemma int64_shift:
  assumes "63 \<le> n"
  shows "int64 (2 ^ n) \<le> 0"
proof (cases "n = 63")
  case True
  then show ?thesis by (simp add: int64_def)
next
  case False
  with assms have "64 \<le> n" by simp
  then obtain m where "n = 64 + m" by (auto simp: le_iff_add)
  then have "2 ^ 64 dvd (2 :: int) ^ n" by (simp add: power_add)
  then have z: "(word_of_int (2 ^ n) :: 64 word) = 0" unfolding word_of_int_eq_0_iff by (simp only: len_bit0 len_num1 mult_1_right) simp
  show ?thesis unfolding int64_def z by simp
qed

definition capped_shift :: "int \<Rightarrow> int" where
  "capped_shift attempt = 2 ^ nat (min attempt 10)"

lemma multiplier_capped:
  assumes "0 \<le> attempt"
  shows "(let m = int64 (2 ^ nat attempt) in if m \<le> 0 \<or> m > 1024 then 1024 else m) = capped_shift attempt"
proof -
  consider "attempt \<le> 10" | "10 < attempt" "attempt \<le> 62" | "63 \<le> attempt" by linarith
  then show ?thesis
  proof cases
    case 1
    then have "nat attempt \<le> 10" by simp
    then have le: "(2 :: int) ^ nat attempt \<le> 2 ^ 10" by (rule power_increasing) simp
    moreover have "(0 :: int) \<le> 2 ^ nat attempt" by simp
    ultimately have "int64 (2 ^ nat attempt) = 2 ^ nat attempt" by (intro int64_exact) simp_all
    then show ?thesis using le 1 by (simp add: capped_shift_def min_def Let_def)
  next
    case 2
    then have b: "11 \<le> nat attempt" "nat attempt \<le> 62" by simp_all
    have "(2 :: int) ^ 11 \<le> 2 ^ nat attempt" "(2 :: int) ^ nat attempt \<le> 2 ^ 62"
      using b by (intro power_increasing; simp)+
    then have "int64 (2 ^ nat attempt) > 1024" by (subst int64_exact) auto
    then show ?thesis using 2 by (simp add: capped_shift_def min_def Let_def)
  next
    case 3
    then have "int64 (2 ^ nat attempt) \<le> 0" by (intro int64_shift) simp
    then show ?thesis using 3 by (simp add: capped_shift_def min_def Let_def)
  qed
qed

lemma capped_shift_bounds: "1 \<le> capped_shift a" "capped_shift a \<le> 1024"
proof -
  have "nat (min a 10) \<le> 10" by simp
  then have "(2 :: int) ^ nat (min a 10) \<le> 2 ^ 10" by (rule power_increasing) simp
  then show "capped_shift a \<le> 1024" by (simp add: capped_shift_def)
  show "1 \<le> capped_shift a" by (simp add: capped_shift_def)
qed

definition draws_below :: "(int \<Rightarrow> int option) \<Rightarrow> bool" where
  "draws_below rnd \<longleftrightarrow> (\<forall>n j. 0 < n \<longrightarrow> rnd n = Some j \<longrightarrow> 0 \<le> j \<and> j < n)"

text \<open>
  Reconnecting never hammers the server and never waits too long. For every number of attempts,
  whatever overflows in the shift, and a base below 52 days, the backoff is the base doubled per
  attempt up to the factor 1024, with less than one base of jitter added, and never above the
  maximum; a base or a maximum that is not positive is replaced by half a second and thirty seconds.
\<close>

theorem backoff_bounded:
  assumes "0 \<le> attempt" and "base \<le> 2 ^ 52" and "maxd < 2 ^ 62" and "draws_below rnd"
  defines "b \<equiv> if base \<le> 0 then 500 * Millisecond else base" and "m \<equiv> if maxd \<le> 0 then 30 * Second else maxd"
  shows "\<exists>d. computeJitteredBackoff rnd attempt base maxd = Some d \<and> d \<le> m
    \<and> min m (b * capped_shift attempt) \<le> d \<and> d < b * capped_shift attempt + b"
proof -
  have b: "0 < b" "b \<le> 2 ^ 52" and m: "0 < m" "m < 2 ^ 62"
    using assms(2,3) by (auto simp: b_def m_def Millisecond_def Second_def)
  have "b * capped_shift attempt \<le> 2 ^ 52 * 1024" using b capped_shift_bounds [of attempt] by (intro mult_mono) auto
  moreover have bc: "b \<le> b * capped_shift attempt" using b(1) capped_shift_bounds(1) [of attempt] by (simp add: mult_le_cancel_left1)
  ultimately have e1: "int64 (b * capped_shift attempt) = b * capped_shift attempt" using b by (intro int64_exact) simp_all
  define j where "j = (case rnd b of Some n \<Rightarrow> n | None \<Rightarrow> 0)"
  have j: "0 \<le> j" "j < b" using assms(4) b(1) by (auto simp: j_def draws_below_def split: option.splits)
  define k where "k = min m (b * capped_shift attempt)"
  have k: "(if int64 (b * capped_shift attempt) > m then m else int64 (b * capped_shift attempt)) = k" by (simp add: e1 k_def min_def)
  have kb: "0 < k" "k \<le> m" "k \<le> b * capped_shift attempt" using b m bc by (auto simp: k_def)
  have e2: "int64 (k + j) = k + j" using kb j b m by (intro int64_exact) auto
  have "computeJitteredBackoff rnd attempt base maxd = Some (if k + j > m then m else k + j)"
    using assms(1) multiplier_capped [OF assms(1)]
    unfolding computeJitteredBackoff_def Let_def b_def [symmetric] m_def [symmetric] j_def [symmetric]
    by (simp only: k e2) simp
  then show ?thesis using kb j by (auto simp: k_def min_def split: if_splits)
qed

theorem backoff_bounded_witness:
  "computeJitteredBackoff (\<lambda>n. None) 70 (500 * Millisecond) (30 * Second) = Some (30 * Second)"
  using backoff_bounded [of 70 "500 * Millisecond" "30 * Second" "\<lambda>n. None"]
  by (auto simp: draws_below_def Millisecond_def Second_def capped_shift_def)

section \<open>The loop's invariant\<close>

lemma updateFlags_conn [simp]: "cl_connState (fst (updateFlags flags c)) = cl_connState c"
  by (simp add: updateFlags_def saveSnapshot_def Let_def)

lemma syncFlags_conn [simp]: "cl_connState (snd (syncFlags t reply c)) = cl_connState c"
  by (simp add: syncFlags_def breaker_success_def breaker_failure_def split: reply.splits sum.splits)

lemma apply_event_conn [simp]: "cl_connState (apply_event dec ev c) = cl_connState c"
  by (simp add: apply_event_def split: prod.splits option.splits)

lemma count_evaluation_conn [simp]: "cl_connState (count_evaluation k v c) = cl_connState c"
  by (simp add: count_evaluation_def)

lemma batch_conn: "cl_connState (snd (snd (evaluateBatchRemote ck reply c ks ctx))) = cl_connState c"
  by (auto simp: evaluateBatchRemote_def breaker_success_def breaker_failure_def Let_def split: option.splits prod.splits reply.splits sum.splits)

lemma Evaluate_conn [simp]: "cl_connState (snd (client_Evaluate rt cache ns ck reply c k ctx)) = cl_connState c"
  using batch_conn [of ck reply c "[k]" ctx]
  by (auto simp: client_Evaluate_def evaluateLocal_def evaluateRemote_def split: option.splits prod.splits)

definition stream_ok :: "StreamLoop \<Rightarrow> bool" where
  "stream_ok st \<longleftrightarrow> 0 \<le> sl_attempt st
     \<and> (\<not> sl_stopped st \<longrightarrow> cl_connState (sl_client st) \<in> {''CONNECTING'', ''CONNECTED_SSE'', ''CONNECTED_POLLING''}
         \<and> (cl_connState (sl_client st) = ''CONNECTED_POLLING'' \<longleftrightarrow> sl_fallback st) \<and> sl_phase st \<noteq> Returned)
     \<and> (\<forall>d. sl_phase st = Waiting d \<longrightarrow> sl_fallback st \<and> d \<le> 30 * Second)
     \<and> (sl_phase st = Returned \<longrightarrow> \<not> sl_fallback st)"

lemma backoff_upper: "computeJitteredBackoff rnd a base maxd = Some d \<Longrightarrow> 0 < maxd \<Longrightarrow> d \<le> maxd"
  by (auto simp: computeJitteredBackoff_def Let_def split: if_splits)

lemma stream_step_ok:
  assumes "stream_step st st'" and "stream_ok st"
  shows "stream_ok st'"
  using assms
proof (cases rule: stream_step.cases)
  case (after err rnd)
  have "30 * Second > 0" by (simp add: Second_def)
  with after assms(2) show ?thesis using backoff_upper [of rnd "sl_attempt st" "500 * Millisecond" "30 * Second"]
    by (auto simp: stream_ok_def after_listen_def startFallback_def setConnectionState_def split: if_splits option.splits)
qed (auto simp: stream_ok_def stopFallback_def on_connected_def receive_def setConnectionState_def client_Close_def Let_def)

lemma stream_reach_ok: "stream_reach st \<Longrightarrow> stream_ok st"
  by (induction rule: stream_reach.induct) (auto simp: stream_step_ok, simp add: stream_ok_def stream_start_def)

text \<open>
  C23: a client that streams is never without updates. In every state that the stream loop, its polling
  fallback, the background synchronisation, evaluations and \<open>Close\<close> can reach, as long as the client is
  not closed: the fallback polls exactly when the connection state says \<open>CONNECTED_POLLING\<close>, so never
  beside an open stream; while the loop waits for its next attempt the fallback polls, and the wait is
  at most thirty seconds; the loop has not returned and the attempt that follows does not panic.
\<close>

theorem stream_or_poll:
  assumes "stream_reach st" and "\<not> sl_stopped st"
  shows "(cl_connState (sl_client st) = ''CONNECTED_POLLING'' \<longleftrightarrow> sl_fallback st)
    \<and> (\<forall>d. sl_phase st = Waiting d \<longrightarrow> sl_fallback st \<and> d \<le> 30 * Second)
    \<and> sl_phase st \<noteq> Returned \<and> (\<forall>rnd err. after_listen rnd err st \<noteq> None)"
  using stream_reach_ok [OF assms(1)] assms(2)
  by (auto simp: stream_ok_def after_listen_def computeJitteredBackoff_def Let_def split: option.splits)

theorem stream_or_poll_witness: "\<not> sl_fallback (stream_start (demo_client\<lparr>cl_connState := ''CONNECTING''\<rparr>))"
  using stream_or_poll [OF stream_reach.start [of "demo_client\<lparr>cl_connState := ''CONNECTING''\<rparr>"]] by (simp add: stream_start_def)

text \<open>
  A closed client does not stay disconnected: \<open>Close\<close> cancels the open stream, the loop takes the
  cancellation for a broken connection and starts the fallback, and the state is \<open>CONNECTED_POLLING\<close>.
\<close>

theorem closed_client_reports_polling:
  assumes "sl_phase st = Listening" and "\<not> sl_stopped st" and "\<not> sl_fallback st" and "0 \<le> sl_attempt st"
  shows "\<exists>st'. stream_step\<^sup>*\<^sup>* (st\<lparr>sl_client := client_Close (sl_client st), sl_stopped := True\<rparr>) st'
    \<and> sl_stopped st' \<and> cl_connState (sl_client st') = ''CONNECTED_POLLING''"
proof -
  let ?closed = "st\<lparr>sl_client := client_Close (sl_client st), sl_stopped := True\<rparr>"
  let ?cancelled = "Some (Errorf ''context canceled'')"
  let ?ended = "?closed\<lparr>sl_phase := Ended ?cancelled\<rparr>"
  obtain st' where a: "after_listen (\<lambda>_. None) ?cancelled ?ended = Some st'"
    using assms(4) by (auto simp: after_listen_def computeJitteredBackoff_def Let_def)
  have "stream_step ?closed ?ended" using assms(1) by (intro stream_step.ended) simp
  moreover have "stream_step ?ended st'" using a by (intro stream_step.after) simp_all
  moreover have "sl_stopped st' \<and> cl_connState (sl_client st') = ''CONNECTED_POLLING''"
    using a assms(3) by (auto simp: after_listen_def startFallback_def setConnectionState_def client_Close_def split: option.splits)
  ultimately show ?thesis by (meson converse_rtranclp_into_rtranclp rtranclp.rtrancl_refl)
qed

text \<open>A connection that ends without an error is opened again at once, without a backoff.\<close>

theorem clean_end_reconnects_at_once: "after_listen rnd None st = Some st' \<Longrightarrow> sl_phase st' = Top \<and> sl_attempt st' = 0"
  by (auto simp: after_listen_def)

section \<open>Reading what the server writes\<close>

text \<open>
  Events that survive the transport: one line of text each, trimmed by \<open>strings.TrimSpace\<close> to itself
  after the blank of the frame, and within the size of a token.
\<close>

definition clean_event :: "runtime \<Rightarrow> string \<Rightarrow> string \<Rightarrow> bool" where
  "clean_event rt e d \<longleftrightarrow> LF \<notin> set e \<and> LF \<notin> set d \<and> e \<noteq> [] \<and> d \<noteq> [] \<and> last e \<noteq> CR \<and> last d \<noteq> CR
     \<and> TrimSpace rt (CHR '' '' # e) = e \<and> TrimSpace rt (CHR '' '' # d) = d
     \<and> length e + 7 < MaxStreamPayloadSize \<and> length d + 6 < MaxStreamPayloadSize"

lemma feed_event_line: "sse_feed rt (e0, d0) (''event: '' @ e) = ((TrimSpace rt (CHR '' '' # e), d0), [])"
  by (simp add: sse_feed_def HasPrefix_def TrimPrefix_def)

lemma feed_data_line:
  "length d + 1 < MaxStreamPayloadSize \<Longrightarrow> sse_feed rt (e, []) (''data: '' @ d) = ((e, TrimSpace rt (CHR '' '' # d)), [])"
  by (simp add: sse_feed_def HasPrefix_def TrimPrefix_def)

interpretation pkg_sse: sse_reader "sse_feed rt" "([], [])" "\<lambda>e d. [(e, d)]" "clean_event rt" for rt
proof unfold_locales
  show "clean_event rt e d \<Longrightarrow> feed_all (sse_feed rt) ([], []) [''event: '' @ e, ''data: '' @ d, []] = (([], []), [(e, d)])" for e d
    by (simp add: clean_event_def feed_event_line feed_data_line del: append.simps) (simp add: sse_feed_def HasPrefix_def)
  show "feed_all (sse_feed rt) ([], []) ['': ping'', []] = (([], []), [])" by (simp add: sse_feed_def HasPrefix_def)
qed (simp add: clean_event_def)

text \<open>The JSON of the standard library, as far as it is ASCII, is such an event.\<close>

lemma trim_blank:
  assumes "isASCII d" and "d \<noteq> []" and "\<not> isSpace (hd d)" and "\<not> isSpace (last d)"
  shows "TrimSpace rt (CHR '' '' # d) = d"
proof -
  have "dropWhile isSpace d = d" using assms(2,3) by (cases d) auto
  moreover have "dropWhile isSpace (rev d) = rev d" using assms(2,4) by (cases d rule: rev_cases) auto
  moreover have "isSpace (CHR '' '')" "isASCII (CHR '' '' # d)" using assms(1) by (simp_all add: isSpace_def isASCII_def byte_of_def)
  ultimately show ?thesis by (simp add: TrimSpace_def trim_while_def)
qed

definition client_clean :: "runtime \<Rightarrow> frame list \<Rightarrow> bool" where
  "client_clean rt fs \<longleftrightarrow> list_all (\<lambda>f. case f of Event e d \<Rightarrow> clean_event rt e d | Ping \<Rightarrow> True) fs"

definition events_of :: "frame list \<Rightarrow> (string \<times> string) list" where
  "events_of fs = concat (map (\<lambda>f. case f of Event e d \<Rightarrow> [(e, d)] | Ping \<Rightarrow> []) fs)"

lemma client_clean_frames: "client_clean rt fs \<Longrightarrow> list_all (pkg_sse.frame_clean rt) fs"
  unfolding client_clean_def by (rule list.pred_mono_strong, assumption) (auto split: frame.splits)

lemma events_of_delivery: "concat (map pkg_sse.delivery fs) = events_of fs"
  unfolding events_of_def by (rule arg_cong [of _ _ concat], rule map_cong [OF refl]) (auto split: frame.splits)

lemma frame_lines_fit:
  assumes "client_clean rt fs" and "l \<in> set (concat (map frame_lines fs))"
  shows "fits l \<and> drop_cr l = l"
proof -
  obtain f where f: "f \<in> set fs" "l \<in> set (frame_lines f)" using assms(2) by auto
  show ?thesis
  proof (cases f)
    case (Event e d)
    then have "clean_event rt e d" using assms(1) f(1) by (auto simp: client_clean_def list_all_iff)
    then show ?thesis using f(2) Event by (auto simp: clean_event_def fits_def drop_cr_def MaxStreamPayloadSize_def)
  next
    case Ping
    then show ?thesis using f(2) by (auto simp: fits_def drop_cr_def MaxStreamPayloadSize_def)
  qed
qed

lemma scan_frames:
  assumes "client_clean rt fs" and "LF \<notin> set rest" and "fits rest"
  shows "scan_lines (concat (map frame_text fs) @ rest) rerr =
    (concat (map frame_lines fs) @ (if rest = [] then [] else [drop_cr rest]), rerr)"
proof -
  let ?ls = "concat (map frame_lines fs)" and ?r = "if rest = [] then [] else [rest]"
  have sp: "split_lines (concat (map frame_text fs) @ rest) = (?ls, rest)"
    using pkg_sse.stream_read [OF client_clean_frames [OF assms(1)] assms(2)] by simp
  have fit: "\<forall>l \<in> set (?ls @ ?r). fits l" using frame_lines_fit [OF assms(1)] assms(3) by auto
  have tw: "takeWhile fits (?ls @ ?r) = ?ls @ ?r" using fit by (simp only: takeWhile_eq_all_conv)
  have "map drop_cr ?ls = ?ls" using frame_lines_fit [OF assms(1)] by (intro map_idI) blast
  moreover have "list_all fits (?ls @ ?r)" using fit by (simp only: list_all_iff)
  ultimately show ?thesis unfolding scan_lines_def sp prod.case Let_def tw by simp
qed

lemma drop_cr_rest: "snd (sse_feed rt ([], []) (drop_cr rest)) = []"
  by (simp add: sse_feed_def Let_def)

lemma receive_all: "sl_client (fold (receive dec) evs st) = fold (apply_event dec) evs (sl_client st)"
  by (induction evs arbitrary: st) (simp_all add: receive_def)

lemma listen_frames:
  assumes "client_clean rt fs" and "LF \<notin> set rest" and "fits rest"
  shows "listenSSEStream rt dec (Answer 200 msg (Inr (concat (map frame_text fs) @ rest, rerr))) st =
    (rerr, fold (receive dec) (events_of fs) (on_connected st))"
proof -
  have "feed_all (sse_feed rt) ([], []) (concat (map frame_lines fs)) = (([], []), events_of fs)"
    using pkg_sse.stream_read [OF client_clean_frames [OF assms(1)] assms(2)] events_of_delivery by simp
  then have "snd (feed_all (sse_feed rt) ([], []) (concat (map frame_lines fs) @ (if rest = [] then [] else [drop_cr rest]))) = events_of fs"
    using drop_cr_rest [of rt rest] by (auto simp: feed_all_append split: prod.splits)
  then show ?thesis by (simp add: listenSSEStream_def scan_frames [OF assms] Let_def)
qed



text \<open>The reading of a whole connection is a run of the loop's small steps.\<close>

lemma receive_steps:
  "sl_phase st = Listening \<Longrightarrow> stream_step\<^sup>*\<^sup>* st (fold (receive dec) evs st) \<and> sl_phase (fold (receive dec) evs st) = Listening"
proof (induction evs arbitrary: st)
  case (Cons ev evs)
  have "stream_step st (receive dec ev st)" using Cons.prems by (rule stream_step.event)
  moreover have "sl_phase (receive dec ev st) = Listening" using Cons.prems by (simp add: receive_def)
  ultimately show ?case using Cons.IH [of "receive dec ev st"] by (auto intro: converse_rtranclp_into_rtranclp)
qed simp

theorem listen_refines_steps:
  assumes "sl_phase st = Listening" and "listenSSEStream rt dec reply st = (err, st')"
  shows "stream_step\<^sup>*\<^sup>* st (st'\<lparr>sl_phase := Ended err\<rparr>)"
proof -
  have "stream_step\<^sup>*\<^sup>* st st' \<and> sl_phase st' = Listening"
  proof (cases "\<exists>msg body. reply = Answer 200 msg body")
    case True
    then obtain evs where e: "st' = fold (receive dec) evs (on_connected st)"
      using assms(2) by (auto simp: listenSSEStream_def Let_def split: prod.splits)
    have c: "stream_step st (on_connected st)" using assms(1) by (rule stream_step.connected)
    have "sl_phase (on_connected st) = Listening" using assms(1) by (simp add: on_connected_def stopFallback_def Let_def)
    from receive_steps [OF this, of dec evs] c show ?thesis by (auto simp: e intro: converse_rtranclp_into_rtranclp)
  next
    case False
    then show ?thesis using assms by (auto simp: listenSSEStream_def split: reply.splits if_splits)
  qed
  then show ?thesis by (metis rtranclp.rtrancl_into_rtrancl stream_step.ended)
qed

end
