(* ===== verification/Sdk_Client.thy ===== *)
theory Sdk_Client
  imports Sdk_Evaluator Circuit_Breaker Remote_Calls Sse Store_Flags
begin

text \<open>
  The client of the Go SDK, \<open>src/sdks/go/client.go\<close>, with its telemetry buffer and its reader of the event
  stream: configuration, local and remote evaluation, the circuit breaker, the synchronisation of the
  cache and the snapshot file. As in \<open>Flag_Client\<close> the reply of the network is an argument of each
  call, and the content of the snapshot file is part of the state.
\<close>

section \<open>Configuration\<close>

record SdkConfig =
  kg_Endpoint :: string
  kg_APIKey :: string
  kg_ProjectID :: string
  kg_DefaultEnvironment :: string
  kg_LocalEvaluation :: bool
  kg_SyncInterval :: duration
  kg_SnapshotFile :: string
  kg_CircuitBreakerThreshold :: int
  kg_CircuitBreakerCooldown :: duration
  kg_DisableCircuitBreaker :: bool

definition normalizeEndpoint :: "runtime \<Rightarrow> string \<Rightarrow> string" where
  "normalizeEndpoint rt ep0 =
     (let ep = TrimSpace rt ep0 in
      if ep = [] then ''https://flagura.dev''
      else
        let ep = (if \<not> HasPrefix ep ''http://'' \<and> \<not> HasPrefix ep ''https://'' then
                    (if HasPrefix ep ''localhost'' \<or> HasPrefix ep ''127.0.0.1'' then ''http://'' @ ep else ''https://'' @ ep)
                  else ep)
        in trim_right_slash ep)"

datatype sdk_option =
    Sdk_WithAPIKey string
  | Sdk_WithEndpoint string
  | Sdk_WithProjectID string
  | Sdk_WithEnvironment string
  | Sdk_WithLocalEvaluation bool
  | Sdk_WithSyncInterval duration
  | Sdk_WithSnapshotFile string
  | Sdk_WithCircuitBreaker int duration
  | Sdk_WithDisableCircuitBreaker bool

fun sdk_apply_option :: "runtime \<Rightarrow> sdk_option \<Rightarrow> SdkConfig \<Rightarrow> SdkConfig" where
  "sdk_apply_option rt (Sdk_WithAPIKey key) c = c\<lparr>kg_APIKey := key\<rparr>"
| "sdk_apply_option rt (Sdk_WithEndpoint ep) c = c\<lparr>kg_Endpoint := normalizeEndpoint rt ep\<rparr>"
| "sdk_apply_option rt (Sdk_WithProjectID p) c = c\<lparr>kg_ProjectID := p\<rparr>"
| "sdk_apply_option rt (Sdk_WithEnvironment e) c = c\<lparr>kg_DefaultEnvironment := e\<rparr>"
| "sdk_apply_option rt (Sdk_WithLocalEvaluation b) c = c\<lparr>kg_LocalEvaluation := b\<rparr>"
| "sdk_apply_option rt (Sdk_WithSyncInterval d) c = c\<lparr>kg_SyncInterval := d\<rparr>"
| "sdk_apply_option rt (Sdk_WithSnapshotFile path) c = c\<lparr>kg_SnapshotFile := path\<rparr>"
| "sdk_apply_option rt (Sdk_WithCircuitBreaker n d) c = c\<lparr>kg_CircuitBreakerThreshold := n, kg_CircuitBreakerCooldown := d\<rparr>"
| "sdk_apply_option rt (Sdk_WithDisableCircuitBreaker b) c = c\<lparr>kg_DisableCircuitBreaker := b\<rparr>"

section \<open>Telemetry\<close>

record TelemetryEvent =
  sv_FlagKey :: string
  sv_ProjectID :: string
  sv_Environment :: string
  sv_Variant :: string
  sv_Enabled :: bool
  sv_EventType :: string
  sv_MetricName :: string
  sv_Value :: f64
  sv_UserID :: string
  sv_Timestamp :: gtime

definition batchSize :: nat where
  "batchSize = 50"

text \<open>\<open>Record\<close>: the buffer, and whether a flush is started.\<close>

definition sdk_Record :: "TelemetryEvent \<Rightarrow> TelemetryEvent list \<Rightarrow> TelemetryEvent list \<times> bool" where
  "sdk_Record e events = (let events = events @ [e] in (events, length events \<ge> batchSize))"

text \<open>
  \<open>Flush\<close>: what is sent, if anything, and the buffer afterwards; the answer is not looked at. \<open>built\<close>
  says that the payload could be encoded and the request made.
\<close>

definition sdk_Flush :: "bool \<Rightarrow> TelemetryEvent list \<Rightarrow> TelemetryEvent list option \<times> TelemetryEvent list" where
  "sdk_Flush built events = (if events = [] then (None, []) else (if built then Some events else None, []))"

section \<open>The client\<close>

text \<open>A listener has a name, and \<open>sk_heard\<close> lists the calls of listeners so far. The file on disk is \<open>sk_disk\<close>.\<close>

record SdkClient =
  sk_config :: SdkConfig
  sk_circuitBreaker :: "SdkBreaker option"
  sk_telemetry :: "TelemetryEvent list"
  sk_flags :: "(string, SdkFlag) gomap"
  sk_listeners :: "string list"
  sk_heard :: "(string \<times> (string, SdkFlag) gomap) list"
  sk_disk :: "(string, SdkFlag) gomap option"

definition sdk_RegisterUpdateListener :: "string \<Rightarrow> SdkClient \<Rightarrow> SdkClient" where
  "sdk_RegisterUpdateListener listener c = c\<lparr>sk_listeners := sk_listeners c @ [listener]\<rparr>"

definition sdk_saveSnapshot :: "SdkClient \<Rightarrow> SdkClient" where
  "sdk_saveSnapshot c = c\<lparr>sk_disk := Some (sk_flags c)\<rparr>"

definition sdk_loadSnapshot :: "SdkClient \<Rightarrow> SdkClient" where
  "sdk_loadSnapshot c =
     (case sk_disk c of None \<Rightarrow> c | Some flags \<Rightarrow> if flags \<noteq> [] then c\<lparr>sk_flags := flags\<rparr> else c)"

definition updateLocalFlags :: "(string, SdkFlag) gomap \<Rightarrow> SdkClient \<Rightarrow> SdkClient" where
  "updateLocalFlags newFlags c =
     (let c = c\<lparr>sk_flags := newFlags\<rparr>;
          c = (if kg_SnapshotFile (sk_config c) \<noteq> [] then sdk_saveSnapshot c else c)
      in c\<lparr>sk_heard := sk_heard c @ map (\<lambda>l. (l, newFlags)) (sk_listeners c)\<rparr>)"

definition key_map :: "SdkFlag list \<Rightarrow> (string, SdkFlag) gomap" where
  "key_map flags = fold (\<lambda>f m. mput (kf_Key f) f m) flags []"

definition sdk_syncFlags :: "SdkFlag list reply \<Rightarrow> SdkClient \<Rightarrow> gerror option \<times> SdkClient" where
  "sdk_syncFlags reply c =
     (case reply of
        Unbuilt err \<Rightarrow> (Some err, c)
      | Unreachable err \<Rightarrow> (Some err, c)
      | Answer status _ body \<Rightarrow>
          if status \<noteq> 200 then (Some (Errorf (''failed to fetch flags: status '' @ Itoa status)), c)
          else case body of
            Inl err \<Rightarrow> (Some err, c)
          | Inr flags \<Rightarrow> (None, updateLocalFlags (key_map flags) c))"

definition NewClient :: "runtime \<Rightarrow> (string \<Rightarrow> string) \<Rightarrow> string \<Rightarrow> string \<Rightarrow> sdk_option list \<Rightarrow> (string, SdkFlag) gomap option \<Rightarrow>
    SdkFlag list reply \<Rightarrow> SdkClient" where
  "NewClient rt env endpoint0 apiKey opts disk reply =
     (let endpoint = (if endpoint0 = [] then (if env ''FLAGURA_ENDPOINT'' = [] then ''https://flagura.dev'' else env ''FLAGURA_ENDPOINT'') else endpoint0);
          cfg = \<lparr>kg_Endpoint = normalizeEndpoint rt endpoint, kg_APIKey = apiKey, kg_ProjectID = [], kg_DefaultEnvironment = EnvProduction,
            kg_LocalEvaluation = False, kg_SyncInterval = 30 * Second, kg_SnapshotFile = [], kg_CircuitBreakerThreshold = 5,
            kg_CircuitBreakerCooldown = 10 * Second, kg_DisableCircuitBreaker = False\<rparr>;
          cfg = fold (sdk_apply_option rt) opts cfg;
          c = \<lparr>sk_config = cfg,
               sk_circuitBreaker = (if kg_DisableCircuitBreaker cfg then None
                 else Some (sdk_NewCircuitBreaker (kg_CircuitBreakerThreshold cfg) (kg_CircuitBreakerCooldown cfg))),
               sk_telemetry = [], sk_flags = [], sk_listeners = [], sk_heard = [], sk_disk = disk\<rparr>
      in if kg_LocalEvaluation cfg
         then snd (sdk_syncFlags reply (if kg_SnapshotFile cfg \<noteq> [] then sdk_loadSnapshot c else c))
         else c)"

definition sdk_off :: "string \<Rightarrow> string \<Rightarrow> SdkResult" where
  "sdk_off flagKey reason = sdk_zero_result\<lparr>kz_FlagKey := flagKey, kz_Enabled := False, kz_Reason := reason\<rparr>"

definition sdk_evaluateLocal :: "runtime \<Rightarrow> regex_cache \<Rightarrow> int \<Rightarrow> SdkClient \<Rightarrow> string \<Rightarrow> SdkContext \<Rightarrow> (SdkResult \<times> gerror option) \<times> regex_cache" where
  "sdk_evaluateLocal rt cache ns c flagKey ctx =
     (case mget (sk_flags c) flagKey of
        None \<Rightarrow> ((sdk_off flagKey ''FLAG_NOT_FOUND_IN_CACHE'', Some (Errorf (''flag '' @ rt_quote rt flagKey @ '' not found in local cache''))), cache)
      | Some flag \<Rightarrow> (case Evaluate rt cache ns flag ctx of (res, cache) \<Rightarrow> ((res, None), cache)))"

text \<open>A remote call: its address, the flags and context of its body, and its headers.\<close>

record SdkCall =
  sa_url :: string
  sa_flags :: "string list"
  sa_context :: SdkContext
  sa_headers :: "(string \<times> string) list"

definition sdk_headers :: "SdkConfig \<Rightarrow> (string \<times> string) list" where
  "sdk_headers cfg =
     (if kg_APIKey cfg \<noteq> [] then [(''Authorization'', ''Bearer '' @ kg_APIKey cfg)] else [])
     @ (if kg_ProjectID cfg \<noteq> [] then [(''X-Project-ID'', kg_ProjectID cfg)] else [])"

type_synonym sdk_reply = "(string, SdkResult) gomap reply"

definition sdk_evaluateBatchRemote :: "sdk_reply \<Rightarrow> SdkClient \<Rightarrow> string list \<Rightarrow> SdkContext \<Rightarrow>
    ((string, SdkResult) gomap result) \<times> SdkCall option" where
  "sdk_evaluateBatchRemote reply c flagKeys ctx =
     (let cfg = sk_config c;
          call = Some \<lparr>sa_url = trim_right_slash (kg_Endpoint cfg) @ ''/api/v1/evaluate'', sa_flags = flagKeys, sa_context = ctx,
            sa_headers = (''Content-Type'', ''application/json'') # sdk_headers cfg\<rparr>
      in case reply of
           Unbuilt err \<Rightarrow> (Inl err, None)
         | Unreachable err \<Rightarrow> (Inl err, call)
         | Answer status text body \<Rightarrow>
             (if status \<noteq> 200 then Inl (Errorf (''server returned status '' @ Itoa status @ '': '' @ text)) else body, call))"

definition sdk_failure :: "gtime \<Rightarrow> SdkClient \<Rightarrow> SdkClient" where
  "sdk_failure t c = c\<lparr>sk_circuitBreaker := map_option (sdk_RecordFailure t) (sk_circuitBreaker c)\<rparr>"

definition sdk_success :: "SdkClient \<Rightarrow> SdkClient" where
  "sdk_success c = c\<lparr>sk_circuitBreaker := map_option sdk_RecordSuccess (sk_circuitBreaker c)\<rparr>"

definition sdk_evaluateRemote :: "runtime \<Rightarrow> clock \<Rightarrow> sdk_reply \<Rightarrow> SdkClient \<Rightarrow> string \<Rightarrow> SdkContext \<Rightarrow>
    (SdkResult \<times> gerror option) \<times> SdkCall option \<times> SdkClient" where
  "sdk_evaluateRemote rt ck reply c flagKey ctx =
     (let (allowed, c) = (case sk_circuitBreaker c of None \<Rightarrow> (True, c)
            | Some cb \<Rightarrow> (case sdk_Allow (ck 0) cb of (ok, cb) \<Rightarrow> (ok, c\<lparr>sk_circuitBreaker := Some cb\<rparr>)))
      in if \<not> allowed
         then ((sdk_off flagKey ''CIRCUIT_BREAKER_OPEN'', Some (Errorf ''circuit breaker is OPEN: Flagura control plane is currently unreachable, falling back to local/cached value'')), None, c)
         else case sdk_evaluateBatchRemote reply c [flagKey] ctx of
           (Inl err, call) \<Rightarrow> ((sdk_off flagKey (''REMOTE_EVALUATION_ERROR: '' @ Error err), Some err), call, sdk_failure (ck 1) c)
         | (Inr batchRes, call) \<Rightarrow>
             (case mget batchRes flagKey of
                None \<Rightarrow> ((sdk_off flagKey ''FLAG_NOT_FOUND_IN_RESPONSE'', Some (Errorf (''flag '' @ rt_quote rt flagKey @ '' not found in response''))), call, sdk_success c)
              | Some res \<Rightarrow> ((res, None), call, sdk_success c)))"

definition sdk_context :: "SdkClient \<Rightarrow> SdkContext \<Rightarrow> SdkContext" where
  "sdk_context c ctx = (if kx_Environment ctx = [] then ctx\<lparr>kx_Environment := kg_DefaultEnvironment (sk_config c)\<rparr> else ctx)"

definition evaluation_event :: "gtime \<Rightarrow> SdkClient \<Rightarrow> string \<Rightarrow> SdkContext \<Rightarrow> SdkResult \<Rightarrow> TelemetryEvent" where
  "evaluation_event now c flagKey ctx res =
     \<lparr>sv_FlagKey = flagKey, sv_ProjectID = kg_ProjectID (sk_config c), sv_Environment = kx_Environment ctx, sv_Variant = kz_Variant res,
      sv_Enabled = kz_Enabled res, sv_EventType = ''evaluation'', sv_MetricName = [], sv_Value = Fin 0, sv_UserID = kx_UserID ctx, sv_Timestamp = now\<rparr>"

definition sdk_Evaluate :: "runtime \<Rightarrow> regex_cache \<Rightarrow> int \<Rightarrow> clock \<Rightarrow> sdk_reply \<Rightarrow> SdkClient \<Rightarrow> string \<Rightarrow> SdkContext \<Rightarrow>
    (SdkResult \<times> gerror option) \<times> SdkClient" where
  "sdk_Evaluate rt cache ns ck reply c flagKey ctx0 =
     (let ctx = sdk_context c ctx0;
          ((res, err), c) = (if kg_LocalEvaluation (sk_config c) then (fst (sdk_evaluateLocal rt cache ns c flagKey ctx), c)
            else (case sdk_evaluateRemote rt ck reply c flagKey ctx of (r, _, c) \<Rightarrow> (r, c)));
          c = (if err = None then c\<lparr>sk_telemetry := fst (sdk_Record (evaluation_event (ck 2) c flagKey ctx res) (sk_telemetry c))\<rparr> else c)
      in ((res, err), c))"

definition sdk_IsEnabled :: "runtime \<Rightarrow> regex_cache \<Rightarrow> int \<Rightarrow> clock \<Rightarrow> sdk_reply \<Rightarrow> SdkClient \<Rightarrow> string \<Rightarrow> SdkContext \<Rightarrow> (bool \<times> gerror option) \<times> SdkClient" where
  "sdk_IsEnabled rt cache ns ck reply c flagKey ctx =
     (case sdk_Evaluate rt cache ns ck reply c flagKey ctx of
        ((res, Some err), c) \<Rightarrow> ((False, Some err), c)
      | ((res, None), c) \<Rightarrow> ((kz_Enabled res, None), c))"

definition sdk_GetVariant :: "runtime \<Rightarrow> regex_cache \<Rightarrow> int \<Rightarrow> clock \<Rightarrow> sdk_reply \<Rightarrow> SdkClient \<Rightarrow> string \<Rightarrow> SdkContext \<Rightarrow> (string \<times> gerror option) \<times> SdkClient" where
  "sdk_GetVariant rt cache ns ck reply c flagKey ctx =
     (case sdk_Evaluate rt cache ns ck reply c flagKey ctx of
        ((res, Some err), c) \<Rightarrow> (([], Some err), c)
      | ((res, None), c) \<Rightarrow> ((kz_Variant res, None), c))"

fun sdk_local_batch :: "runtime \<Rightarrow> regex_cache \<Rightarrow> int \<Rightarrow> SdkClient \<Rightarrow> string list \<Rightarrow> SdkContext \<Rightarrow> (string, SdkResult) gomap \<Rightarrow> (string, SdkResult) gomap" where
  "sdk_local_batch rt cache ns c [] ctx m = m"
| "sdk_local_batch rt cache ns c (k # ks) ctx m =
     (case sdk_evaluateLocal rt cache ns c k ctx of ((res, _), cache) \<Rightarrow> sdk_local_batch rt cache ns c ks ctx (mput k res m))"

definition sdk_EvaluateBatch :: "runtime \<Rightarrow> regex_cache \<Rightarrow> int \<Rightarrow> sdk_reply \<Rightarrow> SdkClient \<Rightarrow> string list \<Rightarrow> SdkContext \<Rightarrow> (string, SdkResult) gomap result" where
  "sdk_EvaluateBatch rt cache ns reply c flagKeys ctx0 =
     (let ctx = sdk_context c ctx0 in
      if kg_LocalEvaluation (sk_config c) then Inr (sdk_local_batch rt cache ns c flagKeys ctx [])
      else fst (sdk_evaluateBatchRemote reply c flagKeys ctx))"

definition sdk_Track :: "gtime \<Rightarrow> string \<Rightarrow> string \<Rightarrow> f64 \<Rightarrow> string \<Rightarrow> SdkClient \<Rightarrow> SdkClient" where
  "sdk_Track now flagKey metricName val userID c =
     c\<lparr>sk_telemetry := fst (sdk_Record \<lparr>sv_FlagKey = flagKey, sv_ProjectID = kg_ProjectID (sk_config c),
         sv_Environment = kg_DefaultEnvironment (sk_config c), sv_Variant = [], sv_Enabled = False, sv_EventType = ''conversion'',
         sv_MetricName = metricName, sv_Value = val, sv_UserID = userID, sv_Timestamp = now\<rparr> (sk_telemetry c))\<rparr>"

text \<open>\<open>Close\<close>: the last flush of the buffer is what the flush loop does when it is stopped.\<close>

definition sdk_Close :: "bool \<Rightarrow> SdkClient \<Rightarrow> TelemetryEvent list option \<times> SdkClient" where
  "sdk_Close built c =
     (case sdk_Flush built (sk_telemetry c) of (out, events) \<Rightarrow>
        let c = c\<lparr>sk_telemetry := events\<rparr>
        in (out, if kg_SnapshotFile (sk_config c) \<noteq> [] then sdk_saveSnapshot c else c))"

section \<open>The stream\<close>

text \<open>What the decoder finds under \<open>flags\<close>: a list, a map, or neither.\<close>

datatype sdk_payload = FlagList "SdkFlag list" | FlagMap "(string, SdkFlag) gomap" | NoFlags

definition sdk_feed :: "runtime \<Rightarrow> unit \<Rightarrow> string \<Rightarrow> unit \<times> string list" where
  "sdk_feed rt st line0 =
     (let line = TrimSpace rt (line0 @ [LF]) in
      if HasPrefix line ''data:'' then
        (let data = TrimSpace rt (TrimPrefix line ''data:'') in
         if data = [] \<or> data = ''ping'' then ((), []) else ((), [data]))
      else ((), []))"

definition sdk_apply :: "(string \<Rightarrow> sdk_payload) \<Rightarrow> string \<Rightarrow> SdkClient \<Rightarrow> SdkClient" where
  "sdk_apply dec data c =
     (case dec data of
        FlagList flags \<Rightarrow> if flags \<noteq> [] then updateLocalFlags (key_map flags) c else c
      | FlagMap flags \<Rightarrow> if flags \<noteq> [] then updateLocalFlags flags c else c
      | NoFlags \<Rightarrow> c)"

text \<open>
  \<open>connectSSE\<close>: the bytes received and the error that ended them, \<open>None\<close> for the end of the file or of
  the client; an unfinished line is not read.
\<close>

definition connectSSE :: "runtime \<Rightarrow> (string \<Rightarrow> sdk_payload) \<Rightarrow> (string \<times> gerror option) reply \<Rightarrow> SdkClient \<Rightarrow> gerror option \<times> SdkClient" where
  "connectSSE rt dec reply c =
     (case reply of
        Unbuilt err \<Rightarrow> (Some err, c)
      | Unreachable err \<Rightarrow> (Some err, c)
      | Answer status _ body \<Rightarrow>
          if status \<noteq> 200 then (Some (Errorf (''unexpected status code from stream endpoint: '' @ Itoa status)), c)
          else case body of
            Inl err \<Rightarrow> (Some err, c)
          | Inr (bytes, rerr) \<Rightarrow> (rerr, fold (sdk_apply dec) (snd (feed_all (sdk_feed rt) () (fst (split_lines bytes)))) c))"

text \<open>One turn of \<open>startStreaming\<close>: the wait after the connection, if any, and the next backoff.\<close>

definition stream_turn :: "gerror option \<Rightarrow> duration \<Rightarrow> duration option \<times> duration" where
  "stream_turn err backoff =
     (if err \<noteq> None then (Some backoff, if backoff * 2 > 30 * Second then 30 * Second else backoff * 2)
      else (None, Second))"

section \<open>Reading the stream\<close>

definition sdk_clean :: "runtime \<Rightarrow> string \<Rightarrow> string \<Rightarrow> bool" where
  "sdk_clean rt e d \<longleftrightarrow> LF \<notin> set e \<and> LF \<notin> set d \<and> d \<noteq> [] \<and> d \<noteq> ''ping''
     \<and> TrimSpace rt (''event: '' @ e @ [LF]) = ''event: '' @ e \<and> TrimSpace rt (''data: '' @ d @ [LF]) = ''data: '' @ d
     \<and> TrimSpace rt (CHR '' '' # d) = d"

lemma sdk_feed_quiet: "sdk_feed rt () [] = ((), [])" "sdk_feed rt () '': ping'' = ((), [])"
  by (simp_all add: sdk_feed_def string_simps Let_def)

interpretation sdk_sse: sse_reader "sdk_feed rt" "()" "\<lambda>e d. [d]" "sdk_clean rt" for rt
proof unfold_locales
  show "sdk_clean rt e d \<Longrightarrow> feed_all (sdk_feed rt) () [''event: '' @ e, ''data: '' @ d, []] = ((), [d])" for e d
    using sdk_feed_quiet(1) [of rt]
    by (simp add: sdk_clean_def sdk_feed_def HasPrefix_def TrimPrefix_def Let_def del: append.simps) (simp add: HasPrefix_def)
  show "feed_all (sdk_feed rt) () ['': ping'', []] = ((), [])" by (simp add: sdk_feed_quiet)
qed (simp add: sdk_clean_def)

definition sdk_stream_clean :: "runtime \<Rightarrow> frame list \<Rightarrow> bool" where
  "sdk_stream_clean rt fs \<longleftrightarrow> list_all (\<lambda>f. case f of Event e d \<Rightarrow> sdk_clean rt e d | Ping \<Rightarrow> True) fs"

definition payloads :: "frame list \<Rightarrow> string list" where
  "payloads fs = concat (map (\<lambda>f. case f of Event e d \<Rightarrow> [d] | Ping \<Rightarrow> []) fs)"

text \<open>
  The SDK applies the payloads of the stream in the order they were written, each once, whatever their
  event is called, and nothing of an unfinished line.
\<close>

theorem sdk_stream_read:
  assumes "sdk_stream_clean rt fs" and "LF \<notin> set rest"
  shows "connectSSE rt dec (Answer 200 msg (Inr (concat (map frame_text fs) @ rest, rerr))) c = (rerr, fold (sdk_apply dec) (payloads fs) c)"
proof -
  have fc: "list_all (sdk_sse.frame_clean rt) fs" using assms(1) unfolding sdk_stream_clean_def
    by (rule list.pred_mono_strong) (auto split: frame.splits)
  have dl: "concat (map sdk_sse.delivery fs) = payloads fs" unfolding payloads_def
    by (rule arg_cong [of _ _ concat], rule map_cong [OF refl]) (auto split: frame.splits)
  show ?thesis using sdk_sse.stream_read [OF fc assms(2)] dl by (simp add: connectSSE_def)
qed

text \<open>An empty list of flags changes nothing: the last flag that is deleted is served until the next synchronisation.\<close>

theorem sdk_ignores_empty_list: "dec d = FlagList [] \<Longrightarrow> sdk_apply dec d c = c"
  by (simp add: sdk_apply_def)

section \<open>The cache\<close>

lemma key_map_get: "mget (key_map flags) k = find (\<lambda>f. kf_Key f = k) (rev flags)"
  unfolding key_map_def by (induction flags rule: rev_induct) (auto simp: map_simps)

text \<open>What the decoder makes of a list of server flags: it fails with the first flag it cannot decode.\<close>

fun decode_flags :: "FeatureFlag list \<Rightarrow> SdkFlag list option" where
  "decode_flags [] = Some []"
| "decode_flags (f # fs) = (case decode_flag f of None \<Rightarrow> None | Some g \<Rightarrow> map_option ((#) g) (decode_flags fs))"

lemma decode_flags_snoc: "decode_flags (fs @ [f]) = (case decode_flags fs of None \<Rightarrow> None | Some gs \<Rightarrow> map_option (\<lambda>g. gs @ [g]) (decode_flag f))"
  by (induction fs) (auto split: option.splits simp: option.map_comp comp_def)

lemma decode_flags_find:
  "decode_flags fs = Some gs \<Longrightarrow> find (\<lambda>f. ff_Key f = k) (rev fs) = Some f \<Longrightarrow>
   \<exists>g. find (\<lambda>g. kf_Key g = k) (rev gs) = Some g \<and> decode_flag f = Some g"
proof (induction fs arbitrary: gs rule: rev_induct)
  case (snoc x fs)
  then obtain gs' g where g: "decode_flags fs = Some gs'" "decode_flag x = Some g" "gs = gs' @ [g]"
    by (auto simp: decode_flags_snoc split: option.splits)
  with snoc show ?case using decode_flag_key [OF g(2)] by auto
qed simp

lemma sdk_synced:
  assumes "sdk_syncFlags (Answer 200 msg (Inr gs)) c = (err, c')"
  shows "err = None" and "sk_flags c' = key_map gs" and "sk_config c' = sk_config c"
  using assms by (auto simp: sdk_syncFlags_def updateLocalFlags_def sdk_saveSnapshot_def Let_def)

lemma find_narrow: "find P xs = Some f \<Longrightarrow> Q f \<Longrightarrow> \<forall>x \<in> set xs. Q x \<longrightarrow> P x \<Longrightarrow> find Q xs = Some f"
  by (induction xs) (auto split: if_splits)

text \<open>A flag that the store finds by its key is the last of the project's list with that key.\<close>

lemma find_by_key:
  assumes "GetFlagByProject s p k = Inr f" and "ff_Key f = k"
    and "snap_ok s" and "ids_ok (fs_list (ms_flagsSnapshot s))" and "CHR '':'' \<notin> set p" and "p \<noteq> []" and "k \<noteq> []"
  shows "find (\<lambda>f. ff_Key f = k) (rev (ListFlagsByProject s p)) = Some f"
proof -
  let ?fls = "fs_list (ms_flagsSnapshot s)"
  have copy: "map DeepCopy xs = xs" for xs by (rule map_idI) simp
  have m: "find (flag_matches p k) (rev ?fls) = Some f"
    using GetFlagByProject_scan [OF assms(3-7)] assms(1) by (auto split: option.splits)
  have "ff_ProjectID f = p"
    using find_Some_iff [THEN iffD1, OF m] snap_ok_flag(2) [OF assms(3), of f] nth_mem [of _ "rev ?fls"]
    by (auto simp: flag_matches_def or_project_def)
  then have "find (\<lambda>f. ff_ProjectID f = p \<and> ff_Key f = k) (rev ?fls) = Some f"
    using assms(2) by (intro find_narrow [OF m]) (use assms(6) in \<open>auto simp: flag_matches_def or_project_def\<close>)
  then show ?thesis unfolding ListFlagsByProject_def copy using assms(6) by (simp add: rev_filter find_filter or_project_def)
qed


definition demo_switch :: FeatureFlag where
  "demo_switch = (demo_flag0 ''f1'' ''acme'' ''pay'')\<lparr>ff_Environments := [(''production'', zero_env_config\<lparr>ec_Enabled := True, ec_Strategy := ''boolean''\<rparr>)]\<rparr>"

definition demo_switch_store :: MemoryStore where
  "demo_switch_store = publish [demo_switch] NewMemoryStore"

definition demo_sdk :: SdkClient where
  "demo_sdk = NewClient demo_runtime (\<lambda>_. []) ''localhost'' ''key'' [Sdk_WithLocalEvaluation True] None (Unreachable (Errorf ''refused''))"

lemma demo_switch_list: "fs_list (ms_flagsSnapshot demo_switch_store) = [demo_switch]"
  by (simp add: demo_switch_store_def normalize_flag_id demo_switch_def demo_flag0_def)


section \<open>Outages\<close>

definition sdk_call :: "runtime \<Rightarrow> clock \<times> sdk_reply \<times> string \<times> SdkContext \<Rightarrow> SdkClient \<Rightarrow>
    ((SdkResult \<times> gerror option) \<times> bool) \<times> SdkClient" where
  "sdk_call rt = (\<lambda>(ck, reply, k, ctx) c.
     case sdk_evaluateRemote rt ck reply c k ctx of (res, call, c) \<Rightarrow> ((res, call \<noteq> None), c))"

definition sdk_left :: "SdkClient \<Rightarrow> int" where
  "sdk_left c = (case sk_circuitBreaker c of None \<Rightarrow> 0
     | Some cb \<Rightarrow> if sb_state cb = ''OPEN'' then 0 else sb_threshold cb - sb_failureCount cb)"

definition sdk_guarded :: "gtime \<Rightarrow> duration \<Rightarrow> SdkClient \<Rightarrow> bool" where
  "sdk_guarded T d c \<longleftrightarrow> (\<exists>cb. sk_circuitBreaker c = Some cb \<and> sdk_ok cb \<and> sb_cooldown cb = d \<and> sb_state cb \<noteq> ''HALF_OPEN''
     \<and> (sb_state cb = ''OPEN'' \<longrightarrow> T \<le> sb_lastFailure cb))"

definition sdk_down :: "gtime \<Rightarrow> duration \<Rightarrow> clock \<times> 'a reply \<times> 'b \<Rightarrow> bool" where
  "sdk_down T d = (\<lambda>(ck, reply, _). (\<forall>i. T \<le> ck i \<and> ck i < T + d) \<and> failing reply)"

definition sdk_safe :: "SdkResult \<times> gerror option \<Rightarrow> bool" where
  "sdk_safe r \<longleftrightarrow> \<not> kz_Enabled (fst r) \<and> snd r \<noteq> None"

lemma sdk_batch_failing: "failing reply \<Longrightarrow> \<exists>err call. sdk_evaluateBatchRemote reply c ks ctx = (Inl err, Some call)"
  by (cases reply) (auto simp: failing_def sdk_evaluateBatchRemote_def Let_def)

interpretation sdk_guard: outage_guard "sdk_call rt" "sdk_down T d" "sdk_guarded T d" sdk_left sdk_safe for rt T d
proof unfold_locales
  show "sdk_guarded T d c \<Longrightarrow> 0 \<le> sdk_left c" for c by (auto simp: sdk_guarded_def sdk_left_def sdk_ok_def)
  fix c x r b c'
  assume g: "sdk_guarded T d c" and x: "sdk_down T d x" and e: "sdk_call rt x c = ((r, b), c')"
  obtain ck reply k ctx where x': "x = (ck, reply, k, ctx)" by (metis prod_cases4)
  obtain cb where cb: "sk_circuitBreaker c = Some cb" "sdk_ok cb" "sb_cooldown cb = d" "sb_state cb \<noteq> ''HALF_OPEN''"
    "sb_state cb = ''OPEN'' \<longrightarrow> T \<le> sb_lastFailure cb" using g by (auto simp: sdk_guarded_def)
  have w: "T \<le> ck i" "ck i < T + d" for i using x by (auto simp: sdk_down_def x')
  have dpos: "0 < d" using cb(2,3) by (simp add: sdk_ok_def)
  show "sdk_safe r \<and> sdk_guarded T d c' \<and> (if b then 0 < sdk_left c \<and> sdk_left c' = sdk_left c - 1 else sdk_left c = 0 \<and> sdk_left c' = 0)"
  proof (cases "sb_state cb = ''OPEN''")
    case True
    have "time_sub (ck 0) (sb_lastFailure cb) < sb_cooldown cb"
      using w(2) [of 0] cb(3,5) True dpos by (auto simp: time_sub_def minDuration_def maxDuration_def)
    then have "sdk_Allow (ck 0) cb = (False, cb)" using True by (simp add: sdk_Allow_def)
    then show ?thesis using e cb g True
      by (auto simp: sdk_call_def x' sdk_evaluateRemote_def sdk_safe_def sdk_off_def sdk_left_def sdk_guarded_def)
  next
    case False
    then have cl: "sb_state cb = ''CLOSED''" using cb(2,4) by (auto simp: sdk_ok_def)
    obtain err call where f: "sdk_evaluateBatchRemote reply c [k] ctx = (Inl err, Some call)"
      using sdk_batch_failing x by (force simp: sdk_down_def x')
    have a: "sdk_Allow (ck 0) cb = (True, cb)" using cl by (simp add: sdk_Allow_def)
    have cc: "c\<lparr>sk_circuitBreaker := Some cb\<rparr> = c" using cb(1) by simp
    have ev: "sdk_evaluateRemote rt ck reply c k ctx =
        ((sdk_off k (''REMOTE_EVALUATION_ERROR: '' @ Error err), Some err), Some call, sdk_failure (ck 1) c)"
      unfolding sdk_evaluateRemote_def cb(1) option.case a prod.case cc Let_def f by simp
    have r: "r = (sdk_off k (''REMOTE_EVALUATION_ERROR: '' @ Error err), Some err)" "b" "c' = sdk_failure (ck 1) c"
      using e by (auto simp: sdk_call_def x' ev)
    have ok: "sdk_ok (sdk_RecordFailure (ck 1) cb)" using sdk_step_ok [OF s_failure] cb(2) by blast
    show ?thesis using ok r w [of 1] cb cl False
      by (auto simp: sdk_safe_def sdk_off_def sdk_guarded_def sdk_left_def sdk_failure_def sdk_RecordFailure_def sdk_ok_def Let_def)
  qed
qed

text \<open>
  The SDK contains an outage as the other client does: while every call fails it sends exactly the
  calls its breaker has left before the cooldown is over, and every evaluation is off with an error.
\<close>

theorem sdk_outage_contained:
  assumes "sk_circuitBreaker c = Some cb" and "sdk_ok cb" and "sb_state cb = ''CLOSED''"
    and "list_all (\<lambda>(ck, reply, k, ctx). (\<forall>i. T \<le> ck i \<and> ck i < T + sb_cooldown cb) \<and> failing reply) es"
    and "call_run (sdk_call rt) c es = (rs, c')"
  shows "int (sent rs) = min (int (length es)) (sb_threshold cb - sb_failureCount cb)
    \<and> list_all (\<lambda>(res, b). sdk_safe res) rs"
proof -
  have "sdk_guarded T (sb_cooldown cb) c" using assms(1-3) by (auto simp: sdk_guarded_def)
  moreover have "list_all (sdk_down T (sb_cooldown cb)) es" using assms(4) by (auto simp: sdk_down_def list_all_iff)
  ultimately show ?thesis using sdk_guard.outage_calls [OF _ _ assms(5)] assms(1,3) by (auto simp: sdk_left_def)
qed

section \<open>Reconnecting\<close>

text \<open>The waits of \<open>startStreaming\<close> while connection after connection ends with an error.\<close>

fun stream_waits :: "nat \<Rightarrow> duration \<Rightarrow> duration list" where
  "stream_waits 0 b = []"
| "stream_waits (Suc n) b = (case stream_turn (Some (Errorf [])) b of (Some w, b') \<Rightarrow> w # stream_waits n b' | (None, b') \<Rightarrow> stream_waits n b')"

lemma stream_waits_max: "stream_waits n (30 * Second) = replicate n (30 * Second)"
  by (induction n) (simp_all add: stream_turn_def Second_def)

text \<open>
  The waits double from one second up to thirty and stay there: no connection that worked for a while
  brings them down again, only one that ends without an error.
\<close>

theorem sdk_waits:
  "stream_waits (5 + n) Second = [Second, 2 * Second, 4 * Second, 8 * Second, 16 * Second] @ replicate n (30 * Second)"
  using stream_waits_max [of n] by (simp add: eval_nat_numeral stream_turn_def Second_def)

section \<open>Flags the SDK cannot decode\<close>

lemma decode_flags_fails: "decode_flag f = None \<Longrightarrow> f \<in> set fs \<Longrightarrow> decode_flags fs = None"
  by (induction fs) (auto split: option.splits)

text \<open>
  One flag with a fractional percentage, which the server accepts, fails the decoding of the whole
  list: no flag of the project is updated in the SDK any more.
\<close>

theorem sdk_fraction_blocks_all:
  assumes "(e, cfg) \<in> set (ff_Environments f)" and "ec_Percentage cfg = Fin q" and "q \<notin> \<int>" and "f \<in> set fs"
  shows "decode_flags fs = None"
proof -
  have "snd (quotient_of q) \<noteq> 1" using quotient_of_div [of q "fst (quotient_of q)" "snd (quotient_of q)"] assms(3)
    by (metis Ints_of_int div_by_1 of_int_1 prod.collapse)
  then have "decode_config cfg = None" using assms(2) by (auto simp: decode_config_def Let_def split: prod.splits)
  then have "decode_envs es = None" if "(e, cfg) \<in> set es" for es using that by (induction es) (auto split: option.splits)
  then have "decode_flag f = None" using assms(1) by (simp add: decode_flag_def)
  then show ?thesis using assms(4) by (rule decode_flags_fails)
qed

end
