(* ===== verification/Api_SignOn.thy ===== *)
theory Api_SignOn
  imports Api_Accounts Remote_Calls
begin

text \<open>
  Single sign-on over OpenID Connect, \<open>src/pkg/api/handlers_oidc.go\<close>: the start of a flow, the callback
  of the identity provider with the provisioning of accounts and memberships, and the routes of an
  organization's configuration. The provider is an argument of the callback, a function from the requests
  made to it to its replies, as are the random tokens. The codecs of the standard library (JSON, base64, URLs) are the record \<open>sso_lib\<close>.
\<close>

section \<open>Parameters and data\<close>

record OIDCStateClaims =
  ot_State :: string
  ot_Nonce :: string
  ot_OrganizationID :: string
  ot_RedirectURI :: string
  ot_CreatedAt :: gtime

record OIDCTokenResponse =
  tk_AccessToken :: string
  tk_TokenType :: string
  tk_IDToken :: string
  tk_ExpiresIn :: int

record OIDCIDTokenClaims =
  id_Subject :: string
  id_Email :: string
  id_Name :: string
  id_Nonce :: string

text \<open>
  \<open>so_seal\<close> is \<open>json.Marshal\<close> followed by \<open>RawURLEncoding\<close>, \<open>so_raw\<close> and \<open>so_padded\<close> decode base64 without and
  with padding, \<open>so_claims\<close> and \<open>so_identity\<close> decode JSON, \<open>so_url\<close> parses an address and sets its query, and
  \<open>so_escape\<close> is \<open>url.QueryEscape\<close>.
\<close>

record sso_lib =
  so_seal :: "OIDCStateClaims \<Rightarrow> string result"
  so_raw :: "string \<Rightarrow> string option"
  so_padded :: "string \<Rightarrow> string result"
  so_claims :: "string \<Rightarrow> OIDCStateClaims option"
  so_identity :: "string \<Rightarrow> OIDCIDTokenClaims result"
  so_url :: "string \<Rightarrow> (string \<times> string) list \<Rightarrow> string result"
  so_escape :: "string \<Rightarrow> string"
  so_configs :: "OIDCConfig iter"

abbreviation (input) "CookieOIDCStateName \<equiv> ''flagura_oidc_state''"

text \<open>\<open>NewAppError\<close> with the codes of a bad request, of a missing thing and of an internal error.\<close>

definition sso_error :: "int \<Rightarrow> string \<Rightarrow> int \<Rightarrow> gerror option \<Rightarrow> gerror" where
  "sso_error code msg status cause = NewAppError code msg status cause"

definition forwarded_base :: "Request \<Rightarrow> string" where
  "forwarded_base r =
     (let scheme = (if rq_TLS r \<or> header_get r ''X-Forwarded-Proto'' = ''https'' then ''https'' else ''http'');
          host = (if header_get r ''X-Forwarded-Host'' \<noteq> [] then header_get r ''X-Forwarded-Host'' else rq_Host r);
          host = (if host = [] then ''localhost:3000'' else host)
      in scheme @ ''://'' @ host)"

definition getOIDCRedirectURI :: "Request \<Rightarrow> string" where
  "getOIDCRedirectURI r = forwarded_base r @ ''/api/v1/auth/oidc/callback''"

section \<open>The state cookie\<close>

definition state_cookie :: "world \<Rightarrow> gtime \<Rightarrow> Request \<Rightarrow> string \<Rightarrow> string \<Rightarrow> Cookie" where
  "state_cookie w now r name v =
     \<lparr>ck_Name = name, ck_Value = v, ck_Path = ''/'', ck_Domain = [], ck_Expires = now + 10 * Minute, ck_MaxAge = 600,
      ck_HttpOnly = True, ck_SameSite = ''Lax'', ck_Secure = isCookieSecure w r\<rparr>"

definition dead_state_cookie :: "world \<Rightarrow> Request \<Rightarrow> string \<Rightarrow> Cookie" where
  "dead_state_cookie w r name =
     \<lparr>ck_Name = name, ck_Value = [], ck_Path = ''/'', ck_Domain = [], ck_Expires = unix_epoch, ck_MaxAge = - 1,
      ck_HttpOnly = True, ck_SameSite = ''Lax'', ck_Secure = isCookieSecure w r\<rparr>"

definition clearOIDCStateCookie :: "world \<Rightarrow> Request \<Rightarrow> Response \<Rightarrow> Response" where
  "clearOIDCStateCookie w r = add_cookies [dead_state_cookie w r CookieOIDCStateName]"

definition getAndVerifyOIDCStateCookie :: "sso_lib \<Rightarrow> gtime \<Rightarrow> Request \<Rightarrow> string \<Rightarrow> OIDCStateClaims result" where
  "getAndVerifyOIDCStateCookie L now r stateParam =
     (case cookie_get r CookieOIDCStateName of
        None \<Rightarrow> Inl (Errorf ''missing or expired OIDC state cookie'')
      | Some v \<Rightarrow>
          if v = [] then Inl (Errorf ''missing or expired OIDC state cookie'')
          else case so_raw L v of
            None \<Rightarrow> Inl (Errorf ''malformed OIDC state cookie'')
          | Some decoded \<Rightarrow>
              (case so_claims L decoded of
                 None \<Rightarrow> Inl (Errorf ''invalid OIDC state payload'')
               | Some claims \<Rightarrow>
                   if ot_State claims \<noteq> stateParam then Inl (Errorf ''OIDC state mismatch (possible CSRF)'')
                   else if time_sub now (ot_CreatedAt claims) > 10 * Minute then Inl (Errorf ''OIDC state has expired'')
                   else Inr claims))"

section \<open>Starting a flow\<close>

definition login_config :: "world \<Rightarrow> sso_lib \<Rightarrow> MemoryStore \<Rightarrow> Request \<Rightarrow> OIDCConfig option result" where
  "login_config w L s r =
     (let orgID = TrimSpace (w_rt w) (query_get r ''org_id'');
          domainQuery = TrimSpace (w_rt w) (query_get r ''domain'')
      in if orgID \<noteq> [] then Inr (GetOIDCConfig s orgID)
         else if domainQuery \<noteq> [] then Inr (GetOIDCConfigByDomain (w_rt w) (so_configs L) s domainQuery)
         else Inl (sso_error 6006 ''Either 'org_id' or 'domain' query parameter is required to initiate SSO'' 400 None))"

definition oidc_query :: "OIDCConfig \<Rightarrow> Request \<Rightarrow> string \<Rightarrow> string \<Rightarrow> (string \<times> string) list" where
  "oidc_query cfg r state nonce =
     [(''response_type'', ''code''), (''client_id'', oc_ClientID cfg), (''redirect_uri'', getOIDCRedirectURI r),
      (''scope'', ''openid profile email''), (''state'', state), (''nonce'', nonce)]"

text \<open>\<open>ck 0\<close> is the reading of the clock for the claims, \<open>ck 1\<close> the one for the cookie.\<close>

definition handleOIDCLogin :: "world \<Rightarrow> sso_lib \<Rightarrow> string result \<Rightarrow> string result \<Rightarrow> clock \<Rightarrow> MemoryStore \<Rightarrow> Request \<Rightarrow> Response" where
  "handleOIDCLogin w L state nonce ck s r =
     (if rq_Method r \<noteq> ''GET'' then MethodNotAllowed
      else case login_config w L s r of
        Inl err \<Rightarrow> writeError r err
      | Inr cfg \<Rightarrow>
          (case cfg of
             None \<Rightarrow> writeError r (sso_error 3006 ''SSO via OIDC is not configured or is currently disabled for this organization'' 404 None)
           | Some cfg \<Rightarrow>
               if \<not> oc_Enabled cfg
               then writeError r (sso_error 3006 ''SSO via OIDC is not configured or is currently disabled for this organization'' 404 None)
               else case state of
                 Inl err \<Rightarrow> writeError r (sso_error 9001 ''Failed to generate security state token'' 500 (Some err))
               | Inr state \<Rightarrow>
                   (case nonce of
                      Inl err \<Rightarrow> writeError r (sso_error 9001 ''Failed to generate security nonce'' 500 (Some err))
                    | Inr nonce \<Rightarrow>
                        (case so_seal L \<lparr>ot_State = state, ot_Nonce = nonce, ot_OrganizationID = oc_OrganizationID cfg, ot_RedirectURI = [],
                             ot_CreatedAt = ck 0\<rparr> of
                           Inl err \<Rightarrow> writeError r (sso_error 9001 ''Failed to set security state cookie'' 500 (Some err))
                         | Inr encoded \<Rightarrow>
                             add_cookies [state_cookie w (ck 1) r CookieOIDCStateName encoded]
                               (case so_url L (trim_right_slash (oc_IssuerURL cfg) @ ''/authorize'') (oidc_query cfg r state nonce) of
                                  Inl err \<Rightarrow> writeError r (sso_error 9001 ''Invalid OIDC issuer URL configuration'' 500 (Some err))
                                | Inr target \<Rightarrow> http_Redirect target 302)))))"

section \<open>The callback\<close>

definition parseIDTokenClaims :: "sso_lib \<Rightarrow> string \<Rightarrow> OIDCIDTokenClaims result" where
  "parseIDTokenClaims L idToken =
     (case Split idToken (CHR ''.'') of
        _ # part # _ \<Rightarrow>
          (case (case so_raw L part of Some b \<Rightarrow> Inr b | None \<Rightarrow> so_padded L part) of
             Inl err \<Rightarrow> Inl (Wrapf ''failed to base64-decode JWT payload: '' err)
           | Inr payload \<Rightarrow>
               (case so_identity L payload of Inl err \<Rightarrow> Inl (Wrapf ''failed to unmarshal JWT claims: '' err) | Inr claims \<Rightarrow> Inr claims))
      | _ \<Rightarrow> Inl (Errorf ''malformed id_token JWT''))"

definition fetchUserInfo :: "OIDCIDTokenClaims reply \<Rightarrow> OIDCIDTokenClaims result" where
  "fetchUserInfo reply =
     (case reply of
        Unbuilt err \<Rightarrow> Inl err
      | Unreachable err \<Rightarrow> Inl err
      | Answer status text body \<Rightarrow>
          if status \<noteq> 200 then Inl (Errorf (''userinfo endpoint returned status '' @ Itoa status @ '': '' @ text)) else body)"

definition userinfo_request :: "OIDCConfig \<Rightarrow> string \<Rightarrow> string \<times> string" where
  "userinfo_request cfg accessToken = (trim_right_slash (oc_IssuerURL cfg) @ ''/userinfo'', ''Bearer '' @ accessToken)"

text \<open>The form of the token request, and what its reply comes to.\<close>

definition token_form :: "OIDCConfig \<Rightarrow> Request \<Rightarrow> string \<Rightarrow> string \<times> (string \<times> string) list" where
  "token_form cfg r code =
     (trim_right_slash (oc_IssuerURL cfg) @ ''/token'',
      [(''grant_type'', ''authorization_code''), (''code'', code), (''redirect_uri'', getOIDCRedirectURI r),
       (''client_id'', oc_ClientID cfg), (''client_secret'', oc_ClientSecret cfg)])"

type_synonym sso_idp = "string \<times> (string \<times> string) list \<Rightarrow> OIDCTokenResponse reply"

definition exchange_code :: "OIDCTokenResponse reply \<Rightarrow> OIDCTokenResponse result" where
  "exchange_code reply =
     (case reply of
        Unbuilt err \<Rightarrow> Inl (sso_error 9001 ''Failed to construct token exchange request'' 500 (Some err))
      | Unreachable err \<Rightarrow> Inl (sso_error 9001 ''Failed to connect to IdP token endpoint'' 500 (Some err))
      | Answer status text body \<Rightarrow>
          if status \<noteq> 200
          then Inl (sso_error 6006 (''IdP token exchange failed ('' @ Itoa status @ ''): '' @ text) 400 None)
          else (case body of Inl err \<Rightarrow> Inl (sso_error 9001 ''Failed to parse token response'' 500 (Some err)) | Inr t \<Rightarrow> Inr t))"

text \<open>The claims of the ID token, or of the userinfo endpoint when these have no email.\<close>

definition identity_claims :: "sso_lib \<Rightarrow> OIDCTokenResponse \<Rightarrow> OIDCConfig \<Rightarrow> (string \<times> string \<Rightarrow> OIDCIDTokenClaims reply) \<Rightarrow>
    OIDCIDTokenClaims option result" where
  "identity_claims L tokenData cfg info =
     (let claims = (if tk_IDToken tokenData = [] then None
                    else case parseIDTokenClaims L (tk_IDToken tokenData) of Inr c \<Rightarrow> Some c | Inl _ \<Rightarrow> None)
      in if (case claims of None \<Rightarrow> True | Some c \<Rightarrow> id_Email c = []) \<and> tk_AccessToken tokenData \<noteq> []
         then (case fetchUserInfo (info (userinfo_request cfg (tk_AccessToken tokenData))) of
                 Inl err \<Rightarrow> Inl (sso_error 9001 (''Failed to fetch user claims from userinfo endpoint: '' @ Error err) 500 (Some err))
               | Inr c \<Rightarrow> Inr (Some c))
         else Inr claims)"

definition verified_email :: "world \<Rightarrow> OIDCConfig \<Rightarrow> OIDCIDTokenClaims option \<Rightarrow> string result" where
  "verified_email w cfg claims =
     (case claims of
        None \<Rightarrow> Inl (sso_error 6006 ''Identity provider did not return an email claim in token'' 400 None)
      | Some c \<Rightarrow>
          if TrimSpace (w_rt w) (id_Email c) = []
          then Inl (sso_error 6006 ''Identity provider did not return an email claim in token'' 400 None)
          else
            let email = ToLower (w_rt w) (TrimSpace (w_rt w) (id_Email c)) in
            if IsDomainAllowed (w_rt w) (Some cfg) email then Inr email
            else Inl (sso_error 1002 (''Email domain for '' @ rt_quote (w_rt w) email @ '' is not authorized for this organization'') 403 None))"

text \<open>An account without a known password: a token that cannot be made or hashed is the empty text.\<close>

definition hash_or_empty :: "services \<Rightarrow> string result \<Rightarrow> string" where
  "hash_or_empty sv pwd =
     (case sv_hash sv (case pwd of Inr p \<Rightarrow> p | Inl _ \<Rightarrow> []) of Inr h \<Rightarrow> h | Inl _ \<Rightarrow> [])"

definition jit_user :: "world \<Rightarrow> services \<Rightarrow> string result \<Rightarrow> randoms \<Rightarrow> clocks \<Rightarrow> MemoryStore \<Rightarrow> string \<Rightarrow> string \<Rightarrow> User result \<times> MemoryStore" where
  "jit_user w sv pwd rnds cks s email name =
     (case GetUserByEmail s email of
        Inr user \<Rightarrow> (Inr user, s)
      | Inl _ \<Rightarrow>
          (let userName = TrimSpace (w_rt w) name;
               userName = (if userName = [] then hd (Split email (CHR ''@'')) else userName)
           in CreateUser (cks 1) (rnds 1) s (NewUser (w_rt w) (cks 0 0) (cks 0 1) (rnds 0) email userName (hash_or_empty sv pwd) RoleDeveloper)))"

definition ensure_member :: "clock \<Rightarrow> string \<Rightarrow> MemoryStore \<Rightarrow> OIDCConfig \<Rightarrow> User \<Rightarrow> MemoryStore" where
  "ensure_member clk rnd s cfg user =
     (case GetOrgMember s (oc_OrganizationID cfg) (us_ID user) of
        Inr _ \<Rightarrow> s
      | Inl _ \<Rightarrow> snd (CreateOrgMember clk rnd s \<lparr>om_ID = [], om_OrganizationID = oc_OrganizationID cfg, om_UserID = us_ID user,
          om_Role = (if oc_DefaultRole cfg = [] then ''developer'' else oc_DefaultRole cfg), om_CreatedAt = 0\<rparr>))"

definition handleOIDCCallback :: "world \<Rightarrow> services \<Rightarrow> sso_lib \<Rightarrow> string result \<Rightarrow> string result \<Rightarrow> randoms \<Rightarrow>
    sso_idp \<Rightarrow> (string \<times> string \<Rightarrow> OIDCIDTokenClaims reply) \<Rightarrow> clocks \<Rightarrow> MemoryStore \<Rightarrow> Request \<Rightarrow> Response \<times> MemoryStore" where
  "handleOIDCCallback w sv L pwd tok rnds idp info cks s r =
     (let clear = clearOIDCStateCookie w r; refuse = (\<lambda>err s. (clear (writeError r err), s)) in
      if rq_Method r \<noteq> ''GET'' then (MethodNotAllowed, s)
      else if query_get r ''error'' \<noteq> [] then
        (clear (http_Redirect (''/auth?error='' @ so_escape L (query_get r ''error'' @ '': '' @ query_get r ''error_description'')) 302), s)
      else if query_get r ''state'' = [] \<or> query_get r ''code'' = [] then
        refuse (sso_error 6006 ''Missing 'code' or 'state' parameter from IdP callback'' 400 None) s
      else case getAndVerifyOIDCStateCookie L (cks 0 0) r (query_get r ''state'') of
        Inl err \<Rightarrow> refuse (sso_error 6006 (Error err) 400 (Some err)) s
      | Inr stateClaims \<Rightarrow>
          (case GetOIDCConfig s (ot_OrganizationID stateClaims) of
             None \<Rightarrow> refuse (sso_error 3006 ''Organization OIDC configuration not found or disabled'' 404 None) s
           | Some cfg \<Rightarrow>
               if \<not> oc_Enabled cfg then refuse (sso_error 3006 ''Organization OIDC configuration not found or disabled'' 404 None) s
               else case exchange_code (idp (token_form cfg r (query_get r ''code''))) of
                 Inl err \<Rightarrow> refuse err s
               | Inr tokenData \<Rightarrow>
                   (case identity_claims L tokenData cfg info of
                      Inl err \<Rightarrow> refuse err s
                    | Inr claims \<Rightarrow>
                        (case verified_email w cfg claims of
                           Inl err \<Rightarrow> refuse err s
                         | Inr email \<Rightarrow>
                             (case jit_user w sv pwd rnds (later 1 cks) s email (case claims of Some c \<Rightarrow> id_Name c | None \<Rightarrow> []) of
                                (Inl err, s) \<Rightarrow> refuse (internal (''Failed to provision user: '' @ Error err) err) s
                              | (Inr user, s) \<Rightarrow>
                                  (let s = ensure_member (cks 3) (rnds 2) s cfg user in
                                   case tok of
                                     Inl err \<Rightarrow> refuse (internal ''Failed to generate session token'' err) s
                                   | Inr token \<Rightarrow>
                                       (let expiresAt = cks 4 0 + 7 * 24 * Hour;
                                            s = CreateSession s (new_session token (us_ID user) expiresAt);
                                            rsp = setSessionCookie w (cks 5 0) r token expiresAt (http_Redirect ''/dashboard'' 302);
                                            rsp = (case ListProjects (w_projects w) s (oc_OrganizationID cfg) of
                                                     p # _ \<Rightarrow> setProjectCookie w (cks 6 0) r (pj_ID p) expiresAt rsp | [] \<Rightarrow> rsp)
                                        in (clear rsp, s))))))))"

section \<open>The configuration of an organization\<close>

definition masked :: string where
  "masked = concat (replicate 8 [CHR 0xE2, CHR 0x80, CHR 0xA2])"

definition config_json :: "OIDCConfig \<Rightarrow> json" where
  "config_json c =
     J_object ([(''organization_id'', J_string (oc_OrganizationID c)), (''enabled'', J_bool (oc_Enabled c)),
       (''issuer_url'', J_string (oc_IssuerURL c)), (''client_id'', J_string (oc_ClientID c))]
       @ (if oc_ClientSecret c = [] then [] else [(''client_secret'', J_string (oc_ClientSecret c))])
       @ [(''allowed_domains'', J_string (oc_AllowedDomains c)), (''default_role'', J_string (oc_DefaultRole c)),
          (''created_at'', J_time (oc_CreatedAt c)), (''updated_at'', J_time (oc_UpdatedAt c))])"

definition handleGetOIDCConfig :: "MemoryStore \<Rightarrow> Request \<Rightarrow> string \<Rightarrow> Response" where
  "handleGetOIDCConfig s r orgID =
     (case GetOIDCConfig s orgID of
        None \<Rightarrow> writeJSON 200 (J_object [(''organization_id'', J_string orgID), (''enabled'', J_bool False), (''configured'', J_bool False)])
      | Some cfg \<Rightarrow> writeJSON 200 (config_json (if oc_ClientSecret cfg \<noteq> [] then cfg\<lparr>oc_ClientSecret := masked\<rparr> else cfg)))"

definition handleSaveOIDCConfig :: "world \<Rightarrow> clock \<Rightarrow> OIDCConfig result \<Rightarrow> MemoryStore \<Rightarrow> Request \<Rightarrow> string \<Rightarrow> Response \<times> MemoryStore" where
  "handleSaveOIDCConfig w ck body s r orgID =
     (case body of
        Inl err \<Rightarrow> (writeError r (sso_error 6006 (''Invalid JSON payload: '' @ Error err) 400 (Some err)), s)
      | Inr req \<Rightarrow>
          if oc_IssuerURL req = [] \<or> oc_ClientID req = []
          then (writeError r (sso_error 6006 ''issuer_url and client_id are required'' 400 None), s)
          else
            let secret = (if TrimSpace (w_rt w) (oc_ClientSecret req) = [] \<or> oc_ClientSecret req = masked
                  then (case GetOIDCConfig s orgID of Some c \<Rightarrow> if oc_ClientSecret c \<noteq> [] then Some (oc_ClientSecret c) else None | None \<Rightarrow> None)
                  else Some (oc_ClientSecret req))
            in case secret of
                 None \<Rightarrow> (writeError r (sso_error 6006 ''client_secret is required when configuring OIDC'' 400 None), s)
               | Some secret \<Rightarrow>
                   (case SaveOIDCConfig ck s (req\<lparr>oc_ClientSecret := secret, oc_OrganizationID := orgID\<rparr>) of
                      (Inl err, s) \<Rightarrow> (writeError r (sso_error 9001 (''Failed to save OIDC config: '' @ Error err) 500 (Some err)), s)
                    | (Inr _, s) \<Rightarrow>
                        (case GetOIDCConfig s orgID of
                           Some saved \<Rightarrow> (writeJSON 200 (config_json (saved\<lparr>oc_ClientSecret := masked\<rparr>)), s)
                         | None \<Rightarrow> (writeJSON 200 (J_object [(''message'', J_string ''OIDC configuration saved successfully'')]), s))))"

definition handleDeleteOIDCConfig :: "MemoryStore \<Rightarrow> string \<Rightarrow> Response \<times> MemoryStore" where
  "handleDeleteOIDCConfig s orgID =
     (writeJSON 200 (J_object [(''message'', J_string ''OIDC configuration removed'')]), DeleteOIDCConfig s orgID)"

definition may_configure :: "MemoryStore \<Rightarrow> User \<Rightarrow> string \<Rightarrow> bool" where
  "may_configure s user orgID \<longleftrightarrow> us_Role user = RoleAdmin \<or>
     (case GetOrgMember s orgID (us_ID user) of Inr m \<Rightarrow> om_Role m = ''owner'' \<or> om_Role m = ''admin'' | Inl _ \<Rightarrow> False)"

definition oidc_org :: "Request \<Rightarrow> string option" where
  "oidc_org r =
     (case Split (trim_slashes (TrimPrefix (rq_Path r) ''/api/v1/organizations/'')) (CHR ''/'') of
        [orgID, part] \<Rightarrow> if part = ''oidc'' then Some orgID else None
      | _ \<Rightarrow> None)"

definition handleOIDCConfigRoutes :: "world \<Rightarrow> clock \<Rightarrow> OIDCConfig result \<Rightarrow> MemoryStore \<Rightarrow> Request \<Rightarrow> Response \<times> MemoryStore" where
  "handleOIDCConfigRoutes w ck body s r =
     (case oidc_org r of
        None \<Rightarrow> (http_Error ''Not Found'' 404, s)
      | Some orgID \<Rightarrow>
          (case rq_User r of
             None \<Rightarrow> (writeError r (sso_error 1001 ''Authentication required'' 401 None), s)
           | Some user \<Rightarrow>
               if \<not> may_configure s user orgID
               then (writeError r (sso_error 1002 ''Only organization owners and admins can configure Single Sign-On'' 403 None), s)
               else if rq_Method r = ''GET'' then (handleGetOIDCConfig s r orgID, s)
               else if rq_Method r = ''PUT'' \<or> rq_Method r = ''POST'' then handleSaveOIDCConfig w ck body s r orgID
               else if rq_Method r = ''DELETE'' then handleDeleteOIDCConfig s orgID
               else (MethodNotAllowed, s)))"

section \<open>What a sign-on needs\<close>

text \<open>
  The gates before an account is touched, as one specification: the request is a code for a state this
  browser holds, the organization signs on this way, the provider took the code and named an address,
  and the address is of an allowed domain.
\<close>

definition oidc_admits :: "world \<Rightarrow> sso_lib \<Rightarrow> sso_idp \<Rightarrow> (string \<times> string \<Rightarrow> OIDCIDTokenClaims reply) \<Rightarrow> gtime \<Rightarrow> MemoryStore \<Rightarrow> Request \<Rightarrow>
    (OIDCConfig \<times> OIDCIDTokenClaims) option" where
  "oidc_admits w L idp info now s r =
     (if rq_Method r \<noteq> ''GET'' \<or> query_get r ''error'' \<noteq> [] \<or> query_get r ''state'' = [] \<or> query_get r ''code'' = [] then None
      else case getAndVerifyOIDCStateCookie L now r (query_get r ''state'') of
        Inl _ \<Rightarrow> None
      | Inr st \<Rightarrow>
          (case GetOIDCConfig s (ot_OrganizationID st) of
             None \<Rightarrow> None
           | Some cfg \<Rightarrow>
               if \<not> oc_Enabled cfg then None
               else case exchange_code (idp (token_form cfg r (query_get r ''code''))) of
                 Inl _ \<Rightarrow> None
               | Inr tokens \<Rightarrow>
                   (case identity_claims L tokens cfg info of
                      Inl _ \<Rightarrow> None
                    | Inr claims \<Rightarrow> (case verified_email w cfg claims of Inl _ \<Rightarrow> None | Inr _ \<Rightarrow> map_option (Pair cfg) claims))))"

abbreviation (input) "claimed_email w c \<equiv> ToLower (w_rt w) (TrimSpace (w_rt w) (id_Email c))"

lemma verified_email_None [simp]:
  "verified_email w cfg None = Inl (sso_error 6006 ''Identity provider did not return an email claim in token'' 400 None)"
  by (simp add: verified_email_def)

lemma verified_email_Inr:
  "verified_email w cfg (Some c) = Inr e \<longleftrightarrow>
     TrimSpace (w_rt w) (id_Email c) \<noteq> [] \<and> e = claimed_email w c \<and> IsDomainAllowed (w_rt w) (Some cfg) e"
  by (auto simp: verified_email_def Let_def)

lemma oidc_admitsD:
  assumes "oidc_admits w L idp info now s r = Some (cfg, c)"
  shows "\<exists>st tokens. getAndVerifyOIDCStateCookie L now r (query_get r ''state'') = Inr st \<and>
    GetOIDCConfig s (ot_OrganizationID st) = Some cfg \<and> oc_Enabled cfg \<and> exchange_code (idp (token_form cfg r (query_get r ''code''))) = Inr tokens \<and>
    identity_claims L tokens cfg info = Inr (Some c) \<and> verified_email w cfg (Some c) = Inr (claimed_email w c)"
  using assms unfolding oidc_admits_def
  by (auto simp: verified_email_Inr split: sum.splits option.splits if_splits)

lemma callback_store:
  "snd (handleOIDCCallback w sv L pwd tok rnds idp info cks s r) =
     (case oidc_admits w L idp info (cks 0 0) s r of
        None \<Rightarrow> s
      | Some (cfg, c) \<Rightarrow>
          (case jit_user w sv pwd rnds (later 1 cks) s (claimed_email w c) (id_Name c) of
             (Inl _, t) \<Rightarrow> t
           | (Inr user, t) \<Rightarrow>
               (case tok of
                  Inl _ \<Rightarrow> ensure_member (cks 3) (rnds 2) t cfg user
                | Inr token \<Rightarrow> CreateSession (ensure_member (cks 3) (rnds 2) t cfg user)
                    (new_session token (us_ID user) (cks 4 0 + 7 * 24 * Hour)))))"
proof (cases "oidc_admits w L idp info (cks 0 0) s r")
  case None
  show ?thesis
    using None unfolding oidc_admits_def handleOIDCCallback_def Let_def
    by (auto split: if_splits sum.split_asm option.split_asm)
next
  case (Some p)
  obtain cfg c where p: "p = (cfg, c)" by fastforce
  obtain st tokens where "getAndVerifyOIDCStateCookie L (cks 0 0) r (query_get r ''state'') = Inr st"
    and "GetOIDCConfig s (ot_OrganizationID st) = Some cfg" "oc_Enabled cfg" "exchange_code (idp (token_form cfg r (query_get r ''code''))) = Inr tokens"
    and "identity_claims L tokens cfg info = Inr (Some c)" "verified_email w cfg (Some c) = Inr (claimed_email w c)"
    using oidc_admitsD [OF Some [unfolded p]] by blast
  moreover have "rq_Method r = ''GET''" "query_get r ''error'' = []" "query_get r ''state'' \<noteq> []" "query_get r ''code'' \<noteq> []"
    using Some by (auto simp: oidc_admits_def split: if_splits)
  ultimately show ?thesis
    using Some by (simp add: p handleOIDCCallback_def Let_def split: prod.split sum.split)
qed

lemma state_cookieD:
  assumes "getAndVerifyOIDCStateCookie L now r p = Inr st"
  shows "\<exists>v b. cookie_get r CookieOIDCStateName = Some v \<and> so_raw L v = Some b \<and> so_claims L b = Some st \<and>
    ot_State st = p \<and> time_sub now (ot_CreatedAt st) \<le> 10 * Minute"
  using assms unfolding getAndVerifyOIDCStateCookie_def
  by (auto split: option.splits if_splits)

section \<open>Whom a sign-on signs in\<close>

text \<open>The account of an address: the one there is, or a fresh developer account.\<close>

definition account_of :: "MemoryStore \<Rightarrow> MemoryStore \<Rightarrow> string \<Rightarrow> User \<Rightarrow> bool" where
  "account_of s t email user \<longleftrightarrow>
     (if mget (ms_users s) email = None then us_Role user = RoleDeveloper \<and> GetUserByID t (us_ID user) = Inr user
      else GetUserByEmail s email = Inr user)"

lemma jit_user_account:
  assumes "jit_user w sv pwd rnds cks s email name = (Inr user, t)"
  shows "account_of s t email user \<and> ms_sessions t = ms_sessions s \<and> ms_orgMembers t = ms_orgMembers s"
  using assms
  by (auto simp: jit_user_def account_of_def GetUserByEmail_def GetUserByID_def CreateUser_def NewUser_def Let_def map_simps
      split: option.splits sum.splits if_splits)

lemma jit_user_sessions: "ms_sessions (snd (jit_user w sv pwd rnds cks s email name)) = ms_sessions s"
  by (auto simp: jit_user_def CreateUser_def Let_def split: option.splits sum.splits)

lemma ensure_member_effect:
  shows "ms_sessions (ensure_member clk rnd s cfg user) = ms_sessions s" "ms_users (ensure_member clk rnd s cfg user) = ms_users s"
    "ms_oidcConfigs (ensure_member clk rnd s cfg user) = ms_oidcConfigs s"
    "\<exists>m. GetOrgMember (ensure_member clk rnd s cfg user) (oc_OrganizationID cfg) (us_ID user) = Inr m"
  by (auto simp: ensure_member_def CreateOrgMember_def put_member_def GetOrgMember_def Let_def map_simps
      split: sum.splits option.splits)


definition demo_signon :: OIDCConfig where
  "demo_signon = \<lparr>oc_OrganizationID = ''o1'', oc_Enabled = True, oc_IssuerURL = ''https://idp/'', oc_ClientID = ''c'', oc_ClientSecret = ''x'',
     oc_AllowedDomains = [], oc_DefaultRole = [], oc_CreatedAt = 1, oc_UpdatedAt = 1\<rparr>"

definition demo_sso_store :: MemoryStore where
  "demo_sso_store = demo_tenants\<lparr>ms_oidcConfigs := [(''o1'', demo_signon)]\<rparr>"

definition demo_sso :: sso_lib where
  "demo_sso = \<lparr>so_seal = (\<lambda>c. Inr (ot_State c)), so_raw = Some, so_padded = Inr,
     so_claims = (\<lambda>b. Some \<lparr>ot_State = b, ot_Nonce = ''n'', ot_OrganizationID = ''o1'', ot_RedirectURI = [], ot_CreatedAt = 5\<rparr>),
     so_identity = (\<lambda>b. Inr \<lparr>id_Subject = ''1'', id_Email = b, id_Name = ''Eve'', id_Nonce = ''other''\<rparr>),
     so_url = (\<lambda>u q. Inr u), so_escape = id, so_configs = id\<rparr>"

definition demo_tokens :: "string \<Rightarrow> OIDCTokenResponse reply" where
  "demo_tokens email = Answer 200 [] (Inr \<lparr>tk_AccessToken = ''a'', tk_TokenType = ''Bearer'', tk_IDToken = ''h.'' @ email, tk_ExpiresIn = 60\<rparr>)"

definition demo_return :: Request where
  "demo_return = (demo_get [])\<lparr>rq_Path := ''/api/v1/auth/oidc/callback'', rq_Query := [(''state'', ''st''), (''code'', ''cd'')],
     rq_Cookies := [(CookieOIDCStateName, ''st'')]\<rparr>"

lemma demo_eve_email: "ToLower (w_rt demo_world) (TrimSpace (w_rt demo_world) ''eve@bolt'') = ''eve@bolt''"
  by code_simp


section \<open>The start of a flow and its return\<close>

lemma oidc_login_roundtrip:
  assumes "rq_Method r = ''GET''" "login_config w L s r = Inr (Some cfg)" "oc_Enabled cfg"
    and seal: "\<And>c v. so_seal L c = Inr v \<Longrightarrow> v \<noteq> [] \<and> (\<exists>b. so_raw L v = Some b \<and> so_claims L b = Some c)"
    and "so_seal L \<lparr>ot_State = st, ot_Nonce = n, ot_OrganizationID = oc_OrganizationID cfg, ot_RedirectURI = [], ot_CreatedAt = ck 0\<rparr> = Inr v"
    and "so_url L (trim_right_slash (oc_IssuerURL cfg) @ ''/authorize'') (oidc_query cfg r st n) = Inr target"
  shows "handleOIDCLogin w L (Inr st) (Inr n) ck s r = add_cookies [state_cookie w (ck 1) r CookieOIDCStateName v] (http_Redirect target 302)"
    and "cookie_get r' CookieOIDCStateName = Some v \<Longrightarrow> time_sub now (ck 0) \<le> 10 * Minute \<Longrightarrow>
      \<exists>c. getAndVerifyOIDCStateCookie L now r' st = Inr c \<and> ot_OrganizationID c = oc_OrganizationID cfg"
  using assms(1-3,5,6) seal [OF assms(5)]
  by (auto simp: handleOIDCLogin_def getAndVerifyOIDCStateCookie_def)

section \<open>What a sign-on does not check\<close>

text \<open>The nonce of the flow is written to the state and sent to the provider, and no answer is compared with it.\<close>

lemma oidc_nonce_unused:
  assumes "so_claims L' = (\<lambda>b. map_option (\<lambda>c. c\<lparr>ot_Nonce := n\<rparr>) (so_claims L b))"
    and "so_raw L' = so_raw L" "so_padded L' = so_padded L" "so_identity L' = so_identity L"
  shows "snd (handleOIDCCallback w sv L' pwd tok rnds idp info cks s r) =
    snd (handleOIDCCallback w sv L pwd tok rnds idp info cks s r)"
proof -
  have cookie: "getAndVerifyOIDCStateCookie L' now r q = map_sum id (ot_Nonce_update (\<lambda>_. n)) (getAndVerifyOIDCStateCookie L now r q)" for now q
    by (simp add: getAndVerifyOIDCStateCookie_def assms split: option.split)
  have ids: "identity_claims L' = identity_claims L"
    unfolding identity_claims_def parseIDTokenClaims_def assms ..
  have "oidc_admits w L' idp info now s r = oidc_admits w L idp info now s r" for now
    unfolding oidc_admits_def cookie ids
    by (cases "getAndVerifyOIDCStateCookie L now r (query_get r ''state'')") simp_all
  then show ?thesis by (simp add: callback_store)
qed

text \<open>
  An owner of any organization signs in as anybody. With no allowed domains in the settings of the
  organization, the address its own identity provider names is the address of the account that gets
  the session, whatever organizations that account belongs to and whatever its role.
\<close>

lemma SaveOIDCConfig_saved:
  assumes "oc_OrganizationID c \<noteq> []"
  shows "\<exists>cfg. SaveOIDCConfig ck s c = (Inr (), s\<lparr>ms_oidcConfigs := mput (oc_OrganizationID c) cfg (ms_oidcConfigs s)\<rparr>) \<and>
    oc_OrganizationID cfg = oc_OrganizationID c \<and> oc_Enabled cfg = oc_Enabled c \<and> oc_AllowedDomains cfg = oc_AllowedDomains c \<and>
    oc_IssuerURL cfg = oc_IssuerURL c"
proof -
  define c1 where "c1 = (if IsZero (oc_CreatedAt c) then c\<lparr>oc_CreatedAt := ck 0\<rparr> else c)\<lparr>oc_UpdatedAt := ck 0\<rparr>"
  let ?c2 = "if oc_DefaultRole c1 = [] then c1\<lparr>oc_DefaultRole := ''developer''\<rparr> else c1"
  have "SaveOIDCConfig ck s c = (Inr (), s\<lparr>ms_oidcConfigs := mput (oc_OrganizationID ?c2) ?c2 (ms_oidcConfigs s)\<rparr>)"
    using assms by (simp only: SaveOIDCConfig_def Let_def c1_def [symmetric] if_False)
  moreover have "oc_OrganizationID ?c2 = oc_OrganizationID c \<and> oc_Enabled ?c2 = oc_Enabled c \<and> oc_AllowedDomains ?c2 = oc_AllowedDomains c \<and>
      oc_IssuerURL ?c2 = oc_IssuerURL c"
    by (simp add: c1_def)
  ultimately show ?thesis by (intro exI [of _ ?c2]) metis
qed

lemma oidc_save:
  assumes "rq_Method r = ''PUT''" "oidc_org r = Some org" "rq_User r = Some owner" "may_configure s owner org" "org \<noteq> []"
    and "oc_IssuerURL req \<noteq> []" "oc_ClientID req \<noteq> []" "TrimSpace (w_rt w) (oc_ClientSecret req) \<noteq> []" "oc_ClientSecret req \<noteq> masked"
  shows "\<exists>cfg. snd (handleOIDCConfigRoutes w ck (Inr req) s r) = s\<lparr>ms_oidcConfigs := mput org cfg (ms_oidcConfigs s)\<rparr> \<and>
    oc_OrganizationID cfg = org \<and> oc_Enabled cfg = oc_Enabled req \<and> oc_AllowedDomains cfg = oc_AllowedDomains req \<and>
    oc_IssuerURL cfg = oc_IssuerURL req"
proof -
  let ?c = "req\<lparr>oc_ClientSecret := oc_ClientSecret req, oc_OrganizationID := org\<rparr>"
  obtain cfg where "SaveOIDCConfig ck s ?c = (Inr (), s\<lparr>ms_oidcConfigs := mput org cfg (ms_oidcConfigs s)\<rparr>)"
    and "oc_OrganizationID cfg = org" "oc_Enabled cfg = oc_Enabled req" "oc_AllowedDomains cfg = oc_AllowedDomains req"
    "oc_IssuerURL cfg = oc_IssuerURL req"
    using SaveOIDCConfig_saved [of ?c ck s] assms(5) by auto
  then show ?thesis
    using assms by (intro exI [of _ cfg]) (simp add: handleOIDCConfigRoutes_def handleSaveOIDCConfig_def GetOIDCConfig_def map_simps)
qed

lemma oidc_takeover:
  fixes w ck req s r0
  defines "s' \<equiv> snd (handleOIDCConfigRoutes w ck (Inr req) s r0)"
  assumes own: "rq_Method r0 = ''PUT''" "oidc_org r0 = Some org" "rq_User r0 = Some owner" "may_configure s owner org" "org \<noteq> []"
    "oc_IssuerURL req \<noteq> []" "oc_ClientID req \<noteq> []" "TrimSpace (w_rt w) (oc_ClientSecret req) \<noteq> []" "oc_ClientSecret req \<noteq> masked"
    and "oc_Enabled req" "TrimSpace (w_rt w) (oc_AllowedDomains req) = []"
    and "rq_Method r = ''GET''" "query_get r ''error'' = []" "query_get r ''state'' \<noteq> []" "query_get r ''code'' \<noteq> []"
    and "getAndVerifyOIDCStateCookie L (cks 0 0) r (query_get r ''state'') = Inr st" "ot_OrganizationID st = org"
    and idp: "\<And>cfg. oc_IssuerURL cfg = oc_IssuerURL req \<Longrightarrow>
      exchange_code (idp (token_form cfg r (query_get r ''code''))) = Inr tokens \<and> identity_claims L tokens cfg info = Inr (Some c)"
    and "TrimSpace (w_rt w) (id_Email c) \<noteq> []" "mget (ms_users s) (claimed_email w c) = Some victim"
    and vic: "mget (ms_users s) (us_ID victim) = Some victim" "now \<le> cks 4 0 + 7 * 24 * Hour"
  shows "\<exists>sess. GetSession now (snd (handleOIDCCallback w sv L pwd (Inr token) rnds idp info cks s' r)) token = Inr sess \<and>
    se_User sess = Some victim"
proof -
  obtain cfg where s': "s' = s\<lparr>ms_oidcConfigs := mput org cfg (ms_oidcConfigs s)\<rparr>"
    and cfg: "oc_OrganizationID cfg = org" "oc_Enabled cfg = oc_Enabled req" "oc_AllowedDomains cfg = oc_AllowedDomains req"
    "oc_IssuerURL cfg = oc_IssuerURL req"
    using oidc_save [OF own] unfolding s'_def by blast
  have "oidc_admits w L idp info (cks 0 0) s' r = Some (cfg, c)"
    using assms(11-18) assms(20-) cfg idp [OF cfg(4)] by (simp add: oidc_admits_def GetOIDCConfig_def s' map_simps verified_email_def IsDomainAllowed_def Let_def)
  moreover have "jit_user w sv pwd rnds (later 1 cks) s' (claimed_email w c) (id_Name c) = (Inr victim, s')"
    using assms(20-) by (simp add: jit_user_def GetUserByEmail_def s')
  ultimately show ?thesis
    using vic by (simp add: callback_store GetSession_def CreateSession_def new_session_def Session_IsExpired_def map_simps ensure_member_effect s'
        del: One_nat_def)
qed

end
