(* ===== verification/Api_OAuth.thy ===== *)
theory Api_OAuth
  imports Api_SignOn Config
begin

text \<open>
  Sign-in with Google and GitHub, \<open>src/pkg/api/handlers_oauth.go\<close>: the state cookie, the start of a flow,
  the callbacks with the requests they make to the provider, and the account, workspace and session a
  callback ends with. The provider is a function from requests to replies, as in single sign-on.
\<close>

section \<open>Data\<close>

record oauthEndpoints =
  oe_authURL :: string
  oe_tokenURL :: string
  oe_userInfoURL :: string
  oe_emailsURL :: string

definition googleEndpoints :: oauthEndpoints where
  "googleEndpoints = \<lparr>oe_authURL = ''https://accounts.google.com/o/oauth2/v2/auth'', oe_tokenURL = ''https://oauth2.googleapis.com/token'',
     oe_userInfoURL = ''https://www.googleapis.com/oauth2/v3/userinfo'', oe_emailsURL = []\<rparr>"

definition githubEndpoints :: oauthEndpoints where
  "githubEndpoints = \<lparr>oe_authURL = ''https://github.com/login/oauth/authorize'', oe_tokenURL = ''https://github.com/login/oauth/access_token'',
     oe_userInfoURL = ''https://api.github.com/user'', oe_emailsURL = ''https://api.github.com/user/emails''\<rparr>"

record OAuthStateClaims =
  ou_Provider :: string
  ou_State :: string
  ou_Nonce :: string
  ou_CreatedAt :: gtime

record GoogleProfile =
  gp_Email :: string
  gp_Name :: string
  gp_Picture :: string

record GitHubUser =
  gu_Login :: string
  gu_Name :: string
  gu_AvatarURL :: string

record GitHubEmail =
  ge_Email :: string
  ge_Primary :: bool
  ge_Verified :: bool

text \<open>The codecs of single sign-on, and those of the claims of this state.\<close>

record oauth_lib = sso_lib +
  ol_seal :: "OAuthStateClaims \<Rightarrow> string result"
  ol_claims :: "string \<Rightarrow> OAuthStateClaims option"

abbreviation (input) "CookieOAuthStateName \<equiv> ''flagura_oauth_state''"

definition getOAuthRedirectURI :: "Request \<Rightarrow> string \<Rightarrow> string" where
  "getOAuthRedirectURI r provider = forwarded_base r @ ''/api/v1/auth/oauth/'' @ provider @ ''/callback''"

section \<open>The state cookie\<close>

definition setOAuthStateCookie :: "world \<Rightarrow> oauth_lib \<Rightarrow> gtime \<Rightarrow> Request \<Rightarrow> OAuthStateClaims \<Rightarrow> Cookie result" where
  "setOAuthStateCookie w L now r claims =
     (case ol_seal L claims of Inl err \<Rightarrow> Inl err | Inr encoded \<Rightarrow> Inr (state_cookie w now r CookieOAuthStateName encoded))"

text \<open>The cookie is cleared before anything else is set.\<close>

definition clearOAuthStateCookie :: "world \<Rightarrow> Request \<Rightarrow> Response \<Rightarrow> Response" where
  "clearOAuthStateCookie w r rsp = rsp\<lparr>rp_Cookies := dead_state_cookie w r CookieOAuthStateName # rp_Cookies rsp\<rparr>"

definition getAndVerifyOAuthStateCookie :: "oauth_lib \<Rightarrow> gtime \<Rightarrow> Request \<Rightarrow> string \<Rightarrow> string \<Rightarrow> OAuthStateClaims result" where
  "getAndVerifyOAuthStateCookie L now r provider incomingState =
     (case cookie_get r CookieOAuthStateName of
        None \<Rightarrow> Inl (Errorf ''missing or expired oauth state cookie'')
      | Some v \<Rightarrow>
          if v = [] then Inl (Errorf ''missing or expired oauth state cookie'')
          else case so_raw L v of
            None \<Rightarrow> Inl (Errorf ''invalid oauth state cookie encoding'')
          | Some decoded \<Rightarrow>
              (case ol_claims L decoded of
                 None \<Rightarrow> Inl (Errorf ''invalid oauth state cookie payload'')
               | Some claims \<Rightarrow>
                   if ou_Provider claims \<noteq> provider then Inl (Errorf ''oauth provider mismatch'')
                   else if time_sub now (ou_CreatedAt claims) > 10 * Minute then Inl (Errorf ''oauth state expired'')
                   else if incomingState \<noteq> ou_State claims then Inl (Errorf ''invalid oauth state token'')
                   else Inr claims))"

section \<open>Starting a flow\<close>

definition handleOAuthProviders :: "Config \<Rightarrow> Response" where
  "handleOAuthProviders cfg =
     writeJSON 200 (J_object [(''google'', J_bool (IsGoogleOAuthEnabled cfg)), (''github'', J_bool (IsGitHubOAuthEnabled cfg))])"

definition begin_oauth :: "world \<Rightarrow> oauth_lib \<Rightarrow> string \<Rightarrow> string \<Rightarrow> string \<Rightarrow> (string \<Rightarrow> string \<Rightarrow> (string \<times> string) list) \<Rightarrow>
    string result \<Rightarrow> string result \<Rightarrow> clock \<Rightarrow> Request \<Rightarrow> Response" where
  "begin_oauth w L provider label authURL query state nonce ck r =
     (case state of
        Inl err \<Rightarrow> writeError r (sso_error 9001 ''Failed to generate security state token'' 500 (Some err))
      | Inr state \<Rightarrow>
          (case nonce of
             Inl err \<Rightarrow> writeError r (sso_error 9001 ''Failed to generate security nonce'' 500 (Some err))
           | Inr nonce \<Rightarrow>
               (case setOAuthStateCookie w L (ck 1) r \<lparr>ou_Provider = provider, ou_State = state, ou_Nonce = nonce, ou_CreatedAt = ck 0\<rparr> of
                  Inl err \<Rightarrow> writeError r (sso_error 9001 ''Failed to set security state cookie'' 500 (Some err))
                | Inr cookie \<Rightarrow>
                    add_cookies [cookie]
                      (case so_url L authURL (query state nonce) of
                         Inl err \<Rightarrow> writeError r (sso_error 9001 (''Failed to parse '' @ label @ '' auth URL'') 500 (Some err))
                       | Inr target \<Rightarrow> http_Redirect target 302))))"

definition google_query :: "Config \<Rightarrow> Request \<Rightarrow> string \<Rightarrow> string \<Rightarrow> (string \<times> string) list" where
  "google_query cfg r state nonce =
     [(''response_type'', ''code''), (''client_id'', cf_GoogleClientID cfg), (''redirect_uri'', getOAuthRedirectURI r ''google''),
      (''scope'', ''openid email profile''), (''state'', state), (''nonce'', nonce), (''access_type'', ''online'')]"

definition handleOAuthGoogleLogin :: "world \<Rightarrow> oauth_lib \<Rightarrow> Config \<Rightarrow> string result \<Rightarrow> string result \<Rightarrow> clock \<Rightarrow> Request \<Rightarrow> Response" where
  "handleOAuthGoogleLogin w L cfg state nonce ck r =
     (if \<not> IsGoogleOAuthEnabled cfg
      then writeError r (sso_error 3006 ''Google authentication is not configured on this server'' 404 None)
      else begin_oauth w L ''google'' ''Google'' (oe_authURL googleEndpoints) (google_query cfg r) state nonce ck r)"

definition github_query :: "Config \<Rightarrow> Request \<Rightarrow> string \<Rightarrow> string \<Rightarrow> (string \<times> string) list" where
  "github_query cfg r state nonce =
     [(''client_id'', cf_GitHubClientID cfg), (''redirect_uri'', getOAuthRedirectURI r ''github''),
      (''scope'', ''read:user user:email''), (''state'', state)]"

definition handleOAuthGitHubLogin :: "world \<Rightarrow> oauth_lib \<Rightarrow> Config \<Rightarrow> string result \<Rightarrow> string result \<Rightarrow> clock \<Rightarrow> Request \<Rightarrow> Response" where
  "handleOAuthGitHubLogin w L cfg state nonce ck r =
     (if \<not> IsGitHubOAuthEnabled cfg
      then writeError r (sso_error 3006 ''GitHub authentication is not configured on this server'' 404 None)
      else begin_oauth w L ''github'' ''GitHub'' (oe_authURL githubEndpoints) (github_query cfg r) state nonce ck r)"

section \<open>Completing a sign-in\<close>

definition auth_error :: "('a) sso_lib_scheme \<Rightarrow> string \<Rightarrow> Response" where
  "auth_error L msg = http_Redirect (''/auth?error='' @ so_escape L msg) 302"

definition oauth_user :: "world \<Rightarrow> services \<Rightarrow> string \<Rightarrow> string \<Rightarrow> clock \<Rightarrow> string \<Rightarrow> string \<Rightarrow> string \<Rightarrow> User" where
  "oauth_user w sv bytes rnd ck email name avatarURL =
     (let name = (if name = [] then hd (Split email (CHR ''@'')) else name)
      in (NewUser (w_rt w) (ck 0) (ck 1) rnd email name (hash_or_empty sv (Inr bytes)) RoleDeveloper)\<lparr>us_AvatarURL := avatarURL\<rparr>)"

text \<open>The account of the address and the project of a workspace made for it, empty for an account there was.\<close>

definition oauth_account :: "world \<Rightarrow> services \<Rightarrow> string \<Rightarrow> randoms \<Rightarrow> clocks \<Rightarrow> MemoryStore \<Rightarrow> string \<Rightarrow> string \<Rightarrow> string \<Rightarrow>
    (User \<times> string) result \<times> MemoryStore" where
  "oauth_account w sv bytes rnds cks s email name avatarURL =
     (case GetUserByEmail s email of
        Inr user \<Rightarrow>
          if us_AvatarURL user = [] \<and> avatarURL \<noteq> []
          then (Inr (user\<lparr>us_AvatarURL := avatarURL\<rparr>, []), snd (UpdateUser (cks 0) s (user\<lparr>us_AvatarURL := avatarURL\<rparr>)))
          else (Inr (user, []), s)
      | Inl _ \<Rightarrow>
          (case CreateUser (cks 1) (rnds 1) s (oauth_user w sv bytes (rnds 0) (cks 0) email name avatarURL) of
             (Inl err, s) \<Rightarrow> (Inl err, s)
           | (Inr user, s) \<Rightarrow>
               (let (active, s) = provision_workspace w (\<lambda>i. rnds (2 + i)) (later 2 cks) s user in (Inr (user, active), s))))"

definition landing_project :: "world \<Rightarrow> MemoryStore \<Rightarrow> User \<Rightarrow> string \<Rightarrow> string" where
  "landing_project w s user active =
     (let active = (if active \<noteq> [] then active
            else case ListUserOrganizations (w_rt w) (w_orgs w) s (us_ID user) of
              [] \<Rightarrow> []
            | org # _ \<Rightarrow> (case ListProjects (w_projects w) s (og_ID org) of p # _ \<Rightarrow> pj_ID p | [] \<Rightarrow> []))
      in if active = [] then DefaultProjectID else active)"

definition completeOAuthLogin :: "world \<Rightarrow> services \<Rightarrow> oauth_lib \<Rightarrow> string \<Rightarrow> string result \<Rightarrow> randoms \<Rightarrow> clocks \<Rightarrow> MemoryStore \<Rightarrow> Request \<Rightarrow>
    string \<Rightarrow> string \<Rightarrow> string \<Rightarrow> Response \<times> MemoryStore" where
  "completeOAuthLogin w sv L bytes tok rnds cks s r email name avatarURL =
     (case oauth_account w sv bytes rnds cks s email name avatarURL of
        (Inl err, s) \<Rightarrow> (auth_error L (''Failed to create user account: '' @ Error err), s)
      | (Inr (user, active), s) \<Rightarrow>
          (case tok of
             Inl _ \<Rightarrow> (auth_error L ''Failed to generate session token'', s)
           | Inr token \<Rightarrow>
               (let expiresAt = cks 7 0 + 7 * 24 * Hour in
                (setProjectCookie w (cks 9 0) r (landing_project w s user active) expiresAt
                   (setSessionCookie w (cks 8 0) r token expiresAt (http_Redirect ''/dashboard'' 302)),
                 CreateSession s ((new_session token (us_ID user) expiresAt)\<lparr>se_CreatedAt := cks 7 1\<rparr>)))))"

section \<open>The callbacks\<close>

text \<open>What precedes the exchange of the code: the message a refusal shows, if any.\<close>

definition oauth_refusal :: "oauth_lib \<Rightarrow> string \<Rightarrow> string \<Rightarrow> gtime \<Rightarrow> Request \<Rightarrow> string option" where
  "oauth_refusal L provider label now r =
     (if query_get r ''error'' \<noteq> [] then Some (label @ '' login cancelled: '' @ query_get r ''error'')
      else if query_get r ''state'' = [] \<or> query_get r ''code'' = [] then Some (''Missing code or state from '' @ label)
      else case getAndVerifyOAuthStateCookie L now r provider (query_get r ''state'') of
        Inl err \<Rightarrow> Some (''Authentication security check failed: '' @ Error err)
      | Inr _ \<Rightarrow> None)"

definition oauth_fetch :: "string \<Rightarrow> string \<Rightarrow> 'a reply \<Rightarrow> string + 'a result" where
  "oauth_fetch unprepared failed reply =
     (case reply of
        Unbuilt _ \<Rightarrow> Inl unprepared
      | Unreachable _ \<Rightarrow> Inl failed
      | Answer status _ body \<Rightarrow> if status \<noteq> 200 then Inl failed else Inr body)"

definition oauth_token :: "string \<Rightarrow> string reply \<Rightarrow> string + string" where
  "oauth_token label reply =
     (case oauth_fetch ''Internal error preparing token exchange'' (''Failed to exchange authorization code with '' @ label) reply of
        Inl msg \<Rightarrow> Inl msg
      | Inr (Inl _) \<Rightarrow> Inl (''Invalid token response from '' @ label)
      | Inr (Inr token) \<Rightarrow> if token = [] then Inl (''Invalid token response from '' @ label) else Inr token)"

definition google_token_request :: "Config \<Rightarrow> Request \<Rightarrow> string \<times> (string \<times> string) list" where
  "google_token_request cfg r =
     (oe_tokenURL googleEndpoints,
      [(''code'', query_get r ''code''), (''client_id'', cf_GoogleClientID cfg), (''client_secret'', cf_GoogleClientSecret cfg),
       (''redirect_uri'', getOAuthRedirectURI r ''google''), (''grant_type'', ''authorization_code'')])"

text \<open>A request with the access token: its address and its authorization.\<close>

type_synonym 'a token_call = "string \<times> string \<Rightarrow> 'a reply"

type_synonym code_call = "string \<times> (string \<times> string) list \<Rightarrow> string reply"

definition google_profile :: "world \<Rightarrow> Config \<Rightarrow> code_call \<Rightarrow> GoogleProfile token_call \<Rightarrow> Request \<Rightarrow> string + GoogleProfile" where
  "google_profile w cfg exchange profile r =
     (case oauth_token ''Google'' (exchange (google_token_request cfg r)) of
        Inl msg \<Rightarrow> Inl msg
      | Inr token \<Rightarrow>
          (case oauth_fetch ''Failed to fetch Google profile'' ''Failed to retrieve profile from Google''
             (profile (oe_userInfoURL googleEndpoints, ''Bearer '' @ token)) of
             Inl msg \<Rightarrow> Inl msg
           | Inr (Inl _) \<Rightarrow> Inl ''Google profile did not return a valid email address''
           | Inr (Inr profile) \<Rightarrow>
               if TrimSpace (w_rt w) (gp_Email profile) = [] then Inl ''Google profile did not return a valid email address'' else Inr profile))"

definition handleOAuthGoogleCallback :: "world \<Rightarrow> services \<Rightarrow> oauth_lib \<Rightarrow> Config \<Rightarrow> string \<Rightarrow> string result \<Rightarrow> randoms \<Rightarrow>
    code_call \<Rightarrow> GoogleProfile token_call \<Rightarrow> clocks \<Rightarrow> MemoryStore \<Rightarrow> Request \<Rightarrow> Response \<times> MemoryStore" where
  "handleOAuthGoogleCallback w sv L cfg bytes tok rnds exchange profile cks s r =
     map_prod (clearOAuthStateCookie w r) id
       (case oauth_refusal L ''google'' ''Google'' (cks 0 0) r of
          Some msg \<Rightarrow> (auth_error L msg, s)
        | None \<Rightarrow>
            (case google_profile w cfg exchange profile r of
               Inl msg \<Rightarrow> (auth_error L msg, s)
             | Inr p \<Rightarrow> completeOAuthLogin w sv L bytes tok rnds (later 1 cks) s r
                 (ToLower (w_rt w) (TrimSpace (w_rt w) (gp_Email p))) (gp_Name p) (gp_Picture p)))"

text \<open>The address of a GitHub account: the verified primary one, else the first verified one, else none.\<close>

definition verifiedEmail :: "GitHubEmail list \<Rightarrow> string" where
  "verifiedEmail emails =
     (let v = (case find (\<lambda>e. ge_Primary e \<and> ge_Verified e) emails of Some e \<Rightarrow> ge_Email e | None \<Rightarrow> [])
      in if v \<noteq> [] then v else case find ge_Verified emails of Some e \<Rightarrow> ge_Email e | None \<Rightarrow> [])"

definition displayName :: "GitHubUser \<Rightarrow> string \<Rightarrow> string" where
  "displayName u email =
     (if gu_Name u \<noteq> [] then gu_Name u else if gu_Login u \<noteq> [] then gu_Login u else hd (Split email (CHR ''@'')))"

text \<open>
  The profile counts for its status alone: a failure to decode it is ignored, and \<open>ghUser\<close> is what the
  decoder left.
\<close>

definition github_token_request :: "Config \<Rightarrow> Request \<Rightarrow> string \<times> (string \<times> string) list" where
  "github_token_request cfg r =
     (oe_tokenURL githubEndpoints,
      [(''client_id'', cf_GitHubClientID cfg), (''client_secret'', cf_GitHubClientSecret cfg), (''code'', query_get r ''code''),
       (''redirect_uri'', getOAuthRedirectURI r ''github'')])"

definition github_email :: "Config \<Rightarrow> code_call \<Rightarrow> unit token_call \<Rightarrow> GitHubEmail list token_call \<Rightarrow> Request \<Rightarrow> string + string" where
  "github_email cfg exchange profile emails r =
     (case oauth_token ''GitHub'' (exchange (github_token_request cfg r)) of
        Inl msg \<Rightarrow> Inl msg
      | Inr token \<Rightarrow>
          (case oauth_fetch ''Failed to fetch GitHub profile'' ''Failed to retrieve profile from GitHub''
             (profile (oe_userInfoURL githubEndpoints, ''Bearer '' @ token)) of
             Inl msg \<Rightarrow> Inl msg
           | Inr _ \<Rightarrow>
               (case oauth_fetch ''Failed to fetch GitHub emails'' ''Failed to query verified emails from GitHub''
                  (emails (oe_emailsURL githubEndpoints, ''Bearer '' @ token)) of
                  Inl msg \<Rightarrow> Inl msg
                | Inr (Inl _) \<Rightarrow> Inl ''Failed to parse GitHub emails''
                | Inr (Inr listed) \<Rightarrow>
                    if verifiedEmail listed = [] then Inl ''Your GitHub account does not have a verified email address''
                    else Inr (verifiedEmail listed))))"

definition handleOAuthGitHubCallback :: "world \<Rightarrow> services \<Rightarrow> oauth_lib \<Rightarrow> Config \<Rightarrow> string \<Rightarrow> string result \<Rightarrow> randoms \<Rightarrow>
    code_call \<Rightarrow> unit token_call \<Rightarrow> GitHubUser \<Rightarrow> GitHubEmail list token_call \<Rightarrow> clocks \<Rightarrow> MemoryStore \<Rightarrow> Request \<Rightarrow> Response \<times> MemoryStore" where
  "handleOAuthGitHubCallback w sv L cfg bytes tok rnds exchange profile ghUser emails cks s r =
     map_prod (clearOAuthStateCookie w r) id
       (case oauth_refusal L ''github'' ''GitHub'' (cks 0 0) r of
          Some msg \<Rightarrow> (auth_error L msg, s)
        | None \<Rightarrow>
            (case github_email cfg exchange profile emails r of
               Inl msg \<Rightarrow> (auth_error L msg, s)
             | Inr email \<Rightarrow> completeOAuthLogin w sv L bytes tok rnds (later 1 cks) s r
                 (ToLower (w_rt w) (TrimSpace (w_rt w) email)) (displayName ghUser email) (gu_AvatarURL ghUser)))"

section \<open>Whom a callback signs in\<close>

text \<open>Making organizations, members and projects leaves accounts and sessions alone.\<close>

definition same_accounts :: "MemoryStore \<Rightarrow> MemoryStore \<Rightarrow> bool" where
  "same_accounts s t \<longleftrightarrow> ms_users t = ms_users s \<and> ms_sessions t = ms_sessions s"

lemma same_accounts_trans: "same_accounts s t \<Longrightarrow> same_accounts t u \<Longrightarrow> same_accounts s u"
  by (simp add: same_accounts_def)

lemma same_accounts_create:
  "same_accounts s (snd (CreateOrganization clk rnd s org))" "same_accounts s (snd (CreateOrgMember clk rnd s m))"
  "same_accounts s (snd (CreateProject rt clk rnd s p))"
  by (simp_all add: same_accounts_def CreateOrganization_def CreateOrgMember_def CreateProject_def put_member_def Let_def)

lemma same_accounts_workspace: "same_accounts s (snd (provision_workspace w rnds cks s user))"
proof -
  have chain: "same_accounts s (snd (case f s of (a, s) \<Rightarrow> case g a s of (b, s) \<Rightarrow> case h a s of (c, s) \<Rightarrow> (k c, s)))"
    if "\<And>s. same_accounts s (snd (f s))" "\<And>a s. same_accounts s (snd (g a s))" "\<And>a s. same_accounts s (snd (h a s))"
    for f :: "MemoryStore \<Rightarrow> 'a \<times> MemoryStore" and g :: "'a \<Rightarrow> MemoryStore \<Rightarrow> 'b \<times> MemoryStore" and h :: "'a \<Rightarrow> MemoryStore \<Rightarrow> 'c \<times> MemoryStore"
      and k :: "'c \<Rightarrow> string"
    using that by (auto simp: same_accounts_def split_beta)
  show ?thesis
    unfolding provision_workspace_def Let_def by (rule chain) (rule same_accounts_create)+
qed

definition signs_in :: "MemoryStore \<Rightarrow> string \<Rightarrow> string option" where
  "signs_in s token = map_option se_UserID (mget (ms_sessions s) token)"

lemma UpdateUser_signs_in: "signs_in (snd (UpdateUser clk s user)) k = signs_in s k"
  by (auto simp: signs_in_def UpdateUser_def refresh_sessions_def put_user_def Let_def map_simps option.map_comp comp_def
      intro!: option.map_cong split: option.split)

lemma oauth_account_signs_in: "signs_in (snd (oauth_account w sv bytes rnds cks s email name avatar)) k = signs_in s k"
proof (cases "GetUserByEmail s email")
  case (Inl e)
  obtain u t where c: "CreateUser (cks 1) (rnds 1) s (oauth_user w sv bytes (rnds 0) (cks 0) email name avatar) = (u, t)" by fastforce
  moreover have "ms_sessions (snd (CreateUser (cks 1) (rnds 1) s new)) = ms_sessions s" for new
    by (simp add: CreateUser_def Let_def split: option.split)
  ultimately have "ms_sessions t = ms_sessions s" by (metis snd_conv)
  then show ?thesis
    using Inl same_accounts_workspace [of t w "\<lambda>i. rnds (2 + i)" "later 2 cks"]
    by (simp add: oauth_account_def c signs_in_def same_accounts_def split_beta del: One_nat_def add_2_eq_Suc split: sum.split)
next
  case (Inr user)
  then show ?thesis by (simp add: oauth_account_def UpdateUser_signs_in)
qed

lemma oauth_account_account:
  assumes "oauth_account w sv bytes rnds cks s email name avatar = (Inr (user, active), t)"
  shows "\<exists>u. us_ID u = us_ID user \<and> account_of s t email u"
proof (cases "mget (ms_users s) email")
  case None
  obtain res t1 where c: "CreateUser (cks 1) (rnds 1) s (oauth_user w sv bytes (rnds 0) (cks 0) email name avatar) = (res, t1)" by fastforce
  have res: "res = Inr user" and t: "t = snd (provision_workspace w (\<lambda>i. rnds (2 + i)) (later 2 cks) t1 user)"
    using assms None
    by (auto simp: oauth_account_def c GetUserByEmail_def split_beta simp del: One_nat_def add_2_eq_Suc split: sum.splits)
  have "us_Role user = RoleDeveloper" "mget (ms_users t1) (us_ID user) = Some user"
    using c by (auto simp: res CreateUser_def oauth_user_def NewUser_def Let_def map_simps split: option.splits if_splits)
  then show ?thesis
    using None same_accounts_workspace [of t1 w "\<lambda>i. rnds (2 + i)" "later 2 cks" user]
    by (intro exI [of _ user]) (simp add: account_of_def GetUserByID_def t same_accounts_def)
next
  case (Some u)
  then show ?thesis
    using assms by (intro exI [of _ u]) (auto simp: oauth_account_def account_of_def GetUserByEmail_def split: if_splits)
qed

lemma completeOAuthLogin_sound:
  assumes "signs_in (snd (completeOAuthLogin w sv L bytes tok rnds cks s r email name avatar)) k \<noteq> signs_in s k" (is "signs_in ?t k \<noteq> _")
  shows "tok = Inr k \<and> (\<exists>user. account_of s ?t email user \<and> signs_in ?t k = Some (us_ID user))"
proof -
  obtain res t where a: "oauth_account w sv bytes rnds cks s email name avatar = (res, t)" by fastforce
  have same: "signs_in t k = signs_in s k"
    using oauth_account_signs_in [of w sv bytes rnds cks s email name avatar k] by (simp add: a)
  obtain user active where res: "res = Inr (user, active)"
    using assms same by (cases res) (auto simp: completeOAuthLogin_def a)
  obtain token where tok: "tok = Inr token"
    using assms same by (cases tok) (auto simp: completeOAuthLogin_def a res)
  let ?sess = "(new_session token (us_ID user) (cks 7 0 + 7 * 24 * Hour))\<lparr>se_CreatedAt := cks 7 1\<rparr>"
  have t: "?t = CreateSession t ?sess"
    by (simp add: completeOAuthLogin_def a res tok Let_def)
  have k: "token = k"
    using assms same unfolding t by (auto simp: signs_in_def CreateSession_def new_session_def map_simps split: if_splits)
  obtain u where u: "us_ID u = us_ID user" "account_of s t email u"
    using oauth_account_account a [unfolded res] by blast
  then have "account_of s ?t email u"
    unfolding t by (auto simp: account_of_def CreateSession_def GetUserByID_def split: if_splits)
  moreover have "signs_in ?t k = Some (us_ID u)"
    unfolding t by (simp add: k u signs_in_def CreateSession_def new_session_def map_simps)
  ultimately show ?thesis using tok k by blast
qed

text \<open>The state of a flow: a cookie of this provider with the state of the request, at most ten minutes old.\<close>

definition oauth_state_held :: "oauth_lib \<Rightarrow> string \<Rightarrow> gtime \<Rightarrow> Request \<Rightarrow> bool" where
  "oauth_state_held L provider now r \<longleftrightarrow> query_get r ''code'' \<noteq> [] \<and>
     (\<exists>v b claims. cookie_get r CookieOAuthStateName = Some v \<and> so_raw L v = Some b \<and> ol_claims L b = Some claims \<and>
        ou_Provider claims = provider \<and> ou_State claims = query_get r ''state'' \<and> time_sub now (ou_CreatedAt claims) \<le> 10 * Minute)"

lemma oauth_refusal_None:
  assumes "oauth_refusal L provider label now r = None"
  shows "oauth_state_held L provider now r"
  using assms unfolding oauth_refusal_def getAndVerifyOAuthStateCookie_def oauth_state_held_def
  by (fastforce split: if_splits option.splits)

lemma verifiedEmail_verified:
  assumes "verifiedEmail emails \<noteq> []"
  shows "\<exists>e \<in> set emails. ge_Verified e \<and> ge_Email e = verifiedEmail emails"
proof -
  have found: "e \<in> set emails \<and> p e" if "find p emails = Some e" for p e
    using that by (metis find_Some_iff nth_mem)
  show ?thesis
    using assms unfolding verifiedEmail_def Let_def
    by (auto dest!: found split: option.splits if_splits)
qed

lemma oauth_fetchD: "oauth_fetch unprepared failed reply = Inr (Inr x) \<Longrightarrow> fetched reply = Some x"
  by (auto simp: oauth_fetch_def fetched_def split: reply.splits if_splits)

lemma github_emailD:
  assumes "github_email cfg exchange profile emails r = Inr email"
  shows "\<exists>token listed e. fetched (exchange (github_token_request cfg r)) = Some token \<and>
    fetched (emails (oe_emailsURL githubEndpoints, ''Bearer '' @ token)) = Some listed \<and> e \<in> set listed \<and> ge_Verified e \<and> ge_Email e = email"
  using assms verifiedEmail_verified
  by (fastforce simp: github_email_def oauth_token_def oauth_fetch_def fetched_def split: sum.splits reply.splits if_splits)


definition demo_oauth :: oauth_lib where
  "demo_oauth = sso_lib.extend demo_sso \<lparr>ol_seal = (\<lambda>c. Inr (ou_State c)),
     ol_claims = (\<lambda>b. Some \<lparr>ou_Provider = ''github'', ou_State = b, ou_Nonce = ''n'', ou_CreatedAt = 5\<rparr>)\<rparr>"

definition demo_emails :: "GitHubEmail list" where
  "demo_emails = [\<lparr>ge_Email = ''bob@x'', ge_Primary = True, ge_Verified = False\<rparr>, \<lparr>ge_Email = ''ann@acme.com'', ge_Primary = False, ge_Verified = True\<rparr>]"

definition demo_github :: MemoryStore where
  "demo_github = snd (handleOAuthGitHubCallback demo_world demo_services demo_oauth (initial_config demo_runtime (\<lambda>_. [])) ''bytes'' (Inr ''t7'') (\<lambda>_. ''rand'') (\<lambda>_. Answer 200 [] (Inr ''gh''))
     (\<lambda>_. Answer 200 [] (Inr ())) \<lparr>gu_Login = ''ann'', gu_Name = [], gu_AvatarURL = []\<rparr> (\<lambda>_. Answer 200 [] (Inr demo_emails)) (\<lambda>_ _. 7) demo_accounts
     ((demo_get [])\<lparr>rq_Query := [(''state'', ''st''), (''code'', ''cd'')], rq_Cookies := [(CookieOAuthStateName, ''st'')]\<rparr>))"

lemma github_callback_store:
  "snd (handleOAuthGitHubCallback w sv L cfg bytes tok rnds exchange profile ghUser emails cks s r) =
     (case oauth_refusal L ''github'' ''GitHub'' (cks 0 0) r of
        Some _ \<Rightarrow> s
      | None \<Rightarrow>
          (case github_email cfg exchange profile emails r of
             Inl _ \<Rightarrow> s
           | Inr email \<Rightarrow>
               (case oauth_account w sv bytes rnds (later 1 cks) s (ToLower (w_rt w) (TrimSpace (w_rt w) email)) (displayName ghUser email) (gu_AvatarURL ghUser) of
                  (Inl _, s) \<Rightarrow> s
                | (Inr (user, _), s) \<Rightarrow>
                    (case tok of
                       Inl _ \<Rightarrow> s
                     | Inr token \<Rightarrow> CreateSession s ((new_session token (us_ID user) (cks 8 0 + 7 * 24 * Hour))\<lparr>se_CreatedAt := cks 8 1\<rparr>)))))"
  unfolding handleOAuthGitHubCallback_def completeOAuthLogin_def Let_def
  by (simp add: later_def split: option.split sum.split prod.split)

lemma demo_github_signs_in: "signs_in demo_github ''t7'' \<noteq> signs_in demo_accounts ''t7''"
  unfolding demo_github_def github_callback_store by code_simp


text \<open>A Google callback signs in the account of the address of the profile, which carries no word on whether Google verified it.\<close>

lemma google_session_sound:
  fixes w sv L cfg bytes tok rnds exchange profile cks s r
  defines "t \<equiv> snd (handleOAuthGoogleCallback w sv L cfg bytes tok rnds exchange profile cks s r)"
  assumes "signs_in t k \<noteq> signs_in s k"
  shows "tok = Inr k \<and> oauth_state_held L ''google'' (cks 0 0) r \<and>
    (\<exists>token p user. fetched (profile (oe_userInfoURL googleEndpoints, ''Bearer '' @ token)) = Some p \<and>
        account_of s t (ToLower (w_rt w) (TrimSpace (w_rt w) (gp_Email p))) user \<and>
       signs_in t k = Some (us_ID user))"
proof (cases "oauth_refusal L ''google'' ''Google'' (cks 0 0) r")
  case (Some msg)
  then show ?thesis using assms(2) by (simp add: t_def handleOAuthGoogleCallback_def)
next
  case None
  then obtain p where p: "google_profile w cfg exchange profile r = Inr p"
    using assms(2) by (cases "google_profile w cfg exchange profile r") (auto simp: t_def handleOAuthGoogleCallback_def)
  have t: "t = snd (completeOAuthLogin w sv L bytes tok rnds (later 1 cks) s r (ToLower (w_rt w) (TrimSpace (w_rt w) (gp_Email p))) (gp_Name p) (gp_Picture p))"
    unfolding t_def by (simp add: handleOAuthGoogleCallback_def None p)
  have "\<exists>token. fetched (profile (oe_userInfoURL googleEndpoints, ''Bearer '' @ token)) = Some p"
    using p by (auto simp: google_profile_def dest!: oauth_fetchD split: sum.splits if_splits)
  then show ?thesis
    using completeOAuthLogin_sound [OF assms(2) [unfolded t]] oauth_refusal_None [OF None] unfolding t by blast
qed

section \<open>The start of a flow and its return\<close>

lemma oauth_login_roundtrip:
  assumes seal: "\<And>c v. ol_seal L c = Inr v \<Longrightarrow> v \<noteq> [] \<and> (\<exists>b. so_raw L v = Some b \<and> ol_claims L b = Some c)"
    and v: "ol_seal L \<lparr>ou_Provider = provider, ou_State = st, ou_Nonce = n, ou_CreatedAt = ck 0\<rparr> = Inr v"
    and "so_url L url (query st n) = Inr target"
  shows "begin_oauth w L provider label url query (Inr st) (Inr n) ck r =
      add_cookies [state_cookie w (ck 1) r CookieOAuthStateName v] (http_Redirect target 302)"
    and "cookie_get r' CookieOAuthStateName = Some v \<Longrightarrow> time_sub now (ck 0) \<le> 10 * Minute \<Longrightarrow> query_get r' ''error'' = [] \<Longrightarrow>
      query_get r' ''state'' = st \<Longrightarrow> st \<noteq> [] \<Longrightarrow> query_get r' ''code'' \<noteq> [] \<Longrightarrow> oauth_refusal L provider label now r' = None"
  using assms(2,3) seal [OF v]
  by (auto simp: begin_oauth_def setOAuthStateCookie_def oauth_refusal_def getAndVerifyOAuthStateCookie_def)

end
