(* ===== verification/OpenFeature.thy ===== *)
theory OpenFeature
  imports Client_Stream Sdk_Client Config
begin

text \<open>
  The OpenFeature providers: \<open>src/pkg/openfeature/provider.go\<close> over the server-side client and
  \<open>src/sdks/go/openfeature/provider.go\<close> over the SDK client. A provider maps a flat context to the context
  of its client, a result to the detail of each type, and reports changes of its client on a bounded
  channel. The name of the targeting key, the text of a value under the verb \<open>%v\<close> and the conversion of
  a float that does not fit into 64 bits are the record \<open>of_lib\<close>.
\<close>

section \<open>Details\<close>

datatype of_Reason = DisabledReason | TargetingMatchReason | SplitReason | DefaultReason | StaticReason | ErrorReason

datatype of_error = FlagNotFoundError string | TypeMismatchError string | GeneralError string

record 'a of_detail =
  od_Value :: 'a
  od_Error :: "of_error option"
  od_Reason :: of_Reason
  od_Variant :: string

record of_lib =
  oy_TargetingKey :: string
  oy_text :: "gvalue \<Rightarrow> string"
  oy_wild :: "f64 \<Rightarrow> int"

definition error_detail :: "'a \<Rightarrow> of_error \<Rightarrow> 'a of_detail" where
  "error_detail d e = \<lparr>od_Value = d, od_Error = Some e, od_Reason = ErrorReason, od_Variant = []\<rparr>"

definition plain_detail :: "'a \<Rightarrow> of_Reason \<Rightarrow> string \<Rightarrow> 'a of_detail" where
  "plain_detail v reason variant = \<lparr>od_Value = v, od_Error = None, od_Reason = reason, od_Variant = variant\<rparr>"

section \<open>The provider of the server-side client\<close>

definition isFlagNotFound :: "runtime \<Rightarrow> string \<Rightarrow> bool" where
  "isFlagNotFound rt r = (ToUpper rt r = ''FLAG_NOT_FOUND'')"

definition mapReason :: "runtime \<Rightarrow> string \<Rightarrow> of_Reason" where
  "mapReason rt r =
     (let norm = ToUpper rt r in
      if norm \<in> {ReasonKillSwitchDisabled, ReasonEnvDisabled, ''DISABLED''} then DisabledReason
      else if norm \<in> {ReasonTargetingRuleMatch, ''TARGETING_MATCH''} then TargetingMatchReason
      else if norm \<in> {ReasonPercentageBucket, ReasonMultivariateBucket, ''PERCENTAGE_ROLLOUT_MATCH'', ''MULTIVARIATE_VARIANT_MATCH'', ''SPLIT''} then SplitReason
      else if norm \<in> {ReasonDefaultEnabled, ''DEFAULT_OFF'', ''DEFAULT_VARIANT'', ''DEFAULT''} then DefaultReason
      else StaticReason)"

definition mapEvaluationError :: "runtime \<Rightarrow> gerror \<Rightarrow> string \<Rightarrow> of_error" where
  "mapEvaluationError rt err reason =
     (if isFlagNotFound rt reason then FlagNotFoundError (Error err) else GeneralError (Error err))"

text \<open>The five evaluations begin alike: an error, a missing flag and a flag that is off give the default.\<close>

definition resolved :: "runtime \<Rightarrow> string \<Rightarrow> 'a \<Rightarrow> ClientResult \<times> gerror option \<Rightarrow> (ClientResult \<Rightarrow> 'a of_detail) \<Rightarrow> 'a of_detail" where
  "resolved rt flag defaultValue out enabled =
     (case out of (res, err) \<Rightarrow>
        case err of
          Some e \<Rightarrow> error_detail defaultValue (mapEvaluationError rt e (ce_Reason res))
        | None \<Rightarrow>
            if isFlagNotFound rt (ce_Reason res)
            then error_detail defaultValue (FlagNotFoundError (''flag '' @ [CHR 0x27] @ flag @ [CHR 0x27] @ '' not found''))
            else if \<not> ce_Enabled res then plain_detail defaultValue (mapReason rt (ce_Reason res)) (ce_Variant res)
            else enabled res)"

definition served :: "runtime \<Rightarrow> ClientResult \<Rightarrow> 'a \<Rightarrow> 'a of_detail" where
  "served rt res v = plain_detail v (mapReason rt (ce_Reason res)) (ce_Variant res)"

text \<open>\<open>strconv.ParseBool\<close>.\<close>

definition ParseBool :: "string \<Rightarrow> bool option" where
  "ParseBool s =
     (if s \<in> {''1'', ''t'', ''T'', ''TRUE'', ''true'', ''True''} then Some True
      else if s \<in> {''0'', ''f'', ''F'', ''FALSE'', ''false'', ''False''} then Some False else None)"

definition boolean_detail :: "runtime \<Rightarrow> string \<Rightarrow> bool \<Rightarrow> ClientResult \<times> gerror option \<Rightarrow> bool of_detail" where
  "boolean_detail rt flag d out =
     resolved rt flag d out (\<lambda>res. served rt res
       (case ce_Value res of
          GBool b \<Rightarrow> b
        | GNil \<Rightarrow> True
        | GString str \<Rightarrow> (case ParseBool str of Some b \<Rightarrow> b | None \<Rightarrow> d)
        | _ \<Rightarrow> d))"

definition string_detail :: "runtime \<Rightarrow> string \<Rightarrow> string \<Rightarrow> ClientResult \<times> gerror option \<Rightarrow> string of_detail" where
  "string_detail rt flag d out =
     resolved rt flag d out (\<lambda>res. served rt res
       (case ce_Value res of
          GString str \<Rightarrow> if str \<noteq> [] then str else if ce_Variant res \<noteq> [] then ce_Variant res else d
        | _ \<Rightarrow> if ce_Variant res \<noteq> [] then ce_Variant res else d))"

text \<open>
  The conversions. The types \<open>int32\<close> and \<open>float32\<close>, which neither the engine nor the decoder of JSON makes,
  are not among the dynamic values. A conversion of a float to \<open>int64\<close> cuts the fraction off; what it
  gives for a float that does not fit is left to the implementation by the language.
\<close>

definition toFloat64 :: "gvalue \<Rightarrow> f64 option" where
  "toFloat64 v =
     (case v of GFloat n \<Rightarrow> Some n | GInt n \<Rightarrow> Some (f64_of_int (sint n)) | GInt64 n \<Rightarrow> Some (f64_of_int (sint n))
      | GString s \<Rightarrow> ParseFloat s | _ \<Rightarrow> None)"

definition trunc :: "rat \<Rightarrow> int" where
  "trunc q = (if q < 0 then - \<lfloor>- q\<rfloor> else \<lfloor>q\<rfloor>)"

definition int64_of :: "of_lib \<Rightarrow> f64 \<Rightarrow> int" where
  "int64_of B x =
     (case x of
        Fin q \<Rightarrow> if - (2 ^ 63) \<le> trunc q \<and> trunc q < 2 ^ 63 then trunc q else oy_wild B x
      | NZero \<Rightarrow> 0
      | _ \<Rightarrow> oy_wild B x)"

definition toInt64 :: "of_lib \<Rightarrow> gvalue \<Rightarrow> int option" where
  "toInt64 B v =
     (case v of GInt64 n \<Rightarrow> Some (sint n) | GInt n \<Rightarrow> Some (sint n) | GFloat n \<Rightarrow> Some (int64_of B n) | GString s \<Rightarrow> Atoi s | _ \<Rightarrow> None)"

definition float_detail :: "runtime \<Rightarrow> of_lib \<Rightarrow> string \<Rightarrow> f64 \<Rightarrow> ClientResult \<times> gerror option \<Rightarrow> f64 of_detail" where
  "float_detail rt B flag d out =
     resolved rt flag d out (\<lambda>res.
       case toFloat64 (ce_Value res) of
         None \<Rightarrow> error_detail d (TypeMismatchError (''cannot convert value '' @ oy_text B (ce_Value res) @ '' to float64''))
       | Some v \<Rightarrow> served rt res v)"

definition int_detail :: "runtime \<Rightarrow> of_lib \<Rightarrow> string \<Rightarrow> int \<Rightarrow> ClientResult \<times> gerror option \<Rightarrow> int of_detail" where
  "int_detail rt B flag d out =
     resolved rt flag d out (\<lambda>res.
       case toInt64 B (ce_Value res) of
         None \<Rightarrow> error_detail d (TypeMismatchError (''cannot convert value '' @ oy_text B (ce_Value res) @ '' to int64''))
       | Some v \<Rightarrow> served rt res v)"

definition object_detail :: "runtime \<Rightarrow> string \<Rightarrow> gvalue \<Rightarrow> ClientResult \<times> gerror option \<Rightarrow> gvalue of_detail" where
  "object_detail rt flag d out =
     resolved rt flag d out (\<lambda>res. served rt res (if ce_Value res = GNil then d else ce_Value res))"

text \<open>The context, from the entries in the order the range over the map visits them.\<close>

definition put_text :: "gvalue \<Rightarrow> (string \<Rightarrow> ClientContext \<Rightarrow> ClientContext) \<Rightarrow> ClientContext \<Rightarrow> ClientContext" where
  "put_text v f ctx = (case v of GString str \<Rightarrow> f str ctx | _ \<Rightarrow> ctx)"

definition put_entry :: "of_lib \<Rightarrow> string \<times> gvalue \<Rightarrow> ClientContext \<Rightarrow> ClientContext" where
  "put_entry B kv ctx =
     (case kv of (k, v) \<Rightarrow>
        if k \<in> {oy_TargetingKey B, ''user_id'', ''userId'', ''id''} then put_text v (\<lambda>str ctx. ctx\<lparr>ct_UserID := str\<rparr>) ctx
        else if k = ''email'' then put_text v (\<lambda>str ctx. ctx\<lparr>ct_Email := str\<rparr>) ctx
        else if k = ''country'' then put_text v (\<lambda>str ctx. ctx\<lparr>ct_Country := str\<rparr>) ctx
        else if k = ''role'' then put_text v (\<lambda>str ctx. ctx\<lparr>ct_Role := str\<rparr>) ctx
        else if k = ''tier'' then put_text v (\<lambda>str ctx. ctx\<lparr>ct_Tier := str\<rparr>) ctx
        else if k \<in> {''environment'', ''env''} then put_text v (\<lambda>str ctx. ctx\<lparr>ct_Environment := str\<rparr>) ctx
        else ctx\<lparr>ct_Custom := mput k v (ct_Custom ctx)\<rparr>)"

definition extractContext :: "of_lib \<Rightarrow> (string \<times> gvalue) list \<Rightarrow> ClientContext" where
  "extractContext B entries =
     fold (put_entry B) entries
       \<lparr>ct_UserID = [], ct_Email = [], ct_Country = [], ct_Role = [], ct_Tier = [], ct_Environment = [], ct_Custom = []\<rparr>"

section \<open>Events\<close>

datatype of_event = ProviderReady string | ProviderError string | ProviderConfigChange string "string list"

record Provider =
  op_client :: Client
  op_events :: "of_event list"

text \<open>A send that would block is dropped: the channel holds fifty events.\<close>

definition emit :: "of_event \<Rightarrow> of_event list \<Rightarrow> of_event list" where
  "emit e ch = (if length ch < 50 then ch @ [e] else ch)"

definition connected_text :: "string \<Rightarrow> string" where
  "connected_text st = ''Flagura provider connected ('' @ st @ '')''"

abbreviation (input) "sync_text \<equiv> ''Flag configurations synchronized from Flagura control plane''"

definition NewProvider :: "Client \<Rightarrow> Provider" where
  "NewProvider c =
     \<lparr>op_client = c,
      op_events = (if cl_connState c \<in> {''CONNECTED_SSE'', ''CONNECTED_POLLING''} then emit (ProviderReady (connected_text (cl_connState c))) [] else [])\<rparr>"

text \<open>The two listeners of the provider, called by the client with what it reports.\<close>

definition on_update :: "((string, FeatureFlag) gomap \<times> string list) option \<Rightarrow> of_event list \<Rightarrow> of_event list" where
  "on_update call ch = (case call of None \<Rightarrow> ch | Some (_, changedKeys) \<Rightarrow> emit (ProviderConfigChange sync_text changedKeys) ch)"

definition on_state :: "(string \<times> string) option \<Rightarrow> of_event list \<Rightarrow> of_event list" where
  "on_state change ch =
     (case change of
        None \<Rightarrow> ch
      | Some (_, nxt) \<Rightarrow>
          if nxt \<in> {''CONNECTED_SSE'', ''CONNECTED_POLLING''} then emit (ProviderReady (connected_text nxt)) ch
          else if nxt = ''DISCONNECTED'' then emit (ProviderError ''Flagura client disconnected from control plane'') ch
          else ch)"

definition of_Init :: "Provider \<Rightarrow> Provider" where
  "of_Init p = p\<lparr>op_events := emit (ProviderReady ''Flagura provider initialized successfully'') (op_events p)\<rparr>"

text \<open>What a provider sees of its client: a new list of flags, a change of the state, and the reader of the channel.\<close>

definition provider_flags :: "FeatureFlag list \<Rightarrow> Provider \<Rightarrow> Provider" where
  "provider_flags flags p =
     (case updateFlags flags (op_client p) of (c, call) \<Rightarrow> \<lparr>op_client = c, op_events = on_update call (op_events p)\<rparr>)"

definition provider_state :: "string \<Rightarrow> Provider \<Rightarrow> Provider" where
  "provider_state nxt p =
     (case setConnectionState nxt (op_client p) of (c, change) \<Rightarrow> \<lparr>op_client = c, op_events = on_state change (op_events p)\<rparr>)"

section \<open>The evaluations\<close>

definition provider_call :: "runtime \<Rightarrow> of_lib \<Rightarrow> regex_cache \<Rightarrow> int \<Rightarrow> clock \<Rightarrow> remote_reply \<Rightarrow> Provider \<Rightarrow> string \<Rightarrow>
    (string \<times> gvalue) list \<Rightarrow> (ClientResult \<times> gerror option) \<times> Provider" where
  "provider_call rt B cache ns ck reply p flag flatCtx =
     (case client_Evaluate rt cache ns ck reply (op_client p) flag (extractContext B flatCtx) of
        (out, c) \<Rightarrow> (out, p\<lparr>op_client := c\<rparr>))"

definition BooleanEvaluation :: "runtime \<Rightarrow> of_lib \<Rightarrow> regex_cache \<Rightarrow> int \<Rightarrow> clock \<Rightarrow> remote_reply \<Rightarrow> Provider \<Rightarrow> string \<Rightarrow> bool \<Rightarrow>
    (string \<times> gvalue) list \<Rightarrow> bool of_detail \<times> Provider" where
  "BooleanEvaluation rt B cache ns ck reply p flag d flatCtx =
     map_prod (boolean_detail rt flag d) id (provider_call rt B cache ns ck reply p flag flatCtx)"

definition StringEvaluation :: "runtime \<Rightarrow> of_lib \<Rightarrow> regex_cache \<Rightarrow> int \<Rightarrow> clock \<Rightarrow> remote_reply \<Rightarrow> Provider \<Rightarrow> string \<Rightarrow> string \<Rightarrow>
    (string \<times> gvalue) list \<Rightarrow> string of_detail \<times> Provider" where
  "StringEvaluation rt B cache ns ck reply p flag d flatCtx =
     map_prod (string_detail rt flag d) id (provider_call rt B cache ns ck reply p flag flatCtx)"

definition FloatEvaluation :: "runtime \<Rightarrow> of_lib \<Rightarrow> regex_cache \<Rightarrow> int \<Rightarrow> clock \<Rightarrow> remote_reply \<Rightarrow> Provider \<Rightarrow> string \<Rightarrow> f64 \<Rightarrow>
    (string \<times> gvalue) list \<Rightarrow> f64 of_detail \<times> Provider" where
  "FloatEvaluation rt B cache ns ck reply p flag d flatCtx =
     map_prod (float_detail rt B flag d) id (provider_call rt B cache ns ck reply p flag flatCtx)"

definition IntEvaluation :: "runtime \<Rightarrow> of_lib \<Rightarrow> regex_cache \<Rightarrow> int \<Rightarrow> clock \<Rightarrow> remote_reply \<Rightarrow> Provider \<Rightarrow> string \<Rightarrow> int \<Rightarrow>
    (string \<times> gvalue) list \<Rightarrow> int of_detail \<times> Provider" where
  "IntEvaluation rt B cache ns ck reply p flag d flatCtx =
     map_prod (int_detail rt B flag d) id (provider_call rt B cache ns ck reply p flag flatCtx)"

definition ObjectEvaluation :: "runtime \<Rightarrow> of_lib \<Rightarrow> regex_cache \<Rightarrow> int \<Rightarrow> clock \<Rightarrow> remote_reply \<Rightarrow> Provider \<Rightarrow> string \<Rightarrow> gvalue \<Rightarrow>
    (string \<times> gvalue) list \<Rightarrow> gvalue of_detail \<times> Provider" where
  "ObjectEvaluation rt B cache ns ck reply p flag d flatCtx =
     map_prod (object_detail rt flag d) id (provider_call rt B cache ns ck reply p flag flatCtx)"

section \<open>The provider of the SDK client\<close>

definition sdk_mapReason :: "string \<Rightarrow> of_Reason" where
  "sdk_mapReason r =
     (if Contains r ''FLAG_NOT_FOUND'' then ErrorReason
      else if Contains r ''RULE_MATCH'' then TargetingMatchReason
      else if Contains r ''PERCENTAGE_ROLLOUT'' \<or> Contains r ''MULTIVARIATE'' then SplitReason
      else if Contains r ''DISABLED'' then DisabledReason
      else DefaultReason)"

definition sdk_mapEvaluationError :: "gerror \<Rightarrow> string \<Rightarrow> of_error" where
  "sdk_mapEvaluationError err reason =
     (if Contains reason ''FLAG_NOT_FOUND'' \<or> Contains (Error err) ''not found'' then FlagNotFoundError (Error err)
      else if Contains reason ''TYPE_MISMATCH'' then TypeMismatchError (Error err)
      else GeneralError (Error err))"

definition sdk_detail :: "'a \<Rightarrow> SdkResult \<times> gerror option \<Rightarrow> (SdkResult \<Rightarrow> 'a) \<Rightarrow> 'a of_detail" where
  "sdk_detail d out val =
     (case out of (res, err) \<Rightarrow>
        case err of
          Some e \<Rightarrow> error_detail d (sdk_mapEvaluationError e (kz_Reason res))
        | None \<Rightarrow> plain_detail (val res) (sdk_mapReason (kz_Reason res)) (kz_Variant res))"

definition sdk_boolean_detail :: "bool \<Rightarrow> SdkResult \<times> gerror option \<Rightarrow> bool of_detail" where
  "sdk_boolean_detail d out = sdk_detail d out kz_Enabled"

definition sdk_string_detail :: "string \<Rightarrow> SdkResult \<times> gerror option \<Rightarrow> string of_detail" where
  "sdk_string_detail d out = sdk_detail d out (\<lambda>res.
     let val = (if kz_Variant res \<noteq> [] then kz_Variant res else d)
     in case kz_Value res of GString str \<Rightarrow> if str \<noteq> [] then str else val | _ \<Rightarrow> val)"

definition sdk_float_detail :: "f64 \<Rightarrow> SdkResult \<times> gerror option \<Rightarrow> f64 of_detail" where
  "sdk_float_detail d out = sdk_detail d out (\<lambda>res.
     case kz_Value res of GFloat v \<Rightarrow> v | GInt v \<Rightarrow> f64_of_int (sint v) | GInt64 v \<Rightarrow> f64_of_int (sint v)
     | GString v \<Rightarrow> (case ParseFloat v of Some x \<Rightarrow> x | None \<Rightarrow> d) | _ \<Rightarrow> d)"

definition sdk_int_detail :: "of_lib \<Rightarrow> int \<Rightarrow> SdkResult \<times> gerror option \<Rightarrow> int of_detail" where
  "sdk_int_detail B d out = sdk_detail d out (\<lambda>res.
     case kz_Value res of GInt64 v \<Rightarrow> sint v | GInt v \<Rightarrow> sint v | GFloat v \<Rightarrow> int64_of B v
     | GString v \<Rightarrow> (case Atoi v of Some x \<Rightarrow> x | None \<Rightarrow> d) | _ \<Rightarrow> d)"

definition sdk_object_detail :: "gvalue \<Rightarrow> SdkResult \<times> gerror option \<Rightarrow> gvalue of_detail" where
  "sdk_object_detail d out = sdk_detail d out (\<lambda>res. if kz_Value res = GNil then d else kz_Value res)"

definition sdk_put_entry :: "runtime \<Rightarrow> of_lib \<Rightarrow> string \<times> gvalue \<Rightarrow> SdkContext \<Rightarrow> SdkContext" where
  "sdk_put_entry rt B kv ctx =
     (case kv of (k, v) \<Rightarrow>
        let key = ToLower rt k; str = oy_text B v in
        if key \<in> {''targetingkey'', ''user_id'', ''userid''} then ctx\<lparr>kx_UserID := str\<rparr>
        else if key = ''email'' then ctx\<lparr>kx_Email := str\<rparr>
        else if key = ''country'' then ctx\<lparr>kx_Country := str\<rparr>
        else if key = ''role'' then ctx\<lparr>kx_Role := str\<rparr>
        else if key = ''tier'' then ctx\<lparr>kx_Tier := str\<rparr>
        else if key = ''environment'' then ctx\<lparr>kx_Environment := str\<rparr>
        else ctx\<lparr>kx_Custom := mput k v (kx_Custom ctx)\<rparr>)"

definition sdk_extractContext :: "runtime \<Rightarrow> of_lib \<Rightarrow> (string \<times> gvalue) list \<Rightarrow> SdkContext" where
  "sdk_extractContext rt B entries =
     fold (sdk_put_entry rt B) entries
       \<lparr>kx_UserID = [], kx_Email = [], kx_Country = [], kx_Role = [], kx_Tier = [], kx_Environment = [], kx_Custom = []\<rparr>"

record SdkProvider =
  oq_client :: SdkClient
  oq_events :: "of_event list"

text \<open>The listener of the SDK's provider is called with no changed keys.\<close>

definition sdk_NewProvider :: "SdkClient \<Rightarrow> SdkProvider" where
  "sdk_NewProvider c = \<lparr>oq_client = sdk_RegisterUpdateListener ''provider'' c, oq_events = []\<rparr>"

definition sdk_on_update :: "SdkProvider \<Rightarrow> SdkProvider" where
  "sdk_on_update p = p\<lparr>oq_events := emit (ProviderConfigChange sync_text []) (oq_events p)\<rparr>"

definition sdk_Init :: "SdkProvider \<Rightarrow> SdkProvider" where
  "sdk_Init p = p\<lparr>oq_events := emit (ProviderReady ''Flagura provider initialized successfully'') (oq_events p)\<rparr>"

definition sdk_Shutdown :: "bool \<Rightarrow> SdkProvider \<Rightarrow> TelemetryEvent list option \<times> SdkProvider" where
  "sdk_Shutdown built p = (case sdk_Close built (oq_client p) of (out, c) \<Rightarrow> (out, p\<lparr>oq_client := c\<rparr>))"

definition sdk_provider_call :: "runtime \<Rightarrow> of_lib \<Rightarrow> regex_cache \<Rightarrow> int \<Rightarrow> clock \<Rightarrow> sdk_reply \<Rightarrow> SdkProvider \<Rightarrow> string \<Rightarrow>
    (string \<times> gvalue) list \<Rightarrow> (SdkResult \<times> gerror option) \<times> SdkProvider" where
  "sdk_provider_call rt B cache ns ck reply p flag flatCtx =
     (case sdk_Evaluate rt cache ns ck reply (oq_client p) flag (sdk_extractContext rt B flatCtx) of
        (out, c) \<Rightarrow> (out, p\<lparr>oq_client := c\<rparr>))"

definition sdk_BooleanEvaluation :: "runtime \<Rightarrow> of_lib \<Rightarrow> regex_cache \<Rightarrow> int \<Rightarrow> clock \<Rightarrow> sdk_reply \<Rightarrow> SdkProvider \<Rightarrow> string \<Rightarrow> bool \<Rightarrow>
    (string \<times> gvalue) list \<Rightarrow> bool of_detail \<times> SdkProvider" where
  "sdk_BooleanEvaluation rt B cache ns ck reply p flag d flatCtx =
     map_prod (sdk_boolean_detail d) id (sdk_provider_call rt B cache ns ck reply p flag flatCtx)"

definition sdk_StringEvaluation :: "runtime \<Rightarrow> of_lib \<Rightarrow> regex_cache \<Rightarrow> int \<Rightarrow> clock \<Rightarrow> sdk_reply \<Rightarrow> SdkProvider \<Rightarrow> string \<Rightarrow> string \<Rightarrow>
    (string \<times> gvalue) list \<Rightarrow> string of_detail \<times> SdkProvider" where
  "sdk_StringEvaluation rt B cache ns ck reply p flag d flatCtx =
     map_prod (sdk_string_detail d) id (sdk_provider_call rt B cache ns ck reply p flag flatCtx)"

definition sdk_FloatEvaluation :: "runtime \<Rightarrow> of_lib \<Rightarrow> regex_cache \<Rightarrow> int \<Rightarrow> clock \<Rightarrow> sdk_reply \<Rightarrow> SdkProvider \<Rightarrow> string \<Rightarrow> f64 \<Rightarrow>
    (string \<times> gvalue) list \<Rightarrow> f64 of_detail \<times> SdkProvider" where
  "sdk_FloatEvaluation rt B cache ns ck reply p flag d flatCtx =
     map_prod (sdk_float_detail d) id (sdk_provider_call rt B cache ns ck reply p flag flatCtx)"

definition sdk_IntEvaluation :: "runtime \<Rightarrow> of_lib \<Rightarrow> regex_cache \<Rightarrow> int \<Rightarrow> clock \<Rightarrow> sdk_reply \<Rightarrow> SdkProvider \<Rightarrow> string \<Rightarrow> int \<Rightarrow>
    (string \<times> gvalue) list \<Rightarrow> int of_detail \<times> SdkProvider" where
  "sdk_IntEvaluation rt B cache ns ck reply p flag d flatCtx =
     map_prod (sdk_int_detail B d) id (sdk_provider_call rt B cache ns ck reply p flag flatCtx)"

definition sdk_ObjectEvaluation :: "runtime \<Rightarrow> of_lib \<Rightarrow> regex_cache \<Rightarrow> int \<Rightarrow> clock \<Rightarrow> sdk_reply \<Rightarrow> SdkProvider \<Rightarrow> string \<Rightarrow> gvalue \<Rightarrow>
    (string \<times> gvalue) list \<Rightarrow> gvalue of_detail \<times> SdkProvider" where
  "sdk_ObjectEvaluation rt B cache ns ck reply p flag d flatCtx =
     map_prod (sdk_object_detail d) id (sdk_provider_call rt B cache ns ck reply p flag flatCtx)"

section \<open>The contract of a detail\<close>

text \<open>
  What every evaluation of a provider owes its caller, whatever the type: an error of the client is an
  error of the detail and leaves the default, and without one there is no error but a mismatch of
  the type.
\<close>

locale typed_evaluation =
  fixes detail :: "'a \<Rightarrow> 'r \<times> gerror option \<Rightarrow> 'a of_detail"
    and missing :: "'r \<Rightarrow> bool"
  assumes failed: "od_Value (detail d (res, Some e)) = d \<and> od_Error (detail d (res, Some e)) \<noteq> None
      \<and> od_Reason (detail d (res, Some e)) = ErrorReason"
    and answered: "\<not> missing res \<Longrightarrow> od_Error (detail d (res, None)) = None \<or>
      (\<exists>t. detail d (res, None) = error_detail d (TypeMismatchError t))"
begin

lemma error_default:
  assumes "\<not> missing (fst out)" and "od_Error (detail d out) \<noteq> None"
  shows "od_Value (detail d out) = d"
proof (cases out)
  case (Pair res err)
  then show ?thesis
    using assms failed [of d res] answered [of res d] by (cases err) (auto simp: error_detail_def)
qed

end

lemma resolved_failed: "resolved rt flag d (res, Some e) f = error_detail d (mapEvaluationError rt e (ce_Reason res))"
  by (simp add: resolved_def)

lemmas detail_simps = error_detail_def plain_detail_def served_def resolved_def

interpretation boolean_evaluation: typed_evaluation "boolean_detail rt flag" "\<lambda>res. isFlagNotFound rt (ce_Reason res)"
  by unfold_locales (auto simp: boolean_detail_def detail_simps)

interpretation string_evaluation: typed_evaluation "string_detail rt flag" "\<lambda>res. isFlagNotFound rt (ce_Reason res)"
  by unfold_locales (auto simp: string_detail_def detail_simps)

interpretation float_evaluation: typed_evaluation "float_detail rt B flag" "\<lambda>res. isFlagNotFound rt (ce_Reason res)"
  by unfold_locales (auto simp: float_detail_def detail_simps split: option.splits)

interpretation int_evaluation: typed_evaluation "int_detail rt B flag" "\<lambda>res. isFlagNotFound rt (ce_Reason res)"
  by unfold_locales (auto simp: int_detail_def detail_simps split: option.splits)

interpretation object_evaluation: typed_evaluation "object_detail rt flag" "\<lambda>res. isFlagNotFound rt (ce_Reason res)"
  by unfold_locales (auto simp: object_detail_def detail_simps)

interpretation sdk_boolean_evaluation: typed_evaluation sdk_boolean_detail "\<lambda>_. False"
  by unfold_locales (auto simp: sdk_boolean_detail_def sdk_detail_def detail_simps)

interpretation sdk_int_evaluation: typed_evaluation "sdk_int_detail B" "\<lambda>_. False"
  by unfold_locales (auto simp: sdk_int_detail_def sdk_detail_def detail_simps)

interpretation sdk_string_evaluation: typed_evaluation sdk_string_detail "\<lambda>_. False"
  by unfold_locales (auto simp: sdk_string_detail_def sdk_detail_def detail_simps)

interpretation sdk_float_evaluation: typed_evaluation sdk_float_detail "\<lambda>_. False"
  by unfold_locales (auto simp: sdk_float_detail_def sdk_detail_def detail_simps)

interpretation sdk_object_evaluation: typed_evaluation sdk_object_detail "\<lambda>_. False"
  by unfold_locales (auto simp: sdk_object_detail_def sdk_detail_def detail_simps)

section \<open>From the store to a detail\<close>

definition engine_reasons :: "string set" where
  "engine_reasons = {ReasonKillSwitchDisabled, ReasonTargetingRuleMatch, ReasonPercentageBucket, ReasonPercentageExcluded,
     ReasonMultivariateBucket, ReasonDefaultEnabled}"

lemma EvaluateFlag_reason: "er_Reason (fst (EvaluateFlag rt cache ns f ctx)) \<in> engine_reasons"
  by (simp add: EvaluateFlag_def engine_reasons_def rule_result_def strategy_result_def Let_def split_beta split: option.split prod.split)

lemma upper_reason:
  assumes "r \<in> engine_reasons \<union> {''FLAG_NOT_FOUND''}"
  shows "ToUpper rt r = r"
proof -
  have "list_all (\<lambda>r. isASCII r \<and> map upper_char r = r) [''FLAG_NOT_FOUND'', ReasonKillSwitchDisabled, ReasonTargetingRuleMatch,
      ReasonPercentageBucket, ReasonPercentageExcluded, ReasonMultivariateBucket, ReasonDefaultEnabled]"
    by code_simp
  then show ?thesis
    using assms by (auto simp: ToUpper_def engine_reasons_def)
qed

lemma engine_reason_found: "r \<in> engine_reasons \<Longrightarrow> \<not> isFlagNotFound rt r"
  using upper_reason [of r rt] by (auto simp: engine_reasons_def isFlagNotFound_def)

text \<open>A flag that is a switch: no variants, neither by its strategy nor by a rule.\<close>

definition plain_switch :: "EnvironmentConfig \<Rightarrow> bool" where
  "plain_switch cfg \<longleftrightarrow> ec_Strategy cfg \<noteq> StrategyMultivariate \<and> list_all (\<lambda>r. tr_Action r \<noteq> ActionServeVariant) (ec_Rules cfg)"

lemma first_match_in: "fst (first_match rt cache ctx rules) = Some r \<Longrightarrow> r \<in> set rules"
  by (induction rules arbitrary: cache) (auto split: prod.splits bool.splits)

lemma EvaluateFlag_switch:
  assumes "plain_switch (env_config f ctx)"
  shows "er_Value (fst (EvaluateFlag rt cache ns f ctx)) = GBool (er_Enabled (fst (EvaluateFlag rt cache ns f ctx)))"
proof (cases "fst (first_match rt cache ctx (ec_Rules (env_config f ctx)))")
  case None
  then show ?thesis
    using assms by (simp add: EvaluateFlag_def strategy_result_def plain_switch_def Let_def split_beta)
next
  case (Some r)
  then have "tr_Action r \<noteq> ActionServeVariant"
    using assms first_match_in by (fastforce simp: plain_switch_def list_all_iff)
  with Some show ?thesis by (simp add: EvaluateFlag_def rule_result_def Let_def split_beta)
qed

lemma boolean_detail_switch:
  assumes "ce_Value res = GBool (ce_Enabled res)" and "ce_Reason res \<in> engine_reasons"
  shows "boolean_detail rt flag d (res, None) = served rt res (ce_Enabled res \<or> d)"
  using assms engine_reason_found [OF assms(2), of rt] by (auto simp: boolean_detail_def resolved_def served_def)


definition demo_of :: of_lib where
  "demo_of = \<lparr>oy_TargetingKey = ''targetingKey'', oy_text = (\<lambda>v. case v of GString t \<Rightarrow> t | _ \<Rightarrow> []), oy_wild = (\<lambda>_. 0)\<rparr>"


section \<open>Where the providers surprise\<close>

text \<open>A caller with the default true is served true by a flag that is switched off.\<close>

lemma openfeature_default_overrides_kill_switch:
  assumes "mget (cl_flags (op_client p)) k = Some f" and "cc_LocalEvaluation (cl_config (op_client p))"
    and "\<not> ec_Enabled (env_config f (toDomainContext (op_client p) (extractContext B entries)))"
  shows "od_Value (fst (BooleanEvaluation rt B cache ns ck reply p k True entries))"
    and "od_Error (fst (BooleanEvaluation rt B cache ns ck reply p k True entries)) = None"
  using assms engine_reason_found [of ReasonKillSwitchDisabled rt]
  by (simp_all add: BooleanEvaluation_def provider_call_def client_Evaluate_def evaluateLocal_def EvaluateFlag_def client_result_def
      boolean_detail_def resolved_def plain_detail_def engine_reasons_def Let_def)

text \<open>The SDK's provider serves what the client decides.\<close>

lemma sdk_provider_exact: "od_Value (sdk_boolean_detail d (res, None)) = kz_Enabled res"
  by (simp add: sdk_boolean_detail_def sdk_detail_def plain_detail_def)

text \<open>
  With a targeting key and a user ID in one context the order of the range decides who is bucketed:
  the two orders of one map give two users.
\<close>

lemma openfeature_context_order:
  assumes "u \<noteq> v"
  shows "ct_UserID (extractContext B [(oy_TargetingKey B, GString u), (''user_id'', GString v)]) \<noteq>
    ct_UserID (extractContext B [(''user_id'', GString v), (oy_TargetingKey B, GString u)])"
  using assms by (simp add: extractContext_def put_entry_def put_text_def)

text \<open>A user outside the percentage is reported as static, one inside as split.\<close>

lemma openfeature_excluded_static:
  "mapReason rt ReasonPercentageExcluded = StaticReason" "mapReason rt ReasonPercentageBucket = SplitReason"
  by (simp_all add: mapReason_def upper_reason engine_reasons_def)

section \<open>The channel of events\<close>

lemma emit_bounded: "length ch \<le> 50 \<Longrightarrow> length (emit e ch) \<le> 50"
  by (simp add: emit_def)

text \<open>A provider reports every change of its client in order, as long as somebody reads: an event is lost only when fifty are waiting.\<close>

lemma provider_events:
  "length (op_events (NewProvider c)) \<le> 50"
  "length (op_events p) \<le> 50 \<Longrightarrow> length (op_events (provider_flags flags p)) \<le> 50 \<and> length (op_events (provider_state nxt p)) \<le> 50
     \<and> length (op_events (of_Init p)) \<le> 50"
  by (auto simp: NewProvider_def provider_flags_def provider_state_def of_Init_def on_update_def on_state_def
      intro: emit_bounded split: prod.split option.split)

lemma provider_reports:
  assumes "length (op_events p) < 50"
  shows "changed_keys (cl_flags (op_client p)) flags \<noteq> [] \<Longrightarrow>
      op_events (provider_flags flags p) = op_events p @ [ProviderConfigChange sync_text (changed_keys (cl_flags (op_client p)) flags)]"
    and "cl_connState (op_client p) \<noteq> ''DISCONNECTED'' \<Longrightarrow>
      op_events (provider_state ''DISCONNECTED'' p) = op_events p @ [ProviderError ''Flagura client disconnected from control plane'']"
  using assms
  by (simp_all add: provider_flags_def provider_state_def updateFlags_def setConnectionState_def on_update_def on_state_def emit_def Let_def)

end
