(* ===== verification/Sqlite_Store.thy ===== *)
theory Sqlite_Store
  imports Engine Serving Store_Audit Store_Tenancy
begin

text \<open>
  The flags and the audit log of the SQLite store, \<open>src/pkg/store/sqlite.go\<close>. A table is the list of its
  rows in the order of their row numbers; a statement is the operation on lists it describes, with the
  uniqueness constraints of the schema. Text is compared bytewise, as SQLite does it, also where the
  text is a time. \<open>fault i\<close> is the failure of the \<open>i\<close>-th statement of a call, if any. The codec of the JSON
  columns, the parser of times, the order of a query without one and the errors of constraints are the
  record \<open>sql_lib\<close>.
\<close>

section \<open>Tables\<close>

record FlagRow =
  fr_id :: string
  fr_project_id :: string
  fr_key :: string
  fr_config_version :: "64 word"
  fr_name :: string
  fr_description :: string
  fr_type :: string
  fr_tags :: string
  fr_environments :: string
  fr_created_at :: string
  fr_updated_at :: string

record AuditRow =
  ar_id :: string
  ar_project_id :: string
  ar_flag_key :: string
  ar_action :: string
  ar_environment :: string
  ar_actor :: string
  ar_details :: string
  ar_prev_hash :: string
  ar_entry_hash :: string
  ar_timestamp :: string

record SqlDb =
  db_feature_flags :: "FlagRow list"
  db_audit_logs :: "AuditRow list"
  db_audit_anchors :: "(string, string) gomap"

type_synonym faults = "nat \<Rightarrow> gerror option"

abbreviation (input) "from i fault \<equiv> (\<lambda>j. fault (i + j))"

record sql_lib =
  sq_tags :: "string list \<Rightarrow> string"
  sq_untags :: "string \<Rightarrow> string list"
  sq_envs :: "(string, EnvironmentConfig) gomap \<Rightarrow> string"
  sq_unenvs :: "string \<Rightarrow> (string, EnvironmentConfig) gomap"
  sq_time :: "string \<Rightarrow> gtime"
  sq_scan :: "FlagRow list \<Rightarrow> FlagRow list"
  sq_unique :: "string \<Rightarrow> gerror"

text \<open>\<open>t.Format(time.RFC3339)\<close> of a time in UTC: without a fraction.\<close>

definition sql_seconds :: "gtime \<Rightarrow> string" where
  "sql_seconds t = rfc3339nano (t - t mod Second)"

section \<open>Flags\<close>

definition flag_row :: "'l sql_lib_scheme \<Rightarrow> FeatureFlag \<Rightarrow> FlagRow" where
  "flag_row L f =
     \<lparr>fr_id = ff_ID f, fr_project_id = ff_ProjectID f, fr_key = ff_Key f, fr_config_version = ff_ConfigVersion f, fr_name = ff_Name f,
      fr_description = ff_Description f, fr_type = ff_Type f, fr_tags = sq_tags L (ff_Tags f), fr_environments = sq_envs L (ff_Environments f),
      fr_created_at = sql_seconds (ff_CreatedAt f), fr_updated_at = sql_seconds (ff_UpdatedAt f)\<rparr>"

definition row_flag :: "'l sql_lib_scheme \<Rightarrow> FlagRow \<Rightarrow> FeatureFlag" where
  "row_flag L r =
     \<lparr>ff_ID = fr_id r, ff_ProjectID = fr_project_id r, ff_ConfigVersion = fr_config_version r, ff_Key = fr_key r, ff_Name = fr_name r,
      ff_Description = fr_description r, ff_Type = fr_type r, ff_Tags = sq_untags L (fr_tags r), ff_Environments = sq_unenvs L (fr_environments r),
      ff_CreatedAt = sq_time L (fr_created_at r), ff_UpdatedAt = sq_time L (fr_updated_at r)\<rparr>"

definition sql_ListFlagsByProject :: "'l sql_lib_scheme \<Rightarrow> faults \<Rightarrow> 'd SqlDb_scheme \<Rightarrow> string \<Rightarrow> FeatureFlag list result" where
  "sql_ListFlagsByProject L fault db projectID =
     (case fault 0 of
        Some err \<Rightarrow> Inl err
      | None \<Rightarrow> Inr (map (row_flag L)
          (rev (sort_key fr_created_at (sq_scan L (filter (\<lambda>r. fr_project_id r = projectID) (db_feature_flags db)))))))"

definition flag_query :: "string \<Rightarrow> string \<Rightarrow> FlagRow \<Rightarrow> bool" where
  "flag_query projectID keyOrID r = (fr_project_id r = projectID \<and> (fr_key r = keyOrID \<or> fr_id r = keyOrID))"

definition sql_GetFlagByProject :: "runtime \<Rightarrow> 'l sql_lib_scheme \<Rightarrow> faults \<Rightarrow> 'd SqlDb_scheme \<Rightarrow> string \<Rightarrow> string \<Rightarrow> FeatureFlag result" where
  "sql_GetFlagByProject rt L fault db projectID keyOrID =
     (case fault 0 of
        Some err \<Rightarrow> Inl err
      | None \<Rightarrow>
          (case sq_scan L (filter (flag_query projectID keyOrID) (db_feature_flags db)) of
             [] \<Rightarrow> Inl (Errorf (''flag '' @ rt_quote rt keyOrID @ '' not found in project '' @ projectID))
           | r # _ \<Rightarrow> Inr (row_flag L r)))"

definition sql_ListFlags :: "'l sql_lib_scheme \<Rightarrow> faults \<Rightarrow> 'd SqlDb_scheme \<Rightarrow> FeatureFlag list result" where
  "sql_ListFlags L fault db = sql_ListFlagsByProject L fault db DefaultProjectID"

definition sql_GetFlag :: "runtime \<Rightarrow> 'l sql_lib_scheme \<Rightarrow> faults \<Rightarrow> 'd SqlDb_scheme \<Rightarrow> string \<Rightarrow> FeatureFlag result" where
  "sql_GetFlag rt L fault db keyOrID =
     (case sql_GetFlagByProject rt L fault db DefaultProjectID keyOrID of
        Inr f \<Rightarrow> Inr f
      | Inl _ \<Rightarrow>
          (case fault 1 of
             Some err \<Rightarrow> Inl err
           | None \<Rightarrow>
               (case sq_scan L (filter (\<lambda>r. fr_id r = keyOrID \<or> fr_key r = keyOrID) (db_feature_flags db)) of
                  [] \<Rightarrow> Inl (Errorf (''flag '' @ rt_quote rt keyOrID @ '' not found''))
                | r # _ \<Rightarrow> Inr (row_flag L r))))"

section \<open>The audit log\<close>

definition sql_audit_row :: "AuditLogEntry \<Rightarrow> AuditRow" where
  "sql_audit_row e =
     \<lparr>ar_id = al_ID e, ar_project_id = al_ProjectID e, ar_flag_key = al_FlagKey e, ar_action = al_Action e, ar_environment = al_Environment e,
      ar_actor = al_Actor e, ar_details = al_Details e, ar_prev_hash = al_PrevHash e, ar_entry_hash = al_EntryHash e,
      ar_timestamp = rfc3339nano (al_Timestamp e)\<rparr>"

definition sql_row_audit :: "'l sql_lib_scheme \<Rightarrow> AuditRow \<Rightarrow> AuditLogEntry" where
  "sql_row_audit L r =
     \<lparr>al_ID = ar_id r, al_ProjectID = ar_project_id r, al_Timestamp = sq_time L (ar_timestamp r), al_Actor = ar_actor r, al_Action = ar_action r,
      al_FlagKey = ar_flag_key r, al_Environment = ar_environment r, al_Details = ar_details r, al_PrevHash = ar_prev_hash r, al_EntryHash = ar_entry_hash r\<rparr>"

text \<open>\<open>ORDER BY timestamp ASC, rowid ASC\<close>; the descending order is its reverse.\<close>

definition by_timestamp :: "AuditRow list \<Rightarrow> AuditRow list" where
  "by_timestamp rows = sort_key ar_timestamp rows"

definition sql_prev_hash :: "faults \<Rightarrow> 'd SqlDb_scheme \<Rightarrow> string \<Rightarrow> string" where
  "sql_prev_hash fault db projectID =
     (let rows = rev (by_timestamp (filter (\<lambda>r. ar_project_id r = projectID \<and> ar_entry_hash r \<noteq> []) (db_audit_logs db)))
      in case (if fault 0 = None then rows else []) of
           r # _ \<Rightarrow> ar_entry_hash r
         | [] \<Rightarrow>
             (case (if fault 1 = None then mget (db_audit_anchors db) projectID else None) of
                Some anchor \<Rightarrow> if anchor \<noteq> [] then anchor else AuditGenesisHash
              | None \<Rightarrow> AuditGenesisHash))"

definition sql_insertAuditLog :: "runtime \<Rightarrow> 'l sql_lib_scheme \<Rightarrow> faults \<Rightarrow> gtime \<Rightarrow> string \<Rightarrow> 'd SqlDb_scheme \<Rightarrow> AuditLogEntry \<Rightarrow>
    (AuditLogEntry \<times> gerror option) \<times> 'd SqlDb_scheme" where
  "sql_insertAuditLog rt L fault now rnd db entry0 =
     (let entry = (if al_ID entry0 = [] then entry0\<lparr>al_ID := ''audit_'' @ rnd\<rparr> else entry0);
          entry = (if al_ProjectID entry = [] then entry\<lparr>al_ProjectID := DefaultProjectID\<rparr> else entry);
          entry = (if IsZero (al_Timestamp entry) then entry\<lparr>al_Timestamp := now\<rparr> else entry);
          prevHash = sql_prev_hash fault db (al_ProjectID entry);
          entry = entry\<lparr>al_PrevHash := prevHash\<rparr>;
          entry = entry\<lparr>al_EntryHash := ComputeAuditEntryHash rt prevHash entry\<rparr>
      in case fault 2 of
           Some err \<Rightarrow> ((entry, Some err), db)
         | None \<Rightarrow>
             if list_ex (\<lambda>r. ar_id r = al_ID entry) (db_audit_logs db) then ((entry, Some (sq_unique L ''audit_logs.id'')), db)
             else ((entry, None), db\<lparr>db_audit_logs := db_audit_logs db @ [sql_audit_row entry]\<rparr>))"

definition sql_AppendAuditLog :: "runtime \<Rightarrow> 'l sql_lib_scheme \<Rightarrow> faults \<Rightarrow> gtime \<Rightarrow> string \<Rightarrow> 'd SqlDb_scheme \<Rightarrow> AuditLogEntry \<Rightarrow> AuditLogEntry result \<times> 'd SqlDb_scheme" where
  "sql_AppendAuditLog rt L fault now rnd db entry =
     (case sql_insertAuditLog rt L fault now rnd db entry of
        ((e, Some err), db) \<Rightarrow> (Inl err, db) | ((e, None), db) \<Rightarrow> (Inr e, db))"

definition sql_ListAuditLogsByProject :: "'l sql_lib_scheme \<Rightarrow> faults \<Rightarrow> 'd SqlDb_scheme \<Rightarrow> string \<Rightarrow> int \<Rightarrow> AuditLogEntry list result" where
  "sql_ListAuditLogsByProject L fault db projectID limit0 =
     (let limit = (if limit0 \<le> 0 \<or> limit0 > 500 then 100 else limit0)
      in case fault 0 of
           Some err \<Rightarrow> Inl err
         | None \<Rightarrow> Inr (map (sql_row_audit L) (take (nat limit) (rev (by_timestamp (filter (\<lambda>r. ar_project_id r = projectID) (db_audit_logs db)))))))"

definition sql_ListAuditLogs :: "'l sql_lib_scheme \<Rightarrow> faults \<Rightarrow> 'd SqlDb_scheme \<Rightarrow> int \<Rightarrow> AuditLogEntry list result" where
  "sql_ListAuditLogs L fault db limit = sql_ListAuditLogsByProject L fault db DefaultProjectID limit"

definition sql_chain :: "'l sql_lib_scheme \<Rightarrow> 'd SqlDb_scheme \<Rightarrow> string \<Rightarrow> AuditLogEntry list" where
  "sql_chain L db projectID = map (sql_row_audit L) (by_timestamp (filter (\<lambda>r. ar_project_id r = projectID) (db_audit_logs db)))"

definition sql_anchor :: "faults \<Rightarrow> 'd SqlDb_scheme \<Rightarrow> string \<Rightarrow> string" where
  "sql_anchor fault db projectID =
     (case (if fault 0 = None then mget (db_audit_anchors db) projectID else None) of
        Some anchor \<Rightarrow> if anchor \<noteq> [] then anchor else AuditGenesisHash
      | None \<Rightarrow> AuditGenesisHash)"

definition sql_VerifyAuditLogIntegrity :: "runtime \<Rightarrow> 'l sql_lib_scheme \<Rightarrow> faults \<Rightarrow> gtime \<Rightarrow> 'd SqlDb_scheme \<Rightarrow> string \<Rightarrow> AuditIntegrityResult result" where
  "sql_VerifyAuditLogIntegrity rt L fault now db projectID0 =
     (let projectID = or_project projectID0 in
      case fault 0 of
        Some err \<Rightarrow> Inl err
      | None \<Rightarrow>
          (let chain = sql_chain L db projectID in
           if length chain = 0
           then Inr \<lparr>ai_Valid = True, ai_TotalVerified = 0, ai_HeadHash = [], ai_VerifiedAt = now, ai_BrokenEntryID = [], ai_ErrorMessage = []\<rparr>
           else Inr (verify_loop rt now 0 (sql_anchor (from 1 fault) db projectID) chain)))"

definition sql_ExportAuditLogs :: "'l sql_lib_scheme \<Rightarrow> faults \<Rightarrow> 'd SqlDb_scheme \<Rightarrow> string \<Rightarrow> gtime option \<Rightarrow> gtime option \<Rightarrow> int \<Rightarrow> AuditLogEntry list result" where
  "sql_ExportAuditLogs L fault db projectID0 since before limit0 =
     (let projectID = or_project projectID0;
          limit = (if limit0 \<le> 0 \<or> limit0 > 10000 then 10000 else limit0);
          hit = (\<lambda>r. ar_project_id r = projectID
            \<and> (case since of Some t \<Rightarrow> ar_timestamp r \<ge> rfc3339nano t | None \<Rightarrow> True)
            \<and> (case before of Some t \<Rightarrow> ar_timestamp r \<le> rfc3339nano t | None \<Rightarrow> True))
      in case fault 0 of
           Some err \<Rightarrow> Inl err
         | None \<Rightarrow> Inr (map (sql_row_audit L) (take (nat limit) (rev (by_timestamp (filter hit (db_audit_logs db)))))))"

definition sql_PurgeAuditLogs :: "faults \<Rightarrow> 'd SqlDb_scheme \<Rightarrow> string \<Rightarrow> gtime \<Rightarrow> int result \<times> 'd SqlDb_scheme" where
  "sql_PurgeAuditLogs fault db projectID0 before =
     (let projectID = or_project projectID0;
          beforeStr = rfc3339nano before;
          gone = (\<lambda>r. ar_project_id r = projectID \<and> ar_timestamp r < beforeStr);
          lastPurgedHash = (case (if fault 0 = None then rev (by_timestamp (filter gone (db_audit_logs db))) else []) of r # _ \<Rightarrow> ar_entry_hash r | [] \<Rightarrow> [])
      in case fault 1 of
           Some err \<Rightarrow> (Inl err, db)
         | None \<Rightarrow>
             (let affected = length (filter gone (db_audit_logs db));
                  db = db\<lparr>db_audit_logs := filter (\<lambda>r. \<not> gone r) (db_audit_logs db)\<rparr>;
                  db = (if affected > 0 \<and> lastPurgedHash \<noteq> [] \<and> fault 2 = None
                        then db\<lparr>db_audit_anchors := mput projectID lastPurgedHash (db_audit_anchors db)\<rparr> else db)
              in (Inr (int affected), db)))"

section \<open>Changing flags\<close>

definition sql_log :: "string \<Rightarrow> string \<Rightarrow> string \<Rightarrow> string \<Rightarrow> string \<Rightarrow> string \<Rightarrow> string \<Rightarrow> gtime \<Rightarrow> AuditLogEntry" where
  "sql_log rnd projectID key action env actor details now =
     \<lparr>al_ID = ''audit_'' @ rnd, al_ProjectID = projectID, al_Timestamp = now, al_Actor = actor, al_Action = action, al_FlagKey = key,
      al_Environment = env, al_Details = details, al_PrevHash = [], al_EntryHash = []\<rparr>"

text \<open>
  The upsert of a flag: a row with the project and key takes the new values but keeps its ID and the
  time of its creation; without one, a row with the ID is a violation of the primary key.
\<close>

definition upsert_flag :: "'l sql_lib_scheme \<Rightarrow> FlagRow \<Rightarrow> FlagRow list \<Rightarrow> gerror + FlagRow list" where
  "upsert_flag L n rows =
     (let same = (\<lambda>r. fr_project_id r = fr_project_id n \<and> fr_key r = fr_key n) in
      if list_ex same rows
      then Inr (map (\<lambda>r. if same r then r\<lparr>fr_config_version := fr_config_version r + 1, fr_name := fr_name n, fr_description := fr_description n,
             fr_type := fr_type n, fr_tags := fr_tags n, fr_environments := fr_environments n, fr_updated_at := fr_updated_at n\<rparr> else r) rows)
      else if list_ex (\<lambda>r. fr_id r = fr_id n) rows then Inl (sq_unique L ''feature_flags.id'')
      else Inr (rows @ [n]))"

definition sql_SaveFlag :: "runtime \<Rightarrow> 'l sql_lib_scheme \<Rightarrow> faults \<Rightarrow> clock \<Rightarrow> string \<Rightarrow> string \<Rightarrow> 'd SqlDb_scheme \<Rightarrow> FeatureFlag \<Rightarrow> string \<Rightarrow>
    AuditLogEntry option result \<times> 'd SqlDb_scheme" where
  "sql_SaveFlag rt L fault ck rnd rnd' db flag0 actor =
     (let flag = (if ff_ID flag0 = [] then flag0\<lparr>ff_ID := ''flag_'' @ rnd\<rparr> else flag0);
          flag = (if ff_ProjectID flag = [] then flag\<lparr>ff_ProjectID := DefaultProjectID\<rparr> else flag);
          now = ck 0;
          flag = (if IsZero (ff_CreatedAt flag) then flag\<lparr>ff_CreatedAt := now\<rparr> else flag);
          flag = flag\<lparr>ff_UpdatedAt := now, ff_ConfigVersion := ff_ConfigVersion flag + 1\<rparr>
      in case (case fault 0 of Some err \<Rightarrow> Inl err | None \<Rightarrow> upsert_flag L (flag_row L flag) (db_feature_flags db)) of
           Inl err \<Rightarrow> (Inl err, db)
         | Inr rows \<Rightarrow>
             (let db = db\<lparr>db_feature_flags := rows\<rparr> in
              if actor = ''snapshot_restore'' then (Inr None, db)
              else
                (case sql_insertAuditLog rt L (from 1 fault) (ck 1) [] db (sql_log rnd' (ff_ProjectID flag) (ff_Key flag) ''SAVE_FLAG'' ''all'' actor
                    (''Saved flag '' @ rt_quote rt (ff_Key flag) @ '' with '' @ Itoa (int (length (ff_Environments flag))) @ '' environments'') now) of
                   ((audit, _), db) \<Rightarrow> (Inr (Some audit), db))))"

definition sql_DeleteFlagByProject :: "runtime \<Rightarrow> 'l sql_lib_scheme \<Rightarrow> faults \<Rightarrow> clock \<Rightarrow> string \<Rightarrow> 'd SqlDb_scheme \<Rightarrow> string \<Rightarrow> string \<Rightarrow> string \<Rightarrow>
    AuditLogEntry result \<times> 'd SqlDb_scheme" where
  "sql_DeleteFlagByProject rt L fault ck rnd db projectID0 keyOrID actor =
     (let projectID = or_project projectID0 in
      case sql_GetFlagByProject rt L fault db projectID keyOrID of
        Inl err \<Rightarrow> (Inl err, db)
      | Inr flag \<Rightarrow>
          (case fault 1 of
             Some err \<Rightarrow> (Inl err, db)
           | None \<Rightarrow>
               (let gone = (\<lambda>r. fr_project_id r = projectID \<and> (fr_id r = ff_ID flag \<or> fr_key r = ff_Key flag));
                    rows = length (filter gone (db_feature_flags db));
                    db = db\<lparr>db_feature_flags := filter (\<lambda>r. \<not> gone r) (db_feature_flags db)\<rparr>
                in if rows = 0 then (Inl (Sentinel ErrFlagNotFound), db)
                   else
                     (case sql_insertAuditLog rt L (from 2 fault) (ck 1) [] db (sql_log rnd projectID (ff_Key flag) ''DELETE_FLAG'' ''all'' actor
                         (''Deleted flag '' @ rt_quote rt (ff_Key flag) @ '' from project '' @ rt_quote rt projectID @ '' permanently'') (ck 0)) of
                        ((audit, _), db) \<Rightarrow> (Inr audit, db)))))"

definition sql_DeleteFlag :: "runtime \<Rightarrow> 'l sql_lib_scheme \<Rightarrow> faults \<Rightarrow> clock \<Rightarrow> string \<Rightarrow> 'd SqlDb_scheme \<Rightarrow> string \<Rightarrow> string \<Rightarrow> AuditLogEntry result \<times> 'd SqlDb_scheme" where
  "sql_DeleteFlag rt L fault ck rnd db keyOrID actor =
     (case sql_GetFlag rt L fault db keyOrID of
        Inl err \<Rightarrow> (Inl err, db)
      | Inr flag \<Rightarrow> sql_DeleteFlagByProject rt L (from 2 fault) ck rnd db (ff_ProjectID flag) (ff_ID flag) actor)"

text \<open>The statement that writes the environments of a flag.\<close>

definition write_envs :: "'l sql_lib_scheme \<Rightarrow> FeatureFlag \<Rightarrow> string \<Rightarrow> FlagRow list \<Rightarrow> FlagRow list" where
  "write_envs L flag projectID rows =
     map (\<lambda>r. if fr_id r = ff_ID flag \<and> fr_project_id r = projectID
       then r\<lparr>fr_environments := sq_envs L (ff_Environments flag), fr_config_version := fr_config_version r + 1,
              fr_updated_at := sql_seconds (ff_UpdatedAt flag)\<rparr> else r) rows"

text \<open>The update that the toggle and the rollout share: one environment of the flag, its version and its time.\<close>

definition sql_update_env :: "runtime \<Rightarrow> 'l sql_lib_scheme \<Rightarrow> faults \<Rightarrow> clock \<Rightarrow> 'd SqlDb_scheme \<Rightarrow> string \<Rightarrow> string \<Rightarrow> string \<Rightarrow>
    (EnvironmentConfig \<Rightarrow> EnvironmentConfig) \<Rightarrow> (FeatureFlag \<Rightarrow> gtime \<Rightarrow> AuditLogEntry) \<Rightarrow> (FeatureFlag \<times> AuditLogEntry) result \<times> 'd SqlDb_scheme" where
  "sql_update_env rt L fault ck db projectID keyOrID env change audit =
     (case sql_GetFlagByProject rt L fault db projectID keyOrID of
        Inl err \<Rightarrow> (Inl err, db)
      | Inr flag \<Rightarrow>
          (let flag = flag\<lparr>ff_Environments := mput env (change (EnvConfig flag env)) (ff_Environments flag), ff_UpdatedAt := ck 0,
                 ff_ConfigVersion := ff_ConfigVersion flag + 1\<rparr>
           in case fault 1 of
                Some err \<Rightarrow> (Inl err, db)
              | None \<Rightarrow>
                  (let db = db\<lparr>db_feature_flags := write_envs L flag projectID (db_feature_flags db)\<rparr>
                   in case sql_insertAuditLog rt L (from 2 fault) (ck 1) [] db (audit flag (ff_UpdatedAt flag)) of
                        ((lg, _), db) \<Rightarrow> (Inr (flag, lg), db))))"

definition sql_toggled :: "bool option \<Rightarrow> EnvironmentConfig \<Rightarrow> EnvironmentConfig" where
  "sql_toggled enabled c = c\<lparr>ec_Enabled := (case enabled of Some b \<Rightarrow> b | None \<Rightarrow> \<not> ec_Enabled c)\<rparr>"

definition sql_ToggleFlagByProject :: "runtime \<Rightarrow> 'l sql_lib_scheme \<Rightarrow> faults \<Rightarrow> clock \<Rightarrow> string \<Rightarrow> 'd SqlDb_scheme \<Rightarrow> string \<Rightarrow> string \<Rightarrow> string \<Rightarrow> bool option \<Rightarrow> string \<Rightarrow>
    (FeatureFlag \<times> AuditLogEntry) result \<times> 'd SqlDb_scheme" where
  "sql_ToggleFlagByProject rt L fault ck rnd db projectID0 keyOrID env enabled actor =
     (let projectID = or_project projectID0 in
      sql_update_env rt L fault ck db projectID keyOrID env (sql_toggled enabled)
        (\<lambda>flag now. sql_log rnd projectID (ff_Key flag) ''TOGGLE_FLAG'' env actor
           (''Toggled flag '' @ rt_quote rt (ff_Key flag) @ '' ['' @ env @ ''] -> '' @ (if ec_Enabled (EnvConfig flag env) then ''true'' else ''false'')
            @ '' in project '' @ rt_quote rt projectID) now))"

definition sql_rolled :: "f64 \<Rightarrow> EnvironmentConfig \<Rightarrow> EnvironmentConfig" where
  "sql_rolled pct c = c\<lparr>ec_Percentage := pct, ec_Strategy := StrategyPercentage\<rparr>"

definition sql_UpdateRolloutByProject :: "runtime \<Rightarrow> 'l sql_lib_scheme \<Rightarrow> faults \<Rightarrow> clock \<Rightarrow> string \<Rightarrow> 'd SqlDb_scheme \<Rightarrow> string \<Rightarrow> string \<Rightarrow> string \<Rightarrow> f64 \<Rightarrow> string \<Rightarrow>
    (FeatureFlag \<times> AuditLogEntry) result \<times> 'd SqlDb_scheme" where
  "sql_UpdateRolloutByProject rt L fault ck rnd db projectID0 keyOrID env pct actor =
     (let projectID = or_project projectID0 in
      sql_update_env rt L fault ck db projectID keyOrID env (sql_rolled pct)
        (\<lambda>flag now. sql_log rnd projectID (ff_Key flag) ''UPDATE_ROLLOUT'' env actor
           (''Updated rollout for '' @ rt_quote rt (ff_Key flag) @ '' ['' @ env @ ''] to '' @ FormatFixed 1 pct @ ''% in project ''
            @ rt_quote rt projectID) now))"

definition sql_ToggleFlag :: "runtime \<Rightarrow> 'l sql_lib_scheme \<Rightarrow> faults \<Rightarrow> clock \<Rightarrow> string \<Rightarrow> 'd SqlDb_scheme \<Rightarrow> string \<Rightarrow> string \<Rightarrow> bool option \<Rightarrow> string \<Rightarrow>
    (FeatureFlag \<times> AuditLogEntry) result \<times> 'd SqlDb_scheme" where
  "sql_ToggleFlag rt L fault ck rnd db keyOrID env enabled actor =
     (case sql_GetFlag rt L fault db keyOrID of
        Inl err \<Rightarrow> (Inl err, db)
      | Inr flag \<Rightarrow> sql_ToggleFlagByProject rt L (from 2 fault) ck rnd db (ff_ProjectID flag) (ff_ID flag) env enabled actor)"

definition sql_UpdateRollout :: "runtime \<Rightarrow> 'l sql_lib_scheme \<Rightarrow> faults \<Rightarrow> clock \<Rightarrow> string \<Rightarrow> 'd SqlDb_scheme \<Rightarrow> string \<Rightarrow> string \<Rightarrow> f64 \<Rightarrow> string \<Rightarrow>
    (FeatureFlag \<times> AuditLogEntry) result \<times> 'd SqlDb_scheme" where
  "sql_UpdateRollout rt L fault ck rnd db keyOrID env pct actor =
     (case sql_GetFlag rt L fault db keyOrID of
        Inl err \<Rightarrow> (Inl err, db)
      | Inr flag \<Rightarrow> sql_UpdateRolloutByProject rt L (from 2 fault) ck rnd db (ff_ProjectID flag) (ff_ID flag) env pct actor)"

section \<open>The order of the log\<close>

abbreviation (input) "no_fault \<equiv> (\<lambda>_::nat. None :: gerror option)"

lemma insort_key_last: "f a \<le> f x \<Longrightarrow> insort_key f a (ys @ [x]) = insort_key f a ys @ [x]"
  by (induction ys) auto

lemma by_timestamp_append:
  assumes "\<forall>r \<in> set rows. ar_timestamp r \<le> ar_timestamp n"
  shows "by_timestamp (rows @ [n]) = by_timestamp rows @ [n]"
  unfolding by_timestamp_def using assms by (induction rows) (auto simp: insort_key_last)

lemma set_by_timestamp [simp]: "set (by_timestamp rows) = set rows"
  by (simp add: by_timestamp_def)

lemma by_timestamp_empty [simp]: "by_timestamp rows = [] \<longleftrightarrow> rows = []"
  by (metis set_by_timestamp set_empty)

lemma sql_prev_hash_head:
  assumes "digest_nonempty rt" and "linked rt (sql_anchor no_fault db p) (sql_chain L db p)"
  shows "sql_prev_hash no_fault db p = head_hash (sql_anchor no_fault db p) (sql_chain L db p)"
proof -
  let ?rows = "filter (\<lambda>r. ar_project_id r = p) (db_audit_logs db)"
  have "ar_entry_hash r \<noteq> []" if "r \<in> set ?rows" for r
    using linked_hash_nonempty [OF assms, of "sql_row_audit L r"] that by (auto simp: sql_chain_def sql_row_audit_def)
  then have f: "filter (\<lambda>r. ar_project_id r = p \<and> ar_entry_hash r \<noteq> []) (db_audit_logs db) = ?rows"
    by (intro filter_cong) auto
  show ?thesis
  proof (cases "rev (by_timestamp ?rows)")
    case Nil
    then have "?rows = []" by simp
    with Nil show ?thesis unfolding sql_prev_hash_def Let_def f Nil by (simp add: sql_anchor_def head_hash_def sql_chain_def)
  next
    case (Cons r rs)
    then have "by_timestamp ?rows = rev rs @ [r]" by (metis rev_rev_ident rev.simps(2))
    then show ?thesis unfolding sql_prev_hash_def Let_def f Cons by (simp add: head_hash_def sql_chain_def sql_row_audit_def)
  qed
qed

lemma sql_AppendAuditLog_Inr:
  assumes "sql_AppendAuditLog rt L no_fault now rnd db e = (Inr e', db')"
  shows "db' = db\<lparr>db_audit_logs := db_audit_logs db @ [sql_audit_row e']\<rparr>"
    and "al_PrevHash e' = sql_prev_hash no_fault db (al_ProjectID e')"
    and "al_EntryHash e' = ComputeAuditEntryHash rt (al_PrevHash e') e'"
proof -
  define e1 where "e1 = (let e = (if al_ID e = [] then e\<lparr>al_ID := ''audit_'' @ rnd\<rparr> else e);
    e = (if al_ProjectID e = [] then e\<lparr>al_ProjectID := DefaultProjectID\<rparr> else e)
    in if IsZero (al_Timestamp e) then e\<lparr>al_Timestamp := now\<rparr> else e)"
  define e2 where "e2 = e1\<lparr>al_PrevHash := sql_prev_hash no_fault db (al_ProjectID e1)\<rparr>"
  have "sql_insertAuditLog rt L no_fault now rnd db e =
    (let x = e2\<lparr>al_EntryHash := ComputeAuditEntryHash rt (al_PrevHash e2) e2\<rparr> in
     if list_ex (\<lambda>r. ar_id r = al_ID x) (db_audit_logs db) then ((x, Some (sq_unique L ''audit_logs.id'')), db)
     else ((x, None), db\<lparr>db_audit_logs := db_audit_logs db @ [sql_audit_row x]\<rparr>))"
    unfolding sql_insertAuditLog_def e2_def e1_def Let_def by simp
  then have "e' = e2\<lparr>al_EntryHash := ComputeAuditEntryHash rt (al_PrevHash e2) e2\<rparr> \<and>
      db' = db\<lparr>db_audit_logs := db_audit_logs db @ [sql_audit_row e']\<rparr>"
    using assms by (auto simp: sql_AppendAuditLog_def Let_def split: if_splits)
  then show "db' = db\<lparr>db_audit_logs := db_audit_logs db @ [sql_audit_row e']\<rparr>"
    "al_PrevHash e' = sql_prev_hash no_fault db (al_ProjectID e')" "al_EntryHash e' = ComputeAuditEntryHash rt (al_PrevHash e') e'"
    by (simp_all add: e2_def)
qed

lemma row_of_entry: "sq_time L (rfc3339nano (al_Timestamp e)) = al_Timestamp e \<Longrightarrow> sql_row_audit L (sql_audit_row e) = e"
  by (simp add: sql_row_audit_def sql_audit_row_def)

text \<open>
  C28: The audit log of the SQLite store keeps its chain as long as the texts of its times grow. From a
  valid chain of a project, an entry whose time is in the order of text not before the stored ones is
  linked to the newest entry, the chain is valid again, and the verification says so; the chains of
  the other projects are not touched.
\<close>

theorem sqlite_audit_valid:
  assumes "sql_AppendAuditLog rt L no_fault now rnd db e = (Inr e', db')"
    and "digest_nonempty rt" and "linked rt (sql_anchor no_fault db (al_ProjectID e')) (sql_chain L db (al_ProjectID e'))"
    and "\<forall>r \<in> set (db_audit_logs db). ar_project_id r = al_ProjectID e' \<longrightarrow> ar_timestamp r \<le> rfc3339nano (al_Timestamp e')"
    and "sq_time L (rfc3339nano (al_Timestamp e')) = al_Timestamp e'" and "al_ProjectID e' \<noteq> []"
  shows "sql_chain L db' (al_ProjectID e') = sql_chain L db (al_ProjectID e') @ [e'] \<and>
    (\<exists>r. sql_VerifyAuditLogIntegrity rt L no_fault now' db' (al_ProjectID e') = Inr r \<and> ai_Valid r) \<and>
    (\<forall>q. q \<noteq> al_ProjectID e' \<longrightarrow> sql_chain L db' q = sql_chain L db q)"
proof -
  note a = sql_AppendAuditLog_Inr [OF assms(1)]
  have n: "ar_timestamp (sql_audit_row e') = rfc3339nano (al_Timestamp e')" "ar_project_id (sql_audit_row e') = al_ProjectID e'"
    by (simp_all add: sql_audit_row_def)
  have c: "sql_chain L db' (al_ProjectID e') = sql_chain L db (al_ProjectID e') @ [e']"
    using assms(4) by (simp add: sql_chain_def a(1) n by_timestamp_append row_of_entry [OF assms(5)])
  have other: "sql_chain L db' q = sql_chain L db q" if "q \<noteq> al_ProjectID e'" for q
    using that by (simp add: sql_chain_def a(1) n)
  have anchor: "sql_anchor no_fault db' p = sql_anchor no_fault db p" for p
    by (simp add: a(1) sql_anchor_def)
  have "linked rt (sql_anchor no_fault db' (al_ProjectID e')) (sql_chain L db' (al_ProjectID e'))"
    using assms(3) sql_prev_hash_head [OF assms(2,3)] a(2,3) by (simp add: c anchor linked_append)
  then have "\<exists>r. sql_VerifyAuditLogIntegrity rt L no_fault now' db' (al_ProjectID e') = Inr r \<and> ai_Valid r"
    using assms(6) verify_loop_first [of "sql_chain L db' (al_ProjectID e')" rt now']
    by (simp add: sql_VerifyAuditLogIntegrity_def or_project_def c Let_def)
  with c other show ?thesis by blast
qed

definition demo_clockwork :: sql_lib where
  "demo_clockwork = \<lparr>sq_tags = (\<lambda>_. []), sq_untags = (\<lambda>_. []), sq_envs = (\<lambda>_. []), sq_unenvs = (\<lambda>_. []),
     sq_time = (\<lambda>_. unix_epoch), sq_scan = id, sq_unique = Errorf\<rparr>"

definition demo_entry :: AuditLogEntry where
  "demo_entry = sql_log ''1'' ''acme'' ''pay'' ''SAVE_FLAG'' ''all'' ''ops'' [] unix_epoch"

abbreviation (input) "demo_append \<equiv> sql_AppendAuditLog demo_runtime demo_clockwork no_fault 0 []
  \<lparr>db_feature_flags = [], db_audit_logs = [], db_audit_anchors = []\<rparr> demo_entry"

lemma demo_append_run: "\<exists>e'. demo_append = (Inr e', snd demo_append) \<and> al_ProjectID e' = ''acme'' \<and> al_Timestamp e' = unix_epoch"
  by (simp add: sql_AppendAuditLog_def sql_insertAuditLog_def demo_entry_def sql_log_def IsZero_def unix_epoch_def Let_def)

theorem sqlite_audit_valid_witness:
  "\<exists>r. sql_VerifyAuditLogIntegrity demo_runtime demo_clockwork no_fault 5 (snd demo_append) ''acme'' = Inr r \<and> ai_Valid r"
proof -
  obtain e' where e: "demo_append = (Inr e', snd demo_append)" "al_ProjectID e' = ''acme''" "al_Timestamp e' = unix_epoch"
    using demo_append_run by blast
  have "linked demo_runtime (sql_anchor no_fault \<lparr>db_feature_flags = [], db_audit_logs = [], db_audit_anchors = []\<rparr> (al_ProjectID e'))
      (sql_chain demo_clockwork \<lparr>db_feature_flags = [], db_audit_logs = [], db_audit_anchors = []\<rparr> (al_ProjectID e'))"
    by (simp add: sql_chain_def by_timestamp_def)
  from sqlite_audit_valid [OF e(1) demo_digest this] show ?thesis
    by (simp add: e(2,3) demo_clockwork_def)
qed

text \<open>
  The texts of times do not grow with the times: a fraction is written without its trailing zeros, and
  \<open>Z\<close> comes after every digit and the point. Two entries whose times are in the order of time but not
  in the order of text are reported as tampering, though nobody touched them.
\<close>

lemma texts_out_of_order:
  "rfc3339nano (unix_epoch + 123000000) < rfc3339nano (unix_epoch + 100000000)"
  "rfc3339nano (unix_epoch + 100000000) < rfc3339nano unix_epoch"
  by code_simp+

lemma sqlite_false_alarm:
  assumes one: "sql_AppendAuditLog rt L no_fault now1 rnd1 \<lparr>db_feature_flags = fs, db_audit_logs = [], db_audit_anchors = []\<rparr> e1 = (Inr e1', db1)"
    and two: "sql_AppendAuditLog rt L no_fault now2 rnd2 db1 e2 = (Inr e2', db2)"
    and p: "al_ProjectID e1' = p" "al_ProjectID e2' = p" "p \<noteq> []"
    and late: "rfc3339nano (al_Timestamp e2') < rfc3339nano (al_Timestamp e1')"
    and digest: "digest_nonempty rt" "\<And>x. rt_sha256 rt x \<noteq> AuditGenesisHash"
    and time: "sq_time L (rfc3339nano (al_Timestamp e1')) = al_Timestamp e1'" "sq_time L (rfc3339nano (al_Timestamp e2')) = al_Timestamp e2'"
  shows "\<exists>r. sql_VerifyAuditLogIntegrity rt L no_fault now db2 p = Inr r \<and> \<not> ai_Valid r \<and> ai_BrokenEntryID r = al_ID e2'"
proof -
  note a1 = sql_AppendAuditLog_Inr [OF one] and a2 = sql_AppendAuditLog_Inr [OF two]
  have row: "ar_project_id (sql_audit_row e) = al_ProjectID e" "ar_timestamp (sql_audit_row e) = rfc3339nano (al_Timestamp e)"
    "ar_entry_hash (sql_audit_row e) = al_EntryHash e" for e
    by (simp_all add: sql_audit_row_def)
  have h1: "al_EntryHash e1' \<noteq> []" "al_EntryHash e1' \<noteq> AuditGenesisHash"
    using digest by (simp_all add: a1(3) ComputeAuditEntryHash_def digest_nonempty_def)
  have prev: "al_PrevHash e2' = al_EntryHash e1'"
    using p h1 by (simp add: a2(2) a1(1) sql_prev_hash_def by_timestamp_def row)
  have "by_timestamp [sql_audit_row e1', sql_audit_row e2'] = [sql_audit_row e2', sql_audit_row e1']"
    using late by (simp add: by_timestamp_def row)
  then have chain: "sql_chain L db2 p = [e2', e1']"
    using p by (simp add: sql_chain_def a2(1) a1(1) row row_of_entry time)
  have "sql_anchor no_fault db2 p = AuditGenesisHash"
    by (simp add: sql_anchor_def a2(1) a1(1) mget_def)
  then show ?thesis
    using p(3) h1 by (simp add: sql_VerifyAuditLogIntegrity_def or_project_def chain prev invalid_result_def Let_def)
qed

section \<open>Flags: the two stores\<close>

text \<open>An evaluation reads nothing of a flag but its key and the configuration of the environment.\<close>

lemma EvaluateFlag_cong:
  assumes "ff_Key f' = ff_Key f" and "env_config f' ctx = env_config f ctx"
  shows "EvaluateFlag rt cache ns f' ctx = EvaluateFlag rt cache ns f ctx"
proof -
  have r: "rule_result ns f' = rule_result ns f" "strategy_result ns f' = strategy_result ns f"
    by (intro ext, simp only: rule_result_def strategy_result_def assms(1))+
  show ?thesis unfolding EvaluateFlag_def assms r Let_def ..
qed

text \<open>
  What is relied on: a query returns the matching rows in some order, and a map of configurations is
  read back as it was written. The rows of a store have their primary key.
\<close>

definition scan_ok :: "'l sql_lib_scheme \<Rightarrow> bool" where
  "scan_ok L \<longleftrightarrow> (\<forall>rows. mset (sq_scan L rows) = mset rows)"

definition read_back :: "'l sql_lib_scheme \<Rightarrow> (string, EnvironmentConfig) gomap \<Rightarrow> bool" where
  "read_back L m \<longleftrightarrow> (\<forall>e. mget (sq_unenvs L (sq_envs L m)) e = mget m e)"

definition same_serving :: "FeatureFlag \<Rightarrow> FeatureFlag \<Rightarrow> bool" where
  "same_serving f g \<longleftrightarrow> ff_Key f = ff_Key g \<and> (\<forall>e. mget (ff_Environments f) e = mget (ff_Environments g) e)"

lemma same_serving_evaluates: "same_serving f g \<Longrightarrow> EvaluateFlag rt cache ns f ctx = EvaluateFlag rt cache ns g ctx"
  by (rule EvaluateFlag_cong) (simp_all add: same_serving_def env_config_def)

lemma filter_update:
  assumes "\<And>r. P r \<Longrightarrow> P (f r)"
  shows "filter P (map (\<lambda>r. if P r then f r else r) rows) = map f (filter P rows)"
  using assms by (induction rows) auto

lemma scan_single: "scan_ok L \<Longrightarrow> sq_scan L [r] = [r]"
  by (metis scan_ok_def mset_single_iff_right mset.simps)

lemma sql_lookup:
  assumes "scan_ok L" and "filter (flag_query p k) (db_feature_flags db) = [r]" and "fault 0 = None"
  shows "sql_GetFlagByProject rt L fault db p k = Inr (row_flag L r)"
  using assms by (simp add: sql_GetFlagByProject_def scan_single)

lemma sql_insertAuditLog_flags: "db_feature_flags (snd (sql_insertAuditLog rt L fault now rnd db e)) = db_feature_flags db"
  by (simp add: sql_insertAuditLog_def Let_def split: option.split)

lemma write_envs_lookup:
  assumes "scan_ok L" and "filter (flag_query p k) (db_feature_flags db) = [r]" and "ff_ID g = fr_id r"
    and "db_feature_flags db' = write_envs L g p (db_feature_flags db)"
  shows "\<exists>f. sql_GetFlagByProject rt L no_fault db' p k = Inr f \<and> ff_Key f = fr_key r \<and>
      ff_Environments f = sq_unenvs L (sq_envs L (ff_Environments g))"
    and "\<forall>q \<in> set (db_feature_flags db). \<not> (fr_id q = fr_id r \<and> fr_project_id q = p) \<longrightarrow> q \<in> set (db_feature_flags db')"
proof -
  define up where "up q = (if fr_id q = ff_ID g \<and> fr_project_id q = p then q\<lparr>fr_environments := sq_envs L (ff_Environments g),
    fr_config_version := fr_config_version q + 1, fr_updated_at := sql_seconds (ff_UpdatedAt g)\<rparr> else q)" for q :: FlagRow
  have rows: "db_feature_flags db' = map up (db_feature_flags db)"
    by (simp add: assms(4) write_envs_def up_def)
  have r: "fr_project_id r = p"
    using assms(2) by (auto simp: filter_eq_Cons_iff flag_query_def)
  have "flag_query p k (up q) = flag_query p k q" for q by (simp add: flag_query_def up_def)
  then have "filter (flag_query p k) (db_feature_flags db') = [up r]"
    using assms(2) by (simp add: rows filter_map comp_def)
  from sql_lookup [where rt = rt and fault = no_fault, OF assms(1) this refl]
  show "\<exists>f. sql_GetFlagByProject rt L no_fault db' p k = Inr f \<and> ff_Key f = fr_key r \<and>
      ff_Environments f = sq_unenvs L (sq_envs L (ff_Environments g))"
    using r assms(3) by (simp add: up_def row_flag_def)
  show "\<forall>q \<in> set (db_feature_flags db). \<not> (fr_id q = fr_id r \<and> fr_project_id q = p) \<longrightarrow> q \<in> set (db_feature_flags db')"
  proof (intro ballI impI)
    fix q assume q: "q \<in> set (db_feature_flags db)" "\<not> (fr_id q = fr_id r \<and> fr_project_id q = p)"
    then have "up q = q" by (auto simp: up_def assms(3))
    with q(1) show "q \<in> set (db_feature_flags db')" unfolding rows by force
  qed
qed

lemma sql_update_env_lookup:
  assumes run: "sql_update_env rt L fault ck db p k env change audit = (Inr (g, lg), db')"
    and scan: "scan_ok L" and one: "filter (flag_query p k) (db_feature_flags db) = [r]"
  shows "ff_Environments g = mput env (change (EnvConfig (row_flag L r) env)) (ff_Environments (row_flag L r))" and "ff_Key g = fr_key r"
    and "\<exists>f. sql_GetFlagByProject rt L no_fault db' p k = Inr f \<and> ff_Key f = fr_key r \<and>
      ff_Environments f = sq_unenvs L (sq_envs L (ff_Environments g))"
proof -
  have f0: "fault 0 = None"
    using run by (cases "fault 0") (simp_all add: sql_update_env_def sql_GetFlagByProject_def)
  note look = sql_lookup [where rt = rt and fault = fault, OF scan one f0]
  have f: "fault 1 = None"
    using run by (cases "fault 1") (simp_all add: sql_update_env_def look Let_def)
  define g' where "g' = (row_flag L r)\<lparr>ff_Environments := mput env (change (EnvConfig (row_flag L r) env)) (ff_Environments (row_flag L r)),
    ff_UpdatedAt := ck 0, ff_ConfigVersion := ff_ConfigVersion (row_flag L r) + 1\<rparr>"
  let ?db = "db\<lparr>db_feature_flags := write_envs L g' p (db_feature_flags db)\<rparr>"
  have "sql_update_env rt L fault ck db p k env change audit =
      (case sql_insertAuditLog rt L (from 2 fault) (ck 1) [] ?db (audit g' (ff_UpdatedAt g')) of ((lg, _), db) \<Rightarrow> (Inr (g', lg), db))"
    unfolding sql_update_env_def look Let_def sum.case f option.case g'_def by (rule refl)
  then have g: "g = g'" and rows: "db_feature_flags db' = write_envs L g' p (db_feature_flags db)"
    using run sql_insertAuditLog_flags [of rt L "from 2 fault" "ck 1" "[]" ?db "audit g' (ff_UpdatedAt g')"]
    by (auto split: prod.splits)
  have ids: "ff_ID g' = fr_id r" by (simp add: g'_def row_flag_def)
  show "ff_Environments g = mput env (change (EnvConfig (row_flag L r) env)) (ff_Environments (row_flag L r))" "ff_Key g = fr_key r"
    by (simp_all add: g g'_def row_flag_def)
  show "\<exists>f. sql_GetFlagByProject rt L no_fault db' p k = Inr f \<and> ff_Key f = fr_key r \<and>
      ff_Environments f = sq_unenvs L (sq_envs L (ff_Environments g))"
    using write_envs_lookup(1) [OF scan one ids rows] by (simp add: g)
qed


definition demo_rows :: "sql_lib" where
  "demo_rows = \<lparr>sq_tags = (\<lambda>_. []), sq_untags = (\<lambda>_. []),
     sq_envs = (\<lambda>m. if ec_Enabled (snd (hd m)) then ''on'' else ''off''),
     sq_unenvs = (\<lambda>t. [(''production'', zero_env_config\<lparr>ec_Enabled := t = ''on''\<rparr>)]),
     sq_time = (\<lambda>_. 0), sq_scan = id, sq_unique = Errorf\<rparr>"

definition demo_db :: SqlDb where
  "demo_db = \<lparr>db_feature_flags = [flag_row demo_rows (demo_flag0 ''f1'' ''acme'' ''pay''), flag_row demo_rows (demo_flag0 ''f2'' ''acme'' ''chat'')],
     db_audit_logs = [], db_audit_anchors = []\<rparr>"

lemma demo_rows_scan: "scan_ok demo_rows"
  by (simp add: scan_ok_def demo_rows_def)

abbreviation (input) "demo_sql_toggle \<equiv>
  sql_ToggleFlagByProject demo_runtime demo_rows no_fault (\<lambda>_. 5) ''r'' demo_db ''acme'' ''pay'' ''production'' (Some False) ''ops''"

lemma demo_sql_toggled: "\<exists>g lg. fst demo_sql_toggle = Inr (g, lg) \<and> ff_Environments g = [(''production'', zero_env_config)]"
  by (simp add: sql_ToggleFlagByProject_def sql_update_env_def sql_GetFlagByProject_def demo_db_def flag_query_def flag_row_def demo_flag0_def
      demo_rows_def or_project_def row_flag_def EnvConfig_def sql_toggled_def mget_def mput_def zero_env_config_def Let_def split_beta)


section \<open>Where the stores differ\<close>

text \<open>The in-memory store keeps a percentage in its range and the strategy of a multivariate flag; this one does neither.\<close>

lemma sqlite_rollout_unclamped:
  assumes "sql_UpdateRolloutByProject rt L fault ck rnd db p k env pct actor = (Inr (g, lg), db')" and "p \<noteq> []" and "scan_ok L"
    and "filter (flag_query p k) (db_feature_flags db) = [r]" and "read_back L (ff_Environments g)"
  shows "\<exists>f. sql_GetFlagByProject rt L no_fault db' p k = Inr f \<and> ec_Percentage (EnvConfig f env) = pct \<and>
    ec_Strategy (EnvConfig f env) = StrategyPercentage"
proof -
  have p: "or_project p = p" using assms(2) by (simp add: or_project_def)
  note u = sql_update_env_lookup [OF assms(1) [unfolded sql_UpdateRolloutByProject_def p Let_def] assms(3,4)]
  show ?thesis
    using u(1,3) assms(5) by (auto simp: read_back_def EnvConfig_def sql_rolled_def map_simps)
qed

text \<open>Saving a flag under another key with its ID renames it in memory and is refused here.\<close>

lemma sqlite_rename_refused:
  assumes "r \<in> set (db_feature_flags db)" and "fr_id r = ff_ID f" and "ff_ID f \<noteq> []" and "ff_ProjectID f \<noteq> []"
    and "\<forall>q \<in> set (db_feature_flags db). \<not> (fr_project_id q = ff_ProjectID f \<and> fr_key q = ff_Key f)"
  shows "sql_SaveFlag rt L no_fault ck rnd rnd' db f actor = (Inl (sq_unique L ''feature_flags.id''), db)"
proof -
  have "\<not> list_ex (\<lambda>q. fr_project_id q = ff_ProjectID f \<and> fr_key q = ff_Key f) (db_feature_flags db)"
    using assms(5) by (auto simp: list_ex_iff)
  moreover have "list_ex (\<lambda>q. fr_id q = ff_ID f) (db_feature_flags db)"
    using assms(1,2) by (auto simp: list_ex_iff)
  ultimately have "upsert_flag L n (db_feature_flags db) = Inl (sq_unique L ''feature_flags.id'')"
    if "fr_id n = ff_ID f" "fr_project_id n = ff_ProjectID f" "fr_key n = ff_Key f" for n
    using that by (simp add: upsert_flag_def)
  then show ?thesis
    using assms(3,4) by (simp add: sql_SaveFlag_def flag_row_def Let_def)
qed

text \<open>A change whose audit entry cannot be written is made, and reported as made.\<close>

lemma sqlite_unaudited_toggle:
  assumes "scan_ok L" and "filter (flag_query p k) (db_feature_flags db) = [r]" and "p \<noteq> []"
  shows "\<exists>x db'. sql_ToggleFlagByProject rt L (\<lambda>i. if i = 4 then Some e else None) ck rnd db p k env b actor = (Inr x, db') \<and>
    db_audit_logs db' = db_audit_logs db"
  using assms sql_lookup [OF assms(1,2), of "\<lambda>i. if i = 4 then Some e else None" rt]
  by (simp add: sql_ToggleFlagByProject_def sql_update_env_def or_project_def sql_insertAuditLog_def Let_def)

text \<open>Times of flags are kept to the second: two changes in one second have one time.\<close>

lemma same_second: "t div Second = t' div Second \<Longrightarrow> sql_seconds t = sql_seconds t'"
  by (simp add: sql_seconds_def minus_mod_eq_mult_div)

end
