(* ===== verification/Sqlite_Changes.thy ===== *)
theory Sqlite_Changes
  imports Sqlite_Store Store_Changes
begin

text \<open>
  The change requests of the SQLite store: the table \<open>change_requests\<close> beside those of \<open>Sqlite_Store\<close>, and
  the operations on it. The JSON text of a proposed configuration, which carries the version it was
  written against, is read and written by the codec \<open>sql_change_lib\<close>.
\<close>

section \<open>The table\<close>

record ChangeRow =
  cw_id :: string
  cw_project_id :: string
  cw_flag_key :: string
  cw_environment :: string
  cw_title :: string
  cw_description :: string
  cw_author_user_id :: string
  cw_author_email :: string
  cw_author_name :: string
  cw_proposed_config :: string
  cw_status :: string
  cw_reviewer_user_id :: string
  cw_reviewer_email :: string
  cw_reviewer_name :: string
  cw_review_comments :: string
  cw_created_at :: string
  cw_reviewed_at :: "string option"
  cw_applied_at :: "string option"

record SqlChangesDb = SqlDb +
  db_change_requests :: "ChangeRow list"

record sql_change_lib = sql_lib +
  sq_proposal :: "EnvironmentConfig \<Rightarrow> 64 word \<Rightarrow> string"
  sq_proposed :: "string \<Rightarrow> EnvironmentConfig"
  sq_base :: "string \<Rightarrow> 64 word option"
  sq_scan_changes :: "ChangeRow list \<Rightarrow> ChangeRow list"

section \<open>Operations\<close>

definition change_row :: "'l sql_change_lib_scheme \<Rightarrow> ChangeRequest \<Rightarrow> ChangeRow" where
  "change_row L cr =
     \<lparr>cw_id = cr_ID cr, cw_project_id = cr_ProjectID cr, cw_flag_key = cr_FlagKey cr, cw_environment = cr_Environment cr,
      cw_title = cr_Title cr, cw_description = cr_Description cr, cw_author_user_id = cr_AuthorUserID cr, cw_author_email = cr_AuthorEmail cr,
      cw_author_name = cr_AuthorName cr, cw_proposed_config = sq_proposal L (cr_ProposedConfig cr) (cr_BaseConfigVersion cr),
      cw_status = cr_Status cr, cw_reviewer_user_id = [], cw_reviewer_email = [], cw_reviewer_name = [], cw_review_comments = [],
      cw_created_at = sql_seconds (cr_CreatedAt cr), cw_reviewed_at = None, cw_applied_at = None\<rparr>"

definition row_change :: "'l sql_change_lib_scheme \<Rightarrow> ChangeRow \<Rightarrow> ChangeRequest" where
  "row_change L r =
     \<lparr>cr_ID = cw_id r, cr_ProjectID = cw_project_id r, cr_FlagKey = cw_flag_key r, cr_Environment = cw_environment r, cr_Title = cw_title r,
      cr_Description = cw_description r, cr_AuthorUserID = cw_author_user_id r, cr_AuthorEmail = cw_author_email r,
      cr_AuthorName = cw_author_name r, cr_ProposedConfig = sq_proposed L (cw_proposed_config r),
      cr_BaseConfigVersion = (case sq_base L (cw_proposed_config r) of Some v \<Rightarrow> if 0 < v then v else 0 | None \<Rightarrow> 0),
      cr_Status = cw_status r, cr_ReviewerUserID = cw_reviewer_user_id r, cr_ReviewerEmail = cw_reviewer_email r,
      cr_ReviewerName = cw_reviewer_name r, cr_ReviewComments = cw_review_comments r, cr_CreatedAt = sq_time L (cw_created_at r),
      cr_ReviewedAt = map_option (sq_time L) (cw_reviewed_at r), cr_AppliedAt = map_option (sq_time L) (cw_applied_at r)\<rparr>"

definition sql_CreateChangeRequest :: "'l sql_change_lib_scheme \<Rightarrow> faults \<Rightarrow> clock \<Rightarrow> string \<Rightarrow> 'd SqlChangesDb_scheme \<Rightarrow> ChangeRequest \<Rightarrow>
    ChangeRequest result \<times> 'd SqlChangesDb_scheme" where
  "sql_CreateChangeRequest L fault ck rnd db cr0 =
     (let cr = (if cr_ID cr0 = [] then cr0\<lparr>cr_ID := ''cr_'' @ Itoa (UnixNano (ck 0)) @ ''_'' @ rnd\<rparr> else cr0);
          cr = (if cr_ProjectID cr = [] then cr\<lparr>cr_ProjectID := DefaultProjectID\<rparr> else cr);
          cr = cr\<lparr>cr_CreatedAt := ck 1, cr_Status := StatusPending\<rparr>
      in case fault 0 of
           Some err \<Rightarrow> (Inl err, db)
         | None \<Rightarrow>
             if list_ex (\<lambda>r. cw_id r = cr_ID cr) (db_change_requests db) then (Inl (sq_unique L ''change_requests.id''), db)
             else (Inr cr, db\<lparr>db_change_requests := db_change_requests db @ [change_row L cr]\<rparr>))"

definition sql_GetChangeRequest :: "'l sql_change_lib_scheme \<Rightarrow> faults \<Rightarrow> 'd SqlChangesDb_scheme \<Rightarrow> string \<Rightarrow> ChangeRequest result" where
  "sql_GetChangeRequest L fault db i =
     (case fault 0 of
        Some err \<Rightarrow> Inl err
      | None \<Rightarrow>
          (case filter (\<lambda>r. cw_id r = i) (db_change_requests db) of
             [] \<Rightarrow> Inl (Errorf (''change request '' @ i @ '' not found''))
           | r # _ \<Rightarrow> Inr (row_change L r)))"

definition sql_ListChangeRequestsByProject :: "'l sql_change_lib_scheme \<Rightarrow> faults \<Rightarrow> 'd SqlChangesDb_scheme \<Rightarrow> string \<Rightarrow> string \<Rightarrow>
    ChangeRequest list result" where
  "sql_ListChangeRequestsByProject L fault db projectID0 status =
     (let projectID = or_project projectID0;
          hit = (if status \<noteq> [] \<and> status \<noteq> ''all'' then (\<lambda>r. cw_project_id r = projectID \<and> cw_status r = status) else (\<lambda>r. cw_project_id r = projectID))
      in case fault 0 of
           Some err \<Rightarrow> Inl err
         | None \<Rightarrow> Inr (map (row_change L) (rev (sort_key cw_created_at (sq_scan_changes L (filter hit (db_change_requests db)))))))"

definition sql_ListChangeRequests :: "'l sql_change_lib_scheme \<Rightarrow> faults \<Rightarrow> 'd SqlChangesDb_scheme \<Rightarrow> string \<Rightarrow> ChangeRequest list result" where
  "sql_ListChangeRequests L fault db status = sql_ListChangeRequestsByProject L fault db DefaultProjectID status"

definition write_review :: "ChangeRequest \<Rightarrow> string \<Rightarrow> ChangeRow list \<Rightarrow> ChangeRow list" where
  "write_review cr i rows =
     map (\<lambda>r. if cw_id r = i
       then r\<lparr>cw_status := cr_Status cr, cw_reviewer_user_id := cr_ReviewerUserID cr, cw_reviewer_email := cr_ReviewerEmail cr,
              cw_reviewer_name := cr_ReviewerName cr, cw_review_comments := cr_ReviewComments cr,
              cw_reviewed_at := map_option sql_seconds (cr_ReviewedAt cr)\<rparr> else r) rows"

definition sql_ReviewChangeRequest :: "'l sql_change_lib_scheme \<Rightarrow> faults \<Rightarrow> gtime \<Rightarrow> 'd SqlChangesDb_scheme \<Rightarrow> string \<Rightarrow> string \<Rightarrow> string \<Rightarrow> string \<Rightarrow>
    bool \<Rightarrow> string \<Rightarrow> ChangeRequest result \<times> 'd SqlChangesDb_scheme" where
  "sql_ReviewChangeRequest L fault now db i reviewerID reviewerEmail reviewerName approved comments =
     (case sql_GetChangeRequest L fault db i of
        Inl err \<Rightarrow> (Inl err, db)
      | Inr cr0 \<Rightarrow>
          (case Review now cr0 reviewerID reviewerEmail reviewerName approved comments of
             Inl err \<Rightarrow> (Inl err, db)
           | Inr cr \<Rightarrow>
               (case fault 1 of
                  Some err \<Rightarrow> (Inl err, db)
                | None \<Rightarrow> (Inr cr, db\<lparr>db_change_requests := write_review cr i (db_change_requests db)\<rparr>))))"

text \<open>The two updates of an application and its audit entry are separate statements; the error of the last two is dropped.\<close>

definition mark_applied :: "gtime \<Rightarrow> string \<Rightarrow> ChangeRow list \<Rightarrow> ChangeRow list" where
  "mark_applied now i rows =
     map (\<lambda>r. if cw_id r = i then r\<lparr>cw_status := StatusApplied, cw_applied_at := Some (sql_seconds now)\<rparr> else r) rows"

definition sql_ApplyChangeRequest :: "runtime \<Rightarrow> 'l sql_change_lib_scheme \<Rightarrow> faults \<Rightarrow> clock \<Rightarrow> string \<Rightarrow> 'd SqlChangesDb_scheme \<Rightarrow> string \<Rightarrow> string \<Rightarrow>
    (FeatureFlag \<times> ChangeRequest \<times> AuditLogEntry) result \<times> 'd SqlChangesDb_scheme" where
  "sql_ApplyChangeRequest rt L fault ck rnd db i actor =
     (case sql_GetChangeRequest L fault db i of
        Inl err \<Rightarrow> (Inl err, db)
      | Inr cr \<Rightarrow>
          if cr_Status cr \<noteq> StatusApproved
          then (Inl (Errorf (''cannot apply change request with status '' @ quoted (cr_Status cr) @ '' (must be APPROVED)'')), db)
          else
            (case sql_GetFlagByProject rt L (from 1 fault) db (cr_ProjectID cr) (cr_FlagKey cr) of
               Inl err \<Rightarrow> (Inl err, db)
             | Inr flag0 \<Rightarrow>
                 if 0 < cr_BaseConfigVersion cr \<and> ff_ConfigVersion flag0 \<noteq> cr_BaseConfigVersion cr then (Inl (Sentinel ErrChangeRequestConflict), db)
                 else
                   (let flag = flag0\<lparr>ff_Environments := mput (cr_Environment cr) (cr_ProposedConfig cr) (ff_Environments flag0),
                          ff_UpdatedAt := ck 0, ff_ConfigVersion := ff_ConfigVersion flag0 + 1\<rparr>
                    in case fault 2 of
                         Some err \<Rightarrow> (Inl err, db)
                       | None \<Rightarrow>
                           (let db = db\<lparr>db_feature_flags := write_envs L flag (cr_ProjectID cr) (db_feature_flags db)\<rparr>;
                                now = ck 1;
                                cr' = cr\<lparr>cr_Status := StatusApplied, cr_AppliedAt := Some now\<rparr>;
                                db = (if fault 3 = None then db\<lparr>db_change_requests := mark_applied now i (db_change_requests db)\<rparr> else db)
                            in case sql_insertAuditLog rt L (from 4 fault) (ck 2) [] db
                                   (sql_log rnd (cr_ProjectID cr) (cr_FlagKey cr) ''APPLY_CHANGE_REQUEST'' (cr_Environment cr) actor
                                     (''Applied Change Request #'' @ i @ '' for '' @ rt_quote rt (cr_FlagKey cr) @ '' ['' @ cr_Environment cr @ '']'') now) of
                                 ((audit, _), db) \<Rightarrow> (Inr (flag, cr', audit), db)))))"

section \<open>Four eyes over rows\<close>

definition requests_ok :: "'d SqlChangesDb_scheme \<Rightarrow> bool" where
  "requests_ok db \<longleftrightarrow> distinct (map cw_id (db_change_requests db)) \<and>
     (\<forall>r \<in> set (db_change_requests db). cw_status r \<in> {''APPROVED'', ''APPLIED''} \<longrightarrow>
        cw_reviewer_user_id r \<noteq> cw_author_user_id r \<and> cw_reviewed_at r \<noteq> None)"

inductive sql_change_step :: "runtime \<Rightarrow> sql_change_lib \<Rightarrow> SqlChangesDb \<Rightarrow> SqlChangesDb \<Rightarrow> bool" for rt L where
  created: "sql_CreateChangeRequest L fault ck rnd db cr = (res, db') \<Longrightarrow> sql_change_step rt L db db'"
| reviewed: "sql_ReviewChangeRequest L fault now db i u e n ok c = (res, db') \<Longrightarrow> sql_change_step rt L db db'"
| applied: "sql_ApplyChangeRequest rt L fault ck rnd db i actor = (res, db') \<Longrightarrow> sql_change_step rt L db db'"
| toggled: "sql_ToggleFlagByProject rt L fault ck rnd db p k env b actor = (res, db') \<Longrightarrow> sql_change_step rt L db db'"
| rolled: "sql_UpdateRolloutByProject rt L fault ck rnd db p k env pct actor = (res, db') \<Longrightarrow> sql_change_step rt L db db'"
| saved: "sql_SaveFlag rt L fault ck rnd rnd' db f actor = (res, db') \<Longrightarrow> sql_change_step rt L db db'"
| deleted: "sql_DeleteFlagByProject rt L fault ck rnd db p k actor = (res, db') \<Longrightarrow> sql_change_step rt L db db'"
| appended: "sql_AppendAuditLog rt L fault now rnd db e = (res, db') \<Longrightarrow> sql_change_step rt L db db'"
| purged: "sql_PurgeAuditLogs fault db p before = (res, db') \<Longrightarrow> sql_change_step rt L db db'"

definition empty_changes_db :: SqlChangesDb where
  "empty_changes_db = \<lparr>db_feature_flags = [], db_audit_logs = [], db_audit_anchors = [], db_change_requests = []\<rparr>"

definition sql_change_reach :: "runtime \<Rightarrow> sql_change_lib \<Rightarrow> SqlChangesDb \<Rightarrow> bool" where
  "sql_change_reach rt L db \<longleftrightarrow> (sql_change_step rt L)\<^sup>*\<^sup>* empty_changes_db db"

lemma sql_insertAuditLog_changes:
  "db_change_requests (snd (sql_insertAuditLog rt L fault now rnd db e)) = db_change_requests (db :: 'd SqlChangesDb_scheme)"
  by (simp add: sql_insertAuditLog_def Let_def split: option.split)

lemma sql_insertAuditLog_run:
  "sql_insertAuditLog rt L fault now rnd db e = (x, db') \<Longrightarrow>
     db_change_requests db' = db_change_requests (db :: 'd SqlChangesDb_scheme) \<and> db_feature_flags db' = db_feature_flags db"
  using sql_insertAuditLog_changes [of rt L fault now rnd db e] sql_insertAuditLog_flags [of rt L fault now rnd db e] by simp

lemma sql_update_env_changes:
  "db_change_requests (snd (sql_update_env rt L fault ck db p k env change audit)) = db_change_requests (db :: 'd SqlChangesDb_scheme)"
  by (simp add: sql_update_env_def Let_def split_beta sql_insertAuditLog_changes split: sum.split option.split)

lemma flag_steps_keep_changes:
  fixes db :: "'d SqlChangesDb_scheme"
  shows "db_change_requests (snd (sql_ToggleFlagByProject rt L fault ck rnd db p k env b actor)) = db_change_requests db"
    and "db_change_requests (snd (sql_UpdateRolloutByProject rt L fault ck rnd db p k env pct actor)) = db_change_requests db"
    and "db_change_requests (snd (sql_SaveFlag rt L fault ck rnd rnd' db f actor)) = db_change_requests db"
    and "db_change_requests (snd (sql_DeleteFlagByProject rt L fault ck rnd db p k actor)) = db_change_requests db"
    and "db_change_requests (snd (sql_AppendAuditLog rt L fault now rnd db e)) = db_change_requests db"
    and "db_change_requests (snd (sql_PurgeAuditLogs fault db p before)) = db_change_requests db"
  by (simp_all add: sql_ToggleFlagByProject_def sql_UpdateRolloutByProject_def sql_update_env_changes sql_SaveFlag_def sql_DeleteFlagByProject_def sql_AppendAuditLog_def sql_PurgeAuditLogs_def Let_def split_beta
      sql_insertAuditLog_changes if_distrib [of snd] if_distrib [of db_change_requests] split: sum.split option.split split del: if_split cong: if_cong)

lemma sql_GetChangeRequest_row:
  assumes "sql_GetChangeRequest L fault db i = Inr cr"
  obtains r where "r \<in> set (db_change_requests db)" and "cw_id r = i" and "cr = row_change L r"
  using assms by (fastforce simp: sql_GetChangeRequest_def filter_eq_Cons_iff split: option.splits list.splits)

lemma write_review_ids: "map cw_id (write_review cr i rows) = map cw_id rows"
  by (simp add: write_review_def)

lemma mark_applied_ids: "map cw_id (mark_applied now i rows) = map cw_id rows"
  by (simp add: mark_applied_def)

lemma mark_applied_status:
  assumes "r \<in> set (mark_applied now i rows)" and "cw_id r = i"
  shows "cw_status r = ''APPLIED''"
proof -
  obtain q where "r = (if cw_id q = i then q\<lparr>cw_status := StatusApplied, cw_applied_at := Some (sql_seconds now)\<rparr> else q)"
    using assms(1) unfolding mark_applied_def set_map by (rule imageE)
  then show ?thesis using assms(2) by (cases "cw_id q = i") simp_all
qed

lemma same_id: "distinct (map cw_id rows) \<Longrightarrow> r \<in> set rows \<Longrightarrow> q \<in> set rows \<Longrightarrow> cw_id q = cw_id r \<Longrightarrow> q = r"
  by (auto simp: distinct_map dest: inj_onD)

lemma create_requests_ok:
  assumes "requests_ok db" and "sql_CreateChangeRequest L fault ck rnd db cr = (res, db')"
  shows "requests_ok db'"
proof (cases "db' = db")
  case False
  define c where "c = (let cr = (if cr_ID cr = [] then cr\<lparr>cr_ID := ''cr_'' @ Itoa (UnixNano (ck 0)) @ ''_'' @ rnd\<rparr> else cr);
          cr = (if cr_ProjectID cr = [] then cr\<lparr>cr_ProjectID := DefaultProjectID\<rparr> else cr)
      in cr\<lparr>cr_CreatedAt := ck 1, cr_Status := StatusPending\<rparr>)"
  have "(res, db') = (case fault 0 of Some err \<Rightarrow> (Inl err, db)
      | None \<Rightarrow> if list_ex (\<lambda>r. cw_id r = cr_ID c) (db_change_requests db) then (Inl (sq_unique L ''change_requests.id''), db)
          else (Inr c, db\<lparr>db_change_requests := db_change_requests db @ [change_row L c]\<rparr>))"
    unfolding assms(2) [symmetric] sql_CreateChangeRequest_def c_def Let_def ..
  then have "\<not> list_ex (\<lambda>r. cw_id r = cr_ID c) (db_change_requests db)"
      and "db' = db\<lparr>db_change_requests := db_change_requests db @ [change_row L c]\<rparr>"
    using False by (auto split: option.splits if_splits)
  moreover have "cr_Status c = ''PENDING''" by (simp add: c_def Let_def)
  ultimately show ?thesis
    using assms(1) by (fastforce simp: requests_ok_def change_row_def list_ex_iff)
qed (simp add: assms(1))

lemma review_requests_ok:
  assumes ok: "requests_ok db" and run: "sql_ReviewChangeRequest L fault now db i u e n b c = (res, db')"
  shows "requests_ok db'"
proof (cases "db' = db")
  case False
  then obtain cr0 where get: "sql_GetChangeRequest L fault db i = Inr cr0"
    using run by (auto simp: sql_ReviewChangeRequest_def split: sum.splits)
  obtain cr where rev: "Review now cr0 u e n b c = Inr cr"
    using False run get by (cases "Review now cr0 u e n b c") (auto simp: sql_ReviewChangeRequest_def)
  have db': "db' = db\<lparr>db_change_requests := write_review cr i (db_change_requests db)\<rparr>"
    using False run get rev by (auto simp: sql_ReviewChangeRequest_def split: option.splits)
  obtain r where r: "r \<in> set (db_change_requests db)" "cw_id r = i" "cr0 = row_change L r"
    using get by (rule sql_GetChangeRequest_row)
  have new: "cr_ReviewerUserID cr \<noteq> cw_author_user_id r" "cr_ReviewedAt cr = Some now"
    using Review_Inr [OF rev] by (auto simp: r(3) row_change_def)
  have "q = r" if "q \<in> set (db_change_requests db)" "cw_id q = i" for q
    using ok that r by (auto simp: requests_ok_def intro: same_id)
  then show ?thesis
    using ok new by (auto simp: requests_ok_def db' write_review_ids) (auto simp: write_review_def)
qed (simp add: ok)

lemma sql_ApplyChangeRequest_Inr:
  assumes "sql_ApplyChangeRequest rt L fault ck rnd db i actor = (Inr (g, cr', audit), db')"
  obtains r f where "r \<in> set (db_change_requests db)" and "cw_id r = i" and "cw_status r = ''APPROVED''"
    and "sql_GetChangeRequest L fault db i = Inr (row_change L r)" and "sql_GetFlagByProject rt L (from 1 fault) db (cw_project_id r) (cw_flag_key r) = Inr f"
    and "cr_BaseConfigVersion (row_change L r) = 0 \<or> ff_ConfigVersion f = cr_BaseConfigVersion (row_change L r)"
    and "g = f\<lparr>ff_Environments := mput (cw_environment r) (cr_ProposedConfig (row_change L r)) (ff_Environments f), ff_UpdatedAt := ck 0,
           ff_ConfigVersion := ff_ConfigVersion f + 1\<rparr>"
    and "cr' = (row_change L r)\<lparr>cr_Status := ''APPLIED'', cr_AppliedAt := Some (ck 1)\<rparr>"
    and "db_feature_flags db' = write_envs L g (cw_project_id r) (db_feature_flags db)"
    and "db_change_requests db' = (if fault 3 = None then mark_applied (ck 1) i (db_change_requests db) else db_change_requests db)"
proof -
  obtain cr where cr: "sql_GetChangeRequest L fault db i = Inr cr"
    using assms by (auto simp: sql_ApplyChangeRequest_def split: sum.splits)
  obtain r where r: "r \<in> set (db_change_requests db)" "cw_id r = i" "cr = row_change L r"
    using cr by (rule sql_GetChangeRequest_row)
  have same: "cr_ProjectID cr = cw_project_id r" "cr_FlagKey cr = cw_flag_key r" "cr_Status cr = cw_status r" "cr_Environment cr = cw_environment r"
    by (simp_all add: r(3) row_change_def)
  have st: "cw_status r = ''APPROVED''"
    using assms cr same by (simp add: sql_ApplyChangeRequest_def split: if_splits)
  obtain f where f: "sql_GetFlagByProject rt L (from 1 fault) db (cw_project_id r) (cw_flag_key r) = Inr f"
    using assms cr same st by (cases "sql_GetFlagByProject rt L (from 1 fault) db (cw_project_id r) (cw_flag_key r)") (simp_all add: sql_ApplyChangeRequest_def)
  have base: "\<not> (0 < cr_BaseConfigVersion cr \<and> ff_ConfigVersion f \<noteq> cr_BaseConfigVersion cr)"
    by (rule ccontr) (use assms [unfolded sql_ApplyChangeRequest_def cr sum.case same st f] in simp)
  have f2: "fault 2 = None"
    using assms [unfolded sql_ApplyChangeRequest_def cr sum.case same st f if_not_P [OF base]] by (cases "fault 2") simp_all
  define f' where "f' = f\<lparr>ff_Environments := mput (cw_environment r) (cr_ProposedConfig (row_change L r)) (ff_Environments f), ff_UpdatedAt := ck 0,
           ff_ConfigVersion := ff_ConfigVersion f + 1\<rparr>"
  define db1 where "db1 = db\<lparr>db_feature_flags := write_envs L f' (cw_project_id r) (db_feature_flags db)\<rparr>"
  define db2 where "db2 = (if fault 3 = None then db1\<lparr>db_change_requests := mark_applied (ck 1) i (db_change_requests db1)\<rparr> else db1)"
  define e where "e = sql_log rnd (cw_project_id r) (cw_flag_key r) ''APPLY_CHANGE_REQUEST'' (cw_environment r) actor
     (''Applied Change Request #'' @ i @ '' for '' @ rt_quote rt (cw_flag_key r) @ '' ['' @ cw_environment r @ '']'') (ck 1)"
  have "sql_ApplyChangeRequest rt L fault ck rnd db i actor =
      (case sql_insertAuditLog rt L (from 4 fault) (ck 2) [] db2 e of
        ((audit, _), db) \<Rightarrow> (Inr (f', cr\<lparr>cr_Status := StatusApplied, cr_AppliedAt := Some (ck 1)\<rparr>, audit), db))"
    unfolding sql_ApplyChangeRequest_def cr sum.case same st f if_not_P [OF base] Let_def f2 option.case db2_def db1_def f'_def e_def
    by (simp add: r(3))
  then have g: "g = f'" "cr' = cr\<lparr>cr_Status := StatusApplied, cr_AppliedAt := Some (ck 1)\<rparr>" and db': "db' = snd (sql_insertAuditLog rt L (from 4 fault) (ck 2) [] db2 e)"
    using assms by (auto split: prod.splits)
  have base': "cr_BaseConfigVersion (row_change L r) = 0 \<or> ff_ConfigVersion f = cr_BaseConfigVersion (row_change L r)"
    using base unfolding r(3) by (metis word_gt_0)
  show thesis
    using that [OF r(1,2) st cr [unfolded r(3)] f base'] by (simp add: g f'_def db' r(3) sql_insertAuditLog_flags sql_insertAuditLog_changes db2_def db1_def)
qed

lemma sql_ApplyChangeRequest_Inl:
  assumes "sql_ApplyChangeRequest rt L fault ck rnd db i actor = (Inl e, db')"
  shows "db' = db"
proof (rule ccontr)
  assume new: "db' \<noteq> db"
  obtain cr where cr: "sql_GetChangeRequest L fault db i = Inr cr"
    using assms new by (auto simp: sql_ApplyChangeRequest_def split: sum.splits)
  have st: "cr_Status cr = ''APPROVED''"
    by (rule ccontr) (use assms new cr in \<open>simp add: sql_ApplyChangeRequest_def\<close>)
  obtain f where f: "sql_GetFlagByProject rt L (from 1 fault) db (cr_ProjectID cr) (cr_FlagKey cr) = Inr f"
    using assms [unfolded sql_ApplyChangeRequest_def cr sum.case st] new
    by (cases "sql_GetFlagByProject rt L (from 1 fault) db (cr_ProjectID cr) (cr_FlagKey cr)") auto
  have base: "\<not> (0 < cr_BaseConfigVersion cr \<and> ff_ConfigVersion f \<noteq> cr_BaseConfigVersion cr)"
    by (rule ccontr) (use assms [unfolded sql_ApplyChangeRequest_def cr sum.case st f] new in simp)
  have f2: "fault 2 = None"
    using assms [unfolded sql_ApplyChangeRequest_def cr sum.case st f if_not_P [OF base]] new by (cases "fault 2") simp_all
  show False
    using assms [unfolded sql_ApplyChangeRequest_def cr sum.case st f if_not_P [OF base] Let_def f2 option.case]
    by (simp add: split_beta split del: if_split)
qed

lemma apply_requests_ok:
  assumes ok: "requests_ok db" and run: "sql_ApplyChangeRequest rt L fault ck rnd db i actor = (res, db')"
  shows "requests_ok db'"
proof (cases res)
  case (Inl e)
  then show ?thesis using ok run by (auto dest: sql_ApplyChangeRequest_Inl)
next
  case (Inr x)
  then obtain g cr audit where x: "sql_ApplyChangeRequest rt L fault ck rnd db i actor = (Inr (g, cr, audit), db')"
    using run by (cases x) auto
  from x obtain r where r: "r \<in> set (db_change_requests db)" "cw_id r = i" "cw_status r = ''APPROVED''"
    and db': "db_change_requests db' = (if fault 3 = None then mark_applied (ck 1) i (db_change_requests db) else db_change_requests db)"
    by (rule sql_ApplyChangeRequest_Inr)
  have "q = r" if "q \<in> set (db_change_requests db)" "cw_id q = i" for q
    using ok that r by (auto simp: requests_ok_def intro: same_id)
  then show ?thesis
    using ok r(1,3) by (auto simp: requests_ok_def db' mark_applied_ids) (auto simp: mark_applied_def)
qed

lemma requests_ok_keep: "requests_ok db \<Longrightarrow> db_change_requests db' = db_change_requests db \<Longrightarrow> requests_ok db'"
  by (simp add: requests_ok_def)

lemma step_requests_ok: "sql_change_step rt L db db' \<Longrightarrow> requests_ok db \<Longrightarrow> requests_ok db'"
proof (induction rule: sql_change_step.induct)
  case created then show ?case using create_requests_ok by blast
next
  case reviewed then show ?case using review_requests_ok by blast
next
  case applied then show ?case using apply_requests_ok by blast
next
  case toggled then show ?case by (metis flag_steps_keep_changes(1) requests_ok_keep snd_conv)
next
  case rolled then show ?case by (metis flag_steps_keep_changes(2) requests_ok_keep snd_conv)
next
  case saved then show ?case by (metis flag_steps_keep_changes(3) requests_ok_keep snd_conv)
next
  case deleted then show ?case by (metis flag_steps_keep_changes(4) requests_ok_keep snd_conv)
next
  case appended then show ?case by (metis flag_steps_keep_changes(5) requests_ok_keep snd_conv)
next
  case purged then show ?case by (metis flag_steps_keep_changes(6) requests_ok_keep snd_conv)
qed

lemma reach_requests_ok:
  assumes "sql_change_reach rt L db"
  shows "requests_ok db"
proof -
  have "(sql_change_step rt L)\<^sup>*\<^sup>* empty_changes_db db" using assms by (simp add: sql_change_reach_def)
  then show ?thesis
  proof (induction rule: rtranclp_induct)
    case base
    then show ?case by (simp add: requests_ok_def empty_changes_db_def)
  qed (rule step_requests_ok)
qed

text \<open>
  C31: Four eyes in the SQLite store. Whatever sequence of calls wrote the tables and whichever of their
  statements failed, a request that is read as approved or applied was reviewed by somebody other
  than its author.
\<close>

theorem sqlite_four_eyes:
  assumes "sql_change_reach rt L db" and "sql_GetChangeRequest L fault db i = Inr cr" and "cr_Status cr \<in> {''APPROVED'', ''APPLIED''}"
  shows "cr_ID cr = i \<and> cr_ReviewerUserID cr \<noteq> cr_AuthorUserID cr \<and> cr_ReviewedAt cr \<noteq> None"
proof -
  obtain r where "r \<in> set (db_change_requests db)" "cw_id r = i" "cr = row_change L r"
    using assms(2) by (rule sql_GetChangeRequest_row)
  then show ?thesis
    using reach_requests_ok [OF assms(1)] assms(3) by (auto simp: requests_ok_def row_change_def)
qed

definition demo_change_lib :: sql_change_lib where
  "demo_change_lib = sql_lib.extend demo_rows
     \<lparr>sq_proposal = (\<lambda>c _. if ec_Enabled c then ''on'' else ''off''), sq_proposed = (\<lambda>t. zero_env_config\<lparr>ec_Enabled := t = ''on''\<rparr>),
      sq_base = (\<lambda>_. None), sq_scan_changes = id\<rparr>"

definition demo_requested :: SqlChangesDb where
  "demo_requested = snd (sql_CreateChangeRequest demo_change_lib no_fault (\<lambda>_. 1) [] empty_changes_db demo_request)"

definition demo_approved :: SqlChangesDb where
  "demo_approved = snd (sql_ReviewChangeRequest demo_change_lib no_fault 2 demo_requested ''c1'' ''u2'' [] [] True [])"

lemma demo_approved_reach: "sql_change_reach demo_runtime demo_change_lib demo_approved"
proof -
  have "sql_change_step demo_runtime demo_change_lib empty_changes_db demo_requested"
    unfolding demo_requested_def by (rule sql_change_step.created, rule prod.collapse [symmetric])
  moreover have "sql_change_step demo_runtime demo_change_lib demo_requested demo_approved"
    unfolding demo_approved_def by (rule sql_change_step.reviewed, rule prod.collapse [symmetric])
  ultimately show ?thesis by (simp add: sql_change_reach_def)
qed

lemmas demo_change_defs = demo_approved_def demo_requested_def empty_changes_db_def sql_CreateChangeRequest_def sql_ReviewChangeRequest_def
  sql_GetChangeRequest_def demo_request_def change_row_def row_change_def write_review_def Review_def demo_change_lib_def demo_rows_def
  sql_lib.defs Let_def

lemma demo_approved_request:
  "\<exists>cr. sql_GetChangeRequest demo_change_lib no_fault demo_approved ''c1'' = Inr cr \<and> cr_Status cr = ''APPROVED'' \<and> cr_ReviewerUserID cr = ''u2''"
  by (simp add: demo_change_defs)

theorem sqlite_four_eyes_witness:
  "\<exists>cr. sql_GetChangeRequest demo_change_lib no_fault demo_approved ''c1'' = Inr cr \<and> cr_ReviewerUserID cr \<noteq> cr_AuthorUserID cr"
proof -
  obtain cr where "sql_GetChangeRequest demo_change_lib no_fault demo_approved ''c1'' = Inr cr" "cr_Status cr = ''APPROVED''"
    using demo_approved_request by blast
  then show ?thesis using sqlite_four_eyes [OF demo_approved_reach] by blast
qed

lemma write_envs_single:
  assumes "filter (flag_query p k) rows = [r]"
  shows "\<exists>q. filter (flag_query p k) (write_envs L g p rows) = [q] \<and> fr_id q = fr_id r"
proof -
  define up where "up q = (if fr_id q = ff_ID g \<and> fr_project_id q = p then q\<lparr>fr_environments := sq_envs L (ff_Environments g),
    fr_config_version := fr_config_version q + 1, fr_updated_at := sql_seconds (ff_UpdatedAt g)\<rparr> else q)" for q :: FlagRow
  have "write_envs L g p rows = map up rows" by (simp add: write_envs_def up_def)
  moreover have "flag_query p k (up q) = flag_query p k q" "fr_id (up q) = fr_id q" for q by (simp_all add: flag_query_def up_def)
  ultimately show ?thesis using assms by (simp add: filter_map comp_def)
qed

text \<open>
  A change request takes effect once. When an application succeeds, the flag of the request is stored
  with the proposed configuration in the environment of the request and as before in every other, the
  version the proposal was written against was the stored one, and every further application of the
  request is refused and changes nothing.
\<close>

theorem sqlite_apply_once:
  assumes run: "sql_ApplyChangeRequest rt L no_fault ck rnd db i actor = (Inr (g, cr, audit), db')" and "scan_ok L"
    and one: "filter (flag_query (cr_ProjectID cr) (cr_FlagKey cr)) (db_feature_flags db) = [q]" and "read_back L (ff_Environments g)"
  shows "(\<exists>f. sql_GetFlagByProject rt L no_fault db' (cr_ProjectID cr) (cr_FlagKey cr) = Inr f \<and>
       (\<forall>e. mget (ff_Environments f) e = (if e = cr_Environment cr then Some (cr_ProposedConfig cr) else mget (ff_Environments (row_flag L q)) e))) \<and>
    (cr_BaseConfigVersion cr = 0 \<or> fr_config_version q = cr_BaseConfigVersion cr) \<and>
    (\<forall>fault' ck' rnd' actor'. \<exists>e. sql_ApplyChangeRequest rt L fault' ck' rnd' db' i actor' = (Inl e, db'))"
proof -
  obtain r f where r: "sql_GetFlagByProject rt L (from 1 no_fault) db (cw_project_id r) (cw_flag_key r) = Inr f"
      "cr_BaseConfigVersion (row_change L r) = 0 \<or> ff_ConfigVersion f = cr_BaseConfigVersion (row_change L r)"
      "g = f\<lparr>ff_Environments := mput (cw_environment r) (cr_ProposedConfig (row_change L r)) (ff_Environments f), ff_UpdatedAt := ck 0,
         ff_ConfigVersion := ff_ConfigVersion f + 1\<rparr>"
      "cr = (row_change L r)\<lparr>cr_Status := ''APPLIED'', cr_AppliedAt := Some (ck 1)\<rparr>"
      "db_feature_flags db' = write_envs L g (cw_project_id r) (db_feature_flags db)"
      "db_change_requests db' = mark_applied (ck 1) i (db_change_requests db)"
    using run by (rule sql_ApplyChangeRequest_Inr) simp
  have c: "cr_ProjectID cr = cw_project_id r" "cr_FlagKey cr = cw_flag_key r" "cr_Environment cr = cw_environment r"
      "cr_ProposedConfig cr = cr_ProposedConfig (row_change L r)" "cr_BaseConfigVersion cr = cr_BaseConfigVersion (row_change L r)"
    by (simp_all add: r(4) row_change_def)
  have f: "f = row_flag L q"
    using sql_lookup [OF assms(2) one, of "from 1 no_fault" rt] r(1) c by simp
  have id: "ff_ID g = fr_id q" by (simp add: r(3) f row_flag_def)
  have rows: "db_feature_flags db' = write_envs L g (cr_ProjectID cr) (db_feature_flags db)" by (simp add: r(5) c)
  have look: "\<exists>f'. sql_GetFlagByProject rt L no_fault db' (cr_ProjectID cr) (cr_FlagKey cr) = Inr f' \<and>
       (\<forall>e. mget (ff_Environments f') e = (if e = cr_Environment cr then Some (cr_ProposedConfig cr) else mget (ff_Environments (row_flag L q)) e))"
    using write_envs_lookup(1) [OF assms(2) one id rows, of rt] assms(4) c(3,4) by (auto simp: read_back_def r(3) f map_simps)
  have "cr_Status c = ''APPLIED''" if c: "sql_GetChangeRequest L fault' db' i = Inr c" for fault' c
  proof -
    obtain r' where r': "r' \<in> set (db_change_requests db')" "cw_id r' = i" "c = row_change L r'"
      using c by (rule sql_GetChangeRequest_row)
    have "cw_status r' = ''APPLIED''" by (rule mark_applied_status [OF r'(1) [unfolded r(6)] r'(2)])
    then show ?thesis by (simp add: r'(3) row_change_def)
  qed
  then have "\<exists>e. sql_ApplyChangeRequest rt L fault' ck' rnd' db' i actor' = (Inl e, db')" for fault' ck' rnd' actor'
    by (cases "sql_GetChangeRequest L fault' db' i") (simp_all add: sql_ApplyChangeRequest_def)
  with look r(2) show ?thesis by (auto simp: c f row_flag_def)
qed

definition demo_pending_flag :: SqlChangesDb where
  "demo_pending_flag = demo_approved\<lparr>db_feature_flags := [flag_row demo_change_lib (demo_flag0 ''f1'' ''acme'' ''pay'')]\<rparr>"

abbreviation (input) "demo_sql_apply \<equiv> sql_ApplyChangeRequest demo_runtime demo_change_lib no_fault (\<lambda>_. 5) ''r'' demo_pending_flag ''c1'' ''ann''"

lemma demo_sql_applied:
  "\<exists>g cr lg. fst demo_sql_apply = Inr (g, cr, lg) \<and> cr_ProjectID cr = ''acme'' \<and> cr_FlagKey cr = ''pay'' \<and>
     ff_Environments g = [(''production'', zero_env_config)]"
  by (simp add: sql_ApplyChangeRequest_def demo_pending_flag_def demo_change_defs sql_GetFlagByProject_def flag_query_def flag_row_def demo_flag0_def
      row_flag_def mput_def zero_env_config_def split_beta)

theorem sqlite_apply_once_witness:
  "\<exists>e. fst (sql_ApplyChangeRequest demo_runtime demo_change_lib no_fault (\<lambda>_. 6) ''r'' (snd demo_sql_apply) ''c1'' ''ann'') = Inl e"
proof -
  obtain g cr lg where g: "demo_sql_apply = (Inr (g, cr, lg), snd demo_sql_apply)" "cr_ProjectID cr = ''acme''" "cr_FlagKey cr = ''pay''"
      "ff_Environments g = [(''production'', zero_env_config)]"
    using demo_sql_applied by (metis prod.collapse)
  have scan: "scan_ok demo_change_lib" by (simp add: scan_ok_def demo_change_lib_def demo_rows_def sql_lib.defs)
  have one: "filter (flag_query (cr_ProjectID cr) (cr_FlagKey cr)) (db_feature_flags demo_pending_flag) =
      [flag_row demo_change_lib (demo_flag0 ''f1'' ''acme'' ''pay'')]"
    by (simp add: g demo_pending_flag_def flag_query_def flag_row_def demo_flag0_def)
  have restored: "read_back demo_change_lib (ff_Environments g)"
    by (simp add: read_back_def g(4) demo_change_lib_def demo_rows_def zero_env_config_def sql_lib.defs)
  show ?thesis using sqlite_apply_once [OF g(1) scan one restored] by (metis fst_conv)
qed

text \<open>
  The mark is a statement of its own whose error is dropped: when it fails, the application is answered
  as a success, the request stays approved, and it can be applied again over every later change.
\<close>

lemma sqlite_applied_again:
  assumes run: "sql_ApplyChangeRequest rt L (\<lambda>j. if j = 3 then Some e else None) ck rnd db i actor = (Inr (g, cr, audit), db')"
    and "scan_ok L" and one: "filter (flag_query (cr_ProjectID cr) (cr_FlagKey cr)) (db_feature_flags db) = [q]"
    and "cr_BaseConfigVersion cr = 0"
  shows "db_change_requests db' = db_change_requests db"
    and "\<exists>x db''. sql_ApplyChangeRequest rt L no_fault ck' rnd' db' i actor' = (Inr x, db'')"
proof -
  obtain r f where r: "cw_status r = ''APPROVED''" "sql_GetChangeRequest L (\<lambda>j. if j = 3 then Some e else None) db i = Inr (row_change L r)"
      "cr = (row_change L r)\<lparr>cr_Status := ''APPLIED'', cr_AppliedAt := Some (ck 1)\<rparr>"
      "db_feature_flags db' = write_envs L g (cw_project_id r) (db_feature_flags db)"
      "db_change_requests db' = db_change_requests db"
    using run by (rule sql_ApplyChangeRequest_Inr) simp
  show "db_change_requests db' = db_change_requests db" by (rule r(5))
  have get: "sql_GetChangeRequest L no_fault db' i = Inr (row_change L r)"
    using r(2) by (simp add: sql_GetChangeRequest_def r(5))
  have c: "cr_ProjectID cr = cw_project_id r" "cr_FlagKey cr = cw_flag_key r" "cr_BaseConfigVersion (row_change L r) = 0"
    using assms(4) by (simp_all add: r(3) row_change_def)
  obtain q' where "filter (flag_query (cw_project_id r) (cw_flag_key r)) (db_feature_flags db') = [q']"
    using write_envs_single [OF one, of L g] by (auto simp: r(4) c)
  from sql_lookup [OF assms(2) this, of "from 1 no_fault" rt]
  show "\<exists>x db''. sql_ApplyChangeRequest rt L no_fault ck' rnd' db' i actor' = (Inr x, db'')"
    using r(1) c(3) by (simp add: sql_ApplyChangeRequest_def get row_change_def Let_def split: prod.split)
qed

end
