(* ===== verification/Sqlite_Accounts.thy ===== *)
theory Sqlite_Accounts
  imports Sqlite_Changes Store_Accounts
begin

text \<open>
  Users, sessions, password-reset tokens and API keys of the SQLite store. The database is extended by
  their four tables; foreign keys are checked as the schema declares them. Times are kept to the
  second, so an expiry is the stored second.
\<close>

section \<open>Tables\<close>

record UserRow =
  uw_id :: string
  uw_email :: string
  uw_password_hash :: string
  uw_name :: string
  uw_role :: string
  uw_avatar_url :: string
  uw_created_at :: string
  uw_updated_at :: string

record SessionRow =
  xw_token :: string
  xw_user_id :: string
  xw_expires_at :: string
  xw_created_at :: string

record TokenRow =
  tw_token :: string
  tw_email :: string
  tw_expires_at :: string
  tw_used :: int
  tw_created_at :: string

record KeyRow =
  kw_id :: string
  kw_project_id :: string
  kw_environment :: string
  kw_key_prefix :: string
  kw_key_hash :: string
  kw_name :: string
  kw_role :: string
  kw_created_by :: string
  kw_created_at :: string
  kw_last_used_at :: "string option"
  kw_revoked :: int

record SqlAccountsDb = SqlChangesDb +
  db_users :: "UserRow list"
  db_sessions :: "SessionRow list"
  db_password_reset_tokens :: "TokenRow list"
  db_api_keys :: "KeyRow list"

record sql_account_lib = sql_change_lib +
  sq_scan_users :: "UserRow list \<Rightarrow> UserRow list"
  sq_scan_keys :: "KeyRow list \<Rightarrow> KeyRow list"
  sq_foreign :: "string \<Rightarrow> gerror"

section \<open>Users\<close>

definition row_user :: "'l sql_lib_scheme \<Rightarrow> UserRow \<Rightarrow> User" where
  "row_user L r =
     \<lparr>us_ID = uw_id r, us_Email = uw_email r, us_PasswordHash = uw_password_hash r, us_Name = uw_name r, us_Role = uw_role r,
      us_AvatarURL = uw_avatar_url r, us_CreatedAt = sq_time L (uw_created_at r), us_UpdatedAt = sq_time L (uw_updated_at r),
      us_ActiveMembership = None\<rparr>"

definition sql_CreateUser :: "runtime \<Rightarrow> 'l sql_lib_scheme \<Rightarrow> faults \<Rightarrow> gtime \<Rightarrow> string \<Rightarrow> 'd SqlAccountsDb_scheme \<Rightarrow> User \<Rightarrow>
    User result \<times> 'd SqlAccountsDb_scheme" where
  "sql_CreateUser rt L fault now rnd db user0 =
     (let user = (if us_ID user0 = [] then user0\<lparr>us_ID := ''usr_'' @ rnd\<rparr> else user0);
          user = user\<lparr>us_CreatedAt := now, us_UpdatedAt := now\<rparr>;
          row = \<lparr>uw_id = us_ID user, uw_email = ToLower rt (us_Email user), uw_password_hash = us_PasswordHash user, uw_name = us_Name user,
                 uw_role = us_Role user, uw_avatar_url = us_AvatarURL user, uw_created_at = sql_seconds now, uw_updated_at = sql_seconds now\<rparr>
      in case fault 0 of
           Some err \<Rightarrow> (Inl err, db)
         | None \<Rightarrow>
             if list_ex (\<lambda>r. uw_id r = uw_id row) (db_users db) then (Inl (sq_unique L ''users.id''), db)
             else if list_ex (\<lambda>r. uw_email r = uw_email row) (db_users db) then (Inl (sq_unique L ''users.email''), db)
             else (Inr user, db\<lparr>db_users := db_users db @ [row]\<rparr>))"

definition sql_ListUsers :: "'l sql_account_lib_scheme \<Rightarrow> faults \<Rightarrow> 'd SqlAccountsDb_scheme \<Rightarrow> User list result" where
  "sql_ListUsers L fault db =
     (case fault 0 of Some err \<Rightarrow> Inl err | None \<Rightarrow> Inr (map (row_user L) (sort_key uw_created_at (sq_scan_users L (db_users db)))))"

definition sql_GetUserByEmail :: "runtime \<Rightarrow> 'l sql_lib_scheme \<Rightarrow> faults \<Rightarrow> 'd SqlAccountsDb_scheme \<Rightarrow> string \<Rightarrow> User result" where
  "sql_GetUserByEmail rt L fault db email =
     (case fault 0 of
        Some err \<Rightarrow> Inl err
      | None \<Rightarrow>
          (case filter (\<lambda>r. uw_email r = ToLower rt email) (db_users db) of
             [] \<Rightarrow> Inl (Errorf (''user not found: '' @ email))
           | r # _ \<Rightarrow> Inr (row_user L r)))"

definition sql_GetUserByID :: "'l sql_lib_scheme \<Rightarrow> faults \<Rightarrow> 'd SqlAccountsDb_scheme \<Rightarrow> string \<Rightarrow> User result" where
  "sql_GetUserByID L fault db i =
     (case fault 0 of
        Some err \<Rightarrow> Inl err
      | None \<Rightarrow>
          (case filter (\<lambda>r. uw_id r = i) (db_users db) of
             [] \<Rightarrow> Inl (Errorf (''user not found: '' @ i))
           | r # _ \<Rightarrow> Inr (row_user L r)))"

definition sql_UpdateUser :: "'l sql_lib_scheme \<Rightarrow> faults \<Rightarrow> gtime \<Rightarrow> 'd SqlAccountsDb_scheme \<Rightarrow> User \<Rightarrow> User result \<times> 'd SqlAccountsDb_scheme" where
  "sql_UpdateUser L fault now db user =
     (case fault 0 of
        Some err \<Rightarrow> (Inl err, db)
      | None \<Rightarrow>
          if \<not> list_ex (\<lambda>r. uw_id r = us_ID user) (db_users db) then (Inl (Errorf (''user not found with ID: '' @ us_ID user)), db)
          else
            (let db = db\<lparr>db_users := map (\<lambda>r. if uw_id r = us_ID user
                   then r\<lparr>uw_name := us_Name user, uw_avatar_url := us_AvatarURL user, uw_updated_at := sql_seconds now\<rparr> else r) (db_users db)\<rparr>
             in case fault 1 of
                  Some err \<Rightarrow> (Inl err, db)
                | None \<Rightarrow> (Inr (row_user L (hd (filter (\<lambda>r. uw_id r = us_ID user) (db_users db)))), db)))"

definition sql_UpdateUserPassword :: "faults \<Rightarrow> gtime \<Rightarrow> 'd SqlAccountsDb_scheme \<Rightarrow> string \<Rightarrow> string \<Rightarrow> unit result \<times> 'd SqlAccountsDb_scheme" where
  "sql_UpdateUserPassword fault now db userID newPasswordHash =
     (case fault 0 of
        Some err \<Rightarrow> (Inl err, db)
      | None \<Rightarrow>
          if \<not> list_ex (\<lambda>r. uw_id r = userID) (db_users db) then (Inl (Errorf (''user not found with ID: '' @ userID)), db)
          else (Inr (), db\<lparr>db_users := map (\<lambda>r. if uw_id r = userID
                  then r\<lparr>uw_password_hash := newPasswordHash, uw_updated_at := sql_seconds now\<rparr> else r) (db_users db)\<rparr>))"

section \<open>Sessions\<close>

definition sql_CreateSession :: "'l sql_account_lib_scheme \<Rightarrow> faults \<Rightarrow> 'd SqlAccountsDb_scheme \<Rightarrow> Session \<Rightarrow> unit result \<times> 'd SqlAccountsDb_scheme" where
  "sql_CreateSession L fault db sess =
     (case fault 0 of
        Some err \<Rightarrow> (Inl err, db)
      | None \<Rightarrow>
          if list_ex (\<lambda>r. xw_token r = se_Token sess) (db_sessions db) then (Inl (sq_unique L ''sessions.token''), db)
          else if \<not> list_ex (\<lambda>r. uw_id r = se_UserID sess) (db_users db) then (Inl (sq_foreign L ''sessions.user_id''), db)
          else (Inr (), db\<lparr>db_sessions := db_sessions db @ [\<lparr>xw_token = se_Token sess, xw_user_id = se_UserID sess,
                  xw_expires_at = sql_seconds (se_ExpiresAt sess), xw_created_at = sql_seconds (se_CreatedAt sess)\<rparr>]\<rparr>))"

definition sql_DeleteSession :: "faults \<Rightarrow> 'd SqlAccountsDb_scheme \<Rightarrow> string \<Rightarrow> unit result \<times> 'd SqlAccountsDb_scheme" where
  "sql_DeleteSession fault db token =
     (case fault 0 of
        Some err \<Rightarrow> (Inl err, db)
      | None \<Rightarrow> (Inr (), db\<lparr>db_sessions := filter (\<lambda>r. xw_token r \<noteq> token) (db_sessions db)\<rparr>))"

definition sql_DeleteUserSessions :: "faults \<Rightarrow> 'd SqlAccountsDb_scheme \<Rightarrow> string \<Rightarrow> unit result \<times> 'd SqlAccountsDb_scheme" where
  "sql_DeleteUserSessions fault db userID =
     (case fault 0 of
        Some err \<Rightarrow> (Inl err, db)
      | None \<Rightarrow> (Inr (), db\<lparr>db_sessions := filter (\<lambda>r. xw_user_id r \<noteq> userID) (db_sessions db)\<rparr>))"

definition sql_GetSession :: "'l sql_lib_scheme \<Rightarrow> faults \<Rightarrow> gtime \<Rightarrow> 'd SqlAccountsDb_scheme \<Rightarrow> string \<Rightarrow> Session result \<times> 'd SqlAccountsDb_scheme" where
  "sql_GetSession L fault now db token =
     (case fault 0 of
        Some err \<Rightarrow> (Inl err, db)
      | None \<Rightarrow>
          (case filter (\<lambda>r. xw_token r = token) (db_sessions db) of
             [] \<Rightarrow> (Inl (Errorf ''session not found''), db)
           | r # _ \<Rightarrow>
               (let sess = \<lparr>se_Token = xw_token r, se_UserID = xw_user_id r, se_User = None, se_ExpiresAt = sq_time L (xw_expires_at r),
                      se_CreatedAt = sq_time L (xw_created_at r)\<rparr>
                in if se_ExpiresAt sess < now then (Inl (Errorf ''session expired''), snd (sql_DeleteSession (from 1 fault) db token))
                   else (Inr (case sql_GetUserByID L (from 1 fault) db (se_UserID sess) of
                                Inr user \<Rightarrow> sess\<lparr>se_User := Some user\<rparr> | Inl _ \<Rightarrow> sess), db))))"

section \<open>Password-reset tokens\<close>

definition sql_CreatePasswordResetToken :: "runtime \<Rightarrow> 'l sql_lib_scheme \<Rightarrow> faults \<Rightarrow> gtime \<Rightarrow> string \<Rightarrow> 'd SqlAccountsDb_scheme \<Rightarrow> string \<Rightarrow> int \<Rightarrow>
    string result \<times> 'd SqlAccountsDb_scheme" where
  "sql_CreatePasswordResetToken rt L fault now rnd db email ttl =
     (let token = ''flg_rst_'' @ rnd
      in case fault 0 of
           Some err \<Rightarrow> (Inl err, db)
         | None \<Rightarrow>
             if list_ex (\<lambda>r. tw_token r = token) (db_password_reset_tokens db) then (Inl (sq_unique L ''password_reset_tokens.token''), db)
             else (Inr token, db\<lparr>db_password_reset_tokens := db_password_reset_tokens db @ [\<lparr>tw_token = token, tw_email = ToLower rt email,
                     tw_expires_at = sql_seconds (now + ttl), tw_used = 0, tw_created_at = sql_seconds now\<rparr>]\<rparr>))"

definition sql_GetPasswordResetToken :: "'l sql_lib_scheme \<Rightarrow> faults \<Rightarrow> 'd SqlAccountsDb_scheme \<Rightarrow> string \<Rightarrow> PasswordResetToken result" where
  "sql_GetPasswordResetToken L fault db token =
     (case fault 0 of
        Some err \<Rightarrow> Inl err
      | None \<Rightarrow>
          (case filter (\<lambda>r. tw_token r = token) (db_password_reset_tokens db) of
             [] \<Rightarrow> Inl (Errorf ''reset token not found'')
           | r # _ \<Rightarrow> Inr \<lparr>pt_Token = tw_token r, pt_Email = tw_email r, pt_ExpiresAt = sq_time L (tw_expires_at r), pt_Used = (tw_used r = 1),
                          pt_CreatedAt = sq_time L (tw_created_at r)\<rparr>))"

definition write_password :: "string \<Rightarrow> string \<Rightarrow> gtime \<Rightarrow> UserRow list \<Rightarrow> UserRow list" where
  "write_password email h now rows =
     map (\<lambda>r. if uw_email r = email then r\<lparr>uw_password_hash := h, uw_updated_at := sql_seconds now\<rparr> else r) rows"

definition sql_ResetPasswordWithToken :: "'l sql_lib_scheme \<Rightarrow> faults \<Rightarrow> clock \<Rightarrow> 'd SqlAccountsDb_scheme \<Rightarrow> string \<Rightarrow> string \<Rightarrow>
    unit result \<times> 'd SqlAccountsDb_scheme" where
  "sql_ResetPasswordWithToken L fault ck db token newPasswordHash =
     (case sql_GetPasswordResetToken L fault db token of
        Inl err \<Rightarrow> (Inl err, db)
      | Inr pr \<Rightarrow>
          if pt_Used pr then (Inl (Errorf ''token already used''), db)
          else if pt_ExpiresAt pr < ck 0 then (Inl (Errorf ''token expired''), db)
          else
            (case fault 1 of
               Some err \<Rightarrow> (Inl err, db)
             | None \<Rightarrow>
                 (let db = db\<lparr>db_users := write_password (pt_Email pr) newPasswordHash (ck 1) (db_users db)\<rparr>;
                      db = (if fault 2 = None
                            then db\<lparr>db_password_reset_tokens := map (\<lambda>r. if tw_token r = token then r\<lparr>tw_used := 1\<rparr> else r) (db_password_reset_tokens db)\<rparr>
                            else db)
                  in (Inr (), db))))"

section \<open>API keys\<close>

definition key_row :: "APIKey \<Rightarrow> KeyRow" where
  "key_row k =
     \<lparr>kw_id = ak_ID k, kw_project_id = ak_ProjectID k, kw_environment = ak_Environment k, kw_key_prefix = ak_KeyPrefix k, kw_key_hash = ak_KeyHash k,
      kw_name = ak_Name k, kw_role = ak_Role k, kw_created_by = ak_CreatedBy k, kw_created_at = sql_seconds (ak_CreatedAt k),
      kw_last_used_at = None, kw_revoked = 0\<rparr>"

definition row_key :: "'l sql_lib_scheme \<Rightarrow> KeyRow \<Rightarrow> APIKey" where
  "row_key L r =
     \<lparr>ak_ID = kw_id r, ak_ProjectID = kw_project_id r, ak_Environment = kw_environment r, ak_Key = [], ak_KeyPrefix = kw_key_prefix r,
      ak_KeyHash = [], ak_Name = kw_name r, ak_Role = kw_role r, ak_CreatedBy = kw_created_by r, ak_CreatedAt = sq_time L (kw_created_at r),
      ak_LastUsedAt = map_option (sq_time L) (kw_last_used_at r), ak_Revoked = (kw_revoked r = 1)\<rparr>"

definition sql_CreateAPIKey :: "'l sql_lib_scheme \<Rightarrow> faults \<Rightarrow> clock \<Rightarrow> string \<Rightarrow> 'd SqlAccountsDb_scheme \<Rightarrow> APIKey \<Rightarrow> APIKey result \<times> 'd SqlAccountsDb_scheme" where
  "sql_CreateAPIKey L fault ck rnd db key0 =
     (let key = (if ak_ID key0 = [] then key0\<lparr>ak_ID := ''key_'' @ Itoa (UnixNano (ck 0)) @ ''_'' @ rnd\<rparr> else key0);
          key = (if ak_ProjectID key = [] then key\<lparr>ak_ProjectID := DefaultProjectID\<rparr> else key);
          key = (if ak_Environment key = [] then key\<lparr>ak_Environment := ''production''\<rparr> else key);
          key = key\<lparr>ak_CreatedAt := ck 1, ak_Revoked := False\<rparr>
      in case fault 0 of
           Some err \<Rightarrow> (Inl err, db)
         | None \<Rightarrow>
             if list_ex (\<lambda>r. kw_id r = ak_ID key) (db_api_keys db) then (Inl (sq_unique L ''api_keys.id''), db)
             else if list_ex (\<lambda>r. kw_key_hash r = ak_KeyHash key) (db_api_keys db) then (Inl (sq_unique L ''api_keys.key_hash''), db)
             else (Inr key, db\<lparr>db_api_keys := db_api_keys db @ [key_row key]\<rparr>))"

definition sql_ListAPIKeys :: "'l sql_account_lib_scheme \<Rightarrow> faults \<Rightarrow> 'd SqlAccountsDb_scheme \<Rightarrow> APIKey list result" where
  "sql_ListAPIKeys L fault db =
     (case fault 0 of Some err \<Rightarrow> Inl err
      | None \<Rightarrow> Inr (map (row_key L) (rev (sort_key kw_created_at (sq_scan_keys L (db_api_keys db))))))"

definition sql_ListAPIKeysByProject :: "'l sql_account_lib_scheme \<Rightarrow> faults \<Rightarrow> 'd SqlAccountsDb_scheme \<Rightarrow> string \<Rightarrow> APIKey list result" where
  "sql_ListAPIKeysByProject L fault db projectID0 =
     (let projectID = or_project projectID0
      in case fault 0 of Some err \<Rightarrow> Inl err
         | None \<Rightarrow> Inr (map (row_key L) (rev (sort_key kw_created_at (sq_scan_keys L
             (filter (\<lambda>r. kw_project_id r = projectID \<and> kw_revoked r = 0) (db_api_keys db)))))))"

definition sql_GetAPIKeyByHash :: "'l sql_lib_scheme \<Rightarrow> faults \<Rightarrow> gtime \<Rightarrow> 'd SqlAccountsDb_scheme \<Rightarrow> string \<Rightarrow> APIKey result \<times> 'd SqlAccountsDb_scheme" where
  "sql_GetAPIKeyByHash L fault now db h =
     (case fault 0 of
        Some err \<Rightarrow> (Inl err, db)
      | None \<Rightarrow>
          (case filter (\<lambda>r. kw_key_hash r = h \<and> kw_revoked r = 0) (db_api_keys db) of
             [] \<Rightarrow> (Inl (Errorf ''invalid API key''), db)
           | r # _ \<Rightarrow>
               (Inr ((row_key L r)\<lparr>ak_KeyHash := kw_key_hash r, ak_LastUsedAt := Some now\<rparr>),
                if fault 1 = None
                then db\<lparr>db_api_keys := map (\<lambda>q. if kw_id q = kw_id r then q\<lparr>kw_last_used_at := Some (sql_seconds now)\<rparr> else q) (db_api_keys db)\<rparr>
                else db)))"

definition sql_GetAPIKeyByID :: "'l sql_lib_scheme \<Rightarrow> faults \<Rightarrow> 'd SqlAccountsDb_scheme \<Rightarrow> string \<Rightarrow> APIKey result" where
  "sql_GetAPIKeyByID L fault db i =
     (case fault 0 of
        Some err \<Rightarrow> Inl err
      | None \<Rightarrow>
          (case filter (\<lambda>r. kw_id r = i) (db_api_keys db) of
             [] \<Rightarrow> Inl (Errorf (''api key not found: '' @ i))
           | r # _ \<Rightarrow> Inr (row_key L r)))"

definition revoke_row :: "(KeyRow \<Rightarrow> bool) \<Rightarrow> KeyRow list \<Rightarrow> KeyRow list" where
  "revoke_row hit rows = map (\<lambda>r. if hit r then r\<lparr>kw_revoked := 1\<rparr> else r) rows"

definition sql_RevokeAPIKey :: "runtime \<Rightarrow> 'l sql_lib_scheme \<Rightarrow> faults \<Rightarrow> clock \<Rightarrow> 'd SqlAccountsDb_scheme \<Rightarrow> string \<Rightarrow> string \<Rightarrow>
    unit result \<times> 'd SqlAccountsDb_scheme" where
  "sql_RevokeAPIKey rt L fault ck db i actor =
     (case fault 0 of
        Some err \<Rightarrow> (Inl err, db)
      | None \<Rightarrow>
          (let db = db\<lparr>db_api_keys := revoke_row (\<lambda>r. kw_id r = i) (db_api_keys db)\<rparr>
           in (Inr (), snd (sql_insertAuditLog rt L (from 1 fault) (ck 2) [] db
                 (sql_log (Itoa (UnixNano (ck 0))) [] ''api-keys'' ''API_KEY_REVOKED'' ''all'' actor (''Revoked API Key '' @ i) (ck 1))))))"

definition sql_RevokeAPIKeyByProject :: "runtime \<Rightarrow> 'l sql_lib_scheme \<Rightarrow> faults \<Rightarrow> clock \<Rightarrow> 'd SqlAccountsDb_scheme \<Rightarrow> string \<Rightarrow> string \<Rightarrow> string \<Rightarrow>
    unit result \<times> 'd SqlAccountsDb_scheme" where
  "sql_RevokeAPIKeyByProject rt L fault ck db projectID i actor =
     (case fault 0 of
        Some err \<Rightarrow> (Inl err, db)
      | None \<Rightarrow>
          (let hit = (\<lambda>r. kw_id r = i \<and> kw_project_id r = projectID) in
           if \<not> list_ex hit (db_api_keys db) then (Inl (Errorf (''api key not found or not in project: '' @ i)), db)
           else
             (let db = db\<lparr>db_api_keys := revoke_row hit (db_api_keys db)\<rparr>
              in (Inr (), snd (sql_insertAuditLog rt L (from 1 fault) (ck 2) [] db
                    (sql_log (Itoa (UnixNano (ck 0))) [] ''api-keys'' ''API_KEY_REVOKED'' ''all'' actor
                      (''Revoked API Key '' @ i @ '' in project '' @ projectID) (ck 1)))))))"

section \<open>Passwords and sessions\<close>

lemma filter_write_password:
  "filter (\<lambda>r. uw_email r = a) (write_password e h now rows) =
     map (\<lambda>r. if uw_email r = e then r\<lparr>uw_password_hash := h, uw_updated_at := sql_seconds now\<rparr> else r) (filter (\<lambda>r. uw_email r = a) rows)"
  by (induction rows) (auto simp: write_password_def)

lemma filter_write_password_id:
  "filter (\<lambda>r. uw_id r = i) (write_password e h now rows) =
     map (\<lambda>r. if uw_email r = e then r\<lparr>uw_password_hash := h, uw_updated_at := sql_seconds now\<rparr> else r) (filter (\<lambda>r. uw_id r = i) rows)"
  by (induction rows) (auto simp: write_password_def)

lemma sql_ResetPassword_Inr:
  assumes "sql_ResetPasswordWithToken L fault ck db token h = (Inr (), db')"
  obtains t where "sql_GetPasswordResetToken L fault db token = Inr t" and "\<not> pt_Used t" and "\<not> pt_ExpiresAt t < ck 0"
    and "db_users db' = write_password (pt_Email t) h (ck 1) (db_users db)" and "db_sessions db' = db_sessions db"
    and "db_password_reset_tokens db' = (if fault 2 = None
      then map (\<lambda>r. if tw_token r = token then r\<lparr>tw_used := 1\<rparr> else r) (db_password_reset_tokens db) else db_password_reset_tokens db)"
  using assms by (cases "sql_GetPasswordResetToken L fault db token") (auto simp: sql_ResetPasswordWithToken_def Let_def split: if_splits option.splits)

lemma used_token:
  "filter (\<lambda>r. tw_token r = token) (map (\<lambda>r. if tw_token r = token then r\<lparr>tw_used := 1\<rparr> else r) rows) =
     map (\<lambda>r. r\<lparr>tw_used := 1\<rparr>) (filter (\<lambda>r. tw_token r = token) rows)"
  by (rule filter_update) simp

text \<open>
  A reset token works once, for its own account. When a reset succeeds and no statement failed, the
  token was stored, unused and not expired; the account of its address has the new hash and every
  other account the old one; and every further reset with the token is refused and changes nothing.
\<close>

theorem sqlite_reset_once:
  assumes "sql_ResetPasswordWithToken L no_fault ck db token h = (Inr (), db')"
  shows "\<exists>t. sql_GetPasswordResetToken L no_fault db token = Inr t \<and> \<not> pt_Used t \<and> ck 0 \<le> pt_ExpiresAt t \<and>
    (\<forall>rt email u. sql_GetUserByEmail rt L no_fault db email = Inr u \<longrightarrow>
       (\<exists>u'. sql_GetUserByEmail rt L no_fault db' email = Inr u' \<and> us_ID u' = us_ID u \<and>
         us_PasswordHash u' = (if us_Email u = pt_Email t then h else us_PasswordHash u))) \<and>
    (\<forall>fault' ck' h'. \<exists>e. sql_ResetPasswordWithToken L fault' ck' db' token h' = (Inl e, db'))"
proof -
  obtain t where t: "sql_GetPasswordResetToken L no_fault db token = Inr t" "\<not> pt_Used t" "\<not> pt_ExpiresAt t < ck 0"
      "db_users db' = write_password (pt_Email t) h (ck 1) (db_users db)"
      "db_password_reset_tokens db' = map (\<lambda>r. if tw_token r = token then r\<lparr>tw_used := 1\<rparr> else r) (db_password_reset_tokens db)"
    using assms by (rule sql_ResetPassword_Inr) simp
  have users: "\<exists>u'. sql_GetUserByEmail rt L no_fault db' email = Inr u' \<and> us_ID u' = us_ID u \<and>
      us_PasswordHash u' = (if us_Email u = pt_Email t then h else us_PasswordHash u)"
    if "sql_GetUserByEmail rt L no_fault db email = Inr u" for rt email u
    using that by (auto simp: sql_GetUserByEmail_def t(4) filter_write_password row_user_def split: list.splits)
  have "sql_GetPasswordResetToken L fault' db' token = Inr t' \<Longrightarrow> pt_Used t'" for fault' t'
    by (auto simp: sql_GetPasswordResetToken_def t(5) used_token split: option.splits list.splits)
  then have "\<exists>e. sql_ResetPasswordWithToken L fault' ck' db' token h' = (Inl e, db')" for fault' ck' h'
    by (cases "sql_GetPasswordResetToken L fault' db' token") (simp_all add: sql_ResetPasswordWithToken_def)
  with users t(1-3) show ?thesis by fastforce
qed

definition demo_keys :: "KeyRow list" where
  "demo_keys = [key_row \<lparr>ak_ID = ''k1'', ak_ProjectID = ''acme'', ak_Environment = ''production'', ak_Key = [], ak_KeyPrefix = [], ak_KeyHash = ''h1'',
       ak_Name = [], ak_Role = ''developer'', ak_CreatedBy = ''u1'', ak_CreatedAt = 1, ak_LastUsedAt = None, ak_Revoked = False\<rparr>,
     key_row \<lparr>ak_ID = ''k2'', ak_ProjectID = ''acme'', ak_Environment = ''production'', ak_Key = [], ak_KeyPrefix = [], ak_KeyHash = ''h2'',
       ak_Name = [], ak_Role = ''developer'', ak_CreatedBy = ''u1'', ak_CreatedAt = 1, ak_LastUsedAt = None, ak_Revoked = False\<rparr>]"

definition demo_account_db :: SqlAccountsDb where
  "demo_account_db = \<lparr>db_feature_flags = [], db_audit_logs = [], db_audit_anchors = [], db_change_requests = [],
     db_users = [\<lparr>uw_id = ''u1'', uw_email = ''ann@acme.com'', uw_password_hash = ''old'', uw_name = ''Ann'', uw_role = ''developer'', uw_avatar_url = [],
       uw_created_at = [], uw_updated_at = []\<rparr>],
     db_sessions = [\<lparr>xw_token = ''s1'', xw_user_id = ''u1'', xw_expires_at = [], xw_created_at = []\<rparr>],
     db_password_reset_tokens = [\<lparr>tw_token = ''flg_rst_1'', tw_email = ''ann@acme.com'', tw_expires_at = [], tw_used = 0, tw_created_at = []\<rparr>],
     db_api_keys = demo_keys\<rparr>"

abbreviation (input) "demo_sql_reset \<equiv> sql_ResetPasswordWithToken demo_change_lib no_fault (\<lambda>_. 0) demo_account_db ''flg_rst_1'' ''new''"

theorem sqlite_reset_once_witness:
  "\<exists>u e. sql_GetUserByEmail demo_runtime demo_change_lib no_fault (snd demo_sql_reset) ''ann@acme.com'' = Inr u \<and> us_PasswordHash u = ''new'' \<and>
     fst (sql_ResetPasswordWithToken demo_change_lib no_fault (\<lambda>_. 0) (snd demo_sql_reset) ''flg_rst_1'' ''x'') = Inl e"
proof -
  have run: "demo_sql_reset = (Inr (), snd demo_sql_reset)"
    by (simp add: sql_ResetPasswordWithToken_def sql_GetPasswordResetToken_def demo_account_db_def demo_change_lib_def demo_rows_def sql_lib.defs Let_def)
  have tok: "\<exists>t. sql_GetPasswordResetToken demo_change_lib no_fault demo_account_db ''flg_rst_1'' = Inr t \<and> pt_Email t = ''ann@acme.com''"
    by (simp add: sql_GetPasswordResetToken_def demo_account_db_def)
  have low: "ToLower demo_runtime ''ann@acme.com'' = ''ann@acme.com''" by code_simp
  have user: "\<exists>u. sql_GetUserByEmail demo_runtime demo_change_lib no_fault demo_account_db ''ann@acme.com'' = Inr u \<and> us_Email u = ''ann@acme.com''"
    by (simp add: sql_GetUserByEmail_def low demo_account_db_def row_user_def)
  show ?thesis using sqlite_reset_once [OF run] tok user by (metis Inr_inject fst_conv)
qed

text \<open>
  The reset leaves the sessions alone, where the in-memory store ends them: whoever holds a session of
  the account keeps it after the password was reset.
\<close>

lemma sqlite_sessions_survive_reset:
  assumes "sql_ResetPasswordWithToken L fault ck db token h = (Inr (), db')" and "sql_GetSession L no_fault now db tok = (Inr sess, db)"
  shows "\<exists>sess'. sql_GetSession L no_fault now db' tok = (Inr sess', db') \<and> se_UserID sess' = se_UserID sess \<and>
    (se_User sess \<noteq> None \<longrightarrow> se_User sess' \<noteq> None)"
proof -
  obtain t :: PasswordResetToken where t: "db_users db' = write_password (pt_Email t) h (ck 1) (db_users db)" "db_sessions db' = db_sessions db"
    using assms(1) by (rule sql_ResetPassword_Inr) blast
  show ?thesis
    using assms(2) by (auto simp: sql_GetSession_def sql_GetUserByID_def t filter_write_password_id Let_def split: list.splits if_splits)
qed

text \<open>The mark of the token is a statement whose error is dropped: when it fails, the token works again.\<close>

lemma sqlite_token_reused:
  assumes "sql_ResetPasswordWithToken L (\<lambda>i. if i = 2 then Some e else None) ck db token h = (Inr (), db')" and "ck' 0 \<le> ck 0"
  shows "\<exists>db''. sql_ResetPasswordWithToken L no_fault ck' db' token h' = (Inr (), db'')"
proof -
  obtain t where t: "sql_GetPasswordResetToken L (\<lambda>i. if i = 2 then Some e else None) db token = Inr t" "\<not> pt_Used t" "\<not> pt_ExpiresAt t < ck 0"
      "db_password_reset_tokens db' = db_password_reset_tokens db"
    using assms(1) by (rule sql_ResetPassword_Inr) simp
  have "sql_GetPasswordResetToken L no_fault db' token = Inr t"
    using t(1) by (simp add: sql_GetPasswordResetToken_def t(4))
  then show ?thesis using t(2,3) assms(2) by (simp add: sql_ResetPasswordWithToken_def Let_def)
qed

text \<open>A session that was opened authenticates its user until the second of its expiry, and not longer.\<close>

lemma sqlite_session_lifetime:
  assumes "sql_CreateSession L no_fault db sess = (Inr (), db')" and "sq_time L (sql_seconds (se_ExpiresAt sess)) = t"
  shows "now \<le> t \<Longrightarrow> \<exists>s u. sql_GetSession L no_fault now db' (se_Token sess) = (Inr s, db') \<and> se_UserID s = se_UserID sess \<and>
      se_User s = Some u \<and> us_ID u = se_UserID sess"
    and "t < now \<Longrightarrow> fst (sql_GetSession L fault now db' (se_Token sess)) \<noteq> Inr s"
proof -
  define row where "row = \<lparr>xw_token = se_Token sess, xw_user_id = se_UserID sess, xw_expires_at = sql_seconds (se_ExpiresAt sess),
    xw_created_at = sql_seconds (se_CreatedAt sess)\<rparr>"
  have new: "\<not> list_ex (\<lambda>r. xw_token r = se_Token sess) (db_sessions db)" "list_ex (\<lambda>r. uw_id r = se_UserID sess) (db_users db)"
      "db' = db\<lparr>db_sessions := db_sessions db @ [row]\<rparr>"
    using assms(1) by (simp_all add: sql_CreateSession_def row_def split: if_splits)
  have hit: "filter (\<lambda>r. xw_token r = se_Token sess) (db_sessions db') = [row]"
    using new(1) by (auto simp: new(3) row_def list_ex_iff filter_empty_conv)
  obtain u us where us: "filter (\<lambda>r. uw_id r = se_UserID sess) (db_users db') = u # us" "uw_id u = se_UserID sess"
    using new(2) by (cases "filter (\<lambda>r. uw_id r = se_UserID sess) (db_users db')")
      (auto simp: new(3) list_ex_iff filter_empty_conv filter_eq_Cons_iff)
  show "\<exists>s u. sql_GetSession L no_fault now db' (se_Token sess) = (Inr s, db') \<and> se_UserID s = se_UserID sess \<and>
      se_User s = Some u \<and> us_ID u = se_UserID sess" if "now \<le> t"
    using that assms(2) us by (simp add: sql_GetSession_def hit row_def sql_GetUserByID_def row_user_def Let_def)
  show "fst (sql_GetSession L fault now db' (se_Token sess)) \<noteq> Inr s" if "t < now"
    using that assms(2) by (simp add: sql_GetSession_def hit row_def Let_def split: option.split)
qed

section \<open>Revoked keys\<close>

definition revoked_key :: "string \<Rightarrow> KeyRow list \<Rightarrow> bool" where
  "revoked_key i rows \<longleftrightarrow> i \<in> kw_id ` set rows \<and> (\<forall>r \<in> set rows. kw_id r = i \<longrightarrow> kw_revoked r = 1)"

text \<open>The calls that write the table of keys; every other call of the store leaves it as it is.\<close>

inductive sql_key_step :: "runtime \<Rightarrow> 'l sql_lib_scheme \<Rightarrow> 'd SqlAccountsDb_scheme \<Rightarrow> 'd SqlAccountsDb_scheme \<Rightarrow> bool" for rt L where
  minted: "sql_CreateAPIKey L fault ck rnd db k = (res, db') \<Longrightarrow> sql_key_step rt L db db'"
| used: "sql_GetAPIKeyByHash L fault now db h = (res, db') \<Longrightarrow> sql_key_step rt L db db'"
| revoked: "sql_RevokeAPIKey rt L fault ck db i actor = (res', db') \<Longrightarrow> sql_key_step rt L db db'"
| revoked_in: "sql_RevokeAPIKeyByProject rt L fault ck db p i actor = (res', db') \<Longrightarrow> sql_key_step rt L db db'"
| other: "db_api_keys db' = db_api_keys db \<Longrightarrow> sql_key_step rt L db db'"

lemma sql_insertAuditLog_keys:
  "db_api_keys (snd (sql_insertAuditLog rt L fault now rnd db e)) = db_api_keys (db :: 'd SqlAccountsDb_scheme)"
  by (simp add: sql_insertAuditLog_def Let_def split: option.split)

lemma revoked_key_map:
  assumes "revoked_key i rows" and "\<And>r. kw_id (f r) = kw_id r" and "\<And>r. kw_revoked r = 1 \<Longrightarrow> kw_revoked (f r) = 1"
  shows "revoked_key i (map f rows)"
  using assms by (force simp: revoked_key_def image_iff)

lemma sql_CreateAPIKey_rows:
  assumes "sql_CreateAPIKey L fault ck rnd db k = (res, db')"
  shows "db_api_keys db' = db_api_keys db \<or> (\<exists>n. kw_id n \<notin> kw_id ` set (db_api_keys db) \<and> db_api_keys db' = db_api_keys db @ [n])"
proof -
  define c where "c = (let key = (if ak_ID k = [] then k\<lparr>ak_ID := ''key_'' @ Itoa (UnixNano (ck 0)) @ ''_'' @ rnd\<rparr> else k);
          key = (if ak_ProjectID key = [] then key\<lparr>ak_ProjectID := DefaultProjectID\<rparr> else key);
          key = (if ak_Environment key = [] then key\<lparr>ak_Environment := ''production''\<rparr> else key)
      in key\<lparr>ak_CreatedAt := ck 1, ak_Revoked := False\<rparr>)"
  have "(res, db') = (case fault 0 of Some err \<Rightarrow> (Inl err, db)
      | None \<Rightarrow> if list_ex (\<lambda>r. kw_id r = ak_ID c) (db_api_keys db) then (Inl (sq_unique L ''api_keys.id''), db)
          else if list_ex (\<lambda>r. kw_key_hash r = ak_KeyHash c) (db_api_keys db) then (Inl (sq_unique L ''api_keys.key_hash''), db)
          else (Inr c, db\<lparr>db_api_keys := db_api_keys db @ [key_row c]\<rparr>))"
    unfolding assms [symmetric] sql_CreateAPIKey_def c_def Let_def ..
  then have "db_api_keys db' = db_api_keys db \<or>
      \<not> list_ex (\<lambda>r. kw_id r = ak_ID c) (db_api_keys db) \<and> db_api_keys db' = db_api_keys db @ [key_row c]"
    by (auto split: option.splits if_splits)
  moreover have "kw_id (key_row c) \<notin> kw_id ` set (db_api_keys db)" if "\<not> list_ex (\<lambda>r. kw_id r = ak_ID c) (db_api_keys db)"
    using that by (fastforce simp: list_ex_iff key_row_def)
  ultimately show ?thesis by blast
qed

lemma revoked_key_step: "sql_key_step rt L db db' \<Longrightarrow> revoked_key i (db_api_keys db) \<Longrightarrow> revoked_key i (db_api_keys db')"
proof (induction rule: sql_key_step.induct)
  case (minted fault ck rnd db k res db')
  from sql_CreateAPIKey_rows [OF this(1)] show ?case using minted(2) by (auto simp: revoked_key_def)
next
  case (used fault now db h res db')
  have "db_api_keys db' = db_api_keys db \<or>
      (\<exists>j. db_api_keys db' = map (\<lambda>q. if kw_id q = j then q\<lparr>kw_last_used_at := Some (sql_seconds now)\<rparr> else q) (db_api_keys db))"
    using used(1) by (auto simp: sql_GetAPIKeyByHash_def split: option.splits list.splits if_splits)
  then show ?case using used(2) by (auto intro!: revoked_key_map)
next
  case (revoked fault ck db j actor res' db')
  have "db_api_keys db' = db_api_keys db \<or> (\<exists>hit. db_api_keys db' = revoke_row hit (db_api_keys db))"
    using revoked(1) by (auto simp: sql_RevokeAPIKey_def sql_insertAuditLog_keys split: option.splits)
  then show ?case using revoked(2) by (auto simp: revoke_row_def intro!: revoked_key_map)
next
  case (revoked_in fault ck db p j actor res' db')
  have "db_api_keys db' = db_api_keys db \<or> (\<exists>hit. db_api_keys db' = revoke_row hit (db_api_keys db))"
    using revoked_in(1) by (auto simp: sql_RevokeAPIKeyByProject_def sql_insertAuditLog_keys Let_def split: option.splits if_splits)
  then show ?case using revoked_in(2) by (auto simp: revoke_row_def intro!: revoked_key_map)
qed simp

lemma revoke_row_ids: "map kw_id (revoke_row hit rows) = map kw_id rows"
  by (simp add: revoke_row_def)

lemma revoke_in_project:
  assumes "sql_RevokeAPIKeyByProject rt L fault ck db p i actor = (Inr (), db')" and "distinct (map kw_id (db_api_keys db))"
  shows "revoked_key i (db_api_keys db')"
proof -
  have keys: "db_api_keys db' = revoke_row (\<lambda>r. kw_id r = i \<and> kw_project_id r = p) (db_api_keys db)"
      and "list_ex (\<lambda>r. kw_id r = i \<and> kw_project_id r = p) (db_api_keys db)"
    using assms(1) by (auto simp: sql_RevokeAPIKeyByProject_def sql_insertAuditLog_keys Let_def split: option.splits if_splits)
  then obtain r where r: "r \<in> set (db_api_keys db)" "kw_id r = i" "kw_project_id r = p" by (auto simp: list_ex_iff)
  have same: "q = r" if "q \<in> set (db_api_keys db)" "kw_id q = i" for q
    using assms(2) that r(1,2) by (auto simp: distinct_map dest: inj_onD)
  have "kw_revoked q' = 1" if q': "q' \<in> set (db_api_keys db')" "kw_id q' = i" for q'
  proof -
    obtain q where q: "q' = (if kw_id q = i \<and> kw_project_id q = p then q\<lparr>kw_revoked := 1\<rparr> else q)" "q \<in> set (db_api_keys db)"
      using q'(1) unfolding keys revoke_row_def set_map by (rule imageE)
    then have "kw_id q = i" using q'(2) by (simp split: if_splits)
    then have "q = r" using q(2) by (rule same [rotated])
    then show ?thesis using q(1) r(2,3) by simp
  qed
  moreover have "i \<in> kw_id ` set (db_api_keys db')"
    using r(1,2) revoke_row_ids [of "\<lambda>r. kw_id r = i \<and> kw_project_id r = p" "db_api_keys db"] by (simp add: keys) (metis image_eqI list.set_map)
  ultimately show ?thesis by (simp add: revoked_key_def)
qed

text \<open>
  C32: A revoked key is refused for good. Once the revocation of a key in its project has been answered with
  success, no later lookup by a hash returns the key, whatever calls come between: keys that are
  minted, used and revoked, and calls that leave the keys alone, with failing statements or without.
\<close>

theorem sqlite_revoked_for_good:
  assumes "sql_RevokeAPIKeyByProject rt L fault ck db p i actor = (Inr (), db')" and "distinct (map kw_id (db_api_keys db))"
    and "(sql_key_step rt L)\<^sup>*\<^sup>* db' db2" and "sql_GetAPIKeyByHash L fault' now db2 h = (Inr k, db3)"
  shows "ak_ID k \<noteq> i"
proof -
  have "revoked_key i (db_api_keys db2)"
    using assms(3) revoke_in_project [OF assms(1,2)] by (induction rule: rtranclp_induct) (auto dest: revoked_key_step)
  moreover obtain r where "r \<in> set (db_api_keys db2)" "kw_revoked r = 0" "ak_ID k = kw_id r"
    using assms(4) by (fastforce simp: sql_GetAPIKeyByHash_def row_key_def filter_eq_Cons_iff split: option.splits list.splits)
  ultimately show ?thesis by (auto simp: revoked_key_def)
qed

theorem sqlite_revoked_for_good_witness:
  "\<exists>k. fst (sql_GetAPIKeyByHash demo_change_lib no_fault 3 (snd (sql_RevokeAPIKeyByProject demo_runtime demo_change_lib no_fault (\<lambda>_. 2)
     demo_account_db ''acme'' ''k1'' ''ann'')) ''h2'') = Inr k \<and> ak_ID k \<noteq> ''k1''"
proof -
  let ?run = "sql_RevokeAPIKeyByProject demo_runtime demo_change_lib no_fault (\<lambda>_. 2) demo_account_db ''acme'' ''k1'' ''ann''"
  have keys: "db_api_keys demo_account_db = demo_keys" by (simp add: demo_account_db_def)
  have run: "?run = (Inr (), snd ?run)"
    by (simp add: sql_RevokeAPIKeyByProject_def keys demo_keys_def key_row_def Let_def)
  have d: "distinct (map kw_id (db_api_keys demo_account_db))" by (simp add: keys demo_keys_def key_row_def)
  have "\<exists>k. fst (sql_GetAPIKeyByHash demo_change_lib no_fault 3 (snd ?run) ''h2'') = Inr k"
    by (simp add: sql_RevokeAPIKeyByProject_def sql_GetAPIKeyByHash_def sql_insertAuditLog_keys keys demo_keys_def key_row_def revoke_row_def Let_def)
  then obtain k where k: "sql_GetAPIKeyByHash demo_change_lib no_fault 3 (snd ?run) ''h2'' =
      (Inr k, snd (sql_GetAPIKeyByHash demo_change_lib no_fault 3 (snd ?run) ''h2''))"
    by (metis prod.collapse)
  from sqlite_revoked_for_good [OF run d rtranclp.rtrancl_refl k] k show ?thesis by (metis fst_conv)
qed

end
