(* ===== verification/Sqlite_Tenancy.thy ===== *)
theory Sqlite_Tenancy
  imports Sqlite_Accounts
begin

text \<open>
  Organizations, projects, members and invitations of the SQLite store, with the foreign keys between
  them and to the users.
\<close>

section \<open>Tables\<close>

record OrgRow =
  gw_id :: string
  gw_name :: string
  gw_slug :: string
  gw_description :: string
  gw_created_at :: string
  gw_updated_at :: string

record ProjectRow =
  jw_id :: string
  jw_organization_id :: string
  jw_name :: string
  jw_slug :: string
  jw_description :: string
  jw_created_at :: string
  jw_updated_at :: string

record MemberRow =
  mw_id :: string
  mw_organization_id :: string
  mw_user_id :: string
  mw_role :: string
  mw_created_at :: string

record InvitationRow =
  vw_id :: string
  vw_organization_id :: string
  vw_org_name :: string
  vw_email :: string
  vw_token :: string
  vw_role :: string
  vw_invited_by :: string
  vw_expires_at :: string
  vw_accepted_at :: "string option"

record SqlTenantsDb = SqlAccountsDb +
  db_organizations :: "OrgRow list"
  db_projects :: "ProjectRow list"
  db_org_members :: "MemberRow list"
  db_org_invitations :: "InvitationRow list"

record sql_tenant_lib = sql_account_lib +
  sq_scan_orgs :: "OrgRow list \<Rightarrow> OrgRow list"
  sq_scan_projects :: "ProjectRow list \<Rightarrow> ProjectRow list"
  sq_scan_members :: "MemberRow list \<Rightarrow> MemberRow list"
  sq_scan_invitations :: "InvitationRow list \<Rightarrow> InvitationRow list"

section \<open>Organizations and projects\<close>

definition row_org :: "'l sql_lib_scheme \<Rightarrow> OrgRow \<Rightarrow> Organization" where
  "row_org L r =
     \<lparr>og_ID = gw_id r, og_Name = gw_name r, og_Slug = gw_slug r, og_Description = gw_description r,
      og_CreatedAt = sq_time L (gw_created_at r), og_UpdatedAt = sq_time L (gw_updated_at r)\<rparr>"

definition sql_CreateOrganization :: "'l sql_lib_scheme \<Rightarrow> faults \<Rightarrow> gtime \<Rightarrow> string \<Rightarrow> 'd SqlTenantsDb_scheme \<Rightarrow> Organization \<Rightarrow>
    Organization result \<times> 'd SqlTenantsDb_scheme" where
  "sql_CreateOrganization L fault now rnd db org0 =
     (let org = (if og_ID org0 = [] then org0\<lparr>og_ID := ''org_'' @ rnd\<rparr> else org0);
          org = org\<lparr>og_CreatedAt := now, og_UpdatedAt := now\<rparr>
      in case fault 0 of
           Some err \<Rightarrow> (Inl err, db)
         | None \<Rightarrow>
             if list_ex (\<lambda>r. gw_id r = og_ID org) (db_organizations db) then (Inl (sq_unique L ''organizations.id''), db)
             else if list_ex (\<lambda>r. gw_slug r = og_Slug org) (db_organizations db) then (Inl (sq_unique L ''organizations.slug''), db)
             else (Inr org, db\<lparr>db_organizations := db_organizations db @ [\<lparr>gw_id = og_ID org, gw_name = og_Name org, gw_slug = og_Slug org,
                     gw_description = og_Description org, gw_created_at = sql_seconds now, gw_updated_at = sql_seconds now\<rparr>]\<rparr>))"

definition sql_GetOrganization :: "'l sql_tenant_lib_scheme \<Rightarrow> faults \<Rightarrow> 'd SqlTenantsDb_scheme \<Rightarrow> string \<Rightarrow> Organization result" where
  "sql_GetOrganization L fault db idOrSlug =
     (case fault 0 of
        Some err \<Rightarrow> Inl err
      | None \<Rightarrow>
          (case sq_scan_orgs L (filter (\<lambda>r. gw_id r = idOrSlug \<or> gw_slug r = idOrSlug) (db_organizations db)) of
             [] \<Rightarrow> Inl (Errorf (''organization not found: '' @ idOrSlug))
           | r # _ \<Rightarrow> Inr (row_org L r)))"

definition sql_ListOrganizations :: "'l sql_tenant_lib_scheme \<Rightarrow> faults \<Rightarrow> 'd SqlTenantsDb_scheme \<Rightarrow> Organization list result" where
  "sql_ListOrganizations L fault db =
     (case fault 0 of Some err \<Rightarrow> Inl err
      | None \<Rightarrow> Inr (map (row_org L) (sort_key gw_name (sq_scan_orgs L (db_organizations db)))))"

definition sql_ListUserOrganizations :: "'l sql_tenant_lib_scheme \<Rightarrow> faults \<Rightarrow> 'd SqlTenantsDb_scheme \<Rightarrow> string \<Rightarrow> Organization list result" where
  "sql_ListUserOrganizations L fault db userID =
     (case fault 0 of
        Some err \<Rightarrow> Inl err
      | None \<Rightarrow>
          (let joined = concat (map (\<lambda>og. map (\<lambda>m. og) (filter (\<lambda>m. mw_organization_id m = gw_id og \<and> mw_user_id m = userID) (db_org_members db)))
                 (db_organizations db));
               orgs = map (row_org L) (sort_key gw_name (sq_scan_orgs L joined));
               role = (case (if fault 1 = None then filter (\<lambda>r. uw_id r = userID) (db_users db) else []) of r # _ \<Rightarrow> uw_role r | [] \<Rightarrow> [])
           in if role = RoleAdmin then sql_ListOrganizations L (from 2 fault) db else Inr orgs))"

text \<open>A project is read without the time of its update.\<close>

definition row_project :: "'l sql_lib_scheme \<Rightarrow> ProjectRow \<Rightarrow> Project" where
  "row_project L r =
     \<lparr>pj_ID = jw_id r, pj_OrganizationID = jw_organization_id r, pj_ConfigVersion = 0, pj_Name = jw_name r, pj_Slug = jw_slug r,
      pj_Description = jw_description r, pj_CreatedAt = sq_time L (jw_created_at r), pj_UpdatedAt = 0\<rparr>"

definition sql_CreateProject :: "'l sql_account_lib_scheme \<Rightarrow> faults \<Rightarrow> gtime \<Rightarrow> string \<Rightarrow> 'd SqlTenantsDb_scheme \<Rightarrow> Project \<Rightarrow>
    Project result \<times> 'd SqlTenantsDb_scheme" where
  "sql_CreateProject L fault now rnd db project0 =
     (let project = (if pj_ID project0 = [] then project0\<lparr>pj_ID := ''proj_'' @ rnd\<rparr> else project0);
          project = (if pj_OrganizationID project = [] then project\<lparr>pj_OrganizationID := DefaultOrgID\<rparr> else project);
          project = project\<lparr>pj_CreatedAt := now\<rparr>
      in case fault 0 of
           Some err \<Rightarrow> (Inl err, db)
         | None \<Rightarrow>
             if list_ex (\<lambda>r. jw_id r = pj_ID project) (db_projects db) then (Inl (sq_unique L ''projects.id''), db)
             else if list_ex (\<lambda>r. jw_organization_id r = pj_OrganizationID project \<and> jw_slug r = pj_Slug project) (db_projects db)
             then (Inl (sq_unique L ''projects.organization_id, projects.slug''), db)
             else if \<not> list_ex (\<lambda>r. gw_id r = pj_OrganizationID project) (db_organizations db) then (Inl (sq_foreign L ''projects.organization_id''), db)
             else (Inr project, db\<lparr>db_projects := db_projects db @ [\<lparr>jw_id = pj_ID project, jw_organization_id = pj_OrganizationID project,
                     jw_name = pj_Name project, jw_slug = pj_Slug project, jw_description = pj_Description project,
                     jw_created_at = sql_seconds now, jw_updated_at = sql_seconds now\<rparr>]\<rparr>))"

definition sql_GetProject :: "'l sql_tenant_lib_scheme \<Rightarrow> faults \<Rightarrow> 'd SqlTenantsDb_scheme \<Rightarrow> string \<Rightarrow> Project result" where
  "sql_GetProject L fault db idOrSlug =
     (case fault 0 of
        Some err \<Rightarrow> Inl err
      | None \<Rightarrow>
          (case sq_scan_projects L (filter (\<lambda>r. jw_id r = idOrSlug \<or> jw_slug r = idOrSlug) (db_projects db)) of
             [] \<Rightarrow> Inl (Errorf (''project not found: '' @ idOrSlug))
           | r # _ \<Rightarrow> Inr (row_project L r)))"

definition sql_ListProjects :: "'l sql_tenant_lib_scheme \<Rightarrow> faults \<Rightarrow> 'd SqlTenantsDb_scheme \<Rightarrow> string \<Rightarrow> Project list result" where
  "sql_ListProjects L fault db organizationID =
     (case fault 0 of
        Some err \<Rightarrow> Inl err
      | None \<Rightarrow> Inr (map (row_project L) (sort_key jw_name (sq_scan_projects L
          (if organizationID \<noteq> [] then filter (\<lambda>r. jw_organization_id r = organizationID) (db_projects db) else db_projects db)))))"

section \<open>Members and invitations\<close>

definition row_member :: "'l sql_lib_scheme \<Rightarrow> MemberRow \<Rightarrow> OrgMember" where
  "row_member L r =
     \<lparr>om_ID = mw_id r, om_OrganizationID = mw_organization_id r, om_UserID = mw_user_id r, om_Role = mw_role r,
      om_CreatedAt = sq_time L (mw_created_at r)\<rparr>"

text \<open>The upsert of a member: an existing membership takes the new role and nothing else.\<close>

definition upsert_member :: "'l sql_account_lib_scheme \<Rightarrow> OrgMember \<Rightarrow> 'd SqlTenantsDb_scheme \<Rightarrow> unit result \<times> 'd SqlTenantsDb_scheme" where
  "upsert_member L m db =
     (let same = (\<lambda>r. mw_organization_id r = om_OrganizationID m \<and> mw_user_id r = om_UserID m) in
      if list_ex same (db_org_members db)
      then (Inr (), db\<lparr>db_org_members := map (\<lambda>r. if same r then r\<lparr>mw_role := om_Role m\<rparr> else r) (db_org_members db)\<rparr>)
      else if list_ex (\<lambda>r. mw_id r = om_ID m) (db_org_members db) then (Inl (sq_unique L ''org_members.id''), db)
      else if \<not> list_ex (\<lambda>r. gw_id r = om_OrganizationID m) (db_organizations db) then (Inl (sq_foreign L ''org_members.organization_id''), db)
      else if \<not> list_ex (\<lambda>r. uw_id r = om_UserID m) (db_users db) then (Inl (sq_foreign L ''org_members.user_id''), db)
      else (Inr (), db\<lparr>db_org_members := db_org_members db @ [\<lparr>mw_id = om_ID m, mw_organization_id = om_OrganizationID m, mw_user_id = om_UserID m,
              mw_role = om_Role m, mw_created_at = sql_seconds (om_CreatedAt m)\<rparr>]\<rparr>))"

definition sql_CreateOrgMember :: "'l sql_account_lib_scheme \<Rightarrow> faults \<Rightarrow> gtime \<Rightarrow> string \<Rightarrow> 'd SqlTenantsDb_scheme \<Rightarrow> OrgMember \<Rightarrow>
    OrgMember result \<times> 'd SqlTenantsDb_scheme" where
  "sql_CreateOrgMember L fault now rnd db member0 =
     (let member = (if om_ID member0 = [] then member0\<lparr>om_ID := ''mem_'' @ rnd\<rparr> else member0);
          member = member\<lparr>om_CreatedAt := now\<rparr>
      in case fault 0 of
           Some err \<Rightarrow> (Inl err, db)
         | None \<Rightarrow> (case upsert_member L member db of (Inl err, db) \<Rightarrow> (Inl err, db) | (Inr _, db) \<Rightarrow> (Inr member, db)))"

definition sql_GetOrgMember :: "'l sql_lib_scheme \<Rightarrow> faults \<Rightarrow> 'd SqlTenantsDb_scheme \<Rightarrow> string \<Rightarrow> string \<Rightarrow> OrgMember result" where
  "sql_GetOrgMember L fault db organizationID userID =
     (case fault 0 of
        Some err \<Rightarrow> Inl err
      | None \<Rightarrow>
          (case filter (\<lambda>r. mw_organization_id r = organizationID \<and> mw_user_id r = userID) (db_org_members db) of
             [] \<Rightarrow> Inl (Sentinel ErrNotFound)
           | r # _ \<Rightarrow> Inr (row_member L r)))"

definition sql_ListOrgMembers :: "'l sql_tenant_lib_scheme \<Rightarrow> faults \<Rightarrow> 'd SqlTenantsDb_scheme \<Rightarrow> string \<Rightarrow> OrgMember list result" where
  "sql_ListOrgMembers L fault db organizationID =
     (case fault 0 of
        Some err \<Rightarrow> Inl err
      | None \<Rightarrow> Inr (map (row_member L) (sort_key mw_created_at (sq_scan_members L
          (filter (\<lambda>r. mw_organization_id r = organizationID) (db_org_members db))))))"

definition row_invitation :: "'l sql_lib_scheme \<Rightarrow> InvitationRow \<Rightarrow> OrgInvitation" where
  "row_invitation L r =
     \<lparr>oi_ID = vw_id r, oi_OrganizationID = vw_organization_id r, oi_OrgName = vw_org_name r, oi_Email = vw_email r, oi_Token = vw_token r,
      oi_Role = vw_role r, oi_InvitedBy = vw_invited_by r, oi_ExpiresAt = sq_time L (vw_expires_at r),
      oi_AcceptedAt = map_option (sq_time L) (vw_accepted_at r), oi_CreatedAt = 0\<rparr>"

definition sql_CreateOrgInvitation :: "runtime \<Rightarrow> 'l sql_account_lib_scheme \<Rightarrow> faults \<Rightarrow> gtime \<Rightarrow> string \<Rightarrow> string \<Rightarrow> 'd SqlTenantsDb_scheme \<Rightarrow>
    OrgInvitation \<Rightarrow> OrgInvitation result \<times> 'd SqlTenantsDb_scheme" where
  "sql_CreateOrgInvitation rt L fault now rnd rnd' db invt0 =
     (let invt = (if oi_ID invt0 = [] then invt0\<lparr>oi_ID := ''inv_'' @ rnd\<rparr> else invt0);
          invt = (if oi_Token invt = [] then invt\<lparr>oi_Token := rnd'\<rparr> else invt);
          invt = (if IsZero (oi_ExpiresAt invt) then invt\<lparr>oi_ExpiresAt := now + 7 * 24 * Hour\<rparr> else invt)
      in case fault 0 of
           Some err \<Rightarrow> (Inl err, db)
         | None \<Rightarrow>
             if list_ex (\<lambda>r. vw_id r = oi_ID invt) (db_org_invitations db) then (Inl (sq_unique L ''org_invitations.id''), db)
             else if list_ex (\<lambda>r. vw_token r = oi_Token invt) (db_org_invitations db) then (Inl (sq_unique L ''org_invitations.token''), db)
             else if \<not> list_ex (\<lambda>r. gw_id r = oi_OrganizationID invt) (db_organizations db) then (Inl (sq_foreign L ''org_invitations.organization_id''), db)
             else (Inr invt, db\<lparr>db_org_invitations := db_org_invitations db @ [\<lparr>vw_id = oi_ID invt, vw_organization_id = oi_OrganizationID invt,
                     vw_org_name = oi_OrgName invt, vw_email = ToLower rt (oi_Email invt), vw_token = oi_Token invt, vw_role = oi_Role invt,
                     vw_invited_by = oi_InvitedBy invt, vw_expires_at = sql_seconds (oi_ExpiresAt invt), vw_accepted_at = None\<rparr>]\<rparr>))"

definition sql_GetOrgInvitation :: "'l sql_lib_scheme \<Rightarrow> faults \<Rightarrow> 'd SqlTenantsDb_scheme \<Rightarrow> string \<Rightarrow> OrgInvitation result" where
  "sql_GetOrgInvitation L fault db token =
     (case fault 0 of
        Some err \<Rightarrow> Inl err
      | None \<Rightarrow>
          (case filter (\<lambda>r. vw_token r = token) (db_org_invitations db) of
             [] \<Rightarrow> Inl (Errorf ''invitation not found'')
           | r # _ \<Rightarrow> Inr (row_invitation L r)))"

text \<open>The address of the user is read with its error dropped, the mark is written before the membership.\<close>

definition stored_email :: "faults \<Rightarrow> 'd SqlTenantsDb_scheme \<Rightarrow> string \<Rightarrow> string" where
  "stored_email fault db userID =
     (case (if fault 0 = None then filter (\<lambda>r. uw_id r = userID) (db_users db) else []) of r # _ \<Rightarrow> uw_email r | [] \<Rightarrow> [])"

definition mark_accepted :: "gtime \<Rightarrow> string \<Rightarrow> InvitationRow list \<Rightarrow> InvitationRow list" where
  "mark_accepted now token rows = map (\<lambda>r. if vw_token r = token then r\<lparr>vw_accepted_at := Some (sql_seconds now)\<rparr> else r) rows"

definition sql_AcceptOrgInvitation :: "runtime \<Rightarrow> 'l sql_account_lib_scheme \<Rightarrow> faults \<Rightarrow> clock \<Rightarrow> string \<Rightarrow> 'd SqlTenantsDb_scheme \<Rightarrow> string \<Rightarrow> string \<Rightarrow>
    OrgMember result \<times> 'd SqlTenantsDb_scheme" where
  "sql_AcceptOrgInvitation rt L fault ck rnd db token userID =
     (case sql_GetOrgInvitation L fault db token of
        Inl err \<Rightarrow> (Inl err, db)
      | Inr invt \<Rightarrow>
          if oi_AcceptedAt invt \<noteq> None then (Inl (Errorf ''invitation already accepted''), db)
          else if oi_ExpiresAt invt < ck 0 then (Inl (Errorf ''invitation expired''), db)
          else
            (let userEmail = stored_email (from 1 fault) db userID in
             if userEmail \<noteq> [] \<and> oi_Email invt \<noteq> [] \<and> \<not> EqualFold rt userEmail (oi_Email invt)
             then (Inl (Errorf (''invitation was issued for '' @ oi_Email invt @ '', but accepted by '' @ userEmail)), db)
             else
               (let db = (if fault 2 = None then db\<lparr>db_org_invitations := mark_accepted (ck 1) token (db_org_invitations db)\<rparr> else db);
                    member = \<lparr>om_ID = ''mem_'' @ rnd, om_OrganizationID = oi_OrganizationID invt, om_UserID = userID, om_Role = oi_Role invt,
                      om_CreatedAt = ck 2\<rparr>
                in case fault 3 of
                     Some err \<Rightarrow> (Inl err, db)
                   | None \<Rightarrow> (case upsert_member L member db of (Inl err, db) \<Rightarrow> (Inl err, db) | (Inr _, db) \<Rightarrow> (Inr member, db)))))"

definition sql_ListOrgInvitations :: "'l sql_tenant_lib_scheme \<Rightarrow> faults \<Rightarrow> 'd SqlTenantsDb_scheme \<Rightarrow> string \<Rightarrow> OrgInvitation list result" where
  "sql_ListOrgInvitations L fault db organizationID =
     (case fault 0 of
        Some err \<Rightarrow> Inl err
      | None \<Rightarrow> Inr (map (row_invitation L) (rev (sort_key vw_expires_at (sq_scan_invitations L
          (filter (\<lambda>r. vw_organization_id r = organizationID) (db_org_invitations db)))))))"

section \<open>Invitations are used once\<close>

lemma upsert_member_Inr:
  assumes "upsert_member L m db = (Inr (), db')"
  shows "db_org_invitations db' = db_org_invitations db" and "db_users db' = db_users db"
    and "\<exists>m'. sql_GetOrgMember L' no_fault db' (om_OrganizationID m) (om_UserID m) = Inr m' \<and> om_Role m' = om_Role m"
proof -
  let ?same = "\<lambda>r. mw_organization_id r = om_OrganizationID m \<and> mw_user_id r = om_UserID m"
  show "db_org_invitations db' = db_org_invitations db" "db_users db' = db_users db"
    using assms by (auto simp: upsert_member_def Let_def split: if_splits)
  show "\<exists>m'. sql_GetOrgMember L' no_fault db' (om_OrganizationID m) (om_UserID m) = Inr m' \<and> om_Role m' = om_Role m"
  proof (cases "list_ex ?same (db_org_members db)")
    case True
    then have "db_org_members db' = map (\<lambda>r. if ?same r then r\<lparr>mw_role := om_Role m\<rparr> else r) (db_org_members db)"
      using assms by (auto simp: upsert_member_def)
    then have "filter ?same (db_org_members db') = map (\<lambda>r. r\<lparr>mw_role := om_Role m\<rparr>) (filter ?same (db_org_members db))"
      using filter_update [of ?same "\<lambda>r. r\<lparr>mw_role := om_Role m\<rparr>" "db_org_members db"] by simp
    moreover have "filter ?same (db_org_members db) \<noteq> []" using True by (auto simp: list_ex_iff filter_empty_conv)
    ultimately show ?thesis by (auto simp: sql_GetOrgMember_def row_member_def neq_Nil_conv)
  next
    case False
    then have "filter ?same (db_org_members db) = []" by (auto simp: list_ex_iff filter_empty_conv)
    moreover have "db_org_members db' = db_org_members db @ [\<lparr>mw_id = om_ID m, mw_organization_id = om_OrganizationID m, mw_user_id = om_UserID m,
        mw_role = om_Role m, mw_created_at = sql_seconds (om_CreatedAt m)\<rparr>]"
      using assms False by (auto simp: upsert_member_def Let_def split: if_splits)
    ultimately show ?thesis by (simp add: sql_GetOrgMember_def row_member_def)
  qed
qed

lemma marked_refused:
  assumes "db_org_invitations db' = mark_accepted now token rows"
  shows "\<exists>e. sql_AcceptOrgInvitation rt L fault ck rnd db' token userID = (Inl e, db')"
proof -
  have hits: "filter (\<lambda>r. vw_token r = token) (mark_accepted now token rows) =
      map (\<lambda>r. r\<lparr>vw_accepted_at := Some (sql_seconds now)\<rparr>) (filter (\<lambda>r. vw_token r = token) rows)"
    unfolding mark_accepted_def by (rule filter_update) simp
  have "oi_AcceptedAt i \<noteq> None" if "sql_GetOrgInvitation L fault db' token = Inr i" for i
    using that by (auto simp: sql_GetOrgInvitation_def assms hits row_invitation_def split: option.splits list.splits)
  then show ?thesis
    by (cases "sql_GetOrgInvitation L fault db' token") (simp_all add: sql_AcceptOrgInvitation_def)
qed

lemma sql_GetOrgInvitation_row:
  assumes "sql_GetOrgInvitation L fault db token = Inr i"
  obtains r where "r \<in> set (db_org_invitations db)" and "vw_token r = token" and "i = row_invitation L r"
  using assms by (fastforce simp: sql_GetOrgInvitation_def filter_eq_Cons_iff split: option.splits list.splits)

lemma sql_Accept_Inr:
  assumes "sql_AcceptOrgInvitation rt L fault ck rnd db token userID = (Inr m, db')"
  obtains r dbm where "r \<in> set (db_org_invitations db)" and "vw_token r = token" and "vw_accepted_at r = None"
    and "ck 0 \<le> sq_time L (vw_expires_at r)"
    and "stored_email (from 1 fault) db userID = [] \<or> vw_email r = [] \<or> EqualFold rt (stored_email (from 1 fault) db userID) (vw_email r)"
    and "om_OrganizationID m = vw_organization_id r" and "om_UserID m = userID" and "om_Role m = vw_role r"
    and "dbm = (if fault 2 = None then db\<lparr>db_org_invitations := mark_accepted (ck 1) token (db_org_invitations db)\<rparr> else db)"
    and "upsert_member L m dbm = (Inr (), db')"
proof -
  obtain i where i: "sql_GetOrgInvitation L fault db token = Inr i"
    using assms by (auto simp: sql_AcceptOrgInvitation_def split: sum.splits)
  obtain r where r: "r \<in> set (db_org_invitations db)" "vw_token r = token" "i = row_invitation L r"
    using i by (rule sql_GetOrgInvitation_row)
  have i': "oi_AcceptedAt i = None \<longleftrightarrow> vw_accepted_at r = None" "oi_ExpiresAt i = sq_time L (vw_expires_at r)" "oi_Email i = vw_email r"
      "oi_OrganizationID i = vw_organization_id r" "oi_Role i = vw_role r"
    by (simp_all add: r(3) row_invitation_def)
  define em where "em = stored_email (from 1 fault) db userID"
  note run = assms [unfolded sql_AcceptOrgInvitation_def i sum.case i' Let_def, folded em_def]
  have open': "vw_accepted_at r = None" "\<not> sq_time L (vw_expires_at r) < ck 0"
      "\<not> (em \<noteq> [] \<and> vw_email r \<noteq> [] \<and> \<not> EqualFold rt em (vw_email r))" "fault 3 = None"
    using run by (auto split: if_splits option.splits)
  define dbm where "dbm = (if fault 2 = None then db\<lparr>db_org_invitations := mark_accepted (ck 1) token (db_org_invitations db)\<rparr> else db)"
  define mm where "mm = \<lparr>om_ID = ''mem_'' @ rnd, om_OrganizationID = vw_organization_id r, om_UserID = userID, om_Role = vw_role r, om_CreatedAt = ck 2\<rparr>"
  have "(case upsert_member L mm dbm of (Inl err, db) \<Rightarrow> (Inl err, db) | (Inr _, db) \<Rightarrow> (Inr mm, db)) = (Inr m, db')"
    using run open' unfolding dbm_def mm_def by simp
  then have up: "m = mm" "upsert_member L mm dbm = (Inr (), db')"
    by (auto split: prod.splits sum.splits)
  show thesis
    by (rule that [OF r(1,2) open'(1) _ _ _ _ _ dbm_def]) (use open'(2,3) up in \<open>auto simp: mm_def em_def\<close>)
qed


definition demo_tenants :: SqlTenantsDb where
  "demo_tenants = SqlAccountsDb.extend demo_account_db
     \<lparr>db_organizations = [\<lparr>gw_id = ''o1'', gw_name = ''Acme'', gw_slug = ''acme'', gw_description = [], gw_created_at = [], gw_updated_at = []\<rparr>],
      db_projects = [], db_org_members = [],
      db_org_invitations = [\<lparr>vw_id = ''i1'', vw_organization_id = ''o1'', vw_org_name = ''Acme'', vw_email = ''ann@acme.com'', vw_token = ''t1'',
        vw_role = ''developer'', vw_invited_by = ''bob'', vw_expires_at = [], vw_accepted_at = None\<rparr>]\<rparr>"

definition demo_account_lib :: sql_account_lib where
  "demo_account_lib = sql_change_lib.extend demo_change_lib \<lparr>sq_scan_users = id, sq_scan_keys = id, sq_foreign = Errorf\<rparr>"

abbreviation (input) "demo_accept \<equiv> sql_AcceptOrgInvitation demo_runtime demo_account_lib no_fault (\<lambda>_. 0) ''r'' demo_tenants ''t1'' ''u1''"

lemma demo_accept_run: "\<exists>m. demo_accept = (Inr m, snd demo_accept)"
proof -
  have fold: "EqualFold demo_runtime ''ann@acme.com'' ''ann@acme.com''" by code_simp
  show ?thesis
    by (simp add: sql_AcceptOrgInvitation_def sql_GetOrgInvitation_def row_invitation_def stored_email_def upsert_member_def demo_tenants_def
        demo_account_db_def demo_account_lib_def demo_change_lib_def demo_rows_def sql_lib.defs sql_change_lib.defs SqlAccountsDb.defs fold Let_def)
qed


section \<open>Where an error is dropped\<close>

text \<open>
  The query for the address of the user drops its error, and without an address there is no comparison:
  when the query fails, any user accepts the invitation of another.
\<close>

lemma sqlite_invitation_wrong_address:
  assumes "sql_GetOrgInvitation L no_fault db token = Inr i" and "oi_AcceptedAt i = None" and "ck 0 \<le> oi_ExpiresAt i"
    and "list_ex (\<lambda>r. gw_id r = oi_OrganizationID i) (db_organizations db)" and "list_ex (\<lambda>r. uw_id r = userID) (db_users db)"
    and "\<not> list_ex (\<lambda>r. mw_id r = ''mem_'' @ rnd) (db_org_members db)"
  shows "\<exists>m db'. sql_AcceptOrgInvitation rt L (\<lambda>j. if j = 1 then Some e else None) ck rnd db token userID = (Inr m, db')"
proof -
  define f :: faults where "f = (\<lambda>j. if j = 1 then Some e else None)"
  have f: "f 0 = None" "f 2 = None" "f 3 = None" by (simp_all add: f_def)
  have i: "sql_GetOrgInvitation L f db token = Inr i"
    using assms(1) by (simp add: sql_GetOrgInvitation_def f)
  have em: "stored_email (from 1 f) db userID = []"
    by (simp add: stored_email_def f_def)
  show ?thesis
    unfolding f_def [symmetric] sql_AcceptOrgInvitation_def i sum.case em f option.case
    using assms(2-6) by (simp add: upsert_member_def Let_def split: prod.split)
qed

text \<open>
  The mark is written before the membership: when the membership cannot be written, the invitation is
  used up without a member.
\<close>

lemma sqlite_invitation_burned:
  assumes "sql_GetOrgInvitation L no_fault db token = Inr i" and "oi_AcceptedAt i = None" and "ck 0 \<le> oi_ExpiresAt i"
    and "EqualFold rt (stored_email no_fault db userID) (oi_Email i)"
  shows "\<exists>db'. sql_AcceptOrgInvitation rt L (\<lambda>j. if j = 3 then Some e else None) ck rnd db token userID = (Inl e, db') \<and>
    db_org_members db' = db_org_members db \<and>
    (\<forall>fault' ck' rnd' user'. \<exists>e'. sql_AcceptOrgInvitation rt L fault' ck' rnd' db' token user' = (Inl e', db'))"
proof -
  let ?f = "\<lambda>j::nat. if j = 3 then Some e else None"
  let ?db = "db\<lparr>db_org_invitations := mark_accepted (ck 1) token (db_org_invitations db)\<rparr>"
  have i: "sql_GetOrgInvitation L ?f db token = Inr i"
    using assms(1) by (simp add: sql_GetOrgInvitation_def)
  have "stored_email (from 1 ?f) db userID = stored_email no_fault db userID"
    by (simp add: stored_email_def)
  then have "sql_AcceptOrgInvitation rt L ?f ck rnd db token userID = (Inl e, ?db)"
    using assms(2-4) by (simp add: sql_AcceptOrgInvitation_def i Let_def)
  moreover have "\<exists>e'. sql_AcceptOrgInvitation rt L fault' ck' rnd' ?db token user' = (Inl e', ?db)" for fault' ck' rnd' user'
    by (rule marked_refused) simp
  ultimately show ?thesis by auto
qed

end
