(* ===== verification/Sqlite_Schedules.thy ===== *)
theory Sqlite_Schedules
  imports Sqlite_Tenancy
begin

text \<open>
  Canary schedules, sign-on configurations and experiment events of the SQLite store, the seeding of a new
  database and the reset. The store's mutex is not reentrant: a call that takes it while its caller holds
  it never returns, which is \<open>None\<close>.
\<close>

section \<open>Tables\<close>

record CanaryRow =
  nw_id :: string
  nw_project_id :: string
  nw_flag_key :: string
  nw_environment :: string
  nw_status :: string
  nw_current_stage_idx :: int
  nw_stages :: string
  nw_guardrails :: string
  nw_rollback_reason :: string
  nw_created_at :: string
  nw_updated_at :: string
  nw_last_evaluated_at :: string

record OidcRow =
  dw_organization_id :: string
  dw_enabled :: int
  dw_issuer_url :: string
  dw_client_id :: string
  dw_client_secret :: string
  dw_allowed_domains :: string
  dw_default_role :: string
  dw_created_at :: string
  dw_updated_at :: string

record EventRow =
  ew_id :: string
  ew_project_id :: string
  ew_flag_key :: string
  ew_variant :: string
  ew_metric_name :: string
  ew_event_type :: string
  ew_value :: f64
  ew_user_id :: string
  ew_environment :: string
  ew_timestamp :: string

record SQLiteDb = SqlTenantsDb +
  db_canary_schedules :: "CanaryRow list"
  db_oidc_configs :: "OidcRow list"
  db_experiment_events :: "EventRow list"

record sqlite_lib = sql_tenant_lib +
  sq_stages :: "CanaryStage list \<Rightarrow> string result"
  sq_unstages :: "string \<Rightarrow> CanaryStage list"
  sq_guardrails :: "CanaryGuardrails \<Rightarrow> string result"
  sq_unguardrails :: "string \<Rightarrow> CanaryGuardrails"
  sq_scan_canaries :: "CanaryRow list \<Rightarrow> CanaryRow list"
  sq_scan_oidc :: "OidcRow list \<Rightarrow> OidcRow list"
  sq_scan_events :: "EventRow list \<Rightarrow> EventRow list"

section \<open>Canary schedules\<close>

text \<open>The upsert of a schedule: an existing row of the project and flag keeps its ID, its environment and the time of its creation.\<close>

definition upsert_canary :: "CanaryRow \<Rightarrow> CanaryRow list \<Rightarrow> CanaryRow list" where
  "upsert_canary n rows =
     (let same = (\<lambda>r. nw_project_id r = nw_project_id n \<and> nw_flag_key r = nw_flag_key n) in
      if list_ex same rows
      then map (\<lambda>r. if same r then r\<lparr>nw_status := nw_status n, nw_current_stage_idx := nw_current_stage_idx n, nw_stages := nw_stages n,
             nw_guardrails := nw_guardrails n, nw_rollback_reason := nw_rollback_reason n, nw_updated_at := nw_updated_at n,
             nw_last_evaluated_at := nw_last_evaluated_at n\<rparr> else r) rows
      else rows @ [n])"

definition sql_SaveCanarySchedule :: "'l sqlite_lib_scheme \<Rightarrow> faults \<Rightarrow> gtime \<Rightarrow> string \<Rightarrow> 'd SQLiteDb_scheme \<Rightarrow> CanarySchedule \<Rightarrow>
    unit result \<times> 'd SQLiteDb_scheme" where
  "sql_SaveCanarySchedule L fault now rnd db sched0 =
     (let sched = (if sc_ProjectID sched0 = [] then sched0\<lparr>sc_ProjectID := DefaultProjectID\<rparr> else sched0);
          sched = (if IsZero (sc_CreatedAt sched) then sched\<lparr>sc_CreatedAt := now\<rparr> else sched);
          sched = sched\<lparr>sc_UpdatedAt := now\<rparr>;
          sched = (if IsZero (sc_LastEvaluatedAt sched) then sched\<lparr>sc_LastEvaluatedAt := now\<rparr> else sched);
          sched = (if sc_ID sched = [] then sched\<lparr>sc_ID := ''canary_'' @ Itoa (UnixNano now) @ ''_'' @ rnd\<rparr> else sched)
      in case sq_stages L (sc_Stages sched) of
           Inl err \<Rightarrow> (Inl (Wrapf ''failed to marshal canary stages: '' err), db)
         | Inr stagesText \<Rightarrow>
             (case sq_guardrails L (sc_Guardrails sched) of
                Inl err \<Rightarrow> (Inl (Wrapf ''failed to marshal canary guardrails: '' err), db)
              | Inr guardrailsText \<Rightarrow>
                  (case fault 0 of
                     Some err \<Rightarrow> (Inl err, db)
                   | None \<Rightarrow>
                       (Inr (), db\<lparr>db_canary_schedules := upsert_canary
                          \<lparr>nw_id = sc_ID sched, nw_project_id = sc_ProjectID sched, nw_flag_key = sc_FlagKey sched, nw_environment = sc_Environment sched,
                           nw_status = sc_Status sched, nw_current_stage_idx = sc_CurrentStageIdx sched, nw_stages = stagesText,
                           nw_guardrails = guardrailsText, nw_rollback_reason = sc_RollbackReason sched,
                           nw_created_at = sql_seconds (sc_CreatedAt sched), nw_updated_at = sql_seconds (sc_UpdatedAt sched),
                           nw_last_evaluated_at = sql_seconds (sc_LastEvaluatedAt sched)\<rparr> (db_canary_schedules db)\<rparr>))))"

definition scanCanarySchedule :: "'l sqlite_lib_scheme \<Rightarrow> CanaryRow \<Rightarrow> CanarySchedule" where
  "scanCanarySchedule L r =
     \<lparr>sc_ID = nw_id r, sc_ProjectID = nw_project_id r, sc_FlagKey = nw_flag_key r, sc_Environment = nw_environment r, sc_Status = nw_status r,
      sc_CurrentStageIdx = nw_current_stage_idx r, sc_Stages = sq_unstages L (nw_stages r), sc_Guardrails = sq_unguardrails L (nw_guardrails r),
      sc_RollbackReason = nw_rollback_reason r, sc_CreatedAt = sq_time L (nw_created_at r), sc_UpdatedAt = sq_time L (nw_updated_at r),
      sc_LastEvaluatedAt = sq_time L (nw_last_evaluated_at r)\<rparr>"

definition sql_GetCanarySchedule :: "'l sqlite_lib_scheme \<Rightarrow> faults \<Rightarrow> 'd SQLiteDb_scheme \<Rightarrow> string \<Rightarrow> string \<Rightarrow> CanarySchedule option result" where
  "sql_GetCanarySchedule L fault db projectID0 flagKey =
     (let projectID = or_project projectID0
      in case fault 0 of
           Some err \<Rightarrow> Inl err
         | None \<Rightarrow>
             (case filter (\<lambda>r. nw_project_id r = projectID \<and> nw_flag_key r = flagKey) (db_canary_schedules db) of
                [] \<Rightarrow> Inr None
              | r # _ \<Rightarrow> Inr (Some (scanCanarySchedule L r))))"

definition sql_ListActiveCanarySchedules :: "'l sqlite_lib_scheme \<Rightarrow> faults \<Rightarrow> 'd SQLiteDb_scheme \<Rightarrow> CanarySchedule list result" where
  "sql_ListActiveCanarySchedules L fault db =
     (case fault 0 of
        Some err \<Rightarrow> Inl err
      | None \<Rightarrow> Inr (map (scanCanarySchedule L) (sq_scan_canaries L (filter (\<lambda>r. nw_status r = CanaryActive) (db_canary_schedules db)))))"

definition sql_ListCanarySchedulesByProject :: "'l sqlite_lib_scheme \<Rightarrow> faults \<Rightarrow> 'd SQLiteDb_scheme \<Rightarrow> string \<Rightarrow> CanarySchedule list result" where
  "sql_ListCanarySchedulesByProject L fault db projectID0 =
     (let projectID = or_project projectID0
      in case fault 0 of
           Some err \<Rightarrow> Inl err
         | None \<Rightarrow> Inr (map (scanCanarySchedule L) (sq_scan_canaries L (filter (\<lambda>r. nw_project_id r = projectID) (db_canary_schedules db)))))"

definition sql_DeleteCanarySchedule :: "faults \<Rightarrow> 'd SQLiteDb_scheme \<Rightarrow> string \<Rightarrow> string \<Rightarrow> unit result \<times> 'd SQLiteDb_scheme" where
  "sql_DeleteCanarySchedule fault db projectID0 flagKey =
     (let projectID = or_project projectID0
      in case fault 0 of
           Some err \<Rightarrow> (Inl err, db)
         | None \<Rightarrow> (Inr (), db\<lparr>db_canary_schedules :=
             filter (\<lambda>r. \<not> (nw_project_id r = projectID \<and> nw_flag_key r = flagKey)) (db_canary_schedules db)\<rparr>))"

section \<open>Sign-on configurations\<close>

definition upsert_oidc :: "OidcRow \<Rightarrow> OidcRow list \<Rightarrow> OidcRow list" where
  "upsert_oidc n rows =
     (if list_ex (\<lambda>r. dw_organization_id r = dw_organization_id n) rows
      then map (\<lambda>r. if dw_organization_id r = dw_organization_id n then n\<lparr>dw_created_at := dw_created_at r\<rparr> else r) rows
      else rows @ [n])"

definition sql_SaveOIDCConfig :: "'l sql_account_lib_scheme \<Rightarrow> faults \<Rightarrow> gtime \<Rightarrow> 'd SQLiteDb_scheme \<Rightarrow> OIDCConfig \<Rightarrow> unit result \<times> 'd SQLiteDb_scheme" where
  "sql_SaveOIDCConfig L fault now db cfg0 =
     (if oc_OrganizationID cfg0 = [] then (Inl (Errorf ''organization_id is required''), db)
      else
        (let cfg = (if IsZero (oc_CreatedAt cfg0) then cfg0\<lparr>oc_CreatedAt := now\<rparr> else cfg0);
             cfg = cfg\<lparr>oc_UpdatedAt := now\<rparr>;
             cfg = (if oc_DefaultRole cfg = [] then cfg\<lparr>oc_DefaultRole := ''developer''\<rparr> else cfg)
         in case fault 0 of
              Some err \<Rightarrow> (Inl err, db)
            | None \<Rightarrow>
                if \<not> list_ex (\<lambda>r. gw_id r = oc_OrganizationID cfg) (db_organizations db) then (Inl (sq_foreign L ''oidc_configs.organization_id''), db)
                else (Inr (), db\<lparr>db_oidc_configs := upsert_oidc
                       \<lparr>dw_organization_id = oc_OrganizationID cfg, dw_enabled = (if oc_Enabled cfg then 1 else 0), dw_issuer_url = oc_IssuerURL cfg,
                        dw_client_id = oc_ClientID cfg, dw_client_secret = oc_ClientSecret cfg, dw_allowed_domains = oc_AllowedDomains cfg,
                        dw_default_role = oc_DefaultRole cfg, dw_created_at = sql_seconds (oc_CreatedAt cfg),
                        dw_updated_at = sql_seconds (oc_UpdatedAt cfg)\<rparr> (db_oidc_configs db)\<rparr>)))"

definition row_oidc :: "'l sql_lib_scheme \<Rightarrow> OidcRow \<Rightarrow> OIDCConfig" where
  "row_oidc L r =
     \<lparr>oc_OrganizationID = dw_organization_id r, oc_Enabled = (dw_enabled r = 1), oc_IssuerURL = dw_issuer_url r, oc_ClientID = dw_client_id r,
      oc_ClientSecret = dw_client_secret r, oc_AllowedDomains = dw_allowed_domains r, oc_DefaultRole = dw_default_role r,
      oc_CreatedAt = sq_time L (dw_created_at r), oc_UpdatedAt = sq_time L (dw_updated_at r)\<rparr>"

definition sql_GetOIDCConfig :: "'l sql_lib_scheme \<Rightarrow> faults \<Rightarrow> 'd SQLiteDb_scheme \<Rightarrow> string \<Rightarrow> OIDCConfig option result" where
  "sql_GetOIDCConfig L fault db organizationID =
     (case fault 0 of
        Some err \<Rightarrow> Inl err
      | None \<Rightarrow>
          (case filter (\<lambda>r. dw_organization_id r = organizationID) (db_oidc_configs db) of
             [] \<Rightarrow> Inr None
           | r # _ \<Rightarrow> Inr (Some (row_oidc L r))))"

definition sql_GetOIDCConfigByDomain :: "runtime \<Rightarrow> 'l sqlite_lib_scheme \<Rightarrow> faults \<Rightarrow> 'd SQLiteDb_scheme \<Rightarrow> string \<Rightarrow> OIDCConfig option result" where
  "sql_GetOIDCConfigByDomain rt L fault db emailDomain =
     (let cleanDomain = ToLower rt (TrimPrefix (TrimSpace rt emailDomain) ''@'') in
      if cleanDomain = [] then Inr None
      else
        (case fault 0 of
           Some err \<Rightarrow> Inl err
         | None \<Rightarrow> Inr (find (\<lambda>cfg. IsDomainAllowed rt (Some cfg) (''probe@'' @ cleanDomain))
             (map (row_oidc L) (sq_scan_oidc L (filter (\<lambda>r. dw_enabled r = 1) (db_oidc_configs db)))))))"

definition sql_DeleteOIDCConfig :: "faults \<Rightarrow> 'd SQLiteDb_scheme \<Rightarrow> string \<Rightarrow> unit result \<times> 'd SQLiteDb_scheme" where
  "sql_DeleteOIDCConfig fault db organizationID =
     (case fault 0 of
        Some err \<Rightarrow> (Inl err, db)
      | None \<Rightarrow> (Inr (), db\<lparr>db_oidc_configs := filter (\<lambda>r. dw_organization_id r \<noteq> organizationID) (db_oidc_configs db)\<rparr>))"

section \<open>Experiment events\<close>

definition fill_event :: "gtime \<Rightarrow> string \<Rightarrow> ExperimentEvent \<Rightarrow> ExperimentEvent" where
  "fill_event now rnd ev0 =
     (let ev = (if ev_ID ev0 = [] then ev0\<lparr>ev_ID := ''exp_'' @ rnd\<rparr> else ev0);
          ev = (if ev_ProjectID ev = [] then ev\<lparr>ev_ProjectID := DefaultProjectID\<rparr> else ev);
          ev = (if IsZero (ev_Timestamp ev) then ev\<lparr>ev_Timestamp := now\<rparr> else ev);
          ev = (if ev_EventType ev = [] then ev\<lparr>ev_EventType := ''conversion''\<rparr> else ev)
      in if feq (ev_Value ev) (Fin 0) then ev\<lparr>ev_Value := Fin 1\<rparr> else ev)"

definition event_row :: "ExperimentEvent \<Rightarrow> EventRow" where
  "event_row ev =
     \<lparr>ew_id = ev_ID ev, ew_project_id = ev_ProjectID ev, ew_flag_key = ev_FlagKey ev, ew_variant = ev_Variant ev, ew_metric_name = ev_MetricName ev,
      ew_event_type = ev_EventType ev, ew_value = ev_Value ev, ew_user_id = ev_UserID ev, ew_environment = ev_Environment ev,
      ew_timestamp = sql_seconds (ev_Timestamp ev)\<rparr>"

fun insert_events :: "'l sql_lib_scheme \<Rightarrow> faults \<Rightarrow> nat \<Rightarrow> clock \<Rightarrow> (nat \<Rightarrow> string) \<Rightarrow> EventRow list \<Rightarrow> ExperimentEvent list \<Rightarrow> EventRow list result" where
  "insert_events L fault i ck rnd rows [] = Inr rows"
| "insert_events L fault i ck rnd rows (ev0 # evs) =
     (let ev = fill_event (ck i) (rnd i) ev0
      in case fault (2 + i) of
           Some err \<Rightarrow> Inl err
         | None \<Rightarrow>
             if list_ex (\<lambda>r. ew_id r = ev_ID ev) rows then Inl (sq_unique L ''experiment_events.id'')
             else insert_events L fault (i + 1) ck rnd (rows @ [event_row ev]) evs)"

text \<open>The events of one call are one transaction: the statements are the beginning, the preparation, an insert each and the commit.\<close>

definition sql_RecordExperimentEvents :: "'l sql_lib_scheme \<Rightarrow> faults \<Rightarrow> clock \<Rightarrow> (nat \<Rightarrow> string) \<Rightarrow> 'd SQLiteDb_scheme \<Rightarrow> ExperimentEvent list \<Rightarrow>
    unit result \<times> 'd SQLiteDb_scheme" where
  "sql_RecordExperimentEvents L fault ck rnd db events =
     (case fault 0 of
        Some err \<Rightarrow> (Inl err, db)
      | None \<Rightarrow>
          (case fault 1 of
             Some err \<Rightarrow> (Inl err, db)
           | None \<Rightarrow>
               (case insert_events L fault 0 ck rnd (db_experiment_events db) events of
                  Inl err \<Rightarrow> (Inl err, db)
                | Inr rows \<Rightarrow>
                    (case fault (2 + length events) of
                       Some err \<Rightarrow> (Inl err, db)
                     | None \<Rightarrow> (Inr (), db\<lparr>db_experiment_events := rows\<rparr>)))))"

definition row_event :: "'l sql_lib_scheme \<Rightarrow> EventRow \<Rightarrow> ExperimentEvent" where
  "row_event L r =
     \<lparr>ev_ID = ew_id r, ev_ProjectID = ew_project_id r, ev_FlagKey = ew_flag_key r, ev_Variant = ew_variant r, ev_MetricName = ew_metric_name r,
      ev_EventType = ew_event_type r, ev_Value = ew_value r, ev_UserID = ew_user_id r, ev_Environment = ew_environment r,
      ev_Timestamp = sq_time L (ew_timestamp r)\<rparr>"

definition newest_events :: "'l sqlite_lib_scheme \<Rightarrow> int \<Rightarrow> EventRow list \<Rightarrow> ExperimentEvent list" where
  "newest_events L limit0 rows =
     (let limit = (if limit0 \<le> 0 \<or> limit0 > 5000 then 1000 else limit0)
      in map (row_event L) (take (nat limit) (rev (sort_key ew_timestamp (sq_scan_events L rows)))))"

definition sql_GetExperimentEvents :: "'l sqlite_lib_scheme \<Rightarrow> faults \<Rightarrow> 'd SQLiteDb_scheme \<Rightarrow> string \<Rightarrow> int \<Rightarrow> ExperimentEvent list result" where
  "sql_GetExperimentEvents L fault db flagKey limit =
     (case fault 0 of
        Some err \<Rightarrow> Inl err
      | None \<Rightarrow> Inr (newest_events L limit (filter (\<lambda>r. ew_flag_key r = flagKey) (db_experiment_events db))))"

definition sql_GetExperimentEventsByProject :: "'l sqlite_lib_scheme \<Rightarrow> faults \<Rightarrow> 'd SQLiteDb_scheme \<Rightarrow> string \<Rightarrow> string \<Rightarrow> int \<Rightarrow>
    ExperimentEvent list result" where
  "sql_GetExperimentEventsByProject L fault db projectID0 flagKey limit =
     (let projectID = or_project projectID0
      in case fault 0 of
           Some err \<Rightarrow> Inl err
         | None \<Rightarrow> Inr (newest_events L limit
             (filter (\<lambda>r. ew_project_id r = projectID \<and> (flagKey \<noteq> [] \<longrightarrow> ew_flag_key r = flagKey)) (db_experiment_events db))))"

section \<open>What schedules and events keep\<close>

lemma sql_SaveCanarySchedule_Inr:
  assumes "sql_SaveCanarySchedule L fault now rnd db sched = (Inr (), db')"
  obtains n where "db' = db\<lparr>db_canary_schedules := upsert_canary n (db_canary_schedules db)\<rparr>"
    and "nw_project_id n = or_project (sc_ProjectID sched)" and "nw_flag_key n = sc_FlagKey sched" and "nw_environment n = sc_Environment sched"
    and "nw_status n = sc_Status sched"
proof -
  define c where "c = (let sched = (if sc_ProjectID sched = [] then sched\<lparr>sc_ProjectID := DefaultProjectID\<rparr> else sched);
          sched = (if IsZero (sc_CreatedAt sched) then sched\<lparr>sc_CreatedAt := now\<rparr> else sched);
          sched = sched\<lparr>sc_UpdatedAt := now\<rparr>;
          sched = (if IsZero (sc_LastEvaluatedAt sched) then sched\<lparr>sc_LastEvaluatedAt := now\<rparr> else sched)
      in if sc_ID sched = [] then sched\<lparr>sc_ID := ''canary_'' @ Itoa (UnixNano now) @ ''_'' @ rnd\<rparr> else sched)"
  have c: "sc_ProjectID c = or_project (sc_ProjectID sched)" "sc_FlagKey c = sc_FlagKey sched" "sc_Environment c = sc_Environment sched"
      "sc_Status c = sc_Status sched"
    by (simp_all add: c_def or_project_def Let_def)
  note run = assms [unfolded sql_SaveCanarySchedule_def Let_def, folded c_def [unfolded Let_def]]
  have "\<exists>n. db' = db\<lparr>db_canary_schedules := upsert_canary n (db_canary_schedules db)\<rparr> \<and> nw_project_id n = sc_ProjectID c \<and>
      nw_flag_key n = sc_FlagKey c \<and> nw_environment n = sc_Environment c \<and> nw_status n = sc_Status c"
    using run by (force split: sum.splits option.splits)
  then show thesis using c that by auto
qed

text \<open>
  A schedule that is saved over one of the same flag is read back with the environment of the old one: a
  rollout that was planned for another environment moves the percentage where the first one did.
\<close>

lemma sqlite_canary_keeps_environment:
  assumes "sql_SaveCanarySchedule L fault now rnd db sched = (Inr (), db')"
    and "sql_GetCanarySchedule L no_fault db (sc_ProjectID sched) (sc_FlagKey sched) = Inr (Some old)"
  shows "\<exists>new. sql_GetCanarySchedule L no_fault db' (sc_ProjectID sched) (sc_FlagKey sched) = Inr (Some new) \<and>
    sc_Environment new = sc_Environment old \<and> sc_Status new = sc_Status sched"
proof -
  obtain n where n: "db' = db\<lparr>db_canary_schedules := upsert_canary n (db_canary_schedules db)\<rparr>"
      "nw_project_id n = or_project (sc_ProjectID sched)" "nw_flag_key n = sc_FlagKey sched" "nw_status n = sc_Status sched"
    using assms(1) by (rule sql_SaveCanarySchedule_Inr)
  let ?same = "\<lambda>r. nw_project_id r = nw_project_id n \<and> nw_flag_key r = nw_flag_key n"
  define up where "up r = r\<lparr>nw_status := nw_status n, nw_current_stage_idx := nw_current_stage_idx n, nw_stages := nw_stages n,
             nw_guardrails := nw_guardrails n, nw_rollback_reason := nw_rollback_reason n, nw_updated_at := nw_updated_at n,
             nw_last_evaluated_at := nw_last_evaluated_at n\<rparr>" for r :: CanaryRow
  obtain r rs where r: "filter ?same (db_canary_schedules db) = r # rs" "old = scanCanarySchedule L r"
    using assms(2) by (auto simp: sql_GetCanarySchedule_def n Let_def split: list.splits)
  then have "list_ex ?same (db_canary_schedules db)" by (auto simp: list_ex_iff filter_eq_Cons_iff)
  then have "db_canary_schedules db' = map (\<lambda>r. if ?same r then up r else r) (db_canary_schedules db)"
    by (simp add: n(1) upsert_canary_def up_def)
  then have "filter ?same (db_canary_schedules db') = up r # map up rs"
    using filter_update [of ?same up "db_canary_schedules db"] r(1) by (simp add: up_def)
  then show ?thesis
    by (simp add: sql_GetCanarySchedule_def n r(2) scanCanarySchedule_def up_def Let_def)
qed

text \<open>The events of a call are stored all or not at all.\<close>

lemma insert_events_rows:
  "insert_events L fault i ck rnd rows evs = Inr rows' \<Longrightarrow>
     rows' = rows @ map (\<lambda>(j, ev). event_row (fill_event (ck j) (rnd j) ev)) (zip [i..<i + length evs] evs)"
proof (induction evs arbitrary: i rows)
  case (Cons ev evs)
  then have "insert_events L fault (i + 1) ck rnd (rows @ [event_row (fill_event (ck i) (rnd i) ev)]) evs = Inr rows'"
    by (auto simp: Let_def split: option.splits if_splits)
  from Cons.IH [OF this] show ?case by (simp add: upt_conv_Cons del: upt_Suc)
qed simp

lemma sqlite_events_atomic:
  assumes "sql_RecordExperimentEvents L fault ck rnd db events = (res, db')"
  shows "db' = db \<and> res \<noteq> Inr () \<or> res = Inr () \<and> db_experiment_events db' = db_experiment_events db @
    map (\<lambda>(j, ev). event_row (fill_event (ck j) (rnd j) ev)) (zip [0..<length events] events)"
proof (cases "insert_events L fault 0 ck rnd (db_experiment_events db) events")
  case (Inr rows)
  from insert_events_rows [OF this] Inr show ?thesis
    using assms by (auto simp: sql_RecordExperimentEvents_def split: option.splits)
qed (use assms in \<open>auto simp: sql_RecordExperimentEvents_def split: option.splits\<close>)

text \<open>An event with the value zero is stored with the value one, where the in-memory store keeps the zero.\<close>

lemma sqlite_zero_becomes_one:
  assumes "feq (ev_Value ev) (Fin 0)"
  shows "ew_value (event_row (fill_event now rnd ev)) = Fin 1" and "ev_Value (stamp_event now ev) = ev_Value ev"
  using assms by (simp_all add: fill_event_def event_row_def stamp_event_def Let_def)

section \<open>Seeding and reset\<close>

definition seed_env :: "bool \<Rightarrow> string \<Rightarrow> int \<Rightarrow> EnvironmentConfig" where
  "seed_env enabled strategy pct = zero_env_config\<lparr>ec_Enabled := enabled, ec_Strategy := strategy, ec_Percentage := f64_of_int pct\<rparr>"

definition seedFlags :: "clock \<Rightarrow> FeatureFlag list" where
  "seedFlags ck =
     [\<lparr>ff_ID = ''flag_smart_search'', ff_ProjectID = DefaultProjectID, ff_ConfigVersion = 1, ff_Key = ''ai-smart-search'',
       ff_Name = ''AI Smart Search Assistant'', ff_Description = ''Deterministic canary rollout for LLM semantic search'', ff_Type = ''boolean'',
       ff_Tags = [''frontend'', ''search'', ''ai''],
       ff_Environments = [(''production'', seed_env True StrategyPercentage 50), (''staging'', seed_env True StrategyPercentage 100),
         (''development'', seed_env True StrategyBoolean 100)], ff_CreatedAt = ck 0, ff_UpdatedAt = ck 1\<rparr>,
      \<lparr>ff_ID = ''flag_v3_checkout'', ff_ProjectID = DefaultProjectID, ff_ConfigVersion = 1, ff_Key = ''checkout-v3-streamline'',
       ff_Name = ''Streamlined Checkout Flow v3'', ff_Description = ''One-click multi-currency checkout modal'', ff_Type = ''boolean'',
       ff_Tags = [''checkout'', ''payments''],
       ff_Environments = [(''production'', seed_env True StrategyPercentage 100), (''staging'', seed_env True StrategyPercentage 100),
         (''development'', seed_env True StrategyBoolean 100)], ff_CreatedAt = ck 2, ff_UpdatedAt = ck 3\<rparr>,
      \<lparr>ff_ID = ''flag_killswitch_crypto'', ff_ProjectID = DefaultProjectID, ff_ConfigVersion = 1, ff_Key = ''killswitch-crypto-gateways'',
       ff_Name = ''Emergency Crypto Gateway Killswitch'', ff_Description = ''Instant circuit breaker for decentralized settlement layer'',
       ff_Type = ''boolean'', ff_Tags = [''payments'', ''compliance''],
       ff_Environments = [(''production'', seed_env False StrategyBoolean 0), (''staging'', seed_env True StrategyBoolean 100),
         (''development'', seed_env True StrategyBoolean 100)], ff_CreatedAt = ck 4, ff_UpdatedAt = ck 5\<rparr>]"

definition seed_org :: "faults \<Rightarrow> gtime \<Rightarrow> 'd SqlTenantsDb_scheme \<Rightarrow> 'd SqlTenantsDb_scheme" where
  "seed_org fault now db =
     (if fault 0 = None \<and> \<not> list_ex (\<lambda>r. gw_id r = DefaultOrgID) (db_organizations db)
         \<and> fault 1 = None \<and> \<not> list_ex (\<lambda>r. gw_slug r = DefaultOrgSlug) (db_organizations db)
      then db\<lparr>db_organizations := db_organizations db @ [\<lparr>gw_id = DefaultOrgID, gw_name = DefaultOrgName, gw_slug = DefaultOrgSlug,
             gw_description = ''Default workspace organization'', gw_created_at = sql_seconds now, gw_updated_at = sql_seconds now\<rparr>]\<rparr>
      else db)"

definition seed_project :: "faults \<Rightarrow> gtime \<Rightarrow> 'd SqlTenantsDb_scheme \<Rightarrow> 'd SqlTenantsDb_scheme" where
  "seed_project fault now db =
     (if fault 2 = None \<and> \<not> list_ex (\<lambda>r. jw_id r = DefaultProjectID) (db_projects db)
         \<and> fault 3 = None \<and> \<not> list_ex (\<lambda>r. jw_organization_id r = DefaultOrgID \<and> jw_slug r = DefaultProjectSlug) (db_projects db)
         \<and> list_ex (\<lambda>r. gw_id r = DefaultOrgID) (db_organizations db)
      then db\<lparr>db_projects := db_projects db @ [\<lparr>jw_id = DefaultProjectID, jw_organization_id = DefaultOrgID, jw_name = DefaultProjectName,
             jw_slug = DefaultProjectSlug, jw_description = ''Default feature flagging project'', jw_created_at = sql_seconds now,
             jw_updated_at = sql_seconds now\<rparr>]\<rparr>
      else db)"

text \<open>
  \<open>SaveFlag\<close> begins by taking the mutex of the store. \<open>held\<close> says whether the caller holds it already: then the
  call blocks forever. The errors of the seeds are dropped.
\<close>

definition locking_SaveFlag :: "bool \<Rightarrow> runtime \<Rightarrow> 'l sql_lib_scheme \<Rightarrow> faults \<Rightarrow> clock \<Rightarrow> string \<Rightarrow> string \<Rightarrow> 'd SqlDb_scheme \<Rightarrow> FeatureFlag \<Rightarrow> string \<Rightarrow>
    (AuditLogEntry option result \<times> 'd SqlDb_scheme) option" where
  "locking_SaveFlag held rt L fault ck rnd rnd' db flag actor = (if held then None else Some (sql_SaveFlag rt L fault ck rnd rnd' db flag actor))"

fun save_seeds :: "bool \<Rightarrow> runtime \<Rightarrow> 'l sql_lib_scheme \<Rightarrow> faults \<Rightarrow> (nat \<Rightarrow> clock) \<Rightarrow> (nat \<Rightarrow> string) \<Rightarrow> nat \<Rightarrow> 'd SqlDb_scheme \<Rightarrow> FeatureFlag list \<Rightarrow>
    'd SqlDb_scheme option" where
  "save_seeds held rt L fault cks rnd i db [] = Some db"
| "save_seeds held rt L fault cks rnd i db (f # fs) =
     (case locking_SaveFlag held rt L (from (5 + 4 * i) fault) (cks i) [] (rnd i) db f ''system_seed'' of
        None \<Rightarrow> None
      | Some (_, db) \<Rightarrow> save_seeds held rt L fault cks rnd (i + 1) db fs)"

definition sql_seedDefaults :: "bool \<Rightarrow> runtime \<Rightarrow> 'l sql_lib_scheme \<Rightarrow> faults \<Rightarrow> gtime \<Rightarrow> clock \<Rightarrow> (nat \<Rightarrow> clock) \<Rightarrow> (nat \<Rightarrow> string) \<Rightarrow>
    'd SqlTenantsDb_scheme \<Rightarrow> 'd SqlTenantsDb_scheme option" where
  "sql_seedDefaults held rt L fault now ck cks rnd db0 =
     (let db = seed_project fault now (seed_org fault now db0)
      in if fault 4 = None \<and> \<not> list_ex (\<lambda>r. fr_project_id r = DefaultProjectID) (db_feature_flags db)
         then save_seeds held rt L fault cks rnd 0 db (seedFlags ck)
         else Some db)"

text \<open>The statements of the reset drop their errors: one that fails changes nothing.\<close>

definition attempt :: "gerror option \<Rightarrow> ('a \<Rightarrow> 'a) \<Rightarrow> 'a \<Rightarrow> 'a" where
  "attempt err f db = (if err = None then f db else db)"

definition truncate_all :: "faults \<Rightarrow> 'd SQLiteDb_scheme \<Rightarrow> 'd SQLiteDb_scheme" where
  "truncate_all fault db0 =
     (let db = attempt (fault 0) (\<lambda>db. db\<lparr>db_experiment_events := []\<rparr>) db0;
          db = attempt (fault 1) (\<lambda>db. db\<lparr>db_audit_logs := []\<rparr>) db;
          db = attempt (fault 2) (\<lambda>db. db\<lparr>db_change_requests := []\<rparr>) db;
          db = attempt (fault 3) (\<lambda>db. db\<lparr>db_api_keys := []\<rparr>) db;
          db = attempt (fault 4) (\<lambda>db. db\<lparr>db_feature_flags := []\<rparr>) db;
          db = attempt (fault 5) (\<lambda>db. db\<lparr>db_sessions := []\<rparr>) db;
          db = attempt (fault 6) (\<lambda>db. db\<lparr>db_password_reset_tokens := []\<rparr>) db;
          db = attempt (fault 7) (\<lambda>db. db\<lparr>db_org_invitations := []\<rparr>) db;
          db = attempt (fault 8) (\<lambda>db. db\<lparr>db_org_members := []\<rparr>) db;
          db = attempt (fault 9) (\<lambda>db. db\<lparr>db_projects := []\<rparr>) db;
          db = attempt (fault 10) (\<lambda>db. db\<lparr>db_organizations := [], db_projects := [], db_org_members := [], db_org_invitations := [],
                 db_oidc_configs := []\<rparr>) db
      in attempt (fault 11) (\<lambda>db. db\<lparr>db_users := [], db_sessions := [], db_org_members := []\<rparr>) db)"

text \<open>The reset runs with the mutex held, up to its return.\<close>

definition sql_Reset :: "runtime \<Rightarrow> 'l sql_lib_scheme \<Rightarrow> faults \<Rightarrow> gtime \<Rightarrow> clock \<Rightarrow> (nat \<Rightarrow> clock) \<Rightarrow> (nat \<Rightarrow> string) \<Rightarrow> 'd SQLiteDb_scheme \<Rightarrow> 'd SQLiteDb_scheme option" where
  "sql_Reset rt L fault now ck cks rnd db = sql_seedDefaults True rt L (from 12 fault) now ck cks rnd (truncate_all fault db)"

lemma seeds_keep_flags [simp]:
  "db_feature_flags (seed_org fault now db) = db_feature_flags db" "db_feature_flags (seed_project fault now db) = db_feature_flags db"
  by (simp_all add: seed_org_def seed_project_def)

lemma save_seeds_returns: "save_seeds False rt L fault cks rnd i db fs \<noteq> None"
  by (induction fs arbitrary: i db) (auto simp: locking_SaveFlag_def split: prod.split)

lemma attempt_simps [simp]: "attempt None f db = f db" "attempt (Some e) f db = db"
  by (simp_all add: attempt_def)

lemma attempt_keeps: "(\<And>d. g (f d) = g d) \<Longrightarrow> g (attempt err f db) = g db"
  by (simp add: attempt_def)

lemma truncate_flags: "db_feature_flags (truncate_all fault db) = (if fault 4 = None then [] else db_feature_flags db)"
  unfolding truncate_all_def Let_def by (cases "fault 4") (simp_all add: attempt_keeps)

text \<open>
  C30: The reset of the SQLite store returns exactly when the seeding is skipped. It holds the mutex and seeds
  through a call that takes it again, so it blocks forever, with the mutex, unless flags of the
  default project are left because their deletion failed, or they could not be counted. A new store
  is seeded without the mutex and always returns.
\<close>

theorem sqlite_reset_returns:
  "(sql_Reset rt L fault now ck cks rnd db \<noteq> None) = (fault 16 \<noteq> None \<or>
     fault 4 \<noteq> None \<and> list_ex (\<lambda>r. fr_project_id r = DefaultProjectID) (db_feature_flags db)) \<and>
   sql_seedDefaults False rt L fault now ck cks rnd db' \<noteq> None"
proof -
  have "save_seeds True rt L f cks rnd i d (seedFlags ck) = None" for f i and d :: "'d SQLiteDb_scheme"
    by (simp add: seedFlags_def locking_SaveFlag_def)
  then have "(sql_Reset rt L fault now ck cks rnd db \<noteq> None) = (fault 16 \<noteq> None \<or>
     fault 4 \<noteq> None \<and> list_ex (\<lambda>r. fr_project_id r = DefaultProjectID) (db_feature_flags db))"
    by (auto simp: sql_Reset_def sql_seedDefaults_def truncate_flags Let_def)
  moreover have "sql_seedDefaults False rt L fault now ck cks rnd db' \<noteq> None"
    using save_seeds_returns by (auto simp: sql_seedDefaults_def Let_def)
  ultimately show ?thesis by blast
qed

definition demo_sqlite :: SQLiteDb where
  "demo_sqlite = SqlTenantsDb.extend (demo_tenants\<lparr>db_feature_flags := [flag_row demo_rows (demo_flag0 ''f1'' DefaultProjectID ''pay'')]\<rparr>)
     \<lparr>db_canary_schedules = [], db_oidc_configs = [], db_experiment_events = []\<rparr>"

theorem sqlite_reset_returns_witness:
  "sql_Reset demo_runtime demo_rows no_fault 0 (\<lambda>_. 0) (\<lambda>_ _. 0) (\<lambda>_. ''r'') demo_sqlite = None \<and>
   sql_Reset demo_runtime demo_rows (\<lambda>i. if i = 4 then Some (Errorf ''busy'') else None) 0 (\<lambda>_. 0) (\<lambda>_ _. 0) (\<lambda>_. ''r'') demo_sqlite \<noteq> None \<and>
   sql_seedDefaults False demo_runtime demo_rows no_fault 0 (\<lambda>_. 0) (\<lambda>_ _. 0) (\<lambda>_. ''r'') demo_tenants \<noteq> None"
proof -
  have "list_ex (\<lambda>r. fr_project_id r = DefaultProjectID) (db_feature_flags demo_sqlite)"
    by (simp add: demo_sqlite_def SqlTenantsDb.defs flag_row_def demo_flag0_def)
  then show ?thesis
    using sqlite_reset_returns [of demo_runtime demo_rows no_fault 0 "\<lambda>_. 0" "\<lambda>_ _. 0" "\<lambda>_. ''r''" demo_sqlite demo_tenants]
      sqlite_reset_returns [of demo_runtime demo_rows "\<lambda>i. if i = 4 then Some (Errorf ''busy'') else None" 0 "\<lambda>_. 0" "\<lambda>_ _. 0" "\<lambda>_. ''r''"
        demo_sqlite demo_tenants]
    by simp
qed

text \<open>A new database is seeded with the default organization, its project and the three flags.\<close>

lemma sql_SaveFlag_new:
  assumes "\<forall>r \<in> set (db_feature_flags db). fr_key r \<noteq> ff_Key f \<and> fr_id r \<noteq> ff_ID f" and "ff_ID f \<noteq> []" and "ff_ProjectID f \<noteq> []"
  shows "\<exists>n. db_feature_flags (snd (sql_SaveFlag rt L no_fault ck rnd rnd' db f actor)) = db_feature_flags db @ [n] \<and>
    fr_key n = ff_Key f \<and> fr_id n = ff_ID f \<and> fr_project_id n = ff_ProjectID f"
proof -
  have up: "upsert_flag L n (db_feature_flags db) = Inr (db_feature_flags db @ [n])" if "fr_key n = ff_Key f" "fr_id n = ff_ID f" for n
    using assms(1) that by (auto simp: upsert_flag_def list_ex_iff Let_def)
  show ?thesis
    using assms(2,3) by (simp add: sql_SaveFlag_def up flag_row_def Let_def sql_insertAuditLog_flags split_beta)
qed

lemma save_seeds_keys:
  assumes "distinct (map ff_Key fs)" "distinct (map ff_ID fs)" "\<forall>f \<in> set fs. ff_ID f \<noteq> [] \<and> ff_ProjectID f \<noteq> []"
    and "\<forall>r \<in> set (db_feature_flags db). \<forall>f \<in> set fs. fr_key r \<noteq> ff_Key f \<and> fr_id r \<noteq> ff_ID f"
  shows "\<exists>db'. save_seeds False rt L no_fault cks rnd i db fs = Some db' \<and>
    map fr_key (db_feature_flags db') = map fr_key (db_feature_flags db) @ map ff_Key fs"
  using assms
proof (induction fs arbitrary: i db)
  case (Cons f fs)
  let ?r = "sql_SaveFlag rt L no_fault (cks i) [] (rnd i) db f ''system_seed''"
  obtain n where n: "db_feature_flags (snd ?r) = db_feature_flags db @ [n]" "fr_key n = ff_Key f" "fr_id n = ff_ID f"
    using sql_SaveFlag_new [of db f rt L "cks i" "[]" "rnd i" "''system_seed''"] Cons.prems by auto
  have "\<exists>db'. save_seeds False rt L no_fault cks rnd (i + 1) (snd ?r) fs = Some db' \<and>
      map fr_key (db_feature_flags db') = map fr_key (db_feature_flags (snd ?r)) @ map ff_Key fs"
    using Cons.prems n by (intro Cons.IH) (auto simp: image_iff)
  then show ?case by (simp add: locking_SaveFlag_def split_beta n)
qed simp

lemma sqlite_seeded:
  assumes "db_feature_flags db = []"
  shows "\<exists>db'. sql_seedDefaults False rt L no_fault now ck cks rnd db = Some db' \<and>
    map fr_key (db_feature_flags db') = [''ai-smart-search'', ''checkout-v3-streamline'', ''killswitch-crypto-gateways'']"
  using save_seeds_keys [of "seedFlags ck" "seed_project no_fault now (seed_org no_fault now db)" rt L cks rnd 0] assms
  by (simp add: sql_seedDefaults_def seedFlags_def Let_def)

end
