(* ===== verification/Postgres_Store.thy ===== *)
theory Postgres_Store
  imports Sqlite_Store "HOL-Library.Product_Lexorder"
begin

text \<open>
  The flags and the audit log of the PostgreSQL store, \<open>src/pkg/store/postgres.go\<close>. The store has no
  mutex: every statement is atomic by itself, and the statements of concurrent calls interleave. A call
  is given as its statements, and their sequence with nothing between them is the operation. The
  database keeps times to the microsecond; how it rounds, how it compares text and in which order it
  returns rows that are not ordered is the record \<open>pg_lib\<close>, with the codec of the JSON column.
\<close>

section \<open>Tables\<close>

record PgFlagRow =
  pf_id :: string
  pf_project_id :: string
  pf_key :: string
  pf_config_version :: "64 word"
  pf_name :: string
  pf_description :: string
  pf_type :: string
  pf_tags :: "string list"
  pf_environments :: string
  pf_created_at :: gtime
  pf_updated_at :: gtime

text \<open>A row of \<open>audit_logs\<close> has the fields of an entry.\<close>

record PgDb =
  pg_feature_flags :: "PgFlagRow list"
  pg_audit_logs :: "AuditLogEntry list"
  pg_audit_anchors :: "(string, string) gomap"

record pg_lib =
  pg_time :: "gtime \<Rightarrow> gtime"
  pg_rank :: "string \<Rightarrow> nat"
  pg_scan :: "PgFlagRow list \<Rightarrow> PgFlagRow list"
  pg_scan_logs :: "AuditLogEntry list \<Rightarrow> AuditLogEntry list"
  pg_envs :: "(string, EnvironmentConfig) gomap \<Rightarrow> string result"
  pg_unenvs :: "string \<Rightarrow> (string, EnvironmentConfig) gomap"
  pg_unique :: "string \<Rightarrow> gerror"

abbreviation (input) "ErrNoRows \<equiv> Errorf ''sql: no rows in result set''"

section \<open>Reading flags\<close>

definition pg_row_flag :: "pg_lib \<Rightarrow> PgFlagRow \<Rightarrow> FeatureFlag" where
  "pg_row_flag L r =
     \<lparr>ff_ID = pf_id r, ff_ProjectID = pf_project_id r, ff_ConfigVersion = pf_config_version r, ff_Key = pf_key r, ff_Name = pf_name r,
      ff_Description = pf_description r, ff_Type = pf_type r, ff_Tags = pf_tags r,
      ff_Environments = (if length (pf_environments r) > 0 then pg_unenvs L (pf_environments r) else []),
      ff_CreatedAt = pf_created_at r, ff_UpdatedAt = pf_updated_at r\<rparr>"

definition pg_ListFlagsByProject :: "pg_lib \<Rightarrow> faults \<Rightarrow> PgDb \<Rightarrow> string \<Rightarrow> FeatureFlag list result" where
  "pg_ListFlagsByProject L fault db projectID0 =
     (let projectID = or_project projectID0
      in case fault 0 of
           Some err \<Rightarrow> Inl err
         | None \<Rightarrow> Inr (map (pg_row_flag L) (rev (sort_key pf_created_at (pg_scan L (filter (\<lambda>r. pf_project_id r = projectID) (pg_feature_flags db)))))))"

definition pg_query :: "string \<Rightarrow> string \<Rightarrow> PgFlagRow \<Rightarrow> bool" where
  "pg_query projectID keyOrID r = (pf_project_id r = projectID \<and> (pf_key r = keyOrID \<or> pf_id r = keyOrID))"

definition pg_GetFlagByProject :: "pg_lib \<Rightarrow> faults \<Rightarrow> PgDb \<Rightarrow> string \<Rightarrow> string \<Rightarrow> FeatureFlag result" where
  "pg_GetFlagByProject L fault db projectID0 keyOrID =
     (let projectID = or_project projectID0
      in case fault 0 of
           Some err \<Rightarrow> Inl err
         | None \<Rightarrow>
             (case pg_scan L (filter (pg_query projectID keyOrID) (pg_feature_flags db)) of
                [] \<Rightarrow> Inl ErrNoRows
              | r # _ \<Rightarrow> Inr (pg_row_flag L r)))"

definition pg_ListFlags :: "pg_lib \<Rightarrow> faults \<Rightarrow> PgDb \<Rightarrow> FeatureFlag list result" where
  "pg_ListFlags L fault db = pg_ListFlagsByProject L fault db DefaultProjectID"

definition pg_GetFlag :: "pg_lib \<Rightarrow> faults \<Rightarrow> PgDb \<Rightarrow> string \<Rightarrow> FeatureFlag result" where
  "pg_GetFlag L fault db keyOrID = pg_GetFlagByProject L fault db DefaultProjectID keyOrID"

section \<open>The audit log\<close>

text \<open>\<open>ORDER BY timestamp ASC, id ASC\<close>; the descending order is its reverse.\<close>

definition pg_key :: "pg_lib \<Rightarrow> AuditLogEntry \<Rightarrow> gtime \<times> nat" where
  "pg_key L e = (al_Timestamp e, pg_rank L (al_ID e))"

definition pg_ordered :: "pg_lib \<Rightarrow> AuditLogEntry list \<Rightarrow> AuditLogEntry list" where
  "pg_ordered L rows = sort_key (pg_key L) rows"

definition pg_fill :: "clock \<Rightarrow> AuditLogEntry \<Rightarrow> AuditLogEntry" where
  "pg_fill ck entry0 =
     (let entry = (if al_ID entry0 = [] then entry0\<lparr>al_ID := ''log_'' @ Itoa (UnixNano (ck 0))\<rparr> else entry0);
          entry = (if al_ProjectID entry = [] then entry\<lparr>al_ProjectID := DefaultProjectID\<rparr> else entry)
      in if IsZero (al_Timestamp entry) then entry\<lparr>al_Timestamp := ck 1\<rparr> else entry)"

definition pg_prev_hash :: "pg_lib \<Rightarrow> faults \<Rightarrow> PgDb \<Rightarrow> string \<Rightarrow> string" where
  "pg_prev_hash L fault db projectID =
     (case (if fault 0 = None then rev (pg_ordered L (filter (\<lambda>e. al_ProjectID e = projectID \<and> al_EntryHash e \<noteq> []) (pg_audit_logs db))) else []) of
        e # _ \<Rightarrow> al_EntryHash e
      | [] \<Rightarrow>
          (case (if fault 1 = None then mget (pg_audit_anchors db) projectID else None) of
             Some anchor \<Rightarrow> if anchor \<noteq> [] then anchor else AuditGenesisHash
           | None \<Rightarrow> AuditGenesisHash))"

definition pg_link :: "runtime \<Rightarrow> string \<Rightarrow> AuditLogEntry \<Rightarrow> AuditLogEntry" where
  "pg_link rt prevHash entry =
     (let entry = entry\<lparr>al_PrevHash := prevHash\<rparr> in entry\<lparr>al_EntryHash := ComputeAuditEntryHash rt prevHash entry\<rparr>)"

text \<open>The row of an entry: its time is rounded.\<close>

definition pg_stored :: "pg_lib \<Rightarrow> AuditLogEntry \<Rightarrow> AuditLogEntry" where
  "pg_stored L e = e\<lparr>al_Timestamp := pg_time L (al_Timestamp e)\<rparr>"

definition pg_insert :: "pg_lib \<Rightarrow> gerror option \<Rightarrow> PgDb \<Rightarrow> AuditLogEntry \<Rightarrow> gerror option \<times> PgDb" where
  "pg_insert L err db entry =
     (case err of
        Some e \<Rightarrow> (Some e, db)
      | None \<Rightarrow>
          if list_ex (\<lambda>r. al_ID r = al_ID entry) (pg_audit_logs db) then (Some (pg_unique L ''audit_logs_pkey''), db)
          else (None, db\<lparr>pg_audit_logs := pg_audit_logs db @ [pg_stored L entry]\<rparr>))"

definition pg_insertAuditLog :: "runtime \<Rightarrow> pg_lib \<Rightarrow> faults \<Rightarrow> clock \<Rightarrow> PgDb \<Rightarrow> AuditLogEntry \<Rightarrow> (AuditLogEntry \<times> gerror option) \<times> PgDb" where
  "pg_insertAuditLog rt L fault ck db entry0 =
     (let entry = pg_fill ck entry0;
          entry = pg_link rt (pg_prev_hash L fault db (al_ProjectID entry)) entry
      in case pg_insert L (fault 2) db entry of (err, db) \<Rightarrow> ((entry, err), db))"

definition pg_AppendAuditLog :: "runtime \<Rightarrow> pg_lib \<Rightarrow> faults \<Rightarrow> clock \<Rightarrow> PgDb \<Rightarrow> AuditLogEntry \<Rightarrow> AuditLogEntry result \<times> PgDb" where
  "pg_AppendAuditLog rt L fault ck db entry =
     (case pg_insertAuditLog rt L fault ck db entry of ((e, Some err), db) \<Rightarrow> (Inl err, db) | ((e, None), db) \<Rightarrow> (Inr e, db))"

definition pg_ListAuditLogsByProject :: "pg_lib \<Rightarrow> faults \<Rightarrow> PgDb \<Rightarrow> string \<Rightarrow> int \<Rightarrow> AuditLogEntry list result" where
  "pg_ListAuditLogsByProject L fault db projectID0 limit0 =
     (let projectID = or_project projectID0;
          limit = (if limit0 \<le> 0 then 100 else limit0)
      in case fault 0 of
           Some err \<Rightarrow> Inl err
         | None \<Rightarrow> Inr (take (nat limit) (rev (sort_key al_Timestamp (pg_scan_logs L (filter (\<lambda>e. al_ProjectID e = projectID) (pg_audit_logs db)))))))"

definition pg_ListAuditLogs :: "pg_lib \<Rightarrow> faults \<Rightarrow> PgDb \<Rightarrow> int \<Rightarrow> AuditLogEntry list result" where
  "pg_ListAuditLogs L fault db limit = pg_ListAuditLogsByProject L fault db DefaultProjectID limit"

definition pg_chain :: "pg_lib \<Rightarrow> PgDb \<Rightarrow> string \<Rightarrow> AuditLogEntry list" where
  "pg_chain L db projectID = pg_ordered L (filter (\<lambda>e. al_ProjectID e = projectID) (pg_audit_logs db))"

definition pg_anchor :: "faults \<Rightarrow> PgDb \<Rightarrow> string \<Rightarrow> string" where
  "pg_anchor fault db projectID =
     (case (if fault 0 = None then mget (pg_audit_anchors db) projectID else None) of
        Some anchor \<Rightarrow> if anchor \<noteq> [] then anchor else AuditGenesisHash
      | None \<Rightarrow> AuditGenesisHash)"

definition pg_VerifyAuditLogIntegrity :: "runtime \<Rightarrow> pg_lib \<Rightarrow> faults \<Rightarrow> gtime \<Rightarrow> PgDb \<Rightarrow> string \<Rightarrow> AuditIntegrityResult result" where
  "pg_VerifyAuditLogIntegrity rt L fault now db projectID0 =
     (let projectID = or_project projectID0 in
      case fault 0 of
        Some err \<Rightarrow> Inl err
      | None \<Rightarrow>
          (let chain = pg_chain L db projectID in
           if length chain = 0
           then Inr \<lparr>ai_Valid = True, ai_TotalVerified = 0, ai_HeadHash = [], ai_VerifiedAt = now, ai_BrokenEntryID = [], ai_ErrorMessage = []\<rparr>
           else Inr (verify_loop rt now 0 (pg_anchor (from 1 fault) db projectID) chain)))"

definition pg_ExportAuditLogs :: "pg_lib \<Rightarrow> faults \<Rightarrow> PgDb \<Rightarrow> string \<Rightarrow> gtime option \<Rightarrow> gtime option \<Rightarrow> int \<Rightarrow> AuditLogEntry list result" where
  "pg_ExportAuditLogs L fault db projectID0 since before limit0 =
     (let projectID = or_project projectID0;
          limit = (if limit0 \<le> 0 \<or> limit0 > 10000 then 10000 else limit0);
          hit = (\<lambda>e. al_ProjectID e = projectID
            \<and> (case since of Some t \<Rightarrow> pg_time L t \<le> al_Timestamp e | None \<Rightarrow> True)
            \<and> (case before of Some t \<Rightarrow> al_Timestamp e \<le> pg_time L t | None \<Rightarrow> True))
      in case fault 0 of
           Some err \<Rightarrow> Inl err
         | None \<Rightarrow> Inr (take (nat limit) (rev (pg_ordered L (filter hit (pg_audit_logs db))))))"

definition pg_PurgeAuditLogs :: "pg_lib \<Rightarrow> faults \<Rightarrow> PgDb \<Rightarrow> string \<Rightarrow> gtime \<Rightarrow> int result \<times> PgDb" where
  "pg_PurgeAuditLogs L fault db projectID0 before =
     (let projectID = or_project projectID0;
          gone = (\<lambda>e. al_ProjectID e = projectID \<and> al_Timestamp e < pg_time L before);
          lastPurgedHash = (case (if fault 0 = None then rev (pg_ordered L (filter gone (pg_audit_logs db))) else []) of e # _ \<Rightarrow> al_EntryHash e | [] \<Rightarrow> [])
      in case fault 1 of
           Some err \<Rightarrow> (Inl err, db)
         | None \<Rightarrow>
             (let affected = length (filter gone (pg_audit_logs db));
                  db = db\<lparr>pg_audit_logs := filter (\<lambda>e. \<not> gone e) (pg_audit_logs db)\<rparr>;
                  db = (if affected > 0 \<and> lastPurgedHash \<noteq> [] \<and> fault 2 = None
                        then db\<lparr>pg_audit_anchors := mput projectID lastPurgedHash (pg_audit_anchors db)\<rparr> else db)
              in (Inr (int affected), db)))"

section \<open>Changing flags\<close>

definition pg_log :: "gtime \<Rightarrow> string \<Rightarrow> gtime \<Rightarrow> string \<Rightarrow> string \<Rightarrow> string \<Rightarrow> string \<Rightarrow> string \<Rightarrow> AuditLogEntry" where
  "pg_log idt projectID ts actor action key env details =
     \<lparr>al_ID = ''log_'' @ Itoa (UnixNano idt), al_ProjectID = projectID, al_Timestamp = ts, al_Actor = actor, al_Action = action, al_FlagKey = key,
      al_Environment = env, al_Details = details, al_PrevHash = [], al_EntryHash = []\<rparr>"

text \<open>What a call answers when the audit entry was written, or could not be.\<close>

definition pg_audited :: "(AuditLogEntry \<Rightarrow> 'a) \<Rightarrow> (AuditLogEntry \<times> gerror option) \<times> PgDb \<Rightarrow> 'a result \<times> PgDb" where
  "pg_audited f out = (case out of ((lg, None), db) \<Rightarrow> (Inr (f lg), db) | ((lg, Some err), db) \<Rightarrow> (Inl err, db))"

definition pg_upsert :: "pg_lib \<Rightarrow> PgFlagRow \<Rightarrow> PgFlagRow list \<Rightarrow> PgFlagRow list result" where
  "pg_upsert L n rows =
     (let same = (\<lambda>r. pf_project_id r = pf_project_id n \<and> pf_key r = pf_key n) in
      if list_ex same rows
      then Inr (map (\<lambda>r. if same r then r\<lparr>pf_config_version := pf_config_version r + 1, pf_name := pf_name n, pf_description := pf_description n,
             pf_type := pf_type n, pf_tags := pf_tags n, pf_environments := pf_environments n, pf_updated_at := pf_updated_at n\<rparr> else r) rows)
      else if list_ex (\<lambda>r. pf_id r = pf_id n) rows then Inl (pg_unique L ''feature_flags_pkey'')
      else Inr (rows @ [n]))"

definition pg_SaveFlag :: "runtime \<Rightarrow> pg_lib \<Rightarrow> faults \<Rightarrow> clock \<Rightarrow> string \<Rightarrow> PgDb \<Rightarrow> FeatureFlag \<Rightarrow> string \<Rightarrow> AuditLogEntry option result \<times> PgDb" where
  "pg_SaveFlag rt L fault ck rnd db flag0 actor0 =
     (let actor = (if actor0 = [] then ''developer@flagura.dev'' else actor0) in
      if TrimSpace rt (ff_ProjectID flag0) = [] then (Inl (Errorf ''project_id is required to save a feature flag''), db)
      else
        (let flag = (if ff_ID flag0 = [] then flag0\<lparr>ff_ID := ''flag_'' @ Itoa (Unix (ck 0)) @ ''_'' @ rnd\<rparr> else flag0);
             now = ck 1
         in case pg_envs L (ff_Environments flag) of
              Inl err \<Rightarrow> (Inl (Wrapf ''failed to marshal environments: '' err), db)
            | Inr envs \<Rightarrow>
                (case (case fault 0 of Some err \<Rightarrow> Inl err | None \<Rightarrow> pg_upsert L
                    \<lparr>pf_id = ff_ID flag, pf_project_id = ff_ProjectID flag, pf_key = ff_Key flag, pf_config_version = 1, pf_name = ff_Name flag,
                     pf_description = ff_Description flag, pf_type = ff_Type flag, pf_tags = ff_Tags flag, pf_environments = envs,
                     pf_created_at = pg_time L now, pf_updated_at = pg_time L now\<rparr> (pg_feature_flags db)) of
                   Inl err \<Rightarrow> (Inl err, db)
                 | Inr rows \<Rightarrow>
                     (let db = db\<lparr>pg_feature_flags := rows\<rparr> in
                      if actor = ''snapshot_restore'' then (Inr None, db)
                      else pg_audited Some (pg_insertAuditLog rt L (from 1 fault) (\<lambda>i. ck (3 + i)) db
                        (pg_log (ck 2) (ff_ProjectID flag) now actor ''FLAG_UPDATED'' (ff_Key flag) ''all'' (''Saved feature flag '' @ quoted (ff_Key flag) @ ''.'')))))))"

definition pg_DeleteFlagByProject :: "runtime \<Rightarrow> pg_lib \<Rightarrow> faults \<Rightarrow> clock \<Rightarrow> PgDb \<Rightarrow> string \<Rightarrow> string \<Rightarrow> string \<Rightarrow> AuditLogEntry result \<times> PgDb" where
  "pg_DeleteFlagByProject rt L fault ck db projectID0 keyOrID actor0 =
     (let projectID = or_project projectID0;
          actor = (if actor0 = [] then ''admin@flagura.dev'' else actor0)
      in case pg_GetFlagByProject L fault db projectID keyOrID of
           Inl err \<Rightarrow> (Inl err, db)
         | Inr f \<Rightarrow>
             (case fault 1 of
                Some err \<Rightarrow> (Inl err, db)
              | None \<Rightarrow>
                  (let gone = pg_query projectID keyOrID;
                       affected = length (filter gone (pg_feature_flags db));
                       db = db\<lparr>pg_feature_flags := filter (\<lambda>r. \<not> gone r) (pg_feature_flags db)\<rparr>
                   in if affected = 0 then (Inl (Sentinel ErrFlagNotFound), db)
                      else pg_audited id (pg_insertAuditLog rt L (from 2 fault) (\<lambda>i. ck (2 + i)) db
                        (pg_log (ck 0) projectID (ck 1) actor ''FLAG_DELETED'' (ff_Key f) ''all''
                          (''Deleted feature flag '' @ quoted (ff_Key f) @ '' from project '' @ quoted projectID @ ''.''))))))"

definition pg_DeleteFlag :: "runtime \<Rightarrow> pg_lib \<Rightarrow> faults \<Rightarrow> clock \<Rightarrow> PgDb \<Rightarrow> string \<Rightarrow> string \<Rightarrow> AuditLogEntry result \<times> PgDb" where
  "pg_DeleteFlag rt L fault ck db keyOrID actor = pg_DeleteFlagByProject rt L fault ck db DefaultProjectID keyOrID actor"

text \<open>The statement that writes the environments, with the flag the call has read before.\<close>

definition pg_write_envs :: "pg_lib \<Rightarrow> FeatureFlag \<Rightarrow> string \<Rightarrow> string \<Rightarrow> PgDb \<Rightarrow> PgDb" where
  "pg_write_envs L f projectID envs db =
     db\<lparr>pg_feature_flags := map (\<lambda>r. if pf_id r = ff_ID f \<and> pf_project_id r = projectID
       then r\<lparr>pf_environments := envs, pf_config_version := pf_config_version r + 1, pf_updated_at := pg_time L (ff_UpdatedAt f)\<rparr> else r)
       (pg_feature_flags db)\<rparr>"

definition pg_toggle :: "bool option \<Rightarrow> EnvironmentConfig \<Rightarrow> EnvironmentConfig" where
  "pg_toggle enabled c = c\<lparr>ec_Enabled := (case enabled of None \<Rightarrow> \<not> ec_Enabled c | Some b \<Rightarrow> b)\<rparr>"

definition pg_changed :: "string \<Rightarrow> (EnvironmentConfig \<Rightarrow> EnvironmentConfig) \<Rightarrow> gtime \<Rightarrow> FeatureFlag \<Rightarrow> FeatureFlag" where
  "pg_changed env change now f = f\<lparr>ff_Environments := mput env (change (EnvConfig f env)) (ff_Environments f), ff_UpdatedAt := now\<rparr>"

definition pg_update_env :: "runtime \<Rightarrow> pg_lib \<Rightarrow> faults \<Rightarrow> clock \<Rightarrow> PgDb \<Rightarrow> string \<Rightarrow> string \<Rightarrow> string \<Rightarrow> (EnvironmentConfig \<Rightarrow> EnvironmentConfig) \<Rightarrow>
    (FeatureFlag \<Rightarrow> FeatureFlag \<Rightarrow> AuditLogEntry) \<Rightarrow> (FeatureFlag \<times> AuditLogEntry) result \<times> PgDb" where
  "pg_update_env rt L fault ck db projectID keyOrID env change audit =
     (case pg_GetFlagByProject L fault db projectID keyOrID of
        Inl err \<Rightarrow> (Inl err, db)
      | Inr f0 \<Rightarrow>
          (let f = pg_changed env change (ck 0) f0
           in case pg_envs L (ff_Environments f) of
                Inl err \<Rightarrow> (Inl err, db)
              | Inr envs \<Rightarrow>
                  (case fault 1 of
                     Some err \<Rightarrow> (Inl err, db)
                   | None \<Rightarrow>
                       (let f' = f\<lparr>ff_ConfigVersion := ff_ConfigVersion f + 1\<rparr>
                        in pg_audited (\<lambda>lg. (f', lg)) (pg_insertAuditLog rt L (from 2 fault) (\<lambda>i. ck (3 + i)) (pg_write_envs L f projectID envs db) (audit f0 f'))))))"

definition pg_toggle_log :: "clock \<Rightarrow> string \<Rightarrow> string \<Rightarrow> string \<Rightarrow> FeatureFlag \<Rightarrow> AuditLogEntry" where
  "pg_toggle_log ck projectID env actor f =
     pg_log (ck 1) projectID (ck 2) actor ''KILL_SWITCH_TOGGLED'' (ff_Key f) env
       ((if ec_Enabled (EnvConfig f env) then ''Enabled'' else ''Disabled (Kill Switch)'') @ '' flag for '' @ env @ '' environment in project ''
        @ projectID @ ''.'')"

definition pg_ToggleFlagByProject :: "runtime \<Rightarrow> pg_lib \<Rightarrow> faults \<Rightarrow> clock \<Rightarrow> PgDb \<Rightarrow> string \<Rightarrow> string \<Rightarrow> string \<Rightarrow> bool option \<Rightarrow> string \<Rightarrow>
    (FeatureFlag \<times> AuditLogEntry) result \<times> PgDb" where
  "pg_ToggleFlagByProject rt L fault ck db projectID0 keyOrID env enabled actor =
     (let projectID = or_project projectID0 in
      pg_update_env rt L fault ck db projectID keyOrID env (pg_toggle enabled) (\<lambda>_ f. pg_toggle_log ck projectID env actor f))"

definition pg_roll :: "f64 \<Rightarrow> EnvironmentConfig \<Rightarrow> EnvironmentConfig" where
  "pg_roll pct0 c =
     (let pct = clamp_pct pct0;
          c = c\<lparr>ec_Percentage := pct\<rparr>
      in if ec_Strategy c = StrategyBoolean \<and> flt pct (Fin 100) then c\<lparr>ec_Strategy := StrategyPercentage\<rparr> else c)"

definition pg_UpdateRolloutByProject :: "runtime \<Rightarrow> pg_lib \<Rightarrow> faults \<Rightarrow> clock \<Rightarrow> PgDb \<Rightarrow> string \<Rightarrow> string \<Rightarrow> string \<Rightarrow> f64 \<Rightarrow> string \<Rightarrow>
    (FeatureFlag \<times> AuditLogEntry) result \<times> PgDb" where
  "pg_UpdateRolloutByProject rt L fault ck db projectID0 keyOrID env pct actor =
     (let projectID = or_project projectID0 in
      pg_update_env rt L fault ck db projectID keyOrID env (pg_roll pct)
        (\<lambda>f0 f. pg_log (ck 1) projectID (ck 2) actor ''ROLLOUT_CHANGED'' (ff_Key f) env
           (''Shifted percentage rollout from '' @ FormatFixed 0 (ec_Percentage (EnvConfig f0 env)) @ ''% to ''
            @ FormatFixed 0 (ec_Percentage (EnvConfig f env)) @ ''% in '' @ env @ '' for project '' @ projectID @ ''.'')))"

definition pg_ToggleFlag :: "runtime \<Rightarrow> pg_lib \<Rightarrow> faults \<Rightarrow> clock \<Rightarrow> PgDb \<Rightarrow> string \<Rightarrow> string \<Rightarrow> bool option \<Rightarrow> string \<Rightarrow>
    (FeatureFlag \<times> AuditLogEntry) result \<times> PgDb" where
  "pg_ToggleFlag rt L fault ck db keyOrID env enabled actor = pg_ToggleFlagByProject rt L fault ck db DefaultProjectID keyOrID env enabled actor"

definition pg_UpdateRollout :: "runtime \<Rightarrow> pg_lib \<Rightarrow> faults \<Rightarrow> clock \<Rightarrow> PgDb \<Rightarrow> string \<Rightarrow> string \<Rightarrow> f64 \<Rightarrow> string \<Rightarrow>
    (FeatureFlag \<times> AuditLogEntry) result \<times> PgDb" where
  "pg_UpdateRollout rt L fault ck db keyOrID env pct actor = pg_UpdateRolloutByProject rt L fault ck db DefaultProjectID keyOrID env pct actor"

text \<open>The reset empties these tables; the schema it runs then seeds an organization and a project, and no flag.\<close>

definition pg_Reset :: "faults \<Rightarrow> PgDb \<Rightarrow> gerror option \<times> PgDb" where
  "pg_Reset fault db = (fault 1, if fault 0 = None then \<lparr>pg_feature_flags = [], pg_audit_logs = [], pg_audit_anchors = []\<rparr> else db)"

definition detectDriverName :: "runtime \<Rightarrow> string \<Rightarrow> string" where
  "detectDriverName rt databaseURL =
     (let lower = ToLower rt databaseURL in
      if Contains lower ''supabase.co'' \<or> Contains lower ''supabase.com'' then ''Supabase PostgreSQL''
      else if Contains lower ''neon.tech'' then ''Neon PostgreSQL''
      else if Contains lower ''rds.amazonaws.com'' then ''AWS RDS PostgreSQL''
      else if Contains lower ''localhost'' \<or> Contains lower ''127.0.0.1'' \<or> Contains lower ''postgres:5432'' then ''Local PostgreSQL''
      else ''PostgreSQL'')"

section \<open>The order of the log\<close>

lemma sort_key_last:
  assumes "\<forall>r \<in> set rows. f r \<le> f n"
  shows "sort_key f (rows @ [n]) = sort_key f rows @ [n]"
  using assms by (induction rows) (auto simp: insort_key_last)

lemma pg_prev_hash_head:
  assumes "digest_nonempty rt" and "linked rt (pg_anchor no_fault db p) (pg_chain L db p)"
  shows "pg_prev_hash L no_fault db p = head_hash (pg_anchor no_fault db p) (pg_chain L db p)"
proof -
  let ?rows = "filter (\<lambda>e. al_ProjectID e = p) (pg_audit_logs db)"
  have "al_EntryHash e \<noteq> []" if "e \<in> set ?rows" for e
    using linked_hash_nonempty [OF assms, of e] that by (simp add: pg_chain_def pg_ordered_def)
  then have f: "filter (\<lambda>e. al_ProjectID e = p \<and> al_EntryHash e \<noteq> []) (pg_audit_logs db) = ?rows"
    by (intro filter_cong) auto
  show ?thesis
  proof (cases "rev (pg_chain L db p)")
    case Nil
    then have "pg_chain L db p = []" by simp
    then show ?thesis unfolding pg_prev_hash_def f pg_chain_def [symmetric] Nil by (simp add: pg_anchor_def head_hash_def)
  next
    case (Cons e es)
    then have "pg_chain L db p = rev es @ [e]" by (metis rev_rev_ident rev.simps(2))
    then show ?thesis unfolding pg_prev_hash_def f pg_chain_def [symmetric] Cons by (simp add: head_hash_def)
  qed
qed

text \<open>What an entry that was stored looks like, and that it was linked to what was stored then.\<close>

lemma pg_link_fields [simp]:
  "al_PrevHash (pg_link rt h e) = h" "al_ProjectID (pg_link rt h e) = al_ProjectID e" "al_ID (pg_link rt h e) = al_ID e"
  "al_Timestamp (pg_link rt h e) = al_Timestamp e" "al_EntryHash (pg_link rt h e) = ComputeAuditEntryHash rt h (pg_link rt h e)"
  by (simp_all add: pg_link_def ComputeAuditEntryHash_def audit_payload_def)

lemma pg_link_hash: "ComputeAuditEntryHash rt h (pg_link rt h' e) = ComputeAuditEntryHash rt h e"
  by (simp add: pg_link_def ComputeAuditEntryHash_def audit_payload_def)

lemma pg_stored_fields [simp]:
  "al_PrevHash (pg_stored L e) = al_PrevHash e" "al_ProjectID (pg_stored L e) = al_ProjectID e" "al_ID (pg_stored L e) = al_ID e"
  "al_EntryHash (pg_stored L e) = al_EntryHash e" "al_Timestamp (pg_stored L e) = pg_time L (al_Timestamp e)"
  by (simp_all add: pg_stored_def)

lemma pg_insert_None:
  assumes "pg_insert L err db e = (None, db')"
  shows "db' = db\<lparr>pg_audit_logs := pg_audit_logs db @ [pg_stored L e]\<rparr>"
  using assms by (auto simp: pg_insert_def split: option.splits if_splits)

lemma pg_AppendAuditLog_Inr:
  assumes "pg_AppendAuditLog rt L no_fault ck db e = (Inr e', db')"
  shows "db' = db\<lparr>pg_audit_logs := pg_audit_logs db @ [pg_stored L e']\<rparr>"
    and "e' = pg_link rt (pg_prev_hash L no_fault db (al_ProjectID e')) (pg_fill ck e)"
  using assms by (auto simp: pg_AppendAuditLog_def pg_insertAuditLog_def Let_def dest: pg_insert_None split: prod.splits option.splits)

lemma pg_chain_append:
  assumes "al_ProjectID e = p" and "\<forall>x \<in> set (pg_audit_logs db). al_ProjectID x = p \<longrightarrow> pg_key L x \<le> pg_key L e"
  shows "pg_chain L (db\<lparr>pg_audit_logs := pg_audit_logs db @ [e]\<rparr>) p = pg_chain L db p @ [e]"
  using assms by (simp add: pg_chain_def pg_ordered_def sort_key_last)

text \<open>What a verification says of a valid chain with one entry more.\<close>

lemma pg_verify_last:
  assumes "linked rt (pg_anchor no_fault db p) (pg_chain L db p)" and "pg_chain L db' p = pg_chain L db p @ [e]"
    and "pg_audit_anchors db' = pg_audit_anchors db" and "p \<noteq> []"
  shows "pg_VerifyAuditLogIntegrity rt L no_fault now db' p =
    Inr (verify_loop rt now (int (length (pg_chain L db p))) (head_hash (pg_anchor no_fault db p) (pg_chain L db p)) [e])"
proof -
  have "pg_anchor no_fault db' p = pg_anchor no_fault db p" by (simp add: pg_anchor_def assms(3))
  then show ?thesis
    using assms(4) verify_loop_prefix [OF order_refl assms(1), of now "[e]"]
    by (simp add: pg_VerifyAuditLogIntegrity_def or_project_def assms(2) Let_def del: verify_loop.simps)
qed

text \<open>
  C34: The audit log of the PostgreSQL store, one call after the other. From a valid chain of a project, an
  entry that is stored after the others is linked to the newest one and is the new end of the chain.
  The verification accepts the log exactly when the hash of the entry is the hash of the row: when the
  time kept its value, or the two hashes collide. Otherwise it reports that entry as tampered with.
\<close>

theorem postgres_audit:
  assumes "pg_AppendAuditLog rt L no_fault ck db e = (Inr e', db')" and "p = al_ProjectID e'" and "p \<noteq> []"
    and "digest_nonempty rt" and "linked rt (pg_anchor no_fault db p) (pg_chain L db p)"
    and "\<forall>x \<in> set (pg_audit_logs db). al_ProjectID x = p \<longrightarrow> pg_key L x \<le> pg_key L (pg_stored L e')"
  shows "pg_chain L db' p = pg_chain L db p @ [pg_stored L e'] \<and>
    (\<exists>r. pg_VerifyAuditLogIntegrity rt L no_fault now db' p = Inr r \<and>
      (if ComputeAuditEntryHash rt (al_PrevHash e') (pg_stored L e') = ComputeAuditEntryHash rt (al_PrevHash e') e'
       then ai_Valid r \<and> ai_HeadHash r = al_EntryHash e'
       else \<not> ai_Valid r \<and> ai_BrokenEntryID r = al_ID e'))"
proof -
  note a = pg_AppendAuditLog_Inr [OF assms(1)]
  have "al_PrevHash e' = pg_prev_hash L no_fault db p" "al_EntryHash e' = ComputeAuditEntryHash rt (al_PrevHash e') e'"
    using a(2) assms(2) by (metis pg_link_fields(1), metis pg_link_fields(1,5))
  moreover have c: "pg_chain L db' p = pg_chain L db p @ [pg_stored L e']"
    using pg_chain_append [of "pg_stored L e'" p db L] assms(2,6) by (simp add: a(1))
  moreover have "pg_audit_anchors db' = pg_audit_anchors db" by (simp add: a(1))
  ultimately show ?thesis
    using pg_verify_last [OF assms(5) c _ assms(3), of now] pg_prev_hash_head [OF assms(4,5)]
    by (auto simp: Let_def invalid_result_def)
qed

definition demo_micros :: "gtime \<Rightarrow> gtime" where
  "demo_micros t = t - t mod 1000"

definition demo_bit :: "(string, EnvironmentConfig) gomap \<Rightarrow> string \<Rightarrow> char" where
  "demo_bit m env = (case mget m env of Some c \<Rightarrow> if ec_Enabled c then CHR ''1'' else CHR ''0'' | None \<Rightarrow> CHR ''0'')"

definition demo_unbit :: "char \<Rightarrow> EnvironmentConfig" where
  "demo_unbit c = zero_env_config\<lparr>ec_Enabled := c = CHR ''1''\<rparr>"

definition demo_pg :: pg_lib where
  "demo_pg = \<lparr>pg_time = demo_micros, pg_rank = length, pg_scan = id, pg_scan_logs = id,
     pg_envs = (\<lambda>m. Inr [demo_bit m ''production'', demo_bit m ''staging'']),
     pg_unenvs = (\<lambda>t. [(''production'', demo_unbit (hd t)), (''staging'', demo_unbit (last t))]), pg_unique = Errorf\<rparr>"

definition demo_pg_db :: PgDb where
  "demo_pg_db = \<lparr>pg_feature_flags = [], pg_audit_logs = [], pg_audit_anchors = []\<rparr>"

abbreviation (input) "demo_pg_append t \<equiv>
  pg_AppendAuditLog demo_runtime demo_pg no_fault (\<lambda>_. 0) demo_pg_db (pg_log t ''acme'' t ''ops'' ''FLAG_UPDATED'' ''pay'' ''all'' [])"

lemma demo_pg_run:
  assumes "t \<noteq> 0"
  shows "demo_pg_append t = (Inr (pg_link demo_runtime ''GENESIS'' (pg_log t ''acme'' t ''ops'' ''FLAG_UPDATED'' ''pay'' ''all'' [])), snd (demo_pg_append t))"
  using assms by (simp add: pg_AppendAuditLog_def pg_insertAuditLog_def pg_fill_def pg_log_def pg_prev_hash_def pg_ordered_def pg_insert_def demo_pg_db_def
      IsZero_def mget_def Let_def)

lemma demo_pg_hash:
  "(ComputeAuditEntryHash demo_runtime h (pg_stored demo_pg (pg_link demo_runtime h e)) = ComputeAuditEntryHash demo_runtime h (pg_link demo_runtime h e)) =
   (rfc3339nano (demo_micros (al_Timestamp e)) = rfc3339nano (al_Timestamp e))"
  by (simp add: ComputeAuditEntryHash_def audit_payload_def pg_stored_def pg_link_def demo_runtime_def demo_pg_def)

theorem postgres_audit_witness:
  "(\<exists>r. pg_VerifyAuditLogIntegrity demo_runtime demo_pg no_fault 5 (snd (demo_pg_append (unix_epoch + 1000))) ''acme'' = Inr r \<and> ai_Valid r) \<and>
   (\<exists>r. pg_VerifyAuditLogIntegrity demo_runtime demo_pg no_fault 5 (snd (demo_pg_append (unix_epoch + 1001))) ''acme'' = Inr r \<and> \<not> ai_Valid r)"
proof -
  have ok: "linked demo_runtime (pg_anchor no_fault demo_pg_db p) (pg_chain demo_pg demo_pg_db p)" for p
    by (simp add: pg_chain_def pg_ordered_def demo_pg_db_def)
  have t: "unix_epoch + 1000 \<noteq> 0" "unix_epoch + 1001 \<noteq> 0"
    "rfc3339nano (demo_micros (unix_epoch + 1000)) = rfc3339nano (unix_epoch + 1000)"
    "rfc3339nano (demo_micros (unix_epoch + 1001)) \<noteq> rfc3339nano (unix_epoch + 1001)"
    by code_simp+
  show ?thesis
    using postgres_audit [OF demo_pg_run [OF t(1)] refl _ demo_digest ok, of 5] postgres_audit [OF demo_pg_run [OF t(2)] refl _ demo_digest ok, of 5]
    by (auto simp: demo_pg_hash pg_log_def t(3,4) demo_pg_db_def)
qed

section \<open>Calls that interleave\<close>

text \<open>
  How far a call has come: a toggle has not begun, has read the flag and computed what it will write, or
  has written it and has its audit entry to store; an entry has not been looked at, or is linked to
  the entry that was the newest when the call asked.
\<close>

datatype pg_call =
    Toggle clock string string string "bool option" string
  | Changed string FeatureFlag string AuditLogEntry
  | Audit AuditLogEntry
  | Linked AuditLogEntry
  | Done

inductive pg_step :: "runtime \<Rightarrow> pg_lib \<Rightarrow> PgDb \<times> pg_call list \<Rightarrow> PgDb \<times> pg_call list \<Rightarrow> bool" for rt L where
  step_read: "i < length cs \<Longrightarrow> cs ! i = Toggle ck p k env b actor \<Longrightarrow> pg_GetFlagByProject L no_fault db p k = Inr f0 \<Longrightarrow>
    f = pg_changed env (pg_toggle b) (ck 0) f0 \<Longrightarrow> pg_envs L (ff_Environments f) = Inr envs \<Longrightarrow>
    e = pg_toggle_log ck (or_project p) env actor f \<Longrightarrow>
    pg_step rt L (db, cs) (db, cs[i := Changed (or_project p) f envs (pg_fill (\<lambda>j. ck (3 + j)) e)])"
| step_write: "i < length cs \<Longrightarrow> cs ! i = Changed p f envs e \<Longrightarrow> pg_step rt L (db, cs) (pg_write_envs L f p envs db, cs[i := Audit e])"
| step_link: "i < length cs \<Longrightarrow> cs ! i = Audit e \<Longrightarrow>
    pg_step rt L (db, cs) (db, cs[i := Linked (pg_link rt (pg_prev_hash L no_fault db (al_ProjectID e)) e)])"
| step_insert: "i < length cs \<Longrightarrow> cs ! i = Linked e \<Longrightarrow> pg_insert L None db e = (None, db') \<Longrightarrow> pg_step rt L (db, cs) (db', cs[i := Done])"

text \<open>A call with nothing between its statements is the operation.\<close>

lemma pg_steps_audit:
  assumes "pg_insertAuditLog rt L no_fault ck db e = ((e', None), db')" and "pg_fill ck e = e" and "i < length cs" and "cs ! i = Audit e"
  shows "(pg_step rt L)\<^sup>*\<^sup>* (db, cs) (db', cs[i := Done])"
proof -
  let ?e = "pg_link rt (pg_prev_hash L no_fault db (al_ProjectID e)) e"
  have "pg_step rt L (db, cs) (db, cs[i := Linked ?e])"
    using assms(3,4) by (rule step_link)
  moreover have "pg_insert L None db ?e = (None, db')"
    using assms(1,2) by (simp add: pg_insertAuditLog_def Let_def split: prod.splits)
  then have "pg_step rt L (db, cs[i := Linked ?e]) (db', cs[i := Linked ?e, i := Done])"
    using assms(3) by (intro step_insert [of i _ ?e]) simp_all
  ultimately show ?thesis by simp
qed

lemma pg_fill_fill: "pg_fill ck (pg_fill ck e) = pg_fill ck e"
  by (simp add: pg_fill_def Let_def)

lemma pg_insertAuditLog_filled: "pg_insertAuditLog rt L f ck db (pg_fill ck e) = pg_insertAuditLog rt L f ck db e"
  by (simp add: pg_insertAuditLog_def pg_fill_fill)

lemma or_project_idem [simp]: "or_project (or_project p) = or_project p"
  by (simp add: or_project_def)

lemma pg_toggle_log_version: "pg_toggle_log ck p env actor (f\<lparr>ff_ConfigVersion := v\<rparr>) = pg_toggle_log ck p env actor f"
  by (simp add: pg_toggle_log_def EnvConfig_def)

lemma pg_ToggleFlagByProject_Inr:
  assumes "pg_ToggleFlagByProject rt L no_fault ck db p k env b actor = (Inr (g, lg), db')"
  obtains f0 f envs where "pg_GetFlagByProject L no_fault db p k = Inr f0" and "f = pg_changed env (pg_toggle b) (ck 0) f0"
    and "pg_envs L (ff_Environments f) = Inr envs"
    and "pg_insertAuditLog rt L no_fault (\<lambda>i. ck (3 + i)) (pg_write_envs L f (or_project p) envs db) (pg_toggle_log ck (or_project p) env actor f) =
      ((lg, None), db')"
proof -
  have get: "pg_GetFlagByProject L no_fault db (or_project p) k = pg_GetFlagByProject L no_fault db p k"
    by (simp add: pg_GetFlagByProject_def)
  obtain f0 where f0: "pg_GetFlagByProject L no_fault db p k = Inr f0"
    using assms by (cases "pg_GetFlagByProject L no_fault db p k") (simp_all add: pg_ToggleFlagByProject_def pg_update_env_def get Let_def)
  define f where "f = pg_changed env (pg_toggle b) (ck 0) f0"
  obtain envs where e: "pg_envs L (ff_Environments f) = Inr envs"
    using assms by (cases "pg_envs L (ff_Environments f)") (simp_all add: pg_ToggleFlagByProject_def pg_update_env_def get f0 Let_def f_def [symmetric])
  show thesis
    using assms by (intro that [OF f0 f_def e])
      (auto simp: pg_ToggleFlagByProject_def pg_update_env_def get f0 Let_def f_def [symmetric] e pg_toggle_log_version pg_audited_def
        split: prod.splits option.splits)
qed

lemma pg_steps_toggle:
  assumes "pg_ToggleFlagByProject rt L no_fault ck db p k env b actor = (Inr (g, lg), db')" and "i < length cs" and "cs ! i = Toggle ck p k env b actor"
  shows "(pg_step rt L)\<^sup>*\<^sup>* (db, cs) (db', cs[i := Done])"
  using assms(1)
proof (rule pg_ToggleFlagByProject_Inr)
  fix f0 f envs
  let ?e = "pg_fill (\<lambda>j. ck (3 + j)) (pg_toggle_log ck (or_project p) env actor f)" and ?db = "pg_write_envs L f (or_project p) envs db"
  assume a: "pg_GetFlagByProject L no_fault db p k = Inr f0" "f = pg_changed env (pg_toggle b) (ck 0) f0" "pg_envs L (ff_Environments f) = Inr envs"
    and ins: "pg_insertAuditLog rt L no_fault (\<lambda>i. ck (3 + i)) ?db (pg_toggle_log ck (or_project p) env actor f) = ((lg, None), db')"
  have "pg_step rt L (db, cs) (db, cs[i := Changed (or_project p) f envs ?e])"
    by (rule step_read [OF assms(2,3) a refl])
  moreover have "pg_step rt L (db, cs[i := Changed (or_project p) f envs ?e]) (?db, cs[i := Audit ?e])"
    using step_write [of i "cs[i := Changed (or_project p) f envs ?e]" "or_project p" f envs ?e rt L db] assms(2) by simp
  moreover have "(pg_step rt L)\<^sup>*\<^sup>* (?db, cs[i := Audit ?e]) (db', cs[i := Done])"
    using pg_steps_audit [of rt L "\<lambda>i. ck (3 + i)" ?db ?e lg db' i "cs[i := Audit ?e]"] ins assms(2)
    by (simp add: pg_fill_fill pg_insertAuditLog_filled)
  ultimately show ?thesis by (meson converse_rtranclp_into_rtranclp)
qed

text \<open>
  What holds of the log however the calls interleave: an entry, stored or about to be, is linked to the
  anchor or to a stored entry of its project.
\<close>

definition pg_tree :: "PgDb \<times> pg_call list \<Rightarrow> bool" where
  "pg_tree s \<longleftrightarrow> (case s of (db, cs) \<Rightarrow> \<forall>e. e \<in> set (pg_audit_logs db) \<or> Linked e \<in> set cs \<longrightarrow>
     al_PrevHash e = pg_anchor no_fault db (al_ProjectID e) \<or>
     (\<exists>x \<in> set (pg_audit_logs db). al_ProjectID x = al_ProjectID e \<and> al_PrevHash e = al_EntryHash x))"

definition pg_entries :: "PgDb \<times> pg_call list \<Rightarrow> nat" where
  "pg_entries s = (case s of (db, cs) \<Rightarrow> length (pg_audit_logs db) + length (filter (\<lambda>c. c \<noteq> Done) cs))"

lemma pg_prev_hash_cases:
  "pg_prev_hash L no_fault db p = pg_anchor no_fault db p \<or> (\<exists>x \<in> set (pg_audit_logs db). al_ProjectID x = p \<and> pg_prev_hash L no_fault db p = al_EntryHash x)"
proof (cases "rev (pg_ordered L (filter (\<lambda>e. al_ProjectID e = p \<and> al_EntryHash e \<noteq> []) (pg_audit_logs db)))")
  case Nil
  then show ?thesis unfolding pg_prev_hash_def pg_anchor_def Nil by simp
next
  case (Cons e es)
  then have "e \<in> set (pg_ordered L (filter (\<lambda>e. al_ProjectID e = p \<and> al_EntryHash e \<noteq> []) (pg_audit_logs db)))"
    by (metis list.set_intros(1) set_rev)
  then have "e \<in> set (pg_audit_logs db)" "al_ProjectID e = p" by (simp_all add: pg_ordered_def)
  then show ?thesis unfolding pg_prev_hash_def Cons by auto
qed

lemma pg_write_envs_logs [simp]: "pg_audit_logs (pg_write_envs L f p envs db) = pg_audit_logs db"
  "pg_audit_anchors (pg_write_envs L f p envs db) = pg_audit_anchors db"
  by (simp_all add: pg_write_envs_def)

lemma pg_anchor_cong: "pg_audit_anchors db' = pg_audit_anchors db \<Longrightarrow> pg_anchor fault db' p = pg_anchor fault db p"
  by (simp add: pg_anchor_def)

lemma length_filter_update:
  assumes "i < length xs" and "P (xs ! i)"
  shows "P y \<Longrightarrow> length (filter P (xs[i := y])) = length (filter P xs)" and "\<not> P y \<Longrightarrow> Suc (length (filter P (xs[i := y]))) = length (filter P xs)"
  using assms
proof (induction xs arbitrary: i)
  case (Cons x xs)
  { case 1 then show ?case using Cons.IH(1) by (cases i) auto }
  { case 2 then show ?case using Cons.IH(2) by (cases i) auto }
qed simp_all

lemma pg_step_entries: "pg_step rt L s s' \<Longrightarrow> pg_entries s' = pg_entries s"
proof (induction rule: pg_step.induct)
  case (step_insert i cs e db db')
  then show ?case
    using length_filter_update(2) [of i cs "\<lambda>c. c \<noteq> Done" Done] pg_insert_None [OF step_insert(3)] by (simp add: pg_entries_def)
qed (simp_all add: pg_entries_def length_filter_update)

lemma pg_tree_mono:
  assumes "pg_tree (db, cs)" and "set (pg_audit_logs db) \<subseteq> set (pg_audit_logs db')" and "pg_audit_anchors db' = pg_audit_anchors db"
    and "\<And>e. e \<in> set (pg_audit_logs db') \<or> Linked e \<in> set cs' \<Longrightarrow>
      (\<exists>x. (x \<in> set (pg_audit_logs db) \<or> Linked x \<in> set cs) \<and> al_ProjectID x = al_ProjectID e \<and> al_PrevHash x = al_PrevHash e) \<or>
      al_PrevHash e = pg_prev_hash L no_fault db (al_ProjectID e)"
  shows "pg_tree (db', cs')"
  unfolding pg_tree_def prod.case pg_anchor_cong [OF assms(3)]
proof (intro allI impI)
  let ?ok = "\<lambda>e. al_PrevHash e = pg_anchor no_fault db (al_ProjectID e) \<or>
    (\<exists>x \<in> set (pg_audit_logs db). al_ProjectID x = al_ProjectID e \<and> al_PrevHash e = al_EntryHash x)"
  fix e assume "e \<in> set (pg_audit_logs db') \<or> Linked e \<in> set cs'"
  from assms(4) [OF this] have "?ok e"
  proof
    assume "\<exists>x. (x \<in> set (pg_audit_logs db) \<or> Linked x \<in> set cs) \<and> al_ProjectID x = al_ProjectID e \<and> al_PrevHash x = al_PrevHash e"
    then obtain x where x: "x \<in> set (pg_audit_logs db) \<or> Linked x \<in> set cs" "al_ProjectID x = al_ProjectID e" "al_PrevHash x = al_PrevHash e"
      by blast
    from x(1) assms(1) have "?ok x" unfolding pg_tree_def prod.case by blast
    then show ?thesis unfolding x(2,3) .
  next
    assume "al_PrevHash e = pg_prev_hash L no_fault db (al_ProjectID e)"
    then show ?thesis using pg_prev_hash_cases [of L db "al_ProjectID e"] by simp
  qed
  then show "al_PrevHash e = pg_anchor no_fault db (al_ProjectID e) \<or>
    (\<exists>x \<in> set (pg_audit_logs db'). al_ProjectID x = al_ProjectID e \<and> al_PrevHash e = al_EntryHash x)"
    using assms(2) by blast
qed

lemma linked_update: "Linked e \<in> set (cs[i := c]) \<Longrightarrow> c = Linked e \<or> Linked e \<in> set cs"
  using set_update_subset_insert [of cs i c] by auto

lemma pg_step_tree: "pg_step rt L s s' \<Longrightarrow> pg_tree s \<Longrightarrow> pg_tree s'"
proof (induction rule: pg_step.induct)
  case (step_read i cs ck p k env b actor db f0 f envs e)
  show ?case by (rule pg_tree_mono [OF step_read(7), where L = L]) (auto dest!: linked_update)
next
  case (step_write i cs p f envs e db)
  show ?case by (rule pg_tree_mono [OF step_write(3), where L = L]) (auto dest!: linked_update)
next
  case (step_link i cs e db)
  show ?case by (rule pg_tree_mono [OF step_link(3), where L = L]) (auto dest!: linked_update)
next
  case (step_insert i cs e db db')
  have "Linked e \<in> set cs" using step_insert(1,2) by (metis nth_mem)
  then show ?case
    using pg_insert_None [OF step_insert(3)]
    by (intro pg_tree_mono [OF step_insert(4), where L = L]) (auto dest!: linked_update)
qed


definition demo_race :: "pg_call list" where
  "demo_race = [Audit (pg_log (unix_epoch + 1000) ''acme'' (unix_epoch + 1000) ''ann'' ''FLAG_UPDATED'' ''pay'' ''all'' []),
     Audit (pg_log (unix_epoch + 2000) ''acme'' (unix_epoch + 2000) ''bob'' ''FLAG_UPDATED'' ''pay'' ''all'' [])]"


text \<open>
  Two audit calls of a project that overlap break its log for good. Both ask for the newest entry before
  either has stored its own, both store an entry linked to it, and the verification of the log, which
  nobody tampered with, fails.
\<close>

theorem postgres_fork:
  assumes p: "p \<noteq> []" "al_ProjectID e1 = p" "al_ProjectID e2 = p"
    and ids: "\<forall>x \<in> set (pg_audit_logs db). al_ID x \<noteq> al_ID e1 \<and> al_ID x \<noteq> al_ID e2" "al_ID e1 \<noteq> al_ID e2"
    and later: "\<forall>x \<in> set (pg_audit_logs db). al_ProjectID x = p \<longrightarrow> pg_key L x \<le> pg_key L (pg_stored L e1)"
      "pg_key L (pg_stored L e1) \<le> pg_key L (pg_stored L e2)"
    and digest: "ComputeAuditEntryHash rt (pg_prev_hash L no_fault db p) e1 \<noteq> pg_prev_hash L no_fault db p"
  shows "\<exists>db' r. (pg_step rt L)\<^sup>*\<^sup>* (db, [Audit e1, Audit e2]) (db', [Done, Done]) \<and>
    pg_VerifyAuditLogIntegrity rt L no_fault now db' p = Inr r \<and> \<not> ai_Valid r"
proof -
  define l1 l2 where "l1 = pg_link rt (pg_prev_hash L no_fault db p) e1" and "l2 = pg_link rt (pg_prev_hash L no_fault db p) e2"
  define db1 where "db1 = db\<lparr>pg_audit_logs := pg_audit_logs db @ [pg_stored L l1]\<rparr>"
  define db2 where "db2 = db1\<lparr>pg_audit_logs := pg_audit_logs db1 @ [pg_stored L l2]\<rparr>"
  have ins: "pg_insert L None db l1 = (None, db1)" "pg_insert L None db1 l2 = (None, db2)"
    using ids by (auto simp: pg_insert_def db1_def db2_def l1_def l2_def list_ex_iff)
  have "pg_step rt L (db, [Audit e1, Audit e2]) (db, [Linked l1, Audit e2])"
    using step_link [of 0 "[Audit e1, Audit e2]" e1 rt L db] p(2) by (simp add: l1_def)
  moreover have "pg_step rt L (db, [Linked l1, Audit e2]) (db, [Linked l1, Linked l2])"
    using step_link [of 1 "[Linked l1, Audit e2]" e2 rt L db] p(3) by (simp add: l2_def)
  moreover have "pg_step rt L (db, [Linked l1, Linked l2]) (db1, [Done, Linked l2])"
    using step_insert [of 0 "[Linked l1, Linked l2]" l1 L db db1 rt] ins(1) by simp
  moreover have "pg_step rt L (db1, [Done, Linked l2]) (db2, [Done, Done])"
    using step_insert [of 1 "[Done, Linked l2]" l2 L db1 db2 rt] ins(2) by simp
  ultimately have run: "(pg_step rt L)\<^sup>*\<^sup>* (db, [Audit e1, Audit e2]) (db2, [Done, Done])"
    by (meson converse_rtranclp_into_rtranclp rtranclp.rtrancl_refl)
  have key: "pg_key L (pg_stored L l1) = pg_key L (pg_stored L e1)" "pg_key L (pg_stored L l2) = pg_key L (pg_stored L e2)"
    by (simp_all add: pg_key_def l1_def l2_def)
  have "pg_chain L db1 p = pg_chain L db p @ [pg_stored L l1]"
    unfolding db1_def using later(1) p by (intro pg_chain_append) (simp_all add: key l1_def [symmetric] del: pg_stored_fields, simp add: l1_def)
  moreover have "pg_chain L db2 p = pg_chain L db1 p @ [pg_stored L l2]"
    unfolding db2_def
  proof (rule pg_chain_append)
    show "al_ProjectID (pg_stored L l2) = p" by (simp add: l2_def p(3))
    show "\<forall>x \<in> set (pg_audit_logs db1). al_ProjectID x = p \<longrightarrow> pg_key L x \<le> pg_key L (pg_stored L l2)"
      using later by (auto simp: db1_def key intro: order_trans)
  qed
  ultimately have c: "pg_chain L db2 p = (pg_chain L db p @ [pg_stored L l1]) @ [pg_stored L l2]" by simp
  have "al_EntryHash l1 \<noteq> al_PrevHash l2"
    using digest by (simp add: l1_def l2_def pg_link_hash)
  then have "\<not> linked rt h (pg_chain L db2 p)" for h
    unfolding c by (auto simp: linked_append head_hash_def)
  then have "\<exists>r. pg_VerifyAuditLogIntegrity rt L no_fault now db2 p = Inr r \<and> \<not> ai_Valid r"
    using p(1) verify_loop_first [of "pg_chain L db2 p" rt now]
    by (simp add: pg_VerifyAuditLogIntegrity_def or_project_def c Let_def)
  with run show ?thesis by blast
qed

theorem postgres_fork_witness:
  "\<exists>db' r. (pg_step demo_runtime demo_pg)\<^sup>*\<^sup>* (demo_pg_db, demo_race) (db', [Done, Done]) \<and>
     pg_VerifyAuditLogIntegrity demo_runtime demo_pg no_fault 5 db' ''acme'' = Inr r \<and> \<not> ai_Valid r"
proof -
  have t: "Itoa (UnixNano (unix_epoch + 1000)) \<noteq> Itoa (UnixNano (unix_epoch + 2000))" "demo_micros (unix_epoch + 1000) < demo_micros (unix_epoch + 2000)"
    by code_simp+
  have "pg_prev_hash demo_pg no_fault demo_pg_db ''acme'' = ''GENESIS''"
    by (simp add: pg_prev_hash_def pg_ordered_def demo_pg_db_def mget_def)
  then show ?thesis
    unfolding demo_race_def using t
    by (intro postgres_fork) (simp_all add: demo_pg_db_def pg_log_def pg_key_def demo_pg_def ComputeAuditEntryHash_def demo_runtime_def)
qed

lemma pg_GetFlagByProject_one:
  assumes "\<forall>rows. mset (pg_scan L rows) = mset rows" and "filter (pg_query p k) (pg_feature_flags db) = [r]" and "p \<noteq> []"
  shows "pg_GetFlagByProject L no_fault db p k = Inr (pg_row_flag L r)"
proof -
  have "pg_scan L [r] = [r]" using assms(1) by (metis mset_single_iff_right mset.simps)
  then show ?thesis using assms(2,3) by (simp add: pg_GetFlagByProject_def or_project_def)
qed

lemma pg_write_envs_query:
  assumes "filter (pg_query p k) (pg_feature_flags db) = [r]" and "ff_ID g = pf_id r"
  shows "\<exists>r'. filter (pg_query p k) (pg_feature_flags (pg_write_envs L g p envs db)) = [r'] \<and> pf_id r' = pf_id r \<and> pf_environments r' = envs \<and>
    pf_config_version r' = pf_config_version r + 1"
proof -
  define up where "up q = (if pf_id q = ff_ID g \<and> pf_project_id q = p
    then q\<lparr>pf_environments := envs, pf_config_version := pf_config_version q + 1, pf_updated_at := pg_time L (ff_UpdatedAt g)\<rparr> else q)" for q :: PgFlagRow
  have r: "pf_project_id r = p" using assms(1) by (auto simp: filter_eq_Cons_iff pg_query_def)
  have "pg_query p k (up q) = pg_query p k q" for q by (simp add: pg_query_def up_def)
  then have "filter (pg_query p k) (map up (pg_feature_flags db)) = [up r]"
    using assms(1) by (simp add: filter_map comp_def)
  moreover have "pg_feature_flags (pg_write_envs L g p envs db) = map up (pg_feature_flags db)"
    by (simp add: pg_write_envs_def up_def)
  ultimately show ?thesis using r assms(2) by (simp add: up_def)
qed

lemma pg_insertAuditLog_flags: "pg_insertAuditLog rt L fault ck db e = (x, db') \<Longrightarrow> pg_feature_flags db' = pg_feature_flags db"
  by (auto simp: pg_insertAuditLog_def pg_insert_def Let_def split: prod.splits option.splits if_splits)

text \<open>
  C36: A kill switch of the PostgreSQL store can be undone by a concurrent toggle of another environment. Of
  two toggles of one flag, the second reads the flag before the first has written it. The first runs
  to its end and reports success; the second then writes the environments it had read, with its own
  changed, and the environment of the first is again what it was before the kill switch.
\<close>

theorem postgres_lost_kill_switch:
  assumes first: "pg_ToggleFlagByProject rt L no_fault ck db p k env b actor = (Inr (g, lg), db1)"
    and second: "f2 = pg_changed env' (pg_toggle b') (ck' 0) (pg_row_flag L r)" "pg_envs L (ff_Environments f2) = Inr envs" "envs \<noteq> []"
      "\<forall>x. mget (pg_unenvs L envs) x = mget (ff_Environments f2) x"
    and row: "\<forall>rows. mset (pg_scan L rows) = mset rows" "filter (pg_query p k) (pg_feature_flags db) = [r]" "p \<noteq> []" "env' \<noteq> env"
  shows "\<exists>db2 e f. (pg_step rt L)\<^sup>*\<^sup>* (db, [Toggle ck p k env b actor, Toggle ck' p k env' b' actor']) (db2, [Done, Audit e]) \<and>
    pg_GetFlagByProject L no_fault db2 p k = Inr f \<and> mget (ff_Environments f) env = mget (ff_Environments (pg_row_flag L r)) env"
proof -
  have p: "or_project p = p" using row(3) by (simp add: or_project_def)
  note get = pg_GetFlagByProject_one [OF row(1-3)]
  let ?e = "pg_fill (\<lambda>j. ck' (3 + j)) (pg_toggle_log ck' p env' actor' f2)"
  let ?t = "Toggle ck p k env b actor"
  have "pg_step rt L (db, [?t, Toggle ck' p k env' b' actor']) (db, [?t, Changed p f2 envs ?e])"
    using step_read [of 1 "[?t, Toggle ck' p k env' b' actor']" ck' p k env' b' actor' L db, OF _ _ get second(1,2) refl] by (simp add: p)
  moreover have "(pg_step rt L)\<^sup>*\<^sup>* (db, [?t, Changed p f2 envs ?e]) (db1, [Done, Changed p f2 envs ?e])"
    using pg_steps_toggle [OF first, of 0 "[?t, Changed p f2 envs ?e]"] by simp
  moreover have "pg_step rt L (db1, [Done, Changed p f2 envs ?e]) (pg_write_envs L f2 p envs db1, [Done, Audit ?e])"
    using step_write [of 1 "[Done, Changed p f2 envs ?e]" p f2 envs ?e rt L db1] by simp
  ultimately have run: "(pg_step rt L)\<^sup>*\<^sup>* (db, [?t, Toggle ck' p k env' b' actor']) (pg_write_envs L f2 p envs db1, [Done, Audit ?e])"
    by (meson converse_rtranclp_into_rtranclp rtranclp.rtrancl_into_rtrancl)
  obtain f1 envs1 where f1: "f1 = pg_changed env (pg_toggle b) (ck 0) (pg_row_flag L r)" "pg_feature_flags db1 = pg_feature_flags (pg_write_envs L f1 p envs1 db)"
    using first by (rule pg_ToggleFlagByProject_Inr) (auto simp: get p dest: pg_insertAuditLog_flags)
  have ids: "ff_ID f1 = pf_id r" "ff_ID f2 = pf_id r" by (simp_all add: f1(1) second(1) pg_changed_def pg_row_flag_def)
  obtain r1 where r1: "filter (pg_query p k) (pg_feature_flags db1) = [r1]" "pf_id r1 = pf_id r"
    using pg_write_envs_query [OF row(2) ids(1)] unfolding f1(2) by blast
  obtain r2 where r2: "filter (pg_query p k) (pg_feature_flags (pg_write_envs L f2 p envs db1)) = [r2]" "pf_environments r2 = envs"
    using pg_write_envs_query [OF r1(1)] r1(2) ids(2) by metis
  have "mget (ff_Environments (pg_row_flag L r2)) env = mget (ff_Environments (pg_row_flag L r)) env"
    using second(3,4) row(4) by (simp add: pg_row_flag_def r2(2)) (simp add: second(1) pg_changed_def pg_row_flag_def map_simps)
  with run pg_GetFlagByProject_one [OF row(1) r2(1) row(3)] show ?thesis by blast
qed

definition demo_switched :: PgDb where
  "demo_switched = demo_pg_db\<lparr>pg_feature_flags := [\<lparr>pf_id = ''f1'', pf_project_id = ''acme'', pf_key = ''pay'', pf_config_version = 1, pf_name = [],
     pf_description = [], pf_type = ''boolean'', pf_tags = [], pf_environments = ''10'', pf_created_at = 0, pf_updated_at = 0\<rparr>]\<rparr>"

abbreviation (input) "demo_clock \<equiv> (\<lambda>_::nat. unix_epoch + 1000)"

abbreviation (input) "demo_pg_kill \<equiv> pg_ToggleFlagByProject demo_runtime demo_pg no_fault demo_clock demo_switched ''acme'' ''pay'' ''production'' (Some False) ''ann''"

lemma demo_pg_kill_run: "\<exists>g lg db1. demo_pg_kill = (Inr (g, lg), db1)"
  by (simp add: pg_ToggleFlagByProject_def pg_update_env_def pg_GetFlagByProject_def demo_switched_def demo_pg_db_def pg_query_def demo_pg_def or_project_def
      pg_insertAuditLog_def pg_insert_def pg_audited_def pg_write_envs_def Let_def)

theorem postgres_lost_kill_switch_witness:
  "\<exists>db2 e f. (pg_step demo_runtime demo_pg)\<^sup>*\<^sup>* (demo_switched, [Toggle demo_clock ''acme'' ''pay'' ''production'' (Some False) ''ann'',
       Toggle demo_clock ''acme'' ''pay'' ''staging'' (Some True) ''bob'']) (db2, [Done, Audit e]) \<and>
     pg_GetFlagByProject demo_pg no_fault db2 ''acme'' ''pay'' = Inr f \<and>
     mget (ff_Environments f) ''production'' = Some (demo_unbit (CHR ''1''))"
proof -
  obtain g lg db1 where run: "demo_pg_kill = (Inr (g, lg), db1)" using demo_pg_kill_run by blast
  obtain r where r: "pg_feature_flags demo_switched = [r]" "pf_environments r = ''10''" "pf_project_id r = ''acme''" "pf_key r = ''pay''"
    by (simp add: demo_switched_def)
  have old: "ff_Environments (pg_row_flag demo_pg r) = [(''production'', demo_unbit (CHR ''1'')), (''staging'', demo_unbit (CHR ''0''))]"
    by (simp add: pg_row_flag_def r(2) demo_pg_def)
  define f2 where "f2 = pg_changed ''staging'' (pg_toggle (Some True)) (demo_clock 0) (pg_row_flag demo_pg r)"
  have envs: "ff_Environments f2 = [(''production'', demo_unbit (CHR ''1'')), (''staging'', demo_unbit (CHR ''1''))]"
    by (simp add: f2_def pg_changed_def old pg_toggle_def EnvConfig_def mput_def mget_def demo_unbit_def)
  have codec: "pg_envs demo_pg (ff_Environments f2) = Inr ''11''" "\<forall>x. mget (pg_unenvs demo_pg ''11'') x = mget (ff_Environments f2) x"
    by (simp_all add: envs demo_pg_def demo_bit_def mget_def demo_unbit_def)
  have "\<forall>rows. mset (pg_scan demo_pg rows) = mset rows" by (simp add: demo_pg_def)
  moreover have "filter (pg_query ''acme'' ''pay'') (pg_feature_flags demo_switched) = [r]" by (simp add: r pg_query_def)
  ultimately show ?thesis
    using postgres_lost_kill_switch [OF run f2_def codec(1) _ codec(2), where actor' = "''bob''"] by (simp add: old mget_def)
qed

section \<open>Rollouts and the reset\<close>

text \<open>A rollout of this store is the rollout of the in-memory store: one environment changes as there.\<close>

lemma pg_UpdateRollout_environment:
  assumes "pg_UpdateRolloutByProject rt L no_fault ck db p k env pct actor = (Inr (g, lg), db')" and "pg_GetFlagByProject L no_fault db p k = Inr f0"
  shows "ff_Environments g = mput env (pg_roll pct (EnvConfig f0 env)) (ff_Environments f0)" and "ff_ConfigVersion g = ff_ConfigVersion f0 + 1"
proof -
  have get: "pg_GetFlagByProject L no_fault db (or_project p) k = Inr f0"
    using assms(2) by (simp add: pg_GetFlagByProject_def)
  have "g = (pg_changed env (pg_roll pct) (ck 0) f0)\<lparr>ff_ConfigVersion := ff_ConfigVersion f0 + 1\<rparr>"
    using assms(1) by (auto simp: pg_UpdateRolloutByProject_def pg_update_env_def get pg_audited_def pg_changed_def Let_def
        split: prod.splits option.splits sum.splits)
  then show "ff_Environments g = mput env (pg_roll pct (EnvConfig f0 env)) (ff_Environments f0)" "ff_ConfigVersion g = ff_ConfigVersion f0 + 1"
    by (simp_all add: pg_changed_def)
qed

text \<open>After a reset there is no flag, although the route that calls it reports the default flags.\<close>

lemma pg_reset_empty:
  assumes "fault 0 = None" and "\<forall>rows. mset (pg_scan L rows) = mset rows"
  shows "pg_ListFlagsByProject L no_fault (snd (pg_Reset fault db)) p = Inr []"
proof -
  have "pg_scan L [] = []" using assms(2) by (metis mset_zero_iff)
  then show ?thesis using assms(1) by (simp add: pg_Reset_def pg_ListFlagsByProject_def Let_def)
qed

text \<open>A flag that is saved again keeps its ID and the time of its creation, and its version counts the saves.\<close>

lemma pg_upsert_version:
  assumes "pg_upsert L n rows = Inr rows'" and "r \<in> set rows" and "pf_project_id r = pf_project_id n" and "pf_key r = pf_key n"
  shows "\<exists>r' \<in> set rows'. pf_id r' = pf_id r \<and> pf_created_at r' = pf_created_at r \<and> pf_config_version r' = pf_config_version r + 1 \<and>
    pf_environments r' = pf_environments n"
proof -
  let ?f = "\<lambda>r. r\<lparr>pf_config_version := pf_config_version r + 1, pf_name := pf_name n, pf_description := pf_description n,
    pf_type := pf_type n, pf_tags := pf_tags n, pf_environments := pf_environments n, pf_updated_at := pf_updated_at n\<rparr>"
  have "list_ex (\<lambda>r. pf_project_id r = pf_project_id n \<and> pf_key r = pf_key n) rows"
    using assms(2-4) by (auto simp: list_ex_iff)
  then have "rows' = map (\<lambda>r. if pf_project_id r = pf_project_id n \<and> pf_key r = pf_key n then ?f r else r) rows"
    using assms(1) by (simp add: pg_upsert_def Let_def)
  then have "?f r \<in> set rows'" using assms(2-4) by force
  then show ?thesis by (intro bexI [of _ "?f r"]) simp_all
qed

end
