(* ===== verification/Spec2Isabelle.thy ===== *)
theory Spec2Isabelle
  imports Engine_Trace Sdk_Evaluator Serving Store_Machine Canary Circuit_Breaker Api_Isolation Api_Changes Api_Accounts
    Api_Keys Api_Workspaces Api_Audit Backup Rate_Limit Api_Telemetry Canary_Progress Api_Canary Api_Pages
    Client_Stream Sdk_Client Api_OAuth OpenFeature Sqlite_Schedules Postgres_Store
begin

text \<open>
  Flagura is a feature-flag platform written in Go. A server keeps flags, users, organizations,
  change requests and canary schedules in a store; an engine evaluates a flag for a context; a
  scheduler moves canary rollouts forward; clients evaluate remotely or, with the Go SDK, locally.
  This library models the parts that decide what a user is served and proves them correct.

  \<^bold>\<open>Parts and theories.\<close>

  \<^item> \<open>Prelude\<close>: Go maps as association lists (locale \<open>key_value\<close>, interpreted by \<open>mget\<close>, \<open>mput\<close>,
    \<open>mdel\<close>), strings, numbers as text, time in nanoseconds since year one. The record \<open>runtime\<close> holds
    what the code takes from libraries that are not written out: Unicode case tables, regular
    expressions, quoting and SHA-256. Text of ASCII characters is computed without it.
  \<^item> \<open>Float64\<close>, \<open>Strconv\<close>, \<open>Bucketing\<close>: binary64 arithmetic with rounding to nearest even, parsing
    and printing, and the bucket arithmetic both evaluators share (locale \<open>sticky_bucketing\<close>).
  \<^item> \<open>Domain_Errors\<close>, \<open>Domain_Flag\<close>, \<open>Domain_Entities\<close>: \<open>src/pkg/domain\<close>. Structs are records with
    a two-letter prefix per type, Go errors are values of \<open>gerror\<close>, a failing call returns a sum.
  \<^item> \<open>Engine\<close>, \<open>Engine_Trace\<close>: \<open>src/pkg/engine/evaluator.go\<close>. Rules, variants, \<open>EvaluateFlag\<close>, the
    diagnostics and the benchmark. The regular-expression cache is passed through every call.
  \<^item> \<open>Store_State\<close>, \<open>Store_Audit\<close>, \<open>Store_Flags\<close>, \<open>Store_Accounts\<close>, \<open>Store_Tenancy\<close>, \<open>Store_Changes\<close>:
    \<open>src/pkg/store/memory.go\<close>. \<open>MemoryStore\<close> is the record of the store's maps; every method is a
    function from the store to a result and the next store. The store's locks make a method atomic,
    so an interleaving of requests is a sequence of these steps. Clock readings are the argument
    \<open>clk\<close> (the \<open>i\<close>-th reading of the call), random bytes the argument \<open>rnd\<close>, the order of a range
    over a map the argument \<open>ord\<close>, any permutation of the entries.
  \<^item> \<open>Store_Machine\<close>: the store as a transition system. \<open>store_reach rt s t\<close> holds for the stores that
    any sequence of operations produces, with clocks that do not run backwards.
  \<^item> \<open>Serving\<close>: the locale \<open>env_update\<close>, what an update of one environment promises to the next
    lookup, interpreted by the toggle and the rollout update.
  \<^item> \<open>Canary\<close>: \<open>src/pkg/canary/scheduler.go\<close> over the store. A panic of the Go code (an index out of
    range) is \<open>None\<close>; broadcasts are part of the result.
  \<^item> \<open>Circuit_Breaker\<close>: \<open>src/pkg/client/circuit_breaker.go\<close> and \<open>src/sdks/go/circuit_breaker.go\<close>, two
    interpretations of one contract (locale \<open>circuit_breaker\<close>).
  \<^item> \<open>Remote_Calls\<close>, \<open>Flag_Client\<close>, \<open>Sse\<close>, \<open>Client_Stream\<close>: the client of \<open>src/pkg/client\<close>. The reply of the
    network is an argument of every call; the loop over the event stream is a state machine. The
    locale \<open>outage_guard\<close> is the contract of a client behind a breaker, \<open>sse_reader\<close> the one of a reader of
    the server's event frames.
  \<^item> \<open>Sdk_Evaluator\<close>: \<open>src/sdks/go/models.go\<close> and \<open>src/sdks/go/evaluator.go\<close>, and what JSON decoding
    leaves of a server flag in the SDK's types.
  \<^item> \<open>Sdk_Client\<close>: \<open>client.go\<close>, \<open>stream.go\<close> and \<open>telemetry.go\<close> of \<open>src/sdks/go\<close> over the evaluator, an
    interpretation of \<open>outage_guard\<close> and \<open>sse_reader\<close>.
  \<^item> \<open>OpenFeature\<close>: \<open>src/pkg/openfeature\<close> and \<open>src/sdks/go/openfeature\<close>, the providers over the two
    clients. The locale \<open>typed_evaluation\<close> is what an evaluation of any type owes its caller; the ten
    evaluations are interpretations of it.
  \<^item> \<open>Sqlite_Store\<close>, \<open>Sqlite_Changes\<close>, \<open>Sqlite_Accounts\<close>, \<open>Sqlite_Tenancy\<close>, \<open>Sqlite_Schedules\<close>:
    \<open>src/pkg/store/sqlite.go\<close>. A table is the list of its rows, a statement the operation on rows it
    describes, with uniqueness constraints and foreign keys; \<open>fault i\<close> is the failure of the \<open>i\<close>-th
    statement of a call. The database is a record that each theory extends by its tables, and the
    operations hold for every extension. The codecs of the JSON columns and the order of a query without
    one are the record \<open>sql_lib\<close>, extended likewise. A call that waits for a mutex its caller holds is
    \<open>None\<close>.
  \<^item> \<open>Postgres_Store\<close>: the flags and the audit log of \<open>src/pkg/store/postgres.go\<close>. This store has no mutex,
    so beside the operations there is a step relation, \<open>pg_step\<close>, in which the statements of any number of
    calls interleave. Times are kept to the microsecond (\<open>pg_time\<close>).
  \<^item> \<open>Http\<close>: requests, responses, headers, cookies and the JSON bodies (\<open>json\<close>), the error writer,
    the middleware and the method router of \<open>src/pkg/api\<close>. A handler is a function from a request and
    a store to an \<open>outcome\<close>: the response, the next store and the list of effects (broadcasts,
    mails, scheduler calls) in the order the code makes them. What a handler takes from its
    surroundings (environment variables, address parsing, the iteration order of each map) is the
    record \<open>world\<close>; its clock readings are numbered by \<open>clocks\<close>.
  \<^item> \<open>Stream\<close>: the hub of \<open>src/pkg/api/stream.go\<close> as a state machine over its channels.
  \<^item> \<open>Api_Auth\<close>: \<open>src/pkg/api/session.go\<close> and the guards of \<open>middleware.go\<close>: who a request comes
    from and which project it may use.
  \<^item> \<open>Api_Flags\<close>, \<open>Api_Isolation\<close>: the flag and evaluation routes. The locale \<open>confined\<close> states what a
    handler owes to the other tenants, and every flag route is shown to meet it.
  \<^item> \<open>Api_Changes\<close>, \<open>Api_Accounts\<close>, \<open>Api_Keys\<close>, \<open>Api_Workspaces\<close>, \<open>Api_Audit\<close>: the routes of change
    requests, accounts and passwords, API keys, organizations with their projects and invitations,
    and the audit log with the alert webhook.
  \<^item> \<open>Api_SignOn\<close>, \<open>Api_OAuth\<close>: \<open>handlers_oidc.go\<close> and \<open>handlers_oauth.go\<close>. The identity provider is a function
    from the requests made to it to its replies; base64, JSON and URLs are the record \<open>sso_lib\<close>.
  \<^item> \<open>Canary_Progress\<close>, \<open>Api_Canary\<close>: the ticks of the scheduler over time, and the canary routes.
  \<^item> \<open>Stats\<close>, \<open>Telemetry\<close>, \<open>Api_Telemetry\<close>: \<open>src/pkg/stats/stats.go\<close> over the arithmetic of
    \<open>Float64\<close> (erf, sqrt and the formatting of floats are the parameter \<open>math_lib\<close>), the aggregator of
    \<open>handlers_telemetry.go\<close>, and the routes of telemetry and experiments.
  \<^item> \<open>Rate_Limit\<close>: \<open>src/pkg/api/ratelimit.go\<close>. The token bucket of the rate package is the parameter
    \<open>rate_lib\<close>; what is relied on is \<open>token_bucket\<close>, met by a bucket in exact arithmetic.
  \<^item> \<open>Api_Pages\<close>: the health probes and the pages of \<open>handlers_ui.go\<close>, up to the templates.
  \<^item> \<open>Backup\<close>: \<open>src/pkg/store/backup.go\<close> and its routes.
  \<^item> \<open>Config\<close>, \<open>Mailer\<close>: \<open>src/pkg/config\<close> and \<open>src/pkg/mailer\<close>. The environment is a function from
    names to values; templates and the transport are parameters.

  \<^bold>\<open>What is shown.\<close>

  \<^item> Evaluation: the bucket is exact in spite of rounding, a percentage takes exactly its share of the
    ten thousand slots, raising it takes the flag from nobody, integer weights split the slots
    exactly, the first matching rule decides, the cache never changes a result, the diagnostics agree
    with the evaluation and the benchmark never panics.
  \<^item> Store: the flag index answers as a scan of the list; toggle, rollout, delete, save and apply change
    the addressed flags only; user and organization indexes stay consistent; tokens are used once and
    revoked keys are refused.
  \<^item> Reachable states: every audit chain verifies, and every approved change request was reviewed by
    somebody other than its author. Tampering with an entry or removing an inner one is detected,
    given a digest without collisions on the payloads.
  \<^item> Canary: no panic, no early stage, no advance before the store accepted it, rollbacks take effect,
    a rollout that is evaluated often enough completes, and the routes reach the caller's own schedules
    only.
  \<^item> Experiments: the winner of a report has the samples, the significance and the largest lift; events
    are stored for the project of the request; unique users are exact up to the bound of the tracker.
  \<^item> Rate limits: an identity that keeps its tier is let through no more often than its bucket permits.
  \<^item> Breakers: they trip at the threshold, refuse until the cooldown is over, then probe.
  \<^item> Client: after a synchronisation it serves what the server serves, an outage costs no more calls than
    the breaker permits, the snapshot file carries the cache over a restart, the event stream is read
    as it was written, the loop streams or polls, and its backoff keeps its bounds.
  \<^item> SDK: after a synchronisation the client decides boolean and percentage flags without rules as the
    server does; an outage is contained; the exact behaviour where the SDK differs.
  \<^item> OpenFeature: a boolean evaluation gives what the engine of the server decides on the stored flag, or
    the default of the caller; errors leave the default for every type.
  \<^item> SQLite: a toggle serves what the toggle of the in-memory store serves; the audit chain stays valid as
    long as the texts of its times grow; four eyes hold whatever statements fail; a change request, a
    reset token and an invitation take effect once; a revoked key is refused for good; events are stored
    all or not at all; the reset never returns. The lemmas show where the two stores differ and what
    an error that is dropped costs.
  \<^item> PostgreSQL: the log verifies exactly when rounding kept the time of every entry; however calls
    interleave, no entry is lost and the log is a tree, but calls that overlap can fork the chain and
    undo a kill switch.
  \<^item> Sign-on: a callback signs in the account of the address the provider names, for a fresh state of
    this browser only; GitHub addresses are verified ones.
  \<^item> API: which requests are accepted and for which project, that a tenant's flags and audit entries are
    closed to callers without access, that change requests move only as the governance allows, that a
    session is opened for the holder of the password and ended by a change of it, that the answer to
    a forgotten password reveals nothing, that invitations and environments of keys are guarded;
    where a guard can be passed by, the theorem shows the request that does.
  \<^item> Stream: a client receives the messages of its project and environment only.
  \<^item> Backup: a snapshot restored into an empty store gives back flags and audit logs.
  \<^item> Mail: no value of an address or a subject adds a header.
  \<^item> This theory: the kill switch, a raised rollout and a canary rollback from the store operation to
    the evaluation a user gets.

  Recursion is structural or has a termination proof; nothing runs on fuel. Counters that Go keeps in
  64 bits are words where they can wrap (\<open>ff_ConfigVersion\<close>) and integers where they cannot reach the
  bound.

  \<^bold>\<open>What is not modelled.\<close> The tables of accounts, workspaces, change requests, schedules and experiments of
  the PostgreSQL store: the in-memory and the SQLite store model the interface they share. Opening the
  databases and creating their tables, the metrics, the command line and the processes are input and
  output. Data races are out of scope: a Go program that holds the documented locks has none on this
  state.
\<close>

section \<open>From the store to an evaluation\<close>

lemma env_config_set_env:
  "or_else (cx_Environment ctx) ''production'' = env \<Longrightarrow> env_config (normalize_flag (set_env env c t f)) ctx = c"
  by (simp add: env_config_def)

lemma env_config_other:
  "or_else (cx_Environment ctx) ''production'' \<noteq> env \<Longrightarrow>
   env_config (normalize_flag (set_env env c t f)) ctx = env_config f ctx"
  by (simp add: env_config_def)

text \<open>The configuration that an enabled evaluation read is the stored one.\<close>

lemma env_config_EnvConfig:
  assumes "ec_Enabled (env_config f ctx)"
  shows "env_config f ctx = EnvConfig f (or_else (cx_Environment ctx) ''production'')"
  using assms by (auto simp: env_config_def EnvConfig_def split: option.splits)



text \<open>
  C7: a rollout can be raised without taking the flag away from anybody: after a successful rollout
  update of a percentage flag to at least its old percentage, every context for which evaluating the
  stored flag was enabled still gets it enabled, in this and in every other environment.
\<close>

theorem rollout_raise_end_to_end:
  assumes "UpdateRolloutByProject rt clk s p k env pct actor = (Inr x, s')" and "snap_ok s"
    and "ids_ok (fs_list (ms_flagsSnapshot s))" and "CHR '':'' \<notin> set p" and "p \<noteq> []" and "k \<noteq> []" and "env \<noteq> []"
    and "\<forall>f. GetFlagByProject s p k = Inr f \<longrightarrow> ec_Strategy (EnvConfig f env) = ''percentage''
      \<and> fle (ec_Percentage (EnvConfig f env)) (clamp_pct pct)"
  shows "\<exists>f f'. GetFlagByProject s p k = Inr f \<and> GetFlagByProject s' p k = Inr f' \<and>
    ec_Percentage (EnvConfig f' env) = clamp_pct pct \<and>
    (\<forall>rt' cache ns ns' ctx. cache_ok rt' cache \<longrightarrow> er_Enabled (fst (EvaluateFlag rt' cache ns f ctx)) \<longrightarrow>
       er_Enabled (fst (EvaluateFlag rt' cache ns' f' ctx)))"
proof -
  from rollout.lookup_after [OF assms(1,2,5,7,3,4,6)] obtain f t where
    f: "GetFlagByProject s p k = Inr f" and
    u: "GetFlagByProject s' p k = Inr (normalize_flag (set_env env ((EnvConfig f env)\<lparr>ec_Percentage := clamp_pct pct,
      ec_Strategy := (if ec_Strategy (EnvConfig f env) = ''boolean'' \<and> flt (clamp_pct pct) (Fin 100) then ''percentage''
        else ec_Strategy (EnvConfig f env))\<rparr>) t f))" by blast
  have same: "c\<lparr>ec_Percentage := q, ec_Strategy := ''percentage''\<rparr> = c\<lparr>ec_Percentage := q\<rparr>"
    if "ec_Strategy c = ''percentage''" for c :: EnvironmentConfig and q using that by (cases c) simp
  have f': "GetFlagByProject s' p k = Inr (normalize_flag (set_env env ((EnvConfig f env)\<lparr>ec_Percentage := clamp_pct pct\<rparr>) t f))"
    using u assms(8) f same [of "EnvConfig f env" "clamp_pct pct"] by simp
  let ?c = "EnvConfig f env" and ?f' = "normalize_flag (set_env env ((EnvConfig f env)\<lparr>ec_Percentage := clamp_pct pct\<rparr>) t f)"
  have le: "fle (ec_Percentage ?c) (clamp_pct pct)" using assms(8) f by blast
  have "er_Enabled (fst (EvaluateFlag rt' cache ns' ?f' ctx))"
    if c: "cache_ok rt' cache" and on: "er_Enabled (fst (EvaluateFlag rt' cache ns f ctx))" for rt' cache ns ns' ctx
  proof (cases "or_else (cx_Environment ctx) ''production'' = env")
    case True
    have "env_config f ctx = ?c" using on env_config_EnvConfig [of f ctx] True
      by (auto simp: EvaluateFlag_enabled [OF c] Let_def)
    with on True engine_bucket.rollout_mono [OF _ le] show ?thesis
      by (auto simp: EvaluateFlag_enabled [OF c] Let_def env_config_set_env split: option.splits)
  next
    case False
    with on show ?thesis by (auto simp: EvaluateFlag_enabled [OF c] Let_def env_config_other split: option.splits)
  qed
  moreover have "ec_Percentage (EnvConfig ?f' env) = clamp_pct pct" by (simp add: EnvConfig_def)
  ultimately show ?thesis using f f' by blast
qed

definition demo_serving :: MemoryStore where
  "demo_serving = publish [demo_flag] NewMemoryStore"

lemma demo_serving_list: "fs_list (ms_flagsSnapshot demo_serving) = [demo_flag]"
  by (simp add: demo_serving_def normalize_flag_id demo_flag_def)

lemma demo_serving_ok: "snap_ok demo_serving" "ids_ok (fs_list (ms_flagsSnapshot demo_serving))"
  "GetFlagByProject demo_serving ''proj_default'' ''beta'' = Inr demo_flag"
proof -
  show ok: "snap_ok demo_serving" "ids_ok (fs_list (ms_flagsSnapshot demo_serving))"
    unfolding demo_serving_list by (simp_all add: demo_serving_def ids_ok_def demo_flag_def)
  show "GetFlagByProject demo_serving ''proj_default'' ''beta'' = Inr demo_flag"
    using GetFlagByProject_scan [OF ok] by (simp add: demo_serving_list flag_matches_def demo_flag_def)
qed

lemma demo_serving_update:
  "\<exists>x s'. UpdateRolloutByProject demo_runtime (\<lambda>_. 7) demo_serving ''proj_default'' ''beta'' ''production'' q a = (Inr x, s')"
proof -
  have "\<exists>x. fst (UpdateRolloutByProject demo_runtime (\<lambda>_. 7) demo_serving ''proj_default'' ''beta'' ''production'' q a) = Inr x"
    by (simp add: UpdateRolloutByProject_def finish_update_def demo_serving_list flag_matches_def demo_flag_def Let_def
        split: prod.splits)
  then show ?thesis by (metis prod.collapse)
qed

theorem rollout_raise_end_to_end_witness:
  "\<exists>x s' f'. UpdateRolloutByProject demo_runtime (\<lambda>_. 7) demo_serving ''proj_default'' ''beta'' ''production'' (Fin 60) ''ann'' = (Inr x, s')
     \<and> GetFlagByProject s' ''proj_default'' ''beta'' = Inr f'
     \<and> er_Enabled (fst (EvaluateFlag demo_runtime [] 4 f' (demo_ctx ''carol'' ''FR'')))"
proof -
  obtain x s' where u: "UpdateRolloutByProject demo_runtime (\<lambda>_. 7) demo_serving ''proj_default'' ''beta'' ''production'' (Fin 60) ''ann'' = (Inr x, s')"
    using demo_serving_update by blast
  have "\<forall>f. GetFlagByProject demo_serving ''proj_default'' ''beta'' = Inr f \<longrightarrow>
      ec_Strategy (EnvConfig f ''production'') = ''percentage'' \<and> fle (ec_Percentage (EnvConfig f ''production'')) (clamp_pct (Fin 60))"
    by (simp add: demo_serving_ok(3) demo_flag_def EnvConfig_def mget_def demo_config_def clamp_pct_def)
  from rollout_raise_end_to_end [OF u demo_serving_ok(1,2) _ _ _ _ this] demo_carol [of 4] u
  show ?thesis by (auto simp: demo_serving_ok(3))
qed

definition demo_rollout :: CanaryScheduler where
  "demo_rollout = \<lparr>cn_schedules = [(''proj_default:beta'',
     demo_schedule\<lparr>sc_ProjectID := ''proj_default'', sc_FlagKey := ''beta'', sc_Environment := ''production''\<rparr>)]\<rparr>"

text \<open>
  A health rollback of a canary takes the flag away from its users: after
  \<open>TriggerHealthRollback\<close> succeeds, looking up the flag of the schedule in the store and evaluating
  it is disabled for every context of the schedule's environment that no targeting rule decides, if
  the flag was rolled out by percentage or was a plain boolean before.
\<close>

theorem rollback_end_to_end:
  assumes "TriggerHealthRollback rt now clks cs s p k reason = (Inr (), cs', s', ev)"
    and "GetSchedule cs s p k = (Some c, cs1)" and "snap_ok s" and "ids_ok (fs_list (ms_flagsSnapshot s))"
    and "CHR '':'' \<notin> set (sc_ProjectID c)" and "sc_ProjectID c \<noteq> []" and "sc_FlagKey c \<noteq> []" and "sc_Environment c \<noteq> []"
  shows "\<exists>f f'. GetFlagByProject s (sc_ProjectID c) (sc_FlagKey c) = Inr f
    \<and> GetFlagByProject s' (sc_ProjectID c) (sc_FlagKey c) = Inr f' \<and>
    (\<forall>rt' cache ns ctx. cache_ok rt' cache \<longrightarrow> or_else (cx_Environment ctx) ''production'' = sc_Environment c \<longrightarrow>
       ec_Strategy (EnvConfig f (sc_Environment c)) \<in> {''boolean'', ''percentage''} \<longrightarrow>
       (\<forall>r \<in> set (ec_Rules (EnvConfig f (sc_Environment c))). \<not> rule_matches rt' r ctx) \<longrightarrow>
       \<not> er_Enabled (fst (EvaluateFlag rt' cache ns f' ctx)))"
proof -
  let ?p = "sc_ProjectID c" and ?k = "sc_FlagKey c" and ?e = "sc_Environment c"
  obtain u s1 where u: "UpdateRolloutByProject rt (clks 0) s ?p ?k ?e (Fin 0) ''canary-health-rollback'' = (u, s1)" by fastforce
  from assms(1,2) u obtain x where x: "u = Inr x" by (cases u) (auto simp: TriggerHealthRollback_def Let_def)
  have "ms_flagsSnapshot s' = ms_flagsSnapshot s1"
    using assms(1,2) u x by (auto simp: TriggerHealthRollback_def Let_def SaveCanarySchedule_def)
  then have get: "GetFlagByProject s' = GetFlagByProject s1" by (intro ext) (simp add: GetFlagByProject_def)
  have z: "clamp_pct (Fin 0) = Fin 0" by (simp add: clamp_pct_def)
  from rollout.lookup_after [OF u [unfolded x] assms(3,6,8,4,5,7)] obtain f t where
    f: "GetFlagByProject s ?p ?k = Inr f" and
    f': "GetFlagByProject s1 ?p ?k = Inr (normalize_flag (set_env ?e ((EnvConfig f ?e)\<lparr>ec_Percentage := Fin 0,
      ec_Strategy := (if ec_Strategy (EnvConfig f ?e) = ''boolean'' then ''percentage'' else ec_Strategy (EnvConfig f ?e))\<rparr>) t f))"
    by (auto simp: z)
  let ?c = "(EnvConfig f ?e)\<lparr>ec_Percentage := Fin 0,
      ec_Strategy := (if ec_Strategy (EnvConfig f ?e) = ''boolean'' then ''percentage'' else ec_Strategy (EnvConfig f ?e))\<rparr>"
  have "\<not> er_Enabled (fst (EvaluateFlag rt' cache ns (normalize_flag (set_env ?e ?c t f)) ctx))"
    if h: "cache_ok rt' cache" "or_else (cx_Environment ctx) ''production'' = ?e"
      "ec_Strategy (EnvConfig f ?e) \<in> {''boolean'', ''percentage''}"
      "\<forall>r \<in> set (ec_Rules (EnvConfig f ?e)). \<not> rule_matches rt' r ctx" for rt' cache ns ctx
  proof -
    have "find (\<lambda>r. rule_matches rt' r ctx) (ec_Rules ?c) = None" using h(4) by (auto simp: find_None_iff)
    moreover have "ec_Strategy ?c = ''percentage''" using h(3) by auto
    ultimately show ?thesis using engine_bucket.empty_rollout [of "Fin 0"]
      by (simp add: EvaluateFlag_enabled [OF h(1)] env_config_set_env [OF h(2)] Let_def)
  qed
  with f f' show ?thesis unfolding get by blast
qed

theorem rollback_end_to_end_witness:
  "\<exists>cs' s' ev f'. TriggerHealthRollback demo_runtime 7 (\<lambda>_ _. 7) demo_rollout demo_serving ''proj_default'' ''beta'' ''slow'' = (Inr (), cs', s', ev)
     \<and> GetFlagByProject s' ''proj_default'' ''beta'' = Inr f'
     \<and> \<not> er_Enabled (fst (EvaluateFlag demo_runtime [] 4 f' (demo_ctx ''carol'' ''FR'')))"
proof -
  let ?c = "demo_schedule\<lparr>sc_ProjectID := ''proj_default'', sc_FlagKey := ''beta'', sc_Environment := ''production''\<rparr>"
  let ?t = "TriggerHealthRollback demo_runtime 7 (\<lambda>_ _. 7) demo_rollout demo_serving ''proj_default'' ''beta'' ''slow''"
  have g: "GetSchedule demo_rollout demo_serving ''proj_default'' ''beta'' = (Some ?c, demo_rollout)"
    by (simp add: GetSchedule_def scheduleKey_def or_project_def demo_rollout_def mget_def)
  obtain x s1 where u: "UpdateRolloutByProject demo_runtime (\<lambda>_. 7) demo_serving ''proj_default'' ''beta'' ''production'' (Fin 0) ''canary-health-rollback'' = (Inr x, s1)"
    using demo_serving_update by blast
  have "fst ?t = Inr ()" using u by (simp add: TriggerHealthRollback_def g Let_def)
  then obtain cs' s' ev where t: "?t = (Inr (), cs', s', ev)" by (metis prod_cases4 fst_conv)
  have f: "find (\<lambda>r. rule_matches demo_runtime r (demo_ctx ''carol'' ''FR'')) (ec_Rules demo_config) = None" by code_simp
  have e: "EnvConfig demo_flag ''production'' = demo_config" by (simp add: EnvConfig_def demo_flag_def mget_def)
  have st: "ec_Strategy demo_config = ''percentage''" by (simp add: demo_config_def)
  have cx: "or_else (cx_Environment (demo_ctx ''carol'' ''FR'')) ''production'' = ''production''"
    by (simp add: or_else_def demo_ctx_def)
  from rollback_end_to_end [OF t g demo_serving_ok(1,2)] obtain f' where
      "GetFlagByProject s' ''proj_default'' ''beta'' = Inr f'"
      "\<not> er_Enabled (fst (EvaluateFlag demo_runtime [] 4 f' (demo_ctx ''carol'' ''FR'')))"
    using f e st cx by (auto simp: demo_serving_ok(3) find_None_iff)
  with t show ?thesis by blast
qed

end
